(* ===== verification/Prelude.thy ===== *)
theory Prelude
  imports Complex_Main
begin

text \<open>
  Shared vocabulary of the development: the exceptions the program raises, the result type of
  a fallible operation, a sequencing operator for it, the identifiers and instants that every
  component passes around, and the lemma collections the component theories fill.

  A Python exception is a value of \<open>pyerror\<close> carrying its message; a function that may raise
  returns \<open>pyerror + 'a\<close> with \<open>Inl\<close> for the raise.  UUIDs are natural numbers.  A
  \<open>datetime\<close> is either naive or aware; an aware one is the instant it denotes, in
  microseconds since the epoch, because every comparison and every subtraction of the program is
  between aware datetimes and is decided by that instant.
\<close>

named_theorems res_simps \<open>unfolding rules for results and guards\<close>
named_theorems inv_rules \<open>preservation of the component invariants\<close>

datatype pyerror =
    ValueError string
  | PermissionError string
  | RuntimeError string
  | LookupError string
  | KeyError string
  | TypeError string
  | DivisionByZero
  | InvalidOperation
  | IndexError
  | OverflowError

type_synonym 'a result = "pyerror + 'a"

type_synonym uuid = nat
type_synonym instant = int

datatype datetime = Naive int | Aware instant

definition is_aware :: "datetime \<Rightarrow> bool" where
  "is_aware d = (case d of Naive _ \<Rightarrow> False | Aware _ \<Rightarrow> True)"

definition instant_of :: "datetime \<Rightarrow> instant" where
  "instant_of d = (case d of Naive t \<Rightarrow> t | Aware t \<Rightarrow> t)"

definition seconds :: "int \<Rightarrow> instant" where
  "seconds n = n * 1000000"

lemma is_aware_simps [simp]: "is_aware (Aware t)" "\<not> is_aware (Naive t)"
  by (simp_all add: is_aware_def)

lemma instant_of_simps [simp]: "instant_of (Aware t) = t" "instant_of (Naive t) = t"
  by (simp_all add: instant_of_def)

section \<open>Sequencing of fallible operations\<close>

definition rbind :: "'a result \<Rightarrow> ('a \<Rightarrow> 'b result) \<Rightarrow> 'b result" where
  "rbind r f = (case r of Inl e \<Rightarrow> Inl e | Inr x \<Rightarrow> f x)"

lemma rbind_simps [simp]: "rbind (Inl e) f = Inl e" "rbind (Inr x) f = f x"
  by (simp_all add: rbind_def)

lemma rbind_eq_Inr: "rbind r f = Inr y \<longleftrightarrow> (\<exists>x. r = Inr x \<and> f x = Inr y)"
  by (cases r) auto

lemma rbind_eq_Inl: "rbind r f = Inl e \<longleftrightarrow> r = Inl e \<or> (\<exists>x. r = Inr x \<and> f x = Inl e)"
  by (cases r) auto

lemma rbind_cong [fundef_cong]:
  "r = r' \<Longrightarrow> (\<And>x. r' = Inr x \<Longrightarrow> f x = g x) \<Longrightarrow> rbind r f = rbind r' g"
  by (cases r') auto

lemma rbind_assoc: "rbind (rbind r f) g = rbind r (\<lambda>x. rbind (f x) g)"
  by (cases r) auto

text \<open>A loop over a list whose body may raise: the first raise ends it.\<close>

fun rfold :: "('s \<Rightarrow> 'a \<Rightarrow> 's result) \<Rightarrow> 's \<Rightarrow> 'a list \<Rightarrow> 's result" where
  "rfold f s [] = Inr s"
| "rfold f s (x # xs) = rbind (f s x) (\<lambda>s'. rfold f s' xs)"

fun rmap :: "('a \<Rightarrow> 'b result) \<Rightarrow> 'a list \<Rightarrow> 'b list result" where
  "rmap f [] = Inr []"
| "rmap f (x # xs) = rbind (f x) (\<lambda>y. rbind (rmap f xs) (\<lambda>ys. Inr (y # ys)))"

lemma rfold_append: "rfold f s (xs @ ys) = rbind (rfold f s xs) (\<lambda>s'. rfold f s' ys)"
  by (induction xs arbitrary: s) (simp_all add: rbind_assoc)

lemma rfold_invariant:
  assumes "rfold f s xs = Inr s'" and "P s"
    and "\<And>s x s'. x \<in> set xs \<Longrightarrow> P s \<Longrightarrow> f s x = Inr s' \<Longrightarrow> P s'"
  shows "P s'"
  using assms by (induction xs arbitrary: s) (auto simp: rbind_eq_Inr)

lemma rmap_length: "rmap f xs = Inr ys \<Longrightarrow> length ys = length xs"
  by (induction xs arbitrary: ys) (auto simp: rbind_eq_Inr)

lemma rmap_nth: "rmap f xs = Inr ys \<Longrightarrow> i < length xs \<Longrightarrow> f (xs ! i) = Inr (ys ! i)"
proof (induction xs arbitrary: ys i)
  case (Cons x xs)
  then show ?case by (cases i) (auto simp: rbind_eq_Inr)
qed simp

lemma rmap_map: "(\<And>x. x \<in> set xs \<Longrightarrow> f x = Inr (g x)) \<Longrightarrow> rmap f xs = Inr (map g xs)"
  by (induction xs) auto

section \<open>Blank strings\<close>

text \<open>
  \<open>not text.strip()\<close> of the source: the text holds whitespace only.  The ASCII whitespace of
  Python's \<open>str.strip\<close> is the characters 9 to 13, 28 to 31 and 32.
\<close>

definition is_space :: "char \<Rightarrow> bool" where
  "is_space c = (let n = (of_char c :: nat) in (9 \<le> n \<and> n \<le> 13) \<or> (28 \<le> n \<and> n \<le> 32))"

definition blank :: "string \<Rightarrow> bool" where
  "blank s = (\<forall>c \<in> set s. is_space c)"

lemma blank_Nil [simp]: "blank []"
  by (simp add: blank_def)

section \<open>Digests\<close>

text \<open>A lowercase hexadecimal SHA-256 value, as several modules check it.\<close>

definition hex_digit :: "char \<Rightarrow> bool" where
  "hex_digit c = (let n = (of_char c :: nat) in (48 \<le> n \<and> n \<le> 57) \<or> (97 \<le> n \<and> n \<le> 102))"

definition sha256_hex :: "string \<Rightarrow> bool" where
  "sha256_hex d \<longleftrightarrow> length d = 64 \<and> list_all hex_digit d"

section \<open>Lists\<close>

lemma last_map_Some: "xs \<noteq> [] \<Longrightarrow> last (map f xs) = f (last xs)"
  by (induction xs) auto

lemma distinct_map_filter_unique:
  assumes "distinct (map f xs)" and "x \<in> set xs" and "y \<in> set xs" and "f x = f y"
  shows "x = y"
  using assms by (auto simp: distinct_map inj_on_def)

lemma find_Some_in: "List.find P xs = Some x \<Longrightarrow> x \<in> set xs \<and> P x"
  by (auto simp: find_Some_iff)

lemma find_append: "List.find P (xs @ ys) = (case List.find P xs of None \<Rightarrow> List.find P ys | Some x \<Rightarrow> Some x)"
  by (induction xs) auto

lemma find_map_key:
  assumes "distinct (map f xs)" and "x \<in> set xs"
  shows "List.find (\<lambda>y. f y = f x) xs = Some x"
  using assms
proof (induction xs)
  case (Cons a xs)
  then show ?case by (auto simp: image_iff)
qed simp

text \<open>The first-occurrence order of \<open>tuple(dict.fromkeys(xs))\<close>.\<close>

fun dedup_keys :: "'a list \<Rightarrow> 'a list" where
  "dedup_keys [] = []"
| "dedup_keys (x # xs) = x # filter (\<lambda>y. y \<noteq> x) (dedup_keys xs)"

lemma set_dedup_keys [simp]: "set (dedup_keys xs) = set xs"
  by (induction xs) auto

lemma distinct_dedup_keys [simp]: "distinct (dedup_keys xs)"
  by (induction xs) auto

lemma dedup_keys_Nil_iff [simp]: "dedup_keys xs = [] \<longleftrightarrow> xs = []"
  by (cases xs) auto

text \<open>\<open>sep.join(xs)\<close>.\<close>

fun join :: "string \<Rightarrow> string list \<Rightarrow> string" where
  "join sep [] = []"
| "join sep [x] = x"
| "join sep (x # y # ys) = x @ sep @ join sep (y # ys)"

text \<open>\<open>sorted(set(xs))\<close> of texts: code points decide, a prefix comes first.\<close>

fun text_leq :: "string \<Rightarrow> string \<Rightarrow> bool" where
  "text_leq [] ys = True"
| "text_leq (x # xs) [] = False"
| "text_leq (x # xs) (y # ys) =
     (let a = (of_char x :: nat); b = of_char y in if a = b then text_leq xs ys else a < b)"

fun insert_text :: "string \<Rightarrow> string list \<Rightarrow> string list" where
  "insert_text x [] = [x]"
| "insert_text x (y # ys) = (if text_leq x y then x # y # ys else y # insert_text x ys)"

definition sorted_texts :: "string list \<Rightarrow> string list" where
  "sorted_texts xs = foldr insert_text (dedup_keys xs) []"

lemma set_insert_text [simp]: "set (insert_text x ys) = insert x (set ys)"
  by (induction ys) auto

lemma sorted_texts_Nil_iff [simp]: "sorted_texts xs = [] \<longleftrightarrow> xs = []"
proof -
  have "set (foldr insert_text ys []) = set ys" for ys by (induction ys) auto
  then have "set (sorted_texts xs) = set xs" by (simp add: sorted_texts_def)
  then show ?thesis by (metis set_empty)
qed

text \<open>A loop of an operation that may raise, over a state: a raise leaves the state as it was.\<close>

definition keep_on_raise :: "('s \<Rightarrow> 's result) \<Rightarrow> 's \<Rightarrow> 's" where
  "keep_on_raise f s = (case f s of Inl _ \<Rightarrow> s | Inr s' \<Rightarrow> s')"

lemma keep_on_raise_cases:
  obtains (raise) e where "f s = Inl e" "keep_on_raise f s = s"
  | (ret) s' where "f s = Inr s'" "keep_on_raise f s = s'"
  by (cases "f s") (auto simp: keep_on_raise_def)

section \<open>Dicts of lists\<close>

text \<open>\<open>d.setdefault(key, []).append(x)\<close>, and the same on a \<open>defaultdict(list)\<close>.\<close>

fun append_to :: "'k \<Rightarrow> 'v \<Rightarrow> ('k \<times> 'v list) list \<Rightarrow> ('k \<times> 'v list) list" where
  "append_to k x [] = [(k, [x])]"
| "append_to k x ((k', xs) # d) = (if k' = k then (k', xs @ [x]) # d else (k', xs) # append_to k x d)"

lemma append_to_lookup:
  "map_of (append_to k x d) k' = (if k' = k then Some ((case map_of d k of None \<Rightarrow> [] | Some xs \<Rightarrow> xs) @ [x]) else map_of d k')"
  by (induction k x d rule: append_to.induct) auto

lemma append_to_keys: "fst ` set (append_to k x d) = insert k (fst ` set d)"
  by (induction k x d rule: append_to.induct) auto

lemma append_to_distinct: "distinct (map fst d) \<Longrightarrow> distinct (map fst (append_to k x d))"
proof (induction k x d rule: append_to.induct)
  case (2 k x k' xs d)
  then show ?case by (cases "k' = k") (simp_all add: append_to_keys)
qed simp

section \<open>The first minimum\<close>

text \<open>\<open>min(xs, key=f)\<close> of a non-empty list: the first element with the least key.\<close>

definition first_min :: "('a \<Rightarrow> 'b::linorder) \<Rightarrow> 'a list \<Rightarrow> 'a" where
  "first_min f xs = foldl (\<lambda>best x. if f x < f best then x else best) (hd xs) (tl xs)"

lemma first_min_snoc: "xs \<noteq> [] \<Longrightarrow> first_min f (xs @ [x]) = (if f x < f (first_min f xs) then x else first_min f xs)"
  by (cases xs) (simp_all add: first_min_def)

lemma first_min_least:
  assumes "xs \<noteq> []"
  shows "first_min f xs \<in> set xs \<and> (\<forall>x \<in> set xs. f (first_min f xs) \<le> f x)"
  using assms
proof (induction xs rule: rev_nonempty_induct)
  case (single x)
  then show ?case by (simp add: first_min_def)
next
  case (snoc x xs)
  then show ?case by (fastforce simp: first_min_snoc)
qed

end
