(* ===== verification/Decimals.thy ===== *)
theory Decimals
  imports Prelude "HOL-Library.Log_Nat"
begin

text \<open>
  Python's \<open>decimal.Decimal\<close> under the default context the program runs with (precision 28,
  \<open>ROUND_HALF_EVEN\<close>).  A finite Decimal is the rational number it denotes; each
  arithmetic operation computes the exact result and rounds it to 28 significant digits
  (\<open>dround\<close>), including unary minus, \<open>abs\<close> and the additions of \<open>sum\<close>; comparisons,
  \<open>min\<close>, \<open>max\<close>, constructors and \<open>to_integral_value\<close> are exact.  Division by zero
  raises.  The values NaN and infinity, and the overflow and underflow of exponents beyond
  999999, are outside the model.

  The theory proves that \<open>dround\<close> is monotone, odd, idempotent, exact on numbers of at most
  28 digits and within half a unit of the 28th digit; the locale \<open>decimal_context\<close> keeps the
  laws the components use and derives the bounds that survive rounding.
\<close>

named_theorems dec_bounds \<open>order facts about rounded arithmetic\<close>
named_theorems dec_defs \<open>the Decimal operators\<close>

type_synonym decimal = rat

definition round_half_even :: "rat \<Rightarrow> int" where
  "round_half_even x =
     (let f = \<lfloor>x\<rfloor>; r = x - of_int f in
      if r < 1 / 2 then f else if 1 / 2 < r then f + 1 else if even f then f else f + 1)"

text \<open>The decimal exponent of the leading digit of a positive rational.\<close>

definition dec_exponent :: "rat \<Rightarrow> int" where
  "dec_exponent x =
     (let (n, d) = quotient_of x;
          k = int (floorlog 10 (nat n)) - int (floorlog 10 (nat d))
      in if 10 powi k \<le> x then k else k - 1)"

definition dround_pos :: "rat \<Rightarrow> rat" where
  "dround_pos x = (let q = 10 powi (dec_exponent x - 27) in of_int (round_half_even (x / q)) * q)"

definition dround :: "rat \<Rightarrow> decimal" where
  "dround x = (if x = 0 then 0 else if 0 < x then dround_pos x else - dround_pos (- x))"

section \<open>Rounding to an integer\<close>

lemma round_half_even_of_int [simp]: "round_half_even (of_int z) = z"
  by (simp add: round_half_even_def)

lemma round_half_even_ge: "\<lfloor>x\<rfloor> \<le> round_half_even x"
  by (simp add: round_half_even_def Let_def)

lemma round_half_even_le: "round_half_even x \<le> \<lfloor>x\<rfloor> + 1"
  by (simp add: round_half_even_def Let_def)

lemma round_half_even_error: "\<bar>of_int (round_half_even x) - x\<bar> \<le> 1 / 2"
proof -
  have "of_int \<lfloor>x\<rfloor> \<le> x" "x < of_int \<lfloor>x\<rfloor> + 1"
    by linarith+
  then show ?thesis
    unfolding round_half_even_def Let_def abs_le_iff by (simp split: if_split) linarith
qed

lemma round_half_even_mono: "x \<le> y \<Longrightarrow> round_half_even x \<le> round_half_even y"
proof (cases "\<lfloor>x\<rfloor> = \<lfloor>y\<rfloor>")
  case True
  moreover assume "x \<le> y"
  ultimately show ?thesis
    by (auto simp: round_half_even_def Let_def)
next
  case False
  moreover assume "x \<le> y"
  ultimately have "\<lfloor>x\<rfloor> + 1 \<le> \<lfloor>y\<rfloor>"
    using floor_mono [of x y] by linarith
  with round_half_even_le [of x] round_half_even_ge [of y] show ?thesis
    by linarith
qed

section \<open>The decimal exponent\<close>

lemma powi_pos [simp]: "0 < (10::rat) powi e"
  by (simp add: zero_less_power_int)

lemma powi_not_neg [simp]: "\<not> (10::rat) powi e < 0"
  using powi_pos [of e] by linarith

lemma powi_plus: "(10::rat) powi (a + b) = 10 powi a * 10 powi b"
  by (simp add: power_int_add)

lemma powi_Suc: "(10::rat) powi (e + 1) = 10 * 10 powi e"
  by (simp add: power_int_add)

lemma powi_less_iff: "(10::rat) powi a < 10 powi b \<longleftrightarrow> a < b"
  by (metis linorder_neqE_linordered_idom not_less_iff_gr_or_eq numeral_One
      one_less_numeral_iff power_int_strict_increasing semiring_norm(76))

lemma powi_le_mono: "a \<le> b \<Longrightarrow> (10::rat) powi a \<le> 10 powi b"
  by (rule power_int_increasing) auto

lemma dec_exponent_bounds:
  assumes "0 < x"
  shows "10 powi dec_exponent x \<le> x" and "x < 10 powi (dec_exponent x + 1)"
proof -
  obtain n d where q: "quotient_of x = (n, d)"
    by (cases "quotient_of x")
  define a where "a = floorlog 10 (nat n)"
  define b where "b = floorlog 10 (nat d)"
  have d: "0 < d" using q by (rule quotient_of_denom_pos)
  have x: "x = of_int n / of_int d" using q by (rule quotient_of_div)
  with assms d have n: "0 < n" by (simp add: zero_less_divide_iff)
  have a0: "0 < a" and b0: "0 < b"
    using n d by (simp_all add: a_def b_def floorlog_def)
  have na: "10 ^ (a - 1) \<le> nat n" "nat n < 10 ^ a"
    using floorlog_bounds [of "nat n" 10] n by (simp_all add: a_def)
  have db: "10 ^ (b - 1) \<le> nat d" "nat d < 10 ^ b"
    using floorlog_bounds [of "nat d" 10] d by (simp_all add: b_def)
  have nr: "(10::rat) ^ (a - 1) \<le> of_int n" "of_int n < (10::rat) ^ a"
    using na n by (simp_all add: le_nat_iff nat_less_iff flip: of_int_less_iff of_int_le_iff)
  have dr: "(10::rat) ^ (b - 1) \<le> of_int d" "of_int d < (10::rat) ^ b"
    using db d by (simp_all add: le_nat_iff nat_less_iff flip: of_int_less_iff of_int_le_iff)
  have lower: "(10::rat) powi (int a - int b - 1) \<le> x"
  proof -
    have "(10::rat) powi (int a - int b - 1) = 10 ^ (a - 1) / 10 ^ b"
      using a0 by (simp add: power_int_diff of_nat_diff flip: power_int_of_nat)
    also have "\<dots> \<le> of_int n / of_int d"
      using nr dr d n by (intro frac_le) auto
    finally show ?thesis by (simp add: x)
  qed
  have upper: "x < (10::rat) powi (int a - int b + 1)"
  proof -
    have "of_int n / of_int d < (10::rat) ^ a / 10 ^ (b - 1)"
      using nr dr d n by (intro frac_less) auto
    also have "\<dots> = 10 powi (int a - int b + 1)"
      using b0 by (simp add: power_int_diff power_int_add of_nat_diff flip: power_int_of_nat)
    finally show ?thesis by (simp add: x)
  qed
  show "10 powi dec_exponent x \<le> x"
    using lower by (auto simp: dec_exponent_def q Let_def a_def b_def)
  show "x < 10 powi (dec_exponent x + 1)"
    using upper by (auto simp: dec_exponent_def q Let_def a_def b_def)
qed

lemma dec_exponent_mono: "0 < x \<Longrightarrow> x \<le> y \<Longrightarrow> dec_exponent x \<le> dec_exponent y"
proof -
  assume a: "0 < x" "x \<le> y"
  then have "10 powi dec_exponent x < (10::rat) powi (dec_exponent y + 1)"
    using dec_exponent_bounds(1) [of x] dec_exponent_bounds(2) [of y] by linarith
  then show ?thesis by (simp add: powi_less_iff)
qed

section \<open>Rounding to 28 significant digits\<close>

lemma dround_pos_bounds:
  assumes "0 < x"
  shows "10 powi dec_exponent x \<le> dround_pos x" and "dround_pos x \<le> 10 powi (dec_exponent x + 1)"
proof -
  define e where "e = dec_exponent x"
  define q :: rat where "q = 10 powi (e - 27)"
  have q: "0 < q" by (simp add: q_def)
  have split: "(10::rat) powi e = of_int (10 ^ 27) * q" "(10::rat) powi (e + 1) = of_int (10 ^ 28) * q"
    by (simp_all add: q_def power_int_diff power_int_add)
  have r: "dround_pos x = of_int (round_half_even (x / q)) * q"
    by (simp add: dround_pos_def e_def q_def Let_def)
  have "of_int (10 ^ 27) \<le> x / q" "x / q \<le> of_int (10 ^ 28)"
    using dec_exponent_bounds [OF assms] q split by (simp_all add: e_def [symmetric] field_simps)
  then have "10 ^ 27 \<le> round_half_even (x / q)" "round_half_even (x / q) \<le> 10 ^ 28"
    by (metis round_half_even_mono round_half_even_of_int)+
  then have "of_int (10 ^ 27) * q \<le> of_int (round_half_even (x / q)) * q"
    "of_int (round_half_even (x / q)) * q \<le> of_int (10 ^ 28) * q"
    using q by (simp_all only: mult_le_cancel_right_pos of_int_le_iff)
  then show "10 powi dec_exponent x \<le> dround_pos x" "dround_pos x \<le> 10 powi (dec_exponent x + 1)"
    by (simp_all add: r split flip: e_def)
qed

lemma dround_pos_gt0: "0 < x \<Longrightarrow> 0 < dround_pos x"
  using dround_pos_bounds(1) [of x] powi_pos [of "dec_exponent x"] by linarith

lemma dround_pos_mono:
  assumes "0 < x" "x \<le> y"
  shows "dround_pos x \<le> dround_pos y"
proof (cases "dec_exponent x = dec_exponent y")
  case True
  define q :: rat where "q = 10 powi (dec_exponent y - 27)"
  have "0 < q" by (simp add: q_def)
  moreover from this assms(2) have "round_half_even (x / q) \<le> round_half_even (y / q)"
    by (intro round_half_even_mono divide_right_mono) auto
  ultimately show ?thesis
    by (simp add: dround_pos_def True Let_def flip: q_def)
next
  case False
  with dec_exponent_mono [OF assms] have "dec_exponent x + 1 \<le> dec_exponent y" by simp
  then have "(10::rat) powi (dec_exponent x + 1) \<le> 10 powi dec_exponent y"
    by (rule powi_le_mono)
  with dround_pos_bounds(2) [OF assms(1)] dround_pos_bounds(1) [of y] assms show ?thesis
    by linarith
qed

lemma dround_zero [simp]: "dround 0 = 0"
  by (simp add: dround_def)

lemma dround_minus: "dround (- x) = - dround x"
  by (simp add: dround_def)

lemma dround_pos_iff [simp]: "0 < dround x \<longleftrightarrow> 0 < x"
  using dround_pos_gt0 [of x] dround_pos_gt0 [of "- x"] by (auto simp: dround_def)

lemma dround_neg_iff [simp]: "dround x < 0 \<longleftrightarrow> x < 0"
  using dround_pos_iff [of "- x"] by (simp add: dround_minus del: dround_pos_iff)

lemma dround_eq_0_iff [simp]: "dround x = 0 \<longleftrightarrow> x = 0"
  by (metis dround_neg_iff dround_pos_iff dround_zero linorder_cases less_irrefl)

lemma dround_nonneg_iff [simp]: "0 \<le> dround x \<longleftrightarrow> 0 \<le> x"
  by (simp flip: not_less)

lemma dround_nonpos_iff [simp]: "dround x \<le> 0 \<longleftrightarrow> x \<le> 0"
  by (simp flip: not_less)

lemma dround_mono: "x \<le> y \<Longrightarrow> dround x \<le> dround y"
proof -
  assume le: "x \<le> y"
  consider "0 < x" | "x \<le> 0" "0 \<le> y" | "y < 0" using le by linarith
  then show ?thesis
  proof cases
    case 1
    with le show ?thesis by (simp add: dround_def dround_pos_mono)
  next
    case 2
    then have "dround x \<le> 0" "0 \<le> dround y" by simp_all
    then show ?thesis by linarith
  next
    case 3
    with le have "dround_pos (- y) \<le> dround_pos (- x)" by (intro dround_pos_mono) auto
    with 3 le show ?thesis by (simp add: dround_def)
  qed
qed

section \<open>Numbers that fit in 28 digits\<close>

text \<open>\<open>representable x\<close>: some integer of at most 28 digits times a power of ten.\<close>

definition representable :: "rat \<Rightarrow> bool" where
  "representable x \<longleftrightarrow> (\<exists>c e. \<bar>c\<bar> \<le> 10 ^ 28 \<and> x = of_int c * 10 powi e)"

lemma powi_split: "b \<le> a \<Longrightarrow> (10::rat) powi a = of_int (10 ^ nat (a - b)) * 10 powi b"
  by (simp flip: power_int_of_nat power_int_add)

lemma dround_pos_representable:
  assumes "0 < x" "representable x"
  shows "dround_pos x = x"
proof -
  obtain c e where c: "\<bar>c\<bar> \<le> 10 ^ 28" and x: "x = of_int c * 10 powi e"
    using assms(2) by (auto simp: representable_def)
  have c0: "0 < c" using assms(1) x by (simp add: zero_less_mult_iff)
  define q where "q = dec_exponent x - 27"
  have "\<exists>z. x = of_int z * 10 powi q"
  proof (cases "q \<le> e")
    case True
    then have "x = of_int (c * 10 ^ nat (e - q)) * 10 powi q"
      by (simp add: x powi_split [OF True])
    then show ?thesis by blast
  next
    case False
    have "(10::rat) powi (q + 27) \<le> x"
      using dec_exponent_bounds(1) [OF assms(1)] by (simp add: q_def)
    also have "x \<le> of_int (10 ^ 28) * 10 powi e"
    proof -
      have "of_int c \<le> (of_int (10 ^ 28) :: rat)"
        unfolding of_int_le_iff using c by linarith
      then show ?thesis unfolding x by (rule mult_right_mono) simp
    qed
    also have "\<dots> = 10 powi (e + 28)"
      by (simp add: power_int_add)
    finally have "q + 27 \<le> e + 28"
      by (metis not_less powi_less_iff)
    with False have qe: "q = e + 1" by simp
    have "(10::rat) powi (28 + e) \<le> of_int c * 10 powi e"
      using \<open>(10::rat) powi (q + 27) \<le> x\<close> by (simp add: qe x add.commute)
    then have "of_int (10 ^ 28) * (10::rat) powi e \<le> of_int c * 10 powi e"
      by (simp add: powi_plus)
    then have "10 ^ 28 \<le> c"
      by (simp only: mult_le_cancel_right_pos powi_pos of_int_le_iff)
    with c c0 have "c = 10 ^ 28" by simp
    then have "x = of_int (10 ^ 27) * 10 powi q"
      by (simp add: x qe powi_Suc)
    then show ?thesis by blast
  qed
  then obtain z where z: "x = of_int z * 10 powi q" ..
  have "x / 10 powi q = of_int z"
    using z powi_pos [of q] by simp
  moreover have "dround_pos x = of_int (round_half_even (x / 10 powi q)) * 10 powi q"
    by (simp add: dround_pos_def q_def Let_def)
  ultimately show ?thesis
    using z by simp
qed

lemma representable_minus: "representable (- x) \<longleftrightarrow> representable x"
proof -
  have "representable (- y)" if y: "representable y" for y
  proof -
    obtain c e where "\<bar>c\<bar> \<le> 10 ^ 28" "y = of_int c * 10 powi e"
      using y by (auto simp: representable_def)
    then show ?thesis
      unfolding representable_def by (intro exI [of _ "- c"] exI [of _ e]) simp
  qed
  from this [of x] this [of "- x"] show ?thesis by auto
qed

lemma dround_representable: "representable x \<Longrightarrow> dround x = x"
  using dround_pos_representable [of x] dround_pos_representable [of "- x"]
  by (auto simp: dround_def representable_minus)

lemma representable_dround_pos: "0 < x \<Longrightarrow> representable (dround_pos x)"
proof -
  assume x: "0 < x"
  define e where "e = dec_exponent x"
  define z where "z = round_half_even (x / 10 powi (e - 27))"
  have r: "dround_pos x = of_int z * 10 powi (e - 27)"
    by (simp add: dround_pos_def z_def e_def Let_def)
  have "of_int z * (10::rat) powi (e - 27) \<le> of_int (10 ^ 28) * 10 powi (e - 27)"
    using dround_pos_bounds(2) [OF x] by (simp add: r power_int_diff power_int_add flip: e_def)
  then have "z \<le> 10 ^ 28"
    by (simp only: mult_le_cancel_right_pos powi_pos of_int_le_iff)
  moreover have "0 < z"
    using dround_pos_gt0 [OF x] r by (simp add: zero_less_mult_iff)
  ultimately show ?thesis
    unfolding representable_def using r by (intro exI [of _ z] exI [of _ "e - 27"]) simp
qed

lemma representable_0 [simp]: "representable 0"
  unfolding representable_def by (intro exI [of _ 0] exI) simp

lemma representable_dround [simp]: "representable (dround x)"
  using representable_dround_pos [of x] representable_dround_pos [of "- x"]
  by (auto simp: dround_def representable_minus)

lemma dround_idem [simp]: "dround (dround x) = dround x"
  by (simp add: dround_representable)

text \<open>
  A decimal with at most 16 integral and 12 fractional digits is exact; the two side conditions
  are decided by the simplifier on concrete numbers.
\<close>

lemma representable_fixed:
  assumes "of_int \<lfloor>x * 1000000000000\<rfloor> = x * 1000000000000" and "\<bar>x\<bar> \<le> 10000000000000000"
  shows "representable x"
proof -
  define c where "c = \<lfloor>x * 1000000000000\<rfloor>"
  have c: "of_int c = x * 1000000000000" using assms(1) by (simp add: c_def)
  then have x: "x = of_int c * 10 powi (- 12)"
    by (simp add: power_int_minus field_simps)
  have "\<bar>of_int c\<bar> \<le> (10000000000000000 * 1000000000000 :: rat)"
    using assms(2) by (simp add: c abs_mult)
  then have "\<bar>c\<bar> \<le> 10 ^ 28"
    by (simp flip: of_int_abs)
  with x show ?thesis unfolding representable_def by blast
qed

lemma dround_fixed:
  "of_int \<lfloor>x * 1000000000000\<rfloor> = x * 1000000000000 \<Longrightarrow> \<bar>x\<bar> \<le> 10000000000000000 \<Longrightarrow> dround x = x"
  by (intro dround_representable representable_fixed)

lemma representable_of_int: "\<bar>z\<bar> \<le> 10 ^ 28 \<Longrightarrow> representable (of_int z)"
  unfolding representable_def by (intro exI [of _ z] exI [of _ 0]) simp

lemma representable_of_nat: "n \<le> 10 ^ 28 \<Longrightarrow> representable (of_nat n)"
  using representable_of_int [of "int n"] by simp

lemma representable_1 [simp]: "representable 1"
  using representable_of_int [of 1] by simp

lemma dround_one [simp]: "dround 1 = 1"
  by (simp add: dround_representable)

section \<open>The error of one rounding\<close>

lemma dround_pos_error: "0 < x \<Longrightarrow> \<bar>dround_pos x - x\<bar> \<le> x * (1 / 2) * 10 powi (- 27)"
proof -
  assume x: "0 < x"
  define q :: rat where "q = 10 powi (dec_exponent x - 27)"
  have q: "0 < q" by (simp add: q_def)
  have "\<bar>of_int (round_half_even (x / q)) - x / q\<bar> * q \<le> 1 / 2 * q"
    using round_half_even_error [of "x / q"] q by (intro mult_right_mono) auto
  also have "\<bar>of_int (round_half_even (x / q)) - x / q\<bar> * q
      = \<bar>(of_int (round_half_even (x / q)) - x / q) * q\<bar>"
    using q by (simp add: abs_mult)
  also have "(of_int (round_half_even (x / q)) - x / q) * q = dround_pos x - x"
    using q by (simp add: dround_pos_def Let_def left_diff_distrib flip: q_def)
  finally have "\<bar>dround_pos x - x\<bar> \<le> 1 / 2 * q" .
  moreover have "q = 10 powi dec_exponent x * 10 powi (- 27)"
    by (simp only: q_def diff_conv_add_uminus powi_plus)
  moreover have "10 powi dec_exponent x * 10 powi (- 27) \<le> x * 10 powi (- 27)"
    using dec_exponent_bounds(1) [OF x] by (intro mult_right_mono) auto
  ultimately show ?thesis by (simp add: algebra_simps)
qed

lemma dround_error: "\<bar>dround x - x\<bar> \<le> \<bar>x\<bar> * (1 / 2) * 10 powi (- 27)"
proof (cases "0 < x")
  case True
  then show ?thesis using dround_pos_error [of x] by (simp add: dround_def)
next
  case False
  show ?thesis
  proof (cases "x = 0")
    case False
    with \<open>\<not> 0 < x\<close> have "\<bar>dround_pos (- x) - (- x)\<bar> \<le> \<bar>x\<bar> * (1 / 2) * 10 powi (- 27)"
      using dround_pos_error [of "- x"] by simp
    moreover have "\<bar>dround x - x\<bar> = \<bar>dround_pos (- x) - (- x)\<bar>"
      using \<open>\<not> 0 < x\<close> False by (simp add: dround_def abs_minus_commute)
    ultimately show ?thesis by simp
  qed simp
qed

definition rel_eps :: rat where
  "rel_eps = 1 / 2 * 10 powi (- 27)"

lemma rel_eps_pos [simp]: "0 < rel_eps"
  by (simp add: rel_eps_def)

lemma dround_le_rel: "0 \<le> x \<Longrightarrow> dround x \<le> x * (1 + rel_eps)"
proof -
  assume "0 \<le> x"
  then have "\<bar>dround x - x\<bar> \<le> x * rel_eps"
    using dround_error [of x] by (simp add: rel_eps_def)
  then show ?thesis by (simp add: distrib_left abs_le_iff)
qed

section \<open>The operators\<close>

definition dadd :: "decimal \<Rightarrow> decimal \<Rightarrow> decimal" where
  [dec_defs]: "dadd a b = dround (a + b)"

definition dsub :: "decimal \<Rightarrow> decimal \<Rightarrow> decimal" where
  [dec_defs]: "dsub a b = dround (a - b)"

definition dmul :: "decimal \<Rightarrow> decimal \<Rightarrow> decimal" where
  [dec_defs]: "dmul a b = dround (a * b)"

text \<open>The quotient where the divisor is known to be non-zero, and the operator that raises.\<close>

definition dquot :: "decimal \<Rightarrow> decimal \<Rightarrow> decimal" where
  [dec_defs]: "dquot a b = dround (a / b)"

definition ddiv :: "decimal \<Rightarrow> decimal \<Rightarrow> decimal result" where
  "ddiv a b = (if b = 0 then (if a = 0 then Inl InvalidOperation else Inl DivisionByZero)
               else Inr (dquot a b))"

definition dneg :: "decimal \<Rightarrow> decimal" where
  [dec_defs]: "dneg a = dround (- a)"

definition dabs :: "decimal \<Rightarrow> decimal" where
  [dec_defs]: "dabs a = dround \<bar>a\<bar>"

lemma dabs_zero [simp]: "dabs 0 = 0"
  by (simp add: dabs_def)

text \<open>\<open>sum(xs, Decimal(0))\<close>.\<close>

definition dsum :: "decimal list \<Rightarrow> decimal" where
  "dsum xs = foldl dadd 0 xs"

text \<open>\<open>int(x)\<close>, and \<open>to_integral_value\<close> with \<open>ROUND_FLOOR\<close> and \<open>ROUND_HALF_UP\<close>.\<close>

definition dint :: "decimal \<Rightarrow> int" where
  "dint x = (if 0 \<le> x then \<lfloor>x\<rfloor> else \<lceil>x\<rceil>)"

definition dfloor :: "decimal \<Rightarrow> decimal" where
  "dfloor x = of_int \<lfloor>x\<rfloor>"

definition dhalf_up :: "decimal \<Rightarrow> decimal" where
  "dhalf_up x = (if 0 \<le> x then of_int \<lfloor>x + 1 / 2\<rfloor> else of_int \<lceil>x - 1 / 2\<rceil>)"

section \<open>The laws of a rounding context\<close>

text \<open>
  What the accounting code relies on when it rounds: the order is kept, numbers of the context
  are fixed, and every result is a number of the context.  The lemmas below follow from these
  laws alone.
\<close>

locale decimal_context =
  fixes rnd :: "rat \<Rightarrow> rat"
    and repr :: "rat \<Rightarrow> bool"
  assumes rnd_mono: "x \<le> y \<Longrightarrow> rnd x \<le> rnd y"
    and rnd_repr: "repr x \<Longrightarrow> rnd x = x"
    and repr_rnd: "repr (rnd x)"
    and repr_zero: "repr 0"
    and repr_one: "repr 1"
begin

lemma rnd_le: "x \<le> b \<Longrightarrow> repr b \<Longrightarrow> rnd x \<le> b"
  using rnd_mono [of x b] by (simp add: rnd_repr)

lemma rnd_ge: "b \<le> x \<Longrightarrow> repr b \<Longrightarrow> b \<le> rnd x"
  using rnd_mono [of b x] by (simp add: rnd_repr)

lemma rnd_nonneg: "0 \<le> x \<Longrightarrow> 0 \<le> rnd x"
  by (rule rnd_ge) (auto intro: repr_zero)

lemma rnd_nonpos: "x \<le> 0 \<Longrightarrow> rnd x \<le> 0"
  by (rule rnd_le) (auto intro: repr_zero)

lemma rnd_fraction:
  assumes "0 \<le> a" "a \<le> b" "0 < b"
  shows "0 \<le> rnd (a / b)" and "rnd (a / b) \<le> 1"
proof -
  show "0 \<le> rnd (a / b)"
    using assms by (intro rnd_nonneg) simp
  show "rnd (a / b) \<le> 1"
    using assms by (intro rnd_le repr_one) (simp add: divide_le_eq)
qed

lemma rnd_fraction_nonneg: "0 \<le> a \<Longrightarrow> 0 < b \<Longrightarrow> 0 \<le> rnd (a / b)"
  by (intro rnd_nonneg) simp

lemma drawdown_nonneg:
  assumes "e \<le> p" "0 < p"
  shows "0 \<le> rnd (rnd (p - e) / p)"
  using assms by (intro rnd_fraction_nonneg rnd_nonneg) auto

lemma drawdown_le_one:
  assumes "repr p" "0 \<le> e" "e \<le> p" "0 < p"
  shows "rnd (rnd (p - e) / p) \<le> 1"
proof (rule rnd_fraction(2))
  show "0 \<le> rnd (p - e)" using assms by (intro rnd_nonneg) simp
  show "rnd (p - e) \<le> p" using assms by (intro rnd_le) auto
qed (rule assms)

lemma rnd_add_ge: "0 \<le> y \<Longrightarrow> repr x \<Longrightarrow> x \<le> rnd (x + y)"
  by (rule rnd_ge) auto

lemma rnd_add_le: "y \<le> 0 \<Longrightarrow> repr x \<Longrightarrow> rnd (x + y) \<le> x"
  by (rule rnd_le) auto

lemma foldl_add_ge:
  assumes "\<forall>x \<in> set xs. 0 \<le> x" "repr a"
  shows "a \<le> foldl (\<lambda>s x. rnd (s + x)) a xs"
  using assms
proof (induction xs arbitrary: a)
  case (Cons x xs)
  then have "a \<le> rnd (a + x)" by (intro rnd_add_ge) auto
  also have "\<dots> \<le> foldl (\<lambda>s x. rnd (s + x)) (rnd (a + x)) xs"
    using Cons.prems by (intro Cons.IH repr_rnd) auto
  finally show ?case by simp
qed simp

lemma foldl_add_nonneg: "\<forall>x \<in> set xs. 0 \<le> x \<Longrightarrow> 0 \<le> foldl (\<lambda>s x. rnd (s + x)) 0 xs"
  by (rule foldl_add_ge) (auto intro: repr_zero)

lemma foldl_add_repr: "repr a \<Longrightarrow> repr (foldl (\<lambda>s x. rnd (s + x)) a xs)"
  by (induction xs arbitrary: a) (auto intro: repr_rnd)

lemma foldl_add_exact:
  assumes "\<And>k. k \<le> length xs \<Longrightarrow> repr (a + sum_list (take k xs))"
  shows "foldl (\<lambda>s x. rnd (s + x)) a xs = a + sum_list xs"
  using assms
proof (induction xs arbitrary: a)
  case (Cons x xs)
  have "repr (a + x)" using Cons.prems [of 1] by simp
  then have r: "rnd (a + x) = a + x" by (rule rnd_repr)
  have "repr (a + x + sum_list (take k xs))" if "k \<le> length xs" for k
    using Cons.prems [of "Suc k"] that by (simp add: add.assoc)
  from Cons.IH [OF this] r show ?case by (simp add: add.assoc)
qed simp

end

interpretation dec: decimal_context dround representable
  by unfold_locales (auto intro: dround_mono dround_representable)

lemma dsum_alt: "dsum xs = foldl (\<lambda>s x. dround (s + x)) 0 xs"
  by (simp add: dsum_def dadd_def [abs_def])

lemma dsum_nonneg: "\<forall>x \<in> set xs. 0 \<le> x \<Longrightarrow> 0 \<le> dsum xs"
  unfolding dsum_alt by (rule dec.foldl_add_nonneg)

lemma representable_dsum [simp]: "representable (dsum xs)"
  unfolding dsum_alt by (rule dec.foldl_add_repr) simp

lemma representable_ops [simp]:
  "representable (dadd a b)" "representable (dsub a b)" "representable (dmul a b)"
  "representable (dquot a b)" "representable (dneg a)" "representable (dabs a)"
  by (simp_all add: dec_defs)

lemma dmul_nonneg [dec_bounds]: "0 \<le> a \<Longrightarrow> 0 \<le> b \<Longrightarrow> 0 \<le> dmul a b"
  by (simp add: dmul_def)

lemma dadd_nonneg [dec_bounds]: "0 \<le> a \<Longrightarrow> 0 \<le> b \<Longrightarrow> 0 \<le> dadd a b"
  by (simp add: dadd_def)

lemma dquot_nonneg [dec_bounds]: "0 \<le> a \<Longrightarrow> 0 \<le> b \<Longrightarrow> 0 \<le> dquot a b"
  by (simp add: dquot_def)

lemma dabs_nonneg [simp]: "0 \<le> dabs a"
  by (simp add: dabs_def)

lemma dabs_pos_iff [simp]: "0 < dabs a \<longleftrightarrow> a \<noteq> 0"
  by (simp add: dabs_def)

lemma dabs_eq_0_iff [simp]: "dabs a = 0 \<longleftrightarrow> a = 0"
  by (simp add: dabs_def)

lemma dabs_le_0_iff [simp]: "dabs a \<le> 0 \<longleftrightarrow> a = 0"
  using dabs_pos_iff [of a] by linarith

lemma dabs_representable: "representable a \<Longrightarrow> dabs a = \<bar>a\<bar>"
  by (auto simp: dabs_def abs_if dround_minus dround_representable)

lemma dneg_representable: "representable a \<Longrightarrow> dneg a = - a"
  by (simp add: dneg_def dround_minus dround_representable)

lemma dquot_bound:
  assumes "a \<le> dquot b c" "0 < c" "0 \<le> b"
  shows "a * c \<le> b * (1 + rel_eps)"
proof -
  have "a \<le> b / c * (1 + rel_eps)"
    using assms dround_le_rel [of "b / c"] by (simp add: dquot_def)
  then have "a * c \<le> b / c * (1 + rel_eps) * c"
    using assms(2) by (intro mult_right_mono) auto
  then show ?thesis using assms(2) by simp
qed

lemma dmul_bound: "0 \<le> a \<Longrightarrow> 0 \<le> b \<Longrightarrow> dmul a b \<le> a * b * (1 + rel_eps)"
  unfolding dmul_def by (intro dround_le_rel) simp

lemma dfloor_le: "dfloor x \<le> x"
  by (simp add: dfloor_def)

lemma dhalf_up_of_int [simp]: "dhalf_up (of_int n) = of_int n"
  unfolding dhalf_up_def by (simp add: floor_eq_iff ceiling_eq_iff)

lemma dhalf_up_numeral [simp]: "dhalf_up (numeral n) = numeral n"
  using dhalf_up_of_int [of "numeral n"] by simp

lemma dint_of_nonneg: "0 \<le> x \<Longrightarrow> dint x = \<lfloor>x\<rfloor>"
  by (simp add: dint_def)

text \<open>Rules that evaluate rounded arithmetic on concrete short decimals.\<close>

lemmas dec_eval = dec_defs dround_fixed

end
