(* ===== verification/Domain.thy ===== *)
theory Domain
  imports Decimals
begin

text \<open>
  The provider-independent domain contracts of \<open>packages/domain/models.py\<close> that the modelled
  components exchange: the enumerations, candles, order intents, risk decisions and exchange
  sessions.  The validators run when a value is built, so each validated class is a record
  together with a constructor function that returns the record or the raise; a field constraint
  of the class (\<open>Field(gt=0)\<close> and its kin) is a conjunct of the class's field predicate.
  Datetimes are normalised to UTC by \<open>normalize_datetimes\<close>, so a field of a built value is an
  instant.
\<close>

section \<open>Enumerations\<close>

datatype exchange = NSE | BSE

datatype option_type = CALL | PUT

datatype side = BUY | SELL

datatype signal_action = LONG | SHORT | EXIT | HOLD | NO_TRADE

datatype risk_outcome = APPROVED | RESIZED | REJECTED

datatype order_type = MARKET | LIMIT | STOP | STOP_LIMIT

datatype order_status =
    CREATED | RISK_PENDING | RISK_REJECTED | APPROVED | SUBMITTING | SUBMITTED | ACKNOWLEDGED
  | PARTIALLY_FILLED | FILLED | CANCEL_PENDING | CANCELLED | REJECTED | EXPIRED
  | RECONCILIATION_REQUIRED

definition signal_action_value :: "signal_action \<Rightarrow> string" where
  "signal_action_value a =
     (case a of LONG \<Rightarrow> ''LONG'' | SHORT \<Rightarrow> ''SHORT'' | EXIT \<Rightarrow> ''EXIT'' | HOLD \<Rightarrow> ''HOLD''
      | NO_TRADE \<Rightarrow> ''NO_TRADE'')"

definition order_status_value :: "order_status \<Rightarrow> string" where
  "order_status_value s =
     (case s of
        CREATED \<Rightarrow> ''CREATED''
      | RISK_PENDING \<Rightarrow> ''RISK_PENDING''
      | RISK_REJECTED \<Rightarrow> ''RISK_REJECTED''
      | order_status.APPROVED \<Rightarrow> ''APPROVED''
      | SUBMITTING \<Rightarrow> ''SUBMITTING''
      | SUBMITTED \<Rightarrow> ''SUBMITTED''
      | ACKNOWLEDGED \<Rightarrow> ''ACKNOWLEDGED''
      | PARTIALLY_FILLED \<Rightarrow> ''PARTIALLY_FILLED''
      | FILLED \<Rightarrow> ''FILLED''
      | CANCEL_PENDING \<Rightarrow> ''CANCEL_PENDING''
      | CANCELLED \<Rightarrow> ''CANCELLED''
      | order_status.REJECTED \<Rightarrow> ''REJECTED''
      | EXPIRED \<Rightarrow> ''EXPIRED''
      | RECONCILIATION_REQUIRED \<Rightarrow> ''RECONCILIATION_REQUIRED'')"

text \<open>\<open>OrderStatus(text)\<close>: the member with that value, or the raise.\<close>

definition all_order_status :: "order_status list" where
  "all_order_status =
     [CREATED, RISK_PENDING, RISK_REJECTED, order_status.APPROVED, SUBMITTING, SUBMITTED,
      ACKNOWLEDGED, PARTIALLY_FILLED, FILLED, CANCEL_PENDING, CANCELLED, order_status.REJECTED,
      EXPIRED, RECONCILIATION_REQUIRED]"

definition order_status_of_value :: "string \<Rightarrow> order_status result" where
  "order_status_of_value t =
     (case List.find (\<lambda>s. order_status_value s = t) all_order_status of
        None \<Rightarrow> Inl (ValueError ''not a valid OrderStatus'') | Some s \<Rightarrow> Inr s)"

lemma order_status_roundtrip [simp]: "order_status_of_value (order_status_value s) = Inr s"
  by (cases s) (simp_all add: order_status_of_value_def all_order_status_def order_status_value_def)

section \<open>Candles\<close>

record candle =
  candle_instrument_id :: uuid
  candle_timestamp :: instant
  candle_timeframe_seconds :: int
  candle_open :: decimal
  candle_high :: decimal
  candle_low :: decimal
  candle_close :: decimal
  candle_volume :: decimal
  candle_open_interest :: "decimal option"
  candle_is_closed :: bool

definition candle_fields_ok :: "candle \<Rightarrow> bool" where
  "candle_fields_ok c \<longleftrightarrow>
     0 < candle_timeframe_seconds c \<and> 0 < candle_open c \<and> 0 < candle_high c \<and> 0 < candle_low c
     \<and> 0 < candle_close c \<and> 0 \<le> candle_volume c
     \<and> (case candle_open_interest c of None \<Rightarrow> True | Some oi \<Rightarrow> 0 \<le> oi)"

definition validate_ohlc :: "candle \<Rightarrow> candle result" where
  "validate_ohlc c =
     (if candle_high c < max (candle_open c) (candle_close c)
         \<or> candle_low c > min (candle_open c) (candle_close c)
      then Inl (ValueError ''impossible OHLC relationship'')
      else if candle_high c < candle_low c then Inl (ValueError ''high must not be below low'')
      else Inr c)"

text \<open>\<open>normalize_datetimes\<close> on one datetime field.\<close>

definition normalize_datetime :: "datetime \<Rightarrow> instant result" where
  "normalize_datetime d =
     (case d of Naive _ \<Rightarrow> Inl (ValueError ''datetimes must be timezone-aware'')
      | Aware t \<Rightarrow> Inr t)"

definition make_candle ::
  "uuid \<Rightarrow> datetime \<Rightarrow> int \<Rightarrow> decimal \<Rightarrow> decimal \<Rightarrow> decimal \<Rightarrow> decimal \<Rightarrow> decimal
   \<Rightarrow> decimal option \<Rightarrow> bool \<Rightarrow> candle result" where
  "make_candle ins ts tf op hi lo cl vol oi shut =
     rbind (normalize_datetime ts) (\<lambda>t.
       let c = \<lparr>candle_instrument_id = ins, candle_timestamp = t, candle_timeframe_seconds = tf,
                candle_open = op, candle_high = hi, candle_low = lo, candle_close = cl,
                candle_volume = vol, candle_open_interest = oi, candle_is_closed = shut\<rparr>
       in if candle_fields_ok c then validate_ohlc c
          else Inl (ValueError ''candle field constraint violated''))"

definition candle_ok :: "candle \<Rightarrow> bool" where
  "candle_ok c \<longleftrightarrow>
     candle_fields_ok c \<and> candle_low c \<le> candle_open c \<and> candle_low c \<le> candle_close c
     \<and> candle_open c \<le> candle_high c \<and> candle_close c \<le> candle_high c"

lemma validate_ohlc_Inr:
  "validate_ohlc c = Inr c' \<longleftrightarrow>
     c' = c \<and> candle_low c \<le> candle_open c \<and> candle_low c \<le> candle_close c
     \<and> candle_open c \<le> candle_high c \<and> candle_close c \<le> candle_high c"
  by (auto simp: validate_ohlc_def)

lemma make_candle_ok: "make_candle ins ts tf op hi lo cl vol oi shut = Inr c \<Longrightarrow> candle_ok c"
  by (auto simp: make_candle_def rbind_eq_Inr Let_def validate_ohlc_Inr candle_ok_def
      split: if_splits)

lemma make_candle_iff:
  "make_candle ins (Aware t) tf op hi lo cl vol oi shut = Inr c \<longleftrightarrow>
     c = \<lparr>candle_instrument_id = ins, candle_timestamp = t, candle_timeframe_seconds = tf,
          candle_open = op, candle_high = hi, candle_low = lo, candle_close = cl,
          candle_volume = vol, candle_open_interest = oi, candle_is_closed = shut\<rparr>
     \<and> candle_ok c"
  by (auto simp: make_candle_def normalize_datetime_def Let_def validate_ohlc_Inr candle_ok_def
      split: if_splits)

lemma candle_okD:
  assumes "candle_ok c"
  shows "0 < candle_low c" "candle_low c \<le> candle_high c" "0 < candle_open c" "0 < candle_close c"
    "0 < candle_high c" "0 \<le> candle_volume c" "0 < candle_timeframe_seconds c"
    "candle_low c \<le> candle_open c" "candle_open c \<le> candle_high c"
    "candle_low c \<le> candle_close c" "candle_close c \<le> candle_high c"
  using assms by (auto simp: candle_ok_def candle_fields_ok_def)

section \<open>Order intents and risk decisions\<close>

record order_intent =
  intent_id :: uuid
  intent_idempotency_key :: string
  intent_decision_id :: uuid
  intent_account_id :: uuid
  intent_instrument_id :: uuid
  intent_side :: side
  intent_order_type :: order_type
  intent_quantity :: decimal
  intent_limit_price :: "decimal option"
  intent_trigger_price :: "decimal option"
  intent_created_at :: instant
  intent_is_exit :: bool

definition positive_option :: "decimal option \<Rightarrow> bool" where
  "positive_option p = (case p of None \<Rightarrow> True | Some x \<Rightarrow> 0 < x)"

definition order_intent_ok :: "order_intent \<Rightarrow> bool" where
  "order_intent_ok i \<longleftrightarrow>
     8 \<le> length (intent_idempotency_key i) \<and> length (intent_idempotency_key i) \<le> 128
     \<and> 0 < intent_quantity i \<and> positive_option (intent_limit_price i)
     \<and> positive_option (intent_trigger_price i)"

definition make_order_intent :: "order_intent \<Rightarrow> order_intent result" where
  "make_order_intent i =
     (if order_intent_ok i then Inr i else Inl (ValueError ''order intent constraint violated''))"

record risk_decision =
  rd_id :: uuid
  rd_order_intent_id :: uuid
  rd_timestamp :: instant
  rd_outcome :: risk_outcome
  rd_approved_quantity :: decimal
  rd_reason_codes :: "string list"
  rd_policy_version :: string

definition make_risk_decision :: "risk_decision \<Rightarrow> risk_decision result" where
  "make_risk_decision d =
     (if 0 \<le> rd_approved_quantity d then Inr d
      else Inl (ValueError ''approved quantity must not be negative''))"

section \<open>Exchange sessions\<close>

text \<open>\<open>session_date\<close> is a day number (days since the epoch).\<close>

record market_session =
  ms_exchange :: exchange
  ms_session_date :: int
  ms_opens_at :: instant
  ms_closes_at :: instant
  ms_is_trading_day :: bool

definition validate_times :: "market_session \<Rightarrow> market_session result" where
  "validate_times s =
     (if ms_closes_at s \<le> ms_opens_at s then Inl (ValueError ''session close must follow open'')
      else Inr s)"

end
