(* ===== verification/Event_Machine.thy ===== *)
theory Event_Machine
  imports Prelude
begin

text \<open>
  The interface of an idempotent event consumer: a step function that may raise, the identity of
  an event, the identities a state has processed and a version counter.  Two laws - a processed
  identity is a no-op, a new one is recorded and counted - give the facts the order repository
  relies on: redelivery changes nothing, a run equals the run over the first occurrences, and
  the version counts the events accepted.
\<close>

text \<open>The events of a delivery sequence whose identity is new, in order of first delivery.\<close>

fun fresh_events :: "('e \<Rightarrow> 'k) \<Rightarrow> 'k set \<Rightarrow> 'e list \<Rightarrow> 'e list" where
  "fresh_events key seen [] = []"
| "fresh_events key seen (e # es) =
     (if key e \<in> seen then fresh_events key seen es
      else e # fresh_events key (insert (key e) seen) es)"

lemma set_fresh_events: "set (fresh_events key seen es) \<subseteq> set es"
  by (induction es arbitrary: seen) auto

lemma fresh_events_new: "e \<in> set (fresh_events key seen es) \<Longrightarrow> key e \<notin> seen"
  by (induction es arbitrary: seen) (auto split: if_splits)

lemma distinct_fresh_events: "distinct (map key (fresh_events key seen es))"
  by (induction es arbitrary: seen) (auto dest: fresh_events_new)

lemma keys_fresh_events:
  "key ` set (fresh_events key seen es) \<union> seen = key ` set es \<union> seen"
proof (induction es arbitrary: seen)
  case (Cons e es)
  show ?case
  proof (cases "key e \<in> seen")
    case False
    with Cons.IH [of "insert (key e) seen"] show ?thesis by (simp add: Un_insert_right)
  qed (use Cons.IH [of seen] in auto)
qed simp

lemma fresh_events_append:
  "fresh_events key seen (xs @ ys) =
     fresh_events key seen xs @ fresh_events key (seen \<union> key ` set xs) ys"
  by (induction xs arbitrary: seen) (auto simp: insert_absorb Un_insert_right)

lemma fresh_events_seen: "key ` set es \<subseteq> seen \<Longrightarrow> fresh_events key seen es = []"
  by (induction es) auto

lemma fresh_events_id:
  "distinct (map key es) \<Longrightarrow> key ` set es \<inter> seen = {} \<Longrightarrow> fresh_events key seen es = es"
  by (induction es arbitrary: seen) auto

locale event_machine =
  fixes step :: "'s \<Rightarrow> 'e \<Rightarrow> 's result"
    and key :: "'e \<Rightarrow> 'k"
    and seen :: "'s \<Rightarrow> 'k set"
    and version :: "'s \<Rightarrow> nat"
  assumes step_seen: "key e \<in> seen s \<Longrightarrow> step s e = Inr s"
    and seen_step: "key e \<notin> seen s \<Longrightarrow> step s e = Inr s' \<Longrightarrow> seen s' = insert (key e) (seen s)"
    and version_step: "key e \<notin> seen s \<Longrightarrow> step s e = Inr s' \<Longrightarrow> version s' = version s + 1"
begin

lemma seen_after: "step s e = Inr s' \<Longrightarrow> seen s' = insert (key e) (seen s)"
  using step_seen [of e s] seen_step [of e s s'] by (cases "key e \<in> seen s") auto

lemma redelivery: "step s e = Inr s' \<Longrightarrow> step s' e = Inr s'"
  by (rule step_seen) (simp add: seen_after)

lemma unchanged_iff: "step s e = Inr s' \<Longrightarrow> s' = s \<longleftrightarrow> key e \<in> seen s"
  by (cases "key e \<in> seen s") (auto dest: step_seen version_step)

lemma seen_run: "rfold step s es = Inr s' \<Longrightarrow> seen s' = seen s \<union> key ` set es"
  by (induction es arbitrary: s) (auto simp: rbind_eq_Inr dest!: seen_after)

lemma run_seen: "key ` set es \<subseteq> seen s \<Longrightarrow> rfold step s es = Inr s"
  by (induction es) (auto simp: step_seen)

lemma run_fresh: "rfold step s es = rfold step s (fresh_events key (seen s) es)"
proof (induction es arbitrary: s)
  case (Cons e es)
  show ?case
  proof (cases "key e \<in> seen s")
    case True
    with Cons.IH [of s] show ?thesis by (simp add: step_seen)
  next
    case False
    have "rbind (step s e) (\<lambda>s'. rfold step s' es) =
      rbind (step s e) (\<lambda>s'. rfold step s' (fresh_events key (insert (key e) (seen s)) es))"
    proof (cases "step s e")
      case (Inr s')
      with Cons.IH [of s'] seen_after [OF Inr] show ?thesis by simp
    qed simp
    with False show ?thesis by simp
  qed
qed simp

lemma version_run:
  assumes "rfold step s es = Inr s'"
  shows "version s' = version s + length (fresh_events key (seen s) es)"
  using assms
proof (induction es arbitrary: s)
  case (Cons e es)
  then obtain t where t: "step s e = Inr t" and r: "rfold step t es = Inr s'"
    by (auto simp: rbind_eq_Inr)
  show ?case
  proof (cases "key e \<in> seen s")
    case True
    with t have "t = s" by (simp add: step_seen)
    with Cons.IH [OF r] True show ?thesis by simp
  next
    case False
    with Cons.IH [OF r] seen_after [OF t] version_step [OF False t] show ?thesis by simp
  qed
qed simp

lemma redelivered_run:
  assumes "rfold step s es = Inr s'" and "key ` set ds \<subseteq> key ` set es"
  shows "rfold step s' ds = Inr s'"
  using assms seen_run by (intro run_seen) blast

end

end
