(* ===== verification/Order_State_Machine.thy ===== *)
theory Order_State_Machine
  imports Domain Event_Machine
begin

text \<open>
  The order lifecycle of \<open>packages/execution/state_machine.py\<close>: events, order states, the
  transition table and \<open>apply_order_event\<close>, branch for branch.  A lifecycle is a run of
  \<open>apply_order_event\<close> over the delivered events, and the lemmas show what every reachable
  state satisfies (\<open>order_inv\<close>), that a redelivered event changes nothing, that fills are
  counted once per event identity, and that no order is submitted without a risk approval.
\<close>

section \<open>Events and states\<close>

datatype order_event_type =
    RISK_REQUESTED | RISK_APPROVED | RISK_REJECTED | SUBMIT_STARTED | SUBMIT_CONFIRMED
  | SUBMISSION_UNKNOWN | BROKER_ACKNOWLEDGED | FILL | CANCEL_REQUESTED | CANCEL_CONFIRMED
  | BROKER_REJECTED | EXPIRED

definition order_event_type_value :: "order_event_type \<Rightarrow> string" where
  "order_event_type_value t =
     (case t of
        RISK_REQUESTED \<Rightarrow> ''RISK_REQUESTED''
      | RISK_APPROVED \<Rightarrow> ''RISK_APPROVED''
      | order_event_type.RISK_REJECTED \<Rightarrow> ''RISK_REJECTED''
      | SUBMIT_STARTED \<Rightarrow> ''SUBMIT_STARTED''
      | SUBMIT_CONFIRMED \<Rightarrow> ''SUBMIT_CONFIRMED''
      | SUBMISSION_UNKNOWN \<Rightarrow> ''SUBMISSION_UNKNOWN''
      | BROKER_ACKNOWLEDGED \<Rightarrow> ''BROKER_ACKNOWLEDGED''
      | FILL \<Rightarrow> ''FILL''
      | CANCEL_REQUESTED \<Rightarrow> ''CANCEL_REQUESTED''
      | CANCEL_CONFIRMED \<Rightarrow> ''CANCEL_CONFIRMED''
      | BROKER_REJECTED \<Rightarrow> ''BROKER_REJECTED''
      | order_event_type.EXPIRED \<Rightarrow> ''EXPIRED'')"

record order_event =
  event_id :: string
  event_type :: order_event_type
  event_occurred_at :: instant
  event_fill_quantity :: decimal
  event_broker_order_id :: "string option"

text \<open>\<open>OrderEvent.__post_init__\<close>.\<close>

definition make_order_event ::
  "string \<Rightarrow> order_event_type \<Rightarrow> datetime \<Rightarrow> decimal \<Rightarrow> string option \<Rightarrow> order_event result" where
  "make_order_event eid ty ts qty bid =
     (if blank eid then Inl (ValueError ''order event ID cannot be empty'')
      else if \<not> is_aware ts then Inl (ValueError ''order event timestamp must be timezone-aware'')
      else if qty < 0 then Inl (ValueError ''fill quantity cannot be negative'')
      else if ty = FILL \<and> qty \<le> 0 then Inl (ValueError ''fill events require positive quantity'')
      else if ty \<noteq> FILL \<and> qty \<noteq> 0
      then Inl (ValueError ''only fill events may carry fill quantity'')
      else Inr \<lparr>event_id = eid, event_type = ty, event_occurred_at = instant_of ts,
                event_fill_quantity = qty, event_broker_order_id = bid\<rparr>)"

definition event_ok :: "order_event \<Rightarrow> bool" where
  "event_ok e \<longleftrightarrow>
     \<not> blank (event_id e) \<and> (event_type e = FILL \<longrightarrow> 0 < event_fill_quantity e)
     \<and> (event_type e \<noteq> FILL \<longrightarrow> event_fill_quantity e = 0)"

lemma make_order_event_ok: "make_order_event eid ty ts qty bid = Inr e \<Longrightarrow> event_ok e"
  by (auto simp: make_order_event_def event_ok_def split: if_splits)

record order_state =
  order_id :: uuid
  order_quantity :: decimal
  order_status :: order_status
  order_filled_quantity :: decimal
  order_broker_order_id :: "string option"
  order_last_event_at :: instant
  order_processed_event_ids :: "string set"
  order_version :: nat
  order_reconciliation_reason :: "string option"

definition initial_order_state :: "uuid \<Rightarrow> decimal \<Rightarrow> datetime \<Rightarrow> order_state result" where
  "initial_order_state oid qty ts =
     (if qty \<le> 0 then Inl (ValueError ''order quantity must be positive'')
      else if \<not> is_aware ts
      then Inl (ValueError ''order creation timestamp must be timezone-aware'')
      else Inr \<lparr>order_id = oid, order_quantity = qty, order_status = CREATED,
                order_filled_quantity = 0, order_broker_order_id = None,
                order_last_event_at = instant_of ts, order_processed_event_ids = {},
                order_version = 0, order_reconciliation_reason = None\<rparr>)"

section \<open>Transitions\<close>

text \<open>The dictionary \<open>_TRANSITIONS\<close>, in the order of the source.\<close>

definition transition_table :: "((order_status \<times> order_event_type) \<times> order_status) list" where
  "transition_table =
     [((CREATED, RISK_REQUESTED), RISK_PENDING),
      ((RISK_PENDING, RISK_APPROVED), order_status.APPROVED),
      ((RISK_PENDING, order_event_type.RISK_REJECTED), order_status.RISK_REJECTED),
      ((order_status.APPROVED, SUBMIT_STARTED), SUBMITTING),
      ((SUBMITTING, SUBMIT_CONFIRMED), SUBMITTED),
      ((SUBMITTING, SUBMISSION_UNKNOWN), RECONCILIATION_REQUIRED),
      ((SUBMITTED, BROKER_ACKNOWLEDGED), ACKNOWLEDGED),
      ((SUBMITTED, BROKER_REJECTED), order_status.REJECTED),
      ((ACKNOWLEDGED, BROKER_REJECTED), order_status.REJECTED),
      ((SUBMITTED, CANCEL_REQUESTED), CANCEL_PENDING),
      ((ACKNOWLEDGED, CANCEL_REQUESTED), CANCEL_PENDING),
      ((PARTIALLY_FILLED, CANCEL_REQUESTED), CANCEL_PENDING),
      ((CANCEL_PENDING, CANCEL_CONFIRMED), CANCELLED),
      ((SUBMITTED, order_event_type.EXPIRED), order_status.EXPIRED),
      ((ACKNOWLEDGED, order_event_type.EXPIRED), order_status.EXPIRED)]"

definition transitions :: "order_status \<Rightarrow> order_event_type \<Rightarrow> order_status option" where
  "transitions s t = map_of transition_table (s, t)"

definition fillable :: "order_status \<Rightarrow> bool" where
  "fillable s \<longleftrightarrow> s \<in> {SUBMITTED, ACKNOWLEDGED, PARTIALLY_FILLED, CANCEL_PENDING}"

definition requires_reconciliation :: "order_state \<Rightarrow> order_event \<Rightarrow> string \<Rightarrow> order_state" where
  "requires_reconciliation s e reason =
     s\<lparr>order_status := RECONCILIATION_REQUIRED,
       order_last_event_at := max (order_last_event_at s) (event_occurred_at e),
       order_processed_event_ids := insert (event_id e) (order_processed_event_ids s),
       order_version := order_version s + 1,
       order_reconciliation_reason := Some reason\<rparr>"

text \<open>The common last step of \<open>apply_order_event\<close>: the \<open>replace\<close> with the new status.\<close>

definition accept_event ::
  "order_state \<Rightarrow> order_event \<Rightarrow> order_status \<Rightarrow> decimal \<Rightarrow> string option \<Rightarrow> order_state" where
  "accept_event s e st filled bid =
     s\<lparr>order_status := st, order_filled_quantity := filled, order_broker_order_id := bid,
       order_last_event_at := event_occurred_at e,
       order_processed_event_ids := insert (event_id e) (order_processed_event_ids s),
       order_version := order_version s + 1,
       order_reconciliation_reason :=
         (if st = RECONCILIATION_REQUIRED then Some ''SUBMISSION_OUTCOME_UNKNOWN''
          else order_reconciliation_reason s)\<rparr>"

definition apply_order_event :: "order_state \<Rightarrow> order_event \<Rightarrow> order_state result" where
  "apply_order_event s e =
     (if event_id e \<in> order_processed_event_ids s then Inr s
      else if event_occurred_at e < order_last_event_at s
      then Inr (requires_reconciliation s e ''OUT_OF_ORDER_EVENT'')
      else if (case (event_broker_order_id e, order_broker_order_id s) of
                 (Some b, Some b') \<Rightarrow> b' \<noteq> b | _ \<Rightarrow> False)
      then Inr (requires_reconciliation s e ''CONFLICTING_BROKER_ORDER_ID'')
      else
        let bid = (case event_broker_order_id e of Some b \<Rightarrow> Some b | None \<Rightarrow> order_broker_order_id s)
        in if event_type e = FILL then
             (if \<not> fillable (order_status s)
              then Inl (ValueError (''fill is invalid from order state ''
                                    @ order_status_value (order_status s)))
              else
                let filled = dadd (order_filled_quantity s) (event_fill_quantity e)
                in if filled > order_quantity s then Inr (requires_reconciliation s e ''OVERFILL'')
                   else Inr (accept_event s e
                          (if filled = order_quantity s then FILLED else PARTIALLY_FILLED) filled bid))
           else
             (case transitions (order_status s) (event_type e) of
                None \<Rightarrow> Inl (ValueError (''event '' @ order_event_type_value (event_type e)
                             @ '' is invalid from order state '' @ order_status_value (order_status s)))
              | Some target \<Rightarrow> Inr (accept_event s e target (order_filled_quantity s) bid)))"

text \<open>A lifecycle: the events in the order they are delivered; a raise ends the run.\<close>

definition run_order :: "order_state \<Rightarrow> order_event list \<Rightarrow> order_state result" where
  "run_order s es = rfold apply_order_event s es"

lemma run_order_simps [simp]:
  "run_order s [] = Inr s"
  "run_order s (e # es) = rbind (apply_order_event s e) (\<lambda>s'. run_order s' es)"
  by (simp_all add: run_order_def)

section \<open>One step\<close>

text \<open>The three ways an event can be taken, as the cases of every later proof.\<close>

lemma apply_cases:
  assumes "apply_order_event s e = Inr s'"
  obtains
    (duplicate) "event_id e \<in> order_processed_event_ids s" "s' = s"
  | (reconcile) reason where "event_id e \<notin> order_processed_event_ids s"
      "s' = requires_reconciliation s e reason"
  | (fill) bid where "event_id e \<notin> order_processed_event_ids s" "event_type e = FILL"
      "fillable (order_status s)"
      "dadd (order_filled_quantity s) (event_fill_quantity e) \<le> order_quantity s"
      "order_last_event_at s \<le> event_occurred_at e"
      "\<forall>b. order_broker_order_id s = Some b \<longrightarrow> bid = Some b"
      "s' = accept_event s e
         (if dadd (order_filled_quantity s) (event_fill_quantity e) = order_quantity s
          then FILLED else PARTIALLY_FILLED)
         (dadd (order_filled_quantity s) (event_fill_quantity e)) bid"
  | (transition) bid target where "event_id e \<notin> order_processed_event_ids s"
      "event_type e \<noteq> FILL" "transitions (order_status s) (event_type e) = Some target"
      "order_last_event_at s \<le> event_occurred_at e"
      "\<forall>b. order_broker_order_id s = Some b \<longrightarrow> bid = Some b"
      "s' = accept_event s e target (order_filled_quantity s) bid"
  using assms
  by (auto simp: apply_order_event_def Let_def split: if_splits option.splits)

interpretation order_events: event_machine
  apply_order_event event_id order_processed_event_ids order_version
proof unfold_locales
  show "event_id e \<in> order_processed_event_ids s \<Longrightarrow> apply_order_event s e = Inr s" for e s
    by (simp add: apply_order_event_def)
  show "order_processed_event_ids s' = insert (event_id e) (order_processed_event_ids s)"
    if "event_id e \<notin> order_processed_event_ids s" "apply_order_event s e = Inr s'" for e s s'
    using that(2,1) by (cases rule: apply_cases) (auto simp: requires_reconciliation_def accept_event_def)
  show "order_version s' = order_version s + 1"
    if "event_id e \<notin> order_processed_event_ids s" "apply_order_event s e = Inr s'" for e s s'
    using that(2,1) by (cases rule: apply_cases) (auto simp: requires_reconciliation_def accept_event_def)
qed

section \<open>The invariant of a lifecycle\<close>

definition unfilled_status :: "order_status \<Rightarrow> bool" where
  "unfilled_status st \<longleftrightarrow>
     st \<in> {CREATED, RISK_PENDING, order_status.RISK_REJECTED, order_status.APPROVED, SUBMITTING,
           SUBMITTED, ACKNOWLEDGED, order_status.REJECTED, order_status.EXPIRED}"

definition fill_matches_status :: "order_state \<Rightarrow> bool" where
  "fill_matches_status s \<longleftrightarrow>
     (order_status s = FILLED \<longrightarrow> order_filled_quantity s = order_quantity s)
     \<and> (order_status s = PARTIALLY_FILLED \<longrightarrow> 0 < order_filled_quantity s)
     \<and> (order_status s \<in> {PARTIALLY_FILLED, CANCEL_PENDING, CANCELLED}
         \<longrightarrow> order_filled_quantity s < order_quantity s)
     \<and> (unfilled_status (order_status s) \<longrightarrow> order_filled_quantity s = 0)"

definition order_inv :: "order_state \<Rightarrow> bool" where
  "order_inv s \<longleftrightarrow>
     0 < order_quantity s \<and> 0 \<le> order_filled_quantity s
     \<and> order_filled_quantity s \<le> order_quantity s \<and> representable (order_filled_quantity s)
     \<and> fill_matches_status s
     \<and> (order_status s = RECONCILIATION_REQUIRED \<longleftrightarrow> order_reconciliation_reason s \<noteq> None)
     \<and> finite (order_processed_event_ids s) \<and> order_version s = card (order_processed_event_ids s)"

lemma transitions_Some:
  assumes "transitions st t = Some st'"
  shows "((st, t), st') \<in> set transition_table"
  using assms map_of_SomeD by (fastforce simp: transitions_def)

lemma transitions_closed:
  assumes "transitions st t = Some st'"
  shows "st \<notin> {order_status.RISK_REJECTED, FILLED, CANCELLED, order_status.REJECTED,
      order_status.EXPIRED, RECONCILIATION_REQUIRED}"
    and "unfilled_status st' \<Longrightarrow> unfilled_status st"
    and "st' \<notin> {FILLED, PARTIALLY_FILLED}"
    and "st' = CANCELLED \<Longrightarrow> st = CANCEL_PENDING"
    and "st' = CANCEL_PENDING \<Longrightarrow> st \<in> {SUBMITTED, ACKNOWLEDGED, PARTIALLY_FILLED}"
    and "st' = RECONCILIATION_REQUIRED \<Longrightarrow> st = SUBMITTING \<and> t = SUBMISSION_UNKNOWN"
  using transitions_Some [OF assms]
  by (auto simp: transition_table_def unfilled_status_def)

lemma initial_order_inv: "initial_order_state oid qty ts = Inr s \<Longrightarrow> order_inv s"
  by (auto simp: initial_order_state_def order_inv_def fill_matches_status_def split: if_splits)

lemma requires_reconciliation_inv:
  "order_inv s \<Longrightarrow> event_id e \<notin> order_processed_event_ids s
   \<Longrightarrow> order_inv (requires_reconciliation s e reason)"
  by (simp add: order_inv_def requires_reconciliation_def fill_matches_status_def unfilled_status_def)

lemma accept_fill_inv:
  assumes "order_inv s" "event_id e \<notin> order_processed_event_ids s" "0 < event_fill_quantity e"
    "fillable (order_status s)" "dadd (order_filled_quantity s) (event_fill_quantity e) \<le> order_quantity s"
  shows "order_inv (accept_event s e
    (if dadd (order_filled_quantity s) (event_fill_quantity e) = order_quantity s
     then FILLED else PARTIALLY_FILLED)
    (dadd (order_filled_quantity s) (event_fill_quantity e)) bid)"
proof -
  let ?f = "dadd (order_filled_quantity s) (event_fill_quantity e)"
  have pos: "0 < ?f"
    using assms(1,3) by (simp add: dadd_def order_inv_def)
  have reason: "order_reconciliation_reason s = None"
    using assms(1,4) by (auto simp: order_inv_def fillable_def)
  show ?thesis
    using assms pos reason
    by (auto simp: order_inv_def accept_event_def fill_matches_status_def unfilled_status_def)
qed

lemma accept_transition_inv:
  assumes "order_inv s" "event_id e \<notin> order_processed_event_ids s"
    "transitions (order_status s) t = Some st"
  shows "order_inv (accept_event s e st (order_filled_quantity s) bid)"
proof -
  note c = transitions_closed [OF assms(3)]
  have reason: "order_reconciliation_reason s = None"
    using assms(1) c(1) by (auto simp: order_inv_def)
  have "fill_matches_status (accept_event s e st (order_filled_quantity s) bid)"
    using assms(1) c
    by (auto simp: order_inv_def fill_matches_status_def accept_event_def unfilled_status_def)
  with assms reason show ?thesis
    by (simp add: order_inv_def accept_event_def)
qed

lemma apply_order_event_inv [inv_rules]:
  assumes "apply_order_event s e = Inr s'" "event_ok e" "order_inv s"
  shows "order_inv s'"
  using assms(1)
proof (cases rule: apply_cases)
  case (fill bid)
  moreover from this assms(2) have "0 < event_fill_quantity e"
    by (simp add: event_ok_def)
  ultimately show ?thesis using assms(3) accept_fill_inv by blast
qed (use assms requires_reconciliation_inv accept_transition_inv in blast)+

section \<open>Runs\<close>

lemma run_order_inv [inv_rules]:
  "run_order s es = Inr s' \<Longrightarrow> \<forall>e \<in> set es. event_ok e \<Longrightarrow> order_inv s \<Longrightarrow> order_inv s'"
  unfolding run_order_def by (rule rfold_invariant) (auto intro: apply_order_event_inv)

lemma apply_frame:
  assumes "apply_order_event s e = Inr s'"
  shows "order_id s' = order_id s" "order_quantity s' = order_quantity s"
    "order_last_event_at s \<le> order_last_event_at s'"
    "\<And>b. order_broker_order_id s = Some b \<Longrightarrow> order_broker_order_id s' = Some b"
  using assms
  by (cases rule: apply_cases; simp add: requires_reconciliation_def accept_event_def)+

lemma run_frame:
  assumes "run_order s es = Inr s'"
  shows "order_id s' = order_id s" "order_quantity s' = order_quantity s"
    "order_last_event_at s \<le> order_last_event_at s'"
    "\<And>b. order_broker_order_id s = Some b \<Longrightarrow> order_broker_order_id s' = Some b"
proof -
  have "order_id s' = order_id s \<and> order_quantity s' = order_quantity s
    \<and> order_last_event_at s \<le> order_last_event_at s'
    \<and> (\<forall>b. order_broker_order_id s = Some b \<longrightarrow> order_broker_order_id s' = Some b)"
    using assms unfolding run_order_def
    by (rule rfold_invariant) (auto dest: apply_frame)
  then show "order_id s' = order_id s" "order_quantity s' = order_quantity s"
    "order_last_event_at s \<le> order_last_event_at s'"
    "\<And>b. order_broker_order_id s = Some b \<Longrightarrow> order_broker_order_id s' = Some b"
    by auto
qed

text \<open>States no accepted event leaves, except for reconciliation.\<close>

definition terminal_status :: "order_status \<Rightarrow> bool" where
  "terminal_status st \<longleftrightarrow>
     st \<in> {order_status.RISK_REJECTED, FILLED, CANCELLED, order_status.REJECTED,
           order_status.EXPIRED, RECONCILIATION_REQUIRED}"

lemma transitions_terminal: "terminal_status st \<Longrightarrow> transitions st t = None"
  using transitions_closed(1) [of st t] by (cases "transitions st t") (auto simp: terminal_status_def)

lemma apply_terminal:
  assumes "apply_order_event s e = Inr s'" "terminal_status (order_status s)"
  shows "order_status s' = order_status s \<or> order_status s' = RECONCILIATION_REQUIRED"
    and "order_filled_quantity s' = order_filled_quantity s"
  using assms
  by (cases rule: apply_cases;
      auto simp: requires_reconciliation_def transitions_terminal fillable_def terminal_status_def)+

lemma run_terminal:
  assumes "run_order s es = Inr s'" "terminal_status (order_status s)"
  shows "(order_status s' = order_status s \<or> order_status s' = RECONCILIATION_REQUIRED)
    \<and> order_filled_quantity s' = order_filled_quantity s"
  using assms
proof (induction es arbitrary: s)
  case (Cons e es)
  then obtain t where t: "apply_order_event s e = Inr t" "run_order t es = Inr s'"
    by (auto simp: rbind_eq_Inr)
  have "terminal_status (order_status t)"
    using apply_terminal(1) [OF t(1) Cons.prems(2)] Cons.prems(2) by (auto simp: terminal_status_def)
  with Cons.IH [OF t(2)] apply_terminal [OF t(1) Cons.prems(2)] show ?case by auto
qed simp

lemma apply_fill_sum:
  assumes "apply_order_event s e = Inr s'" "event_id e \<notin> order_processed_event_ids s"
    "order_status s' \<noteq> RECONCILIATION_REQUIRED"
  shows "order_filled_quantity s' =
    (if event_type e = FILL then dadd (order_filled_quantity s) (event_fill_quantity e)
     else order_filled_quantity s)"
  using assms by (cases rule: apply_cases) (auto simp: requires_reconciliation_def accept_event_def)

lemma run_reconciliation_absorbing:
  "run_order s es = Inr s' \<Longrightarrow> order_status s' \<noteq> RECONCILIATION_REQUIRED
   \<Longrightarrow> order_status s \<noteq> RECONCILIATION_REQUIRED"
  using run_terminal [of s es s'] by (auto simp: terminal_status_def)

lemma run_fill_sum:
  assumes "run_order s es = Inr s'" "order_status s' \<noteq> RECONCILIATION_REQUIRED"
    "distinct (map event_id es)" "event_id ` set es \<inter> order_processed_event_ids s = {}"
  shows "order_filled_quantity s' = foldl dadd (order_filled_quantity s)
    (map event_fill_quantity (filter (\<lambda>e. event_type e = FILL) es))"
  using assms
proof (induction es arbitrary: s)
  case (Cons e es)
  then obtain t where t: "apply_order_event s e = Inr t" "run_order t es = Inr s'"
    by (auto simp: rbind_eq_Inr)
  have new: "event_id e \<notin> order_processed_event_ids s"
    using Cons.prems by auto
  have "order_status t \<noteq> RECONCILIATION_REQUIRED"
    using run_reconciliation_absorbing t(2) Cons.prems(2) by blast
  then have "order_filled_quantity t =
    (if event_type e = FILL then dadd (order_filled_quantity s) (event_fill_quantity e)
     else order_filled_quantity s)"
    by (rule apply_fill_sum [OF t(1) new])
  moreover have "event_id ` set es \<inter> order_processed_event_ids t = {}"
    using Cons.prems(3,4) order_events.seen_after [OF t(1)] by auto
  ultimately show ?case
    using Cons.IH [OF t(2) Cons.prems(2)] Cons.prems(3) by simp
qed simp

text \<open>Before the risk approval an order is in one of four states and has no fill.\<close>

definition unapproved :: "order_state \<Rightarrow> bool" where
  "unapproved s \<longleftrightarrow>
     order_status s \<in> {CREATED, RISK_PENDING, order_status.RISK_REJECTED, RECONCILIATION_REQUIRED}
     \<and> order_filled_quantity s = 0"

lemma apply_unapproved:
  assumes "apply_order_event s e = Inr s'" "unapproved s" "\<not> unapproved s'"
  shows "order_status s = RISK_PENDING" "event_type e = RISK_APPROVED"
    "event_id e \<notin> order_processed_event_ids s" "order_status s' = order_status.APPROVED"
  using assms
  by (cases rule: apply_cases;
      auto simp: unapproved_def requires_reconciliation_def accept_event_def fillable_def
        transition_table_def dest!: transitions_Some)+

lemma run_needs_approval:
  assumes "run_order s es = Inr s'" "unapproved s" "\<not> unapproved s'"
  shows "\<exists>pre e post t. es = pre @ e # post \<and> run_order s pre = Inr t
    \<and> order_status t = RISK_PENDING \<and> event_type e = RISK_APPROVED
    \<and> event_id e \<notin> order_processed_event_ids t"
  using assms
proof (induction es arbitrary: s)
  case (Cons e es)
  then obtain t where t: "apply_order_event s e = Inr t" "run_order t es = Inr s'"
    by (auto simp: rbind_eq_Inr)
  show ?case
  proof (cases "unapproved t")
    case True
    then obtain pre e' post u where "es = pre @ e' # post" "run_order t pre = Inr u"
      "order_status u = RISK_PENDING" "event_type e' = RISK_APPROVED"
      "event_id e' \<notin> order_processed_event_ids u"
      using Cons.IH [OF t(2)] Cons.prems(3) by blast
    with t(1) show ?thesis
      by (intro exI [of _ "e # pre"] exI [of _ e'] exI [of _ post] exI [of _ u]) simp
  next
    case False
    with apply_unapproved [OF t(1) Cons.prems(2)] show ?thesis
      by (intro exI [of _ "[]"] exI [of _ e] exI [of _ es] exI [of _ s]) simp
  qed
qed simp

section \<open>A concrete lifecycle\<close>

text \<open>An order of 10 units that is approved, submitted and filled in two steps of 4 and 6.\<close>

definition sample_event :: "string \<Rightarrow> order_event_type \<Rightarrow> instant \<Rightarrow> decimal \<Rightarrow> order_event" where
  "sample_event i t at_time q =
     \<lparr>event_id = i, event_type = t, event_occurred_at = at_time, event_fill_quantity = q,
      event_broker_order_id = None\<rparr>"

definition sample_order :: order_state where
  "sample_order =
     \<lparr>order_id = 7, order_quantity = 10, order_status = CREATED, order_filled_quantity = 0,
      order_broker_order_id = None, order_last_event_at = 0, order_processed_event_ids = {},
      order_version = 0, order_reconciliation_reason = None\<rparr>"

definition sample_submission :: "order_event list" where
  "sample_submission =
     [sample_event ''a'' RISK_REQUESTED 1 0, sample_event ''b'' RISK_APPROVED 2 0,
      sample_event ''c'' SUBMIT_STARTED 3 0, sample_event ''d'' SUBMIT_CONFIRMED 4 0]"

definition sample_fills :: "order_event list" where
  "sample_fills = [sample_event ''e'' FILL 5 4, sample_event ''e'' FILL 5 4, sample_event ''f'' FILL 6 6]"

lemmas sample_defs = sample_event_def sample_order_def sample_submission_def sample_fills_def

lemma sample_initial: "initial_order_state 7 10 (Aware 0) = Inr sample_order"
  by (simp add: initial_order_state_def sample_order_def)

lemma sample_events_ok: "\<forall>e \<in> set (sample_submission @ sample_fills). event_ok e"
  by (simp add: sample_defs event_ok_def blank_def is_space_def Let_def of_char_def)

definition sample_submitted :: order_state where
  "sample_submitted = sample_order\<lparr>order_status := SUBMITTED, order_last_event_at := 4,
     order_processed_event_ids := {''a'', ''b'', ''c'', ''d''}, order_version := 4\<rparr>"

definition sample_filled :: order_state where
  "sample_filled = sample_order\<lparr>order_status := FILLED, order_filled_quantity := 10,
     order_last_event_at := 6, order_processed_event_ids := {''a'', ''b'', ''c'', ''d'', ''e'', ''f''},
     order_version := 6\<rparr>"

lemma sample_submission_run: "run_order sample_order sample_submission = Inr sample_submitted"
  by (simp add: sample_defs sample_submitted_def apply_order_event_def Let_def transitions_def
      transition_table_def accept_event_def insert_commute)

lemma sample_fills_run: "run_order sample_submitted sample_fills = Inr sample_filled"
  by (simp add: sample_defs sample_submitted_def sample_filled_def apply_order_event_def Let_def
      fillable_def accept_event_def dec_eval insert_commute)

lemma sample_run: "run_order sample_order (sample_submission @ sample_fills) = Inr sample_filled"
  using sample_submission_run sample_fills_run by (simp add: run_order_def rfold_append)

section \<open>Properties of the lifecycle\<close>

text \<open>C1: In every state a lifecycle reaches from a newly created order, the filled quantity is
  between zero and the ordered quantity and agrees with the status (a filled order is filled in
  full, a partially filled one strictly in between, an unsubmitted one not at all), the
  reconciliation reason is present exactly in the reconciliation state, and the version counts
  the distinct events processed.\<close>

theorem order_lifecycle_invariant:
  assumes "initial_order_state oid qty ts = Inr s0" and "\<forall>e \<in> set es. event_ok e"
    and "run_order s0 es = Inr s"
  shows "order_inv s \<and> order_quantity s = qty"
proof
  show "order_inv s"
    by (rule run_order_inv [OF assms(3,2) initial_order_inv [OF assms(1)]])
  show "order_quantity s = qty"
    using run_frame(2) [OF assms(3)] assms(1) by (auto simp: initial_order_state_def split: if_splits)
qed

theorem order_lifecycle_invariant_witness:
  "order_inv sample_filled \<and> order_quantity sample_filled = 10"
  using order_lifecycle_invariant [OF sample_initial sample_events_ok sample_run] by simp

text \<open>However often the broker redelivers its callbacks, the lifecycle is the one of the
  first deliveries: the run over the delivered events equals the run over the events with a new
  identity, raises included, and the version is the number of those.\<close>

theorem order_redelivery_is_noop:
  assumes "initial_order_state oid qty ts = Inr s0"
  shows "run_order s0 es = run_order s0 (fresh_events event_id {} es)
    \<and> (\<forall>s. run_order s0 es = Inr s \<longrightarrow> order_version s = length (fresh_events event_id {} es))"
proof -
  have "order_processed_event_ids s0 = {}" "order_version s0 = 0"
    using assms by (auto simp: initial_order_state_def split: if_splits)
  then show ?thesis
    using order_events.run_fresh [of s0 es] order_events.version_run [of s0 es]
    by (auto simp: run_order_def)
qed

theorem order_redelivery_is_noop_witness:
  "run_order sample_order (sample_submission @ sample_fills) =
     run_order sample_order (fresh_events event_id {} (sample_submission @ sample_fills))
   \<and> order_version sample_filled = length (fresh_events event_id {} (sample_submission @ sample_fills))"
  using order_redelivery_is_noop [OF sample_initial, of "sample_submission @ sample_fills"] sample_run
  by simp

text \<open>Fills are counted exactly once: unless the order ended in reconciliation, its filled
  quantity is the Decimal sum of the fill events' quantities, each event identity counted at its
  first delivery only.\<close>

theorem order_fills_counted_once:
  assumes "initial_order_state oid qty ts = Inr s0" and "run_order s0 es = Inr s"
    and "order_status s \<noteq> RECONCILIATION_REQUIRED"
  shows "order_filled_quantity s =
    dsum (map event_fill_quantity (filter (\<lambda>e. event_type e = FILL) (fresh_events event_id {} es)))"
proof -
  have s0: "order_processed_event_ids s0 = {}" "order_filled_quantity s0 = 0"
    using assms(1) by (auto simp: initial_order_state_def split: if_splits)
  have "run_order s0 (fresh_events event_id {} es) = Inr s"
    using order_events.run_fresh [of s0 es] assms(2) s0 by (simp add: run_order_def)
  from run_fill_sum [OF this assms(3) distinct_fresh_events] s0 show ?thesis
    by (simp add: dsum_def)
qed

theorem order_fills_counted_once_witness:
  "order_filled_quantity sample_filled = dsum (map event_fill_quantity
     (filter (\<lambda>e. event_type e = FILL) (fresh_events event_id {} (sample_submission @ sample_fills))))"
  using order_fills_counted_once [OF sample_initial sample_run]
  by (simp add: sample_filled_def)

text \<open>No order is submitted, acknowledged, filled, cancelled, rejected by the broker or
  expired without an independent risk approval: a state reached outside the four pre-approval
  states, or with any fill, has an accepted RISK_APPROVED event in its history, taken while the
  order was pending in risk.\<close>

theorem order_needs_risk_approval:
  assumes "initial_order_state oid qty ts = Inr s0" and "run_order s0 es = Inr s"
    and "order_status s \<notin> {CREATED, RISK_PENDING, order_status.RISK_REJECTED, RECONCILIATION_REQUIRED}
      \<or> order_filled_quantity s \<noteq> 0"
  shows "\<exists>pre e post t. es = pre @ e # post \<and> run_order s0 pre = Inr t
    \<and> order_status t = RISK_PENDING \<and> event_type e = RISK_APPROVED
    \<and> event_id e \<notin> order_processed_event_ids t"
proof (rule run_needs_approval [OF assms(2)])
  show "unapproved s0"
    using assms(1) by (auto simp: initial_order_state_def unapproved_def split: if_splits)
  show "\<not> unapproved s"
    using assms(3) by (auto simp: unapproved_def)
qed

theorem order_needs_risk_approval_witness:
  "\<exists>pre e post t. sample_submission @ sample_fills = pre @ e # post
    \<and> run_order sample_order pre = Inr t
    \<and> order_status t = RISK_PENDING \<and> event_type e = RISK_APPROVED
    \<and> event_id e \<notin> order_processed_event_ids t"
  by (rule order_needs_risk_approval [OF sample_initial sample_run]) (simp add: sample_filled_def)

text \<open>Terminal states fail closed: from a risk-rejected, filled, cancelled, rejected,
  expired or reconciliation state, any further run of events keeps the status or moves it to
  reconciliation, and never changes the filled quantity, the ordered quantity or an assigned
  broker identity.\<close>

theorem order_terminal_fails_closed:
  assumes "terminal_status (order_status s)" and "run_order s es = Inr s'"
  shows "(order_status s' = order_status s \<or> order_status s' = RECONCILIATION_REQUIRED)
    \<and> order_filled_quantity s' = order_filled_quantity s \<and> order_quantity s' = order_quantity s
    \<and> (\<forall>b. order_broker_order_id s = Some b \<longrightarrow> order_broker_order_id s' = Some b)"
  using run_terminal [OF assms(2,1)] run_frame [OF assms(2)] by auto

definition sample_late :: "order_event list" where
  "sample_late = [sample_event ''g'' CANCEL_CONFIRMED 1 0]"

theorem order_terminal_fails_closed_witness:
  "let s' = requires_reconciliation sample_filled (sample_event ''g'' CANCEL_CONFIRMED 1 0)
              ''OUT_OF_ORDER_EVENT''
   in run_order sample_filled sample_late = Inr s'
      \<and> order_status s' = RECONCILIATION_REQUIRED \<and> order_filled_quantity s' = order_filled_quantity sample_filled"
proof -
  let ?s = "requires_reconciliation sample_filled (sample_event ''g'' CANCEL_CONFIRMED 1 0)
              ''OUT_OF_ORDER_EVENT''"
  have t: "terminal_status (order_status sample_filled)"
    by (simp add: terminal_status_def sample_filled_def)
  have r: "run_order sample_filled sample_late = Inr ?s"
    by (simp add: sample_late_def sample_defs sample_filled_def apply_order_event_def)
  from order_terminal_fails_closed [OF t r] r show ?thesis
    by (simp add: Let_def requires_reconciliation_def)
qed

text \<open>C39: A partial fill that races a cancellation takes the order out of CANCEL_PENDING, and the
  broker's later confirmation of the cancellation then raises: the order stays PARTIALLY_FILLED
  although its remainder is cancelled.\<close>

theorem partial_fill_forgets_cancellation:
  assumes "order_status s = CANCEL_PENDING"
    and "event_type f = FILL" and "event_id f \<notin> order_processed_event_ids s"
    and "order_last_event_at s \<le> event_occurred_at f" and "event_broker_order_id f = None"
    and "dadd (order_filled_quantity s) (event_fill_quantity f) < order_quantity s"
    and "event_type c = CANCEL_CONFIRMED"
    and "event_id c \<notin> insert (event_id f) (order_processed_event_ids s)"
    and "event_occurred_at f \<le> event_occurred_at c" and "event_broker_order_id c = None"
  shows "\<exists>s'. apply_order_event s f = Inr s' \<and> order_status s' = PARTIALLY_FILLED
    \<and> apply_order_event s' c = Inl (ValueError
         ''event CANCEL_CONFIRMED is invalid from order state PARTIALLY_FILLED'')"
  using assms
  by (simp add: apply_order_event_def Let_def fillable_def accept_event_def transitions_def
      transition_table_def order_event_type_value_def order_status_value_def)

theorem partial_fill_forgets_cancellation_witness:
  "\<exists>s'. apply_order_event (sample_submitted\<lparr>order_status := CANCEL_PENDING\<rparr>)
           (sample_event ''f'' FILL 5 4) = Inr s' \<and> order_status s' = PARTIALLY_FILLED
     \<and> apply_order_event s' (sample_event ''g'' CANCEL_CONFIRMED 6 0) = Inl (ValueError
         ''event CANCEL_CONFIRMED is invalid from order state PARTIALLY_FILLED'')"
  by (rule partial_fill_forgets_cancellation)
    (simp_all add: sample_submitted_def sample_defs dec_eval)

end
