(* ===== verification/Execution_Repository.thy ===== *)
theory Execution_Repository
  imports Order_State_Machine
begin

text \<open>
  The optimistic-concurrency order repository of \<open>packages/execution/repository.py\<close>.  The two
  tables it uses are the state: the order rows by primary key and the event rows in insertion
  order.  A SELECT is a lookup or a filter, an UPDATE with its WHERE clause returns the row
  count, and the unique constraint on (order, event) is checked when the event row is inserted.
  Quantities are stored exactly, which covers the values within the columns' scale
  (\<open>Numeric(28, 8)\<close>).

  \<open>apply\<close> reads the order row, then the event identities, then writes; other sessions may commit
  between any two of these.  The step relation \<open>repo_step\<close> interleaves any number of workers at
  this granularity, and the invariant shows that the stored state is always the replay of the
  stored event log.
\<close>

section \<open>Tables\<close>

record order_row =
  row_id :: uuid
  row_quantity :: decimal
  row_status :: string
  row_filled_quantity :: decimal
  row_broker_order_id :: "string option"
  row_last_event_at :: instant
  row_version :: nat
  row_reconciliation_reason :: "string option"

record event_row =
  erow_order_id :: uuid
  erow_event_id :: string
  erow_event_type :: string
  erow_occurred_at :: instant
  erow_fill_quantity :: decimal
  erow_broker_order_id :: "string option"
  erow_resulting_version :: nat

record exec_db =
  execution_orders :: "uuid \<rightharpoonup> order_row"
  execution_order_events :: "event_row list"

definition empty_exec_db :: exec_db where
  "empty_exec_db = \<lparr>execution_orders = Map.empty, execution_order_events = []\<rparr>"

definition rows_of :: "exec_db \<Rightarrow> uuid \<Rightarrow> event_row list" where
  "rows_of db oid = filter (\<lambda>r. erow_order_id r = oid) (execution_order_events db)"

text \<open>\<open>OrderEventType(text)\<close>.\<close>

definition all_order_event_types :: "order_event_type list" where
  "all_order_event_types =
     [RISK_REQUESTED, RISK_APPROVED, order_event_type.RISK_REJECTED, SUBMIT_STARTED,
      SUBMIT_CONFIRMED, SUBMISSION_UNKNOWN, BROKER_ACKNOWLEDGED, FILL, CANCEL_REQUESTED,
      CANCEL_CONFIRMED, BROKER_REJECTED, order_event_type.EXPIRED]"

definition order_event_type_of_value :: "string \<Rightarrow> order_event_type result" where
  "order_event_type_of_value t =
     (case List.find (\<lambda>x. order_event_type_value x = t) all_order_event_types of
        None \<Rightarrow> Inl (ValueError ''not a valid OrderEventType'') | Some x \<Rightarrow> Inr x)"

lemma order_event_type_roundtrip [simp]:
  "order_event_type_of_value (order_event_type_value t) = Inr t"
  by (cases t)
    (simp_all add: order_event_type_of_value_def all_order_event_types_def order_event_type_value_def)

section \<open>Operations\<close>

text \<open>\<open>create\<close>: a second row under the same key violates the primary key.\<close>

definition repo_create ::
  "exec_db \<Rightarrow> uuid \<Rightarrow> decimal \<Rightarrow> datetime \<Rightarrow> (exec_db \<times> order_state) result" where
  "repo_create db oid qty ts =
     rbind (initial_order_state oid qty ts) (\<lambda>s.
       if execution_orders db oid \<noteq> None then Inl (RuntimeError ''primary key violation'')
       else Inr (db\<lparr>execution_orders := (execution_orders db)(oid \<mapsto>
              \<lparr>row_id = oid, row_quantity = qty, row_status = order_status_value (order_status s),
               row_filled_quantity = order_filled_quantity s, row_broker_order_id = None,
               row_last_event_at = order_last_event_at s, row_version = 0,
               row_reconciliation_reason = None\<rparr>)\<rparr>, s))"

definition load_row :: "exec_db \<Rightarrow> uuid \<Rightarrow> order_row result" where
  "load_row db oid =
     (case execution_orders db oid of
        None \<Rightarrow> Inl (LookupError ''execution order does not exist'') | Some r \<Rightarrow> Inr r)"

definition load_event_ids :: "exec_db \<Rightarrow> uuid \<Rightarrow> string set" where
  "load_event_ids db oid = set (map erow_event_id (rows_of db oid))"

definition state_of_row :: "order_row \<Rightarrow> string set \<Rightarrow> order_state result" where
  "state_of_row r ids =
     rbind (order_status_of_value (row_status r)) (\<lambda>st.
       Inr \<lparr>order_id = row_id r, order_quantity = row_quantity r, order_status = st,
            order_filled_quantity = row_filled_quantity r,
            order_broker_order_id = row_broker_order_id r,
            order_last_event_at = row_last_event_at r, order_processed_event_ids = ids,
            order_version = row_version r,
            order_reconciliation_reason = row_reconciliation_reason r\<rparr>)"

definition repo_load :: "exec_db \<Rightarrow> uuid \<Rightarrow> order_state result" where
  "repo_load db oid = rbind (load_row db oid) (\<lambda>r. state_of_row r (load_event_ids db oid))"

text \<open>The guarded UPDATE: the new table and the row count.\<close>

definition update_order_row ::
  "exec_db \<Rightarrow> uuid \<Rightarrow> nat \<Rightarrow> order_state \<Rightarrow> exec_db \<times> nat" where
  "update_order_row db oid expected u =
     (case execution_orders db oid of
        None \<Rightarrow> (db, 0)
      | Some r \<Rightarrow>
          if row_version r = expected then
            (db\<lparr>execution_orders := (execution_orders db)(oid \<mapsto>
               r\<lparr>row_status := order_status_value (order_status u),
                 row_filled_quantity := order_filled_quantity u,
                 row_broker_order_id := order_broker_order_id u,
                 row_last_event_at := order_last_event_at u,
                 row_version := order_version u,
                 row_reconciliation_reason := order_reconciliation_reason u\<rparr>)\<rparr>, 1)
          else (db, 0))"

definition encode_event :: "uuid \<Rightarrow> order_event \<Rightarrow> nat \<Rightarrow> event_row" where
  "encode_event oid e v =
     \<lparr>erow_order_id = oid, erow_event_id = event_id e,
      erow_event_type = order_event_type_value (event_type e),
      erow_occurred_at = event_occurred_at e, erow_fill_quantity = event_fill_quantity e,
      erow_broker_order_id = event_broker_order_id e, erow_resulting_version = v\<rparr>"

definition insert_event_row :: "exec_db \<Rightarrow> event_row \<Rightarrow> exec_db result" where
  "insert_event_row db r =
     (if \<exists>r' \<in> set (execution_order_events db).
           erow_order_id r' = erow_order_id r \<and> erow_event_id r' = erow_event_id r
      then Inl (RuntimeError ''unique constraint violation'')
      else Inr (db\<lparr>execution_order_events := execution_order_events db @ [r]\<rparr>))"

text \<open>
  The part of \<open>apply\<close> after the load.  A raise leaves the database as it was: the caller's
  transaction is rolled back.  \<open>updated is current\<close> holds exactly when \<open>apply_order_event\<close>
  returned its argument, which the version distinguishes.
\<close>

definition repo_write ::
  "exec_db \<Rightarrow> uuid \<Rightarrow> order_state \<Rightarrow> order_event \<Rightarrow> (exec_db \<times> order_state) result" where
  "repo_write db oid current e =
     rbind (apply_order_event current e) (\<lambda>updated.
       if updated = current then Inr (db, current)
       else
         let (db', rowcount) = update_order_row db oid (order_version current) updated
         in if rowcount \<noteq> 1
            then Inl (RuntimeError ''concurrent order update requires reload and reconciliation'')
            else rbind (insert_event_row db' (encode_event oid e (order_version updated)))
                   (\<lambda>db''. Inr (db'', updated)))"

text \<open>\<open>apply\<close> with no other session in between.\<close>

definition repo_apply ::
  "exec_db \<Rightarrow> uuid \<Rightarrow> order_event \<Rightarrow> (exec_db \<times> order_state) result" where
  "repo_apply db oid e = rbind (repo_load db oid) (\<lambda>current. repo_write db oid current e)"

definition decode_event :: "event_row \<Rightarrow> order_event result" where
  "decode_event r =
     rbind (order_event_type_of_value (erow_event_type r)) (\<lambda>t.
       make_order_event (erow_event_id r) t (Aware (erow_occurred_at r)) (erow_fill_quantity r)
         (erow_broker_order_id r))"

definition repo_events :: "exec_db \<Rightarrow> uuid \<Rightarrow> order_event list result" where
  "repo_events db oid = rmap decode_event (sort_key erow_resulting_version (rows_of db oid))"

section \<open>Concurrent sessions\<close>

text \<open>
  A worker that runs \<open>apply\<close> is idle, has read the order row, or has read the event identities
  too and holds the reconstructed state.
\<close>

datatype worker =
    Idle
  | Row_Read uuid order_event order_row
  | State_Loaded uuid order_event order_state

record exec_sys =
  sys_db :: exec_db
  sys_workers :: "nat \<Rightarrow> worker"

inductive repo_step :: "exec_sys \<Rightarrow> exec_sys \<Rightarrow> bool" where
  step_create: "repo_create (sys_db s) oid qty ts = Inr (db', st)
     \<Longrightarrow> repo_step s (s\<lparr>sys_db := db'\<rparr>)"
| step_row: "sys_workers s i = Idle \<Longrightarrow> event_ok e \<Longrightarrow> load_row (sys_db s) oid = Inr r
     \<Longrightarrow> repo_step s (s\<lparr>sys_workers := (sys_workers s)(i := Row_Read oid e r)\<rparr>)"
| step_ids: "sys_workers s i = Row_Read oid e r
     \<Longrightarrow> state_of_row r (load_event_ids (sys_db s) oid) = Inr current
     \<Longrightarrow> repo_step s (s\<lparr>sys_workers := (sys_workers s)(i := State_Loaded oid e current)\<rparr>)"
| step_commit: "sys_workers s i = State_Loaded oid e current
     \<Longrightarrow> repo_write (sys_db s) oid current e = Inr (db', updated)
     \<Longrightarrow> repo_step s (s\<lparr>sys_db := db', sys_workers := (sys_workers s)(i := Idle)\<rparr>)"
| step_raise: "sys_workers s i = State_Loaded oid e current
     \<Longrightarrow> repo_write (sys_db s) oid current e = Inl err
     \<Longrightarrow> repo_step s (s\<lparr>sys_workers := (sys_workers s)(i := Idle)\<rparr>)"

definition init_exec_sys :: exec_sys where
  "init_exec_sys = \<lparr>sys_db = empty_exec_db, sys_workers = (\<lambda>_. Idle)\<rparr>"

inductive repo_reachable :: "exec_sys \<Rightarrow> bool" where
  reach_init: "repo_reachable init_exec_sys"
| reach_step: "repo_reachable s \<Longrightarrow> repo_step s t \<Longrightarrow> repo_reachable t"

section \<open>The stored log\<close>

text \<open>The row and the log of one order agree: the row is the replay of the log.\<close>

definition log_rows :: "uuid \<Rightarrow> order_event list \<Rightarrow> event_row list" where
  "log_rows oid evs = map (\<lambda>i. encode_event oid (evs ! i) (i + 1)) [0..<length evs]"

definition replayed :: "exec_db \<Rightarrow> uuid \<Rightarrow> order_row \<Rightarrow> bool" where
  "replayed db oid r \<longleftrightarrow>
     (\<exists>qty ts s0 evs st.
        initial_order_state oid qty (Aware ts) = Inr s0 \<and> (\<forall>e \<in> set evs. event_ok e)
        \<and> rows_of db oid = log_rows oid evs \<and> run_order s0 evs = Inr st
        \<and> state_of_row r (load_event_ids db oid) = Inr st \<and> order_version st = length evs)"

definition db_inv :: "exec_db \<Rightarrow> bool" where
  "db_inv db \<longleftrightarrow>
     (\<forall>oid. case execution_orders db oid of
        None \<Rightarrow> rows_of db oid = [] | Some r \<Rightarrow> row_id r = oid \<and> replayed db oid r)"

definition new_row :: "order_row \<Rightarrow> order_state \<Rightarrow> order_row" where
  "new_row r u = r\<lparr>row_status := order_status_value (order_status u),
     row_filled_quantity := order_filled_quantity u,
     row_broker_order_id := order_broker_order_id u,
     row_last_event_at := order_last_event_at u,
     row_version := order_version u,
     row_reconciliation_reason := order_reconciliation_reason u\<rparr>"

lemma repo_write_cases:
  assumes "repo_write db oid cur e = Inr (db', u)"
  obtains
    (unchanged) "db' = db" "u = cur" "apply_order_event cur e = Inr cur"
  | (written) r where "execution_orders db oid = Some r" "row_version r = order_version cur"
      "apply_order_event cur e = Inr u" "event_id e \<notin> order_processed_event_ids cur"
      "db' = db\<lparr>execution_orders := (execution_orders db)(oid \<mapsto> new_row r u),
               execution_order_events :=
                 execution_order_events db @ [encode_event oid e (order_version u)]\<rparr>"
proof -
  obtain v where v: "apply_order_event cur e = Inr v"
    using assms by (auto simp: repo_write_def rbind_eq_Inr)
  show ?thesis
  proof (cases "v = cur")
    case True
    with assms v have "db' = db" "u = cur" by (simp_all add: repo_write_def)
    with v True show ?thesis using unchanged by simp
  next
    case False
    with v have fresh: "event_id e \<notin> order_processed_event_ids cur"
      using order_events.unchanged_iff by blast
    from assms v False obtain r where "execution_orders db oid = Some r"
      "row_version r = order_version cur" "u = v"
      "db' = db\<lparr>execution_orders := (execution_orders db)(oid \<mapsto> new_row r u),
               execution_order_events :=
                 execution_order_events db @ [encode_event oid e (order_version u)]\<rparr>"
      by (auto simp: repo_write_def update_order_row_def insert_event_row_def new_row_def
          rbind_eq_Inr split: option.splits if_splits)
    with v fresh show ?thesis using written by simp
  qed
qed

lemma state_of_row_Inr:
  "state_of_row r ids = Inr st \<longleftrightarrow>
     order_status_of_value (row_status r) = Inr (order_status st)
     \<and> st = \<lparr>order_id = row_id r, order_quantity = row_quantity r, order_status = order_status st,
          order_filled_quantity = row_filled_quantity r,
          order_broker_order_id = row_broker_order_id r,
          order_last_event_at = row_last_event_at r, order_processed_event_ids = ids,
          order_version = row_version r,
          order_reconciliation_reason = row_reconciliation_reason r\<rparr>"
  by (auto simp: state_of_row_def rbind_eq_Inr)

lemma state_of_row_fields:
  assumes "state_of_row r ids = Inr st"
  shows "order_id st = row_id r" "order_quantity st = row_quantity r"
    "order_processed_event_ids st = ids" "order_version st = row_version r"
  using assms by (auto simp: state_of_row_def rbind_eq_Inr)

lemma state_of_new_row:
  assumes "state_of_row r ids = Inr cur" "apply_order_event cur e = Inr u"
  shows "state_of_row (new_row r u) (insert (event_id e) ids) = Inr u"
proof -
  note f = state_of_row_fields [OF assms(1)]
  have "order_processed_event_ids u = insert (event_id e) ids"
    using order_events.seen_after [OF assms(2)] f by simp
  with apply_frame(1,2) [OF assms(2)] f show ?thesis
    by (simp add: state_of_row_def new_row_def)
qed

lemma log_rows_snoc: "log_rows oid (evs @ [e]) = log_rows oid evs @ [encode_event oid e (length evs + 1)]"
  by (simp add: log_rows_def nth_append)

lemma rows_of_append:
  "rows_of (db\<lparr>execution_orders := o', execution_order_events := execution_order_events db @ [r]\<rparr>) oid =
     rows_of db oid @ (if erow_order_id r = oid then [r] else [])"
  by (simp add: rows_of_def)

lemma rows_of_orders [simp]: "rows_of (db\<lparr>execution_orders := o'\<rparr>) oid = rows_of db oid"
  by (simp add: rows_of_def)

lemma load_event_ids_orders [simp]:
  "load_event_ids (db\<lparr>execution_orders := o'\<rparr>) oid = load_event_ids db oid"
  by (simp add: load_event_ids_def)

lemma replayed_written:
  assumes r: "replayed db oid r" and "row_version r = order_version cur"
    and load: "state_of_row r (load_event_ids db oid) = Inr cur"
    and app: "apply_order_event cur e = Inr u" and new: "event_id e \<notin> order_processed_event_ids cur"
    and ok: "event_ok e"
    and db': "db' = db\<lparr>execution_orders := (execution_orders db)(oid \<mapsto> new_row r u),
               execution_order_events :=
                 execution_order_events db @ [encode_event oid e (order_version u)]\<rparr>"
  shows "replayed db' oid (new_row r u)"
proof -
  obtain qty ts s0 evs where evs: "initial_order_state oid qty (Aware ts) = Inr s0"
    "\<forall>e \<in> set evs. event_ok e" "rows_of db oid = log_rows oid evs" "run_order s0 evs = Inr cur"
    "order_version cur = length evs"
    using r load by (auto simp: replayed_def)
  have ver: "order_version u = length evs + 1"
    using order_events.version_step [OF new app] evs(5) by simp
  have rows: "rows_of db' oid = log_rows oid (evs @ [e])"
    using ver evs(3) by (simp add: db' rows_of_append log_rows_snoc encode_event_def)
  have ids: "load_event_ids db' oid = insert (event_id e) (load_event_ids db oid)"
    by (simp add: db' load_event_ids_def rows_of_append encode_event_def)
  have "run_order s0 (evs @ [e]) = Inr u"
    using evs(4) app by (simp add: run_order_def rfold_append)
  with evs rows ver ok state_of_new_row [OF load app] ids show ?thesis
    unfolding replayed_def
    by (intro exI [of _ qty] exI [of _ ts] exI [of _ s0] exI [of _ "evs @ [e]"] exI [of _ u]) auto
qed

lemma replayed_other:
  assumes "rows_of db' oid = rows_of db oid"
  shows "replayed db' oid r = replayed db oid r"
  using assms by (simp add: replayed_def load_event_ids_def)

text \<open>The invariant as one condition per order, and its transfer to an untouched order.\<close>

definition order_log_inv :: "exec_db \<Rightarrow> uuid \<Rightarrow> bool" where
  "order_log_inv db oid =
     (case execution_orders db oid of
        None \<Rightarrow> rows_of db oid = [] | Some r \<Rightarrow> row_id r = oid \<and> replayed db oid r)"

lemma db_inv_iff: "db_inv db \<longleftrightarrow> (\<forall>oid. order_log_inv db oid)"
  by (simp add: db_inv_def order_log_inv_def)

lemma order_log_inv_transfer:
  assumes "execution_orders db' oid = execution_orders db oid" "rows_of db' oid = rows_of db oid"
  shows "order_log_inv db' oid = order_log_inv db oid"
  using assms replayed_other [OF assms(2)] by (simp add: order_log_inv_def split: option.split)

lemma order_log_inv_Some:
  "order_log_inv db oid \<Longrightarrow> execution_orders db oid = Some r \<Longrightarrow> row_id r = oid \<and> replayed db oid r"
  by (simp add: order_log_inv_def)

lemma order_log_inv_None:
  "order_log_inv db oid \<Longrightarrow> execution_orders db oid = None \<Longrightarrow> rows_of db oid = []"
  by (simp add: order_log_inv_def)

lemma repo_write_inv:
  assumes "db_inv db" "repo_write db oid cur e = Inr (db', u)" "event_ok e"
    and "\<And>r. execution_orders db oid = Some r \<Longrightarrow> row_version r = order_version cur
      \<Longrightarrow> repo_load db oid = Inr cur"
  shows "db_inv db'"
  using assms(2)
proof (cases rule: repo_write_cases)
  case unchanged
  with assms(1) show ?thesis by simp
next
  case (written r)
  have load: "state_of_row r (load_event_ids db oid) = Inr cur"
    using assms(4) [OF written(1,2)] written(1) by (simp add: repo_load_def load_row_def)
  have r: "row_id r = oid" "replayed db oid r"
    using assms(1) written(1) order_log_inv_Some [of db oid r] by (simp_all add: db_inv_iff)
  have mine: "replayed db' oid (new_row r u)"
    by (rule replayed_written [OF r(2) written(2) load written(3,4) assms(3) written(5)])
  have "order_log_inv db' oid'" for oid'
  proof (cases "oid' = oid")
    case True
    with mine r(1) show ?thesis by (simp add: order_log_inv_def written(5) new_row_def)
  next
    case False
    then have "order_log_inv db' oid' = order_log_inv db oid'"
      by (intro order_log_inv_transfer) (simp_all add: written(5) rows_of_append encode_event_def)
    with assms(1) show ?thesis by (simp add: db_inv_iff)
  qed
  then show ?thesis by (simp add: db_inv_iff)
qed

lemma repo_create_inv:
  assumes "db_inv db" "repo_create db oid qty ts = Inr (db', st)"
  shows "db_inv db'"
proof -
  obtain t where t: "initial_order_state oid qty ts = Inr st" "ts = Aware t"
    using assms(2) by (cases ts) (auto simp: repo_create_def rbind_eq_Inr initial_order_state_def split: if_splits)
  have none: "execution_orders db oid = None"
    using assms(2) by (auto simp: repo_create_def rbind_eq_Inr split: if_splits)
  then have rows: "rows_of db oid = []"
    using assms(1) order_log_inv_None by (simp add: db_inv_iff)
  define r where "r = \<lparr>row_id = oid, row_quantity = qty, row_status = order_status_value (order_status st),
    row_filled_quantity = order_filled_quantity st, row_broker_order_id = None,
    row_last_event_at = order_last_event_at st, row_version = 0, row_reconciliation_reason = None\<rparr>"
  have db': "db' = db\<lparr>execution_orders := (execution_orders db)(oid \<mapsto> r)\<rparr>"
    using assms(2) t by (auto simp: repo_create_def rbind_eq_Inr r_def split: if_splits)
  have "state_of_row r {} = Inr st" "order_version st = 0"
    using t by (auto simp: state_of_row_def r_def initial_order_state_def split: if_splits)
  then have "replayed db' oid r"
    unfolding replayed_def using t rows
    by (intro exI [of _ qty] exI [of _ t] exI [of _ st] exI [of _ "[]"])
      (simp add: db' log_rows_def load_event_ids_def)
  then have mine: "order_log_inv db' oid"
    by (simp add: order_log_inv_def db' r_def)
  have "order_log_inv db' oid'" for oid'
  proof (cases "oid' = oid")
    case False
    then have "order_log_inv db' oid' = order_log_inv db oid'"
      by (intro order_log_inv_transfer) (simp_all add: db')
    with assms(1) show ?thesis by (simp add: db_inv_iff)
  qed (simp add: mine)
  then show ?thesis by (simp add: db_inv_iff)
qed

section \<open>Interleaved workers\<close>

text \<open>
  What a worker has read may be out of date, but its version tells: as long as the stored
  version equals the one it read, the row and the event identities are the ones it read.
\<close>

definition worker_inv :: "exec_db \<Rightarrow> worker \<Rightarrow> bool" where
  "worker_inv db w =
     (case w of
        Idle \<Rightarrow> True
      | Row_Read oid e r0 \<Rightarrow> event_ok e \<and> row_id r0 = oid
          \<and> (\<exists>r. execution_orders db oid = Some r \<and> row_version r0 \<le> row_version r
               \<and> (row_version r0 = row_version r \<longrightarrow> r0 = r))
      | State_Loaded oid e cur \<Rightarrow> event_ok e \<and> order_id cur = oid
          \<and> (\<exists>r. execution_orders db oid = Some r \<and> order_version cur \<le> row_version r
               \<and> (order_version cur = row_version r \<longrightarrow> repo_load db oid = Inr cur)))"

definition sys_inv :: "exec_sys \<Rightarrow> bool" where
  "sys_inv s \<longleftrightarrow> db_inv (sys_db s) \<and> (\<forall>i. worker_inv (sys_db s) (sys_workers s i))"

lemma worker_inv_transfer:
  assumes "worker_inv db w"
    and "\<And>oid r. execution_orders db oid = Some r \<Longrightarrow>
      \<exists>r'. execution_orders db' oid = Some r' \<and> row_version r \<le> row_version r'
        \<and> (row_version r = row_version r' \<longrightarrow> r' = r \<and> rows_of db' oid = rows_of db oid)"
  shows "worker_inv db' w"
proof (cases w)
  case Idle
  then show ?thesis by (simp add: worker_inv_def)
next
  case (Row_Read oid e r0)
  with assms(1) obtain r where r: "execution_orders db oid = Some r" "row_version r0 \<le> row_version r"
    "row_version r0 = row_version r \<longrightarrow> r0 = r" "event_ok e" "row_id r0 = oid"
    by (auto simp: worker_inv_def)
  from assms(2) [OF r(1)] obtain r' where "execution_orders db' oid = Some r'"
    "row_version r \<le> row_version r'" "row_version r = row_version r' \<longrightarrow> r' = r" by blast
  with r Row_Read show ?thesis by (auto simp: worker_inv_def)
next
  case (State_Loaded oid e cur)
  with assms(1) obtain r where r: "execution_orders db oid = Some r" "order_version cur \<le> row_version r"
    "order_version cur = row_version r \<longrightarrow> repo_load db oid = Inr cur" "event_ok e" "order_id cur = oid"
    by (auto simp: worker_inv_def)
  from assms(2) [OF r(1)] obtain r' where r': "execution_orders db' oid = Some r'"
    "row_version r \<le> row_version r'"
    "row_version r = row_version r' \<longrightarrow> r' = r \<and> rows_of db' oid = rows_of db oid" by blast
  have "repo_load db' oid = repo_load db oid" if "row_version r = row_version r'"
    using that r(1) r' by (simp add: repo_load_def load_row_def load_event_ids_def)
  with r r' State_Loaded show ?thesis by (auto simp: worker_inv_def)
qed

lemma repo_write_monotone:
  assumes "repo_write db oid cur e = Inr (db', u)" "execution_orders db oid' = Some r"
  shows "\<exists>r'. execution_orders db' oid' = Some r' \<and> row_version r \<le> row_version r'
    \<and> (row_version r = row_version r' \<longrightarrow> r' = r \<and> rows_of db' oid' = rows_of db oid')"
  using assms(1)
proof (cases rule: repo_write_cases)
  case unchanged
  with assms(2) show ?thesis by simp
next
  case (written q)
  have "order_version u = order_version cur + 1"
    by (rule order_events.version_step [OF written(4,3)])
  with written assms(2) show ?thesis
    by (cases "oid' = oid") (simp_all add: new_row_def rows_of_append encode_event_def)
qed

lemma repo_create_monotone:
  assumes "repo_create db oid qty ts = Inr (db', u)" "execution_orders db oid' = Some r"
  shows "execution_orders db' oid' = Some r \<and> rows_of db' oid' = rows_of db oid'"
  using assms by (auto simp: repo_create_def rbind_eq_Inr split: if_splits)

lemma repo_step_inv:
  assumes "repo_step s t" "sys_inv s"
  shows "sys_inv t"
  using assms
proof (induction rule: repo_step.induct)
  case (step_create s oid qty ts db' st)
  then have "db_inv db'" using repo_create_inv by (auto simp: sys_inv_def)
  moreover have "worker_inv db' (sys_workers s i)" for i
  proof (rule worker_inv_transfer)
    show "worker_inv (sys_db s) (sys_workers s i)" using step_create.prems by (simp add: sys_inv_def)
  qed (use repo_create_monotone [OF step_create.hyps] in blast)
  ultimately show ?case by (simp add: sys_inv_def)
next
  case (step_row s i e oid r)
  then have "execution_orders (sys_db s) oid = Some r"
    by (auto simp: load_row_def split: option.splits)
  moreover from this step_row.prems have "row_id r = oid"
    using order_log_inv_Some by (auto simp: sys_inv_def db_inv_iff)
  ultimately show ?case using step_row by (simp add: sys_inv_def worker_inv_def)
next
  case (step_ids s i oid e r0 cur)
  then have "worker_inv (sys_db s) (Row_Read oid e r0)"
    by (metis sys_inv_def)
  then obtain r where r: "execution_orders (sys_db s) oid = Some r" "row_version r0 \<le> row_version r"
    "row_version r0 = row_version r \<longrightarrow> r0 = r" "event_ok e" "row_id r0 = oid"
    by (auto simp: worker_inv_def)
  with state_of_row_fields [OF step_ids.hyps(2)] step_ids.hyps(2)
  have "worker_inv (sys_db s) (State_Loaded oid e cur)"
    by (auto simp: worker_inv_def repo_load_def load_row_def)
  with step_ids.prems show ?case by (simp add: sys_inv_def)
next
  case (step_commit s i oid e cur db' u)
  then have w: "worker_inv (sys_db s) (State_Loaded oid e cur)"
    by (metis sys_inv_def)
  then have "repo_load (sys_db s) oid = Inr cur"
    if "execution_orders (sys_db s) oid = Some r" "row_version r = order_version cur" for r
    using that by (auto simp: worker_inv_def)
  moreover have "event_ok e" using w by (simp add: worker_inv_def)
  ultimately have "db_inv db'"
    using repo_write_inv [OF _ step_commit.hyps(2)] step_commit.prems by (auto simp: sys_inv_def)
  moreover have "worker_inv db' (sys_workers s j)" for j
  proof (rule worker_inv_transfer)
    show "worker_inv (sys_db s) (sys_workers s j)" using step_commit.prems by (simp add: sys_inv_def)
  qed (rule repo_write_monotone [OF step_commit.hyps(2)])
  ultimately show ?case by (simp add: sys_inv_def worker_inv_def)
next
  case (step_raise s i oid e cur err)
  then show ?case by (simp add: sys_inv_def worker_inv_def)
qed

lemma repo_reachable_inv: "repo_reachable s \<Longrightarrow> sys_inv s"
proof (induction rule: repo_reachable.induct)
  case reach_init
  show ?case
    by (simp add: sys_inv_def init_exec_sys_def db_inv_def empty_exec_db_def rows_of_def worker_inv_def)
qed (rule repo_step_inv)

section \<open>Reading the log back\<close>

lemma decode_encode_event: "event_ok e \<Longrightarrow> decode_event (encode_event oid e v) = Inr e"
  by (auto simp: decode_event_def encode_event_def make_order_event_def event_ok_def)

lemma log_rows_sorted: "sort_key erow_resulting_version (log_rows oid evs) = log_rows oid evs"
proof (rule sort_key_id_if_sorted)
  have "map erow_resulting_version (log_rows oid evs) = map Suc [0..<length evs]"
    by (simp add: log_rows_def encode_event_def)
  then show "sorted (map erow_resulting_version (log_rows oid evs))"
    by (simp add: map_Suc_upt del: upt_Suc)
qed

lemma rmap_decode_log: "\<forall>e \<in> set evs. event_ok e \<Longrightarrow> rmap decode_event (log_rows oid evs) = Inr evs"
proof (induction evs rule: rev_induct)
  case (snoc e evs)
  have app: "rmap f (xs @ [x]) = rbind (rmap f xs) (\<lambda>ys. rbind (f x) (\<lambda>y. Inr (ys @ [y])))"
    for f :: "event_row \<Rightarrow> order_event result" and xs x
    by (induction xs) (simp_all add: rbind_assoc)
  from snoc show ?case by (simp add: log_rows_snoc app decode_encode_event)
qed (simp add: log_rows_def)

lemma repo_reachable_apply:
  assumes "repo_reachable s" "sys_workers s 0 = Idle" "event_ok e"
    and "repo_apply (sys_db s) oid e = Inr (db', u)"
  shows "repo_reachable (s\<lparr>sys_db := db'\<rparr>)"
proof -
  obtain r cur where r: "load_row (sys_db s) oid = Inr r"
    "state_of_row r (load_event_ids (sys_db s) oid) = Inr cur"
    "repo_write (sys_db s) oid cur e = Inr (db', u)"
    using assms(4) by (auto simp: repo_apply_def repo_load_def rbind_eq_Inr)
  let ?s1 = "s\<lparr>sys_workers := (sys_workers s)(0 := Row_Read oid e r)\<rparr>"
  let ?s2 = "s\<lparr>sys_workers := (sys_workers s)(0 := State_Loaded oid e cur)\<rparr>"
  have "repo_step s ?s1"
    by (rule step_row [OF assms(2,3) r(1)])
  then have "repo_reachable ?s1" using assms(1) reach_step by blast
  moreover have "repo_step ?s1 ?s2"
    using step_ids [of ?s1 0 oid e r cur] r(2) by simp
  ultimately have "repo_reachable ?s2" using reach_step by blast
  moreover have "repo_step ?s2 (s\<lparr>sys_db := db', sys_workers := (sys_workers s)(0 := Idle)\<rparr>)"
    using step_commit [of ?s2 0 oid e cur db' u] r(3) by simp
  ultimately have "repo_reachable (s\<lparr>sys_db := db', sys_workers := (sys_workers s)(0 := Idle)\<rparr>)"
    using reach_step by blast
  moreover have "(sys_workers s)(0 := Idle) = sys_workers s"
    using assms(2) by (rule fun_upd_idem)
  ultimately show ?thesis by simp
qed

section \<open>A concrete store\<close>

definition sample_row :: order_row where
  "sample_row = \<lparr>row_id = 7, row_quantity = 10, row_status = ''CREATED'', row_filled_quantity = 0,
     row_broker_order_id = None, row_last_event_at = 0, row_version = 0,
     row_reconciliation_reason = None\<rparr>"

definition sample_db :: exec_db where
  "sample_db = \<lparr>execution_orders = [7 \<mapsto> sample_row], execution_order_events = []\<rparr>"

definition sample_risk_request :: order_event where
  "sample_risk_request = sample_event ''a'' RISK_REQUESTED 1 0"

definition sample_pending :: order_state where
  "sample_pending = sample_order\<lparr>order_status := RISK_PENDING, order_last_event_at := 1,
     order_processed_event_ids := {''a''}, order_version := 1\<rparr>"

definition sample_db1 :: exec_db where
  "sample_db1 = \<lparr>execution_orders = [7 \<mapsto> new_row sample_row sample_pending],
     execution_order_events = [encode_event 7 sample_risk_request 1]\<rparr>"

lemma sample_risk_request_ok: "event_ok sample_risk_request"
  by (simp add: sample_risk_request_def sample_defs event_ok_def blank_def is_space_def Let_def of_char_def)

lemma sample_create: "repo_create empty_exec_db 7 10 (Aware 0) = Inr (sample_db, sample_order)"
  by (simp add: repo_create_def sample_initial empty_exec_db_def sample_db_def sample_row_def
      order_status_value_def sample_order_def)

lemma sample_load: "repo_load sample_db 7 = Inr sample_order"
proof -
  have "order_status_of_value ''CREATED'' = Inr CREATED"
    using order_status_roundtrip [of CREATED] by (simp add: order_status_value_def)
  then show ?thesis
    by (simp add: repo_load_def load_row_def sample_db_def state_of_row_def sample_row_def
        load_event_ids_def rows_of_def sample_order_def)
qed

lemma sample_pending_step: "apply_order_event sample_order sample_risk_request = Inr sample_pending"
  by (simp add: apply_order_event_def sample_risk_request_def sample_defs sample_pending_def
      transitions_def transition_table_def accept_event_def)

lemma sample_write:
  "repo_write sample_db 7 sample_order sample_risk_request = Inr (sample_db1, sample_pending)"
proof -
  have "sample_pending \<noteq> sample_order" "order_version sample_order = 0" "order_version sample_pending = 1"
    by (simp_all add: sample_pending_def sample_order_def)
  then show ?thesis
    by (simp add: repo_write_def sample_pending_step update_order_row_def sample_db_def sample_row_def
        insert_event_row_def sample_db1_def new_row_def)
qed

lemma sample_apply: "repo_apply sample_db 7 sample_risk_request = Inr (sample_db1, sample_pending)"
  by (simp add: repo_apply_def sample_load sample_write)

lemma sample_reachable: "repo_reachable (init_exec_sys\<lparr>sys_db := sample_db\<rparr>)"
  by (rule reach_step [OF reach_init step_create [of init_exec_sys 7 10 "Aware 0" _ sample_order]])
    (simp add: init_exec_sys_def sample_create)

lemma sample_reachable1: "repo_reachable (init_exec_sys\<lparr>sys_db := sample_db1\<rparr>)"
  using repo_reachable_apply [OF sample_reachable _ sample_risk_request_ok, of 7 sample_db1 sample_pending]
  by (simp add: sample_apply init_exec_sys_def)

lemma sample_load1: "repo_load sample_db1 7 = Inr sample_pending"
  by (simp add: repo_load_def load_row_def sample_db1_def state_of_row_def new_row_def sample_row_def
      load_event_ids_def rows_of_def encode_event_def sample_risk_request_def sample_defs sample_pending_def)

section \<open>Properties of the repository\<close>



text \<open>No lost update: of two sessions that loaded the same state of an order and each carry a
  new event, once one has written, the other's write raises and asks for a reload.\<close>

theorem no_lost_update:
  assumes "repo_write db oid current e1 = Inr (db1, u1)"
    and "event_id e1 \<notin> order_processed_event_ids current"
    and "apply_order_event current e2 = Inr u2" and "event_id e2 \<notin> order_processed_event_ids current"
  shows "repo_write db1 oid current e2 =
    Inl (RuntimeError ''concurrent order update requires reload and reconciliation'')"
proof -
  have u2: "u2 \<noteq> current"
    using order_events.unchanged_iff [OF assms(3)] assms(4) by simp
  from assms(1) show ?thesis
  proof (cases rule: repo_write_cases)
    case unchanged
    with order_events.unchanged_iff [OF unchanged(3)] assms(2) show ?thesis by simp
  next
    case (written r)
    have "order_version u1 = order_version current + 1"
      by (rule order_events.version_step [OF written(4,3)])
    with written u2 show ?thesis
      by (simp add: repo_write_def assms(3) update_order_row_def new_row_def)
  qed
qed

theorem no_lost_update_witness:
  "repo_write sample_db1 7 sample_order (sample_event ''z'' RISK_REQUESTED 2 0) =
    Inl (RuntimeError ''concurrent order update requires reload and reconciliation'')"
proof (rule no_lost_update [OF sample_write])
  show "apply_order_event sample_order (sample_event ''z'' RISK_REQUESTED 2 0) =
    Inr (accept_event sample_order (sample_event ''z'' RISK_REQUESTED 2 0) RISK_PENDING 0 None)"
    by (simp add: apply_order_event_def sample_defs transitions_def transition_table_def)
qed (simp_all add: sample_defs)

text \<open>A persisted callback is idempotent across restarts: delivering an event again to the
  repository that stored it returns the same state and leaves both tables unchanged.\<close>

theorem repository_redelivery_is_noop:
  assumes "repo_reachable s" and "event_ok e" and "repo_apply (sys_db s) oid e = Inr (db', u)"
  shows "repo_apply db' oid e = Inr (db', u)"
proof -
  obtain cur where load: "repo_load (sys_db s) oid = Inr cur"
    and wr: "repo_write (sys_db s) oid cur e = Inr (db', u)"
    using assms(3) by (auto simp: repo_apply_def rbind_eq_Inr)
  have app: "apply_order_event cur e = Inr u"
    using wr by (cases rule: repo_write_cases) auto
  have "repo_load db' oid = Inr u"
    using wr
  proof (cases rule: repo_write_cases)
    case (written r)
    have "state_of_row r (load_event_ids (sys_db s) oid) = Inr cur"
      using load written(1) by (simp add: repo_load_def load_row_def)
    from state_of_new_row [OF this app] show ?thesis
      by (simp add: repo_load_def load_row_def written(5) load_event_ids_def rows_of_append encode_event_def)
  qed (use load in simp)
  with order_events.redelivery [OF app] show ?thesis
    by (simp add: repo_apply_def repo_write_def)
qed

theorem repository_redelivery_is_noop_witness:
  "repo_apply sample_db1 7 sample_risk_request = Inr (sample_db1, sample_pending)"
  using repository_redelivery_is_noop [OF sample_reachable sample_risk_request_ok,
      of 7 sample_db1 sample_pending] sample_apply
  by (simp add: init_exec_sys_def)

end
