(* ===== verification/Reconciliation.thy ===== *)
theory Reconciliation
  imports Order_State_Machine
begin

text \<open>
  Broker/local reconciliation (\<open>packages/execution/reconciliation.py\<close>).  The dictionaries keyed by
  broker order ID are association lists in insertion order, because the issues are reported in
  that order.  The text of an issue is kept as the values it is rendered from.  The main
  result characterises \<open>safe_to_trade\<close>: it holds exactly when the two books are in a perfect
  one-to-one correspondence.
\<close>

datatype issue_type =
    UNKNOWN_BROKER_ORDER | MISSING_BROKER_ORDER | DUPLICATE_BROKER_ORDER
  | FILLED_QUANTITY_MISMATCH | STATUS_MISMATCH

record broker_snapshot =
  snap_broker_order_id :: string
  snap_status :: order_status
  snap_quantity :: decimal
  snap_filled_quantity :: decimal

definition make_broker_snapshot ::
  "string \<Rightarrow> order_status \<Rightarrow> decimal \<Rightarrow> decimal \<Rightarrow> broker_snapshot result" where
  "make_broker_snapshot bid st q f =
     (if blank bid then Inl (ValueError ''broker order ID cannot be empty'')
      else if q \<le> 0 \<or> f < 0 \<or> f > q then Inl (ValueError ''invalid broker order quantities'')
      else Inr \<lparr>snap_broker_order_id = bid, snap_status = st, snap_quantity = q,
                snap_filled_quantity = f\<rparr>)"

datatype issue_details =
    No_Broker_Id uuid order_status
  | Several_Local_Orders
  | Duplicate_Identity
  | Local_Status order_status
  | Quantities decimal decimal decimal decimal
  | Statuses order_status order_status
  | Broker_Status order_status

record recon_issue =
  issue_type :: issue_type
  issue_broker_order_id :: string
  issue_details :: issue_details

record recon_result =
  safe_to_trade :: bool
  matched_orders :: nat
  recon_issues :: "recon_issue list"

definition pre_broker_states :: "order_status set" where
  "pre_broker_states = {CREATED, RISK_PENDING, order_status.RISK_REJECTED, order_status.APPROVED}"

definition mk_issue :: "issue_type \<Rightarrow> string \<Rightarrow> issue_details \<Rightarrow> recon_issue" where
  "mk_issue t b d = \<lparr>issue_type = t, issue_broker_order_id = b, issue_details = d\<rparr>"

text \<open>The first loop: local orders into the dictionary by broker ID.\<close>

fun index_local ::
  "recon_issue list \<times> (string \<times> order_state) list \<Rightarrow> order_state
   \<Rightarrow> recon_issue list \<times> (string \<times> order_state) list" where
  "index_local (issues, by) s =
     (case order_broker_order_id s of
        None \<Rightarrow>
          (if order_status s \<notin> pre_broker_states
           then (issues @ [mk_issue MISSING_BROKER_ORDER ''<unassigned>''
                             (No_Broker_Id (order_id s) (order_status s))], by)
           else (issues, by))
      | Some b \<Rightarrow>
          (if b \<in> fst ` set by
           then (issues @ [mk_issue DUPLICATE_BROKER_ORDER b Several_Local_Orders], by)
           else (issues, by @ [(b, s)])))"

text \<open>The second loop: broker snapshots.\<close>

fun index_broker ::
  "recon_issue list \<times> (string \<times> broker_snapshot) list \<Rightarrow> broker_snapshot
   \<Rightarrow> recon_issue list \<times> (string \<times> broker_snapshot) list" where
  "index_broker (issues, by) b =
     (if snap_broker_order_id b \<in> fst ` set by
      then (issues @ [mk_issue DUPLICATE_BROKER_ORDER (snap_broker_order_id b) Duplicate_Identity], by)
      else (issues, by @ [(snap_broker_order_id b, b)]))"

text \<open>The third loop: the issues of one local order against the broker dictionary.\<close>

definition compare_order ::
  "(string \<times> broker_snapshot) list \<Rightarrow> string \<times> order_state \<Rightarrow> recon_issue list" where
  "compare_order brokers p =
     (case p of (b, l) \<Rightarrow>
       (case map_of brokers b of
          None \<Rightarrow> [mk_issue MISSING_BROKER_ORDER b (Local_Status (order_status l))]
        | Some k \<Rightarrow>
            (if order_quantity l \<noteq> snap_quantity k \<or> order_filled_quantity l \<noteq> snap_filled_quantity k
             then [mk_issue FILLED_QUANTITY_MISMATCH b
                     (Quantities (order_filled_quantity l) (order_quantity l)
                        (snap_filled_quantity k) (snap_quantity k))]
             else [])
            @ (if order_status l \<noteq> snap_status k
               then [mk_issue STATUS_MISMATCH b (Statuses (order_status l) (snap_status k))]
               else [])))"

definition unknown_orders ::
  "(string \<times> order_state) list \<Rightarrow> (string \<times> broker_snapshot) list \<Rightarrow> recon_issue list" where
  "unknown_orders locals brokers =
     map (\<lambda>(b, k). mk_issue UNKNOWN_BROKER_ORDER b (Broker_Status (snap_status k)))
       (filter (\<lambda>(b, k). b \<notin> fst ` set locals) brokers)"

definition reconcile_orders :: "order_state list \<Rightarrow> broker_snapshot list \<Rightarrow> recon_result" where
  "reconcile_orders local_orders broker_orders =
     (let (issues1, locals) = foldl index_local ([], []) local_orders;
          (issues2, brokers) = foldl index_broker (issues1, []) broker_orders;
          matched = length (filter (\<lambda>(b, l). map_of brokers b \<noteq> None) locals);
          issues = issues2 @ concat (map (compare_order brokers) locals) @ unknown_orders locals brokers
      in \<lparr>safe_to_trade = (issues = []), matched_orders = matched, recon_issues = issues\<rparr>)"

section \<open>The dictionaries\<close>

definition assigned :: "order_state list \<Rightarrow> (string \<times> order_state) list" where
  "assigned os = concat (map (\<lambda>s. case order_broker_order_id s of None \<Rightarrow> [] | Some b \<Rightarrow> [(b, s)]) os)"

definition identified :: "broker_snapshot list \<Rightarrow> (string \<times> broker_snapshot) list" where
  "identified bs = map (\<lambda>b. (snap_broker_order_id b, b)) bs"

lemma assigned_simps [simp]:
  "assigned [] = []"
  "assigned (s # os) = (case order_broker_order_id s of None \<Rightarrow> [] | Some b \<Rightarrow> [(b, s)]) @ assigned os"
  by (simp_all add: assigned_def)

lemma set_assigned: "(b, s) \<in> set (assigned os) \<longleftrightarrow> s \<in> set os \<and> order_broker_order_id s = Some b"
  by (induction os) (auto split: option.splits)

lemma index_local_keeps:
  "foldl index_local (iss, by) os = (iss', by') \<Longrightarrow> iss \<noteq> [] \<Longrightarrow> iss' \<noteq> []"
  by (induction os arbitrary: iss "by") (auto split: option.splits if_splits)

lemma index_local_issues:
  assumes "foldl index_local ([], by) os = (iss, by')"
  shows "(iss = [] \<longleftrightarrow>
      (\<forall>s \<in> set os. order_broker_order_id s = None \<longrightarrow> order_status s \<in> pre_broker_states)
      \<and> distinct (map fst (assigned os)) \<and> fst ` set (assigned os) \<inter> fst ` set by = {})
    \<and> (iss = [] \<longrightarrow> by' = by @ assigned os)"
  using assms
proof (induction os arbitrary: "by")
  case (Cons s os)
  show ?case
  proof (cases "order_broker_order_id s")
    case None
    show ?thesis
    proof (cases "order_status s \<in> pre_broker_states")
      case True
      with Cons.IH [of "by"] Cons.prems None show ?thesis by simp
    next
      case False
      with Cons.prems None index_local_keeps have "iss \<noteq> []" by fastforce
      with False None show ?thesis by auto
    qed
  next
    case (Some b)
    show ?thesis
    proof (cases "b \<in> fst ` set by")
      case True
      from Cons.prems True Some
      have "foldl index_local ([mk_issue DUPLICATE_BROKER_ORDER b Several_Local_Orders], by) os = (iss, by')"
        by simp
      then have "iss \<noteq> []" by (rule index_local_keeps) simp
      with True Some show ?thesis by auto
    next
      case False
      with Cons.IH [of "by @ [(b, s)]"] Cons.prems Some show ?thesis by (auto simp: image_iff)
    qed
  qed
qed simp

lemma index_broker_keeps:
  "foldl index_broker (iss, by) bs = (iss', by') \<Longrightarrow> iss \<noteq> [] \<Longrightarrow> iss' \<noteq> []"
  by (induction bs arbitrary: iss "by") (auto split: if_splits)

lemma index_broker_issues:
  assumes "foldl index_broker ([], by) bs = (iss, by')"
  shows "(iss = [] \<longleftrightarrow>
      distinct (map fst (identified bs)) \<and> fst ` set (identified bs) \<inter> fst ` set by = {})
    \<and> (iss = [] \<longrightarrow> by' = by @ identified bs)"
  using assms
proof (induction bs arbitrary: "by")
  case (Cons k bs)
  show ?case
  proof (cases "snap_broker_order_id k \<in> fst ` set by")
    case True
    with Cons.prems have "foldl index_broker
      ([mk_issue DUPLICATE_BROKER_ORDER (snap_broker_order_id k) Duplicate_Identity], by) bs = (iss, by')"
      by simp
    then have "iss \<noteq> []" by (rule index_broker_keeps) simp
    with True show ?thesis by (auto simp: identified_def)
  next
    case False
    with Cons.IH [of "by @ [(snap_broker_order_id k, k)]"] Cons.prems show ?thesis
      by (auto simp: identified_def image_iff)
  qed
qed (simp add: identified_def)

text \<open>The books agree: what \<open>safe_to_trade\<close> promises.\<close>

definition orders_agree :: "order_state \<Rightarrow> broker_snapshot \<Rightarrow> bool" where
  "orders_agree l k \<longleftrightarrow>
     order_quantity l = snap_quantity k \<and> order_filled_quantity l = snap_filled_quantity k
     \<and> order_status l = snap_status k"

definition books_agree :: "order_state list \<Rightarrow> broker_snapshot list \<Rightarrow> bool" where
  "books_agree os bs \<longleftrightarrow>
     (\<forall>s \<in> set os. order_broker_order_id s = None \<longrightarrow> order_status s \<in> pre_broker_states)
     \<and> distinct (map fst (assigned os)) \<and> distinct (map snap_broker_order_id bs)
     \<and> fst ` set (assigned os) = snap_broker_order_id ` set bs
     \<and> (\<forall>s \<in> set os. \<forall>k \<in> set bs.
           order_broker_order_id s = Some (snap_broker_order_id k) \<longrightarrow> orders_agree s k)"

lemma identified_fst: "map fst (identified bs) = map snap_broker_order_id bs"
  by (simp add: identified_def)

lemma map_of_identified:
  "distinct (map snap_broker_order_id bs) \<Longrightarrow>
     map_of (identified bs) b = Some k \<longleftrightarrow> k \<in> set bs \<and> snap_broker_order_id k = b"
  by (subst map_of_eq_Some_iff) (auto simp: identified_def comp_def)

lemma map_of_identified_None:
  "map_of (identified bs) b = None \<longleftrightarrow> b \<notin> snap_broker_order_id ` set bs"
  by (auto simp: map_of_eq_None_iff identified_def image_image)

lemma compare_order_Nil:
  "compare_order brokers (b, l) = [] \<longleftrightarrow> (\<exists>k. map_of brokers b = Some k \<and> orders_agree l k)"
  by (auto simp: compare_order_def orders_agree_def split: option.splits)

lemma unknown_orders_Nil:
  "unknown_orders locals brokers = [] \<longleftrightarrow> fst ` set brokers \<subseteq> fst ` set locals"
  by (force simp: unknown_orders_def filter_empty_conv)

lemma comparisons_agree:
  assumes "distinct (map snap_broker_order_id bs)"
  shows "concat (map (compare_order (identified bs)) (assigned os)) = []
      \<and> unknown_orders (assigned os) (identified bs) = []
    \<longleftrightarrow> fst ` set (assigned os) = snap_broker_order_id ` set bs
      \<and> (\<forall>s \<in> set os. \<forall>k \<in> set bs.
           order_broker_order_id s = Some (snap_broker_order_id k) \<longrightarrow> orders_agree s k)"
    (is "?L \<longleftrightarrow> ?R")
proof -
  have keys: "fst ` set (identified bs) = snap_broker_order_id ` set bs"
    by (auto simp: identified_def image_image)
  have cmp: "concat (map (compare_order (identified bs)) (assigned os)) = []
    \<longleftrightarrow> (\<forall>s \<in> set os. \<forall>b. order_broker_order_id s = Some b \<longrightarrow>
          (\<exists>k \<in> set bs. snap_broker_order_id k = b \<and> orders_agree s k))"
  proof -
    have "concat (map (compare_order (identified bs)) (assigned os)) = []
      \<longleftrightarrow> (\<forall>b s. (b, s) \<in> set (assigned os) \<longrightarrow> compare_order (identified bs) (b, s) = [])"
      by auto
    also have "\<dots> \<longleftrightarrow> (\<forall>s \<in> set os. \<forall>b. order_broker_order_id s = Some b \<longrightarrow>
          (\<exists>k \<in> set bs. snap_broker_order_id k = b \<and> orders_agree s k))"
      unfolding compare_order_Nil set_assigned map_of_identified [OF assms] by blast
    finally show ?thesis .
  qed
  have uniq: "k = k'" if "k \<in> set bs" "k' \<in> set bs" "snap_broker_order_id k = snap_broker_order_id k'" for k k'
    using distinct_map_filter_unique [OF assms that] .
  have dom: "b \<in> fst ` set (assigned os) \<longleftrightarrow> (\<exists>s \<in> set os. order_broker_order_id s = Some b)" for b
  proof -
    have "b \<in> fst ` set (assigned os) \<longleftrightarrow> (\<exists>s. (b, s) \<in> set (assigned os))" by force
    then show ?thesis unfolding set_assigned by blast
  qed
  show ?thesis
  proof
    assume L: ?L
    then have sub: "snap_broker_order_id ` set bs \<subseteq> fst ` set (assigned os)"
      by (simp add: unknown_orders_Nil keys)
    moreover have "fst ` set (assigned os) \<subseteq> snap_broker_order_id ` set bs"
      using L cmp dom by (metis (no_types, lifting) image_eqI subsetI)
    moreover have "orders_agree s k" if "s \<in> set os" "k \<in> set bs"
      "order_broker_order_id s = Some (snap_broker_order_id k)" for s k
      using L cmp that uniq by metis
    ultimately show ?R by blast
  next
    assume R: ?R
    then have "unknown_orders (assigned os) (identified bs) = []"
      by (simp add: unknown_orders_Nil keys)
    moreover have "\<exists>k \<in> set bs. snap_broker_order_id k = b \<and> orders_agree s k"
      if "s \<in> set os" "order_broker_order_id s = Some b" for s b
    proof -
      have "b \<in> snap_broker_order_id ` set bs" using that dom [of b] R by auto
      then obtain k where k: "k \<in> set bs" "snap_broker_order_id k = b" by auto
      with R that have "orders_agree s k" by auto
      with k show ?thesis by auto
    qed
    ultimately show ?L using cmp by blast
  qed
qed

lemma safe_iff_books_agree: "safe_to_trade (reconcile_orders os bs) \<longleftrightarrow> books_agree os bs"
proof -
  obtain i1 locals where l: "foldl index_local ([], []) os = (i1, locals)" by fastforce
  obtain i2 brokers where b: "foldl index_broker (i1, []) bs = (i2, brokers)" by fastforce
  have safe: "safe_to_trade (reconcile_orders os bs) \<longleftrightarrow> i2 = []
    \<and> concat (map (compare_order brokers) locals) = [] \<and> unknown_orders locals brokers = []"
    by (simp add: reconcile_orders_def l b)
  note L = index_local_issues [OF l]
  show ?thesis
  proof (cases "i1 = []")
    case False
    with index_broker_keeps [OF b] safe L show ?thesis by (auto simp: books_agree_def)
  next
    case True
    note B = index_broker_issues [OF b [unfolded True]]
    show ?thesis
    proof (cases "i2 = []")
      case False
      with B safe show ?thesis by (auto simp: books_agree_def identified_fst)
    next
      case i2: True
      with B True L have eq: "locals = assigned os" "brokers = identified bs"
        and d: "distinct (map snap_broker_order_id bs)"
        by (auto simp: identified_fst)
      from comparisons_agree [OF d, of os] safe i2 True L d show ?thesis
        by (auto simp: books_agree_def eq)
    qed
  qed
qed

section \<open>Properties\<close>

text \<open>C33: Reconciliation reports that it is safe to trade exactly when the books agree: every
  local order without a broker identity is in a pre-broker state, broker identities are distinct
  on each side, the two sides carry the same identities, and orders with the same identity have
  equal quantity, filled quantity and status.\<close>

theorem safe_to_trade_iff_books_agree:
  "safe_to_trade (reconcile_orders local_orders broker_orders) \<longleftrightarrow> books_agree local_orders broker_orders"
  by (rule safe_iff_books_agree)

text \<open>When it is safe to trade, the number of matched orders is the number of broker orders
  and of local orders with a broker identity.\<close>

theorem safe_matches_every_order:
  assumes "safe_to_trade (reconcile_orders local_orders broker_orders)"
  shows "matched_orders (reconcile_orders local_orders broker_orders) = length broker_orders
    \<and> length (assigned local_orders) = length broker_orders"
proof -
  obtain i1 locals where l: "foldl index_local ([], []) local_orders = (i1, locals)" by fastforce
  obtain i2 brokers where b: "foldl index_broker (i1, []) broker_orders = (i2, brokers)" by fastforce
  have agree: "books_agree local_orders broker_orders"
    using assms by (simp add: safe_iff_books_agree)
  have i1: "i1 = []" using agree index_local_issues [OF l] by (auto simp: books_agree_def)
  have eq: "locals = assigned local_orders" "brokers = identified broker_orders"
    using agree index_local_issues [OF l] index_broker_issues [OF b [unfolded i1]] i1
    by (auto simp: books_agree_def identified_fst)
  have "\<forall>p \<in> set (assigned local_orders). map_of (identified broker_orders) (fst p) \<noteq> None"
    using agree by (auto simp: books_agree_def map_of_identified_None)
  then have "matched_orders (reconcile_orders local_orders broker_orders) = length (assigned local_orders)"
    by (auto simp: reconcile_orders_def l b eq case_prod_beta filter_id_conv)
  moreover have "length (assigned local_orders) = length broker_orders"
    using agree unfolding books_agree_def
    by (metis distinct_card length_map list.set_map)
  ultimately show ?thesis by simp
qed

definition sample_snapshot :: broker_snapshot where
  "sample_snapshot = \<lparr>snap_broker_order_id = ''B1'', snap_status = FILLED, snap_quantity = 10,
     snap_filled_quantity = 10\<rparr>"

theorem safe_matches_every_order_witness:
  "let os = [sample_order, sample_filled\<lparr>order_broker_order_id := Some ''B1''\<rparr>]
   in safe_to_trade (reconcile_orders os [sample_snapshot])
      \<and> matched_orders (reconcile_orders os [sample_snapshot]) = 1"
proof -
  let ?os = "[sample_order, sample_filled\<lparr>order_broker_order_id := Some ''B1''\<rparr>]"
  have "safe_to_trade (reconcile_orders ?os [sample_snapshot])"
    by (simp add: reconcile_orders_def compare_order_def unknown_orders_def sample_snapshot_def
        sample_filled_def sample_order_def pre_broker_states_def)
  with safe_matches_every_order [OF this] show ?thesis
    by (simp add: Let_def)
qed

end
