(* ===== verification/Risk_Engine.thy ===== *)
theory Risk_Engine
  imports Domain
begin

text \<open>
  The pre-trade risk evaluation of \<open>packages/risk_engine/engine.py\<close>: the limits and the portfolio
  context with the checks of their constructors, and \<open>evaluate_order_risk\<close> with every lock, every
  projected ceiling and the final sizing, in the order of the source and in Decimal arithmetic.
  The fresh identifier of a decision is an argument.
\<close>

section \<open>Limits\<close>

record risk_limits =
  policy_version :: string
  maximum_risk_per_trade_fraction :: decimal
  maximum_daily_loss_fraction :: decimal
  maximum_open_positions :: int
  maximum_instrument_exposure_fraction :: decimal
  maximum_quote_age_seconds :: int
  maximum_spread_bps :: decimal
  maximum_weekly_loss_fraction :: decimal
  maximum_drawdown_fraction :: decimal
  maximum_gross_exposure_fraction :: decimal
  maximum_net_exposure_fraction :: decimal
  maximum_orders_per_minute :: int
  maximum_consecutive_losses :: int
  maximum_sector_exposure_fraction :: decimal
  maximum_strategy_allocation_fraction :: decimal
  maximum_slippage_bps :: decimal
  maximum_options_exposure :: decimal
  maximum_portfolio_delta :: decimal
  maximum_portfolio_gamma :: decimal

definition limit_fractions :: "risk_limits \<Rightarrow> decimal list" where
  "limit_fractions l =
     [maximum_risk_per_trade_fraction l, maximum_daily_loss_fraction l,
      maximum_instrument_exposure_fraction l, maximum_weekly_loss_fraction l,
      maximum_drawdown_fraction l, maximum_gross_exposure_fraction l,
      maximum_net_exposure_fraction l, maximum_sector_exposure_fraction l,
      maximum_strategy_allocation_fraction l]"

text \<open>\<open>RiskLimits.__post_init__\<close>.\<close>

definition make_risk_limits :: "risk_limits \<Rightarrow> risk_limits result" where
  "make_risk_limits l =
     (if blank (policy_version l) then Inl (ValueError ''risk policy version cannot be empty'')
      else if list_ex (\<lambda>v. v \<le> 0 \<or> v > 1) (limit_fractions l)
      then Inl (ValueError ''risk fractions must be in (0, 1]'')
      else if list_ex (\<lambda>v. v \<le> 0)
             [maximum_open_positions l, maximum_quote_age_seconds l,
              maximum_orders_per_minute l, maximum_consecutive_losses l]
      then Inl (ValueError ''integer risk limits must be positive'')
      else if maximum_spread_bps l < 0 \<or> maximum_slippage_bps l < 0
      then Inl (ValueError ''spread and slippage limits cannot be negative'')
      else if min (maximum_options_exposure l)
             (min (maximum_portfolio_delta l) (maximum_portfolio_gamma l)) \<le> 0
      then Inl (ValueError ''options risk limits must be positive'')
      else Inr l)"

section \<open>Portfolio context\<close>

record risk_context =
  evaluated_at :: instant
  equity :: decimal
  daily_pnl :: decimal
  open_positions :: int
  instrument_exposure :: decimal
  current_position_quantity :: decimal
  quote_timestamp :: instant
  bid :: decimal
  ask :: decimal
  broker_connected :: bool
  data_quality_ok :: bool
  trading_session_open :: bool
  event_risk_lock :: bool
  kill_switch_enabled :: bool
  weekly_pnl :: decimal
  drawdown_fraction :: decimal
  gross_exposure :: decimal
  net_exposure :: decimal
  orders_last_minute :: int
  consecutive_losses :: int
  sector_exposure :: decimal
  strategy_exposure :: decimal
  expected_slippage_bps :: decimal
  cooldown_until :: "instant option"
  reconciliation_ok :: bool
  options_exposure :: decimal
  proposed_options_exposure :: decimal
  portfolio_delta :: decimal
  proposed_delta :: decimal
  portfolio_gamma :: decimal
  proposed_gamma :: decimal

text \<open>
  \<open>PortfolioRiskContext.__post_init__\<close>; the three datetimes are given separately, as they arrive.
\<close>

definition make_risk_context ::
  "datetime \<Rightarrow> datetime \<Rightarrow> datetime option \<Rightarrow> risk_context \<Rightarrow> risk_context result" where
  "make_risk_context evaluated quoted cooldown c =
     (if \<not> is_aware evaluated \<or> \<not> is_aware quoted
      then Inl (ValueError ''risk timestamps must be timezone-aware'')
      else if min (open_positions c) (min (orders_last_minute c) (consecutive_losses c)) < 0
      then Inl (ValueError ''risk counters cannot be negative'')
      else if drawdown_fraction c < 0 then Inl (ValueError ''drawdown cannot be negative'')
      else if expected_slippage_bps c < 0
      then Inl (ValueError ''expected slippage cannot be negative'')
      else if options_exposure c < 0 \<or> proposed_options_exposure c < 0
      then Inl (ValueError ''options exposure cannot be negative'')
      else if (case cooldown of None \<Rightarrow> False | Some d \<Rightarrow> \<not> is_aware d)
      then Inl (ValueError ''cooldown timestamp must be timezone-aware'')
      else Inr (c\<lparr>evaluated_at := instant_of evaluated, quote_timestamp := instant_of quoted,
                 cooldown_until := map_option instant_of cooldown\<rparr>))"

record risk_request =
  req_intent :: order_intent
  req_context :: risk_context
  req_limits :: risk_limits
  req_reference_price :: decimal
  req_stop_price :: "decimal option"

section \<open>Evaluation\<close>

text \<open>\<open>_decision\<close>.\<close>

definition risk_outcome_decision ::
  "uuid \<Rightarrow> risk_request \<Rightarrow> risk_outcome \<Rightarrow> decimal \<Rightarrow> string list \<Rightarrow> risk_decision result" where
  "risk_outcome_decision fresh rq oc q reasons =
     make_risk_decision
       \<lparr>rd_id = fresh, rd_order_intent_id = intent_id (req_intent rq),
        rd_timestamp = evaluated_at (req_context rq), rd_outcome = oc, rd_approved_quantity = q,
        rd_reason_codes = reasons, rd_policy_version = policy_version (req_limits rq)\<rparr>"

definition flag :: "bool \<Rightarrow> string \<Rightarrow> string list" where
  "flag c name = (if c then [name] else [])"

definition spread_bps :: "decimal \<Rightarrow> decimal \<Rightarrow> decimal" where
  "spread_bps b a = dmul (dquot (dsub a b) (dquot (dadd b a) 2)) 10000"

text \<open>The ceiling \<open>equity * fraction\<close> and its negation, the loss floor.\<close>

definition equity_ceiling :: "risk_context \<Rightarrow> decimal \<Rightarrow> decimal" where
  "equity_ceiling c f = dmul (equity c) f"

definition entry_locks :: "risk_context \<Rightarrow> risk_limits \<Rightarrow> string list" where
  "entry_locks c l =
     flag (kill_switch_enabled c) ''KILL_SWITCH''
     @ flag (\<not> broker_connected c) ''BROKER_DISCONNECTED''
     @ flag (\<not> reconciliation_ok c) ''RECONCILIATION_UNCERTAIN''
     @ flag (\<not> data_quality_ok c) ''DATA_QUALITY_LOCK''
     @ flag (\<not> trading_session_open c) ''OUTSIDE_TRADING_SESSION''
     @ flag (event_risk_lock c) ''EVENT_RISK_LOCK''
     @ flag (evaluated_at c - quote_timestamp c < 0
             \<or> evaluated_at c - quote_timestamp c > seconds (maximum_quote_age_seconds l))
         ''STALE_QUOTE''
     @ flag (spread_bps (bid c) (ask c) > maximum_spread_bps l) ''ABNORMAL_SPREAD''
     @ flag (daily_pnl c \<le> dneg (equity_ceiling c (maximum_daily_loss_fraction l))) ''MAXIMUM_DAILY_LOSS''
     @ flag (weekly_pnl c \<le> dneg (equity_ceiling c (maximum_weekly_loss_fraction l))) ''MAXIMUM_WEEKLY_LOSS''
     @ flag (drawdown_fraction c \<ge> maximum_drawdown_fraction l) ''MAXIMUM_DRAWDOWN''
     @ flag (open_positions c \<ge> maximum_open_positions l) ''MAXIMUM_OPEN_POSITIONS''
     @ flag (dabs (net_exposure c) \<ge> equity_ceiling c (maximum_net_exposure_fraction l)) ''MAXIMUM_NET_EXPOSURE''
     @ flag (orders_last_minute c \<ge> maximum_orders_per_minute l) ''MAXIMUM_ORDER_RATE''
     @ flag (consecutive_losses c \<ge> maximum_consecutive_losses l) ''CONSECUTIVE_LOSS_CIRCUIT_BREAKER''
     @ flag (expected_slippage_bps c > maximum_slippage_bps l) ''SLIPPAGE_THRESHOLD''
     @ flag (dadd (options_exposure c) (proposed_options_exposure c) > maximum_options_exposure l)
         ''MAXIMUM_OPTIONS_EXPOSURE''
     @ flag (dabs (dadd (portfolio_delta c) (proposed_delta c)) > maximum_portfolio_delta l)
         ''MAXIMUM_PORTFOLIO_DELTA''
     @ flag (dabs (dadd (portfolio_gamma c) (proposed_gamma c)) > maximum_portfolio_gamma l)
         ''MAXIMUM_PORTFOLIO_GAMMA''
     @ flag (case cooldown_until c of None \<Rightarrow> False | Some u \<Rightarrow> evaluated_at c < u) ''RISK_COOLDOWN''"

definition projected_exposures ::
  "order_intent \<Rightarrow> risk_context \<Rightarrow> risk_limits \<Rightarrow> decimal \<Rightarrow> (string \<times> decimal \<times> decimal) list" where
  "projected_exposures i c l notional =
     [(''MAXIMUM_GROSS_EXPOSURE'', dadd (gross_exposure c) notional,
         equity_ceiling c (maximum_gross_exposure_fraction l)),
      (''MAXIMUM_SECTOR_EXPOSURE'', dadd (sector_exposure c) notional,
         equity_ceiling c (maximum_sector_exposure_fraction l)),
      (''MAXIMUM_STRATEGY_ALLOCATION'', dadd (strategy_exposure c) notional,
         equity_ceiling c (maximum_strategy_allocation_fraction l)),
      (''MAXIMUM_NET_EXPOSURE'',
         dabs (dadd (net_exposure c) (if intent_side i = BUY then notional else dneg notional)),
         equity_ceiling c (maximum_net_exposure_fraction l))]"

text \<open>The exit branch: bounded by the position and immune to the entry locks.\<close>

definition evaluate_exit :: "uuid \<Rightarrow> risk_request \<Rightarrow> risk_decision result" where
  "evaluate_exit fresh rq =
     (let i = req_intent rq; c = req_context rq; available = dabs (current_position_quantity c) in
      if available \<le> 0
      then risk_outcome_decision fresh rq risk_outcome.REJECTED 0 [''NO_POSITION_TO_EXIT'']
      else
        let closing_side = (if current_position_quantity c > 0 then SELL else BUY) in
        if intent_side i \<noteq> closing_side
        then risk_outcome_decision fresh rq risk_outcome.REJECTED 0 [''EXIT_INCREASES_POSITION'']
        else
          let quantity = min (intent_quantity i) available;
              oc = (if quantity = intent_quantity i then risk_outcome.APPROVED else RESIZED)
          in risk_outcome_decision fresh rq oc quantity
               [if oc = risk_outcome.APPROVED then ''EXIT_APPROVED'' else ''EXIT_RESIZED_TO_POSITION''])"

text \<open>The sizing that follows the locks and the projected ceilings.\<close>

definition risk_quantity :: "risk_request \<Rightarrow> decimal \<Rightarrow> decimal" where
  "risk_quantity rq stop_distance =
     dquot (equity_ceiling (req_context rq) (maximum_risk_per_trade_fraction (req_limits rq))) stop_distance"

definition exposure_quantity :: "risk_request \<Rightarrow> decimal" where
  "exposure_quantity rq =
     (let c = req_context rq;
          limit = equity_ceiling c (maximum_instrument_exposure_fraction (req_limits rq));
          headroom = max 0 (dsub limit (dabs (instrument_exposure c)))
      in dquot headroom (req_reference_price rq))"

definition size_entry :: "uuid \<Rightarrow> risk_request \<Rightarrow> decimal \<Rightarrow> risk_decision result" where
  "size_entry fresh rq stop_distance =
     (let wanted = intent_quantity (req_intent rq);
          approved = min wanted (min (risk_quantity rq stop_distance) (exposure_quantity rq))
      in if approved \<le> 0
         then risk_outcome_decision fresh rq risk_outcome.REJECTED 0 [''NO_EXPOSURE_CAPACITY'']
         else if approved < wanted
         then risk_outcome_decision fresh rq RESIZED approved [''POSITION_SIZE_REDUCED'']
         else risk_outcome_decision fresh rq risk_outcome.APPROVED approved [''APPROVED''])"

definition evaluate_entry :: "uuid \<Rightarrow> risk_request \<Rightarrow> risk_decision result" where
  "evaluate_entry fresh rq =
     (let i = req_intent rq; c = req_context rq; l = req_limits rq; locks = entry_locks c l in
      if locks \<noteq> [] then risk_outcome_decision fresh rq risk_outcome.REJECTED 0 locks
      else
        (case req_stop_price rq of
           None \<Rightarrow> risk_outcome_decision fresh rq risk_outcome.REJECTED 0 [''STOP_REQUIRED'']
         | Some stop \<Rightarrow>
             let stop_distance = dabs (dsub (req_reference_price rq) stop) in
             if stop_distance \<le> 0
             then risk_outcome_decision fresh rq risk_outcome.REJECTED 0 [''INVALID_STOP_DISTANCE'']
             else
               let notional = dmul (intent_quantity i) (req_reference_price rq);
                   exceeded = map fst (filter (\<lambda>(_, v, ceiling). v > ceiling)
                                         (projected_exposures i c l notional))
               in if exceeded \<noteq> []
                  then risk_outcome_decision fresh rq risk_outcome.REJECTED 0 exceeded
                  else size_entry fresh rq stop_distance))"

definition evaluate_order_risk :: "uuid \<Rightarrow> risk_request \<Rightarrow> risk_decision result" where
  "evaluate_order_risk fresh rq =
     (let i = req_intent rq; c = req_context rq in
      if equity c \<le> 0 \<or> req_reference_price rq \<le> 0
      then risk_outcome_decision fresh rq risk_outcome.REJECTED 0 [''INVALID_CAPITAL_OR_PRICE'']
      else if bid c \<le> 0 \<or> ask c < bid c
      then risk_outcome_decision fresh rq risk_outcome.REJECTED 0 [''INVALID_QUOTE'']
      else if intent_is_exit i then evaluate_exit fresh rq
      else evaluate_entry fresh rq)"

section \<open>Locks and outcomes\<close>

lemma flag_Nil [simp]: "flag c n = [] \<longleftrightarrow> \<not> c"
  by (simp add: flag_def)

lemma risk_outcome_decision_Inr:
  "risk_outcome_decision fresh rq oc q rs = Inr d \<longleftrightarrow>
     0 \<le> q \<and> d = \<lparr>rd_id = fresh, rd_order_intent_id = intent_id (req_intent rq),
        rd_timestamp = evaluated_at (req_context rq), rd_outcome = oc, rd_approved_quantity = q,
        rd_reason_codes = rs, rd_policy_version = policy_version (req_limits rq)\<rparr>"
  by (auto simp: risk_outcome_decision_def make_risk_decision_def)

lemma filter_exceeded_Nil:
  "map fst (filter (\<lambda>(_, v, ceiling). v > ceiling) xs) = [] \<longleftrightarrow>
     (\<forall>(n, v, ceiling) \<in> set xs. v \<le> (ceiling :: decimal))"
  by (auto simp: filter_empty_conv not_less)

text \<open>The conditions under which \<open>evaluate_entry\<close> reaches the sizing.\<close>

definition entry_admissible :: "risk_request \<Rightarrow> decimal \<Rightarrow> bool" where
  "entry_admissible rq stop \<longleftrightarrow>
     entry_locks (req_context rq) (req_limits rq) = [] \<and> req_stop_price rq = Some stop
     \<and> stop \<noteq> req_reference_price rq
     \<and> (\<forall>(n, v, ceiling) \<in> set (projected_exposures (req_intent rq) (req_context rq) (req_limits rq)
           (dmul (intent_quantity (req_intent rq)) (req_reference_price rq))). v \<le> ceiling)"

lemma stop_distance_nonzero: "dsub p q = 0 \<longleftrightarrow> q = p"
  by (auto simp: dsub_def)

lemma evaluate_entry_cases:
  obtains (rejected) rs where "evaluate_entry fresh rq = risk_outcome_decision fresh rq risk_outcome.REJECTED 0 rs"
      "rs \<noteq> []"
  | (sized) stop where "entry_admissible rq stop"
      "evaluate_entry fresh rq = size_entry fresh rq (dabs (dsub (req_reference_price rq) stop))"
proof (cases "entry_locks (req_context rq) (req_limits rq) = []")
  case False
  then show ?thesis using rejected by (simp add: evaluate_entry_def Let_def)
next
  case unlocked: True
  show ?thesis
  proof (cases "req_stop_price rq")
    case None
    then show ?thesis using rejected [of "[''STOP_REQUIRED'']"] unlocked
      by (simp add: evaluate_entry_def Let_def)
  next
    case (Some stop)
    let ?ex = "map fst (filter (\<lambda>(_, v, ceiling). v > ceiling)
      (projected_exposures (req_intent rq) (req_context rq) (req_limits rq)
         (dmul (intent_quantity (req_intent rq)) (req_reference_price rq))))"
    consider "stop = req_reference_price rq" | "stop \<noteq> req_reference_price rq" "?ex \<noteq> []"
      | "stop \<noteq> req_reference_price rq" "?ex = []" by blast
    then show ?thesis
    proof cases
      case 1
      then show ?thesis using rejected [of "[''INVALID_STOP_DISTANCE'']"] unlocked Some
        by (simp add: evaluate_entry_def Let_def dsub_def)
    next
      case 2
      then show ?thesis using rejected [of ?ex] unlocked Some stop_distance_nonzero [of "req_reference_price rq" stop]
        by (simp add: evaluate_entry_def Let_def)
    next
      case 3
      then have "entry_admissible rq stop"
        using unlocked Some unfolding filter_exceeded_Nil by (simp add: entry_admissible_def)
      moreover have "evaluate_entry fresh rq = size_entry fresh rq (dabs (dsub (req_reference_price rq) stop))"
        using 3 unlocked Some stop_distance_nonzero [of "req_reference_price rq" stop]
        by (simp add: evaluate_entry_def Let_def)
      ultimately show ?thesis by (rule sized)
    qed
  qed
qed

lemma size_entry_Inr:
  assumes "size_entry fresh rq sd = Inr d" "rd_outcome d \<noteq> risk_outcome.REJECTED"
  shows "0 < rd_approved_quantity d" "rd_approved_quantity d \<le> intent_quantity (req_intent rq)"
    "rd_approved_quantity d \<le> risk_quantity rq sd" "rd_approved_quantity d \<le> exposure_quantity rq"
  using assms by (auto simp: size_entry_def Let_def risk_outcome_decision_Inr split: if_splits)

text \<open>What every decision satisfies.\<close>

definition decision_wf :: "risk_request \<Rightarrow> risk_decision \<Rightarrow> bool" where
  "decision_wf rq d \<longleftrightarrow>
     rd_order_intent_id d = intent_id (req_intent rq)
     \<and> rd_policy_version d = policy_version (req_limits rq) \<and> rd_reason_codes d \<noteq> []
     \<and> (case rd_outcome d of
          risk_outcome.REJECTED \<Rightarrow> rd_approved_quantity d = 0
        | RESIZED \<Rightarrow> 0 < rd_approved_quantity d \<and> rd_approved_quantity d < intent_quantity (req_intent rq)
        | risk_outcome.APPROVED \<Rightarrow> rd_approved_quantity d = intent_quantity (req_intent rq))"

lemma rejected_wf: "rs \<noteq> [] \<Longrightarrow>
  \<exists>d. risk_outcome_decision fresh rq risk_outcome.REJECTED 0 rs = Inr d \<and> decision_wf rq d"
  by (simp add: risk_outcome_decision_Inr decision_wf_def)

lemma accepted_wf:
  assumes "rs \<noteq> []" "0 < q" "oc = RESIZED \<and> q < intent_quantity (req_intent rq)
    \<or> oc = risk_outcome.APPROVED \<and> q = intent_quantity (req_intent rq)"
  shows "\<exists>d. risk_outcome_decision fresh rq oc q rs = Inr d \<and> decision_wf rq d"
  using assms by (auto simp: risk_outcome_decision_Inr decision_wf_def)

lemma size_entry_wf: "\<exists>d. size_entry fresh rq sd = Inr d \<and> decision_wf rq d"
  unfolding size_entry_def Let_def
  by (simp add: rejected_wf accepted_wf not_le min_less_iff_conj)

lemma evaluate_entry_wf: "\<exists>d. evaluate_entry fresh rq = Inr d \<and> decision_wf rq d"
  by (cases rule: evaluate_entry_cases [of fresh rq]) (simp_all add: rejected_wf size_entry_wf)

lemma evaluate_exit_wf:
  assumes "0 < intent_quantity (req_intent rq)"
  shows "\<exists>d. evaluate_exit fresh rq = Inr d \<and> decision_wf rq d"
  using assms unfolding evaluate_exit_def Let_def
  by (auto intro!: rejected_wf accepted_wf simp: min_def not_le)

lemma evaluate_order_risk_wf:
  assumes "0 < intent_quantity (req_intent rq)"
  shows "\<exists>d. evaluate_order_risk fresh rq = Inr d \<and> decision_wf rq d"
  using rejected_wf [of "[''INVALID_CAPITAL_OR_PRICE'']"] rejected_wf [of "[''INVALID_QUOTE'']"]
  by (simp add: evaluate_order_risk_def Let_def evaluate_exit_wf [OF assms] evaluate_entry_wf)

section \<open>Approved entries\<close>

lemma evaluate_order_risk_entry:
  assumes "evaluate_order_risk fresh rq = Inr d" "rd_outcome d \<noteq> risk_outcome.REJECTED"
    "\<not> intent_is_exit (req_intent rq)"
  shows "0 < equity (req_context rq)" "0 < req_reference_price rq" "0 < bid (req_context rq)"
    "bid (req_context rq) \<le> ask (req_context rq)" "evaluate_entry fresh rq = Inr d"
  using assms by (auto simp: evaluate_order_risk_def Let_def risk_outcome_decision_Inr split: if_splits)

lemma evaluate_entry_accepted:
  assumes "evaluate_entry fresh rq = Inr d" "rd_outcome d \<noteq> risk_outcome.REJECTED"
  obtains stop where "entry_admissible rq stop"
    "size_entry fresh rq (dabs (dsub (req_reference_price rq) stop)) = Inr d"
  using assms
  by (cases rule: evaluate_entry_cases [of fresh rq]) (auto simp: risk_outcome_decision_Inr)

text \<open>What it takes to be free of every lock, written out: the twenty guards an entry has to pass.\<close>

definition clear_to_enter :: "risk_context \<Rightarrow> risk_limits \<Rightarrow> bool" where
  "clear_to_enter c l \<longleftrightarrow>
     \<not> kill_switch_enabled c \<and> broker_connected c \<and> reconciliation_ok c \<and> data_quality_ok c
     \<and> trading_session_open c \<and> \<not> event_risk_lock c
     \<and> quote_timestamp c \<le> evaluated_at c \<and> evaluated_at c - quote_timestamp c \<le> seconds (maximum_quote_age_seconds l)
     \<and> spread_bps (bid c) (ask c) \<le> maximum_spread_bps l
     \<and> dneg (dmul (equity c) (maximum_daily_loss_fraction l)) < daily_pnl c
     \<and> dneg (dmul (equity c) (maximum_weekly_loss_fraction l)) < weekly_pnl c
     \<and> drawdown_fraction c < maximum_drawdown_fraction l
     \<and> open_positions c < maximum_open_positions l
     \<and> dabs (net_exposure c) < dmul (equity c) (maximum_net_exposure_fraction l)
     \<and> orders_last_minute c < maximum_orders_per_minute l
     \<and> consecutive_losses c < maximum_consecutive_losses l
     \<and> expected_slippage_bps c \<le> maximum_slippage_bps l
     \<and> dadd (options_exposure c) (proposed_options_exposure c) \<le> maximum_options_exposure l
     \<and> dabs (dadd (portfolio_delta c) (proposed_delta c)) \<le> maximum_portfolio_delta l
     \<and> dabs (dadd (portfolio_gamma c) (proposed_gamma c)) \<le> maximum_portfolio_gamma l
     \<and> (\<forall>until. cooldown_until c = Some until \<longrightarrow> until \<le> evaluated_at c)"

lemma entry_locks_Nil: "entry_locks c l = [] \<longleftrightarrow> clear_to_enter c l"
  by (auto simp: entry_locks_def clear_to_enter_def equity_ceiling_def not_le not_less split: option.splits)

text \<open>The projected exposures, written out: the wanted notional on top of each running exposure.\<close>

definition under_the_ceilings :: "order_intent \<Rightarrow> risk_context \<Rightarrow> risk_limits \<Rightarrow> decimal \<Rightarrow> bool" where
  "under_the_ceilings i c l notional \<longleftrightarrow>
     dadd (gross_exposure c) notional \<le> dmul (equity c) (maximum_gross_exposure_fraction l)
     \<and> dadd (sector_exposure c) notional \<le> dmul (equity c) (maximum_sector_exposure_fraction l)
     \<and> dadd (strategy_exposure c) notional \<le> dmul (equity c) (maximum_strategy_allocation_fraction l)
     \<and> dabs (dadd (net_exposure c) (if intent_side i = BUY then notional else dneg notional))
         \<le> dmul (equity c) (maximum_net_exposure_fraction l)"

lemma projected_exposures_under:
  "(\<forall>(n, v, ceiling) \<in> set (projected_exposures i c l notional). v \<le> ceiling) \<longleftrightarrow> under_the_ceilings i c l notional"
  by (simp add: projected_exposures_def under_the_ceilings_def equity_ceiling_def)

lemma risk_quantity_budget:
  assumes "q \<le> risk_quantity rq sd" "0 < sd" "0 < equity (req_context rq)"
    and f: "0 < maximum_risk_per_trade_fraction (req_limits rq)"
  shows "q * sd \<le> equity (req_context rq) * maximum_risk_per_trade_fraction (req_limits rq)
           * (1 + rel_eps)\<^sup>2"
proof -
  let ?b = "equity_ceiling (req_context rq) (maximum_risk_per_trade_fraction (req_limits rq))"
  have b: "0 \<le> ?b" using assms by (simp add: equity_ceiling_def dmul_nonneg)
  have "q * sd \<le> ?b * (1 + rel_eps)"
    using assms(1,2) b by (intro dquot_bound) (simp_all add: risk_quantity_def)
  also have "\<dots> \<le> equity (req_context rq) * maximum_risk_per_trade_fraction (req_limits rq)
      * (1 + rel_eps) * (1 + rel_eps)"
    using assms(3) f unfolding equity_ceiling_def
    by (intro mult_right_mono dmul_bound) (simp_all add: add_nonneg_nonneg less_imp_le)
  finally show ?thesis by (simp add: power2_eq_square mult.assoc)
qed

lemma exposure_quantity_budget:
  assumes "q \<le> exposure_quantity rq" "0 < req_reference_price rq"
  shows "q * req_reference_price rq
    \<le> max 0 (dsub (equity_ceiling (req_context rq) (maximum_instrument_exposure_fraction (req_limits rq)))
                 (dabs (instrument_exposure (req_context rq)))) * (1 + rel_eps)"
  using assms by (intro dquot_bound) (simp_all add: exposure_quantity_def Let_def)

definition sample_intent :: order_intent where
  "sample_intent = \<lparr>intent_id = 11, intent_idempotency_key = ''entry-key'', intent_decision_id = 1,
     intent_account_id = 2, intent_instrument_id = 3, intent_side = BUY, intent_order_type = MARKET,
     intent_quantity = 30, intent_limit_price = None, intent_trigger_price = None,
     intent_created_at = 0, intent_is_exit = False\<rparr>"

definition sample_limits :: risk_limits where
  "sample_limits = \<lparr>policy_version = ''v1'', maximum_risk_per_trade_fraction = 1 / 100,
     maximum_daily_loss_fraction = 1 / 20, maximum_open_positions = 5,
     maximum_instrument_exposure_fraction = 1 / 5, maximum_quote_age_seconds = 5,
     maximum_spread_bps = 50, maximum_weekly_loss_fraction = 1, maximum_drawdown_fraction = 1,
     maximum_gross_exposure_fraction = 1, maximum_net_exposure_fraction = 1,
     maximum_orders_per_minute = 1000000, maximum_consecutive_losses = 1000000,
     maximum_sector_exposure_fraction = 1, maximum_strategy_allocation_fraction = 1,
     maximum_slippage_bps = 1000000, maximum_options_exposure = 10 ^ 50,
     maximum_portfolio_delta = 10 ^ 50, maximum_portfolio_gamma = 10 ^ 50\<rparr>"

definition sample_context :: risk_context where
  "sample_context = \<lparr>evaluated_at = 1000000, equity = 10000, daily_pnl = 0, open_positions = 0,
     instrument_exposure = 0, current_position_quantity = 0, quote_timestamp = 0, bid = 100,
     ask = 100, broker_connected = True, data_quality_ok = True, trading_session_open = True,
     event_risk_lock = False, kill_switch_enabled = False, weekly_pnl = 0, drawdown_fraction = 0,
     gross_exposure = 0, net_exposure = 0, orders_last_minute = 0, consecutive_losses = 0,
     sector_exposure = 0, strategy_exposure = 0, expected_slippage_bps = 0, cooldown_until = None,
     reconciliation_ok = True, options_exposure = 0, proposed_options_exposure = 0,
     portfolio_delta = 0, proposed_delta = 0, portfolio_gamma = 0, proposed_gamma = 0\<rparr>"

definition sample_request :: risk_request where
  "sample_request = \<lparr>req_intent = sample_intent, req_context = sample_context,
     req_limits = sample_limits, req_reference_price = 100, req_stop_price = Some 95\<rparr>"

definition sample_resized :: risk_decision where
  "sample_resized = \<lparr>rd_id = 77, rd_order_intent_id = 11, rd_timestamp = 1000000, rd_outcome = RESIZED,
     rd_approved_quantity = 20, rd_reason_codes = [''POSITION_SIZE_REDUCED''],
     rd_policy_version = ''v1''\<rparr>"

lemmas risk_sample_defs = sample_intent_def sample_limits_def sample_context_def sample_request_def
  sample_resized_def

lemma sample_locks: "entry_locks sample_context sample_limits = []"
  by (simp add: entry_locks_def risk_sample_defs flag_def spread_bps_def equity_ceiling_def
      dec_eval seconds_def)

lemma sample_evaluation: "evaluate_order_risk 77 sample_request = Inr sample_resized"
proof -
  have "size_entry 77 sample_request 5 = Inr sample_resized"
    by (simp add: size_entry_def risk_quantity_def exposure_quantity_def risk_sample_defs
        equity_ceiling_def dec_eval risk_outcome_decision_Inr)
  then have "evaluate_entry 77 sample_request = Inr sample_resized"
    using sample_locks
    by (simp add: evaluate_entry_def sample_request_def projected_exposures_def equity_ceiling_def
        sample_intent_def sample_context_def sample_limits_def dec_eval)
  then show ?thesis by (simp add: evaluate_order_risk_def risk_sample_defs)
qed

text \<open>What an accepted entry has passed: its limits are in order, it was admissible, and its quantity was sized by both budgets.\<close>

lemma accepted_entry:
  assumes "evaluate_order_risk fresh rq = Inr d" and "rd_outcome d \<noteq> risk_outcome.REJECTED"
    and "\<not> intent_is_exit (req_intent rq)" and "make_risk_limits (req_limits rq) = Inr l"
  obtains stop where "l = req_limits rq" "entry_locks (req_context rq) l = []" "entry_admissible rq stop"
    "req_stop_price rq = Some stop" "0 < rd_approved_quantity d" "rd_approved_quantity d \<le> intent_quantity (req_intent rq)"
    "rd_approved_quantity d * dabs (dsub (req_reference_price rq) stop)
       \<le> equity (req_context rq) * maximum_risk_per_trade_fraction l * (1 + rel_eps)\<^sup>2"
    "rd_approved_quantity d * req_reference_price rq
       \<le> max 0 (dsub (equity_ceiling (req_context rq) (maximum_instrument_exposure_fraction l))
                   (dabs (instrument_exposure (req_context rq)))) * (1 + rel_eps)"
proof -
  note e = evaluate_order_risk_entry [OF assms(1-3)]
  have l: "l = req_limits rq" and f: "0 < maximum_risk_per_trade_fraction (req_limits rq)"
    using assms(4) by (auto simp: make_risk_limits_def limit_fractions_def not_le split: if_splits)
  from evaluate_entry_accepted [OF e(5) assms(2)] obtain stop where
    adm: "entry_admissible rq stop" and sz: "size_entry fresh rq (dabs (dsub (req_reference_price rq) stop)) = Inr d"
    by blast
  note q = size_entry_Inr [OF sz assms(2)]
  have locks: "entry_locks (req_context rq) (req_limits rq) = []"
    and stop: "req_stop_price rq = Some stop" "stop \<noteq> req_reference_price rq"
    using adm by (simp_all add: entry_admissible_def)
  have sd: "0 < dabs (dsub (req_reference_price rq) stop)"
    using stop(2) by (simp add: stop_distance_nonzero)
  show thesis
    using that [OF l _ adm stop(1) q(1,2)] locks risk_quantity_budget [OF q(3) sd e(1) f] exposure_quantity_budget [OF q(4) e(2)]
    unfolding l by blast
qed

text \<open>C3: An entry is approved or resized only when all twenty locks are clear (kill switch, broker, reconciliation, data quality,
  session, event risk, quote age, spread, daily and weekly loss, drawdown, open positions, net exposure, order rate, consecutive
  losses, slippage, option exposure, delta, gamma and cooldown), a stop is given and the wanted notional stays under the
  gross, sector, strategy and net ceilings; the approved quantity is then positive, at most the wanted one, loses at the stop at
  most the per-trade fraction of equity, and adds at most the remaining instrument exposure (each budget up
  to the relative error of the 28-digit arithmetic).\<close>

theorem approved_entry_within_budgets:
  assumes "evaluate_order_risk fresh rq = Inr d" and "rd_outcome d \<noteq> risk_outcome.REJECTED"
    and "\<not> intent_is_exit (req_intent rq)" and "make_risk_limits (req_limits rq) = Inr l"
  shows "clear_to_enter (req_context rq) l
    \<and> under_the_ceilings (req_intent rq) (req_context rq) l (dmul (intent_quantity (req_intent rq)) (req_reference_price rq))
    \<and> 0 < rd_approved_quantity d \<and> rd_approved_quantity d \<le> intent_quantity (req_intent rq)
    \<and> (\<exists>stop. req_stop_price rq = Some stop
        \<and> rd_approved_quantity d * dabs (dsub (req_reference_price rq) stop)
            \<le> equity (req_context rq) * maximum_risk_per_trade_fraction l * (1 + rel_eps)\<^sup>2)
    \<and> rd_approved_quantity d * req_reference_price rq
        \<le> max 0 (dsub (equity_ceiling (req_context rq) (maximum_instrument_exposure_fraction l))
                    (dabs (instrument_exposure (req_context rq)))) * (1 + rel_eps)"
proof -
  obtain stop where a: "l = req_limits rq" "entry_locks (req_context rq) l = []" "entry_admissible rq stop"
    "req_stop_price rq = Some stop" "0 < rd_approved_quantity d" "rd_approved_quantity d \<le> intent_quantity (req_intent rq)"
    "rd_approved_quantity d * dabs (dsub (req_reference_price rq) stop)
       \<le> equity (req_context rq) * maximum_risk_per_trade_fraction l * (1 + rel_eps)\<^sup>2"
    "rd_approved_quantity d * req_reference_price rq
       \<le> max 0 (dsub (equity_ceiling (req_context rq) (maximum_instrument_exposure_fraction l))
                   (dabs (instrument_exposure (req_context rq)))) * (1 + rel_eps)"
    using accepted_entry [OF assms] by blast
  then show ?thesis unfolding entry_admissible_def projected_exposures_under entry_locks_Nil by blast
qed

theorem approved_entry_within_budgets_witness:
  "rd_approved_quantity sample_resized = 20
    \<and> rd_approved_quantity sample_resized * 5 \<le> 10000 * (1 / 100) * (1 + rel_eps)\<^sup>2"
proof -
  have "make_risk_limits sample_limits = Inr sample_limits"
    by (simp add: make_risk_limits_def limit_fractions_def sample_limits_def blank_def is_space_def of_char_def)
  from approved_entry_within_budgets [OF sample_evaluation, of sample_limits] this show ?thesis
    by (simp add: risk_sample_defs dec_eval)
qed

text \<open>C37: Every evaluation of a positive-quantity intent returns a decision, for that intent and
  under that policy, with at least one reason code: rejected with quantity 0, resized to a
  positive quantity below the wanted one, or approved at exactly the wanted quantity.\<close>

theorem every_decision_well_formed:
  assumes "0 < intent_quantity (req_intent rq)"
  shows "\<exists>d. evaluate_order_risk fresh rq = Inr d \<and> decision_wf rq d"
  by (rule evaluate_order_risk_wf) (rule assms)

theorem every_decision_well_formed_witness:
  "\<exists>d. evaluate_order_risk 5 sample_request = Inr d \<and> decision_wf sample_request d"
  by (rule every_decision_well_formed) (simp add: risk_sample_defs)

section \<open>Exits\<close>

text \<open>The signed effect of an order on a position.\<close>

definition signed_quantity :: "side \<Rightarrow> decimal \<Rightarrow> decimal" where
  "signed_quantity sd q = (if sd = BUY then q else - q)"

lemma evaluate_exit_position:
  assumes "evaluate_exit fresh rq = Inr d" "representable (current_position_quantity (req_context rq))"
    "0 < intent_quantity (req_intent rq)"
  defines "p \<equiv> current_position_quantity (req_context rq)"
  defines "p' \<equiv> p + signed_quantity (intent_side (req_intent rq)) (rd_approved_quantity d)"
  shows "\<bar>p'\<bar> \<le> \<bar>p\<bar>" "0 \<le> p * p'"
  using assms(1-3) unfolding p_def p'_def
  by (auto simp: evaluate_exit_def Let_def risk_outcome_decision_Inr signed_quantity_def
      dabs_representable abs_if mult_le_0_iff zero_le_mult_iff min_def split: if_splits)

text \<open>The part of the context an exit reads.\<close>

definition exit_view :: "risk_context \<Rightarrow> decimal \<times> decimal \<times> decimal \<times> decimal \<times> instant" where
  "exit_view c = (equity c, bid c, ask c, current_position_quantity c, evaluated_at c)"

lemma exit_ignores_rest:
  assumes "intent_is_exit (req_intent rq)" "exit_view c = exit_view (req_context rq)"
  shows "evaluate_order_risk fresh (rq\<lparr>req_context := c\<rparr>) = evaluate_order_risk fresh rq"
  using assms
  by (simp add: evaluate_order_risk_def evaluate_exit_def exit_view_def risk_outcome_decision_def Let_def)

lemma insolvent_exit_rejected:
  assumes "equity (req_context rq) \<le> 0"
  shows "evaluate_order_risk fresh rq
    = risk_outcome_decision fresh rq risk_outcome.REJECTED 0 [''INVALID_CAPITAL_OR_PRICE'']"
  using assms by (simp add: evaluate_order_risk_def Let_def)

text \<open>C26: With positive capital and a valid quote an exit is decided by the position alone: no
  lock (kill switch, connection, reconciliation, data quality, session, losses, exposures,
  cooldown) changes the decision, an intent on the closing side of an open position is never
  rejected, and whatever is approved neither enlarges the position nor reverses its sign.\<close>

theorem exits_never_locked_never_reverse:
  assumes "intent_is_exit (req_intent rq)" and "0 < intent_quantity (req_intent rq)"
    and "representable (current_position_quantity (req_context rq))"
    and "0 < equity (req_context rq)" and "0 < req_reference_price rq"
    and "0 < bid (req_context rq)" and "bid (req_context rq) \<le> ask (req_context rq)"
    and "exit_view locked = exit_view (req_context rq)"
  shows "\<exists>d. evaluate_order_risk fresh (rq\<lparr>req_context := locked\<rparr>) = Inr d
    \<and> evaluate_order_risk fresh rq = Inr d
    \<and> (let p = current_position_quantity (req_context rq);
           p' = p + signed_quantity (intent_side (req_intent rq)) (rd_approved_quantity d)
       in \<bar>p'\<bar> \<le> \<bar>p\<bar> \<and> 0 \<le> p * p'
          \<and> (rd_outcome d \<noteq> risk_outcome.REJECTED \<longleftrightarrow>
               p > 0 \<and> intent_side (req_intent rq) = SELL \<or> p < 0 \<and> intent_side (req_intent rq) = BUY))"
proof -
  obtain d where d: "evaluate_exit fresh rq = Inr d"
    using evaluate_exit_wf [OF assms(2)] by blast
  then have e: "evaluate_order_risk fresh rq = Inr d"
    using assms by (simp add: evaluate_order_risk_def Let_def)
  have "rd_outcome d \<noteq> risk_outcome.REJECTED \<longleftrightarrow>
      current_position_quantity (req_context rq) > 0 \<and> intent_side (req_intent rq) = SELL
      \<or> current_position_quantity (req_context rq) < 0 \<and> intent_side (req_intent rq) = BUY"
    using d by (cases "intent_side (req_intent rq)")
      (auto simp: evaluate_exit_def Let_def risk_outcome_decision_Inr split: if_splits)
  with e evaluate_exit_position [OF d assms(3,2)] exit_ignores_rest [OF assms(1,8)]
  show ?thesis by (simp add: Let_def)
qed

definition sample_exit :: risk_request where
  "sample_exit = sample_request\<lparr>req_intent := sample_intent\<lparr>intent_is_exit := True, intent_side := SELL\<rparr>,
     req_context := sample_context\<lparr>current_position_quantity := 12\<rparr>\<rparr>"

theorem exits_never_locked_never_reverse_witness:
  "\<exists>d. evaluate_order_risk 9 (sample_exit\<lparr>req_context := (req_context sample_exit)
          \<lparr>kill_switch_enabled := True, broker_connected := False, daily_pnl := - 9000\<rparr>\<rparr>) = Inr d
     \<and> rd_outcome d \<noteq> risk_outcome.REJECTED"
proof -
  have r: "representable 12" using representable_of_int [of 12] by simp
  have "\<exists>d. evaluate_order_risk 9 (sample_exit\<lparr>req_context := (req_context sample_exit)
          \<lparr>kill_switch_enabled := True, broker_connected := False, daily_pnl := - 9000\<rparr>\<rparr>) = Inr d
    \<and> evaluate_order_risk 9 sample_exit = Inr d
    \<and> (let p = current_position_quantity (req_context sample_exit);
           p' = p + signed_quantity (intent_side (req_intent sample_exit)) (rd_approved_quantity d)
       in \<bar>p'\<bar> \<le> \<bar>p\<bar> \<and> 0 \<le> p * p'
          \<and> (rd_outcome d \<noteq> risk_outcome.REJECTED \<longleftrightarrow>
               p > 0 \<and> intent_side (req_intent sample_exit) = SELL
               \<or> p < 0 \<and> intent_side (req_intent sample_exit) = BUY))"
    by (rule exits_never_locked_never_reverse)
      (simp_all add: sample_exit_def risk_sample_defs exit_view_def r)
  then show ?thesis by (auto simp: Let_def sample_exit_def risk_sample_defs)
qed

end
