(* ===== verification/Write_Once.thy ===== *)
theory Write_Once
  imports Prelude
begin

text \<open>
  The interface of a table whose rows are written once: a lookup by key and a step of the
  component that owns the table, with the law that no step changes or removes a row that is
  there.  The decision table of the risk authority and the order table of the paper broker are
  its instances; what they share is that a row, once found, is found after every later sequence
  of steps, so that an answer given from it is given again.
\<close>

locale write_once =
  fixes lookup :: "'db \<Rightarrow> 'k \<Rightarrow> 'r option"
    and step :: "'db \<Rightarrow> 'op \<Rightarrow> 'db"
  assumes step_keeps: "lookup db k = Some r \<Longrightarrow> lookup (step db op) k = Some r"
begin

lemma run_keeps: "lookup db k = Some r \<Longrightarrow> lookup (foldl step db ops) k = Some r"
  by (induction ops arbitrary: db) (auto dest: step_keeps)

lemma run_agree:
  assumes "lookup (foldl step db ops) k = Some r" "lookup (foldl step db (ops @ more)) k = Some r'"
  shows "r' = r"
  using run_keeps [OF assms(1), of more] assms(2) by simp

lemma run_absent: "lookup (foldl step db ops) k = None \<Longrightarrow> lookup db k = None"
  by (cases "lookup db k") (auto dest: run_keeps [of _ _ _ ops])

end

end
