(* ===== verification/Risk_Persistence.thy ===== *)
theory Risk_Persistence
  imports Risk_Engine Write_Once "HOL-Library.List_Lexorder" "HOL-Library.Char_ord"
begin

text \<open>
  The durable side of the risk authority, \<open>packages/risk_engine/persistence.py\<close>: one stored
  decision per order intent, guarded by a fingerprint of the whole request, the effective-dated
  limit rows, and the kill switch with its audit trail.

  Parameters: \<open>fp\<close> is the hexadecimal SHA-256 of the JSON of a request, \<open>dig\<close> the truncated digest
  of the selected limit rows, and \<open>col\<close> what the column \<open>Numeric(28, 8)\<close> keeps of a quantity.  An
  operation is one committed unit of work; one that raises leaves the tables unchanged.
\<close>

section \<open>Tables\<close>

datatype risk_limit_type =
    MAXIMUM_RISK_PER_TRADE_FRACTION | MAXIMUM_DAILY_LOSS_FRACTION | MAXIMUM_OPEN_POSITIONS
  | MAXIMUM_INSTRUMENT_EXPOSURE_FRACTION | MAXIMUM_QUOTE_AGE_SECONDS | MAXIMUM_SPREAD_BPS
  | MAXIMUM_WEEKLY_LOSS_FRACTION | MAXIMUM_DRAWDOWN_FRACTION | MAXIMUM_GROSS_EXPOSURE_FRACTION
  | MAXIMUM_NET_EXPOSURE_FRACTION | MAXIMUM_ORDERS_PER_MINUTE | MAXIMUM_CONSECUTIVE_LOSSES
  | MAXIMUM_SECTOR_EXPOSURE_FRACTION | MAXIMUM_STRATEGY_ALLOCATION_FRACTION
  | MAXIMUM_SLIPPAGE_BPS | MAXIMUM_OPTIONS_EXPOSURE | MAXIMUM_PORTFOLIO_DELTA
  | MAXIMUM_PORTFOLIO_GAMMA

primrec risk_limit_value :: "risk_limit_type \<Rightarrow> string" where
  "risk_limit_value MAXIMUM_RISK_PER_TRADE_FRACTION = ''maximum_risk_per_trade_fraction''"
| "risk_limit_value MAXIMUM_DAILY_LOSS_FRACTION = ''maximum_daily_loss_fraction''"
| "risk_limit_value MAXIMUM_OPEN_POSITIONS = ''maximum_open_positions''"
| "risk_limit_value MAXIMUM_INSTRUMENT_EXPOSURE_FRACTION = ''maximum_instrument_exposure_fraction''"
| "risk_limit_value MAXIMUM_QUOTE_AGE_SECONDS = ''maximum_quote_age_seconds''"
| "risk_limit_value MAXIMUM_SPREAD_BPS = ''maximum_spread_bps''"
| "risk_limit_value MAXIMUM_WEEKLY_LOSS_FRACTION = ''maximum_weekly_loss_fraction''"
| "risk_limit_value MAXIMUM_DRAWDOWN_FRACTION = ''maximum_drawdown_fraction''"
| "risk_limit_value MAXIMUM_GROSS_EXPOSURE_FRACTION = ''maximum_gross_exposure_fraction''"
| "risk_limit_value MAXIMUM_NET_EXPOSURE_FRACTION = ''maximum_net_exposure_fraction''"
| "risk_limit_value MAXIMUM_ORDERS_PER_MINUTE = ''maximum_orders_per_minute''"
| "risk_limit_value MAXIMUM_CONSECUTIVE_LOSSES = ''maximum_consecutive_losses''"
| "risk_limit_value MAXIMUM_SECTOR_EXPOSURE_FRACTION = ''maximum_sector_exposure_fraction''"
| "risk_limit_value MAXIMUM_STRATEGY_ALLOCATION_FRACTION = ''maximum_strategy_allocation_fraction''"
| "risk_limit_value MAXIMUM_SLIPPAGE_BPS = ''maximum_slippage_bps''"
| "risk_limit_value MAXIMUM_OPTIONS_EXPOSURE = ''maximum_options_exposure''"
| "risk_limit_value MAXIMUM_PORTFOLIO_DELTA = ''maximum_portfolio_delta''"
| "risk_limit_value MAXIMUM_PORTFOLIO_GAMMA = ''maximum_portfolio_gamma''"

definition all_risk_limit_types :: "risk_limit_type list" where
  "all_risk_limit_types =
     [MAXIMUM_RISK_PER_TRADE_FRACTION, MAXIMUM_DAILY_LOSS_FRACTION, MAXIMUM_OPEN_POSITIONS,
      MAXIMUM_INSTRUMENT_EXPOSURE_FRACTION, MAXIMUM_QUOTE_AGE_SECONDS, MAXIMUM_SPREAD_BPS,
      MAXIMUM_WEEKLY_LOSS_FRACTION, MAXIMUM_DRAWDOWN_FRACTION, MAXIMUM_GROSS_EXPOSURE_FRACTION,
      MAXIMUM_NET_EXPOSURE_FRACTION, MAXIMUM_ORDERS_PER_MINUTE, MAXIMUM_CONSECUTIVE_LOSSES,
      MAXIMUM_SECTOR_EXPOSURE_FRACTION, MAXIMUM_STRATEGY_ALLOCATION_FRACTION,
      MAXIMUM_SLIPPAGE_BPS, MAXIMUM_OPTIONS_EXPOSURE, MAXIMUM_PORTFOLIO_DELTA,
      MAXIMUM_PORTFOLIO_GAMMA]"

lemma all_risk_limit_types_complete [simp]: "t \<in> set all_risk_limit_types"
  by (cases t) (simp_all add: all_risk_limit_types_def)

record risk_decision_row =
  rrow_id :: uuid
  rrow_order_intent_id :: uuid
  rrow_account_id :: uuid
  rrow_instrument_id :: uuid
  rrow_evaluated_at :: instant
  rrow_outcome :: string
  rrow_approved_quantity :: decimal
  rrow_reason_codes :: "string list"
  rrow_policy_version :: string
  rrow_fingerprint :: string

record risk_limit_row =
  lim_id :: uuid
  lim_account_id :: uuid
  lim_type :: string
  lim_value :: decimal
  lim_enabled :: bool
  lim_effective_from :: instant

record safety_row =
  safe_enabled :: bool
  safe_reason :: string
  safe_updated_at :: instant
  safe_correlation_id :: string

record audit_row =
  audit_occurred_at :: instant
  audit_actor_id :: string
  audit_action :: string
  audit_resource_type :: string
  audit_resource_id :: string
  audit_outcome :: string
  audit_reason :: string
  audit_correlation_id :: string

record risk_db =
  risk_decisions :: "uuid \<rightharpoonup> risk_decision_row"
  risk_limit_rows :: "risk_limit_row list"
  safety_state :: "string \<rightharpoonup> safety_row"
  audit_events :: "audit_row list"

section \<open>The stored decision\<close>

definition risk_outcome_value :: "risk_outcome \<Rightarrow> string" where
  "risk_outcome_value oc =
     (case oc of risk_outcome.APPROVED \<Rightarrow> ''APPROVED'' | RESIZED \<Rightarrow> ''RESIZED''
      | risk_outcome.REJECTED \<Rightarrow> ''REJECTED'')"

definition risk_outcome_of_value :: "string \<Rightarrow> risk_outcome result" where
  "risk_outcome_of_value t =
     (case List.find (\<lambda>oc. risk_outcome_value oc = t)
             [risk_outcome.APPROVED, RESIZED, risk_outcome.REJECTED] of
        None \<Rightarrow> Inl (ValueError ''not a valid RiskOutcome'') | Some oc \<Rightarrow> Inr oc)"

text \<open>\<open>_domain\<close>.\<close>

definition decision_of_row :: "risk_decision_row \<Rightarrow> risk_decision result" where
  "decision_of_row r =
     rbind (risk_outcome_of_value (rrow_outcome r)) (\<lambda>oc. make_risk_decision
       \<lparr>rd_id = rrow_id r, rd_order_intent_id = rrow_order_intent_id r,
        rd_timestamp = rrow_evaluated_at r, rd_outcome = oc,
        rd_approved_quantity = rrow_approved_quantity r, rd_reason_codes = rrow_reason_codes r,
        rd_policy_version = rrow_policy_version r\<rparr>)"

definition row_of_decision ::
  "(decimal \<Rightarrow> decimal) \<Rightarrow> string \<Rightarrow> order_intent \<Rightarrow> risk_decision \<Rightarrow> risk_decision_row" where
  "row_of_decision col print i d =
     \<lparr>rrow_id = rd_id d, rrow_order_intent_id = rd_order_intent_id d,
      rrow_account_id = intent_account_id i, rrow_instrument_id = intent_instrument_id i,
      rrow_evaluated_at = rd_timestamp d, rrow_outcome = risk_outcome_value (rd_outcome d),
      rrow_approved_quantity = col (rd_approved_quantity d), rrow_reason_codes = rd_reason_codes d,
      rrow_policy_version = rd_policy_version d, rrow_fingerprint = print\<rparr>"

text \<open>\<open>PersistentRiskAuthority.evaluate\<close>.\<close>

definition authority_evaluate ::
  "(decimal \<Rightarrow> decimal) \<Rightarrow> (risk_request \<Rightarrow> string) \<Rightarrow> uuid \<Rightarrow> risk_db \<Rightarrow> risk_request
   \<Rightarrow> (risk_db \<times> risk_decision) result" where
  "authority_evaluate col fp fresh db rq =
     (case risk_decisions db (intent_id (req_intent rq)) of
        Some r \<Rightarrow>
          if rrow_fingerprint r \<noteq> fp rq
          then Inl (ValueError ''order intent already has a decision for different risk inputs'')
          else rbind (decision_of_row r) (\<lambda>d. Inr (db, d))
      | None \<Rightarrow>
          rbind (evaluate_order_risk fresh rq) (\<lambda>d.
            Inr (db\<lparr>risk_decisions := (risk_decisions db)(rd_order_intent_id d \<mapsto>
                      row_of_decision col (fp rq) (req_intent rq) d)\<rparr>, d)))"

section \<open>Effective limits\<close>

definition whole_number :: "decimal \<Rightarrow> string \<Rightarrow> int result" where
  "whole_number v label =
     (let converted = dint v in
      if v \<noteq> of_int converted \<or> converted \<le> 0
      then Inl (ValueError (label @ '' risk limit must be a positive whole number''))
      else Inr converted)"

text \<open>The query, newest first, and the dictionary of the first row of every type.\<close>

definition effective_rows :: "risk_db \<Rightarrow> uuid \<Rightarrow> instant \<Rightarrow> risk_limit_row list" where
  "effective_rows db account as_of =
     sort_key (\<lambda>r. - lim_effective_from r)
       (filter (\<lambda>r. lim_account_id r = account \<and> lim_enabled r \<and> lim_effective_from r \<le> as_of)
          (risk_limit_rows db))"

definition latest_limits :: "risk_limit_row list \<Rightarrow> string \<rightharpoonup> risk_limit_row" where
  "latest_limits rs = foldl (\<lambda>m r. case m (lim_type r) of None \<Rightarrow> m(lim_type r \<mapsto> r) | Some _ \<Rightarrow> m)
                        (\<lambda>_. None) rs"

record risk_configuration =
  cfg_limits :: risk_limits
  cfg_kill_switch_enabled :: bool
  cfg_kill_switch_reason :: string

definition kill_switch_key :: string where
  "kill_switch_key = ''kill_switch''"

definition limits_of_rows :: "string \<Rightarrow> (risk_limit_type \<Rightarrow> decimal) \<Rightarrow> risk_limits result" where
  "limits_of_rows version v =
     rbind (whole_number (v MAXIMUM_OPEN_POSITIONS) ''open positions'') (\<lambda>positions.
     rbind (whole_number (v MAXIMUM_QUOTE_AGE_SECONDS) ''quote age'') (\<lambda>age.
     rbind (whole_number (v MAXIMUM_ORDERS_PER_MINUTE) ''orders per minute'') (\<lambda>orders.
     rbind (whole_number (v MAXIMUM_CONSECUTIVE_LOSSES) ''consecutive losses'') (\<lambda>losses.
     make_risk_limits
       \<lparr>policy_version = version,
        maximum_risk_per_trade_fraction = v MAXIMUM_RISK_PER_TRADE_FRACTION,
        maximum_daily_loss_fraction = v MAXIMUM_DAILY_LOSS_FRACTION,
        maximum_open_positions = positions,
        maximum_instrument_exposure_fraction = v MAXIMUM_INSTRUMENT_EXPOSURE_FRACTION,
        maximum_quote_age_seconds = age,
        maximum_spread_bps = v MAXIMUM_SPREAD_BPS,
        maximum_weekly_loss_fraction = v MAXIMUM_WEEKLY_LOSS_FRACTION,
        maximum_drawdown_fraction = v MAXIMUM_DRAWDOWN_FRACTION,
        maximum_gross_exposure_fraction = v MAXIMUM_GROSS_EXPOSURE_FRACTION,
        maximum_net_exposure_fraction = v MAXIMUM_NET_EXPOSURE_FRACTION,
        maximum_orders_per_minute = orders,
        maximum_consecutive_losses = losses,
        maximum_sector_exposure_fraction = v MAXIMUM_SECTOR_EXPOSURE_FRACTION,
        maximum_strategy_allocation_fraction = v MAXIMUM_STRATEGY_ALLOCATION_FRACTION,
        maximum_slippage_bps = v MAXIMUM_SLIPPAGE_BPS,
        maximum_options_exposure = v MAXIMUM_OPTIONS_EXPOSURE,
        maximum_portfolio_delta = v MAXIMUM_PORTFOLIO_DELTA,
        maximum_portfolio_gamma = v MAXIMUM_PORTFOLIO_GAMMA\<rparr>))))"

definition load_configuration ::
  "(risk_limit_row list \<Rightarrow> string) \<Rightarrow> risk_db \<Rightarrow> uuid \<Rightarrow> datetime \<Rightarrow> risk_configuration result" where
  "load_configuration dig db account as_of =
     (if \<not> is_aware as_of
      then Inl (ValueError ''risk configuration timestamp must be timezone-aware'')
      else
        let latest = latest_limits (effective_rows db account (instant_of as_of));
            missing = sort (filter (\<lambda>n. latest n = None) (map risk_limit_value all_risk_limit_types))
        in if missing \<noteq> []
           then Inl (RuntimeError (''missing effective risk limits: '' @ join '', '' missing))
           else
             let row = (\<lambda>t. the (latest (risk_limit_value t)));
                 version = ''persisted-'' @ dig (map row all_risk_limit_types)
             in rbind (limits_of_rows version (\<lambda>t. lim_value (row t))) (\<lambda>limits.
                  Inr (case safety_state db kill_switch_key of
                         None \<Rightarrow> \<lparr>cfg_limits = limits, cfg_kill_switch_enabled = False,
                                  cfg_kill_switch_reason = ''not configured''\<rparr>
                       | Some s \<Rightarrow> \<lparr>cfg_limits = limits, cfg_kill_switch_enabled = safe_enabled s,
                                    cfg_kill_switch_reason = safe_reason s\<rparr>)))"

section \<open>The kill switch\<close>

definition set_kill_switch ::
  "risk_db \<Rightarrow> bool \<Rightarrow> string \<Rightarrow> string \<Rightarrow> string \<Rightarrow> datetime \<Rightarrow> risk_db result" where
  "set_kill_switch db on reason correlation actor occurred =
     (if blank reason \<or> blank correlation \<or> blank actor
      then Inl (ValueError ''kill-switch reason, correlation ID, and actor are required'')
      else if \<not> is_aware occurred
      then Inl (ValueError ''kill-switch timestamp must be timezone-aware'')
      else Inr (db\<lparr>
        safety_state := (safety_state db)(kill_switch_key \<mapsto>
          \<lparr>safe_enabled = on, safe_reason = reason, safe_updated_at = instant_of occurred,
           safe_correlation_id = correlation\<rparr>),
        audit_events := audit_events db @
          [\<lparr>audit_occurred_at = instant_of occurred, audit_actor_id = actor,
            audit_action = ''risk.kill_switch.changed'', audit_resource_type = ''safety_state'',
            audit_resource_id = kill_switch_key,
            audit_outcome = (if on then ''enabled'' else ''disabled''), audit_reason = reason,
            audit_correlation_id = correlation\<rparr>]\<rparr>))"

definition automatic_kill_reasons :: "risk_context \<Rightarrow> risk_limits \<Rightarrow> string list" where
  "automatic_kill_reasons c l =
     flag (daily_pnl c \<le> dneg (dmul (equity c) (maximum_daily_loss_fraction l))) ''MAXIMUM_DAILY_LOSS''
     @ flag (weekly_pnl c \<le> dneg (dmul (equity c) (maximum_weekly_loss_fraction l))) ''MAXIMUM_WEEKLY_LOSS''
     @ flag (drawdown_fraction c \<ge> maximum_drawdown_fraction l) ''MAXIMUM_DRAWDOWN''
     @ flag (consecutive_losses c \<ge> maximum_consecutive_losses l) ''CONSECUTIVE_LOSS_CIRCUIT_BREAKER''"

definition activate_automatic_kill ::
  "risk_db \<Rightarrow> risk_context \<Rightarrow> risk_limits \<Rightarrow> string \<Rightarrow> (risk_db \<times> bool) result" where
  "activate_automatic_kill db c l correlation =
     (let reasons = automatic_kill_reasons c l in
      if reasons = [] then Inr (db, False)
      else rbind (set_kill_switch db True (''automatic: '' @ join '','' reasons) correlation
                    ''risk-engine'' (Aware (evaluated_at c))) (\<lambda>db'. Inr (db', True)))"

text \<open>\<open>PersistentRiskAuthority.evaluate_with_persisted_configuration\<close>.\<close>

definition authority_evaluate_persisted ::
  "(decimal \<Rightarrow> decimal) \<Rightarrow> (risk_request \<Rightarrow> string) \<Rightarrow> (risk_limit_row list \<Rightarrow> string) \<Rightarrow> uuid \<Rightarrow> risk_db
   \<Rightarrow> order_intent \<Rightarrow> risk_context \<Rightarrow> decimal \<Rightarrow> decimal option \<Rightarrow> (risk_db \<times> risk_decision) result" where
  "authority_evaluate_persisted col fp dig fresh db i c reference stop =
     rbind (load_configuration dig db (intent_account_id i) (Aware (evaluated_at c))) (\<lambda>cfg.
       authority_evaluate col fp fresh db
         \<lparr>req_intent = i,
          req_context = c\<lparr>kill_switch_enabled := kill_switch_enabled c \<or> cfg_kill_switch_enabled cfg\<rparr>,
          req_limits = cfg_limits cfg, req_reference_price = reference, req_stop_price = stop\<rparr>)"

section \<open>Sequences of operations\<close>

datatype risk_op =
    EvaluateRequest uuid risk_request
  | EvaluatePersisted uuid order_intent risk_context decimal "decimal option"
  | SetKillSwitch bool string string string datetime
  | AutomaticKill risk_context risk_limits string

fun risk_run_op ::
  "(decimal \<Rightarrow> decimal) \<Rightarrow> (risk_request \<Rightarrow> string) \<Rightarrow> (risk_limit_row list \<Rightarrow> string) \<Rightarrow> risk_op
   \<Rightarrow> risk_db \<Rightarrow> risk_db result" where
  "risk_run_op col fp dig (EvaluateRequest fresh rq) db =
     rbind (authority_evaluate col fp fresh db rq) (\<lambda>(db', d). Inr db')"
| "risk_run_op col fp dig (EvaluatePersisted fresh i c reference stop) db =
     rbind (authority_evaluate_persisted col fp dig fresh db i c reference stop) (\<lambda>(db', d). Inr db')"
| "risk_run_op col fp dig (SetKillSwitch on reason correlation actor occurred) db =
     set_kill_switch db on reason correlation actor occurred"
| "risk_run_op col fp dig (AutomaticKill c l correlation) db =
     rbind (activate_automatic_kill db c l correlation) (\<lambda>(db', fired). Inr db')"

definition risk_exec ::
  "(decimal \<Rightarrow> decimal) \<Rightarrow> (risk_request \<Rightarrow> string) \<Rightarrow> (risk_limit_row list \<Rightarrow> string) \<Rightarrow> risk_db
   \<Rightarrow> risk_op \<Rightarrow> risk_db" where
  "risk_exec col fp dig db op = keep_on_raise (risk_run_op col fp dig op) db"

lemma evaluate_order_risk_intent:
  "evaluate_order_risk fresh rq = Inr d \<Longrightarrow> rd_order_intent_id d = intent_id (req_intent rq)"
  by (auto simp: evaluate_order_risk_def evaluate_exit_def evaluate_entry_def size_entry_def
      risk_outcome_decision_Inr Let_def split: if_splits option.splits)

lemma authority_evaluate_cases:
  assumes "authority_evaluate col fp fresh db rq = Inr (db', d)"
  obtains (stored) r where "risk_decisions db (intent_id (req_intent rq)) = Some r" "db' = db"
      "rrow_fingerprint r = fp rq" "decision_of_row r = Inr d"
  | (decided) "risk_decisions db (intent_id (req_intent rq)) = None"
      "evaluate_order_risk fresh rq = Inr d"
      "db' = db\<lparr>risk_decisions := (risk_decisions db)(intent_id (req_intent rq) \<mapsto>
                row_of_decision col (fp rq) (req_intent rq) d)\<rparr>"
  using assms
  by (auto simp: authority_evaluate_def rbind_eq_Inr evaluate_order_risk_intent
      split: option.splits if_splits)

lemma authority_evaluate_frame:
  assumes "authority_evaluate col fp fresh db rq = Inr (db', d)"
  shows "safety_state db' = safety_state db" "audit_events db' = audit_events db"
    "risk_limit_rows db' = risk_limit_rows db"
    "risk_decisions db k = Some r \<Longrightarrow> risk_decisions db' k = Some r"
  using assms by (cases rule: authority_evaluate_cases; auto)+

lemma set_kill_switch_frame:
  assumes "set_kill_switch db on reason correlation actor occurred = Inr db'"
  shows "risk_decisions db' = risk_decisions db" "risk_limit_rows db' = risk_limit_rows db"
    "\<exists>s. safety_state db' kill_switch_key = Some s \<and> safe_enabled s = on"
  using assms by (auto simp: set_kill_switch_def split: if_splits)

lemma risk_exec_cases:
  obtains (decided) fresh rq d where "authority_evaluate col fp fresh db rq = Inr (risk_exec col fp dig db op, d)"
  | (switched) on reason correlation actor occurred where
      "set_kill_switch db on reason correlation actor occurred = Inr (risk_exec col fp dig db op)"
      "on \<or> (\<exists>r c a t. op = SetKillSwitch False r c a t)"
  | (same) "risk_exec col fp dig db op = db"
proof (cases "risk_run_op col fp dig op db")
  case (Inr db')
  then have e: "risk_exec col fp dig db op = db'" by (simp add: risk_exec_def keep_on_raise_def)
  show ?thesis
  proof (cases op)
    case (EvaluateRequest fresh rq)
    with Inr e decided show ?thesis by (auto simp: rbind_eq_Inr)
  next
    case (EvaluatePersisted fresh i c reference stop)
    with Inr e decided show ?thesis by (fastforce simp: rbind_eq_Inr authority_evaluate_persisted_def)
  next
    case (SetKillSwitch on reason correlation actor occurred)
    with Inr e switched [of on] show ?thesis by (cases on) auto
  next
    case (AutomaticKill c l correlation)
    with Inr e switched [of True] same show ?thesis
      by (auto simp: rbind_eq_Inr activate_automatic_kill_def Let_def split: if_splits)
  qed
qed (use same in \<open>simp add: risk_exec_def keep_on_raise_def\<close>)

interpretation ledger: write_once risk_decisions "risk_exec col fp dig" for col fp dig
proof
  fix db :: risk_db and k r op
  assume "risk_decisions db k = Some r"
  then show "risk_decisions (risk_exec col fp dig db op) k = Some r"
    by (cases rule: risk_exec_cases [of col fp db dig op])
      (auto dest: authority_evaluate_frame(4) set_kill_switch_frame(1))
qed

section \<open>Re-evaluation\<close>

lemma risk_outcome_roundtrip [simp]: "risk_outcome_of_value (risk_outcome_value oc) = Inr oc"
  by (cases oc) (simp_all add: risk_outcome_of_value_def risk_outcome_value_def)

lemma decision_row_roundtrip:
  "0 \<le> col (rd_approved_quantity d) \<Longrightarrow>
   decision_of_row (row_of_decision col p i d) = Inr (d\<lparr>rd_approved_quantity := col (rd_approved_quantity d)\<rparr>)"
  by (simp add: decision_of_row_def row_of_decision_def make_risk_decision_def)

text \<open>C32: A decision is final.  After the first evaluation of an intent, and after any later
  operations of the authority, evaluating the same request again changes nothing and returns the
  stored decision - the first one with its quantity as the column keeps it, hence the same one
  whenever the column keeps that quantity exactly - and any request for that intent with another
  fingerprint raises.\<close>

theorem decision_is_final:
  assumes "authority_evaluate col fp fresh db rq = Inr (db1, d)"
    and "risk_decisions db (intent_id (req_intent rq)) = None"
    and "0 \<le> col (rd_approved_quantity d)"
    and "db2 = foldl (risk_exec col fp dig) db1 ops"
  shows "authority_evaluate col fp fresh2 db2 rq
           = Inr (db2, d\<lparr>rd_approved_quantity := col (rd_approved_quantity d)\<rparr>)
    \<and> (\<forall>rq'. intent_id (req_intent rq') = intent_id (req_intent rq) \<and> fp rq' \<noteq> fp rq \<longrightarrow>
        authority_evaluate col fp fresh2 db2 rq'
          = Inl (ValueError ''order intent already has a decision for different risk inputs''))"
proof -
  from assms(1,2) have "risk_decisions db1 (intent_id (req_intent rq))
      = Some (row_of_decision col (fp rq) (req_intent rq) d)"
    by (cases rule: authority_evaluate_cases) auto
  then have "risk_decisions db2 (intent_id (req_intent rq))
      = Some (row_of_decision col (fp rq) (req_intent rq) d)"
    unfolding assms(4) by (rule ledger.run_keeps)
  moreover have "rrow_fingerprint (row_of_decision col (fp rq) (req_intent rq) d) = fp rq"
    by (simp add: row_of_decision_def)
  ultimately show ?thesis
    by (simp add: authority_evaluate_def decision_row_roundtrip [of col d, OF assms(3)])
qed

text \<open>The column \<open>Numeric(28, 8)\<close> instantiated: eight decimals, halves away from zero.\<close>

definition numeric_8 :: "decimal \<Rightarrow> decimal" where
  "numeric_8 q = dhalf_up (q * 100000000) / 100000000"

definition empty_risk_db :: risk_db where
  "empty_risk_db = \<lparr>risk_decisions = (\<lambda>_. None), risk_limit_rows = [], safety_state = (\<lambda>_. None),
     audit_events = []\<rparr>"

definition sample_risk_db :: risk_db where
  "sample_risk_db = empty_risk_db\<lparr>risk_decisions := [11 \<mapsto>
     row_of_decision numeric_8 ''print'' sample_intent sample_resized]\<rparr>"

lemma sample_authority:
  "authority_evaluate numeric_8 (\<lambda>_. ''print'') 77 empty_risk_db sample_request
     = Inr (sample_risk_db, sample_resized)"
  by (simp add: authority_evaluate_def sample_evaluation sample_risk_db_def empty_risk_db_def)
    (simp add: risk_sample_defs)

theorem decision_is_final_witness:
  "authority_evaluate numeric_8 (\<lambda>_. ''print'') 78
     (risk_exec numeric_8 (\<lambda>_. ''print'') (\<lambda>_. ''d'') sample_risk_db
        (SetKillSwitch True ''halt'' ''c1'' ''ops'' (Aware 5))) sample_request
   = Inr (risk_exec numeric_8 (\<lambda>_. ''print'') (\<lambda>_. ''d'') sample_risk_db
        (SetKillSwitch True ''halt'' ''c1'' ''ops'' (Aware 5)), sample_resized)"
proof -
  have "numeric_8 20 = 20" by (simp add: numeric_8_def)
  then have q: "numeric_8 (rd_approved_quantity sample_resized) = rd_approved_quantity sample_resized"
    by (simp add: sample_resized_def)
  have n: "risk_decisions empty_risk_db (intent_id (req_intent sample_request)) = None"
    by (simp add: empty_risk_db_def)
  have z: "0 \<le> numeric_8 (rd_approved_quantity sample_resized)"
    unfolding q by (simp add: sample_resized_def)
  show ?thesis
    using decision_is_final [OF sample_authority n z, of
        "risk_exec numeric_8 (\<lambda>_. ''print'') (\<lambda>_. ''d'') sample_risk_db
           (SetKillSwitch True ''halt'' ''c1'' ''ops'' (Aware 5))" "\<lambda>_. ''d''"
        "[SetKillSwitch True ''halt'' ''c1'' ''ops'' (Aware 5)]" 78] q
    by simp
qed

section \<open>Effective limits\<close>

lemma latest_limits_fold:
  "foldl (\<lambda>m r. case m (lim_type r) of None \<Rightarrow> m(lim_type r \<mapsto> r) | Some _ \<Rightarrow> m) m rs n
     = (case m n of Some r \<Rightarrow> Some r | None \<Rightarrow> List.find (\<lambda>r. lim_type r = n) rs)"
  by (induction rs arbitrary: m) (auto split: option.splits)

lemma latest_limits_find: "latest_limits rs n = List.find (\<lambda>r. lim_type r = n) rs"
  by (simp add: latest_limits_def latest_limits_fold)

definition effective_at :: "uuid \<Rightarrow> instant \<Rightarrow> risk_limit_row \<Rightarrow> bool" where
  "effective_at account t r \<longleftrightarrow> lim_account_id r = account \<and> lim_enabled r \<and> lim_effective_from r \<le> t"

lemma find_sorted_first:
  fixes f :: "'a \<Rightarrow> int"
  assumes "sorted (map f xs)" "List.find P xs = Some x" "y \<in> set xs" "P y"
  shows "f x \<le> f y"
  using assms by (induction xs) (auto split: if_splits)

lemma latest_effective:
  assumes "latest_limits (effective_rows db account t) n = Some r"
  shows "r \<in> set (risk_limit_rows db)" "effective_at account t r" "lim_type r = n"
    "\<And>r'. r' \<in> set (risk_limit_rows db) \<Longrightarrow> effective_at account t r' \<Longrightarrow> lim_type r' = n
       \<Longrightarrow> lim_effective_from r' \<le> lim_effective_from r"
proof -
  let ?xs = "effective_rows db account t"
  have f: "List.find (\<lambda>r. lim_type r = n) ?xs = Some r"
    using assms by (simp add: latest_limits_find)
  show "r \<in> set (risk_limit_rows db)" "effective_at account t r" "lim_type r = n"
    using find_Some_in [OF f] by (auto simp: effective_rows_def effective_at_def)
  have s: "sorted (map (\<lambda>r. - lim_effective_from r) ?xs)"
    by (simp add: effective_rows_def)
  show "lim_effective_from r' \<le> lim_effective_from r"
    if "r' \<in> set (risk_limit_rows db)" "effective_at account t r'" "lim_type r' = n" for r'
  proof -
    have "r' \<in> set ?xs" using that by (auto simp: effective_rows_def effective_at_def)
    from find_sorted_first [OF s f this that(3)] show ?thesis by simp
  qed
qed

lemma make_risk_limits_Inr: "make_risk_limits l = Inr l' \<Longrightarrow> l' = l"
  by (auto simp: make_risk_limits_def split: if_splits)

lemma limits_of_rows_checked: "limits_of_rows v f = Inr l \<Longrightarrow> make_risk_limits l = Inr l"
  by (auto simp: limits_of_rows_def rbind_eq_Inr make_risk_limits_def split: if_splits)

lemma limits_of_rows_version: "limits_of_rows v f = Inr l \<Longrightarrow> policy_version l = v"
  by (auto simp: limits_of_rows_def rbind_eq_Inr dest!: make_risk_limits_Inr)

lemma missing_Nil:
  "sort (filter (\<lambda>n. latest n = None) (map risk_limit_value all_risk_limit_types)) = []
     \<longleftrightarrow> (\<forall>t. latest (risk_limit_value t) \<noteq> None)"
proof -
  have "sort xs = [] \<longleftrightarrow> xs = []" for xs :: "string list"
    by (metis length_0_conv length_sort)
  then show ?thesis by (auto simp: filter_empty_conv)
qed

lemma load_configuration_row:
  assumes "\<forall>k. latest_limits (effective_rows db account t) (risk_limit_value k) = Some (row k)"
  shows "load_configuration dig db account (Aware t) =
    rbind (limits_of_rows (''persisted-'' @ dig (map row all_risk_limit_types)) (\<lambda>k. lim_value (row k)))
      (\<lambda>limits. Inr (case safety_state db kill_switch_key of
         None \<Rightarrow> \<lparr>cfg_limits = limits, cfg_kill_switch_enabled = False,
                  cfg_kill_switch_reason = ''not configured''\<rparr>
       | Some s \<Rightarrow> \<lparr>cfg_limits = limits, cfg_kill_switch_enabled = safe_enabled s,
                    cfg_kill_switch_reason = safe_reason s\<rparr>))"
proof -
  have "sort (filter (\<lambda>n. latest_limits (effective_rows db account t) n = None)
      (map risk_limit_value all_risk_limit_types)) = []"
    unfolding missing_Nil using assms by simp
  moreover have "the (latest_limits (effective_rows db account t) (risk_limit_value k)) = row k" for k
    using assms by simp
  ultimately show ?thesis by (simp only: load_configuration_def Let_def instant_of_simps is_aware_simps) simp
qed

text \<open>The limits in force at a time are, for every limit type, the value of the newest enabled
  row of the account that is effective by then - a row of the future is invisible, a missing type
  raises - and they satisfy every check of the limits constructor.\<close>

theorem loaded_limits_are_newest_effective:
  assumes "load_configuration dig db account (Aware t) = Inr cfg"
  shows "make_risk_limits (cfg_limits cfg) = Inr (cfg_limits cfg)
    \<and> (\<exists>row. limits_of_rows (policy_version (cfg_limits cfg)) (\<lambda>k. lim_value (row k)) = Inr (cfg_limits cfg)
        \<and> (\<forall>k. row k \<in> set (risk_limit_rows db) \<and> effective_at account t (row k)
             \<and> lim_type (row k) = risk_limit_value k
             \<and> (\<forall>r' \<in> set (risk_limit_rows db). effective_at account t r' \<longrightarrow> lim_type r' = risk_limit_value k
                  \<longrightarrow> lim_effective_from r' \<le> lim_effective_from (row k))))
    \<and> (\<forall>future. (\<forall>r \<in> set future. t < lim_effective_from r) \<longrightarrow>
          load_configuration dig (db\<lparr>risk_limit_rows := risk_limit_rows db @ future\<rparr>) account (Aware t) = Inr cfg)"
proof -
  let ?latest = "latest_limits (effective_rows db account t)"
  let ?row = "\<lambda>k. the (?latest (risk_limit_value k))"
  have all: "\<forall>k. ?latest (risk_limit_value k) \<noteq> None"
    using assms unfolding load_configuration_def Let_def missing_Nil instant_of_simps by (auto split: if_splits)
  obtain v where v: "limits_of_rows v (\<lambda>k. lim_value (?row k)) = Inr (cfg_limits cfg)"
    using assms unfolding load_configuration_def Let_def missing_Nil instant_of_simps
    by (auto simp: rbind_eq_Inr split: if_splits option.splits)
  moreover have "policy_version (cfg_limits cfg) = v"
    using v by (rule limits_of_rows_version)
  moreover have "?latest (risk_limit_value k) = Some (?row k)" for k using all by auto
  note e = latest_effective [OF this]
  moreover have "load_configuration dig (db\<lparr>risk_limit_rows := risk_limit_rows db @ future\<rparr>) account (Aware t) = Inr cfg"
    if "\<forall>r \<in> set future. t < lim_effective_from r" for future
  proof -
    have "effective_rows (db\<lparr>risk_limit_rows := risk_limit_rows db @ future\<rparr>) account t = effective_rows db account t"
      using that by (auto simp: effective_rows_def filter_empty_conv not_le)
    moreover have "safety_state (db\<lparr>risk_limit_rows := risk_limit_rows db @ future\<rparr>) = safety_state db"
      by simp
    ultimately have "load_configuration dig (db\<lparr>risk_limit_rows := risk_limit_rows db @ future\<rparr>) account (Aware t)
        = load_configuration dig db account (Aware t)"
      by (simp only: load_configuration_def instant_of_simps)
    with assms show ?thesis by simp
  qed
  ultimately show ?thesis using limits_of_rows_checked [OF v] by (intro conjI exI [of _ ?row]) auto
qed

definition sample_limit_row :: "risk_limit_type \<Rightarrow> instant \<Rightarrow> decimal \<Rightarrow> risk_limit_row" where
  "sample_limit_row k t v = \<lparr>lim_id = 1, lim_account_id = 2, lim_type = risk_limit_value k, lim_value = v,
     lim_enabled = True, lim_effective_from = t\<rparr>"

definition sample_limits_db :: risk_db where
  "sample_limits_db = empty_risk_db\<lparr>risk_limit_rows :=
     map (\<lambda>k. sample_limit_row k 0 1) all_risk_limit_types
     @ [sample_limit_row MAXIMUM_SPREAD_BPS 10 25, sample_limit_row MAXIMUM_SPREAD_BPS 99 1000]\<rparr>"

lemma sample_latest:
  "latest_limits (effective_rows sample_limits_db 2 50) (risk_limit_value k)
     = Some (if k = MAXIMUM_SPREAD_BPS then sample_limit_row k 10 25 else sample_limit_row k 0 1)"
  unfolding latest_limits_find
  by (cases k) (simp_all add: effective_rows_def sample_limits_db_def all_risk_limit_types_def
      sample_limit_row_def)

lemma sample_limits_of_rows:
  "\<exists>l. limits_of_rows ''persisted-d'' (\<lambda>k. if k = MAXIMUM_SPREAD_BPS then 25 else 1) = Inr l
     \<and> maximum_spread_bps l = 25"
  by (simp add: limits_of_rows_def whole_number_def dint_def make_risk_limits_def limit_fractions_def
      blank_def is_space_def of_char_def)

lemma sample_load_configuration:
  "\<exists>cfg. load_configuration (\<lambda>_. ''d'') sample_limits_db 2 (Aware 50) = Inr cfg
     \<and> maximum_spread_bps (cfg_limits cfg) = 25"
proof -
  let ?row = "\<lambda>k. if k = MAXIMUM_SPREAD_BPS then sample_limit_row k 10 25 else sample_limit_row k 0 1"
  have v: "(\<lambda>k. lim_value (?row k)) = (\<lambda>k. if k = MAXIMUM_SPREAD_BPS then 25 else 1)"
    by (rule ext) (simp add: sample_limit_row_def)
  have "safety_state sample_limits_db kill_switch_key = None"
    by (simp add: sample_limits_db_def empty_risk_db_def)
  with sample_limits_of_rows show ?thesis
    unfolding load_configuration_row [OF allI [OF sample_latest]] v by auto
qed

theorem loaded_limits_are_newest_effective_witness:
  "\<exists>cfg :: risk_configuration. make_risk_limits (cfg_limits cfg) = Inr (cfg_limits cfg) \<and> maximum_spread_bps (cfg_limits cfg) = 25"
proof -
  obtain cfg where c: "load_configuration (\<lambda>_. ''d'') sample_limits_db 2 (Aware 50) = Inr cfg"
    "maximum_spread_bps (cfg_limits cfg) = 25"
    using sample_load_configuration by blast
  from loaded_limits_are_newest_effective [OF c(1), THEN conjunct1] c(2) show ?thesis by blast
qed

section \<open>The kill switch and its audit trail\<close>

definition killed :: "risk_db \<Rightarrow> bool" where
  "killed db \<longleftrightarrow> (case safety_state db kill_switch_key of None \<Rightarrow> False | Some s \<Rightarrow> safe_enabled s)"

definition releases :: "risk_op \<Rightarrow> bool" where
  "releases op \<longleftrightarrow> (case op of SetKillSwitch on _ _ _ _ \<Rightarrow> \<not> on | _ \<Rightarrow> False)"

lemma killed_step: "killed db \<Longrightarrow> \<not> releases op \<Longrightarrow> killed (risk_exec col fp dig db op)"
  by (cases rule: risk_exec_cases [of col fp db dig op])
    (auto simp: killed_def releases_def dest: authority_evaluate_frame(1) set_kill_switch_frame(3))

lemma killed_run: "killed db \<Longrightarrow> \<forall>op \<in> set ops. \<not> releases op \<Longrightarrow> killed (foldl (risk_exec col fp dig) db ops)"
  by (induction ops arbitrary: db) (simp_all add: killed_step)

lemma killed_configuration:
  "killed db \<Longrightarrow> load_configuration dig db account t = Inr cfg \<Longrightarrow> cfg_kill_switch_enabled cfg"
  by (auto simp: load_configuration_def Let_def rbind_eq_Inr killed_def split: if_splits option.splits)

lemma decision_wf_of:
  assumes "evaluate_order_risk fresh rq = Inr d" "0 < intent_quantity (req_intent rq)"
  shows "decision_wf rq d"
  using evaluate_order_risk_wf [OF assms(2), of fresh] assms(1) by auto

lemma kill_switch_rejects:
  assumes "evaluate_order_risk fresh rq = Inr d" "\<not> intent_is_exit (req_intent rq)"
    "kill_switch_enabled (req_context rq)"
  shows "rd_outcome d = risk_outcome.REJECTED"
proof (rule ccontr)
  assume a: "rd_outcome d \<noteq> risk_outcome.REJECTED"
  from evaluate_entry_accepted [OF evaluate_order_risk_entry(5) [OF assms(1) a assms(2)] a]
  obtain stop where "entry_admissible rq stop" by blast
  with entry_locks_Nil [of "req_context rq" "req_limits rq"] assms(3) show False
    by (simp add: entry_admissible_def clear_to_enter_def)
qed

text \<open>A new intent decided under the configuration in force: the configuration, the request it gave, and the row it left.\<close>

abbreviation persisted_request :: "order_intent \<Rightarrow> risk_context \<Rightarrow> risk_configuration \<Rightarrow> decimal \<Rightarrow> decimal option \<Rightarrow> risk_request" where
  "persisted_request i c cfg reference stop \<equiv>
     \<lparr>req_intent = i, req_context = c\<lparr>kill_switch_enabled := kill_switch_enabled c \<or> cfg_kill_switch_enabled cfg\<rparr>,
      req_limits = cfg_limits cfg, req_reference_price = reference, req_stop_price = stop\<rparr>"

lemma persisted_decision:
  assumes "authority_evaluate_persisted col fp dig fresh db i c reference stop = Inr (db', d)" and "risk_decisions db (intent_id i) = None"
  obtains cfg where "load_configuration dig db (intent_account_id i) (Aware (evaluated_at c)) = Inr cfg"
    "evaluate_order_risk fresh (persisted_request i c cfg reference stop) = Inr d"
    "risk_decisions db' (intent_id i) = Some (row_of_decision col (fp (persisted_request i c cfg reference stop)) i d)"
proof -
  from assms(1) obtain cfg where cfg: "load_configuration dig db (intent_account_id i) (Aware (evaluated_at c)) = Inr cfg"
    and ev: "authority_evaluate col fp fresh db (persisted_request i c cfg reference stop) = Inr (db', d)"
    by (auto simp: authority_evaluate_persisted_def rbind_eq_Inr)
  from ev assms(2) show thesis
    by (cases rule: authority_evaluate_cases) (use that [OF cfg] in simp_all)
qed

text \<open>C7: The automatic kill is final until a manual release.  When a loss, drawdown or
  consecutive-loss threshold is reached the kill switch is set, and after any operations of the
  authority other than a manual release every entry it newly decides under the persisted
  configuration is rejected with quantity 0, whatever the context it is given says.\<close>

theorem automatic_kill_blocks_entries:
  assumes "automatic_kill_reasons c l \<noteq> []" and "\<not> blank correlation"
    and "\<forall>op \<in> set ops. \<not> releases op"
  shows "\<exists>db1. activate_automatic_kill db c l correlation = Inr (db1, True)
    \<and> (let db2 = foldl (risk_exec col fp dig) db1 ops in
       \<forall>fresh i c' reference stop db3 d.
         0 < intent_quantity i \<and> \<not> intent_is_exit i \<and> risk_decisions db2 (intent_id i) = None
         \<and> authority_evaluate_persisted col fp dig fresh db2 i c' reference stop = Inr (db3, d)
         \<longrightarrow> rd_outcome d = risk_outcome.REJECTED \<and> rd_approved_quantity d = 0)"
proof -
  let ?reason = "''automatic: '' @ join '','' (automatic_kill_reasons c l)"
  have "\<not> blank ?reason" "\<not> blank ''risk-engine''"
    by (simp_all add: blank_def is_space_def of_char_def)
  then obtain db1 where k: "set_kill_switch db True ?reason correlation ''risk-engine'' (Aware (evaluated_at c)) = Inr db1"
    using assms(2) unfolding set_kill_switch_def by (simp del: append.simps)
  then have a: "activate_automatic_kill db c l correlation = Inr (db1, True)"
    using assms(1) by (simp add: activate_automatic_kill_def Let_def)
  have kd: "killed (foldl (risk_exec col fp dig) db1 ops)"
    using set_kill_switch_frame(3) [OF k] assms(3) by (intro killed_run) (auto simp: killed_def)
  have "rd_outcome d = risk_outcome.REJECTED \<and> rd_approved_quantity d = 0"
    if i: "0 < intent_quantity i" "\<not> intent_is_exit i"
      and n: "risk_decisions (foldl (risk_exec col fp dig) db1 ops) (intent_id i) = None"
      and e: "authority_evaluate_persisted col fp dig fresh (foldl (risk_exec col fp dig) db1 ops) i c' reference stop
        = Inr (db3, d)"
    for fresh i c' reference stop db3 d
  proof -
    obtain cfg where
      cfg: "load_configuration dig (foldl (risk_exec col fp dig) db1 ops) (intent_account_id i) (Aware (evaluated_at c')) = Inr cfg"
      and d: "evaluate_order_risk fresh (persisted_request i c' cfg reference stop) = Inr d"
      using persisted_decision [OF e n] by blast
    have r: "rd_outcome d = risk_outcome.REJECTED"
      using kill_switch_rejects [OF d] i killed_configuration [OF kd cfg] by simp
    with decision_wf_of [OF d] i show ?thesis by (simp add: decision_wf_def)
  qed
  with a show ?thesis unfolding Let_def by blast
qed

definition sample_loss :: risk_context where
  "sample_loss = sample_context\<lparr>daily_pnl := - 9000\<rparr>"

lemma sample_kill_reasons: "automatic_kill_reasons sample_loss sample_limits = [''MAXIMUM_DAILY_LOSS'']"
  by (simp add: automatic_kill_reasons_def sample_loss_def sample_context_def sample_limits_def flag_def dec_eval)

lemma persisted_total:
  assumes "load_configuration dig db (intent_account_id i) (Aware (evaluated_at c)) = Inr cfg"
    "risk_decisions db (intent_id i) = None" "0 < intent_quantity i"
  shows "\<exists>db' d. authority_evaluate_persisted col fp dig fresh db i c reference stop = Inr (db', d)"
proof -
  let ?rq = "\<lparr>req_intent = i,
    req_context = c\<lparr>kill_switch_enabled := kill_switch_enabled c \<or> cfg_kill_switch_enabled cfg\<rparr>,
    req_limits = cfg_limits cfg, req_reference_price = reference, req_stop_price = stop\<rparr>"
  obtain d where "evaluate_order_risk fresh ?rq = Inr d"
    using evaluate_order_risk_wf [of ?rq fresh] assms(3) by auto
  then show ?thesis
    using assms by (simp add: authority_evaluate_persisted_def authority_evaluate_def)
qed

theorem automatic_kill_blocks_entries_witness:
  "\<exists>db1 db2 d. activate_automatic_kill sample_limits_db sample_loss sample_limits ''c9'' = Inr (db1, True)
     \<and> authority_evaluate_persisted numeric_8 (\<lambda>_. ''print'') (\<lambda>_. ''d'') 5 db1 sample_intent
         (sample_context\<lparr>evaluated_at := 50\<rparr>) 100 (Some 95) = Inr (db2, d)
     \<and> rd_outcome d = risk_outcome.REJECTED"
proof -
  have b: "\<not> blank ''c9''" by (simp add: blank_def is_space_def of_char_def)
  have r: "automatic_kill_reasons sample_loss sample_limits \<noteq> []" by (simp add: sample_kill_reasons)
  obtain db1 where a: "activate_automatic_kill sample_limits_db sample_loss sample_limits ''c9'' = Inr (db1, True)"
    and p: "\<And>fresh i c' reference stop db3 d. 0 < intent_quantity i \<Longrightarrow> \<not> intent_is_exit i
        \<Longrightarrow> risk_decisions db1 (intent_id i) = None
        \<Longrightarrow> authority_evaluate_persisted numeric_8 (\<lambda>_. ''print'') (\<lambda>_. ''d'') fresh db1 i c' reference stop = Inr (db3, d)
        \<Longrightarrow> rd_outcome d = risk_outcome.REJECTED"
    using automatic_kill_blocks_entries [OF r b, of "[]" sample_limits_db numeric_8 "\<lambda>_. ''print''" "\<lambda>_. ''d''"]
    unfolding foldl.simps Let_def by force
  have rows: "risk_limit_rows db1 = risk_limit_rows sample_limits_db"
    and none: "risk_decisions db1 (intent_id sample_intent) = None"
    using a sample_kill_reasons
    by (auto simp: activate_automatic_kill_def Let_def set_kill_switch_def sample_limits_db_def
        empty_risk_db_def sample_intent_def split: if_splits)
  have e: "effective_rows db1 2 50 = effective_rows sample_limits_db 2 50"
    by (simp add: effective_rows_def rows)
  obtain l where l: "limits_of_rows ''persisted-d'' (\<lambda>k. if k = MAXIMUM_SPREAD_BPS then 25 else 1) = Inr l"
    using sample_limits_of_rows by blast
  have v: "(\<lambda>k. lim_value (if k = MAXIMUM_SPREAD_BPS then sample_limit_row k 10 25 else sample_limit_row k 0 1))
      = (\<lambda>k. if k = MAXIMUM_SPREAD_BPS then 25 else 1)"
    by (rule ext) (simp add: sample_limit_row_def)
  have "\<exists>cfg. load_configuration (\<lambda>_. ''d'') db1 2 (Aware 50) = Inr cfg"
    using load_configuration_row [OF allI [OF sample_latest [folded e]], of "\<lambda>_. ''d''"] l unfolding v by auto
  then obtain cfg where "load_configuration (\<lambda>_. ''d'') db1 (intent_account_id sample_intent)
      (Aware (evaluated_at (sample_context\<lparr>evaluated_at := 50\<rparr>))) = Inr cfg"
    by (auto simp: sample_intent_def)
  note cfg = this
  have q: "0 < intent_quantity sample_intent" and x: "\<not> intent_is_exit sample_intent"
    by (simp_all add: sample_intent_def)
  from persisted_total [OF cfg none q, where col = numeric_8 and fp = "\<lambda>_. ''print''" and fresh = 5
      and reference = 100 and stop = "Some 95"] obtain db2 d where
    ev: "authority_evaluate_persisted numeric_8 (\<lambda>_. ''print'') (\<lambda>_. ''d'') 5 db1 sample_intent
         (sample_context\<lparr>evaluated_at := 50\<rparr>) 100 (Some 95) = Inr (db2, d)"
    by blast
  from p [OF q x none ev] have "rd_outcome d = risk_outcome.REJECTED" .
  with a ev show ?thesis by (intro exI conjI)
qed

text \<open>The audit rows of the kill switch, and their agreement with its row.\<close>

definition kill_audit :: "risk_db \<Rightarrow> audit_row list" where
  "kill_audit db = filter (\<lambda>a. audit_resource_id a = kill_switch_key) (audit_events db)"

definition audit_agrees :: "risk_db \<Rightarrow> bool" where
  "audit_agrees db \<longleftrightarrow>
     (case safety_state db kill_switch_key of
        None \<Rightarrow> kill_audit db = []
      | Some s \<Rightarrow> kill_audit db \<noteq> []
          \<and> audit_outcome (last (kill_audit db)) = (if safe_enabled s then ''enabled'' else ''disabled'')
          \<and> audit_reason (last (kill_audit db)) = safe_reason s
          \<and> audit_occurred_at (last (kill_audit db)) = safe_updated_at s
          \<and> audit_correlation_id (last (kill_audit db)) = safe_correlation_id s)"

lemma set_kill_switch_audit:
  assumes "set_kill_switch db on reason correlation actor occurred = Inr db'"
  shows "\<exists>a. audit_events db' = audit_events db @ [a] \<and> \<not> blank (audit_reason a)
    \<and> \<not> blank (audit_actor_id a) \<and> \<not> blank (audit_correlation_id a)"
  using assms by (auto simp: set_kill_switch_def split: if_splits)

lemma set_kill_switch_agrees:
  "set_kill_switch db on reason correlation actor occurred = Inr db' \<Longrightarrow> audit_agrees db'"
  by (auto simp: set_kill_switch_def audit_agrees_def kill_audit_def split: if_splits)

lemma audit_agrees_cong:
  "safety_state db' = safety_state db \<Longrightarrow> audit_events db' = audit_events db \<Longrightarrow> audit_agrees db' = audit_agrees db"
  by (simp only: audit_agrees_def kill_audit_def)

lemma audit_agrees_step:
  assumes "audit_agrees db"
  shows "audit_agrees (risk_exec col fp dig db op)"
proof (cases rule: risk_exec_cases [of col fp db dig op])
  case (decided fresh rq d)
  then show ?thesis using assms audit_agrees_cong [OF authority_evaluate_frame(1,2)] by blast
next
  case (switched on reason correlation actor occurred)
  then show ?thesis by (blast intro: set_kill_switch_agrees)
next
  case same
  with assms show ?thesis by simp
qed

text \<open>The kill switch never moves without a trace: from empty safety tables, after any operations
  of the authority, the switch is unset exactly when no change was audited, and otherwise its
  state, reason, time and correlation are those of the last audited change, whose reason, actor
  and correlation are not blank.\<close>

theorem kill_switch_always_audited:
  assumes "safety_state db = (\<lambda>_. None)" and "audit_events db = []"
  shows "audit_agrees (foldl (risk_exec col fp dig) db ops)
    \<and> (\<forall>a \<in> set (audit_events (foldl (risk_exec col fp dig) db ops)).
          \<not> blank (audit_reason a) \<and> \<not> blank (audit_actor_id a) \<and> \<not> blank (audit_correlation_id a))"
proof -
  define good where "good db \<longleftrightarrow> audit_agrees db \<and> (\<forall>a \<in> set (audit_events db).
    \<not> blank (audit_reason a) \<and> \<not> blank (audit_actor_id a) \<and> \<not> blank (audit_correlation_id a))" for db
  have step: "good (risk_exec col fp dig db op)" if "good db" for db op
    using that audit_agrees_step unfolding good_def
    by (cases rule: risk_exec_cases [of col fp db dig op])
      (auto dest!: set_kill_switch_audit dest: authority_evaluate_frame(2))
  have "good db" using assms by (simp add: good_def audit_agrees_def kill_audit_def)
  then have "good (foldl (risk_exec col fp dig) db ops)"
    by (induction ops arbitrary: db) (simp_all add: step)
  then show ?thesis by (simp add: good_def)
qed

theorem kill_switch_always_audited_witness:
  "audit_agrees (foldl (risk_exec numeric_8 (\<lambda>_. ''print'') (\<lambda>_. ''d'')) empty_risk_db
     [AutomaticKill sample_loss sample_limits ''c9'', SetKillSwitch False ''reviewed'' ''c10'' ''ops'' (Aware 9)])"
  by (rule kill_switch_always_audited [THEN conjunct1]) (simp_all add: empty_risk_db_def)

end
