(* ===== verification/Costs.thy ===== *)
theory Costs
  imports Domain
begin

text \<open>
  Transaction costs: the India charge schedule and its itemised breakdown
  (\<open>packages/backtesting/costs.py\<close>) and the generic basis-point model
  (\<open>GenericCostModel\<close> of \<open>packages/backtesting/engine.py\<close>).  Both implement the protocol
  \<open>calculate(notional, side)\<close>, stated here as the locale \<open>cost_model\<close>, on whose laws the paper
  broker and the backtester rest.
\<close>

section \<open>The protocol\<close>

text \<open>
  A sound model answers every non-negative notional with a non-negative charge, and a larger
  notional never costs less.
\<close>

locale cost_model =
  fixes sound :: "'m \<Rightarrow> bool"
    and calculate :: "'m \<Rightarrow> decimal \<Rightarrow> side \<Rightarrow> decimal result"
  assumes charge_total: "sound m \<Longrightarrow> 0 \<le> n \<Longrightarrow> \<exists>c. calculate m n s = Inr c"
    and charge_nonneg: "sound m \<Longrightarrow> 0 \<le> n \<Longrightarrow> calculate m n s = Inr c \<Longrightarrow> 0 \<le> c"
    and charge_mono: "sound m \<Longrightarrow> 0 \<le> n \<Longrightarrow> n \<le> n' \<Longrightarrow> calculate m n s = Inr c
      \<Longrightarrow> calculate m n' s = Inr c' \<Longrightarrow> c \<le> c'"
begin

lemma charge:
  assumes "sound m" "0 \<le> n"
  obtains c where "calculate m n s = Inr c" "0 \<le> c"
  using charge_total [OF assms, of s] charge_nonneg [OF assms, of s] by blast

text \<open>The two legs of a trade cost at least the larger of them.\<close>

lemma round_trip_charge:
  assumes "sound m" "0 \<le> n" "0 \<le> n'" "calculate m n s = Inr c" "calculate m n' s' = Inr c'"
    "representable c" "representable c'"
  shows "max c c' \<le> dadd c c'"
proof -
  have "0 \<le> c" "0 \<le> c'"
    using charge_nonneg [OF assms(1,2,4)] charge_nonneg [OF assms(1,3,5)] by auto
  then show ?thesis
    using assms(6,7) dec.rnd_ge [of c "c + c'"] dec.rnd_ge [of c' "c + c'"]
    by (simp add: dadd_def)
qed

end

section \<open>The generic model\<close>

record generic_cost_model =
  variable_cost_bps :: decimal
  flat_cost_per_order :: decimal

definition generic_calculate :: "generic_cost_model \<Rightarrow> decimal \<Rightarrow> side \<Rightarrow> decimal result" where
  "generic_calculate m notional sd =
     Inr (dadd (dquot (dmul (dabs notional) (variable_cost_bps m)) 10000) (flat_cost_per_order m))"

definition generic_sound :: "generic_cost_model \<Rightarrow> bool" where
  "generic_sound m \<longleftrightarrow> 0 \<le> variable_cost_bps m \<and> 0 \<le> flat_cost_per_order m"

lemma dmul_mono: "0 \<le> a \<Longrightarrow> 0 \<le> c \<Longrightarrow> a \<le> b \<Longrightarrow> c \<le> d \<Longrightarrow> dmul a c \<le> dmul b d"
  unfolding dmul_def by (intro dround_mono mult_mono) auto

lemma dadd_mono: "a \<le> b \<Longrightarrow> c \<le> d \<Longrightarrow> dadd a c \<le> dadd b d"
  unfolding dadd_def by (intro dround_mono add_mono)

lemma dquot_mono: "a \<le> b \<Longrightarrow> 0 < c \<Longrightarrow> dquot a c \<le> dquot b c"
  unfolding dquot_def by (intro dround_mono divide_right_mono) auto

lemma dabs_mono: "0 \<le> a \<Longrightarrow> a \<le> b \<Longrightarrow> dabs a \<le> dabs b"
  unfolding dabs_def by (intro dround_mono) auto

lemmas charge_bounds = dmul_nonneg dadd_nonneg dquot_nonneg dabs_nonneg
lemmas charge_monos = dmul_mono dadd_mono dquot_mono dabs_mono min.mono order_refl

interpretation generic: cost_model generic_sound generic_calculate
  by unfold_locales
    (auto simp: generic_sound_def generic_calculate_def intro!: charge_bounds charge_monos)

section \<open>The India schedule\<close>

datatype indian_market_product = EQUITY_DELIVERY | EQUITY_INTRADAY | FUTURES | OPTIONS

record india_charge_schedule =
  ics_name :: string
  ics_effective_from :: int
  ics_product :: indian_market_product
  brokerage_rate :: decimal
  brokerage_cap_per_order :: "decimal option"
  exchange_transaction_rate :: decimal
  sebi_turnover_rate :: decimal
  gst_rate :: decimal
  stt_buy_rate :: decimal
  stt_sell_rate :: decimal
  stamp_duty_buy_rate :: decimal
  ipft_rate :: decimal

definition charge_rates :: "india_charge_schedule \<Rightarrow> decimal list" where
  "charge_rates s =
     [brokerage_rate s, exchange_transaction_rate s, sebi_turnover_rate s, gst_rate s,
      stt_buy_rate s, stt_sell_rate s, stamp_duty_buy_rate s, ipft_rate s]"

text \<open>\<open>IndiaChargeSchedule.__post_init__\<close>.\<close>

definition make_charge_schedule :: "india_charge_schedule \<Rightarrow> india_charge_schedule result" where
  "make_charge_schedule s =
     (if blank (ics_name s) then Inl (ValueError ''charge schedule name cannot be empty'')
      else if list_ex (\<lambda>r. r < 0) (charge_rates s)
      then Inl (ValueError ''charge rates cannot be negative'')
      else if (case brokerage_cap_per_order s of None \<Rightarrow> False | Some cap \<Rightarrow> cap < 0)
      then Inl (ValueError ''brokerage cap cannot be negative'')
      else Inr s)"

record charge_breakdown =
  cb_turnover :: decimal
  cb_brokerage :: decimal
  cb_exchange :: decimal
  cb_sebi :: decimal
  cb_ipft :: decimal
  cb_gst :: decimal
  cb_stt :: decimal
  cb_stamp_duty :: decimal
  cb_total :: decimal

definition india_breakdown :: "india_charge_schedule \<Rightarrow> decimal \<Rightarrow> side \<Rightarrow> charge_breakdown result" where
  "india_breakdown s notional sd =
     (if notional < 0 then Inl (ValueError ''notional cannot be negative'')
      else
        let uncapped = dmul notional (brokerage_rate s);
            brokerage = (case brokerage_cap_per_order s of None \<Rightarrow> uncapped | Some cap \<Rightarrow> min uncapped cap);
            exch = dmul notional (exchange_transaction_rate s);
            sebi = dmul notional (sebi_turnover_rate s);
            ipft = dmul notional (ipft_rate s);
            gst = dmul (dadd (dadd (dadd brokerage exch) sebi) ipft) (gst_rate s);
            stt = dmul notional (if sd = BUY then stt_buy_rate s else stt_sell_rate s);
            stamp = (if sd = BUY then dmul notional (stamp_duty_buy_rate s) else 0);
            total = dadd (dadd (dadd (dadd (dadd (dadd brokerage exch) sebi) ipft) gst) stt) stamp
        in Inr \<lparr>cb_turnover = notional, cb_brokerage = brokerage, cb_exchange = exch, cb_sebi = sebi,
                cb_ipft = ipft, cb_gst = gst, cb_stt = stt, cb_stamp_duty = stamp, cb_total = total\<rparr>)"

definition india_calculate :: "india_charge_schedule \<Rightarrow> decimal \<Rightarrow> side \<Rightarrow> decimal result" where
  "india_calculate s notional sd = rbind (india_breakdown s notional sd) (\<lambda>b. Inr (cb_total b))"

definition schedule_sound :: "india_charge_schedule \<Rightarrow> bool" where
  "schedule_sound s \<longleftrightarrow> make_charge_schedule s = Inr s"

lemma schedule_soundD:
  assumes "schedule_sound s"
  shows "0 \<le> brokerage_rate s" "0 \<le> exchange_transaction_rate s" "0 \<le> sebi_turnover_rate s"
    "0 \<le> gst_rate s" "0 \<le> stt_buy_rate s" "0 \<le> stt_sell_rate s" "0 \<le> stamp_duty_buy_rate s"
    "0 \<le> ipft_rate s" "brokerage_cap_per_order s = Some cap \<Longrightarrow> 0 \<le> cap"
  using assms
  by (auto simp: schedule_sound_def make_charge_schedule_def charge_rates_def not_less split: if_splits)

lemma india_breakdown_parts:
  assumes "schedule_sound s" "india_breakdown s n sd = Inr b"
  shows "0 \<le> cb_brokerage b" "0 \<le> cb_exchange b" "0 \<le> cb_sebi b" "0 \<le> cb_ipft b" "0 \<le> cb_gst b"
    "0 \<le> cb_stt b" "0 \<le> cb_stamp_duty b" "0 \<le> cb_total b"
  using assms schedule_soundD [OF assms(1)]
  by (auto simp: india_breakdown_def Let_def not_less intro!: charge_bounds split: if_splits option.splits)

lemma india_breakdown_mono:
  assumes "schedule_sound s" "n \<le> n'" "india_breakdown s n sd = Inr b" "india_breakdown s n' sd = Inr b'"
  shows "cb_total b \<le> cb_total b'"
  using assms schedule_soundD [OF assms(1)]
  by (auto simp: india_breakdown_def Let_def not_less intro!: charge_monos charge_bounds
      split: if_splits option.splits)

interpretation india: cost_model schedule_sound india_calculate
proof
  fix s :: india_charge_schedule and n n' c c' :: decimal and sd
  assume s: "schedule_sound s" and n: "0 \<le> n"
  show "\<exists>c. india_calculate s n sd = Inr c"
    using n by (auto simp: india_calculate_def india_breakdown_def Let_def)
  show "0 \<le> c" if "india_calculate s n sd = Inr c"
    using that india_breakdown_parts(8) [OF s] by (auto simp: india_calculate_def rbind_eq_Inr)
  show "c \<le> c'" if "n \<le> n'" "india_calculate s n sd = Inr c" "india_calculate s n' sd = Inr c'"
    using that india_breakdown_mono [OF s] by (auto simp: india_calculate_def rbind_eq_Inr)
qed

lemma foldl_dadd_part:
  assumes "\<forall>x \<in> set xs. 0 \<le> x \<and> representable x" "x \<in> set xs" "0 \<le> a"
  shows "x \<le> foldl dadd a xs"
  using assms
proof (induction xs arbitrary: a)
  case (Cons y ys)
  show ?case
  proof (cases "x \<in> set ys")
    case True
    with Cons show ?thesis by (auto intro: dadd_nonneg)
  next
    case False
    with Cons.prems have "x \<le> dadd a x" using dec.rnd_ge [of x "a + x"] by (simp add: dadd_def)
    also have "\<dots> \<le> foldl dadd (dadd a x) ys"
      using Cons.prems dec.foldl_add_ge [of ys "dadd a x"] by (simp add: dadd_def [abs_def])
    finally show ?thesis using False Cons.prems by simp
  qed
qed simp

text \<open>Under a valid schedule the charges of an order are itemised without loss: every item is
  non-negative and at most the total, the brokerage respects the cap per order, a sale pays no
  stamp duty, and a larger order never pays less in total.\<close>

theorem india_charges_itemised:
  assumes "make_charge_schedule s = Inr s" and "india_breakdown s n sd = Inr b"
    and "case brokerage_cap_per_order s of None \<Rightarrow> True | Some cap \<Rightarrow> representable cap"
  shows "(\<forall>item \<in> {cb_brokerage b, cb_exchange b, cb_sebi b, cb_ipft b, cb_gst b, cb_stt b, cb_stamp_duty b}.
        0 \<le> item \<and> item \<le> cb_total b)
    \<and> (case brokerage_cap_per_order s of None \<Rightarrow> True | Some cap \<Rightarrow> cb_brokerage b \<le> cap)
    \<and> (sd = SELL \<longrightarrow> cb_stamp_duty b = 0)
    \<and> (\<forall>n' b'. n \<le> n' \<and> india_breakdown s n' sd = Inr b' \<longrightarrow> cb_total b \<le> cb_total b')"
proof -
  have s: "schedule_sound s" using assms(1) by (simp add: schedule_sound_def)
  let ?items = "[cb_exchange b, cb_sebi b, cb_ipft b, cb_gst b, cb_stt b, cb_stamp_duty b]"
  have t: "cb_total b = foldl dadd (cb_brokerage b) ?items"
    using assms(2) by (auto simp: india_breakdown_def Let_def split: if_splits)
  have r: "\<forall>x \<in> set ?items. 0 \<le> x \<and> representable x" "representable (cb_brokerage b)"
    using assms(2,3) india_breakdown_parts [OF s assms(2)] dec.repr_zero
    by (auto simp: india_breakdown_def Let_def min_def split: if_splits option.splits)
  have "\<forall>item \<in> set ?items. item \<le> cb_total b"
    unfolding t using foldl_dadd_part [OF r(1) _ india_breakdown_parts(1) [OF s assms(2)]] by blast
  moreover have "cb_brokerage b \<le> cb_total b"
    unfolding t using dec.foldl_add_ge [of ?items "cb_brokerage b"] r by (simp add: dadd_def [abs_def])
  moreover have "case brokerage_cap_per_order s of None \<Rightarrow> True | Some cap \<Rightarrow> cb_brokerage b \<le> cap"
    using assms(2) by (auto simp: india_breakdown_def Let_def split: if_splits option.splits)
  moreover have "sd = SELL \<longrightarrow> cb_stamp_duty b = 0"
    using assms(2) by (auto simp: india_breakdown_def Let_def split: if_splits)
  ultimately show ?thesis
    using india_breakdown_parts [OF s assms(2)] india_breakdown_mono [OF s _ assms(2)] by auto
qed

definition sample_schedule :: india_charge_schedule where
  "sample_schedule = \<lparr>ics_name = ''s'', ics_effective_from = 0, ics_product = EQUITY_INTRADAY,
     brokerage_rate = 3 / 10000, brokerage_cap_per_order = Some 20,
     exchange_transaction_rate = 1 / 100000, sebi_turnover_rate = 1 / 1000000, gst_rate = 18 / 100,
     stt_buy_rate = 0, stt_sell_rate = 25 / 100000, stamp_duty_buy_rate = 3 / 100000, ipft_rate = 0\<rparr>"

theorem india_charges_itemised_witness:
  "\<exists>b. india_breakdown sample_schedule 100000 SELL = Inr b \<and> cb_brokerage b \<le> 20 \<and> cb_stamp_duty b = 0"
proof -
  have m: "make_charge_schedule sample_schedule = Inr sample_schedule"
    by (simp add: make_charge_schedule_def sample_schedule_def charge_rates_def blank_def is_space_def of_char_def)
  obtain b where b: "india_breakdown sample_schedule 100000 SELL = Inr b"
    by (auto simp: india_breakdown_def Let_def)
  have "case brokerage_cap_per_order sample_schedule of None \<Rightarrow> True | Some cap \<Rightarrow> representable cap"
    using representable_of_int [of 20] by (simp add: sample_schedule_def)
  from india_charges_itemised [OF m b this] b show ?thesis by (auto simp: sample_schedule_def)
qed

end
