(* ===== verification/Paper_Broker.thy ===== *)
theory Paper_Broker
  imports Costs Write_Once
begin

text \<open>
  The paper broker of \<open>packages/paper_trading/broker.py\<close>: market orders filled at once against a
  cash ledger and a position per instrument, one row per \<open>(account, idempotency key)\<close>, and the
  marked snapshots.  Every operation is one committed transaction; a raise leaves the tables
  unchanged.  The tables keep what their \<open>Numeric\<close> columns keep of a number, which is a parameter, and the next
  operation reads that; what an operation returns is computed from the exact values.  The cost model is a parameter with
  the protocol of \<open>Costs\<close>; the fresh order identifier is an argument.
\<close>

section \<open>Tables\<close>

record paper_order =
  po_id :: uuid
  po_account_id :: uuid
  po_instrument_id :: uuid
  po_intent_id :: uuid
  po_risk_decision_id :: uuid
  po_idempotency_key :: string
  po_side :: side
  po_order_type :: order_type
  po_status :: order_status
  po_quantity :: decimal
  po_filled_quantity :: decimal
  po_average_price :: decimal
  po_charges :: decimal
  po_filled_at :: instant

record paper_fill =
  pf_order_id :: uuid
  pf_quantity :: decimal
  pf_price :: decimal
  pf_charges :: decimal
  pf_filled_at :: instant

record paper_order_event =
  pe_order_id :: uuid
  pe_occurred_at :: instant
  pe_status :: order_status
  pe_risk_decision_id :: uuid

record paper_position =
  pp_account_id :: uuid
  pp_instrument_id :: uuid
  pp_quantity :: decimal
  pp_average_price :: decimal
  pp_realized_pnl :: decimal

record paper_ledger =
  pl_initial_cash :: decimal
  pl_cash_balance :: decimal
  pl_peak_equity :: decimal

record paper_pnl_snapshot =
  ps_account_id :: uuid
  ps_occurred_at :: instant
  ps_cash :: decimal
  ps_realized_pnl :: decimal
  ps_unrealized_pnl :: decimal
  ps_equity :: decimal
  ps_gross_exposure :: decimal
  ps_net_exposure :: decimal
  ps_drawdown :: decimal

record paper_db =
  paper_orders :: "paper_order list"
  paper_fills :: "paper_fill list"
  paper_order_events :: "paper_order_event list"
  paper_positions :: "paper_position list"
  paper_ledgers :: "uuid \<rightharpoonup> paper_ledger"
  paper_pnl_snapshots :: "paper_pnl_snapshot list"

text \<open>What the columns keep: \<open>Numeric(24, 8)\<close> of an amount or price, \<open>Numeric(28, 8)\<close> of a quantity and \<open>Numeric(16, 12)\<close> of
  a ratio.  Values beyond the digits of a column, which the database refuses, are not modelled.\<close>

record paper_columns =
  nc_amount :: "decimal \<Rightarrow> decimal"
  nc_quantity :: "decimal \<Rightarrow> decimal"
  nc_ratio :: "decimal \<Rightarrow> decimal"

definition stored_order :: "paper_columns \<Rightarrow> paper_order \<Rightarrow> paper_order" where
  "stored_order C po = po\<lparr>po_quantity := nc_quantity C (po_quantity po), po_filled_quantity := nc_quantity C (po_filled_quantity po),
     po_average_price := nc_amount C (po_average_price po), po_charges := nc_amount C (po_charges po)\<rparr>"

definition stored_fill :: "paper_columns \<Rightarrow> paper_fill \<Rightarrow> paper_fill" where
  "stored_fill C f = f\<lparr>pf_quantity := nc_quantity C (pf_quantity f), pf_price := nc_amount C (pf_price f),
     pf_charges := nc_amount C (pf_charges f)\<rparr>"

definition stored_position :: "paper_columns \<Rightarrow> paper_position \<Rightarrow> paper_position" where
  "stored_position C p = p\<lparr>pp_quantity := nc_quantity C (pp_quantity p), pp_average_price := nc_amount C (pp_average_price p),
     pp_realized_pnl := nc_amount C (pp_realized_pnl p)\<rparr>"

definition stored_snapshot :: "paper_columns \<Rightarrow> paper_pnl_snapshot \<Rightarrow> paper_pnl_snapshot" where
  "stored_snapshot C s = s\<lparr>ps_cash := nc_amount C (ps_cash s), ps_realized_pnl := nc_amount C (ps_realized_pnl s),
     ps_unrealized_pnl := nc_amount C (ps_unrealized_pnl s), ps_equity := nc_amount C (ps_equity s),
     ps_gross_exposure := nc_amount C (ps_gross_exposure s), ps_net_exposure := nc_amount C (ps_net_exposure s),
     ps_drawdown := nc_ratio C (ps_drawdown s)\<rparr>"

definition find_paper_order :: "paper_db \<Rightarrow> uuid \<times> string \<Rightarrow> paper_order option" where
  "find_paper_order db k =
     List.find (\<lambda>po. (po_account_id po, po_idempotency_key po) = k) (paper_orders db)"

definition position_key :: "paper_position \<Rightarrow> uuid \<times> uuid" where
  "position_key p = (pp_account_id p, pp_instrument_id p)"

definition find_paper_position :: "paper_db \<Rightarrow> uuid \<times> uuid \<Rightarrow> paper_position option" where
  "find_paper_position db k = List.find (\<lambda>p. position_key p = k) (paper_positions db)"

record paper_execution =
  px_order_id :: uuid
  px_status :: order_status
  px_filled_quantity :: decimal
  px_average_price :: decimal
  px_charges :: decimal
  px_duplicate :: bool

text \<open>\<open>_execution\<close>.\<close>

definition execution_of :: "paper_order \<Rightarrow> bool \<Rightarrow> paper_execution" where
  "execution_of po dup =
     \<lparr>px_order_id = po_id po, px_status = po_status po, px_filled_quantity = po_filled_quantity po,
      px_average_price = po_average_price po, px_charges = po_charges po, px_duplicate = dup\<rparr>"

section \<open>Operations\<close>

record 'm paper_broker =
  pb_cost_model :: 'm
  pb_slippage_bps :: decimal

definition make_paper_broker :: "'m \<Rightarrow> decimal \<Rightarrow> 'm paper_broker result" where
  "make_paper_broker m slip =
     (if slip < 0 then Inl (ValueError ''slippage cannot be negative'')
      else Inr \<lparr>pb_cost_model = m, pb_slippage_bps = slip\<rparr>)"

definition initialize_account :: "paper_columns \<Rightarrow> paper_db \<Rightarrow> uuid \<Rightarrow> decimal \<Rightarrow> paper_db result" where
  "initialize_account C db account cash =
     (if cash \<le> 0 then Inl (ValueError ''initial cash must be positive'')
      else case paper_ledgers db account of
        None \<Rightarrow> Inr (db\<lparr>paper_ledgers := (paper_ledgers db)(account \<mapsto>
                  \<lparr>pl_initial_cash = nc_amount C cash, pl_cash_balance = nc_amount C cash, pl_peak_equity = nc_amount C cash\<rparr>)\<rparr>)
      | Some l \<Rightarrow>
          if pl_initial_cash l \<noteq> cash
          then Inl (ValueError ''paper account is already initialized with different capital'')
          else Inr db)"

text \<open>\<open>_update_position\<close>: the row of a first fill, the new row of a later one, and the table.\<close>

definition signed_fill :: "side \<Rightarrow> decimal \<Rightarrow> decimal" where
  "signed_fill sd q = (if sd = BUY then q else dneg q)"

definition open_position :: "uuid \<Rightarrow> uuid \<Rightarrow> decimal \<Rightarrow> decimal \<Rightarrow> decimal \<Rightarrow> paper_position" where
  "open_position account instrument delta price charges =
     \<lparr>pp_account_id = account, pp_instrument_id = instrument, pp_quantity = delta,
      pp_average_price = price, pp_realized_pnl = dneg charges\<rparr>"

definition fill_position :: "paper_position \<Rightarrow> decimal \<Rightarrow> decimal \<Rightarrow> decimal \<Rightarrow> paper_position" where
  "fill_position p delta price charges =
     (let old = pp_quantity p;
          new = dadd old delta;
          same_direction = (old = 0 \<or> ((old > 0) = (delta > 0)));
          p1 = (if same_direction
                then p\<lparr>pp_average_price :=
                        dquot (dadd (dmul (dabs old) (pp_average_price p)) (dmul (dabs delta) price))
                              (dadd (dabs old) (dabs delta))\<rparr>
                else
                  let shut = min (dabs old) (dabs delta);
                      sign = (if old > 0 then 1 else - 1);
                      p' = p\<lparr>pp_realized_pnl :=
                              dadd (pp_realized_pnl p)
                                (dmul (dmul (dsub price (pp_average_price p)) shut) sign)\<rparr>
                  in if new = 0 then p'\<lparr>pp_average_price := 0\<rparr>
                     else if (new > 0) \<noteq> (old > 0) then p'\<lparr>pp_average_price := price\<rparr>
                     else p')
      in p1\<lparr>pp_quantity := new, pp_realized_pnl := dsub (pp_realized_pnl p1) charges\<rparr>)"

definition update_position ::
  "paper_columns \<Rightarrow> paper_position list \<Rightarrow> uuid \<Rightarrow> uuid \<Rightarrow> decimal \<Rightarrow> decimal \<Rightarrow> decimal \<Rightarrow> paper_position list" where
  "update_position C ps account instrument delta price charges =
     (if List.find (\<lambda>p. position_key p = (account, instrument)) ps = None
      then ps @ [stored_position C (open_position account instrument delta price charges)]
      else map (\<lambda>p. if position_key p = (account, instrument) then stored_position C (fill_position p delta price charges)
                    else p) ps)"

definition slipped_fill :: "side \<Rightarrow> decimal \<Rightarrow> decimal \<Rightarrow> decimal" where
  "slipped_fill sd price slip =
     dmul price (dadd 1 (dquot (dmul (if sd = BUY then 1 else - 1) slip) 10000))"

definition cash_flow :: "side \<Rightarrow> decimal \<Rightarrow> decimal \<Rightarrow> decimal \<Rightarrow> decimal" where
  "cash_flow sd price quantity charges =
     dsub (if sd = BUY then dneg (dmul price quantity) else dmul price quantity) charges"

definition paper_guards ::
  "order_intent \<Rightarrow> risk_decision \<Rightarrow> decimal \<Rightarrow> datetime \<Rightarrow> unit result" where
  "paper_guards i risk price occurred =
     (if intent_order_type i \<noteq> MARKET
      then Inl (ValueError ''paper market execution accepts MARKET orders only'')
      else if rd_order_intent_id risk \<noteq> intent_id i
      then Inl (ValueError ''risk decision does not belong to order intent'')
      else if rd_outcome risk \<noteq> risk_outcome.APPROVED \<and> rd_outcome risk \<noteq> RESIZED
      then Inl (PermissionError ''independent risk approval is required'')
      else if rd_approved_quantity risk \<le> 0 \<or> rd_approved_quantity risk > intent_quantity i
      then Inl (ValueError ''approved quantity must be within requested quantity'')
      else if price \<le> 0 then Inl (ValueError ''market price must be positive'')
      else if \<not> is_aware occurred
      then Inl (ValueError ''execution timestamp must be timezone-aware'')
      else Inr ())"

definition filled_order ::
  "uuid \<Rightarrow> order_intent \<Rightarrow> risk_decision \<Rightarrow> decimal \<Rightarrow> decimal \<Rightarrow> instant \<Rightarrow> paper_order" where
  "filled_order fresh i risk price charges t =
     \<lparr>po_id = fresh, po_account_id = intent_account_id i, po_instrument_id = intent_instrument_id i,
      po_intent_id = intent_id i, po_risk_decision_id = rd_id risk,
      po_idempotency_key = intent_idempotency_key i, po_side = intent_side i,
      po_order_type = intent_order_type i, po_status = FILLED, po_quantity = rd_approved_quantity risk,
      po_filled_quantity = rd_approved_quantity risk, po_average_price = price, po_charges = charges,
      po_filled_at = t\<rparr>"

text \<open>The rows written by an execution, once the fill price and the charges are known.\<close>

definition record_fill ::
  "paper_columns \<Rightarrow> uuid \<Rightarrow> paper_db \<Rightarrow> paper_ledger \<Rightarrow> order_intent \<Rightarrow> risk_decision \<Rightarrow> decimal \<Rightarrow> decimal \<Rightarrow> instant
   \<Rightarrow> paper_db \<times> paper_execution" where
  "record_fill C fresh db ledger i risk price charges t =
     (let account = intent_account_id i; quantity = rd_approved_quantity risk;
          po = filled_order fresh i risk price charges t
      in (db\<lparr>
            paper_ledgers := (paper_ledgers db)(account \<mapsto> ledger\<lparr>pl_cash_balance :=
              nc_amount C (dadd (pl_cash_balance ledger) (cash_flow (intent_side i) price quantity charges))\<rparr>),
            paper_orders := paper_orders db @ [stored_order C po],
            paper_fills := paper_fills db @
              [stored_fill C \<lparr>pf_order_id = fresh, pf_quantity = quantity, pf_price = price, pf_charges = charges,
                pf_filled_at = t\<rparr>],
            paper_order_events := paper_order_events db @
              [\<lparr>pe_order_id = fresh, pe_occurred_at = t, pe_status = FILLED,
                pe_risk_decision_id = rd_id risk\<rparr>],
            paper_positions := update_position C (paper_positions db) account (intent_instrument_id i)
              (signed_fill (intent_side i) quantity) price charges\<rparr>,
          execution_of po False))"

definition execute_market ::
  "paper_columns \<Rightarrow> ('m \<Rightarrow> decimal \<Rightarrow> side \<Rightarrow> decimal result) \<Rightarrow> 'm paper_broker \<Rightarrow> uuid \<Rightarrow> paper_db \<Rightarrow> order_intent
   \<Rightarrow> risk_decision \<Rightarrow> decimal \<Rightarrow> datetime \<Rightarrow> (paper_db \<times> paper_execution) result" where
  "execute_market C calc b fresh db i risk price occurred =
     rbind (paper_guards i risk price occurred) (\<lambda>_.
       case find_paper_order db (intent_account_id i, intent_idempotency_key i) of
         Some po \<Rightarrow> Inr (db, execution_of po True)
       | None \<Rightarrow>
           (case paper_ledgers db (intent_account_id i) of
              None \<Rightarrow> Inl (RuntimeError ''paper account ledger must be initialized before execution'')
            | Some ledger \<Rightarrow>
                let fill = slipped_fill (intent_side i) price (pb_slippage_bps b) in
                rbind (calc (pb_cost_model b) (dmul fill (rd_approved_quantity risk)) (intent_side i)) (\<lambda>charges.
                  Inr (record_fill C fresh db ledger i risk fill charges (instant_of occurred)))))"

section \<open>Marking to market\<close>

record paper_mark =
  pm_instrument_id :: uuid
  pm_quantity :: decimal
  pm_average_price :: decimal
  pm_market_price :: decimal
  pm_realized_pnl :: decimal
  pm_unrealized_pnl :: decimal

record mark_totals =
  mt_value :: decimal
  mt_realized :: decimal
  mt_unrealized :: decimal
  mt_gross :: decimal
  mt_net :: decimal
  mt_marks :: "paper_mark list"

definition mark_position ::
  "(uuid \<rightharpoonup> decimal) \<Rightarrow> mark_totals \<Rightarrow> paper_position \<Rightarrow> mark_totals result" where
  "mark_position prices t p =
     (let t1 = t\<lparr>mt_realized := dadd (mt_realized t) (pp_realized_pnl p)\<rparr> in
      if pp_quantity p = 0 then Inr t1
      else case prices (pp_instrument_id p) of
        None \<Rightarrow> Inl (ValueError ''valid price required for open position'')
      | Some price \<Rightarrow>
          if price \<le> 0 then Inl (ValueError ''valid price required for open position'')
          else
            let value = dmul (pp_quantity p) price;
                pnl = dmul (dsub price (pp_average_price p)) (pp_quantity p)
            in Inr (t1\<lparr>mt_value := dadd (mt_value t1) value,
                      mt_unrealized := dadd (mt_unrealized t1) pnl,
                      mt_gross := dadd (mt_gross t1) (dabs value),
                      mt_net := dadd (mt_net t1) value,
                      mt_marks := mt_marks t1 @
                        [\<lparr>pm_instrument_id = pp_instrument_id p, pm_quantity = pp_quantity p,
                          pm_average_price = pp_average_price p, pm_market_price = price,
                          pm_realized_pnl = pp_realized_pnl p, pm_unrealized_pnl = pnl\<rparr>]\<rparr>))"

definition no_marks :: mark_totals where
  "no_marks = \<lparr>mt_value = 0, mt_realized = 0, mt_unrealized = 0, mt_gross = 0, mt_net = 0, mt_marks = []\<rparr>"

definition drawdown_of :: "decimal \<Rightarrow> decimal \<Rightarrow> decimal" where
  "drawdown_of peak eq = (if peak > 0 then dquot (dsub peak eq) peak else 0)"

definition mark_to_market ::
  "paper_columns \<Rightarrow> paper_db \<Rightarrow> uuid \<Rightarrow> (uuid \<rightharpoonup> decimal) \<Rightarrow> datetime
   \<Rightarrow> (paper_db \<times> paper_pnl_snapshot \<times> paper_mark list) result" where
  "mark_to_market C db account prices occurred =
     (if \<not> is_aware occurred then Inl (ValueError ''snapshot timestamp must be timezone-aware'')
      else case paper_ledgers db account of
        None \<Rightarrow> Inl (RuntimeError ''paper account ledger is not initialized'')
      | Some ledger \<Rightarrow>
          rbind (rfold (mark_position prices) no_marks
                   (filter (\<lambda>p. pp_account_id p = account) (paper_positions db))) (\<lambda>t.
            let eq = dadd (pl_cash_balance ledger) (mt_value t);
                peak = max (pl_peak_equity ledger) eq;
                snap = \<lparr>ps_account_id = account, ps_occurred_at = instant_of occurred,
                        ps_cash = pl_cash_balance ledger, ps_realized_pnl = mt_realized t,
                        ps_unrealized_pnl = mt_unrealized t, ps_equity = eq,
                        ps_gross_exposure = mt_gross t, ps_net_exposure = mt_net t,
                        ps_drawdown = drawdown_of peak eq\<rparr>
            in Inr (db\<lparr>paper_ledgers := (paper_ledgers db)(account \<mapsto> ledger\<lparr>pl_peak_equity := nc_amount C peak\<rparr>),
                       paper_pnl_snapshots := paper_pnl_snapshots db @ [stored_snapshot C snap]\<rparr>,
                    snap, mt_marks t)))"

section \<open>Sequences of operations\<close>

datatype paper_op =
    InitializeAccount uuid decimal
  | ExecuteMarket uuid order_intent risk_decision decimal datetime
  | MarkToMarket uuid "uuid \<rightharpoonup> decimal" datetime

fun paper_run_op ::
  "paper_columns \<Rightarrow> ('m \<Rightarrow> decimal \<Rightarrow> side \<Rightarrow> decimal result) \<Rightarrow> 'm paper_broker \<Rightarrow> paper_op \<Rightarrow> paper_db \<Rightarrow> paper_db result" where
  "paper_run_op C calc b (InitializeAccount account cash) db = initialize_account C db account cash"
| "paper_run_op C calc b (ExecuteMarket fresh i risk price occurred) db =
     rbind (execute_market C calc b fresh db i risk price occurred) (\<lambda>(db', x). Inr db')"
| "paper_run_op C calc b (MarkToMarket account prices occurred) db =
     rbind (mark_to_market C db account prices occurred) (\<lambda>(db', snap, marks). Inr db')"

definition paper_exec ::
  "paper_columns \<Rightarrow> ('m \<Rightarrow> decimal \<Rightarrow> side \<Rightarrow> decimal result) \<Rightarrow> 'm paper_broker \<Rightarrow> paper_db \<Rightarrow> paper_op \<Rightarrow> paper_db" where
  "paper_exec C calc b db op = keep_on_raise (paper_run_op C calc b op) db"

definition empty_paper_db :: paper_db where
  "empty_paper_db = \<lparr>paper_orders = [], paper_fills = [], paper_order_events = [], paper_positions = [],
     paper_ledgers = (\<lambda>_. None), paper_pnl_snapshots = []\<rparr>"

section \<open>The books as a replay of the executions\<close>

text \<open>The log of a run: what the callers of \<open>execute_market\<close> were told, duplicates left out, as orders with the exact numbers.\<close>

definition filled_by ::
  "paper_columns \<Rightarrow> ('m \<Rightarrow> decimal \<Rightarrow> side \<Rightarrow> decimal result) \<Rightarrow> 'm paper_broker \<Rightarrow> paper_db \<Rightarrow> paper_op \<Rightarrow> paper_order list" where
  "filled_by C calc b db op =
     (case op of
        ExecuteMarket fresh i risk price occurred \<Rightarrow>
          (case execute_market C calc b fresh db i risk price occurred of
             Inr (_, x) \<Rightarrow> if px_duplicate x then []
               else [filled_order fresh i risk (px_average_price x) (px_charges x) (instant_of occurred)]
           | Inl _ \<Rightarrow> [])
      | _ \<Rightarrow> [])"

fun paper_log ::
  "paper_columns \<Rightarrow> ('m \<Rightarrow> decimal \<Rightarrow> side \<Rightarrow> decimal result) \<Rightarrow> 'm paper_broker \<Rightarrow> paper_db \<Rightarrow> paper_op list \<Rightarrow> paper_order list" where
  "paper_log C calc b db [] = []"
| "paper_log C calc b db (op # ops) = filled_by C calc b db op @ paper_log C calc b (paper_exec C calc b db op) ops"

text \<open>Cash and positions computed from a log, rounded by the columns after every order.\<close>

definition replay_cash :: "paper_columns \<Rightarrow> uuid \<Rightarrow> decimal \<Rightarrow> paper_order list \<Rightarrow> decimal" where
  "replay_cash C account initial pos =
     foldl (\<lambda>c po. nc_amount C (dadd c (cash_flow (po_side po) (po_average_price po) (po_filled_quantity po) (po_charges po))))
       initial (filter (\<lambda>po. po_account_id po = account) pos)"

definition replay_fill :: "paper_columns \<Rightarrow> paper_position option \<Rightarrow> paper_order \<Rightarrow> paper_position option" where
  "replay_fill C q po =
     (let delta = signed_fill (po_side po) (po_filled_quantity po) in
      Some (stored_position C (case q of
        None \<Rightarrow> open_position (po_account_id po) (po_instrument_id po) delta (po_average_price po) (po_charges po)
      | Some p \<Rightarrow> fill_position p delta (po_average_price po) (po_charges po))))"

definition replay_position :: "paper_columns \<Rightarrow> uuid \<times> uuid \<Rightarrow> paper_order list \<Rightarrow> paper_position option" where
  "replay_position C k pos =
     foldl (replay_fill C) None (filter (\<lambda>po. (po_account_id po, po_instrument_id po) = k) pos)"

definition fill_row :: "paper_order \<Rightarrow> paper_fill" where
  "fill_row po = \<lparr>pf_order_id = po_id po, pf_quantity = po_filled_quantity po, pf_price = po_average_price po,
     pf_charges = po_charges po, pf_filled_at = po_filled_at po\<rparr>"

definition order_event_row :: "paper_order \<Rightarrow> paper_order_event" where
  "order_event_row po = \<lparr>pe_order_id = po_id po, pe_occurred_at = po_filled_at po, pe_status = po_status po,
     pe_risk_decision_id = po_risk_decision_id po\<rparr>"

definition order_key :: "paper_order \<Rightarrow> uuid \<times> string" where
  "order_key po = (po_account_id po, po_idempotency_key po)"

definition paper_order_ok :: "paper_order \<Rightarrow> bool" where
  "paper_order_ok po \<longleftrightarrow> po_status po = FILLED \<and> po_order_type po = MARKET \<and> 0 < po_filled_quantity po
     \<and> po_quantity po = po_filled_quantity po"

definition books_balanced :: "paper_columns \<Rightarrow> paper_order list \<Rightarrow> paper_db \<Rightarrow> bool" where
  "books_balanced C execs db \<longleftrightarrow>
     (\<forall>a l. paper_ledgers db a = Some l \<longrightarrow> pl_cash_balance l = replay_cash C a (pl_initial_cash l) execs)
     \<and> (\<forall>k. find_paper_position db k = replay_position C k execs)
     \<and> distinct (map position_key (paper_positions db))
     \<and> distinct (map order_key execs)
     \<and> (\<forall>po \<in> set execs. paper_order_ok po \<and> paper_ledgers db (po_account_id po) \<noteq> None)
     \<and> paper_orders db = map (stored_order C) execs
     \<and> paper_fills db = map (stored_fill C) (map fill_row execs)
     \<and> paper_order_events db = map order_event_row execs"

lemma replay_cash_snoc:
  "replay_cash C a c (pos @ [po]) =
     (if po_account_id po = a
      then nc_amount C (dadd (replay_cash C a c pos)
             (cash_flow (po_side po) (po_average_price po) (po_filled_quantity po) (po_charges po)))
      else replay_cash C a c pos)"
  by (simp add: replay_cash_def)

lemma replay_position_snoc:
  "replay_position C k (pos @ [po]) =
     (if (po_account_id po, po_instrument_id po) = k then replay_fill C (replay_position C k pos) po
      else replay_position C k pos)"
  by (simp add: replay_position_def)

lemma replay_cash_other: "\<forall>po \<in> set pos. po_account_id po \<noteq> a \<Longrightarrow> replay_cash C a c pos = c"
  by (induction pos) (simp_all add: replay_cash_def)

lemma fill_position_key [simp]: "position_key (fill_position p d x c) = position_key p"
  by (simp add: fill_position_def position_key_def Let_def)

lemma open_position_key [simp]: "position_key (open_position a k d x c) = (a, k)"
  by (simp add: open_position_def position_key_def)

lemma stored_position_key [simp]: "position_key (stored_position C p) = position_key p"
  by (simp add: stored_position_def position_key_def)

lemma stored_order_key [simp]: "order_key (stored_order C po) = order_key po"
  by (simp add: stored_order_def order_key_def)

lemma update_position_keys:
  assumes "distinct (map position_key ps)"
  shows "distinct (map position_key (update_position C ps a k d x c))"
proof -
  have "map position_key (map (\<lambda>p. if position_key p = (a, k) then stored_position C (fill_position p d x c) else p) ps)
      = map position_key ps"
    by simp
  with assms show ?thesis
    by (auto simp: update_position_def find_None_iff simp del: map_map)
qed

lemma find_map_if:
  assumes "\<And>p. key (f p) = key p"
  shows "List.find (\<lambda>p. key p = k') (map (\<lambda>p. if key p = k then f p else p) ps)
    = (if k' = k then map_option f (List.find (\<lambda>p. key p = k) ps) else List.find (\<lambda>p. key p = k') ps)"
  by (induction ps) (auto simp: assms)

lemma update_position_find:
  "List.find (\<lambda>p. position_key p = k') (update_position C ps a k d x c)
     = (if k' = (a, k)
        then Some (stored_position C (case List.find (\<lambda>p. position_key p = (a, k)) ps of
                None \<Rightarrow> open_position a k d x c | Some p \<Rightarrow> fill_position p d x c))
        else List.find (\<lambda>p. position_key p = k') ps)"
proof (cases "List.find (\<lambda>p. position_key p = (a, k)) ps = None")
  case True
  then show ?thesis
    unfolding update_position_def by (auto simp: find_append split: option.splits)
next
  case False
  then show ?thesis
    unfolding update_position_def
    using find_map_if [where key = position_key and f = "\<lambda>p. stored_position C (fill_position p d x c)" and k = "(a, k)" and k' = k' and ps = ps]
    by auto
qed

lemma find_order_key: "find_paper_order db k = List.find (\<lambda>po. order_key po = k) (paper_orders db)"
  by (simp add: find_paper_order_def order_key_def)

section \<open>Each operation keeps the books\<close>

lemma initialize_account_books:
  assumes "books_balanced C execs db" "initialize_account C db a cash = Inr db'"
  shows "books_balanced C execs db'"
proof (cases "paper_ledgers db a")
  case (Some l)
  with assms show ?thesis by (auto simp: initialize_account_def split: if_splits)
next
  case None
  then have "\<forall>po \<in> set execs. po_account_id po \<noteq> a"
    using assms(1) by (auto simp: books_balanced_def)
  then have "replay_cash C a (nc_amount C cash) execs = nc_amount C cash" by (rule replay_cash_other)
  moreover have "db' = db\<lparr>paper_ledgers := (paper_ledgers db)(a \<mapsto>
      \<lparr>pl_initial_cash = nc_amount C cash, pl_cash_balance = nc_amount C cash, pl_peak_equity = nc_amount C cash\<rparr>)\<rparr>"
    using None assms(2) by (auto simp: initialize_account_def split: if_splits)
  ultimately show ?thesis
    using assms(1) by (simp add: books_balanced_def find_paper_position_def)
qed

lemma record_fill_books:
  assumes b: "books_balanced C execs db" and l: "paper_ledgers db (intent_account_id i) = Some l"
    and n: "find_paper_order db (intent_account_id i, intent_idempotency_key i) = None"
    and m: "intent_order_type i = MARKET" "0 < rd_approved_quantity risk"
    and r: "record_fill C fresh db l i risk price charges t = (db', x)"
  shows "books_balanced C (execs @ [filled_order fresh i risk price charges t]) db'"
proof -
  let ?a = "intent_account_id i" and ?q = "rd_approved_quantity risk"
  define po where "po = filled_order fresh i risk price charges t"
  have po: "order_key po = (?a, intent_idempotency_key i)" "po_account_id po = ?a"
    "po_instrument_id po = intent_instrument_id i" "po_side po = intent_side i"
    "po_average_price po = price" "po_filled_quantity po = ?q" "po_charges po = charges" "paper_order_ok po"
    using m by (simp_all add: po_def filled_order_def order_key_def paper_order_ok_def)
  have rest: "paper_orders db' = paper_orders db @ [stored_order C po]"
      "paper_fills db' = paper_fills db @ [stored_fill C (fill_row po)]"
      "paper_order_events db' = paper_order_events db @ [order_event_row po]"
      "paper_positions db' = update_position C (paper_positions db) ?a (intent_instrument_id i)
         (signed_fill (intent_side i) ?q) price charges"
      "paper_ledgers db' = (paper_ledgers db)(?a \<mapsto> l\<lparr>pl_cash_balance :=
         nc_amount C (dadd (pl_cash_balance l) (cash_flow (intent_side i) price ?q charges))\<rparr>)"
    using r unfolding po_def
    by (auto simp: record_fill_def Let_def filled_order_def fill_row_def order_event_row_def)
  have "order_key po \<notin> order_key ` set (paper_orders db)"
    using n po(1) unfolding find_order_key find_None_iff by auto
  then have fresh_key: "order_key po \<notin> order_key ` set execs"
    using b by (auto simp: books_balanced_def image_image)
  have "find_paper_position db' k = replay_position C k (execs @ [po])" for k
  proof -
    have h: "List.find (\<lambda>p. position_key p = k') (paper_positions db) = replay_position C k' execs" for k'
      using b unfolding books_balanced_def find_paper_position_def by blast
    show ?thesis
      unfolding find_paper_position_def rest update_position_find replay_position_snoc h
      by (simp add: po replay_fill_def Let_def split: option.splits)
  qed
  moreover have "pl_cash_balance l' = replay_cash C a (pl_initial_cash l') (execs @ [po])"
    if "paper_ledgers db' a = Some l'" for a l'
    using that b l po by (auto simp: books_balanced_def rest replay_cash_snoc split: if_splits)
  moreover have "\<forall>po' \<in> set (execs @ [po]). paper_order_ok po' \<and> paper_ledgers db' (po_account_id po') \<noteq> None"
    using b po l by (auto simp: books_balanced_def rest)
  moreover have "distinct (map position_key (paper_positions db'))"
    using b unfolding rest books_balanced_def by (intro update_position_keys) simp
  ultimately show ?thesis
    unfolding po_def [symmetric] books_balanced_def
    using b fresh_key rest(1-3) by (simp add: books_balanced_def)
qed

lemma mark_position_frame:
  assumes "mark_to_market C db a prices occurred = Inr (db', snap, marks)"
  obtains l where "paper_ledgers db a = Some l"
    "db' = db\<lparr>paper_ledgers := (paper_ledgers db)(a \<mapsto> l\<lparr>pl_peak_equity := nc_amount C (max (pl_peak_equity l) (ps_equity snap))\<rparr>),
        paper_pnl_snapshots := paper_pnl_snapshots db @ [stored_snapshot C snap]\<rparr>"
    "ps_cash snap = pl_cash_balance l"
    "ps_drawdown snap = drawdown_of (max (pl_peak_equity l) (ps_equity snap)) (ps_equity snap)"
  using assms
  by (auto simp: mark_to_market_def Let_def rbind_eq_Inr split: if_splits option.splits)

lemma mark_to_market_books:
  assumes "books_balanced C execs db" "mark_to_market C db a prices occurred = Inr (db', snap, marks)"
  shows "books_balanced C execs db'"
  using assms(2)
proof (rule mark_position_frame)
  fix l
  assume l: "paper_ledgers db a = Some l"
    and db': "db' = db\<lparr>paper_ledgers := (paper_ledgers db)(a \<mapsto> l\<lparr>pl_peak_equity := nc_amount C (max (pl_peak_equity l) (ps_equity snap))\<rparr>),
        paper_pnl_snapshots := paper_pnl_snapshots db @ [stored_snapshot C snap]\<rparr>"
  have "pl_cash_balance l' = replay_cash C a' (pl_initial_cash l') execs"
    if "paper_ledgers db' a' = Some l'" for a' l'
    using that assms(1) l by (auto simp: books_balanced_def db' split: if_splits)
  with assms(1) show ?thesis
    by (auto simp: books_balanced_def find_paper_position_def db')
qed

lemma paper_guards_Inr:
  "paper_guards i risk price occurred = Inr u \<longleftrightarrow>
     intent_order_type i = MARKET \<and> rd_order_intent_id risk = intent_id i
     \<and> rd_outcome risk \<noteq> risk_outcome.REJECTED
     \<and> 0 < rd_approved_quantity risk \<and> rd_approved_quantity risk \<le> intent_quantity i
     \<and> 0 < price \<and> is_aware occurred"
  by (cases "rd_outcome risk") (auto simp: paper_guards_def)

lemma execute_market_cases:
  assumes "execute_market C calc b fresh db i risk price occurred = Inr (db', x)"
  obtains (duplicate) po where "find_paper_order db (intent_account_id i, intent_idempotency_key i) = Some po"
      "db' = db" "x = execution_of po True"
  | (filled) l charges where
      "find_paper_order db (intent_account_id i, intent_idempotency_key i) = None"
      "paper_ledgers db (intent_account_id i) = Some l"
      "calc (pb_cost_model b) (dmul (slipped_fill (intent_side i) price (pb_slippage_bps b))
          (rd_approved_quantity risk)) (intent_side i) = Inr charges"
      "record_fill C fresh db l i risk (slipped_fill (intent_side i) price (pb_slippage_bps b)) charges
          (instant_of occurred) = (db', x)"
  using assms
  by (auto simp: execute_market_def Let_def rbind_eq_Inr split: option.splits)

lemma record_fill_orders:
  "record_fill C fresh db l i risk price charges t = (db', x)
     \<Longrightarrow> paper_orders db' = paper_orders db @ [stored_order C (filled_order fresh i risk price charges t)]
       \<and> x = execution_of (filled_order fresh i risk price charges t) False"
  by (auto simp: record_fill_def Let_def)

lemma execute_market_books:
  assumes "books_balanced C execs db" "execute_market C calc b fresh db i risk price occurred = Inr (db', x)"
  shows "books_balanced C (execs @ filled_by C calc b db (ExecuteMarket fresh i risk price occurred)) db'"
proof -
  obtain u where "paper_guards i risk price occurred = Inr u"
    using assms(2) by (auto simp: execute_market_def rbind_eq_Inr)
  then have g: "intent_order_type i = MARKET" "0 < rd_approved_quantity risk"
    unfolding paper_guards_Inr by auto
  from assms(2) show ?thesis
  proof (cases rule: execute_market_cases)
    case duplicate
    with assms show ?thesis by (simp add: filled_by_def execution_of_def)
  next
    case (filled l charges)
    have "x = execution_of (filled_order fresh i risk (slipped_fill (intent_side i) price (pb_slippage_bps b)) charges
        (instant_of occurred)) False"
      using record_fill_orders [OF filled(4)] by blast
    then have "filled_by C calc b db (ExecuteMarket fresh i risk price occurred)
        = [filled_order fresh i risk (slipped_fill (intent_side i) price (pb_slippage_bps b)) charges (instant_of occurred)]"
      by (simp add: filled_by_def assms(2)) (simp add: execution_of_def filled_order_def)
    with record_fill_books [OF assms(1) filled(2,1) g filled(4)] show ?thesis by simp
  qed
qed

lemma filled_by_other [simp]:
  "filled_by C calc b db (InitializeAccount account cash) = []" "filled_by C calc b db (MarkToMarket account prices occurred) = []"
  "execute_market C calc b fresh db i risk price occurred = Inl e
     \<Longrightarrow> filled_by C calc b db (ExecuteMarket fresh i risk price occurred) = []"
  by (simp_all add: filled_by_def)

lemma paper_exec_books:
  assumes "books_balanced C execs db"
  shows "books_balanced C (execs @ filled_by C calc b db op) (paper_exec C calc b db op)"
proof (cases op)
  case (InitializeAccount account cash)
  with assms show ?thesis
    by (cases "initialize_account C db account cash") (auto simp: paper_exec_def keep_on_raise_def intro: initialize_account_books)
next
  case (ExecuteMarket fresh i risk price occurred)
  with assms show ?thesis
    by (cases "execute_market C calc b fresh db i risk price occurred")
      (auto simp: paper_exec_def keep_on_raise_def intro: execute_market_books)
next
  case (MarkToMarket account prices occurred)
  with assms show ?thesis
    by (cases "mark_to_market C db account prices occurred")
      (auto simp: paper_exec_def keep_on_raise_def intro: mark_to_market_books)
qed

lemma empty_books: "books_balanced C [] empty_paper_db"
  by (simp add: books_balanced_def empty_paper_db_def find_paper_position_def replay_position_def)

lemma paper_exec_orders: "\<exists>new. paper_orders (paper_exec C calc b db op) = paper_orders db @ new"
proof (cases rule: keep_on_raise_cases [of "paper_run_op C calc b op" db])
  case (ret db')
  have "\<exists>new. paper_orders db' = paper_orders db @ new"
    using ret(1) by (cases op) (auto simp: rbind_eq_Inr initialize_account_def
      elim!: execute_market_cases mark_position_frame dest!: record_fill_orders split: if_splits option.splits)
  with ret(2) show ?thesis by (simp add: paper_exec_def)
qed (simp add: paper_exec_def)

interpretation blotter: write_once find_paper_order "paper_exec C calc b" for C calc b
proof
  fix db k r op
  assume "find_paper_order db k = Some r"
  moreover obtain new where "paper_orders (paper_exec C calc b db op) = paper_orders db @ new"
    using paper_exec_orders by blast
  ultimately show "find_paper_order (paper_exec C calc b db op) k = Some r"
    by (simp add: find_paper_order_def find_append)
qed

section \<open>Properties of the books\<close>

text \<open>C5: From empty tables, after any sequence of account initialisations, market executions and marks, each its own transaction,
  the books are the replay of the executions the callers were told.  Every cash balance is the stored initial cash moved, one execution
  of the account after the other, by notional and charges; every position row is what the executions of that account and instrument build from
  nothing; the order, fill and event tables hold one row for each, in order; every execution filled a positive quantity at once, for an account
  with a ledger, under an idempotency key of its own.  The executions carry exact numbers, the tables what their columns keep of them: the
  replay rounds cash and position by the columns after each execution, because the next one reads the rounded rows.\<close>

theorem paper_books_are_log_replay:
  "books_balanced C (paper_log C calc b empty_paper_db ops) (foldl (paper_exec C calc b) empty_paper_db ops)"
proof -
  have "books_balanced C (execs @ paper_log C calc b db ops) (foldl (paper_exec C calc b) db ops)" if "books_balanced C execs db" for execs db
    using that
  proof (induction ops arbitrary: execs db)
    case (Cons op ops)
    from Cons.IH [OF paper_exec_books [OF Cons.prems]] show ?case by simp
  qed simp
  from this [OF empty_books] show ?thesis by simp
qed

text \<open>What a duplicate of an execution reads back.\<close>

definition repeated_execution :: "paper_columns \<Rightarrow> paper_execution \<Rightarrow> paper_execution" where
  "repeated_execution C x = x\<lparr>px_filled_quantity := nc_quantity C (px_filled_quantity x),
     px_average_price := nc_amount C (px_average_price x), px_charges := nc_amount C (px_charges x), px_duplicate := True\<rparr>"

lemma filled_order_found:
  assumes "execute_market C calc b fresh db i risk price occurred = Inr (db', x)" and "\<not> px_duplicate x"
  shows "\<exists>po. find_paper_order db' (intent_account_id i, intent_idempotency_key i) = Some po
    \<and> execution_of po True = repeated_execution C x"
  using assms(1)
proof (cases rule: execute_market_cases)
  case (duplicate po)
  with assms(2) show ?thesis by (simp add: execution_of_def)
next
  case (filled l charges)
  from record_fill_orders [OF filled(4)] filled(1) show ?thesis
    by (auto simp: find_paper_order_def find_append filled_order_def execution_of_def stored_order_def repeated_execution_def)
qed

text \<open>A market execution happens once per account and idempotency key.  After an execution
  returned, and after any further operations of the broker, another call with the same account and
  key that passes the guards returns that execution, as the columns kept it, marked as a duplicate, and writes nothing.\<close>

theorem paper_execution_once:
  assumes "execute_market C calc b fresh db i risk price occurred = Inr (db1, x)" and "\<not> px_duplicate x"
    and "db2 = foldl (paper_exec C calc b) db1 ops"
    and "intent_account_id i2 = intent_account_id i"
    and "intent_idempotency_key i2 = intent_idempotency_key i"
    and "paper_guards i2 risk2 price2 occurred2 = Inr u"
  shows "execute_market C calc b fresh2 db2 i2 risk2 price2 occurred2 = Inr (db2, repeated_execution C x)"
proof -
  obtain po where po: "find_paper_order db1 (intent_account_id i, intent_idempotency_key i) = Some po"
    and x: "execution_of po True = repeated_execution C x"
    using filled_order_found [OF assms(1,2)] by blast
  have "find_paper_order db2 (intent_account_id i, intent_idempotency_key i) = Some po"
    unfolding assms(3) using po by (rule blotter.run_keeps)
  with assms(4-6) x show ?thesis by (simp add: execute_market_def)
qed

definition paper_intent :: order_intent where
  "paper_intent = \<lparr>intent_id = 11, intent_idempotency_key = ''entry-key'', intent_decision_id = 4,
     intent_account_id = 2, intent_instrument_id = 3, intent_side = BUY, intent_order_type = MARKET,
     intent_quantity = 30, intent_limit_price = None, intent_trigger_price = None,
     intent_created_at = 0, intent_is_exit = False\<rparr>"

definition paper_risk :: risk_decision where
  "paper_risk = \<lparr>rd_id = 77, rd_order_intent_id = 11, rd_timestamp = 0, rd_outcome = RESIZED,
     rd_approved_quantity = 20, rd_reason_codes = [''POSITION_SIZE_REDUCED''], rd_policy_version = ''v1''\<rparr>"

definition paper_free_broker :: "generic_cost_model paper_broker" where
  "paper_free_broker = \<lparr>pb_cost_model = \<lparr>variable_cost_bps = 0, flat_cost_per_order = 5\<rparr>, pb_slippage_bps = 10\<rparr>"

text \<open>Columns that keep eight decimal places of amounts and quantities and twelve of ratios.\<close>

definition places :: "int \<Rightarrow> decimal \<Rightarrow> decimal" where
  "places scale v = of_int (round (v * of_int scale)) / of_int scale"

definition table_columns :: paper_columns where
  "table_columns = \<lparr>nc_amount = places 100000000, nc_quantity = places 100000000, nc_ratio = places 1000000000000\<rparr>"

definition paper_opened :: paper_db where
  "paper_opened = paper_exec table_columns generic_calculate paper_free_broker empty_paper_db (InitializeAccount 2 10000)"

lemma paper_guards_sample: "paper_guards paper_intent paper_risk 100 (Aware 9) = Inr ()"
  by (simp add: paper_guards_def paper_intent_def paper_risk_def)

lemma paper_opened_alt: "paper_opened = empty_paper_db\<lparr>paper_ledgers := [2 \<mapsto>
    \<lparr>pl_initial_cash = 10000, pl_cash_balance = 10000, pl_peak_equity = 10000\<rparr>]\<rparr>"
  by (simp add: paper_opened_def paper_exec_def keep_on_raise_def initialize_account_def empty_paper_db_def table_columns_def places_def)

lemma paper_sample_fill:
  "\<exists>db1 x. execute_market C generic_calculate paper_free_broker 50 paper_opened paper_intent paper_risk 100 (Aware 9)
     = Inr (db1, x) \<and> px_filled_quantity x = 20 \<and> px_average_price x = 1001 / 10 \<and> px_charges x = 5
     \<and> \<not> px_duplicate x"
  unfolding execute_market_def paper_guards_sample
  by (simp add: find_paper_order_def paper_opened_alt empty_paper_db_def
      paper_intent_def generic_calculate_def paper_free_broker_def record_fill_def Let_def execution_of_def
      filled_order_def slipped_fill_def paper_risk_def dec_eval)

theorem paper_execution_once_witness:
  "\<exists>db1 x. execute_market table_columns generic_calculate paper_free_broker 50 paper_opened paper_intent paper_risk 100 (Aware 9)
      = Inr (db1, x)
    \<and> execute_market table_columns generic_calculate paper_free_broker 51 db1 paper_intent paper_risk 100 (Aware 9)
      = Inr (db1, repeated_execution table_columns x)"
proof -
  obtain db1 x where x: "execute_market table_columns generic_calculate paper_free_broker 50 paper_opened paper_intent
      paper_risk 100 (Aware 9) = Inr (db1, x)" "\<not> px_duplicate x"
    using paper_sample_fill by blast
  from paper_execution_once [OF x, of db1 "[]" paper_intent paper_risk 100 "Aware 9" "()" 51] x(1)
  show ?thesis by (auto simp: paper_guards_sample)
qed

text \<open>The slipped price is never better than the market.\<close>

lemma slipped_fill_adverse:
  assumes "0 \<le> slip" "0 < price" "representable price"
  shows "sd = BUY \<Longrightarrow> price \<le> slipped_fill sd price slip"
    "sd = SELL \<Longrightarrow> slipped_fill sd price slip \<le> price"
proof -
  have "1 \<le> dadd 1 (dquot (dmul 1 slip) 10000)"
    using assms(1) dec.rnd_ge [of 1 "1 + dquot (dmul 1 slip) 10000"] dec.repr_one
    by (simp add: dadd_def dquot_nonneg dmul_nonneg)
  then show "price \<le> slipped_fill sd price slip" if "sd = BUY"
    unfolding slipped_fill_def dmul_def [of price] using that assms(2,3) by (intro dec.rnd_ge) simp_all
  have "dmul (- 1) slip \<le> 0" using assms(1) dec.rnd_nonpos [of "- slip"] by (simp add: dmul_def)
  then have "dquot (dmul (- 1) slip) 10000 \<le> 0"
    using dec.rnd_nonpos [of "dmul (- 1) slip / 10000"] by (simp add: dquot_def)
  then have "dadd 1 (dquot (dmul (- 1) slip) 10000) \<le> 1"
    using dec.rnd_le [of "1 + dquot (dmul (- 1) slip) 10000" 1] dec.repr_one by (simp add: dadd_def)
  then show "slipped_fill sd price slip \<le> price" if "sd = SELL"
    unfolding slipped_fill_def dmul_def [of price] using that assms(2,3) by (intro dec.rnd_le) simp_all
qed

text \<open>Nothing is filled without an independent approval and no fill beats the market: a new
  execution presupposes an approving or resizing decision for that very intent, fills exactly the
  approved quantity, at a price no better than the market price, with the fill's row, event and
  charge of the cost model recorded, and adds exactly one order.\<close>

theorem paper_fill_authorised_and_adverse:
  assumes "execute_market C calc b fresh db i risk price occurred = Inr (db', x)"
    and "\<not> px_duplicate x" and "make_paper_broker m slip = Inr b" and "representable price"
  shows "rd_order_intent_id risk = intent_id i \<and> rd_outcome risk \<noteq> risk_outcome.REJECTED
    \<and> intent_order_type i = MARKET
    \<and> px_filled_quantity x = rd_approved_quantity risk
    \<and> 0 < px_filled_quantity x \<and> px_filled_quantity x \<le> intent_quantity i
    \<and> (case intent_side i of BUY \<Rightarrow> price \<le> px_average_price x | SELL \<Rightarrow> px_average_price x \<le> price)
    \<and> calc m (dmul (px_average_price x) (px_filled_quantity x)) (intent_side i) = Inr (px_charges x)
    \<and> (\<exists>po. paper_orders db' = paper_orders db @ [stored_order C po] \<and> po_risk_decision_id po = rd_id risk
          \<and> execution_of po False = x)"
proof -
  obtain u where "paper_guards i risk price occurred = Inr u"
    using assms(1) by (auto simp: execute_market_def rbind_eq_Inr)
  note g = this [unfolded paper_guards_Inr]
  have b: "b = \<lparr>pb_cost_model = m, pb_slippage_bps = slip\<rparr>" "0 \<le> slip"
    using assms(3) by (auto simp: make_paper_broker_def split: if_splits)
  from assms(1) show ?thesis
  proof (cases rule: execute_market_cases)
    case duplicate
    with assms(2) show ?thesis by (simp add: execution_of_def)
  next
    case (filled l charges)
    from record_fill_orders [OF filled(4)] have
      o1: "paper_orders db' = paper_orders db @ [stored_order C (filled_order fresh i risk (slipped_fill (intent_side i) price slip) charges (instant_of occurred))]"
      and o2: "x = execution_of (filled_order fresh i risk (slipped_fill (intent_side i) price slip) charges (instant_of occurred)) False"
      by (simp_all add: b)
    have price: "case intent_side i of BUY \<Rightarrow> price \<le> slipped_fill (intent_side i) price slip
        | SELL \<Rightarrow> slipped_fill (intent_side i) price slip \<le> price"
      using slipped_fill_adverse [OF b(2) _ assms(4)] g by (cases "intent_side i") simp_all
    have recorded: "\<exists>po. paper_orders db' = paper_orders db @ [stored_order C po] \<and> po_risk_decision_id po = rd_id risk
        \<and> execution_of po False = x"
      using o1 o2 by (intro exI conjI) (simp_all add: filled_order_def)
    have "px_filled_quantity x = rd_approved_quantity risk" "px_charges x = charges"
      "px_average_price x = slipped_fill (intent_side i) price slip"
      by (simp_all add: o2 execution_of_def filled_order_def)
    with g price filled(3) recorded show ?thesis unfolding b(1) by (cases "intent_side i") simp_all
  qed
qed

theorem paper_fill_authorised_and_adverse_witness:
  "\<exists>db1 x. execute_market table_columns generic_calculate paper_free_broker 50 paper_opened paper_intent paper_risk 100 (Aware 9)
      = Inr (db1, x) \<and> 100 \<le> px_average_price x \<and> px_filled_quantity x \<le> 30"
proof -
  obtain db1 x where x: "execute_market table_columns generic_calculate paper_free_broker 50 paper_opened paper_intent
      paper_risk 100 (Aware 9) = Inr (db1, x)" "\<not> px_duplicate x"
    using paper_sample_fill by blast
  have "make_paper_broker \<lparr>variable_cost_bps = 0, flat_cost_per_order = 5\<rparr> 10 = Inr paper_free_broker"
    by (simp add: make_paper_broker_def paper_free_broker_def)
  from paper_fill_authorised_and_adverse [OF x this] representable_of_int [of 100] x(1)
  show ?thesis by (auto simp: paper_intent_def)
qed

section \<open>Snapshots\<close>

definition mark_value :: "paper_mark \<Rightarrow> decimal" where
  "mark_value m = dmul (pm_quantity m) (pm_market_price m)"

lemma mark_fold:
  assumes "rfold (mark_position prices) t ps = Inr t'"
  shows "\<exists>new. mt_marks t' = mt_marks t @ new
    \<and> mt_value t' = foldl dadd (mt_value t) (map mark_value new)
    \<and> mt_net t' = foldl dadd (mt_net t) (map mark_value new)
    \<and> mt_gross t' = foldl dadd (mt_gross t) (map (\<lambda>m. dabs (mark_value m)) new)
    \<and> mt_unrealized t' = foldl dadd (mt_unrealized t) (map pm_unrealized_pnl new)
    \<and> mt_realized t' = foldl dadd (mt_realized t) (map pp_realized_pnl ps)
    \<and> map pm_instrument_id new = map pp_instrument_id (filter (\<lambda>p. pp_quantity p \<noteq> 0) ps)
    \<and> (\<forall>m \<in> set new. 0 < pm_market_price m \<and> prices (pm_instrument_id m) = Some (pm_market_price m))"
  using assms
proof (induction ps arbitrary: t)
  case (Cons p ps)
  then obtain t1 where t1: "mark_position prices t p = Inr t1" and r: "rfold (mark_position prices) t1 ps = Inr t'"
    by (auto simp: rbind_eq_Inr)
  from Cons.IH [OF r] obtain new where IH: "mt_marks t' = mt_marks t1 @ new"
    "mt_value t' = foldl dadd (mt_value t1) (map mark_value new)"
    "mt_net t' = foldl dadd (mt_net t1) (map mark_value new)"
    "mt_gross t' = foldl dadd (mt_gross t1) (map (\<lambda>m. dabs (mark_value m)) new)"
    "mt_unrealized t' = foldl dadd (mt_unrealized t1) (map pm_unrealized_pnl new)"
    "mt_realized t' = foldl dadd (mt_realized t1) (map pp_realized_pnl ps)"
    "map pm_instrument_id new = map pp_instrument_id (filter (\<lambda>p. pp_quantity p \<noteq> 0) ps)"
    "\<forall>m \<in> set new. 0 < pm_market_price m \<and> prices (pm_instrument_id m) = Some (pm_market_price m)"
    by blast
  show ?case
  proof (cases "pp_quantity p = 0")
    case True
    with t1 IH show ?thesis by (intro exI [of _ new]) (auto simp: mark_position_def)
  next
    case False
    then obtain price where price: "prices (pp_instrument_id p) = Some price" "0 < price"
      using t1 by (auto simp: mark_position_def Let_def split: option.splits if_splits)
    define m where "m = \<lparr>pm_instrument_id = pp_instrument_id p, pm_quantity = pp_quantity p,
      pm_average_price = pp_average_price p, pm_market_price = price, pm_realized_pnl = pp_realized_pnl p,
      pm_unrealized_pnl = dmul (dsub price (pp_average_price p)) (pp_quantity p)\<rparr>"
    have "mt_marks t1 = mt_marks t @ [m]" "mt_value t1 = dadd (mt_value t) (mark_value m)"
      "mt_net t1 = dadd (mt_net t) (mark_value m)" "mt_gross t1 = dadd (mt_gross t) (dabs (mark_value m))"
      "mt_unrealized t1 = dadd (mt_unrealized t) (pm_unrealized_pnl m)"
      "mt_realized t1 = dadd (mt_realized t) (pp_realized_pnl p)"
      using t1 False price by (auto simp: mark_position_def Let_def m_def mark_value_def)
    moreover have "pm_instrument_id m = pp_instrument_id p" "pm_market_price m = price"
      by (simp_all add: m_def)
    ultimately show ?thesis
      using IH False price by (intro exI [of _ "m # new"]) simp
  qed
qed simp

lemma abs_dround_le: "\<bar>x\<bar> \<le> y \<Longrightarrow> \<bar>dround x\<bar> \<le> dround y"
  using dround_mono [of x y] dround_mono [of "- x" y] by (simp add: dround_minus abs_le_iff)

lemma net_le_gross:
  "\<bar>n\<bar> \<le> g \<Longrightarrow> \<bar>foldl dadd n (map mark_value ms)\<bar> \<le> foldl dadd g (map (\<lambda>m. dabs (mark_value m)) ms)"
proof (induction ms arbitrary: n g)
  case (Cons m ms)
  have "\<bar>n + mark_value m\<bar> \<le> g + dabs (mark_value m)"
    using Cons.prems by (simp add: mark_value_def dabs_representable)
  then have "\<bar>dadd n (mark_value m)\<bar> \<le> dadd g (dabs (mark_value m))"
    unfolding dadd_def by (rule abs_dround_le)
  then show ?case using Cons.IH by simp
qed simp

lemma drawdown_of_bounds:
  assumes "0 < peak" "eq \<le> peak"
  shows "0 \<le> drawdown_of peak eq" "representable peak \<Longrightarrow> 0 \<le> eq \<Longrightarrow> drawdown_of peak eq \<le> 1"
  using assms dec.drawdown_nonneg [of eq peak] dec.drawdown_le_one [of peak eq]
  by (simp_all add: drawdown_of_def dquot_def dsub_def)

text \<open>A snapshot is consistent with the books: equity is cash plus the marked values of exactly
  the open positions, each priced by a positive price; realised and unrealised totals are the sums
  over positions and marks; net exposure never exceeds gross; the new peak is what the column keeps of the larger of the old
  peak and the equity; and the drawdown is non-negative, at most one while equity is not negative.\<close>

theorem paper_snapshot_consistent:
  assumes "0 < pl_peak_equity l" and "paper_ledgers db account = Some l"
    and "mark_to_market C db account prices occurred = Inr (db', snap, marks)"
  shows "ps_cash snap = pl_cash_balance l
    \<and> ps_equity snap = dadd (pl_cash_balance l) (dsum (map mark_value marks))
    \<and> ps_realized_pnl snap = dsum (map pp_realized_pnl (filter (\<lambda>p. pp_account_id p = account) (paper_positions db)))
    \<and> ps_unrealized_pnl snap = dsum (map pm_unrealized_pnl marks)
    \<and> map pm_instrument_id marks = map pp_instrument_id
        (filter (\<lambda>p. pp_account_id p = account \<and> pp_quantity p \<noteq> 0) (paper_positions db))
    \<and> (\<forall>m \<in> set marks. 0 < pm_market_price m \<and> prices (pm_instrument_id m) = Some (pm_market_price m))
    \<and> \<bar>ps_net_exposure snap\<bar> \<le> ps_gross_exposure snap
    \<and> (\<exists>l'. paper_ledgers db' account = Some l' \<and> pl_peak_equity l' = nc_amount C (max (pl_peak_equity l) (ps_equity snap)))
    \<and> 0 \<le> ps_drawdown snap
    \<and> (representable (pl_peak_equity l) \<and> 0 \<le> ps_equity snap \<longrightarrow> ps_drawdown snap \<le> 1)"
proof -
  obtain t where t: "rfold (mark_position prices) no_marks
      (filter (\<lambda>p. pp_account_id p = account) (paper_positions db)) = Inr t"
    and m: "marks = mt_marks t" and e: "ps_equity snap = dadd (pl_cash_balance l) (mt_value t)"
    and f: "ps_realized_pnl snap = mt_realized t" "ps_unrealized_pnl snap = mt_unrealized t"
      "ps_net_exposure snap = mt_net t" "ps_gross_exposure snap = mt_gross t"
    using assms(2,3) by (auto simp: mark_to_market_def Let_def rbind_eq_Inr split: if_splits)
  note mf = mark_fold [OF t, unfolded no_marks_def, simplified]
  have net: "\<bar>ps_net_exposure snap\<bar> \<le> ps_gross_exposure snap"
    unfolding f using mf net_le_gross [of 0 0 "mt_marks t"] by auto
  from assms(3) obtain l0 where l0: "paper_ledgers db account = Some l0"
    "db' = db\<lparr>paper_ledgers := (paper_ledgers db)(account \<mapsto> l0\<lparr>pl_peak_equity := nc_amount C (max (pl_peak_equity l0) (ps_equity snap))\<rparr>),
        paper_pnl_snapshots := paper_pnl_snapshots db @ [stored_snapshot C snap]\<rparr>"
    "ps_cash snap = pl_cash_balance l0"
    "ps_drawdown snap = drawdown_of (max (pl_peak_equity l0) (ps_equity snap)) (ps_equity snap)"
    by (rule mark_position_frame)
  have "representable (ps_equity snap)" by (simp add: e)
  then have "0 \<le> ps_drawdown snap"
    "representable (pl_peak_equity l) \<and> 0 \<le> ps_equity snap \<longrightarrow> ps_drawdown snap \<le> 1"
    using l0 assms(1,2) drawdown_of_bounds [of "max (pl_peak_equity l) (ps_equity snap)" "ps_equity snap"]
    by (auto simp: max_def split: if_splits)
  moreover have "l0 = l" using l0(1) assms(2) by simp
  then have "\<exists>l'. paper_ledgers db' account = Some l' \<and> pl_peak_equity l' = nc_amount C (max (pl_peak_equity l) (ps_equity snap))"
    "ps_cash snap = pl_cash_balance l"
    using l0(2,3) by simp_all
  moreover have "ps_equity snap = dadd (pl_cash_balance l) (dsum (map mark_value marks))"
    "ps_realized_pnl snap = dsum (map pp_realized_pnl (filter (\<lambda>p. pp_account_id p = account) (paper_positions db)))"
    "ps_unrealized_pnl snap = dsum (map pm_unrealized_pnl marks)"
    "map pm_instrument_id marks = map pp_instrument_id
        (filter (\<lambda>p. pp_account_id p = account \<and> pp_quantity p \<noteq> 0) (paper_positions db))"
    "\<forall>m \<in> set marks. 0 < pm_market_price m \<and> prices (pm_instrument_id m) = Some (pm_market_price m)"
    using mf by (simp_all add: e f m dsum_def conj_commute)
  ultimately show ?thesis using net by blast
qed

theorem paper_snapshot_consistent_witness:
  "\<exists>db' snap marks. mark_to_market table_columns paper_opened 2 (\<lambda>_. None) (Aware 9) = Inr (db', snap, marks)
     \<and> ps_equity snap = dadd 10000 (dsum (map mark_value marks)) \<and> 0 \<le> ps_drawdown snap"
proof -
  have l: "paper_ledgers paper_opened 2 = Some
      \<lparr>pl_initial_cash = 10000, pl_cash_balance = 10000, pl_peak_equity = 10000\<rparr>"
    by (simp add: paper_opened_alt)
  obtain db' snap marks where m: "mark_to_market table_columns paper_opened 2 (\<lambda>_. None) (Aware 9) = Inr (db', snap, marks)"
    by (auto simp: mark_to_market_def paper_opened_alt empty_paper_db_def Let_def)
  from paper_snapshot_consistent [OF _ l m] m show ?thesis by auto
qed

section \<open>Conservation of value\<close>

text \<open>
  A fill whose intermediate values all fit into 28 digits.  What it moves is then exact: the book
  value \<open>realized - quantity * average\<close> of the position changes by precisely the cash flow of
  the fill, through openings, increases, reductions, closings and reversals alike.
\<close>

definition exact_fill :: "paper_position \<Rightarrow> decimal \<Rightarrow> decimal \<Rightarrow> decimal \<Rightarrow> bool" where
  "exact_fill p delta price charges \<longleftrightarrow>
     (let q = pp_quantity p; a = pp_average_price p; m = min \<bar>q\<bar> \<bar>delta\<bar>;
          gain = (price - a) * m * (if q > 0 then 1 else - 1) in
      list_all representable [q, delta, q + delta] \<and>
      (if q = 0 \<or> (q > 0) = (delta > 0)
       then list_all representable
         [\<bar>q\<bar> * a, \<bar>delta\<bar> * price, \<bar>q\<bar> * a + \<bar>delta\<bar> * price, \<bar>q\<bar> + \<bar>delta\<bar>,
          (\<bar>q\<bar> * a + \<bar>delta\<bar> * price) / (\<bar>q\<bar> + \<bar>delta\<bar>), pp_realized_pnl p - charges]
       else list_all representable
         [price - a, (price - a) * m, gain, pp_realized_pnl p + gain, pp_realized_pnl p + gain - charges]))"

definition exact_position :: "paper_position \<Rightarrow> decimal \<Rightarrow> decimal \<Rightarrow> decimal \<Rightarrow> paper_position" where
  "exact_position p delta price charges =
     (let q = pp_quantity p; a = pp_average_price p; new = q + delta in
      if q = 0 \<or> (q > 0) = (delta > 0)
      then p\<lparr>pp_quantity := new, pp_realized_pnl := pp_realized_pnl p - charges,
             pp_average_price := (\<bar>q\<bar> * a + \<bar>delta\<bar> * price) / (\<bar>q\<bar> + \<bar>delta\<bar>)\<rparr>
      else p\<lparr>pp_quantity := new,
             pp_realized_pnl := pp_realized_pnl p
               + (price - a) * min \<bar>q\<bar> \<bar>delta\<bar> * (if q > 0 then 1 else - 1) - charges,
             pp_average_price := (if new = 0 then 0 else if (new > 0) \<noteq> (q > 0) then price else a)\<rparr>)"

lemma fill_position_realized:
  "pp_realized_pnl (fill_position p delta price charges) =
     (if pp_quantity p = 0 \<or> (pp_quantity p > 0) = (delta > 0) then dsub (pp_realized_pnl p) charges
      else dsub (dadd (pp_realized_pnl p)
        (dmul (dmul (dsub price (pp_average_price p)) (min (dabs (pp_quantity p)) (dabs delta)))
          (if pp_quantity p > 0 then 1 else - 1))) charges)"
  by (simp add: fill_position_def Let_def)

lemma fill_position_exact:
  assumes "exact_fill p delta price charges"
  shows "fill_position p delta price charges = exact_position p delta price charges"
proof (rule paper_position.equality)
  let ?f = "fill_position p delta price charges" and ?e = "exact_position p delta price charges"
  note e = assms [unfolded exact_fill_def Let_def list.pred_inject]
  show "pp_quantity ?f = pp_quantity ?e" "pp_account_id ?f = pp_account_id ?e"
    "pp_instrument_id ?f = pp_instrument_id ?e"
    using e by (simp_all add: exact_position_def fill_position_def Let_def dadd_def dround_representable)
  show "pp_average_price ?f = pp_average_price ?e"
    using e by (simp add: exact_position_def fill_position_def Let_def dabs_representable
        dadd_def dmul_def dquot_def dround_representable)
  show "pp_realized_pnl ?f = pp_realized_pnl ?e"
  proof -
    let ?m = "min \<bar>pp_quantity p\<bar> \<bar>delta\<bar>" and ?s = "if pp_quantity p > 0 then 1 else - 1 :: rat"
    have d: "dabs (pp_quantity p) = \<bar>pp_quantity p\<bar>" "dabs delta = \<bar>delta\<bar>"
      using e by (simp_all only: dabs_representable)
    show ?thesis
    proof (cases "pp_quantity p = 0 \<or> (pp_quantity p > 0) = (delta > 0)")
      case True
      then have "dsub (pp_realized_pnl p) charges = pp_realized_pnl p - charges"
        using e by (simp only: if_True dsub_def dround_representable)
      with True show ?thesis unfolding fill_position_realized d
        by (simp add: exact_position_def Let_def)
    next
      case False
      have v: "dsub price (pp_average_price p) = price - pp_average_price p"
        "dmul (price - pp_average_price p) ?m = (price - pp_average_price p) * ?m"
        "dmul ((price - pp_average_price p) * ?m) ?s = (price - pp_average_price p) * ?m * ?s"
        "dadd (pp_realized_pnl p) ((price - pp_average_price p) * ?m * ?s)
          = pp_realized_pnl p + (price - pp_average_price p) * ?m * ?s"
        "dsub (pp_realized_pnl p + (price - pp_average_price p) * ?m * ?s) charges
          = pp_realized_pnl p + (price - pp_average_price p) * ?m * ?s - charges"
        using e unfolding if_not_P [OF False] by (simp_all only: dsub_def dmul_def dadd_def dround_representable)
      have "pp_realized_pnl ?e = pp_realized_pnl p + (price - pp_average_price p) * ?m * ?s - charges"
        unfolding exact_position_def Let_def if_not_P [OF False] by simp
      then show ?thesis unfolding fill_position_realized d v if_not_P [OF False] by simp
    qed
  qed
qed simp

definition book_value :: "paper_position \<Rightarrow> decimal" where
  "book_value p = pp_realized_pnl p - pp_quantity p * pp_average_price p"

lemma both_negated: "(- x) / (- y) = x / (y :: rat)"
  by simp

lemma weighted_average:
  fixes q d a x :: rat
  assumes "d \<noteq> 0" "q = 0 \<or> (q > 0) = (d > 0)"
  shows "(q + d) * ((\<bar>q\<bar> * a + \<bar>d\<bar> * x) / (\<bar>q\<bar> + \<bar>d\<bar>)) = q * a + d * x"
proof (cases "0 < d")
  case True
  with assms have "0 \<le> q" by auto
  with True show ?thesis by simp
next
  case False
  with assms have "q \<le> 0" "d < 0" by auto
  then have "\<bar>q\<bar> * a + \<bar>d\<bar> * x = - (q * a + d * x)" "\<bar>q\<bar> + \<bar>d\<bar> = - (q + d)"
    by simp_all
  then have "(\<bar>q\<bar> * a + \<bar>d\<bar> * x) / (\<bar>q\<bar> + \<bar>d\<bar>) = (q * a + d * x) / (q + d)"
    by (simp only: both_negated)
  with \<open>q \<le> 0\<close> \<open>d < 0\<close> show ?thesis by simp
qed

lemma exact_position_book_value:
  assumes "delta \<noteq> 0"
  shows "book_value (exact_position p delta price charges) = book_value p - delta * price - charges"
proof (cases "pp_quantity p = 0 \<or> (pp_quantity p > 0) = (delta > 0)")
  case True
  then show ?thesis
    using weighted_average [OF assms True, of "pp_average_price p" price]
    by (simp add: book_value_def exact_position_def Let_def)
next
  case False
  show ?thesis
  proof (cases "pp_quantity p + delta = 0")
    case True
    then have "delta = - pp_quantity p" by simp
    with False show ?thesis
      by (auto simp: book_value_def exact_position_def Let_def abs_if algebra_simps)
  next
    case nonzero: False
    with False show ?thesis
      by (auto simp: book_value_def exact_position_def Let_def abs_if min_def algebra_simps not_less)
  qed
qed

text \<open>C21: A fill conserves value.  When none of its intermediate values is rounded, the book value
  (realised profit minus quantity times average price) of the position after the fill is the one
  before it plus the cash flow of the fill, whether the fill opens, increases, reduces, closes or
  reverses the position: marked at the average price, the account is worth what it was, less the
  charges.\<close>

theorem paper_fill_conserves_value:
  assumes "delta \<noteq> 0" and "exact_fill p delta price charges"
  shows "book_value (fill_position p delta price charges) = book_value p + (- delta * price - charges)
    \<and> pp_quantity (fill_position p delta price charges) = pp_quantity p + delta"
proof -
  have "pp_quantity (exact_position p delta price charges) = pp_quantity p + delta"
    by (simp add: exact_position_def Let_def)
  with exact_position_book_value [OF assms(1), of p price charges] show ?thesis
    by (simp add: fill_position_exact [OF assms(2)])
qed

definition sample_long :: paper_position where
  "sample_long = \<lparr>pp_account_id = 2, pp_instrument_id = 3, pp_quantity = 10, pp_average_price = 100,
     pp_realized_pnl = - 5\<rparr>"

theorem paper_fill_conserves_value_witness:
  "book_value (fill_position sample_long (- 16) 110 4) = - 5 - 1000 + (16 * 110 - 4)
    \<and> pp_quantity (fill_position sample_long (- 16) 110 4) = - 6"
proof -
  have "exact_fill sample_long (- 16) 110 4"
    using representable_of_int [of 10] representable_of_int [of "- 16"] representable_of_int [of "- 6"]
      representable_of_int [of 1000] representable_of_int [of 1760] representable_of_int [of 2760]
      representable_of_int [of 26] representable_fixed [of "2760 / 26"]
      representable_of_int [of 100] representable_of_int [of 95] representable_of_int [of 91]
      representable_of_int [of "- 9"]
    by (simp add: exact_fill_def sample_long_def)
  moreover have "book_value sample_long = - 1005" "pp_quantity sample_long = 10"
    by (simp_all add: sample_long_def book_value_def)
  ultimately show ?thesis
    using paper_fill_conserves_value [of "- 16" sample_long 110 4] by simp
qed

end
