(* ===== verification/Regime.thy ===== *)
theory Regime
  imports Domain
begin

text \<open>
  The market-regime classifier of \<open>packages/strategies/regime.py\<close>: three independent axes decided
  from one snapshot of features, each with a confidence, in Decimal arithmetic.  The divisors are
  non-zero because the constructors check the thresholds and the prices.
\<close>

datatype trend_regime = BULL_TREND | BEAR_TREND | RANGE
datatype volatility_regime = HIGH_VOLATILITY | NORMAL_VOLATILITY | LOW_VOLATILITY
datatype liquidity_regime = HIGH_LIQUIDITY | NORMAL_LIQUIDITY | LOW_LIQUIDITY

definition trend_regime_value :: "trend_regime \<Rightarrow> string" where
  "trend_regime_value t =
     (case t of BULL_TREND \<Rightarrow> ''bull_trend'' | BEAR_TREND \<Rightarrow> ''bear_trend'' | RANGE \<Rightarrow> ''range'')"

text \<open>The values of the open dictionaries of factors and features.\<close>

datatype factor = FDecimal decimal | FString string | FBool bool

record regime_config =
  adx_trend_threshold :: decimal
  high_atr_percent :: decimal
  low_atr_percent :: decimal
  high_liquidity_relative_volume :: decimal
  low_liquidity_relative_volume :: decimal
  high_liquidity_max_spread_bps :: decimal
  low_liquidity_spread_bps :: decimal
  regime_rule_version :: string

definition default_regime_config :: regime_config where
  "default_regime_config =
     \<lparr>adx_trend_threshold = 20, high_atr_percent = 2, low_atr_percent = 1 / 2,
      high_liquidity_relative_volume = 12 / 10, low_liquidity_relative_volume = 7 / 10,
      high_liquidity_max_spread_bps = 10, low_liquidity_spread_bps = 25,
      regime_rule_version = ''regime-rules-v1''\<rparr>"

definition make_regime_config :: "regime_config \<Rightarrow> regime_config result" where
  "make_regime_config c =
     (if list_ex (\<lambda>v. v < 0)
           [adx_trend_threshold c, high_atr_percent c, low_atr_percent c,
            high_liquidity_relative_volume c, low_liquidity_relative_volume c,
            high_liquidity_max_spread_bps c, low_liquidity_spread_bps c]
      then Inl (ValueError ''regime thresholds cannot be negative'')
      else if low_atr_percent c \<ge> high_atr_percent c
      then Inl (ValueError ''low ATR threshold must be below high ATR threshold'')
      else if low_liquidity_relative_volume c \<ge> high_liquidity_relative_volume c
      then Inl (ValueError ''low relative-volume threshold must be below high threshold'')
      else if high_liquidity_max_spread_bps c \<ge> low_liquidity_spread_bps c
      then Inl (ValueError ''high-liquidity spread must be below low-liquidity spread'')
      else if blank (regime_rule_version c) then Inl (ValueError ''rule_version cannot be empty'')
      else Inr c)"

record regime_features =
  rf_timestamp :: instant
  rf_close :: decimal
  rf_ema_fast :: decimal
  rf_ema_slow :: decimal
  rf_adx :: decimal
  rf_atr_percent :: decimal
  rf_relative_volume :: decimal
  rf_spread_bps :: decimal
  rf_event_risk :: bool

definition make_regime_features :: "datetime \<Rightarrow> regime_features \<Rightarrow> regime_features result" where
  "make_regime_features ts f =
     (if \<not> is_aware ts then Inl (ValueError ''regime timestamp must be timezone-aware'')
      else if rf_close f \<le> 0 \<or> rf_ema_fast f \<le> 0 \<or> rf_ema_slow f \<le> 0
      then Inl (ValueError ''prices and moving averages must be positive'')
      else if list_ex (\<lambda>v. v < 0) [rf_adx f, rf_atr_percent f, rf_relative_volume f, rf_spread_bps f]
      then Inl (ValueError ''regime features cannot be negative'')
      else Inr (f\<lparr>rf_timestamp := instant_of ts\<rparr>))"

record regime_classification =
  rc_timestamp :: instant
  rc_trend :: trend_regime
  rc_volatility :: volatility_regime
  rc_liquidity :: liquidity_regime
  rc_event_risk :: bool
  rc_confidence :: decimal
  rc_supporting_features :: "(string \<times> factor) list"
  rc_rule_version :: string

definition strategy_entries_permitted :: "regime_classification \<Rightarrow> bool" where
  "strategy_entries_permitted c = (\<not> rc_event_risk c)"

definition bounded_unit :: "decimal \<Rightarrow> decimal" where
  "bounded_unit v = max 0 (min 1 v)"

definition floor_threshold :: "decimal \<Rightarrow> decimal" where
  "floor_threshold v = max v (1 / 10000)"

definition classify_trend :: "regime_features \<Rightarrow> regime_config \<Rightarrow> trend_regime \<times> decimal" where
  "classify_trend f c =
     (let separation = dquot (dabs (dsub (rf_ema_fast f) (rf_ema_slow f))) (rf_close f);
          strength = bounded_unit (dquot (rf_adx f) (floor_threshold (adx_trend_threshold c)));
          confidence = bounded_unit (dadd (dadd (1 / 2) (dmul separation 100)) (dquot strength 4));
          range = (RANGE, bounded_unit (dsub 1 (dquot strength 2)))
      in if rf_adx f \<ge> adx_trend_threshold c
         then (if rf_close f > rf_ema_fast f \<and> rf_ema_fast f > rf_ema_slow f then (BULL_TREND, confidence)
               else if rf_close f < rf_ema_fast f \<and> rf_ema_fast f < rf_ema_slow f
               then (BEAR_TREND, confidence) else range)
         else range)"

definition classify_volatility :: "regime_features \<Rightarrow> regime_config \<Rightarrow> volatility_regime \<times> decimal" where
  "classify_volatility f c =
     (if rf_atr_percent f \<ge> high_atr_percent c
      then (HIGH_VOLATILITY,
            bounded_unit (dadd (dquot (dquot (rf_atr_percent f) (high_atr_percent c)) 2) (1 / 2)))
      else if rf_atr_percent f \<le> low_atr_percent c
      then (LOW_VOLATILITY,
            bounded_unit (dsub 1 (dquot (dquot (rf_atr_percent f) (floor_threshold (low_atr_percent c))) 2)))
      else
        let midpoint = dquot (dadd (high_atr_percent c) (low_atr_percent c)) 2;
            half_width = dquot (dsub (high_atr_percent c) (low_atr_percent c)) 2
        in (NORMAL_VOLATILITY,
            bounded_unit (dsub 1 (dquot (dquot (dabs (dsub (rf_atr_percent f) midpoint)) half_width) 2))))"

definition classify_liquidity :: "regime_features \<Rightarrow> regime_config \<Rightarrow> liquidity_regime \<times> decimal" where
  "classify_liquidity f c =
     (if rf_relative_volume f \<ge> high_liquidity_relative_volume c
         \<and> rf_spread_bps f \<le> high_liquidity_max_spread_bps c
      then
        let volume_score = dquot (rf_relative_volume f) (high_liquidity_relative_volume c);
            spread_score = dsub 1 (dquot (rf_spread_bps f) (floor_threshold (low_liquidity_spread_bps c)))
        in (HIGH_LIQUIDITY, bounded_unit (dquot (dadd volume_score spread_score) 2))
      else if rf_relative_volume f \<le> low_liquidity_relative_volume c
              \<or> rf_spread_bps f \<ge> low_liquidity_spread_bps c
      then
        let volume_deficit = bounded_unit (dsub 1 (dquot (rf_relative_volume f)
                               (floor_threshold (low_liquidity_relative_volume c))));
            spread_excess = bounded_unit (dsub (dquot (rf_spread_bps f)
                               (floor_threshold (low_liquidity_spread_bps c))) 1)
        in (LOW_LIQUIDITY, bounded_unit (dadd (1 / 2) (dquot (max volume_deficit spread_excess) 2)))
      else (NORMAL_LIQUIDITY, 6 / 10))"

definition classify_regime :: "regime_features \<Rightarrow> regime_config \<Rightarrow> regime_classification" where
  "classify_regime f c =
     (let (trend, tc) = classify_trend f c; (volatility, vc) = classify_volatility f c;
          (liquidity, lc) = classify_liquidity f c
      in \<lparr>rc_timestamp = rf_timestamp f, rc_trend = trend, rc_volatility = volatility,
          rc_liquidity = liquidity, rc_event_risk = rf_event_risk f,
          rc_confidence = dquot (dadd (dadd tc vc) lc) 3,
          rc_supporting_features =
            [(''close'', FDecimal (rf_close f)), (''ema_fast'', FDecimal (rf_ema_fast f)),
             (''ema_slow'', FDecimal (rf_ema_slow f)), (''adx'', FDecimal (rf_adx f)),
             (''atr_percent'', FDecimal (rf_atr_percent f)),
             (''relative_volume'', FDecimal (rf_relative_volume f)),
             (''spread_bps'', FDecimal (rf_spread_bps f)), (''event_risk'', FBool (rf_event_risk f)),
             (''trend_rule'', FString (trend_regime_value trend))],
          rc_rule_version = regime_rule_version c\<rparr>)"

lemma bounded_unit_bounds [simp]: "0 \<le> bounded_unit v" "bounded_unit v \<le> 1"
  by (simp_all add: bounded_unit_def)

lemma axis_confidences:
  "0 \<le> snd (classify_trend f c)" "snd (classify_trend f c) \<le> 1"
  "0 \<le> snd (classify_volatility f c)" "snd (classify_volatility f c) \<le> 1"
  "0 \<le> snd (classify_liquidity f c)" "snd (classify_liquidity f c) \<le> 1"
  by (simp_all add: classify_trend_def classify_volatility_def classify_liquidity_def Let_def)

lemma dquot_le_one: "a \<le> b \<Longrightarrow> 0 < b \<Longrightarrow> dquot a b \<le> 1"
  unfolding dquot_def by (intro dec.rnd_le dec.repr_one) (simp add: divide_le_eq)

lemma three_axes_mean:
  assumes "0 \<le> x" "x \<le> 1" "0 \<le> y" "y \<le> 1" "0 \<le> z" "z \<le> 1"
  shows "0 \<le> dquot (dadd (dadd x y) z) 3" "dquot (dadd (dadd x y) z) 3 \<le> 1"
proof -
  show "0 \<le> dquot (dadd (dadd x y) z) 3"
    using assms by (intro dquot_nonneg dadd_nonneg) simp_all
  have r: "representable 2" "representable 3"
    using representable_of_int [of 2] representable_of_int [of 3] by simp_all
  have "dadd x y \<le> 2" unfolding dadd_def by (rule dec.rnd_le) (use assms r in simp_all)
  then have "dadd (dadd x y) z \<le> 3"
    unfolding dadd_def [of _ z] by (intro dec.rnd_le) (use assms r in simp_all)
  then show "dquot (dadd (dadd x y) z) 3 \<le> 1" by (rule dquot_le_one) simp
qed

text \<open>The three axes are decided by the thresholds alone: a bull (bear) trend is a strong ADX with
  close, fast and slow average strictly ordered, and anything else is a range; high volatility and
  low volatility split at their thresholds; high liquidity needs volume and spread, low liquidity
  either deficit.  The combined confidence is in [0, 1], and an event risk changes nothing but the
  permission to enter.\<close>

theorem regime_axes_by_threshold:
  assumes "make_regime_config c = Inr c"
  shows "(rc_trend (classify_regime f c) = BULL_TREND \<longleftrightarrow>
           adx_trend_threshold c \<le> rf_adx f \<and> rf_ema_slow f < rf_ema_fast f \<and> rf_ema_fast f < rf_close f)
    \<and> (rc_trend (classify_regime f c) = BEAR_TREND \<longleftrightarrow>
           adx_trend_threshold c \<le> rf_adx f \<and> rf_close f < rf_ema_fast f \<and> rf_ema_fast f < rf_ema_slow f)
    \<and> (rc_volatility (classify_regime f c) = HIGH_VOLATILITY \<longleftrightarrow> high_atr_percent c \<le> rf_atr_percent f)
    \<and> (rc_volatility (classify_regime f c) = LOW_VOLATILITY \<longleftrightarrow> rf_atr_percent f \<le> low_atr_percent c)
    \<and> (rc_liquidity (classify_regime f c) = HIGH_LIQUIDITY \<longleftrightarrow>
           high_liquidity_relative_volume c \<le> rf_relative_volume f
           \<and> rf_spread_bps f \<le> high_liquidity_max_spread_bps c)
    \<and> (rc_liquidity (classify_regime f c) = LOW_LIQUIDITY \<longleftrightarrow>
           rf_relative_volume f \<le> low_liquidity_relative_volume c
           \<or> low_liquidity_spread_bps c \<le> rf_spread_bps f)
    \<and> 0 \<le> rc_confidence (classify_regime f c) \<and> rc_confidence (classify_regime f c) \<le> 1
    \<and> rc_confidence (classify_regime (f\<lparr>rf_event_risk := e\<rparr>) c) = rc_confidence (classify_regime f c)
    \<and> rc_trend (classify_regime (f\<lparr>rf_event_risk := e\<rparr>) c) = rc_trend (classify_regime f c)
    \<and> strategy_entries_permitted (classify_regime (f\<lparr>rf_event_risk := e\<rparr>) c) = (\<not> e)"
proof -
  have c: "low_atr_percent c < high_atr_percent c"
    "low_liquidity_relative_volume c < high_liquidity_relative_volume c"
    "high_liquidity_max_spread_bps c < low_liquidity_spread_bps c"
    using assms by (simp_all add: make_regime_config_def not_le split: if_splits)
  have trend: "rc_trend (classify_regime f c) = fst (classify_trend f c)"
    and volatility: "rc_volatility (classify_regime f c) = fst (classify_volatility f c)"
    and liquidity: "rc_liquidity (classify_regime f c) = fst (classify_liquidity f c)"
    and confidence: "rc_confidence (classify_regime f c)
      = dquot (dadd (dadd (snd (classify_trend f c)) (snd (classify_volatility f c))) (snd (classify_liquidity f c))) 3"
    for f
    by (simp_all add: classify_regime_def Let_def split_beta)
  have e: "classify_trend (f\<lparr>rf_event_risk := e\<rparr>) c = classify_trend f c"
    "classify_volatility (f\<lparr>rf_event_risk := e\<rparr>) c = classify_volatility f c"
    "classify_liquidity (f\<lparr>rf_event_risk := e\<rparr>) c = classify_liquidity f c"
    "rc_event_risk (classify_regime (f\<lparr>rf_event_risk := e\<rparr>) c) = e"
    by (simp_all add: classify_trend_def classify_volatility_def classify_liquidity_def
        classify_regime_def split_beta cong: if_cong)
  have "fst (classify_trend f c) = BULL_TREND \<longleftrightarrow>
      adx_trend_threshold c \<le> rf_adx f \<and> rf_ema_slow f < rf_ema_fast f \<and> rf_ema_fast f < rf_close f"
    "fst (classify_trend f c) = BEAR_TREND \<longleftrightarrow>
      adx_trend_threshold c \<le> rf_adx f \<and> rf_close f < rf_ema_fast f \<and> rf_ema_fast f < rf_ema_slow f"
    by (auto simp: classify_trend_def Let_def)
  moreover have "fst (classify_volatility f c) = HIGH_VOLATILITY \<longleftrightarrow> high_atr_percent c \<le> rf_atr_percent f"
    "fst (classify_volatility f c) = LOW_VOLATILITY \<longleftrightarrow> rf_atr_percent f \<le> low_atr_percent c"
    using c by (auto simp: classify_volatility_def Let_def)
  moreover have "fst (classify_liquidity f c) = HIGH_LIQUIDITY \<longleftrightarrow>
      high_liquidity_relative_volume c \<le> rf_relative_volume f \<and> rf_spread_bps f \<le> high_liquidity_max_spread_bps c"
    "fst (classify_liquidity f c) = LOW_LIQUIDITY \<longleftrightarrow>
      rf_relative_volume f \<le> low_liquidity_relative_volume c \<or> low_liquidity_spread_bps c \<le> rf_spread_bps f"
    using c by (auto simp: classify_liquidity_def Let_def)
  ultimately show ?thesis
    unfolding trend volatility liquidity confidence e strategy_entries_permitted_def
    using three_axes_mean [OF axis_confidences [of f c]] by (intro conjI) simp_all
qed

definition sample_features :: regime_features where
  "sample_features = \<lparr>rf_timestamp = 0, rf_close = 105, rf_ema_fast = 103, rf_ema_slow = 100, rf_adx = 30,
     rf_atr_percent = 1, rf_relative_volume = 1, rf_spread_bps = 5, rf_event_risk = False\<rparr>"

theorem regime_axes_by_threshold_witness:
  "rc_trend (classify_regime sample_features default_regime_config) = BULL_TREND
    \<and> rc_liquidity (classify_regime sample_features default_regime_config) \<noteq> LOW_LIQUIDITY
    \<and> \<not> strategy_entries_permitted
        (classify_regime (sample_features\<lparr>rf_event_risk := True\<rparr>) default_regime_config)"
proof -
  have "make_regime_config default_regime_config = Inr default_regime_config"
    by (simp add: make_regime_config_def default_regime_config_def blank_def is_space_def of_char_def)
  from regime_axes_by_threshold [OF this, of sample_features True] show ?thesis
    by (simp add: sample_features_def default_regime_config_def)
qed

end
