(* ===== verification/Strategies.thy ===== *)
theory Strategies
  imports Regime
begin

text \<open>
  The strategy layer of \<open>packages/strategies/engine.py\<close>: the configuration and the context with the
  checks of their constructors, the common gate, the price levels, and the five strategies.  Every
  strategy is a function from a context to one signal; \<open>strategy_evaluate\<close> is the protocol they
  share.
\<close>

record strategy_requirements =
  sr_timeframes :: "string list"
  sr_indicators :: "string list"
  sr_supported_regimes :: "trend_regime list"

record strategy_config =
  sc_version :: string
  minimum_relative_volume :: decimal
  stop_atr_multiple :: decimal
  target_risk_multiple :: decimal
  maximum_risk_fraction :: decimal
  mean_reversion_zscore :: decimal
  require_orb_retest :: bool

definition default_strategy_config :: strategy_config where
  "default_strategy_config =
     \<lparr>sc_version = ''1.0.0'', minimum_relative_volume = 12 / 10, stop_atr_multiple = 1,
      target_risk_multiple = 2, maximum_risk_fraction = 5 / 1000, mean_reversion_zscore = 2,
      require_orb_retest = False\<rparr>"

definition make_strategy_config :: "strategy_config \<Rightarrow> strategy_config result" where
  "make_strategy_config c =
     (if blank (sc_version c) then Inl (ValueError ''strategy version cannot be empty'')
      else if list_ex (\<lambda>v. v \<le> 0)
             [minimum_relative_volume c, stop_atr_multiple c, target_risk_multiple c,
              maximum_risk_fraction c, mean_reversion_zscore c]
      then Inl (ValueError ''strategy numeric parameters must be positive'')
      else if maximum_risk_fraction c > 2 / 100
      then Inl (ValueError ''strategy sizing request cannot exceed 2%'')
      else Inr c)"

record strategy_context =
  cx_timestamp :: instant
  cx_instrument_id :: uuid
  cx_data_snapshot_id :: string
  cx_close :: decimal
  cx_atr :: decimal
  cx_vwap :: decimal
  cx_ema_fast :: decimal
  cx_relative_volume :: decimal
  cx_regime :: regime_classification
  cx_higher_timeframe_trend :: trend_regime
  cx_session_allowed :: bool
  cx_liquidity_sweep_direction :: "signal_action option"
  cx_structure_direction :: "signal_action option"
  cx_opening_range_high :: "decimal option"
  cx_opening_range_low :: "decimal option"
  cx_opening_range_complete :: bool
  cx_retest_confirmed :: bool
  cx_fvg_direction :: "signal_action option"
  cx_fvg_lower :: "decimal option"
  cx_fvg_upper :: "decimal option"
  cx_zscore :: "decimal option"

definition pair_ordered :: "decimal option \<Rightarrow> decimal option \<Rightarrow> bool" where
  "pair_ordered lo hi = (case (lo, hi) of (Some l, Some h) \<Rightarrow> l < h | _ \<Rightarrow> True)"

definition make_strategy_context :: "datetime \<Rightarrow> strategy_context \<Rightarrow> strategy_context result" where
  "make_strategy_context ts c =
     (if \<not> is_aware ts then Inl (ValueError ''strategy timestamp must be timezone-aware'')
      else if blank (cx_data_snapshot_id c) then Inl (ValueError ''data_snapshot_id cannot be empty'')
      else if list_ex (\<lambda>v. v \<le> 0) [cx_close c, cx_atr c, cx_vwap c, cx_ema_fast c]
      then Inl (ValueError ''strategy prices and ATR must be positive'')
      else if cx_relative_volume c < 0 then Inl (ValueError ''relative volume cannot be negative'')
      else if (cx_opening_range_high c = None) \<noteq> (cx_opening_range_low c = None)
      then Inl (ValueError ''opening range high and low must be supplied together'')
      else if \<not> pair_ordered (cx_opening_range_low c) (cx_opening_range_high c)
      then Inl (ValueError ''opening range high must exceed low'')
      else if (cx_fvg_lower c = None) \<noteq> (cx_fvg_upper c = None)
      then Inl (ValueError ''FVG bounds must be supplied together'')
      else if \<not> pair_ordered (cx_fvg_lower c) (cx_fvg_upper c)
      then Inl (ValueError ''FVG upper bound must exceed lower bound'')
      else Inr (c\<lparr>cx_timestamp := instant_of ts\<rparr>))"

record strategy_signal =
  ss_timestamp :: instant
  ss_instrument_id :: uuid
  ss_strategy :: string
  ss_strategy_version :: string
  ss_action :: signal_action
  ss_confidence :: decimal
  ss_contributing_factors :: "(string \<times> factor) list"
  ss_rejection_reasons :: "string list"
  ss_proposed_entry :: "decimal option"
  ss_proposed_stop :: "decimal option"
  ss_proposed_targets :: "decimal list"
  ss_requested_risk_fraction :: decimal
  ss_expiry :: "instant option"
  ss_explanation :: string
  ss_data_snapshot_id :: string

section \<open>The base class\<close>

datatype strategy_kind =
    TrendContinuation | LiquiditySweepReversal | OpeningRangeBreakout
  | FairValueGapContinuation | RangeMeanReversion

definition strategy_name :: "strategy_kind \<Rightarrow> string" where
  "strategy_name k = (case k of
     TrendContinuation \<Rightarrow> ''trend_continuation''
   | LiquiditySweepReversal \<Rightarrow> ''liquidity_sweep_reversal''
   | OpeningRangeBreakout \<Rightarrow> ''opening_range_breakout''
   | FairValueGapContinuation \<Rightarrow> ''fvg_continuation''
   | RangeMeanReversion \<Rightarrow> ''range_mean_reversion'')"

definition requirements_of :: "strategy_kind \<Rightarrow> strategy_requirements" where
  "requirements_of k = (case k of
     TrendContinuation \<Rightarrow>
       \<lparr>sr_timeframes = [''5m'', ''15m'', ''1h''],
        sr_indicators = [''EMA'', ''VWAP'', ''ATR'', ''relative_volume'', ''external_structure''],
        sr_supported_regimes = [BULL_TREND, BEAR_TREND]\<rparr>
   | LiquiditySweepReversal \<Rightarrow>
       \<lparr>sr_timeframes = [''5m'', ''15m''],
        sr_indicators = [''liquidity_sweep'', ''market_structure'', ''ATR''],
        sr_supported_regimes = [BULL_TREND, BEAR_TREND, RANGE]\<rparr>
   | OpeningRangeBreakout \<Rightarrow>
       \<lparr>sr_timeframes = [''1m'', ''5m''],
        sr_indicators = [''opening_range'', ''relative_volume'', ''ATR''],
        sr_supported_regimes = [BULL_TREND, BEAR_TREND, RANGE]\<rparr>
   | FairValueGapContinuation \<Rightarrow>
       \<lparr>sr_timeframes = [''5m'', ''15m'', ''1h''],
        sr_indicators = [''fair_value_gap'', ''external_structure'', ''ATR''],
        sr_supported_regimes = [BULL_TREND, BEAR_TREND]\<rparr>
   | RangeMeanReversion \<Rightarrow>
       \<lparr>sr_timeframes = [''5m'', ''15m''], sr_indicators = [''zscore'', ''VWAP'', ''ATR''],
        sr_supported_regimes = [RANGE]\<rparr>)"

definition gate :: "strategy_kind \<Rightarrow> strategy_context \<Rightarrow> string list" where
  "gate k c =
     (if \<not> cx_session_allowed c then [''OUTSIDE_TRADING_SESSION''] else [])
     @ (if \<not> strategy_entries_permitted (cx_regime c) then [''EVENT_RISK_LOCK''] else [])
     @ (if rc_liquidity (cx_regime c) = LOW_LIQUIDITY then [''LOW_LIQUIDITY''] else [])
     @ (if rc_trend (cx_regime c) \<notin> set (sr_supported_regimes (requirements_of k))
        then [''UNSUPPORTED_REGIME''] else [])"

definition no_trade :: "strategy_kind \<Rightarrow> strategy_config \<Rightarrow> strategy_context \<Rightarrow> string list \<Rightarrow> strategy_signal" where
  "no_trade k cfg c reasons =
     \<lparr>ss_timestamp = cx_timestamp c, ss_instrument_id = cx_instrument_id c,
      ss_strategy = strategy_name k, ss_strategy_version = sc_version cfg, ss_action = NO_TRADE,
      ss_confidence = 0,
      ss_contributing_factors = [(''regime'', FString (trend_regime_value (rc_trend (cx_regime c))))],
      ss_rejection_reasons = reasons, ss_proposed_entry = None, ss_proposed_stop = None,
      ss_proposed_targets = [], ss_requested_risk_fraction = 0, ss_expiry = None,
      ss_explanation = ''No trade: '' @ join '', '' reasons,
      ss_data_snapshot_id = cx_data_snapshot_id c\<rparr>"

definition signal ::
  "strategy_kind \<Rightarrow> strategy_config \<Rightarrow> strategy_context \<Rightarrow> signal_action \<Rightarrow> decimal \<Rightarrow> decimal \<Rightarrow> decimal
   \<Rightarrow> (string \<times> factor) list \<Rightarrow> string \<Rightarrow> strategy_signal" where
  "signal k cfg c action confidence stop target factors explanation =
     \<lparr>ss_timestamp = cx_timestamp c, ss_instrument_id = cx_instrument_id c,
      ss_strategy = strategy_name k, ss_strategy_version = sc_version cfg, ss_action = action,
      ss_confidence = min 1 (max 0 confidence), ss_contributing_factors = factors,
      ss_rejection_reasons = [], ss_proposed_entry = Some (cx_close c), ss_proposed_stop = Some stop,
      ss_proposed_targets = [target], ss_requested_risk_fraction = maximum_risk_fraction cfg,
      ss_expiry = None, ss_explanation = explanation,
      ss_data_snapshot_id = cx_data_snapshot_id c\<rparr>"

definition levels :: "strategy_config \<Rightarrow> strategy_context \<Rightarrow> signal_action \<Rightarrow> decimal \<times> decimal" where
  "levels cfg c action =
     (let risk = dmul (cx_atr c) (stop_atr_multiple cfg) in
      if action = LONG
      then (dsub (cx_close c) risk, dadd (cx_close c) (dmul risk (target_risk_multiple cfg)))
      else (dadd (cx_close c) risk, dsub (cx_close c) (dmul risk (target_risk_multiple cfg))))"

section \<open>The strategies\<close>

definition trend_continuation :: "strategy_config \<Rightarrow> strategy_context \<Rightarrow> strategy_signal" where
  "trend_continuation cfg c =
     (let k = TrendContinuation; reasons = gate k c in
      if reasons \<noteq> [] then no_trade k cfg c reasons
      else
        let bullish = (rc_trend (cx_regime c) = BULL_TREND \<and> cx_higher_timeframe_trend c = BULL_TREND
              \<and> cx_close c \<ge> cx_ema_fast c \<and> cx_close c \<ge> cx_vwap c);
            bearish = (rc_trend (cx_regime c) = BEAR_TREND \<and> cx_higher_timeframe_trend c = BEAR_TREND
              \<and> cx_close c \<le> cx_ema_fast c \<and> cx_close c \<le> cx_vwap c)
        in if cx_relative_volume c < minimum_relative_volume cfg
           then no_trade k cfg c [''INSUFFICIENT_VOLUME_CONFIRMATION'']
           else if \<not> bullish \<and> \<not> bearish then no_trade k cfg c [''TREND_ALIGNMENT_FAILED'']
           else
             let action = (if bullish then LONG else SHORT); (stop, target) = levels cfg c action
             in signal k cfg c action (75 / 100) stop target
                  [(''relative_volume'', FDecimal (cx_relative_volume c)),
                   (''higher_timeframe_aligned'', FBool True)]
                  ''Higher-timeframe trend, EMA, VWAP, and volume are aligned'')"

definition liquidity_sweep_reversal :: "strategy_config \<Rightarrow> strategy_context \<Rightarrow> strategy_signal" where
  "liquidity_sweep_reversal cfg c =
     (let k = LiquiditySweepReversal; reasons = gate k c in
      if reasons \<noteq> [] then no_trade k cfg c reasons
      else
        let direction = cx_liquidity_sweep_direction c in
        if direction \<noteq> Some LONG \<and> direction \<noteq> Some SHORT
        then no_trade k cfg c [''NO_CONFIRMED_LIQUIDITY_SWEEP'']
        else if cx_structure_direction c \<noteq> direction
        then no_trade k cfg c [''STRUCTURE_CONFIRMATION_MISSING'']
        else
          let action = the direction; (stop, target) = levels cfg c action
          in signal k cfg c action (7 / 10) stop target
               [(''sweep'', FString (if action = LONG then ''LONG'' else ''SHORT'')),
                (''structure_confirmed'', FBool True)]
               ''Liquidity sweep rejected and structure confirmed the reversal'')"

definition opening_range_breakout :: "strategy_config \<Rightarrow> strategy_context \<Rightarrow> strategy_signal" where
  "opening_range_breakout cfg c =
     (let k = OpeningRangeBreakout; reasons = gate k c in
      if reasons \<noteq> [] then no_trade k cfg c reasons
      else case (cx_opening_range_complete c, cx_opening_range_high c, cx_opening_range_low c) of
        (True, Some hi, Some lo) \<Rightarrow>
          if cx_relative_volume c < minimum_relative_volume cfg
          then no_trade k cfg c [''INSUFFICIENT_VOLUME_CONFIRMATION'']
          else if require_orb_retest cfg \<and> \<not> cx_retest_confirmed c
          then no_trade k cfg c [''RETEST_REQUIRED'']
          else if cx_close c \<le> hi \<and> cx_close c \<ge> lo
          then no_trade k cfg c [''NO_OPENING_RANGE_BREAKOUT'']
          else
            let action = (if cx_close c > hi then LONG else SHORT); (stop, target) = levels cfg c action
            in signal k cfg c action (7 / 10) stop target
                 [(''relative_volume'', FDecimal (cx_relative_volume c)),
                  (''retest_confirmed'', FBool (cx_retest_confirmed c))]
                 ''Closed outside the completed opening range with volume confirmation''
      | _ \<Rightarrow> no_trade k cfg c [''OPENING_RANGE_INCOMPLETE''])"

definition fvg_continuation :: "strategy_config \<Rightarrow> strategy_context \<Rightarrow> strategy_signal" where
  "fvg_continuation cfg c =
     (let k = FairValueGapContinuation; reasons = gate k c; direction = cx_fvg_direction c in
      if reasons \<noteq> [] then no_trade k cfg c reasons
      else if direction \<noteq> Some LONG \<and> direction \<noteq> Some SHORT
      then no_trade k cfg c [''NO_ACTIVE_FVG'']
      else case (cx_fvg_lower c, cx_fvg_upper c) of
        (Some lo, Some hi) \<Rightarrow>
          let action = the direction; trend = (if action = LONG then BULL_TREND else BEAR_TREND) in
          if rc_trend (cx_regime c) \<noteq> trend \<or> cx_higher_timeframe_trend c \<noteq> trend
          then no_trade k cfg c [''FVG_TREND_MISMATCH'']
          else if \<not> (lo \<le> cx_close c \<and> cx_close c \<le> hi)
          then no_trade k cfg c [''PRICE_OUTSIDE_FVG'']
          else
            let (stop, target) = levels cfg c action
            in signal k cfg c action (7 / 10) stop target
                 [(''fvg_lower'', FDecimal lo), (''fvg_upper'', FDecimal hi)]
                 ''Price retraced into an active FVG aligned with higher-timeframe trend''
      | _ \<Rightarrow> no_trade k cfg c [''NO_ACTIVE_FVG''])"

definition range_mean_reversion :: "strategy_config \<Rightarrow> strategy_context \<Rightarrow> strategy_signal" where
  "range_mean_reversion cfg c =
     (let k = RangeMeanReversion; reasons = gate k c in
      if reasons \<noteq> [] then no_trade k cfg c reasons
      else case cx_zscore c of
        None \<Rightarrow> no_trade k cfg c [''ZSCORE_UNAVAILABLE'']
      | Some z \<Rightarrow>
          if z > dneg (mean_reversion_zscore cfg) \<and> z < mean_reversion_zscore cfg
          then no_trade k cfg c [''MEAN_REVERSION_THRESHOLD_NOT_MET'']
          else
            let action = (if z \<le> dneg (mean_reversion_zscore cfg) then LONG else SHORT);
                (stop, _) = levels cfg c action
            in signal k cfg c action (65 / 100) stop (cx_vwap c)
                 [(''zscore'', FDecimal z), (''target_vwap'', FDecimal (cx_vwap c))]
                 ''Extreme range z-score targets reversion to VWAP'')"

definition strategy_evaluate :: "strategy_kind \<Rightarrow> strategy_config \<Rightarrow> strategy_context \<Rightarrow> strategy_signal" where
  "strategy_evaluate k cfg c = (case k of
     TrendContinuation \<Rightarrow> trend_continuation cfg c
   | LiquiditySweepReversal \<Rightarrow> liquidity_sweep_reversal cfg c
   | OpeningRangeBreakout \<Rightarrow> opening_range_breakout cfg c
   | FairValueGapContinuation \<Rightarrow> fvg_continuation cfg c
   | RangeMeanReversion \<Rightarrow> range_mean_reversion cfg c)"

section \<open>What every signal is\<close>

lemmas strategy_defs = trend_continuation_def liquidity_sweep_reversal_def opening_range_breakout_def
  fvg_continuation_def range_mean_reversion_def

text \<open>A signal is a refusal with reasons or an entry at the levels of its direction.\<close>

definition signal_shape :: "strategy_kind \<Rightarrow> strategy_config \<Rightarrow> strategy_context \<Rightarrow> strategy_signal \<Rightarrow> bool" where
  "signal_shape k cfg c s \<longleftrightarrow>
     (\<exists>rs. s = no_trade k cfg c rs \<and> rs \<noteq> [] \<and> set (gate k c) \<subseteq> set rs)
     \<or> (\<exists>action conf target factors expl.
          s = signal k cfg c action conf (fst (levels cfg c action)) target factors expl
          \<and> gate k c = [] \<and> (action = LONG \<or> action = SHORT) \<and> 0 < conf \<and> conf \<le> 1
          \<and> (target = snd (levels cfg c action) \<or> k = RangeMeanReversion \<and> target = cx_vwap c))"

lemma shape_refused: "rs \<noteq> [] \<Longrightarrow> set (gate k c) \<subseteq> set rs \<Longrightarrow> signal_shape k cfg c (no_trade k cfg c rs)"
  by (auto simp: signal_shape_def)

lemma shape_entry:
  assumes "gate k c = []" "action = LONG \<or> action = SHORT" "0 < conf" "conf \<le> 1"
    "stop = fst (levels cfg c action)"
    "target = snd (levels cfg c action) \<or> k = RangeMeanReversion \<and> target = cx_vwap c"
  shows "signal_shape k cfg c (signal k cfg c action conf stop target factors expl)"
  unfolding signal_shape_def
  by (rule disjI2, intro exI [of _ action] exI [of _ conf] exI [of _ target] exI [of _ factors] exI [of _ expl])
    (use assms in simp)

lemma shapes:
  "signal_shape TrendContinuation cfg c (trend_continuation cfg c)"
  "signal_shape LiquiditySweepReversal cfg c (liquidity_sweep_reversal cfg c)"
  "signal_shape OpeningRangeBreakout cfg c (opening_range_breakout cfg c)"
  "signal_shape FairValueGapContinuation cfg c (fvg_continuation cfg c)"
  "signal_shape RangeMeanReversion cfg c (range_mean_reversion cfg c)"
  unfolding strategy_defs Let_def split_beta
  by (auto intro!: shape_refused shape_entry split: option.splits bool.splits)

lemma strategy_evaluate_shape: "signal_shape k cfg c (strategy_evaluate k cfg c)"
  by (cases k) (simp_all add: strategy_evaluate_def shapes)

lemma make_strategy_config_Inr:
  "make_strategy_config cfg = Inr cfg' \<Longrightarrow> cfg' = cfg \<and> 0 < stop_atr_multiple cfg \<and> 0 < target_risk_multiple cfg
     \<and> 0 < maximum_risk_fraction cfg \<and> maximum_risk_fraction cfg \<le> 2 / 100 \<and> 0 < mean_reversion_zscore cfg"
  by (auto simp: make_strategy_config_def not_le split: if_splits)

lemma make_strategy_context_Inr:
  "make_strategy_context ts c = Inr c' \<Longrightarrow> 0 < cx_close c' \<and> 0 < cx_atr c' \<and> 0 < cx_vwap c'"
  by (auto simp: make_strategy_context_def not_le split: if_splits)

lemma levels_sides:
  assumes "0 \<le> cx_atr c" "0 \<le> stop_atr_multiple cfg" "0 \<le> target_risk_multiple cfg" "representable (cx_close c)"
  shows "action = LONG \<Longrightarrow> fst (levels cfg c action) \<le> cx_close c \<and> cx_close c \<le> snd (levels cfg c action)"
    "action = SHORT \<Longrightarrow> cx_close c \<le> fst (levels cfg c action) \<and> snd (levels cfg c action) \<le> cx_close c"
proof -
  have r: "0 \<le> dmul (cx_atr c) (stop_atr_multiple cfg)"
    using assms by (intro dmul_nonneg)
  then have t: "0 \<le> dmul (dmul (cx_atr c) (stop_atr_multiple cfg)) (target_risk_multiple cfg)"
    using assms by (intro dmul_nonneg)
  have "dsub (cx_close c) x \<le> cx_close c" "cx_close c \<le> dadd (cx_close c) x" if "0 \<le> x" for x
    using that assms(4) unfolding dsub_def dadd_def by (auto intro: dec.rnd_le dec.rnd_ge)
  note le = this
  show "action = LONG \<Longrightarrow> fst (levels cfg c action) \<le> cx_close c \<and> cx_close c \<le> snd (levels cfg c action)"
    "action = SHORT \<Longrightarrow> cx_close c \<le> fst (levels cfg c action) \<and> snd (levels cfg c action) \<le> cx_close c"
    using le [OF r] le [OF t] by (simp_all add: levels_def Let_def)
qed

lemma gate_Nil:
  "gate k c = [] \<longleftrightarrow> cx_session_allowed c \<and> \<not> rc_event_risk (cx_regime c)
     \<and> rc_liquidity (cx_regime c) \<noteq> LOW_LIQUIDITY
     \<and> rc_trend (cx_regime c) \<in> set (sr_supported_regimes (requirements_of k))"
  by (simp add: gate_def strategy_entries_permitted_def)

text \<open>Every strategy answers every valid context with a refusal or a gated entry.  A refusal has
  reasons, every gate that failed among them, and carries no price, no target and no risk; an entry
  presupposes an allowed session, no event risk, liquidity and a supported regime, enters at the
  close with the stop on the losing side, asks for the configured risk fraction, at most 2%, and -
  except for the mean reversion to VWAP - has its target on the winning side.\<close>

theorem strategy_signals_are_gated:
  fixes k :: strategy_kind
  assumes "make_strategy_config cfg = Inr cfg" and "make_strategy_context ts c0 = Inr c"
    and "representable (cx_close c)"
  defines "s \<equiv> strategy_evaluate k cfg c"
  shows "(ss_action s = NO_TRADE \<and> ss_rejection_reasons s \<noteq> [] \<and> set (gate k c) \<subseteq> set (ss_rejection_reasons s)
          \<and> ss_proposed_entry s = None \<and> ss_proposed_stop s = None \<and> ss_proposed_targets s = []
          \<and> ss_requested_risk_fraction s = 0)
    \<or> (\<exists>stop target. (ss_action s = LONG \<or> ss_action s = SHORT) \<and> ss_rejection_reasons s = []
          \<and> cx_session_allowed c \<and> \<not> rc_event_risk (cx_regime c) \<and> rc_liquidity (cx_regime c) \<noteq> LOW_LIQUIDITY
          \<and> rc_trend (cx_regime c) \<in> set (sr_supported_regimes (requirements_of k))
          \<and> ss_proposed_entry s = Some (cx_close c) \<and> ss_proposed_stop s = Some stop
          \<and> ss_proposed_targets s = [target]
          \<and> 0 < ss_requested_risk_fraction s \<and> ss_requested_risk_fraction s \<le> 2 / 100
          \<and> 0 < ss_confidence s \<and> ss_confidence s \<le> 1
          \<and> (if ss_action s = LONG then stop \<le> cx_close c \<and> (k \<noteq> RangeMeanReversion \<longrightarrow> cx_close c \<le> target)
             else cx_close c \<le> stop \<and> (k \<noteq> RangeMeanReversion \<longrightarrow> target \<le> cx_close c)))"
proof -
  note cfg = make_strategy_config_Inr [OF assms(1)]
  have sides: "action = LONG \<Longrightarrow> fst (levels cfg c action) \<le> cx_close c \<and> cx_close c \<le> snd (levels cfg c action)"
    "action = SHORT \<Longrightarrow> cx_close c \<le> fst (levels cfg c action) \<and> snd (levels cfg c action) \<le> cx_close c" for action
    using levels_sides [of c cfg action] cfg make_strategy_context_Inr [OF assms(2)] assms(3)
    by (auto simp: less_imp_le)
  from strategy_evaluate_shape [of k cfg c] show ?thesis
    unfolding signal_shape_def s_def [symmetric]
  proof (rule disjE)
    assume "\<exists>rs. s = no_trade k cfg c rs \<and> rs \<noteq> [] \<and> set (gate k c) \<subseteq> set rs"
    then show ?thesis by (auto simp: no_trade_def)
  next
    assume "\<exists>action conf target factors expl.
        s = signal k cfg c action conf (fst (levels cfg c action)) target factors expl
        \<and> gate k c = [] \<and> (action = LONG \<or> action = SHORT) \<and> 0 < conf \<and> conf \<le> 1
        \<and> (target = snd (levels cfg c action) \<or> k = RangeMeanReversion \<and> target = cx_vwap c)"
    then obtain action conf target factors expl where e: "s = signal k cfg c action conf (fst (levels cfg c action)) target factors expl"
      "gate k c = []" "action = LONG \<or> action = SHORT" "0 < conf" "conf \<le> 1"
      "target = snd (levels cfg c action) \<or> k = RangeMeanReversion \<and> target = cx_vwap c"
      by blast
    have a: "ss_action s = action" "ss_proposed_stop s = Some (fst (levels cfg c action))"
      "ss_proposed_targets s = [target]" "ss_proposed_entry s = Some (cx_close c)"
      "ss_requested_risk_fraction s = maximum_risk_fraction cfg" "ss_rejection_reasons s = []"
      "ss_confidence s = conf"
      using e(4,5) by (simp_all add: e(1) signal_def min_def max_def)
    show ?thesis
      by (rule disjI2, intro exI [of _ "fst (levels cfg c action)"] exI [of _ target])
        (use a e(2-6) cfg sides [of action] gate_Nil [of k c] in auto)
  qed
qed

definition sample_strategy_context :: strategy_context where
  "sample_strategy_context = \<lparr>cx_timestamp = 0, cx_instrument_id = 3, cx_data_snapshot_id = ''snap'',
     cx_close = 100, cx_atr = 2, cx_vwap = 99, cx_ema_fast = 98, cx_relative_volume = 2,
     cx_regime = classify_regime sample_features default_regime_config,
     cx_higher_timeframe_trend = BULL_TREND, cx_session_allowed = True,
     cx_liquidity_sweep_direction = None, cx_structure_direction = None, cx_opening_range_high = None,
     cx_opening_range_low = None, cx_opening_range_complete = False, cx_retest_confirmed = False,
     cx_fvg_direction = None, cx_fvg_lower = None, cx_fvg_upper = None, cx_zscore = None\<rparr>"

lemma sample_config_ok: "make_strategy_config default_strategy_config = Inr default_strategy_config"
  by (simp add: make_strategy_config_def default_strategy_config_def blank_def is_space_def of_char_def)

lemma sample_context_ok: "make_strategy_context (Aware 0) sample_strategy_context = Inr sample_strategy_context"
  by (simp add: make_strategy_context_def sample_strategy_context_def pair_ordered_def blank_def is_space_def of_char_def)

lemma sample_regime:
  "rc_trend (classify_regime sample_features default_regime_config) = BULL_TREND"
  "rc_liquidity (classify_regime sample_features default_regime_config) = NORMAL_LIQUIDITY"
  "\<not> rc_event_risk (classify_regime sample_features default_regime_config)"
  by (simp_all add: classify_regime_def classify_trend_def classify_liquidity_def sample_features_def
      default_regime_config_def split_beta Let_def)

lemma sample_trend_signal:
  "strategy_evaluate TrendContinuation default_strategy_config sample_strategy_context
     = signal TrendContinuation default_strategy_config sample_strategy_context LONG (75 / 100) 98 104
         [(''relative_volume'', FDecimal 2), (''higher_timeframe_aligned'', FBool True)]
         ''Higher-timeframe trend, EMA, VWAP, and volume are aligned''"
proof -
  have "gate TrendContinuation sample_strategy_context = []"
    by (simp add: gate_Nil sample_strategy_context_def sample_regime requirements_of_def)
  moreover have "levels default_strategy_config sample_strategy_context LONG = (98, 104)"
    by (simp add: levels_def default_strategy_config_def sample_strategy_context_def dec_eval)
  ultimately show ?thesis
    by (simp add: strategy_evaluate_def trend_continuation_def sample_regime)
      (simp add: sample_strategy_context_def sample_regime default_strategy_config_def)
qed

theorem strategy_signals_are_gated_witness:
  "ss_requested_risk_fraction (strategy_evaluate TrendContinuation default_strategy_config sample_strategy_context)
     \<le> 2 / 100
   \<and> ss_proposed_entry (strategy_evaluate TrendContinuation default_strategy_config sample_strategy_context) = Some 100"
proof -
  have "representable (cx_close sample_strategy_context)"
    using representable_of_int [of 100] by (simp add: sample_strategy_context_def)
  from strategy_signals_are_gated [OF sample_config_ok sample_context_ok this, of TrendContinuation]
  show ?thesis
    unfolding sample_trend_signal by (auto simp: signal_def sample_strategy_context_def)
qed

end
