(* ===== verification/Decision_Engine.thy ===== *)
theory Decision_Engine
  imports Strategies
begin

text \<open>
  The decision engine of \<open>packages/decision_engine/engine.py\<close>: the weighted confidence over the
  scores that are present, the risk/reward of a proposal, and \<open>decide\<close> with its gates.  The fresh
  identifier of a decision is an argument.
\<close>

record decision_config =
  technical_weight :: decimal
  smc_weight :: decimal
  regime_weight :: decimal
  volume_weight :: decimal
  options_weight :: decimal
  ml_weight :: decimal
  data_quality_weight :: decimal
  risk_context_weight :: decimal
  minimum_confidence :: decimal
  minimum_data_quality :: decimal
  minimum_risk_reward :: decimal
  decision_version :: string

definition default_decision_config :: decision_config where
  "default_decision_config =
     \<lparr>technical_weight = 20 / 100, smc_weight = 20 / 100, regime_weight = 15 / 100,
      volume_weight = 10 / 100, options_weight = 5 / 100, ml_weight = 5 / 100,
      data_quality_weight = 15 / 100, risk_context_weight = 10 / 100, minimum_confidence = 65 / 100,
      minimum_data_quality = 80 / 100, minimum_risk_reward = 15 / 10,
      decision_version = ''decision-rules-v1''\<rparr>"

definition decision_weights :: "decision_config \<Rightarrow> (string \<times> decimal) list" where
  "decision_weights c =
     [(''technical'', technical_weight c), (''smc_ict'', smc_weight c), (''regime'', regime_weight c),
      (''volume'', volume_weight c), (''options'', options_weight c), (''ml'', ml_weight c),
      (''data_quality'', data_quality_weight c), (''risk_context'', risk_context_weight c)]"

definition make_decision_config :: "decision_config \<Rightarrow> decision_config result" where
  "make_decision_config c =
     (let ws = map snd (decision_weights c) in
      if list_ex (\<lambda>w. w < 0) ws then Inl (ValueError ''decision weights cannot be negative'')
      else if dsum ws \<noteq> 1 then Inl (ValueError ''decision weights must sum exactly to 1'')
      else if \<not> (0 \<le> minimum_confidence c \<and> minimum_confidence c \<le> 1)
      then Inl (ValueError ''minimum confidence must be between 0 and 1'')
      else if \<not> (0 \<le> minimum_data_quality c \<and> minimum_data_quality c \<le> 1)
      then Inl (ValueError ''minimum data quality must be between 0 and 1'')
      else if minimum_risk_reward c \<le> 0
      then Inl (ValueError ''minimum risk/reward must be positive'')
      else if blank (decision_version c) then Inl (ValueError ''decision version cannot be empty'')
      else Inr c)"

record decision_inputs =
  strategy_signal_in :: strategy_signal
  technical_score :: decimal
  smc_ict_score :: decimal
  regime_compatibility :: decimal
  volume_score :: decimal
  options_score :: decimal
  data_quality_score :: decimal
  risk_context_score :: decimal
  ml_probability :: "decimal option"

definition in_unit :: "decimal \<Rightarrow> bool" where
  "in_unit x \<longleftrightarrow> 0 \<le> x \<and> x \<le> 1"

definition make_decision_inputs :: "decision_inputs \<Rightarrow> decision_inputs result" where
  "make_decision_inputs i =
     (if list_ex (\<lambda>s. \<not> in_unit s)
           [technical_score i, smc_ict_score i, regime_compatibility i, volume_score i,
            options_score i, data_quality_score i, risk_context_score i]
      then Inl (ValueError ''decision scores must be between 0 and 1'')
      else if (case ml_probability i of None \<Rightarrow> False | Some p \<Rightarrow> \<not> in_unit p)
      then Inl (ValueError ''ML probability must be between 0 and 1'')
      else Inr i)"

record decision_result =
  dr_id :: uuid
  dr_timestamp :: instant
  dr_instrument_id :: uuid
  dr_strategy :: string
  dr_strategy_version :: string
  dr_decision_version :: string
  dr_action :: signal_action
  dr_confidence :: decimal
  dr_contributing_factors :: "(string \<times> factor) list"
  dr_rejection_reasons :: "string list"
  dr_proposed_entry :: "decimal option"
  dr_proposed_stop :: "decimal option"
  dr_proposed_targets :: "decimal list"
  dr_expected_risk_reward :: "decimal option"
  dr_requested_risk_fraction :: decimal
  dr_data_snapshot_id :: string
  dr_requires_risk_approval :: bool
  dr_explanation :: string

section \<open>Risk/reward and confidence\<close>

definition risk_reward :: "strategy_signal \<Rightarrow> decimal option" where
  "risk_reward s =
     (case (ss_proposed_entry s, ss_proposed_stop s, ss_proposed_targets s) of
        (Some entry, Some stop, target # _) \<Rightarrow>
          if ss_action s \<noteq> LONG \<and> ss_action s \<noteq> SHORT then None
          else
            let (risk, reward) = (if ss_action s = LONG then (dsub entry stop, dsub target entry)
                                  else (dsub stop entry, dsub entry target))
            in if risk \<le> 0 \<or> reward \<le> 0 then None else Some (dquot reward risk)
      | _ \<Rightarrow> None)"

definition decision_scores :: "decision_inputs \<Rightarrow> (string \<times> decimal) list" where
  "decision_scores i =
     [(''technical'', technical_score i), (''smc_ict'', smc_ict_score i),
      (''regime'', regime_compatibility i), (''volume'', volume_score i),
      (''options'', options_score i), (''data_quality'', data_quality_score i),
      (''risk_context'', risk_context_score i)]
     @ (case ml_probability i of None \<Rightarrow> [] | Some p \<Rightarrow> [(''ml'', p)])"

definition weight_of :: "decision_config \<Rightarrow> string \<Rightarrow> decimal" where
  "weight_of c name = the (map_of (decision_weights c) name)"

definition weighted_confidence :: "decision_inputs \<Rightarrow> decision_config \<Rightarrow> decimal \<times> (string \<times> decimal) list" where
  "weighted_confidence i c =
     (let scores = decision_scores i;
          active = dsum (map (\<lambda>(name, _). weight_of c name) scores)
      in if active = 0 then (0, scores)
         else (dquot (dsum (map (\<lambda>(name, s). dmul s (weight_of c name)) scores)) active, scores))"

section \<open>The decision\<close>

definition decision_reasons :: "decision_inputs \<Rightarrow> decision_config \<Rightarrow> decimal \<Rightarrow> decimal option \<Rightarrow> string list" where
  "decision_reasons i c confidence rr =
     (let s = strategy_signal_in i in
      ss_rejection_reasons s
      @ (if ss_action s = NO_TRADE then [''STRATEGY_NO_TRADE'']
         else if ss_action s = LONG \<or> ss_action s = SHORT
         then (if data_quality_score i < minimum_data_quality c then [''DATA_QUALITY_BELOW_THRESHOLD''] else [])
              @ (if confidence < minimum_confidence c then [''CONFIDENCE_BELOW_THRESHOLD''] else [])
              @ (case rr of
                   None \<Rightarrow> [''INVALID_PRICE_GEOMETRY'']
                 | Some x \<Rightarrow> if x < minimum_risk_reward c then [''RISK_REWARD_BELOW_THRESHOLD''] else [])
         else []))"

definition decide :: "uuid \<Rightarrow> decision_inputs \<Rightarrow> decision_config \<Rightarrow> decision_result" where
  "decide fresh i c =
     (let s = strategy_signal_in i;
          (confidence, scores) = weighted_confidence i c;
          rr = risk_reward s;
          reasons = decision_reasons i c confidence rr;
          action = (if (ss_action s = LONG \<or> ss_action s = SHORT) \<and> reasons \<noteq> [] then NO_TRADE
                    else ss_action s);
          enters = (action = LONG \<or> action = SHORT)
      in \<lparr>dr_id = fresh, dr_timestamp = ss_timestamp s, dr_instrument_id = ss_instrument_id s,
          dr_strategy = ss_strategy s, dr_strategy_version = ss_strategy_version s,
          dr_decision_version = decision_version c, dr_action = action, dr_confidence = confidence,
          dr_contributing_factors =
            map (\<lambda>(name, v). (name, FDecimal v)) scores
            @ [(''strategy_action'', FString (signal_action_value (ss_action s))),
               (''strategy_confidence'', FDecimal (ss_confidence s))],
          dr_rejection_reasons = dedup_keys reasons,
          dr_proposed_entry = (if enters then ss_proposed_entry s else None),
          dr_proposed_stop = (if enters then ss_proposed_stop s else None),
          dr_proposed_targets = (if enters then ss_proposed_targets s else []),
          dr_expected_risk_reward = (if enters then rr else None),
          dr_requested_risk_fraction = (if enters then ss_requested_risk_fraction s else 0),
          dr_data_snapshot_id = ss_data_snapshot_id s, dr_requires_risk_approval = enters,
          dr_explanation =
            (if enters then ''Decision passed deterministic gates and requires independent risk approval''
             else ''Decision is '' @ signal_action_value action @ '': ''
                  @ (let joined = join '', '' (dedup_keys reasons)
                     in if joined = [] then ss_explanation s else joined))\<rparr>)"

section \<open>Bounds of the confidence\<close>

lemma weighted_sum_le:
  assumes "\<forall>(n, s) \<in> set xs. 0 \<le> s \<and> s \<le> 1 \<and> 0 \<le> w n \<and> representable (w n)" "0 \<le> a" "a \<le> b"
  shows "foldl dadd a (map (\<lambda>(n, s). dmul s (w n)) xs) \<le> foldl dadd b (map (\<lambda>(n, _). w n) xs)
    \<and> 0 \<le> foldl dadd a (map (\<lambda>(n, s). dmul s (w n)) xs)"
  using assms
proof (induction xs arbitrary: a b)
  case (Cons x xs)
  obtain n s where x: "x = (n, s)" by (cases x)
  have "dmul s (w n) \<le> w n" "0 \<le> dmul s (w n)"
    using Cons.prems(1) x unfolding dmul_def
    by (auto intro!: dec.rnd_le dec.rnd_nonneg simp: mult_left_le_one_le)
  then have "dadd a (dmul s (w n)) \<le> dadd b (w n)" "0 \<le> dadd a (dmul s (w n))"
    using Cons.prems(2,3) unfolding dadd_def by (auto intro!: dround_mono dec.rnd_nonneg)
  with Cons.IH [of "dadd a (dmul s (w n))" "dadd b (w n)"] Cons.prems(1) x
  show ?case by auto
qed simp_all

lemma decision_scores_names: "(n, s) \<in> set (decision_scores i) \<Longrightarrow> n \<in> fst ` set (decision_weights c)"
  by (auto simp: decision_scores_def decision_weights_def split: option.splits)

lemma decision_scores_unit:
  "make_decision_inputs i = Inr i \<Longrightarrow> (n, s) \<in> set (decision_scores i) \<Longrightarrow> in_unit s"
  by (auto simp: make_decision_inputs_def decision_scores_def split: if_splits option.splits)

lemma weight_of_mem: "n \<in> fst ` set (decision_weights c) \<Longrightarrow> weight_of c n \<in> snd ` set (decision_weights c)"
  by (auto simp: weight_of_def decision_weights_def)

lemma weighted_confidence_unit:
  assumes "make_decision_config c = Inr c" "make_decision_inputs i = Inr i"
    "\<forall>w \<in> snd ` set (decision_weights c). representable w"
  shows "in_unit (fst (weighted_confidence i c))"
proof -
  let ?xs = "decision_scores i"
  have nn: "\<forall>w \<in> snd ` set (decision_weights c). 0 \<le> w"
    using assms(1) by (simp add: make_decision_config_def Let_def list_ex_iff not_less split: if_splits)
  have w: "\<forall>(n, s) \<in> set ?xs. 0 \<le> s \<and> s \<le> 1 \<and> 0 \<le> weight_of c n \<and> representable (weight_of c n)"
  proof (clarify)
    fix n s assume m: "(n, s) \<in> set ?xs"
    have "weight_of c n \<in> snd ` set (decision_weights c)"
      by (rule weight_of_mem [OF decision_scores_names [OF m]])
    then have "0 \<le> weight_of c n" "representable (weight_of c n)" using nn assms(3) by blast+
    with decision_scores_unit [OF assms(2) m]
    show "0 \<le> s \<and> s \<le> 1 \<and> 0 \<le> weight_of c n \<and> representable (weight_of c n)"
      by (simp add: in_unit_def)
  qed
  let ?num = "dsum (map (\<lambda>(n, s). dmul s (weight_of c n)) ?xs)" and ?den = "dsum (map (\<lambda>(n, _). weight_of c n) ?xs)"
  have le: "?num \<le> ?den" and nonneg: "0 \<le> ?num"
    using weighted_sum_le [OF w, of 0 0] by (simp_all add: dsum_def)
  show ?thesis
  proof (cases "?den = 0")
    case False
    with le nonneg have "0 < ?den" by linarith
    with le nonneg dquot_nonneg [of ?num ?den] dquot_le_one [of ?num ?den] show ?thesis
      by (simp add: weighted_confidence_def Let_def in_unit_def)
  qed (simp add: weighted_confidence_def Let_def in_unit_def)
qed

text \<open>The combined confidence is a convex combination of the scores in [0, 1]: with weights and
  scores accepted by their constructors it is in [0, 1], whether or not the optional probability
  of the learned model is present, and with all weights on absent scores it is 0.\<close>

theorem decision_confidence_in_unit:
  assumes "make_decision_config c = Inr c" and "make_decision_inputs i = Inr i"
    and "\<forall>w \<in> snd ` set (decision_weights c). representable w"
  shows "0 \<le> dr_confidence (decide fresh i c) \<and> dr_confidence (decide fresh i c) \<le> 1
    \<and> (dsum (map (\<lambda>(n, _). weight_of c n) (decision_scores i)) = 0 \<longrightarrow> dr_confidence (decide fresh i c) = 0)"
proof -
  have "dr_confidence (decide fresh i c) = fst (weighted_confidence i c)"
    by (simp add: decide_def Let_def split_beta)
  moreover have "dsum (map (\<lambda>(n, _). weight_of c n) (decision_scores i)) = 0
      \<longrightarrow> fst (weighted_confidence i c) = 0"
    by (simp add: weighted_confidence_def Let_def)
  ultimately show ?thesis
    using weighted_confidence_unit [OF assms] by (simp add: in_unit_def)
qed

definition sample_inputs :: decision_inputs where
  "sample_inputs = \<lparr>strategy_signal_in =
       strategy_evaluate TrendContinuation default_strategy_config sample_strategy_context,
     technical_score = 9 / 10, smc_ict_score = 8 / 10, regime_compatibility = 1, volume_score = 7 / 10,
     options_score = 5 / 10, data_quality_score = 95 / 100, risk_context_score = 9 / 10,
     ml_probability = None\<rparr>"

lemma default_decision_config_ok: "make_decision_config default_decision_config = Inr default_decision_config"
  by (simp add: make_decision_config_def default_decision_config_def decision_weights_def dsum_def
      dec_eval blank_def is_space_def of_char_def)

lemma sample_inputs_ok: "make_decision_inputs sample_inputs = Inr sample_inputs"
  by (simp add: make_decision_inputs_def sample_inputs_def in_unit_def)

lemma default_weights_representable: "\<forall>w \<in> snd ` set (decision_weights default_decision_config). representable w"
  by (simp add: decision_weights_def default_decision_config_def representable_fixed)

theorem decision_confidence_in_unit_witness:
  "dr_confidence (decide 1 sample_inputs default_decision_config) \<le> 1"
  using decision_confidence_in_unit [OF default_decision_config_ok sample_inputs_ok default_weights_representable]
  by blast

section \<open>The gates\<close>

lemma decide_fields:
  "dr_action (decide fresh i c) =
     (if (ss_action (strategy_signal_in i) = LONG \<or> ss_action (strategy_signal_in i) = SHORT)
         \<and> decision_reasons i c (fst (weighted_confidence i c)) (risk_reward (strategy_signal_in i)) \<noteq> []
      then NO_TRADE else ss_action (strategy_signal_in i))"
  "dr_rejection_reasons (decide fresh i c) =
     dedup_keys (decision_reasons i c (fst (weighted_confidence i c)) (risk_reward (strategy_signal_in i)))"
  "dr_confidence (decide fresh i c) = fst (weighted_confidence i c)"
  by (simp_all add: decide_def Let_def split_beta)

lemma risk_reward_geometry:
  assumes "risk_reward s = Some rr"
  obtains entry stop target rest where "ss_proposed_entry s = Some entry" "ss_proposed_stop s = Some stop"
    "ss_proposed_targets s = target # rest"
    "ss_action s = LONG \<and> stop < entry \<and> entry < target \<or> ss_action s = SHORT \<and> target < entry \<and> entry < stop"
proof -
  have pos: "0 < dsub a b \<longleftrightarrow> b < a" for a b
    by (simp add: dsub_def)
  show ?thesis
    using assms that unfolding risk_reward_def Let_def
    by (auto simp: not_le pos split: option.splits list.splits if_splits)
qed

lemma decide_entry_clear:
  assumes "dr_action (decide fresh i c) = LONG \<or> dr_action (decide fresh i c) = SHORT"
  shows "decision_reasons i c (fst (weighted_confidence i c)) (risk_reward (strategy_signal_in i)) = []"
    "ss_action (strategy_signal_in i) = dr_action (decide fresh i c)"
  using assms by (auto simp: decide_fields split: if_splits)

text \<open>C34: A decision to enter has passed every gate: the strategy gave no reason against it, the data
  quality, the combined confidence and the risk/reward reach their minima, entry, stop and first
  target are strictly ordered for the direction, and it asks for an independent risk approval.  Any
  other decision proposes no price, no target and no risk and needs no approval, and a refused
  entry lists its reasons once each.\<close>

theorem decision_entries_pass_all_gates:
  "(if dr_action (decide fresh i c) = LONG \<or> dr_action (decide fresh i c) = SHORT
    then ss_rejection_reasons (strategy_signal_in i) = [] \<and> dr_rejection_reasons (decide fresh i c) = []
      \<and> minimum_data_quality c \<le> data_quality_score i
      \<and> minimum_confidence c \<le> dr_confidence (decide fresh i c)
      \<and> (\<exists>rr entry stop target rest. dr_expected_risk_reward (decide fresh i c) = Some rr
           \<and> minimum_risk_reward c \<le> rr
           \<and> dr_proposed_entry (decide fresh i c) = Some entry \<and> dr_proposed_stop (decide fresh i c) = Some stop
           \<and> dr_proposed_targets (decide fresh i c) = target # rest
           \<and> (if dr_action (decide fresh i c) = LONG then stop < entry \<and> entry < target
              else target < entry \<and> entry < stop))
      \<and> dr_requires_risk_approval (decide fresh i c)
    else dr_proposed_entry (decide fresh i c) = None \<and> dr_proposed_stop (decide fresh i c) = None
      \<and> dr_proposed_targets (decide fresh i c) = [] \<and> dr_expected_risk_reward (decide fresh i c) = None
      \<and> dr_requested_risk_fraction (decide fresh i c) = 0 \<and> \<not> dr_requires_risk_approval (decide fresh i c)
      \<and> distinct (dr_rejection_reasons (decide fresh i c))
      \<and> (dr_action (decide fresh i c) = NO_TRADE) = (dr_rejection_reasons (decide fresh i c) \<noteq> []
           \<and> ss_action (strategy_signal_in i) \<notin> {EXIT, HOLD}))"
proof (cases "dr_action (decide fresh i c) = LONG \<or> dr_action (decide fresh i c) = SHORT")
  case True
  let ?s = "strategy_signal_in i"
  note clear = decide_entry_clear [OF True]
  have act: "ss_action ?s = LONG \<or> ss_action ?s = SHORT" using clear(2) True by simp
  obtain rr where rr: "risk_reward ?s = Some rr" "minimum_risk_reward c \<le> rr"
    and g: "minimum_data_quality c \<le> data_quality_score i"
      "minimum_confidence c \<le> fst (weighted_confidence i c)" "ss_rejection_reasons ?s = []"
    using clear(1) act by (auto simp: decision_reasons_def Let_def split: if_splits option.splits)
  from rr(1) obtain entry stop target rest where geo: "ss_proposed_entry ?s = Some entry"
    "ss_proposed_stop ?s = Some stop" "ss_proposed_targets ?s = target # rest"
    "ss_action ?s = LONG \<and> stop < entry \<and> entry < target \<or> ss_action ?s = SHORT \<and> target < entry \<and> entry < stop"
    by (rule risk_reward_geometry)
  have out: "dr_expected_risk_reward (decide fresh i c) = Some rr"
    "dr_proposed_entry (decide fresh i c) = Some entry" "dr_proposed_stop (decide fresh i c) = Some stop"
    "dr_proposed_targets (decide fresh i c) = target # rest" "dr_requires_risk_approval (decide fresh i c)"
    "dr_rejection_reasons (decide fresh i c) = []"
    using clear(1) act rr(1) geo(1-3) by (auto simp: decide_def Let_def split_beta)
  have "dr_action (decide fresh i c) = ss_action ?s" using clear(2) by simp
  with True out rr(2) g geo(4) show ?thesis by (auto simp: decide_fields(3))
next
  case False
  then have "\<not> (if (ss_action (strategy_signal_in i) = LONG \<or> ss_action (strategy_signal_in i) = SHORT)
      \<and> decision_reasons i c (fst (weighted_confidence i c)) (risk_reward (strategy_signal_in i)) \<noteq> []
      then NO_TRADE else ss_action (strategy_signal_in i)) \<in> {LONG, SHORT}"
    by (auto simp: decide_fields)
  then have out: "dr_proposed_entry (decide fresh i c) = None \<and> dr_proposed_stop (decide fresh i c) = None
      \<and> dr_proposed_targets (decide fresh i c) = [] \<and> dr_expected_risk_reward (decide fresh i c) = None
      \<and> dr_requested_risk_fraction (decide fresh i c) = 0 \<and> \<not> dr_requires_risk_approval (decide fresh i c)"
    by (auto simp: decide_def Let_def split_beta)
  have "(dr_action (decide fresh i c) = NO_TRADE) = (dr_rejection_reasons (decide fresh i c) \<noteq> []
      \<and> ss_action (strategy_signal_in i) \<notin> {EXIT, HOLD})"
    using False by (cases "ss_action (strategy_signal_in i)")
      (auto simp: decide_fields decision_reasons_def Let_def)
  with False out show ?thesis by (simp add: decide_fields(2))
qed

end
