(* ===== verification/Backtest_Engine.thy ===== *)
theory Backtest_Engine
  imports Costs Decision_Engine
begin

text \<open>
  The event-driven backtester of \<open>packages/backtesting/engine.py\<close>: configuration, the fixed-fraction
  sizing policy, slippage, intrabar exits, the loop over closed candles with its queued decision,
  and the metrics.  The decision provider, the risk policy and the cost model are parameters that
  may raise; the Sharpe ratio is computed in binary floating point by the source and is a parameter
  of the metrics.
\<close>

datatype exit_reason = STOP | TARGET | SIGNAL | END_OF_DATA

record backtest_config =
  bt_initial_capital :: decimal
  bt_slippage_bps :: decimal
  bt_variable_cost_bps :: decimal
  bt_flat_cost_per_order :: decimal
  bt_maximum_position_notional_fraction :: decimal
  bt_annualization_sessions :: int

definition default_backtest_config :: backtest_config where
  "default_backtest_config =
     \<lparr>bt_initial_capital = 1000000, bt_slippage_bps = 2, bt_variable_cost_bps = 3,
      bt_flat_cost_per_order = 20, bt_maximum_position_notional_fraction = 1,
      bt_annualization_sessions = 252\<rparr>"

definition make_backtest_config :: "backtest_config \<Rightarrow> backtest_config result" where
  "make_backtest_config c =
     (if bt_initial_capital c \<le> 0 then Inl (ValueError ''initial capital must be positive'')
      else if list_ex (\<lambda>v. v < 0) [bt_slippage_bps c, bt_variable_cost_bps c, bt_flat_cost_per_order c]
      then Inl (ValueError ''cost and slippage inputs cannot be negative'')
      else if \<not> (0 < bt_maximum_position_notional_fraction c \<and> bt_maximum_position_notional_fraction c \<le> 1)
      then Inl (ValueError ''maximum notional fraction must be in (0, 1]'')
      else if bt_annualization_sessions c \<le> 0
      then Inl (ValueError ''annualization sessions must be positive'')
      else Inr c)"

section \<open>Sizing\<close>

record backtest_risk_decision =
  br_approved :: bool
  br_quantity :: decimal
  br_reason :: string

definition br_reject :: "string \<Rightarrow> backtest_risk_decision" where
  "br_reject reason = \<lparr>br_approved = False, br_quantity = 0, br_reason = reason\<rparr>"

record fixed_fraction_policy =
  ff_maximum_risk_fraction :: decimal
  ff_maximum_notional_fraction :: decimal

text \<open>\<open>FixedFractionRiskPolicy.evaluate\<close>; the division by the fill price raises when that price is 0.\<close>

definition fixed_fraction_evaluate ::
  "fixed_fraction_policy \<Rightarrow> decision_result \<Rightarrow> decimal \<Rightarrow> decimal \<Rightarrow> backtest_risk_decision result" where
  "fixed_fraction_evaluate p d eq fill =
     (if \<not> dr_requires_risk_approval d then Inr (br_reject ''DECISION_NOT_ENTRY'')
      else case dr_proposed_stop d of
        None \<Rightarrow> Inr (br_reject ''INVALID_RISK_REQUEST'')
      | Some stop \<Rightarrow>
          if dr_requested_risk_fraction d \<le> 0 then Inr (br_reject ''INVALID_RISK_REQUEST'')
          else if (dr_action d = LONG \<and> stop \<ge> fill) \<or> (dr_action d = SHORT \<and> stop \<le> fill)
          then Inr (br_reject ''STOP_INVALID_AT_FILL'')
          else if (case dr_proposed_targets d of [] \<Rightarrow> True
                   | target # _ \<Rightarrow> (dr_action d = LONG \<and> target \<le> fill) \<or> (dr_action d = SHORT \<and> target \<ge> fill))
          then Inr (br_reject ''TARGET_INVALID_AT_FILL'')
          else
            let stop_distance = dabs (dsub fill stop) in
            if stop_distance \<le> 0 then Inr (br_reject ''INVALID_STOP_DISTANCE'')
            else
              let risk_fraction = min (dr_requested_risk_fraction d) (ff_maximum_risk_fraction p);
                  risk_quantity = dquot (dmul eq risk_fraction) stop_distance
              in rbind (ddiv (dmul eq (ff_maximum_notional_fraction p)) fill) (\<lambda>notional_quantity.
                   let quantity = dfloor (min risk_quantity notional_quantity) in
                   if quantity \<le> 0 then Inr (br_reject ''QUANTITY_BELOW_ONE'')
                   else Inr \<lparr>br_approved = True, br_quantity = quantity, br_reason = ''APPROVED''\<rparr>))"

section \<open>Trades\<close>

record backtest_trade =
  tr_direction :: signal_action
  tr_quantity :: decimal
  tr_signal_at :: instant
  tr_entered_at :: instant
  tr_exited_at :: instant
  tr_entry_price :: decimal
  tr_exit_price :: decimal
  tr_stop :: decimal
  tr_target :: decimal
  tr_gross_pnl :: decimal
  tr_costs :: decimal
  tr_net_pnl :: decimal
  tr_exit_reason :: exit_reason
  tr_strategy :: string
  tr_data_snapshot_id :: string

record bt_position =
  bp_decision :: decision_result
  bp_direction :: signal_action
  bp_quantity :: decimal
  bp_signal_at :: instant
  bp_entered_at :: instant
  bp_entry_price :: decimal
  bp_stop :: decimal
  bp_target :: decimal
  bp_entry_cost :: decimal

definition slipped :: "decimal \<Rightarrow> signal_action \<Rightarrow> decimal \<Rightarrow> decimal" where
  "slipped price action bps =
     dmul price (dadd 1 (if action = LONG then dquot bps 10000 else dquot (dneg bps) 10000))"

definition direction_sign :: "signal_action \<Rightarrow> decimal" where
  "direction_sign a = (if a = LONG then 1 else - 1)"

definition close_position ::
  "(decimal \<Rightarrow> side \<Rightarrow> decimal result) \<Rightarrow> backtest_config \<Rightarrow> bt_position \<Rightarrow> instant \<Rightarrow> decimal \<Rightarrow> exit_reason
   \<Rightarrow> backtest_trade result" where
  "close_position calc cfg p t raw reason =
     (let exit_action = (if bp_direction p = LONG then SHORT else LONG);
          exit_price = slipped raw exit_action (bt_slippage_bps cfg);
          gross = dmul (dmul (dsub exit_price (bp_entry_price p)) (bp_quantity p)) (direction_sign (bp_direction p));
          exit_side = (if bp_direction p = LONG then SELL else BUY)
      in rbind (calc (dmul exit_price (bp_quantity p)) exit_side) (\<lambda>exit_cost.
           let costs = dadd (bp_entry_cost p) exit_cost in
           Inr \<lparr>tr_direction = bp_direction p, tr_quantity = bp_quantity p, tr_signal_at = bp_signal_at p,
                tr_entered_at = bp_entered_at p, tr_exited_at = t, tr_entry_price = bp_entry_price p,
                tr_exit_price = exit_price, tr_stop = bp_stop p, tr_target = bp_target p,
                tr_gross_pnl = gross, tr_costs = costs, tr_net_pnl = dsub gross costs,
                tr_exit_reason = reason, tr_strategy = dr_strategy (bp_decision p),
                tr_data_snapshot_id = dr_data_snapshot_id (bp_decision p)\<rparr>))"

definition intrabar_exit :: "bt_position \<Rightarrow> candle \<Rightarrow> (decimal \<times> exit_reason) option" where
  "intrabar_exit p c =
     (if bp_direction p = LONG
      then (if candle_low c \<le> bp_stop p then Some (min (candle_open c) (bp_stop p), exit_reason.STOP)
            else if candle_high c \<ge> bp_target p then Some (max (candle_open c) (bp_target p), TARGET)
            else None)
      else (if candle_high c \<ge> bp_stop p then Some (max (candle_open c) (bp_stop p), exit_reason.STOP)
            else if candle_low c \<le> bp_target p then Some (min (candle_open c) (bp_target p), TARGET)
            else None))"

section \<open>The loop\<close>

record bt_state =
  st_equity :: decimal
  st_peak :: decimal
  st_position :: "bt_position option"
  st_pending :: "decision_result option"
  st_trades :: "backtest_trade list"
  st_rejected :: "(instant \<times> string) list"
  st_equity_curve :: "(instant \<times> decimal) list"
  st_drawdown_curve :: "(instant \<times> decimal) list"

definition bt_start :: "backtest_config \<Rightarrow> bt_state" where
  "bt_start cfg = \<lparr>st_equity = bt_initial_capital cfg, st_peak = bt_initial_capital cfg, st_position = None,
     st_pending = None, st_trades = [], st_rejected = [], st_equity_curve = [], st_drawdown_curve = []\<rparr>"

text \<open>A position is closed: the trade is recorded and its result realised.\<close>

definition realize :: "bt_state \<Rightarrow> backtest_trade \<Rightarrow> bt_state" where
  "realize s tr = s\<lparr>st_trades := st_trades s @ [tr], st_equity := dadd (st_equity s) (tr_net_pnl tr),
     st_position := None\<rparr>"

text \<open>The queued decision meets the open of the next candle.\<close>

definition execute_pending ::
  "(decimal \<Rightarrow> side \<Rightarrow> decimal result) \<Rightarrow> (decision_result \<Rightarrow> decimal \<Rightarrow> decimal \<Rightarrow> backtest_risk_decision result)
   \<Rightarrow> backtest_config \<Rightarrow> candle \<Rightarrow> bt_state \<Rightarrow> bt_state result" where
  "execute_pending calc policy cfg c s =
     (case st_pending s of
        None \<Rightarrow> Inr s
      | Some d \<Rightarrow>
          rbind
            (case st_position s of
               Some p \<Rightarrow>
                 if dr_action d = EXIT
                 then rbind (close_position calc cfg p (candle_timestamp c) (candle_open c) SIGNAL) (\<lambda>tr. Inr (realize s tr))
                 else Inr s
             | None \<Rightarrow>
                 if dr_action d = LONG \<or> dr_action d = SHORT
                 then
                   let fill = slipped (candle_open c) (dr_action d) (bt_slippage_bps cfg) in
                   rbind (policy d (st_equity s) fill) (\<lambda>r.
                     case (br_approved r, dr_proposed_stop d, dr_proposed_targets d) of
                       (True, Some stop, target # _) \<Rightarrow>
                         rbind (calc (dmul fill (br_quantity r)) (if dr_action d = LONG then BUY else SELL)) (\<lambda>entry_cost.
                           Inr (s\<lparr>st_position := Some
                             \<lparr>bp_decision = d, bp_direction = dr_action d, bp_quantity = br_quantity r,
                              bp_signal_at = dr_timestamp d, bp_entered_at = candle_timestamp c,
                              bp_entry_price = fill, bp_stop = stop, bp_target = target,
                              bp_entry_cost = entry_cost\<rparr>\<rparr>))
                     | _ \<Rightarrow> Inr (s\<lparr>st_rejected := st_rejected s @ [(candle_timestamp c, br_reason r)]\<rparr>))
                 else Inr s)
            (\<lambda>s'. Inr (s'\<lparr>st_pending := None\<rparr>)))"

definition exit_inside_bar ::
  "(decimal \<Rightarrow> side \<Rightarrow> decimal result) \<Rightarrow> backtest_config \<Rightarrow> candle \<Rightarrow> bt_state \<Rightarrow> bt_state result" where
  "exit_inside_bar calc cfg c s =
     (case st_position s of
        None \<Rightarrow> Inr s
      | Some p \<Rightarrow>
          (case intrabar_exit p c of
             None \<Rightarrow> Inr s
           | Some (raw, reason) \<Rightarrow>
               rbind (close_position calc cfg p (candle_timestamp c) raw reason) (\<lambda>tr. Inr (realize s tr))))"

definition queue_decision :: "decision_result \<Rightarrow> bt_state \<Rightarrow> bt_state" where
  "queue_decision d s =
     (if (st_position s \<noteq> None \<and> dr_action d = EXIT)
         \<or> (st_position s = None \<and> (dr_action d = LONG \<or> dr_action d = SHORT))
      then s\<lparr>st_pending := Some d\<rparr> else s)"

definition unrealized_of :: "candle \<Rightarrow> bt_position option \<Rightarrow> decimal" where
  "unrealized_of c po =
     (case po of
        None \<Rightarrow> 0
      | Some p \<Rightarrow> dsub (dmul (dmul (dsub (candle_close c) (bp_entry_price p)) (bp_quantity p))
                       (direction_sign (bp_direction p))) (bp_entry_cost p))"

definition bt_drawdown :: "decimal \<Rightarrow> decimal \<Rightarrow> decimal" where
  "bt_drawdown peak eq = (if peak \<noteq> 0 then dquot (dsub peak eq) peak else 0)"

definition mark_bar :: "candle \<Rightarrow> bt_state \<Rightarrow> bt_state" where
  "mark_bar c s =
     (let marked = dadd (st_equity s) (unrealized_of c (st_position s)); peak = max (st_peak s) marked
      in s\<lparr>st_peak := peak,
           st_equity_curve := st_equity_curve s @ [(candle_timestamp c, marked)],
           st_drawdown_curve := st_drawdown_curve s @ [(candle_timestamp c, bt_drawdown peak marked)]\<rparr>)"

type_synonym decision_provider = "candle list \<Rightarrow> decision_result result"

definition bt_step ::
  "(decimal \<Rightarrow> side \<Rightarrow> decimal result) \<Rightarrow> (decision_result \<Rightarrow> decimal \<Rightarrow> decimal \<Rightarrow> backtest_risk_decision result)
   \<Rightarrow> backtest_config \<Rightarrow> decision_provider \<Rightarrow> candle list \<Rightarrow> candle \<Rightarrow> bt_state \<Rightarrow> bt_state result" where
  "bt_step calc policy cfg provider before c s =
     rbind (execute_pending calc policy cfg c s) (\<lambda>s1.
     rbind (exit_inside_bar calc cfg c s1) (\<lambda>s2.
     rbind (provider (before @ [c])) (\<lambda>d.
     Inr (mark_bar c (queue_decision d s2)))))"

fun bt_loop ::
  "(decimal \<Rightarrow> side \<Rightarrow> decimal result) \<Rightarrow> (decision_result \<Rightarrow> decimal \<Rightarrow> decimal \<Rightarrow> backtest_risk_decision result)
   \<Rightarrow> backtest_config \<Rightarrow> decision_provider \<Rightarrow> candle list \<Rightarrow> candle list \<Rightarrow> bt_state \<Rightarrow> bt_state result" where
  "bt_loop calc policy cfg provider before [] s = Inr s"
| "bt_loop calc policy cfg provider before (c # cs) s =
     rbind (bt_step calc policy cfg provider before c s) (bt_loop calc policy cfg provider (before @ [c]) cs)"

text \<open>The forced close at the end of the data.\<close>

definition bt_finish ::
  "(decimal \<Rightarrow> side \<Rightarrow> decimal result) \<Rightarrow> backtest_config \<Rightarrow> candle list \<Rightarrow> bt_state \<Rightarrow> bt_state result" where
  "bt_finish calc cfg cs s =
     (case st_position s of
        Some p \<Rightarrow>
          if cs = [] then Inr s
          else
            let final = last cs in
            rbind (close_position calc cfg p (candle_timestamp final) (candle_close final) END_OF_DATA) (\<lambda>tr.
              let s1 = s\<lparr>st_trades := st_trades s @ [tr], st_equity := dadd (st_equity s) (tr_net_pnl tr)\<rparr>;
                  peak = max (st_peak s) (st_equity s1)
              in Inr (s1\<lparr>st_peak := peak,
                   st_equity_curve := butlast (st_equity_curve s) @ [(candle_timestamp final, st_equity s1)],
                   st_drawdown_curve := butlast (st_drawdown_curve s) @
                     [(candle_timestamp final, bt_drawdown peak (st_equity s1))]\<rparr>))
      | None \<Rightarrow> Inr s)"

section \<open>Metrics\<close>

record performance_metrics =
  me_net_profit :: decimal
  me_total_return :: decimal
  me_win_rate :: decimal
  me_average_win :: decimal
  me_average_loss :: decimal
  me_expectancy :: decimal
  me_profit_factor :: "decimal option"
  me_maximum_drawdown :: decimal
  me_sharpe_ratio :: "decimal option"
  me_turnover :: decimal
  me_trade_count :: nat
  me_consecutive_wins :: nat
  me_consecutive_losses :: nat

definition mean_of :: "decimal list \<Rightarrow> decimal" where
  "mean_of xs = (if xs = [] then 0 else dquot (dsum xs) (of_nat (length xs)))"

text \<open>\<open>max(values, default=0)\<close>.\<close>

definition max_default :: "decimal list \<Rightarrow> decimal" where
  "max_default xs = (case xs of [] \<Rightarrow> 0 | y # ys \<Rightarrow> foldl max y ys)"

fun streaks :: "decimal list \<Rightarrow> nat \<times> nat \<times> nat \<times> nat \<Rightarrow> nat \<times> nat" where
  "streaks [] (bw, bl, cw, cl) = (bw, bl)"
| "streaks (x # xs) (bw, bl, cw, cl) =
     (let (cw', cl') = (if x > 0 then (cw + 1, 0) else if x < 0 then (0, cl + 1) else (cw, cl))
      in streaks xs (max bw cw', max bl cl', cw', cl'))"

fun period_returns :: "decimal list \<Rightarrow> decimal list" where
  "period_returns (x # y # ys) =
     (if x \<noteq> 0 then [dsub (dquot y x) 1] else []) @ period_returns (y # ys)"
| "period_returns _ = []"

definition backtest_metrics ::
  "(decimal list \<Rightarrow> int \<Rightarrow> decimal option) \<Rightarrow> decimal \<Rightarrow> (instant \<times> decimal) list \<Rightarrow> (instant \<times> decimal) list
   \<Rightarrow> backtest_trade list \<Rightarrow> int \<Rightarrow> performance_metrics" where
  "backtest_metrics sharpe initial eqs dds trades annualization =
     (let final = (if eqs = [] then initial else snd (last eqs));
          nets = map tr_net_pnl trades;
          wins = filter (\<lambda>x. x > 0) nets; losses = filter (\<lambda>x. x < 0) nets;
          gross_losses = dabs (dsum losses);
          returns = period_returns (map snd eqs);
          (best_wins, best_losses) = streaks nets (0, 0, 0, 0)
      in \<lparr>me_net_profit = dsub final initial, me_total_return = dsub (dquot final initial) 1,
          me_win_rate = (if trades = [] then 0 else dquot (of_nat (length wins)) (of_nat (length trades))),
          me_average_win = mean_of wins, me_average_loss = mean_of losses, me_expectancy = mean_of nets,
          me_profit_factor = (if gross_losses \<noteq> 0 then Some (dquot (dsum wins) gross_losses) else None),
          me_maximum_drawdown = max_default (map snd dds),
          me_sharpe_ratio = (if length returns > 1 then sharpe returns annualization else None),
          me_turnover = dsum (map (\<lambda>t. dmul (dadd (tr_entry_price t) (tr_exit_price t)) (tr_quantity t)) trades),
          me_trade_count = length trades, me_consecutive_wins = best_wins,
          me_consecutive_losses = best_losses\<rparr>)"

section \<open>The run\<close>

record backtest_result =
  res_initial_capital :: decimal
  res_final_equity :: decimal
  res_equity_curve :: "(instant \<times> decimal) list"
  res_drawdown_curve :: "(instant \<times> decimal) list"
  res_trades :: "backtest_trade list"
  res_rejected :: "(instant \<times> string) list"
  res_metrics :: performance_metrics

definition chronological :: "candle list \<Rightarrow> bool" where
  "chronological cs = (\<forall>i \<in> {1..<length cs}. candle_timestamp (cs ! (i - 1)) < candle_timestamp (cs ! i))"

definition validate_candles :: "candle list \<Rightarrow> unit result" where
  "validate_candles cs =
     (if list_ex (\<lambda>c. \<not> candle_is_closed c) cs
      then Inl (ValueError ''backtests accept closed candles only'')
      else if cs \<noteq> [] \<and> list_ex (\<lambda>c. candle_instrument_id c \<noteq> candle_instrument_id (hd cs)
                \<or> candle_timeframe_seconds c \<noteq> candle_timeframe_seconds (hd cs)) cs
      then Inl (ValueError ''candles must belong to one instrument and timeframe'')
      else if \<not> chronological cs then Inl (ValueError ''candles must be strictly chronological'')
      else Inr ())"

definition run_backtest ::
  "(decimal \<Rightarrow> side \<Rightarrow> decimal result) \<Rightarrow> (decision_result \<Rightarrow> decimal \<Rightarrow> decimal \<Rightarrow> backtest_risk_decision result)
   \<Rightarrow> (decimal list \<Rightarrow> int \<Rightarrow> decimal option) \<Rightarrow> backtest_config \<Rightarrow> decision_provider \<Rightarrow> candle list
   \<Rightarrow> backtest_result result" where
  "run_backtest calc policy sharpe cfg provider cs =
     rbind (validate_candles cs) (\<lambda>_.
     rbind (bt_loop calc policy cfg provider [] cs (bt_start cfg)) (\<lambda>s0.
     rbind (bt_finish calc cfg cs s0) (\<lambda>s.
     Inr \<lparr>res_initial_capital = bt_initial_capital cfg, res_final_equity = st_equity s,
          res_equity_curve = st_equity_curve s, res_drawdown_curve = st_drawdown_curve s,
          res_trades = st_trades s, res_rejected = st_rejected s,
          res_metrics = backtest_metrics sharpe (bt_initial_capital cfg) (st_equity_curve s)
            (st_drawdown_curve s) (st_trades s) (bt_annualization_sessions cfg)\<rparr>)))"

text \<open>The defaults of the source: the generic cost model and the fixed-fraction policy.\<close>

definition default_policy :: "backtest_config \<Rightarrow> fixed_fraction_policy" where
  "default_policy cfg = \<lparr>ff_maximum_risk_fraction = 1 / 100,
     ff_maximum_notional_fraction = bt_maximum_position_notional_fraction cfg\<rparr>"

definition default_costs :: "backtest_config \<Rightarrow> generic_cost_model" where
  "default_costs cfg = \<lparr>variable_cost_bps = bt_variable_cost_bps cfg, flat_cost_per_order = bt_flat_cost_per_order cfg\<rparr>"

section \<open>Sizing\<close>

lemma fixed_fraction_approved:
  assumes "fixed_fraction_evaluate p d eq fill = Inr r" "br_approved r"
  obtains stop target rest where "dr_requires_risk_approval d" "dr_proposed_stop d = Some stop"
    "dr_proposed_targets d = target # rest" "0 < dr_requested_risk_fraction d"
    "dr_action d = LONG \<Longrightarrow> stop < fill \<and> fill < target"
    "dr_action d = SHORT \<Longrightarrow> fill < stop \<and> target < fill"
    "stop \<noteq> fill" "fill \<noteq> 0"
    "br_quantity r = dfloor (min (dquot (dmul eq (min (dr_requested_risk_fraction d) (ff_maximum_risk_fraction p)))
       (dabs (dsub fill stop))) (dquot (dmul eq (ff_maximum_notional_fraction p)) fill))"
    "0 < br_quantity r"
  using assms that
  by (auto simp: fixed_fraction_evaluate_def br_reject_def Let_def rbind_eq_Inr ddiv_def not_le dsub_def
      split: option.splits list.splits if_splits)

text \<open>The default sizing never risks or commits more than its fractions: an approved quantity is a
  positive whole number that at the stop loses at most the equity times the smaller of the
  requested and the maximum risk fraction, and at a positive fill commits at most the equity
  times the notional fraction (each up to the relative error of the arithmetic, twice); and the
  stop and the first target lie on opposite sides of the actual fill.\<close>

theorem fixed_fraction_sizing_bounded:
  assumes "fixed_fraction_evaluate p d eq fill = Inr r" and "br_approved r"
    and "0 \<le> eq" and "0 \<le> ff_maximum_risk_fraction p" and "0 \<le> ff_maximum_notional_fraction p"
  shows "\<exists>stop target n. dr_proposed_stop d = Some stop \<and> hd (dr_proposed_targets d) = target
    \<and> br_quantity r = of_int n \<and> 0 < n
    \<and> br_quantity r * dabs (dsub fill stop)
        \<le> eq * min (dr_requested_risk_fraction d) (ff_maximum_risk_fraction p) * (1 + rel_eps)\<^sup>2
    \<and> (0 < fill \<longrightarrow> br_quantity r * fill \<le> eq * ff_maximum_notional_fraction p * (1 + rel_eps)\<^sup>2)
    \<and> (dr_action d = LONG \<longrightarrow> stop < fill \<and> fill < target)
    \<and> (dr_action d = SHORT \<longrightarrow> fill < stop \<and> target < fill)"
proof -
  from assms(1,2) obtain stop target rest where a: "dr_proposed_stop d = Some stop"
    "dr_proposed_targets d = target # rest" "0 < dr_requested_risk_fraction d"
    "dr_action d = LONG \<Longrightarrow> stop < fill \<and> fill < target"
    "dr_action d = SHORT \<Longrightarrow> fill < stop \<and> target < fill" "stop \<noteq> fill"
    and q: "br_quantity r = dfloor (min (dquot (dmul eq (min (dr_requested_risk_fraction d) (ff_maximum_risk_fraction p)))
       (dabs (dsub fill stop))) (dquot (dmul eq (ff_maximum_notional_fraction p)) fill))" "0 < br_quantity r"
    by (rule fixed_fraction_approved) blast
  let ?f = "min (dr_requested_risk_fraction d) (ff_maximum_risk_fraction p)"
  have budget: "x \<le> dquot (dmul eq g) b \<Longrightarrow> 0 < b \<Longrightarrow> 0 \<le> g \<Longrightarrow> x * b \<le> eq * g * (1 + rel_eps)\<^sup>2" for x b g
  proof -
    assume x: "x \<le> dquot (dmul eq g) b" "0 < b" "0 \<le> g"
    have "x * b \<le> dmul eq g * (1 + rel_eps)"
      using x assms(3) by (intro dquot_bound dmul_nonneg)
    also have "\<dots> \<le> eq * g * (1 + rel_eps) * (1 + rel_eps)"
      using x assms(3) by (intro mult_right_mono dmul_bound) (simp_all add: add_nonneg_nonneg less_imp_le)
    finally show ?thesis by (simp add: power2_eq_square mult.assoc)
  qed
  have "br_quantity r \<le> dquot (dmul eq ?f) (dabs (dsub fill stop))"
    "br_quantity r \<le> dquot (dmul eq (ff_maximum_notional_fraction p)) fill"
    unfolding q(1) by (rule order_trans [OF dfloor_le], simp)+
  moreover have "0 < dabs (dsub fill stop)" using a(6) by (simp add: dsub_def)
  moreover have "0 \<le> ?f" using a(3) assms(4) by simp
  ultimately have "br_quantity r * dabs (dsub fill stop) \<le> eq * ?f * (1 + rel_eps)\<^sup>2"
    "0 < fill \<longrightarrow> br_quantity r * fill \<le> eq * ff_maximum_notional_fraction p * (1 + rel_eps)\<^sup>2"
    using budget assms(5) by blast+
  moreover obtain n where "br_quantity r = of_int n" using q(1) by (simp add: dfloor_def)
  ultimately show ?thesis using a q(2) by auto
qed

definition sample_decision :: decision_result where
  "sample_decision = \<lparr>dr_id = 1, dr_timestamp = 60, dr_instrument_id = 3, dr_strategy = ''s'',
     dr_strategy_version = ''1'', dr_decision_version = ''1'', dr_action = LONG, dr_confidence = 1,
     dr_contributing_factors = [], dr_rejection_reasons = [], dr_proposed_entry = Some 100,
     dr_proposed_stop = Some 95, dr_proposed_targets = [110], dr_expected_risk_reward = Some 2,
     dr_requested_risk_fraction = 1 / 100, dr_data_snapshot_id = ''d'', dr_requires_risk_approval = True,
     dr_explanation = ''e''\<rparr>"

lemma sample_sizing:
  "fixed_fraction_evaluate \<lparr>ff_maximum_risk_fraction = 1 / 100, ff_maximum_notional_fraction = 1\<rparr>
     sample_decision 10000 100 = Inr \<lparr>br_approved = True, br_quantity = 20, br_reason = ''APPROVED''\<rparr>"
  by (simp add: fixed_fraction_evaluate_def sample_decision_def Let_def ddiv_def dfloor_def dec_eval)

theorem fixed_fraction_sizing_bounded_witness:
  "20 * dabs (dsub 100 95) \<le> 10000 * min (1 / 100) (1 / 100) * (1 + rel_eps)\<^sup>2"
  using fixed_fraction_sizing_bounded [OF sample_sizing] by (auto simp: sample_decision_def)

section \<open>Frames of the steps\<close>

definition trade_of_position :: "bt_position \<Rightarrow> backtest_trade \<Rightarrow> bool" where
  "trade_of_position p t \<longleftrightarrow>
     tr_direction t = bp_direction p \<and> tr_quantity t = bp_quantity p \<and> tr_signal_at t = bp_signal_at p
     \<and> tr_entered_at t = bp_entered_at p \<and> tr_entry_price t = bp_entry_price p \<and> tr_stop t = bp_stop p
     \<and> tr_target t = bp_target p \<and> tr_net_pnl t = dsub (tr_gross_pnl t) (tr_costs t)"

lemma close_position_fields:
  "close_position calc cfg p t raw reason = Inr tr \<Longrightarrow>
     trade_of_position p tr \<and> tr_exited_at tr = t \<and> tr_exit_reason tr = reason"
  by (auto simp: close_position_def Let_def rbind_eq_Inr trade_of_position_def)

lemma realize_simps [simp]:
  "st_trades (realize s tr) = st_trades s @ [tr]" "st_equity (realize s tr) = dadd (st_equity s) (tr_net_pnl tr)"
  "st_position (realize s tr) = None" "st_pending (realize s tr) = st_pending s"
  "st_peak (realize s tr) = st_peak s" "st_equity_curve (realize s tr) = st_equity_curve s"
  "st_drawdown_curve (realize s tr) = st_drawdown_curve s"
  by (simp_all add: realize_def)

definition entered_position ::
  "(decision_result \<Rightarrow> decimal \<Rightarrow> decimal \<Rightarrow> backtest_risk_decision result) \<Rightarrow> backtest_config \<Rightarrow> candle
   \<Rightarrow> decimal \<Rightarrow> decision_result \<Rightarrow> bt_position \<Rightarrow> bool" where
  "entered_position policy cfg c eq d p \<longleftrightarrow>
     (\<exists>r. bp_decision p = d \<and> bp_direction p = dr_action d \<and> (dr_action d = LONG \<or> dr_action d = SHORT)
        \<and> bp_signal_at p = dr_timestamp d \<and> bp_entered_at p = candle_timestamp c
        \<and> bp_entry_price p = slipped (candle_open c) (dr_action d) (bt_slippage_bps cfg)
        \<and> policy d eq (bp_entry_price p) = Inr r \<and> br_approved r \<and> bp_quantity p = br_quantity r
        \<and> dr_proposed_stop d = Some (bp_stop p) \<and> dr_proposed_targets d \<noteq> []
        \<and> bp_target p = hd (dr_proposed_targets d))"

lemma execute_pending_cases:
  assumes "execute_pending calc policy cfg c s = Inr s'"
  obtains (closed_by_signal) p d tr where "st_pending s = Some d" "st_position s = Some p" "dr_action d = EXIT"
      "close_position calc cfg p (candle_timestamp c) (candle_open c) SIGNAL = Inr tr"
      "s' = (realize s tr)\<lparr>st_pending := None\<rparr>"
  | (entered) d p where "st_pending s = Some d" "st_position s = None"
      "entered_position policy cfg c (st_equity s) d p" "s' = s\<lparr>st_position := Some p, st_pending := None\<rparr>"
  | (other) rs where "s' = s\<lparr>st_rejected := rs, st_pending := None\<rparr>"
      "st_pending s \<noteq> None \<longrightarrow> st_position s = None \<or> (\<exists>d. st_pending s = Some d \<and> dr_action d \<noteq> EXIT)"
proof (cases "st_pending s")
  case None
  then show ?thesis using assms other [of "st_rejected s"] by (simp add: execute_pending_def)
next
  case (Some d)
  show ?thesis
  proof (cases "st_position s")
    case (Some p)
    then show ?thesis using \<open>st_pending s = Some d\<close> assms closed_by_signal [of d p] other [of "st_rejected s"]
      by (auto simp: execute_pending_def rbind_eq_Inr split: if_splits)
  next
    case None
    let ?fill = "slipped (candle_open c) (dr_action d) (bt_slippage_bps cfg)"
    show ?thesis
    proof (cases "dr_action d = LONG \<or> dr_action d = SHORT")
      case False
      then show ?thesis using Some None assms other [of "st_rejected s"] by (simp add: execute_pending_def)
    next
      case True
      then obtain r where r: "policy d (st_equity s) ?fill = Inr r"
        using Some None assms by (auto simp: execute_pending_def Let_def rbind_eq_Inr)
      show ?thesis
      proof (cases "br_approved r \<and> dr_proposed_stop d \<noteq> None \<and> dr_proposed_targets d \<noteq> []")
        case False
        then have "s' = s\<lparr>st_rejected := st_rejected s @ [(candle_timestamp c, br_reason r)], st_pending := None\<rparr>"
          using Some None True assms r
          by (auto simp: execute_pending_def Let_def split: bool.splits option.splits list.splits)
        then show ?thesis using other None by blast
      next
        case ok: True
        then obtain stop target rest where st: "dr_proposed_stop d = Some stop" "dr_proposed_targets d = target # rest"
          by (cases "dr_proposed_targets d") auto
        then obtain entry_cost where s': "s' = s\<lparr>st_position := Some
            \<lparr>bp_decision = d, bp_direction = dr_action d, bp_quantity = br_quantity r,
             bp_signal_at = dr_timestamp d, bp_entered_at = candle_timestamp c,
             bp_entry_price = ?fill, bp_stop = stop, bp_target = target, bp_entry_cost = entry_cost\<rparr>, st_pending := None\<rparr>"
          using Some None True assms r ok by (auto simp: execute_pending_def Let_def rbind_eq_Inr)
        show ?thesis
          by (rule entered [OF Some None _ s']) (use True r ok st in \<open>simp add: entered_position_def\<close>)
      qed
    qed
  qed
qed

lemma exit_inside_bar_cases:
  assumes "exit_inside_bar calc cfg c s = Inr s'"
  obtains (none) "s' = s"
  | (exited) p raw reason tr where "st_position s = Some p" "intrabar_exit p c = Some (raw, reason)"
      "close_position calc cfg p (candle_timestamp c) raw reason = Inr tr" "s' = realize s tr"
  using assms by (auto simp: exit_inside_bar_def rbind_eq_Inr split: option.splits)

lemma execute_pending_clears: "execute_pending calc policy cfg c s = Inr s' \<Longrightarrow> st_pending s' = None"
  by (cases rule: execute_pending_cases, assumption) auto

lemma exit_inside_bar_pending: "exit_inside_bar calc cfg c s = Inr s' \<Longrightarrow> st_pending s' = st_pending s"
  by (cases rule: exit_inside_bar_cases, assumption) auto

lemma queue_decision_simps [simp]:
  "st_trades (queue_decision d s) = st_trades s" "st_equity (queue_decision d s) = st_equity s"
  "st_position (queue_decision d s) = st_position s" "st_peak (queue_decision d s) = st_peak s"
  "st_equity_curve (queue_decision d s) = st_equity_curve s"
  "st_drawdown_curve (queue_decision d s) = st_drawdown_curve s"
  by (simp_all add: queue_decision_def)

lemma mark_bar_simps [simp]:
  "st_trades (mark_bar c s) = st_trades s" "st_equity (mark_bar c s) = st_equity s"
  "st_position (mark_bar c s) = st_position s" "st_pending (mark_bar c s) = st_pending s"
  by (simp_all add: mark_bar_def Let_def)

text \<open>One step appends one point to each curve and only trades that exit at its candle.\<close>

lemma bt_step_appends:
  assumes "bt_step calc policy cfg provider before c s = Inr s'"
  shows "\<exists>eq dd new. st_equity_curve s' = st_equity_curve s @ [(candle_timestamp c, eq)]
    \<and> st_drawdown_curve s' = st_drawdown_curve s @ [(candle_timestamp c, dd)]
    \<and> st_trades s' = st_trades s @ new \<and> (\<forall>t \<in> set new. tr_exited_at t = candle_timestamp c)"
proof -
  obtain s1 s2 d where s1: "execute_pending calc policy cfg c s = Inr s1"
    and s2: "exit_inside_bar calc cfg c s1 = Inr s2" and s': "s' = mark_bar c (queue_decision d s2)"
    using assms by (auto simp: bt_step_def rbind_eq_Inr)
  have "st_equity_curve s1 = st_equity_curve s \<and> st_drawdown_curve s1 = st_drawdown_curve s
      \<and> (\<exists>new. st_trades s1 = st_trades s @ new \<and> (\<forall>t \<in> set new. tr_exited_at t = candle_timestamp c))"
    using s1 by (cases rule: execute_pending_cases) (auto dest: close_position_fields)
  moreover have "st_equity_curve s2 = st_equity_curve s1 \<and> st_drawdown_curve s2 = st_drawdown_curve s1
      \<and> (\<exists>new. st_trades s2 = st_trades s1 @ new \<and> (\<forall>t \<in> set new. tr_exited_at t = candle_timestamp c))"
    using s2 by (cases rule: exit_inside_bar_cases) (auto dest: close_position_fields)
  ultimately show ?thesis by (force simp: s' mark_bar_def Let_def)
qed

lemma bt_loop_appends:
  assumes "bt_loop calc policy cfg provider before cs s = Inr s'"
  shows "\<exists>eqs dds new. st_equity_curve s' = st_equity_curve s @ eqs
    \<and> st_drawdown_curve s' = st_drawdown_curve s @ dds
    \<and> map fst eqs = map candle_timestamp cs \<and> map fst dds = map candle_timestamp cs
    \<and> st_trades s' = st_trades s @ new \<and> (\<forall>t \<in> set new. tr_exited_at t \<in> candle_timestamp ` set cs)"
  using assms
proof (induction cs arbitrary: before s)
  case (Cons c cs)
  then obtain s1 where s1: "bt_step calc policy cfg provider before c s = Inr s1"
    and r: "bt_loop calc policy cfg provider (before @ [c]) cs s1 = Inr s'"
    by (auto simp: rbind_eq_Inr)
  from bt_step_appends [OF s1] Cons.IH [OF r] show ?case by fastforce
qed simp

lemma bt_loop_append:
  "bt_loop calc policy cfg provider before (xs @ ys) s =
     rbind (bt_loop calc policy cfg provider before xs s) (bt_loop calc policy cfg provider (before @ xs) ys)"
  by (induction xs arbitrary: before s) (simp_all add: rbind_assoc cong: rbind_cong)

lemma bt_loop_provider:
  assumes "\<And>k. 0 < k \<Longrightarrow> k \<le> length xs \<Longrightarrow> provider (before @ take k xs) = provider' (before @ take k xs)"
  shows "bt_loop calc policy cfg provider before xs s = bt_loop calc policy cfg provider' before xs s"
  using assms
proof (induction xs arbitrary: before s)
  case (Cons x xs)
  have "provider (before @ [x]) = provider' (before @ [x])" using Cons.prems [of 1] by simp
  then have "bt_step calc policy cfg provider before x s = bt_step calc policy cfg provider' before x s"
    by (simp add: bt_step_def)
  moreover have "bt_loop calc policy cfg provider (before @ [x]) xs t = bt_loop calc policy cfg provider' (before @ [x]) xs t" for t
  proof (rule Cons.IH)
    fix k assume "0 < k" "k \<le> length xs"
    then show "provider ((before @ [x]) @ take k xs) = provider' ((before @ [x]) @ take k xs)"
      using Cons.prems [of "Suc k"] by simp
  qed
  ultimately show ?case by (simp cong: rbind_cong)
qed simp

lemma bt_finish_appends:
  assumes "bt_finish calc cfg cs s = Inr s'" "st_equity_curve s \<noteq> []" "st_drawdown_curve s \<noteq> []"
  shows "butlast (st_equity_curve s') = butlast (st_equity_curve s)
    \<and> butlast (st_drawdown_curve s') = butlast (st_drawdown_curve s)
    \<and> length (st_equity_curve s') = length (st_equity_curve s)
    \<and> (\<exists>new. st_trades s' = st_trades s @ new \<and> (\<forall>t \<in> set new. cs \<noteq> [] \<and> tr_exited_at t = candle_timestamp (last cs)))"
  using assms
  by (auto simp: bt_finish_def Let_def rbind_eq_Inr dest!: close_position_fields split: option.splits if_splits)

lemma run_backtest_Inr:
  assumes "run_backtest calc policy sharpe cfg provider cs = Inr r"
  obtains s0 s where "chronological cs" "bt_loop calc policy cfg provider [] cs (bt_start cfg) = Inr s0"
    "bt_finish calc cfg cs s0 = Inr s" "res_final_equity r = st_equity s" "res_equity_curve r = st_equity_curve s"
    "res_drawdown_curve r = st_drawdown_curve s" "res_trades r = st_trades s"
    "res_initial_capital r = bt_initial_capital cfg"
    "res_metrics r = backtest_metrics sharpe (bt_initial_capital cfg) (st_equity_curve s)
       (st_drawdown_curve s) (st_trades s) (bt_annualization_sessions cfg)"
  using assms
  by (auto simp: run_backtest_def validate_candles_def rbind_eq_Inr split: if_splits)

lemma chronological_less:
  assumes "chronological cs" "i < j" "j < length cs"
  shows "candle_timestamp (cs ! i) < candle_timestamp (cs ! j)"
  using assms(2,3)
proof (induction j)
  case (Suc j)
  have "candle_timestamp (cs ! j) < candle_timestamp (cs ! Suc j)"
    using assms(1) Suc.prems by (auto simp: chronological_def dest: bspec [of _ _ "Suc j"])
  with Suc show ?case by (cases "i = j") auto
qed simp

lemma chronological_simps [simp]:
  "chronological []" "chronological [a]"
  "chronological (a # b # cs) \<longleftrightarrow> candle_timestamp a < candle_timestamp b \<and> chronological (b # cs)"
proof -
  have "(\<forall>i \<in> {1..<Suc (Suc n)}. P i) \<longleftrightarrow> P 1 \<and> (\<forall>i \<in> {1..<Suc n}. P (Suc i))" for n P
  proof -
    have "{1..<Suc (Suc n)} = insert 1 (Suc ` {1..<Suc n})"
      unfolding image_Suc_atLeastLessThan by auto
    then show ?thesis by (simp only: ball_simps)
  qed
  then show "chronological (a # b # cs) \<longleftrightarrow> candle_timestamp a < candle_timestamp b \<and> chronological (b # cs)"
    by (simp add: chronological_def)
qed (simp_all add: chronological_def)

lemma take_of_butlast: "butlast xs = ys @ zs \<Longrightarrow> take (length ys) xs = ys"
  by (cases xs rule: rev_cases) auto

text \<open>The past of a run: what the first candles produce, whatever follows.\<close>

lemma run_backtest_past:
  assumes r: "run_backtest calc policy sharpe cfg provider (cs @ ds) = Inr r" and ds: "ds \<noteq> []"
  obtains s later where "bt_loop calc policy cfg provider [] cs (bt_start cfg) = Inr s"
    "take (length cs) (res_equity_curve r) = st_equity_curve s"
    "take (length cs) (res_drawdown_curve r) = st_drawdown_curve s"
    "res_trades r = st_trades s @ later"
    "\<forall>t \<in> set (st_trades s). tr_exited_at t \<in> candle_timestamp ` set cs"
    "\<forall>t \<in> set later. \<forall>c \<in> set cs. candle_timestamp c < tr_exited_at t"
proof -
  from r obtain s0 sf where ch: "chronological (cs @ ds)"
    and loop: "bt_loop calc policy cfg provider [] (cs @ ds) (bt_start cfg) = Inr s0"
    and fin: "bt_finish calc cfg (cs @ ds) s0 = Inr sf"
    and out: "res_equity_curve r = st_equity_curve sf" "res_drawdown_curve r = st_drawdown_curve sf"
      "res_trades r = st_trades sf"
    by (rule run_backtest_Inr) auto
  obtain s where s: "bt_loop calc policy cfg provider [] cs (bt_start cfg) = Inr s"
    and s0: "bt_loop calc policy cfg provider cs ds s = Inr s0"
    using loop by (auto simp: bt_loop_append rbind_eq_Inr)
  from bt_loop_appends [OF s] have past: "length (st_equity_curve s) = length cs"
    "length (st_drawdown_curve s) = length cs"
    "\<forall>t \<in> set (st_trades s). tr_exited_at t \<in> candle_timestamp ` set cs"
    by (auto simp: bt_start_def dest: arg_cong [where f = length])
  from bt_loop_appends [OF s0] obtain eqs dds new where a:
    "st_equity_curve s0 = st_equity_curve s @ eqs" "st_drawdown_curve s0 = st_drawdown_curve s @ dds"
    "map fst eqs = map candle_timestamp ds" "map fst dds = map candle_timestamp ds"
    "st_trades s0 = st_trades s @ new" "\<forall>t \<in> set new. tr_exited_at t \<in> candle_timestamp ` set ds"
    by blast
  have ne: "eqs \<noteq> []" "dds \<noteq> []" using a(3,4) ds by auto
  from bt_finish_appends [OF fin] a(1,2) ne obtain extra where b:
    "butlast (st_equity_curve sf) = st_equity_curve s @ butlast eqs"
    "butlast (st_drawdown_curve sf) = st_drawdown_curve s @ butlast dds"
    "st_trades sf = st_trades s0 @ extra" "\<forall>t \<in> set extra. tr_exited_at t = candle_timestamp (last (cs @ ds))"
    by (auto simp: butlast_append)
  have later: "candle_timestamp c < candle_timestamp d" if cd: "c \<in> set cs" "d \<in> set ds" for c d
  proof -
    from cd obtain i j where "i < length cs" "cs ! i = c" "j < length ds" "ds ! j = d"
      by (auto simp: in_set_conv_nth)
    then show ?thesis using chronological_less [OF ch, of i "length cs + j"] by (simp add: nth_append)
  qed
  have "take (length cs) (st_equity_curve sf) = st_equity_curve s"
    "take (length cs) (st_drawdown_curve sf) = st_drawdown_curve s"
    using take_of_butlast [OF b(1)] take_of_butlast [OF b(2)] past(1,2) by simp_all
  moreover have "\<forall>t \<in> set (new @ extra). \<forall>c \<in> set cs. candle_timestamp c < tr_exited_at t"
    using a(6) b(4) later ds last_in_set [OF ds] by auto
  ultimately show ?thesis
    using that [OF s, of "new @ extra"] past b(3) a(5) by (simp add: out)
qed

text \<open>C6: No look-ahead.  Two runs over candles that share a beginning, with decision providers that
  agree on the prefixes of that beginning, have the same equity and drawdown points for it and the
  same trades exited in it, in the same order: nothing of what follows - candles or decisions -
  can change them.  Every other trade of either run exits after that beginning.\<close>

theorem backtest_no_lookahead:
  assumes "run_backtest calc policy sharpe cfg provider (cs @ ds) = Inr r"
    and "run_backtest calc policy sharpe cfg provider' (cs @ ds') = Inr r'"
    and "ds \<noteq> []" and "ds' \<noteq> []"
    and "\<forall>k \<in> {1..length cs}. provider (take k cs) = provider' (take k cs)"
  shows "take (length cs) (res_equity_curve r) = take (length cs) (res_equity_curve r')
    \<and> take (length cs) (res_drawdown_curve r) = take (length cs) (res_drawdown_curve r')
    \<and> (\<exists>past later later'. res_trades r = past @ later \<and> res_trades r' = past @ later'
          \<and> (\<forall>t \<in> set past. tr_exited_at t \<in> candle_timestamp ` set cs)
          \<and> (\<forall>t \<in> set (later @ later'). \<forall>c \<in> set cs. candle_timestamp c < tr_exited_at t))"
proof -
  obtain s later where a: "bt_loop calc policy cfg provider [] cs (bt_start cfg) = Inr s"
    "take (length cs) (res_equity_curve r) = st_equity_curve s"
    "take (length cs) (res_drawdown_curve r) = st_drawdown_curve s" "res_trades r = st_trades s @ later"
    "\<forall>t \<in> set (st_trades s). tr_exited_at t \<in> candle_timestamp ` set cs"
    "\<forall>t \<in> set later. \<forall>c \<in> set cs. candle_timestamp c < tr_exited_at t"
    by (rule run_backtest_past [OF assms(1,3)])
  obtain s' later' where b: "bt_loop calc policy cfg provider' [] cs (bt_start cfg) = Inr s'"
    "take (length cs) (res_equity_curve r') = st_equity_curve s'"
    "take (length cs) (res_drawdown_curve r') = st_drawdown_curve s'" "res_trades r' = st_trades s' @ later'"
    "\<forall>t \<in> set later'. \<forall>c \<in> set cs. candle_timestamp c < tr_exited_at t"
    by (rule run_backtest_past [OF assms(2,4)])
  have "bt_loop calc policy cfg provider [] cs (bt_start cfg) = bt_loop calc policy cfg provider' [] cs (bt_start cfg)"
    using assms(5) by (intro bt_loop_provider) auto
  with a(1) b(1) have "s' = s" by simp
  with a(2,3) b(2,3) have "take (length cs) (res_equity_curve r) = take (length cs) (res_equity_curve r')"
    "take (length cs) (res_drawdown_curve r) = take (length cs) (res_drawdown_curve r')"
    by simp_all
  moreover have "\<exists>past later later'. res_trades r = past @ later \<and> res_trades r' = past @ later'
      \<and> (\<forall>t \<in> set past. tr_exited_at t \<in> candle_timestamp ` set cs)
      \<and> (\<forall>t \<in> set (later @ later'). \<forall>c \<in> set cs. candle_timestamp c < tr_exited_at t)"
    using a(4-6) b(4,5) \<open>s' = s\<close>
    by (intro exI [of _ "st_trades s"] exI [of _ later] exI [of _ later']) auto
  ultimately show ?thesis by blast
qed

section \<open>A concrete run\<close>

definition bar :: "instant \<Rightarrow> decimal \<Rightarrow> decimal \<Rightarrow> decimal \<Rightarrow> decimal \<Rightarrow> candle" where
  "bar t op hi lo cl = \<lparr>candle_instrument_id = 3, candle_timestamp = t, candle_timeframe_seconds = 60,
     candle_open = op, candle_high = hi, candle_low = lo, candle_close = cl, candle_volume = 1,
     candle_open_interest = None, candle_is_closed = True\<rparr>"

definition demo_config :: backtest_config where
  "demo_config = default_backtest_config\<lparr>bt_initial_capital := 10000, bt_slippage_bps := 0,
     bt_variable_cost_bps := 0, bt_flat_cost_per_order := 1\<rparr>"

definition demo_candles :: "candle list" where
  "demo_candles = [bar 60 100 101 99 100, bar 120 100 105 99 104]"

definition demo_provider :: decision_provider where
  "demo_provider cs = Inr (if length cs = 1 then sample_decision else sample_decision\<lparr>dr_action := HOLD\<rparr>)"

abbreviation demo_run :: "candle list \<Rightarrow> backtest_result result" where
  "demo_run cs \<equiv> run_backtest (generic_calculate (default_costs demo_config))
     (fixed_fraction_evaluate (default_policy demo_config)) (\<lambda>_ _. None) demo_config demo_provider cs"

lemmas demo_defs = demo_config_def default_backtest_config_def demo_provider_def bar_def
  default_costs_def default_policy_def

lemma demo_fill:
  "fixed_fraction_evaluate (default_policy demo_config) sample_decision 10000 100
     = Inr \<lparr>br_approved = True, br_quantity = 20, br_reason = ''APPROVED''\<rparr>"
  using sample_sizing by (simp add: demo_defs)

lemma demo_cost: "generic_calculate (default_costs demo_config) n sd = Inr (dadd (dquot (dmul (dabs n) 0) 10000) 1)"
  by (simp add: generic_calculate_def demo_defs)

lemma demo_slipped: "\<bar>x\<bar> \<le> 1000 \<Longrightarrow> of_int \<lfloor>x * 1000000000000\<rfloor> = x * 1000000000000 \<Longrightarrow> slipped x a 0 = x"
  by (simp add: slipped_def dec_eval)

definition demo_position :: bt_position where
  "demo_position = \<lparr>bp_decision = sample_decision, bp_direction = LONG, bp_quantity = 20, bp_signal_at = 60,
     bp_entered_at = 120, bp_entry_price = 100, bp_stop = 95, bp_target = 110, bp_entry_cost = 1\<rparr>"

definition demo_state1 :: bt_state where
  "demo_state1 = (bt_start demo_config)\<lparr>st_pending := Some sample_decision,
     st_equity_curve := [(60, 10000)], st_drawdown_curve := [(60, 0)]\<rparr>"

definition demo_state2 :: bt_state where
  "demo_state2 = (bt_start demo_config)\<lparr>st_position := Some demo_position, st_peak := 10079,
     st_equity_curve := [(60, 10000), (120, 10079)], st_drawdown_curve := [(60, 0), (120, 0)]\<rparr>"

abbreviation demo_step :: "candle list \<Rightarrow> candle \<Rightarrow> bt_state \<Rightarrow> bt_state result" where
  "demo_step \<equiv> bt_step (generic_calculate (default_costs demo_config))
     (fixed_fraction_evaluate (default_policy demo_config)) demo_config demo_provider"

lemma demo_step1: "demo_step [] (bar 60 100 101 99 100) (bt_start demo_config) = Inr demo_state1"
  by (simp add: bt_step_def execute_pending_def exit_inside_bar_def queue_decision_def mark_bar_def
      bt_start_def demo_state1_def unrealized_of_def bt_drawdown_def demo_defs sample_decision_def dec_eval Let_def)

lemma demo_step2:
  "demo_step [bar 60 100 101 99 100] (bar 120 100 105 99 104) demo_state1 = Inr demo_state2"
proof -
  have a: "bt_slippage_bps demo_config = 0" by (simp add: demo_config_def)
  have d: "dr_action sample_decision = LONG" "dr_proposed_stop sample_decision = Some 95"
    "dr_proposed_targets sample_decision = [110]" "dr_timestamp sample_decision = 60"
    by (simp_all add: sample_decision_def)
  have st: "st_pending demo_state1 = Some sample_decision" "st_position demo_state1 = None" "st_equity demo_state1 = 10000"
    by (simp_all add: demo_state1_def bt_start_def demo_config_def)
  have "execute_pending (generic_calculate (default_costs demo_config))
     (fixed_fraction_evaluate (default_policy demo_config)) demo_config (bar 120 100 105 99 104) demo_state1
     = Inr (demo_state1\<lparr>st_position := Some demo_position, st_pending := None\<rparr>)"
    unfolding execute_pending_def st
    by (simp add: d a st demo_slipped demo_fill demo_cost bar_def demo_position_def dec_eval Let_def)
  then show ?thesis
    by (simp add: bt_step_def exit_inside_bar_def intrabar_exit_def queue_decision_def mark_bar_def
        demo_position_def demo_state1_def demo_state2_def bt_start_def unrealized_of_def direction_sign_def
        bt_drawdown_def demo_defs dec_eval Let_def)
qed

lemma demo_prefix:
  "bt_loop (generic_calculate (default_costs demo_config)) (fixed_fraction_evaluate (default_policy demo_config))
     demo_config demo_provider [] demo_candles (bt_start demo_config) = Inr demo_state2"
  by (simp add: demo_candles_def demo_step1 demo_step2)

lemma demo_close:
  "\<exists>tr. close_position (generic_calculate (default_costs demo_config)) demo_config demo_position t raw why = Inr tr
     \<and> tr_exited_at tr = t \<and> tr_exit_reason tr = why"
  by (simp add: close_position_def demo_cost Let_def)

text \<open>A third candle that reaches the target, and one that falls through the stop.\<close>

lemma demo_step3:
  assumes "c = bar 180 104 111 103 110 \<or> c = bar 180 104 104 90 91"
  shows "\<exists>s. demo_step demo_candles c demo_state2 = Inr s \<and> st_position s = None"
proof -
  have "execute_pending (generic_calculate (default_costs demo_config))
     (fixed_fraction_evaluate (default_policy demo_config)) demo_config c demo_state2 = Inr demo_state2"
    by (simp add: execute_pending_def demo_state2_def bt_start_def)
  moreover obtain raw why where "intrabar_exit demo_position c = Some (raw, why)"
    using assms by (auto simp: intrabar_exit_def demo_position_def bar_def)
  moreover have "st_position demo_state2 = Some demo_position"
    by (simp add: demo_state2_def)
  ultimately show ?thesis
    using demo_close [of "candle_timestamp c" raw why]
    by (auto simp: bt_step_def exit_inside_bar_def demo_provider_def)
qed

lemma demo_run_exists:
  assumes "c = bar 180 104 111 103 110 \<or> c = bar 180 104 104 90 91"
  shows "\<exists>r. demo_run (demo_candles @ [c]) = Inr r"
proof -
  obtain s where s: "demo_step demo_candles c demo_state2 = Inr s" "st_position s = None"
    using demo_step3 [OF assms] by blast
  have "validate_candles (demo_candles @ [c]) = Inr ()"
    using assms by (auto simp: validate_candles_def demo_candles_def bar_def)
  then show ?thesis
    using s by (simp add: run_backtest_def bt_loop_append demo_prefix bt_finish_def)
qed

theorem backtest_no_lookahead_witness:
  "\<exists>r r'. demo_run (demo_candles @ [bar 180 104 111 103 110]) = Inr r
     \<and> demo_run (demo_candles @ [bar 180 104 104 90 91]) = Inr r'
     \<and> take 2 (res_equity_curve r) = take 2 (res_equity_curve r')"
proof -
  obtain r where r: "demo_run (demo_candles @ [bar 180 104 111 103 110]) = Inr r"
    using demo_run_exists [OF disjI1 [OF refl]] by blast
  obtain r' where r': "demo_run (demo_candles @ [bar 180 104 104 90 91]) = Inr r'"
    using demo_run_exists [OF disjI2 [OF refl]] by blast
  from backtest_no_lookahead [OF r r'] have "take (length demo_candles) (res_equity_curve r)
      = take (length demo_candles) (res_equity_curve r')" by simp
  moreover have "length demo_candles = 2" by (simp add: demo_candles_def)
  ultimately show ?thesis using r r' by auto
qed

section \<open>Accounting\<close>

definition accounts_ok :: "backtest_config \<Rightarrow> bt_state \<Rightarrow> bool" where
  "accounts_ok cfg s \<longleftrightarrow>
     st_equity s = foldl dadd (bt_initial_capital cfg) (map tr_net_pnl (st_trades s))
     \<and> bt_initial_capital cfg \<le> st_peak s
     \<and> (\<forall>(t, e) \<in> set (st_equity_curve s). e \<le> st_peak s)
     \<and> (\<forall>(t, d) \<in> set (st_drawdown_curve s). 0 \<le> d)
     \<and> (st_position s = None \<and> st_equity_curve s \<noteq> [] \<longrightarrow> snd (last (st_equity_curve s)) = st_equity s)"

lemma bt_drawdown_nonneg: "0 < peak \<Longrightarrow> e \<le> peak \<Longrightarrow> 0 \<le> bt_drawdown peak e"
  using dec.drawdown_nonneg [of e peak] by (simp add: bt_drawdown_def dquot_def dsub_def)

lemma equity_representable:
  "representable (bt_initial_capital cfg) \<Longrightarrow> representable (foldl dadd (bt_initial_capital cfg) xs)"
  using dec.foldl_add_repr [of "bt_initial_capital cfg" xs] by (simp add: dadd_def [abs_def])

text \<open>The part of the accounts an execution inside a bar keeps.\<close>

definition ledger_ok :: "backtest_config \<Rightarrow> bt_state \<Rightarrow> bool" where
  "ledger_ok cfg s \<longleftrightarrow>
     st_equity s = foldl dadd (bt_initial_capital cfg) (map tr_net_pnl (st_trades s))"

lemma ledger_step:
  assumes "bt_step calc policy cfg provider before c s = Inr s'" "accounts_ok cfg s"
    "0 < bt_initial_capital cfg" "representable (bt_initial_capital cfg)"
  shows "accounts_ok cfg s'"
proof -
  obtain s1 s2 d where s1: "execute_pending calc policy cfg c s = Inr s1"
    and s2: "exit_inside_bar calc cfg c s1 = Inr s2" and s': "s' = mark_bar c (queue_decision d s2)"
    using assms(1) by (auto simp: bt_step_def rbind_eq_Inr)
  have 0: "ledger_ok cfg s" using assms(2) by (simp add: accounts_ok_def ledger_ok_def)
  have 1: "ledger_ok cfg s1 \<and> st_peak s1 = st_peak s \<and> st_equity_curve s1 = st_equity_curve s
      \<and> st_drawdown_curve s1 = st_drawdown_curve s"
    using s1 0 by (cases rule: execute_pending_cases) (simp_all add: ledger_ok_def)
  have 2: "ledger_ok cfg s2" "st_peak s2 = st_peak s" "st_equity_curve s2 = st_equity_curve s"
      "st_drawdown_curve s2 = st_drawdown_curve s"
    using s2 1 by (cases rule: exit_inside_bar_cases; simp add: ledger_ok_def)+
  have r: "representable (st_equity s2)"
    using 2(1) equity_representable [OF assms(4)] by (simp add: ledger_ok_def)
  let ?m = "dadd (st_equity s2) (unrealized_of c (st_position s2))"
  have m: "?m = st_equity s2" if "st_position s2 = None"
    using that r by (simp add: unrealized_of_def dadd_def dround_representable)
  have peak: "0 < max (st_peak s) ?m" "bt_initial_capital cfg \<le> max (st_peak s) ?m"
    using assms(2,3) by (auto simp: accounts_ok_def)
  show ?thesis
    using assms(2) 2 m peak bt_drawdown_nonneg [OF peak(1), of ?m]
    by (auto simp: s' accounts_ok_def mark_bar_def Let_def ledger_ok_def le_max_iff_disj)
qed

lemma ledger_loop:
  assumes "bt_loop calc policy cfg provider before cs s = Inr s'" "accounts_ok cfg s"
    "0 < bt_initial_capital cfg" "representable (bt_initial_capital cfg)"
  shows "accounts_ok cfg s'"
  using assms(1,2)
proof (induction cs arbitrary: before s)
  case (Cons c cs)
  then show ?case using ledger_step [OF _ _ assms(3,4)] by (auto simp: rbind_eq_Inr)
qed simp

lemma ledger_finish:
  assumes "bt_finish calc cfg cs s = Inr s'" "accounts_ok cfg s" "0 < bt_initial_capital cfg"
    "length (st_equity_curve s) = length cs"
  shows "st_equity s' = foldl dadd (bt_initial_capital cfg) (map tr_net_pnl (st_trades s'))"
    "\<forall>(t, d) \<in> set (st_drawdown_curve s'). 0 \<le> d"
    "cs \<noteq> [] \<Longrightarrow> snd (last (st_equity_curve s')) = st_equity s'"
proof -
  have "st_equity s' = foldl dadd (bt_initial_capital cfg) (map tr_net_pnl (st_trades s'))
    \<and> (\<forall>(t, d) \<in> set (st_drawdown_curve s'). 0 \<le> d)
    \<and> (cs \<noteq> [] \<longrightarrow> snd (last (st_equity_curve s')) = st_equity s')"
  proof (cases "st_position s = None \<or> cs = []")
    case True
    then have "s' = s" using assms(1) by (auto simp: bt_finish_def split: option.splits)
    then show ?thesis using assms(2,4) True by (auto simp: accounts_ok_def)
  next
    case False
    then obtain tr eq where tr: "s' = s\<lparr>st_trades := st_trades s @ [tr], st_equity := eq, st_peak := max (st_peak s) eq,
        st_equity_curve := butlast (st_equity_curve s) @ [(candle_timestamp (last cs), eq)],
        st_drawdown_curve := butlast (st_drawdown_curve s) @
          [(candle_timestamp (last cs), bt_drawdown (max (st_peak s) eq) eq)]\<rparr>"
      and eq: "eq = dadd (st_equity s) (tr_net_pnl tr)"
      using assms(1) by (auto simp: bt_finish_def Let_def rbind_eq_Inr)
    have "0 < max (st_peak s) eq" using assms(2,3) by (auto simp: accounts_ok_def less_max_iff_disj)
    from bt_drawdown_nonneg [OF this, of eq] assms(2) show ?thesis
      by (auto simp: tr eq accounts_ok_def dest: in_set_butlastD)
  qed
  then show "st_equity s' = foldl dadd (bt_initial_capital cfg) (map tr_net_pnl (st_trades s'))"
    "\<forall>(t, d) \<in> set (st_drawdown_curve s'). 0 \<le> d"
    "cs \<noteq> [] \<Longrightarrow> snd (last (st_equity_curve s')) = st_equity s'" by auto
qed

lemma foldl_max_ge: "(a :: rat) \<le> foldl max a xs \<and> (\<forall>x \<in> set xs. x \<le> foldl max a xs)"
  by (induction xs arbitrary: a) (auto intro: order_trans [OF max.cobounded1] order_trans [OF max.cobounded2])

lemma max_default_ge: "x \<in> set xs \<Longrightarrow> x \<le> max_default xs"
  using foldl_max_ge by (cases xs) (auto simp: max_default_def)

text \<open>The result of a backtest balances.  The final equity is the initial capital plus the net
  results of the trade ledger, added in order; it is the last point of the equity curve; both curves
  have exactly one point per candle, at its time; the trade count is the length of the ledger;
  every drawdown is non-negative and at most the reported maximum; and a run on no candles ends
  where it began.\<close>

theorem backtest_result_balances:
  assumes "run_backtest calc policy sharpe cfg provider cs = Inr r"
    and "make_backtest_config cfg = Inr cfg" and "representable (bt_initial_capital cfg)"
  shows "res_final_equity r = foldl dadd (bt_initial_capital cfg) (map tr_net_pnl (res_trades r))
    \<and> (cs \<noteq> [] \<longrightarrow> snd (last (res_equity_curve r)) = res_final_equity r)
    \<and> map fst (res_equity_curve r) = map candle_timestamp cs
    \<and> map fst (res_drawdown_curve r) = map candle_timestamp cs
    \<and> me_trade_count (res_metrics r) = length (res_trades r)
    \<and> (\<forall>(t, d) \<in> set (res_drawdown_curve r). 0 \<le> d \<and> d \<le> me_maximum_drawdown (res_metrics r))
    \<and> (cs = [] \<longrightarrow> res_final_equity r = bt_initial_capital cfg \<and> res_trades r = [])"
proof -
  have cap: "0 < bt_initial_capital cfg"
    using assms(2) by (auto simp: make_backtest_config_def split: if_splits)
  from assms(1) obtain s0 s where loop: "bt_loop calc policy cfg provider [] cs (bt_start cfg) = Inr s0"
    and fin: "bt_finish calc cfg cs s0 = Inr s"
    and out: "res_final_equity r = st_equity s" "res_equity_curve r = st_equity_curve s"
      "res_drawdown_curve r = st_drawdown_curve s" "res_trades r = st_trades s"
    and me: "res_metrics r = backtest_metrics sharpe (bt_initial_capital cfg) (st_equity_curve s)
       (st_drawdown_curve s) (st_trades s) (bt_annualization_sessions cfg)"
    by (rule run_backtest_Inr)
  have "accounts_ok cfg (bt_start cfg)" by (simp add: accounts_ok_def bt_start_def)
  then have ok: "accounts_ok cfg s0" by (rule ledger_loop [OF loop _ cap assms(3)])
  from bt_loop_appends [OF loop] have c0: "map fst (st_equity_curve s0) = map candle_timestamp cs"
    "map fst (st_drawdown_curve s0) = map candle_timestamp cs"
    by (auto simp: bt_start_def)
  have len: "length (st_equity_curve s0) = length cs" using arg_cong [OF c0(1), of length] by simp
  note f = ledger_finish [OF fin ok cap len]
  have curves: "map fst (st_equity_curve s) = map candle_timestamp cs"
    "map fst (st_drawdown_curve s) = map candle_timestamp cs"
    using fin c0 by (auto simp: bt_finish_def Let_def rbind_eq_Inr map_butlast snoc_eq_iff_butlast last_map
        split: option.splits if_splits)
  have max: "d \<le> me_maximum_drawdown (res_metrics r)" if "(t, d) \<in> set (st_drawdown_curve s)" for t d
  proof -
    have "d \<in> set (map snd (st_drawdown_curve s))" using that by force
    then show ?thesis
      using max_default_ge by (simp add: me backtest_metrics_def Let_def split_beta)
  qed
  have none: "cs = [] \<longrightarrow> st_trades s = []" using loop fin by (auto simp: bt_start_def bt_finish_def)
  show ?thesis
    using f curves max none unfolding out
    by (auto simp: me backtest_metrics_def Let_def split_beta)
qed

lemma demo_config_ok: "make_backtest_config demo_config = Inr demo_config"
  by (simp add: make_backtest_config_def demo_defs)

theorem backtest_result_balances_witness:
  "\<exists>r. demo_run (demo_candles @ [bar 180 104 104 90 91]) = Inr r
     \<and> res_final_equity r = foldl dadd 10000 (map tr_net_pnl (res_trades r))
     \<and> length (res_equity_curve r) = 3"
proof -
  obtain r where r: "demo_run (demo_candles @ [bar 180 104 104 90 91]) = Inr r"
    using demo_run_exists [OF disjI2 [OF refl]] by blast
  have "representable (bt_initial_capital demo_config)"
    using representable_of_int [of 10000] by (simp add: demo_config_def)
  from backtest_result_balances [OF r demo_config_ok this]
  have "map fst (res_equity_curve r) = map candle_timestamp (demo_candles @ [bar 180 104 104 90 91])"
    "res_final_equity r = foldl dadd 10000 (map tr_net_pnl (res_trades r))"
    by (simp_all add: demo_config_def)
  then have "length (res_equity_curve r) = 3" using arg_cong [where f = length] by (fastforce simp: demo_candles_def)
  with r \<open>res_final_equity r = foldl dadd 10000 (map tr_net_pnl (res_trades r))\<close> show ?thesis by blast
qed

section \<open>The order of events\<close>

text \<open>
  A position held after \<open>n\<close> candles was entered at the open of a candle \<open>k < n\<close>, on the decision the
  provider gave for exactly the \<open>k\<close> candles before it.
\<close>

definition entered_before ::
  "(decision_result \<Rightarrow> decimal \<Rightarrow> decimal \<Rightarrow> backtest_risk_decision result) \<Rightarrow> backtest_config
   \<Rightarrow> decision_provider \<Rightarrow> candle list \<Rightarrow> nat \<Rightarrow> bt_position \<Rightarrow> bool" where
  "entered_before policy cfg provider cs n p \<longleftrightarrow>
     (\<exists>k d eq. 0 < k \<and> k < n \<and> n \<le> length cs \<and> provider (take k cs) = Inr d
        \<and> entered_position policy cfg (cs ! k) eq d p)"

definition exited_before ::
  "(decision_result \<Rightarrow> decimal \<Rightarrow> decimal \<Rightarrow> backtest_risk_decision result) \<Rightarrow> backtest_config
   \<Rightarrow> decision_provider \<Rightarrow> candle list \<Rightarrow> nat \<Rightarrow> backtest_trade \<Rightarrow> bool" where
  "exited_before policy cfg provider cs n t \<longleftrightarrow>
     (\<exists>p m. entered_before policy cfg provider cs n p \<and> trade_of_position p t \<and> m < n
        \<and> tr_exited_at t = candle_timestamp (cs ! m) \<and> tr_entered_at t \<le> tr_exited_at t)"

definition sequential :: "backtest_trade list \<Rightarrow> bool" where
  "sequential ts \<longleftrightarrow> sorted_wrt (\<lambda>a b. tr_exited_at a < tr_entered_at b) ts"

definition events_ok ::
  "(decision_result \<Rightarrow> decimal \<Rightarrow> decimal \<Rightarrow> backtest_risk_decision result) \<Rightarrow> backtest_config
   \<Rightarrow> decision_provider \<Rightarrow> candle list \<Rightarrow> nat \<Rightarrow> bt_state \<Rightarrow> bool" where
  "events_ok policy cfg provider cs n s \<longleftrightarrow>
     (\<forall>t \<in> set (st_trades s). exited_before policy cfg provider cs n t) \<and> sequential (st_trades s)
     \<and> (\<forall>p. st_position s = Some p \<longrightarrow> entered_before policy cfg provider cs n p
          \<and> (\<forall>t \<in> set (st_trades s). tr_exited_at t < bp_entered_at p))"

lemma entered_before_mono: "entered_before policy cfg provider cs n p \<Longrightarrow> n \<le> m \<Longrightarrow> m \<le> length cs
    \<Longrightarrow> entered_before policy cfg provider cs m p"
  unfolding entered_before_def by (meson less_le_trans)

lemma exited_before_mono: "exited_before policy cfg provider cs n t \<Longrightarrow> n \<le> m \<Longrightarrow> m \<le> length cs
    \<Longrightarrow> exited_before policy cfg provider cs m t"
  unfolding exited_before_def by (meson entered_before_mono less_le_trans)

lemma events_ok_mono: "events_ok policy cfg provider cs n s \<Longrightarrow> n \<le> m \<Longrightarrow> m \<le> length cs
    \<Longrightarrow> events_ok policy cfg provider cs m s"
  unfolding events_ok_def by (meson entered_before_mono exited_before_mono)

lemma events_ok_cong:
  "st_trades s' = st_trades s \<Longrightarrow> st_position s' = st_position s
     \<Longrightarrow> events_ok policy cfg provider cs n s' = events_ok policy cfg provider cs n s"
  by (simp add: events_ok_def)

lemma entered_before_time:
  assumes "chronological cs" "entered_before policy cfg provider cs n p"
  shows "bp_entered_at p \<le> candle_timestamp (cs ! (n - 1))"
proof -
  obtain k where k: "0 < k" "k < n" "n \<le> length cs" "bp_entered_at p = candle_timestamp (cs ! k)"
    using assms(2) by (auto simp: entered_before_def entered_position_def)
  show ?thesis
  proof (cases "k = n - 1")
    case False
    with k have "k < n - 1" "n - 1 < length cs" by linarith+
    from chronological_less [OF assms(1) this] show ?thesis by (simp add: k(4))
  qed (simp add: k)
qed

lemma exited_before_time:
  assumes "chronological cs" "exited_before policy cfg provider cs n t" "n < length cs"
  shows "tr_exited_at t < candle_timestamp (cs ! n)"
  using assms chronological_less [OF assms(1)] by (auto simp: exited_before_def)

text \<open>Closing a held position at candle \<open>n\<close>.\<close>

lemma events_ok_realize:
  assumes ch: "chronological cs" and ok: "events_ok policy cfg provider cs (Suc n) s"
    and p: "st_position s = Some p" and n: "n < length cs"
    and cl: "close_position calc cfg p (candle_timestamp (cs ! n)) raw reason = Inr tr"
  shows "events_ok policy cfg provider cs (Suc n) (realize s tr)"
proof -
  have e: "entered_before policy cfg provider cs (Suc n) p"
    and before: "\<forall>t \<in> set (st_trades s). tr_exited_at t < bp_entered_at p"
    using ok p by (auto simp: events_ok_def)
  have t: "trade_of_position p tr" "tr_exited_at tr = candle_timestamp (cs ! n)"
    using close_position_fields [OF cl] by auto
  have "tr_entered_at tr \<le> tr_exited_at tr"
    using entered_before_time [OF ch e] t by (simp add: trade_of_position_def)
  then have "exited_before policy cfg provider cs (Suc n) tr"
    using e t unfolding exited_before_def by (intro exI [of _ p] exI [of _ n]) simp
  moreover have "\<forall>t \<in> set (st_trades s). tr_exited_at t < tr_entered_at tr"
    using before t(1) by (simp add: trade_of_position_def)
  ultimately show ?thesis
    using ok by (auto simp: events_ok_def sequential_def sorted_wrt_append)
qed

text \<open>The queued decision is the one of the last candle.\<close>

definition queued_ok :: "decision_provider \<Rightarrow> candle list \<Rightarrow> nat \<Rightarrow> bt_state \<Rightarrow> bool" where
  "queued_ok provider cs n s \<longleftrightarrow>
     (\<forall>d. st_pending s = Some d \<longrightarrow> 0 < n \<and> provider (take n cs) = Inr d)"

lemma events_step:
  assumes step: "bt_step calc policy cfg provider (take n cs) (cs ! n) s = Inr s'"
    and ch: "chronological cs" and n: "n < length cs"
    and ok: "events_ok policy cfg provider cs n s" and q: "queued_ok provider cs n s"
  shows "events_ok policy cfg provider cs (Suc n) s' \<and> queued_ok provider cs (Suc n) s'"
proof -
  let ?c = "cs ! n"
  obtain s1 s2 d where s1: "execute_pending calc policy cfg ?c s = Inr s1"
    and s2: "exit_inside_bar calc cfg ?c s1 = Inr s2" and d: "provider (take n cs @ [?c]) = Inr d"
    and s': "s' = mark_bar ?c (queue_decision d s2)"
    using step by (auto simp: bt_step_def rbind_eq_Inr)
  have ok': "events_ok policy cfg provider cs (Suc n) s"
    using ok n by (auto intro: events_ok_mono)
  have "events_ok policy cfg provider cs (Suc n) s1"
    using s1
  proof (cases rule: execute_pending_cases)
    case (closed_by_signal p e tr)
    from events_ok_realize [OF ch ok' closed_by_signal(2) n closed_by_signal(4)] closed_by_signal(5)
    show ?thesis by (simp add: events_ok_def)
  next
    case (entered e p)
    have "entered_before policy cfg provider cs (Suc n) p"
      using q entered(1,3) n unfolding entered_before_def queued_ok_def by (intro exI [of _ n]) auto
    moreover have "\<forall>t \<in> set (st_trades s). tr_exited_at t < bp_entered_at p"
      using ok exited_before_time [OF ch _ n] entered(3) by (auto simp: events_ok_def entered_position_def)
    ultimately show ?thesis
      using ok' entered(4) by (simp add: events_ok_def)
  next
    case (other rs)
    with ok' show ?thesis by (simp add: events_ok_def)
  qed
  moreover have "events_ok policy cfg provider cs (Suc n) s2" if "events_ok policy cfg provider cs (Suc n) s1"
    using s2
  proof (cases rule: exit_inside_bar_cases)
    case (exited p raw reason tr)
    from events_ok_realize [OF ch that exited(1) n exited(3)] exited(4) show ?thesis by simp
  qed (use that in simp)
  moreover have "st_pending s2 = None"
    using execute_pending_clears [OF s1] exit_inside_bar_pending [OF s2] by simp
  moreover have "take (Suc n) cs = take n cs @ [?c]"
    using n by (rule take_Suc_conv_app_nth)
  ultimately show ?thesis
    using d by (auto simp: s' queued_ok_def queue_decision_def events_ok_def)
qed

lemma events_loop:
  assumes "bt_loop calc policy cfg provider (take n cs) (drop n cs) s = Inr s'" "chronological cs"
    "n \<le> length cs" "events_ok policy cfg provider cs n s" "queued_ok provider cs n s"
  shows "events_ok policy cfg provider cs (length cs) s'"
  using assms
proof (induction "length cs - n" arbitrary: n s)
  case (Suc m)
  then have n: "n < length cs" by simp
  then have dr: "drop n cs = cs ! n # drop (Suc n) cs" and tk: "take (Suc n) cs = take n cs @ [cs ! n]"
    by (simp_all add: Cons_nth_drop_Suc take_Suc_conv_app_nth)
  from Suc.prems(1) obtain s1 where s1: "bt_step calc policy cfg provider (take n cs) (cs ! n) s = Inr s1"
    and r: "bt_loop calc policy cfg provider (take (Suc n) cs) (drop (Suc n) cs) s1 = Inr s'"
    by (auto simp: dr tk rbind_eq_Inr)
  from events_step [OF s1 Suc.prems(2) n Suc.prems(4,5)] Suc.hyps(1) [OF _ r Suc.prems(2)] Suc.hyps(2) n
  show ?case by simp
qed simp

text \<open>C14: Decisions execute on the next candle only, one position at a time.  Every trade was entered
  at the open of some candle k > 0, adversely slipped, in the direction, with the stop and the
  first target of the decision the provider gave for exactly the k candles before it, and with
  the quantity the risk policy approved for it; it exits at a candle of the run, not before its
  entry, and every later trade is entered strictly after it.\<close>

theorem backtest_trades_next_open_sequential:
  assumes "run_backtest calc policy sharpe cfg provider cs = Inr r"
  shows "sorted_wrt (\<lambda>a b. tr_exited_at a < tr_entered_at b) (res_trades r)
    \<and> (\<forall>t \<in> set (res_trades r). tr_entered_at t \<le> tr_exited_at t
         \<and> tr_exited_at t \<in> candle_timestamp ` set cs
         \<and> (\<exists>k d eq q. 0 < k \<and> k < length cs \<and> provider (take k cs) = Inr d
              \<and> tr_entered_at t = candle_timestamp (cs ! k) \<and> tr_direction t = dr_action d
              \<and> tr_entry_price t = slipped (candle_open (cs ! k)) (dr_action d) (bt_slippage_bps cfg)
              \<and> dr_proposed_stop d = Some (tr_stop t) \<and> tr_target t = hd (dr_proposed_targets d)
              \<and> policy d eq (tr_entry_price t) = Inr q \<and> br_approved q \<and> tr_quantity t = br_quantity q))"
proof -
  from assms obtain s0 s where ch: "chronological cs"
    and loop: "bt_loop calc policy cfg provider [] cs (bt_start cfg) = Inr s0"
    and fin: "bt_finish calc cfg cs s0 = Inr s" and out: "res_trades r = st_trades s"
    by (rule run_backtest_Inr)
  have ok: "events_ok policy cfg provider cs (length cs) s0"
    using events_loop [of calc policy cfg provider 0 cs "bt_start cfg" s0] loop ch
    by (simp add: events_ok_def queued_ok_def bt_start_def sequential_def)
  have "sequential (st_trades s) \<and> (\<forall>t \<in> set (st_trades s). exited_before policy cfg provider cs (length cs) t)"
  proof (cases "st_position s0 = None \<or> cs = []")
    case True
    then have "s = s0" using fin by (auto simp: bt_finish_def split: option.splits)
    with ok show ?thesis by (simp add: events_ok_def)
  next
    case False
    then obtain p where p: "st_position s0 = Some p" by auto
    define n where "n = length cs - 1"
    have n: "n < length cs" "Suc n = length cs" "last cs = cs ! n"
      using False by (auto simp: n_def last_conv_nth)
    obtain tr where tr: "close_position calc cfg p (candle_timestamp (cs ! n)) (candle_close (last cs)) END_OF_DATA = Inr tr"
      "st_trades s = st_trades s0 @ [tr]"
      using fin p False n(3) by (auto simp: bt_finish_def Let_def rbind_eq_Inr)
    from events_ok_realize [OF ch ok [folded n(2)] p n(1) tr(1)] show ?thesis
      by (simp add: n(2) events_ok_def tr(2))
  qed
  then show ?thesis
    unfolding out sequential_def exited_before_def entered_before_def entered_position_def trade_of_position_def
    by (auto intro!: imageI nth_mem) metis
qed

theorem backtest_trades_next_open_sequential_witness:
  "\<exists>r. demo_run (demo_candles @ [bar 180 104 104 90 91]) = Inr r
     \<and> sorted_wrt (\<lambda>a b. tr_exited_at a < tr_entered_at b) (res_trades r)"
proof -
  obtain r where r: "demo_run (demo_candles @ [bar 180 104 104 90 91]) = Inr r"
    using demo_run_exists [OF disjI2 [OF refl]] by blast
  from backtest_trades_next_open_sequential [OF r] r show ?thesis by blast
qed

section \<open>Exits inside a bar\<close>

text \<open>Exits inside a bar are conservative: when both the stop and the target are touched the stop
  wins; a stop never fills better than the stop price and a target never worse than the target; and
  on a well-formed candle the raw exit price lies within its range.\<close>

theorem intrabar_exit_conservative:
  assumes "candle_ok c" and "bp_direction p = LONG \<or> bp_direction p = SHORT"
    and "intrabar_exit p c = Some (price, reason)"
  shows "candle_low c \<le> price \<and> price \<le> candle_high c
    \<and> (reason = exit_reason.STOP \<longleftrightarrow>
         (if bp_direction p = LONG then candle_low c \<le> bp_stop p else bp_stop p \<le> candle_high c))
    \<and> (if reason = exit_reason.STOP
       then (if bp_direction p = LONG then price \<le> bp_stop p else bp_stop p \<le> price)
       else reason = TARGET \<and> (if bp_direction p = LONG then bp_target p \<le> price else price \<le> bp_target p))"
  using assms(2,3) candle_okD [OF assms(1)]
  by (auto simp: intrabar_exit_def min_def max_def split: if_splits)

theorem intrabar_exit_conservative_witness:
  "candle_low (bar 180 104 111 90 91) \<le> 95 \<and> (95 :: decimal) \<le> bp_stop demo_position"
proof -
  have c: "candle_ok (bar 180 104 111 90 91)"
    by (simp add: candle_ok_def candle_fields_ok_def bar_def)
  have "intrabar_exit demo_position (bar 180 104 111 90 91) = Some (95, exit_reason.STOP)"
    by (simp add: intrabar_exit_def demo_position_def bar_def)
  from intrabar_exit_conservative [OF c _ this] show ?thesis
    by (simp add: demo_position_def)
qed

end
