(* ===== verification/Backtest_Validation.thy ===== *)
theory Backtest_Validation
  imports Backtest_Engine "HOL-Library.Multiset"
begin

text \<open>
  Out-of-sample validation and robustness analysis, \<open>packages/backtesting/validation.py\<close>: the
  chronological split, the walk-forward windows, trade-sequence Monte Carlo with its linear
  congruential generator, parameter stability, cost sensitivity, the benchmark comparison and the
  selection of a candidate on validation data.  A tuple is a list, a slice with non-negative
  bounds is \<open>slice\<close>.  The \<open>while True\<close> loop of the walk-forward windows is a partial function, so
  that its termination is a theorem.  A score that is NaN or infinite is \<open>None\<close>.
\<close>

text \<open>\<open>xs[a:b]\<close> for \<open>0 \<le> a\<close> and \<open>0 \<le> b\<close>.\<close>

definition slice :: "'a list \<Rightarrow> int \<Rightarrow> int \<Rightarrow> 'a list" where
  "slice xs a b = take (nat b - nat a) (drop (nat a) xs)"

lemma length_slice:
  "0 \<le> a \<Longrightarrow> a \<le> b \<Longrightarrow> b \<le> int (length xs) \<Longrightarrow> int (length (slice xs a b)) = b - a"
  by (auto simp: slice_def min_def)

lemma slice_append: "0 \<le> a \<Longrightarrow> a \<le> b \<Longrightarrow> b \<le> c \<Longrightarrow> slice xs a b @ slice xs b c = slice xs a c"
proof -
  assume le: "0 \<le> a" "a \<le> b" "b \<le> c"
  then have c: "nat c - nat a = (nat b - nat a) + (nat c - nat b)" by linarith
  have d: "(nat b - nat a) + nat a = nat b" using le by linarith
  show ?thesis
    unfolding slice_def c take_add drop_drop d by simp
qed

lemma slice_all: "slice xs 0 (int (length xs)) = xs"
  by (simp add: slice_def)

section \<open>The chronological split\<close>

record 'a chrono_split =
  sp_train :: "'a list"
  sp_validation :: "'a list"
  sp_test :: "'a list"

definition chronological_split :: "'a list \<Rightarrow> decimal \<Rightarrow> decimal \<Rightarrow> 'a chrono_split result" where
  "chronological_split values train_fraction validation_fraction =
     (if values = [] then Inl (ValueError ''chronological split requires observations'')
      else if train_fraction \<le> 0 \<or> validation_fraction \<le> 0
      then Inl (ValueError ''train and validation fractions must be positive'')
      else if dadd train_fraction validation_fraction \<ge> 1
      then Inl (ValueError ''train plus validation fraction must be below 1'')
      else
        let n = int (length values);
            train_end = dint (dmul (of_int n) train_fraction);
            validation_end = train_end + dint (dmul (of_int n) validation_fraction)
        in if train_end < 1 \<or> validation_end \<le> train_end \<or> validation_end \<ge> n
           then Inl (ValueError ''split produces an empty partition'')
           else Inr \<lparr>sp_train = slice values 0 train_end, sp_validation = slice values train_end validation_end,
                     sp_test = slice values validation_end n\<rparr>)"

section \<open>Walk-forward windows\<close>

record 'a walk_forward_fold =
  wf_train :: "'a list"
  wf_validation :: "'a list"
  wf_test :: "'a list"

definition fold_at :: "'a list \<Rightarrow> int \<Rightarrow> int \<Rightarrow> int \<Rightarrow> bool \<Rightarrow> int \<Rightarrow> 'a walk_forward_fold" where
  "fold_at values train_size validation_size test_size expanding offset =
     (let train_start = (if expanding then 0 else offset);
          train_end = offset + train_size;
          validation_end = train_end + validation_size;
          test_end = validation_end + test_size
      in \<lparr>wf_train = slice values train_start train_end, wf_validation = slice values train_end validation_end,
          wf_test = slice values validation_end test_end\<rparr>)"

partial_function (option) walk_forward_loop ::
  "'a list \<Rightarrow> int \<Rightarrow> int \<Rightarrow> int \<Rightarrow> int \<Rightarrow> bool \<Rightarrow> int \<Rightarrow> 'a walk_forward_fold list
   \<Rightarrow> 'a walk_forward_fold list option" where
  "walk_forward_loop values train_size validation_size test_size step expanding offset folds =
     (if offset + train_size + validation_size + test_size > int (length values) then Some folds
      else walk_forward_loop values train_size validation_size test_size step expanding (offset + step)
             (folds @ [fold_at values train_size validation_size test_size expanding offset]))"

text \<open>\<open>step_size or test_size\<close>: an absent or zero step is the test size.\<close>

definition step_or :: "int option \<Rightarrow> int \<Rightarrow> int" where
  "step_or step_size test_size =
     (case step_size of None \<Rightarrow> test_size | Some s \<Rightarrow> if s = 0 then test_size else s)"

definition walk_forward_folds ::
  "'a list \<Rightarrow> int \<Rightarrow> int \<Rightarrow> int \<Rightarrow> int option \<Rightarrow> bool \<Rightarrow> 'a walk_forward_fold list result option" where
  "walk_forward_folds values train_size validation_size test_size step_size expanding =
     (if min train_size (min validation_size test_size) \<le> 0
      then Some (Inl (ValueError ''walk-forward window sizes must be positive''))
      else
        let step = step_or step_size test_size in
        if step \<le> 0 then Some (Inl (ValueError ''walk-forward step must be positive''))
        else case walk_forward_loop values train_size validation_size test_size step expanding 0 [] of
               None \<Rightarrow> None
             | Some folds \<Rightarrow>
                 if folds = [] then Some (Inl (ValueError ''insufficient observations for one walk-forward fold''))
                 else Some (Inr folds))"

section \<open>Drawdown, median and percentile\<close>

definition drawdown_point :: "decimal \<times> decimal \<Rightarrow> decimal \<Rightarrow> decimal \<times> decimal" where
  "drawdown_point s e =
     (let peak = max (fst s) e
      in (peak, if 0 < peak then max (snd s) (dquot (dsub peak e) peak) else snd s))"

text \<open>\<open>_maximum_drawdown\<close>; the first element of an empty path raises.\<close>

definition maximum_drawdown :: "decimal list \<Rightarrow> decimal result" where
  "maximum_drawdown path =
     (case path of [] \<Rightarrow> Inl IndexError | e # _ \<Rightarrow> Inr (snd (foldl drawdown_point (e, 0) path)))"

text \<open>\<open>statistics.median\<close> of Decimals; no data raises.\<close>

definition median_of :: "decimal list \<Rightarrow> decimal result" where
  "median_of xs =
     (let s = sort xs; n = length xs; i = n div 2 in
      if n = 0 then Inl (ValueError ''no median for empty data'')
      else if odd n then Inr (s ! i) else Inr (dquot (dadd (s ! (i - 1)) (s ! i)) 2))"

text \<open>\<open>xs[i]\<close>, with Python's negative indices.\<close>

definition index_at :: "'a list \<Rightarrow> int \<Rightarrow> 'a result" where
  "index_at xs i =
     (let n = int (length xs) in
      if 0 \<le> i \<and> i < n then Inr (xs ! nat i)
      else if - n \<le> i \<and> i < 0 then Inr (xs ! nat (n + i))
      else Inl IndexError)"

definition percentile_of :: "decimal list \<Rightarrow> decimal \<Rightarrow> decimal result" where
  "percentile_of sorted_values percentile =
     (if sorted_values = [] then Inl (ValueError ''percentile requires values'')
      else index_at sorted_values (dint (dhalf_up (dmul (of_int (int (length sorted_values) - 1)) percentile))))"

section \<open>Trade-sequence Monte Carlo\<close>

definition lcg_next :: "int \<Rightarrow> int" where
  "lcg_next state = (1664525 * state + 1013904223) mod 2 ^ 32"

text \<open>\<open>result[i], result[j] = result[j], result[i]\<close>.\<close>

definition swap_at :: "'a list \<Rightarrow> nat \<Rightarrow> nat \<Rightarrow> 'a list" where
  "swap_at xs i j = xs[i := xs ! j, j := xs ! i]"

primrec shuffle_down :: "nat \<Rightarrow> 'a list \<Rightarrow> int \<Rightarrow> 'a list \<times> int" where
  "shuffle_down 0 xs state = (xs, state)"
| "shuffle_down (Suc k) xs state =
     (let state' = lcg_next state; selected = nat (state' mod (int (Suc k) + 1))
      in shuffle_down k (swap_at xs (Suc k) selected) state')"

definition deterministic_shuffle :: "'a list \<Rightarrow> int \<Rightarrow> 'a list \<times> int" where
  "deterministic_shuffle values state = shuffle_down (length values - 1) values state"

definition equity_path :: "decimal \<Rightarrow> decimal list \<Rightarrow> decimal list" where
  "equity_path initial pnls = foldl (\<lambda>path pnl. path @ [dadd (last path) pnl]) [initial] pnls"

record mc_state =
  mc_lcg :: int
  mc_finals :: "decimal list"
  mc_drawdowns :: "decimal list"
  mc_losing :: nat

definition simulate_once :: "decimal list \<Rightarrow> decimal \<Rightarrow> mc_state \<Rightarrow> mc_state result" where
  "simulate_once source initial s =
     (let (shuffled, state) = deterministic_shuffle source (mc_lcg s);
          path = equity_path initial shuffled
      in rbind (maximum_drawdown path) (\<lambda>dd.
           Inr \<lparr>mc_lcg = state, mc_finals = mc_finals s @ [last path], mc_drawdowns = mc_drawdowns s @ [dd],
                mc_losing = mc_losing s + (if last path < initial then 1 else 0)\<rparr>))"

primrec simulate :: "nat \<Rightarrow> decimal list \<Rightarrow> decimal \<Rightarrow> mc_state \<Rightarrow> mc_state result" where
  "simulate 0 source initial s = Inr s"
| "simulate (Suc n) source initial s = rbind (simulate_once source initial s) (simulate n source initial)"

record monte_carlo_result =
  mr_seed :: int
  mr_simulations :: int
  mr_median_final_equity :: decimal
  mr_fifth_percentile :: decimal
  mr_ninety_fifth_percentile :: decimal
  mr_median_maximum_drawdown :: decimal
  mr_worst_maximum_drawdown :: decimal
  mr_probability_of_loss :: decimal

definition monte_carlo_trade_sequences ::
  "decimal list \<Rightarrow> decimal \<Rightarrow> int \<Rightarrow> int \<Rightarrow> monte_carlo_result result" where
  "monte_carlo_trade_sequences net_pnls initial_capital simulations seed =
     (if net_pnls = [] then Inl (ValueError ''Monte Carlo requires trades'')
      else if initial_capital \<le> 0 \<or> simulations \<le> 0
      then Inl (ValueError ''capital and simulation count must be positive'')
      else
        rbind (simulate (nat simulations) net_pnls initial_capital
                 \<lparr>mc_lcg = seed mod 2 ^ 32, mc_finals = [], mc_drawdowns = [], mc_losing = 0\<rparr>) (\<lambda>s.
        let finals = sort (mc_finals s); drawdowns = sort (mc_drawdowns s) in
        rbind (median_of finals) (\<lambda>med.
        rbind (percentile_of finals (5 / 100)) (\<lambda>p5.
        rbind (percentile_of finals (95 / 100)) (\<lambda>p95.
        rbind (median_of drawdowns) (\<lambda>meddd.
        rbind (index_at drawdowns (- 1)) (\<lambda>worst.
        rbind (ddiv (of_nat (mc_losing s)) (of_int simulations)) (\<lambda>p.
        Inr \<lparr>mr_seed = seed, mr_simulations = simulations, mr_median_final_equity = med,
             mr_fifth_percentile = p5, mr_ninety_fifth_percentile = p95,
             mr_median_maximum_drawdown = meddd, mr_worst_maximum_drawdown = worst,
             mr_probability_of_loss = p\<rparr>))))))))"

section \<open>Parameter stability\<close>

record parameter_stability_result =
  ps_median_score :: decimal
  ps_minimum_score :: decimal
  ps_maximum_score :: decimal
  ps_positive_fraction :: decimal
  ps_maximum_neighbor_change :: decimal
  ps_stable :: bool

definition neighbor_change :: "decimal \<Rightarrow> decimal \<Rightarrow> decimal" where
  "neighbor_change l r = dquot (dabs (dsub r l)) (max (max (dabs l) (dabs r)) (1 / 10000000))"

definition neighbor_changes :: "decimal list \<Rightarrow> decimal list" where
  "neighbor_changes xs = map (\<lambda>(l, r). neighbor_change l r) (zip xs (tl xs))"

definition assess_parameter_stability ::
  "decimal list \<Rightarrow> decimal \<Rightarrow> decimal \<Rightarrow> parameter_stability_result result" where
  "assess_parameter_stability ordered_scores minimum_positive_fraction maximum_neighbor_change =
     (if length ordered_scores < 3
      then Inl (ValueError ''parameter stability requires at least three ordered scores'')
      else if \<not> (0 \<le> minimum_positive_fraction \<and> minimum_positive_fraction \<le> 1)
      then Inl (ValueError ''minimum positive fraction must be between 0 and 1'')
      else if maximum_neighbor_change < 0
      then Inl (ValueError ''maximum neighbor change cannot be negative'')
      else
        let changes = neighbor_changes ordered_scores;
            positive_fraction =
              dquot (of_nat (length (filter (\<lambda>s. 0 < s) ordered_scores))) (of_nat (length ordered_scores));
            observed_change = Max (set changes)
        in rbind (median_of ordered_scores) (\<lambda>med.
             Inr \<lparr>ps_median_score = med, ps_minimum_score = Min (set ordered_scores),
                  ps_maximum_score = Max (set ordered_scores), ps_positive_fraction = positive_fraction,
                  ps_maximum_neighbor_change = observed_change,
                  ps_stable = (positive_fraction \<ge> minimum_positive_fraction
                     \<and> observed_change \<le> maximum_neighbor_change)\<rparr>))"

section \<open>Cost sensitivity and benchmark\<close>

record cost_sensitivity_point =
  cs_additional_cost_bps :: decimal
  cs_adjusted_net_profit :: decimal
  cs_profitable :: bool

definition traded_turnover :: "backtest_trade list \<Rightarrow> decimal" where
  "traded_turnover trades =
     dsum (map (\<lambda>t. dmul (dadd (tr_entry_price t) (tr_exit_price t)) (tr_quantity t)) trades)"

definition adjusted_profit :: "decimal \<Rightarrow> decimal \<Rightarrow> decimal \<Rightarrow> decimal" where
  "adjusted_profit base turnover cost = dsub base (dquot (dmul turnover cost) 10000)"

definition cost_sensitivity ::
  "backtest_trade list \<Rightarrow> decimal list \<Rightarrow> cost_sensitivity_point list result" where
  "cost_sensitivity trades extra_costs_bps =
     (if list_ex (\<lambda>c. c < 0) extra_costs_bps
      then Inl (ValueError ''additional costs cannot be negative'')
      else
        let base = dsum (map tr_net_pnl trades); turnover = traded_turnover trades
        in Inr (map (\<lambda>c. \<lparr>cs_additional_cost_bps = c, cs_adjusted_net_profit = adjusted_profit base turnover c,
                           cs_profitable = 0 < adjusted_profit base turnover c\<rparr>) extra_costs_bps))"

record benchmark_comparison =
  bm_strategy_return :: decimal
  bm_benchmark_return :: decimal
  bm_excess_return :: decimal

definition total_return_of :: "decimal list \<Rightarrow> decimal" where
  "total_return_of xs = dsub (dquot (last xs) (hd xs)) 1"

definition compare_benchmark :: "decimal list \<Rightarrow> decimal list \<Rightarrow> benchmark_comparison result" where
  "compare_benchmark strategy_equity benchmark_equity =
     (if length strategy_equity < 2 \<or> length strategy_equity \<noteq> length benchmark_equity
      then Inl (ValueError ''strategy and benchmark require equal aligned series of length at least two'')
      else if hd strategy_equity \<le> 0 \<or> hd benchmark_equity \<le> 0
      then Inl (ValueError ''initial equity values must be positive'')
      else Inr \<lparr>bm_strategy_return = total_return_of strategy_equity,
                bm_benchmark_return = total_return_of benchmark_equity,
                bm_excess_return = dsub (total_return_of strategy_equity) (total_return_of benchmark_equity)\<rparr>)"

section \<open>Selection out of sample\<close>

record 'c candidate_score =
  cv_candidate :: 'c
  cv_validation_score :: decimal

record ('c, 't) out_of_sample_result =
  oos_selected_candidate :: 'c
  oos_candidate_scores :: "'c candidate_score list"
  oos_test_result :: 't

definition score_candidate ::
  "('c \<Rightarrow> 'o list \<Rightarrow> 'o list \<Rightarrow> decimal option result) \<Rightarrow> 'o list \<Rightarrow> 'o list \<Rightarrow> 'c
   \<Rightarrow> 'c candidate_score result" where
  "score_candidate score_validation train validation c =
     rbind (score_validation c train validation) (\<lambda>s.
       case s of None \<Rightarrow> Inl (ValueError ''validation scores must be finite'')
       | Some x \<Rightarrow> Inr \<lparr>cv_candidate = c, cv_validation_score = x\<rparr>)"

text \<open>\<open>max(xs, key=f)\<close> of a non-empty sequence: the first element whose key is largest.\<close>

definition first_max :: "('a \<Rightarrow> decimal) \<Rightarrow> 'a list \<Rightarrow> 'a" where
  "first_max f xs = foldl (\<lambda>best x. if f best < f x then x else best) (hd xs) (tl xs)"

definition run_out_of_sample_selection ::
  "'o chrono_split \<Rightarrow> 'c list \<Rightarrow> ('c \<Rightarrow> 'o list \<Rightarrow> 'o list \<Rightarrow> decimal option result)
   \<Rightarrow> ('c \<Rightarrow> 'o list \<Rightarrow> 't result) \<Rightarrow> ('c, 't) out_of_sample_result result" where
  "run_out_of_sample_selection split candidates score_validation evaluate_test =
     (if sp_train split = [] \<or> sp_validation split = [] \<or> sp_test split = []
      then Inl (ValueError ''out-of-sample selection requires non-empty partitions'')
      else if candidates = [] then Inl (ValueError ''out-of-sample selection requires candidates'')
      else
        rbind (rmap (score_candidate score_validation (sp_train split) (sp_validation split)) candidates) (\<lambda>scores.
        let selected = cv_candidate (first_max cv_validation_score scores) in
        rbind (evaluate_test selected (sp_test split)) (\<lambda>t.
        Inr \<lparr>oos_selected_candidate = selected, oos_candidate_scores = scores, oos_test_result = t\<rparr>)))"

section \<open>The split partitions the data\<close>

lemma chronological_split_partition:
  assumes "chronological_split vs f g = Inr sp"
  shows "sp_train sp @ sp_validation sp @ sp_test sp = vs \<and> sp_train sp \<noteq> [] \<and> sp_validation sp \<noteq> []
    \<and> sp_test sp \<noteq> []"
proof -
  define n where "n = int (length vs)"
  define a where "a = dint (dmul (of_int n) f)"
  define b where "b = a + dint (dmul (of_int n) g)"
  have sp: "sp = \<lparr>sp_train = slice vs 0 a, sp_validation = slice vs a b, sp_test = slice vs b n\<rparr>"
    and le: "1 \<le> a" "a < b" "b < n"
    using assms by (auto simp: chronological_split_def Let_def n_def a_def b_def split: if_splits)
  have "slice vs 0 a @ slice vs a b @ slice vs b n = vs"
    using le slice_append [of a b n vs] slice_append [of 0 a n vs] slice_all [of vs]
    by (simp add: n_def)
  moreover have "int (length (slice vs 0 a)) = a" "int (length (slice vs a b)) = b - a"
    "int (length (slice vs b n)) = n - b"
    using le by (simp_all add: length_slice n_def)
  then have "slice vs 0 a \<noteq> []" "slice vs a b \<noteq> []" "slice vs b n \<noteq> []"
    using le by auto
  ultimately show ?thesis by (simp add: sp)
qed

section \<open>The walk-forward loop ends\<close>

definition fold_count :: "int \<Rightarrow> int \<Rightarrow> nat" where
  "fold_count remaining step = (if remaining < 0 then 0 else nat (remaining div step + 1))"

lemma fold_count_step: "0 < step \<Longrightarrow> 0 \<le> remaining \<Longrightarrow> fold_count remaining step = Suc (fold_count (remaining - step) step)"
proof -
  assume s: "0 < step" "0 \<le> remaining"
  have d: "(remaining - step) div step = remaining div step - 1"
    using s div_add_self2 [of step "remaining - step"] by simp
  have "0 \<le> remaining div step" using s by (simp add: pos_imp_zdiv_nonneg_iff)
  moreover have "remaining < step \<Longrightarrow> remaining div step = 0" using s by simp
  moreover have "\<not> remaining < step \<Longrightarrow> 0 \<le> (remaining - step) div step"
    using s by (simp add: pos_imp_zdiv_nonneg_iff)
  ultimately show ?thesis
    using s d by (auto simp: fold_count_def Suc_nat_eq_nat_zadd1)
qed

lemma walk_forward_loop_closed:
  assumes "0 < step"
  shows "walk_forward_loop vs tr va te step ex offset folds =
    Some (folds @ map (\<lambda>k. fold_at vs tr va te ex (offset + int k * step))
            [0..<fold_count (int (length vs) - (tr + va + te) - offset) step])"
proof (induction "fold_count (int (length vs) - (tr + va + te) - offset) step" arbitrary: offset folds)
  case 0
  then have "int (length vs) < offset + tr + va + te"
    using assms fold_count_step [OF assms, of "int (length vs) - (tr + va + te) - offset"] by fastforce
  with 0 show ?case
    by (subst walk_forward_loop.simps) simp
next
  case (Suc m)
  define r where "r = int (length vs) - (tr + va + te) - offset"
  have r: "0 \<le> r" using Suc.hyps(2) by (auto simp: fold_count_def r_def split: if_splits)
  have next_r: "int (length vs) - (tr + va + te) - (offset + step) = r - step"
    by (simp add: r_def)
  from Suc.hyps(2) fold_count_step [OF assms r] have m: "fold_count (r - step) step = m"
    by (simp add: r_def)
  have "walk_forward_loop vs tr va te step ex offset folds
      = walk_forward_loop vs tr va te step ex (offset + step) (folds @ [fold_at vs tr va te ex offset])"
    using r by (subst walk_forward_loop.simps) (simp add: r_def)
  also have "\<dots> = Some ((folds @ [fold_at vs tr va te ex offset])
      @ map (\<lambda>k. fold_at vs tr va te ex (offset + step + int k * step)) [0..<m])"
    using Suc.hyps(1) [of "offset + step"] m next_r by simp
  also have "map (\<lambda>k. fold_at vs tr va te ex (offset + step + int k * step)) [0..<m]
      = map (\<lambda>k. fold_at vs tr va te ex (offset + int k * step)) [1..<Suc m]"
    unfolding map_Suc_upt [of 0 m, symmetric, unfolded One_nat_def [symmetric]]
    by (simp add: algebra_simps)
  finally show ?case
    using Suc.hyps(2) by (simp add: r_def upt_conv_Cons del: upt_Suc)
qed

text \<open>C40: The walk-forward construction always returns, whatever its inputs: the loop over the moving offset
  ends, it rejects non-positive sizes and steps, and otherwise it returns exactly one fold for
  every multiple of the step at which a whole train/validation/test window still fits; when there is none,
  the observations are reported as insufficient.\<close>

theorem walk_forward_terminates:
  "walk_forward_folds vs tr va te step_size ex =
     Some (let step = step_or step_size te; n = fold_count (int (length vs) - (tr + va + te)) step in
       if tr \<le> 0 \<or> va \<le> 0 \<or> te \<le> 0 then Inl (ValueError ''walk-forward window sizes must be positive'')
       else if step \<le> 0 then Inl (ValueError ''walk-forward step must be positive'')
       else if n = 0 then Inl (ValueError ''insufficient observations for one walk-forward fold'')
       else Inr (map (\<lambda>k. fold_at vs tr va te ex (int k * step)) [0..<n]))"
proof (cases "0 < step_or step_size te")
  case True
  show ?thesis
    using walk_forward_loop_closed [OF True, of vs tr va te ex 0 "[]"] True
    by (auto simp: walk_forward_folds_def Let_def min_def)
next
  case False
  then show ?thesis by (auto simp: walk_forward_folds_def Let_def min_def)
qed

lemma fold_at_contiguous:
  assumes "0 \<le> offset" "0 < tr" "0 < va" "0 < te" "offset + tr + va + te \<le> int (length vs)"
  shows "wf_train (fold_at vs tr va te ex offset) @ wf_validation (fold_at vs tr va te ex offset)
      @ wf_test (fold_at vs tr va te ex offset)
    = slice vs (if ex then 0 else offset) (offset + tr + va + te)"
    and "int (length (wf_validation (fold_at vs tr va te ex offset))) = va"
    and "int (length (wf_test (fold_at vs tr va te ex offset))) = te"
    and "int (length (wf_train (fold_at vs tr va te ex offset))) = (if ex then offset + tr else tr)"
  using assms by (simp_all add: fold_at_def Let_def length_slice slice_append)

section \<open>Selection uses the validation scores only\<close>

lemma first_max_foldl:
  assumes "ys \<noteq> []"
  shows "\<exists>i < length ys. first_max f ys = ys ! i \<and> (\<forall>j < i. f (ys ! j) < f (ys ! i))
      \<and> (\<forall>j < length ys. f (ys ! j) \<le> f (ys ! i))"
  using assms
proof (induction ys rule: rev_nonempty_induct)
  case (single x)
  then show ?case by (simp add: first_max_def)
next
  case (snoc x xs)
  then obtain i where i: "i < length xs" "first_max f xs = xs ! i" "\<forall>j < i. f (xs ! j) < f (xs ! i)"
    "\<forall>j < length xs. f (xs ! j) \<le> f (xs ! i)" by blast
  have step: "first_max f (xs @ [x]) = (if f (xs ! i) < f x then x else xs ! i)"
    using snoc.hyps i(2) by (simp add: first_max_def)
  show ?case
  proof (cases "f (xs ! i) < f x")
    case True
    have "f (xs ! j) < f x" if "j < length xs" for j
      using i(4) that True by fastforce
    with True step show ?thesis
      by (intro exI [of _ "length xs"]) (auto simp: nth_append less_Suc_eq_le less_imp_le)
  next
    case False
    with i step show ?thesis
      by (intro exI [of _ i]) (auto simp: nth_append less_Suc_eq)
  qed
qed

text \<open>A candidate is selected on training and validation data alone, and the held-out test partition
  is evaluated for that candidate only: the selected candidate is the first one with the largest
  validation score, each score being the one computed from the train and validation partitions,
  and the reported test result is the evaluation of the selected candidate on the test partition.\<close>

theorem selection_never_sees_test_data:
  assumes "run_out_of_sample_selection split candidates score evaluate = Inr r"
  shows "\<exists>i < length candidates. \<exists>scores. length scores = length candidates
    \<and> (\<forall>j < length candidates.
         score (candidates ! j) (sp_train split) (sp_validation split) = Inr (Some (scores ! j))
         \<and> oos_candidate_scores r ! j = \<lparr>cv_candidate = candidates ! j, cv_validation_score = scores ! j\<rparr>
         \<and> scores ! j \<le> scores ! i \<and> (j < i \<longrightarrow> scores ! j < scores ! i))
    \<and> oos_selected_candidate r = candidates ! i
    \<and> evaluate (candidates ! i) (sp_test split) = Inr (oos_test_result r)"
proof -
  obtain cvs t where cvs: "rmap (score_candidate score (sp_train split) (sp_validation split)) candidates = Inr cvs"
    and ne: "candidates \<noteq> []"
    and t: "evaluate (cv_candidate (first_max cv_validation_score cvs)) (sp_test split) = Inr t"
    and r: "r = \<lparr>oos_selected_candidate = cv_candidate (first_max cv_validation_score cvs),
             oos_candidate_scores = cvs, oos_test_result = t\<rparr>"
    using assms by (auto simp: run_out_of_sample_selection_def rbind_eq_Inr Let_def split: if_splits)
  have len: "length cvs = length candidates" using rmap_length [OF cvs] .
  have each: "score (candidates ! j) (sp_train split) (sp_validation split) = Inr (Some (cv_validation_score (cvs ! j)))
      \<and> cvs ! j = \<lparr>cv_candidate = candidates ! j, cv_validation_score = cv_validation_score (cvs ! j)\<rparr>"
    if "j < length candidates" for j
    using rmap_nth [OF cvs that] by (auto simp: score_candidate_def rbind_eq_Inr split: option.splits dest!: sym [of _ "cvs ! j"])
  obtain i where i: "i < length cvs" "first_max cv_validation_score cvs = cvs ! i"
    "\<forall>j < i. cv_validation_score (cvs ! j) < cv_validation_score (cvs ! i)"
    "\<forall>j < length cvs. cv_validation_score (cvs ! j) \<le> cv_validation_score (cvs ! i)"
    using first_max_foldl [of cvs cv_validation_score] ne len by fastforce
  have sel: "cv_candidate (cvs ! i) = candidates ! i"
    using each [of i] i(1) len by (metis candidate_score.select_convs(1))
  show ?thesis
    using i each len t sel
    by (intro exI [of _ i] conjI exI [of _ "map cv_validation_score cvs"]) (auto simp: r)
qed

definition demo_split :: "int chrono_split" where
  "demo_split = \<lparr>sp_train = [1, 2], sp_validation = [3], sp_test = [4]\<rparr>"

definition demo_score :: "nat \<Rightarrow> int list \<Rightarrow> int list \<Rightarrow> decimal option result" where
  "demo_score c train validation = Inr (Some (of_int (hd train) * of_nat (c mod 3)))"

lemma demo_selection:
  "run_out_of_sample_selection demo_split [4, 2, 5] demo_score (\<lambda>c test. Inr (c, test))
     = Inr \<lparr>oos_selected_candidate = 2,
            oos_candidate_scores = [\<lparr>cv_candidate = 4, cv_validation_score = 1\<rparr>,
              \<lparr>cv_candidate = 2, cv_validation_score = 2\<rparr>, \<lparr>cv_candidate = 5, cv_validation_score = 2\<rparr>],
            oos_test_result = (2, [4])\<rparr>"
  by (simp add: run_out_of_sample_selection_def score_candidate_def demo_score_def demo_split_def first_max_def Let_def)

theorem selection_never_sees_test_data_witness:
  "\<exists>i < 3. [4, 2, 5] ! i = (2 :: nat)"
  using selection_never_sees_test_data [OF demo_selection]
  by (auto simp: numeral_3_eq_3)

section \<open>The shuffle permutes\<close>

lemma length_swap_at [simp]: "length (swap_at xs i j) = length xs"
  by (simp add: swap_at_def)

lemma mset_swap_at: "i < length xs \<Longrightarrow> j < length xs \<Longrightarrow> mset (swap_at xs i j) = mset xs"
  unfolding swap_at_def by (simp add: mset_swap)

lemma shuffle_down_mset: "k < length xs \<Longrightarrow> mset (fst (shuffle_down k xs state)) = mset xs"
proof (induction k arbitrary: xs state)
  case (Suc k)
  define j where "j = nat (lcg_next state mod (int (Suc k) + 1))"
  have "lcg_next state mod (int k + 2) < int k + 2"
    by (rule pos_mod_bound) simp
  then have "lcg_next state mod (int k + 2) < int (length xs)"
    using Suc.prems by linarith
  then have j: "j < length xs"
    by (simp add: j_def add.commute nat_less_iff)
  show ?case
    using Suc.IH [of "swap_at xs (Suc k) j" "lcg_next state"] Suc.prems j
    by (simp add: Let_def mset_swap_at j_def add.commute)
qed simp

lemma deterministic_shuffle_mset: "mset (fst (deterministic_shuffle xs state)) = mset xs"
  by (cases xs) (simp_all add: deterministic_shuffle_def shuffle_down_mset)

lemma lcg_range: "0 \<le> lcg_next s" "lcg_next s < 2 ^ 32"
  unfolding lcg_next_def by (rule pos_mod_sign pos_mod_bound, simp)+

lemma shuffle_down_state: "0 \<le> s \<Longrightarrow> s < 2 ^ 32 \<Longrightarrow> 0 \<le> snd (shuffle_down k xs s) \<and> snd (shuffle_down k xs s) < 2 ^ 32"
  by (induction k arbitrary: xs s) (use lcg_range in \<open>simp_all add: Let_def\<close>)

section \<open>Equity paths\<close>

lemma equity_path_snoc: "equity_path c (xs @ [x]) = equity_path c xs @ [dadd (last (equity_path c xs)) x]"
  by (simp add: equity_path_def)

lemma last_equity_path: "last (equity_path c xs) = foldl dadd c xs"
  by (induction xs rule: rev_induct) (simp_all add: equity_path_snoc, simp add: equity_path_def)

lemma hd_equity_path: "equity_path c xs \<noteq> [] \<and> hd (equity_path c xs) = c"
  by (induction xs rule: rev_induct) (auto simp: equity_path_snoc equity_path_def)

text \<open>
  All amounts are multiples of one power of ten and small enough for every running sum, in any
  order, to keep within 28 digits.
\<close>

definition gridded :: "int \<Rightarrow> decimal \<Rightarrow> bool" where
  "gridded e x \<longleftrightarrow> of_int \<lfloor>x / 10 powi e\<rfloor> = x / 10 powi e"

definition on_grid :: "int \<Rightarrow> decimal list \<Rightarrow> bool" where
  "on_grid e xs \<longleftrightarrow> (\<forall>x \<in> set xs. gridded e x) \<and> 2 * sum_list (map abs xs) \<le> 10 powi (e + 28)"

lemma gridded_iff: "gridded e x \<longleftrightarrow> (\<exists>k. x = of_int k * 10 powi e)"
proof
  assume "gridded e x"
  moreover have "x / 10 powi e * 10 powi e = x" by simp
  ultimately show "\<exists>k. x = of_int k * 10 powi e"
    unfolding gridded_def by metis
next
  assume "\<exists>k. x = of_int k * 10 powi e"
  then obtain k where "x = of_int k * 10 powi e" ..
  then have "x / 10 powi e = of_int k" using powi_pos [of e] by simp
  then show "gridded e x" by (simp only: gridded_def floor_of_int)
qed

lemma gridded_representable:
  assumes "gridded e x" and "\<bar>x\<bar> \<le> 10 powi (e + 28)"
  shows "representable x"
proof -
  obtain k where x: "x = of_int k * 10 powi e" using assms(1) gridded_iff by blast
  have "\<bar>of_int k\<bar> * 10 powi e \<le> of_int (10 ^ 28) * (10 powi e :: rat)"
    using assms(2) by (simp add: x abs_mult power_int_add mult.commute)
  then have "of_int \<bar>k\<bar> \<le> (of_int (10 ^ 28) :: rat)"
    by (simp only: of_int_abs mult_le_cancel_right_pos powi_pos)
  then have "\<bar>k\<bar> \<le> 10 ^ 28"
    by (simp only: of_int_le_iff)
  with x show ?thesis unfolding representable_def by blast
qed

lemma gridded_add: "gridded e x \<Longrightarrow> gridded e y \<Longrightarrow> gridded e (x + y)"
  unfolding gridded_iff by (metis distrib_right of_int_add)

lemma foldl_dadd_grid:
  assumes "on_grid e (a # xs)"
  shows "foldl dadd a xs = a + sum_list xs \<and> gridded e (a + sum_list xs) \<and> 2 * \<bar>a + sum_list xs\<bar> \<le> 10 powi (e + 28)"
  using assms
proof (induction xs arbitrary: a)
  case (Cons x xs)
  have grid: "gridded e (a + x)"
    using Cons.prems by (intro gridded_add) (auto simp: on_grid_def)
  have total: "2 * (\<bar>a\<bar> + (\<bar>x\<bar> + sum_list (map abs xs))) \<le> 10 powi (e + 28)"
    using Cons.prems by (simp add: on_grid_def)
  have nn: "0 \<le> sum_list (map abs xs)"
    by (rule sum_list_nonneg) auto
  have tri: "\<bar>a + x\<bar> \<le> \<bar>a\<bar> + \<bar>x\<bar>" by (rule abs_triangle_ineq)
  have bound: "2 * (u + (v + w)) \<le> p \<Longrightarrow> 0 \<le> w \<Longrightarrow> t \<le> u + v \<Longrightarrow> 0 \<le> u \<Longrightarrow> 0 \<le> v \<Longrightarrow> t \<le> p"
    for t u v w p :: rat by (simp add: distrib_left)
  have swap_bound: "2 * (u + (v + w)) \<le> p \<Longrightarrow> t \<le> u + v \<Longrightarrow> 2 * (t + w) \<le> p"
    for t u v w p :: rat by (simp add: distrib_left)
  have "\<bar>a + x\<bar> \<le> 10 powi (e + 28)"
    by (rule bound [OF total nn tri]) simp_all
  then have "dadd a x = a + x"
    using gridded_representable [OF grid] by (simp add: dadd_def dround_representable)
  moreover have "2 * (\<bar>a + x\<bar> + sum_list (map abs xs)) \<le> 10 powi (e + 28)"
    by (rule swap_bound [OF total tri])
  then have "on_grid e ((a + x) # xs)"
    using grid Cons.prems by (simp add: on_grid_def)
  ultimately show ?case
    using Cons.IH [of "a + x"] by (simp add: add.assoc)
qed (simp add: on_grid_def)

lemma on_grid_perm: "mset xs = mset ys \<Longrightarrow> on_grid e (a # xs) \<longleftrightarrow> on_grid e (a # ys)"
proof -
  assume m: "mset xs = mset ys"
  then have "set xs = set ys" by (rule mset_eq_setD)
  moreover have "sum_list (map abs xs) = sum_list (map abs ys)"
    using m by (metis mset_map sum_mset_sum_list)
  ultimately show ?thesis by (simp add: on_grid_def)
qed

lemma final_equity_order_free:
  assumes "on_grid e (c # net)"
  shows "last (equity_path c (fst (deterministic_shuffle net s))) = c + sum_list net"
proof -
  let ?xs = "fst (deterministic_shuffle net s)"
  have "on_grid e (c # ?xs)"
    using assms on_grid_perm [OF deterministic_shuffle_mset [of net s]] by blast
  from foldl_dadd_grid [OF this] show ?thesis
    by (simp add: last_equity_path) (metis deterministic_shuffle_mset sum_mset_sum_list)
qed

section \<open>The simulations\<close>

lemma simulate_invariant:
  assumes "simulate n net c s = Inr s'" and "\<And>st. last (equity_path c (fst (deterministic_shuffle net st))) = v"
  shows "mc_finals s' = mc_finals s @ replicate n v \<and> length (mc_drawdowns s') = length (mc_drawdowns s) + n
    \<and> mc_losing s' = mc_losing s + (if v < c then n else 0)"
  using assms(1)
proof (induction n arbitrary: s)
  case (Suc n)
  obtain s1 where s1: "simulate_once net c s = Inr s1" and r: "simulate n net c s1 = Inr s'"
    using Suc.prems by (auto simp: rbind_eq_Inr)
  have one: "mc_finals s1 = mc_finals s @ [v]" "length (mc_drawdowns s1) = Suc (length (mc_drawdowns s))"
    "mc_losing s1 = mc_losing s + (if v < c then 1 else 0)"
    using s1 assms(2) [of "mc_lcg s"] by (auto simp: simulate_once_def Let_def rbind_eq_Inr split: prod.splits)
  from Suc.IH [OF r] one show ?case by simp
qed simp

lemma index_at_in: "index_at xs i = Inr x \<Longrightarrow> x \<in> set xs"
  by (auto simp: index_at_def Let_def split: if_splits intro!: nth_mem)

lemma median_of_replicate:
  "0 < n \<Longrightarrow> dround (2 * v) = 2 * v \<Longrightarrow> dround v = v \<Longrightarrow> median_of (replicate n v) = Inr v"
  by (auto simp: median_of_def Let_def dquot_def dadd_def sorted_sort_id sorted_replicate elim!: evenE)

text \<open>The Monte Carlo analysis measures the order of the trades and nothing else.  Every simulation
  replays exactly the observed trades, so when the amounts are short enough for their sums not to be
  rounded, all final equities coincide: the median and both percentiles are the initial capital plus
  the total result, and the probability of loss is 1 or 0 as that total is negative or not.\<close>

theorem monte_carlo_finals_order_free:
  assumes "monte_carlo_trade_sequences net c simulations seed = Inr r" and "on_grid e (c # net)"
  shows "mr_median_final_equity r = c + sum_list net \<and> mr_fifth_percentile r = c + sum_list net
    \<and> mr_ninety_fifth_percentile r = c + sum_list net
    \<and> mr_probability_of_loss r = (if sum_list net < 0 then 1 else 0)"
proof -
  define v where "v = c + sum_list net"
  define start where "start = \<lparr>mc_lcg = seed mod 2 ^ 32, mc_finals = [], mc_drawdowns = [], mc_losing = 0\<rparr>"
  define n where "n = nat simulations"
  have pos: "(net = []) = False" "(c \<le> 0 \<or> simulations \<le> 0) = False"
    using assms(1) by (auto simp only: monte_carlo_trade_sequences_def if_True split: if_splits)
  then have n: "0 < n" "of_int simulations = (of_nat n :: rat)" by (simp_all add: n_def)
  obtain s where sim: "simulate n net c start = Inr s"
    and med: "median_of (sort (mc_finals s)) = Inr (mr_median_final_equity r)"
    and p5: "percentile_of (sort (mc_finals s)) (5 / 100) = Inr (mr_fifth_percentile r)"
    and p95: "percentile_of (sort (mc_finals s)) (95 / 100) = Inr (mr_ninety_fifth_percentile r)"
    and p: "ddiv (of_nat (mc_losing s)) (of_int simulations) = Inr (mr_probability_of_loss r)"
    using assms(1) unfolding monte_carlo_trade_sequences_def pos if_False Let_def rbind_eq_Inr start_def n_def
    by (elim exE conjE) auto
  have fin: "mc_finals s = replicate n v" and los: "mc_losing s = (if v < c then n else 0)"
    using simulate_invariant [OF sim, of v] final_equity_order_free [OF assms(2)]
    by (simp_all add: start_def v_def)
  have srt: "sort (mc_finals s) = replicate n v"
    by (simp add: fin sorted_sort_id)
  have grid: "gridded e v" and le: "2 * \<bar>v\<bar> \<le> 10 powi (e + 28)"
    using foldl_dadd_grid [OF assms(2)] by (simp_all add: v_def)
  have "gridded e (2 * v)" using gridded_add [OF grid grid] by (simp only: mult_2)
  moreover have "\<bar>2 * v\<bar> \<le> 10 powi (e + 28)" "\<bar>v\<bar> \<le> 10 powi (e + 28)"
    using le abs_ge_zero [of v] by (simp_all only: abs_mult abs_numeral)
  ultimately have reps: "dround v = v" "dround (2 * v) = 2 * v"
    using grid by (auto intro: dround_representable gridded_representable)
  show ?thesis
  proof (intro conjI)
    show "mr_median_final_equity r = c + sum_list net"
      using med median_of_replicate [OF n(1) reps(2,1)] by (simp add: srt v_def)
    show "mr_fifth_percentile r = c + sum_list net" "mr_ninety_fifth_percentile r = c + sum_list net"
      using p5 p95 index_at_in by (fastforce simp: percentile_of_def srt v_def split: if_splits)+
    show "mr_probability_of_loss r = (if sum_list net < 0 then 1 else 0)"
      using p n by (auto simp: los v_def ddiv_def dquot_def split: if_splits)
  qed
qed

lemma demo_monte_carlo:
  "\<exists>r. monte_carlo_trade_sequences [10, - 5] 100 1 7 = Inr r"
  by (simp add: monte_carlo_trade_sequences_def simulate_once_def deterministic_shuffle_def lcg_next_def swap_at_def
      equity_path_def maximum_drawdown_def drawdown_point_def median_of_def percentile_of_def index_at_def dint_def
      dhalf_up_def ddiv_def dec_eval Let_def)

theorem monte_carlo_finals_order_free_witness:
  "\<exists>r. monte_carlo_trade_sequences [10, - 5] 100 1 7 = Inr r \<and> mr_median_final_equity r = 105
     \<and> mr_probability_of_loss r = 0"
proof -
  obtain r where r: "monte_carlo_trade_sequences [10, - 5] 100 1 7 = Inr r"
    using demo_monte_carlo by blast
  have "gridded 0 (of_int k)" for k by (simp add: gridded_def)
  from this [of 100] this [of 10] this [of "- 5"] have "on_grid 0 [100, 10, - 5]"
    by (simp add: on_grid_def)
  from monte_carlo_finals_order_free [OF r this] r show ?thesis by simp
qed

section \<open>Drawdown and stability bounds\<close>

lemma drawdown_fold_bounds:
  assumes "\<forall>e \<in> set path. 0 \<le> e" "representable p" "\<forall>e \<in> set path. representable e" "0 \<le> m" "m \<le> 1" "0 \<le> p"
  shows "0 \<le> snd (foldl drawdown_point (p, m) path) \<and> snd (foldl drawdown_point (p, m) path) \<le> 1"
  using assms
proof (induction path arbitrary: p m)
  case (Cons e path)
  define q where "q = max p e"
  have q: "representable q" "e \<le> q" "0 \<le> q" "0 \<le> e"
    using Cons.prems by (auto simp: q_def max_def)
  define d where "d = (if 0 < q then max m (dquot (dsub q e) q) else m)"
  have "0 \<le> d" "d \<le> 1"
    using q Cons.prems(4,5) dec.drawdown_le_one [of q e]
    by (auto simp: d_def dquot_def dsub_def max_def)
  moreover have "drawdown_point (p, m) e = (q, d)"
    by (simp add: drawdown_point_def Let_def d_def q_def)
  ultimately show ?case
    using Cons.IH [of q d] Cons.prems q(1,3) by simp
qed simp

lemma maximum_drawdown_bounds:
  assumes "maximum_drawdown path = Inr d" "\<forall>e \<in> set path. 0 \<le> e \<and> representable e"
  shows "0 \<le> d \<and> d \<le> 1"
  using assms drawdown_fold_bounds [of path "hd path" 0]
  by (cases path) (auto simp: maximum_drawdown_def)

lemma neighbor_change_nonneg: "0 \<le> neighbor_change l r"
  by (simp add: neighbor_change_def dquot_def le_max_iff_disj)

lemma stability_result:
  assumes "assess_parameter_stability xs f c = Inr r"
  shows "ps_stable r \<longleftrightarrow> f \<le> ps_positive_fraction r
      \<and> (\<forall>i < length xs - 1. neighbor_change (xs ! i) (xs ! Suc i) \<le> c)"
    and "0 \<le> ps_positive_fraction r \<and> ps_positive_fraction r \<le> 1"
proof -
  have len: "3 \<le> length xs"
    using assms by (auto simp: assess_parameter_stability_def split: if_splits)
  then have ne: "set (neighbor_changes xs) \<noteq> {}"
    by (cases xs; cases "tl xs") (auto simp: neighbor_changes_def)
  have "neighbor_changes xs = map (\<lambda>i. neighbor_change (xs ! i) (xs ! Suc i)) [0..<length xs - 1]"
    by (rule nth_equalityI) (auto simp: neighbor_changes_def nth_tl)
  then have set: "set (neighbor_changes xs) = (\<lambda>i. neighbor_change (xs ! i) (xs ! Suc i)) ` {0..<length xs - 1}"
    by simp
  have r: "ps_stable r \<longleftrightarrow> f \<le> ps_positive_fraction r \<and> Max (set (neighbor_changes xs)) \<le> c"
    and p: "ps_positive_fraction r = dquot (of_nat (length (filter (\<lambda>s. 0 < s) xs))) (of_nat (length xs))"
    using assms by (auto simp: assess_parameter_stability_def Let_def rbind_eq_Inr split: if_splits)
  show "ps_stable r \<longleftrightarrow> f \<le> ps_positive_fraction r
      \<and> (\<forall>i < length xs - 1. neighbor_change (xs ! i) (xs ! Suc i) \<le> c)"
    using r ne Max_le_iff [of "set (neighbor_changes xs)" c] by (auto simp: set simp del: Max_le_iff)
  have "rat_of_nat (length (filter (\<lambda>s. 0 < s) xs)) \<le> rat_of_nat (length xs)"
    by simp
  then show "0 \<le> ps_positive_fraction r \<and> ps_positive_fraction r \<le> 1"
    unfolding p dquot_def using len by (intro conjI dec.rnd_fraction) auto
qed

lemma adjusted_profit_antimono:
  "0 \<le> turnover \<Longrightarrow> c \<le> c' \<Longrightarrow> adjusted_profit base turnover c' \<le> adjusted_profit base turnover c"
  unfolding adjusted_profit_def dsub_def dquot_def dmul_def
  by (intro dround_mono diff_left_mono divide_right_mono mult_left_mono) auto

end
