(* ===== verification/Backtest_Reporting.thy ===== *)
theory Backtest_Reporting
  imports Backtest_Engine "HOL-Library.AList"
begin

text \<open>
  The performance report of \<open>packages/backtesting/reporting.py\<close>.  A dict filled by assignment keeps
  the position of the first insertion of a key, which is \<open>AList.update\<close>.  The time zone database, the
  binary square root and the binary quotient of seconds are parameters: \<open>zone name t\<close> is the local day
  and month of an instant, \<open>float_sqrt x\<close> is \<open>Decimal(str(sqrt(float(x))))\<close> and \<open>float_ratio ds e\<close> is
  \<open>Decimal(str(sum(ds) / e))\<close> on durations in seconds.
\<close>

record period_return =
  pr_period :: string
  pr_return_fraction :: decimal

record direction_performance =
  dp_direction :: signal_action
  dp_trade_count :: nat
  dp_net_profit :: decimal
  dp_win_rate :: decimal

record performance_report =
  pf_daily_returns :: "period_return list"
  pf_monthly_returns :: "period_return list"
  pf_sortino_ratio :: "decimal option"
  pf_calmar_ratio :: "decimal option"
  pf_exposure_fraction :: decimal
  pf_by_direction :: "direction_performance list"

definition period_closes :: "(instant \<Rightarrow> string) \<Rightarrow> (instant \<times> decimal) list \<Rightarrow> (string \<times> decimal) list" where
  "period_closes key curve = foldl (\<lambda>closes (t, equity). AList.update (key t) equity closes) [] curve"

fun returns_from :: "decimal \<Rightarrow> (string \<times> decimal) list \<Rightarrow> period_return list" where
  "returns_from previous [] = []"
| "returns_from previous ((period, close) # rest) =
     \<lparr>pr_period = period,
      pr_return_fraction = (if previous \<noteq> 0 then dsub (dquot close previous) 1 else 0)\<rparr>
     # returns_from close rest"

definition report_period_returns :: "backtest_result \<Rightarrow> (instant \<Rightarrow> string) \<Rightarrow> period_return list" where
  "report_period_returns r key =
     returns_from (res_initial_capital r) (period_closes key (res_equity_curve r))"

text \<open>The step-to-step returns whose base is not zero.\<close>

fun step_returns :: "decimal list \<Rightarrow> decimal list" where
  "step_returns (a # b # rest) = (if a \<noteq> 0 then [dsub (dquot b a) 1] else []) @ step_returns (b # rest)"
| "step_returns _ = []"

definition sortino_ratio :: "(decimal \<Rightarrow> decimal) \<Rightarrow> backtest_result \<Rightarrow> int \<Rightarrow> decimal option result" where
  "sortino_ratio float_sqrt r annualization_periods =
     (let returns = step_returns (map snd (res_equity_curve r)) in
      if length returns < 2 then Inr None
      else
        let downside = map (\<lambda>v. min v 0) returns;
            downside_variance = dquot (dsum (map (\<lambda>v. dmul v v) downside)) (of_nat (length downside))
        in if downside_variance = 0 then Inr None
           else
             let mean = dquot (dsum returns) (of_nat (length returns)) in
             rbind (ddiv mean (float_sqrt downside_variance)) (\<lambda>q.
               Inr (Some (dmul q (float_sqrt (of_int annualization_periods))))))"

definition performance_in_direction :: "backtest_trade list \<Rightarrow> signal_action \<Rightarrow> direction_performance list" where
  "performance_in_direction all_trades d =
     (let trades = filter (\<lambda>t. tr_direction t = d) all_trades;
          wins = length (filter (\<lambda>t. 0 < tr_net_pnl t) trades)
      in if trades = [] then []
         else [\<lparr>dp_direction = d, dp_trade_count = length trades, dp_net_profit = dsum (map tr_net_pnl trades),
                dp_win_rate = dquot (of_nat wins) (of_nat (length trades))\<rparr>])"

definition direction_performances :: "backtest_result \<Rightarrow> direction_performance list" where
  "direction_performances r = concat (map (performance_in_direction (res_trades r)) [LONG, SHORT])"

definition exposure_of :: "(int list \<Rightarrow> int \<Rightarrow> decimal) \<Rightarrow> backtest_result \<Rightarrow> decimal" where
  "exposure_of float_ratio r =
     (if length (res_equity_curve r) > 1
      then let elapsed = fst (last (res_equity_curve r)) - fst (hd (res_equity_curve r));
               occupied = map (\<lambda>t. tr_exited_at t - tr_entered_at t) (res_trades r)
           in if elapsed > 0 then min 1 (float_ratio occupied elapsed) else 0
      else 0)"

definition calmar_of :: "backtest_result \<Rightarrow> int \<Rightarrow> decimal option" where
  "calmar_of r annualization_periods =
     (if me_maximum_drawdown (res_metrics r) > 0 \<and> length (res_equity_curve r) > 1
      then let periods = length (res_equity_curve r) - 1;
               annualized = dquot (dmul (me_total_return (res_metrics r)) (of_int annualization_periods)) (of_nat periods)
           in Some (dquot annualized (me_maximum_drawdown (res_metrics r)))
      else None)"

definition build_performance_report ::
  "(string \<Rightarrow> (instant \<Rightarrow> string \<times> string) result) \<Rightarrow> (decimal \<Rightarrow> decimal) \<Rightarrow> (int list \<Rightarrow> int \<Rightarrow> decimal)
   \<Rightarrow> backtest_result \<Rightarrow> string \<Rightarrow> int \<Rightarrow> performance_report result" where
  "build_performance_report zone float_sqrt float_ratio r presentation_timezone annualization_periods =
     (if annualization_periods \<le> 0 then Inl (ValueError ''annualization periods must be positive'')
      else
        rbind (zone presentation_timezone) (\<lambda>local_key.
        let exposure = exposure_of float_ratio r; calmar = calmar_of r annualization_periods;
            daily = report_period_returns r (\<lambda>t. fst (local_key t));
            monthly = report_period_returns r (\<lambda>t. snd (local_key t))
        in rbind (sortino_ratio float_sqrt r annualization_periods) (\<lambda>sortino.
           Inr \<lparr>pf_daily_returns = daily, pf_monthly_returns = monthly, pf_sortino_ratio = sortino,
                pf_calmar_ratio = calmar, pf_exposure_fraction = exposure,
                pf_by_direction = direction_performances r\<rparr>)))"

section \<open>Periods\<close>

lemma period_closes_snoc:
  "period_closes key (curve @ [(t, e)]) = AList.update (key t) e (period_closes key curve)"
  by (simp add: period_closes_def)

text \<open>Each period of the curve is reported once, with the last equity seen in it.\<close>

lemma period_closes_lookup:
  "map_of (period_closes key curve) k =
     (case filter (\<lambda>(t, e). key t = k) curve of [] \<Rightarrow> None | x # xs \<Rightarrow> Some (snd (last (x # xs))))"
proof (induction curve rule: rev_induct)
  case (snoc te curve)
  obtain t e where te: "te = (t, e)" by (cases te)
  show ?case
    using snoc by (auto simp: te period_closes_snoc update_conv' split: list.splits)
qed (simp add: period_closes_def)

lemma period_closes_distinct: "distinct (map fst (period_closes key curve))"
proof (induction curve rule: rev_induct)
  case (snoc te curve)
  then show ?case by (cases te) (simp add: period_closes_snoc distinct_update)
qed (simp add: period_closes_def)

lemma returns_from_periods: "map pr_period (returns_from p xs) = map fst xs"
  by (induction p xs rule: returns_from.induct) auto

lemma report_periods_distinct: "distinct (map pr_period (report_period_returns r key))"
  by (simp add: report_period_returns_def returns_from_periods period_closes_distinct)

section \<open>Directions and exposure\<close>

lemma sum_counts: "(\<forall>t \<in> set ts. tr_direction t = LONG \<or> tr_direction t = SHORT)
   \<Longrightarrow> length (filter (\<lambda>t. tr_direction t = LONG) ts) + length (filter (\<lambda>t. tr_direction t = SHORT) ts) = length ts"
  by (induction ts) auto

lemma performance_in_direction_count:
  "sum_list (map dp_trade_count (performance_in_direction ts d)) = length (filter (\<lambda>t. tr_direction t = d) ts)"
  by (simp add: performance_in_direction_def Let_def)

lemma direction_counts_complete:
  "\<forall>t \<in> set (res_trades r). tr_direction t = LONG \<or> tr_direction t = SHORT
   \<Longrightarrow> sum_list (map dp_trade_count (direction_performances r)) = length (res_trades r)"
  using sum_counts [of "res_trades r"]
  by (simp add: direction_performances_def performance_in_direction_count)

lemma direction_win_rate_unit:
  assumes "d \<in> set (direction_performances r)"
  shows "0 < dp_trade_count d \<and> 0 \<le> dp_win_rate d \<and> dp_win_rate d \<le> 1"
proof -
  obtain a ts where ts: "ts = filter (\<lambda>t. tr_direction t = a) (res_trades r)" "ts \<noteq> []"
    "dp_trade_count d = length ts"
    "dp_win_rate d = dquot (of_nat (length (filter (\<lambda>t. 0 < tr_net_pnl t) ts))) (of_nat (length ts))"
    using assms by (auto simp: direction_performances_def performance_in_direction_def Let_def split: if_splits)
  have "rat_of_nat (length (filter (\<lambda>t. 0 < tr_net_pnl t) ts)) \<le> rat_of_nat (length ts)" by simp
  then show ?thesis
    using ts(2) dec.rnd_fraction [of "rat_of_nat (length (filter (\<lambda>t. 0 < tr_net_pnl t) ts))" "rat_of_nat (length ts)"]
    unfolding ts(3,4) dquot_def by simp
qed

lemma exposure_at_most_one: "exposure_of float_ratio r \<le> 1"
  by (simp add: exposure_of_def Let_def)

text \<open>
  The report describes the result it is given: every day and every month of the equity curve
  appears once, the trades of the two directions are all the trades, the win rates and the exposure
  do not exceed 1, and the annualised figures need a positive drawdown and at least two points.
\<close>

theorem report_describes_result:
  assumes "build_performance_report zone fs fr r tz n = Inr p"
    and "\<forall>t \<in> set (res_trades r). tr_direction t = LONG \<or> tr_direction t = SHORT"
  shows "distinct (map pr_period (pf_daily_returns p)) \<and> distinct (map pr_period (pf_monthly_returns p))
    \<and> sum_list (map dp_trade_count (pf_by_direction p)) = length (res_trades r)
    \<and> (\<forall>d \<in> set (pf_by_direction p). 0 < dp_trade_count d \<and> 0 \<le> dp_win_rate d \<and> dp_win_rate d \<le> 1)
    \<and> pf_exposure_fraction p \<le> 1
    \<and> (pf_calmar_ratio p \<noteq> None \<longrightarrow> 0 < me_maximum_drawdown (res_metrics r) \<and> 1 < length (res_equity_curve r))"
  using assms direction_win_rate_unit [of _ r]
  by (auto simp: build_performance_report_def rbind_eq_Inr Let_def report_periods_distinct
      direction_counts_complete exposure_at_most_one calmar_of_def split: if_splits)

end
