(* ===== verification/Replay_Engine.thy ===== *)
theory Replay_Engine
  imports Domain
begin

text \<open>
  Closed-candle replay, \<open>packages/replay/engine.py\<close>, and the content-addressed datasets of
  \<open>packages/replay/datasets.py\<close>.  An engine holds one validated candle stream and the index of the
  next candle; the candles before that index are all a client may see.  SHA-256, the JSON form of
  a candle and its parser are parameters.  The candle timestamps of the model are instants, so the
  awareness check of the constructor never raises.  \<open>bisect_right\<close> is the library's binary search.
\<close>

record replay_checkpoint =
  cp_dataset_sha256 :: string
  cp_next_index :: int

record replay_frame =
  fr_candle :: candle
  fr_available_at :: instant
  fr_index :: nat
  fr_total :: nat

record replay_engine =
  re_candles :: "candle list"
  re_available_at :: "instant list"
  re_dataset_sha256 :: string
  re_next_index :: nat

section \<open>The digest of a dataset\<close>

text \<open>\<open>n.to_bytes(8, "big")\<close>; the bytes of an encoded candle come after their length.\<close>

definition to_bytes8 :: "nat \<Rightarrow> string" where
  "to_bytes8 n = map (\<lambda>i. char_of (n div 256 ^ (7 - i) mod 256)) [0..<8]"

definition dataset_bytes :: "(candle \<Rightarrow> string) \<Rightarrow> candle list \<Rightarrow> string" where
  "dataset_bytes encode cs = concat (map (\<lambda>c. to_bytes8 (length (encode c)) @ encode c) cs)"

definition dataset_digest :: "(string \<Rightarrow> string) \<Rightarrow> (candle \<Rightarrow> string) \<Rightarrow> candle list \<Rightarrow> string" where
  "dataset_digest sha256 encode cs = sha256 (dataset_bytes encode cs)"

section \<open>The engine\<close>

definition available_at :: "candle \<Rightarrow> instant" where
  "available_at c = candle_timestamp c + seconds (candle_timeframe_seconds c)"

definition make_replay_engine :: "(candle list \<Rightarrow> string) \<Rightarrow> candle list \<Rightarrow> replay_engine result" where
  "make_replay_engine digest candles =
     (let timestamps = map candle_timestamp candles in
      if candles = [] then Inl (ValueError ''replay requires at least one candle'')
      else if list_ex (\<lambda>c. \<not> candle_is_closed c) candles
      then Inl (ValueError ''replay accepts closed candles only'')
      else if length (remdups (map (\<lambda>c. (candle_instrument_id c, candle_timeframe_seconds c)) candles)) \<noteq> 1
      then Inl (ValueError ''replay candles must belong to one instrument and timeframe'')
      else if timestamps \<noteq> sort timestamps \<or> length (remdups timestamps) \<noteq> length timestamps
      then Inl (ValueError ''replay candles must have unique chronological timestamps'')
      else Inr \<lparr>re_candles = candles, re_available_at = map available_at candles,
                re_dataset_sha256 = digest candles, re_next_index = 0\<rparr>)"

definition re_instrument_id :: "replay_engine \<Rightarrow> uuid" where
  "re_instrument_id e = candle_instrument_id (hd (re_candles e))"

definition re_timeframe_seconds :: "replay_engine \<Rightarrow> int" where
  "re_timeframe_seconds e = candle_timeframe_seconds (hd (re_candles e))"

definition re_total :: "replay_engine \<Rightarrow> nat" where
  "re_total e = length (re_candles e)"

definition re_complete :: "replay_engine \<Rightarrow> bool" where
  "re_complete e \<longleftrightarrow> re_next_index e = length (re_candles e)"

definition replay_step :: "replay_engine \<Rightarrow> replay_frame option \<times> replay_engine" where
  "replay_step e =
     (if re_complete e then (None, e)
      else let index = re_next_index e in
        (Some \<lparr>fr_candle = re_candles e ! index, fr_available_at = re_available_at e ! index,
               fr_index = index, fr_total = length (re_candles e)\<rparr>,
         e\<lparr>re_next_index := index + 1\<rparr>))"

definition replay_snapshot :: "replay_engine \<Rightarrow> candle list" where
  "replay_snapshot e = take (re_next_index e) (re_candles e)"

function bisect_right :: "int list \<Rightarrow> int \<Rightarrow> nat \<Rightarrow> nat \<Rightarrow> nat" where
  "bisect_right a x lo hi =
     (if lo < hi
      then let mid = (lo + hi) div 2 in
           if x < a ! mid then bisect_right a x lo mid else bisect_right a x (mid + 1) hi
      else lo)"
  by pat_completeness auto
termination
  by (relation "measure (\<lambda>(a, x, lo, hi). hi - lo)") auto

declare bisect_right.simps [simp del]

definition replay_seek :: "replay_engine \<Rightarrow> datetime \<Rightarrow> (candle list \<times> replay_engine) result" where
  "replay_seek e as_of =
     (if \<not> is_aware as_of then Inl (ValueError ''replay seek timestamp must be timezone-aware'')
      else let e' = e\<lparr>re_next_index := bisect_right (re_available_at e) (instant_of as_of) 0 (length (re_available_at e))\<rparr>
           in Inr (replay_snapshot e', e'))"

definition replay_checkpoint_of :: "replay_engine \<Rightarrow> replay_checkpoint" where
  "replay_checkpoint_of e = \<lparr>cp_dataset_sha256 = re_dataset_sha256 e, cp_next_index = int (re_next_index e)\<rparr>"

definition replay_restore :: "replay_engine \<Rightarrow> replay_checkpoint \<Rightarrow> replay_engine result" where
  "replay_restore e cp =
     (if cp_dataset_sha256 cp \<noteq> re_dataset_sha256 e
      then Inl (ValueError ''replay checkpoint belongs to a different dataset'')
      else if \<not> (0 \<le> cp_next_index cp \<and> cp_next_index cp \<le> int (length (re_candles e)))
      then Inl (ValueError ''replay checkpoint index is out of range'')
      else Inr (e\<lparr>re_next_index := nat (cp_next_index cp)\<rparr>))"

section \<open>Well-formed engines\<close>

definition one_stream :: "candle list \<Rightarrow> bool" where
  "one_stream cs \<longleftrightarrow> (\<forall>c \<in> set cs. candle_instrument_id c = candle_instrument_id (hd cs)
     \<and> candle_timeframe_seconds c = candle_timeframe_seconds (hd cs))"

definition replay_ok :: "(candle list \<Rightarrow> string) \<Rightarrow> replay_engine \<Rightarrow> bool" where
  "replay_ok digest e \<longleftrightarrow> re_candles e \<noteq> [] \<and> list_all candle_is_closed (re_candles e)
     \<and> sorted_wrt (<) (map candle_timestamp (re_candles e))
     \<and> one_stream (re_candles e)
     \<and> re_available_at e = map available_at (re_candles e)
     \<and> re_dataset_sha256 e = digest (re_candles e) \<and> re_next_index e \<le> length (re_candles e)"

lemma remdups_singleton: "length (remdups xs) = 1 \<Longrightarrow> x \<in> set xs \<Longrightarrow> y \<in> set xs \<Longrightarrow> x = y"
  by (metis card_1_singletonE length_remdups_card_conv singletonD)

lemma strict_timestamps: "xs = sort xs \<Longrightarrow> length (remdups xs) = length xs \<Longrightarrow> sorted_wrt (<) xs"
  by (metis card_distinct length_remdups_card_conv sorted_sort strict_sorted_iff)

lemma make_replay_engine_ok [inv_rules]: "make_replay_engine digest cs = Inr e \<Longrightarrow> replay_ok digest e"
proof -
  assume "make_replay_engine digest cs = Inr e"
  then have ne: "cs \<noteq> []" and shut: "list_all candle_is_closed cs"
    and one: "length (remdups (map (\<lambda>c. (candle_instrument_id c, candle_timeframe_seconds c)) cs)) = 1"
    and ts: "map candle_timestamp cs = sort (map candle_timestamp cs)"
      "length (remdups (map candle_timestamp cs)) = length (map candle_timestamp cs)"
    and e: "e = \<lparr>re_candles = cs, re_available_at = map available_at cs, re_dataset_sha256 = digest cs, re_next_index = 0\<rparr>"
    by (auto simp: make_replay_engine_def Let_def list_all_iff list_ex_iff split: if_splits)
  have "one_stream cs"
    unfolding one_stream_def prod.inject [symmetric]
  proof
    fix c assume "c \<in> set cs"
    then show "(candle_instrument_id c, candle_timeframe_seconds c)
      = (candle_instrument_id (hd cs), candle_timeframe_seconds (hd cs))"
      using ne by (intro remdups_singleton [OF one]) (auto intro!: image_eqI [of _ _ "hd cs"])
  qed
  then show ?thesis
    using ne shut strict_timestamps [OF ts]
    by (simp add: e replay_ok_def)
qed

lemma make_replay_engine_fields:
  "make_replay_engine digest cs = Inr e \<Longrightarrow> re_candles e = cs \<and> re_next_index e = 0 \<and> re_dataset_sha256 e = digest cs"
  by (auto simp: make_replay_engine_def Let_def split: if_splits)

lemma replay_ok_at:
  "replay_ok digest e \<Longrightarrow> n \<le> length (re_candles e) \<Longrightarrow> replay_ok digest (e\<lparr>re_next_index := n\<rparr>)"
  by (simp add: replay_ok_def)

lemma replay_okD: "replay_ok digest e \<Longrightarrow> re_next_index e \<le> length (re_candles e)
    \<and> length (re_available_at e) = length (re_candles e)"
  by (simp add: replay_ok_def)

lemma replay_step_ok [inv_rules]: "replay_ok digest e \<Longrightarrow> replay_ok digest (snd (replay_step e))"
  using replay_okD [of digest e]
  by (simp add: replay_step_def re_complete_def Let_def replay_ok_at)

lemma available_sorted: "replay_ok digest e \<Longrightarrow> sorted (re_available_at e)"
proof -
  assume ok: "replay_ok digest e"
  have "available_at c = candle_timestamp c + seconds (re_timeframe_seconds e)" if "c \<in> set (re_candles e)" for c
    using ok that unfolding replay_ok_def one_stream_def available_at_def re_timeframe_seconds_def by metis
  then have "re_available_at e = map (\<lambda>t. t + seconds (re_timeframe_seconds e)) (map candle_timestamp (re_candles e))"
    using ok by (simp add: replay_ok_def)
  moreover have "sorted (map candle_timestamp (re_candles e))"
    using ok by (simp add: replay_ok_def strict_sorted_iff)
  ultimately show ?thesis
    by (simp add: sorted_iff_nth_mono)
qed

section \<open>Binary search\<close>

lemma bisect_right_bounds: "lo \<le> hi \<Longrightarrow> lo \<le> bisect_right a x lo hi \<and> bisect_right a x lo hi \<le> hi"
proof (induction a x lo hi rule: bisect_right.induct)
  case (1 a x lo hi)
  show ?case
  proof (cases "lo < hi")
    case True
    then have "lo \<le> (lo + hi) div 2" "(lo + hi) div 2 < hi" by auto
    with 1(1) [OF True refl] 1(2) [OF True refl] True show ?thesis
      by (subst (1 2) bisect_right.simps) (auto simp: Let_def)
  next
    case False
    with 1(3) show ?thesis by (subst (1 2) bisect_right.simps) simp
  qed
qed

lemma bisect_right_partition:
  assumes "sorted a" "lo \<le> hi" "hi \<le> length a" "\<forall>i < lo. a ! i \<le> x" "\<forall>i. hi \<le> i \<longrightarrow> i < length a \<longrightarrow> x < a ! i"
  shows "(\<forall>i < bisect_right a x lo hi. a ! i \<le> x)
    \<and> (\<forall>i. bisect_right a x lo hi \<le> i \<longrightarrow> i < length a \<longrightarrow> x < a ! i)"
  using assms
proof (induction a x lo hi rule: bisect_right.induct)
  case (1 a x lo hi)
  define mid where "mid = (lo + hi) div 2"
  show ?case
  proof (cases "lo < hi")
    case lt: True
    then have mid: "lo \<le> mid" "mid < hi" "mid < length a" using 1(5) by (auto simp: mid_def)
    have mono: "i \<le> j \<Longrightarrow> j < length a \<Longrightarrow> a ! i \<le> a ! j" for i j
      using 1(3) by (simp add: sorted_iff_nth_mono)
    show ?thesis
    proof (cases "x < a ! mid")
      case True
      have "bisect_right a x lo hi = bisect_right a x lo mid"
        using lt True by (subst bisect_right.simps) (simp add: mid_def)
      moreover have "\<forall>i. mid \<le> i \<longrightarrow> i < length a \<longrightarrow> x < a ! i"
        using True mono by (meson less_le_trans)
      ultimately show ?thesis
        using 1(1) [OF lt mid_def True 1(3) mid(1) less_imp_le [OF mid(3)] 1(6)] by simp
    next
      case False
      have "bisect_right a x lo hi = bisect_right a x (mid + 1) hi"
        using lt False by (subst bisect_right.simps) (simp add: mid_def)
      moreover have "\<forall>i < mid + 1. a ! i \<le> x"
        using False mono mid(3) by (fastforce simp: less_Suc_eq_le not_less)
      moreover have "mid + 1 \<le> hi" using mid by simp
      ultimately show ?thesis
        using 1(2) [OF lt mid_def False 1(3) _ 1(5) _ 1(7)] by simp
    qed
  next
    case False
    then have "bisect_right a x lo hi = lo" by (subst bisect_right.simps) simp
    with 1(4,6,7) False show ?thesis by auto
  qed
qed

lemma bisect_right_filter:
  assumes "sorted (map f xs)"
  shows "take (bisect_right (map f xs) x 0 (length xs)) xs = filter (\<lambda>c. f c \<le> x) xs"
proof -
  define n where "n = bisect_right (map f xs) x 0 (length xs)"
  have n: "n \<le> length xs" using bisect_right_bounds [of 0 "length xs" "map f xs" x] by (simp add: n_def)
  have part: "\<forall>i < n. f (xs ! i) \<le> x" "\<forall>i. n \<le> i \<longrightarrow> i < length xs \<longrightarrow> x < f (xs ! i)"
    using bisect_right_partition [OF assms, of 0 "length xs" x] n by (auto simp flip: n_def)
  have "filter (\<lambda>c. f c \<le> x) (take n xs) = take n xs"
    using part(1) n by (intro filter_True) (auto simp: in_set_conv_nth)
  moreover have "filter (\<lambda>c. f c \<le> x) (drop n xs) = []"
    using part(2) by (auto simp: filter_empty_conv in_set_conv_nth not_le)
  ultimately show ?thesis
    unfolding n_def [symmetric] by (metis append_Nil2 append_take_drop_id filter_append)
qed

section \<open>What a client sees\<close>

lemma replay_seek_ok [inv_rules]: "replay_ok digest e \<Longrightarrow> replay_seek e d = Inr (cs, e') \<Longrightarrow> replay_ok digest e'"
  using bisect_right_bounds [of 0 "length (re_available_at e)" "re_available_at e" "instant_of d"] replay_okD [of digest e]
  by (auto simp: replay_seek_def Let_def split: if_splits intro!: replay_ok_at)

lemma replay_restore_ok [inv_rules]: "replay_ok digest e \<Longrightarrow> replay_restore e cp = Inr e' \<Longrightarrow> replay_ok digest e'"
  by (auto simp: replay_restore_def split: if_splits intro!: replay_ok_at)

text \<open>C15: A replay never exposes a candle before it has closed: seeking to an instant, on any engine the
  constructor accepted, exposes exactly the candles of the stream whose close (open time plus
  timeframe) is not after that instant, in stream order, whatever was exposed before.\<close>

theorem replay_seek_exposes_closed_only:
  assumes "make_replay_engine digest stream = Inr e0" and "re_candles e = re_candles e0"
    and "re_available_at e = re_available_at e0"
  shows "replay_seek e (Aware t)
    = (let seen = filter (\<lambda>c. candle_timestamp c + seconds (candle_timeframe_seconds c) \<le> t) stream
       in Inr (seen, e\<lparr>re_next_index := length seen\<rparr>))"
proof -
  have ok: "replay_ok digest e0" and cs: "re_candles e0 = stream"
    using assms(1) make_replay_engine_ok make_replay_engine_fields by blast+
  have av: "re_available_at e0 = map available_at stream"
    using ok cs by (simp add: replay_ok_def)
  define n where "n = bisect_right (map available_at stream) t 0 (length stream)"
  have tk: "take n stream = filter (\<lambda>c. available_at c \<le> t) stream"
    using available_sorted [OF ok] unfolding n_def av by (rule bisect_right_filter)
  have "n \<le> length stream"
    using bisect_right_bounds [of 0 "length stream" "map available_at stream" t] by (simp add: n_def)
  then have len: "length (filter (\<lambda>c. available_at c \<le> t) stream) = n"
    by (simp flip: tk)
  show ?thesis
    using assms(2,3) cs av
    by (simp add: replay_seek_def replay_snapshot_def Let_def tk len flip: n_def available_at_def)
qed

lemma replay_step_prefix:
  assumes "replay_ok digest e" "\<not> re_complete e"
  shows "\<exists>f. fst (replay_step e) = Some f \<and> fr_candle f = re_candles e ! re_next_index e
    \<and> replay_snapshot (snd (replay_step e)) = replay_snapshot e @ [fr_candle f]
    \<and> fr_available_at f = available_at (fr_candle f) \<and> fr_index f = length (replay_snapshot e)"
  using assms
  by (auto simp: replay_step_def re_complete_def replay_snapshot_def replay_ok_def Let_def take_Suc_conv_app_nth)

lemma replay_checkpoint_roundtrip:
  assumes "make_replay_engine digest cs = Inr e0" "replay_ok digest e" "re_candles e = cs"
  shows "replay_restore e0 (replay_checkpoint_of e) = Inr e"
  using assms make_replay_engine_fields [OF assms(1)] make_replay_engine_ok [OF assms(1)]
  by (auto simp: replay_restore_def replay_checkpoint_of_def replay_ok_def)

definition minute_bar :: "int \<Rightarrow> candle" where
  "minute_bar k = \<lparr>candle_instrument_id = 1, candle_timestamp = seconds (60 * k), candle_timeframe_seconds = 60,
     candle_open = 10, candle_high = 10, candle_low = 10, candle_close = 10, candle_volume = 1,
     candle_open_interest = None, candle_is_closed = True\<rparr>"

definition minute_stream :: "candle list" where
  "minute_stream = map minute_bar [0, 1, 2]"

definition minute_engine :: "(candle list \<Rightarrow> string) \<Rightarrow> replay_engine" where
  "minute_engine digest = \<lparr>re_candles = minute_stream, re_available_at = map available_at minute_stream,
     re_dataset_sha256 = digest minute_stream, re_next_index = 0\<rparr>"

lemma minute_engine_made: "make_replay_engine digest minute_stream = Inr (minute_engine digest)"
  by (simp add: make_replay_engine_def minute_engine_def minute_stream_def minute_bar_def seconds_def Let_def)

theorem replay_seek_exposes_closed_only_witness:
  "\<exists>e. replay_seek (minute_engine (\<lambda>_. [])) (Aware (seconds 120)) = Inr (map minute_bar [0, 1], e)"
  using replay_seek_exposes_closed_only [OF minute_engine_made refl refl, of "\<lambda>_. []" "seconds 120"]
  by (simp add: minute_stream_def minute_bar_def seconds_def Let_def)

section \<open>The framing of a dataset is unambiguous\<close>

lemma digits_determine:
  assumes "\<forall>i < k. n div b ^ i mod b = m div b ^ i mod (b :: nat)"
  shows "n mod b ^ k = m mod b ^ k"
  using assms
proof (induction k)
  case (Suc k)
  have "n mod b ^ Suc k = b ^ k * (n div b ^ k mod b) + n mod b ^ k"
    "m mod b ^ Suc k = b ^ k * (m div b ^ k mod b) + m mod b ^ k"
    by (simp_all add: mod_mult2_eq mult.commute [of b])
  with Suc show ?case by simp
qed simp

lemma length_to_bytes8 [simp]: "length (to_bytes8 n) = 8"
  by (simp add: to_bytes8_def)

lemma to_bytes8_inject:
  assumes "to_bytes8 n = to_bytes8 m" "n < 256 ^ 8" "m < 256 ^ 8"
  shows "n = m"
proof -
  have "n div 256 ^ i mod 256 = m div 256 ^ i mod 256" if "i < 8" for i
  proof -
    have "to_bytes8 n ! (7 - i) = to_bytes8 m ! (7 - i)" using assms(1) by simp
    moreover have "7 - (7 - i) = i" using that by simp
    ultimately have "(char_of (n div 256 ^ i mod 256) :: char) = char_of (m div 256 ^ i mod 256)"
      using that by (simp add: to_bytes8_def del: char_of_mod_256)
    then have "(of_char (char_of (n div 256 ^ i mod 256)) :: nat) = of_char (char_of (m div 256 ^ i mod 256))"
      by (rule arg_cong)
    then show ?thesis by simp
  qed
  then have "n mod 256 ^ 8 = m mod 256 ^ 8" using digits_determine by blast
  with assms(2,3) show ?thesis by simp
qed

lemma dataset_bytes_inject:
  assumes "dataset_bytes encode xs = dataset_bytes encode ys" and "inj_on encode (set xs \<union> set ys)"
    and "\<forall>c \<in> set xs \<union> set ys. length (encode c) < 256 ^ 8"
  shows "xs = ys"
  using assms
proof (induction xs arbitrary: ys)
  case Nil
  then show ?case by (cases ys) (auto simp: dataset_bytes_def dest: arg_cong [where f = length])
next
  case (Cons x xs)
  then obtain y zs where ys: "ys = y # zs"
    by (cases ys) (auto simp: dataset_bytes_def dest: arg_cong [where f = length])
  from Cons.prems have eq: "to_bytes8 (length (encode x)) @ (encode x @ dataset_bytes encode xs)
      = to_bytes8 (length (encode y)) @ (encode y @ dataset_bytes encode zs)"
    by (simp add: ys dataset_bytes_def)
  then have len: "to_bytes8 (length (encode x)) = to_bytes8 (length (encode y))"
    and rest: "encode x @ dataset_bytes encode xs = encode y @ dataset_bytes encode zs"
    by simp_all
  have "length (encode x) = length (encode y)"
    using to_bytes8_inject [OF len] Cons.prems(3) by (simp add: ys)
  with rest have "encode x = encode y" "dataset_bytes encode xs = dataset_bytes encode zs"
    by simp_all
  moreover have "inj_on encode (set xs \<union> set zs)"
    using Cons.prems(2) by (rule inj_on_subset) (auto simp: ys)
  ultimately have "xs = zs"
    using Cons.prems(3) by (intro Cons.IH) (simp_all add: ys)
  moreover have "x = y"
    using \<open>encode x = encode y\<close> by (rule inj_onD [OF Cons.prems(2)]) (simp_all add: ys)
  ultimately show ?case by (simp add: ys)
qed

end
