(* ===== verification/Replay_Sessions.thy ===== *)
theory Replay_Sessions
  imports Replay_Engine "HOL-Library.Product_Lexorder"
begin

text \<open>
  Persisted replays: the dataset repository of \<open>packages/replay/datasets.py\<close>, the session repository
  of \<open>packages/replay/persistence.py\<close> and the coordinator of \<open>packages/replay/service.py\<close>.  A table is
  the list of its rows; an \<open>UPDATE ... WHERE\<close> rewrites the matching rows and its row count is their
  number.  A timestamp read back from a column may have lost its zone and is then taken as UTC, so
  a stored timestamp is the instant it denotes.
\<close>

section \<open>Datasets\<close>

record 'j replay_dataset_row =
  ds_dataset_sha256 :: string
  ds_instrument_id :: uuid
  ds_timeframe_seconds :: int
  ds_total_events :: nat
  ds_first_timestamp :: instant
  ds_last_timestamp :: instant
  ds_candles :: "'j list"
  ds_created_at :: instant

record stored_replay_dataset =
  sd_dataset_sha256 :: string
  sd_instrument_id :: uuid
  sd_timeframe_seconds :: int
  sd_total_events :: nat
  sd_first_timestamp :: instant
  sd_last_timestamp :: instant
  sd_created_at :: instant

definition stored_dataset :: "'j replay_dataset_row \<Rightarrow> stored_replay_dataset" where
  "stored_dataset r = \<lparr>sd_dataset_sha256 = ds_dataset_sha256 r, sd_instrument_id = ds_instrument_id r,
     sd_timeframe_seconds = ds_timeframe_seconds r, sd_total_events = ds_total_events r,
     sd_first_timestamp = ds_first_timestamp r, sd_last_timestamp = ds_last_timestamp r,
     sd_created_at = ds_created_at r\<rparr>"

definition dataset_row_of :: "string \<Rightarrow> 'j replay_dataset_row list \<Rightarrow> 'j replay_dataset_row option" where
  "dataset_row_of sha db = List.find (\<lambda>r. ds_dataset_sha256 r = sha) db"

text \<open>
  \<open>_validated_candles\<close>: \<open>validate\<close> is \<open>Candle.model_validate\<close> on one JSON item.  A raise of the parser or of
  the engine's constructor is reported as an invalid payload.
\<close>

definition validated_candles ::
  "(candle list \<Rightarrow> string) \<Rightarrow> ('j \<Rightarrow> candle result) \<Rightarrow> 'j replay_dataset_row \<Rightarrow> candle list result" where
  "validated_candles digest validate r =
     (case rbind (rmap validate (ds_candles r)) (\<lambda>cs. rbind (make_replay_engine digest cs) (\<lambda>e. Inr (cs, e))) of
        Inl _ \<Rightarrow> Inl (ValueError ''stored replay dataset payload is invalid'')
      | Inr (cs, e) \<Rightarrow>
          if re_dataset_sha256 e \<noteq> ds_dataset_sha256 r \<or> re_instrument_id e \<noteq> ds_instrument_id r
             \<or> re_timeframe_seconds e \<noteq> ds_timeframe_seconds r \<or> re_total e \<noteq> ds_total_events r
             \<or> candle_timestamp (hd cs) \<noteq> ds_first_timestamp r \<or> candle_timestamp (last cs) \<noteq> ds_last_timestamp r
          then Inl (ValueError ''stored replay dataset failed integrity verification'')
          else Inr cs)"

definition dataset_store ::
  "(candle list \<Rightarrow> string) \<Rightarrow> (candle \<Rightarrow> 'j) \<Rightarrow> ('j \<Rightarrow> candle result) \<Rightarrow> 'j replay_dataset_row list
   \<Rightarrow> candle list \<Rightarrow> datetime \<Rightarrow> (stored_replay_dataset \<times> 'j replay_dataset_row list) result" where
  "dataset_store digest dump validate db candles created_at =
     rbind (make_replay_engine digest candles) (\<lambda>e.
       case dataset_row_of (re_dataset_sha256 e) db of
         Some existing \<Rightarrow>
           rbind (validated_candles digest validate existing) (\<lambda>loaded.
             if loaded \<noteq> candles then Inl (ValueError ''replay dataset digest has conflicting content'')
             else Inr (stored_dataset existing, db))
       | None \<Rightarrow>
           let r = \<lparr>ds_dataset_sha256 = re_dataset_sha256 e, ds_instrument_id = re_instrument_id e,
                    ds_timeframe_seconds = re_timeframe_seconds e, ds_total_events = re_total e,
                    ds_first_timestamp = candle_timestamp (hd candles), ds_last_timestamp = candle_timestamp (last candles),
                    ds_candles = map dump candles, ds_created_at = instant_of created_at\<rparr>
           in Inr (stored_dataset r, db @ [r]))"

definition sha256_text :: "string \<Rightarrow> bool" where
  "sha256_text s \<longleftrightarrow> length s = 64 \<and> list_all (\<lambda>c. c \<in> set ''0123456789abcdef'') s"

definition dataset_load ::
  "(candle list \<Rightarrow> string) \<Rightarrow> ('j \<Rightarrow> candle result) \<Rightarrow> 'j replay_dataset_row list \<Rightarrow> string \<Rightarrow> candle list result" where
  "dataset_load digest validate db sha =
     (if \<not> sha256_text sha then Inl (ValueError ''replay dataset digest must be lowercase SHA-256'')
      else case dataset_row_of sha db of
        None \<Rightarrow> Inl (KeyError ''replay dataset does not exist'')
      | Some r \<Rightarrow> validated_candles digest validate r)"

text \<open>A page of rows: \<open>LIMIT\<close> and \<open>OFFSET\<close>.\<close>

definition valid_page :: "int \<Rightarrow> int \<Rightarrow> bool" where
  "valid_page limit offset \<longleftrightarrow> 1 \<le> limit \<and> limit \<le> 100 \<and> 0 \<le> offset"

definition page :: "int \<Rightarrow> int \<Rightarrow> 'a list \<Rightarrow> 'a list" where
  "page limit offset rows = take (nat limit) (drop (nat offset) rows)"

definition dataset_list_recent ::
  "(candle list \<Rightarrow> string) \<Rightarrow> ('j \<Rightarrow> candle result) \<Rightarrow> (string \<Rightarrow> 'k :: linorder) \<Rightarrow> 'j replay_dataset_row list
   \<Rightarrow> int \<Rightarrow> int \<Rightarrow> stored_replay_dataset list result" where
  "dataset_list_recent digest validate collate db limit offset =
     (if \<not> valid_page limit offset
      then Inl (ValueError ''replay page requires limit 1..100 and non-negative offset'')
      else
        let rows = page limit offset (sort_key (\<lambda>r. (- ds_created_at r, collate (ds_dataset_sha256 r))) db)
        in rbind (rmap (validated_candles digest validate) rows) (\<lambda>_. Inr (map stored_dataset rows)))"

section \<open>Sessions\<close>

record replay_session_row =
  rs_id :: uuid
  rs_dataset_sha256 :: string
  rs_instrument_id :: uuid
  rs_timeframe_seconds :: int
  rs_next_index :: int
  rs_total_events :: int
  rs_version :: int
  rs_checkpointed_at :: instant

record stored_replay_session =
  ss_session_id :: uuid
  ss_checkpoint :: replay_checkpoint
  ss_instrument_id :: uuid
  ss_timeframe_seconds :: int
  ss_total_events :: int
  ss_version :: int
  ss_checkpointed_at :: instant

type_synonym session_db = "replay_session_row list"

definition stored_session :: "replay_session_row \<Rightarrow> stored_replay_session" where
  "stored_session r = \<lparr>ss_session_id = rs_id r,
     ss_checkpoint = \<lparr>cp_dataset_sha256 = rs_dataset_sha256 r, cp_next_index = rs_next_index r\<rparr>,
     ss_instrument_id = rs_instrument_id r, ss_timeframe_seconds = rs_timeframe_seconds r,
     ss_total_events = rs_total_events r, ss_version = rs_version r, ss_checkpointed_at = rs_checkpointed_at r\<rparr>"

definition session_row_of :: "uuid \<Rightarrow> session_db \<Rightarrow> replay_session_row option" where
  "session_row_of sid db = List.find (\<lambda>r. rs_id r = sid) db"

definition checkpoint_time :: "datetime \<Rightarrow> instant result" where
  "checkpoint_time d =
     (if \<not> is_aware d then Inl (ValueError ''replay checkpoint timestamp must be timezone-aware'')
      else Inr (instant_of d))"

definition session_create ::
  "session_db \<Rightarrow> uuid \<Rightarrow> replay_engine \<Rightarrow> datetime \<Rightarrow> (stored_replay_session \<times> session_db) result" where
  "session_create db sid e checkpointed_at =
     rbind (checkpoint_time checkpointed_at) (\<lambda>t.
       case session_row_of sid db of
         Some existing \<Rightarrow>
           if rs_dataset_sha256 existing \<noteq> re_dataset_sha256 e \<or> rs_instrument_id existing \<noteq> re_instrument_id e
              \<or> rs_timeframe_seconds existing \<noteq> re_timeframe_seconds e \<or> rs_total_events existing \<noteq> int (re_total e)
           then Inl (ValueError ''replay session ID has conflicting dataset evidence'')
           else Inr (stored_session existing, db)
       | None \<Rightarrow>
           let cp = replay_checkpoint_of e;
               r = \<lparr>rs_id = sid, rs_dataset_sha256 = cp_dataset_sha256 cp, rs_instrument_id = re_instrument_id e,
                    rs_timeframe_seconds = re_timeframe_seconds e, rs_next_index = cp_next_index cp,
                    rs_total_events = int (re_total e), rs_version = 0, rs_checkpointed_at = t\<rparr>
           in Inr (stored_session r, db @ [r]))"

definition session_load :: "session_db \<Rightarrow> uuid \<Rightarrow> stored_replay_session result" where
  "session_load db sid =
     (case session_row_of sid db of
        None \<Rightarrow> Inl (KeyError ''replay session does not exist'')
      | Some r \<Rightarrow> Inr (stored_session r))"

definition session_list_recent :: "session_db \<Rightarrow> int \<Rightarrow> int \<Rightarrow> stored_replay_session list result" where
  "session_list_recent db limit offset =
     (if \<not> valid_page limit offset
      then Inl (ValueError ''replay page requires limit 1..100 and non-negative offset'')
      else Inr (map stored_session (page limit offset (sort_key (\<lambda>r. (- rs_checkpointed_at r, rs_id r)) db))))"

definition checkpoint_matches :: "uuid \<Rightarrow> replay_checkpoint \<Rightarrow> int \<Rightarrow> replay_session_row \<Rightarrow> bool" where
  "checkpoint_matches sid cp expected_version r \<longleftrightarrow>
     rs_id r = sid \<and> rs_version r = expected_version \<and> rs_dataset_sha256 r = cp_dataset_sha256 cp
     \<and> rs_total_events r \<ge> cp_next_index cp"

definition advance_row :: "replay_checkpoint \<Rightarrow> int \<Rightarrow> instant \<Rightarrow> replay_session_row \<Rightarrow> replay_session_row" where
  "advance_row cp expected_version t r =
     r\<lparr>rs_next_index := cp_next_index cp, rs_version := expected_version + 1, rs_checkpointed_at := t\<rparr>"

definition session_save ::
  "session_db \<Rightarrow> uuid \<Rightarrow> replay_checkpoint \<Rightarrow> int \<Rightarrow> datetime \<Rightarrow> (stored_replay_session \<times> session_db) result" where
  "session_save db sid cp expected_version checkpointed_at =
     rbind (checkpoint_time checkpointed_at) (\<lambda>t.
       if expected_version < 0 \<or> cp_next_index cp < 0
       then Inl (ValueError ''replay checkpoint version and index must be non-negative'')
       else
         let hit = checkpoint_matches sid cp expected_version;
             db' = map (\<lambda>r. if hit r then advance_row cp expected_version t r else r) db
         in if length (filter hit db) \<noteq> 1
            then Inl (ValueError ''replay checkpoint is stale, mismatched, or out of range'')
            else rbind (session_load db' sid) (\<lambda>s. Inr (s, db')))"

section \<open>The coordinator\<close>

record replay_mutation =
  rm_session :: stored_replay_session
  rm_frame :: "replay_frame option"

definition restore_session ::
  "(candle list \<Rightarrow> string) \<Rightarrow> (string \<Rightarrow> candle list result) \<Rightarrow> session_db \<Rightarrow> uuid
   \<Rightarrow> (stored_replay_session \<times> replay_engine) result" where
  "restore_session digest loader db sid =
     rbind (session_load db sid) (\<lambda>stored.
     rbind (loader (cp_dataset_sha256 (ss_checkpoint stored))) (\<lambda>candles.
     rbind (make_replay_engine digest candles) (\<lambda>e.
       if re_dataset_sha256 e \<noteq> cp_dataset_sha256 (ss_checkpoint stored)
          \<or> re_instrument_id e \<noteq> ss_instrument_id stored
          \<or> re_timeframe_seconds e \<noteq> ss_timeframe_seconds stored
          \<or> int (re_total e) \<noteq> ss_total_events stored
       then Inl (ValueError ''replay dataset no longer matches persisted session evidence'')
       else rbind (replay_restore e (ss_checkpoint stored)) (\<lambda>e'. Inr (stored, e')))))"

definition coordinator_step ::
  "(candle list \<Rightarrow> string) \<Rightarrow> (string \<Rightarrow> candle list result) \<Rightarrow> session_db \<Rightarrow> uuid \<Rightarrow> int \<Rightarrow> datetime
   \<Rightarrow> (replay_mutation \<times> session_db) result" where
  "coordinator_step digest loader db sid expected_version checkpointed_at =
     rbind (restore_session digest loader db sid) (\<lambda>(stored, e).
       if ss_version stored \<noteq> expected_version then Inl (ValueError ''replay session version is stale'')
       else case replay_step e of
         (None, _) \<Rightarrow> Inr (\<lparr>rm_session = stored, rm_frame = None\<rparr>, db)
       | (Some frame, e') \<Rightarrow>
           rbind (session_save db sid (replay_checkpoint_of e') expected_version checkpointed_at) (\<lambda>(saved, db').
             Inr (\<lparr>rm_session = saved, rm_frame = Some frame\<rparr>, db')))"

definition coordinator_seek ::
  "(candle list \<Rightarrow> string) \<Rightarrow> (string \<Rightarrow> candle list result) \<Rightarrow> session_db \<Rightarrow> uuid \<Rightarrow> datetime \<Rightarrow> int \<Rightarrow> datetime
   \<Rightarrow> (stored_replay_session \<times> session_db) result" where
  "coordinator_seek digest loader db sid as_of expected_version checkpointed_at =
     rbind (restore_session digest loader db sid) (\<lambda>(stored, e).
       if ss_version stored \<noteq> expected_version then Inl (ValueError ''replay session version is stale'')
       else rbind (replay_seek e as_of) (\<lambda>(_, e').
         if replay_checkpoint_of e' = ss_checkpoint stored then Inr (stored, db)
         else session_save db sid (replay_checkpoint_of e') expected_version checkpointed_at))"

definition coordinator_snapshot ::
  "(candle list \<Rightarrow> string) \<Rightarrow> (string \<Rightarrow> candle list result) \<Rightarrow> session_db \<Rightarrow> uuid
   \<Rightarrow> (stored_replay_session \<times> candle list) result" where
  "coordinator_snapshot digest loader db sid =
     rbind (restore_session digest loader db sid) (\<lambda>(stored, e). Inr (stored, replay_snapshot e))"

section \<open>Datasets are content addressed\<close>

lemma validated_candles_Inr:
  assumes "validated_candles digest validate r = Inr cs"
  shows "digest cs = ds_dataset_sha256 r" and "\<exists>e. make_replay_engine digest cs = Inr e"
  using assms make_replay_engine_fields [of digest cs]
  by (auto simp: validated_candles_def rbind_eq_Inr split: sum.splits if_splits)

lemma dataset_load_digest: "dataset_load digest validate db sha = Inr cs \<Longrightarrow> digest cs = sha"
  by (auto simp: dataset_load_def dataset_row_of_def split: if_splits option.splits
      dest!: validated_candles_Inr(1) find_Some_in)

lemma dataset_row_of_append:
  "dataset_row_of sha db = None \<Longrightarrow> dataset_row_of sha (db @ [r]) = (if ds_dataset_sha256 r = sha then Some r else None)"
  by (induction db) (auto simp: dataset_row_of_def split: if_splits)

lemma dataset_roundtrip_load:
  assumes "dataset_store digest dump validate db candles at0 = Inr (s, db')"
    and "sha256_text (digest candles)" and "\<forall>c \<in> set candles. validate (dump c) = Inr c"
  shows "dataset_load digest validate db' (digest candles) = Inr candles"
proof -
  obtain e where e: "make_replay_engine digest candles = Inr e"
    using assms(1) by (auto simp: dataset_store_def rbind_eq_Inr)
  note f = make_replay_engine_fields [OF e]
  show ?thesis
  proof (cases "dataset_row_of (digest candles) db")
    case None
    define r where "r = \<lparr>ds_dataset_sha256 = digest candles, ds_instrument_id = re_instrument_id e,
      ds_timeframe_seconds = re_timeframe_seconds e, ds_total_events = re_total e,
      ds_first_timestamp = candle_timestamp (hd candles), ds_last_timestamp = candle_timestamp (last candles),
      ds_candles = map dump candles, ds_created_at = instant_of at0\<rparr>"
    have db': "db' = db @ [r]"
      using assms(1) None f by (simp add: dataset_store_def e Let_def r_def)
    have "rmap validate (map dump cs) = Inr cs" if "\<forall>c \<in> set cs. validate (dump c) = Inr c" for cs
      using that by (induction cs) auto
    then have "rmap validate (map dump candles) = Inr candles" using assms(3) by blast
    then have "validated_candles digest validate r = Inr candles"
      using f by (simp add: validated_candles_def r_def e)
    moreover have "dataset_row_of (digest candles) db' = Some r"
      using dataset_row_of_append [OF None, of r] by (simp add: db' r_def)
    ultimately show ?thesis
      using assms(2) by (simp add: dataset_load_def)
  next
    case (Some r)
    then show ?thesis
      using assms(1,2) f
      by (auto simp: dataset_store_def e rbind_eq_Inr dataset_load_def split: if_splits)
  qed
qed

text \<open>Replay datasets are content addressed and survive storage: after storing a stream, loading its
  digest returns that very stream (the JSON form of its candles being parsed back to them, as the
  model library documents), and no load ever returns a stream whose digest is not the one asked for.\<close>

theorem dataset_roundtrip:
  assumes "dataset_store digest dump validate db candles at0 = Inr (s, db')"
    and "sha256_text (digest candles)" and "\<forall>c \<in> set candles. validate (dump c) = Inr c"
  shows "dataset_load digest validate db' (digest candles) = Inr candles
    \<and> (\<forall>sha cs. dataset_load digest validate db' sha = Inr cs \<longrightarrow> digest cs = sha)"
  using dataset_roundtrip_load [OF assms] dataset_load_digest by blast

definition hex_digest :: "candle list \<Rightarrow> string" where
  "hex_digest cs = replicate 64 CHR ''a''"

theorem dataset_roundtrip_witness:
  "\<exists>s db'. dataset_store hex_digest id Inr [] minute_stream (Aware 0) = Inr (s, db')
     \<and> dataset_load hex_digest Inr db' (hex_digest minute_stream) = Inr minute_stream"
proof -
  obtain s db' where st: "dataset_store hex_digest id Inr [] minute_stream (Aware 0) = Inr (s, db')"
    by (simp add: dataset_store_def minute_engine_made dataset_row_of_def Let_def)
  have "sha256_text (hex_digest minute_stream)"
    by (simp add: sha256_text_def hex_digest_def list_all_iff)
  from dataset_roundtrip [OF st this] st show ?thesis by auto
qed

section \<open>Saving a checkpoint\<close>

definition sessions_ok :: "session_db \<Rightarrow> bool" where
  "sessions_ok db \<longleftrightarrow> distinct (map rs_id db)
     \<and> (\<forall>r \<in> set db. 0 \<le> rs_next_index r \<and> rs_next_index r \<le> rs_total_events r \<and> 0 \<le> rs_version r)"

lemma advance_row_fields [simp]:
  "rs_id (advance_row cp v t r) = rs_id r" "rs_version (advance_row cp v t r) = v + 1"
  "rs_next_index (advance_row cp v t r) = cp_next_index cp" "rs_total_events (advance_row cp v t r) = rs_total_events r"
  "rs_dataset_sha256 (advance_row cp v t r) = rs_dataset_sha256 r"
  "rs_instrument_id (advance_row cp v t r) = rs_instrument_id r"
  "rs_timeframe_seconds (advance_row cp v t r) = rs_timeframe_seconds r"
  by (simp_all add: advance_row_def)

lemma session_row_of_in: "session_row_of sid db = Some r \<Longrightarrow> r \<in> set db \<and> rs_id r = sid"
  unfolding session_row_of_def by (rule find_Some_in)

lemma session_row_of_iff:
  "distinct (map rs_id db) \<Longrightarrow> session_row_of sid db = Some r \<longleftrightarrow> r \<in> set db \<and> rs_id r = sid"
  using session_row_of_in [of sid db r] find_map_key [of rs_id db r] by (metis session_row_of_def)

lemma session_row_of_map:
  "(\<And>r. rs_id (f r) = rs_id r) \<Longrightarrow> session_row_of sid (map f db) = map_option f (session_row_of sid db)"
  by (induction db) (auto simp: session_row_of_def)

definition save_row :: "uuid \<Rightarrow> replay_checkpoint \<Rightarrow> int \<Rightarrow> instant \<Rightarrow> replay_session_row \<Rightarrow> replay_session_row" where
  "save_row sid cp v t r = (if checkpoint_matches sid cp v r then advance_row cp v t r else r)"

lemma save_row_id [simp]: "rs_id (save_row sid cp v t r) = rs_id r"
  by (simp add: save_row_def)

lemma save_row_comp [simp]: "rs_id \<circ> save_row sid cp v t = rs_id"
  by (rule ext) simp

lemma session_save_alt:
  "session_save db sid cp v d =
     rbind (checkpoint_time d) (\<lambda>t.
       if v < 0 \<or> cp_next_index cp < 0
       then Inl (ValueError ''replay checkpoint version and index must be non-negative'')
       else if length (filter (checkpoint_matches sid cp v) db) \<noteq> 1
       then Inl (ValueError ''replay checkpoint is stale, mismatched, or out of range'')
       else rbind (session_load (map (save_row sid cp v t) db) sid) (\<lambda>s. Inr (s, map (save_row sid cp v t) db)))"
  unfolding session_save_def save_row_def [abs_def] Let_def ..

lemma filter_one_key:
  assumes "distinct (map f xs)" "x \<in> set xs" "P x" "\<And>y. P y \<Longrightarrow> f y = f x"
  shows "filter P xs = [x]"
  using assms
proof (induction xs)
  case (Cons a xs)
  show ?case
  proof (cases "a = x")
    case True
    then have "filter P xs = []"
      using Cons.prems(1,4) by (auto simp: filter_empty_conv image_iff)
    with True Cons.prems(3) show ?thesis by simp
  next
    case False
    moreover from this have "\<not> P a" using Cons.prems(1,2,4) by (auto simp: image_iff)
    ultimately show ?thesis using Cons.IH [OF _ _ Cons.prems(3,4)] Cons.prems(1,2) by simp
  qed
qed simp

lemma session_save_success:
  assumes "distinct (map rs_id db)" "session_row_of sid db = Some r" "checkpoint_matches sid cp v r"
    "0 \<le> v" "0 \<le> cp_next_index cp"
  shows "session_save db sid cp v (Aware t) = Inr (stored_session (advance_row cp v t r), map (save_row sid cp v t) db)"
proof -
  have "filter (checkpoint_matches sid cp v) db = [r]"
    using assms session_row_of_in [OF assms(2)]
    by (intro filter_one_key [where f = rs_id]) (auto simp: checkpoint_matches_def)
  then show ?thesis
    using assms by (simp add: session_save_alt checkpoint_time_def session_load_def session_row_of_map save_row_def)
qed

lemma session_save_Inr:
  assumes "distinct (map rs_id db)" "session_save db sid cp v d = Inr (s, db')"
  obtains r t where "d = Aware t" "session_row_of sid db = Some r" "checkpoint_matches sid cp v r" "0 \<le> v"
    "0 \<le> cp_next_index cp" "s = stored_session (advance_row cp v t r)" "db' = map (save_row sid cp v t) db"
proof -
  obtain t where d: "d = Aware t" and nn: "0 \<le> v" "0 \<le> cp_next_index cp"
    and one: "length (filter (checkpoint_matches sid cp v) db) = 1"
    using assms(2) by (cases d) (auto simp: session_save_alt checkpoint_time_def rbind_eq_Inr split: if_splits)
  then obtain r where "filter (checkpoint_matches sid cp v) db = [r]"
    by (auto simp: length_Suc_conv)
  then have "r \<in> set (filter (checkpoint_matches sid cp v) db)" by simp
  then have r: "r \<in> set db" "checkpoint_matches sid cp v r" by simp_all
  then have row: "session_row_of sid db = Some r"
    using session_row_of_iff [OF assms(1)] by (auto simp: checkpoint_matches_def)
  from session_save_success [OF assms(1) row r(2) nn, of t] assms(2) that [OF d row r(2) nn] show thesis
    by (simp add: d)
qed

lemma session_save_ok [inv_rules]:
  assumes ok: "sessions_ok db" and save: "session_save db sid cp v d = Inr (s, db')"
  shows "sessions_ok db'"
proof -
  have "distinct (map rs_id db)" using ok by (simp add: sessions_ok_def)
  from this save obtain t where nn: "0 \<le> v" "0 \<le> cp_next_index cp" and db': "db' = map (save_row sid cp v t) db"
    by (rule session_save_Inr)
  moreover have "0 \<le> rs_next_index (save_row sid cp v t r) \<and> rs_next_index (save_row sid cp v t r) \<le> rs_total_events (save_row sid cp v t r)
      \<and> 0 \<le> rs_version (save_row sid cp v t r)" if "r \<in> set db" for r
    using ok nn that by (auto simp: sessions_ok_def save_row_def checkpoint_matches_def)
  ultimately show ?thesis
    using ok unfolding sessions_ok_def by (simp add: db')
qed

lemma session_create_ok [inv_rules]:
  assumes "sessions_ok db" "replay_ok digest e" "session_create db sid e d = Inr (s, db')"
  shows "sessions_ok db'"
proof (cases "session_row_of sid db")
  case None
  then have "sid \<notin> rs_id ` set db"
    by (auto simp: session_row_of_def find_None_iff)
  with None assms show ?thesis
    using replay_okD [OF assms(2)]
    by (auto simp: session_create_def rbind_eq_Inr sessions_ok_def Let_def replay_checkpoint_of_def re_total_def)
next
  case (Some r)
  with assms show ?thesis by (auto simp: session_create_def rbind_eq_Inr split: if_splits)
qed

text \<open>A checkpoint version is used once.\<close>

lemma session_save_once:
  assumes "distinct (map rs_id db)" "session_save db sid cp v d = Inr (s, db')"
  shows "\<exists>e. session_save db' sid cp' v d' = Inl e"
proof (cases "session_save db' sid cp' v d'")
  case (Inr x)
  obtain r t where r: "session_row_of sid db = Some r" "checkpoint_matches sid cp v r"
    and db': "db' = map (save_row sid cp v t) db"
    using assms by (rule session_save_Inr)
  have dist: "distinct (map rs_id db')" using assms(1) by (simp add: db')
  obtain s2 db2 where "session_save db' sid cp' v d' = Inr (s2, db2)" using Inr by (cases x) simp
  with dist obtain r' where r': "session_row_of sid db' = Some r'" "checkpoint_matches sid cp' v r'"
    by (rule session_save_Inr)
  have "r' = advance_row cp v t r"
    using r r'(1) by (simp add: db' session_row_of_map save_row_def)
  with r'(2) show ?thesis by (simp add: checkpoint_matches_def)
qed blast

section \<open>A step of the coordinator\<close>

lemma restore_session_Inr:
  assumes "restore_session digest loader db sid = Inr (stored, e)"
  obtains r cs where "session_row_of sid db = Some r" "stored = stored_session r"
    "loader (rs_dataset_sha256 r) = Inr cs" "digest cs = rs_dataset_sha256 r" "replay_ok digest e"
    "re_candles e = cs" "int (length cs) = rs_total_events r" "rs_next_index r = int (re_next_index e)"
    "re_dataset_sha256 e = rs_dataset_sha256 r"
proof -
  obtain r cs e0 where r: "session_row_of sid db = Some r" "stored = stored_session r"
    and cs: "loader (rs_dataset_sha256 r) = Inr cs" and e0: "make_replay_engine digest cs = Inr e0"
    and m: "re_dataset_sha256 e0 = rs_dataset_sha256 r" "int (re_total e0) = rs_total_events r"
    and e: "replay_restore e0 \<lparr>cp_dataset_sha256 = rs_dataset_sha256 r, cp_next_index = rs_next_index r\<rparr> = Inr e"
    using assms
    by (auto simp: restore_session_def session_load_def rbind_eq_Inr stored_session_def split: option.splits if_splits)
  note f = make_replay_engine_fields [OF e0]
  have "replay_ok digest e"
    using make_replay_engine_ok [OF e0] e by (rule replay_restore_ok)
  moreover have "re_candles e = cs" "rs_next_index r = int (re_next_index e)" "re_dataset_sha256 e = rs_dataset_sha256 r"
    using e f m by (auto simp: replay_restore_def split: if_splits)
  ultimately show thesis
    using that [OF r cs _ \<open>replay_ok digest e\<close>] f m by (simp add: re_total_def)
qed

text \<open>One step of a stored replay advances it by exactly one candle, or not at all.  A returned frame
  is the candle of the session's dataset at the stored index; the stored index and version then grow
  by one, every other session keeps its row and the used version is refused from then on.  No
  frame is returned exactly at the end of the dataset, and then nothing is written.\<close>

theorem coordinator_step_advances_by_one:
  assumes "sessions_ok db" and "coordinator_step digest loader db sid v d = Inr (m, db')"
  shows "\<exists>r cs. session_row_of sid db = Some r \<and> loader (rs_dataset_sha256 r) = Inr cs \<and> rs_version r = v
    \<and> (case rm_frame m of
         None \<Rightarrow> db' = db \<and> rm_session m = stored_session r \<and> rs_next_index r = int (length cs)
       | Some f \<Rightarrow> rs_next_index r < int (length cs) \<and> fr_candle f = cs ! nat (rs_next_index r)
           \<and> (\<exists>r'. session_row_of sid db' = Some r' \<and> rm_session m = stored_session r'
                \<and> rs_next_index r' = rs_next_index r + 1 \<and> rs_version r' = v + 1)
           \<and> (\<forall>other. other = sid \<or> session_row_of other db' = session_row_of other db)
           \<and> (\<forall>cp' d'. \<exists>e. session_save db' sid cp' v d' = Inl e))"
proof -
  have dist: "distinct (map rs_id db)" using assms(1) by (simp add: sessions_ok_def)
  obtain stored e where res: "restore_session digest loader db sid = Inr (stored, e)" and v: "ss_version stored = v"
    using assms(2) by (auto simp: coordinator_step_def rbind_eq_Inr split: if_splits)
  from res obtain r cs where r: "session_row_of sid db = Some r" "stored = stored_session r"
    and cs: "loader (rs_dataset_sha256 r) = Inr cs" and ok: "replay_ok digest e" "re_candles e = cs"
    and ix: "rs_next_index r = int (re_next_index e)" and sha: "re_dataset_sha256 e = rs_dataset_sha256 r"
    by (rule restore_session_Inr)
  have rv: "rs_version r = v" using v r(2) by (simp add: stored_session_def)
  show ?thesis
  proof (cases "re_complete e")
    case True
    then have "m = \<lparr>rm_session = stored, rm_frame = None\<rparr>" "db' = db"
      using assms(2) v by (auto simp: coordinator_step_def res replay_step_def)
    with True r cs ok ix rv show ?thesis by (simp add: re_complete_def)
  next
    case False
    define f where "f = the (fst (replay_step e))"
    define e1 where "e1 = snd (replay_step e)"
    define cp where "cp = replay_checkpoint_of e1"
    have step: "replay_step e = (Some f, e1)"
      using False by (simp add: f_def e1_def replay_step_def Let_def)
    have "rbind (session_save db sid cp v d) (\<lambda>(saved, db'). Inr (\<lparr>rm_session = saved, rm_frame = Some f\<rparr>, db'))
        = Inr (m, db')"
      using assms(2) v by (simp add: coordinator_step_def res cp_def step)
    then obtain s' where save: "session_save db sid cp v d = Inr (s', db')"
      and m: "m = \<lparr>rm_session = s', rm_frame = Some f\<rparr>"
      by (auto simp: rbind_eq_Inr)
    from dist save obtain r2 t where r2: "session_row_of sid db = Some r2" "checkpoint_matches sid cp v r2"
      "s' = stored_session (advance_row cp v t r2)" and db': "db' = map (save_row sid cp v t) db"
      by (rule session_save_Inr)
    have "re_next_index e < length cs"
      using False replay_okD [OF ok(1)] ok(2) by (simp add: re_complete_def)
    moreover have "fr_candle f = cs ! re_next_index e" "cp_next_index cp = int (re_next_index e) + 1"
      using False ok(2) by (simp_all add: f_def cp_def e1_def replay_step_def Let_def replay_checkpoint_of_def)
    moreover have "session_row_of sid db' = Some (advance_row cp v t r)"
      using r r2 by (simp add: db' session_row_of_map save_row_def)
    moreover have "session_row_of other db' = session_row_of other db" if "other \<noteq> sid" for other
      using that session_row_of_in [of other db]
      by (cases "session_row_of other db") (auto simp: db' session_row_of_map save_row_def checkpoint_matches_def)
    moreover have "\<forall>cp' d'. \<exists>e. session_save db' sid cp' v d' = Inl e"
      using session_save_once [OF dist save] by blast
    ultimately show ?thesis
      using r r2 cs ix rv m by (intro exI [of _ r] exI [of _ cs]) auto
  qed
qed

definition demo_sessions :: session_db where
  "demo_sessions = [\<lparr>rs_id = 5, rs_dataset_sha256 = hex_digest minute_stream, rs_instrument_id = 1,
     rs_timeframe_seconds = 60, rs_next_index = 0, rs_total_events = 3, rs_version = 0, rs_checkpointed_at = 0\<rparr>]"

lemma demo_sessions_ok: "sessions_ok demo_sessions"
  by (simp add: demo_sessions_def sessions_ok_def)

lemma demo_restore:
  "restore_session hex_digest (\<lambda>_. Inr minute_stream) demo_sessions 5
     = Inr (stored_session (hd demo_sessions), minute_engine hex_digest)"
  by (simp add: restore_session_def session_load_def session_row_of_def demo_sessions_def stored_session_def
      minute_engine_made replay_restore_def)
    (simp add: minute_engine_def minute_stream_def minute_bar_def re_instrument_id_def re_timeframe_seconds_def re_total_def)

lemma demo_coordinator_step:
  "\<exists>m db'. coordinator_step hex_digest (\<lambda>_. Inr minute_stream) demo_sessions 5 0 (Aware 7) = Inr (m, db')"
  by (simp add: coordinator_step_def demo_restore replay_step_def Let_def re_complete_def session_save_def checkpoint_time_def
      checkpoint_matches_def replay_checkpoint_of_def session_load_def session_row_of_def)
    (simp add: minute_engine_def minute_stream_def demo_sessions_def stored_session_def advance_row_def checkpoint_matches_def)

theorem coordinator_step_advances_by_one_witness:
  "\<exists>m db' r. coordinator_step hex_digest (\<lambda>_. Inr minute_stream) demo_sessions 5 0 (Aware 7) = Inr (m, db')
     \<and> session_row_of 5 demo_sessions = Some r \<and> rs_version r = 0"
proof -
  obtain m db' where st: "coordinator_step hex_digest (\<lambda>_. Inr minute_stream) demo_sessions 5 0 (Aware 7) = Inr (m, db')"
    using demo_coordinator_step by blast
  from coordinator_step_advances_by_one [OF demo_sessions_ok st] st show ?thesis by blast
qed

end
