(* ===== verification/Replay_Scheduler.thy ===== *)
theory Replay_Scheduler
  imports Replay_Sessions
begin

text \<open>
  The bounded scheduler of \<open>packages/replay/scheduler.py\<close>.  Its callbacks are parameters: the n-th call of
  \<open>should_stop\<close> answers \<open>stop n\<close>, the step after \<open>n\<close> emitted frames is stamped \<open>now n\<close>, and what other
  tasks commit to the session table while the scheduler sleeps after \<open>n\<close> frames is \<open>env n\<close>.  A raise leaves the
  table as the committed steps left it, so the loop returns the table in both cases.  The rate is a
  binary float: \<open>None\<close> stands for NaN and the infinities.
\<close>

datatype replay_schedule_outcome = SCHEDULE_COMPLETE | SCHEDULE_STOPPED | SCHEDULE_STEP_LIMIT

record replay_schedule_result =
  sr_session :: stored_replay_session
  sr_frames_emitted :: nat
  sr_outcome :: replay_schedule_outcome

text \<open>The literal \<open>0.1\<close> is the double next to one tenth.\<close>

definition minimum_rate :: rat where
  "minimum_rate = 3602879701896397 / 36028797018963968"

definition validate_schedule :: "rat option \<Rightarrow> int \<Rightarrow> unit result" where
  "validate_schedule candles_per_second maximum_steps =
     (if (case candles_per_second of None \<Rightarrow> True | Some x \<Rightarrow> \<not> (minimum_rate \<le> x \<and> x \<le> 100))
      then Inl (ValueError ''replay rate must be finite and between 0.1 and 100'')
      else if \<not> (1 \<le> maximum_steps \<and> maximum_steps \<le> 10000)
      then Inl (ValueError ''replay maximum steps must be between 1 and 10000'')
      else Inr ())"

text \<open>
  One round of the loop: the stop checks, the sleep, the step, the commit.  \<open>Inl\<close> ends the loop with
  a result or a raise, \<open>Inr\<close> continues it with the new session; \<open>calls\<close> counts the stop checks.
\<close>

definition schedule_round ::
  "(session_db \<Rightarrow> int \<Rightarrow> datetime \<Rightarrow> (replay_mutation \<times> session_db) result) \<Rightarrow> (nat \<Rightarrow> bool) \<Rightarrow> (nat \<Rightarrow> datetime)
   \<Rightarrow> (nat \<Rightarrow> session_db \<Rightarrow> session_db) \<Rightarrow> nat \<Rightarrow> nat \<Rightarrow> stored_replay_session \<Rightarrow> session_db
   \<Rightarrow> (replay_schedule_result result + stored_replay_session \<times> nat) \<times> session_db" where
  "schedule_round step stop now env emitted calls stored db =
     (let ended = (\<lambda>s n oc. Inl (Inr \<lparr>sr_session = s, sr_frames_emitted = n, sr_outcome = oc\<rparr>)) in
      if stop calls then (ended stored emitted SCHEDULE_STOPPED, db)
      else
        let slept = (emitted \<noteq> 0);
            db1 = (if slept then env emitted db else db);
            calls1 = (if slept then calls + 2 else calls + 1)
        in if slept \<and> stop (calls + 1) then (ended stored emitted SCHEDULE_STOPPED, db1)
           else case step db1 (ss_version stored) (now emitted) of
             Inl e \<Rightarrow> (Inl (Inl e), db1)
           | Inr (m, db2) \<Rightarrow>
               (case rm_frame m of
                  None \<Rightarrow> (ended stored emitted SCHEDULE_COMPLETE, db1)
                | Some _ \<Rightarrow>
                    if cp_next_index (ss_checkpoint (rm_session m)) = ss_total_events (rm_session m)
                    then (ended (rm_session m) (emitted + 1) SCHEDULE_COMPLETE, db2)
                    else (Inr (rm_session m, calls1), db2)))"

primrec schedule_loop ::
  "nat \<Rightarrow> (session_db \<Rightarrow> int \<Rightarrow> datetime \<Rightarrow> (replay_mutation \<times> session_db) result) \<Rightarrow> (nat \<Rightarrow> bool) \<Rightarrow> (nat \<Rightarrow> datetime)
   \<Rightarrow> (nat \<Rightarrow> session_db \<Rightarrow> session_db) \<Rightarrow> nat \<Rightarrow> nat \<Rightarrow> stored_replay_session \<Rightarrow> session_db
   \<Rightarrow> replay_schedule_result result \<times> session_db" where
  "schedule_loop 0 step stop now env emitted calls stored db =
     (Inr \<lparr>sr_session = stored, sr_frames_emitted = emitted, sr_outcome = SCHEDULE_STEP_LIMIT\<rparr>, db)"
| "schedule_loop (Suc k) step stop now env emitted calls stored db =
     (case schedule_round step stop now env emitted calls stored db of
        (Inl r, db') \<Rightarrow> (r, db')
      | (Inr (stored', calls'), db') \<Rightarrow> schedule_loop k step stop now env (emitted + 1) calls' stored' db')"

definition run_schedule ::
  "(candle list \<Rightarrow> string) \<Rightarrow> (string \<Rightarrow> candle list result) \<Rightarrow> (nat \<Rightarrow> bool) \<Rightarrow> (nat \<Rightarrow> datetime)
   \<Rightarrow> (nat \<Rightarrow> session_db \<Rightarrow> session_db) \<Rightarrow> session_db \<Rightarrow> uuid \<Rightarrow> int \<Rightarrow> rat option \<Rightarrow> int
   \<Rightarrow> replay_schedule_result result \<times> session_db" where
  "run_schedule digest loader stop now env db sid expected_version candles_per_second maximum_steps =
     (case validate_schedule candles_per_second maximum_steps of
        Inl e \<Rightarrow> (Inl e, db)
      | Inr _ \<Rightarrow>
          (case coordinator_snapshot digest loader db sid of
             Inl e \<Rightarrow> (Inl e, db)
           | Inr (stored, _) \<Rightarrow>
               if ss_version stored \<noteq> expected_version
               then (Inl (ValueError ''replay session version is stale''), db)
               else schedule_loop (nat maximum_steps) (\<lambda>db v t. coordinator_step digest loader db sid v t)
                      stop now env 0 0 stored db))"

section \<open>Frames are emitted one version at a time\<close>

text \<open>A session whose row and dataset agree: the coordinator can restore it.\<close>

definition playable :: "(candle list \<Rightarrow> string) \<Rightarrow> (string \<Rightarrow> candle list result) \<Rightarrow> session_db \<Rightarrow> replay_session_row
   \<Rightarrow> candle list \<Rightarrow> bool" where
  "playable digest loader db r cs \<longleftrightarrow> sessions_ok db \<and> session_row_of (rs_id r) db = Some r
     \<and> loader (rs_dataset_sha256 r) = Inr cs
     \<and> (\<exists>e. make_replay_engine digest cs = Inr e \<and> re_dataset_sha256 e = rs_dataset_sha256 r
          \<and> re_instrument_id e = rs_instrument_id r \<and> re_timeframe_seconds e = rs_timeframe_seconds r
          \<and> int (re_total e) = rs_total_events r)"

lemma playable_restore:
  assumes "playable digest loader db r cs"
  shows "\<exists>e. restore_session digest loader db (rs_id r) = Inr (stored_session r, e) \<and> re_candles e = cs
    \<and> int (re_next_index e) = rs_next_index r \<and> re_dataset_sha256 e = rs_dataset_sha256 r
    \<and> int (length cs) = rs_total_events r"
proof -
  obtain e where e: "make_replay_engine digest cs = Inr e" "re_dataset_sha256 e = rs_dataset_sha256 r"
      "re_instrument_id e = rs_instrument_id r" "re_timeframe_seconds e = rs_timeframe_seconds r"
      "int (re_total e) = rs_total_events r" and row: "session_row_of (rs_id r) db = Some r"
    and ld: "loader (rs_dataset_sha256 r) = Inr cs" and ok: "sessions_ok db"
    using assms by (auto simp: playable_def)
  note f = make_replay_engine_fields [OF e(1)]
  have "0 \<le> rs_next_index r" "rs_next_index r \<le> rs_total_events r"
    using ok session_row_of_in [OF row] by (auto simp: sessions_ok_def)
  with e f ld row show ?thesis
    by (simp add: restore_session_def session_load_def stored_session_def replay_restore_def re_total_def)
qed

lemma playable_step_end:
  assumes "playable digest loader db r cs" "rs_next_index r = rs_total_events r"
  shows "coordinator_step digest loader db (rs_id r) (rs_version r) d = Inr (\<lparr>rm_session = stored_session r, rm_frame = None\<rparr>, db)"
proof -
  obtain e where e: "restore_session digest loader db (rs_id r) = Inr (stored_session r, e)" "re_candles e = cs"
    "int (re_next_index e) = rs_next_index r" "int (length cs) = rs_total_events r"
    using playable_restore [OF assms(1)] by blast
  then have "re_complete e" using assms(2) by (simp add: re_complete_def)
  then show ?thesis
    by (simp add: coordinator_step_def e(1) replay_step_def) (simp add: stored_session_def)
qed

definition next_row :: "replay_session_row \<Rightarrow> instant \<Rightarrow> replay_session_row" where
  "next_row r t = r\<lparr>rs_next_index := rs_next_index r + 1, rs_version := rs_version r + 1, rs_checkpointed_at := t\<rparr>"

lemma playable_step:
  assumes pl: "playable digest loader db r cs" and lt: "rs_next_index r < rs_total_events r"
  shows "\<exists>f db'. coordinator_step digest loader db (rs_id r) (rs_version r) (Aware t)
      = Inr (\<lparr>rm_session = stored_session (next_row r t), rm_frame = Some f\<rparr>, db')
    \<and> fr_candle f = cs ! nat (rs_next_index r) \<and> playable digest loader db' (next_row r t) cs"
proof -
  obtain e where e: "restore_session digest loader db (rs_id r) = Inr (stored_session r, e)" "re_candles e = cs"
    "int (re_next_index e) = rs_next_index r" "re_dataset_sha256 e = rs_dataset_sha256 r"
    "int (length cs) = rs_total_events r"
    using playable_restore [OF pl] by blast
  define f where "f = the (fst (replay_step e))"
  define e1 where "e1 = snd (replay_step e)"
  define cp where "cp = replay_checkpoint_of e1"
  have inc: "\<not> re_complete e" using e lt by (auto simp: re_complete_def)
  then have step: "replay_step e = (Some f, e1)" by (simp add: f_def e1_def replay_step_def Let_def)
  have f: "fr_candle f = cs ! nat (rs_next_index r)"
    using inc e(2) by (simp add: f_def replay_step_def Let_def flip: e(3))
  have cp: "cp_next_index cp = rs_next_index r + 1" "cp_dataset_sha256 cp = rs_dataset_sha256 r"
    using inc e(3,4) by (simp_all add: cp_def e1_def replay_step_def Let_def replay_checkpoint_of_def)
  have ok: "sessions_ok db" and row: "session_row_of (rs_id r) db = Some r"
    using pl by (simp_all add: playable_def)
  then have nn: "0 \<le> rs_version r" "0 \<le> rs_next_index r" and dist: "distinct (map rs_id db)"
    using session_row_of_in [OF row] by (auto simp: sessions_ok_def)
  define db' where "db' = map (save_row (rs_id r) cp (rs_version r) t) db"
  have hit: "checkpoint_matches (rs_id r) cp (rs_version r) r"
    using lt by (simp add: checkpoint_matches_def cp)
  have adv: "advance_row cp (rs_version r) t r = next_row r t"
    by (simp add: advance_row_def next_row_def cp)
  have save: "session_save db (rs_id r) cp (rs_version r) (Aware t) = Inr (stored_session (next_row r t), db')"
    using session_save_success [OF dist row hit nn(1), of t] nn(2) by (simp add: cp(1) adv db'_def)
  have "coordinator_step digest loader db (rs_id r) (rs_version r) (Aware t)
      = Inr (\<lparr>rm_session = stored_session (next_row r t), rm_frame = Some f\<rparr>, db')"
    using save by (simp add: coordinator_step_def e(1) step flip: cp_def) (simp add: stored_session_def)
  moreover have "playable digest loader db' (next_row r t) cs"
  proof -
    have "session_row_of (rs_id r) db' = Some (next_row r t)"
      using row hit by (simp add: db'_def session_row_of_map save_row_def adv)
    moreover have "sessions_ok db'" using session_save_ok [OF ok save] .
    ultimately show ?thesis using pl by (simp add: playable_def next_row_def)
  qed
  ultimately show ?thesis using f by blast
qed

lemma schedule_loop_progress:
  assumes "playable digest loader db r cs" and "\<And>n. \<not> stop n" and "\<And>n db. env n db = db" and "\<And>n. is_aware (now n)"
  shows "\<exists>res db' r'. schedule_loop k (\<lambda>db v t. coordinator_step digest loader db (rs_id r) v t) stop now env emitted calls
        (stored_session r) db = (Inr res, db')
    \<and> sr_frames_emitted res = emitted + min k (nat (rs_total_events r - rs_next_index r))
    \<and> (sr_outcome res = (if k = 0 \<or> k < nat (rs_total_events r - rs_next_index r)
         then SCHEDULE_STEP_LIMIT else SCHEDULE_COMPLETE))
    \<and> session_row_of (rs_id r) db' = Some r' \<and> sr_session res = stored_session r'
    \<and> rs_next_index r' = rs_next_index r + int (min k (nat (rs_total_events r - rs_next_index r)))
    \<and> rs_version r' = rs_version r + int (min k (nat (rs_total_events r - rs_next_index r)))"
  using assms(1)
proof (induction k arbitrary: emitted calls r db)
  case 0
  then show ?case by (simp add: playable_def)
next
  case (Suc k)
  let ?step = "\<lambda>db v t. coordinator_step digest loader db (rs_id r) v t"
  have row: "session_row_of (rs_id r) db = Some r" "rs_next_index r \<le> rs_total_events r"
    using Suc.prems session_row_of_in [of "rs_id r" db r] by (auto simp: playable_def sessions_ok_def)
  show ?case
  proof (cases "rs_next_index r = rs_total_events r")
    case True
    have "schedule_round ?step stop now env emitted calls (stored_session r) db
        = (Inl (Inr \<lparr>sr_session = stored_session r, sr_frames_emitted = emitted, sr_outcome = SCHEDULE_COMPLETE\<rparr>), db)"
      using playable_step_end [OF Suc.prems True] assms(2,3)
      by (simp add: schedule_round_def Let_def) (simp add: stored_session_def)
    with True row show ?thesis by simp
  next
    case False
    with row have lt: "rs_next_index r < rs_total_events r" by simp
    obtain t where t: "now emitted = Aware t" using assms(4) [of emitted] by (cases "now emitted") auto
    obtain f db' where st: "?step db (rs_version r) (Aware t)
        = Inr (\<lparr>rm_session = stored_session (next_row r t), rm_frame = Some f\<rparr>, db')"
      and pl: "playable digest loader db' (next_row r t) cs"
      using playable_step [OF Suc.prems lt] by blast
    have nr: "rs_id (next_row r t) = rs_id r" "rs_next_index (next_row r t) = rs_next_index r + 1"
      "rs_total_events (next_row r t) = rs_total_events r" "rs_version (next_row r t) = rs_version r + 1"
      by (simp_all add: next_row_def)
    have sv: "ss_version (stored_session q) = rs_version q" "ss_total_events (stored_session q) = rs_total_events q"
      "cp_next_index (ss_checkpoint (stored_session q)) = rs_next_index q" for q
      by (simp_all add: stored_session_def)
    show ?thesis
    proof (cases "rs_next_index r + 1 = rs_total_events r")
      case True
      have rnd: "schedule_round ?step stop now env emitted calls (stored_session r) db
          = (Inl (Inr \<lparr>sr_session = stored_session (next_row r t), sr_frames_emitted = emitted + 1,
                sr_outcome = SCHEDULE_COMPLETE\<rparr>), db')"
        using st t True assms(2,3) by (simp add: schedule_round_def Let_def sv nr)
      have one: "nat (rs_total_events r - rs_next_index r) = 1" using True by simp
      show ?thesis
        using pl by (simp add: rnd one playable_def nr)
    next
      case False
      define calls' where "calls' = (if emitted \<noteq> 0 then calls + 2 else calls + 1)"
      have rnd: "schedule_round ?step stop now env emitted calls (stored_session r) db
          = (Inr (stored_session (next_row r t), calls'), db')"
        using st t False assms(2,3) by (simp add: schedule_round_def Let_def sv nr calls'_def)
      have m: "nat (rs_total_events r - rs_next_index r) = Suc (nat (rs_total_events r - (rs_next_index r + 1)))"
        using lt by linarith
      have pos: "0 < nat (rs_total_events r - (rs_next_index r + 1))"
        using lt False by linarith
      define x where "x = nat (rs_total_events r - (rs_next_index r + 1))"
      obtain res db2 r' where rec: "schedule_loop k ?step stop now env (emitted + 1) calls' (stored_session (next_row r t)) db'
          = (Inr res, db2)"
        and em: "sr_frames_emitted res = (emitted + 1) + min k x"
        and oc: "sr_outcome res = (if k = 0 \<or> k < x then SCHEDULE_STEP_LIMIT else SCHEDULE_COMPLETE)"
        and rw: "session_row_of (rs_id r) db2 = Some r'" "sr_session res = stored_session r'"
        and ix: "rs_next_index r' = rs_next_index r + 1 + int (min k x)" "rs_version r' = rs_version r + 1 + int (min k x)"
        using Suc.IH [OF pl, of "emitted + 1" calls'] unfolding nr x_def by blast
      show ?thesis
        unfolding m x_def [symmetric]
      proof (intro exI conjI)
        show "schedule_loop (Suc k) ?step stop now env emitted calls (stored_session r) db = (Inr res, db2)"
          using rec by (simp add: rnd)
      qed (use em oc rw ix pos in \<open>auto simp: x_def\<close>)
    qed
  qed
qed

lemma playable_snapshot:
  assumes "playable digest loader db r cs"
  shows "coordinator_snapshot digest loader db (rs_id r) = Inr (stored_session r, take (nat (rs_next_index r)) cs)"
proof -
  obtain e where "restore_session digest loader db (rs_id r) = Inr (stored_session r, e)" "re_candles e = cs"
    "int (re_next_index e) = rs_next_index r"
    using playable_restore [OF assms] by blast
  then show ?thesis by (simp add: coordinator_snapshot_def replay_snapshot_def flip: \<open>int (re_next_index e) = _\<close>)
qed

text \<open>C17: A scheduled replay reaches the end of its dataset.  When nobody asks it to stop, no other task
  touches the table while it sleeps and the step limit covers what is left, the scheduler returns
  (after emitting every remaining candle, each committed under its own version) with outcome
  COMPLETE and the stored index at the end; with a smaller limit it returns STEP_LIMIT after
  exactly that many frames.\<close>

theorem scheduled_replay_completes:
  assumes "playable digest loader db r cs" and "validate_schedule rate limit = Inr ()"
    and "\<forall>n. \<not> stop n" and "\<forall>n db. env n db = db" and "\<forall>n. is_aware (now n)"
  shows "\<exists>res db' r'. run_schedule digest loader stop now env db (rs_id r) (rs_version r) rate limit = (Inr res, db')
    \<and> sr_outcome res = (if limit < rs_total_events r - rs_next_index r then SCHEDULE_STEP_LIMIT else SCHEDULE_COMPLETE)
    \<and> int (sr_frames_emitted res) = min limit (rs_total_events r - rs_next_index r)
    \<and> session_row_of (rs_id r) db' = Some r' \<and> sr_session res = stored_session r'
    \<and> rs_next_index r' = rs_next_index r + int (sr_frames_emitted res)
    \<and> rs_version r' = rs_version r + int (sr_frames_emitted res)"
proof -
  have limit: "1 \<le> limit" using assms(2) by (auto simp: validate_schedule_def split: if_splits option.splits)
  have "rs_next_index r \<le> rs_total_events r"
    using assms(1) session_row_of_in [of "rs_id r" db r] by (auto simp: playable_def sessions_ok_def)
  then obtain n where n: "rs_total_events r - rs_next_index r = int n" by (metis diff_ge_0_iff_ge nonneg_int_cases)
  obtain k where k: "limit = int k" "k \<noteq> 0" using limit by (cases limit) auto
  obtain res db' r' where loop: "schedule_loop k (\<lambda>db v t. coordinator_step digest loader db (rs_id r) v t) stop now env 0 0
        (stored_session r) db = (Inr res, db')"
    and em: "sr_frames_emitted res = min k n"
    and oc: "sr_outcome res = (if k = 0 \<or> k < n then SCHEDULE_STEP_LIMIT else SCHEDULE_COMPLETE)"
    and row: "session_row_of (rs_id r) db' = Some r'" "sr_session res = stored_session r'"
    and ix: "rs_next_index r' = rs_next_index r + int (min k n)" "rs_version r' = rs_version r + int (min k n)"
    using schedule_loop_progress [OF assms(1), of stop env now k 0 0] assms(3-5) by (auto simp: n)
  have version: "ss_version (stored_session r) = rs_version r" by (simp add: stored_session_def)
  have "run_schedule digest loader stop now env db (rs_id r) (rs_version r) rate limit = (Inr res, db')"
    using loop assms(2) playable_snapshot [OF assms(1)] version by (simp add: run_schedule_def k(1))
  with em oc row ix k n show ?thesis
    by (intro exI [of _ res] exI [of _ db'] exI [of _ r']) auto
qed

lemma demo_playable: "playable hex_digest (\<lambda>_. Inr minute_stream) demo_sessions (hd demo_sessions) minute_stream"
  unfolding playable_def
  by (simp add: minute_engine_made demo_sessions_ok)
    (simp add: demo_sessions_def session_row_of_def minute_engine_def minute_stream_def minute_bar_def
      re_instrument_id_def re_timeframe_seconds_def re_total_def)

theorem scheduled_replay_completes_witness:
  "\<exists>res db'. run_schedule hex_digest (\<lambda>_. Inr minute_stream) (\<lambda>_. False) (\<lambda>n. Aware (int n)) (\<lambda>_ db. db)
      demo_sessions 5 0 (Some 2) 3 = (Inr res, db')
    \<and> sr_outcome res = SCHEDULE_COMPLETE \<and> sr_frames_emitted res = 3"
proof -
  have "validate_schedule (Some 2) 3 = Inr ()"
    by (simp add: validate_schedule_def minimum_rate_def)
  from scheduled_replay_completes [OF demo_playable this, of "\<lambda>_. False" "\<lambda>_ db. db" "\<lambda>n. Aware (int n)"]
  show ?thesis by (auto simp: demo_sessions_def)
qed

text \<open>Whatever happens between the steps, the limit bounds the frames.\<close>

lemma schedule_loop_bounded:
  "schedule_loop k step stop now env emitted calls stored db = (Inr res, db') \<Longrightarrow> sr_frames_emitted res \<le> emitted + k"
proof (induction k arbitrary: emitted calls stored db)
  case (Suc k)
  then show ?case
    by (fastforce simp: schedule_round_def Let_def split: if_splits sum.splits prod.splits option.splits)
qed auto

end
