(* ===== verification/Replay_Tasks.thy ===== *)
theory Replay_Tasks
  imports Replay_Scheduler
begin

text \<open>
  Ownership of scheduler tasks, \<open>packages/replay/tasks.py\<close>, and the evidence of their runs,
  \<open>packages/replay/task_persistence.py\<close>.  The manager keeps at most one owned task per session; what
  happens under its lock is one atomic step: starting a task, asking it to stop, entering the final
  status once the runner returned or raised, and recording that status with the observer.  The
  observer is the run repository, and it may fail: a failure at the start prevents the task, a
  failure at the end is logged only.  A failed write may still have reached the table, when only the answer of its
  commit was lost; both outcomes are steps.  The identifiers of the tasks whose observer failed in this way are a ghost of the
  state: they say where the table may lag behind.
\<close>

section \<open>Requests, statuses and runs\<close>

datatype replay_task_outcome = RUNNING | COMPLETE | STOPPED | STEP_LIMIT | FAILED

definition task_outcome_value :: "replay_task_outcome \<Rightarrow> string" where
  "task_outcome_value oc = (case oc of RUNNING \<Rightarrow> ''running'' | COMPLETE \<Rightarrow> ''complete'' | STOPPED \<Rightarrow> ''stopped''
     | STEP_LIMIT \<Rightarrow> ''step_limit'' | FAILED \<Rightarrow> ''failed'')"

definition task_outcome_of_value :: "string \<Rightarrow> replay_task_outcome result" where
  "task_outcome_of_value t =
     (case List.find (\<lambda>oc. task_outcome_value oc = t) [RUNNING, COMPLETE, STOPPED, STEP_LIMIT, FAILED] of
        None \<Rightarrow> Inl (ValueError ''not a valid ReplayTaskOutcome'') | Some oc \<Rightarrow> Inr oc)"

lemma task_outcome_roundtrip [simp]: "task_outcome_of_value (task_outcome_value oc) = Inr oc"
  by (cases oc) (simp_all add: task_outcome_of_value_def task_outcome_value_def)

definition schedule_outcome_value :: "replay_schedule_outcome \<Rightarrow> string" where
  "schedule_outcome_value oc =
     (case oc of SCHEDULE_COMPLETE \<Rightarrow> ''complete'' | SCHEDULE_STOPPED \<Rightarrow> ''stopped'' | SCHEDULE_STEP_LIMIT \<Rightarrow> ''step_limit'')"

record replay_task_request =
  tq_session_id :: uuid
  tq_expected_version :: int
  tq_candles_per_second :: "rat option"
  tq_maximum_steps :: int
  tq_task_id :: uuid

definition make_task_request :: "replay_task_request \<Rightarrow> replay_task_request result" where
  "make_task_request q =
     (if tq_expected_version q < 0 then Inl (ValueError ''replay expected version must be non-negative'')
      else rbind (validate_schedule (tq_candles_per_second q) (tq_maximum_steps q)) (\<lambda>_. Inr q))"

record replay_task_status =
  ts_request :: replay_task_request
  ts_outcome :: replay_task_outcome
  ts_frames_emitted :: nat
  ts_resulting_version :: "int option"
  ts_started_at :: instant
  ts_finished_at :: "instant option"

record playback_run =
  run_id :: uuid
  run_session_id :: uuid
  run_expected_version :: int
  run_candles_per_second :: "rat option"
  run_maximum_steps :: int
  run_outcome :: string
  run_frames_emitted :: nat
  run_resulting_version :: "int option"
  run_started_at :: instant
  run_finished_at :: "instant option"

type_synonym run_db = "playback_run list"

definition run_of :: "uuid \<Rightarrow> run_db \<Rightarrow> playback_run option" where
  "run_of tid db = List.find (\<lambda>r. run_id r = tid) db"

definition started_run :: "replay_task_status \<Rightarrow> playback_run" where
  "started_run s =
     (let q = ts_request s in
      \<lparr>run_id = tq_task_id q, run_session_id = tq_session_id q, run_expected_version = tq_expected_version q,
       run_candles_per_second = tq_candles_per_second q, run_maximum_steps = tq_maximum_steps q,
       run_outcome = task_outcome_value (ts_outcome s), run_frames_emitted = 0, run_resulting_version = None,
       run_started_at = ts_started_at s, run_finished_at = None\<rparr>)"

definition run_awaits :: "replay_task_status \<Rightarrow> playback_run \<Rightarrow> bool" where
  "run_awaits s r \<longleftrightarrow> run_id r = tq_task_id (ts_request s) \<and> run_session_id r = tq_session_id (ts_request s)
     \<and> run_outcome r = task_outcome_value RUNNING"

definition finished_run :: "replay_task_status \<Rightarrow> instant \<Rightarrow> playback_run \<Rightarrow> playback_run" where
  "finished_run s t r = r\<lparr>run_outcome := task_outcome_value (ts_outcome s), run_frames_emitted := ts_frames_emitted s,
     run_resulting_version := ts_resulting_version s, run_finished_at := Some t\<rparr>"

definition record_status :: "run_db \<Rightarrow> replay_task_status \<Rightarrow> run_db result" where
  "record_status db s =
     (if ts_outcome s = RUNNING
      then (if run_of (tq_task_id (ts_request s)) db \<noteq> None
            then Inl (ValueError ''replay playback task ID already exists'')
            else Inr (db @ [started_run s]))
      else case ts_finished_at s of
        None \<Rightarrow> Inl (ValueError ''terminal replay playback status requires a finished timestamp'')
      | Some t \<Rightarrow>
          if length (filter (run_awaits s) db) \<noteq> 1
          then Inl (ValueError ''replay playback task is missing or already terminal'')
          else Inr (map (\<lambda>r. if run_awaits s r then finished_run s t r else r) db))"

text \<open>\<open>_status\<close>: the request and the outcome of a row are validated when it is read.\<close>

definition status_of_run :: "playback_run \<Rightarrow> replay_task_status result" where
  "status_of_run r =
     rbind (make_task_request \<lparr>tq_session_id = run_session_id r, tq_expected_version = run_expected_version r,
              tq_candles_per_second = run_candles_per_second r, tq_maximum_steps = run_maximum_steps r,
              tq_task_id = run_id r\<rparr>) (\<lambda>q.
     rbind (task_outcome_of_value (run_outcome r)) (\<lambda>oc.
       Inr \<lparr>ts_request = q, ts_outcome = oc, ts_frames_emitted = run_frames_emitted r,
            ts_resulting_version = run_resulting_version r, ts_started_at = run_started_at r,
            ts_finished_at = run_finished_at r\<rparr>))"

definition runs_for_session :: "run_db \<Rightarrow> uuid \<Rightarrow> playback_run list" where
  "runs_for_session db sid = sort_key (\<lambda>r. (- run_started_at r, run_id r)) (filter (\<lambda>r. run_session_id r = sid) db)"

definition list_runs :: "run_db \<Rightarrow> uuid \<Rightarrow> int \<Rightarrow> int \<Rightarrow> replay_task_status list result" where
  "list_runs db sid limit offset =
     (if \<not> valid_page limit offset
      then Inl (ValueError ''replay playback page requires limit 1..100 and non-negative offset'')
      else rmap status_of_run (page limit offset (runs_for_session db sid)))"

definition latest_run :: "run_db \<Rightarrow> uuid \<Rightarrow> replay_task_status result" where
  "latest_run db sid =
     (case page 1 0 (runs_for_session db sid) of
        [] \<Rightarrow> Inl (KeyError ''replay playback task does not exist'')
      | r # _ \<Rightarrow> status_of_run r)"

definition load_run :: "run_db \<Rightarrow> uuid \<Rightarrow> replay_task_status result" where
  "load_run db tid =
     (case run_of tid db of
        None \<Rightarrow> Inl (KeyError ''replay playback task does not exist'')
      | Some r \<Rightarrow> status_of_run r)"

section \<open>The manager\<close>

text \<open>The phase of the asyncio task: its runner works, its status is entered but not yet recorded, or it is done.\<close>

datatype task_phase = WORKING | ENTERED | DONE

record owned_task =
  ot_status :: replay_task_status
  ot_stop :: bool
  ot_phase :: task_phase

record task_manager =
  tm_tasks :: "uuid \<Rightarrow> owned_task option"
  tm_runs :: run_db
  tm_failed :: "uuid list"

definition started_status :: "replay_task_request \<Rightarrow> instant \<Rightarrow> replay_task_status" where
  "started_status q t = \<lparr>ts_request = q, ts_outcome = RUNNING, ts_frames_emitted = 0, ts_resulting_version = None,
     ts_started_at = t, ts_finished_at = None\<rparr>"

text \<open>\<open>observe\<close> is the status observer on the table of runs.\<close>

definition task_start ::
  "(run_db \<Rightarrow> replay_task_status \<Rightarrow> run_db result) \<Rightarrow> task_manager \<Rightarrow> replay_task_request \<Rightarrow> instant
   \<Rightarrow> (replay_task_status \<times> task_manager) result" where
  "task_start observe m q t =
     (case tm_tasks m (tq_session_id q) of
        Some owned \<Rightarrow>
          if ot_phase owned \<noteq> DONE then Inl (ValueError ''replay session already has a running scheduler task'')
          else rbind (observe (tm_runs m) (started_status q t)) (\<lambda>runs.
            Inr (started_status q t,
              m\<lparr>tm_tasks := (tm_tasks m)(tq_session_id q \<mapsto> \<lparr>ot_status = started_status q t, ot_stop = False, ot_phase = WORKING\<rparr>),
                tm_runs := runs\<rparr>))
      | None \<Rightarrow>
          rbind (observe (tm_runs m) (started_status q t)) (\<lambda>runs.
            Inr (started_status q t,
              m\<lparr>tm_tasks := (tm_tasks m)(tq_session_id q \<mapsto> \<lparr>ot_status = started_status q t, ot_stop = False, ot_phase = WORKING\<rparr>),
                tm_runs := runs\<rparr>)))"

definition task_status :: "task_manager \<Rightarrow> uuid \<Rightarrow> replay_task_status result" where
  "task_status m sid =
     (case tm_tasks m sid of
        None \<Rightarrow> Inl (KeyError ''replay scheduler task does not exist'')
      | Some owned \<Rightarrow> Inr (ot_status owned))"

text \<open>The locked part of \<open>stop\<close> and of \<open>close\<close>; both then wait for the tasks.\<close>

definition request_stop :: "task_manager \<Rightarrow> uuid \<Rightarrow> task_manager result" where
  "request_stop m sid =
     (case tm_tasks m sid of
        None \<Rightarrow> Inl (KeyError ''replay scheduler task does not exist'')
      | Some owned \<Rightarrow> Inr (m\<lparr>tm_tasks := (tm_tasks m)(sid \<mapsto> owned\<lparr>ot_stop := True\<rparr>)\<rparr>))"

definition close_tasks :: "task_manager \<Rightarrow> task_manager" where
  "close_tasks m = m\<lparr>tm_tasks := (\<lambda>sid. map_option (\<lambda>owned. owned\<lparr>ot_stop := True\<rparr>) (tm_tasks m sid))\<rparr>"

text \<open>The status \<open>_execute\<close> computes from what its runner returned or raised.\<close>

definition final_status :: "replay_task_status \<Rightarrow> replay_schedule_result result \<Rightarrow> instant \<Rightarrow> replay_task_status" where
  "final_status current r t =
     (case r of
        Inr res \<Rightarrow>
          (case task_outcome_of_value (schedule_outcome_value (sr_outcome res)) of
             Inr oc \<Rightarrow> current\<lparr>ts_outcome := oc, ts_frames_emitted := sr_frames_emitted res,
                         ts_resulting_version := Some (ss_version (sr_session res)), ts_finished_at := Some t\<rparr>
           | Inl _ \<Rightarrow> current\<lparr>ts_outcome := FAILED, ts_finished_at := Some t\<rparr>)
      | Inl _ \<Rightarrow> current\<lparr>ts_outcome := FAILED, ts_finished_at := Some t\<rparr>)"

definition enter_status :: "task_manager \<Rightarrow> uuid \<Rightarrow> replay_schedule_result result \<Rightarrow> instant \<Rightarrow> task_manager" where
  "enter_status m sid r t =
     (case tm_tasks m sid of
        None \<Rightarrow> m
      | Some owned \<Rightarrow> m\<lparr>tm_tasks := (tm_tasks m)(sid \<mapsto>
          owned\<lparr>ot_status := final_status (ot_status owned) r t, ot_phase := ENTERED\<rparr>)\<rparr>)"

text \<open>The end of \<open>_execute\<close>: the task is done when the observer returned, and also when it raised; then the error is
  only logged, and \<open>runs\<close> is what the table holds.\<close>

definition final_recorded :: "task_manager \<Rightarrow> uuid \<Rightarrow> owned_task \<Rightarrow> run_db \<Rightarrow> task_manager" where
  "final_recorded m sid owned runs =
     m\<lparr>tm_tasks := (tm_tasks m)(sid \<mapsto> owned\<lparr>ot_phase := DONE\<rparr>), tm_runs := runs\<rparr>"

definition final_unrecorded :: "task_manager \<Rightarrow> uuid \<Rightarrow> owned_task \<Rightarrow> run_db \<Rightarrow> task_manager" where
  "final_unrecorded m sid owned runs =
     (final_recorded m sid owned runs)\<lparr>tm_failed := tm_failed m @ [tq_task_id (ts_request (ot_status owned))]\<rparr>"

definition observe_final :: "(run_db \<Rightarrow> replay_task_status \<Rightarrow> run_db result) \<Rightarrow> task_manager \<Rightarrow> uuid \<Rightarrow> task_manager" where
  "observe_final observe m sid =
     (case tm_tasks m sid of
        None \<Rightarrow> m
      | Some owned \<Rightarrow>
          (case observe (tm_runs m) (ot_status owned) of
             Inr runs \<Rightarrow> final_recorded m sid owned runs
           | Inl _ \<Rightarrow> final_unrecorded m sid owned (tm_runs m)))"

text \<open>The observer of a start raised, but its row reached the table: no task is created.\<close>

definition start_unanswered :: "task_manager \<Rightarrow> replay_task_request \<Rightarrow> run_db \<Rightarrow> task_manager" where
  "start_unanswered m q runs = m\<lparr>tm_runs := runs, tm_failed := tm_failed m @ [tq_task_id q]\<rparr>"

text \<open>The steps of the manager: besides the operations, the observer fails at the start, having written the row, or at the end,
  having written the outcome or not.  (An observer that fails at the start without writing changes nothing.)\<close>

inductive task_step :: "task_manager \<Rightarrow> task_manager \<Rightarrow> bool" where
  start: "task_start record_status m q t = Inr (s, m') \<Longrightarrow> task_step m m'"
| start_fails: "task_start record_status m q t = Inr (s, m') \<Longrightarrow> task_step m (start_unanswered m q (tm_runs m'))"
| stop: "request_stop m sid = Inr m' \<Longrightarrow> task_step m m'"
| close: "task_step m (close_tasks m)"
| enter: "tm_tasks m sid = Some owned \<Longrightarrow> ot_phase owned = WORKING \<Longrightarrow> task_step m (enter_status m sid r t)"
| observe: "tm_tasks m sid = Some owned \<Longrightarrow> ot_phase owned = ENTERED \<Longrightarrow> task_step m (observe_final record_status m sid)"
| observe_fails: "tm_tasks m sid = Some owned \<Longrightarrow> ot_phase owned = ENTERED
    \<Longrightarrow> runs = tm_runs m \<or> record_status (tm_runs m) (ot_status owned) = Inr runs \<Longrightarrow> task_step m (final_unrecorded m sid owned runs)"

inductive_cases task_stepE: "task_step m m'"

inductive reachable_tasks :: "task_manager \<Rightarrow> bool" where
  start: "reachable_tasks \<lparr>tm_tasks = (\<lambda>_. None), tm_runs = [], tm_failed = []\<rparr>"
| step: "reachable_tasks m \<Longrightarrow> task_step m m' \<Longrightarrow> reachable_tasks m'"

section \<open>Recording a status\<close>

lemma run_of_in: "run_of tid db = Some r \<Longrightarrow> r \<in> set db \<and> run_id r = tid"
  unfolding run_of_def by (rule find_Some_in)

lemma run_of_iff: "distinct (map run_id db) \<Longrightarrow> run_of tid db = Some r \<longleftrightarrow> r \<in> set db \<and> run_id r = tid"
  using run_of_in [of tid db r] find_map_key [of run_id db r] by (metis run_of_def)

lemma run_of_map: "(\<And>r. run_id (f r) = run_id r) \<Longrightarrow> run_of tid (map f db) = map_option f (run_of tid db)"
  by (induction db) (auto simp: run_of_def)

lemma task_outcome_value_inject [simp]: "task_outcome_value a = task_outcome_value b \<longleftrightarrow> a = b"
  using task_outcome_roundtrip by (metis sum.inject(2))

lemma started_run_fields [simp]:
  "run_id (started_run s) = tq_task_id (ts_request s)" "run_session_id (started_run s) = tq_session_id (ts_request s)"
  "run_outcome (started_run s) = task_outcome_value (ts_outcome s)"
  by (simp_all add: started_run_def Let_def)

definition finish_row :: "replay_task_status \<Rightarrow> instant \<Rightarrow> playback_run \<Rightarrow> playback_run" where
  "finish_row s t r = (if run_awaits s r then finished_run s t r else r)"

lemma finish_row_fields [simp]:
  "run_id (finish_row s t r) = run_id r" "run_session_id (finish_row s t r) = run_session_id r"
  "run_id \<circ> finish_row s t = run_id"
  by (auto simp: finish_row_def finished_run_def)

lemma run_of_finish: "run_of tid (map (finish_row s t) db) = map_option (finish_row s t) (run_of tid db)"
  by (rule run_of_map) simp

lemma finish_row_other: "run_outcome r \<noteq> task_outcome_value RUNNING \<Longrightarrow> finish_row s t r = r"
  by (simp add: finish_row_def run_awaits_def)

lemma record_running:
  "ts_outcome s = RUNNING \<Longrightarrow> record_status db s = Inr db' \<longleftrightarrow> run_of (tq_task_id (ts_request s)) db = None \<and> db' = db @ [started_run s]"
  by (auto simp: record_status_def)

lemma record_terminal:
  assumes "ts_outcome s \<noteq> RUNNING" "ts_finished_at s = Some t" "distinct (map run_id db)"
    and "run_of (tq_task_id (ts_request s)) db = Some r" "run_awaits s r"
  shows "record_status db s = Inr (map (finish_row s t) db)"
proof -
  have "filter (run_awaits s) db = [r]"
    using assms(3,4,5) run_of_in [OF assms(4)]
    by (intro filter_one_key [where f = run_id]) (auto simp: run_awaits_def)
  with assms(1,2) show ?thesis by (simp add: record_status_def finish_row_def [abs_def])
qed

lemma record_status_keeps_terminal:
  assumes "record_status db s = Inr db'" "run_of tid db = Some r" "run_outcome r \<noteq> task_outcome_value RUNNING"
  shows "run_of tid db' = Some r"
proof (cases "ts_outcome s = RUNNING")
  case True
  with assms show ?thesis by (auto simp: record_running run_of_def find_append)
next
  case False
  with assms(1) obtain t where "db' = map (finish_row s t) db"
    by (auto simp: record_status_def finish_row_def [abs_def] split: option.splits if_splits)
  with assms(2,3) show ?thesis by (simp add: run_of_finish finish_row_other)
qed

section \<open>The invariant of the manager\<close>

lemma final_status_fields [simp]:
  "ts_request (final_status s r t) = ts_request s" "ts_outcome (final_status s r t) \<noteq> RUNNING"
  "ts_finished_at (final_status s r t) = Some t"
proof -
  have oc: "task_outcome_of_value (schedule_outcome_value x)
      = Inr (case x of SCHEDULE_COMPLETE \<Rightarrow> COMPLETE | SCHEDULE_STOPPED \<Rightarrow> STOPPED | SCHEDULE_STEP_LIMIT \<Rightarrow> STEP_LIMIT)" for x
    by (cases x) (simp_all add: task_outcome_of_value_def task_outcome_value_def schedule_outcome_value_def)
  show "ts_request (final_status s r t) = ts_request s" "ts_outcome (final_status s r t) \<noteq> RUNNING"
    "ts_finished_at (final_status s r t) = Some t"
    by (auto simp: final_status_def oc split: sum.splits replay_schedule_outcome.splits)
qed

text \<open>An owned task and its run: running in both until the status is recorded, the same outcome afterwards; when the observer
  failed, the task is done and its run has the final outcome or is left running.\<close>

definition evidenced :: "uuid list \<Rightarrow> run_db \<Rightarrow> uuid \<Rightarrow> owned_task \<Rightarrow> bool" where
  "evidenced failed runs sid owned \<longleftrightarrow>
     (let s = ot_status owned; tid = tq_task_id (ts_request s) in
      tq_session_id (ts_request s) = sid
      \<and> (ot_phase owned = WORKING \<longleftrightarrow> ts_outcome s = RUNNING) \<and> (ot_phase owned \<noteq> WORKING \<longrightarrow> ts_finished_at s \<noteq> None)
      \<and> (tid \<in> set failed \<longrightarrow> ot_phase owned = DONE)
      \<and> (\<exists>r. run_of tid runs = Some r \<and> run_session_id r = sid
           \<and> (run_outcome r = task_outcome_value (if ot_phase owned = DONE then ts_outcome s else RUNNING)
              \<or> tid \<in> set failed \<and> run_outcome r = task_outcome_value RUNNING)))"

definition tasks_ok :: "task_manager \<Rightarrow> bool" where
  "tasks_ok m \<longleftrightarrow> distinct (map run_id (tm_runs m)) \<and> set (tm_failed m) \<subseteq> run_id ` set (tm_runs m)
     \<and> (\<forall>sid owned. tm_tasks m sid = Some owned \<longrightarrow> evidenced (tm_failed m) (tm_runs m) sid owned)
     \<and> (\<forall>r \<in> set (tm_runs m). run_outcome r = task_outcome_value RUNNING \<longrightarrow> run_id r \<notin> set (tm_failed m) \<longrightarrow>
          (\<exists>owned. tm_tasks m (run_session_id r) = Some owned \<and> ot_phase owned \<noteq> DONE
             \<and> tq_task_id (ts_request (ot_status owned)) = run_id r))"

lemma evidenced_append: "evidenced failed runs sid owned \<Longrightarrow> evidenced failed (runs @ new) sid owned"
  by (auto simp: evidenced_def Let_def run_of_def find_append)

lemma evidenced_finish:
  assumes "evidenced failed runs sid owned" "tq_task_id (ts_request (ot_status owned)) \<noteq> tq_task_id (ts_request s)"
  shows "evidenced failed (map (finish_row s t) runs) sid owned"
proof -
  have "run_of (tq_task_id (ts_request (ot_status owned))) (map (finish_row s t) runs)
      = run_of (tq_task_id (ts_request (ot_status owned))) runs"
    using assms(2) run_of_in [of "tq_task_id (ts_request (ot_status owned))" runs]
    by (cases "run_of (tq_task_id (ts_request (ot_status owned))) runs") (auto simp: run_of_finish finish_row_def run_awaits_def)
  with assms(1) show ?thesis by (simp add: evidenced_def)
qed

lemma evidenced_failed:
  "evidenced failed runs sid owned \<Longrightarrow> tq_task_id (ts_request (ot_status owned)) \<noteq> tid \<Longrightarrow> evidenced (failed @ [tid]) runs sid owned"
  by (auto simp: evidenced_def Let_def)

lemma evidenced_known: "evidenced failed runs sid owned \<Longrightarrow> tq_task_id (ts_request (ot_status owned)) \<in> run_id ` set runs"
  using run_of_in by (force simp: evidenced_def Let_def)

lemma task_start_Inr:
  assumes "task_start record_status m q t = Inr (s, m')"
  shows "s = started_status q t \<and> run_of (tq_task_id q) (tm_runs m) = None
    \<and> (\<forall>owned. tm_tasks m (tq_session_id q) = Some owned \<longrightarrow> ot_phase owned = DONE)
    \<and> tm_runs m' = tm_runs m @ [started_run s] \<and> tm_failed m' = tm_failed m
    \<and> tm_tasks m' = (tm_tasks m)(tq_session_id q \<mapsto> \<lparr>ot_status = s, ot_stop = False, ot_phase = WORKING\<rparr>)"
  using assms
  by (auto simp: task_start_def rbind_eq_Inr record_running started_status_def split: option.splits if_splits)

lemma tasks_ok_start:
  assumes ok: "tasks_ok m" and st: "task_start record_status m q t = Inr (s, m')"
  shows "tasks_ok m'"
proof -
  note f = task_start_Inr [OF st]
  have s: "ts_request s = q" "ts_outcome s = RUNNING" using f by (simp_all add: started_status_def)
  have new: "tq_task_id q \<notin> run_id ` set (tm_runs m)"
    using f by (auto simp: run_of_def find_None_iff)
  then have sound: "tq_task_id q \<notin> set (tm_failed m)" using ok by (auto simp: tasks_ok_def)
  have "evidenced (tm_failed m') (tm_runs m') sid owned" if "tm_tasks m' sid = Some owned" for sid owned
  proof (cases "sid = tq_session_id q")
    case True
    with that f s sound show ?thesis
      by (auto simp: evidenced_def Let_def run_of_def find_append)
  next
    case False
    with that f ok show ?thesis by (auto simp: tasks_ok_def evidenced_append)
  qed
  moreover have "\<exists>owned. tm_tasks m' (run_session_id r) = Some owned \<and> ot_phase owned \<noteq> DONE
      \<and> tq_task_id (ts_request (ot_status owned)) = run_id r"
    if r: "r \<in> set (tm_runs m')" "run_outcome r = task_outcome_value RUNNING" "run_id r \<notin> set (tm_failed m')" for r
  proof (cases "r \<in> set (tm_runs m)")
    case True
    with ok r(2,3) f obtain owned where o: "tm_tasks m (run_session_id r) = Some owned" "ot_phase owned \<noteq> DONE"
      "tq_task_id (ts_request (ot_status owned)) = run_id r" by (auto simp: tasks_ok_def)
    with f have "run_session_id r \<noteq> tq_session_id q" by auto
    with o f show ?thesis by simp
  next
    case False
    with r(1) f have "r = started_run s" by auto
    with f s show ?thesis by simp
  qed
  ultimately show ?thesis
    using ok f new s by (auto simp: tasks_ok_def)
qed

lemma tasks_ok_start_fails:
  assumes ok: "tasks_ok m" and st: "task_start record_status m q t = Inr (s, m')"
  shows "tasks_ok (start_unanswered m q (tm_runs m'))"
proof -
  note f = task_start_Inr [OF st]
  have s: "ts_request s = q" "ts_outcome s = RUNNING" using f by (simp_all add: started_status_def)
  have new: "tq_task_id q \<notin> run_id ` set (tm_runs m)"
    using f by (auto simp: run_of_def find_None_iff)
  have "evidenced (tm_failed m @ [tq_task_id q]) (tm_runs m') sid owned" if "tm_tasks m sid = Some owned" for sid owned
  proof -
    have ev: "evidenced (tm_failed m) (tm_runs m) sid owned" using ok that by (simp add: tasks_ok_def)
    then have "tq_task_id (ts_request (ot_status owned)) \<noteq> tq_task_id q" using evidenced_known new by metis
    with ev f show ?thesis by (simp add: evidenced_append evidenced_failed)
  qed
  with ok f new s show ?thesis
    by (auto simp: tasks_ok_def start_unanswered_def)
qed

lemma tasks_ok_update:
  assumes "tasks_ok m" "tm_tasks m sid = Some owned" "ot_phase owned' \<noteq> DONE \<longleftrightarrow> ot_phase owned \<noteq> DONE"
    "ts_request (ot_status owned') = ts_request (ot_status owned)" "evidenced (tm_failed m) (tm_runs m) sid owned'"
  shows "tasks_ok (m\<lparr>tm_tasks := (tm_tasks m)(sid \<mapsto> owned')\<rparr>)"
  using assms unfolding tasks_ok_def by (simp add: fun_upd_apply) (metis option.inject)

lemma entered_task:
  assumes ok: "tasks_ok m" and o: "tm_tasks m sid = Some owned" "ot_phase owned = ENTERED" and s: "s = ot_status owned"
  obtains r t where "run_of (tq_task_id (ts_request s)) (tm_runs m) = Some r" "run_session_id r = sid" "run_awaits s r"
    "ts_outcome s \<noteq> RUNNING" "ts_finished_at s = Some t" "tq_session_id (ts_request s) = sid"
    "tq_task_id (ts_request s) \<notin> set (tm_failed m)" "record_status (tm_runs m) s = Inr (map (finish_row s t) (tm_runs m))"
proof -
  have ev: "evidenced (tm_failed m) (tm_runs m) sid owned" and dist: "distinct (map run_id (tm_runs m))"
    using ok o(1) by (auto simp: tasks_ok_def)
  then obtain r t where r: "run_of (tq_task_id (ts_request s)) (tm_runs m) = Some r" "run_session_id r = sid"
    "run_outcome r = task_outcome_value RUNNING" and f: "ts_outcome s \<noteq> RUNNING" "ts_finished_at s = Some t"
    "tq_session_id (ts_request s) = sid" "tq_task_id (ts_request s) \<notin> set (tm_failed m)"
    using o(2) by (auto simp: evidenced_def Let_def s)
  have aw: "run_awaits s r" using r f run_of_in [OF r(1)] by (simp add: run_awaits_def)
  have "record_status (tm_runs m) s = Inr (map (finish_row s t) (tm_runs m))"
    by (rule record_terminal [OF f(1,2) dist r(1) aw])
  with r f aw show thesis by (intro that)
qed

text \<open>A finished task is done: its run has the outcome, or the observer failed and it may still be running.\<close>

lemma tasks_ok_done:
  assumes ok: "tasks_ok m" and o: "tm_tasks m sid = Some owned" "ot_phase owned = ENTERED"
    and runs: "record_status (tm_runs m) (ot_status owned) = Inr runs"
  shows "tasks_ok (final_recorded m sid owned runs)"
proof -
  define s where "s = ot_status owned"
  define fin where "fin = owned\<lparr>ot_phase := DONE\<rparr>"
  obtain r t where r: "run_of (tq_task_id (ts_request s)) (tm_runs m) = Some r" "run_session_id r = sid" "run_awaits s r"
    and s: "ts_outcome s \<noteq> RUNNING" "ts_finished_at s = Some t" "tq_session_id (ts_request s) = sid"
      "tq_task_id (ts_request s) \<notin> set (tm_failed m)" and rec: "record_status (tm_runs m) s = Inr (map (finish_row s t) (tm_runs m))"
    using entered_task [OF ok o s_def] .
  have m': "final_recorded m sid owned runs
      = m\<lparr>tm_tasks := (tm_tasks m)(sid \<mapsto> fin), tm_runs := map (finish_row s t) (tm_runs m)\<rparr>"
    using runs rec by (simp add: final_recorded_def fin_def flip: s_def)
  have row: "run_of (tq_task_id (ts_request s)) (map (finish_row s t) (tm_runs m)) = Some (finished_run s t r)"
    using r(1,3) by (simp add: run_of_finish finish_row_def)
  have ev': "evidenced (tm_failed m) (map (finish_row s t) (tm_runs m)) sid fin"
    using row r(2) s by (simp add: evidenced_def Let_def fin_def flip: s_def) (simp add: finished_run_def)
  have others: "evidenced (tm_failed m) (map (finish_row s t) (tm_runs m)) sid' owned'"
    if "tm_tasks m sid' = Some owned'" "sid' \<noteq> sid" for sid' owned'
  proof (rule evidenced_finish)
    show e: "evidenced (tm_failed m) (tm_runs m) sid' owned'" using ok that(1) by (simp add: tasks_ok_def)
    show "tq_task_id (ts_request (ot_status owned')) \<noteq> tq_task_id (ts_request s)"
      using e r(1,2) that(2) by (auto simp: evidenced_def Let_def)
  qed
  have running: "\<exists>own. ((tm_tasks m)(sid \<mapsto> fin)) (run_session_id q) = Some own \<and> ot_phase own \<noteq> DONE
      \<and> tq_task_id (ts_request (ot_status own)) = run_id q"
    if q: "q \<in> finish_row s t ` set (tm_runs m)" "run_outcome q = task_outcome_value RUNNING" "run_id q \<notin> set (tm_failed m)" for q
  proof -
    obtain q0 where q0: "q0 \<in> set (tm_runs m)" "q = finish_row s t q0" using q(1) by blast
    have "\<not> run_awaits s q0" using q(2) q0(2) s(1) by (auto simp: finish_row_def finished_run_def)
    then have "q = q0" by (simp add: q0(2) finish_row_def)
    with ok q0(1) q(2,3) obtain own where own: "tm_tasks m (run_session_id q) = Some own" "ot_phase own \<noteq> DONE"
      "tq_task_id (ts_request (ot_status own)) = run_id q" by (auto simp: tasks_ok_def)
    have "run_session_id q \<noteq> sid"
      using own(1,3) o(1) \<open>\<not> run_awaits s q0\<close> \<open>q = q0\<close> q(2) s(3) by (auto simp: run_awaits_def s_def)
    with own show ?thesis by simp
  qed
  have "evidenced (tm_failed m) (map (finish_row s t) (tm_runs m)) sid' owned'"
    if "((tm_tasks m)(sid \<mapsto> fin)) sid' = Some owned'" for sid' owned'
    using that ev' others by (cases "sid' = sid") auto
  moreover have "distinct (map run_id (map (finish_row s t) (tm_runs m)))"
    "run_id ` set (map (finish_row s t) (tm_runs m)) = run_id ` set (tm_runs m)"
    using ok by (simp_all add: tasks_ok_def image_comp)
  ultimately show ?thesis
    unfolding m' tasks_ok_def using ok running by (simp add: tasks_ok_def image_comp)
qed

lemma tasks_ok_undone:
  assumes ok: "tasks_ok m" and o: "tm_tasks m sid = Some owned" "ot_phase owned = ENTERED"
    and runs: "runs = tm_runs m \<or> record_status (tm_runs m) (ot_status owned) = Inr runs"
  shows "tasks_ok (final_unrecorded m sid owned runs)"
proof -
  define s where "s = ot_status owned"
  define fin where "fin = owned\<lparr>ot_phase := DONE\<rparr>"
  obtain r t where r: "run_of (tq_task_id (ts_request s)) (tm_runs m) = Some r" "run_session_id r = sid" "run_awaits s r"
    and s: "ts_outcome s \<noteq> RUNNING" "ts_finished_at s = Some t" "tq_session_id (ts_request s) = sid"
      "tq_task_id (ts_request s) \<notin> set (tm_failed m)" and rec: "record_status (tm_runs m) s = Inr (map (finish_row s t) (tm_runs m))"
    using entered_task [OF ok o s_def] .
  let ?failed = "tm_failed m @ [tq_task_id (ts_request s)]"
  have other: "tq_task_id (ts_request (ot_status own)) \<noteq> tq_task_id (ts_request s)"
    if "tm_tasks m sid' = Some own" "sid' \<noteq> sid" for sid' own
  proof -
    have "evidenced (tm_failed m) (tm_runs m) sid' own" using ok that(1) by (simp add: tasks_ok_def)
    with r(1,2) that(2) show ?thesis by (auto simp: evidenced_def Let_def)
  qed
  have fin: "final_unrecorded m sid owned runs = m\<lparr>tm_tasks := (tm_tasks m)(sid \<mapsto> fin), tm_runs := runs, tm_failed := ?failed\<rparr>"
    by (simp add: final_unrecorded_def final_recorded_def fin_def s_def)
  have late: "tq_task_id (ts_request s) \<in> run_id ` set (tm_runs m)" using run_of_in [OF r(1)] by force
  show ?thesis
  proof (cases "record_status (tm_runs m) (ot_status owned) = Inr runs")
    case True
    have recorded: "tasks_ok (m\<lparr>tm_tasks := (tm_tasks m)(sid \<mapsto> fin), tm_runs := runs\<rparr>)"
      using tasks_ok_done [OF ok o True] by (simp add: final_recorded_def fin_def)
    have ids: "run_id ` set runs = run_id ` set (tm_runs m)" using True rec
      by (auto simp add: image_image simp flip: s_def)
    have "evidenced ?failed runs sid' own" if "((tm_tasks m)(sid \<mapsto> fin)) sid' = Some own" for sid' own
    proof -
      have ev: "evidenced (tm_failed m) runs sid' own" using recorded that by (simp add: tasks_ok_def)
      show ?thesis
      proof (cases "sid' = sid")
        case True
        with that have "own = fin" by simp
        with ev show ?thesis by (auto simp: evidenced_def Let_def fin_def)
      next
        case False
        with that ev show ?thesis using other by (simp add: evidenced_failed)
      qed
    qed
    with recorded late ids show ?thesis unfolding fin by (simp add: tasks_ok_def)
  next
    case False
    with runs have runs: "runs = tm_runs m" by simp
    have "evidenced ?failed (tm_runs m) sid' own" if own: "((tm_tasks m)(sid \<mapsto> fin)) sid' = Some own" for sid' own
    proof (cases "sid' = sid")
      case True
      with own r s show ?thesis by (auto simp: evidenced_def Let_def fin_def run_awaits_def s_def)
    next
      case False
      with own other ok show ?thesis by (auto simp: tasks_ok_def intro: evidenced_failed)
    qed
    moreover have "\<exists>own. ((tm_tasks m)(sid \<mapsto> fin)) (run_session_id q) = Some own \<and> ot_phase own \<noteq> DONE
        \<and> tq_task_id (ts_request (ot_status own)) = run_id q"
      if q: "q \<in> set (tm_runs m)" "run_outcome q = task_outcome_value RUNNING" "run_id q \<notin> set ?failed" for q
    proof -
      obtain own where own: "tm_tasks m (run_session_id q) = Some own" "ot_phase own \<noteq> DONE"
        "tq_task_id (ts_request (ot_status own)) = run_id q" using ok q by (auto simp: tasks_ok_def)
      with q(3) o(1) have "run_session_id q \<noteq> sid" by (auto simp: s_def)
      with own show ?thesis by simp
    qed
    ultimately have "tasks_ok (m\<lparr>tm_tasks := (tm_tasks m)(sid \<mapsto> fin), tm_runs := tm_runs m, tm_failed := ?failed\<rparr>)"
      using ok late by (simp add: tasks_ok_def)
    then show ?thesis unfolding fin by (simp only: runs)
  qed
qed

lemma tasks_ok_observe:
  assumes ok: "tasks_ok m" and o: "tm_tasks m sid = Some owned" "ot_phase owned = ENTERED"
  shows "tasks_ok (observe_final record_status m sid)"
proof (cases "record_status (tm_runs m) (ot_status owned)")
  case (Inl e)
  with o show ?thesis using tasks_ok_undone [OF ok o, of "tm_runs m"] by (simp add: observe_final_def)
next
  case (Inr runs)
  with o show ?thesis using tasks_ok_done [OF ok o Inr] by (simp add: observe_final_def)
qed

lemma tasks_ok_step: "tasks_ok m \<Longrightarrow> task_step m m' \<Longrightarrow> tasks_ok m'"
proof (erule task_stepE)
  fix q t s assume "tasks_ok m" "task_start record_status m q t = Inr (s, m')"
  then show ?thesis by (rule tasks_ok_start)
next
  fix q t s m1 assume "tasks_ok m" "m' = start_unanswered m q (tm_runs m1)" "task_start record_status m q t = Inr (s, m1)"
  then show ?thesis by (blast intro: tasks_ok_start_fails)
next
  fix sid assume ok: "tasks_ok m" and st: "request_stop m sid = Inr m'"
  obtain owned where "tm_tasks m sid = Some owned" "m' = m\<lparr>tm_tasks := (tm_tasks m)(sid \<mapsto> owned\<lparr>ot_stop := True\<rparr>)\<rparr>"
    using st by (auto simp: request_stop_def split: option.splits)
  moreover from this ok have "evidenced (tm_failed m) (tm_runs m) sid (owned\<lparr>ot_stop := True\<rparr>)"
    by (auto simp: tasks_ok_def evidenced_def Let_def)
  ultimately show ?thesis using tasks_ok_update [OF ok, of sid owned "owned\<lparr>ot_stop := True\<rparr>"] by simp
next
  assume ok: "tasks_ok m" and "m' = close_tasks m"
  then show ?thesis
    unfolding tasks_ok_def evidenced_def Let_def close_tasks_def by fastforce
next
  fix sid owned r t
  assume ok: "tasks_ok m" and o: "tm_tasks m sid = Some owned" "ot_phase owned = WORKING" and m': "m' = enter_status m sid r t"
  define own where "own = owned\<lparr>ot_status := final_status (ot_status owned) r t, ot_phase := ENTERED\<rparr>"
  have "evidenced (tm_failed m) (tm_runs m) sid owned" using ok o(1) by (simp add: tasks_ok_def)
  then have "evidenced (tm_failed m) (tm_runs m) sid own"
    using o(2) by (auto simp: evidenced_def Let_def own_def)
  then show ?thesis
    using tasks_ok_update [OF ok o(1), of own] o by (simp add: m' enter_status_def own_def)
next
  fix sid owned
  assume "tasks_ok m" "tm_tasks m sid = Some owned" "ot_phase owned = ENTERED" "m' = observe_final record_status m sid"
  then show ?thesis using tasks_ok_observe by blast
next
  fix sid owned runs
  assume "tasks_ok m" "tm_tasks m sid = Some owned" "ot_phase owned = ENTERED" "m' = final_unrecorded m sid owned runs"
    "runs = tm_runs m \<or> record_status (tm_runs m) (ot_status owned) = Inr runs"
  then show ?thesis using tasks_ok_undone by blast
qed

lemma reachable_tasks_ok: "reachable_tasks m \<Longrightarrow> tasks_ok m"
proof (induction rule: reachable_tasks.induct)
  case start
  show ?case by (simp add: tasks_ok_def)
next
  case (step m m')
  then show ?case by (blast intro: tasks_ok_step)
qed


definition demo_request :: replay_task_request where
  "demo_request = \<lparr>tq_session_id = 5, tq_expected_version = 0, tq_candles_per_second = Some 1, tq_maximum_steps = 10, tq_task_id = 9\<rparr>"

lemma demo_task_start:
  "\<exists>s m. task_start record_status \<lparr>tm_tasks = (\<lambda>_. None), tm_runs = [], tm_failed = []\<rparr> demo_request 3 = Inr (s, m)
     \<and> tm_runs m = [started_run (started_status demo_request 3)] \<and> tm_failed m = []"
  by (simp add: task_start_def record_status_def run_of_def) (simp add: started_status_def)


end
