(* ===== verification/Market_Data.thy ===== *)
theory Market_Data
  imports Domain Write_Once "HOL-Library.AList"
begin

text \<open>
  Market data intake: the validator of \<open>packages/market_data/validation.py\<close>, the idempotent tables
  of \<open>packages/market_data/repository.py\<close> and the ingestor of \<open>packages/market_data/ingestion.py\<close>.  The
  validator reports bad records as quality events; its event identifiers are drawn from a stream
  \<open>fresh\<close>.  \<open>INSERT ... ON CONFLICT DO NOTHING\<close> adds the rows whose key is not there yet.  The
  columns of a candle keep eight decimal places: \<open>col\<close> is what they keep of a number.  The payload of a raw
  record is JSON and keeps its texts.
\<close>

section \<open>Validation\<close>

record raw_candle =
  raw_instrument_id :: uuid
  raw_timestamp :: datetime
  raw_timeframe_seconds :: int
  raw_open :: decimal
  raw_high :: decimal
  raw_low :: decimal
  raw_close :: decimal
  raw_volume :: decimal
  raw_source_event_id :: string
  raw_open_interest :: "decimal option"

text \<open>The \<open>details\<close> dict of an event.\<close>

datatype quality_details =
    NoDetails
  | PreviousAt instant
  | MissingCandles int
  | ValidationErrors pyerror
  | ConflictingAt instant int

record quality_event =
  qe_id :: uuid
  qe_instrument_id :: "uuid option"
  qe_timestamp :: instant
  qe_code :: string
  qe_severity :: string
  qe_details :: quality_details
  qe_raw_event_id :: "string option"

type_synonym candle_identity = "uuid \<times> instant \<times> int"

definition identity_of :: "candle \<Rightarrow> candle_identity" where
  "identity_of c = (candle_instrument_id c, candle_timestamp c, candle_timeframe_seconds c)"

definition raw_event :: "raw_candle \<Rightarrow> uuid \<Rightarrow> instant \<Rightarrow> string \<Rightarrow> string \<Rightarrow> quality_details \<Rightarrow> quality_event" where
  "raw_event raw eid observed_at code severity details =
     \<lparr>qe_id = eid, qe_instrument_id = Some (raw_instrument_id raw), qe_timestamp = observed_at, qe_code = code,
      qe_severity = severity, qe_details = details, qe_raw_event_id = Some (raw_source_event_id raw)\<rparr>"

record validation_state =
  vs_accepted :: "candle list"
  vs_events :: "quality_event list"
  vs_seen :: "candle_identity list"
  vs_previous :: "((uuid \<times> int) \<times> instant) list"

definition report :: "(nat \<Rightarrow> uuid) \<Rightarrow> instant \<Rightarrow> raw_candle \<Rightarrow> string \<Rightarrow> string \<Rightarrow> quality_details
    \<Rightarrow> validation_state \<Rightarrow> validation_state" where
  "report fresh now raw code severity details s =
     s\<lparr>vs_events := vs_events s @ [raw_event raw (fresh (length (vs_events s))) now code severity details]\<rparr>"

text \<open>
  The gap check against the previous candle of the stream: \<open>None\<close> when the record is out of order;
  the number of missing candles divides seconds by the timeframe, which raises for a timeframe of 0.
\<close>

definition gap_check :: "(nat \<Rightarrow> uuid) \<Rightarrow> instant \<Rightarrow> raw_candle \<Rightarrow> instant \<Rightarrow> validation_state
    \<Rightarrow> (bool \<times> validation_state) result" where
  "gap_check fresh now raw timestamp s =
     (case map_of (vs_previous s) (raw_instrument_id raw, raw_timeframe_seconds raw) of
        None \<Rightarrow> Inr (True, s)
      | Some previous \<Rightarrow>
          if timestamp < previous
          then Inr (False, report fresh now raw ''OUT_OF_ORDER'' ''error'' (PreviousAt previous) s)
          else
            let expected = previous + seconds (raw_timeframe_seconds raw) in
            if timestamp > expected
            then (if raw_timeframe_seconds raw = 0 then Inl DivisionByZero
                  else Inr (True, report fresh now raw ''FEED_GAP'' ''warning''
                         (MissingCandles ((timestamp - expected) div seconds (raw_timeframe_seconds raw))) s))
            else Inr (True, s))"

definition candle_of_raw :: "instant \<Rightarrow> raw_candle \<Rightarrow> instant \<Rightarrow> candle result" where
  "candle_of_raw now raw timestamp =
     make_candle (raw_instrument_id raw) (Aware timestamp) (raw_timeframe_seconds raw) (raw_open raw) (raw_high raw)
       (raw_low raw) (raw_close raw) (raw_volume raw) (raw_open_interest raw)
       (timestamp + seconds (raw_timeframe_seconds raw) \<le> now)"

definition accept_raw ::
  "(nat \<Rightarrow> uuid) \<Rightarrow> instant \<Rightarrow> instant \<Rightarrow> raw_candle \<Rightarrow> instant \<Rightarrow> validation_state \<Rightarrow> validation_state" where
  "accept_raw fresh drift now raw timestamp s =
     (let s' = s\<lparr>vs_previous := AList.update (raw_instrument_id raw, raw_timeframe_seconds raw) timestamp (vs_previous s)\<rparr> in
      if timestamp > now + drift then report fresh now raw ''TIMESTAMP_DRIFT'' ''error'' NoDetails s'
      else case candle_of_raw now raw timestamp of
        Inr c \<Rightarrow> s'\<lparr>vs_accepted := vs_accepted s' @ [c]\<rparr>
      | Inl e \<Rightarrow> report fresh now raw ''INVALID_CANDLE'' ''error'' (ValidationErrors e) s')"

definition validate_raw ::
  "(nat \<Rightarrow> uuid) \<Rightarrow> instant \<Rightarrow> instant \<Rightarrow> validation_state \<Rightarrow> raw_candle \<Rightarrow> validation_state result" where
  "validate_raw fresh drift now s raw =
     (case raw_timestamp raw of
        Naive _ \<Rightarrow> Inr (report fresh now raw ''INVALID_TIMESTAMP'' ''error'' NoDetails s)
      | Aware timestamp \<Rightarrow>
          let identity = (raw_instrument_id raw, timestamp, raw_timeframe_seconds raw)
          in if identity \<in> set (vs_seen s) then Inr (report fresh now raw ''DUPLICATE'' ''error'' NoDetails s)
             else rbind (gap_check fresh now raw timestamp (s\<lparr>vs_seen := vs_seen s @ [identity]\<rparr>)) (\<lambda>(in_order, s1).
               Inr (if in_order then accept_raw fresh drift now raw timestamp s1 else s1)))"

definition validate_raws ::
  "(nat \<Rightarrow> uuid) \<Rightarrow> instant \<Rightarrow> instant \<Rightarrow> raw_candle list \<Rightarrow> (candle list \<times> quality_event list) result" where
  "validate_raws fresh drift now records =
     rbind (rfold (validate_raw fresh drift now)
              \<lparr>vs_accepted = [], vs_events = [], vs_seen = [], vs_previous = []\<rparr> records) (\<lambda>s.
       Inr (vs_accepted s, vs_events s))"

definition maximum_timestamp_drift :: instant where
  "maximum_timestamp_drift = seconds 120"

section \<open>The tables\<close>

record raw_candle_row =
  rc_source :: string
  rc_source_event_id :: string
  rc_instrument_id :: uuid
  rc_event_timestamp :: datetime
  rc_timeframe_seconds :: int
  rc_payload :: "decimal list \<times> decimal option"

record market_db =
  md_dialect :: string
  md_raw :: "raw_candle_row list"
  md_candles :: "candle list"
  md_events :: "quality_event list"

definition insert_new :: "('r \<Rightarrow> 'k) \<Rightarrow> 'r list \<Rightarrow> 'r \<Rightarrow> 'r list" where
  "insert_new key table row = (if key row \<in> key ` set table then table else table @ [row])"

text \<open>\<open>_insert_ignore\<close>: the new table and the row count.\<close>

definition insert_ignore :: "string \<Rightarrow> ('r \<Rightarrow> 'k) \<Rightarrow> 'r list \<Rightarrow> 'r list \<Rightarrow> (nat \<times> 'r list) result" where
  "insert_ignore dialect key table rows =
     (if rows = [] then Inr (0, table)
      else if dialect = ''postgresql'' \<or> dialect = ''sqlite''
      then let table' = foldl (insert_new key) table rows in Inr (length table' - length table, table')
      else Inl (RuntimeError (''unsupported database dialect for idempotent ingestion: '' @ dialect)))"

definition raw_row :: "string \<Rightarrow> raw_candle \<Rightarrow> raw_candle_row" where
  "raw_row source r = \<lparr>rc_source = source, rc_source_event_id = raw_source_event_id r,
     rc_instrument_id = raw_instrument_id r, rc_event_timestamp = raw_timestamp r,
     rc_timeframe_seconds = raw_timeframe_seconds r,
     rc_payload = ([raw_open r, raw_high r, raw_low r, raw_close r, raw_volume r], raw_open_interest r)\<rparr>"

definition raw_key :: "raw_candle_row \<Rightarrow> string \<times> string" where
  "raw_key r = (rc_source r, rc_source_event_id r)"

text \<open>A quality event whose raw event is absent (SQL NULL) conflicts with no other; the key is then the event itself.\<close>

definition event_key :: "quality_event \<Rightarrow> (string \<times> string) + uuid" where
  "event_key e = (case qe_raw_event_id e of Some r \<Rightarrow> Inl (r, qe_code e) | None \<Rightarrow> Inr (qe_id e))"

definition store_raw :: "market_db \<Rightarrow> string \<Rightarrow> raw_candle list \<Rightarrow> (nat \<times> market_db) result" where
  "store_raw db source records =
     rbind (insert_ignore (md_dialect db) raw_key (md_raw db) (map (raw_row source) records)) (\<lambda>(n, t).
       Inr (n, db\<lparr>md_raw := t\<rparr>))"

text \<open>What the columns \<open>Numeric(24, 8)\<close> and \<open>Numeric(28, 8)\<close> keep of a candle.\<close>

definition candle_columns :: "(decimal \<Rightarrow> decimal) \<Rightarrow> candle \<Rightarrow> candle" where
  "candle_columns col c = c\<lparr>candle_open := col (candle_open c), candle_high := col (candle_high c), candle_low := col (candle_low c),
     candle_close := col (candle_close c), candle_volume := col (candle_volume c),
     candle_open_interest := map_option col (candle_open_interest c)\<rparr>"

definition store_candles :: "(decimal \<Rightarrow> decimal) \<Rightarrow> market_db \<Rightarrow> candle list \<Rightarrow> (nat \<times> market_db) result" where
  "store_candles col db cs =
     rbind (insert_ignore (md_dialect db) identity_of (md_candles db) (map (candle_columns col) cs)) (\<lambda>(n, t).
       Inr (n, db\<lparr>md_candles := t\<rparr>))"

definition store_quality_events :: "market_db \<Rightarrow> quality_event list \<Rightarrow> (nat \<times> market_db) result" where
  "store_quality_events db es =
     rbind (insert_ignore (md_dialect db) event_key (md_events db) es) (\<lambda>(n, t). Inr (n, db\<lparr>md_events := t\<rparr>))"

text \<open>
  \<open>existing_candles\<close>: the rows whose instrument, timestamp and timeframe each occur in the batch, by
  identity; each is validated again as a candle when it is read.
\<close>

definition revalidate :: "candle \<Rightarrow> candle result" where
  "revalidate c = make_candle (candle_instrument_id c) (Aware (candle_timestamp c)) (candle_timeframe_seconds c)
     (candle_open c) (candle_high c) (candle_low c) (candle_close c) (candle_volume c) (candle_open_interest c)
     (candle_is_closed c)"

definition existing_candles :: "market_db \<Rightarrow> candle list \<Rightarrow> (candle_identity \<times> candle) list result" where
  "existing_candles db batch =
     (if batch = [] then Inr []
      else
        let rows = filter (\<lambda>r. candle_instrument_id r \<in> candle_instrument_id ` set batch
                    \<and> candle_timestamp r \<in> candle_timestamp ` set batch
                    \<and> candle_timeframe_seconds r \<in> candle_timeframe_seconds ` set batch) (md_candles db)
        in rbind (rmap revalidate rows) (\<lambda>cs. Inr (foldl (\<lambda>d c. AList.update (identity_of c) c d) [] cs)))"

section \<open>Ingestion\<close>

record ingestion_result =
  ig_raw_inserted :: nat
  ig_normalized_inserted :: nat
  ig_quality_events_recorded :: nat

text \<open>The dict comprehension keeps the last record of an identity.\<close>

definition source_ids :: "raw_candle list \<Rightarrow> (candle_identity \<times> string) list" where
  "source_ids records =
     foldl (\<lambda>d raw. case raw_timestamp raw of
        Naive _ \<Rightarrow> d
      | Aware t \<Rightarrow> AList.update (raw_instrument_id raw, t, raw_timeframe_seconds raw) (raw_source_event_id raw) d) [] records"

definition conflict_event :: "uuid \<Rightarrow> instant \<Rightarrow> candle \<Rightarrow> string \<Rightarrow> quality_event" where
  "conflict_event eid observed_at c source_id =
     \<lparr>qe_id = eid, qe_instrument_id = Some (candle_instrument_id c), qe_timestamp = observed_at,
      qe_code = ''CONFLICTING_CANDLE'', qe_severity = ''error'',
      qe_details = ConflictingAt (candle_timestamp c) (candle_timeframe_seconds c), qe_raw_event_id = Some source_id\<rparr>"

definition new_candles :: "(candle_identity \<times> candle) list \<Rightarrow> candle list \<Rightarrow> candle list" where
  "new_candles existing accepted = filter (\<lambda>c. map_of existing (identity_of c) = None) accepted"

definition conflicting_candles :: "(candle_identity \<times> candle) list \<Rightarrow> candle list \<Rightarrow> candle list" where
  "conflicting_candles existing accepted =
     filter (\<lambda>c. case map_of existing (identity_of c) of None \<Rightarrow> False | Some previous \<Rightarrow> previous \<noteq> c) accepted"

text \<open>\<open>source_ids[key]\<close> raises for a missing key.\<close>

definition conflict_item ::
  "(nat \<Rightarrow> uuid) \<Rightarrow> instant \<Rightarrow> (candle_identity \<times> string) list \<Rightarrow> nat \<Rightarrow> nat \<times> candle \<Rightarrow> quality_event result" where
  "conflict_item fresh observed_at ids n ic =
     (case map_of ids (identity_of (snd ic)) of
        None \<Rightarrow> Inl (KeyError ''source_ids'')
      | Some source_id \<Rightarrow> Inr (conflict_event (fresh (n + fst ic)) observed_at (snd ic) source_id))"

definition conflict_events ::
  "(nat \<Rightarrow> uuid) \<Rightarrow> instant \<Rightarrow> (candle_identity \<times> string) list \<Rightarrow> nat \<Rightarrow> candle list \<Rightarrow> quality_event list result" where
  "conflict_events fresh observed_at ids n items = rmap (conflict_item fresh observed_at ids n) (enumerate 0 items)"

definition ingest ::
  "(decimal \<Rightarrow> decimal) \<Rightarrow> (nat \<Rightarrow> uuid) \<Rightarrow> instant \<Rightarrow> market_db \<Rightarrow> string \<Rightarrow> raw_candle list \<Rightarrow> instant
   \<Rightarrow> (ingestion_result \<times> market_db) result" where
  "ingest col fresh drift db source records observed_at =
     rbind (validate_raws fresh drift observed_at records) (\<lambda>(accepted, events).
     rbind (existing_candles db accepted) (\<lambda>existing.
     rbind (conflict_events fresh observed_at (source_ids records) (length events) (conflicting_candles existing accepted)) (\<lambda>conflicts.
     rbind (store_raw db source records) (\<lambda>(raw_count, db1).
     rbind (store_candles col db1 (new_candles existing accepted)) (\<lambda>(normalized_count, db2).
     rbind (store_quality_events db2 (events @ conflicts)) (\<lambda>(event_count, db3).
     Inr (\<lparr>ig_raw_inserted = raw_count, ig_normalized_inserted = normalized_count,
           ig_quality_events_recorded = event_count\<rparr>, db3)))))))"

section \<open>Accounting for every record\<close>

definition errors_of :: "quality_event list \<Rightarrow> quality_event list" where
  "errors_of es = filter (\<lambda>e. qe_severity e = ''error'') es"

definition stream_of :: "candle \<Rightarrow> uuid \<times> int" where
  "stream_of c = (candle_instrument_id c, candle_timeframe_seconds c)"

definition validation_ok :: "instant \<Rightarrow> instant \<Rightarrow> nat \<Rightarrow> validation_state \<Rightarrow> bool" where
  "validation_ok drift now n s \<longleftrightarrow>
     length (vs_accepted s) + length (errors_of (vs_events s)) = n
     \<and> (\<forall>stream p. map_of (vs_previous s) stream = Some p \<longrightarrow> (fst stream, p, snd stream) \<in> set (vs_seen s))
     \<and> (\<forall>c \<in> set (vs_accepted s). candle_ok c \<and> candle_timestamp c \<le> now + drift
          \<and> (candle_is_closed c \<longleftrightarrow> candle_timestamp c + seconds (candle_timeframe_seconds c) \<le> now)
          \<and> (\<exists>p. map_of (vs_previous s) (stream_of c) = Some p \<and> candle_timestamp c \<le> p))
     \<and> sorted_wrt (\<lambda>a b. stream_of a = stream_of b \<longrightarrow> candle_timestamp a < candle_timestamp b) (vs_accepted s)"

lemma report_simps [simp]:
  "vs_accepted (report fresh now raw code sev d s) = vs_accepted s" "vs_seen (report fresh now raw code sev d s) = vs_seen s"
  "vs_previous (report fresh now raw code sev d s) = vs_previous s"
  "length (errors_of (vs_events (report fresh now raw code sev d s)))
     = length (errors_of (vs_events s)) + (if sev = ''error'' then 1 else 0)"
  by (simp_all add: report_def errors_of_def raw_event_def)

lemma gap_check_cases:
  assumes "gap_check fresh now raw t s = Inr (ok, s')"
  obtains (late) p where "\<not> ok" "map_of (vs_previous s) (raw_instrument_id raw, raw_timeframe_seconds raw) = Some p" "t < p"
      "vs_accepted s' = vs_accepted s" "vs_seen s' = vs_seen s" "vs_previous s' = vs_previous s"
      "length (errors_of (vs_events s')) = length (errors_of (vs_events s)) + 1"
  | (inorder) "ok" "\<forall>p. map_of (vs_previous s) (raw_instrument_id raw, raw_timeframe_seconds raw) = Some p \<longrightarrow> p \<le> t"
      "vs_accepted s' = vs_accepted s" "vs_seen s' = vs_seen s" "vs_previous s' = vs_previous s"
      "length (errors_of (vs_events s')) = length (errors_of (vs_events s))"
  using assms by (auto simp: gap_check_def Let_def split: option.splits if_splits)

lemma candle_of_raw_Inr:
  assumes "candle_of_raw now raw t = Inr c"
  shows "candle_ok c" "candle_timestamp c = t" "stream_of c = (raw_instrument_id raw, raw_timeframe_seconds raw)"
    "candle_is_closed c \<longleftrightarrow> t + seconds (candle_timeframe_seconds c) \<le> now"
  using assms by (auto simp: candle_of_raw_def make_candle_iff stream_of_def)

lemma validation_ok_frame:
  assumes "validation_ok drift now n s" "vs_accepted s' = vs_accepted s" "vs_previous s' = vs_previous s"
    "set (vs_seen s) \<subseteq> set (vs_seen s')" "length (errors_of (vs_events s')) = length (errors_of (vs_events s)) + 1"
  shows "validation_ok drift now (Suc n) s'"
  using assms unfolding validation_ok_def by (auto dest: subsetD)

lemma validate_raw_ok:
  assumes ok: "validation_ok drift now n s" and step: "validate_raw fresh drift now s raw = Inr s'"
  shows "validation_ok drift now (Suc n) s'"
proof (cases "raw_timestamp raw")
  case (Naive t)
  with step show ?thesis
    by (auto simp: validate_raw_def intro: validation_ok_frame [OF ok])
next
  case (Aware t)
  define ident where "ident = (raw_instrument_id raw, t, raw_timeframe_seconds raw)"
  define stream where "stream = (raw_instrument_id raw, raw_timeframe_seconds raw)"
  show ?thesis
  proof (cases "ident \<in> set (vs_seen s)")
    case True
    with step Aware show ?thesis
      by (auto simp: validate_raw_def ident_def intro: validation_ok_frame [OF ok])
  next
    case False
    define s0 where "s0 = s\<lparr>vs_seen := vs_seen s @ [ident]\<rparr>"
    obtain b s1 where gap: "gap_check fresh now raw t s0 = Inr (b, s1)"
      and s': "s' = (if b then accept_raw fresh drift now raw t s1 else s1)"
      using step Aware False by (auto simp: validate_raw_def ident_def s0_def rbind_eq_Inr)
    from gap show ?thesis
    proof (cases rule: gap_check_cases)
      case (late p)
      with s' show ?thesis by (auto simp: s0_def intro: validation_ok_frame [OF ok])
    next
      case inorder
      define s2 where "s2 = s1\<lparr>vs_previous := AList.update stream t (vs_previous s1)\<rparr>"
      have prev: "map_of (vs_previous s2) k = (if k = stream then Some t else map_of (vs_previous s) k)" for k
        using inorder(5) by (simp add: s2_def s0_def update_conv' fun_upd_apply)
      have seen: "vs_seen s2 = vs_seen s @ [ident]" and acc: "vs_accepted s2 = vs_accepted s"
        and err: "length (errors_of (vs_events s2)) = length (errors_of (vs_events s))"
        using inorder by (simp_all add: s2_def s0_def)
      have less: "p < t" if p: "map_of (vs_previous s) stream = Some p" for p
      proof -
        have "p \<le> t" using inorder(2) p by (simp add: s0_def stream_def)
        moreover have "p \<noteq> t"
          using ok p False by (auto simp: validation_ok_def ident_def stream_def)
        ultimately show ?thesis by simp
      qed
      have base: "validation_ok drift now n s2"
        using ok less unfolding validation_ok_def prev acc err seen
        by (auto simp: ident_def stream_def dest: less_imp_le order.trans)
      show ?thesis
      proof (cases "t > now + drift \<or> (\<exists>e. candle_of_raw now raw t = Inl e)")
        case True
        with s' inorder(1) base show ?thesis
          by (auto simp: accept_raw_def Let_def intro: validation_ok_frame simp flip: s2_def stream_def)
      next
        case good: False
        then obtain c where c: "candle_of_raw now raw t = Inr c" by (cases "candle_of_raw now raw t") auto
        note cf = candle_of_raw_Inr [OF c, folded stream_def]
        have "candle_timestamp a < t" if "a \<in> set (vs_accepted s)" "stream_of a = stream" for a
          using ok that less unfolding validation_ok_def by (metis order.strict_trans1)
        moreover have "s' = s2\<lparr>vs_accepted := vs_accepted s2 @ [c]\<rparr>"
          using s' inorder(1) good c by (simp add: accept_raw_def Let_def flip: s2_def stream_def)
        ultimately show ?thesis
          using base cf good unfolding validation_ok_def by (auto simp: sorted_wrt_append prev acc)
      qed
    qed
  qed
qed

lemma validate_raws_ok:
  assumes "rfold (validate_raw fresh drift now) s records = Inr s'" "validation_ok drift now n s"
  shows "validation_ok drift now (n + length records) s'"
  using assms
proof (induction records arbitrary: n s)
  case (Cons r records)
  then show ?case using validate_raw_ok [OF Cons.prems(2)] by (fastforce simp: rbind_eq_Inr)
qed simp

text \<open>The validator loses no record and repairs none: every record ends as an accepted candle or as
  an error event, the accepted candles satisfy the candle contract, are not dated beyond the allowed
  drift, are marked closed exactly when their interval has ended, and the candles of one stream
  are accepted in strictly increasing time, so never twice.\<close>

theorem every_record_is_accounted_for:
  assumes "validate_raws fresh drift now records = Inr (accepted, events)"
  shows "length accepted + length (errors_of events) = length records
    \<and> (\<forall>c \<in> set accepted. candle_ok c \<and> candle_timestamp c \<le> now + drift
         \<and> (candle_is_closed c \<longleftrightarrow> candle_timestamp c + seconds (candle_timeframe_seconds c) \<le> now))
    \<and> sorted_wrt (\<lambda>a b. stream_of a = stream_of b \<longrightarrow> candle_timestamp a < candle_timestamp b) accepted"
proof -
  define s0 where "s0 = \<lparr>vs_accepted = [], vs_events = [], vs_seen = [], vs_previous = []\<rparr>"
  obtain s where run: "rfold (validate_raw fresh drift now) s0 records = Inr s" and out: "accepted = vs_accepted s" "events = vs_events s"
    using assms by (auto simp: validate_raws_def rbind_eq_Inr s0_def)
  have "validation_ok drift now 0 s0" by (simp add: validation_ok_def s0_def errors_of_def)
  from validate_raws_ok [OF run this] show ?thesis
    by (auto simp: validation_ok_def out)
qed

definition demo_raw :: "int \<Rightarrow> decimal \<Rightarrow> string \<Rightarrow> raw_candle" where
  "demo_raw k hi ev = \<lparr>raw_instrument_id = 1, raw_timestamp = Aware (seconds (60 * k)), raw_timeframe_seconds = 60,
     raw_open = 10, raw_high = hi, raw_low = 9, raw_close = 10, raw_volume = 1, raw_source_event_id = ev,
     raw_open_interest = None\<rparr>"

lemma demo_validation:
  "\<exists>accepted events. validate_raws id maximum_timestamp_drift (seconds 600)
     [demo_raw 1 11 ''a'', demo_raw 1 11 ''b'', demo_raw 4 8 ''c'', demo_raw 3 11 ''d''] = Inr (accepted, events)
     \<and> length accepted = 1"
  by (simp add: validate_raws_def validate_raw_def gap_check_def report_def demo_raw_def accept_raw_def candle_of_raw_def make_candle_def
      normalize_datetime_def candle_fields_ok_def validate_ohlc_def seconds_def maximum_timestamp_drift_def Let_def)

theorem every_record_is_accounted_for_witness:
  "\<exists>accepted events. validate_raws id maximum_timestamp_drift (seconds 600)
     [demo_raw 1 11 ''a'', demo_raw 1 11 ''b'', demo_raw 4 8 ''c'', demo_raw 3 11 ''d''] = Inr (accepted, events)
     \<and> length (errors_of events) = 3"
proof -
  obtain accepted events where v: "validate_raws id maximum_timestamp_drift (seconds 600)
     [demo_raw 1 11 ''a'', demo_raw 1 11 ''b'', demo_raw 4 8 ''c'', demo_raw 3 11 ''d''] = Inr (accepted, events)"
    "length accepted = 1" using demo_validation by blast
  from every_record_is_accounted_for [OF v(1)] v show ?thesis by simp
qed

text \<open>
  The validator does raise on one kind of bad input: a second record of a stream whose timeframe is 0.
\<close>

lemma zero_timeframe_raises:
  "validate_raws fresh drift now
     [demo_raw 1 11 ''a''\<lparr>raw_timeframe_seconds := 0\<rparr>, demo_raw 2 11 ''b''\<lparr>raw_timeframe_seconds := 0\<rparr>] = Inl DivisionByZero"
  by (simp add: validate_raws_def validate_raw_def gap_check_def report_def demo_raw_def accept_raw_def candle_of_raw_def make_candle_def
      normalize_datetime_def candle_fields_ok_def seconds_def Let_def)

section \<open>Tables that keep their rows\<close>

lemma insert_new_keeps: "\<exists>new. foldl (insert_new key) t rows = t @ new \<and> set new \<subseteq> set rows
    \<and> (distinct (map key t) \<longrightarrow> distinct (map key (t @ new))) \<and> key ` set rows \<subseteq> key ` set (t @ new)"
proof (induction rows arbitrary: t)
  case (Cons r rows)
  obtain new where new: "foldl (insert_new key) (insert_new key t r) rows = insert_new key t r @ new"
    "set new \<subseteq> set rows" "distinct (map key (insert_new key t r)) \<longrightarrow> distinct (map key (insert_new key t r @ new))"
    "key ` set rows \<subseteq> key ` set (insert_new key t r @ new)"
    using Cons.IH by blast
  show ?case
  proof (cases "key r \<in> key ` set t")
    case True
    then have "insert_new key t r = t" by (simp add: insert_new_def)
    with new True show ?thesis by (intro exI [of _ new]) auto
  next
    case False
    then have "insert_new key t r = t @ [r]" by (simp add: insert_new_def)
    with new False show ?thesis by (intro exI [of _ "r # new"]) auto
  qed
qed simp

lemma insert_ignore_Inr:
  assumes "insert_ignore dialect key t rows = Inr (n, t')"
  obtains new where "t' = t @ new" "n = length new" "set new \<subseteq> set rows"
    "distinct (map key t) \<Longrightarrow> distinct (map key t')" "key ` set rows \<subseteq> key ` set t'"
proof (cases "rows = []")
  case True
  with assms that [of "[]"] show thesis by (simp add: insert_ignore_def)
next
  case False
  obtain new where "foldl (insert_new key) t rows = t @ new" "set new \<subseteq> set rows"
    "distinct (map key t) \<longrightarrow> distinct (map key (t @ new))" "key ` set rows \<subseteq> key ` set (t @ new)"
    using insert_new_keeps [of key t rows] by blast
  with assms False that [of new] show thesis
    by (auto simp: insert_ignore_def Let_def split: if_splits)
qed

lemma insert_new_present: "key ` set rows \<subseteq> key ` set t \<Longrightarrow> foldl (insert_new key) t rows = t"
  by (induction rows) (auto simp: insert_new_def)

lemma insert_ignore_again:
  assumes "insert_ignore dialect key t rows = Inr (n, t')" "key ` set rows' = key ` set rows"
  shows "insert_ignore dialect key t' rows' = Inr (0, t')"
proof (cases "rows' = []")
  case True
  then show ?thesis by (simp add: insert_ignore_def)
next
  case False
  with assms(2) have "rows \<noteq> []" by auto
  moreover have "key ` set rows \<subseteq> key ` set t'"
    using assms(1) by (rule insert_ignore_Inr)
  with assms(2) have "foldl (insert_new key) t' rows' = t'" by (intro insert_new_present) simp
  ultimately show ?thesis
    using assms(1) False by (auto simp: insert_ignore_def Let_def split: if_splits)
qed

definition market_ok :: "market_db \<Rightarrow> bool" where
  "market_ok db \<longleftrightarrow> distinct (map identity_of (md_candles db)) \<and> (\<forall>c \<in> set (md_candles db). candle_ok c)
     \<and> distinct (map raw_key (md_raw db)) \<and> distinct (map event_key (md_events db))"

lemma revalidate_ok: "candle_ok c \<Longrightarrow> revalidate c = Inr c"
  by (simp add: revalidate_def make_candle_iff)

lemma existing_dict:
  "map_of (foldl (\<lambda>d c. AList.update (identity_of c) c d) d0 cs) k =
     (case List.find (\<lambda>c. identity_of c = k) (rev cs) of None \<Rightarrow> map_of d0 k | Some c \<Rightarrow> Some c)"
  by (induction cs rule: rev_induct) (auto simp: update_conv')

definition stored_candle :: "market_db \<Rightarrow> candle_identity \<Rightarrow> candle option" where
  "stored_candle db k = List.find (\<lambda>c. identity_of c = k) (md_candles db)"

lemma find_key_iff:
  "distinct (map f xs) \<Longrightarrow> List.find (\<lambda>x. f x = k) xs = Some x \<longleftrightarrow> x \<in> set xs \<and> f x = k"
  using find_map_key [of f xs x] find_Some_in [of "\<lambda>x. f x = k" xs x] by blast

lemma existing_candles_lookup:
  assumes "market_ok db"
  obtains d where "existing_candles db batch = Inr d"
    "\<And>c. c \<in> set batch \<Longrightarrow> map_of d (identity_of c) = stored_candle db (identity_of c)"
proof (cases "batch = []")
  case True
  with that [of "[]"] show thesis by (simp add: existing_candles_def)
next
  case False
  define rows where "rows = filter (\<lambda>r. candle_instrument_id r \<in> candle_instrument_id ` set batch
    \<and> candle_timestamp r \<in> candle_timestamp ` set batch
    \<and> candle_timeframe_seconds r \<in> candle_timeframe_seconds ` set batch) (md_candles db)"
  define d where "d = foldl (\<lambda>d c. AList.update (identity_of c) c d) [] rows"
  have "rmap revalidate rows = Inr rows"
    using rmap_map [of rows revalidate "\<lambda>c. c"] assms revalidate_ok by (auto simp: rows_def market_ok_def)
  then have ex: "existing_candles db batch = Inr d"
    using False by (simp add: existing_candles_def d_def Let_def flip: rows_def)
  have dist: "distinct (map identity_of (md_candles db))" using assms by (simp add: market_ok_def)
  then have dr: "distinct (map identity_of (rev rows))"
    by (simp add: rows_def distinct_map_filter rev_map [symmetric])
  have "map_of d (identity_of c) = stored_candle db (identity_of c)" if c: "c \<in> set batch" for c
  proof -
    have "r \<in> set rows \<longleftrightarrow> r \<in> set (md_candles db)" if "identity_of r = identity_of c" for r
      using that c by (auto simp: rows_def identity_of_def)
    then have "List.find (\<lambda>r. identity_of r = identity_of c) (rev rows) = Some r
        \<longleftrightarrow> List.find (\<lambda>r. identity_of r = identity_of c) (md_candles db) = Some r" for r
      using find_key_iff [OF dr] find_key_iff [OF dist] by auto
    then have "List.find (\<lambda>r. identity_of r = identity_of c) (rev rows) = stored_candle db (identity_of c)"
      unfolding stored_candle_def by (metis not_None_eq)
    then show ?thesis
      by (simp add: d_def existing_dict split: option.split)
  qed
  with ex that show thesis by blast
qed

section \<open>Ingesting again changes nothing\<close>

text \<open>Two runs of the validator that differ in the identifiers and the time of their events only: the two times agree on what is
  too early and on what is closed.\<close>

definition same_but_ids :: "validation_state \<Rightarrow> validation_state \<Rightarrow> bool" where
  "same_but_ids s s' \<longleftrightarrow> vs_accepted s = vs_accepted s' \<and> vs_seen s = vs_seen s' \<and> vs_previous s = vs_previous s'
     \<and> map event_key (vs_events s) = map event_key (vs_events s')"

definition times_agree :: "instant \<Rightarrow> instant \<Rightarrow> instant \<Rightarrow> raw_candle \<Rightarrow> bool" where
  "times_agree drift now now' raw \<longleftrightarrow> (\<forall>t. raw_timestamp raw = Aware t \<longrightarrow> (now + drift < t \<longleftrightarrow> now' + drift < t)
     \<and> (t + seconds (raw_timeframe_seconds raw) \<le> now \<longleftrightarrow> t + seconds (raw_timeframe_seconds raw) \<le> now'))"

lemma same_report [intro]:
  "same_but_ids s s' \<Longrightarrow> same_but_ids (report f now raw code sev d s) (report f' now' raw code sev d s')"
  by (simp add: same_but_ids_def report_def event_key_def raw_event_def)

lemma same_gap_check:
  assumes "same_but_ids s s'" "gap_check f now raw t s = Inr (b, s1)"
  obtains s1' where "gap_check f' now' raw t s' = Inr (b, s1')" "same_but_ids s1 s1'"
proof -
  have p: "vs_previous s' = vs_previous s" using assms(1) by (simp add: same_but_ids_def)
  show thesis
    using assms that by (auto simp: gap_check_def Let_def p split: option.splits if_splits)
qed

lemma same_accept_raw:
  assumes "same_but_ids s s'" "times_agree drift now now' raw" "raw_timestamp raw = Aware t"
  shows "same_but_ids (accept_raw f drift now raw t s) (accept_raw f' drift now' raw t s')"
proof -
  have "candle_of_raw now' raw t = candle_of_raw now raw t"
    using assms(2,3) by (simp add: candle_of_raw_def times_agree_def)
  with assms show ?thesis
    by (auto simp: accept_raw_def Let_def report_def same_but_ids_def event_key_def raw_event_def times_agree_def split: sum.split)
qed

lemma same_validate_raw:
  assumes "same_but_ids s s'" "validate_raw f drift now s raw = Inr s1" "times_agree drift now now' raw"
  shows "\<exists>s1'. validate_raw f' drift now' s' raw = Inr s1' \<and> same_but_ids s1 s1'"
proof (cases "raw_timestamp raw")
  case (Naive t)
  with assms show ?thesis by (auto simp: validate_raw_def)
next
  case (Aware t)
  define ident where "ident = (raw_instrument_id raw, t, raw_timeframe_seconds raw)"
  have seen: "vs_seen s' = vs_seen s" using assms(1) by (simp add: same_but_ids_def)
  show ?thesis
  proof (cases "ident \<in> set (vs_seen s)")
    case True
    with assms Aware seen show ?thesis by (auto simp: validate_raw_def ident_def)
  next
    case False
    then obtain b s2 where gap: "gap_check f now raw t (s\<lparr>vs_seen := vs_seen s @ [ident]\<rparr>) = Inr (b, s2)"
      and s1: "s1 = (if b then accept_raw f drift now raw t s2 else s2)"
      using assms(2) Aware by (auto simp: validate_raw_def ident_def rbind_eq_Inr)
    have "same_but_ids (s\<lparr>vs_seen := vs_seen s @ [ident]\<rparr>) (s'\<lparr>vs_seen := vs_seen s' @ [ident]\<rparr>)"
      using assms(1) by (simp add: same_but_ids_def)
    then obtain s2' where "gap_check f' now' raw t (s'\<lparr>vs_seen := vs_seen s' @ [ident]\<rparr>) = Inr (b, s2')" "same_but_ids s2 s2'"
      using gap by (rule same_gap_check)
    with False seen Aware assms(3) show ?thesis
      by (auto simp: validate_raw_def ident_def s1 same_accept_raw)
  qed
qed

lemma same_validation:
  assumes "rfold (validate_raw f drift now) s records = Inr s1" "same_but_ids s s'" "\<forall>raw \<in> set records. times_agree drift now now' raw"
  shows "\<exists>s1'. rfold (validate_raw f' drift now') s' records = Inr s1' \<and> same_but_ids s1 s1'"
  using assms
proof (induction records arbitrary: s s')
  case (Cons r records)
  obtain s2 where s2: "validate_raw f drift now s r = Inr s2" "rfold (validate_raw f drift now) s2 records = Inr s1"
    using Cons.prems(1) by (auto simp: rbind_eq_Inr)
  have agree: "times_agree drift now now' r" "\<forall>raw \<in> set records. times_agree drift now now' raw" using Cons.prems(3) by simp_all
  obtain s2' where "validate_raw f' drift now' s' r = Inr s2'" "same_but_ids s2 s2'"
    using same_validate_raw [OF Cons.prems(2) s2(1) agree(1)] by blast
  with Cons.IH [OF s2(2) _ agree(2)] show ?case by auto
qed simp

lemma same_validate_raws:
  assumes "validate_raws f drift now records = Inr (accepted, events)" "\<forall>raw \<in> set records. times_agree drift now now' raw"
  obtains events' where "validate_raws f' drift now' records = Inr (accepted, events')" "map event_key events' = map event_key events"
proof -
  define s0 where "s0 = \<lparr>vs_accepted = [], vs_events = [], vs_seen = [], vs_previous = []\<rparr>"
  obtain s where s: "rfold (validate_raw f drift now) s0 records = Inr s" "accepted = vs_accepted s" "events = vs_events s"
    using assms(1) by (auto simp: validate_raws_def rbind_eq_Inr s0_def)
  have "same_but_ids s0 s0" by (simp add: same_but_ids_def)
  from same_validation [OF s(1) this assms(2), of f'] obtain s' where
    "rfold (validate_raw f' drift now') s0 records = Inr s'" "same_but_ids s s'" by blast
  with that [of "vs_events s'"] s show thesis
    by (simp add: validate_raws_def same_but_ids_def flip: s0_def)
qed

lemma conflict_item_Inr:
  "conflict_item f at0 ids n ic = Inr e \<Longrightarrow> map_of ids (identity_of (snd ic)) \<noteq> None
     \<and> event_key e = Inl (the (map_of ids (identity_of (snd ic))), ''CONFLICTING_CANDLE'')"
  by (auto simp: conflict_item_def event_key_def conflict_event_def split: option.splits)

lemma conflict_items_keys:
  "rmap (conflict_item f at0 ids n) (enumerate k items) = Inr es \<Longrightarrow>
     event_key ` set es = (\<lambda>c. Inl (the (map_of ids (identity_of c)), ''CONFLICTING_CANDLE'')) ` set items
     \<and> (\<forall>c \<in> set items. map_of ids (identity_of c) \<noteq> None)"
proof (induction items arbitrary: k es)
  case (Cons c items)
  obtain e es' where e: "conflict_item f at0 ids n (k, c) = Inr e" and es: "es = e # es'"
    and r: "rmap (conflict_item f at0 ids n) (enumerate (Suc k) items) = Inr es'"
    using Cons.prems by (auto simp: rbind_eq_Inr)
  from Cons.IH [OF r] conflict_item_Inr [OF e] show ?case by (auto simp: es)
qed simp

lemma conflict_items_total:
  "\<forall>c \<in> set items. map_of ids (identity_of c) \<noteq> None \<Longrightarrow> \<exists>es. rmap (conflict_item f at0 ids n) (enumerate k items) = Inr es"
proof (induction items arbitrary: k)
  case (Cons c items)
  then obtain es where "rmap (conflict_item f at0 ids n) (enumerate (Suc k) items) = Inr es" by fastforce
  moreover obtain e where "conflict_item f at0 ids n (k, c) = Inr e"
    using Cons.prems by (auto simp: conflict_item_def)
  ultimately show ?case by simp
qed simp

lemmas conflict_events_keys = conflict_items_keys [where k = 0, folded conflict_events_def]
lemmas conflict_events_total = conflict_items_total [where k = 0, folded conflict_events_def]

lemma accepted_identities_distinct:
  assumes "validate_raws f drift now records = Inr (accepted, events)"
  shows "distinct (map identity_of accepted)"
proof -
  define s0 where "s0 = \<lparr>vs_accepted = [], vs_events = [], vs_seen = [], vs_previous = []\<rparr>"
  obtain s where run: "rfold (validate_raw f drift now) s0 records = Inr s" and out: "accepted = vs_accepted s"
    using assms by (auto simp: validate_raws_def rbind_eq_Inr s0_def)
  have "validation_ok drift now 0 s0" by (simp add: validation_ok_def s0_def errors_of_def)
  from validate_raws_ok [OF run this]
  have "sorted_wrt (\<lambda>a b. stream_of a = stream_of b \<longrightarrow> candle_timestamp a < candle_timestamp b) accepted"
    by (simp add: validation_ok_def out)
  then have "sorted_wrt (\<lambda>a b. identity_of a \<noteq> identity_of b) accepted"
    by (rule sorted_wrt_mono_rel [rotated]) (auto simp: stream_of_def identity_of_def)
  then show ?thesis by (simp add: distinct_conv_nth sorted_wrt_iff_nth_less) (metis linorder_neqE_nat)
qed

lemma accepted_candles_ok:
  assumes "validate_raws f drift now records = Inr (accepted, events)"
  shows "\<forall>c \<in> set accepted. candle_ok c"
proof -
  define s0 where "s0 = \<lparr>vs_accepted = [], vs_events = [], vs_seen = [], vs_previous = []\<rparr>"
  obtain s where run: "rfold (validate_raw f drift now) s0 records = Inr s" and out: "accepted = vs_accepted s"
    using assms by (auto simp: validate_raws_def rbind_eq_Inr s0_def)
  have "validation_ok drift now 0 s0" by (simp add: validation_ok_def s0_def errors_of_def)
  from validate_raws_ok [OF run this] show ?thesis by (simp add: validation_ok_def out)
qed

text \<open>A batch whose numbers the columns keep is accepted as candles the columns keep.\<close>

definition raw_fits :: "(decimal \<Rightarrow> decimal) \<Rightarrow> raw_candle \<Rightarrow> bool" where
  "raw_fits col raw \<longleftrightarrow> (\<forall>v \<in> {raw_open raw, raw_high raw, raw_low raw, raw_close raw, raw_volume raw} \<union> set_option (raw_open_interest raw).
     col v = v)"

lemma validate_raw_accepted:
  assumes "validate_raw f drift now s raw = Inr s'" "c \<in> set (vs_accepted s')"
  shows "c \<in> set (vs_accepted s) \<or> (\<exists>t. candle_of_raw now raw t = Inr c)"
proof -
  have gap: "c \<in> set (vs_accepted s1)" if "gap_check f now raw t s1 = Inr (b, s2)" "c \<in> set (vs_accepted s2)" for t s1 b s2
    using that by (auto elim: gap_check_cases)
  show ?thesis
    using assms by (auto simp: validate_raw_def accept_raw_def Let_def rbind_eq_Inr dest!: gap split: datetime.splits if_splits sum.splits)
qed

lemma validated_accepted:
  assumes "rfold (validate_raw f drift now) s records = Inr s'" "c \<in> set (vs_accepted s')"
  shows "c \<in> set (vs_accepted s) \<or> (\<exists>raw \<in> set records. \<exists>t. candle_of_raw now raw t = Inr c)"
  using assms
proof (induction records arbitrary: s)
  case (Cons r records)
  then show ?case using validate_raw_accepted by (fastforce simp: rbind_eq_Inr)
qed simp

lemma candle_of_raw_fits: "candle_of_raw now raw t = Inr c \<Longrightarrow> raw_fits col raw \<Longrightarrow> candle_columns col c = c"
  by (cases "raw_open_interest raw") (auto simp: candle_of_raw_def make_candle_iff candle_columns_def raw_fits_def)

lemma accepted_kept:
  assumes "validate_raws f drift now records = Inr (accepted, events)" "\<forall>raw \<in> set records. raw_fits col raw"
  shows "\<forall>c \<in> set accepted. candle_columns col c = c"
proof -
  obtain s where "rfold (validate_raw f drift now) \<lparr>vs_accepted = [], vs_events = [], vs_seen = [], vs_previous = []\<rparr> records = Inr s"
    "accepted = vs_accepted s"
    using assms(1) by (auto simp: validate_raws_def rbind_eq_Inr)
  with assms(2) show ?thesis by (auto dest!: validated_accepted intro: candle_of_raw_fits)
qed

lemma kept_map: "\<forall>c \<in> set cs. candle_columns col c = c \<Longrightarrow> map (candle_columns col) (new_candles existing cs) = new_candles existing cs"
  by (auto simp: new_candles_def intro: map_idI)

text \<open>What an ingestion does to the tables.\<close>

lemma ingest_Inr:
  assumes "ingest col f drift db source records t = Inr (r, db')"
  obtains accepted events existing conflicts where
    "validate_raws f drift t records = Inr (accepted, events)" "existing_candles db accepted = Inr existing"
    "conflict_events f t (source_ids records) (length events) (conflicting_candles existing accepted) = Inr conflicts"
    "insert_ignore (md_dialect db) raw_key (md_raw db) (map (raw_row source) records) = Inr (ig_raw_inserted r, md_raw db')"
    "insert_ignore (md_dialect db) identity_of (md_candles db) (map (candle_columns col) (new_candles existing accepted)) = Inr (ig_normalized_inserted r, md_candles db')"
    "insert_ignore (md_dialect db) event_key (md_events db) (events @ conflicts) = Inr (ig_quality_events_recorded r, md_events db')"
    "md_dialect db' = md_dialect db"
  using assms
  by (auto simp: ingest_def rbind_eq_Inr store_raw_def store_candles_def store_quality_events_def)

lemma ingest_market_ok [inv_rules]:
  assumes "market_ok db" "ingest col f drift db source records t = Inr (r, db')" "\<forall>raw \<in> set records. raw_fits col raw"
  shows "market_ok db'"
  using assms(2)
proof (rule ingest_Inr)
  fix accepted events existing conflicts
  assume v: "validate_raws f drift t records = Inr (accepted, events)"
    and raws: "insert_ignore (md_dialect db) raw_key (md_raw db) (map (raw_row source) records) = Inr (ig_raw_inserted r, md_raw db')"
    and cs: "insert_ignore (md_dialect db) identity_of (md_candles db) (map (candle_columns col) (new_candles existing accepted)) = Inr (ig_normalized_inserted r, md_candles db')"
    and es: "insert_ignore (md_dialect db) event_key (md_events db) (events @ conflicts) = Inr (ig_quality_events_recorded r, md_events db')"
  have dist: "distinct (map raw_key (md_raw db))" "distinct (map event_key (md_events db))"
    "distinct (map identity_of (md_candles db))"
    using assms(1) by (simp_all add: market_ok_def)
  obtain "distinct (map raw_key (md_raw db'))" using raws by (rule insert_ignore_Inr) (use dist in blast)
  moreover obtain "distinct (map event_key (md_events db'))" using es by (rule insert_ignore_Inr) (use dist in blast)
  moreover obtain new where "md_candles db' = md_candles db @ new" "set new \<subseteq> set (map (candle_columns col) (new_candles existing accepted))"
    "distinct (map identity_of (md_candles db'))"
    using cs by (rule insert_ignore_Inr) (use dist in blast)
  moreover have "\<forall>c \<in> set (map (candle_columns col) (new_candles existing accepted)). candle_ok c"
    unfolding kept_map [OF accepted_kept [OF v assms(3)]] using accepted_candles_ok [OF v] by (auto simp: new_candles_def)
  ultimately show "market_ok db'"
    using assms(1) unfolding market_ok_def by (metis Un_iff set_append subsetD)
qed

lemma ingest_keeps_raw_distinct:
  assumes "distinct (map raw_key (md_raw db))" "ingest col f drift db source records t = Inr (r, db')"
  shows "distinct (map raw_key (md_raw db'))"
  using assms(2)
proof (rule ingest_Inr)
  assume raws: "insert_ignore (md_dialect db) raw_key (md_raw db) (map (raw_row source) records) = Inr (ig_raw_inserted r, md_raw db')"
  obtain "distinct (map raw_key (md_raw db'))" using raws by (rule insert_ignore_Inr) (use assms(1) in blast)
  then show ?thesis .
qed

lemma ingest_keeps_candles:
  assumes "ingest col f drift db source records t = Inr (r, db')" "stored_candle db k = Some c"
  shows "stored_candle db' k = Some c"
  using assms(1)
proof (rule ingest_Inr)
  fix accepted existing
  assume "insert_ignore (md_dialect db) identity_of (md_candles db) (map (candle_columns col) (new_candles existing accepted)) = Inr (ig_normalized_inserted r, md_candles db')"
  then obtain new where "md_candles db' = md_candles db @ new" by (rule insert_ignore_Inr)
  with assms(2) show ?thesis by (simp add: stored_candle_def find_append)
qed

lemma ingested_lookup:
  assumes ok: "market_ok db" and first: "ingest col f drift db source records t = Inr (r, db')"
    and fit: "\<forall>raw \<in> set records. raw_fits col raw"
    and v: "validate_raws f drift t records = Inr (accepted, events)" and ex: "existing_candles db accepted = Inr existing"
    and cs: "insert_ignore (md_dialect db) identity_of (md_candles db) (new_candles existing accepted) = Inr (n, md_candles db')"
    and ex': "existing_candles db' accepted = Inr existing'" and c: "c \<in> set accepted"
  shows "map_of existing' (identity_of c) = (case map_of existing (identity_of c) of None \<Rightarrow> Some c | Some p \<Rightarrow> Some p)"
proof -
  have ok': "market_ok db'" using ingest_market_ok [OF ok first fit] .
  have dist': "distinct (map identity_of (md_candles db'))" using ok' by (simp add: market_ok_def)
  have look: "map_of existing (identity_of c) = stored_candle db (identity_of c)"
    using existing_candles_lookup [OF ok, of accepted] ex c by (metis sum.inject(2))
  have look': "map_of existing' (identity_of c) = stored_candle db' (identity_of c)"
    using existing_candles_lookup [OF ok', of accepted] ex' c by (metis sum.inject(2))
  show ?thesis
  proof (cases "stored_candle db (identity_of c)")
    case (Some p)
    then show ?thesis using look look' ingest_keeps_candles [OF first Some] by simp
  next
    case None
    obtain new where new: "md_candles db' = md_candles db @ new" "set new \<subseteq> set (new_candles existing accepted)"
      "identity_of ` set (new_candles existing accepted) \<subseteq> identity_of ` set (md_candles db')"
      using cs by (rule insert_ignore_Inr)
    have "c \<in> set (new_candles existing accepted)" using None look c by (simp add: new_candles_def)
    then obtain x where x: "x \<in> set (md_candles db')" "identity_of x = identity_of c"
      using new(3) by (metis imageE image_eqI subsetD)
    have "x \<notin> set (md_candles db)"
      using None x(2) by (auto simp: stored_candle_def find_None_iff)
    then have "x \<in> set accepted" using x(1) new(1,2) by (auto simp: new_candles_def)
    then have "x = c"
      using accepted_identities_distinct [OF v] c x(2) by (auto intro: distinct_map_filter_unique)
    then have "stored_candle db' (identity_of c) = Some c"
      using x find_key_iff [OF dist'] by (simp add: stored_candle_def)
    then show ?thesis using look look' c None by simp
  qed
qed

text \<open>Whether a record is settled at a time: it is closed and not too far in the future.\<close>

definition settled :: "instant \<Rightarrow> instant \<Rightarrow> raw_candle \<Rightarrow> bool" where
  "settled drift now raw \<longleftrightarrow> (case raw_timestamp raw of Naive _ \<Rightarrow> True
     | Aware t \<Rightarrow> t \<le> now + drift \<and> t + seconds (raw_timeframe_seconds raw) \<le> now)"

lemma settled_agree: "settled drift now raw \<Longrightarrow> now \<le> now' \<Longrightarrow> times_agree drift now now' raw"
  by (auto simp: settled_def times_agree_def)

lemma ingest_again:
  assumes ok: "market_ok db" and first: "ingest col f drift db source records t = Inr (r, db')"
    and fit: "\<forall>raw \<in> set records. raw_fits col raw"
    and later: "t' = t \<or> t \<le> t' \<and> (\<forall>raw \<in> set records. settled drift t raw)"
  shows "ingest col f' drift db' source records t'
    = Inr (\<lparr>ig_raw_inserted = 0, ig_normalized_inserted = 0, ig_quality_events_recorded = 0\<rparr>, db')"
proof -
  have ok': "market_ok db'" using ingest_market_ok [OF ok first fit] .
  obtain accepted events existing conflicts where v: "validate_raws f drift t records = Inr (accepted, events)"
    and ex: "existing_candles db accepted = Inr existing"
    and cf: "conflict_events f t (source_ids records) (length events) (conflicting_candles existing accepted) = Inr conflicts"
    and raws: "insert_ignore (md_dialect db) raw_key (md_raw db) (map (raw_row source) records) = Inr (ig_raw_inserted r, md_raw db')"
    and cs: "insert_ignore (md_dialect db) identity_of (md_candles db) (map (candle_columns col) (new_candles existing accepted)) = Inr (ig_normalized_inserted r, md_candles db')"
    and es: "insert_ignore (md_dialect db) event_key (md_events db) (events @ conflicts) = Inr (ig_quality_events_recorded r, md_events db')"
    and dl: "md_dialect db' = md_dialect db"
    using first by (rule ingest_Inr)
  have "\<forall>raw \<in> set records. times_agree drift t t' raw"
    using later by (auto simp: settled_agree) (simp add: times_agree_def)
  with v obtain events' where v': "validate_raws f' drift t' records = Inr (accepted, events')"
    and ev': "map event_key events' = map event_key events"
    by (rule same_validate_raws)
  note cs' = cs [unfolded kept_map [OF accepted_kept [OF v fit]]]
  obtain existing' where ex': "existing_candles db' accepted = Inr existing'"
    using existing_candles_lookup [OF ok', of accepted] by blast
  have now: "map_of existing' (identity_of c) = (case map_of existing (identity_of c) of None \<Rightarrow> Some c | Some p \<Rightarrow> Some p)"
    if "c \<in> set accepted" for c
    by (rule ingested_lookup [OF ok first fit v ex cs' ex' that])
  have none: "new_candles existing' accepted = []"
    using now by (auto simp: new_candles_def filter_empty_conv split: option.splits)
  have same: "conflicting_candles existing' accepted = conflicting_candles existing accepted"
    unfolding conflicting_candles_def using now by (intro filter_cong) (auto split: option.splits)
  obtain conflicts' where cf': "conflict_events f' t' (source_ids records) (length events') (conflicting_candles existing' accepted) = Inr conflicts'"
    unfolding same by (rule exE [OF conflict_events_total [OF conjunct2 [OF conflict_events_keys [OF cf]]]])
  have "event_key ` set conflicts' = event_key ` set conflicts"
    using conflict_events_keys [OF cf] conflict_events_keys [OF cf'] by (simp add: same)
  moreover have "event_key ` set events' = event_key ` set events"
    using ev' by (metis list.set_map)
  ultimately have keys: "event_key ` set (events' @ conflicts') = event_key ` set (events @ conflicts)"
    by (simp add: image_Un)
  show "ingest col f' drift db' source records t'
      = Inr (\<lparr>ig_raw_inserted = 0, ig_normalized_inserted = 0, ig_quality_events_recorded = 0\<rparr>, db')"
    using insert_ignore_again [OF raws refl] insert_ignore_again [OF es keys]
    by (simp add: ingest_def v' ex' cf' none store_raw_def store_candles_def store_quality_events_def dl insert_ignore_def [of _ identity_of])
qed

text \<open>C29: Ingestion never overwrites and is idempotent.  After a batch has been ingested, every candle stored before keeps its values.
  When the tables were consistent and the columns keep the numbers of the batch, the tables are consistent again, and ingesting the batch
  once more at the same time (with whatever fresh event identifiers) inserts no raw record, no candle and no quality event and leaves
  every table as it is; and so does ingesting it at any later time, when every record of the batch was settled at the first: its candle
  closed and not ahead of the clock.  Nothing is claimed for a batch delivered again whose candles were still forming or whose numbers have more
  places than the columns keep: such a record may be found in conflict with the row it left.\<close>

theorem ingest_is_idempotent:
  assumes "ingest col f drift db source records t = Inr (r, db')"
  shows "(\<forall>k c. stored_candle db k = Some c \<longrightarrow> stored_candle db' k = Some c)
    \<and> (market_ok db \<and> (\<forall>raw \<in> set records. raw_fits col raw) \<longrightarrow> market_ok db'
        \<and> (t' = t \<or> t \<le> t' \<and> (\<forall>raw \<in> set records. settled drift t raw)
           \<longrightarrow> ingest col f' drift db' source records t'
               = Inr (\<lparr>ig_raw_inserted = 0, ig_normalized_inserted = 0, ig_quality_events_recorded = 0\<rparr>, db')))"
  using ingest_keeps_candles [OF assms] ingest_market_ok [OF _ assms] ingest_again [OF _ assms] by blast

text \<open>The candle table is written once, whatever batches are ingested.\<close>

record ingest_call =
  ic_fresh :: "nat \<Rightarrow> uuid"
  ic_drift :: instant
  ic_source :: string
  ic_records :: "raw_candle list"
  ic_observed_at :: instant

definition ingest_exec :: "(decimal \<Rightarrow> decimal) \<Rightarrow> market_db \<Rightarrow> ingest_call \<Rightarrow> market_db" where
  "ingest_exec col db c =
     keep_on_raise (\<lambda>db. rbind (ingest col (ic_fresh c) (ic_drift c) db (ic_source c) (ic_records c) (ic_observed_at c))
       (\<lambda>(_, db'). Inr db')) db"

interpretation candle_store: write_once stored_candle "ingest_exec col" for col
proof
  fix db k r c
  assume found: "stored_candle db k = Some r"
  show "stored_candle (ingest_exec col db c) k = Some r"
    unfolding ingest_exec_def
    by (rule keep_on_raise_cases [of "\<lambda>db. rbind (ingest col (ic_fresh c) (ic_drift c) db (ic_source c) (ic_records c) (ic_observed_at c))
          (\<lambda>(_, db'). Inr db')" db])
      (use found in \<open>auto simp: rbind_eq_Inr intro: ingest_keeps_candles\<close>)
qed

lemma candles_survive_batches: "stored_candle db k = Some c \<Longrightarrow> stored_candle (foldl (ingest_exec col) db calls) k = Some c"
  by (rule candle_store.run_keeps)

definition empty_market :: market_db where
  "empty_market = \<lparr>md_dialect = ''sqlite'', md_raw = [], md_candles = [], md_events = []\<rparr>"

lemma demo_ingest:
  "\<exists>r db. ingest col id maximum_timestamp_drift empty_market ''vendor'' [demo_raw 1 11 ''a'', demo_raw 1 11 ''b''] (seconds 600) = Inr (r, db)
     \<and> length (md_candles db) = 1"
  by (simp add: ingest_def validate_raws_def validate_raw_def gap_check_def report_def demo_raw_def accept_raw_def
      candle_of_raw_def make_candle_def normalize_datetime_def candle_fields_ok_def validate_ohlc_def seconds_def
      maximum_timestamp_drift_def Let_def existing_candles_def empty_market_def conflicting_candles_def new_candles_def
      conflict_events_def store_raw_def store_candles_def store_quality_events_def insert_ignore_def insert_new_def)

text \<open>Whole prices, with columns that keep eight places, redelivered five minutes later.\<close>

definition eight_places :: "decimal \<Rightarrow> decimal" where
  "eight_places v = of_int (round (v * 100000000)) / 100000000"

theorem ingest_is_idempotent_witness:
  "\<exists>r db. ingest eight_places id maximum_timestamp_drift empty_market ''vendor'' [demo_raw 1 11 ''a'', demo_raw 1 11 ''b''] (seconds 600) = Inr (r, db)
     \<and> ingest eight_places Suc maximum_timestamp_drift db ''vendor'' [demo_raw 1 11 ''a'', demo_raw 1 11 ''b''] (seconds 900)
         = Inr (\<lparr>ig_raw_inserted = 0, ig_normalized_inserted = 0, ig_quality_events_recorded = 0\<rparr>, db)"
proof -
  obtain r db where i: "ingest eight_places id maximum_timestamp_drift empty_market ''vendor'' [demo_raw 1 11 ''a'', demo_raw 1 11 ''b''] (seconds 600)
      = Inr (r, db)"
    using demo_ingest by blast
  have "market_ok empty_market" by (simp add: market_ok_def empty_market_def)
  moreover have "\<forall>raw \<in> set [demo_raw 1 11 ''a'', demo_raw 1 11 ''b'']. raw_fits eight_places raw"
    by (simp add: raw_fits_def demo_raw_def eight_places_def)
  moreover have "\<forall>raw \<in> set [demo_raw 1 11 ''a'', demo_raw 1 11 ''b'']. settled maximum_timestamp_drift (seconds 600) raw"
    by (simp add: settled_def demo_raw_def maximum_timestamp_drift_def seconds_def)
  moreover have "seconds 600 \<le> seconds 900" by (simp add: seconds_def)
  ultimately show ?thesis
    using ingest_is_idempotent [OF i, of "seconds 900" Suc] i by blast
qed

end
