(* ===== verification/Market_Clock.thy ===== *)
theory Market_Clock
  imports Prelude
begin

text \<open>
  Indian market time, shared by candle aggregation and the market-structure analysis.  Indian
  Standard Time is UTC+05:30 throughout (the zone has had no other offset since 1945); a date is
  a number of days since 1970-01-01, a Thursday.
\<close>

definition day_length :: instant where
  "day_length = seconds 86400"

definition ist_offset :: instant where
  "ist_offset = seconds 19800"

definition local_date :: "instant \<Rightarrow> int" where
  "local_date t = (t + ist_offset) div day_length"

text \<open>\<open>datetime.combine(day, time, INDIA)\<close> as an instant.\<close>

definition local_instant :: "int \<Rightarrow> int \<Rightarrow> instant" where
  "local_instant day second_of_day = day * day_length + seconds second_of_day - ist_offset"

text \<open>\<open>date.weekday()\<close>: Monday is 0.\<close>

definition weekday :: "int \<Rightarrow> int" where
  "weekday day = (day + 3) mod 7"

lemma local_date_of_instant: "0 \<le> s \<Longrightarrow> s < 86400 \<Longrightarrow> local_date (local_instant d s) = d"
  by (simp add: local_date_def local_instant_def day_length_def seconds_def)

end
