(* ===== verification/Market_Aggregation.thy ===== *)
theory Market_Aggregation
  imports Domain Market_Clock
begin

text \<open>
  Point-in-time candle aggregation, \<open>packages/market_data/aggregation.py\<close>.  A dict of candle lists is an association list in insertion order,
  and \<open>sorted(d.items())\<close> sorts it by its distinct keys.
\<close>

section \<open>Sessions and timeframes\<close>

definition nse_open :: int where
  "nse_open = 9 * 3600 + 15 * 60"

definition nse_close :: int where
  "nse_close = 15 * 3600 + 30 * 60"

datatype timeframe = MINUTE_1 | MINUTE_3 | MINUTE_5 | MINUTE_15 | MINUTE_30 | HOUR_1 | HOUR_4 | DAY_1 | WEEK_1

definition timeframe_value :: "timeframe \<Rightarrow> int" where
  "timeframe_value t = (case t of MINUTE_1 \<Rightarrow> 60 | MINUTE_3 \<Rightarrow> 180 | MINUTE_5 \<Rightarrow> 300 | MINUTE_15 \<Rightarrow> 900
     | MINUTE_30 \<Rightarrow> 1800 | HOUR_1 \<Rightarrow> 3600 | HOUR_4 \<Rightarrow> 14400 | DAY_1 \<Rightarrow> 86400 | WEEK_1 \<Rightarrow> 604800)"

lemma timeframe_value_pos: "0 < timeframe_value t"
  by (cases t) (simp_all add: timeframe_value_def)

section \<open>Calendars\<close>

type_synonym calendar = "(int \<times> market_session) list"

text \<open>\<open>_session_lookup\<close> and the calendar of the weekly bars differ in one message.\<close>

definition calendar_entry :: "string \<Rightarrow> calendar \<Rightarrow> market_session \<Rightarrow> calendar result" where
  "calendar_entry wrong_exchange cal s =
     (if ms_exchange s \<noteq> NSE then Inl (ValueError wrong_exchange)
      else if map_of cal (ms_session_date s) \<noteq> None then Inl (ValueError ''duplicate calendar session date'')
      else if local_date (ms_opens_at s) \<noteq> ms_session_date s
      then Inl (ValueError ''calendar session open date does not match session date'')
      else Inr (cal @ [(ms_session_date s, s)]))"

definition session_lookup :: "market_session list \<Rightarrow> calendar result" where
  "session_lookup sessions = rfold (calendar_entry ''NSE candles require NSE calendar sessions'') [] sessions"

definition weekly_calendar :: "market_session list \<Rightarrow> calendar result" where
  "weekly_calendar sessions = rfold (calendar_entry ''weekly NSE candles require NSE calendar sessions'') [] sessions"

definition calendar_at :: "calendar option \<Rightarrow> int \<Rightarrow> market_session option" where
  "calendar_at cal day = (case cal of None \<Rightarrow> None | Some c \<Rightarrow> map_of c day)"

definition source_available_at :: "candle \<Rightarrow> int \<Rightarrow> calendar option \<Rightarrow> instant" where
  "source_available_at c tf cal =
     (if tf = timeframe_value DAY_1
      then (case calendar_at cal (local_date (candle_timestamp c)) of
              Some s \<Rightarrow> ms_closes_at s
            | None \<Rightarrow> local_instant (local_date (candle_timestamp c)) nse_close)
      else candle_timestamp c + seconds tf)"

definition candle_available_at :: "candle \<Rightarrow> instant" where
  "candle_available_at c = source_available_at c (candle_timeframe_seconds c) None"

section \<open>Combining candles\<close>

definition by_time :: "candle list \<Rightarrow> candle list" where
  "by_time cs = sort_key candle_timestamp cs"

definition contiguous :: "candle list \<Rightarrow> int \<Rightarrow> bool" where
  "contiguous cs secs =
     list_all (\<lambda>(l, r). candle_timestamp r - candle_timestamp l = seconds secs) (zip (by_time cs) (tl (by_time cs)))"

text \<open>The first of an empty list raises; \<open>max\<close> and \<open>min\<close> range over the members.\<close>

definition combine :: "candle list \<Rightarrow> instant \<Rightarrow> int \<Rightarrow> candle result" where
  "combine candles timestamp tf =
     (let ordered = by_time candles in
      if ordered = [] then Inl IndexError
      else make_candle (candle_instrument_id (hd ordered)) (Aware timestamp) tf (candle_open (hd ordered))
             (Max (set (map candle_high ordered))) (Min (set (map candle_low ordered))) (candle_close (last ordered))
             (dsum (map candle_volume ordered)) (candle_open_interest (last ordered)) True)"

section \<open>Grouping into buckets\<close>

definition bucket_of :: "calendar option \<Rightarrow> timeframe \<Rightarrow> candle \<Rightarrow> instant option" where
  "bucket_of cal target c =
     (let t = candle_timestamp c; day = local_date t;
          bounds = (case calendar_at cal day of
                      Some s \<Rightarrow> if ms_is_trading_day s then Some (ms_opens_at s, ms_closes_at s) else None
                    | None \<Rightarrow> Some (local_instant day nse_open, local_instant day nse_close))
      in case bounds of
           None \<Rightarrow> None
         | Some (session_open, session_close) \<Rightarrow>
             if \<not> (session_open \<le> t \<and> t < session_close) then None
             else if target = DAY_1 then Some session_open
             else let elapsed = (t - session_open) div seconds 1
                  in Some (session_open + seconds (elapsed div timeframe_value target * timeframe_value target)))"

definition group_candles :: "calendar option \<Rightarrow> timeframe \<Rightarrow> candle list \<Rightarrow> (instant \<times> candle list) list" where
  "group_candles cal target cs =
     foldl (\<lambda>d c. case bucket_of cal target c of None \<Rightarrow> d | Some b \<Rightarrow> append_to b c d) [] cs"

definition bucket_end :: "calendar option \<Rightarrow> timeframe \<Rightarrow> instant \<Rightarrow> instant" where
  "bucket_end cal target bucket =
     (let day = local_date bucket;
          session_close = (case calendar_at cal day of Some s \<Rightarrow> ms_closes_at s | None \<Rightarrow> local_instant day nse_close)
      in if target = DAY_1 then session_close else min (bucket + seconds (timeframe_value target)) session_close)"

text \<open>\<open>int(delta.total_seconds())\<close> truncates towards zero.\<close>

definition whole_seconds :: "instant \<Rightarrow> int" where
  "whole_seconds d = (if 0 \<le> d then d div seconds 1 else - ((- d) div seconds 1))"

definition bucket_complete :: "calendar option \<Rightarrow> timeframe \<Rightarrow> int \<Rightarrow> instant \<Rightarrow> instant \<times> candle list \<Rightarrow> bool" where
  "bucket_complete cal target base cutoff bm =
     (bucket_end cal target (fst bm) \<le> cutoff
      \<and> int (length (snd bm)) = whole_seconds (bucket_end cal target (fst bm) - fst bm) div base
      \<and> contiguous (snd bm) base)"

text \<open>The calendar argument: \<open>None\<close> when no sessions are given.\<close>

definition calendar_for :: "(market_session list \<Rightarrow> calendar result) \<Rightarrow> market_session list option \<Rightarrow> calendar option result" where
  "calendar_for lookup sessions =
     (case sessions of None \<Rightarrow> Inr None | Some ss \<Rightarrow> rbind (lookup ss) (\<lambda>c. Inr (Some c)))"

section \<open>Weekly bars\<close>

definition monday_of :: "candle \<Rightarrow> int" where
  "monday_of c = (let d = local_date (candle_timestamp c) in d - weekday d)"

definition group_weeks :: "candle list \<Rightarrow> (int \<times> candle list) list" where
  "group_weeks cs = foldl (\<lambda>d c. append_to (monday_of c) c d) [] cs"

text \<open>The completeness of a week and the instant it is available, by the calendar when there is one.\<close>

definition week_status :: "calendar option \<Rightarrow> instant \<Rightarrow> int \<Rightarrow> candle list \<Rightarrow> (bool \<times> instant) result" where
  "week_status cal cutoff monday members =
     (case cal of
        None \<Rightarrow> Inr (length members = 5, local_instant (monday + 4) nse_close)
      | Some c \<Rightarrow>
          if \<not> (\<forall>k \<in> {0, 1, 2, 3, 4}. map_of c (monday + k) \<noteq> None)
          then Inl (ValueError ''weekly calendar does not cover all five weekdays'')
          else
            let trading = filter (\<lambda>(day, s). monday \<le> day \<and> day < monday + 7 \<and> ms_is_trading_day s) c;
                dates = map (\<lambda>m. local_date (candle_timestamp m)) members;
                complete = length members = length (remdups dates) \<and> set dates = fst ` set trading
                  \<and> list_all (\<lambda>m. case map_of trading (local_date (candle_timestamp m)) of
                                None \<Rightarrow> True | Some s \<Rightarrow> candle_timestamp m = ms_opens_at s) members;
                closes_at = (case map (\<lambda>p. ms_closes_at (snd p)) trading of [] \<Rightarrow> cutoff | t # ts \<Rightarrow> foldl max t ts)
            in Inr (complete, closes_at))"

definition emit_week :: "calendar option \<Rightarrow> instant \<Rightarrow> candle list \<Rightarrow> int \<times> candle list \<Rightarrow> candle list result" where
  "emit_week cal cutoff out mm =
     rbind (week_status cal cutoff (fst mm) (snd mm)) (\<lambda>(complete, closes_at).
       if complete \<and> snd mm \<noteq> [] \<and> closes_at \<le> cutoff
       then rbind (combine (snd mm) (candle_timestamp (hd (snd mm))) (timeframe_value WEEK_1)) (\<lambda>c. Inr (out @ [c]))
       else Inr out)"

definition aggregate_weekly :: "candle list \<Rightarrow> instant \<Rightarrow> market_session list option \<Rightarrow> candle list result" where
  "aggregate_weekly candles cutoff sessions =
     (if candles = [] \<or> candle_timeframe_seconds (hd candles) \<noteq> timeframe_value DAY_1
      then Inl (ValueError ''weekly aggregation requires daily source candles'')
      else
        rbind (calendar_for weekly_calendar sessions) (\<lambda>cal.
        rfold (emit_week cal cutoff) [] (sort_key fst (group_weeks candles))))"

section \<open>Aggregation\<close>

definition emit_bucket ::
  "calendar option \<Rightarrow> timeframe \<Rightarrow> int \<Rightarrow> instant \<Rightarrow> candle list \<Rightarrow> instant \<times> candle list \<Rightarrow> candle list result" where
  "emit_bucket cal target base cutoff out bm =
     (if bucket_complete cal target base cutoff bm
      then rbind (combine (snd bm) (fst bm) (timeframe_value target)) (\<lambda>c. Inr (out @ [c]))
      else Inr out)"

definition known_by :: "calendar option \<Rightarrow> int \<Rightarrow> instant \<Rightarrow> candle \<Rightarrow> bool" where
  "known_by cal base cutoff c \<longleftrightarrow> candle_is_closed c \<and> source_available_at c base cal \<le> cutoff"

definition aggregate_closed_candles ::
  "candle list \<Rightarrow> timeframe \<Rightarrow> datetime \<Rightarrow> market_session list option \<Rightarrow> candle list result" where
  "aggregate_closed_candles candles target as_of sessions =
     (case as_of of
        Naive _ \<Rightarrow> Inl (ValueError ''as_of must be timezone-aware'')
      | Aware cutoff \<Rightarrow>
          let source = by_time candles in
          if source = [] then Inr []
          else
            let base = candle_timeframe_seconds (hd source) in
            if list_ex (\<lambda>c. candle_instrument_id c \<noteq> candle_instrument_id (hd source)) source
            then Inl (ValueError ''source candles must belong to one instrument'')
            else if list_ex (\<lambda>c. candle_timeframe_seconds c \<noteq> base) source
            then Inl (ValueError ''source candles must use one timeframe'')
            else if timeframe_value target \<le> base \<or> timeframe_value target mod base \<noteq> 0
            then Inl (ValueError ''target must be a larger whole multiple of the source timeframe'')
            else
              rbind (calendar_for session_lookup sessions) (\<lambda>cal.
              let available = filter (known_by cal base cutoff) source in
              if target = WEEK_1 then aggregate_weekly available cutoff sessions
              else rfold (emit_bucket cal target base cutoff) [] (sort_key fst (group_candles cal target available))))"

section \<open>Nothing from after the cutoff\<close>

definition uniform :: "uuid \<Rightarrow> int \<Rightarrow> candle list \<Rightarrow> bool" where
  "uniform i base cs \<longleftrightarrow> list_all (\<lambda>c. candle_instrument_id c = i \<and> candle_timeframe_seconds c = base) cs"

lemma uniform_by_time: "uniform i base (by_time cs) \<longleftrightarrow> uniform i base cs"
  by (simp add: uniform_def list_all_iff by_time_def)

lemma aggregate_uniform:
  assumes "uniform i base candles" "candles \<noteq> []"
  shows "aggregate_closed_candles candles target (Aware cutoff) sessions =
    (if timeframe_value target \<le> base \<or> timeframe_value target mod base \<noteq> 0
     then Inl (ValueError ''target must be a larger whole multiple of the source timeframe'')
     else rbind (calendar_for session_lookup sessions) (\<lambda>cal.
       let available = by_time (filter (known_by cal base cutoff) candles) in
       if target = WEEK_1 then aggregate_weekly available cutoff sessions
       else rfold (emit_bucket cal target base cutoff) [] (sort_key fst (group_candles cal target available))))"
proof -
  have ne: "by_time candles \<noteq> []"
    using assms(2) by (simp add: by_time_def) (metis length_0_conv length_sort)
  then have hd: "hd (by_time candles) \<in> set (by_time candles)" by simp
  have u: "\<forall>c \<in> set (by_time candles). candle_instrument_id c = i \<and> candle_timeframe_seconds c = base"
    using assms(1) uniform_by_time by (simp add: uniform_def list_all_iff)
  with hd have h: "candle_instrument_id (hd (by_time candles)) = i" "candle_timeframe_seconds (hd (by_time candles)) = base"
    by simp_all
  have ex: "\<not> list_ex (\<lambda>c. candle_instrument_id c \<noteq> i) (by_time candles)"
    "\<not> list_ex (\<lambda>c. candle_timeframe_seconds c \<noteq> base) (by_time candles)"
    using u by (auto simp: list_ex_iff)
  have fs: "filter P (by_time candles) = by_time (filter P candles)" for P
    by (simp add: by_time_def filter_sort)
  show ?thesis
    unfolding aggregate_closed_candles_def
    using ne by (simp add: Let_def h ex fs)
qed

text \<open>Aggregation is point-in-time: the bars computed as of an instant are the same whether or not
  the input also holds candles that were not closed and known by that instant (by the session
  calendar in force), so no later candle can change an earlier answer.\<close>

theorem aggregation_ignores_the_future:
  assumes "uniform i base (past @ future)" and "past \<noteq> []"
    and "calendar_for session_lookup sessions = Inr cal"
    and "list_all (\<lambda>c. \<not> known_by cal base cutoff c) future"
  shows "aggregate_closed_candles (past @ future) target (Aware cutoff) sessions
    = aggregate_closed_candles past target (Aware cutoff) sessions"
proof -
  have u: "uniform i base past" using assms(1) by (simp add: uniform_def)
  have "filter (known_by cal base cutoff) (past @ future) = filter (known_by cal base cutoff) past"
    using assms(4) by (simp add: list_all_iff filter_empty_conv)
  then show ?thesis
    using aggregate_uniform [OF assms(1)] aggregate_uniform [OF u assms(2)] assms(2,3) by simp
qed

definition ist_bar :: "int \<Rightarrow> bool \<Rightarrow> candle" where
  "ist_bar k shut = \<lparr>candle_instrument_id = 1, candle_timestamp = local_instant 4 (nse_open + 60 * k),
     candle_timeframe_seconds = 60, candle_open = 10, candle_high = of_int (11 + k), candle_low = 9, candle_close = 10,
     candle_volume = 1, candle_open_interest = None, candle_is_closed = shut\<rparr>"

theorem aggregation_ignores_the_future_witness:
  "aggregate_closed_candles ([ist_bar 0 True, ist_bar 1 True, ist_bar 2 True] @ [ist_bar 3 True]) MINUTE_3
     (Aware (local_instant 4 (nse_open + 180))) None
   = aggregate_closed_candles [ist_bar 0 True, ist_bar 1 True, ist_bar 2 True] MINUTE_3
     (Aware (local_instant 4 (nse_open + 180))) None"
proof (rule aggregation_ignores_the_future)
  show "uniform 1 60 ([ist_bar 0 True, ist_bar 1 True, ist_bar 2 True] @ [ist_bar 3 True])"
    by (simp add: uniform_def ist_bar_def)
  show "calendar_for session_lookup None = Inr None" by (simp add: calendar_for_def)
  show "list_all (\<lambda>c. \<not> known_by None 60 (local_instant 4 (nse_open + 180)) c) [ist_bar 3 True]"
    by (simp add: known_by_def source_available_at_def ist_bar_def timeframe_value_def local_instant_def
        seconds_def day_length_def ist_offset_def nse_open_def)
qed simp

section \<open>What a bar is made of\<close>

lemma by_time_idem [simp]: "by_time (by_time cs) = by_time cs"
  by (simp add: by_time_def sort_key_id_if_sorted)

lemma group_candles_snoc:
  "group_candles cal target (cs @ [c]) =
     (case bucket_of cal target c of None \<Rightarrow> group_candles cal target cs | Some b \<Rightarrow> append_to b c (group_candles cal target cs))"
  by (simp add: group_candles_def split: option.split)

lemma group_candles_lookup:
  "map_of (group_candles cal target cs) b =
     (case filter (\<lambda>c. bucket_of cal target c = Some b) cs of [] \<Rightarrow> None | c # ms \<Rightarrow> Some (c # ms))"
proof (induction cs rule: rev_induct)
  case (snoc c cs)
  then show ?case
    by (auto simp: group_candles_snoc append_to_lookup split: option.splits list.splits)
qed (simp add: group_candles_def)

lemma group_candles_distinct: "distinct (map fst (group_candles cal target cs))"
proof (induction cs rule: rev_induct)
  case (snoc c cs)
  then show ?case by (auto simp: group_candles_snoc append_to_distinct split: option.split)
qed (simp add: group_candles_def)

lemma group_candles_members:
  assumes "(b, ms) \<in> set (group_candles cal target cs)"
  shows "ms \<noteq> [] \<and> ms = filter (\<lambda>c. bucket_of cal target c = Some b) cs"
proof -
  have "map_of (group_candles cal target cs) b = Some ms"
    using assms group_candles_distinct by (simp add: map_of_is_SomeI)
  then show ?thesis by (auto simp: group_candles_lookup split: list.splits)
qed

lemma combine_Inr:
  assumes "combine cs t tf = Inr b"
  shows "candle_ok b" "candle_timestamp b = t" "candle_timeframe_seconds b = tf" "candle_is_closed b"
    "candle_open b = candle_open (hd (by_time cs))" "candle_close b = candle_close (last (by_time cs))"
    "candle_high b = Max (candle_high ` set cs)" "candle_low b = Min (candle_low ` set cs)"
    "candle_volume b = dsum (map candle_volume (by_time cs))" "cs \<noteq> []"
  using assms by (auto simp: combine_def Let_def make_candle_iff by_time_def split: if_splits)

lemma emit_buckets:
  assumes "rfold (emit_bucket cal target base cutoff) out bms = Inr out'"
  shows "\<exists>new. out' = out @ new \<and> (\<forall>b \<in> set new. \<exists>bm \<in> set bms. bucket_complete cal target base cutoff bm
    \<and> combine (snd bm) (fst bm) (timeframe_value target) = Inr b)"
  using assms
proof (induction bms arbitrary: out)
  case (Cons bm bms)
  obtain mid where mid: "emit_bucket cal target base cutoff out bm = Inr mid"
    and r: "rfold (emit_bucket cal target base cutoff) mid bms = Inr out'"
    using Cons.prems by (auto simp: rbind_eq_Inr)
  obtain new where new: "out' = mid @ new" "\<forall>b \<in> set new. \<exists>bm \<in> set bms. bucket_complete cal target base cutoff bm
      \<and> combine (snd bm) (fst bm) (timeframe_value target) = Inr b"
    using Cons.IH [OF r] by blast
  from mid consider "mid = out"
    | c where "mid = out @ [c]" "bucket_complete cal target base cutoff bm" "combine (snd bm) (fst bm) (timeframe_value target) = Inr c"
    by (auto simp: emit_bucket_def rbind_eq_Inr split: if_splits)
  then show ?case
  proof cases
    case 1
    with new show ?thesis by auto
  next
    case (2 c)
    with new show ?thesis by (intro exI [of _ "c # new"]) auto
  qed
qed simp

text \<open>C30: Every intraday or daily bar the aggregation emits is complete and exact: its members are all the
  candles of its session bucket that were closed and known at the cutoff, they are as many as the
  bucket has room for, follow one another without a gap, and the bar (available by the cutoff)
  carries the first open, the last close, the extreme prices and the total volume of these members.\<close>

theorem aggregated_bars_are_complete:
  assumes "uniform i base candles" and "candles \<noteq> []" and "target \<noteq> WEEK_1"
    and "calendar_for session_lookup sessions = Inr cal"
    and "aggregate_closed_candles candles target (Aware cutoff) sessions = Inr out" and "b \<in> set out"
  shows "let ms = by_time (filter (\<lambda>c. known_by cal base cutoff c \<and> bucket_of cal target c = Some (candle_timestamp b)) candles);
             ends = bucket_end cal target (candle_timestamp b)
    in ms \<noteq> [] \<and> ends \<le> cutoff \<and> int (length ms) = whole_seconds (ends - candle_timestamp b) div base \<and> contiguous ms base
     \<and> candle_ok b \<and> candle_open b = candle_open (hd ms) \<and> candle_close b = candle_close (last ms)
     \<and> candle_high b = Max (candle_high ` set ms) \<and> candle_low b = Min (candle_low ` set ms)
     \<and> candle_volume b = dsum (map candle_volume ms)"
proof -
  define available where "available = by_time (filter (known_by cal base cutoff) candles)"
  have "rfold (emit_bucket cal target base cutoff) [] (sort_key fst (group_candles cal target available)) = Inr out"
    using assms(3-5) by (auto simp: aggregate_uniform [OF assms(1,2)] Let_def available_def split: if_splits)
  from emit_buckets [OF this] assms(6) obtain t ms where mem: "(t, ms) \<in> set (group_candles cal target available)"
    and comp: "bucket_complete cal target base cutoff (t, ms)" and c: "combine ms t (timeframe_value target) = Inr b"
    by auto
  note f = combine_Inr [OF c]
  have ms: "ms = filter (\<lambda>c. bucket_of cal target c = Some t) available"
    using group_candles_members [OF mem] by simp
  have "ms = by_time (filter (\<lambda>c. known_by cal base cutoff c \<and> bucket_of cal target c = Some t) candles)"
    unfolding ms available_def by_time_def filter_sort filter_filter
    by (rule arg_cong [where f = "sort_key candle_timestamp"], rule filter_cong) auto
  moreover from this have "by_time ms = ms" by simp
  ultimately show ?thesis
    using f comp by (simp add: Let_def bucket_complete_def)
qed

definition three_bars :: "candle list" where
  "three_bars = map (\<lambda>k. ist_bar k True) [0, 1, 2]"

lemma three_bars_uniform: "uniform 1 60 three_bars" "three_bars \<noteq> []"
  by (simp_all add: uniform_def three_bars_def ist_bar_def)

lemma ist_bar_known: "k \<le> 2 \<Longrightarrow> known_by None 60 (local_instant 4 (nse_open + 180)) (ist_bar k True)"
  by (simp add: known_by_def source_available_at_def ist_bar_def timeframe_value_def local_instant_def
      seconds_def day_length_def ist_offset_def nse_open_def)

lemma ist_bar_bucket: "0 \<le> k \<Longrightarrow> k \<le> 2 \<Longrightarrow> bucket_of None MINUTE_3 (ist_bar k True) = Some (local_instant 4 nse_open)"
  by (simp add: bucket_of_def calendar_at_def ist_bar_def local_date_of_instant nse_open_def Let_def)
    (simp add: timeframe_value_def local_instant_def seconds_def day_length_def ist_offset_def nse_close_def)

lemma three_bars_sorted: "by_time three_bars = three_bars"
  by (simp add: by_time_def three_bars_def ist_bar_def local_instant_def seconds_def)

lemma three_bars_grouped: "group_candles None MINUTE_3 three_bars = [(local_instant 4 nse_open, three_bars)]"
  by (simp add: group_candles_def three_bars_def ist_bar_bucket)

lemma three_bars_complete: "bucket_complete None MINUTE_3 60 (local_instant 4 (nse_open + 180)) (local_instant 4 nse_open, three_bars)"
  unfolding bucket_complete_def contiguous_def three_bars_sorted fst_conv snd_conv
  by (simp add: bucket_end_def calendar_at_def local_date_of_instant nse_open_def)
    (simp add: timeframe_value_def three_bars_def ist_bar_def local_instant_def seconds_def day_length_def ist_offset_def
      nse_open_def nse_close_def whole_seconds_def)

lemma three_bars_combined: "\<exists>b. combine three_bars (local_instant 4 nse_open) 180 = Inr b \<and> candle_high b = 13"
  by (simp add: combine_def three_bars_sorted Let_def)
    (simp add: three_bars_def ist_bar_def make_candle_def normalize_datetime_def candle_fields_ok_def validate_ohlc_def
      dsum_def dec_eval Let_def)

lemma three_bars_aggregated:
  "\<exists>b. aggregate_closed_candles three_bars MINUTE_3 (Aware (local_instant 4 (nse_open + 180))) None = Inr [b]"
proof -
  have "filter (known_by None 60 (local_instant 4 (nse_open + 180))) three_bars = three_bars"
    by (simp add: three_bars_def ist_bar_known)
  then show ?thesis
    using three_bars_complete three_bars_combined
    by (auto simp: aggregate_uniform [OF three_bars_uniform] calendar_for_def three_bars_sorted three_bars_grouped
        emit_bucket_def timeframe_value_def)
qed

theorem aggregated_bars_are_complete_witness:
  "\<exists>b. aggregate_closed_candles three_bars MINUTE_3 (Aware (local_instant 4 (nse_open + 180))) None = Inr [b]
     \<and> candle_ok b \<and> bucket_end None MINUTE_3 (candle_timestamp b) \<le> local_instant 4 (nse_open + 180)"
proof -
  obtain b where b: "aggregate_closed_candles three_bars MINUTE_3 (Aware (local_instant 4 (nse_open + 180))) None = Inr [b]"
    using three_bars_aggregated by blast
  have "calendar_for session_lookup None = Inr None" by (simp add: calendar_for_def)
  from aggregated_bars_are_complete [OF three_bars_uniform _ this b, of b] b show ?thesis
    by (auto simp: Let_def)
qed

end
