(* ===== verification/Smc_Primitives.thy ===== *)
theory Smc_Primitives
  imports Domain Market_Clock "HOL-Library.Product_Lexorder"
begin

text \<open>
  Market-structure primitives of \<open>packages/smc_ict/engine.py\<close>, first part: the value types, the rule
  thresholds, confirmed swings, displacements, equal levels, reference levels, price zones and kill
  zones.  The source renders an invalidation rule and an explanation as prose with the prices
  printed in it; here each is a value of \<open>smc_text\<close> that names the template and carries its prices.
  An ISO week, compared as (year, week), is the number of its Monday.
\<close>

section \<open>Values\<close>

datatype direction = BULLISH | BEARISH

datatype structure_kind = BREAK_OF_STRUCTURE | CHANGE_OF_CHARACTER | MARKET_STRUCTURE_SHIFT

datatype structure_scope = INTERNAL | EXTERNAL

datatype liquidity_side = BUY_SIDE | SELL_SIDE

datatype gap_status = GAP_ACTIVE | GAP_MITIGATED | GAP_INVALIDATED

datatype block_kind = ORDER_BLOCK | MITIGATION_BLOCK | BREAKER_BLOCK

datatype block_status = BLOCK_ACTIVE | BLOCK_MITIGATED | BLOCK_INVALIDATED

datatype reference_kind =
    PREVIOUS_DAY_HIGH | PREVIOUS_DAY_LOW | PREVIOUS_WEEK_HIGH | PREVIOUS_WEEK_LOW | SESSION_HIGH | SESSION_LOW

datatype zone_kind = PREMIUM | DISCOUNT | BULLISH_OTE | BEARISH_OTE

datatype smc_text =
    ClosesAbove decimal
  | ClosesBelow decimal
  | LaterCloseCrosses decimal
  | TradesAtOrBelow decimal
  | TradesAtOrAbove decimal
  | ClosesBeyondBand liquidity_side
  | ClosesBeyondSwept decimal
  | ReversesThrough decimal
  | RangeReplaced decimal decimal
  | BelowRangeLow decimal
  | AboveRangeHigh decimal
  | CloseBelow decimal
  | CloseAbove decimal
  | BodyMultiple decimal decimal decimal
  | SwingsDiffer decimal decimal
  | FromCandles reference_kind nat
  | LowerHalf
  | UpperHalf
  | RetracementUp
  | RetracementDown
  | ThreeCandleImbalance direction decimal decimal
  | GapClosedThrough direction decimal decimal
  | ClosedBackInside decimal
  | ClosedBeyondSwing decimal decimal
  | ShiftOnSameCandle
  | LastOpposingCandle direction
  | FirstRetest
  | BlockFailed direction

record smc_config =
  smc_swing_left :: int
  smc_swing_right :: int
  smc_internal_swing_left :: int
  smc_internal_swing_right :: int
  smc_minimum_gap_percent :: decimal
  smc_sweep_tolerance_percent :: decimal
  smc_equal_level_tolerance_percent :: decimal
  smc_displacement_lookback :: int
  smc_displacement_body_multiple :: decimal
  smc_displacement_close_location :: decimal
  smc_order_block_lookback :: int
  smc_rule_version :: string

definition default_smc_config :: smc_config where
  "default_smc_config =
     \<lparr>smc_swing_left = 2, smc_swing_right = 2, smc_internal_swing_left = 1, smc_internal_swing_right = 1,
      smc_minimum_gap_percent = 5 / 100, smc_sweep_tolerance_percent = 0, smc_equal_level_tolerance_percent = 5 / 100,
      smc_displacement_lookback = 10, smc_displacement_body_multiple = 15 / 10,
      smc_displacement_close_location = 75 / 100, smc_order_block_lookback = 5, smc_rule_version = ''smc-rules-v1''\<rparr>"

definition make_smc_config :: "smc_config \<Rightarrow> smc_config result" where
  "make_smc_config c =
     (if smc_swing_left c < 1 \<or> smc_swing_right c < 1 \<or> smc_internal_swing_left c < 1 \<or> smc_internal_swing_right c < 1
      then Inl (ValueError ''swing windows must be positive'')
      else if smc_minimum_gap_percent c < 0 \<or> smc_sweep_tolerance_percent c < 0 \<or> smc_equal_level_tolerance_percent c < 0
      then Inl (ValueError ''percentage thresholds cannot be negative'')
      else if smc_displacement_lookback c < 1 \<or> smc_displacement_body_multiple c \<le> 0
      then Inl (ValueError ''displacement lookback and body multiple must be positive'')
      else if smc_order_block_lookback c < 1 then Inl (ValueError ''order block lookback must be positive'')
      else if \<not> (1 / 2 \<le> smc_displacement_close_location c \<and> smc_displacement_close_location c \<le> 1)
      then Inl (ValueError ''displacement close location must be between 0.5 and 1'')
      else if blank (smc_rule_version c) then Inl (ValueError ''rule_version cannot be empty'')
      else Inr c)"

record swing_point =
  sw_scope :: structure_scope
  sw_direction :: direction
  sw_price :: decimal
  sw_candle_timestamp :: instant
  sw_confirmed_at :: instant
  sw_evidence :: "instant list"
  sw_confidence :: decimal
  sw_invalidation :: smc_text

record displacement =
  di_direction :: direction
  di_detected_at :: instant
  di_low :: decimal
  di_high :: decimal
  di_body :: decimal
  di_average_prior_body :: decimal
  di_close_location :: decimal
  di_evidence :: "instant list"
  di_confidence :: decimal
  di_invalidation :: smc_text
  di_explanation :: smc_text

record equal_level =
  eq_side :: liquidity_side
  eq_lower :: decimal
  eq_upper :: decimal
  eq_detected_at :: instant
  eq_swing_timestamps :: "instant \<times> instant"
  eq_evidence :: "instant list"
  eq_confidence :: decimal
  eq_invalidation :: smc_text
  eq_explanation :: smc_text

record reference_level =
  rl_kind :: reference_kind
  rl_price :: decimal
  rl_available_at :: instant
  rl_evidence :: "instant list"
  rl_explanation :: smc_text

record price_zone =
  pz_kind :: zone_kind
  pz_lower :: decimal
  pz_upper :: decimal
  pz_available_at :: instant
  pz_evidence :: "instant list"
  pz_invalidation :: smc_text
  pz_explanation :: smc_text

record kill_zone =
  kz_name :: string
  kz_start :: int
  kz_end :: int
  kz_timezone_name :: string

text \<open>\<open>time(h, m)\<close> in seconds of the day.\<close>

definition clock :: "int \<Rightarrow> int \<Rightarrow> int" where
  "clock h m = h * 3600 + m * 60"

definition default_kill_zones :: "kill_zone list" where
  "default_kill_zones =
     [\<lparr>kz_name = ''asia'', kz_start = clock 5 30, kz_end = clock 9 30, kz_timezone_name = ''Asia/Kolkata''\<rparr>,
      \<lparr>kz_name = ''nse_open'', kz_start = clock 9 15, kz_end = clock 10 15, kz_timezone_name = ''Asia/Kolkata''\<rparr>,
      \<lparr>kz_name = ''london_fixed_ist'', kz_start = clock 12 30, kz_end = clock 15 30, kz_timezone_name = ''Asia/Kolkata''\<rparr>,
      \<lparr>kz_name = ''new_york_fixed_ist'', kz_start = clock 18 30, kz_end = clock 21 30, kz_timezone_name = ''Asia/Kolkata''\<rparr>]"

section \<open>Candles\<close>

definition smc_confidence :: "decimal \<Rightarrow> decimal \<Rightarrow> decimal" where
  "smc_confidence distance reference =
     (if reference \<le> 0 then 1 / 2 else min 1 (dadd (1 / 2) (dquot distance reference)))"

definition closed_at :: "candle \<Rightarrow> instant" where
  "closed_at c = candle_timestamp c + seconds (candle_timeframe_seconds c)"

fun validate_smc_from :: "uuid \<Rightarrow> int \<Rightarrow> instant option \<Rightarrow> candle list \<Rightarrow> unit result" where
  "validate_smc_from i tf previous [] = Inr ()"
| "validate_smc_from i tf previous (c # cs) =
     (if \<not> candle_is_closed c then Inl (ValueError ''SMC analysis accepts closed candles only'')
      else if candle_instrument_id c \<noteq> i \<or> candle_timeframe_seconds c \<noteq> tf
      then Inl (ValueError ''candles must belong to one instrument and timeframe'')
      else if (case previous of None \<Rightarrow> False | Some p \<Rightarrow> candle_timestamp c \<le> p)
      then Inl (ValueError ''candles must have unique, strictly increasing timestamps'')
      else validate_smc_from i tf (Some (candle_timestamp c)) cs)"

definition validate_smc :: "candle list \<Rightarrow> unit result" where
  "validate_smc candles =
     (case candles of [] \<Rightarrow> Inr ()
      | c # _ \<Rightarrow> validate_smc_from (candle_instrument_id c) (candle_timeframe_seconds c) None candles)"

section \<open>Swings\<close>

definition swing_in :: "structure_scope \<Rightarrow> direction \<Rightarrow> decimal \<Rightarrow> decimal \<Rightarrow> candle \<Rightarrow> instant \<Rightarrow> candle list \<Rightarrow> swing_point" where
  "swing_in scope d price distance pivot confirmed window =
     \<lparr>sw_scope = scope, sw_direction = d, sw_price = price, sw_candle_timestamp = candle_timestamp pivot,
      sw_confirmed_at = confirmed, sw_evidence = map candle_timestamp window,
      sw_confidence = smc_confidence distance price,
      sw_invalidation = (if d = BEARISH then ClosesAbove price else ClosesBelow price)\<rparr>"

definition swings_of :: "structure_scope \<Rightarrow> nat \<Rightarrow> candle list \<Rightarrow> candle \<Rightarrow> instant \<Rightarrow> swing_point list" where
  "swings_of scope left window pivot confirmed =
     (let others = take left window @ drop (left + 1) window;
          other_highs = map candle_high others; other_lows = map candle_low others
      in (if list_all (\<lambda>v. candle_high pivot > v) other_highs
          then [swing_in scope BEARISH (candle_high pivot) (dsub (candle_high pivot) (Max (set other_highs))) pivot confirmed window]
          else []) @
         (if list_all (\<lambda>v. candle_low pivot < v) other_lows
          then [swing_in scope BULLISH (candle_low pivot) (dsub (Min (set other_lows)) (candle_low pivot)) pivot confirmed window]
          else []))"

text \<open>The swings confirmed by the candle at index \<open>n\<close>, of the pivot \<open>right\<close> candles earlier.\<close>

definition swings_at :: "candle list \<Rightarrow> nat \<Rightarrow> nat \<Rightarrow> structure_scope \<Rightarrow> nat \<Rightarrow> swing_point list" where
  "swings_at candles left right scope n =
     (let p = n - right
      in swings_of scope left (take (n + 1 - (p - left)) (drop (p - left) candles)) (candles ! p) (closed_at (candles ! n)))"

definition find_swings :: "candle list \<Rightarrow> int \<Rightarrow> int \<Rightarrow> structure_scope \<Rightarrow> swing_point list" where
  "find_swings candles left right scope =
     concat (map (swings_at candles (nat left) (nat right) scope) [nat (left + right)..<length candles])"

section \<open>Displacements\<close>

definition body_of :: "candle \<Rightarrow> decimal" where
  "body_of c = dabs (dsub (candle_close c) (candle_open c))"

definition displacement_in :: "direction \<Rightarrow> decimal \<Rightarrow> decimal \<Rightarrow> candle list \<Rightarrow> candle \<Rightarrow> displacement" where
  "displacement_in d average location prior c =
     \<lparr>di_direction = d, di_detected_at = closed_at c, di_low = candle_low c, di_high = candle_high c,
      di_body = body_of c, di_average_prior_body = average, di_close_location = location,
      di_evidence = map candle_timestamp (prior @ [c]),
      di_confidence = min 1 (dadd (1 / 2) (dquot (dquot (body_of c) average) 10)),
      di_invalidation = LaterCloseCrosses (if d = BULLISH then candle_low c else candle_high c),
      di_explanation = BodyMultiple (body_of c) (dquot (body_of c) average) location\<rparr>"

text \<open>The displacement a candle is, after the \<open>prior\<close> candles of the lookback.\<close>

definition displacement_of :: "smc_config \<Rightarrow> candle list \<Rightarrow> candle \<Rightarrow> displacement list" where
  "displacement_of config prior c =
     (let average = dquot (dsum (map body_of prior)) (of_nat (length prior));
          range = dsub (candle_high c) (candle_low c);
          location = dquot (dsub (candle_close c) (candle_low c)) range;
          bullish = (candle_close c > candle_open c \<and> location \<ge> smc_displacement_close_location config);
          bearish = (candle_close c < candle_open c \<and> location \<le> dsub 1 (smc_displacement_close_location config))
      in if average = 0 \<or> range = 0 \<or> body_of c < dmul average (smc_displacement_body_multiple config) then []
         else if \<not> bullish \<and> \<not> bearish then []
         else [displacement_in (if bullish then BULLISH else BEARISH) average location prior c])"

definition displacements_at :: "candle list \<Rightarrow> smc_config \<Rightarrow> nat \<Rightarrow> displacement list" where
  "displacements_at candles config n =
     (let lookback = nat (smc_displacement_lookback config)
      in displacement_of config (take lookback (drop (n - lookback) candles)) (candles ! n))"

definition find_displacements :: "candle list \<Rightarrow> smc_config \<Rightarrow> displacement list" where
  "find_displacements candles config =
     concat (map (displacements_at candles config) [nat (smc_displacement_lookback config)..<length candles])"

section \<open>Equal levels\<close>

definition equal_level_of :: "smc_config \<Rightarrow> direction \<Rightarrow> swing_point \<Rightarrow> swing_point \<Rightarrow> equal_level list" where
  "equal_level_of config d first second =
     (let midpoint = dquot (dadd (sw_price first) (sw_price second)) 2;
          tolerance = dquot (dmul midpoint (smc_equal_level_tolerance_percent config)) 100;
          difference = dabs (dsub (sw_price first) (sw_price second));
          side = (if d = BEARISH then BUY_SIDE else SELL_SIDE)
      in if difference > tolerance then []
         else [\<lparr>eq_side = side, eq_lower = min (sw_price first) (sw_price second),
                eq_upper = max (sw_price first) (sw_price second),
                eq_detected_at = max (sw_confirmed_at first) (sw_confirmed_at second),
                eq_swing_timestamps = (sw_candle_timestamp first, sw_candle_timestamp second),
                eq_evidence = sw_evidence first @ sw_evidence second,
                eq_confidence = (if tolerance = 0 then 1 else dsub 1 (dquot difference (dmul 2 tolerance))),
                eq_invalidation = ClosesBeyondBand side, eq_explanation = SwingsDiffer difference tolerance\<rparr>])"

text \<open>\<open>for direction in Direction\<close>: the members in declaration order.\<close>

definition directions :: "direction list" where
  "directions = [BULLISH, BEARISH]"

definition find_equal_levels :: "swing_point list \<Rightarrow> smc_config \<Rightarrow> equal_level list" where
  "find_equal_levels swings config =
     concat (map (\<lambda>d. let matching = filter (\<lambda>s. sw_direction s = d) swings
                      in concat (map (\<lambda>(a, b). equal_level_of config d a b) (zip matching (tl matching)))) directions)"

section \<open>Reference levels\<close>

definition reference_level_of :: "reference_kind \<Rightarrow> candle list \<Rightarrow> bool \<Rightarrow> instant \<Rightarrow> reference_level" where
  "reference_level_of kind candles high available =
     \<lparr>rl_kind = kind, rl_price = (if high then Max (set (map candle_high candles)) else Min (set (map candle_low candles))),
      rl_available_at = available, rl_evidence = map candle_timestamp candles,
      rl_explanation = FromCandles kind (length candles)\<rparr>"

definition iso_week :: "int \<Rightarrow> int" where
  "iso_week day = day - weekday day"

definition group_by :: "(candle \<Rightarrow> int) \<Rightarrow> candle list \<Rightarrow> (int \<times> candle list) list" where
  "group_by key candles = foldl (\<lambda>d c. append_to (key c) c d) [] candles"

text \<open>The high and low of the last group before \<open>current\<close>, when there is one.\<close>

definition previous_levels :: "reference_kind \<Rightarrow> reference_kind \<Rightarrow> int \<Rightarrow> (int \<times> candle list) list \<Rightarrow> reference_level list" where
  "previous_levels high_kind low_kind current groups =
     (let prior = sort (filter (\<lambda>k. k < current) (map fst groups)) in
      if prior = [] then []
      else let previous = the (map_of groups (last prior)); available = closed_at (last previous)
           in [reference_level_of high_kind previous True available, reference_level_of low_kind previous False available])"

definition find_reference_levels :: "candle list \<Rightarrow> reference_level list" where
  "find_reference_levels candles =
     (if candles = [] then []
      else
        let as_of = closed_at (last candles);
            date_of = (\<lambda>c. local_date (candle_timestamp c)); week_of = (\<lambda>c. iso_week (local_date (candle_timestamp c)));
            by_date = group_by date_of candles; by_week = group_by week_of candles;
            session = the (map_of by_date (date_of (last candles)))
        in previous_levels PREVIOUS_DAY_HIGH PREVIOUS_DAY_LOW (date_of (last candles)) by_date
           @ previous_levels PREVIOUS_WEEK_HIGH PREVIOUS_WEEK_LOW (week_of (last candles)) by_week
           @ [reference_level_of SESSION_HIGH session True as_of, reference_level_of SESSION_LOW session False as_of])"

section \<open>Price zones\<close>

definition find_price_zones :: "swing_point list \<Rightarrow> price_zone list" where
  "find_price_zones swings =
     (let highs = filter (\<lambda>s. sw_direction s = BEARISH) swings; lows = filter (\<lambda>s. sw_direction s = BULLISH) swings in
      if highs = [] \<or> lows = [] then []
      else
        let high = last highs; low = last lows in
        if sw_price high \<le> sw_price low then []
        else
          let width = dsub (sw_price high) (sw_price low);
              midpoint = dadd (sw_price low) (dquot width 2);
              available = max (sw_confirmed_at high) (sw_confirmed_at low);
              zone = (\<lambda>k l u inv ex. \<lparr>pz_kind = k, pz_lower = l, pz_upper = u, pz_available_at = available,
                 pz_evidence = [sw_candle_timestamp low, sw_candle_timestamp high], pz_invalidation = inv, pz_explanation = ex\<rparr>)
          in [zone DISCOUNT (sw_price low) midpoint (RangeReplaced (sw_price low) (sw_price high)) LowerHalf,
              zone PREMIUM midpoint (sw_price high) (RangeReplaced (sw_price low) (sw_price high)) UpperHalf,
              zone BULLISH_OTE (dadd (sw_price low) (dmul width (62 / 100))) (dadd (sw_price low) (dmul width (79 / 100)))
                (BelowRangeLow (sw_price low)) RetracementUp,
              zone BEARISH_OTE (dsub (sw_price high) (dmul width (79 / 100))) (dsub (sw_price high) (dmul width (62 / 100)))
                (AboveRangeHigh (sw_price high)) RetracementDown])"

section \<open>Kill zones\<close>

text \<open>\<open>zone_time name t\<close>: the local time of day, in seconds with their fraction, in a named time zone.\<close>

definition kill_zone_active :: "rat \<Rightarrow> kill_zone \<Rightarrow> bool" where
  "kill_zone_active local_time z =
     (if kz_start z \<le> kz_end z then of_int (kz_start z) \<le> local_time \<and> local_time < of_int (kz_end z)
      else local_time \<ge> of_int (kz_start z) \<or> local_time < of_int (kz_end z))"

definition active_kill_zones :: "(string \<Rightarrow> instant \<Rightarrow> rat) \<Rightarrow> datetime \<Rightarrow> kill_zone list \<Rightarrow> string list result" where
  "active_kill_zones zone_time timestamp zones =
     (if \<not> is_aware timestamp then Inl (ValueError ''kill-zone timestamp must be timezone-aware'')
      else Inr (map kz_name (filter (\<lambda>z. kill_zone_active (zone_time (kz_timezone_name z) (instant_of timestamp)) z) zones)))"

end
