(* ===== verification/Smc_Structure.thy ===== *)
theory Smc_Structure
  imports Smc_Primitives "HOL-Library.Sublist"
begin

text \<open>
  Market structure of \<open>packages/smc_ict/engine.py\<close>, second part: fair value gaps and their
  lifecycle, structure breaks and liquidity sweeps (a fold over the candles with the trend, the
  consumed swings and the two event lists as its state), and price blocks.
\<close>

section \<open>Values\<close>

record fair_value_gap =
  fg_direction :: direction
  fg_lower :: decimal
  fg_upper :: decimal
  fg_detected_at :: instant
  fg_consequent_encroachment :: decimal
  fg_status :: gap_status
  fg_mitigated_at :: "instant option"
  fg_invalidated_at :: "instant option"
  fg_evidence :: "instant list"
  fg_confidence :: decimal
  fg_invalidation :: smc_text
  fg_explanation :: smc_text

record inverse_fair_value_gap =
  ig_direction :: direction
  ig_lower :: decimal
  ig_upper :: decimal
  ig_source_detected_at :: instant
  ig_detected_at :: instant
  ig_consequent_encroachment :: decimal
  ig_evidence :: "instant list"
  ig_confidence :: decimal
  ig_invalidation :: smc_text
  ig_explanation :: smc_text

record liquidity_sweep =
  ls_direction :: direction
  ls_level :: decimal
  ls_extreme :: decimal
  ls_detected_at :: instant
  ls_swing_timestamp :: instant
  ls_evidence :: "instant list"
  ls_confidence :: decimal
  ls_invalidation :: smc_text
  ls_explanation :: smc_text

record market_structure_event =
  me_scope :: structure_scope
  me_kind :: structure_kind
  me_direction :: direction
  me_level :: decimal
  me_detected_at :: instant
  me_swing_timestamp :: instant
  me_evidence :: "instant list"
  me_confidence :: decimal
  me_invalidation :: smc_text
  me_explanation :: smc_text

record price_block =
  pb_kind :: block_kind
  pb_direction :: direction
  pb_lower :: decimal
  pb_upper :: decimal
  pb_origin_timestamp :: instant
  pb_detected_at :: instant
  pb_status :: block_status
  pb_mitigated_at :: "instant option"
  pb_invalidated_at :: "instant option"
  pb_evidence :: "instant list"
  pb_confidence :: decimal
  pb_invalidation :: smc_text
  pb_explanation :: smc_text

text \<open>\<open>tuple(sorted({...}))\<close>.\<close>

definition sorted_set :: "instant list \<Rightarrow> instant list" where
  "sorted_set ts = sort (remdups ts)"

section \<open>Fair value gaps\<close>

text \<open>The prices of a candle are positive, so is the midpoint, and the quotient never raises.\<close>

definition gap_candidate :: "smc_config \<Rightarrow> candle list \<Rightarrow> candle \<Rightarrow> direction \<times> decimal \<times> decimal \<Rightarrow> fair_value_gap list" where
  "gap_candidate config window current cand =
     (case cand of (d, lower, upper) \<Rightarrow>
        let midpoint = dquot (dadd lower upper) 2;
            gap_percent = dmul (dquot (dsub upper lower) midpoint) 100
        in if upper \<le> lower then []
           else if gap_percent < smc_minimum_gap_percent config then []
           else [\<lparr>fg_direction = d, fg_lower = lower, fg_upper = upper, fg_detected_at = closed_at current,
                  fg_consequent_encroachment = midpoint, fg_status = GAP_ACTIVE, fg_mitigated_at = None,
                  fg_invalidated_at = None, fg_evidence = map candle_timestamp window,
                  fg_confidence = smc_confidence (dsub upper lower) midpoint,
                  fg_invalidation = (if d = BULLISH then TradesAtOrBelow lower else TradesAtOrAbove upper),
                  fg_explanation = ThreeCandleImbalance d lower upper\<rparr>])"

definition gaps_at :: "candle list \<Rightarrow> smc_config \<Rightarrow> nat \<Rightarrow> fair_value_gap list" where
  "gaps_at candles config n =
     (let first = candles ! (n - 2); current = candles ! n; window = take 3 (drop (n - 2) candles)
      in concat (map (gap_candidate config window current)
           [(BULLISH, candle_high first, candle_low current), (BEARISH, candle_high current, candle_low first)]))"

definition find_fair_value_gaps :: "candle list \<Rightarrow> smc_config \<Rightarrow> fair_value_gap list" where
  "find_fair_value_gaps candles config = concat (map (gaps_at candles config) [2..<length candles])"

section \<open>Gap lifecycle\<close>

definition gap_touched :: "fair_value_gap \<Rightarrow> candle \<Rightarrow> bool" where
  "gap_touched g c = (if fg_direction g = BULLISH then candle_low c < fg_upper g else candle_high c > fg_lower g)"

definition gap_invalidated :: "fair_value_gap \<Rightarrow> candle \<Rightarrow> bool" where
  "gap_invalidated g c = (if fg_direction g = BULLISH then candle_low c \<le> fg_lower g else candle_high c \<ge> fg_upper g)"

definition gap_inverted :: "fair_value_gap \<Rightarrow> candle \<Rightarrow> bool" where
  "gap_inverted g c = (if fg_direction g = BULLISH then candle_close c < fg_lower g else candle_close c > fg_upper g)"

definition opposite :: "direction \<Rightarrow> direction" where
  "opposite d = (if d = BULLISH then BEARISH else BULLISH)"

definition inverse_gap_of :: "fair_value_gap \<Rightarrow> candle \<Rightarrow> inverse_fair_value_gap" where
  "inverse_gap_of g c =
     \<lparr>ig_direction = opposite (fg_direction g), ig_lower = fg_lower g, ig_upper = fg_upper g,
      ig_source_detected_at = fg_detected_at g, ig_detected_at = closed_at c,
      ig_consequent_encroachment = fg_consequent_encroachment g, ig_evidence = fg_evidence g @ [candle_timestamp c],
      ig_confidence = fg_confidence g,
      ig_invalidation = (if fg_direction g = BULLISH then ClosesAbove (fg_upper g) else ClosesBelow (fg_lower g)),
      ig_explanation = GapClosedThrough (fg_direction g) (fg_lower g) (fg_upper g)\<rparr>"

text \<open>The inner loop: when the gap was mitigated and invalidated, and the inverse gap it left.\<close>

fun walk_gap :: "fair_value_gap \<Rightarrow> instant option \<Rightarrow> candle list
    \<Rightarrow> instant option \<times> instant option \<times> inverse_fair_value_gap list" where
  "walk_gap g mitigated [] = (mitigated, None, [])"
| "walk_gap g mitigated (c # cs) =
     (if closed_at c \<le> fg_detected_at g then walk_gap g mitigated cs
      else
        let mitigated' = (if gap_touched g c \<and> mitigated = None then Some (closed_at c) else mitigated);
            invalidated = (if gap_invalidated g c then Some (closed_at c) else None)
        in if gap_inverted g c then (mitigated', invalidated, [inverse_gap_of g c])
           else if gap_invalidated g c then (mitigated', invalidated, [])
           else walk_gap g mitigated' cs)"

definition gap_status_of :: "instant option \<Rightarrow> instant option \<Rightarrow> gap_status" where
  "gap_status_of mitigated invalidated =
     (if invalidated \<noteq> None then GAP_INVALIDATED else if mitigated \<noteq> None then GAP_MITIGATED else GAP_ACTIVE)"

definition aged_gap :: "candle list \<Rightarrow> fair_value_gap \<Rightarrow> fair_value_gap" where
  "aged_gap candles g =
     (case walk_gap g None candles of (mitigated, invalidated, _) \<Rightarrow>
        g\<lparr>fg_status := gap_status_of mitigated invalidated, fg_mitigated_at := mitigated, fg_invalidated_at := invalidated\<rparr>)"

definition gap_lifecycle :: "candle list \<Rightarrow> fair_value_gap list \<Rightarrow> fair_value_gap list \<times> inverse_fair_value_gap list" where
  "gap_lifecycle candles gaps =
     (map (aged_gap candles) gaps, concat (map (\<lambda>g. snd (snd (walk_gap g None candles))) gaps))"

section \<open>Structure breaks and liquidity sweeps\<close>

record structure_state =
  ss_trend :: "direction option"
  ss_consumed :: "(direction \<times> instant) list"
  ss_structure :: "market_structure_event list"
  ss_sweeps :: "liquidity_sweep list"

definition initial_structure :: structure_state where
  "initial_structure = \<lparr>ss_trend = None, ss_consumed = [], ss_structure = [], ss_sweeps = []\<rparr>"

text \<open>\<open>displacement_by_key.get((direction, at))\<close>: the last one listed under the key.\<close>

definition displacement_by_key :: "displacement list \<Rightarrow> direction \<Rightarrow> instant \<Rightarrow> displacement option" where
  "displacement_by_key ds d t = List.find (\<lambda>x. di_direction x = d \<and> di_detected_at x = t) (rev ds)"

definition swing_swept :: "smc_config \<Rightarrow> swing_point \<Rightarrow> candle \<Rightarrow> bool" where
  "swing_swept config s c =
     (let tolerance = dquot (dmul (sw_price s) (smc_sweep_tolerance_percent config)) 100 in
      if sw_direction s = BEARISH then candle_high c > dadd (sw_price s) tolerance \<and> candle_close c \<le> sw_price s
      else candle_low c < dsub (sw_price s) tolerance \<and> candle_close c \<ge> sw_price s)"

definition swing_broken :: "swing_point \<Rightarrow> candle \<Rightarrow> bool" where
  "swing_broken s c =
     (if sw_direction s = BEARISH then candle_close c > sw_price s else candle_close c < sw_price s)"

definition sweep_of :: "swing_point \<Rightarrow> candle \<Rightarrow> liquidity_sweep" where
  "sweep_of s c =
     (let extreme = (if sw_direction s = BEARISH then candle_high c else candle_low c);
          distance = dabs (dsub extreme (sw_price s))
      in \<lparr>ls_direction = sw_direction s, ls_level = sw_price s, ls_extreme = extreme, ls_detected_at = closed_at c,
          ls_swing_timestamp = sw_candle_timestamp s,
          ls_evidence = [sw_candle_timestamp s, sw_confirmed_at s, candle_timestamp c],
          ls_confidence = smc_confidence distance (sw_price s), ls_invalidation = ClosesBeyondSwept (sw_price s),
          ls_explanation = ClosedBackInside (sw_price s)\<rparr>)"

definition break_kind :: "direction option \<Rightarrow> direction \<Rightarrow> structure_kind" where
  "break_kind trend d = (if trend \<noteq> None \<and> trend \<noteq> Some d then CHANGE_OF_CHARACTER else BREAK_OF_STRUCTURE)"

definition break_event :: "structure_scope \<Rightarrow> direction option \<Rightarrow> swing_point \<Rightarrow> candle \<Rightarrow> market_structure_event" where
  "break_event scope trend s c =
     \<lparr>me_scope = scope, me_kind = break_kind trend (opposite (sw_direction s)), me_direction = opposite (sw_direction s),
      me_level = sw_price s, me_detected_at = closed_at c, me_swing_timestamp = sw_candle_timestamp s,
      me_evidence = [sw_candle_timestamp s, sw_confirmed_at s, candle_timestamp c],
      me_confidence = smc_confidence (dabs (dsub (candle_close c) (sw_price s))) (sw_price s),
      me_invalidation = ReversesThrough (sw_price s), me_explanation = ClosedBeyondSwing (candle_close c) (sw_price s)\<rparr>"

text \<open>A change of character with a displacement on the same candle is also a structure shift.\<close>

definition shift_events :: "structure_scope \<Rightarrow> displacement list \<Rightarrow> direction option \<Rightarrow> swing_point \<Rightarrow> candle \<Rightarrow> market_structure_event list" where
  "shift_events scope ds trend s c =
     (let e = break_event scope trend s c in
      case displacement_by_key ds (me_direction e) (closed_at c) of
        None \<Rightarrow> []
      | Some x \<Rightarrow>
          if me_kind e \<noteq> CHANGE_OF_CHARACTER then []
          else [e\<lparr>me_kind := MARKET_STRUCTURE_SHIFT,
                  me_evidence := sorted_set (sw_candle_timestamp s # sw_confirmed_at s # di_evidence x),
                  me_confidence := min (me_confidence e) (di_confidence x), me_explanation := ShiftOnSameCandle\<rparr>])"

definition swing_key :: "swing_point \<Rightarrow> direction \<times> instant" where
  "swing_key s = (sw_direction s, sw_candle_timestamp s)"

definition examine_swing :: "smc_config \<Rightarrow> structure_scope \<Rightarrow> displacement list \<Rightarrow> candle \<Rightarrow> swing_point \<Rightarrow> structure_state \<Rightarrow> structure_state" where
  "examine_swing config scope ds c s st =
     (let st' = (if swing_swept config s c then st\<lparr>ss_sweeps := ss_sweeps st @ [sweep_of s c]\<rparr> else st) in
      if swing_broken s c \<and> swing_key s \<notin> set (ss_consumed st)
      then st'\<lparr>ss_structure := ss_structure st @ break_event scope (ss_trend st) s c # shift_events scope ds (ss_trend st) s c,
               ss_consumed := swing_key s # ss_consumed st, ss_trend := Some (opposite (sw_direction s))\<rparr>
      else st')"

text \<open>A swing confirmed by the candle itself is not yet available to it.\<close>

definition available_swings :: "swing_point list \<Rightarrow> candle \<Rightarrow> direction \<Rightarrow> swing_point list" where
  "available_swings swings c d = filter (\<lambda>s. sw_direction s = d) (filter (\<lambda>s. sw_confirmed_at s < closed_at c) swings)"

definition structure_direction ::
  "smc_config \<Rightarrow> structure_scope \<Rightarrow> swing_point list \<Rightarrow> displacement list \<Rightarrow> candle \<Rightarrow> structure_state \<Rightarrow> direction \<Rightarrow> structure_state" where
  "structure_direction config scope swings ds c st d =
     (let matching = available_swings swings c d in
      if matching = [] then st else examine_swing config scope ds c (last matching) st)"

definition structure_candle ::
  "smc_config \<Rightarrow> structure_scope \<Rightarrow> swing_point list \<Rightarrow> displacement list \<Rightarrow> structure_state \<Rightarrow> candle \<Rightarrow> structure_state" where
  "structure_candle config scope swings ds st c = foldl (structure_direction config scope swings ds c) st directions"

definition scan_structure ::
  "candle list \<Rightarrow> swing_point list \<Rightarrow> displacement list \<Rightarrow> smc_config \<Rightarrow> structure_scope \<Rightarrow> structure_state" where
  "scan_structure candles swings ds config scope = foldl (structure_candle config scope swings ds) initial_structure candles"

definition structure_and_sweeps ::
  "candle list \<Rightarrow> swing_point list \<Rightarrow> displacement list \<Rightarrow> smc_config \<Rightarrow> structure_scope
     \<Rightarrow> market_structure_event list \<times> liquidity_sweep list" where
  "structure_and_sweeps candles swings ds config scope =
     (let st = scan_structure candles swings ds config scope in (ss_structure st, ss_sweeps st))"

section \<open>Price blocks\<close>

definition opposing :: "direction \<Rightarrow> candle \<Rightarrow> bool" where
  "opposing d c = (d = BULLISH \<and> candle_close c < candle_open c \<or> d = BEARISH \<and> candle_close c > candle_open c)"

text \<open>\<open>candle_index\<close>: from a closing instant to the position of the (last) candle that closes then.\<close>

definition candle_index :: "candle list \<Rightarrow> instant \<Rightarrow> nat result" where
  "candle_index candles t =
     (case List.find (\<lambda>n. closed_at (candles ! n) = t) (rev [0..<length candles]) of
        None \<Rightarrow> Inl (KeyError ''candle_index'') | Some n \<Rightarrow> Inr n)"

definition order_block_of :: "candle \<Rightarrow> market_structure_event \<Rightarrow> displacement \<Rightarrow> price_block" where
  "order_block_of origin e x =
     \<lparr>pb_kind = ORDER_BLOCK, pb_direction = me_direction e, pb_lower = candle_low origin, pb_upper = candle_high origin,
      pb_origin_timestamp = candle_timestamp origin, pb_detected_at = me_detected_at e, pb_status = BLOCK_ACTIVE,
      pb_mitigated_at = None, pb_invalidated_at = None,
      pb_evidence = sorted_set (candle_timestamp origin # me_evidence e @ di_evidence x),
      pb_confidence = min (me_confidence e) (di_confidence x),
      pb_invalidation = (if me_direction e = BULLISH then CloseBelow (candle_low origin) else CloseAbove (candle_high origin)),
      pb_explanation = LastOpposingCandle (me_direction e)\<rparr>"

definition source_block ::
  "candle list \<Rightarrow> displacement list \<Rightarrow> smc_config \<Rightarrow> price_block list \<times> (direction \<times> instant) list
     \<Rightarrow> market_structure_event \<Rightarrow> (price_block list \<times> (direction \<times> instant) list) result" where
  "source_block candles ds config acc e =
     (case acc of (blocks, seen) \<Rightarrow>
        let key = (me_direction e, me_detected_at e) in
        case displacement_by_key ds (me_direction e) (me_detected_at e) of
          None \<Rightarrow> Inr acc
        | Some x \<Rightarrow>
            if key \<in> set seen then Inr acc
            else rbind (candle_index candles (me_detected_at e)) (\<lambda>n.
              let start = n - nat (smc_order_block_lookback config);
                  candidates = take (n - start) (drop start candles)
              in case List.find (opposing (me_direction e)) (rev candidates) of
                   None \<Rightarrow> Inr acc
                 | Some origin \<Rightarrow> Inr (blocks @ [order_block_of origin e x], key # seen)))"

definition block_overlaps :: "price_block \<Rightarrow> candle \<Rightarrow> bool" where
  "block_overlaps b c = (candle_low c \<le> pb_upper b \<and> candle_high c \<ge> pb_lower b)"

definition block_invalidated :: "price_block \<Rightarrow> candle \<Rightarrow> bool" where
  "block_invalidated b c = (if pb_direction b = BULLISH then candle_close c < pb_lower b else candle_close c > pb_upper b)"

definition mitigation_block_of :: "price_block \<Rightarrow> candle \<Rightarrow> price_block" where
  "mitigation_block_of b c =
     \<lparr>pb_kind = MITIGATION_BLOCK, pb_direction = pb_direction b, pb_lower = pb_lower b, pb_upper = pb_upper b,
      pb_origin_timestamp = pb_origin_timestamp b, pb_detected_at = closed_at c, pb_status = BLOCK_MITIGATED,
      pb_mitigated_at = Some (closed_at c), pb_invalidated_at = None, pb_evidence = pb_evidence b @ [candle_timestamp c],
      pb_confidence = pb_confidence b, pb_invalidation = pb_invalidation b, pb_explanation = FirstRetest\<rparr>"

definition breaker_block_of :: "price_block \<Rightarrow> candle \<Rightarrow> price_block" where
  "breaker_block_of b c =
     \<lparr>pb_kind = BREAKER_BLOCK, pb_direction = opposite (pb_direction b), pb_lower = pb_lower b, pb_upper = pb_upper b,
      pb_origin_timestamp = pb_origin_timestamp b, pb_detected_at = closed_at c, pb_status = BLOCK_ACTIVE,
      pb_mitigated_at = None, pb_invalidated_at = None, pb_evidence = pb_evidence b @ [candle_timestamp c],
      pb_confidence = pb_confidence b,
      pb_invalidation = (if opposite (pb_direction b) = BEARISH then CloseAbove (pb_upper b) else CloseBelow (pb_lower b)),
      pb_explanation = BlockFailed (pb_direction b)\<rparr>"

text \<open>The inner loop of a block: when it was mitigated and invalidated, and the blocks that left.\<close>

fun walk_block :: "price_block \<Rightarrow> instant option \<Rightarrow> candle list \<Rightarrow> instant option \<times> instant option \<times> price_block list" where
  "walk_block b mitigated [] = (mitigated, None, [])"
| "walk_block b mitigated (c # cs) =
     (if closed_at c \<le> pb_detected_at b then walk_block b mitigated cs
      else
        let retest = (block_overlaps b c \<and> mitigated = None);
            mitigated' = (if retest then Some (closed_at c) else mitigated);
            new = (if retest then [mitigation_block_of b c] else [])
        in if block_invalidated b c then (mitigated', Some (closed_at c), new @ [breaker_block_of b c])
           else case walk_block b mitigated' cs of (m, i, rest) \<Rightarrow> (m, i, new @ rest))"

definition block_status_of :: "instant option \<Rightarrow> instant option \<Rightarrow> block_status" where
  "block_status_of mitigated invalidated =
     (if invalidated \<noteq> None then BLOCK_INVALIDATED else if mitigated \<noteq> None then BLOCK_MITIGATED else BLOCK_ACTIVE)"

definition aged_blocks :: "candle list \<Rightarrow> price_block \<Rightarrow> price_block list" where
  "aged_blocks candles b =
     (case walk_block b None candles of (mitigated, invalidated, extra) \<Rightarrow>
        extra @ [b\<lparr>pb_status := block_status_of mitigated invalidated, pb_mitigated_at := mitigated,
                   pb_invalidated_at := invalidated\<rparr>])"

text \<open>The order of the values: \<open>breaker_block\<close>, \<open>mitigation_block\<close>, \<open>order_block\<close>.\<close>

fun block_kind_rank :: "block_kind \<Rightarrow> nat" where
  "block_kind_rank BREAKER_BLOCK = 0"
| "block_kind_rank MITIGATION_BLOCK = 1"
| "block_kind_rank ORDER_BLOCK = 2"

definition find_price_blocks ::
  "candle list \<Rightarrow> market_structure_event list \<Rightarrow> displacement list \<Rightarrow> smc_config \<Rightarrow> price_block list result" where
  "find_price_blocks candles structure ds config =
     rbind (rfold (source_block candles ds config) ([], []) structure) (\<lambda>(blocks, _).
       Inr (sort_key (\<lambda>b. (pb_detected_at b, block_kind_rank (pb_kind b))) (concat (map (aged_blocks candles) blocks))))"

end
