(* ===== verification/Smc_Causality.thy ===== *)
theory Smc_Causality
  imports Smc_Structure
begin

text \<open>
  The analysis does not repaint.  The locale \<open>causal_detector\<close> states what that means for one
  detector: one more closed candle only appends events, and stamps them with that candle's close.
  It is interpreted on the swings, the displacements, the gap formation and the structure scan.
\<close>

section \<open>Detectors that do not repaint\<close>

locale causal_detector =
  fixes ok :: "'c list \<Rightarrow> bool"
    and detect :: "'c list \<Rightarrow> 'e list"
    and stamp :: "'e \<Rightarrow> instant"
    and known :: "'c \<Rightarrow> instant"
  assumes ok_front: "ok (cs @ [c]) \<Longrightarrow> ok cs"
    and ok_ordered: "ok cs \<Longrightarrow> sorted_wrt (<) (map known cs)"
    and detect_Nil: "detect [] = []"
    and detect_snoc: "ok (cs @ [c]) \<Longrightarrow> \<exists>new. detect (cs @ [c]) = detect cs @ new \<and> (\<forall>e \<in> set new. stamp e = known c)"
begin

lemma ok_prefix: "ok (cs @ rest) \<Longrightarrow> ok cs"
proof (induction rest rule: rev_induct)
  case (snoc c rest)
  then show ?case using ok_front [of "cs @ rest" c] by simp
qed simp

lemma extends:
  "ok (cs @ rest) \<Longrightarrow> \<exists>new. detect (cs @ rest) = detect cs @ new \<and> (\<forall>e \<in> set new. stamp e \<in> known ` set rest)"
proof (induction rest rule: rev_induct)
  case (snoc c rest)
  then have ok: "ok ((cs @ rest) @ [c])" by simp
  obtain new where "detect (cs @ rest) = detect cs @ new" "\<forall>e \<in> set new. stamp e \<in> known ` set rest"
    using snoc.IH ok_front [OF ok] by blast
  moreover obtain new' where "detect ((cs @ rest) @ [c]) = detect (cs @ rest) @ new'" "\<forall>e \<in> set new'. stamp e = known c"
    using detect_snoc [OF ok] by blast
  ultimately show ?case by (intro exI [of _ "new @ new'"]) auto
qed simp

lemma stamped: "ok cs \<Longrightarrow> e \<in> set (detect cs) \<Longrightarrow> stamp e \<in> known ` set cs"
  using extends [of "[]" cs] detect_Nil by auto

lemma later: "ok (cs @ rest) \<Longrightarrow> c \<in> set cs \<Longrightarrow> c' \<in> set rest \<Longrightarrow> known c < known c'"
  using ok_ordered [of "cs @ rest"] by (auto simp: sorted_wrt_append)

lemma not_repainted: "ok (cs @ rest) \<Longrightarrow> prefix (detect cs) (detect (cs @ rest))"
  using extends [of cs rest] by (auto simp: prefix_def)

lemma point_in_time:
  assumes "ok (cs @ rest)" and "cs \<noteq> []"
  shows "filter (\<lambda>e. stamp e \<le> known (last cs)) (detect (cs @ rest)) = detect cs"
proof -
  obtain new where new: "detect (cs @ rest) = detect cs @ new" "\<forall>e \<in> set new. stamp e \<in> known ` set rest"
    using extends [OF assms(1)] by blast
  have le: "known c \<le> known (last cs)" if "c \<in> set cs" for c
    using that assms(2) ok_ordered [OF ok_prefix [OF assms(1)]]
    by (cases cs rule: rev_cases) (auto simp: sorted_wrt_append)
  have "\<forall>e \<in> set (detect cs). stamp e \<le> known (last cs)"
    using stamped [OF ok_prefix [OF assms(1)]] le by fastforce
  moreover have "\<forall>e \<in> set new. \<not> stamp e \<le> known (last cs)"
    using new(2) later [OF assms(1) last_in_set [OF assms(2)]] by force
  ultimately show ?thesis
    by (simp add: new(1) filter_id_conv)
qed

end

definition strict_closes :: "candle list \<Rightarrow> bool" where
  "strict_closes candles = sorted_wrt (<) (map closed_at candles)"

lemma strict_closes_front: "strict_closes (cs @ [c]) \<Longrightarrow> strict_closes cs"
  by (simp add: strict_closes_def sorted_wrt_append)

lemma strict_closes_last: "strict_closes (cs @ [c]) \<Longrightarrow> c' \<in> set cs \<Longrightarrow> closed_at c' < closed_at c"
  by (auto simp: strict_closes_def sorted_wrt_append)

lemma validated_from_closes:
  "validate_smc_from i tf p cs = Inr () \<Longrightarrow>
     sorted_wrt (<) (map closed_at cs) \<and> (\<forall>c \<in> set cs. candle_timeframe_seconds c = tf \<and> (\<forall>q. p = Some q \<longrightarrow> q < candle_timestamp c))"
proof (induction cs arbitrary: p)
  case (Cons c cs)
  then have step: "validate_smc_from i tf (Some (candle_timestamp c)) cs = Inr ()"
    and tf: "candle_timeframe_seconds c = tf" and p: "\<forall>q. p = Some q \<longrightarrow> q < candle_timestamp c"
    by (auto split: if_splits option.splits)
  have sorted: "sorted_wrt (<) (map closed_at cs)"
    and later: "\<forall>d \<in> set cs. candle_timeframe_seconds d = tf \<and> candle_timestamp c < candle_timestamp d"
    using Cons.IH [OF step] by auto
  have "\<forall>d \<in> set cs. closed_at c < closed_at d"
    using later tf by (simp add: closed_at_def)
  with sorted tf p later show ?case
    by fastforce
qed simp

lemma validated_closes: "validate_smc cs = Inr () \<Longrightarrow> strict_closes cs"
  by (cases cs) (auto simp: validate_smc_def strict_closes_def simp del: validate_smc_from.simps dest!: validated_from_closes)

text \<open>Detectors that look, at each index, at the candles up to that index only.\<close>

lemma indexed_snoc:
  assumes front: "\<And>n. w \<le> n \<Longrightarrow> n < length cs \<Longrightarrow> f (cs @ [c]) n = f cs n"
    and stamp: "\<And>e. e \<in> set (f (cs @ [c]) (length cs)) \<Longrightarrow> stamp e = closed_at c"
  shows "\<exists>new. concat (map (f (cs @ [c])) [w..<length (cs @ [c])]) = concat (map (f cs) [w..<length cs]) @ new
           \<and> (\<forall>e \<in> set new. stamp e = closed_at c)"
proof (cases "w \<le> length cs")
  case True
  have "map (f (cs @ [c])) [w..<length cs] = map (f cs) [w..<length cs]"
    using front by (intro map_cong) auto
  then have "concat (map (f (cs @ [c])) [w..<length (cs @ [c])]) = concat (map (f cs) [w..<length cs]) @ f (cs @ [c]) (length cs)"
    using True by (simp del: map_eq_conv)
  with stamp show ?thesis by blast
qed simp

lemma swings_at_front: "n < length cs \<Longrightarrow> swings_at (cs @ rest) l r scope n = swings_at cs l r scope n"
proof -
  assume n: "n < length cs"
  have "take (n + 1 - (n - r - l)) (drop (n - r - l) (cs @ rest)) = take (n + 1 - (n - r - l)) (drop (n - r - l) cs)"
    "(cs @ rest) ! n = cs ! n" "(cs @ rest) ! (n - r) = cs ! (n - r)"
    using n by (simp_all add: nth_append)
  then show ?thesis
    unfolding swings_at_def Let_def by (simp only:)
qed

lemma displacements_at_front:
  "nat (smc_displacement_lookback config) \<le> n \<Longrightarrow> n < length cs
     \<Longrightarrow> displacements_at (cs @ rest) config n = displacements_at cs config n"
  by (simp add: displacements_at_def nth_append Let_def)

lemma gaps_at_front: "2 \<le> n \<Longrightarrow> n < length cs \<Longrightarrow> gaps_at (cs @ rest) config n = gaps_at cs config n"
proof -
  assume n: "2 \<le> n" "n < length cs"
  have "(cs @ rest) ! n = cs ! n" "(cs @ rest) ! (n - 2) = cs ! (n - 2)"
    "take 3 (drop (n - 2) (cs @ rest)) = take 3 (drop (n - 2) cs)"
    using n by (simp_all add: nth_append)
  then show ?thesis
    unfolding gaps_at_def by (simp only:)
qed

lemma swings_at_stamp: "e \<in> set (swings_at cs l r scope n) \<Longrightarrow> sw_confirmed_at e = closed_at (cs ! n)"
  by (auto simp: swings_at_def swings_of_def swing_in_def Let_def split: if_splits)

lemma guarded_singleton: "e \<in> set (if P then [] else if Q then [] else [x]) \<Longrightarrow> e = x"
  by (simp split: if_splits)

lemma displacements_at_stamp: "e \<in> set (displacements_at cs config n) \<Longrightarrow> di_detected_at e = closed_at (cs ! n)"
  unfolding displacements_at_def displacement_of_def Let_def
  by (drule guarded_singleton) (simp add: displacement_in_def)

lemma gaps_at_stamp: "e \<in> set (gaps_at cs config n) \<Longrightarrow> fg_detected_at e = closed_at (cs ! n)"
  by (auto simp: gaps_at_def gap_candidate_def Let_def split: if_splits)

interpretation swing_detector: causal_detector strict_closes "\<lambda>cs. find_swings cs l r scope" sw_confirmed_at closed_at for l r scope
proof
  fix cs c
  show "find_swings [] l r scope = []"
    by (simp add: find_swings_def)
  show "\<exists>new. find_swings (cs @ [c]) l r scope = find_swings cs l r scope @ new \<and> (\<forall>e \<in> set new. sw_confirmed_at e = closed_at c)"
    unfolding find_swings_def
    by (rule indexed_snoc [where f = "\<lambda>cs. swings_at cs (nat l) (nat r) scope"]) (auto simp: swings_at_front dest: swings_at_stamp)
qed (erule strict_closes_front, simp add: strict_closes_def)

interpretation displacement_detector: causal_detector strict_closes "\<lambda>cs. find_displacements cs config" di_detected_at closed_at for config
proof
  fix cs c
  show "find_displacements [] config = []"
    by (simp add: find_displacements_def)
  show "\<exists>new. find_displacements (cs @ [c]) config = find_displacements cs config @ new \<and> (\<forall>e \<in> set new. di_detected_at e = closed_at c)"
    unfolding find_displacements_def
    by (rule indexed_snoc [where f = "\<lambda>cs. displacements_at cs config"]) (auto simp: displacements_at_front dest: displacements_at_stamp)
qed (erule strict_closes_front, simp add: strict_closes_def)

interpretation gap_detector: causal_detector strict_closes "\<lambda>cs. find_fair_value_gaps cs config" fg_detected_at closed_at for config
proof
  fix cs c
  show "find_fair_value_gaps [] config = []"
    by (simp add: find_fair_value_gaps_def)
  show "\<exists>new. find_fair_value_gaps (cs @ [c]) config = find_fair_value_gaps cs config @ new \<and> (\<forall>e \<in> set new. fg_detected_at e = closed_at c)"
    unfolding find_fair_value_gaps_def
    by (rule indexed_snoc [where f = "\<lambda>cs. gaps_at cs config"]) (auto simp: gaps_at_front dest: gaps_at_stamp)
qed (erule strict_closes_front, simp add: strict_closes_def)

section \<open>The structure scan\<close>

text \<open>One candle only appends to the two event lists, with its own close as the detection time.\<close>

definition grows :: "instant \<Rightarrow> structure_state \<Rightarrow> structure_state \<Rightarrow> bool" where
  "grows t st st' \<longleftrightarrow>
     (\<exists>es ls. ss_structure st' = ss_structure st @ es \<and> ss_sweeps st' = ss_sweeps st @ ls
        \<and> (\<forall>e \<in> set es. me_detected_at e = t) \<and> (\<forall>e \<in> set ls. ls_detected_at e = t))"

lemma grows_refl [simp]: "grows t st st"
  by (simp add: grows_def)

lemma grows_trans: "grows t st st' \<Longrightarrow> grows t st' st'' \<Longrightarrow> grows t st st''"
  by (fastforce simp: grows_def)

lemma shift_events_detected: "e \<in> set (shift_events scope ds trend s c) \<Longrightarrow> me_detected_at e = closed_at c"
  by (auto simp: shift_events_def break_event_def Let_def split: option.splits if_splits)

lemma examine_swing_grows: "grows (closed_at c) st (examine_swing config scope ds c s st)"
  by (auto simp: examine_swing_def grows_def Let_def sweep_of_def break_event_def dest: shift_events_detected)

lemma structure_candle_grows: "grows (closed_at c) st (structure_candle config scope S ds st c)"
  by (auto simp: structure_candle_def directions_def structure_direction_def Let_def
      intro: grows_trans examine_swing_grows)

text \<open>Swings and displacements that are not known before the candle closes do not change what it does.\<close>

lemma available_swings_cong:
  "\<forall>s \<in> set new. closed_at c \<le> sw_confirmed_at s \<Longrightarrow> available_swings (S @ new) c d = available_swings S c d"
  by (auto simp: available_swings_def filter_empty_conv)

lemma displacement_by_key_cong:
  "\<forall>x \<in> set new. di_detected_at x \<noteq> t \<Longrightarrow> displacement_by_key (D @ new) d t = displacement_by_key D d t"
proof -
  assume new: "\<forall>x \<in> set new. di_detected_at x \<noteq> t"
  then have "List.find (\<lambda>x. di_direction x = d \<and> di_detected_at x = t) (rev new) = None"
    by (auto simp: find_None_iff)
  then show ?thesis
    by (simp add: displacement_by_key_def find_append)
qed

lemma structure_candle_cong:
  assumes "\<forall>s \<in> set newS. closed_at c \<le> sw_confirmed_at s" and "\<forall>x \<in> set newD. di_detected_at x \<noteq> closed_at c"
  shows "structure_candle config scope (S @ newS) (D @ newD) st c = structure_candle config scope S D st c"
proof -
  have "shift_events scope (D @ newD) trend s c = shift_events scope D trend s c" for trend s
    unfolding shift_events_def using displacement_by_key_cong [OF assms(2)] by simp
  then have "examine_swing config scope (D @ newD) c s st = examine_swing config scope D c s st" for s st
    unfolding examine_swing_def Let_def by (simp only:)
  then have "structure_direction config scope (S @ newS) (D @ newD) c = structure_direction config scope S D c"
    by (intro ext) (simp add: structure_direction_def available_swings_cong [OF assms(1)] Let_def)
  then show ?thesis
    by (simp add: structure_candle_def)
qed

definition structure_of :: "smc_config \<Rightarrow> structure_scope \<Rightarrow> int \<Rightarrow> int \<Rightarrow> candle list \<Rightarrow> structure_state" where
  "structure_of config scope l r cs =
     scan_structure cs (find_swings cs l r scope) (find_displacements cs config) config scope"

lemma structure_of_snoc:
  assumes "strict_closes (cs @ [c])"
  shows "grows (closed_at c) (structure_of config scope l r cs) (structure_of config scope l r (cs @ [c]))"
proof -
  let ?S = "find_swings cs l r scope" and ?D = "find_displacements cs config"
  obtain newS where S: "find_swings (cs @ [c]) l r scope = ?S @ newS" "\<forall>s \<in> set newS. sw_confirmed_at s = closed_at c"
    using swing_detector.detect_snoc [OF assms] by blast
  obtain newD where D: "find_displacements (cs @ [c]) config = ?D @ newD" "\<forall>x \<in> set newD. di_detected_at x = closed_at c"
    using displacement_detector.detect_snoc [OF assms] by blast
  have "structure_candle config scope (?S @ newS) (?D @ newD) st d = structure_candle config scope ?S ?D st d"
    if "d \<in> set cs" for st d
    using strict_closes_last [OF assms that] S(2) D(2) by (intro structure_candle_cong) auto
  then have "scan_structure cs (?S @ newS) (?D @ newD) config scope = scan_structure cs ?S ?D config scope"
    unfolding scan_structure_def by (intro foldl_cong) auto
  then show ?thesis
    by (simp add: structure_of_def S(1) D(1) scan_structure_def structure_candle_grows)
qed

interpretation structure_detector:
  causal_detector strict_closes "\<lambda>cs. ss_structure (structure_of config scope l r cs)" me_detected_at closed_at
  for config scope l r
proof
  fix cs c assume ok: "strict_closes (cs @ [c])"
  show "\<exists>new. ss_structure (structure_of config scope l r (cs @ [c])) = ss_structure (structure_of config scope l r cs) @ new
      \<and> (\<forall>e \<in> set new. me_detected_at e = closed_at c)"
    using structure_of_snoc [OF ok, of config scope l r] by (auto simp: grows_def)
qed (erule strict_closes_front, simp add: strict_closes_def, simp add: structure_of_def scan_structure_def initial_structure_def)

interpretation sweep_detector:
  causal_detector strict_closes "\<lambda>cs. ss_sweeps (structure_of config scope l r cs)" ls_detected_at closed_at
  for config scope l r
proof
  fix cs c assume ok: "strict_closes (cs @ [c])"
  show "\<exists>new. ss_sweeps (structure_of config scope l r (cs @ [c])) = ss_sweeps (structure_of config scope l r cs) @ new
      \<and> (\<forall>e \<in> set new. ls_detected_at e = closed_at c)"
    using structure_of_snoc [OF ok, of config scope l r] by (auto simp: grows_def)
qed (erule strict_closes_front, simp add: strict_closes_def, simp add: structure_of_def scan_structure_def initial_structure_def)

end
