(* ===== verification/Smc_Invariants.thy ===== *)
theory Smc_Invariants
  imports Smc_Structure
begin

text \<open>
  What the structure scan and the lifecycle loops establish.  The scan keeps an invariant: every
  event is justified by a swing confirmed before the candle that broke it, a swing is broken once,
  the trend is the direction of the last break, and the kind of each break is decided by the break
  before it.  The early-exit loop over the candles that ages a gap computes the first later candle
  that touched it and the first one that traded through it.
\<close>

section \<open>The structure scan\<close>

lemma foldl_invariant:
  assumes "P s" and "\<And>s x. x \<in> set xs \<Longrightarrow> P s \<Longrightarrow> P (f s x)"
  shows "P (foldl f s xs)"
  using assms by (induction xs arbitrary: s) auto

definition breaks :: "market_structure_event list \<Rightarrow> market_structure_event list" where
  "breaks es = filter (\<lambda>e. me_kind e \<noteq> MARKET_STRUCTURE_SHIFT) es"

definition justified :: "swing_point list \<Rightarrow> candle list \<Rightarrow> market_structure_event \<Rightarrow> bool" where
  "justified swings candles e \<longleftrightarrow>
     (\<exists>s \<in> set swings. \<exists>c \<in> set candles.
        me_detected_at e = closed_at c \<and> sw_confirmed_at s < closed_at c \<and> swing_broken s c \<and> me_level e = sw_price s
        \<and> me_swing_timestamp e = sw_candle_timestamp s \<and> me_direction e = opposite (sw_direction s))"

definition event_key :: "market_structure_event \<Rightarrow> direction \<times> instant" where
  "event_key e = (opposite (me_direction e), me_swing_timestamp e)"

text \<open>The kind of a break, given the break before it.\<close>

fun kinds_follow :: "direction option \<Rightarrow> market_structure_event list \<Rightarrow> bool" where
  "kinds_follow trend [] = True"
| "kinds_follow trend (e # es) = (me_kind e = break_kind trend (me_direction e) \<and> kinds_follow (Some (me_direction e)) es)"

definition last_direction :: "direction option \<Rightarrow> market_structure_event list \<Rightarrow> direction option" where
  "last_direction trend es = (if es = [] then trend else Some (me_direction (last es)))"

lemma kinds_follow_snoc:
  "kinds_follow trend (es @ [e]) \<longleftrightarrow> kinds_follow trend es \<and> me_kind e = break_kind (last_direction trend es) (me_direction e)"
  by (induction trend es rule: kinds_follow.induct) (auto simp: last_direction_def)

definition structure_inv :: "swing_point list \<Rightarrow> candle list \<Rightarrow> structure_state \<Rightarrow> bool" where
  "structure_inv swings candles st \<longleftrightarrow>
     (\<forall>e \<in> set (ss_structure st). justified swings candles e)
     \<and> map event_key (breaks (ss_structure st)) = rev (ss_consumed st) \<and> distinct (ss_consumed st)
     \<and> ss_trend st = last_direction None (breaks (ss_structure st))
     \<and> kinds_follow None (breaks (ss_structure st))"

lemma opposite_opposite [simp]: "opposite (opposite d) = d"
  by (cases d) (simp_all add: opposite_def)

lemma break_kind_not_shift [simp]: "break_kind trend d \<noteq> MARKET_STRUCTURE_SHIFT"
  by (simp add: break_kind_def)

lemma breaks_append [simp]: "breaks (xs @ ys) = breaks xs @ breaks ys"
  by (simp add: breaks_def)

lemma breaks_step [simp]: "breaks (break_event scope trend s c # shift_events scope ds trend s c) = [break_event scope trend s c]"
  by (auto simp: breaks_def break_event_def shift_events_def Let_def filter_empty_conv split: option.splits)

lemma justified_step:
  assumes "s \<in> set swings" and "c \<in> set candles" and "sw_confirmed_at s < closed_at c" and "swing_broken s c"
    and "e \<in> set (break_event scope trend s c # shift_events scope ds trend s c)"
  shows "justified swings candles e"
proof -
  have "me_detected_at e = closed_at c" "me_level e = sw_price s" "me_swing_timestamp e = sw_candle_timestamp s"
    "me_direction e = opposite (sw_direction s)"
    using assms(5) by (auto simp: shift_events_def break_event_def Let_def split: option.splits if_splits)
  with assms(1-4) show ?thesis
    by (auto simp: justified_def)
qed

lemma structure_inv_extend:
  assumes inv: "structure_inv swings candles st"
    and st': "ss_structure st' = ss_structure st @ es" "ss_consumed st' = k # ss_consumed st" "ss_trend st' = Some (me_direction e)"
    and es: "breaks es = [e]" "\<forall>x \<in> set es. justified swings candles x"
    and e: "event_key e = k" "k \<notin> set (ss_consumed st)" "me_kind e = break_kind (ss_trend st) (me_direction e)"
  shows "structure_inv swings candles st'"
proof -
  note old = inv [unfolded structure_inv_def]
  have "kinds_follow None (breaks (ss_structure st) @ [e])"
    using old e(3) by (simp add: kinds_follow_snoc)
  then show ?thesis
    using old e(1,2) es unfolding structure_inv_def st' by (auto simp: last_direction_def)
qed

lemma break_event_sel [simp]:
  "me_kind (break_event scope trend s c) = break_kind trend (opposite (sw_direction s))"
  "me_direction (break_event scope trend s c) = opposite (sw_direction s)"
  "event_key (break_event scope trend s c) = swing_key s"
  by (simp_all add: break_event_def event_key_def swing_key_def)

lemma examine_swing_cases:
  obtains (break) "swing_broken s c" "swing_key s \<notin> set (ss_consumed st)"
      "ss_structure (examine_swing config scope ds c s st) =
         ss_structure st @ break_event scope (ss_trend st) s c # shift_events scope ds (ss_trend st) s c"
      "ss_consumed (examine_swing config scope ds c s st) = swing_key s # ss_consumed st"
      "ss_trend (examine_swing config scope ds c s st) = Some (opposite (sw_direction s))"
    | (keep) "ss_structure (examine_swing config scope ds c s st) = ss_structure st"
      "ss_consumed (examine_swing config scope ds c s st) = ss_consumed st"
      "ss_trend (examine_swing config scope ds c s st) = ss_trend st"
proof (cases "swing_broken s c \<and> swing_key s \<notin> set (ss_consumed st)")
  case True
  then have "examine_swing config scope ds c s st =
      (if swing_swept config s c then st\<lparr>ss_sweeps := ss_sweeps st @ [sweep_of s c]\<rparr> else st)
        \<lparr>ss_structure := ss_structure st @ break_event scope (ss_trend st) s c # shift_events scope ds (ss_trend st) s c,
         ss_consumed := swing_key s # ss_consumed st, ss_trend := Some (opposite (sw_direction s))\<rparr>"
    unfolding examine_swing_def Let_def by (simp only: if_True simp_thms)
  with True break show thesis by simp
next
  case False
  then have "examine_swing config scope ds c s st =
      (if swing_swept config s c then st\<lparr>ss_sweeps := ss_sweeps st @ [sweep_of s c]\<rparr> else st)"
    unfolding examine_swing_def Let_def by (simp only: if_False)
  with keep show thesis by simp
qed

lemma examine_swing_inv:
  assumes inv: "structure_inv swings candles st"
    and s: "s \<in> set swings" "c \<in> set candles" "sw_confirmed_at s < closed_at c"
  shows "structure_inv swings candles (examine_swing config scope ds c s st)"
proof (cases rule: examine_swing_cases [of s c st config scope ds])
  case break
  have "\<forall>x \<in> set (break_event scope (ss_trend st) s c # shift_events scope ds (ss_trend st) s c). justified swings candles x"
    using justified_step [OF s] break(1) by blast
  then show ?thesis
    using structure_inv_extend [OF inv break(3,4), of "break_event scope (ss_trend st) s c"] break(2,5) by simp
next
  case keep
  with inv show ?thesis
    by (simp add: structure_inv_def)
qed

lemma structure_direction_inv:
  assumes "structure_inv swings candles st" and "c \<in> set candles"
  shows "structure_inv swings candles (structure_direction config scope swings ds c st d)"
proof (cases "available_swings swings c d = []")
  case False
  then have "last (available_swings swings c d) \<in> set (available_swings swings c d)"
    by (rule last_in_set)
  then have "last (available_swings swings c d) \<in> set swings" "sw_confirmed_at (last (available_swings swings c d)) < closed_at c"
    by (auto simp: available_swings_def)
  with False assms show ?thesis
    by (simp add: structure_direction_def Let_def examine_swing_inv)
qed (simp add: structure_direction_def assms)

lemma structure_candle_inv:
  "structure_inv swings candles st \<Longrightarrow> c \<in> set candles \<Longrightarrow> structure_inv swings candles (structure_candle config scope swings ds st c)"
  by (simp add: structure_candle_def directions_def structure_direction_inv)

lemma initial_structure_inv: "structure_inv swings candles initial_structure"
  by (simp add: structure_inv_def initial_structure_def breaks_def last_direction_def)

lemma scan_structure_inv: "structure_inv swings candles (scan_structure candles swings ds config scope)"
  unfolding scan_structure_def
  by (rule foldl_invariant [where P = "structure_inv swings candles", OF initial_structure_inv structure_candle_inv])

text \<open>C31: Every structure event is justified: a swing that was confirmed strictly before the event's candle
  closed is closed through by that candle, and the event carries its level and the direction of the
  break.  A swing is broken once: no two breaks (structure shifts apart) name the same swing.\<close>

theorem structure_events_are_justified:
  "(\<forall>e \<in> set (fst (structure_and_sweeps candles swings ds config scope)). justified swings candles e)
   \<and> distinct (map event_key (breaks (fst (structure_and_sweeps candles swings ds config scope))))"
  using scan_structure_inv [of swings candles ds config scope]
  by (simp add: structure_inv_def structure_and_sweeps_def Let_def)

text \<open>A sample: a swing high at 100 confirmed at the second minute, then a close above it and a close
  below a swing low at 98.\<close>

definition sample_candle :: "int \<Rightarrow> decimal \<Rightarrow> decimal \<Rightarrow> decimal \<Rightarrow> decimal \<Rightarrow> candle" where
  "sample_candle minute op hi lo cl =
     \<lparr>candle_instrument_id = 1, candle_timestamp = seconds (60 * minute), candle_timeframe_seconds = 60, candle_open = op,
      candle_high = hi, candle_low = lo, candle_close = cl, candle_volume = 1, candle_open_interest = None, candle_is_closed = True\<rparr>"

definition sample_swings :: "swing_point list" where
  "sample_swings =
     [swing_in EXTERNAL BEARISH 100 1 (sample_candle 0 99 100 98 99) (seconds 120) [],
      swing_in EXTERNAL BULLISH 98 1 (sample_candle 0 99 100 98 99) (seconds 120) []]"

definition sample_breaks :: "candle list" where
  "sample_breaks = [sample_candle 2 99 102 99 101, sample_candle 3 101 101 96 97]"

lemma sample_breaks_found:
  "map me_kind (breaks (fst (structure_and_sweeps sample_breaks sample_swings [] default_smc_config EXTERNAL)))
     = [BREAK_OF_STRUCTURE, CHANGE_OF_CHARACTER]"
  by (simp add: structure_and_sweeps_def scan_structure_def sample_breaks_def sample_swings_def structure_candle_def
      directions_def structure_direction_def available_swings_def Let_def examine_swing_def swing_swept_def swing_broken_def
      shift_events_def displacement_by_key_def swing_in_def sample_candle_def closed_at_def seconds_def
      default_smc_config_def dec_eval initial_structure_def breaks_def break_kind_def opposite_def swing_key_def)

theorem structure_events_are_justified_witness:
  "\<exists>e. e \<in> set (fst (structure_and_sweeps sample_breaks sample_swings [] default_smc_config EXTERNAL))
     \<and> justified sample_swings sample_breaks e"
proof -
  obtain e where "e \<in> set (breaks (fst (structure_and_sweeps sample_breaks sample_swings [] default_smc_config EXTERNAL)))"
    using sample_breaks_found by (cases "breaks (fst (structure_and_sweeps sample_breaks sample_swings [] default_smc_config EXTERNAL))") auto
  then have "e \<in> set (fst (structure_and_sweeps sample_breaks sample_swings [] default_smc_config EXTERNAL))"
    by (simp add: breaks_def)
  then show ?thesis
    using structure_events_are_justified [of sample_breaks sample_swings "[]" default_smc_config EXTERNAL] by blast
qed

lemma kinds_follow_nth:
  "kinds_follow trend es \<Longrightarrow> i < length es \<Longrightarrow>
     me_kind (es ! i) = break_kind (if i = 0 then trend else Some (me_direction (es ! (i - 1)))) (me_direction (es ! i))"
proof (induction trend es arbitrary: i rule: kinds_follow.induct)
  case (2 trend e es)
  then show ?case by (cases i) (auto split: if_splits)
qed simp

text \<open>A break is a change of character exactly when it goes against the break before it; the first
  break of a history and a break in the direction of the previous one continue the structure.\<close>

theorem change_of_character_reverses_the_last_break:
  assumes "bs = breaks (fst (structure_and_sweeps candles swings ds config scope))" and "i < length bs"
  shows "me_kind (bs ! i) =
    (if 0 < i \<and> me_direction (bs ! (i - 1)) \<noteq> me_direction (bs ! i) then CHANGE_OF_CHARACTER else BREAK_OF_STRUCTURE)"
proof -
  have "kinds_follow None bs"
    using scan_structure_inv [of swings candles ds config scope] assms(1)
    by (simp add: structure_inv_def structure_and_sweeps_def Let_def)
  from kinds_follow_nth [OF this assms(2)] show ?thesis
    by (cases i) (simp_all add: break_kind_def)
qed

theorem change_of_character_reverses_the_last_break_witness:
  "me_kind (breaks (fst (structure_and_sweeps sample_breaks sample_swings [] default_smc_config EXTERNAL)) ! 0) = BREAK_OF_STRUCTURE"
proof -
  let ?bs = "breaks (fst (structure_and_sweeps sample_breaks sample_swings [] default_smc_config EXTERNAL))"
  have "length ?bs = 2"
    using arg_cong [OF sample_breaks_found, of length] by simp
  then show ?thesis
    using change_of_character_reverses_the_last_break [OF refl, of 0 sample_breaks sample_swings "[]" default_smc_config EXTERNAL] by simp
qed

section \<open>Ageing of a gap\<close>

definition after_gap :: "fair_value_gap \<Rightarrow> candle \<Rightarrow> bool" where
  "after_gap g c \<longleftrightarrow> fg_detected_at g < closed_at c"

lemma gap_invalidated_touched: "fg_lower g < fg_upper g \<Longrightarrow> gap_invalidated g c \<Longrightarrow> gap_touched g c"
  by (auto simp: gap_invalidated_def gap_touched_def split: if_splits)

lemma gap_inverted_invalidated: "candle_ok c \<Longrightarrow> gap_inverted g c \<Longrightarrow> gap_invalidated g c"
  using candle_okD [of c] by (auto simp: gap_inverted_def gap_invalidated_def split: if_splits)

lemma walk_gap_spec:
  assumes "fg_lower g < fg_upper g" and "\<forall>c \<in> set cs. candle_ok c"
  shows "walk_gap g m cs =
    (case m of None \<Rightarrow> map_option closed_at (List.find (\<lambda>c. after_gap g c \<and> gap_touched g c) cs) | Some t \<Rightarrow> Some t,
     map_option closed_at (List.find (\<lambda>c. after_gap g c \<and> gap_invalidated g c) cs),
     case List.find (\<lambda>c. after_gap g c \<and> gap_invalidated g c) cs of
       None \<Rightarrow> [] | Some c \<Rightarrow> if gap_inverted g c then [inverse_gap_of g c] else [])"
  using assms(2)
proof (induction cs arbitrary: m)
  case (Cons c cs)
  have "gap_inverted g c \<Longrightarrow> gap_invalidated g c" "gap_invalidated g c \<Longrightarrow> gap_touched g c"
    using Cons.prems gap_inverted_invalidated gap_invalidated_touched [OF assms(1)] by auto
  then show ?case
    using Cons by (cases "closed_at c \<le> fg_detected_at g"; cases "gap_invalidated g c"; cases "gap_touched g c"; cases m)
      (auto simp: after_gap_def Let_def)
qed (simp split: option.split)

lemma found_gap_bounds: "g \<in> set (find_fair_value_gaps cs config) \<Longrightarrow> fg_lower g < fg_upper g"
  by (auto simp: find_fair_value_gaps_def gaps_at_def gap_candidate_def Let_def split: if_splits)

text \<open>The lifecycle as the later candles decide it, without a loop.\<close>

definition first_after :: "fair_value_gap \<Rightarrow> (candle \<Rightarrow> bool) \<Rightarrow> candle list \<Rightarrow> candle option" where
  "first_after g P cs = List.find (\<lambda>c. after_gap g c \<and> P c) cs"

definition declared_gap :: "candle list \<Rightarrow> fair_value_gap \<Rightarrow> fair_value_gap" where
  "declared_gap cs g =
     (let touched = first_after g (gap_touched g) cs; through = first_after g (gap_invalidated g) cs
      in g\<lparr>fg_status := (if through \<noteq> None then GAP_INVALIDATED else if touched \<noteq> None then GAP_MITIGATED else GAP_ACTIVE),
           fg_mitigated_at := map_option closed_at touched, fg_invalidated_at := map_option closed_at through\<rparr>)"

definition declared_inverse :: "candle list \<Rightarrow> fair_value_gap \<Rightarrow> inverse_fair_value_gap list" where
  "declared_inverse cs g =
     (case first_after g (gap_invalidated g) cs of
        None \<Rightarrow> [] | Some c \<Rightarrow> if gap_inverted g c then [inverse_gap_of g c] else [])"

text \<open>The early-exit loop that ages the fair value gaps computes what the candles after each gap say: a gap
  is mitigated by the first later candle that enters it and invalidated by the first later candle that
  trades through it, only candles after its detection count, and it leaves an inverse gap exactly when
  that candle also closes beyond it.\<close>

theorem gap_lifecycle_matches_specification:
  assumes "\<forall>c \<in> set cs. candle_ok c"
  shows "gap_lifecycle cs (find_fair_value_gaps cs config) =
    (map (declared_gap cs) (find_fair_value_gaps cs config), concat (map (declared_inverse cs) (find_fair_value_gaps cs config)))"
proof -
  have "aged_gap cs g = declared_gap cs g \<and> snd (snd (walk_gap g None cs)) = declared_inverse cs g"
    if "g \<in> set (find_fair_value_gaps cs config)" for g
    by (simp add: aged_gap_def declared_gap_def declared_inverse_def first_after_def Let_def gap_status_of_def
        walk_gap_spec [OF found_gap_bounds [OF that] assms])
  then show ?thesis
    by (simp add: gap_lifecycle_def cong: map_cong)
qed

definition sample_gap :: "candle list" where
  "sample_gap = [sample_candle 0 8 8 7 8, sample_candle 1 8 14 8 14, sample_candle 2 14 15 12 15]"

lemma sample_gap_found: "map fg_lower (find_fair_value_gaps sample_gap default_smc_config) = [8]"
  by (simp add: find_fair_value_gaps_def gaps_at_def gap_candidate_def sample_gap_def sample_candle_def
      default_smc_config_def dec_eval upt_rec numeral_nat)

theorem gap_lifecycle_matches_specification_witness:
  "fst (gap_lifecycle sample_gap (find_fair_value_gaps sample_gap default_smc_config))
     = map (declared_gap sample_gap) (find_fair_value_gaps sample_gap default_smc_config)
   \<and> find_fair_value_gaps sample_gap default_smc_config \<noteq> []"
proof -
  have "\<forall>c \<in> set sample_gap. candle_ok c"
    by (simp add: sample_gap_def sample_candle_def candle_ok_def candle_fields_ok_def)
  from gap_lifecycle_matches_specification [OF this] sample_gap_found show ?thesis
    by (metis fst_conv list.simps(8) not_Cons_self2)
qed

end
