(* ===== verification/Smc_Analysis.thy ===== *)
theory Smc_Analysis
  imports Smc_Causality Smc_Invariants
begin

text \<open>
  \<open>analyze\<close> of \<open>packages/smc_ict/engine.py\<close>: the result record, the chart overlays with their
  labels and colours, and the composition of the detectors, followed by the properties of the whole
  analysis: it raises on malformed candle histories only, and it does not repaint.
\<close>

section \<open>Values of the enumerations\<close>

fun direction_value :: "direction \<Rightarrow> string" where
  "direction_value BULLISH = ''bullish''"
| "direction_value BEARISH = ''bearish''"

fun structure_kind_value :: "structure_kind \<Rightarrow> string" where
  "structure_kind_value BREAK_OF_STRUCTURE = ''break_of_structure''"
| "structure_kind_value CHANGE_OF_CHARACTER = ''change_of_character''"
| "structure_kind_value MARKET_STRUCTURE_SHIFT = ''market_structure_shift''"

fun scope_value :: "structure_scope \<Rightarrow> string" where
  "scope_value INTERNAL = ''internal''"
| "scope_value EXTERNAL = ''external''"

fun side_value :: "liquidity_side \<Rightarrow> string" where
  "side_value BUY_SIDE = ''buy_side''"
| "side_value SELL_SIDE = ''sell_side''"

fun gap_status_value :: "gap_status \<Rightarrow> string" where
  "gap_status_value GAP_ACTIVE = ''active''"
| "gap_status_value GAP_MITIGATED = ''mitigated''"
| "gap_status_value GAP_INVALIDATED = ''invalidated''"

fun block_kind_value :: "block_kind \<Rightarrow> string" where
  "block_kind_value ORDER_BLOCK = ''order_block''"
| "block_kind_value MITIGATION_BLOCK = ''mitigation_block''"
| "block_kind_value BREAKER_BLOCK = ''breaker_block''"

fun reference_kind_value :: "reference_kind \<Rightarrow> string" where
  "reference_kind_value PREVIOUS_DAY_HIGH = ''previous_day_high''"
| "reference_kind_value PREVIOUS_DAY_LOW = ''previous_day_low''"
| "reference_kind_value PREVIOUS_WEEK_HIGH = ''previous_week_high''"
| "reference_kind_value PREVIOUS_WEEK_LOW = ''previous_week_low''"
| "reference_kind_value SESSION_HIGH = ''session_high''"
| "reference_kind_value SESSION_LOW = ''session_low''"

fun zone_kind_value :: "zone_kind \<Rightarrow> string" where
  "zone_kind_value PREMIUM = ''premium''"
| "zone_kind_value DISCOUNT = ''discount''"
| "zone_kind_value BULLISH_OTE = ''bullish_ote''"
| "zone_kind_value BEARISH_OTE = ''bearish_ote''"

text \<open>\<open>value.replace('_', ' ')\<close>.\<close>

definition spaced :: "string \<Rightarrow> string" where
  "spaced s = map (\<lambda>c. if c = CHR ''_'' then CHR '' '' else c) s"

section \<open>Overlays\<close>

record overlay =
  ov_kind :: string
  ov_start :: instant
  ov_end :: instant
  ov_lower :: decimal
  ov_upper :: decimal
  ov_label :: string
  ov_color :: string

definition make_overlay :: "string \<Rightarrow> instant \<Rightarrow> instant \<Rightarrow> decimal \<Rightarrow> decimal \<Rightarrow> string \<Rightarrow> string \<Rightarrow> overlay" where
  "make_overlay k s e l u lab col =
     \<lparr>ov_kind = k, ov_start = s, ov_end = e, ov_lower = l, ov_upper = u, ov_label = lab, ov_color = col\<rparr>"

definition by_direction :: "direction \<Rightarrow> string \<Rightarrow> string \<Rightarrow> string" where
  "by_direction d bullish bearish = (if d = BULLISH then bullish else bearish)"

text \<open>\<open>x or y\<close> on optional datetimes (a datetime is always true).\<close>

fun or_else :: "instant option \<Rightarrow> instant \<Rightarrow> instant" where
  "or_else (Some t) d = t"
| "or_else None d = d"

definition swing_overlay :: "swing_point \<Rightarrow> overlay" where
  "swing_overlay x = make_overlay ''swing'' (sw_candle_timestamp x) (sw_confirmed_at x) (sw_price x) (sw_price x)
     (''confirmed '' @ scope_value (sw_scope x) @ '' '' @ direction_value (sw_direction x) @ '' swing'')
     (by_direction (sw_direction x) ''#22c55e'' ''#ef4444'')"

definition block_overlay :: "instant option \<Rightarrow> price_block \<Rightarrow> overlay" where
  "block_overlay as_of x = make_overlay (block_kind_value (pb_kind x)) (pb_origin_timestamp x)
     (or_else (pb_invalidated_at x) (or_else as_of (pb_detected_at x))) (pb_lower x) (pb_upper x)
     (direction_value (pb_direction x) @ '' '' @ spaced (block_kind_value (pb_kind x)))
     (by_direction (pb_direction x) ''#22c55e'' ''#ef4444'')"

definition reference_overlay :: "instant option \<Rightarrow> reference_level \<Rightarrow> overlay" where
  "reference_overlay as_of x = make_overlay (reference_kind_value (rl_kind x)) (rl_available_at x)
     (or_else as_of (rl_available_at x)) (rl_price x) (rl_price x) (spaced (reference_kind_value (rl_kind x))) ''#64748b''"

definition zone_overlay :: "instant option \<Rightarrow> price_zone \<Rightarrow> overlay" where
  "zone_overlay as_of x = make_overlay (zone_kind_value (pz_kind x)) (pz_available_at x)
     (or_else as_of (pz_available_at x)) (pz_lower x) (pz_upper x) (spaced (zone_kind_value (pz_kind x)))
     (if pz_kind x = DISCOUNT then ''#0ea5e9'' else ''#f59e0b'')"

definition displacement_overlay :: "displacement \<Rightarrow> overlay" where
  "displacement_overlay x = make_overlay ''displacement'' (di_detected_at x) (di_detected_at x) (di_low x) (di_high x)
     (direction_value (di_direction x) @ '' displacement'') (by_direction (di_direction x) ''#14b8a6'' ''#fb7185'')"

definition equal_overlay :: "instant option \<Rightarrow> equal_level \<Rightarrow> overlay" where
  "equal_overlay as_of x = make_overlay ''equal_levels'' (fst (eq_swing_timestamps x))
     (or_else as_of (eq_detected_at x)) (eq_lower x) (eq_upper x) (spaced (side_value (eq_side x))) ''#eab308''"

definition structure_overlay :: "market_structure_event \<Rightarrow> overlay" where
  "structure_overlay x = make_overlay (structure_kind_value (me_kind x)) (me_swing_timestamp x) (me_detected_at x)
     (me_level x) (me_level x) (scope_value (me_scope x) @ '' '' @ spaced (structure_kind_value (me_kind x)))
     (by_direction (me_direction x) ''#3b82f6'' ''#f97316'')"

definition gap_overlay :: "instant option \<Rightarrow> fair_value_gap \<Rightarrow> overlay" where
  "gap_overlay as_of x = make_overlay ''fair_value_gap'' (hd (fg_evidence x))
     (or_else (fg_invalidated_at x) (or_else as_of (fg_detected_at x))) (fg_lower x) (fg_upper x)
     (direction_value (fg_direction x) @ '' FVG ('' @ gap_status_value (fg_status x) @ '')'')
     (by_direction (fg_direction x) ''#10b981'' ''#f43f5e'')"

definition inverse_overlay :: "instant option \<Rightarrow> inverse_fair_value_gap \<Rightarrow> overlay" where
  "inverse_overlay as_of x = make_overlay ''inverse_fair_value_gap'' (ig_detected_at x)
     (or_else as_of (ig_detected_at x)) (ig_lower x) (ig_upper x)
     (direction_value (ig_direction x) @ '' IFVG'') (by_direction (ig_direction x) ''#06b6d4'' ''#e11d48'')"

definition sweep_overlay :: "liquidity_sweep \<Rightarrow> overlay" where
  "sweep_overlay x = make_overlay ''liquidity_sweep'' (ls_swing_timestamp x) (ls_detected_at x)
     (min (ls_level x) (ls_extreme x)) (max (ls_level x) (ls_extreme x))
     (direction_value (ls_direction x) @ '' liquidity sweep'') ''#a855f7''"

section \<open>The analysis\<close>

record analysis_result =
  an_rule_version :: string
  an_as_of :: "instant option"
  an_swings :: "swing_point list"
  an_internal_swings :: "swing_point list"
  an_internal_structure :: "market_structure_event list"
  an_displacements :: "displacement list"
  an_equal_levels :: "equal_level list"
  an_reference_levels :: "reference_level list"
  an_price_zones :: "price_zone list"
  an_active_kill_zones :: "string list"
  an_price_blocks :: "price_block list"
  an_structure :: "market_structure_event list"
  an_fair_value_gaps :: "fair_value_gap list"
  an_inverse_fair_value_gaps :: "inverse_fair_value_gap list"
  an_liquidity_sweeps :: "liquidity_sweep list"
  an_overlays :: "overlay list"

definition overlays ::
  "swing_point list \<Rightarrow> swing_point list \<Rightarrow> displacement list \<Rightarrow> equal_level list \<Rightarrow> reference_level list \<Rightarrow> price_zone list
   \<Rightarrow> price_block list \<Rightarrow> market_structure_event list \<Rightarrow> market_structure_event list \<Rightarrow> fair_value_gap list
   \<Rightarrow> inverse_fair_value_gap list \<Rightarrow> liquidity_sweep list \<Rightarrow> instant option \<Rightarrow> overlay list" where
  "overlays swings internal_swings ds equals refs zones blocks structure internal_structure gaps inverses sweeps as_of =
     map swing_overlay (swings @ internal_swings) @ map (block_overlay as_of) blocks @ map (reference_overlay as_of) refs
     @ map (zone_overlay as_of) zones @ map displacement_overlay ds @ map (equal_overlay as_of) equals
     @ map structure_overlay (structure @ internal_structure) @ map (gap_overlay as_of) gaps
     @ map (inverse_overlay as_of) inverses @ map sweep_overlay sweeps"

text \<open>The local time of day of the configured kill zones, all of them in Indian time.\<close>

definition india_time :: "string \<Rightarrow> instant \<Rightarrow> rat" where
  "india_time zone t = of_int ((t + ist_offset) mod day_length) / 1000000"

definition analyze :: "candle list \<Rightarrow> smc_config option \<Rightarrow> analysis_result result" where
  "analyze candles config =
     (let rules = (case config of None \<Rightarrow> default_smc_config | Some c \<Rightarrow> c);
          as_of = (if candles = [] then None else Some (closed_at (last candles)))
      in rbind (validate_smc candles) (\<lambda>_.
         let swings = find_swings candles (smc_swing_left rules) (smc_swing_right rules) EXTERNAL;
             internal_swings = find_swings candles (smc_internal_swing_left rules) (smc_internal_swing_right rules) INTERNAL;
             ds = find_displacements candles rules;
             equals = find_equal_levels swings rules;
             refs = find_reference_levels candles;
             zones = find_price_zones swings;
             gap_pair = gap_lifecycle candles (find_fair_value_gaps candles rules);
             scan = structure_and_sweeps candles swings ds rules EXTERNAL;
             internal_structure = fst (structure_and_sweeps candles internal_swings ds rules INTERNAL)
         in rbind (find_price_blocks candles (fst scan) ds rules) (\<lambda>blocks.
            rbind (case as_of of None \<Rightarrow> Inr [] | Some t \<Rightarrow> active_kill_zones india_time (Aware t) default_kill_zones) (\<lambda>zones_now.
            Inr \<lparr>an_rule_version = smc_rule_version rules, an_as_of = as_of, an_swings = swings,
                 an_internal_swings = internal_swings, an_internal_structure = internal_structure, an_displacements = ds,
                 an_equal_levels = equals, an_reference_levels = refs, an_price_zones = zones,
                 an_active_kill_zones = zones_now, an_price_blocks = blocks, an_structure = fst scan,
                 an_fair_value_gaps = fst gap_pair, an_inverse_fair_value_gaps = snd gap_pair,
                 an_liquidity_sweeps = snd scan,
                 an_overlays = overlays swings internal_swings ds equals refs zones blocks (fst scan) internal_structure
                   (fst gap_pair) (snd gap_pair) (snd scan) as_of\<rparr>))))"

text \<open>What a successful analysis holds, field by field.\<close>

definition rules_of :: "smc_config option \<Rightarrow> smc_config" where
  "rules_of config = (case config of None \<Rightarrow> default_smc_config | Some c \<Rightarrow> c)"

lemma analyze_fields:
  assumes "analyze cs config = Inr r"
  shows "strict_closes cs"
    and "an_swings r = find_swings cs (smc_swing_left (rules_of config)) (smc_swing_right (rules_of config)) EXTERNAL"
    and "an_internal_swings r =
      find_swings cs (smc_internal_swing_left (rules_of config)) (smc_internal_swing_right (rules_of config)) INTERNAL"
    and "an_displacements r = find_displacements cs (rules_of config)"
    and "an_structure r = ss_structure (structure_of (rules_of config) EXTERNAL (smc_swing_left (rules_of config)) (smc_swing_right (rules_of config)) cs)"
    and "an_liquidity_sweeps r = ss_sweeps (structure_of (rules_of config) EXTERNAL (smc_swing_left (rules_of config)) (smc_swing_right (rules_of config)) cs)"
    and "an_internal_structure r = ss_structure (structure_of (rules_of config) INTERNAL (smc_internal_swing_left (rules_of config))
      (smc_internal_swing_right (rules_of config)) cs)"
  using assms
  by (auto simp: analyze_def Let_def rbind_eq_Inr rules_of_def structure_of_def structure_and_sweeps_def intro: validated_closes)

lemma analysis_validates: "analyze cs config = Inr r \<Longrightarrow> validate_smc cs = Inr ()"
  by (auto simp: analyze_def Let_def rbind_eq_Inr)

section \<open>When the analysis raises\<close>

lemma candle_index_found: "t \<in> closed_at ` set cs \<Longrightarrow> \<exists>n. candle_index cs t = Inr n"
  by (auto simp: candle_index_def find_None_iff in_set_conv_nth split: option.split)

lemma source_block_returns:
  "me_detected_at e \<in> closed_at ` set cs \<Longrightarrow> \<exists>acc'. source_block cs ds config acc e = Inr acc'"
  using candle_index_found [of "me_detected_at e" cs]
  by (auto simp: source_block_def Let_def split: prod.split option.split)

lemma source_blocks_return:
  "\<forall>e \<in> set es. me_detected_at e \<in> closed_at ` set cs \<Longrightarrow> \<exists>acc'. rfold (source_block cs ds config) acc es = Inr acc'"
proof (induction es arbitrary: acc)
  case (Cons e es)
  obtain acc' where "source_block cs ds config acc e = Inr acc'"
    using source_block_returns Cons.prems by (metis list.set_intros(1))
  with Cons show ?case by simp
qed simp

lemma price_blocks_return:
  assumes "strict_closes cs"
  shows "\<exists>blocks. find_price_blocks cs (ss_structure (structure_of config scope l r cs)) ds config' = Inr blocks"
proof -
  have "\<forall>e \<in> set (ss_structure (structure_of config scope l r cs)). me_detected_at e \<in> closed_at ` set cs"
    using structure_detector.stamped [OF assms] by blast
  from source_blocks_return [OF this, of ds config' "([], [])"] show ?thesis
    by (auto simp: find_price_blocks_def)
qed

lemma kill_zones_return: "\<exists>zs. active_kill_zones f (Aware t) zones = Inr zs"
  by (simp add: active_kill_zones_def)

lemma analyze_returns:
  assumes "validate_smc cs = Inr ()"
  shows "\<exists>r. analyze cs config = Inr r"
proof -
  define rules where "rules = rules_of config"
  let ?st = "structure_of rules EXTERNAL (smc_swing_left rules) (smc_swing_right rules) cs"
  obtain blocks where "find_price_blocks cs (ss_structure ?st) (find_displacements cs rules) rules = Inr blocks"
    using price_blocks_return [OF validated_closes [OF assms]] by blast
  moreover obtain zs where "(case if cs = [] then None else Some (closed_at (last cs)) of None \<Rightarrow> Inr []
      | Some t \<Rightarrow> active_kill_zones india_time (Aware t) default_kill_zones) = Inr zs"
    using kill_zones_return [of india_time "closed_at (last cs)" default_kill_zones] by (cases "cs = []") auto
  ultimately show ?thesis
    using assms by (auto simp: analyze_def Let_def structure_and_sweeps_def structure_of_def rules_def rules_of_def)
qed

text \<open>The analysis raises exactly when the candle validation does, with the same error: the
  lookup of the candle an event closed on never misses and the kill-zone timestamp is always aware.\<close>

theorem analysis_raises_only_on_bad_candles:
  "analyze cs config = Inl e \<longleftrightarrow> validate_smc cs = Inl e"
proof (cases "validate_smc cs")
  case (Inl a)
  then show ?thesis by (auto simp: analyze_def Let_def)
next
  case (Inr u)
  then show ?thesis using analyze_returns [of cs config] by auto
qed

section \<open>No repainting\<close>

lemma validate_from_prefix: "validate_smc_from i tf p (cs @ rest) = Inr () \<Longrightarrow> validate_smc_from i tf p cs = Inr ()"
  by (induction cs arbitrary: p) (auto split: if_splits)

lemma validate_prefix: "validate_smc (cs @ rest) = Inr () \<Longrightarrow> validate_smc cs = Inr ()"
proof (cases cs)
  case (Cons c cs')
  assume "validate_smc (cs @ rest) = Inr ()"
  with Cons show ?thesis
    using validate_from_prefix [of "candle_instrument_id c" "candle_timeframe_seconds c" None cs rest]
    by (simp add: validate_smc_def)
qed (simp add: validate_smc_def)

text \<open>C25: The analysis does not repaint.  When the history grows, the analysis at the earlier
  candle still exists, and everything the later analysis says was known by the earlier close is
  exactly what the earlier analysis said: swings, internal swings, displacements, structure events,
  internal structure events and liquidity sweeps.\<close>

theorem analysis_does_not_repaint:
  assumes "analyze (cs @ rest) config = Inr r'" and "cs \<noteq> []"
  shows "\<exists>r. analyze cs config = Inr r
    \<and> filter (\<lambda>s. sw_confirmed_at s \<le> closed_at (last cs)) (an_swings r') = an_swings r
    \<and> filter (\<lambda>s. sw_confirmed_at s \<le> closed_at (last cs)) (an_internal_swings r') = an_internal_swings r
    \<and> filter (\<lambda>x. di_detected_at x \<le> closed_at (last cs)) (an_displacements r') = an_displacements r
    \<and> filter (\<lambda>e. me_detected_at e \<le> closed_at (last cs)) (an_structure r') = an_structure r
    \<and> filter (\<lambda>e. me_detected_at e \<le> closed_at (last cs)) (an_internal_structure r') = an_internal_structure r
    \<and> filter (\<lambda>x. ls_detected_at x \<le> closed_at (last cs)) (an_liquidity_sweeps r') = an_liquidity_sweeps r"
proof -
  have "validate_smc (cs @ rest) = Inr ()"
    using assms(1) analysis_validates by blast
  then obtain r where r: "analyze cs config = Inr r"
    using analyze_returns validate_prefix by blast
  note fields = analyze_fields [OF r] analyze_fields [OF assms(1)]
  note cut = swing_detector.point_in_time [OF fields(8) assms(2)] displacement_detector.point_in_time [OF fields(8) assms(2)]
    structure_detector.point_in_time [OF fields(8) assms(2)] sweep_detector.point_in_time [OF fields(8) assms(2)]
  show ?thesis
    by (intro exI [of _ r] conjI r) (simp_all only: fields(2-7,9-14) cut)
qed

definition sample_pivot :: "candle list" where
  "sample_pivot = [sample_candle 0 9 10 8 9, sample_candle 1 9 12 9 11, sample_candle 2 11 11 10 10]"

lemma sample_pivot_swings: "find_swings sample_pivot 1 1 INTERNAL \<noteq> []"
  by (simp add: find_swings_def swings_at_def swings_of_def sample_pivot_def sample_candle_def Let_def upt_rec numeral_nat)

theorem analysis_does_not_repaint_witness:
  "\<exists>r r'. analyze (sample_pivot @ [sample_candle 3 10 11 9 10]) None = Inr r' \<and> analyze sample_pivot None = Inr r
     \<and> filter (\<lambda>s. sw_confirmed_at s \<le> closed_at (last sample_pivot)) (an_internal_swings r') = an_internal_swings r
     \<and> an_internal_swings r \<noteq> []"
proof -
  have "validate_smc (sample_pivot @ [sample_candle 3 10 11 9 10]) = Inr ()"
    by (simp add: validate_smc_def sample_pivot_def sample_candle_def seconds_def)
  then obtain r' where r': "analyze (sample_pivot @ [sample_candle 3 10 11 9 10]) None = Inr r'"
    using analyze_returns by blast
  have "sample_pivot \<noteq> []"
    by (simp add: sample_pivot_def)
  from analysis_does_not_repaint [OF r' this] obtain r where r: "analyze sample_pivot None = Inr r"
    "filter (\<lambda>s. sw_confirmed_at s \<le> closed_at (last sample_pivot)) (an_internal_swings r') = an_internal_swings r"
    by blast
  have "an_internal_swings r = find_swings sample_pivot 1 1 INTERNAL"
    using analyze_fields(3) [OF r(1)] by (simp add: rules_of_def default_smc_config_def)
  with r r' sample_pivot_swings show ?thesis
    by auto
qed

end
