(* ===== verification/Option_Chain.thy ===== *)
theory Option_Chain
  imports Domain Market_Clock
begin

text \<open>
  The option-chain models of \<open>packages/domain/models.py\<close>: instruments, quotes, option contracts,
  Greeks and chains, with the field constraints and validators as predicates and constructors.
\<close>

datatype market_segment = CASH | FUTURES | OPTIONS

record instrument =
  in_id :: uuid
  in_symbol :: string
  in_exchange :: exchange
  in_segment :: market_segment
  in_isin :: "string option"
  in_tick_size :: decimal
  in_lot_size :: int
  in_currency :: string
  in_active :: bool

definition upper_letter :: "char \<Rightarrow> bool" where
  "upper_letter c = (let n = (of_char c :: nat) in 65 \<le> n \<and> n \<le> 90)"

definition instrument_ok :: "instrument \<Rightarrow> bool" where
  "instrument_ok i \<longleftrightarrow>
     1 \<le> length (in_symbol i) \<and> length (in_symbol i) \<le> 64
     \<and> (case in_isin i of None \<Rightarrow> True | Some s \<Rightarrow> length s \<le> 12)
     \<and> 0 < in_tick_size i \<and> 0 < in_lot_size i
     \<and> length (in_currency i) = 3 \<and> list_all upper_letter (in_currency i)"

record quote =
  qu_instrument_id :: uuid
  qu_timestamp :: instant
  qu_bid :: decimal
  qu_ask :: decimal
  qu_bid_quantity :: decimal
  qu_ask_quantity :: decimal
  qu_last :: "decimal option"

definition quote_fields_ok :: "quote \<Rightarrow> bool" where
  "quote_fields_ok q \<longleftrightarrow>
     0 < qu_bid q \<and> 0 < qu_ask q \<and> 0 \<le> qu_bid_quantity q \<and> 0 \<le> qu_ask_quantity q
     \<and> (case qu_last q of None \<Rightarrow> True | Some p \<Rightarrow> 0 < p)"

definition validate_spread :: "quote \<Rightarrow> quote result" where
  "validate_spread q = (if qu_ask q < qu_bid q then Inl (ValueError ''ask must not be below bid'') else Inr q)"

definition make_quote :: "quote \<Rightarrow> quote result" where
  "make_quote q = (if quote_fields_ok q then validate_spread q else Inl (ValueError ''quote field constraint violated''))"

definition quote_ok :: "quote \<Rightarrow> bool" where
  "quote_ok q \<longleftrightarrow> quote_fields_ok q \<and> qu_bid q \<le> qu_ask q"

lemma make_quote_ok: "make_quote q = Inr q' \<longleftrightarrow> q' = q \<and> quote_ok q"
  by (auto simp: make_quote_def validate_spread_def quote_ok_def)

record option_contract =
  oc_instrument :: instrument
  oc_underlying_id :: uuid
  oc_expiry :: int
  oc_strike :: decimal
  oc_option_type :: option_type

record greeks =
  gk_delta :: decimal
  gk_gamma :: decimal
  gk_theta :: decimal
  gk_vega :: decimal
  gk_rho :: decimal
  gk_implied_volatility :: decimal
  gk_calculated_at :: instant
  gk_model :: string

record option_chain_entry =
  en_contract :: option_contract
  en_quote :: quote
  en_open_interest :: decimal
  en_change_in_open_interest :: decimal
  en_volume :: decimal
  en_greeks :: "greeks option"

record option_chain =
  ch_underlying_id :: uuid
  ch_expiry :: int
  ch_timestamp :: instant
  ch_entries :: "option_chain_entry list"

definition entry_ok :: "option_chain_entry \<Rightarrow> bool" where
  "entry_ok e \<longleftrightarrow>
     instrument_ok (oc_instrument (en_contract e)) \<and> 0 < oc_strike (en_contract e) \<and> quote_ok (en_quote e)
     \<and> 0 \<le> en_open_interest e \<and> 0 \<le> en_volume e
     \<and> (case en_greeks e of None \<Rightarrow> True | Some g \<Rightarrow> 0 \<le> gk_implied_volatility g)"

definition chain_ok :: "option_chain \<Rightarrow> bool" where
  "chain_ok c \<longleftrightarrow> list_all entry_ok (ch_entries c)"

end
