(* ===== verification/Float_Ops.thy ===== *)
theory Float_Ops
  imports Prelude
begin

text \<open>
  Python's binary floating point, as the operations the program uses of it.  The numbers are an
  arbitrary type and the IEEE 754 operations are the fields of a record, so a theorem about a
  function that takes the record holds whatever the rounding is.  The checks Python itself adds
  are written out: a division by zero raises, and the functions of \<open>math\<close> (and a power) return a
  result because they raise on a domain error or an overflow.  \<open>f_sum\<close> is the built-in \<open>sum\<close>, which
  compensates rounding errors and is not a left fold of additions.
\<close>

record 'f float_ops =
  f_of_int :: "int \<Rightarrow> 'f"
  f_of_rat :: "rat \<Rightarrow> 'f"
  f_to_rat :: "'f \<Rightarrow> rat"
  f_add :: "'f \<Rightarrow> 'f \<Rightarrow> 'f"
  f_sub :: "'f \<Rightarrow> 'f \<Rightarrow> 'f"
  f_mul :: "'f \<Rightarrow> 'f \<Rightarrow> 'f"
  f_div :: "'f \<Rightarrow> 'f \<Rightarrow> 'f"
  f_neg :: "'f \<Rightarrow> 'f"
  f_abs :: "'f \<Rightarrow> 'f"
  f_sum :: "'f list \<Rightarrow> 'f"
  f_less :: "'f \<Rightarrow> 'f \<Rightarrow> bool"
  f_leq :: "'f \<Rightarrow> 'f \<Rightarrow> bool"
  f_eq :: "'f \<Rightarrow> 'f \<Rightarrow> bool"
  f_finite :: "'f \<Rightarrow> bool"
  f_pi :: 'f
  f_square :: "'f \<Rightarrow> 'f result"
  f_sqrt :: "'f \<Rightarrow> 'f result"
  f_exp :: "'f \<Rightarrow> 'f result"
  f_log :: "'f \<Rightarrow> 'f result"
  f_erf :: "'f \<Rightarrow> 'f"

text \<open>\<open>x / y\<close>.\<close>

definition fdivide :: "('f, 'm) float_ops_scheme \<Rightarrow> 'f \<Rightarrow> 'f \<Rightarrow> 'f result" where
  "fdivide F x y = (if f_eq F y (f_of_int F 0) then Inl DivisionByZero else Inr (f_div F x y))"

text \<open>\<open>bool(x)\<close>.\<close>

definition ftrue :: "('f, 'm) float_ops_scheme \<Rightarrow> 'f \<Rightarrow> bool" where
  "ftrue F x = (\<not> f_eq F x (f_of_int F 0))"

text \<open>\<open>max(x, y)\<close> keeps the first argument unless the second is greater; \<open>min\<close> likewise.\<close>

definition fmax :: "('f, 'm) float_ops_scheme \<Rightarrow> 'f \<Rightarrow> 'f \<Rightarrow> 'f" where
  "fmax F x y = (if f_less F x y then y else x)"

definition fmin :: "('f, 'm) float_ops_scheme \<Rightarrow> 'f \<Rightarrow> 'f \<Rightarrow> 'f" where
  "fmin F x y = (if f_less F y x then y else x)"

text \<open>\<open>max(xs)\<close> and \<open>min(xs)\<close> of a non-empty list.\<close>

definition flist_max :: "('f, 'm) float_ops_scheme \<Rightarrow> 'f list \<Rightarrow> 'f" where
  "flist_max F xs = foldl (fmax F) (hd xs) (tl xs)"

definition flist_min :: "('f, 'm) float_ops_scheme \<Rightarrow> 'f list \<Rightarrow> 'f" where
  "flist_min F xs = foldl (fmin F) (hd xs) (tl xs)"

text \<open>A Python number: an int or a float.\<close>

datatype 'f number = PyInt int | PyFloat 'f

text \<open>\<open>float(value)\<close>; an int that rounds to \<open>2 ** 1024\<close> or beyond overflows.\<close>

definition to_float :: "('f, 'm) float_ops_scheme \<Rightarrow> 'f number \<Rightarrow> 'f result" where
  "to_float F x = (case x of
       PyFloat v \<Rightarrow> Inr v
     | PyInt n \<Rightarrow> if \<bar>n\<bar> < 2 ^ 1024 - 2 ^ 970 then Inr (f_of_int F n) else Inl OverflowError)"

text \<open>Exact arithmetic on the rationals is one instance, for evaluating examples.\<close>

definition rat_ops :: "rat float_ops" where
  "rat_ops =
     \<lparr>f_of_int = of_int, f_of_rat = id, f_to_rat = id, f_add = (+), f_sub = (-), f_mul = (*), f_div = (/), f_neg = uminus,
      f_abs = abs, f_sum = sum_list, f_less = (<), f_leq = (\<le>), f_eq = (=), f_finite = (\<lambda>_. True), f_pi = 22 / 7,
      f_square = (\<lambda>x. Inr (x * x)), f_sqrt = Inr, f_exp = (\<lambda>x. Inr (1 + x)), f_log = (\<lambda>x. Inr (x - 1)), f_erf = id\<rparr>"

end
