(* ===== verification/Option_Analytics.thy ===== *)
theory Option_Analytics
  imports Option_Chain Float_Ops "HOL-Library.Product_Lexorder"
begin

text \<open>
  \<open>packages/options/analytics.py\<close>: the value types with their checks, the Black-Scholes baseline
  (in the program's binary floating point, over \<open>Float_Ops\<close>), implied volatility by bisection, chain
  analytics and contract selection, payoffs and the scenario margin estimate.  A Decimal of the
  model is finite, so the \<open>is_finite\<close> checks of the source always pass here.
\<close>

section \<open>Values\<close>

record black_scholes_result =
  bs_price :: decimal
  bs_delta :: decimal
  bs_gamma :: decimal
  bs_theta :: decimal
  bs_vega :: decimal
  bs_rho :: decimal

record liquidity_criteria =
  lc_minimum_volume :: decimal
  lc_minimum_open_interest :: decimal
  lc_maximum_spread_bps :: decimal
  lc_maximum_quote_age_seconds :: int

definition make_liquidity_criteria :: "liquidity_criteria \<Rightarrow> liquidity_criteria result" where
  "make_liquidity_criteria c =
     (if min (lc_minimum_volume c) (min (lc_minimum_open_interest c) (lc_maximum_spread_bps c)) < 0
      then Inl (ValueError ''liquidity thresholds cannot be negative'')
      else if lc_maximum_quote_age_seconds c \<le> 0 then Inl (ValueError ''maximum quote age must be positive'')
      else Inr c)"

record option_leg =
  leg_option_type :: option_type
  leg_strike :: decimal
  leg_quantity :: decimal
  leg_premium :: decimal

definition make_option_leg :: "option_leg \<Rightarrow> option_leg result" where
  "make_option_leg l =
     (if leg_strike l \<le> 0 \<or> leg_premium l < 0 \<or> leg_quantity l = 0 then Inl (ValueError ''invalid option leg'') else Inr l)"

record option_payoff =
  pay_underlying_at_expiry :: decimal
  pay_gross_payoff :: decimal

record option_position_risk =
  opr_quantity :: decimal
  opr_lot_size :: int
  opr_mark_price :: decimal
  opr_greeks :: greeks

definition make_option_position_risk :: "option_position_risk \<Rightarrow> option_position_risk result" where
  "make_option_position_risk p =
     (if opr_quantity p = 0 \<or> opr_lot_size p \<le> 0 \<or> opr_mark_price p < 0
      then Inl (ValueError ''invalid option position risk input'') else Inr p)"

record portfolio_greeks =
  pg_gross_options_exposure :: decimal
  pg_delta :: decimal
  pg_gamma :: decimal
  pg_theta :: decimal
  pg_vega :: decimal
  pg_rho :: decimal

record iv_observation =
  iv_observed_at :: instant
  iv_implied_volatility :: decimal

definition make_iv_observation :: "datetime \<Rightarrow> decimal \<Rightarrow> iv_observation result" where
  "make_iv_observation t v =
     (if \<not> is_aware t then Inl (ValueError ''IV observation timestamp must be timezone-aware'')
      else if v < 0 then Inl (ValueError ''implied volatility must be finite and non-negative'')
      else Inr \<lparr>iv_observed_at = instant_of t, iv_implied_volatility = v\<rparr>)"

record iv_percentile =
  ip_percentile :: decimal
  ip_observation_count :: nat
  ip_as_of :: instant

record greek_tolerances =
  gt_delta :: decimal
  gt_gamma :: decimal
  gt_theta :: decimal
  gt_vega :: decimal
  gt_rho :: decimal
  gt_implied_volatility :: decimal
  gt_maximum_age_seconds :: int

definition make_greek_tolerances :: "greek_tolerances \<Rightarrow> greek_tolerances result" where
  "make_greek_tolerances t =
     (if list_ex (\<lambda>v. v < 0) [gt_delta t, gt_gamma t, gt_theta t, gt_vega t, gt_rho t, gt_implied_volatility t]
      then Inl (ValueError ''Greek tolerances must be finite and non-negative'')
      else if gt_maximum_age_seconds t \<le> 0 then Inl (ValueError ''Greek maximum age must be positive'')
      else Inr t)"

record greek_comparison =
  gc_absolute_differences :: "(string \<times> decimal) list"
  gc_exceeded_tolerances :: "string list"

definition greeks_match :: "greek_comparison \<Rightarrow> bool" where
  "greeks_match c = (gc_exceeded_tolerances c = [])"

record expiry_criteria =
  ec_minimum_days :: int
  ec_maximum_days :: int
  ec_prefer_nearest :: bool

definition make_expiry_criteria :: "expiry_criteria \<Rightarrow> expiry_criteria result" where
  "make_expiry_criteria c =
     (if ec_minimum_days c < 0 then Inl (ValueError ''minimum days to expiry cannot be negative'')
      else if ec_maximum_days c < ec_minimum_days c then Inl (ValueError ''maximum days to expiry cannot precede minimum'')
      else Inr c)"

record option_margin_config =
  omc_spot_shocks :: "decimal list"
  omc_short_notional_floor_fraction :: decimal
  omc_model_version :: string

definition make_option_margin_config :: "option_margin_config \<Rightarrow> option_margin_config result" where
  "make_option_margin_config c =
     (if blank (omc_model_version c) \<or> omc_spot_shocks c = []
      then Inl (ValueError ''margin model version and spot shocks are required'')
      else if \<not> distinct (omc_spot_shocks c) then Inl (ValueError ''margin spot shocks must be unique'')
      else if list_ex (\<lambda>s. s \<le> -1) (omc_spot_shocks c)
      then Inl (ValueError ''margin spot shocks must be finite and greater than -1'')
      else if \<not> (0 \<le> omc_short_notional_floor_fraction c \<and> omc_short_notional_floor_fraction c \<le> 1)
      then Inl (ValueError ''short notional floor fraction must be in [0, 1]'')
      else Inr c)"

record option_margin_estimate =
  ome_required_margin :: decimal
  ome_premium_outlay :: decimal
  ome_maximum_scenario_loss :: decimal
  ome_short_notional_floor :: decimal
  ome_scenario_losses :: "(decimal \<times> decimal) list"
  ome_model_version :: string

section \<open>Portfolio Greeks\<close>

definition add_position :: "portfolio_greeks \<Rightarrow> option_position_risk \<Rightarrow> portfolio_greeks" where
  "add_position t p =
     (let units = dmul (opr_quantity p) (of_int (opr_lot_size p)); g = opr_greeks p
      in \<lparr>pg_gross_options_exposure = dadd (pg_gross_options_exposure t) (dmul (dabs units) (opr_mark_price p)),
          pg_delta = dadd (pg_delta t) (dmul units (gk_delta g)), pg_gamma = dadd (pg_gamma t) (dmul units (gk_gamma g)),
          pg_theta = dadd (pg_theta t) (dmul units (gk_theta g)), pg_vega = dadd (pg_vega t) (dmul units (gk_vega g)),
          pg_rho = dadd (pg_rho t) (dmul units (gk_rho g))\<rparr>)"

definition aggregate_portfolio_greeks :: "option_position_risk list \<Rightarrow> portfolio_greeks" where
  "aggregate_portfolio_greeks positions =
     foldl add_position \<lparr>pg_gross_options_exposure = 0, pg_delta = 0, pg_gamma = 0, pg_theta = 0, pg_vega = 0, pg_rho = 0\<rparr> positions"

section \<open>Implied-volatility percentile\<close>

definition implied_volatility_percentile ::
  "decimal \<Rightarrow> iv_observation list \<Rightarrow> datetime \<Rightarrow> int \<Rightarrow> iv_percentile result" where
  "implied_volatility_percentile current observations as_of minimum_observations =
     (if \<not> is_aware as_of then Inl (ValueError ''IV percentile timestamp must be timezone-aware'')
      else if current < 0 \<or> minimum_observations \<le> 0 then Inl (ValueError ''invalid IV percentile input'')
      else
        let available = filter (\<lambda>o'. iv_observed_at o' \<le> instant_of as_of) observations;
            rank = length (filter (\<lambda>o'. iv_implied_volatility o' \<le> current) available)
        in if \<not> distinct (map iv_observed_at available) then Inl (ValueError ''IV history contains duplicate timestamps'')
           else if int (length available) < minimum_observations
           then Inl (ValueError ''insufficient point-in-time IV history'')
           else rbind (ddiv (of_nat rank) (of_nat (length available))) (\<lambda>share.
                Inr \<lparr>ip_percentile = dmul share 100, ip_observation_count = length available, ip_as_of = instant_of as_of\<rparr>))"

section \<open>Broker Greeks\<close>

text \<open>\<open>(as_of - t).total_seconds()\<close> compared with whole seconds.\<close>

definition age_within :: "instant \<Rightarrow> instant \<Rightarrow> int \<Rightarrow> bool" where
  "age_within as_of t maximum \<longleftrightarrow> 0 \<le> as_of - t \<and> as_of - t \<le> seconds maximum"

definition greek_pairs ::
  "greeks \<Rightarrow> black_scholes_result \<Rightarrow> decimal \<Rightarrow> greek_tolerances \<Rightarrow> (string \<times> decimal \<times> decimal \<times> decimal) list" where
  "greek_pairs broker calculated calculated_iv t =
     [(''delta'', gk_delta broker, bs_delta calculated, gt_delta t),
      (''gamma'', gk_gamma broker, bs_gamma calculated, gt_gamma t),
      (''theta'', gk_theta broker, bs_theta calculated, gt_theta t),
      (''vega'', gk_vega broker, bs_vega calculated, gt_vega t),
      (''rho'', gk_rho broker, bs_rho calculated, gt_rho t),
      (''implied_volatility'', gk_implied_volatility broker, calculated_iv, gt_implied_volatility t)]"

definition compare_broker_greeks ::
  "greeks \<Rightarrow> black_scholes_result \<Rightarrow> decimal \<Rightarrow> datetime \<Rightarrow> greek_tolerances \<Rightarrow> greek_comparison result" where
  "compare_broker_greeks broker calculated calculated_iv as_of t =
     (if \<not> is_aware as_of then Inl (ValueError ''Greek comparison timestamp must be timezone-aware'')
      else if \<not> age_within (instant_of as_of) (gk_calculated_at broker) (gt_maximum_age_seconds t)
      then Inl (ValueError ''broker Greeks are stale or from the future'')
      else
        let pairs = greek_pairs broker calculated calculated_iv t in
        Inr \<lparr>gc_absolute_differences = map (\<lambda>(n, a, e, _). (n, dabs (dsub a e))) pairs,
             gc_exceeded_tolerances = map fst (filter (\<lambda>(n, a, e, tol). dabs (dsub a e) > tol) pairs)\<rparr>)"

section \<open>Black-Scholes baseline\<close>

definition normal_cdf :: "'f float_ops \<Rightarrow> 'f \<Rightarrow> 'f result" where
  "normal_cdf F value =
     rbind (f_sqrt F (f_of_rat F 2)) (\<lambda>root.
     rbind (fdivide F value root) (\<lambda>x.
     fdivide F (f_add F (f_of_rat F 1) (f_erf F x)) (f_of_rat F 2)))"

definition normal_pdf :: "'f float_ops \<Rightarrow> 'f \<Rightarrow> 'f result" where
  "normal_pdf F value =
     rbind (f_square F value) (\<lambda>square.
     rbind (fdivide F (f_neg F square) (f_of_rat F 2)) (\<lambda>x.
     rbind (f_exp F x) (\<lambda>e.
     rbind (f_sqrt F (f_mul F (f_of_rat F 2) (f_pi F))) (\<lambda>root.
     fdivide F e root))))"

record 'f bs_inputs =
  bi_s :: 'f
  bi_k :: 'f
  bi_t :: 'f
  bi_r :: 'f
  bi_sigma :: 'f
  bi_q :: 'f

record 'f bs_terms =
  bt_root_t :: 'f
  bt_d1 :: 'f
  bt_d2 :: 'f
  bt_discount_r :: 'f
  bt_discount_q :: 'f
  bt_pdf :: 'f
  bt_gamma :: 'f
  bt_vega :: 'f

definition bs_terms_of :: "'f float_ops \<Rightarrow> 'f bs_inputs \<Rightarrow> 'f bs_terms result" where
  "bs_terms_of F i =
     (let s = bi_s i; k = bi_k i; t = bi_t i; r = bi_r i; sigma = bi_sigma i; q = bi_q i in
      rbind (f_sqrt F t) (\<lambda>root_t.
      rbind (fdivide F s k) (\<lambda>ratio.
      rbind (f_log F ratio) (\<lambda>logarithm.
      rbind (fdivide F (f_mul F sigma sigma) (f_of_rat F 2)) (\<lambda>half_variance.
      rbind (fdivide F (f_add F logarithm (f_mul F (f_add F (f_sub F r q) half_variance) t)) (f_mul F sigma root_t)) (\<lambda>d1.
      let d2 = f_sub F d1 (f_mul F sigma root_t) in
      rbind (f_exp F (f_mul F (f_neg F r) t)) (\<lambda>discount_r.
      rbind (f_exp F (f_mul F (f_neg F q) t)) (\<lambda>discount_q.
      rbind (normal_pdf F d1) (\<lambda>pdf.
      rbind (fdivide F (f_mul F discount_q pdf) (f_mul F (f_mul F s sigma) root_t)) (\<lambda>gamma.
      Inr \<lparr>bt_root_t = root_t, bt_d1 = d1, bt_d2 = d2, bt_discount_r = discount_r, bt_discount_q = discount_q,
           bt_pdf = pdf, bt_gamma = gamma, bt_vega = f_mul F (f_mul F (f_mul F s discount_q) pdf) root_t\<rparr>))))))))))"

text \<open>The price, delta, theta and rho of a call.\<close>

definition bs_call :: "'f float_ops \<Rightarrow> 'f bs_inputs \<Rightarrow> 'f bs_terms \<Rightarrow> ('f \<times> 'f \<times> 'f \<times> 'f) result" where
  "bs_call F i m =
     (let s = bi_s i; k = bi_k i; t = bi_t i; r = bi_r i; sigma = bi_sigma i; q = bi_q i;
          dr = bt_discount_r m; dq = bt_discount_q m
      in rbind (normal_cdf F (bt_d1 m)) (\<lambda>n1.
         rbind (normal_cdf F (bt_d2 m)) (\<lambda>n2.
         rbind (fdivide F (f_neg F (f_mul F (f_mul F (f_mul F s dq) (bt_pdf m)) sigma)) (f_mul F (f_of_rat F 2) (bt_root_t m))) (\<lambda>decay.
         Inr (f_sub F (f_mul F (f_mul F s dq) n1) (f_mul F (f_mul F k dr) n2),
              f_mul F dq n1,
              f_add F (f_sub F decay (f_mul F (f_mul F (f_mul F r k) dr) n2)) (f_mul F (f_mul F (f_mul F q s) dq) n1),
              f_mul F (f_mul F (f_mul F k t) dr) n2)))))"

text \<open>The price, delta, theta and rho of a put.\<close>

definition bs_put :: "'f float_ops \<Rightarrow> 'f bs_inputs \<Rightarrow> 'f bs_terms \<Rightarrow> ('f \<times> 'f \<times> 'f \<times> 'f) result" where
  "bs_put F i m =
     (let s = bi_s i; k = bi_k i; t = bi_t i; r = bi_r i; sigma = bi_sigma i; q = bi_q i;
          dr = bt_discount_r m; dq = bt_discount_q m
      in rbind (normal_cdf F (f_neg F (bt_d2 m))) (\<lambda>n2.
         rbind (normal_cdf F (f_neg F (bt_d1 m))) (\<lambda>n1.
         rbind (normal_cdf F (bt_d1 m)) (\<lambda>p1.
         rbind (fdivide F (f_neg F (f_mul F (f_mul F (f_mul F s dq) (bt_pdf m)) sigma)) (f_mul F (f_of_rat F 2) (bt_root_t m))) (\<lambda>decay.
         Inr (f_sub F (f_mul F (f_mul F k dr) n2) (f_mul F (f_mul F s dq) n1),
              f_mul F dq (f_sub F p1 (f_of_rat F 1)),
              f_sub F (f_add F decay (f_mul F (f_mul F (f_mul F r k) dr) n2)) (f_mul F (f_mul F (f_mul F q s) dq) n1),
              f_mul F (f_mul F (f_mul F (f_neg F k) t) dr) n2))))))"

definition analyze_black_scholes ::
  "'f float_ops \<Rightarrow> option_type \<Rightarrow> decimal \<Rightarrow> decimal \<Rightarrow> decimal \<Rightarrow> decimal \<Rightarrow> decimal \<Rightarrow> decimal \<Rightarrow> black_scholes_result result" where
  "analyze_black_scholes F ty spot strike years rate volatility dividend =
     (if min spot (min strike (min years volatility)) \<le> 0
      then Inl (ValueError ''spot, strike, time, and volatility must be positive'')
      else
        let i = \<lparr>bi_s = f_of_rat F spot, bi_k = f_of_rat F strike, bi_t = f_of_rat F years, bi_r = f_of_rat F rate,
                 bi_sigma = f_of_rat F volatility, bi_q = f_of_rat F dividend\<rparr>
        in rbind (bs_terms_of F i) (\<lambda>m.
           rbind (if ty = CALL then bs_call F i m else bs_put F i m) (\<lambda>(price, delta, theta, rho).
           Inr \<lparr>bs_price = f_to_rat F price, bs_delta = f_to_rat F delta, bs_gamma = f_to_rat F (bt_gamma m),
                bs_theta = f_to_rat F theta, bs_vega = f_to_rat F (bt_vega m), bs_rho = f_to_rat F rho\<rparr>)))"

section \<open>Implied volatility\<close>

text \<open>The bisection, with the pricing function of a volatility as its argument.\<close>

fun bisect_volatility :: "(decimal \<Rightarrow> decimal result) \<Rightarrow> decimal \<Rightarrow> decimal \<Rightarrow> nat \<Rightarrow> decimal \<Rightarrow> decimal \<Rightarrow> decimal result" where
  "bisect_volatility price_at market tolerance 0 low high = Inl (ValueError ''implied volatility did not converge'')"
| "bisect_volatility price_at market tolerance (Suc n) low high =
     (let middle = dquot (dadd low high) 2 in
      rbind (price_at middle) (\<lambda>price.
      if dabs (dsub price market) \<le> tolerance then Inr middle
      else if price < market then bisect_volatility price_at market tolerance n middle high
      else bisect_volatility price_at market tolerance n low middle))"

definition lowest_volatility :: decimal where
  "lowest_volatility = 1 / 1000000"

definition highest_volatility :: decimal where
  "highest_volatility = 5"

definition implied_volatility ::
  "'f float_ops \<Rightarrow> decimal \<Rightarrow> option_type \<Rightarrow> decimal \<Rightarrow> decimal \<Rightarrow> decimal \<Rightarrow> decimal \<Rightarrow> decimal \<Rightarrow> decimal \<Rightarrow> int \<Rightarrow> decimal result" where
  "implied_volatility F market ty spot strike years rate dividend tolerance maximum_iterations =
     (if market \<le> 0 \<or> tolerance \<le> 0 \<or> maximum_iterations \<le> 0
      then Inl (ValueError ''market price, tolerance, and iterations must be positive'')
      else
        let price_at = (\<lambda>v. rbind (analyze_black_scholes F ty spot strike years rate v dividend) (\<lambda>b. Inr (bs_price b))) in
        rbind (price_at lowest_volatility) (\<lambda>low_price.
        rbind (price_at highest_volatility) (\<lambda>high_price.
        if \<not> (low_price \<le> market \<and> market \<le> high_price)
        then Inl (ValueError ''market price is outside solvable Black-Scholes bounds'')
        else bisect_volatility price_at market tolerance (nat maximum_iterations) lowest_volatility highest_volatility)))"

section \<open>Chain validation\<close>

definition validate_chain_entry :: "option_chain \<Rightarrow> option_chain_entry \<Rightarrow> unit result" where
  "validate_chain_entry chain e =
     (let k = en_contract e in
      if oc_underlying_id k \<noteq> ch_underlying_id chain \<or> oc_expiry k \<noteq> ch_expiry chain
      then Inl (ValueError ''option-chain contract mapping does not match chain identity'')
      else if qu_instrument_id (en_quote e) \<noteq> in_id (oc_instrument k)
      then Inl (ValueError ''option quote does not match option contract instrument'')
      else if qu_timestamp (en_quote e) > ch_timestamp chain
      then Inl (ValueError ''option-chain snapshot cannot contain a future quote'')
      else case en_greeks e of
          None \<Rightarrow> Inr ()
        | Some g \<Rightarrow>
            if gk_calculated_at g > ch_timestamp chain
            then Inl (ValueError ''option-chain snapshot cannot contain future Greeks'') else Inr ())"

definition validate_chain :: "option_chain \<Rightarrow> unit result" where
  "validate_chain chain = rfold (\<lambda>_ e. validate_chain_entry chain e) () (ch_entries chain)"

section \<open>Open interest\<close>

definition oi_of :: "option_type \<Rightarrow> option_chain \<Rightarrow> decimal" where
  "oi_of ty chain = dsum (map en_open_interest (filter (\<lambda>e. oc_option_type (en_contract e) = ty) (ch_entries chain)))"

definition put_call_ratio :: "option_chain \<Rightarrow> decimal option result" where
  "put_call_ratio chain =
     rbind (validate_chain chain) (\<lambda>_.
       Inr (if oi_of CALL chain > 0 then Some (dquot (oi_of PUT chain) (oi_of CALL chain)) else None))"

definition intrinsic :: "option_type \<Rightarrow> decimal \<Rightarrow> decimal \<Rightarrow> decimal" where
  "intrinsic ty strike price = (if ty = CALL then max (dsub price strike) 0 else max (dsub strike price) 0)"

definition pain_at :: "option_chain \<Rightarrow> decimal \<Rightarrow> decimal" where
  "pain_at chain settlement =
     foldl (\<lambda>total e. dadd total (dmul (intrinsic (oc_option_type (en_contract e)) (oc_strike (en_contract e)) settlement)
         (en_open_interest e))) 0 (ch_entries chain)"

definition chain_strikes :: "option_chain \<Rightarrow> decimal list" where
  "chain_strikes chain = sort (remdups (map (\<lambda>e. oc_strike (en_contract e)) (ch_entries chain)))"

definition max_pain :: "option_chain \<Rightarrow> decimal result" where
  "max_pain chain =
     rbind (validate_chain chain) (\<lambda>_.
       if ch_entries chain = [] then Inl (ValueError ''max pain requires option-chain entries'')
       else Inr (first_min (\<lambda>k. (pain_at chain k, k)) (chain_strikes chain)))"

section \<open>Liquidity and selection\<close>

definition quote_spread_bps :: "quote \<Rightarrow> decimal" where
  "quote_spread_bps q = dmul (dquot (dsub (qu_ask q) (qu_bid q)) (dquot (dadd (qu_bid q) (qu_ask q)) 2)) 10000"

definition is_liquid :: "instant \<Rightarrow> liquidity_criteria \<Rightarrow> option_chain_entry \<Rightarrow> bool" where
  "is_liquid as_of c e \<longleftrightarrow>
     age_within as_of (qu_timestamp (en_quote e)) (lc_maximum_quote_age_seconds c)
     \<and> en_volume e \<ge> lc_minimum_volume c \<and> en_open_interest e \<ge> lc_minimum_open_interest c
     \<and> quote_spread_bps (en_quote e) \<le> lc_maximum_spread_bps c
     \<and> qu_bid_quantity (en_quote e) > 0 \<and> qu_ask_quantity (en_quote e) > 0"

definition liquid_contracts :: "option_chain \<Rightarrow> datetime \<Rightarrow> liquidity_criteria \<Rightarrow> option_chain_entry list result" where
  "liquid_contracts chain as_of c =
     (if \<not> is_aware as_of then Inl (ValueError ''liquidity timestamp must be timezone-aware'')
      else rbind (validate_chain chain) (\<lambda>_. Inr (filter (is_liquid (instant_of as_of) c) (ch_entries chain))))"

definition has_fresh_greeks :: "instant \<Rightarrow> liquidity_criteria \<Rightarrow> option_chain_entry \<Rightarrow> bool" where
  "has_fresh_greeks as_of c e =
     (case en_greeks e of None \<Rightarrow> False | Some g \<Rightarrow> age_within as_of (gk_calculated_at g) (lc_maximum_quote_age_seconds c))"

definition delta_distance :: "decimal \<Rightarrow> greeks \<Rightarrow> decimal" where
  "delta_distance target g = dabs (dsub (dabs (gk_delta g)) target)"

text \<open>The candidates of a selection carry Greeks, so the branch without them is not reached.\<close>

definition selection_rank :: "decimal \<Rightarrow> option_chain_entry \<Rightarrow> decimal \<times> decimal \<times> decimal \<times> decimal" where
  "selection_rank target e =
     (case en_greeks e of
        None \<Rightarrow> (0, 0, 0, 0)
      | Some g \<Rightarrow> (delta_distance target g, quote_spread_bps (en_quote e), dneg (en_open_interest e), oc_strike (en_contract e)))"

definition no_selection :: string where
  "no_selection = ''no liquid contract with Greeks matches selection criteria''"

definition select_contract_by_delta ::
  "option_chain \<Rightarrow> option_type \<Rightarrow> decimal \<Rightarrow> datetime \<Rightarrow> liquidity_criteria \<Rightarrow> option_chain_entry result" where
  "select_contract_by_delta chain ty target as_of c =
     (if \<not> (0 < target \<and> target \<le> 1) then Inl (ValueError ''target absolute delta must be in (0, 1]'')
      else rbind (liquid_contracts chain as_of c) (\<lambda>liquid.
        let candidates = filter (\<lambda>e. oc_option_type (en_contract e) = ty \<and> has_fresh_greeks (instant_of as_of) c e) liquid
        in if candidates = [] then Inl (ValueError no_selection)
           else Inr (first_min (selection_rank target) candidates)))"

definition chain_days :: "instant \<Rightarrow> option_chain \<Rightarrow> int" where
  "chain_days as_of chain = ch_expiry chain - local_date as_of"

definition select_in_chain ::
  "option_type \<Rightarrow> decimal \<Rightarrow> datetime \<Rightarrow> liquidity_criteria \<Rightarrow> expiry_criteria
     \<Rightarrow> (int \<times> option_chain_entry) list \<Rightarrow> option_chain \<Rightarrow> (int \<times> option_chain_entry) list result" where
  "select_in_chain ty target as_of liquidity expiry eligible chain =
     (if ch_timestamp chain > instant_of as_of
      then Inl (ValueError ''expiry selection cannot use a future chain snapshot'')
      else
        let days = chain_days (instant_of as_of) chain in
        if \<not> (ec_minimum_days expiry \<le> days \<and> days \<le> ec_maximum_days expiry) then Inr eligible
        else case select_contract_by_delta chain ty target as_of liquidity of
            Inr selected \<Rightarrow> Inr (eligible @ [(days, selected)])
          | Inl e \<Rightarrow> if e = ValueError no_selection then Inr eligible else Inl e)"

text \<open>An absent delta ranks as an infinite distance: after every finite one.\<close>

definition expiry_rank :: "bool \<Rightarrow> decimal \<Rightarrow> int \<times> option_chain_entry \<Rightarrow> int \<times> (nat \<times> decimal) \<times> decimal" where
  "expiry_rank nearest target item =
     ((if nearest then 1 else -1) * fst item,
      (case en_greeks (snd item) of None \<Rightarrow> (1, 0) | Some g \<Rightarrow> (0, delta_distance target g)),
      oc_strike (en_contract (snd item)))"

definition select_contract_across_expiries ::
  "option_chain list \<Rightarrow> option_type \<Rightarrow> decimal \<Rightarrow> datetime \<Rightarrow> liquidity_criteria \<Rightarrow> expiry_criteria \<Rightarrow> option_chain_entry result" where
  "select_contract_across_expiries snapshots ty target as_of liquidity expiry =
     (if \<not> is_aware as_of then Inl (ValueError ''expiry selection timestamp must be timezone-aware'')
      else rbind (rfold (select_in_chain ty target as_of liquidity expiry) [] snapshots) (\<lambda>eligible.
        if eligible = [] then Inl (ValueError ''no eligible expiry contains a selectable contract'')
        else Inr (snd (first_min (expiry_rank (ec_prefer_nearest expiry) target) eligible))))"

section \<open>Payoff and margin\<close>

definition leg_payoff :: "decimal \<Rightarrow> option_leg \<Rightarrow> decimal" where
  "leg_payoff underlying l =
     dmul (dsub (intrinsic (leg_option_type l) (leg_strike l) underlying) (leg_premium l)) (leg_quantity l)"

definition payoff_of :: "option_leg list \<Rightarrow> decimal \<Rightarrow> decimal" where
  "payoff_of legs underlying = foldl (\<lambda>total l. dadd total (leg_payoff underlying l)) 0 legs"

definition payoff_at_expiry :: "option_leg list \<Rightarrow> decimal list \<Rightarrow> option_payoff list result" where
  "payoff_at_expiry legs prices =
     (if legs = [] \<or> prices = [] \<or> list_ex (\<lambda>p. p < 0) prices
      then Inl (ValueError ''payoff requires legs and non-negative underlying prices'')
      else Inr (map (\<lambda>u. \<lparr>pay_underlying_at_expiry = u, pay_gross_payoff = payoff_of legs u\<rparr>) prices))"

definition scenario_loss :: "option_leg list \<Rightarrow> decimal \<Rightarrow> decimal \<Rightarrow> (decimal \<times> decimal) result" where
  "scenario_loss legs spot shock =
     rbind (payoff_at_expiry legs [dmul spot (dadd 1 shock)]) (\<lambda>ps.
       Inr (shock, max (dneg (pay_gross_payoff (hd ps))) 0))"

definition estimate_option_margin :: "option_leg list \<Rightarrow> decimal \<Rightarrow> option_margin_config \<Rightarrow> option_margin_estimate result" where
  "estimate_option_margin legs spot config =
     (if spot \<le> 0 \<or> legs = [] then Inl (ValueError ''margin estimation requires positive spot and option legs'')
      else
        let premium_outlay = dsum (map (\<lambda>l. dmul (leg_premium l) (leg_quantity l)) (filter (\<lambda>l. leg_quantity l > 0) legs))
        in rbind (rmap (scenario_loss legs spot) (omc_spot_shocks config)) (\<lambda>losses.
           let maximum_loss = Max (set (map snd losses));
               short_units = dsum (map (\<lambda>l. dneg (leg_quantity l)) (filter (\<lambda>l. leg_quantity l < 0) legs));
               floor = dmul (dmul short_units spot) (omc_short_notional_floor_fraction config)
           in if losses = [] then Inl (ValueError ''max() iterable argument is empty'')
              else Inr \<lparr>ome_required_margin = max premium_outlay (max maximum_loss floor), ome_premium_outlay = premium_outlay,
                   ome_maximum_scenario_loss = maximum_loss, ome_short_notional_floor = floor,
                   ome_scenario_losses = losses, ome_model_version = omc_model_version config\<rparr>))"

end
