(* ===== verification/Option_Laws.thy ===== *)
theory Option_Laws
  imports Option_Analytics
begin

text \<open>
  What the option analytics promise: the chain a result is computed from holds no future evidence,
  the selected contract is the best of the liquid and fresh ones, max pain is the least pain, an
  implied volatility reprices the market, the percentile is a percentage, and the margin covers
  every scenario.
\<close>

section \<open>Valid chains\<close>

lemma rfold_unit: "rfold (\<lambda>_ x. f x) () xs = Inr () \<longleftrightarrow> (\<forall>x \<in> set xs. f x = Inr ())"
  by (induction xs) (auto simp: rbind_eq_Inr)

lemma validate_chain_entryD:
  assumes "validate_chain_entry chain e = Inr ()"
  shows "qu_timestamp (en_quote e) \<le> ch_timestamp chain"
    and "en_greeks e = Some g \<Longrightarrow> gk_calculated_at g \<le> ch_timestamp chain"
  using assms by (auto simp: validate_chain_entry_def Let_def split: if_splits option.splits)

lemma validate_chain_all: "validate_chain chain = Inr () \<longleftrightarrow> (\<forall>e \<in> set (ch_entries chain). validate_chain_entry chain e = Inr ())"
  by (simp add: validate_chain_def rfold_unit)

section \<open>Max pain\<close>

text \<open>Max pain is a strike of the chain at which the writers pay least: no other strike has a smaller total
  pay-out, and among equal ones it is the lowest strike.\<close>

theorem max_pain_is_least_pain:
  assumes "max_pain chain = Inr k"
  shows "k \<in> (\<lambda>e. oc_strike (en_contract e)) ` set (ch_entries chain)
    \<and> (\<forall>e \<in> set (ch_entries chain). pain_at chain k < pain_at chain (oc_strike (en_contract e))
        \<or> pain_at chain k = pain_at chain (oc_strike (en_contract e)) \<and> k \<le> oc_strike (en_contract e))"
proof -
  have strikes: "set (chain_strikes chain) = (\<lambda>e. oc_strike (en_contract e)) ` set (ch_entries chain)"
    by (simp add: chain_strikes_def)
  have "ch_entries chain \<noteq> []" and k: "k = first_min (\<lambda>k. (pain_at chain k, k)) (chain_strikes chain)"
    using assms by (auto simp: max_pain_def rbind_eq_Inr split: if_splits)
  then have "chain_strikes chain \<noteq> []"
    using strikes by (metis image_is_empty set_empty)
  from first_min_least [OF this, of "\<lambda>k. (pain_at chain k, k)"] show ?thesis
    unfolding k [symmetric] strikes by (auto simp: less_eq_prod_def)
qed

text \<open>A sample chain: a call at 100 and a put at 120.\<close>

definition sample_instrument :: "uuid \<Rightarrow> instrument" where
  "sample_instrument n =
     \<lparr>in_id = n, in_symbol = ''NIFTY'', in_exchange = NSE, in_segment = OPTIONS, in_isin = None, in_tick_size = 1 / 20,
      in_lot_size = 50, in_currency = ''INR'', in_active = True\<rparr>"

definition sample_greeks :: "decimal \<Rightarrow> greeks" where
  "sample_greeks d =
     \<lparr>gk_delta = d, gk_gamma = 0, gk_theta = 0, gk_vega = 0, gk_rho = 0, gk_implied_volatility = 1 / 5, gk_calculated_at = 0,
      gk_model = ''black_scholes''\<rparr>"

definition sample_entry :: "uuid \<Rightarrow> option_type \<Rightarrow> decimal \<Rightarrow> decimal \<Rightarrow> option_chain_entry" where
  "sample_entry n ty strike d =
     \<lparr>en_contract = \<lparr>oc_instrument = sample_instrument n, oc_underlying_id = 7, oc_expiry = 10, oc_strike = strike,
        oc_option_type = ty\<rparr>,
      en_quote = \<lparr>qu_instrument_id = n, qu_timestamp = 0, qu_bid = 10, qu_ask = 10, qu_bid_quantity = 1, qu_ask_quantity = 1,
        qu_last = None\<rparr>,
      en_open_interest = 5, en_change_in_open_interest = 0, en_volume = 5, en_greeks = Some (sample_greeks d)\<rparr>"

definition sample_chain :: option_chain where
  "sample_chain =
     \<lparr>ch_underlying_id = 7, ch_expiry = 10, ch_timestamp = 0,
      ch_entries = [sample_entry 1 CALL 100 (1 / 2), sample_entry 2 CALL 120 (1 / 4)]\<rparr>"

lemma sample_chain_valid: "validate_chain sample_chain = Inr ()"
  by (simp add: validate_chain_all sample_chain_def sample_entry_def validate_chain_entry_def sample_instrument_def sample_greeks_def)

theorem max_pain_is_least_pain_witness:
  "\<exists>k. max_pain sample_chain = Inr k \<and> k \<in> {100, 120} \<and> pain_at sample_chain k \<le> pain_at sample_chain 120"
proof -
  obtain k where k: "max_pain sample_chain = Inr k"
    using sample_chain_valid by (simp add: max_pain_def) (simp add: sample_chain_def)
  from max_pain_is_least_pain [OF k] have "k \<in> {100, 120}" "pain_at sample_chain k \<le> pain_at sample_chain 120"
    by (auto simp: sample_chain_def sample_entry_def)
  with k show ?thesis by blast
qed

section \<open>Selection\<close>

definition selectable :: "option_type \<Rightarrow> instant \<Rightarrow> liquidity_criteria \<Rightarrow> option_chain_entry \<Rightarrow> bool" where
  "selectable ty as_of c e \<longleftrightarrow> oc_option_type (en_contract e) = ty \<and> is_liquid as_of c e \<and> has_fresh_greeks as_of c e"

lemma select_by_delta_cases:
  assumes "select_contract_by_delta chain ty target as_of c = Inr e"
  shows "validate_chain chain = Inr ()" "e \<in> set (ch_entries chain)" "selectable ty (instant_of as_of) c e"
    "e' \<in> set (ch_entries chain) \<Longrightarrow> selectable ty (instant_of as_of) c e' \<Longrightarrow> selection_rank target e \<le> selection_rank target e'"
proof -
  let ?cs = "filter (\<lambda>e. oc_option_type (en_contract e) = ty \<and> has_fresh_greeks (instant_of as_of) c e)
      (filter (is_liquid (instant_of as_of) c) (ch_entries chain))"
  have v: "validate_chain chain = Inr ()" and ne: "?cs \<noteq> []" and e: "e = first_min (selection_rank target) ?cs"
    using assms by (auto simp: select_contract_by_delta_def liquid_contracts_def rbind_eq_Inr Let_def simp del: filter_filter split: if_splits)
  note least = first_min_least [OF ne, of "selection_rank target", folded e]
  show "validate_chain chain = Inr ()" by (rule v)
  show "e \<in> set (ch_entries chain)" "selectable ty (instant_of as_of) c e"
    using least by (auto simp: selectable_def)
  show "selection_rank target e \<le> selection_rank target e'" if "e' \<in> set (ch_entries chain)" "selectable ty (instant_of as_of) c e'"
    using least that by (auto simp: selectable_def)
qed

lemma select_in_chains:
  assumes "rfold (select_in_chain ty target as_of c x) acc cs = Inr eligible"
  shows "(\<forall>chain \<in> set cs. ch_timestamp chain \<le> instant_of as_of)
    \<and> set eligible = set acc \<union> {(d, e). \<exists>chain \<in> set cs. d = chain_days (instant_of as_of) chain \<and> ec_minimum_days x \<le> d
        \<and> d \<le> ec_maximum_days x \<and> select_contract_by_delta chain ty target as_of c = Inr e}"
  using assms
proof (induction cs arbitrary: acc)
  case (Cons chain cs)
  obtain acc' where one: "select_in_chain ty target as_of c x acc chain = Inr acc'"
    and others: "rfold (select_in_chain ty target as_of c x) acc' cs = Inr eligible"
    using Cons.prems by (auto simp: rbind_eq_Inr)
  have "ch_timestamp chain \<le> instant_of as_of
    \<and> set acc' = set acc \<union> {(d, e). d = chain_days (instant_of as_of) chain \<and> ec_minimum_days x \<le> d
        \<and> d \<le> ec_maximum_days x \<and> select_contract_by_delta chain ty target as_of c = Inr e}"
    using one by (auto simp: select_in_chain_def Let_def split: if_splits sum.splits)
  with Cons.IH [OF others] show ?case
    by auto
qed simp

text \<open>The contract selected across expiries is chosen on point-in-time evidence alone and is the best one: every
  snapshot given is no later than the cut-off; the contract comes from a valid snapshot whose days to expiry lie in
  the window, it is liquid there with a fresh quote and fresh Greeks and ranks first among the liquid contracts of its
  snapshot, and no snapshot in the window offers a selection that ranks before it.\<close>

theorem expiry_selection_is_point_in_time_best:
  assumes "select_contract_across_expiries snapshots ty target as_of c x = Inr e"
  shows "(\<forall>chain \<in> set snapshots. ch_timestamp chain \<le> instant_of as_of)
    \<and> (\<exists>chain \<in> set snapshots. validate_chain chain = Inr () \<and> e \<in> set (ch_entries chain)
        \<and> ec_minimum_days x \<le> chain_days (instant_of as_of) chain \<and> chain_days (instant_of as_of) chain \<le> ec_maximum_days x
        \<and> selectable ty (instant_of as_of) c e
        \<and> (\<forall>e' \<in> set (ch_entries chain). selectable ty (instant_of as_of) c e' \<longrightarrow> selection_rank target e \<le> selection_rank target e')
        \<and> (\<forall>chain' \<in> set snapshots. \<forall>e'. select_contract_by_delta chain' ty target as_of c = Inr e'
            \<and> ec_minimum_days x \<le> chain_days (instant_of as_of) chain' \<and> chain_days (instant_of as_of) chain' \<le> ec_maximum_days x
            \<longrightarrow> expiry_rank (ec_prefer_nearest x) target (chain_days (instant_of as_of) chain, e)
                \<le> expiry_rank (ec_prefer_nearest x) target (chain_days (instant_of as_of) chain', e')))"
proof -
  obtain eligible where el: "rfold (select_in_chain ty target as_of c x) [] snapshots = Inr eligible" and ne: "eligible \<noteq> []"
    and e: "e = snd (first_min (expiry_rank (ec_prefer_nearest x) target) eligible)"
    using assms by (auto simp: select_contract_across_expiries_def rbind_eq_Inr split: if_splits)
  define best where "best = first_min (expiry_rank (ec_prefer_nearest x) target) eligible"
  note least = first_min_least [OF ne, of "expiry_rank (ec_prefer_nearest x) target", folded best_def]
  note members = select_in_chains [OF el]
  obtain chain where chain: "chain \<in> set snapshots" "fst best = chain_days (instant_of as_of) chain"
    "ec_minimum_days x \<le> fst best" "fst best \<le> ec_maximum_days x" "select_contract_by_delta chain ty target as_of c = Inr e"
    using least members e by (auto simp: best_def [symmetric])
  have best: "best = (chain_days (instant_of as_of) chain, e)"
    using chain(2) e by (simp add: best_def [symmetric] prod_eq_iff)
  have others: "expiry_rank (ec_prefer_nearest x) target best
      \<le> expiry_rank (ec_prefer_nearest x) target (chain_days (instant_of as_of) chain', e')"
    if "chain' \<in> set snapshots" "select_contract_by_delta chain' ty target as_of c = Inr e'"
      "ec_minimum_days x \<le> chain_days (instant_of as_of) chain'" "chain_days (instant_of as_of) chain' \<le> ec_maximum_days x"
    for chain' e'
    using least members that by blast
  have window: "ec_minimum_days x \<le> chain_days (instant_of as_of) chain" "chain_days (instant_of as_of) chain \<le> ec_maximum_days x"
    using chain(2-4) by simp_all
  show ?thesis
    using members others [unfolded best] select_by_delta_cases [OF chain(5)] window chain(1) by blast
qed

definition sample_liquidity :: liquidity_criteria where
  "sample_liquidity =
     \<lparr>lc_minimum_volume = 1, lc_minimum_open_interest = 1, lc_maximum_spread_bps = 100, lc_maximum_quote_age_seconds = 60\<rparr>"

definition sample_expiry :: expiry_criteria where
  "sample_expiry = \<lparr>ec_minimum_days = 0, ec_maximum_days = 30, ec_prefer_nearest = True\<rparr>"

lemma sample_liquid: "e \<in> set (ch_entries sample_chain) \<Longrightarrow> is_liquid 0 sample_liquidity e \<and> has_fresh_greeks 0 sample_liquidity e"
  by (auto simp: sample_chain_def sample_entry_def is_liquid_def has_fresh_greeks_def age_within_def sample_liquidity_def
      quote_spread_bps_def sample_greeks_def seconds_def dec_eval)

lemma sample_selection: "\<exists>e. select_contract_by_delta sample_chain CALL (1 / 2) (Aware 0) sample_liquidity = Inr e"
proof -
  have "filter (is_liquid 0 sample_liquidity) (ch_entries sample_chain) = ch_entries sample_chain"
    using sample_liquid by (simp add: filter_id_conv)
  moreover have "sample_entry 1 CALL 100 (1 / 2) \<in> set (filter (\<lambda>e. oc_option_type (en_contract e) = CALL
      \<and> has_fresh_greeks 0 sample_liquidity e) (ch_entries sample_chain))"
    using sample_liquid [of "sample_entry 1 CALL 100 (1 / 2)"] by (simp add: sample_chain_def) (simp add: sample_entry_def)
  ultimately show ?thesis
    using empty_iff unfolding select_contract_by_delta_def liquid_contracts_def sample_chain_valid Let_def
    by (auto simp del: set_filter dest: arg_cong [of _ "[]" set])
qed

theorem expiry_selection_is_point_in_time_best_witness:
  "\<exists>e. select_contract_across_expiries [sample_chain] CALL (1 / 2) (Aware 0) sample_liquidity sample_expiry = Inr e
     \<and> e \<in> set (ch_entries sample_chain) \<and> selectable CALL 0 sample_liquidity e"
proof -
  have "chain_days 0 sample_chain = 10"
    by (simp add: chain_days_def local_date_def ist_offset_def day_length_def seconds_def sample_chain_def)
  moreover have "ch_timestamp sample_chain = 0"
    by (simp add: sample_chain_def)
  ultimately obtain e where e: "select_contract_across_expiries [sample_chain] CALL (1 / 2) (Aware 0) sample_liquidity sample_expiry = Inr e"
    using sample_selection
    by (auto simp: select_contract_across_expiries_def select_in_chain_def Let_def sample_expiry_def)
  from expiry_selection_is_point_in_time_best [OF e] e show ?thesis
    by (auto intro!: exI [of _ e])
qed

section \<open>Implied volatility\<close>

definition volatility_range :: "decimal \<Rightarrow> bool" where
  "volatility_range v \<longleftrightarrow> lowest_volatility \<le> v \<and> v \<le> highest_volatility"

lemma middle_in_range:
  assumes "volatility_range a" "volatility_range b"
  shows "volatility_range (dquot (dadd a b) 2)"
proof -
  have exact: "dround (2 * lowest_volatility) = 2 * lowest_volatility" "dround (2 * highest_volatility) = 2 * highest_volatility"
    "dround lowest_volatility = lowest_volatility" "dround highest_volatility = highest_volatility"
    by (simp_all add: lowest_volatility_def highest_volatility_def dround_fixed)
  have "2 * lowest_volatility \<le> dadd a b" "dadd a b \<le> 2 * highest_volatility"
    using dround_mono [of "2 * lowest_volatility" "a + b"] dround_mono [of "a + b" "2 * highest_volatility"] assms
    by (simp_all add: dadd_def exact volatility_range_def)
  then have "dround lowest_volatility \<le> dround (dadd a b / 2)" "dround (dadd a b / 2) \<le> dround highest_volatility"
    by (auto intro!: dround_mono)
  then show ?thesis
    by (simp add: volatility_range_def dquot_def exact)
qed

text \<open>What a bisection that returns has priced: a run of midpoints that is no longer than its fuel, whose prices alone determine the
  outcome, the last within the tolerance and every earlier one outside it.\<close>

definition priced_run :: "(decimal \<Rightarrow> decimal result) \<Rightarrow> decimal \<Rightarrow> decimal \<Rightarrow> decimal list \<Rightarrow> bool" where
  "priced_run price_at market tolerance tried \<longleftrightarrow> tried \<noteq> []
     \<and> (\<exists>price. price_at (last tried) = Inr price \<and> dabs (dsub price market) \<le> tolerance)
     \<and> (\<forall>x \<in> set (butlast tried). \<exists>price. price_at x = Inr price \<and> tolerance < dabs (dsub price market))"

lemma priced_run_Cons:
  "priced_run price_at market tolerance tried \<Longrightarrow> price_at x = Inr price \<Longrightarrow> \<not> dabs (dsub price market) \<le> tolerance \<Longrightarrow>
     priced_run price_at market tolerance (x # tried)"
  by (auto simp: priced_run_def)

lemma bisect_volatility_returns:
  assumes "bisect_volatility price_at market tolerance n low high = Inr v" and "volatility_range low" and "volatility_range high"
  shows "volatility_range v \<and> (\<exists>tried. length tried \<le> n \<and> last tried = v \<and> priced_run price_at market tolerance tried
    \<and> (\<forall>price'. (\<forall>x \<in> set tried. price' x = price_at x) \<longrightarrow> bisect_volatility price' market tolerance n low high = Inr v))"
  using assms
proof (induction n arbitrary: low high)
  case (Suc n)
  define m where "m = dquot (dadd low high) 2"
  have m: "volatility_range m" unfolding m_def using middle_in_range Suc.prems by blast
  obtain price where price: "price_at m = Inr price"
    using Suc.prems(1) by (auto simp: m_def Let_def rbind_eq_Inr)
  show ?case
  proof (cases "dabs (dsub price market) \<le> tolerance")
    case True
    then have "v = m" using Suc.prems(1) price by (simp flip: m_def)
    with True price m show ?thesis
      by (intro conjI exI[of _ "[m]"]) (auto simp: priced_run_def simp flip: m_def)
  next
    case False
    define low' high' where ends: "low' = (if price < market then m else low)" "high' = (if price < market then high else m)"
    have next_step: "bisect_volatility p market tolerance (Suc n) low high = bisect_volatility p market tolerance n low' high'"
      if "p m = Inr price" for p
      using that False by (simp add: ends flip: m_def)
    have "volatility_range low'" "volatility_range high'" using m Suc.prems by (simp_all add: ends)
    with Suc.IH[of low' high'] Suc.prems(1) next_step[of price_at] price obtain tried where tried: "volatility_range v" "length tried \<le> n"
      "last tried = v" "priced_run price_at market tolerance tried"
      "\<forall>price'. (\<forall>x \<in> set tried. price' x = price_at x) \<longrightarrow> bisect_volatility price' market tolerance n low' high' = Inr v"
      by auto
    with priced_run_Cons[OF tried(4) price False] next_step price show ?thesis
      by (intro conjI exI[of _ "m # tried"]) (auto simp: priced_run_def simp del: bisect_volatility.simps)
  qed
qed simp

abbreviation black_scholes_price ::
  "'f float_ops \<Rightarrow> option_type \<Rightarrow> decimal \<Rightarrow> decimal \<Rightarrow> decimal \<Rightarrow> decimal \<Rightarrow> decimal \<Rightarrow> decimal \<Rightarrow> decimal result" where
  "black_scholes_price F ty spot strike years rate dividend v \<equiv>
     rbind (analyze_black_scholes F ty spot strike years rate v dividend) (\<lambda>b. Inr (bs_price b))"

text \<open>C27: An implied volatility reprices the market.  Whatever the floating point arithmetic does, when the search
  returns a volatility it lies in the searched range and the Black-Scholes price the program computes at it is within
  the tolerance of the market price; it is the last of at most the configured number of midpoints the bisection priced, whose
  prices alone determine the outcome, and the price at every earlier one missed the tolerance.\<close>

theorem implied_volatility_reprices_the_market:
  assumes "implied_volatility F market ty spot strike years rate dividend tolerance n = Inr v"
  shows "lowest_volatility \<le> v \<and> v \<le> highest_volatility
    \<and> (\<exists>b. analyze_black_scholes F ty spot strike years rate v dividend = Inr b \<and> dabs (dsub (bs_price b) market) \<le> tolerance)
    \<and> (\<exists>tried. length tried \<le> nat n \<and> last tried = v
        \<and> (\<forall>x \<in> set (butlast tried). \<exists>b. analyze_black_scholes F ty spot strike years rate x dividend = Inr b
             \<and> tolerance < dabs (dsub (bs_price b) market))
        \<and> (\<forall>price'. (\<forall>x \<in> set tried. price' x = black_scholes_price F ty spot strike years rate dividend x) \<longrightarrow>
             bisect_volatility price' market tolerance (nat n) lowest_volatility highest_volatility = Inr v))"
proof -
  have "volatility_range lowest_volatility" "volatility_range highest_volatility"
    by (simp_all add: volatility_range_def lowest_volatility_def highest_volatility_def)
  moreover have "bisect_volatility (black_scholes_price F ty spot strike years rate dividend) market tolerance (nat n)
      lowest_volatility highest_volatility = Inr v"
    using assms by (auto simp: implied_volatility_def rbind_eq_Inr Let_def split: if_splits)
  ultimately obtain tried where "volatility_range v" "length tried \<le> nat n" "last tried = v"
    "priced_run (black_scholes_price F ty spot strike years rate dividend) market tolerance tried"
    "\<forall>price'. (\<forall>x \<in> set tried. price' x = black_scholes_price F ty spot strike years rate dividend x) \<longrightarrow>
       bisect_volatility price' market tolerance (nat n) lowest_volatility highest_volatility = Inr v"
    using bisect_volatility_returns by blast
  then show ?thesis
    unfolding volatility_range_def priced_run_def rbind_eq_Inr sum.inject by blast
qed

definition flat_ops :: "rat float_ops" where
  "flat_ops = rat_ops\<lparr>f_eq := \<lambda>_ _. False, f_to_rat := \<lambda>_. 1\<rparr>"

lemma flat_price: "0 < v \<Longrightarrow> \<exists>b. analyze_black_scholes flat_ops CALL 1 1 1 0 v 0 = Inr b \<and> bs_price b = 1"
  by (simp add: analyze_black_scholes_def bs_terms_of_def bs_call_def normal_cdf_def normal_pdf_def fdivide_def flat_ops_def
      rat_ops_def Let_def)

theorem implied_volatility_reprices_the_market_witness:
  "\<exists>v b. implied_volatility flat_ops 1 CALL 1 1 1 0 0 (1 / 100) 5 = Inr v
     \<and> analyze_black_scholes flat_ops CALL 1 1 1 0 v 0 = Inr b \<and> dabs (dsub (bs_price b) 1) \<le> 1 / 100"
proof -
  have "volatility_range (dquot (dadd lowest_volatility highest_volatility) 2)"
    by (rule middle_in_range) (simp_all add: volatility_range_def lowest_volatility_def highest_volatility_def)
  then have "0 < dquot (dadd lowest_volatility highest_volatility) 2"
    by (simp add: volatility_range_def lowest_volatility_def)
  with flat_price obtain b where b: "analyze_black_scholes flat_ops CALL 1 1 1 0 (dquot (dadd lowest_volatility highest_volatility) 2) 0 = Inr b"
    "bs_price b = 1" by blast
  obtain b1 b2 where ends: "analyze_black_scholes flat_ops CALL 1 1 1 0 lowest_volatility 0 = Inr b1" "bs_price b1 = 1"
    "analyze_black_scholes flat_ops CALL 1 1 1 0 highest_volatility 0 = Inr b2" "bs_price b2 = 1"
    using flat_price [of lowest_volatility] flat_price [of highest_volatility]
    by (auto simp: lowest_volatility_def highest_volatility_def)
  have "dabs (dsub 1 1) \<le> (1 / 100 :: decimal)"
    by (simp add: dsub_def dabs_def)
  then have "implied_volatility flat_ops 1 CALL 1 1 1 0 0 (1 / 100) 5 = Inr (dquot (dadd lowest_volatility highest_volatility) 2)"
    by (simp add: implied_volatility_def ends b Let_def numeral_eq_Suc)
  from implied_volatility_reprices_the_market [OF this] this show ?thesis
    by blast
qed

section \<open>Percentile and margin\<close>

text \<open>The implied-volatility percentile is a percentage of the point-in-time history: it lies in [0, 100], counts
  exactly the observations made by the cut-off, and observations made later do not change it.\<close>

theorem iv_percentile_is_point_in_time:
  assumes "implied_volatility_percentile current observations as_of n = Inr p"
    and "\<forall>x \<in> set later. instant_of as_of < iv_observed_at x"
  shows "0 \<le> ip_percentile p \<and> ip_percentile p \<le> 100
    \<and> ip_observation_count p = length (filter (\<lambda>x. iv_observed_at x \<le> instant_of as_of) observations)
    \<and> implied_volatility_percentile current (observations @ later) as_of n = Inr p"
proof -
  let ?av = "filter (\<lambda>x. iv_observed_at x \<le> instant_of as_of) observations"
  let ?rank = "length (filter (\<lambda>x. iv_implied_volatility x \<le> current) ?av)"
  have p: "ip_percentile p = dmul (dquot (of_nat ?rank) (of_nat (length ?av))) 100" "ip_observation_count p = length ?av"
    and ne: "0 < length ?av"
    using assms(1) by (auto simp: implied_volatility_percentile_def Let_def rbind_eq_Inr ddiv_def split: if_splits)
  have "of_nat ?rank / of_nat (length ?av) \<le> (1 :: rat)"
    using ne length_filter_le [of "\<lambda>x. iv_implied_volatility x \<le> current" ?av] by (simp add: divide_le_eq_1 del: filter_filter)
  then have one: "dquot (of_nat ?rank) (of_nat (length ?av)) \<le> 1"
    using dround_mono [of "of_nat ?rank / of_nat (length ?av)" 1] by (simp add: dquot_def del: filter_filter)
  have nn: "0 \<le> dquot (of_nat ?rank) (of_nat (length ?av))"
    by (simp add: dquot_nonneg)
  have "dround 100 = (100 :: decimal)"
    by (simp add: dround_fixed)
  with one have "ip_percentile p \<le> 100"
    using dround_mono [of "dquot (of_nat ?rank) (of_nat (length ?av)) * 100" 100] by (simp add: p(1) dmul_def del: filter_filter)
  moreover have "filter (\<lambda>x. iv_observed_at x \<le> instant_of as_of) (observations @ later) = ?av"
    using assms(2) by (auto simp: filter_empty_conv)
  then have "implied_volatility_percentile current (observations @ later) as_of n = implied_volatility_percentile current observations as_of n"
    unfolding implied_volatility_percentile_def by (simp only:)
  ultimately show ?thesis
    using assms(1) p(2) dmul_nonneg [OF nn, of 100] by (simp add: p(1))
qed

definition sample_observations :: "iv_observation list" where
  "sample_observations = [\<lparr>iv_observed_at = 1, iv_implied_volatility = 1 / 5\<rparr>, \<lparr>iv_observed_at = 2, iv_implied_volatility = 3 / 10\<rparr>]"

theorem iv_percentile_is_point_in_time_witness:
  "\<exists>p. implied_volatility_percentile (1 / 4) sample_observations (Aware 5) 2 = Inr p \<and> 0 \<le> ip_percentile p
     \<and> implied_volatility_percentile (1 / 4) (sample_observations @ [\<lparr>iv_observed_at = 6, iv_implied_volatility = 1\<rparr>]) (Aware 5) 2 = Inr p"
proof -
  obtain p where p: "implied_volatility_percentile (1 / 4) sample_observations (Aware 5) 2 = Inr p"
    by (simp add: implied_volatility_percentile_def sample_observations_def ddiv_def)
  from iv_percentile_is_point_in_time [OF p, of "[\<lparr>iv_observed_at = 6, iv_implied_volatility = 1\<rparr>]"] p show ?thesis
    by (intro exI [of _ p]) simp
qed

text \<open>The margin estimate covers every scenario: its losses are those of the configured shocks in their order, none
  is negative, the required margin is at least each of them, the premium outlay and the short notional floor, and it
  is one of these amounts, not more.\<close>

theorem margin_covers_every_scenario:
  assumes "estimate_option_margin legs spot config = Inr m"
  shows "map fst (ome_scenario_losses m) = omc_spot_shocks config
    \<and> (\<forall>(shock, loss) \<in> set (ome_scenario_losses m). 0 \<le> loss \<and> loss \<le> ome_required_margin m
        \<and> loss = max (dneg (payoff_of legs (dmul spot (dadd 1 shock)))) 0)
    \<and> ome_premium_outlay m \<le> ome_required_margin m \<and> ome_short_notional_floor m \<le> ome_required_margin m
    \<and> ome_required_margin m \<in> {ome_premium_outlay m, ome_short_notional_floor m} \<union> snd ` set (ome_scenario_losses m)"
proof -
  have losses: "rmap (scenario_loss legs spot) (omc_spot_shocks config) = Inr (ome_scenario_losses m)"
    and top: "ome_maximum_scenario_loss m = Max (snd ` set (ome_scenario_losses m))" "ome_scenario_losses m \<noteq> []"
    and req: "ome_required_margin m = max (ome_premium_outlay m) (max (ome_maximum_scenario_loss m) (ome_short_notional_floor m))"
    using assms by (auto simp: estimate_option_margin_def rbind_eq_Inr Let_def split: if_splits)
  have each: "fst q = s \<and> snd q = max (dneg (payoff_of legs (dmul spot (dadd 1 s)))) 0"
    if "scenario_loss legs spot s = Inr q" for s q
    using that by (auto simp: scenario_loss_def payoff_at_expiry_def split: if_splits)
  have len: "length (ome_scenario_losses m) = length (omc_spot_shocks config)"
    using rmap_length [OF losses] .
  have nth: "fst (ome_scenario_losses m ! i) = omc_spot_shocks config ! i
      \<and> snd (ome_scenario_losses m ! i) = max (dneg (payoff_of legs (dmul spot (dadd 1 (omc_spot_shocks config ! i))))) 0"
    if "i < length (omc_spot_shocks config)" for i
    using each [OF rmap_nth [OF losses that]] .
  have "map fst (ome_scenario_losses m) = omc_spot_shocks config"
    using nth len by (intro nth_equalityI) auto
  moreover have "0 \<le> snd q \<and> snd q \<le> ome_required_margin m \<and> snd q = max (dneg (payoff_of legs (dmul spot (dadd 1 (fst q))))) 0"
    if "q \<in> set (ome_scenario_losses m)" for q
  proof -
    have "snd q = max (dneg (payoff_of legs (dmul spot (dadd 1 (fst q))))) 0"
      using that nth len by (auto simp: in_set_conv_nth)
    moreover have "snd q \<le> ome_maximum_scenario_loss m"
      using that by (simp add: top(1))
    ultimately show ?thesis
      unfolding req by (auto intro: max.coboundedI2)
  qed
  moreover have "ome_required_margin m \<in> {ome_premium_outlay m, ome_short_notional_floor m} \<union> snd ` set (ome_scenario_losses m)"
  proof -
    have "ome_maximum_scenario_loss m \<in> snd ` set (ome_scenario_losses m)"
      using top(2) by (simp add: top(1))
    then show ?thesis
      unfolding req max_def by (simp split: if_split)
  qed
  moreover have "ome_premium_outlay m \<le> ome_required_margin m" "ome_short_notional_floor m \<le> ome_required_margin m"
    unfolding req by simp_all
  ultimately show ?thesis
    unfolding case_prod_beta by blast
qed

definition sample_margin :: option_margin_config where
  "sample_margin = \<lparr>omc_spot_shocks = [1 / 10], omc_short_notional_floor_fraction = 1 / 10, omc_model_version = ''scenario-margin-v1''\<rparr>"

theorem margin_covers_every_scenario_witness:
  "\<exists>m. estimate_option_margin [\<lparr>leg_option_type = CALL, leg_strike = 100, leg_quantity = -1, leg_premium = 2\<rparr>] 100 sample_margin = Inr m
     \<and> ome_short_notional_floor m \<le> ome_required_margin m"
proof -
  obtain m where m: "estimate_option_margin [\<lparr>leg_option_type = CALL, leg_strike = 100, leg_quantity = -1, leg_premium = 2\<rparr>] 100 sample_margin = Inr m"
    by (simp add: estimate_option_margin_def sample_margin_def scenario_loss_def payoff_at_expiry_def Let_def dec_eval)
  with margin_covers_every_scenario [OF m] show ?thesis by blast
qed

end
