(* ===== verification/Option_Persistence.thy ===== *)
theory Option_Persistence
  imports Option_Laws Write_Once
begin

text \<open>
  \<open>packages/options/persistence.py\<close>: the raw and the normalised option-chain tables and the table of
  implied-volatility observations, each a list of rows in insertion order with its unique constraints
  checked on insertion.  \<open>encode\<close> and \<open>decode\<close> are \<open>model_dump\<close> and \<open>model_validate\<close>, \<open>no_payload\<close>
  the empty raw payload, and \<open>col\<close> what the column \<open>Numeric(18, 10)\<close> keeps of a volatility.  The rows
  are written once: both tables are instances of \<open>write_once\<close>.
\<close>

record 'r raw_chain_row =
  rc_source :: string
  rc_source_event_id :: string
  rc_received_at :: instant
  rc_payload :: 'r

record 'j chain_snapshot_row =
  cs_underlying_id :: uuid
  cs_expiry :: int
  cs_observed_at :: instant
  cs_source :: string
  cs_source_event_id :: string
  cs_payload :: 'j

record iv_row =
  ivr_instrument_id :: uuid
  ivr_observed_at :: instant
  ivr_implied_volatility :: decimal
  ivr_source :: string
  ivr_source_event_id :: string

record ('r, 'j) option_db =
  raw_chains :: "'r raw_chain_row list"
  chain_snapshots :: "'j chain_snapshot_row list"
  iv_observations :: "iv_row list"

definition empty_option_db :: "('r, 'j) option_db" where
  "empty_option_db = \<lparr>raw_chains = [], chain_snapshots = [], iv_observations = []\<rparr>"

definition find_raw_chain :: "('r, 'j) option_db \<Rightarrow> string \<times> string \<Rightarrow> 'r raw_chain_row option" where
  "find_raw_chain db k = List.find (\<lambda>r. (rc_source r, rc_source_event_id r) = k) (raw_chains db)"

definition find_snapshot :: "('r, 'j) option_db \<Rightarrow> string \<times> string \<Rightarrow> 'j chain_snapshot_row option" where
  "find_snapshot db k = List.find (\<lambda>r. (cs_source r, cs_source_event_id r) = k) (chain_snapshots db)"

definition find_iv :: "('r, 'j) option_db \<Rightarrow> string \<times> string \<Rightarrow> iv_row option" where
  "find_iv db k = List.find (\<lambda>r. (ivr_source r, ivr_source_event_id r) = k) (iv_observations db)"

section \<open>Chain snapshots\<close>

definition snapshot_row_of :: "(option_chain \<Rightarrow> 'j) \<Rightarrow> option_chain \<Rightarrow> string \<Rightarrow> string \<Rightarrow> 'j chain_snapshot_row" where
  "snapshot_row_of encode chain source event =
     \<lparr>cs_underlying_id = ch_underlying_id chain, cs_expiry = ch_expiry chain, cs_observed_at = ch_timestamp chain,
      cs_source = source, cs_source_event_id = event, cs_payload = encode chain\<rparr>"

definition same_observation :: "'j chain_snapshot_row \<Rightarrow> 'j chain_snapshot_row \<Rightarrow> bool" where
  "same_observation a b \<longleftrightarrow>
     cs_underlying_id a = cs_underlying_id b \<and> cs_expiry a = cs_expiry b \<and> cs_observed_at a = cs_observed_at b \<and> cs_source a = cs_source b"

definition store_chain ::
  "(option_chain \<Rightarrow> 'j) \<Rightarrow> ('r, 'j) option_db \<Rightarrow> option_chain \<Rightarrow> string \<Rightarrow> string \<Rightarrow> 'r \<Rightarrow> ('r, 'j) option_db result" where
  "store_chain encode db chain source event raw =
     (let row = snapshot_row_of encode chain source event in
      if list_ex (same_observation row) (chain_snapshots db) then Inl (RuntimeError ''unique constraint violation'')
      else Inr (db\<lparr>raw_chains := raw_chains db @
               [\<lparr>rc_source = source, rc_source_event_id = event, rc_received_at = ch_timestamp chain, rc_payload = raw\<rparr>],
             chain_snapshots := chain_snapshots db @ [row]\<rparr>))"

definition chain_ingest ::
  "(option_chain \<Rightarrow> 'j) \<Rightarrow> ('j \<Rightarrow> option_chain result) \<Rightarrow> 'r \<Rightarrow> ('r, 'j) option_db \<Rightarrow> option_chain \<Rightarrow> string \<Rightarrow> string \<Rightarrow> 'r
     \<Rightarrow> (('r, 'j) option_db \<times> option_chain) result" where
  "chain_ingest encode decode no_payload db chain source event raw =
     rbind (put_call_ratio chain) (\<lambda>_.
       if blank source \<or> blank event then Inl (ValueError ''chain source and source event ID are required'')
       else if raw = no_payload then Inl (ValueError ''raw chain payload is required'')
       else case find_snapshot db (source, event) of
           Some existing \<Rightarrow>
             (case find_raw_chain db (source, event) of
                None \<Rightarrow> Inl (ValueError ''normalized chain exists without its raw provider event'')
              | Some raw_existing \<Rightarrow>
                  if cs_payload existing \<noteq> encode chain \<or> rc_payload raw_existing \<noteq> raw
                  then Inl (ValueError ''chain source event already exists with different content'')
                  else rbind (decode (cs_payload existing)) (\<lambda>c. Inr (db, c)))
         | None \<Rightarrow>
             if find_raw_chain db (source, event) \<noteq> None
             then Inl (ValueError ''raw chain event exists without its normalized snapshot'')
             else rbind (store_chain encode db chain source event raw) (\<lambda>db'. Inr (db', chain)))"

definition newest_first :: "('a \<Rightarrow> instant) \<Rightarrow> 'a list \<Rightarrow> 'a list" where
  "newest_first at_of rows = sort_key (\<lambda>r. - at_of r) rows"

definition latest_chain_as_of ::
  "('j \<Rightarrow> option_chain result) \<Rightarrow> ('r, 'j) option_db \<Rightarrow> uuid \<Rightarrow> int \<Rightarrow> datetime \<Rightarrow> option_chain option result" where
  "latest_chain_as_of decode db underlying expiry as_of =
     (if \<not> is_aware as_of then Inl (ValueError ''chain cutoff must be timezone-aware'')
      else case newest_first cs_observed_at (filter (\<lambda>r. cs_underlying_id r = underlying \<and> cs_expiry r = expiry
            \<and> cs_observed_at r \<le> instant_of as_of) (chain_snapshots db)) of
          [] \<Rightarrow> Inr None
        | r # _ \<Rightarrow> rbind (decode (cs_payload r)) (\<lambda>c. Inr (Some c)))"

section \<open>Implied-volatility history\<close>

definition observation_of_row :: "iv_row \<Rightarrow> iv_observation result" where
  "observation_of_row r = make_iv_observation (Aware (ivr_observed_at r)) (ivr_implied_volatility r)"

definition store_iv :: "('r, 'j) option_db \<Rightarrow> iv_row \<Rightarrow> ('r, 'j) option_db result" where
  "store_iv db row =
     (if list_ex (\<lambda>r. ivr_instrument_id r = ivr_instrument_id row \<and> ivr_observed_at r = ivr_observed_at row
          \<and> ivr_source r = ivr_source row) (iv_observations db)
      then Inl (RuntimeError ''unique constraint violation'')
      else Inr (db\<lparr>iv_observations := iv_observations db @ [row]\<rparr>))"

definition iv_ingest ::
  "(decimal \<Rightarrow> decimal) \<Rightarrow> ('r, 'j) option_db \<Rightarrow> uuid \<Rightarrow> datetime \<Rightarrow> decimal \<Rightarrow> string \<Rightarrow> string
     \<Rightarrow> (('r, 'j) option_db \<times> iv_observation) result" where
  "iv_ingest col db instrument observed_at volatility source event =
     rbind (make_iv_observation observed_at volatility) (\<lambda>o'.
       if blank source \<or> blank event then Inl (ValueError ''IV source and source event ID are required'')
       else case find_iv db (source, event) of
           Some existing \<Rightarrow>
             if ivr_instrument_id existing \<noteq> instrument \<or> ivr_observed_at existing \<noteq> iv_observed_at o'
                \<or> ivr_implied_volatility existing \<noteq> volatility
             then Inl (ValueError ''IV source event already exists with different content'')
             else rbind (observation_of_row existing) (\<lambda>d. Inr (db, d))
         | None \<Rightarrow>
             rbind (store_iv db \<lparr>ivr_instrument_id = instrument, ivr_observed_at = instant_of observed_at,
                 ivr_implied_volatility = col volatility, ivr_source = source, ivr_source_event_id = event\<rparr>) (\<lambda>db'.
             Inr (db', o')))"

definition iv_history_as_of :: "('r, 'j) option_db \<Rightarrow> uuid \<Rightarrow> datetime \<Rightarrow> int \<Rightarrow> iv_observation list result" where
  "iv_history_as_of db instrument as_of limit =
     (if \<not> is_aware as_of \<or> limit \<le> 0 then Inl (ValueError ''history cutoff must be timezone-aware and limit positive'')
      else rmap observation_of_row (rev (take (nat limit) (newest_first ivr_observed_at
          (filter (\<lambda>r. ivr_instrument_id r = instrument \<and> ivr_observed_at r \<le> instant_of as_of) (iv_observations db))))))"

section \<open>Sequences of writes\<close>

datatype 'r option_op =
    IngestChain option_chain string string 'r
  | IngestIV uuid datetime decimal string string

fun option_run ::
  "(option_chain \<Rightarrow> 'j) \<Rightarrow> ('j \<Rightarrow> option_chain result) \<Rightarrow> 'r \<Rightarrow> (decimal \<Rightarrow> decimal) \<Rightarrow> 'r option_op \<Rightarrow> ('r, 'j) option_db \<Rightarrow> ('r, 'j) option_db result" where
  "option_run encode decode np col (IngestChain chain source event raw) db = rbind (chain_ingest encode decode np db chain source event raw) (\<lambda>(db', _). Inr db')"
| "option_run encode decode np col (IngestIV i t v source event) db = rbind (iv_ingest col db i t v source event) (\<lambda>(db', _). Inr db')"

definition option_exec where
  "option_exec encode decode np col db op = keep_on_raise (option_run encode decode np col op) db"

lemma chain_ingest_cases:
  assumes "chain_ingest encode decode np db chain source event raw = Inr (db', c)"
  obtains (again) r x where "db' = db" "find_snapshot db (source, event) = Some r" "find_raw_chain db (source, event) = Some x"
      "cs_payload r = encode chain" "rc_payload x = raw" "decode (encode chain) = Inr c"
    | (stored) "find_snapshot db (source, event) = None" "find_raw_chain db (source, event) = None" "c = chain"
      "db' = db\<lparr>raw_chains := raw_chains db @
               [\<lparr>rc_source = source, rc_source_event_id = event, rc_received_at = ch_timestamp chain, rc_payload = raw\<rparr>],
             chain_snapshots := chain_snapshots db @ [snapshot_row_of encode chain source event]\<rparr>"
  using assms by (auto simp: chain_ingest_def rbind_eq_Inr store_chain_def Let_def split: if_splits option.splits)

lemma iv_ingest_cases:
  assumes "iv_ingest col db i t v source event = Inr (db', d)"
  obtains (again) "db' = db"
    | (stored) "find_iv db (source, event) = None" "db' = db\<lparr>iv_observations := iv_observations db @
        [\<lparr>ivr_instrument_id = i, ivr_observed_at = instant_of t, ivr_implied_volatility = col v, ivr_source = source, ivr_source_event_id = event\<rparr>]\<rparr>"
      "make_iv_observation t v = Inr d"
  using assms by (auto simp: iv_ingest_def rbind_eq_Inr store_iv_def split: if_splits option.splits)

lemma option_exec_keeps_snapshot:
  "find_snapshot db k = Some r \<Longrightarrow> find_snapshot (option_exec encode decode np col db op) k = Some r"
  unfolding option_exec_def
  by (rule keep_on_raise_cases [of "option_run encode decode np col op" db]; cases op)
    (auto simp: rbind_eq_Inr find_snapshot_def find_append elim!: chain_ingest_cases iv_ingest_cases)

lemma option_exec_keeps_raw:
  "find_raw_chain db k = Some r \<Longrightarrow> find_raw_chain (option_exec encode decode np col db op) k = Some r"
  unfolding option_exec_def
  by (rule keep_on_raise_cases [of "option_run encode decode np col op" db]; cases op)
    (auto simp: rbind_eq_Inr find_raw_chain_def find_append elim!: chain_ingest_cases iv_ingest_cases)

lemma option_exec_keeps_iv:
  "find_iv db k = Some r \<Longrightarrow> find_iv (option_exec encode decode np col db op) k = Some r"
  unfolding option_exec_def
  by (rule keep_on_raise_cases [of "option_run encode decode np col op" db]; cases op)
    (auto simp: rbind_eq_Inr find_iv_def find_append elim!: chain_ingest_cases iv_ingest_cases)

interpretation snapshot_table: write_once find_snapshot "option_exec encode decode np col" for encode decode np col
  by unfold_locales (rule option_exec_keeps_snapshot)

interpretation raw_chain_table: write_once find_raw_chain "option_exec encode decode np col" for encode decode np col
  by unfold_locales (rule option_exec_keeps_raw)

interpretation iv_table: write_once find_iv "option_exec encode decode np col" for encode decode np col
  by unfold_locales (rule option_exec_keeps_iv)

section \<open>Redelivery\<close>

lemma chain_ingest_stored:
  assumes "chain_ingest encode decode np db chain source event raw = Inr (db', c)"
  obtains r x where "find_snapshot db' (source, event) = Some r" "find_raw_chain db' (source, event) = Some x"
    "cs_payload r = encode chain" "rc_payload x = raw"
  using assms
proof (cases rule: chain_ingest_cases)
  case (again r x)
  then show ?thesis using that by simp
next
  case stored
  then show ?thesis
    using that by (simp add: find_snapshot_def find_raw_chain_def find_append snapshot_row_of_def)
qed

lemma chain_ingest_accepted:
  assumes "chain_ingest encode decode np db chain source event raw = Inr (db', c)"
  shows "\<exists>p. put_call_ratio chain = Inr p" "\<not> blank source" "\<not> blank event" "raw \<noteq> np"
  using assms by (auto simp: chain_ingest_def rbind_eq_Inr split: if_splits)

text \<open>Ingesting an option chain is idempotent and never overwrites.  Once a provider event has been ingested, then
  after any later sequence of ingestions a redelivery of the same event with the same content is accepted, changes no
  table and returns the stored chain, and a redelivery under the same event identifier with another chain or another
  raw payload is refused.\<close>

theorem chain_ingest_is_idempotent:
  assumes "chain_ingest encode decode np db chain source event raw = Inr (db1, c)"
    and "decode (encode chain) = Inr chain"
    and "db2 = foldl (option_exec encode decode np col) db1 ops"
  shows "chain_ingest encode decode np db2 chain source event raw = Inr (db2, chain)
    \<and> (\<forall>chain' raw' p. put_call_ratio chain' = Inr p \<and> raw' \<noteq> np \<and> (encode chain' \<noteq> encode chain \<or> raw' \<noteq> raw)
        \<longrightarrow> chain_ingest encode decode np db2 chain' source event raw'
              = Inl (ValueError ''chain source event already exists with different content''))"
proof -
  obtain r x where rows: "find_snapshot db1 (source, event) = Some r" "find_raw_chain db1 (source, event) = Some x"
    "cs_payload r = encode chain" "rc_payload x = raw"
    using chain_ingest_stored [OF assms(1)] by blast
  have "find_snapshot db2 (source, event) = Some r" "find_raw_chain db2 (source, event) = Some x"
    unfolding assms(3) using rows by (auto intro: snapshot_table.run_keeps raw_chain_table.run_keeps)
  with rows chain_ingest_accepted [OF assms(1)] assms(2) show ?thesis
    by (auto simp: chain_ingest_def)
qed

theorem chain_ingest_is_idempotent_witness:
  "\<exists>db1. chain_ingest id Inr '''' empty_option_db sample_chain ''nse'' ''e1'' ''raw'' = Inr (db1, sample_chain)
     \<and> chain_ingest id Inr '''' db1 sample_chain ''nse'' ''e1'' ''raw'' = Inr (db1, sample_chain)"
proof -
  have "\<exists>p. put_call_ratio sample_chain = Inr p"
    by (simp add: put_call_ratio_def sample_chain_valid)
  then obtain db1 where first: "chain_ingest id Inr '''' empty_option_db sample_chain ''nse'' ''e1'' ''raw'' = Inr (db1, sample_chain)"
    by (auto simp: chain_ingest_def blank_def is_space_def find_snapshot_def find_raw_chain_def empty_option_db_def store_chain_def Let_def)
  from chain_ingest_is_idempotent [OF first, of "db1" id "[]"] first show ?thesis
    by (intro exI [of _ db1]) simp
qed

text \<open>The latest chain as of a time is point-in-time: nothing is returned exactly when no snapshot of that underlying and
  expiry was observed by then, a returned chain is the content of one that was, and no other snapshot observed by then is newer.\<close>

theorem latest_chain_is_newest_known:
  assumes "latest_chain_as_of decode db underlying expiry as_of = Inr found"
    and "known = filter (\<lambda>r. cs_underlying_id r = underlying \<and> cs_expiry r = expiry \<and> cs_observed_at r \<le> instant_of as_of) (chain_snapshots db)"
  shows "(found = None \<longleftrightarrow> known = [])
    \<and> (\<forall>c. found = Some c \<longrightarrow> (\<exists>r \<in> set known. decode (cs_payload r) = Inr c \<and> (\<forall>r' \<in> set known. cs_observed_at r' \<le> cs_observed_at r)))"
proof (cases "newest_first cs_observed_at known")
  case Nil
  then have "known = []"
    by (metis newest_first_def set_empty set_sort)
  with assms Nil show ?thesis
    by (auto simp: latest_chain_as_of_def split: if_splits)
next
  case (Cons r rs)
  have members: "set (newest_first cs_observed_at known) = set known"
    by (simp add: newest_first_def)
  have "sorted (map (\<lambda>r. - cs_observed_at r) (newest_first cs_observed_at known))"
    by (simp add: newest_first_def)
  then have "\<forall>r' \<in> set known. cs_observed_at r' \<le> cs_observed_at r"
    unfolding members [symmetric] Cons by auto
  moreover have "r \<in> set known" "known \<noteq> []"
    using members Cons by auto
  ultimately show ?thesis
    using assms Cons by (auto simp: latest_chain_as_of_def rbind_eq_Inr split: if_splits)
qed

theorem latest_chain_is_newest_known_witness:
  "latest_chain_as_of Inr (\<lparr>raw_chains = [], chain_snapshots = [snapshot_row_of id sample_chain ''nse'' ''e1''], iv_observations = []\<rparr>
       :: (string, option_chain) option_db) 7 10 (Aware 3) = Inr (Some sample_chain)
   \<and> (\<exists>r \<in> set [snapshot_row_of id sample_chain ''nse'' ''e1'']. Inr (cs_payload r) = (Inr sample_chain :: option_chain result))"
proof -
  let ?db = "\<lparr>raw_chains = [], chain_snapshots = [snapshot_row_of id sample_chain ''nse'' ''e1''], iv_observations = []\<rparr>
       :: (string, option_chain) option_db"
  have row: "cs_underlying_id (snapshot_row_of id sample_chain ''nse'' ''e1'') = 7" "cs_expiry (snapshot_row_of id sample_chain ''nse'' ''e1'') = 10"
    "cs_observed_at (snapshot_row_of id sample_chain ''nse'' ''e1'') = 0" "cs_payload (snapshot_row_of id sample_chain ''nse'' ''e1'') = sample_chain"
    by (simp_all add: snapshot_row_of_def sample_chain_def)
  then have "latest_chain_as_of Inr ?db 7 10 (Aware 3) = Inr (Some sample_chain)"
    by (simp add: latest_chain_as_of_def newest_first_def)
  with latest_chain_is_newest_known [OF this refl] show ?thesis
    by (auto simp: row)
qed

text \<open>A redelivered implied-volatility observation is recognised only when the column kept it exactly.  After a first
  ingestion and any later ones, delivering the event again returns the observation and changes nothing if the column
  keeps the volatility as it is; if the column rounds it, the redelivery is refused as conflicting content.\<close>

theorem iv_redelivery_depends_on_the_column:
  assumes "iv_ingest col db instrument t v source event = Inr (db1, d)" and "find_iv db (source, event) = None"
    and "db2 = foldl (option_exec encode decode np col) db1 ops"
  shows "iv_ingest col db2 instrument t v source event
    = (if col v = v then Inr (db2, d) else Inl (ValueError ''IV source event already exists with different content''))"
proof -
  have d: "make_iv_observation t v = Inr d" and ok: "\<not> blank source" "\<not> blank event"
    and stored: "store_iv db \<lparr>ivr_instrument_id = instrument, ivr_observed_at = instant_of t,
      ivr_implied_volatility = col v, ivr_source = source, ivr_source_event_id = event\<rparr> = Inr db1"
    using assms(1,2) by (auto simp: iv_ingest_def rbind_eq_Inr split: if_splits)
  have "find_iv db1 (source, event) = Some \<lparr>ivr_instrument_id = instrument, ivr_observed_at = instant_of t,
      ivr_implied_volatility = col v, ivr_source = source, ivr_source_event_id = event\<rparr>"
    using stored assms(2) by (auto simp: find_iv_def find_append store_iv_def split: if_splits)
  then have row: "find_iv db2 (source, event) = Some \<lparr>ivr_instrument_id = instrument, ivr_observed_at = instant_of t,
      ivr_implied_volatility = col v, ivr_source = source, ivr_source_event_id = event\<rparr>"
    unfolding assms(3) by (rule iv_table.run_keeps)
  have "iv_observed_at d = instant_of t" "col v = v \<Longrightarrow> observation_of_row \<lparr>ivr_instrument_id = instrument, ivr_observed_at = instant_of t,
      ivr_implied_volatility = col v, ivr_source = source, ivr_source_event_id = event\<rparr> = Inr d"
    using d by (auto simp: make_iv_observation_def observation_of_row_def split: if_splits)
  with d ok row show ?thesis
    by (simp add: iv_ingest_def)
qed

definition ten_places :: "decimal \<Rightarrow> decimal" where
  "ten_places x = of_int (round_half_even (x * 10000000000)) / 10000000000"

theorem iv_redelivery_depends_on_the_column_witness:
  "\<exists>db1 d. iv_ingest ten_places (empty_option_db :: (string, option_chain) option_db) 1 (Aware 5) (1 / 2 + 1 / 1000000000000) ''nse'' ''e1'' = Inr (db1, d)
     \<and> iv_ingest ten_places db1 1 (Aware 5) (1 / 2 + 1 / 1000000000000) ''nse'' ''e1''
         = Inl (ValueError ''IV source event already exists with different content'')"
proof -
  obtain db1 d where first: "iv_ingest ten_places (empty_option_db :: (string, option_chain) option_db) 1 (Aware 5) (1 / 2 + 1 / 1000000000000) ''nse'' ''e1'' = Inr (db1, d)"
    by (auto simp: iv_ingest_def make_iv_observation_def blank_def is_space_def find_iv_def empty_option_db_def store_iv_def)
  have "ten_places (1 / 2 + 1 / 1000000000000) \<noteq> 1 / 2 + 1 / 1000000000000"
    using floor_eq_iff [of "500000000001 / 100 :: rat" 5000000000] by (simp add: ten_places_def round_half_even_def Let_def)
  then have "iv_ingest ten_places db1 1 (Aware 5) (1 / 2 + 1 / 1000000000000) ''nse'' ''e1''
      = Inl (ValueError ''IV source event already exists with different content'')"
    using iv_redelivery_depends_on_the_column [OF first, of db1 id Inr "''''" "[]"] by (simp add: find_iv_def empty_option_db_def)
  with first show ?thesis by blast
qed

end
