(* ===== verification/Access_Control.thy ===== *)
theory Access_Control
  imports Write_Once
begin

text \<open>
  Who may use the platform and in which mode: bearer-token authentication and roles
  (\<open>packages/auth/tokens.py\<close>), the durable revocation store (\<open>packages/auth/persistence.py\<close>), the
  live-trading interlocks of the settings (\<open>packages/config/settings.py\<close>) and the request
  dependencies and the revocation route that put them together (\<open>apps/api/main.py\<close>).

  \<open>sha\<close> is the lowercase hexadecimal SHA-256 of a token.  The source compares digests as bytes, in
  constant time; a digest and its hexadecimal form determine each other, so the model compares the
  text.  The clock is an argument.
\<close>

section \<open>Roles and principals\<close>

datatype role = VIEWER | OPERATOR

fun role_value :: "role \<Rightarrow> string" where
  "role_value VIEWER = ''viewer''"
| "role_value OPERATOR = ''operator''"

record principal =
  pr_subject :: string
  pr_role :: role
  pr_credential_sha256 :: string

datatype auth_error =
    AuthenticationError string
  | AuthenticationUnavailable string
  | AuthorizationError string

record authenticator =
  au_digests :: "(role \<times> string \<times> instant option) list"
  au_revoked :: "string list"

record token_config =
  tc_viewer :: "string option"
  tc_operator :: "string option"
  tc_previous_viewer :: "string option"
  tc_previous_operator :: "string option"
  tc_previous_expire_at :: "datetime option"
  tc_revoked :: "string list"

definition configured_digests :: "(string \<Rightarrow> string) \<Rightarrow> token_config \<Rightarrow> (role \<times> string \<times> instant option) list" where
  "configured_digests sha c =
     (let expires = map_option instant_of (tc_previous_expire_at c) in
      concat (map (\<lambda>(role, token, e). case token of None \<Rightarrow> [] | Some t \<Rightarrow> [(role, sha t, e)])
        [(VIEWER, tc_viewer c, None), (OPERATOR, tc_operator c, None),
         (VIEWER, tc_previous_viewer c, expires), (OPERATOR, tc_previous_operator c, expires)]))"

definition make_authenticator :: "(string \<Rightarrow> string) \<Rightarrow> token_config \<Rightarrow> authenticator result" where
  "make_authenticator sha c =
     (let digests = configured_digests sha c in
      if (case tc_previous_expire_at c of None \<Rightarrow> False | Some t \<Rightarrow> \<not> is_aware t)
      then Inl (ValueError ''previous-token expiry must be timezone-aware'')
      else if (tc_previous_viewer c \<noteq> None \<or> tc_previous_operator c \<noteq> None) \<and> tc_previous_expire_at c = None
      then Inl (ValueError ''previous tokens require an expiry'')
      else if \<not> distinct (map (\<lambda>(_, d, _). d) digests) then Inl (ValueError ''bearer tokens must be distinct'')
      else if \<not> distinct (tc_revoked c) \<or> \<not> list_all sha256_hex (tc_revoked c)
      then Inl (ValueError ''revoked token digests must be unique lowercase SHA-256 values'')
      else Inr \<lparr>au_digests = digests, au_revoked = tc_revoked c\<rparr>)"

section \<open>Authentication\<close>

text \<open>\<open>text.partition(" ")\<close>.\<close>

fun partition_space :: "string \<Rightarrow> string \<times> bool \<times> string" where
  "partition_space [] = ([], False, [])"
| "partition_space (c # cs) =
     (if c = CHR '' '' then ([], True, cs)
      else case partition_space cs of (a, found, b) \<Rightarrow> (c # a, found, b))"

definition lower_char :: "char \<Rightarrow> char" where
  "lower_char c = (let n = (of_char c :: nat) in if 65 \<le> n \<and> n \<le> 90 then char_of (n + 32) else c)"

definition bearer_token :: "string \<Rightarrow> string option" where
  "bearer_token header =
     (case partition_space header of (scheme, found, token) \<Rightarrow>
        if \<not> found \<or> map lower_char scheme \<noteq> ''bearer'' \<or> token = [] \<or> CHR '' '' \<in> set token then None else Some token)"

text \<open>The loop over every configured digest: the last match counts, and no match ends it.\<close>

definition match_digest :: "authenticator \<Rightarrow> string \<Rightarrow> (role \<times> instant option) option" where
  "match_digest a candidate =
     foldl (\<lambda>m (role, d, e). if candidate = d then Some (role, e) else m) None (au_digests a)"

definition authenticate :: "(string \<Rightarrow> string) \<Rightarrow> authenticator \<Rightarrow> instant \<Rightarrow> string option \<Rightarrow> auth_error + principal" where
  "authenticate sha a now authorization =
     (if au_digests a = [] then Inl (AuthenticationUnavailable ''API authentication is not configured'')
      else case authorization of
          None \<Rightarrow> Inl (AuthenticationError ''bearer authorization is required'')
        | Some header \<Rightarrow>
            (case bearer_token header of
               None \<Rightarrow> Inl (AuthenticationError ''bearer authorization is invalid'')
             | Some token \<Rightarrow>
                 let candidate = sha token; revoked = list_ex (\<lambda>d. candidate = d) (au_revoked a) in
                 case match_digest a candidate of
                   None \<Rightarrow> Inl (AuthenticationError ''bearer authorization is invalid'')
                 | Some (role, expires) \<Rightarrow>
                     if (case expires of None \<Rightarrow> False | Some e \<Rightarrow> now \<ge> e) \<or> revoked
                     then Inl (AuthenticationError ''bearer authorization is invalid'')
                     else Inr \<lparr>pr_subject = ''api:'' @ role_value role, pr_role = role, pr_credential_sha256 = candidate\<rparr>))"

definition require_role :: "principal \<Rightarrow> role \<Rightarrow> auth_error + principal" where
  "require_role p r =
     (if pr_role p = OPERATOR \<or> pr_role p = r then Inr p else Inl (AuthorizationError (role_value r @ '' role is required'')))"

section \<open>Durable revocation\<close>

record revocation_row =
  rv_token_sha256 :: string
  rv_revoked_at :: instant
  rv_actor_id :: string
  rv_reason :: string
  rv_correlation_id :: string

record revocation_audit =
  ra_occurred_at :: instant
  ra_actor_id :: string
  ra_action :: string
  ra_resource_type :: string
  ra_resource_id :: string
  ra_outcome :: string
  ra_correlation_id :: string
  ra_reason :: string

record revocation_db =
  rv_rows :: "revocation_row list"
  rv_audit :: "revocation_audit list"

definition find_revocation :: "revocation_db \<Rightarrow> string \<Rightarrow> revocation_row option" where
  "find_revocation db d = List.find (\<lambda>r. rv_token_sha256 r = d) (rv_rows db)"

definition revoke_token ::
  "revocation_db \<Rightarrow> string \<Rightarrow> datetime \<Rightarrow> string \<Rightarrow> string \<Rightarrow> string \<Rightarrow> (revocation_db \<times> revocation_row) result" where
  "revoke_token db d at_time actor reason correlation =
     (if \<not> sha256_hex d then Inl (ValueError ''token digest must be a lowercase SHA-256 value'')
      else if \<not> is_aware at_time then Inl (ValueError ''revocation timestamp must be timezone-aware'')
      else if blank actor \<or> blank reason \<or> blank correlation
      then Inl (ValueError ''revocation actor, reason, and correlation ID are required'')
      else case find_revocation db d of
          Some existing \<Rightarrow>
            if rv_actor_id existing \<noteq> actor \<or> rv_reason existing \<noteq> reason \<or> rv_correlation_id existing \<noteq> correlation
            then Inl (ValueError ''token digest already has conflicting revocation evidence'')
            else Inr (db, existing)
        | None \<Rightarrow>
            let row = \<lparr>rv_token_sha256 = d, rv_revoked_at = instant_of at_time, rv_actor_id = actor, rv_reason = reason,
                       rv_correlation_id = correlation\<rparr>
            in Inr (db\<lparr>rv_rows := rv_rows db @ [row],
                      rv_audit := rv_audit db @ [\<lparr>ra_occurred_at = instant_of at_time, ra_actor_id = actor,
                        ra_action = ''api_token.revoke'', ra_resource_type = ''api_token_digest'', ra_resource_id = d,
                        ra_outcome = ''success'', ra_correlation_id = correlation, ra_reason = reason\<rparr>]\<rparr>, row))"

definition is_revoked :: "revocation_db \<Rightarrow> string \<Rightarrow> datetime \<Rightarrow> bool result" where
  "is_revoked db d as_of =
     (if \<not> sha256_hex d then Inl (ValueError ''token digest must be a lowercase SHA-256 value'')
      else if \<not> is_aware as_of then Inl (ValueError ''revocation timestamp must be timezone-aware'')
      else Inr (list_ex (\<lambda>r. rv_token_sha256 r = d \<and> rv_revoked_at r \<le> instant_of as_of) (rv_rows db)))"

section \<open>Settings\<close>

datatype trading_mode = PAPER | LIVE

record settings =
  st_trading_mode :: trading_mode
  st_live_trading_enabled :: bool
  st_live_trading_confirmation :: "string option"
  st_broker_authenticated :: bool
  st_risk_limits_configured :: bool
  st_paper_validation_passed :: bool
  st_market_data_healthy :: bool
  st_broker_reconciled :: bool
  st_audit_logging_enabled :: bool
  st_kill_switch_enabled :: bool
  st_tokens :: token_config
  st_persistent_revocation :: bool

definition default_settings :: settings where
  "default_settings =
     \<lparr>st_trading_mode = PAPER, st_live_trading_enabled = False, st_live_trading_confirmation = None,
      st_broker_authenticated = False, st_risk_limits_configured = False, st_paper_validation_passed = False,
      st_market_data_healthy = False, st_broker_reconciled = False, st_audit_logging_enabled = True,
      st_kill_switch_enabled = True,
      st_tokens = \<lparr>tc_viewer = None, tc_operator = None, tc_previous_viewer = None, tc_previous_operator = None,
        tc_previous_expire_at = None, tc_revoked = []\<rparr>,
      st_persistent_revocation = False\<rparr>"

definition configured_tokens :: "token_config \<Rightarrow> string list" where
  "configured_tokens c =
     concat (map (\<lambda>t. case t of None \<Rightarrow> [] | Some s \<Rightarrow> [s]) [tc_viewer c, tc_operator c, tc_previous_viewer c, tc_previous_operator c])"

definition interlock_checks :: "settings \<Rightarrow> (string \<times> bool) list" where
  "interlock_checks s =
     [(''live_trading_enabled'', st_live_trading_enabled s), (''broker_authenticated'', st_broker_authenticated s),
      (''risk_limits_configured'', st_risk_limits_configured s), (''paper_validation_passed'', st_paper_validation_passed s),
      (''market_data_healthy'', st_market_data_healthy s), (''broker_reconciled'', st_broker_reconciled s),
      (''audit_logging_enabled'', st_audit_logging_enabled s), (''kill_switch_enabled'', st_kill_switch_enabled s),
      (''explicit_confirmation'', st_live_trading_confirmation s = Some ''I_CONFIRM_LIVE_TRADING'')]"

text \<open>The failed checks; the message lists them in alphabetical order, which is the order of this list.\<close>

definition alphabetical_checks :: "string list" where
  "alphabetical_checks =
     [''audit_logging_enabled'', ''broker_authenticated'', ''broker_reconciled'', ''explicit_confirmation'', ''kill_switch_enabled'',
      ''live_trading_enabled'', ''market_data_healthy'', ''paper_validation_passed'', ''risk_limits_configured'']"

definition missing_interlocks :: "settings \<Rightarrow> string list" where
  "missing_interlocks s = filter (\<lambda>n. map_of (interlock_checks s) n = Some False) alphabetical_checks"

definition enforce_live_interlocks :: "settings \<Rightarrow> settings result" where
  "enforce_live_interlocks s =
     (let c = st_tokens s; tokens = configured_tokens c in
      if list_ex (\<lambda>t. length t < 32) tokens
      then Inl (ValueError ''API bearer tokens must contain at least 32 characters'')
      else if \<not> distinct tokens then Inl (ValueError ''API bearer tokens must be distinct'')
      else if (tc_previous_viewer c \<noteq> None \<or> tc_previous_operator c \<noteq> None) \<and> tc_previous_expire_at c = None
      then Inl (ValueError ''previous API tokens require an expiry'')
      else if (case tc_previous_expire_at c of None \<Rightarrow> False | Some t \<Rightarrow> \<not> is_aware t)
      then Inl (ValueError ''previous API token expiry must be timezone-aware'')
      else if \<not> distinct (tc_revoked c) \<or> \<not> list_all sha256_hex (tc_revoked c)
      then Inl (ValueError ''revoked API token digests must be unique lowercase SHA-256 values'')
      else if st_trading_mode s = PAPER then Inr s
      else if missing_interlocks s \<noteq> []
      then Inl (ValueError (''live trading safety interlocks not satisfied: '' @ join '', '' (missing_interlocks s)))
      else Inr s)"

section \<open>Request dependencies\<close>

datatype http_error = HTTPException int string

text \<open>The revocation store of a request; \<open>None\<close> when the database cannot be reached.\<close>

definition authenticated_principal ::
  "(string \<Rightarrow> string) \<Rightarrow> settings \<Rightarrow> authenticator \<Rightarrow> revocation_db option \<Rightarrow> instant \<Rightarrow> string option \<Rightarrow> http_error + principal" where
  "authenticated_principal sha s a store now authorization =
     (case authenticate sha a now authorization of
        Inl (AuthenticationUnavailable m) \<Rightarrow> Inl (HTTPException 503 m)
      | Inl (AuthenticationError m) \<Rightarrow> Inl (HTTPException 401 m)
      | Inl (AuthorizationError m) \<Rightarrow> Inl (HTTPException 500 m)
      | Inr p \<Rightarrow>
          if \<not> st_persistent_revocation s then Inr p
          else case store of
              None \<Rightarrow> Inl (HTTPException 503 ''persistent revocation check is unavailable'')
            | Some db \<Rightarrow>
                (case is_revoked db (pr_credential_sha256 p) (Aware now) of
                   Inl _ \<Rightarrow> Inl (HTTPException 503 ''persistent revocation check is unavailable'')
                 | Inr True \<Rightarrow> Inl (HTTPException 401 ''bearer authorization is invalid'')
                 | Inr False \<Rightarrow> Inr p))"

definition operator_principal ::
  "(string \<Rightarrow> string) \<Rightarrow> settings \<Rightarrow> authenticator \<Rightarrow> revocation_db option \<Rightarrow> instant \<Rightarrow> string option \<Rightarrow> http_error + principal" where
  "operator_principal sha s a store now authorization =
     (case authenticated_principal sha s a store now authorization of
        Inl e \<Rightarrow> Inl e
      | Inr p \<Rightarrow>
          (case require_role p OPERATOR of
             Inr q \<Rightarrow> Inr q
           | Inl (AuthorizationError m) \<Rightarrow> Inl (HTTPException 403 m)
           | Inl _ \<Rightarrow> Inl (HTTPException 500 ''internal error'')))"

text \<open>The body of the revocation request, with its field constraints.\<close>

definition revocation_request_ok :: "string \<Rightarrow> string \<Rightarrow> bool" where
  "revocation_request_ok d reason \<longleftrightarrow> sha256_hex d \<and> 1 \<le> length reason \<and> length reason \<le> 512"

definition revoke_api_token ::
  "(string \<Rightarrow> string) \<Rightarrow> settings \<Rightarrow> authenticator \<Rightarrow> revocation_db option \<Rightarrow> instant \<Rightarrow> string option \<Rightarrow> string \<Rightarrow> string \<Rightarrow> string
     \<Rightarrow> http_error + (revocation_db \<times> revocation_row)" where
  "revoke_api_token sha s a store now authorization d reason correlation =
     (case operator_principal sha s a store now authorization of
        Inl e \<Rightarrow> Inl e
      | Inr p \<Rightarrow>
          if \<not> revocation_request_ok d reason then Inl (HTTPException 422 ''request validation failed'')
          else if \<not> st_persistent_revocation s then Inl (HTTPException 503 ''persistent revocation is not enabled'')
          else case store of
              None \<Rightarrow> Inl (HTTPException 503 ''persistent revocation write is unavailable'')
            | Some db \<Rightarrow>
                (case revoke_token db d (Aware now) (pr_subject p) reason correlation of
                   Inl (ValueError m) \<Rightarrow> Inl (HTTPException 409 m)
                 | Inl _ \<Rightarrow> Inl (HTTPException 503 ''persistent revocation write is unavailable'')
                 | Inr (db', row) \<Rightarrow> Inr (db', row)))"

section \<open>Live trading\<close>

text \<open>\<open>create_app\<close> (\<open>apps/api/main.py\<close>) builds the authenticator from the tokens of the settings.  Settings that were accepted always start the
  service, when the hash does not collide on the configured tokens.\<close>

definition app_authenticator :: "(string \<Rightarrow> string) \<Rightarrow> settings \<Rightarrow> authenticator result" where
  "app_authenticator sha s = make_authenticator sha (st_tokens s)"

lemma configured_digests_tokens: "map (\<lambda>(_, d, _). d) (configured_digests sha c) = map sha (configured_tokens c)"
  by (simp add: configured_digests_def configured_tokens_def Let_def split: option.splits)

lemma accepted_settings_start:
  assumes "enforce_live_interlocks s = Inr s" and "inj_on sha (set (configured_tokens (st_tokens s)))"
  shows "\<exists>a. app_authenticator sha s = Inr a"
  using assms
  by (auto simp: app_authenticator_def make_authenticator_def configured_digests_tokens enforce_live_interlocks_def Let_def distinct_map
      split: if_splits option.splits)

lemma missing_interlocks_Nil:
  "missing_interlocks s = [] \<longleftrightarrow> list_all snd (interlock_checks s)"
  by (simp add: missing_interlocks_def alphabetical_checks_def interlock_checks_def)

text \<open>Live trading is never on by accident: settings are accepted in live mode only when every interlock holds - live
  trading enabled, broker authenticated and reconciled, risk limits configured, paper validation passed, market data
  healthy, audit logging and kill switch enabled - and the confirmation phrase was given exactly.\<close>

theorem live_mode_requires_every_interlock:
  assumes "enforce_live_interlocks s = Inr s'" and "st_trading_mode s' = LIVE"
  shows "s' = s \<and> st_live_trading_enabled s \<and> st_broker_authenticated s \<and> st_risk_limits_configured s
    \<and> st_paper_validation_passed s \<and> st_market_data_healthy s \<and> st_broker_reconciled s \<and> st_audit_logging_enabled s
    \<and> st_kill_switch_enabled s \<and> st_live_trading_confirmation s = Some ''I_CONFIRM_LIVE_TRADING''"
proof -
  have "s' = s" "missing_interlocks s = []"
    using assms by (auto simp: enforce_live_interlocks_def Let_def split: if_splits)
  then show ?thesis
    by (simp add: missing_interlocks_Nil interlock_checks_def)
qed

definition live_settings :: settings where
  "live_settings = default_settings
     \<lparr>st_trading_mode := LIVE, st_live_trading_enabled := True, st_live_trading_confirmation := Some ''I_CONFIRM_LIVE_TRADING'',
      st_broker_authenticated := True, st_risk_limits_configured := True, st_paper_validation_passed := True,
      st_market_data_healthy := True, st_broker_reconciled := True\<rparr>"

theorem live_mode_requires_every_interlock_witness:
  "enforce_live_interlocks live_settings = Inr live_settings \<and> st_kill_switch_enabled live_settings
   \<and> enforce_live_interlocks (live_settings\<lparr>st_kill_switch_enabled := False\<rparr>)
       = Inl (ValueError ''live trading safety interlocks not satisfied: kill_switch_enabled'')"
proof -
  have "enforce_live_interlocks live_settings = Inr live_settings"
    by (simp add: enforce_live_interlocks_def live_settings_def default_settings_def configured_tokens_def missing_interlocks_Nil
        interlock_checks_def Let_def)
  moreover have "enforce_live_interlocks (live_settings\<lparr>st_kill_switch_enabled := False\<rparr>)
       = Inl (ValueError ''live trading safety interlocks not satisfied: kill_switch_enabled'')"
    by (simp add: enforce_live_interlocks_def live_settings_def default_settings_def configured_tokens_def missing_interlocks_def
        alphabetical_checks_def interlock_checks_def Let_def)
  moreover have "st_trading_mode live_settings = LIVE"
    by (simp add: live_settings_def)
  ultimately show ?thesis
    using live_mode_requires_every_interlock by blast
qed

section \<open>Authenticated requests\<close>

lemma partition_space_found:
  "partition_space h = (a, True, b) \<Longrightarrow> h = a @ '' '' @ b"
  by (induction h arbitrary: a) (auto split: if_splits prod.splits)

lemma bearer_token_Some:
  assumes "bearer_token h = Some token"
  shows "\<exists>scheme. h = scheme @ '' '' @ token \<and> map lower_char scheme = ''bearer''" "token \<noteq> []"
proof -
  obtain scheme found rest where q: "partition_space h = (scheme, found, rest)" by (cases "partition_space h")
  with assms have parts: "found" "map lower_char scheme = ''bearer''" "token = rest" "rest \<noteq> []"
    by (auto simp: bearer_token_def split: if_splits)
  with q partition_space_found [of h scheme rest] show "\<exists>scheme. h = scheme @ '' '' @ token \<and> map lower_char scheme = ''bearer''"
    by (intro exI [of _ scheme]) simp
  from parts show "token \<noteq> []" by simp
qed

lemma match_digest_foldl:
  assumes "foldl (\<lambda>m (role, d, e). if c = d then Some (role, e) else m) m ds = Some (r, x)"
  shows "(r, c, x) \<in> set ds \<or> m = Some (r, x)"
  using assms
proof (induction ds arbitrary: m)
  case (Cons q ds)
  obtain role d e where q: "q = (role, d, e)" by (cases q)
  with Cons.IH [of "if c = d then Some (role, e) else m"] Cons.prems show ?case
    by (auto split: if_splits)
qed simp

lemma match_digest_Some: "match_digest a c = Some (r, x) \<Longrightarrow> (r, c, x) \<in> set (au_digests a)"
  unfolding match_digest_def by (drule match_digest_foldl) simp

lemma authenticate_Inr:
  assumes "authenticate sha a now h = Inr p"
  obtains header token e where "h = Some header" "bearer_token header = Some token" "(pr_role p, sha token, e) \<in> set (au_digests a)"
    "case e of None \<Rightarrow> True | Some t \<Rightarrow> now < t" "sha token \<notin> set (au_revoked a)" "pr_credential_sha256 p = sha token"
    "pr_subject p = ''api:'' @ role_value (pr_role p)"
  using assms
  by (auto simp: authenticate_def Let_def list_ex_iff not_le split: if_splits option.splits dest!: match_digest_Some)

lemma authenticated_principal_Inr:
  assumes "authenticated_principal sha s a store now h = Inr p"
  shows "authenticate sha a now h = Inr p"
    and "st_persistent_revocation s \<Longrightarrow> \<exists>db. store = Some db \<and> is_revoked db (pr_credential_sha256 p) (Aware now) = Inr False"
  using assms by (auto simp: authenticated_principal_def split: sum.splits auth_error.splits if_splits option.splits bool.splits)

text \<open>A request is authenticated only by a current credential: it carried a bearer token whose digest is configured for
  the role it gets, a rotated-out token is used before its expiry only, the digest is not in the configured revocation list,
  and with persistent revocation on, the revocation store was read and holds no revocation of it made by now.  The operator
  routes are reached by operator tokens alone.\<close>

theorem only_current_credentials_are_authenticated:
  assumes "make_authenticator sha c = Inr a" and "authenticated_principal sha s a store now h = Inr p"
  shows "(\<exists>header token e. h = Some header \<and> bearer_token header = Some token \<and> pr_credential_sha256 p = sha token
      \<and> (pr_role p, sha token, e) \<in> set (configured_digests sha c) \<and> (\<forall>t. e = Some t \<longrightarrow> now < t) \<and> sha token \<notin> set (tc_revoked c))
    \<and> (st_persistent_revocation s \<longrightarrow> (\<exists>db. store = Some db
        \<and> (\<forall>r \<in> set (rv_rows db). rv_token_sha256 r = pr_credential_sha256 p \<longrightarrow> now < rv_revoked_at r)))
    \<and> (pr_role p \<noteq> OPERATOR \<longrightarrow> operator_principal sha s a store now h = Inl (HTTPException 403 ''operator role is required''))"
proof -
  have a: "au_digests a = configured_digests sha c" "au_revoked a = tc_revoked c"
    using assms(1) by (auto simp: make_authenticator_def Let_def split: if_splits)
  note auth = authenticated_principal_Inr [OF assms(2)]
  obtain header token e where "h = Some header" "bearer_token header = Some token" "(pr_role p, sha token, e) \<in> set (au_digests a)"
    "case e of None \<Rightarrow> True | Some t \<Rightarrow> now < t" "sha token \<notin> set (au_revoked a)" "pr_credential_sha256 p = sha token"
    by (rule authenticate_Inr [OF auth(1)])
  then have "\<exists>header token e. h = Some header \<and> bearer_token header = Some token \<and> pr_credential_sha256 p = sha token
      \<and> (pr_role p, sha token, e) \<in> set (configured_digests sha c) \<and> (\<forall>t. e = Some t \<longrightarrow> now < t) \<and> sha token \<notin> set (tc_revoked c)"
    using a by (intro exI [of _ header] exI [of _ token] exI [of _ e]) auto
  moreover have "\<exists>db. store = Some db \<and> (\<forall>r \<in> set (rv_rows db). rv_token_sha256 r = pr_credential_sha256 p \<longrightarrow> now < rv_revoked_at r)"
    if "st_persistent_revocation s"
    using auth(2) [OF that] by (auto simp: is_revoked_def list_ex_iff not_le split: if_splits)
  moreover have "operator_principal sha s a store now h = Inl (HTTPException 403 ''operator role is required'')" if "pr_role p \<noteq> OPERATOR"
    using that assms(2) by (simp add: operator_principal_def require_role_def)
  ultimately show ?thesis by blast
qed

definition sample_tokens :: token_config where
  "sample_tokens =
     \<lparr>tc_viewer = Some ''view'', tc_operator = Some ''operate'', tc_previous_viewer = None, tc_previous_operator = None,
      tc_previous_expire_at = None, tc_revoked = []\<rparr>"

definition sample_authenticator :: authenticator where
  "sample_authenticator = \<lparr>au_digests = [(VIEWER, ''view'', None), (OPERATOR, ''operate'', None)], au_revoked = []\<rparr>"

lemma sample_authenticator_made: "make_authenticator id sample_tokens = Inr sample_authenticator"
  by (simp add: make_authenticator_def configured_digests_def sample_tokens_def sample_authenticator_def Let_def)

lemma sample_bearer: "bearer_token ''Bearer view'' = Some ''view'' \<and> bearer_token ''bearer operate'' = Some ''operate''"
  by code_simp

theorem only_current_credentials_are_authenticated_witness:
  "\<exists>p. authenticated_principal id default_settings sample_authenticator None 5 (Some ''Bearer view'') = Inr p \<and> pr_role p = VIEWER
     \<and> operator_principal id default_settings sample_authenticator None 5 (Some ''Bearer view'') = Inl (HTTPException 403 ''operator role is required'')"
proof -
  obtain p where p: "authenticated_principal id default_settings sample_authenticator None 5 (Some ''Bearer view'') = Inr p" "pr_role p = VIEWER"
    by (simp add: authenticated_principal_def authenticate_def sample_bearer sample_authenticator_def match_digest_def default_settings_def Let_def)
  from only_current_credentials_are_authenticated [OF sample_authenticator_made p(1)] p show ?thesis
    by auto
qed

section \<open>Revocation is permanent\<close>

datatype revocation_op = Revoke string datetime string string string

fun revocation_run :: "revocation_op \<Rightarrow> revocation_db \<Rightarrow> revocation_db result" where
  "revocation_run (Revoke d t actor reason correlation) db = rbind (revoke_token db d t actor reason correlation) (\<lambda>(db', _). Inr db')"

definition revocation_exec :: "revocation_db \<Rightarrow> revocation_op \<Rightarrow> revocation_db" where
  "revocation_exec db op = keep_on_raise (revocation_run op) db"

lemma revoke_token_cases:
  assumes "revoke_token db d t actor reason correlation = Inr (db', row)"
  obtains (known) "db' = db" "find_revocation db d = Some row"
    | (new) q where "rv_rows db' = rv_rows db @ [row]" "rv_audit db' = rv_audit db @ [q]" "rv_token_sha256 row = d" "rv_revoked_at row = instant_of t"
      "ra_resource_id q = d" "ra_occurred_at q = instant_of t" "ra_actor_id q = rv_actor_id row" "find_revocation db d = None"
  using assms by (auto simp: revoke_token_def Let_def split: if_splits option.splits)

lemma revocation_exec_keeps: "find_revocation db k = Some r \<Longrightarrow> find_revocation (revocation_exec db op) k = Some r"
proof (cases "revocation_run op db")
  case (Inr db')
  assume r: "find_revocation db k = Some r"
  obtain d t actor reason correlation where op: "op = Revoke d t actor reason correlation" by (cases op)
  with Inr obtain row where "revoke_token db d t actor reason correlation = Inr (db', row)"
    by (auto simp: rbind_eq_Inr)
  then have "find_revocation db' k = Some r"
    using r by (cases rule: revoke_token_cases) (auto simp: find_revocation_def find_append)
  with Inr show ?thesis by (simp add: revocation_exec_def keep_on_raise_def)
qed (simp add: revocation_exec_def keep_on_raise_def)

interpretation revocations: write_once find_revocation revocation_exec
  by unfold_locales (rule revocation_exec_keeps)

lemma find_revocation_revoked:
  "find_revocation db d = Some r \<Longrightarrow> rv_revoked_at r \<le> now \<Longrightarrow> sha256_hex d \<Longrightarrow> is_revoked db d (Aware now) = Inr True"
  by (auto simp: is_revoked_def list_ex_iff find_revocation_def dest!: find_Some_in)

text \<open>C9: A revocation is permanent.  Once the revocation route has recorded a token's digest, then after any later
  revocations, every request made with that token at or after the recorded time is refused with 401 or, when authentication
  is not configured, 503 - whatever header carries it and whatever role it had.\<close>

theorem revoked_token_is_never_authenticated_again:
  assumes "revoke_api_token sha s a (Some db) t operator_header d reason correlation = Inr (db1, row)"
    and "db2 = foldl revocation_exec db1 ops" and "rv_revoked_at row \<le> now"
    and "bearer_token header = Some token" and "sha token = d"
  shows "\<exists>code m. authenticated_principal sha s a' (Some db2) now (Some header) = Inl (HTTPException code m) \<and> code \<in> {401, 503}"
proof -
  have on: "st_persistent_revocation s" and hex: "sha256_hex d"
    using assms(1) by (auto simp: revoke_api_token_def revocation_request_ok_def split: sum.splits if_splits)
  obtain subject where "revoke_token db d (Aware t) subject reason correlation = Inr (db1, row)"
    using assms(1) by (auto simp: revoke_api_token_def split: sum.splits if_splits pyerror.splits)
  then have "find_revocation db1 d = Some row"
    by (cases rule: revoke_token_cases) (auto simp: find_revocation_def find_append)
  then have "is_revoked db2 d (Aware now) = Inr True"
    unfolding assms(2) using revocations.run_keeps find_revocation_revoked assms(3) hex by blast
  then have revoked: "is_revoked db2 (sha token) (Aware now) = Inr True"
    by (simp add: assms(5))
  show ?thesis
  proof (cases "authenticate sha a' now (Some header)")
    case (Inl e)
    moreover have "authenticate sha a' now (Some header) \<noteq> Inl (AuthorizationError m)" for m
      by (auto simp: authenticate_def Let_def split: option.split prod.split)
    ultimately show ?thesis
      by (cases e) (auto simp: authenticated_principal_def)
  next
    case (Inr p)
    have "pr_credential_sha256 p = sha token"
      by (rule authenticate_Inr [OF Inr]) (use assms(4) in auto)
    with Inr on revoked show ?thesis
      by (simp add: authenticated_principal_def)
  qed
qed

definition zero_digest :: string where
  "zero_digest = replicate 64 (CHR ''0'')"

definition one_digest :: string where
  "one_digest = replicate 64 (CHR ''1'')"

definition secret_hash :: "string \<Rightarrow> string" where
  "secret_hash t = (if t = ''view'' then zero_digest else one_digest)"

theorem revoked_token_is_never_authenticated_again_witness:
  "\<exists>db1 row code m. revoke_api_token secret_hash (default_settings\<lparr>st_persistent_revocation := True\<rparr>)
       \<lparr>au_digests = [(VIEWER, zero_digest, None), (OPERATOR, one_digest, None)], au_revoked = []\<rparr>
       (Some \<lparr>rv_rows = [], rv_audit = []\<rparr>) 10 (Some ''bearer operate'') zero_digest ''leak'' ''c1'' = Inr (db1, row)
     \<and> authenticated_principal secret_hash (default_settings\<lparr>st_persistent_revocation := True\<rparr>)
       \<lparr>au_digests = [(VIEWER, zero_digest, None), (OPERATOR, one_digest, None)], au_revoked = []\<rparr> (Some db1) 11 (Some ''Bearer view'')
         = Inl (HTTPException code m)"
proof -
  let ?s = "default_settings\<lparr>st_persistent_revocation := True\<rparr>"
  let ?a = "\<lparr>au_digests = [(VIEWER, zero_digest, None), (OPERATOR, one_digest, None)], au_revoked = []\<rparr>"
  have z: "sha256_hex zero_digest" "one_digest \<noteq> zero_digest" "zero_digest \<noteq> one_digest" "sha256_hex one_digest"
    by (simp_all add: zero_digest_def one_digest_def sha256_hex_def hex_digit_def numeral_eq_Suc)
  have "\<exists>db1 row. revoke_token \<lparr>rv_rows = [], rv_audit = []\<rparr> zero_digest (Aware 10) ''api:operator'' ''leak'' ''c1'' = Inr (db1, row)
      \<and> rv_revoked_at row = 10"
    using z(1) by (simp add: revoke_token_def blank_def is_space_def find_revocation_def Let_def)
  then obtain db1 row where "revoke_token \<lparr>rv_rows = [], rv_audit = []\<rparr> zero_digest (Aware 10) ''api:operator'' ''leak'' ''c1'' = Inr (db1, row)"
    and at10: "rv_revoked_at row = 10" by blast
  then have route: "revoke_api_token secret_hash ?s ?a (Some \<lparr>rv_rows = [], rv_audit = []\<rparr>) 10 (Some ''bearer operate'') zero_digest ''leak'' ''c1'' = Inr (db1, row)"
    by (simp add: revoke_api_token_def operator_principal_def authenticated_principal_def authenticate_def sample_bearer secret_hash_def
        match_digest_def Let_def z is_revoked_def require_role_def revocation_request_ok_def default_settings_def)
  have "bearer_token ''Bearer view'' = Some ''view''" "secret_hash ''view'' = zero_digest"
    by (simp_all add: sample_bearer secret_hash_def)
  from revoked_token_is_never_authenticated_again [OF route, of db1 "[]" 11, OF _ _ this] at10 route show ?thesis
    by fastforce
qed

end
