(* ===== verification/Broker_Adapters.thy ===== *)
theory Broker_Adapters
  imports Domain
begin

text \<open>
  The broker boundary, \<open>packages/broker_adapters/\<close>: the order request with its checks, the gate
  in front of every dispatch (\<open>base.py\<close>), and the Dhan and Upstox adapters.  The HTTP client is the
  argument \<open>send\<close>; an operation returns the requests it made together with its answer, so that what
  reaches the broker is part of the result.  \<open>float_of\<close> is the conversion of a fractional Decimal
  to binary floating point, \<open>render\<close> is \<open>str\<close> on JSON values other than text.

  The locale \<open>gated_adapter\<close> is what the platform relies on of any adapter; both adapters are instances.
\<close>

section \<open>Requests\<close>

record broker_order_request =
  bo_order_intent_id :: uuid
  bo_client_order_id :: string
  bo_instrument_key :: string
  bo_side :: side
  bo_order_type :: order_type
  bo_quantity :: decimal
  bo_product :: string
  bo_validity :: string
  bo_price :: decimal
  bo_trigger_price :: decimal
  bo_disclosed_quantity :: decimal
  bo_after_market :: bool

definition make_broker_order_request :: "broker_order_request \<Rightarrow> broker_order_request result" where
  "make_broker_order_request r =
     (if blank (bo_client_order_id r) \<or> blank (bo_instrument_key r)
      then Inl (ValueError ''client order ID and instrument key are required'')
      else if bo_quantity r \<le> 0 then Inl (ValueError ''quantity must be positive'')
      else if min (bo_price r) (min (bo_trigger_price r) (bo_disclosed_quantity r)) < 0
      then Inl (ValueError ''order prices and disclosed quantity cannot be negative'')
      else if bo_disclosed_quantity r > bo_quantity r then Inl (ValueError ''disclosed quantity cannot exceed quantity'')
      else Inr r)"

record broker_order_response =
  br_broker_order_id :: string
  br_status :: string

datatype broker_error = BrokerAPIError string int | Raised pyerror | AttributeError

section \<open>The gate\<close>

definition validate_risk_approval :: "broker_order_request \<Rightarrow> risk_decision \<Rightarrow> unit result" where
  "validate_risk_approval order risk =
     (if rd_order_intent_id risk \<noteq> bo_order_intent_id order
      then Inl (PermissionError ''risk decision does not belong to broker order request'')
      else if rd_outcome risk \<notin> {risk_outcome.APPROVED, RESIZED}
      then Inl (PermissionError ''approved independent risk decision is required'')
      else if rd_approved_quantity risk \<noteq> bo_quantity order
      then Inl (PermissionError ''broker quantity must equal independently approved quantity'')
      else Inr ())"

type_synonym authorizer = "broker_order_request \<Rightarrow> risk_decision \<Rightarrow> unit result"

definition authorize_dispatch :: "broker_order_request \<Rightarrow> risk_decision \<Rightarrow> authorizer option \<Rightarrow> unit result" where
  "authorize_dispatch order risk authorizer =
     rbind (validate_risk_approval order risk) (\<lambda>_.
       case authorizer of
         None \<Rightarrow> Inl (PermissionError ''broker order dispatch requires an execution authorizer'')
       | Some f \<Rightarrow> f order risk)"

section \<open>HTTP\<close>

datatype json = JNull | JBool bool | JInt int | JFloat rat | JStr string | JList "json list" | JObj "(string \<times> json) list"

datatype http_method = GET | POST | DELETE

record http_request =
  hr_method :: http_method
  hr_url :: string
  hr_headers :: "(string \<times> string) list"
  hr_params :: "(string \<times> string) list"
  hr_json :: "json option"

text \<open>The answer: success or not, the status code, and the decoded body (\<open>None\<close> when it is not JSON).\<close>

record http_response =
  hp_is_success :: bool
  hp_status_code :: int
  hp_json :: "json option"

type_synonym 'a broker_action = "http_request list \<times> (broker_error + 'a)"

definition number_of :: "(decimal \<Rightarrow> rat) \<Rightarrow> decimal \<Rightarrow> json" where
  "number_of float_of v = (if v = of_int \<lfloor>v\<rfloor> then JInt (dint v) else JFloat (float_of v))"

definition json_str :: "(json \<Rightarrow> string) \<Rightarrow> json \<Rightarrow> string" where
  "json_str render j = (case j of JStr s \<Rightarrow> s | _ \<Rightarrow> render j)"

text \<open>\<open>str(data.get(key, absent))\<close>.\<close>

definition field_str :: "(json \<Rightarrow> string) \<Rightarrow> (string \<times> json) list \<Rightarrow> string \<Rightarrow> string \<Rightarrow> string" where
  "field_str render d k absent = (case map_of d k of None \<Rightarrow> absent | Some j \<Rightarrow> json_str render j)"

definition response_object :: "http_response \<Rightarrow> string \<Rightarrow> broker_error + (string \<times> json) list" where
  "response_object r operation =
     (if \<not> hp_is_success r then Inl (BrokerAPIError operation (hp_status_code r))
      else case hp_json r of
          None \<Rightarrow> Inl (Raised (ValueError ''response is not JSON''))
        | Some (JObj d) \<Rightarrow> Inr d
        | Some _ \<Rightarrow> Inl (BrokerAPIError (operation @ ''_invalid_response'') (hp_status_code r)))"

text \<open>One request, and what is made of its answer.\<close>

definition call_broker ::
  "(http_request \<Rightarrow> http_response result) \<Rightarrow> http_request \<Rightarrow> string \<Rightarrow> (http_response \<Rightarrow> (string \<times> json) list \<Rightarrow> broker_error + 'a)
     \<Rightarrow> 'a broker_action" where
  "call_broker send q operation finish =
     ([q], case send q of
         Inl e \<Rightarrow> Inl (Raised e)
       | Inr r \<Rightarrow> (case response_object r operation of Inl e \<Rightarrow> Inl e | Inr d \<Rightarrow> finish r d))"

definition after_gate :: "unit result \<Rightarrow> 'a broker_action \<Rightarrow> 'a broker_action" where
  "after_gate gate action = (case gate of Inl e \<Rightarrow> ([], Inl (Raised e)) | Inr _ \<Rightarrow> action)"

section \<open>Dhan\<close>

record dhan_adapter =
  dh_client_id :: string
  dh_headers :: "(string \<times> string) list"
  dh_authorizer :: "authorizer option"

definition make_dhan_adapter :: "string \<Rightarrow> string \<Rightarrow> authorizer option \<Rightarrow> dhan_adapter result" where
  "make_dhan_adapter client_id access_token authorizer =
     (if blank client_id \<or> blank access_token then Inl (ValueError ''Dhan client ID and access token are required'')
      else Inr \<lparr>dh_client_id = client_id, dh_headers = [(''access-token'', access_token), (''Accept'', ''application/json'')],
               dh_authorizer = authorizer\<rparr>)"

text \<open>\<open>key.split(":", 1)\<close> into two parts.\<close>

fun split_colon :: "string \<Rightarrow> (string \<times> string) option" where
  "split_colon [] = None"
| "split_colon (c # cs) =
     (if c = CHR '':'' then Some ([], cs) else case split_colon cs of None \<Rightarrow> None | Some (a, b) \<Rightarrow> Some (c # a, b))"

fun side_text :: "side \<Rightarrow> string" where
  "side_text BUY = ''BUY''"
| "side_text SELL = ''SELL''"

fun order_type_text :: "order_type \<Rightarrow> string" where
  "order_type_text MARKET = ''MARKET''"
| "order_type_text LIMIT = ''LIMIT''"
| "order_type_text STOP = ''STOP''"
| "order_type_text STOP_LIMIT = ''STOP_LIMIT''"

definition dhan_payload :: "(decimal \<Rightarrow> rat) \<Rightarrow> dhan_adapter \<Rightarrow> broker_order_request \<Rightarrow> string \<Rightarrow> string \<Rightarrow> json" where
  "dhan_payload float_of a order segment security =
     JObj [(''dhanClientId'', JStr (dh_client_id a)), (''correlationId'', JStr (bo_client_order_id order)),
       (''transactionType'', JStr (side_text (bo_side order))), (''exchangeSegment'', JStr segment),
       (''productType'', JStr (bo_product order)), (''orderType'', JStr (order_type_text (bo_order_type order))),
       (''validity'', JStr (bo_validity order)), (''securityId'', JStr security),
       (''quantity'', number_of float_of (bo_quantity order)),
       (''disclosedQuantity'', number_of float_of (bo_disclosed_quantity order)),
       (''price'', number_of float_of (bo_price order)), (''triggerPrice'', number_of float_of (bo_trigger_price order)),
       (''afterMarketOrder'', JBool (bo_after_market order))]"

definition dhan_url :: string where
  "dhan_url = ''https://api.dhan.co/v2/orders''"

definition dhan_place_order ::
  "(decimal \<Rightarrow> rat) \<Rightarrow> (json \<Rightarrow> string) \<Rightarrow> (http_request \<Rightarrow> http_response result) \<Rightarrow> dhan_adapter \<Rightarrow> broker_order_request \<Rightarrow> risk_decision
     \<Rightarrow> broker_order_response broker_action" where
  "dhan_place_order float_of render send a order risk =
     after_gate (authorize_dispatch order risk (dh_authorizer a))
       (case split_colon (bo_instrument_key order) of
          None \<Rightarrow> ([], Inl (Raised (ValueError ''Dhan instrument key must be EXCHANGE_SEGMENT:SECURITY_ID'')))
        | Some (segment, security) \<Rightarrow>
            call_broker send \<lparr>hr_method = POST, hr_url = dhan_url, hr_headers = dh_headers a, hr_params = [],
                hr_json = Some (dhan_payload float_of a order segment security)\<rparr> ''place_order''
              (\<lambda>r d. let order_id = field_str render d ''orderId'' [] in
                 if order_id = [] then Inl (BrokerAPIError ''place_order_invalid_response'' (hp_status_code r))
                 else Inr \<lparr>br_broker_order_id = order_id, br_status = field_str render d ''orderStatus'' []\<rparr>))"

definition dhan_order_call ::
  "(json \<Rightarrow> string) \<Rightarrow> (http_request \<Rightarrow> http_response result) \<Rightarrow> dhan_adapter \<Rightarrow> http_method \<Rightarrow> string \<Rightarrow> string
     \<Rightarrow> broker_order_response broker_action" where
  "dhan_order_call render send a m operation order_id =
     call_broker send \<lparr>hr_method = m, hr_url = dhan_url @ ''/'' @ order_id, hr_headers = dh_headers a, hr_params = [], hr_json = None\<rparr> operation
       (\<lambda>r d. Inr \<lparr>br_broker_order_id = field_str render d ''orderId'' order_id, br_status = field_str render d ''orderStatus'' []\<rparr>)"

definition dhan_get_order where
  "dhan_get_order render send a order_id = dhan_order_call render send a GET ''get_order'' order_id"

definition dhan_cancel_order where
  "dhan_cancel_order render send a order_id = dhan_order_call render send a DELETE ''cancel_order'' order_id"

section \<open>Upstox\<close>

record upstox_adapter =
  up_headers :: "(string \<times> string) list"
  up_authorizer :: "authorizer option"

definition make_upstox_adapter :: "string \<Rightarrow> authorizer option \<Rightarrow> upstox_adapter result" where
  "make_upstox_adapter access_token authorizer =
     (if blank access_token then Inl (ValueError ''Upstox access token is required'')
      else Inr \<lparr>up_headers = [(''Authorization'', ''Bearer '' @ access_token), (''Accept'', ''application/json'')],
               up_authorizer = authorizer\<rparr>)"

definition upstox_payload :: "(decimal \<Rightarrow> rat) \<Rightarrow> broker_order_request \<Rightarrow> json" where
  "upstox_payload float_of order =
     JObj [(''quantity'', number_of float_of (bo_quantity order)), (''product'', JStr (bo_product order)),
       (''validity'', JStr (bo_validity order)), (''price'', number_of float_of (bo_price order)),
       (''tag'', JStr (bo_client_order_id order)), (''instrument_token'', JStr (bo_instrument_key order)),
       (''order_type'', JStr (order_type_text (bo_order_type order))), (''transaction_type'', JStr (side_text (bo_side order))),
       (''disclosed_quantity'', number_of float_of (bo_disclosed_quantity order)),
       (''trigger_price'', number_of float_of (bo_trigger_price order)), (''is_amo'', JBool (bo_after_market order))]"

text \<open>\<open>data.get("data", {})\<close>, on which \<open>get\<close> is called next: a value that is no object raises.\<close>

definition inner_object :: "(string \<times> json) list \<Rightarrow> broker_error + (string \<times> json) list" where
  "inner_object d = (case map_of d ''data'' of None \<Rightarrow> Inr [] | Some (JObj x) \<Rightarrow> Inr x | Some _ \<Rightarrow> Inl AttributeError)"

definition upstox_place_order ::
  "(decimal \<Rightarrow> rat) \<Rightarrow> (json \<Rightarrow> string) \<Rightarrow> (http_request \<Rightarrow> http_response result) \<Rightarrow> upstox_adapter \<Rightarrow> broker_order_request \<Rightarrow> risk_decision
     \<Rightarrow> broker_order_response broker_action" where
  "upstox_place_order float_of render send a order risk =
     after_gate (authorize_dispatch order risk (up_authorizer a))
       (call_broker send \<lparr>hr_method = POST, hr_url = ''https://api-hft.upstox.com/v2/order/place'', hr_headers = up_headers a,
            hr_params = [], hr_json = Some (upstox_payload float_of order)\<rparr> ''place_order''
          (\<lambda>r d. case inner_object d of
               Inl e \<Rightarrow> Inl e
             | Inr x \<Rightarrow>
                 let order_id = field_str render x ''order_id'' [] in
                 if order_id = [] then Inl (BrokerAPIError ''place_order_invalid_response'' (hp_status_code r))
                 else Inr \<lparr>br_broker_order_id = order_id, br_status = field_str render d ''status'' ''success''\<rparr>))"

definition upstox_get_order ::
  "(json \<Rightarrow> string) \<Rightarrow> (http_request \<Rightarrow> http_response result) \<Rightarrow> upstox_adapter \<Rightarrow> string \<Rightarrow> broker_order_response broker_action" where
  "upstox_get_order render send a order_id =
     call_broker send \<lparr>hr_method = GET, hr_url = ''https://api.upstox.com/v2/order/details'', hr_headers = up_headers a,
         hr_params = [(''order_id'', order_id)], hr_json = None\<rparr> ''get_order''
       (\<lambda>r d. case inner_object d of
            Inl e \<Rightarrow> Inl e
          | Inr x \<Rightarrow> Inr \<lparr>br_broker_order_id = field_str render x ''order_id'' order_id, br_status = field_str render x ''status'' []\<rparr>)"

definition upstox_cancel_order ::
  "(json \<Rightarrow> string) \<Rightarrow> (http_request \<Rightarrow> http_response result) \<Rightarrow> upstox_adapter \<Rightarrow> string \<Rightarrow> broker_order_response broker_action" where
  "upstox_cancel_order render send a order_id =
     call_broker send \<lparr>hr_method = DELETE, hr_url = ''https://api-hft.upstox.com/v2/order/cancel'', hr_headers = up_headers a,
         hr_params = [(''order_id'', order_id)], hr_json = None\<rparr> ''cancel_order''
       (\<lambda>r d. case inner_object d of
            Inl e \<Rightarrow> Inl e
          | Inr x \<Rightarrow> Inr \<lparr>br_broker_order_id = field_str render x ''order_id'' order_id, br_status = field_str render d ''status'' ''success''\<rparr>)"

section \<open>What reaches the broker\<close>

text \<open>
  The platform's reliance on an adapter: an order operation makes at most one request, and makes
  one only after the gate let the order through.  \<open>authorizer_of\<close> and \<open>place\<close> are an adapter's
  authorizer and its \<open>place_order\<close>.
\<close>

locale gated_adapter =
  fixes authorizer_of :: "'a \<Rightarrow> authorizer option"
    and place :: "'a \<Rightarrow> broker_order_request \<Rightarrow> risk_decision \<Rightarrow> broker_order_response broker_action"
    and quantity_of :: "http_request \<Rightarrow> json option"
    and number :: "decimal \<Rightarrow> json"
  assumes gate_closed: "authorize_dispatch order risk (authorizer_of a) = Inl e \<Longrightarrow> place a order risk = ([], Inl (Raised e))"
    and one_request: "length (fst (place a order risk)) \<le> 1"
    and quantity_sent: "q \<in> set (fst (place a order risk)) \<Longrightarrow> hr_method q = POST \<and> quantity_of q = Some (number (bo_quantity order))"
    and needs_request: "snd (place a order risk) = Inr answer \<Longrightarrow> fst (place a order risk) \<noteq> []"
begin

definition admitted :: "'a \<Rightarrow> broker_order_request \<Rightarrow> risk_decision \<Rightarrow> bool" where
  "admitted a order risk =
     (rd_order_intent_id risk = bo_order_intent_id order \<and> rd_outcome risk \<in> {risk_outcome.APPROVED, RESIZED}
      \<and> rd_approved_quantity risk = bo_quantity order \<and> (\<exists>f. authorizer_of a = Some f \<and> f order risk = Inr ()))"

lemma admitted_iff: "admitted a order risk \<longleftrightarrow> authorize_dispatch order risk (authorizer_of a) = Inr ()"
  by (auto simp: admitted_def authorize_dispatch_def validate_risk_approval_def split: option.splits)

lemma requests_are_admitted:
  assumes "fst (place a order risk) \<noteq> []"
  shows "admitted a order risk"
proof (cases "authorize_dispatch order risk (authorizer_of a)")
  case (Inl e)
  then show ?thesis using assms by (simp add: gate_closed)
qed (simp add: admitted_iff)

lemma request_is_the_approved_order:
  assumes "fst (place a order risk) \<noteq> []"
  shows "\<exists>q. fst (place a order risk) = [q] \<and> hr_method q = POST
    \<and> quantity_of q = Some (number (rd_approved_quantity risk))"
proof -
  obtain q where q: "fst (place a order risk) = [q]"
    using assms one_request[of a order risk] by (cases "fst (place a order risk)") auto
  then show ?thesis
    using quantity_sent[of q a order risk] requests_are_admitted[OF assms] by (simp add: admitted_def)
qed

lemma no_authorizer_no_request: "authorizer_of a = None \<Longrightarrow> fst (place a order risk) = []"
  using requests_are_admitted[of a order risk] by (auto simp: admitted_def)

lemma accepted_was_admitted: "snd (place a order risk) = Inr answer \<Longrightarrow> admitted a order risk"
  using needs_request requests_are_admitted by blast

end

definition json_field :: "string \<Rightarrow> http_request \<Rightarrow> json option" where
  "json_field k q = (case hr_json q of Some (JObj d) \<Rightarrow> map_of d k | _ \<Rightarrow> None)"

lemma after_gate_simps [simp]: "after_gate (Inl e) action = ([], Inl (Raised e))" "after_gate (Inr u) action = action"
  by (simp_all add: after_gate_def)

lemma fst_call_broker [simp]: "fst (call_broker send q operation finish) = [q]"
  by (simp add: call_broker_def)

interpretation dhan: gated_adapter dh_authorizer "dhan_place_order float_of render send" "json_field ''quantity''" "number_of float_of"
proof unfold_locales
  fix a :: dhan_adapter and order risk e q answer
  let ?gate = "authorize_dispatch order risk (dh_authorizer a)"
  show "?gate = Inl e \<Longrightarrow> dhan_place_order float_of render send a order risk = ([], Inl (Raised e))"
    by (simp add: dhan_place_order_def)
  show "length (fst (dhan_place_order float_of render send a order risk)) \<le> 1"
    by (cases ?gate) (auto simp: dhan_place_order_def split: option.splits)
  show "q \<in> set (fst (dhan_place_order float_of render send a order risk))
      \<Longrightarrow> hr_method q = POST \<and> json_field ''quantity'' q = Some (number_of float_of (bo_quantity order))"
    by (cases ?gate) (auto simp: dhan_place_order_def json_field_def dhan_payload_def split: option.splits)
  show "snd (dhan_place_order float_of render send a order risk) = Inr answer
      \<Longrightarrow> fst (dhan_place_order float_of render send a order risk) \<noteq> []"
    by (cases ?gate) (auto simp: dhan_place_order_def split: option.splits)
qed

interpretation upstox: gated_adapter up_authorizer "upstox_place_order float_of render send" "json_field ''quantity''" "number_of float_of"
proof unfold_locales
  fix a :: upstox_adapter and order risk e q answer
  let ?gate = "authorize_dispatch order risk (up_authorizer a)"
  show "?gate = Inl e \<Longrightarrow> upstox_place_order float_of render send a order risk = ([], Inl (Raised e))"
    by (simp add: upstox_place_order_def)
  show "length (fst (upstox_place_order float_of render send a order risk)) \<le> 1"
    by (cases ?gate) (auto simp: upstox_place_order_def)
  show "q \<in> set (fst (upstox_place_order float_of render send a order risk))
      \<Longrightarrow> hr_method q = POST \<and> json_field ''quantity'' q = Some (number_of float_of (bo_quantity order))"
    by (cases ?gate) (auto simp: upstox_place_order_def json_field_def upstox_payload_def)
  show "snd (upstox_place_order float_of render send a order risk) = Inr answer
      \<Longrightarrow> fst (upstox_place_order float_of render send a order risk) \<noteq> []"
    by (cases ?gate) (auto simp: upstox_place_order_def)
qed

text \<open>C8: Whatever the transport and the authorizer do, an order leaves for Dhan or Upstox only when the
  risk decision is of the same intent, approves or resizes it, approves exactly the quantity of the
  order, and the configured authorizer accepts it; then exactly one POST is made, and the quantity in
  its body is the approved quantity.  Without a configured authorizer nothing is ever sent.
\<close>

theorem orders_reach_the_broker_only_when_authorised:
  assumes "(requests, answer) = dhan_place_order float_of render send da order risk \<and> auth = dh_authorizer da
         \<or> (requests, answer) = upstox_place_order float_of render send ua order risk \<and> auth = up_authorizer ua"
    and "requests \<noteq> [] \<or> answer = Inr response"
  shows "(\<exists>q. requests = [q] \<and> hr_method q = POST \<and> json_field ''quantity'' q = Some (number_of float_of (rd_approved_quantity risk)))
    \<and> rd_order_intent_id risk = bo_order_intent_id order \<and> rd_outcome risk \<in> {risk_outcome.APPROVED, RESIZED}
    \<and> rd_approved_quantity risk = bo_quantity order \<and> (\<exists>f. auth = Some f \<and> f order risk = Inr ())"
  using assms(1)
proof (elim disjE conjE)
  assume d: "(requests, answer) = dhan_place_order float_of render send da order risk" and a: "auth = dh_authorizer da"
  let ?place = "dhan_place_order float_of render send da order risk"
  have parts: "requests = fst ?place" "answer = snd ?place" using d by (metis fst_conv, metis snd_conv)
  then have "fst ?place \<noteq> []" using assms(2) dhan.needs_request by metis
  then show ?thesis
    using dhan.request_is_the_approved_order dhan.requests_are_admitted parts a by (simp add: dhan.admitted_def)
next
  assume d: "(requests, answer) = upstox_place_order float_of render send ua order risk" and a: "auth = up_authorizer ua"
  let ?place = "upstox_place_order float_of render send ua order risk"
  have parts: "requests = fst ?place" "answer = snd ?place" using d by (metis fst_conv, metis snd_conv)
  then have "fst ?place \<noteq> []" using assms(2) upstox.needs_request by metis
  then show ?thesis
    using upstox.request_is_the_approved_order upstox.requests_are_admitted parts a by (simp add: upstox.admitted_def)
qed

theorem orders_reach_the_broker_only_when_authorised_witness:
  defines "order \<equiv> \<lparr>bo_order_intent_id = 7, bo_client_order_id = ''c1'', bo_instrument_key = ''NSE:11536'', bo_side = BUY,
    bo_order_type = MARKET, bo_quantity = 5, bo_product = ''D'', bo_validity = ''DAY'', bo_price = 0, bo_trigger_price = 0,
    bo_disclosed_quantity = 0, bo_after_market = False\<rparr>"
  defines "risk \<equiv> \<lparr>rd_id = 1, rd_order_intent_id = 7, rd_timestamp = 0, rd_outcome = RESIZED, rd_approved_quantity = 5,
    rd_reason_codes = [], rd_policy_version = ''p''\<rparr>"
  defines "dhan \<equiv> \<lparr>dh_client_id = ''k'', dh_headers = [], dh_authorizer = Some (\<lambda>_ _. Inr ())\<rparr>"
  defines "broker \<equiv> (\<lambda>_. Inr \<lparr>hp_is_success = True, hp_status_code = 200,
    hp_json = Some (JObj [(''orderId'', JStr ''9''), (''orderStatus'', JStr ''PENDING'')])\<rparr>)"
  shows "snd (dhan_place_order id (\<lambda>_. []) broker dhan order risk) = Inr \<lparr>br_broker_order_id = ''9'', br_status = ''PENDING''\<rparr>
    \<and> (\<exists>q. fst (dhan_place_order id (\<lambda>_. []) broker dhan order risk) = [q]
           \<and> json_field ''quantity'' q = Some (number_of id (rd_approved_quantity risk)))"
proof -
  let ?place = "dhan_place_order id (\<lambda>_. []) broker dhan order risk"
  have answer: "snd ?place = Inr \<lparr>br_broker_order_id = ''9'', br_status = ''PENDING''\<rparr>"
    by (simp add: dhan_place_order_def authorize_dispatch_def validate_risk_approval_def call_broker_def response_object_def
        field_str_def json_str_def order_def risk_def dhan_def broker_def Let_def)
  then show ?thesis
    using orders_reach_the_broker_only_when_authorised[where requests = "fst ?place" and answer = "snd ?place"
        and da = dhan and auth = "dh_authorizer dhan" and order = order and risk = risk and float_of = id and render = "\<lambda>_. []"
        and send = broker and response = "\<lparr>br_broker_order_id = ''9'', br_status = ''PENDING''\<rparr>"]
    by (auto simp: prod_eq_iff)
qed

end
