(* ===== verification/Indicators.thy ===== *)
theory Indicators
  imports Float_Ops
begin

text \<open>
  The technical indicators (\<open>packages/indicators/core.py\<close>), over the floating-point operations of
  \<open>Float_Ops\<close>.  A series of the source, \<open>[None] * n\<close> whose entries from some index on are assigned in
  index order, is built here by appending: \<open>series_loop\<close> runs the loop body, \<open>warm_series\<close> puts the
  warm-up in front, \<open>seeded_series\<close> does the same for a recursion with a seed.  A body may raise.
\<close>

section \<open>Series loops\<close>

definition series_loop :: "('s \<Rightarrow> nat \<Rightarrow> ('s \<times> 'v) result) \<Rightarrow> 's \<Rightarrow> nat \<Rightarrow> nat \<Rightarrow> ('s \<times> 'v list) result" where
  "series_loop step s a n =
     rfold (\<lambda>(s, out) i. rbind (step s i) (\<lambda>(s', v). Inr (s', out @ [v]))) (s, []) [a..<n]"

definition warm_series :: "'v \<Rightarrow> nat \<Rightarrow> nat \<Rightarrow> ('s \<Rightarrow> nat \<Rightarrow> ('s \<times> 'v) result) \<Rightarrow> 's \<Rightarrow> 'v list result" where
  "warm_series d a n step s = rbind (series_loop step s a n) (\<lambda>(_, out). Inr (replicate (min a n) d @ out))"

definition seeded_series ::
  "nat \<Rightarrow> nat \<Rightarrow> ('s \<times> 'v) result \<Rightarrow> ('s \<Rightarrow> nat \<Rightarrow> ('s \<times> 'v) result) \<Rightarrow> 'v option list result" where
  "seeded_series k n seed step =
     rbind seed (\<lambda>(s, v). rbind (series_loop step s (Suc k) n) (\<lambda>(_, out). Inr (replicate k None @ Some v # map Some out)))"

section \<open>Inputs\<close>

type_synonym 'f numbers = "'f number list"
type_synonym 'f series = "'f option list"

definition float_values :: "('f, 'm) float_ops_scheme \<Rightarrow> 'f numbers \<Rightarrow> string \<Rightarrow> 'f list result" where
  "float_values F xs name =
     rbind (rmap (to_float F) xs) (\<lambda>result.
       if list_all (f_finite F) result then Inr result else Inl (ValueError (name @ '' must contain only finite values'')))"

definition check_period :: "int \<Rightarrow> unit result" where
  "check_period period = (if period \<le> 0 then Inl (ValueError ''period must be positive'') else Inr ())"

definition same_length :: "'f list list \<Rightarrow> unit result" where
  "same_length xss =
     (if card (set (map length xss)) > 1 then Inl (ValueError ''input series must have equal lengths'') else Inr ())"

section \<open>Averages\<close>

definition sma_step :: "('f, 'm) float_ops_scheme \<Rightarrow> 'f list \<Rightarrow> int \<Rightarrow> 'f \<Rightarrow> nat \<Rightarrow> ('f \<times> 'f option) result" where
  "sma_step F source period rolling i =
     (let added = f_add F rolling (source ! i);
          kept = (if int i \<ge> period then f_sub F added (source ! (i - nat period)) else added)
      in if int i \<ge> period - 1 then rbind (fdivide F kept (f_of_int F period)) (\<lambda>v. Inr (kept, Some v))
         else Inr (kept, None))"

definition sma :: "('f, 'm) float_ops_scheme \<Rightarrow> 'f numbers \<Rightarrow> int \<Rightarrow> 'f series result" where
  "sma F xs period =
     rbind (check_period period) (\<lambda>_. rbind (float_values F xs ''values'') (\<lambda>source.
       warm_series None 0 (length source) (sma_step F source period) (f_of_int F 0)))"

text \<open>\<open>sum(values[:period]) / period\<close>, the seed of the recursive averages.\<close>

definition seed_mean :: "('f, 'm) float_ops_scheme \<Rightarrow> 'f list \<Rightarrow> int \<Rightarrow> 'f result" where
  "seed_mean F xs period = fdivide F (f_sum F (take (nat period) xs)) (f_of_int F period)"

definition ema_step :: "('f, 'm) float_ops_scheme \<Rightarrow> 'f list \<Rightarrow> 'f \<Rightarrow> 'f \<Rightarrow> nat \<Rightarrow> ('f \<times> 'f) result" where
  "ema_step F source alpha current i =
     (let v = f_add F (f_mul F alpha (source ! i)) (f_mul F (f_sub F (f_of_int F 1) alpha) current) in Inr (v, v))"

definition ema :: "('f, 'm) float_ops_scheme \<Rightarrow> 'f numbers \<Rightarrow> int \<Rightarrow> 'f series result" where
  "ema F xs period =
     rbind (check_period period) (\<lambda>_. rbind (float_values F xs ''values'') (\<lambda>source.
       if int (length source) < period then Inr (replicate (length source) None)
       else rbind (seed_mean F source period) (\<lambda>current.
            rbind (fdivide F (f_of_int F 2) (f_of_int F (period + 1))) (\<lambda>alpha.
            seeded_series (nat (period - 1)) (length source) (Inr (current, current)) (ema_step F source alpha)))))"

definition wilder_step :: "('f, 'm) float_ops_scheme \<Rightarrow> 'f list \<Rightarrow> int \<Rightarrow> 'f \<Rightarrow> nat \<Rightarrow> ('f \<times> 'f) result" where
  "wilder_step F xs period current i =
     rbind (fdivide F (f_add F (f_mul F current (f_of_int F (period - 1))) (xs ! i)) (f_of_int F period)) (\<lambda>v. Inr (v, v))"

definition wilder :: "('f, 'm) float_ops_scheme \<Rightarrow> 'f list \<Rightarrow> int \<Rightarrow> 'f series result" where
  "wilder F xs period =
     (if int (length xs) < period then Inr (replicate (length xs) None)
      else seeded_series (nat (period - 1)) (length xs) (rbind (seed_mean F xs period) (\<lambda>c. Inr (c, c))) (wilder_step F xs period))"

section \<open>Relative strength and rate of change\<close>

definition rsi_score :: "('f, 'm) float_ops_scheme \<Rightarrow> 'f \<Rightarrow> 'f \<Rightarrow> 'f result" where
  "rsi_score F gain loss =
     (if f_eq F loss (f_of_int F 0) then Inr (if ftrue F gain then f_of_int F 100 else f_of_int F 50)
      else rbind (fdivide F gain loss) (\<lambda>strength.
           rbind (fdivide F (f_of_int F 100) (f_add F (f_of_int F 1) strength)) (\<lambda>q.
           Inr (f_sub F (f_of_int F 100) q))))"

definition price_changes :: "('f, 'm) float_ops_scheme \<Rightarrow> 'f list \<Rightarrow> 'f list" where
  "price_changes F source = map (\<lambda>i. f_sub F (source ! i) (source ! (i - 1))) [1..<length source]"

definition upward :: "('f, 'm) float_ops_scheme \<Rightarrow> 'f \<Rightarrow> 'f" where
  "upward F change = fmax F change (f_of_int F 0)"

definition downward :: "('f, 'm) float_ops_scheme \<Rightarrow> 'f \<Rightarrow> 'f" where
  "downward F change = fmax F (f_neg F change) (f_of_int F 0)"

definition rsi_seed :: "('f, 'm) float_ops_scheme \<Rightarrow> 'f list \<Rightarrow> int \<Rightarrow> (('f \<times> 'f) \<times> 'f) result" where
  "rsi_seed F changes period =
     rbind (seed_mean F (map (upward F) changes) period) (\<lambda>gain.
     rbind (seed_mean F (map (downward F) changes) period) (\<lambda>loss.
     rbind (rsi_score F gain loss) (\<lambda>v. Inr ((gain, loss), v))))"

definition rsi_step :: "('f, 'm) float_ops_scheme \<Rightarrow> 'f list \<Rightarrow> int \<Rightarrow> 'f \<times> 'f \<Rightarrow> nat \<Rightarrow> (('f \<times> 'f) \<times> 'f) result" where
  "rsi_step F changes period = (\<lambda>(gain, loss) i.
     rbind (fdivide F (f_add F (f_mul F gain (f_of_int F (period - 1))) (upward F (changes ! (i - 1)))) (f_of_int F period)) (\<lambda>gain'.
     rbind (fdivide F (f_add F (f_mul F loss (f_of_int F (period - 1))) (downward F (changes ! (i - 1)))) (f_of_int F period)) (\<lambda>loss'.
     rbind (rsi_score F gain' loss') (\<lambda>v. Inr ((gain', loss'), v)))))"

definition rsi :: "('f, 'm) float_ops_scheme \<Rightarrow> 'f numbers \<Rightarrow> int \<Rightarrow> 'f series result" where
  "rsi F xs period =
     rbind (check_period period) (\<lambda>_. rbind (float_values F xs ''values'') (\<lambda>source.
       if int (length source) \<le> period then Inr (replicate (length source) None)
       else seeded_series (nat period) (length source) (rsi_seed F (price_changes F source) period)
              (rsi_step F (price_changes F source) period)))"

definition roc_step :: "('f, 'm) float_ops_scheme \<Rightarrow> 'f list \<Rightarrow> int \<Rightarrow> unit \<Rightarrow> nat \<Rightarrow> (unit \<times> 'f option) result" where
  "roc_step F source period _ i =
     (let base = source ! (i - nat period) in
      if ftrue F base
      then rbind (fdivide F (f_mul F (f_of_int F 100) (f_sub F (source ! i) base)) base) (\<lambda>v. Inr ((), Some v))
      else Inr ((), None))"

definition roc :: "('f, 'm) float_ops_scheme \<Rightarrow> 'f numbers \<Rightarrow> int \<Rightarrow> 'f series result" where
  "roc F xs period =
     rbind (check_period period) (\<lambda>_. rbind (float_values F xs ''values'') (\<lambda>source.
       warm_series None (nat period) (length source) (roc_step F source period) ()))"

definition relative_volume_step :: "('f, 'm) float_ops_scheme \<Rightarrow> 'f list \<Rightarrow> 'f series \<Rightarrow> unit \<Rightarrow> nat \<Rightarrow> (unit \<times> 'f option) result" where
  "relative_volume_step F source averages _ i = (case averages ! i of
       None \<Rightarrow> Inr ((), None)
     | Some average \<Rightarrow>
         if f_eq F average (f_of_int F 0) then Inr ((), None)
         else rbind (fdivide F (source ! i) average) (\<lambda>v. Inr ((), Some v)))"

definition relative_volume :: "('f, 'm) float_ops_scheme \<Rightarrow> 'f numbers \<Rightarrow> int \<Rightarrow> 'f series result" where
  "relative_volume F volume period =
     rbind (float_values F volume ''volume'') (\<lambda>source. rbind (sma F volume period) (\<lambda>averages.
       warm_series None 0 (length source) (relative_volume_step F source averages) ()))"

section \<open>MACD and Bollinger bands\<close>

record 'f macd_lines =
  macd_line :: "'f series"
  macd_signal :: "'f series"
  macd_histogram :: "'f series"

definition difference :: "('f, 'm) float_ops_scheme \<Rightarrow> 'f series \<Rightarrow> 'f series \<Rightarrow> 'f series" where
  "difference F xs ys =
     map (\<lambda>(l, r). case (l, r) of (Some x, Some y) \<Rightarrow> Some (f_sub F x y) | _ \<Rightarrow> None) (zip xs ys)"

definition available :: "'f series \<Rightarrow> 'f list" where
  "available xs = concat (map (case_option [] (\<lambda>v. [v])) xs)"

definition macd :: "('f, 'm) float_ops_scheme \<Rightarrow> 'f numbers \<Rightarrow> int \<Rightarrow> int \<Rightarrow> int \<Rightarrow> 'f macd_lines result" where
  "macd F xs fast slow signal =
     (if fast \<ge> slow then Inl (ValueError ''fast period must be smaller than slow period'')
      else rbind (ema F xs fast) (\<lambda>fast_values. rbind (ema F xs slow) (\<lambda>slow_values.
           let line = difference F fast_values slow_values
           in rbind (ema F (map PyFloat (available line)) signal) (\<lambda>signal_tail.
              let signal_line = replicate (length line - length (available line)) None @ signal_tail
              in Inr \<lparr>macd_line = line, macd_signal = signal_line, macd_histogram = difference F line signal_line\<rparr>))))"

record 'f bollinger =
  bb_middle :: "'f series"
  bb_upper :: "'f series"
  bb_lower :: "'f series"

text \<open>\<open>math.sqrt(sum((value - mean) ** 2 for value in window) / period)\<close>.\<close>

definition window_deviation :: "('f, 'm) float_ops_scheme \<Rightarrow> 'f list \<Rightarrow> 'f \<Rightarrow> int \<Rightarrow> 'f result" where
  "window_deviation F window mean period =
     rbind (rmap (\<lambda>v. f_square F (f_sub F v mean)) window) (\<lambda>squares.
     rbind (fdivide F (f_sum F squares) (f_of_int F period)) (f_sqrt F))"

text \<open>\<open>xs[index - period + 1 : index + 1]\<close> for \<open>index >= period - 1\<close>.\<close>

definition window_of :: "'f list \<Rightarrow> int \<Rightarrow> nat \<Rightarrow> 'f list" where
  "window_of xs period i = take (nat period) (drop (Suc i - nat period) xs)"

definition bollinger_step ::
  "('f, 'm) float_ops_scheme \<Rightarrow> 'f list \<Rightarrow> 'f series \<Rightarrow> int \<Rightarrow> 'f \<Rightarrow> unit \<Rightarrow> nat \<Rightarrow> (unit \<times> ('f option \<times> 'f option)) result" where
  "bollinger_step F source middle period deviations _ i = (case middle ! i of
       None \<Rightarrow> Inl (RuntimeError ''internal Bollinger warm-up alignment failure'')
     | Some mean \<Rightarrow> rbind (window_deviation F (window_of source period i) mean period) (\<lambda>deviation.
         Inr ((), (Some (f_add F mean (f_mul F deviations deviation)), Some (f_sub F mean (f_mul F deviations deviation))))))"

definition bollinger_bands :: "('f, 'm) float_ops_scheme \<Rightarrow> 'f numbers \<Rightarrow> int \<Rightarrow> 'f \<Rightarrow> 'f bollinger result" where
  "bollinger_bands F xs period deviations =
     rbind (check_period period) (\<lambda>_.
       if f_less F deviations (f_of_int F 0) \<or> \<not> f_finite F deviations
       then Inl (ValueError ''deviations must be finite and non-negative'')
       else rbind (float_values F xs ''values'') (\<lambda>source. rbind (sma F xs period) (\<lambda>middle.
            rbind (warm_series (None, None) (nat (period - 1)) (length source) (bollinger_step F source middle period deviations) ()) (\<lambda>bands.
            Inr \<lparr>bb_middle = middle, bb_upper = map fst bands, bb_lower = map snd bands\<rparr>))))"

section \<open>True range, ATR and ADX\<close>

text \<open>\<open>max(high[i] - low[i], abs(high[i] - close[i - 1]), abs(low[i] - close[i - 1]))\<close>.\<close>

definition true_range_at :: "('f, 'm) float_ops_scheme \<Rightarrow> 'f list \<Rightarrow> 'f list \<Rightarrow> 'f list \<Rightarrow> nat \<Rightarrow> 'f" where
  "true_range_at F high low close i =
     fmax F (fmax F (f_sub F (high ! i) (low ! i)) (f_abs F (f_sub F (high ! i) (close ! (i - 1)))))
       (f_abs F (f_sub F (low ! i) (close ! (i - 1))))"

definition true_ranges :: "('f, 'm) float_ops_scheme \<Rightarrow> 'f list \<Rightarrow> 'f list \<Rightarrow> 'f list \<Rightarrow> 'f list" where
  "true_ranges F high low close =
     (if high = [] then [] else [f_sub F (high ! 0) (low ! 0)]) @ map (true_range_at F high low close) [1..<length high]"

definition atr :: "('f, 'm) float_ops_scheme \<Rightarrow> 'f numbers \<Rightarrow> 'f numbers \<Rightarrow> 'f numbers \<Rightarrow> int \<Rightarrow> 'f series result" where
  "atr F high low close period =
     rbind (check_period period) (\<lambda>_. rbind (float_values F high ''high'') (\<lambda>h. rbind (float_values F low ''low'') (\<lambda>lo.
     rbind (float_values F close ''close'') (\<lambda>c. rbind (same_length [h, lo, c]) (\<lambda>_.
       if list_ex (\<lambda>(top, bottom). f_less F top bottom) (zip h lo)
       then Inl (ValueError ''high must be greater than or equal to low'')
       else wilder F (true_ranges F h lo c) period)))))"

definition plus_move :: "('f, 'm) float_ops_scheme \<Rightarrow> 'f list \<Rightarrow> 'f list \<Rightarrow> nat \<Rightarrow> 'f" where
  "plus_move F h lo i =
     (let up = f_sub F (h ! i) (h ! (i - 1)); down = f_sub F (lo ! (i - 1)) (lo ! i)
      in if f_less F down up \<and> f_less F (f_of_int F 0) up then up else f_of_int F 0)"

definition minus_move :: "('f, 'm) float_ops_scheme \<Rightarrow> 'f list \<Rightarrow> 'f list \<Rightarrow> nat \<Rightarrow> 'f" where
  "minus_move F h lo i =
     (let up = f_sub F (h ! i) (h ! (i - 1)); down = f_sub F (lo ! (i - 1)) (lo ! i)
      in if f_less F up down \<and> f_less F (f_of_int F 0) down then down else f_of_int F 0)"

definition directional :: "('f, 'm) float_ops_scheme \<Rightarrow> 'f \<Rightarrow> 'f \<Rightarrow> 'f result" where
  "directional F tr v = (if ftrue F tr then fdivide F (f_mul F (f_of_int F 100) v) tr else Inr (f_of_int F 0))"

definition dx_at :: "('f, 'm) float_ops_scheme \<Rightarrow> 'f series \<Rightarrow> 'f series \<Rightarrow> 'f series \<Rightarrow> nat \<Rightarrow> 'f result" where
  "dx_at F true_range plus_smoothed minus_smoothed i =
     (case (true_range ! i, plus_smoothed ! i, minus_smoothed ! i) of
        (Some tr, Some plus_value, Some minus_value) \<Rightarrow>
          rbind (directional F tr plus_value) (\<lambda>pdi. rbind (directional F tr minus_value) (\<lambda>mdi.
            if ftrue F (f_add F pdi mdi)
            then fdivide F (f_mul F (f_of_int F 100) (f_abs F (f_sub F pdi mdi))) (f_add F pdi mdi)
            else Inr (f_of_int F 0)))
      | _ \<Rightarrow> Inl (RuntimeError ''internal ADX warm-up alignment failure''))"

definition adx_series :: "('f, 'm) float_ops_scheme \<Rightarrow> 'f list \<Rightarrow> 'f list \<Rightarrow> 'f list \<Rightarrow> int \<Rightarrow> 'f series result" where
  "adx_series F h lo c period =
     rbind (wilder F (true_ranges F h lo c) period) (\<lambda>true_range.
     rbind (wilder F (f_of_int F 0 # map (plus_move F h lo) [1..<length h]) period) (\<lambda>plus_smoothed.
     rbind (wilder F (f_of_int F 0 # map (minus_move F h lo) [1..<length h]) period) (\<lambda>minus_smoothed.
     rbind (rmap (dx_at F true_range plus_smoothed minus_smoothed) [nat (period - 1)..<length h]) (\<lambda>dx.
     rbind (wilder F dx period) (\<lambda>tail. Inr (replicate (nat (period - 1)) None @ tail))))))"

definition adx :: "('f, 'm) float_ops_scheme \<Rightarrow> 'f numbers \<Rightarrow> 'f numbers \<Rightarrow> 'f numbers \<Rightarrow> int \<Rightarrow> 'f series result" where
  "adx F high low close period =
     rbind (check_period period) (\<lambda>_. rbind (float_values F high ''high'') (\<lambda>h. rbind (float_values F low ''low'') (\<lambda>lo.
     rbind (float_values F close ''close'') (\<lambda>c. rbind (same_length [h, lo, c]) (\<lambda>_. adx_series F h lo c period)))))"

section \<open>VWAP and the stochastic oscillator\<close>

definition vwap_step ::
  "('f, 'm) float_ops_scheme \<Rightarrow> 'f list \<Rightarrow> 'f list \<Rightarrow> 'f list \<Rightarrow> 'f list \<Rightarrow> 'f \<times> 'f \<Rightarrow> nat \<Rightarrow> (('f \<times> 'f) \<times> 'f option) result" where
  "vwap_step F h lo c v = (\<lambda>(cumulative_price, cumulative_volume) i.
     rbind (fdivide F (f_add F (f_add F (h ! i) (lo ! i)) (c ! i)) (f_of_int F 3)) (\<lambda>typical.
       let price = f_add F cumulative_price (f_mul F typical (v ! i)); volume = f_add F cumulative_volume (v ! i)
       in if ftrue F volume then rbind (fdivide F price volume) (\<lambda>x. Inr ((price, volume), Some x))
          else Inr ((price, volume), None)))"

definition vwap ::
  "('f, 'm) float_ops_scheme \<Rightarrow> 'f numbers \<Rightarrow> 'f numbers \<Rightarrow> 'f numbers \<Rightarrow> 'f numbers \<Rightarrow> 'f series result" where
  "vwap F high low close volume =
     rbind (float_values F high ''values'') (\<lambda>h. rbind (float_values F low ''values'') (\<lambda>lo.
     rbind (float_values F close ''values'') (\<lambda>c. rbind (float_values F volume ''values'') (\<lambda>v.
     rbind (same_length [h, lo, c, v]) (\<lambda>_.
       if list_ex (\<lambda>x. f_less F x (f_of_int F 0)) v then Inl (ValueError ''volume cannot be negative'')
       else warm_series None 0 (length h) (vwap_step F h lo c v) (f_of_int F 0, f_of_int F 0))))))"

record 'f stochastic_lines =
  st_k :: "'f series"
  st_d :: "'f series"

definition stochastic_step ::
  "('f, 'm) float_ops_scheme \<Rightarrow> 'f list \<Rightarrow> 'f list \<Rightarrow> 'f list \<Rightarrow> int \<Rightarrow> unit \<Rightarrow> nat \<Rightarrow> (unit \<times> 'f option) result" where
  "stochastic_step F h lo c period _ i =
     (let top = flist_max F (window_of h period i); bottom = flist_min F (window_of lo period i)
      in if f_eq F top bottom then Inr ((), Some (f_of_int F 50))
         else rbind (fdivide F (f_mul F (f_of_int F 100) (f_sub F (c ! i) bottom)) (f_sub F top bottom)) (\<lambda>v. Inr ((), Some v)))"

definition stochastic ::
  "('f, 'm) float_ops_scheme \<Rightarrow> 'f numbers \<Rightarrow> 'f numbers \<Rightarrow> 'f numbers \<Rightarrow> int \<Rightarrow> int \<Rightarrow> 'f stochastic_lines result" where
  "stochastic F high low close period smooth =
     rbind (check_period period) (\<lambda>_. rbind (check_period smooth) (\<lambda>_.
     rbind (float_values F high ''values'') (\<lambda>h. rbind (float_values F low ''values'') (\<lambda>lo.
     rbind (float_values F close ''values'') (\<lambda>c. rbind (same_length [h, lo, c]) (\<lambda>_.
     rbind (warm_series None (nat (period - 1)) (length c) (stochastic_step F h lo c period) ()) (\<lambda>k.
     rbind (sma F (map PyFloat (available k)) smooth) (\<lambda>tail.
       Inr \<lparr>st_k = k, st_d = replicate (length k - length (available k)) None @ tail\<rparr>))))))))"

section \<open>Pivots, support and resistance, gaps\<close>

definition pivot_step ::
  "('f, 'm) float_ops_scheme \<Rightarrow> 'f list \<Rightarrow> 'f list \<Rightarrow> nat \<Rightarrow> nat \<Rightarrow> unit \<Rightarrow> nat \<Rightarrow> (unit \<times> (bool \<times> bool)) result" where
  "pivot_step F h lo left right _ confirmed =
     (let pivot = confirmed - right; width = Suc (left + right) in
      Inr ((), (f_eq F (h ! pivot) (flist_max F (take width (drop (pivot - left) h))),
                f_eq F (lo ! pivot) (flist_min F (take width (drop (pivot - left) lo))))))"

definition pivots ::
  "('f, 'm) float_ops_scheme \<Rightarrow> 'f numbers \<Rightarrow> 'f numbers \<Rightarrow> int \<Rightarrow> int \<Rightarrow> (bool list \<times> bool list) result" where
  "pivots F high low left right =
     rbind (check_period left) (\<lambda>_. rbind (check_period right) (\<lambda>_.
     rbind (float_values F high ''values'') (\<lambda>h. rbind (float_values F low ''values'') (\<lambda>lo.
     rbind (same_length [h, lo]) (\<lambda>_.
     rbind (warm_series (False, False) (nat (left + right)) (length h) (pivot_step F h lo (nat left) (nat right)) ()) (\<lambda>flags.
       Inr (map fst flags, map snd flags)))))))"

definition level_step ::
  "'f list \<Rightarrow> 'f list \<Rightarrow> bool list \<Rightarrow> bool list \<Rightarrow> nat \<Rightarrow> 'f option \<times> 'f option \<Rightarrow> nat
     \<Rightarrow> (('f option \<times> 'f option) \<times> ('f option \<times> 'f option)) result" where
  "level_step h lo pivot_high pivot_low right = (\<lambda>(current_high, current_low) i.
     let current_high' = (if pivot_high ! i then Some (h ! (i - right)) else current_high);
         current_low' = (if pivot_low ! i then Some (lo ! (i - right)) else current_low)
     in Inr ((current_high', current_low'), (current_high', current_low')))"

definition support_resistance ::
  "('f, 'm) float_ops_scheme \<Rightarrow> 'f numbers \<Rightarrow> 'f numbers \<Rightarrow> int \<Rightarrow> int \<Rightarrow> ('f series \<times> 'f series) result" where
  "support_resistance F high low left right =
     rbind (float_values F high ''values'') (\<lambda>h. rbind (float_values F low ''values'') (\<lambda>lo.
     rbind (pivots F high low left right) (\<lambda>(pivot_high, pivot_low).
     rbind (warm_series (None, None) 0 (length h) (level_step h lo pivot_high pivot_low (nat right)) (None, None)) (\<lambda>levels.
       Inr (map fst levels, map snd levels)))))"

record 'f gap =
  gap_index :: nat
  gap_direction :: string
  gap_size :: 'f
  gap_previous_close :: 'f
  gap_current_open :: 'f

definition gap_at :: "('f, 'm) float_ops_scheme \<Rightarrow> 'f list \<Rightarrow> 'f list \<Rightarrow> 'f \<Rightarrow> nat \<Rightarrow> 'f gap list result" where
  "gap_at F opening closing minimum_percent i =
     (let previous = closing ! (i - 1); gap_width = f_sub F (opening ! i) previous in
      rbind (fdivide F (f_mul F (f_abs F previous) minimum_percent) (f_of_int F 100)) (\<lambda>threshold.
        Inr (if f_less F threshold (f_abs F gap_width)
             then [\<lparr>gap_index = i, gap_direction = (if f_less F (f_of_int F 0) gap_width then ''up'' else ''down''),
                    gap_size = f_abs F gap_width, gap_previous_close = previous, gap_current_open = opening ! i\<rparr>]
             else [])))"

definition gaps :: "('f, 'm) float_ops_scheme \<Rightarrow> 'f numbers \<Rightarrow> 'f numbers \<Rightarrow> 'f \<Rightarrow> 'f gap list result" where
  "gaps F opens close minimum_percent =
     rbind (float_values F opens ''open'') (\<lambda>opening. rbind (float_values F close ''close'') (\<lambda>closing.
     rbind (same_length [opening, closing]) (\<lambda>_.
       if f_less F minimum_percent (f_of_int F 0) then Inl (ValueError ''minimum_percent cannot be negative'')
       else rbind (rmap (gap_at F opening closing minimum_percent) [1..<length opening]) (\<lambda>found. Inr (concat found)))))"

section \<open>Supertrend\<close>

record 'f supertrend_lines =
  su_value :: "'f series"
  su_direction :: "int option list"

text \<open>The bands of one bar and the two carried bands with the direction, \<open>(upper, lower, direction)\<close>.\<close>

definition carry_bands ::
  "('f, 'm) float_ops_scheme \<Rightarrow> 'f list \<Rightarrow> int \<Rightarrow> nat \<Rightarrow> 'f \<Rightarrow> 'f \<Rightarrow> 'f \<times> 'f \<times> int \<Rightarrow> 'f \<times> 'f \<times> int" where
  "carry_bands F c period i basic_upper basic_lower = (\<lambda>(upper, lower, direction).
     if int i = period - 1 then (basic_upper, basic_lower, direction)
     else let upper' = (if f_less F basic_upper upper \<or> f_less F upper (c ! (i - 1)) then basic_upper else upper);
              lower' = (if f_less F lower basic_lower \<or> f_less F (c ! (i - 1)) lower then basic_lower else lower)
          in (upper', lower',
              if direction = -1 \<and> f_less F upper' (c ! i) then 1
              else if direction = 1 \<and> f_less F (c ! i) lower' then -1 else direction))"

definition supertrend_step ::
  "('f, 'm) float_ops_scheme \<Rightarrow> 'f list \<Rightarrow> 'f list \<Rightarrow> 'f list \<Rightarrow> 'f series \<Rightarrow> int \<Rightarrow> 'f \<Rightarrow> 'f \<times> 'f \<times> int \<Rightarrow> nat
     \<Rightarrow> (('f \<times> 'f \<times> int) \<times> ('f option \<times> int option)) result" where
  "supertrend_step F h lo c ranges period multiplier s i = (case ranges ! i of
       None \<Rightarrow> Inl (RuntimeError ''internal Supertrend warm-up alignment failure'')
     | Some current_atr \<Rightarrow>
         rbind (fdivide F (f_add F (h ! i) (lo ! i)) (f_of_int F 2)) (\<lambda>midpoint.
         let offset = f_mul F multiplier current_atr;
             (upper, lower, direction) = carry_bands F c period i (f_add F midpoint offset) (f_sub F midpoint offset) s
         in Inr ((upper, lower, direction), (Some (if direction = 1 then lower else upper), Some direction))))"

definition supertrend ::
  "('f, 'm) float_ops_scheme \<Rightarrow> 'f numbers \<Rightarrow> 'f numbers \<Rightarrow> 'f numbers \<Rightarrow> int \<Rightarrow> 'f \<Rightarrow> 'f supertrend_lines result" where
  "supertrend F high low close period multiplier =
     (if f_leq F multiplier (f_of_int F 0) \<or> \<not> f_finite F multiplier
      then Inl (ValueError ''multiplier must be finite and positive'')
      else rbind (float_values F high ''values'') (\<lambda>h. rbind (float_values F low ''values'') (\<lambda>lo.
           rbind (float_values F close ''values'') (\<lambda>c. rbind (same_length [h, lo, c]) (\<lambda>_.
           rbind (atr F high low close period) (\<lambda>ranges.
           rbind (warm_series (None, None) (nat (period - 1)) (length c) (supertrend_step F h lo c ranges period multiplier)
                    (f_of_int F 0, f_of_int F 0, 1)) (\<lambda>points.
             Inr \<lparr>su_value = map fst points, su_direction = map snd points\<rparr>)))))))"

end
