(* ===== verification/Indicator_Laws.thy ===== *)
theory Indicator_Laws
  imports Indicators
begin

text \<open>
  What the indicators promise, whatever the rounding of the floating-point operations: a series has
  the length of its input, starts after the documented warm-up, and never repaints, that is, the
  indicator of the first bars is the first part of the indicator of all bars.  The lemmas on the
  loops carry all three; each indicator only adds that its loop body reads no later bar.
\<close>

section \<open>Loops\<close>

lemma rfold_cong:
  assumes "\<And>t x. x \<in> set xs \<Longrightarrow> f t x = g t x"
  shows "rfold f s xs = rfold g s xs"
  using assms by (induction xs arbitrary: s) (auto intro: rbind_cong)

lemma rmap_take: "rmap f xs = Inr ys \<Longrightarrow> rmap f (take m xs) = Inr (take m ys)"
proof (induction xs arbitrary: ys m)
  case (Cons x xs)
  then show ?case by (cases m) (auto simp: rbind_eq_Inr)
qed simp

lemma rmap_cong: "(\<And>x. x \<in> set xs \<Longrightarrow> f x = g x) \<Longrightarrow> rmap f xs = rmap g xs"
  by (induction xs) (auto intro: rbind_cong)

lemma series_loop_self [simp]: "series_loop step s a a = Inr (s, [])"
  by (simp add: series_loop_def)

lemma series_loop_snoc:
  assumes "a \<le> n"
  shows "series_loop step s a (Suc n) =
    rbind (series_loop step s a n) (\<lambda>(t, out). rbind (step t n) (\<lambda>(u, v). Inr (u, out @ [v])))"
  using assms by (auto simp: series_loop_def rfold_append intro!: arg_cong2[of _ _ _ _ rbind] split: prod.splits
      simp: rbind_def split: sum.splits)

lemma series_loop_cong:
  "(\<And>t i. a \<le> i \<Longrightarrow> i < n \<Longrightarrow> step t i = step' t i) \<Longrightarrow> series_loop step s a n = series_loop step' s a n"
  unfolding series_loop_def by (rule rfold_cong) auto

lemma series_loop_length:
  assumes "series_loop step s a n = Inr (t, out)" and "a \<le> n"
  shows "length out = n - a"
  using assms(2,1)
proof (induction arbitrary: t out rule: dec_induct)
  case (step n)
  then show ?case by (auto simp: series_loop_snoc rbind_eq_Inr)
qed simp

lemma series_loop_take:
  assumes "series_loop step s a n = Inr (t, out)" and "a \<le> m" and "m \<le> n"
  shows "\<exists>u. series_loop step s a m = Inr (u, take (m - a) out)"
  using assms(3,1)
proof (induction arbitrary: t out rule: dec_induct)
  case base
  then show ?case using series_loop_length[OF base assms(2)] by auto
next
  case (step n)
  from step.prems step.hyps assms(2) obtain u out' v where
    *: "series_loop step s a n = Inr (u, out')" "out = out' @ [v]"
    by (auto simp: series_loop_snoc rbind_eq_Inr)
  then show ?case using step.IH[OF *(1)] series_loop_length[OF *(1)] step.hyps assms(2) by auto
qed

lemma series_loop_output:
  assumes "series_loop step s a n = Inr (t, out)" and "a \<le> i" and "i < n"
  shows "\<exists>u u'. step u i = Inr (u', out ! (i - a))"
proof -
  have "a \<le> Suc i" "Suc i \<le> n" using assms by auto
  then obtain u where u: "series_loop step s a (Suc i) = Inr (u, take (Suc i - a) out)"
    using series_loop_take[OF assms(1)] by blast
  then obtain w w' out' v where w: "series_loop step s a i = Inr (w, out')" "step w i = Inr (w', v)" "take (Suc i - a) out = out' @ [v]"
    using assms(2) by (auto simp: series_loop_snoc rbind_eq_Inr)
  have "length out' = i - a" by (rule series_loop_length[OF w(1) assms(2)])
  then have "v = take (Suc i - a) out ! (i - a)" using w(3) by (simp add: nth_append)
  then have "v = out ! (i - a)" using assms(2) by (simp add: Suc_diff_le)
  then show ?thesis using w(2) by blast
qed

subsection \<open>The two shapes of series\<close>

lemma warm_series_beyond: "n \<le> a \<Longrightarrow> warm_series d a n step s = Inr (replicate n d)"
  by (simp add: warm_series_def series_loop_def)

lemma warm_series_within:
  "a \<le> n \<Longrightarrow> warm_series d a n step s = Inr out \<longleftrightarrow> (\<exists>t tail. series_loop step s a n = Inr (t, tail) \<and> out = replicate a d @ tail)"
  by (auto simp: warm_series_def rbind_eq_Inr)

lemma warm_series_length: "warm_series d a n step s = Inr out \<Longrightarrow> length out = n"
  by (cases "a \<le> n") (auto simp: warm_series_within warm_series_beyond dest: series_loop_length)

lemma warm_series_take:
  assumes "warm_series d a n step s = Inr out" and "m \<le> n" and "\<And>t i. a \<le> i \<Longrightarrow> i < m \<Longrightarrow> step' t i = step t i"
  shows "warm_series d a m step' s = Inr (take m out)"
proof (cases "a \<le> m")
  case True
  then obtain t tail where t: "series_loop step s a n = Inr (t, tail)" "out = replicate a d @ tail"
    using assms(2) warm_series_within[THEN iffD1, OF _ assms(1)] by auto
  have "series_loop step' s a m = series_loop step s a m" using assms(3) by (intro series_loop_cong)
  then show ?thesis using series_loop_take[OF t(1) True assms(2)] True t(2) by (auto simp: warm_series_within)
next
  case False
  then have "take m out = replicate m d"
    using assms(1,2) by (cases "a \<le> n") (auto simp: warm_series_within warm_series_beyond)
  then show ?thesis using False by (simp add: warm_series_beyond)
qed

lemma warm_series_warming: "warm_series d a n step s = Inr out \<Longrightarrow> i < a \<Longrightarrow> i < n \<Longrightarrow> out ! i = d"
  by (cases "a \<le> n") (auto simp: warm_series_within warm_series_beyond nth_append)

lemma warm_series_output:
  assumes "warm_series d a n step s = Inr out" and "a \<le> i" and "i < n"
  shows "\<exists>u u'. step u i = Inr (u', out ! i)"
proof -
  obtain t tail where t: "series_loop step s a n = Inr (t, tail)" "out = replicate a d @ tail"
    using assms(2,3) warm_series_within[THEN iffD1, OF _ assms(1)] by auto
  then have "out ! i = tail ! (i - a)" using assms(2) by (simp add: nth_append)
  then show ?thesis using series_loop_output[OF t(1) assms(2,3)] by simp
qed

lemma seeded_series_eq:
  "seeded_series k n seed step = Inr out \<longleftrightarrow>
     (\<exists>s v t tail. seed = Inr (s, v) \<and> series_loop step s (Suc k) n = Inr (t, tail) \<and> out = replicate k None @ Some v # map Some tail)"
  by (auto simp: seeded_series_def rbind_eq_Inr split: prod.splits)

lemma seeded_series_length: "seeded_series k n seed step = Inr out \<Longrightarrow> k < n \<Longrightarrow> length out = n"
  by (auto simp: seeded_series_eq dest!: series_loop_length)

lemma seeded_series_take:
  assumes "seeded_series k n seed step = Inr out" and "k < m" and "m \<le> n" and "\<And>t i. k < i \<Longrightarrow> i < m \<Longrightarrow> step' t i = step t i"
  shows "seeded_series k m seed step' = Inr (take m out)"
proof -
  from assms(1) obtain s v t tail where
    s: "seed = Inr (s, v)" "series_loop step s (Suc k) n = Inr (t, tail)" "out = replicate k None @ Some v # map Some tail"
    by (auto simp: seeded_series_eq)
  have "series_loop step' s (Suc k) m = series_loop step s (Suc k) m"
    using assms(4) by (intro series_loop_cong) simp
  moreover obtain u where "series_loop step s (Suc k) m = Inr (u, take (m - Suc k) tail)"
    using series_loop_take[OF s(2)] assms(2,3) by (auto simp: Suc_le_eq)
  moreover have "take m out = replicate k None @ Some v # map Some (take (m - Suc k) tail)"
    using assms(2) s(3) by (simp add: take_Cons' take_map Suc_diff_Suc)
  ultimately show ?thesis using s(1) by (auto simp: seeded_series_eq)
qed

lemma seeded_series_warm_up:
  assumes "seeded_series k n seed step = Inr out" and "k < n" and "i < n"
  shows "out ! i = None \<longleftrightarrow> i < k"
proof -
  obtain s v t tail where "series_loop step s (Suc k) n = Inr (t, tail)" and out: "out = replicate k None @ Some v # map Some tail"
    using assms(1) by (auto simp: seeded_series_eq)
  then have "length tail = n - Suc k" using assms(2) by (auto dest: series_loop_length)
  then have "i < k \<or> (i - k) < Suc (length tail) \<and> k \<le> i" using assms(3) by auto
  then show ?thesis unfolding out by (auto simp: nth_append nth_Cons' nth_map)
qed

section \<open>Inputs\<close>

lemma float_values_take: "float_values F xs name = Inr out \<Longrightarrow> float_values F (take m xs) name = Inr (take m out)"
  by (auto simp: float_values_def rbind_eq_Inr list_all_iff dest: rmap_take in_set_takeD split: if_splits)

lemma float_values_length: "float_values F xs name = Inr out \<Longrightarrow> length out = length xs"
  by (auto simp: float_values_def rbind_eq_Inr dest: rmap_length split: if_splits)

lemma float_values_floats: "float_values F (map PyFloat xs) name = Inr out \<Longrightarrow> out = xs"
proof -
  have "rmap (to_float F) (map PyFloat xs) = Inr xs" by (induction xs) (simp_all add: to_float_def)
  then show "float_values F (map PyFloat xs) name = Inr out \<Longrightarrow> out = xs"
    by (auto simp: float_values_def split: if_splits)
qed

lemma same_length_iff: "same_length (xs # xss) = Inr () \<longleftrightarrow> (\<forall>ys \<in> set xss. length ys = length xs)"
proof -
  have "card (insert (length xs) (length ` set xss)) \<le> 1 \<longleftrightarrow> (\<forall>ys \<in> set xss. length ys = length xs)"
    by (auto simp: card_le_Suc0_iff_eq)
  then show ?thesis by (auto simp: same_length_def not_less)
qed

lemma same_length_take: "same_length xss = Inr () \<Longrightarrow> same_length (map (take m) xss) = Inr ()"
proof (cases xss)
  case (Cons xs rest)
  then show "same_length xss = Inr () \<Longrightarrow> same_length (map (take m) xss) = Inr ()" by (simp add: same_length_iff)
qed (simp add: same_length_def)

lemmas same_length3_take = same_length_take[of "[h, lo, c]" m for h lo c m, simplified list.map]
lemmas same_length4_take = same_length_take[of "[h, lo, c, v]" m for h lo c v m, simplified list.map]
lemmas same_length2_take = same_length_take[of "[h, lo]" m for h lo m, simplified list.map]

lemma check_period_iff: "check_period p = Inr u \<longleftrightarrow> 0 < p"
  by (auto simp: check_period_def)

section \<open>Averages\<close>

lemma take_upt_min: "take (m - a) [a..<n] = [a..<min n m]"
  by (cases "a \<le> m"; cases "m \<le> n") (auto simp: min_def take_upt)

lemma take_length_min: "length out = n \<Longrightarrow> take (min n m) out = take m out"
  by (auto simp: min_def)

lemma sma_length: "sma F xs p = Inr out \<Longrightarrow> length out = length xs"
  by (auto simp: sma_def rbind_eq_Inr dest!: warm_series_length float_values_length)

lemma sma_step_take: "i < m \<Longrightarrow> sma_step F (take m source) p r i = sma_step F source p r i"
  using less_imp_diff_less[of i m "nat p"] by (auto simp: sma_step_def Let_def)

lemma sma_take:
  assumes "sma F xs p = Inr out"
  shows "sma F (take m xs) p = Inr (take m out)"
proof -
  obtain source where source: "check_period p = Inr ()" "float_values F xs ''values'' = Inr source"
      "warm_series None 0 (length source) (sma_step F source p) (f_of_int F 0) = Inr out"
    using assms by (auto simp: sma_def rbind_eq_Inr)
  have "warm_series None 0 (min (length source) m) (sma_step F (take m source) p) (f_of_int F 0) = Inr (take (min (length source) m) out)"
    by (rule warm_series_take[OF source(3)]) (auto intro: sma_step_take)
  then show ?thesis using source take_length_min[OF warm_series_length[OF source(3)]] by (simp add: sma_def float_values_take)
qed

lemma sma_warm_up:
  assumes "sma F xs p = Inr out" and "i < length xs"
  shows "out ! i = None \<longleftrightarrow> int i < p - 1"
proof -
  obtain source where source: "float_values F xs ''values'' = Inr source"
      "warm_series None 0 (length source) (sma_step F source p) (f_of_int F 0) = Inr out"
    using assms(1) by (auto simp: sma_def rbind_eq_Inr)
  then obtain u u' where "sma_step F source p u i = Inr (u', out ! i)"
    using warm_series_output[OF source(2), of i] assms(2) float_values_length[OF source(1)] by auto
  then show ?thesis by (auto simp: sma_step_def Let_def rbind_eq_Inr eq_commute[of _ "out ! i"] split: if_splits)
qed

lemma seed_mean_take: "nat p \<le> m \<Longrightarrow> seed_mean F (take m xs) p = seed_mean F xs p"
  by (simp add: seed_mean_def min_absorb1)

lemma ema_parts:
  assumes "ema F xs p = Inr out"
  obtains (short) source where "0 < p" "float_values F xs ''values'' = Inr source" "int (length source) < p"
      "out = replicate (length source) None"
  | (full) source current alpha where "0 < p" "float_values F xs ''values'' = Inr source" "p \<le> int (length source)"
      "seed_mean F source p = Inr current" "fdivide F (f_of_int F 2) (f_of_int F (p + 1)) = Inr alpha"
      "seeded_series (nat (p - 1)) (length source) (Inr (current, current)) (ema_step F source alpha) = Inr out"
  using assms by (fastforce simp: ema_def rbind_eq_Inr check_period_iff not_less split: if_splits)

lemma ema_length:
  assumes "ema F xs p = Inr out"
  shows "length out = length xs"
  using assms
proof (cases rule: ema_parts)
  case (full source current alpha)
  then show ?thesis using seeded_series_length[OF full(6)] float_values_length[OF full(2)] by auto
qed (simp add: float_values_length)

lemma ema_step_take: "i < m \<Longrightarrow> ema_step F (take m source) alpha c i = ema_step F source alpha c i"
  by (simp add: ema_step_def)

lemma seeded_prefix:
  assumes "seeded_series k (length xs) seed step = Inr out" and "k < length xs" and "k < m"
    and "\<And>t i. k < i \<Longrightarrow> i < m \<Longrightarrow> step' t i = step t i"
  shows "seeded_series k (min (length xs) m) seed step' = Inr (take m out)"
proof -
  have "seeded_series k (min (length xs) m) seed step' = Inr (take (min (length xs) m) out)"
    by (rule seeded_series_take[OF assms(1)]) (use assms(2-) in auto)
  then show ?thesis using take_length_min[OF seeded_series_length[OF assms(1,2)]] by simp
qed

lemma ema_take:
  assumes "ema F xs p = Inr out"
  shows "ema F (take m xs) p = Inr (take m out)"
  using assms
proof (cases rule: ema_parts)
  case (short source)
  then show ?thesis by (auto simp: ema_def check_period_def float_values_take min.commute)
next
  case (full source current alpha)
  have vals: "float_values F (take m xs) ''values'' = Inr (take m source)" by (rule float_values_take[OF full(2)])
  show ?thesis
  proof (cases "int m < p")
    case True
    then have "take m out = replicate m None"
      using full(3,6) by (auto simp: seeded_series_eq)
    then show ?thesis using True full vals by (simp add: ema_def check_period_def)
  next
    case False
    have "seeded_series (nat (p - 1)) (min (length source) m) (Inr (current, current)) (ema_step F (take m source) alpha) = Inr (take m out)"
      by (rule seeded_prefix[OF full(6)]) (use False full(1,3) in \<open>auto intro: ema_step_take\<close>)
    then show ?thesis using False full vals by (simp add: ema_def check_period_def of_nat_min min_less_iff_disj seed_mean_take)
  qed
qed

lemma ema_warm_up:
  assumes "ema F xs p = Inr out" and "i < length xs"
  shows "out ! i = None \<longleftrightarrow> int i < p - 1"
  using assms(1)
proof (cases rule: ema_parts)
  case (short source)
  then show ?thesis using assms(2) float_values_length[OF short(2)] by auto
next
  case (full source current alpha)
  then show ?thesis
    using seeded_series_warm_up[OF full(6), of i] assms(2) float_values_length[OF full(2)] by (auto simp: nat_less_iff)
qed

lemma wilder_step_take: "i < m \<Longrightarrow> wilder_step F (take m xs) p c i = wilder_step F xs p c i"
  by (simp add: wilder_step_def)

lemma wilder_length: "0 < p \<Longrightarrow> wilder F xs p = Inr out \<Longrightarrow> length out = length xs"
  by (auto simp: wilder_def dest!: seeded_series_length split: if_splits)

lemma wilder_take:
  assumes "wilder F xs p = Inr out" and "0 < p"
  shows "wilder F (take m xs) p = Inr (take m out)"
proof (cases "int (length xs) < p")
  case True
  then show ?thesis using assms by (auto simp: wilder_def)
next
  case long: False
  let ?seed = "rbind (seed_mean F xs p) (\<lambda>c. Inr (c, c))"
  have full: "seeded_series (nat (p - 1)) (length xs) ?seed (wilder_step F xs p) = Inr out"
    using assms(1) long by (simp add: wilder_def)
  show ?thesis
  proof (cases "int m < p")
    case True
    then have "take m out = replicate m None" using full by (auto simp: seeded_series_eq)
    then show ?thesis using True long by (simp add: wilder_def)
  next
    case False
    have "seeded_series (nat (p - 1)) (min (length xs) m) ?seed (wilder_step F (take m xs) p) = Inr (take m out)"
      by (rule seeded_prefix[OF full]) (use False long assms(2) in \<open>auto intro: wilder_step_take\<close>)
    then show ?thesis using False long by (simp add: wilder_def of_nat_min min_less_iff_disj seed_mean_take)
  qed
qed

lemma wilder_warm_up:
  assumes "wilder F xs p = Inr out" and "0 < p" and "i < length xs"
  shows "out ! i = None \<longleftrightarrow> int i < p - 1"
proof (cases "int (length xs) < p")
  case True
  then show ?thesis using assms by (auto simp: wilder_def)
next
  case False
  then have "seeded_series (nat (p - 1)) (length xs) (rbind (seed_mean F xs p) (\<lambda>c. Inr (c, c))) (wilder_step F xs p) = Inr out"
    using assms(1) by (simp add: wilder_def)
  from seeded_series_warm_up[OF this, of i] show ?thesis using False assms(2,3) by (auto simp: nat_less_iff)
qed

section \<open>Relative strength, rate of change, relative volume\<close>

lemma price_changes_take: "price_changes F (take m source) = take (m - 1) (price_changes F source)"
  by (rule nth_equalityI) (auto simp: price_changes_def less_diff_conv)

lemma price_changes_length [simp]: "length (price_changes F source) = length source - 1"
  by (simp add: price_changes_def)

lemma rsi_parts:
  assumes "rsi F xs p = Inr out"
  obtains (short) source where "0 < p" "float_values F xs ''values'' = Inr source" "int (length source) \<le> p"
      "out = replicate (length source) None"
  | (full) source where "0 < p" "float_values F xs ''values'' = Inr source" "p < int (length source)"
      "seeded_series (nat p) (length source) (rsi_seed F (price_changes F source) p) (rsi_step F (price_changes F source) p) = Inr out"
  using assms by (fastforce simp: rsi_def rbind_eq_Inr check_period_iff not_le split: if_splits)

lemma rsi_length:
  assumes "rsi F xs p = Inr out"
  shows "length out = length xs"
  using assms
proof (cases rule: rsi_parts)
  case (full source)
  then show ?thesis using seeded_series_length[OF full(4)] float_values_length[OF full(2)] by (auto simp: nat_less_iff)
qed (simp add: float_values_length)

lemma rsi_warm_up:
  assumes "rsi F xs p = Inr out" and "i < length xs"
  shows "out ! i = None \<longleftrightarrow> int i < p"
  using assms(1)
proof (cases rule: rsi_parts)
  case (short source)
  then show ?thesis using assms(2) float_values_length[OF short(2)] by auto
next
  case (full source)
  then show ?thesis
    using seeded_series_warm_up[OF full(4), of i] assms(2) float_values_length[OF full(2)] by (auto simp: nat_less_iff)
qed

lemma rsi_seed_take: "nat p \<le> m \<Longrightarrow> rsi_seed F (take m changes) p = rsi_seed F changes p"
  by (simp add: rsi_seed_def seed_mean_take flip: take_map)

lemma rsi_step_take: "0 < i \<Longrightarrow> i \<le> m \<Longrightarrow> rsi_step F (take m changes) p t i = rsi_step F changes p t i"
  by (cases t) (simp add: rsi_step_def)

lemma rsi_take:
  assumes "rsi F xs p = Inr out"
  shows "rsi F (take m xs) p = Inr (take m out)"
  using assms
proof (cases rule: rsi_parts)
  case (short source)
  then show ?thesis by (auto simp: rsi_def check_period_def float_values_take min.commute)
next
  case (full source)
  have vals: "float_values F (take m xs) ''values'' = Inr (take m source)" by (rule float_values_take[OF full(2)])
  show ?thesis
  proof (cases "int m \<le> p")
    case True
    then have "take m out = replicate m None" using full(3,4) by (auto simp: seeded_series_eq)
    then show ?thesis using True full vals by (simp add: rsi_def check_period_def)
  next
    case False
    let ?changes = "take (m - 1) (price_changes F source)"
    have "seeded_series (nat p) (min (length source) m) (rsi_seed F (price_changes F source) p) (rsi_step F ?changes p) = Inr (take m out)"
    proof (rule seeded_prefix[OF full(4)])
      fix t i
      assume "nat p < i" "i < m"
      then show "rsi_step F ?changes p t i = rsi_step F (price_changes F source) p t i"
        by (cases t) (auto simp: rsi_step_def)
    qed (use False full(1,3) in auto)
    moreover have "rsi_seed F ?changes p = rsi_seed F (price_changes F source) p"
      by (rule rsi_seed_take) (use False in linarith)
    ultimately show ?thesis
      using False full vals by (simp add: rsi_def check_period_def price_changes_take of_nat_min min_le_iff_disj)
  qed
qed

lemma roc_take:
  assumes "roc F xs p = Inr out"
  shows "roc F (take m xs) p = Inr (take m out)"
proof -
  obtain source where source: "check_period p = Inr ()" "float_values F xs ''values'' = Inr source"
      "warm_series None (nat p) (length source) (roc_step F source p) () = Inr out"
    using assms by (auto simp: roc_def rbind_eq_Inr)
  have "warm_series None (nat p) (min (length source) m) (roc_step F (take m source) p) () = Inr (take (min (length source) m) out)"
    by (rule warm_series_take[OF source(3)]) (auto simp: roc_step_def Let_def less_imp_diff_less)
  then show ?thesis using source take_length_min[OF warm_series_length[OF source(3)]] by (simp add: roc_def float_values_take)
qed

lemma roc_length: "roc F xs p = Inr out \<Longrightarrow> length out = length xs"
  by (auto simp: roc_def rbind_eq_Inr dest!: warm_series_length float_values_length)

lemma relative_volume_take:
  assumes "relative_volume F xs p = Inr out"
  shows "relative_volume F (take m xs) p = Inr (take m out)"
proof -
  obtain source averages where source: "float_values F xs ''volume'' = Inr source" "sma F xs p = Inr averages"
      "warm_series None 0 (length source) (relative_volume_step F source averages) () = Inr out"
    using assms by (auto simp: relative_volume_def rbind_eq_Inr)
  have "warm_series None 0 (min (length source) m) (relative_volume_step F (take m source) (take m averages)) ()
      = Inr (take (min (length source) m) out)"
    by (rule warm_series_take[OF source(3)]) (auto simp: relative_volume_step_def split: option.splits)
  then show ?thesis
    using source take_length_min[OF warm_series_length[OF source(3)]] by (simp add: relative_volume_def float_values_take sma_take)
qed

lemma relative_volume_length: "relative_volume F xs p = Inr out \<Longrightarrow> length out = length xs"
  by (auto simp: relative_volume_def rbind_eq_Inr dest!: warm_series_length float_values_length)

section \<open>Series over a warm-up suffix\<close>

text \<open>
  MACD and the stochastic oscillator smooth the available part of a series and pad it again.  For a
  series with its warm-up in front, cutting commutes with taking the available part.
\<close>

definition warmed :: "nat \<Rightarrow> 'f series \<Rightarrow> bool" where
  "warmed a xs \<longleftrightarrow> (\<forall>i < length xs. xs ! i = None \<longleftrightarrow> i < a)"

lemma available_simps [simp]: "available [] = []" "available (None # xs) = available xs" "available (Some v # xs) = v # available xs"
  by (simp_all add: available_def)

lemma warmed_split: "warmed a xs \<Longrightarrow> xs = replicate (min a (length xs)) None @ map Some (available xs)"
proof (induction xs arbitrary: a)
  case (Cons x xs)
  have rest: "warmed (a - 1) xs"
    unfolding warmed_def
  proof (intro allI impI)
    fix i
    assume "i < length xs"
    then show "xs ! i = None \<longleftrightarrow> i < a - 1" using Cons.prems by (force simp: warmed_def dest: spec[of _ "Suc i"])
  qed
  have head: "x = None \<longleftrightarrow> 0 < a" using Cons.prems by (force simp: warmed_def)
  show ?case
  proof (cases a)
    case 0
    then show ?thesis using head Cons.IH[OF rest] by (cases x) auto
  next
    case (Suc b)
    then show ?thesis using head Cons.IH[OF rest] by simp
  qed
qed simp

lemma available_replicate_map [simp]: "available (replicate n None @ map Some vs) = vs"
proof -
  have "available (map Some vs) = vs" by (induction vs) simp_all
  then show ?thesis by (induction n) simp_all
qed

lemma warmed_take: "warmed a xs \<Longrightarrow> warmed a (take m xs)"
  by (simp add: warmed_def)

lemma available_length: "warmed a xs \<Longrightarrow> length xs - length (available xs) = min a (length xs)"
  using warmed_split[of a xs] by (metis add_diff_cancel_right' length_append length_map length_replicate)

lemma available_take:
  assumes "warmed a xs"
  shows "available (take m xs) = take (m - min a (length xs)) (available xs)"
proof -
  have "take m xs = take m (replicate (min a (length xs)) None @ map Some (available xs))"
    using warmed_split[OF assms] by simp
  then have "take m xs = replicate (min m (min a (length xs))) None @ map Some (take (m - min a (length xs)) (available xs))"
    by (simp add: take_map)
  then show ?thesis by simp
qed

text \<open>\<open>(None,) * offset + tail\<close> with the tail computed from the available part.\<close>

lemma padded_take:
  assumes "warmed a xs" and "length tail = length (available xs)"
  shows "take m (replicate (length xs - length (available xs)) None @ tail)
    = replicate (length (take m xs) - length (available (take m xs))) None @ take (m - min a (length xs)) tail"
  using available_length[OF assms(1)] available_length[OF warmed_take[OF assms(1), of m]] by (simp add: ac_simps)

section \<open>MACD, Bollinger bands, the stochastic oscillator\<close>

lemma difference_length [simp]: "length (difference F xs ys) = min (length xs) (length ys)"
  by (simp add: difference_def)

lemma difference_take: "take m (difference F xs ys) = difference F (take m xs) (take m ys)"
  by (simp add: difference_def take_map take_zip)

lemma difference_warmed:
  assumes "warmed a xs" and "warmed b ys"
  shows "warmed (max a b) (difference F xs ys)"
  unfolding warmed_def
proof (intro allI impI)
  fix i
  assume i: "i < length (difference F xs ys)"
  then have "difference F xs ys ! i = None \<longleftrightarrow> xs ! i = None \<or> ys ! i = None"
    by (simp add: difference_def split: option.split)
  also have "\<dots> \<longleftrightarrow> i < max a b" using assms i by (simp add: warmed_def less_max_iff_disj)
  finally show "difference F xs ys ! i = None \<longleftrightarrow> i < max a b" .
qed

lemma ema_warmed: "ema F xs p = Inr out \<Longrightarrow> warmed (nat (p - 1)) out"
  by (auto simp: warmed_def ema_length dest: ema_warm_up)

lemma ema_floats_take:
  "ema F (map PyFloat xs) p = Inr out \<Longrightarrow> ema F (map PyFloat (take m xs)) p = Inr (take m out)"
  using ema_take[of F "map PyFloat xs" p out m] by (simp add: take_map)

lemma sma_floats_take:
  "sma F (map PyFloat xs) p = Inr out \<Longrightarrow> sma F (map PyFloat (take m xs)) p = Inr (take m out)"
  using sma_take[of F "map PyFloat xs" p out m] by (simp add: take_map)

definition macd_take :: "nat \<Rightarrow> 'f macd_lines \<Rightarrow> 'f macd_lines" where
  "macd_take m x = \<lparr>macd_line = take m (macd_line x), macd_signal = take m (macd_signal x), macd_histogram = take m (macd_histogram x)\<rparr>"

lemma macd_parts:
  assumes "macd F xs fast slow signal = Inr out"
  obtains fs ss tail where "fast < slow" "ema F xs fast = Inr fs" "ema F xs slow = Inr ss"
    "ema F (map PyFloat (available (difference F fs ss))) signal = Inr tail"
    "macd_line out = difference F fs ss"
    "macd_signal out = replicate (length (difference F fs ss) - length (available (difference F fs ss))) None @ tail"
    "macd_histogram out = difference F (macd_line out) (macd_signal out)"
  using assms by (auto simp: macd_def Let_def rbind_eq_Inr split: if_splits)

lemma macd_line_warmed:
  "ema F xs fast = Inr fs \<Longrightarrow> ema F xs slow = Inr ss
     \<Longrightarrow> warmed (max (nat (fast - 1)) (nat (slow - 1))) (difference F fs ss)"
  by (rule difference_warmed) (auto dest: ema_warmed)

lemma macd_take:
  assumes "macd F xs fast slow signal = Inr out"
  shows "macd F (take m xs) fast slow signal = Inr (macd_take m out)"
  using assms
proof (cases rule: macd_parts)
  case (1 fs ss tail)
  let ?line = "difference F fs ss"
  have warm: "warmed (max (nat (fast - 1)) (nat (slow - 1))) ?line"
    using 1(2,3) by (rule macd_line_warmed)
  have "length tail = length (available ?line)" using ema_length[OF 1(4)] by simp
  note pad = padded_take[OF warm this, of m] and avail = available_take[OF warm, of m]
  have "ema F (take m xs) fast = Inr (take m fs)" "ema F (take m xs) slow = Inr (take m ss)"
    using 1(2,3) by (simp_all add: ema_take)
  moreover have "ema F (map PyFloat (available (take m ?line))) signal
      = Inr (take (m - min (max (nat (fast - 1)) (nat (slow - 1))) (length ?line)) tail)"
    unfolding avail by (rule ema_floats_take[OF 1(4)])
  ultimately show ?thesis
    using 1 pad by (simp add: macd_def Let_def macd_take_def difference_take del: difference_length)
qed

lemma macd_length:
  assumes "macd F xs fast slow signal = Inr out"
  shows "length (macd_line out) = length xs \<and> length (macd_signal out) = length xs \<and> length (macd_histogram out) = length xs"
  using assms
proof (cases rule: macd_parts)
  case (1 fs ss tail)
  have "length (available (difference F fs ss)) \<le> length (difference F fs ss)"
    using available_length[OF macd_line_warmed[OF 1(2,3)]] by (metis diff_is_0_eq' le_cases length_append length_map le_add2 warmed_split[OF macd_line_warmed[OF 1(2,3)]])
  then show ?thesis using 1 ema_length[OF 1(2)] ema_length[OF 1(3)] ema_length[OF 1(4)] by simp
qed

lemma window_of_take: "i < m \<Longrightarrow> 0 < p \<Longrightarrow> nat (p - 1) \<le> i \<Longrightarrow> window_of (take m xs) p i = window_of xs p i"
  by (simp add: window_of_def drop_take min_absorb1)

definition bollinger_take :: "nat \<Rightarrow> 'f bollinger \<Rightarrow> 'f bollinger" where
  "bollinger_take m x = \<lparr>bb_middle = take m (bb_middle x), bb_upper = take m (bb_upper x), bb_lower = take m (bb_lower x)\<rparr>"

lemma bollinger_take:
  assumes "bollinger_bands F xs p d = Inr out"
  shows "bollinger_bands F (take m xs) p d = Inr (bollinger_take m out)"
proof -
  obtain source middle bands where source: "0 < p" "\<not> (f_less F d (f_of_int F 0) \<or> \<not> f_finite F d)"
      "float_values F xs ''values'' = Inr source" "sma F xs p = Inr middle"
      "warm_series (None, None) (nat (p - 1)) (length source) (bollinger_step F source middle p d) () = Inr bands"
      "out = \<lparr>bb_middle = middle, bb_upper = map fst bands, bb_lower = map snd bands\<rparr>"
    using assms by (auto simp: bollinger_bands_def rbind_eq_Inr check_period_iff split: if_splits)
  have "warm_series (None, None) (nat (p - 1)) (min (length source) m) (bollinger_step F (take m source) (take m middle) p d) ()
      = Inr (take (min (length source) m) bands)"
    by (rule warm_series_take[OF source(5)]) (auto simp: bollinger_step_def window_of_take source(1) split: option.splits)
  then show ?thesis
    using source take_length_min[OF warm_series_length[OF source(5)]]
    by (simp add: bollinger_bands_def check_period_def float_values_take sma_take bollinger_take_def take_map)
qed

definition stochastic_take :: "nat \<Rightarrow> 'f stochastic_lines \<Rightarrow> 'f stochastic_lines" where
  "stochastic_take m x = \<lparr>st_k = take m (st_k x), st_d = take m (st_d x)\<rparr>"

lemma stochastic_parts:
  assumes "stochastic F high low close p smooth = Inr out"
  obtains h lo c k tail where "0 < p" "0 < smooth" "float_values F high ''values'' = Inr h" "float_values F low ''values'' = Inr lo"
    "float_values F close ''values'' = Inr c" "same_length [h, lo, c] = Inr ()"
    "warm_series None (nat (p - 1)) (length c) (stochastic_step F h lo c p) () = Inr k"
    "sma F (map PyFloat (available k)) smooth = Inr tail"
    "out = \<lparr>st_k = k, st_d = replicate (length k - length (available k)) None @ tail\<rparr>"
  using assms by (auto simp: stochastic_def rbind_eq_Inr check_period_iff)

lemma stochastic_warmed:
  assumes "warm_series None a n (stochastic_step F h lo c p) () = Inr k"
  shows "warmed a k"
  unfolding warmed_def
proof (intro allI impI)
  fix i
  assume i: "i < length k"
  then have n: "i < n" using warm_series_length[OF assms] by simp
  show "k ! i = None \<longleftrightarrow> i < a"
  proof (cases "i < a")
    case True
    then show ?thesis using warm_series_warming[OF assms True n] by simp
  next
    case False
    then obtain u u' where "stochastic_step F h lo c p u i = Inr (u', k ! i)"
      using warm_series_output[OF assms _ n] by auto
    then show ?thesis using False
      by (auto simp: stochastic_step_def Let_def rbind_eq_Inr eq_commute[of _ "k ! i"] split: if_splits)
  qed
qed

lemma stochastic_take:
  assumes "stochastic F high low close p smooth = Inr out"
  shows "stochastic F (take m high) (take m low) (take m close) p smooth = Inr (stochastic_take m out)"
  using assms
proof (cases rule: stochastic_parts)
  case (1 h lo c k tail)
  note warm = stochastic_warmed[OF 1(7)]
  have "length tail = length (available k)" using sma_length[OF 1(8)] by simp
  note pad = padded_take[OF warm this, of m] and avail = available_take[OF warm, of m]
  have "warm_series None (nat (p - 1)) (min (length c) m) (stochastic_step F (take m h) (take m lo) (take m c) p) ()
      = Inr (take (min (length c) m) k)"
    by (rule warm_series_take[OF 1(7)]) (auto simp: stochastic_step_def Let_def window_of_take 1(1))
  moreover have "sma F (map PyFloat (available (take m k))) smooth = Inr (take (m - min (nat (p - 1)) (length k)) tail)"
    unfolding avail by (rule sma_floats_take[OF 1(8)])
  ultimately show ?thesis
    using 1 pad take_length_min[OF warm_series_length[OF 1(7)]] same_length3_take[OF 1(6)]
    by (simp add: stochastic_def check_period_def float_values_take stochastic_take_def)
qed

section \<open>ATR, ADX and VWAP\<close>

lemma true_ranges_length [simp]: "length (true_ranges F h lo c) = length h"
  by (cases "length h") (auto simp: true_ranges_def simp del: upt_Suc)

lemma true_ranges_nth:
  "i < length h \<Longrightarrow> true_ranges F h lo c ! i = (if i = 0 then f_sub F (h ! 0) (lo ! 0) else true_range_at F h lo c i)"
  by (auto simp: true_ranges_def nth_append nth_Cons')

lemma true_ranges_take: "true_ranges F (take m h) (take m lo) (take m c) = take m (true_ranges F h lo c)"
  by (rule nth_equalityI) (auto simp: true_ranges_nth true_range_at_def)

lemma atr_parts:
  assumes "atr F high low close p = Inr out"
  obtains h lo c where "0 < p" "float_values F high ''high'' = Inr h" "float_values F low ''low'' = Inr lo"
    "float_values F close ''close'' = Inr c" "same_length [h, lo, c] = Inr ()"
    "\<not> list_ex (\<lambda>(top, bottom). f_less F top bottom) (zip h lo)" "wilder F (true_ranges F h lo c) p = Inr out"
  using assms by (auto simp: atr_def rbind_eq_Inr check_period_iff split: if_splits)

lemma atr_take:
  assumes "atr F high low close p = Inr out"
  shows "atr F (take m high) (take m low) (take m close) p = Inr (take m out)"
  using assms
proof (cases rule: atr_parts)
  case (1 h lo c)
  have "\<not> list_ex (\<lambda>(top, bottom). f_less F top bottom) (zip (take m h) (take m lo))"
    using 1(6) by (auto simp: list_ex_iff take_zip[symmetric] dest: in_set_takeD)
  then show ?thesis
    using 1 same_length3_take[OF 1(5)] wilder_take[OF 1(7,1)]
    by (simp add: atr_def check_period_def float_values_take true_ranges_take)
qed

lemma atr_length:
  assumes "atr F high low close p = Inr out"
  shows "length out = length high"
  using assms
proof (cases rule: atr_parts)
  case (1 h lo c)
  then show ?thesis using wilder_length[OF 1(1,7)] float_values_length[OF 1(2)] by simp
qed

lemma atr_warm_up:
  assumes "atr F high low close p = Inr out" and "i < length high"
  shows "out ! i = None \<longleftrightarrow> int i < p - 1"
  using assms(1)
proof (cases rule: atr_parts)
  case (1 h lo c)
  then show ?thesis using wilder_warm_up[OF 1(7,1), of i] float_values_length[OF 1(2)] assms(2) by simp
qed

lemma moves_take:
  assumes "0 < m" and "\<And>i. i < m \<Longrightarrow> g i = f i"
  shows "x # map g [1..<min n m] = take m (x # map f [1..<n])"
proof -
  have "map g [1..<min n m] = take (m - 1) (map f [1..<n])"
    using assms(2) by (simp add: take_map take_upt_min)
  then show ?thesis using assms(1) by (cases m) simp_all
qed

lemma adx_series_parts:
  assumes "adx_series F h lo c p = Inr out"
  obtains tr ps ms dx tail where "wilder F (true_ranges F h lo c) p = Inr tr"
    "wilder F (f_of_int F 0 # map (plus_move F h lo) [1..<length h]) p = Inr ps"
    "wilder F (f_of_int F 0 # map (minus_move F h lo) [1..<length h]) p = Inr ms"
    "rmap (dx_at F tr ps ms) [nat (p - 1)..<length h] = Inr dx" "wilder F dx p = Inr tail"
    "out = replicate (nat (p - 1)) None @ tail"
  using assms by (auto simp: adx_series_def rbind_eq_Inr)

lemma adx_series_take:
  assumes "adx_series F h lo c p = Inr out" and "0 < p" and "0 < m" and "p - 1 \<le> int m"
  shows "adx_series F (take m h) (take m lo) (take m c) p = Inr (take m out)"
  using assms(1)
proof (cases rule: adx_series_parts)
  case (1 tr ps ms dx tail)
  let ?a = "nat (p - 1)"
  have "f_of_int F 0 # map (plus_move F (take m h) (take m lo)) [1..<min (length h) m]
      = take m (f_of_int F 0 # map (plus_move F h lo) [1..<length h])"
    by (rule moves_take[OF assms(3)]) (simp add: plus_move_def)
  then have plus: "wilder F (f_of_int F 0 # map (plus_move F (take m h) (take m lo)) [1..<length (take m h)]) p = Inr (take m ps)"
    using wilder_take[OF 1(2) assms(2), of m] by simp
  have "f_of_int F 0 # map (minus_move F (take m h) (take m lo)) [1..<min (length h) m]
      = take m (f_of_int F 0 # map (minus_move F h lo) [1..<length h])"
    by (rule moves_take[OF assms(3)]) (simp add: minus_move_def)
  then have minus: "wilder F (f_of_int F 0 # map (minus_move F (take m h) (take m lo)) [1..<length (take m h)]) p = Inr (take m ms)"
    using wilder_take[OF 1(3) assms(2), of m] by simp
  have "rmap (dx_at F (take m tr) (take m ps) (take m ms)) [?a..<length (take m h)]
      = rmap (dx_at F tr ps ms) [?a..<length (take m h)]"
    by (rule rmap_cong) (simp add: dx_at_def)
  also have "\<dots> = rmap (dx_at F tr ps ms) (take (m - ?a) [?a..<length h])"
    by (simp add: take_upt_min)
  also have "\<dots> = Inr (take (m - ?a) dx)"
    by (rule rmap_take[OF 1(4)])
  finally have "rmap (dx_at F (take m tr) (take m ps) (take m ms)) [?a..<length (take m h)] = Inr (take (m - ?a) dx)" .
  then show ?thesis
    using 1 plus minus wilder_take[OF 1(1) assms(2), of m] wilder_take[OF 1(5) assms(2), of "m - ?a"] assms(4)
    unfolding adx_series_def true_ranges_take by simp
qed

lemma adx_parts:
  assumes "adx F high low close p = Inr out"
  obtains h lo c where "0 < p" "float_values F high ''high'' = Inr h" "float_values F low ''low'' = Inr lo"
    "float_values F close ''close'' = Inr c" "same_length [h, lo, c] = Inr ()" "adx_series F h lo c p = Inr out"
  using assms by (auto simp: adx_def rbind_eq_Inr check_period_iff)

lemma adx_take:
  assumes "adx F high low close p = Inr out" and "0 < m" and "p - 1 \<le> int m"
  shows "adx F (take m high) (take m low) (take m close) p = Inr (take m out)"
  using assms(1)
proof (cases rule: adx_parts)
  case (1 h lo c)
  then show ?thesis
    using same_length3_take[OF 1(5)] adx_series_take[OF 1(6,1) assms(2,3)]
    by (simp add: adx_def check_period_def float_values_take)
qed

lemma adx_series_shape:
  assumes "adx_series F h lo c p = Inr out" and "0 < p"
  shows "length out = max (length h) (nat (p - 1)) \<and> (\<forall>i < length out. out ! i = None \<longleftrightarrow> int i < 2 * p - 2)"
  using assms(1)
proof (cases rule: adx_series_parts)
  case (1 tr ps ms dx tail)
  have len: "length dx = length h - nat (p - 1)" "length tail = length dx"
    using rmap_length[OF 1(4)] wilder_length[OF assms(2) 1(5)] by simp_all
  have "out ! i = None \<longleftrightarrow> int i < 2 * p - 2" if i: "i < length out" for i
  proof (cases "i < nat (p - 1)")
    case False
    then have "out ! i = tail ! (i - nat (p - 1))" using 1(6) by (simp add: nth_append)
    moreover have "i - nat (p - 1) < length dx" using False 1(6) i len by simp linarith
    moreover have "int (i - nat (p - 1)) < p - 1 \<longleftrightarrow> int i < 2 * p - 2"
      using False assms(2) by linarith
    ultimately show ?thesis using wilder_warm_up[OF 1(5) assms(2)] by simp
  qed (use 1(6) in \<open>auto simp: nth_append\<close>)
  then show ?thesis using 1(6) len by auto
qed

lemma adx_shape:
  assumes "adx F high low close p = Inr out"
  shows "length out = max (length high) (nat (p - 1)) \<and> (\<forall>i < length out. out ! i = None \<longleftrightarrow> int i < 2 * p - 2)"
  using assms
proof (cases rule: adx_parts)
  case (1 h lo c)
  then show ?thesis using adx_series_shape[OF 1(6,1)] float_values_length[OF 1(2)] by simp
qed

lemma vwap_take:
  assumes "vwap F high low close volume = Inr out"
  shows "vwap F (take m high) (take m low) (take m close) (take m volume) = Inr (take m out)"
proof -
  obtain h lo c v where *: "float_values F high ''values'' = Inr h" "float_values F low ''values'' = Inr lo"
      "float_values F close ''values'' = Inr c" "float_values F volume ''values'' = Inr v" "same_length [h, lo, c, v] = Inr ()"
      "\<not> list_ex (\<lambda>x. f_less F x (f_of_int F 0)) v"
      "warm_series None 0 (length h) (vwap_step F h lo c v) (f_of_int F 0, f_of_int F 0) = Inr out"
    using assms by (auto simp: vwap_def rbind_eq_Inr split: if_splits)
  have "\<not> list_ex (\<lambda>x. f_less F x (f_of_int F 0)) (take m v)"
    using *(6) by (auto simp: list_ex_iff dest: in_set_takeD)
  moreover have "warm_series None 0 (min (length h) m) (vwap_step F (take m h) (take m lo) (take m c) (take m v)) (f_of_int F 0, f_of_int F 0)
      = Inr (take (min (length h) m) out)"
    by (rule warm_series_take[OF *(7)]) (auto simp: vwap_step_def)
  ultimately show ?thesis
    using * take_length_min[OF warm_series_length[OF *(7)]] same_length4_take[OF *(5)] by (simp add: vwap_def float_values_take)
qed

section \<open>Pivots, support and resistance, gaps\<close>

lemma pivots_parts:
  assumes "pivots F high low left right = Inr out"
  obtains h lo flags where "0 < left" "0 < right" "float_values F high ''values'' = Inr h" "float_values F low ''values'' = Inr lo"
    "same_length [h, lo] = Inr ()"
    "warm_series (False, False) (nat (left + right)) (length h) (pivot_step F h lo (nat left) (nat right)) () = Inr flags"
    "out = (map fst flags, map snd flags)"
  using assms by (auto simp: pivots_def rbind_eq_Inr check_period_iff)

lemma pivot_window_take:
  assumes "l + r \<le> i" and "i < m"
  shows "take (Suc (l + r)) (drop (i - r - l) (take m xs)) = take (Suc (l + r)) (drop (i - r - l) xs)"
  using assms by (simp add: drop_take min_absorb1)

lemma pivots_take:
  assumes "pivots F high low left right = Inr (highs, lows)"
  shows "pivots F (take m high) (take m low) left right = Inr (take m highs, take m lows)"
  using assms
proof (cases rule: pivots_parts)
  case (1 h lo flags)
  have "warm_series (False, False) (nat (left + right)) (min (length h) m) (pivot_step F (take m h) (take m lo) (nat left) (nat right)) ()
      = Inr (take (min (length h) m) flags)"
  proof (rule warm_series_take[OF 1(6)])
    fix t i
    assume i: "nat (left + right) \<le> i" "i < min (length h) m"
    then have "nat left + nat right \<le> i" "i < m" "i - nat right < m" using 1(1,2) by auto
    then show "pivot_step F (take m h) (take m lo) (nat left) (nat right) t i = pivot_step F h lo (nat left) (nat right) t i"
      unfolding pivot_step_def Let_def by (simp only: pivot_window_take nth_take)
  qed simp
  then show ?thesis
    using 1 take_length_min[OF warm_series_length[OF 1(6)]] same_length2_take[OF 1(5)]
    by (simp add: pivots_def check_period_def float_values_take take_map)
qed

lemma support_resistance_take:
  assumes "support_resistance F high low left right = Inr (resistance, support)"
  shows "support_resistance F (take m high) (take m low) left right = Inr (take m resistance, take m support)"
proof -
  obtain h lo ph pl levels where *: "float_values F high ''values'' = Inr h" "float_values F low ''values'' = Inr lo"
      "pivots F high low left right = Inr (ph, pl)"
      "warm_series (None, None) 0 (length h) (level_step h lo ph pl (nat right)) (None, None) = Inr levels"
      "resistance = map fst levels" "support = map snd levels"
    using assms by (auto simp: support_resistance_def rbind_eq_Inr)
  have "warm_series (None, None) 0 (min (length h) m) (level_step (take m h) (take m lo) (take m ph) (take m pl) (nat right)) (None, None)
      = Inr (take (min (length h) m) levels)"
    by (rule warm_series_take[OF *(4)]) (auto simp: level_step_def Let_def less_imp_diff_less)
  then show ?thesis
    using * take_length_min[OF warm_series_length[OF *(4)]] pivots_take[OF *(3), of m]
    by (simp add: support_resistance_def float_values_take take_map)
qed

lemma gap_at_index: "gap_at F opening closing pct i = Inr gs \<Longrightarrow> g \<in> set gs \<Longrightarrow> gap_index g = i"
  by (auto simp: gap_at_def Let_def rbind_eq_Inr split: if_splits)

lemma gap_at_take:
  assumes "i < m"
  shows "gap_at F (take m opening) (take m closing) pct i = gap_at F opening closing pct i"
proof -
  have "i - 1 < m" using assms by simp
  then show ?thesis using assms unfolding gap_at_def Let_def by (simp only: nth_take)
qed

lemma gaps_found_before:
  assumes "rmap (gap_at F opening closing pct) [1..<n] = Inr found"
  shows "concat (take (m - 1) found) = filter (\<lambda>g. gap_index g < m) (concat found)"
proof -
  have index: "gap_index g = Suc j" if "j < length found" "g \<in> set (found ! j)" for j g
    using that rmap_nth[OF assms, of j] rmap_length[OF assms] gap_at_index by (fastforce simp: less_diff_conv)
  have early: "gap_index g < m" if mem: "g \<in> set (concat (take (m - 1) found))" for g
  proof -
    obtain xs where xs: "xs \<in> set (take (m - 1) found)" "g \<in> set xs" using mem by auto
    then obtain j where "j < length found" "j < m - 1" "xs = found ! j" by (auto simp: in_set_conv_nth)
    then show ?thesis using index[of j g] xs(2) by simp
  qed
  have late: "\<not> gap_index g < m" if mem: "g \<in> set (concat (drop (m - 1) found))" for g
  proof -
    obtain xs where xs: "xs \<in> set (drop (m - 1) found)" "g \<in> set xs" using mem by auto
    then obtain j where "j < length found - (m - 1)" "xs = found ! (m - 1 + j)" by (auto simp: in_set_conv_nth)
    then show ?thesis using index[of "m - 1 + j" g] xs(2) by simp
  qed
  have "filter (\<lambda>g. gap_index g < m) (concat found)
      = filter (\<lambda>g. gap_index g < m) (concat (take (m - 1) found)) @ filter (\<lambda>g. gap_index g < m) (concat (drop (m - 1) found))"
    by (metis append_take_drop_id concat_append filter_append)
  also have "\<dots> = concat (take (m - 1) found)"
    using early late by (simp add: filter_id_conv filter_empty_conv del: set_concat)
  finally show ?thesis by simp
qed

lemma gaps_take:
  assumes "gaps F opens close pct = Inr out"
  shows "gaps F (take m opens) (take m close) pct = Inr (filter (\<lambda>g. gap_index g < m) out)"
proof -
  obtain o' c found where *: "float_values F opens ''open'' = Inr o'" "float_values F close ''close'' = Inr c"
      "same_length [o', c] = Inr ()" "\<not> f_less F pct (f_of_int F 0)" "rmap (gap_at F o' c pct) [1..<length o'] = Inr found"
      "out = concat found"
    using assms by (auto simp: gaps_def rbind_eq_Inr split: if_splits)
  have "rmap (gap_at F (take m o') (take m c) pct) [1..<length (take m o')] = rmap (gap_at F o' c pct) (take (m - 1) [1..<length o'])"
    unfolding take_upt_min by (simp, rule rmap_cong) (simp add: gap_at_take)
  then show ?thesis
    using * same_length2_take[OF *(3), of m] rmap_take[OF *(5), of "m - 1"] gaps_found_before[OF *(5), of m]
    by (simp add: gaps_def float_values_take)
qed

section \<open>Supertrend\<close>

definition supertrend_take :: "nat \<Rightarrow> 'f supertrend_lines \<Rightarrow> 'f supertrend_lines" where
  "supertrend_take m x = \<lparr>su_value = take m (su_value x), su_direction = take m (su_direction x)\<rparr>"

lemma carry_bands_take: "i < m \<Longrightarrow> carry_bands F (take m c) p i u l s = carry_bands F c p i u l s"
  by (cases s) (auto simp: carry_bands_def Let_def)

lemma supertrend_take:
  assumes "supertrend F high low close p k = Inr out"
  shows "supertrend F (take m high) (take m low) (take m close) p k = Inr (supertrend_take m out)"
proof -
  obtain h lo c ranges points where *: "\<not> (f_leq F k (f_of_int F 0) \<or> \<not> f_finite F k)"
      "float_values F high ''values'' = Inr h" "float_values F low ''values'' = Inr lo" "float_values F close ''values'' = Inr c"
      "same_length [h, lo, c] = Inr ()" "atr F high low close p = Inr ranges"
      "warm_series (None, None) (nat (p - 1)) (length c) (supertrend_step F h lo c ranges p k) (f_of_int F 0, f_of_int F 0, 1) = Inr points"
      "out = \<lparr>su_value = map fst points, su_direction = map snd points\<rparr>"
    using assms by (auto simp: supertrend_def rbind_eq_Inr split: if_splits)
  have "warm_series (None, None) (nat (p - 1)) (min (length c) m) (supertrend_step F (take m h) (take m lo) (take m c) (take m ranges) p k)
        (f_of_int F 0, f_of_int F 0, 1) = Inr (take (min (length c) m) points)"
    by (rule warm_series_take[OF *(7)]) (auto simp: supertrend_step_def carry_bands_take split: option.splits)
  then show ?thesis
    using * take_length_min[OF warm_series_length[OF *(7)]] same_length3_take[OF *(5)] atr_take[OF *(6), of m]
    by (simp add: supertrend_def float_values_take supertrend_take_def take_map)
qed

end
