(* ===== verification/Indicator_Claims.thy ===== *)
theory Indicator_Claims
  imports Indicator_Laws
begin

text \<open>
  The properties of the indicators: no repainting and the documented warm-up for any floating-point
  operations, and two facts of the exact values: the rolling sum of \<open>sma\<close> is the mean of its
  window, and an RSI lies between 0 and 100.
\<close>

section \<open>Repainting\<close>

text \<open>Whatever the floating-point operations are, the indicators of a price series never repaint: when
  an indicator returns for a series, the same call on its first m values returns the first m entries
  of that answer, so no entry depends on a later value.
\<close>

theorem price_indicators_never_repaint:
  "(sma F xs p = Inr a \<longrightarrow> sma F (take m xs) p = Inr (take m a))
   \<and> (ema F xs p = Inr a \<longrightarrow> ema F (take m xs) p = Inr (take m a))
   \<and> (rsi F xs p = Inr a \<longrightarrow> rsi F (take m xs) p = Inr (take m a))
   \<and> (roc F xs p = Inr a \<longrightarrow> roc F (take m xs) p = Inr (take m a))
   \<and> (relative_volume F xs p = Inr a \<longrightarrow> relative_volume F (take m xs) p = Inr (take m a))
   \<and> (macd F xs fast slow signal = Inr \<lparr>macd_line = a, macd_signal = b, macd_histogram = c\<rparr>
      \<longrightarrow> macd F (take m xs) fast slow signal = Inr \<lparr>macd_line = take m a, macd_signal = take m b, macd_histogram = take m c\<rparr>)
   \<and> (bollinger_bands F xs p d = Inr \<lparr>bb_middle = a, bb_upper = b, bb_lower = c\<rparr>
      \<longrightarrow> bollinger_bands F (take m xs) p d = Inr \<lparr>bb_middle = take m a, bb_upper = take m b, bb_lower = take m c\<rparr>)"
  by (auto simp: sma_take ema_take rsi_take roc_take relative_volume_take macd_take_def bollinger_take_def
      dest: macd_take[where m = m] bollinger_take[where m = m])

theorem price_indicators_never_repaint_witness:
  "sma rat_ops [PyInt 1, PyInt 3, PyInt 5, PyInt 4] 2 = Inr [None, Some 2, Some 4, Some (9 / 2)]
   \<and> sma rat_ops [PyInt 1, PyInt 3, PyInt 5] 2 = Inr [None, Some 2, Some 4]
   \<and> roc rat_ops [PyInt 1, PyInt 3, PyInt 6] 1 = Inr [None, Some 200, Some 100]
   \<and> roc rat_ops [PyInt 1, PyInt 3] 1 = Inr [None, Some 200]"
proof -
  let ?xs = "[PyInt 1, PyInt 3, PyInt 5, PyInt 4]" and ?ys = "[PyInt 1, PyInt 3, PyInt 6]"
  have s: "sma rat_ops ?xs 2 = Inr [None, Some 2, Some 4, Some (9 / 2)]"
    by (simp add: sma_def check_period_def float_values_def to_float_def warm_series_def series_loop_def sma_step_def
        fdivide_def rat_ops_def upt_rec)
  have r: "roc rat_ops ?ys 1 = Inr [None, Some 200, Some 100]"
    by (simp add: roc_def check_period_def float_values_def to_float_def warm_series_def series_loop_def roc_step_def
        fdivide_def ftrue_def rat_ops_def upt_rec)
  show ?thesis
    using price_indicators_never_repaint[of rat_ops ?xs 2 _ 3] price_indicators_never_repaint[of rat_ops ?ys 1 _ 2] s r
    by simp
qed

text \<open>C28: The indicators over bars never repaint either: ATR, VWAP, the stochastic oscillator, pivots,
  support and resistance levels and Supertrend of the first m bars are the first m entries of the
  answer for all bars, the gaps of the first m bars are the gaps found before index m, and ADX is
  stable from its warm-up on.
\<close>

theorem bar_indicators_never_repaint:
  "(atr F h l c p = Inr a \<longrightarrow> atr F (take m h) (take m l) (take m c) p = Inr (take m a))
   \<and> (vwap F h l c v = Inr a \<longrightarrow> vwap F (take m h) (take m l) (take m c) (take m v) = Inr (take m a))
   \<and> (stochastic F h l c p smooth = Inr \<lparr>st_k = a, st_d = b\<rparr>
      \<longrightarrow> stochastic F (take m h) (take m l) (take m c) p smooth = Inr \<lparr>st_k = take m a, st_d = take m b\<rparr>)
   \<and> (pivots F h l left right = Inr (ups, downs) \<longrightarrow> pivots F (take m h) (take m l) left right = Inr (take m ups, take m downs))
   \<and> (support_resistance F h l left right = Inr (a, b)
      \<longrightarrow> support_resistance F (take m h) (take m l) left right = Inr (take m a, take m b))
   \<and> (supertrend F h l c p k = Inr \<lparr>su_value = a, su_direction = ds\<rparr>
      \<longrightarrow> supertrend F (take m h) (take m l) (take m c) p k = Inr \<lparr>su_value = take m a, su_direction = take m ds\<rparr>)
   \<and> (gaps F h c pct = Inr gs \<longrightarrow> gaps F (take m h) (take m c) pct = Inr (filter (\<lambda>g. gap_index g < m) gs))
   \<and> (adx F h l c p = Inr a \<and> 0 < m \<and> p - 1 \<le> int m \<longrightarrow> adx F (take m h) (take m l) (take m c) p = Inr (take m a))"
  by (auto simp: atr_take vwap_take pivots_take support_resistance_take gaps_take adx_take stochastic_take_def supertrend_take_def
      dest: stochastic_take[where m = m] supertrend_take[where m = m])

theorem bar_indicators_never_repaint_witness:
  "gaps rat_ops [PyInt 1, PyInt 9, PyInt 3] [PyInt 4, PyInt 4, PyInt 3] 0
     = Inr [\<lparr>gap_index = 1, gap_direction = ''up'', gap_size = 5, gap_previous_close = 4, gap_current_open = 9\<rparr>,
            \<lparr>gap_index = 2, gap_direction = ''down'', gap_size = 1, gap_previous_close = 4, gap_current_open = 3\<rparr>]
   \<and> gaps rat_ops [PyInt 1, PyInt 9] [PyInt 4, PyInt 4] 0
     = Inr [\<lparr>gap_index = 1, gap_direction = ''up'', gap_size = 5, gap_previous_close = 4, gap_current_open = 9\<rparr>]"
proof -
  have g: "gaps rat_ops [PyInt 1, PyInt 9, PyInt 3] [PyInt 4, PyInt 4, PyInt 3] 0
      = Inr [\<lparr>gap_index = 1, gap_direction = ''up'', gap_size = 5, gap_previous_close = 4, gap_current_open = 9\<rparr>,
             \<lparr>gap_index = 2, gap_direction = ''down'', gap_size = 1, gap_previous_close = 4, gap_current_open = 3\<rparr>]"
    by (simp add: gaps_def same_length_def float_values_def to_float_def gap_at_def fdivide_def rat_ops_def upt_rec Let_def)
  then show ?thesis
    using bar_indicators_never_repaint[of rat_ops "[PyInt 1, PyInt 9, PyInt 3]" _ "[PyInt 4, PyInt 4, PyInt 3]" _ _ 2] by simp
qed

section \<open>Warm-up\<close>

text \<open>The warm-up is the documented one, for every input on which the indicator returns: SMA, EMA and
  ATR have a value exactly from index period - 1 on, RSI exactly from index period on, ADX exactly
  from index 2 * period - 2 on.  All but ADX have the length of their input; ADX has that length only
  from period - 1 bars on, and period - 1 entries for a shorter input.
\<close>

theorem indicators_start_after_their_warm_up:
  "(sma F xs p = Inr a \<or> ema F xs p = Inr a \<or> atr F xs low close p = Inr a
      \<longrightarrow> length a = length xs \<and> (\<forall>i < length xs. a ! i = None \<longleftrightarrow> int i < p - 1))
   \<and> (rsi F xs p = Inr a \<longrightarrow> length a = length xs \<and> (\<forall>i < length xs. a ! i = None \<longleftrightarrow> int i < p))
   \<and> (adx F xs low close p = Inr a
      \<longrightarrow> length a = max (length xs) (nat (p - 1)) \<and> (\<forall>i < length a. a ! i = None \<longleftrightarrow> int i < 2 * p - 2))"
proof (intro conjI impI)
  assume "sma F xs p = Inr a \<or> ema F xs p = Inr a \<or> atr F xs low close p = Inr a"
  then show "length a = length xs" "\<forall>i < length xs. a ! i = None \<longleftrightarrow> int i < p - 1"
    by (elim disjE; simp add: sma_length ema_length atr_length sma_warm_up ema_warm_up atr_warm_up)+
next
  assume "rsi F xs p = Inr a"
  then show "length a = length xs" "\<forall>i < length xs. a ! i = None \<longleftrightarrow> int i < p"
    by (simp_all add: rsi_length rsi_warm_up)
next
  assume "adx F xs low close p = Inr a"
  then show "length a = max (length xs) (nat (p - 1))" "\<forall>i < length a. a ! i = None \<longleftrightarrow> int i < 2 * p - 2"
    using adx_shape by blast+
qed

theorem indicators_start_after_their_warm_up_witness:
  "adx rat_ops [PyInt 3] [PyInt 1] [PyInt 2] 4 = Inr [None, None, None] \<and> length [None, None, None :: rat option] = max (length [PyInt 3 :: rat number]) (nat (4 - 1))
   \<and> sma rat_ops [PyInt 2, PyInt 4] 2 = Inr [None, Some 3] \<and> ([None, Some (3 :: rat)] ! 1 = None \<longleftrightarrow> int 1 < 2 - 1)"
proof -
  have s: "sma rat_ops [PyInt 2, PyInt 4] 2 = Inr [None, Some 3]"
    by (simp add: sma_def check_period_def float_values_def to_float_def warm_series_def series_loop_def sma_step_def
        fdivide_def rat_ops_def upt_rec)
  have d: "adx rat_ops [PyInt 3] [PyInt 1] [PyInt 2] 4 = Inr [None, None, None]"
    by (simp add: adx_def adx_series_def check_period_def float_values_def to_float_def same_length_def wilder_def
        true_ranges_def rat_ops_def numeral_3_eq_3)
  show ?thesis
    using indicators_start_after_their_warm_up[of rat_ops "[PyInt 2, PyInt 4]" 2 "[None, Some 3]" "[]" "[]"] s
      indicators_start_after_their_warm_up[of rat_ops "[PyInt 3]" 4 "[None, None, None]" "[PyInt 1]" "[PyInt 2]"] d by simp
qed

section \<open>Exact values\<close>

lemma series_loop_all:
  assumes "series_loop step s a n = Inr (t, out)" and "a \<le> n" and "P s"
    and "\<And>t i u v. P t \<Longrightarrow> step t i = Inr (u, v) \<Longrightarrow> P u \<and> Q v"
  shows "P t \<and> list_all Q out"
  using assms(2,1)
proof (induction arbitrary: t out rule: dec_induct)
  case base
  then show ?case using assms(3) by simp
next
  case (step n)
  then show ?case using assms(4) by (fastforce simp: series_loop_snoc rbind_eq_Inr)
qed

lemma float_values_rat: "float_values rat_ops (map PyFloat xs) name = Inr xs"
proof -
  have "rmap (to_float rat_ops) (map PyFloat xs) = Inr xs" by (induction xs) (simp_all add: to_float_def)
  then show ?thesis by (simp add: float_values_def list_all_iff rat_ops_def)
qed

lemma sma_loop:
  assumes "0 < p" and "n \<le> length xs"
  shows "series_loop (sma_step rat_ops xs p) 0 0 n =
    Inr (sum ((!) xs) {n - nat p..<n},
         map (\<lambda>i. if int i < p - 1 then None else Some (sum ((!) xs) {Suc i - nat p..<Suc i} / of_int p)) [0..<n])"
  using assms(2)
proof (induction n)
  case (Suc n)
  have "sum ((!) xs) {n - nat p..<n} + xs ! n - (if nat p \<le> n then xs ! (n - nat p) else 0) = sum ((!) xs) {Suc n - nat p..<Suc n}"
  proof (cases "nat p \<le> n")
    case True
    then have "{n - nat p..<n} = insert (n - nat p) {Suc n - nat p..<n}" using assms(1) by auto
    moreover have "n - nat p < n" using True assms(1) by auto
    ultimately show ?thesis using True by (simp add: Suc_diff_le)
  next
    case False
    then show ?thesis by simp
  qed
  then show ?case using Suc assms(1)
    by (auto simp: series_loop_snoc sma_step_def Let_def fdivide_def rat_ops_def nat_le_iff)
qed simp

text \<open>In exact arithmetic the rolling sum of the SMA is the mean of its window: for a positive period the
  function returns, and entry i is the arithmetic mean of the last period values up to i, absent before.
\<close>

theorem sma_is_the_window_mean:
  assumes "0 < p"
  shows "sma rat_ops (map PyFloat xs) p =
    Inr (map (\<lambda>i. if int i < p - 1 then None else Some ((\<Sum>j = Suc i - nat p..<Suc i. xs ! j) / of_int p)) [0..<length xs])"
  using sma_loop[OF assms, of "length xs" xs] assms
  by (simp add: sma_def check_period_def float_values_rat warm_series_def) (simp add: rat_ops_def)

theorem sma_is_the_window_mean_witness: "sma rat_ops (map PyFloat [2, 4, 9]) 2 = Inr [None, Some 3, Some (13 / 2)]"
  using sma_is_the_window_mean[of 2 "[2, 4, 9]"] by (simp add: upt_rec numeral_2_eq_2)

lemma rsi_score_bounds:
  assumes "rsi_score rat_ops gain loss = Inr v" and "0 \<le> gain" and "0 \<le> loss"
  shows "0 \<le> v \<and> v \<le> 100"
proof (cases "loss = 0")
  case True
  then show ?thesis using assms by (auto simp: rsi_score_def rat_ops_def ftrue_def split: if_splits)
next
  case False
  define x where "x = gain / loss"
  have x: "0 \<le> x" using assms False by (simp add: x_def)
  then have "v = 100 - 100 / (1 + x)"
    using assms(1) False by (auto simp: rsi_score_def rat_ops_def fdivide_def x_def split: if_splits)
  moreover have "100 / (1 + x) \<le> 100" "0 \<le> 100 / (1 + x)" using x by (simp_all add: field_simps)
  ultimately show ?thesis by simp
qed

lemma seed_mean_nonneg:
  assumes "seed_mean rat_ops xs p = Inr v" and "0 < p" and "\<forall>x \<in> set xs. 0 \<le> x"
  shows "0 \<le> v"
  using assms by (auto simp: seed_mean_def fdivide_def rat_ops_def intro!: divide_nonneg_pos sum_list_nonneg dest: in_set_takeD split: if_splits)

lemma moves_nonneg: "0 \<le> upward rat_ops x" "0 \<le> downward rat_ops x"
  by (simp_all add: upward_def downward_def fmax_def rat_ops_def)

lemma rsi_step_bounds:
  assumes "rsi_step rat_ops changes p t i = Inr (u, v)" and "0 < p" and "0 \<le> fst t \<and> 0 \<le> snd t"
  shows "(0 \<le> fst u \<and> 0 \<le> snd u) \<and> 0 \<le> v \<and> v \<le> 100"
proof -
  obtain gain loss gain' loss' where t: "t = (gain, loss)" "u = (gain', loss')"
    by (cases t; cases u)
  have "gain' = (gain * of_int (p - 1) + upward rat_ops (changes ! (i - 1))) / of_int p"
      "loss' = (loss * of_int (p - 1) + downward rat_ops (changes ! (i - 1))) / of_int p"
      and score: "rsi_score rat_ops gain' loss' = Inr v"
    using assms(1,2) by (auto simp: rsi_step_def t rbind_eq_Inr fdivide_def rat_ops_def split: if_splits)
  then have "0 \<le> gain'" "0 \<le> loss'"
    using assms(2,3) t moves_nonneg by (auto intro!: divide_nonneg_pos add_nonneg_nonneg mult_nonneg_nonneg)
  then show ?thesis using rsi_score_bounds[OF score] t by simp
qed

text \<open>In exact arithmetic every RSI value lies between 0 and 100, on any series and with any period.
\<close>

theorem rsi_is_between_0_and_100:
  assumes "rsi rat_ops xs p = Inr out" and "Some v \<in> set out"
  shows "0 \<le> v \<and> v \<le> 100"
  using assms(1)
proof (cases rule: rsi_parts)
  case (short source)
  then show ?thesis using assms(2) by simp
next
  case (full source)
  let ?changes = "price_changes rat_ops source"
  obtain gain loss v0 t tail where
    seed: "rsi_seed rat_ops ?changes p = Inr ((gain, loss), v0)"
    and loop: "series_loop (rsi_step rat_ops ?changes p) (gain, loss) (Suc (nat p)) (length source) = Inr (t, tail)"
    and out: "out = replicate (nat p) None @ Some v0 # map Some tail"
    using full(4) by (auto simp: seeded_series_eq)
  have start: "0 \<le> gain" "0 \<le> loss" "rsi_score rat_ops gain loss = Inr v0"
    using seed full(1) by (auto simp: rsi_seed_def rbind_eq_Inr moves_nonneg elim!: seed_mean_nonneg)
  have "list_all (\<lambda>v. 0 \<le> v \<and> v \<le> 100) tail"
    by (rule series_loop_all[OF loop, where P = "\<lambda>t. 0 \<le> fst t \<and> 0 \<le> snd t", THEN conjunct2])
      (use full(1,3) start rsi_step_bounds in auto)
  then show ?thesis using assms(2) out rsi_score_bounds[OF start(3,1,2)] by (auto simp: list_all_iff)
qed

theorem rsi_is_between_0_and_100_witness:
  "rsi rat_ops [PyInt 1, PyInt 3, PyInt 2] 2 = Inr [None, None, Some (200 / 3)] \<and> (0 :: rat) \<le> 200 / 3 \<and> (200 / 3 :: rat) \<le> 100"
proof -
  have r: "rsi rat_ops [PyInt 1, PyInt 3, PyInt 2] 2 = Inr [None, None, Some (200 / 3)]"
    by (simp add: rsi_def check_period_def float_values_def to_float_def seeded_series_def series_loop_def rsi_seed_def seed_mean_def
        price_changes_def upward_def downward_def fmax_def rsi_score_def fdivide_def rat_ops_def upt_rec numeral_2_eq_2)
  then show ?thesis using rsi_is_between_0_and_100[OF r, of "200 / 3"] by simp
qed

end
