(* ===== verification/Urls.thy ===== *)
theory Urls
  imports Prelude
begin

text \<open>
  What the program uses of Python's \<open>urllib.parse\<close> on ASCII text: \<open>urlparse\<close> into scheme, network
  location, path, query and fragment, and percent encoding and decoding of a path.  \<open>bracketed_ok\<close>
  decides whether a bracketed host is an IP literal; no URL the program builds has brackets.
\<close>

record url =
  url_scheme :: string
  url_netloc :: string
  url_path :: string
  url_query :: string
  url_fragment :: string

definition code_of :: "char \<Rightarrow> nat" where
  "code_of c = of_char c"

definition is_letter :: "char \<Rightarrow> bool" where
  "is_letter c = (let n = code_of c in (65 \<le> n \<and> n \<le> 90) \<or> (97 \<le> n \<and> n \<le> 122))"

definition is_digit :: "char \<Rightarrow> bool" where
  "is_digit c = (48 \<le> code_of c \<and> code_of c \<le> 57)"

definition to_lower :: "char \<Rightarrow> char" where
  "to_lower c = (if 65 \<le> code_of c \<and> code_of c \<le> 90 then char_of (code_of c + 32) else c)"

definition scheme_char :: "char \<Rightarrow> bool" where
  "scheme_char c \<longleftrightarrow> is_letter c \<or> is_digit c \<or> c \<in> set ''+-.''"

text \<open>\<open>text.split(c, 1)\<close>: what is before the first \<open>c\<close>, and what is after it if there is one.\<close>

fun split_at :: "char \<Rightarrow> string \<Rightarrow> string \<times> string option" where
  "split_at c [] = ([], None)"
| "split_at c (x # xs) = (if x = c then ([], Some xs) else (let (a, b) = split_at c xs in (x # a, b)))"

text \<open>The control characters and blanks at the front and the tabs and line breaks anywhere are dropped.\<close>

definition clean_url :: "string \<Rightarrow> string" where
  "clean_url u = filter (\<lambda>c. code_of c \<notin> {9, 10, 13}) (dropWhile (\<lambda>c. code_of c \<le> 32) u)"

definition split_scheme :: "string \<Rightarrow> string \<times> string" where
  "split_scheme u = (case split_at (CHR '':'') u of
       (c # cs, Some rest) \<Rightarrow>
         if is_letter c \<and> list_all scheme_char (c # cs) then (map to_lower (c # cs), rest) else ([], u)
     | _ \<Rightarrow> ([], u))"

definition split_netloc :: "string \<Rightarrow> string \<times> string" where
  "split_netloc u =
     (if take 2 u = ''//''
      then (takeWhile (\<lambda>c. c \<notin> set ''/?#'') (drop 2 u), dropWhile (\<lambda>c. c \<notin> set ''/?#'') (drop 2 u))
      else ([], u))"

definition urlparse :: "(string \<Rightarrow> bool) \<Rightarrow> string \<Rightarrow> url result" where
  "urlparse bracketed_ok u =
     (let (scheme, rest) = split_scheme (clean_url u); (netloc, rest') = split_netloc rest;
          (before_fragment, fragment) = split_at (CHR ''#'') rest'; (path, query) = split_at (CHR ''?'') before_fragment;
          opening = CHR ''['' \<in> set netloc; closing = CHR '']'' \<in> set netloc
      in if opening \<noteq> closing \<or> opening \<and> \<not> bracketed_ok netloc then Inl (ValueError ''Invalid IPv6 URL'')
         else Inr \<lparr>url_scheme = scheme, url_netloc = netloc, url_path = path,
                   url_query = (case query of None \<Rightarrow> [] | Some q \<Rightarrow> q), url_fragment = (case fragment of None \<Rightarrow> [] | Some f \<Rightarrow> f)\<rparr>)"

section \<open>Percent encoding\<close>

definition unreserved :: "char \<Rightarrow> bool" where
  "unreserved c \<longleftrightarrow> is_letter c \<or> is_digit c \<or> c \<in> set ''_.-~''"

definition upper_hex :: "nat \<Rightarrow> char" where
  "upper_hex n = char_of (if n < 10 then 48 + n else 55 + n)"

text \<open>\<open>quote(text, safe)\<close>.\<close>

definition quote_url :: "string \<Rightarrow> string \<Rightarrow> string" where
  "quote_url s safe =
     concat (map (\<lambda>c. if unreserved c \<or> c \<in> set safe then [c] else [CHR ''%'', upper_hex (code_of c div 16), upper_hex (code_of c mod 16)]) s)"

definition hex_value :: "char \<Rightarrow> nat option" where
  "hex_value c = (let n = code_of c in
     if 48 \<le> n \<and> n \<le> 57 then Some (n - 48) else if 65 \<le> n \<and> n \<le> 70 then Some (n - 55)
     else if 97 \<le> n \<and> n \<le> 102 then Some (n - 87) else None)"

text \<open>\<open>unquote(text)\<close>: a per cent sign that starts no hexadecimal pair is kept.\<close>

fun unquote_url :: "string \<Rightarrow> string" where
  "unquote_url (c # a # b # cs) =
     (if c = CHR ''%'' then (case (hex_value a, hex_value b) of
          (Some x, Some y) \<Rightarrow> char_of (16 * x + y) # unquote_url cs
        | _ \<Rightarrow> c # unquote_url (a # b # cs))
      else c # unquote_url (a # b # cs))"
| "unquote_url cs = cs"

lemma quote_url_safe: "list_all (\<lambda>c. unreserved c \<or> c \<in> set safe) s \<Longrightarrow> quote_url s safe = s"
  by (induction s) (auto simp: quote_url_def)

lemma unquote_url_plain: "CHR ''%'' \<notin> set s \<Longrightarrow> unquote_url s = s"
  by (induction s rule: unquote_url.induct) auto

lemma split_at_absent: "c \<notin> set s \<Longrightarrow> split_at c s = (s, None)"
  by (induction s) auto

lemma split_at_present: "c \<notin> set s \<Longrightarrow> split_at c (s @ c # t) = (s, Some t)"
  by (induction s) auto

lemma clean_url_plain:
  "u = c # cs \<Longrightarrow> list_all (\<lambda>c. 32 < code_of c) u \<Longrightarrow> clean_url u = u"
  by (auto simp: clean_url_def list_all_iff intro!: filter_True)

text \<open>A URL built as \<open>scheme://netloc/path\<close> from plain parts is parsed into them.\<close>

lemma urlparse_built:
  assumes scheme: "scheme = c # cs" "is_letter c" "list_all scheme_char scheme" "map to_lower scheme = scheme"
    and plain: "list_all (\<lambda>c. 32 < code_of c) (scheme @ netloc @ path)"
    and netloc: "set netloc \<inter> set ''/?#[]'' = {}"
    and path: "set path \<inter> set ''?#'' = {}"
  shows "urlparse ok (scheme @ ''://'' @ netloc @ CHR ''/'' # path)
    = Inr \<lparr>url_scheme = scheme, url_netloc = netloc, url_path = CHR ''/'' # path, url_query = [], url_fragment = []\<rparr>"
proof -
  let ?u = "scheme @ ''://'' @ netloc @ CHR ''/'' # path"
  have "list_all (\<lambda>c. 32 < code_of c) ?u"
    using plain by (simp add: code_of_def)
  then have clean: "clean_url ?u = ?u"
    using scheme(1) by (intro clean_url_plain[of _ c]) auto
  have "CHR '':'' \<notin> set scheme"
  proof
    assume "CHR '':'' \<in> set scheme"
    then have "scheme_char (CHR '':'')" using scheme(3) by (auto simp: list_all_iff)
    then show False by (simp add: scheme_char_def is_letter_def is_digit_def code_of_def)
  qed
  then have "split_at (CHR '':'') ?u = (scheme, Some (''//'' @ netloc @ CHR ''/'' # path))"
    using split_at_present[of "CHR '':''" scheme] by simp
  then have "split_scheme ?u = (scheme, ''//'' @ netloc @ CHR ''/'' # path)"
    using scheme by (simp add: split_scheme_def)
  moreover have "split_netloc (''//'' @ netloc @ CHR ''/'' # path) = (netloc, CHR ''/'' # path)"
  proof -
    have "\<And>x. x \<in> set netloc \<Longrightarrow> x \<notin> set ''/?#''" using netloc by auto
    then show ?thesis by (simp add: split_netloc_def takeWhile_append2 dropWhile_append2)
  qed
  moreover have "split_at (CHR ''#'') (CHR ''/'' # path) = (CHR ''/'' # path, None)"
      "split_at (CHR ''?'') (CHR ''/'' # path) = (CHR ''/'' # path, None)"
    using path by (simp_all add: split_at_absent)
  moreover have "CHR ''['' \<notin> set netloc" "CHR '']'' \<notin> set netloc" using netloc by auto
  ultimately show ?thesis unfolding urlparse_def clean by (simp add: Let_def)
qed

end
