(* ===== verification/Model_Registry.thy ===== *)
theory Model_Registry
  imports Float_Ops Urls Write_Once
begin

text \<open>
  The model registry, the prediction log and the champion/challenger comparison
  (\<open>packages/machine_learning/persistence.py\<close>, \<open>selection.py\<close>).  The two tables are lists of rows in
  insertion order; identifiers generated by the database are arguments, and an insertion whose
  identifier is taken violates the primary key.  A metrics dict is an association list; \<open>fp\<close> is the
  digest of a prediction's canonical JSON document.
\<close>

section \<open>Models\<close>

datatype model_stage = CHALLENGER | CHAMPION | ARCHIVED

record 'f model_row =
  mr_id :: uuid
  mr_name :: string
  mr_version :: string
  mr_feature_version :: string
  mr_trained_at :: instant
  mr_artifact_uri :: string
  mr_artifact_sha256 :: string
  mr_stage :: model_stage
  mr_metrics :: "(string \<times> 'f number) list"

record 'f registered_model =
  rm_id :: uuid
  rm_name :: string
  rm_version :: string
  rm_feature_version :: string
  rm_trained_at :: instant
  rm_artifact_uri :: string
  rm_artifact_sha256 :: string
  rm_stage :: model_stage
  rm_metrics :: "(string \<times> 'f) list"

text \<open>The metadata a caller registers.\<close>

record 'f model_metadata =
  mm_name :: string
  mm_version :: string
  mm_feature_version :: string
  mm_trained_at :: datetime
  mm_artifact_uri :: string
  mm_artifact_sha256 :: string
  mm_metrics :: "(string \<times> 'f number) list"

definition domain_model :: "('f, 'm) float_ops_scheme \<Rightarrow> 'f model_row \<Rightarrow> 'f registered_model result" where
  "domain_model F r =
     rbind (rmap (\<lambda>(k, x). rbind (to_float F x) (\<lambda>v. Inr (k, v))) (mr_metrics r)) (\<lambda>metrics.
     Inr \<lparr>rm_id = mr_id r, rm_name = mr_name r, rm_version = mr_version r, rm_feature_version = mr_feature_version r,
          rm_trained_at = mr_trained_at r, rm_artifact_uri = mr_artifact_uri r, rm_artifact_sha256 = mr_artifact_sha256 r,
          rm_stage = mr_stage r, rm_metrics = metrics\<rparr>)"

definition approved_uri :: "url \<Rightarrow> bool" where
  "approved_uri u \<longleftrightarrow> url_scheme u \<in> {''file'', ''s3'', ''mlflow-artifacts''} \<and> (url_netloc u \<noteq> [] \<or> url_path u \<noteq> [])"

definition check_metrics :: "('f, 'm) float_ops_scheme \<Rightarrow> (string \<times> 'f number) list \<Rightarrow> unit result" where
  "check_metrics F metrics =
     rfold (\<lambda>_ (_, x). rbind (to_float F x) (\<lambda>v.
       if f_finite F v then Inr () else Inl (ValueError ''model metrics must be numeric''))) () metrics"

text \<open>The checks of \<open>register\<close> before it looks at the table.\<close>

definition check_metadata :: "('f, 'm) float_ops_scheme \<Rightarrow> (string \<Rightarrow> bool) \<Rightarrow> 'f model_metadata \<Rightarrow> unit result" where
  "check_metadata F bracketed_ok m =
     (if \<not> is_aware (mm_trained_at m) then Inl (ValueError ''model training timestamp must be timezone-aware'')
      else if blank (mm_name m) \<or> blank (mm_version m) \<or> blank (mm_feature_version m)
      then Inl (ValueError ''model name, version, and feature version are required'')
      else rbind (urlparse bracketed_ok (mm_artifact_uri m)) (\<lambda>parsed.
           if \<not> approved_uri parsed then Inl (ValueError ''model artifact URI must use an approved scheme'')
           else if \<not> sha256_hex (mm_artifact_sha256 m) then Inl (ValueError ''model artifact SHA-256 must be lowercase hexadecimal'')
           else check_metrics F (mm_metrics m)))"

text \<open>Python's \<open>==\<close> on numbers is exact, on dicts it compares the values of equal key sets.\<close>

definition number_eq :: "('f, 'm) float_ops_scheme \<Rightarrow> 'f \<Rightarrow> 'f number \<Rightarrow> bool" where
  "number_eq F x y = (case y of PyFloat v \<Rightarrow> f_eq F x v | PyInt n \<Rightarrow> f_finite F x \<and> f_to_rat F x = of_int n)"

definition same_metrics :: "('f, 'm) float_ops_scheme \<Rightarrow> (string \<times> 'f) list \<Rightarrow> (string \<times> 'f number) list \<Rightarrow> bool" where
  "same_metrics F xs ys \<longleftrightarrow> length xs = length ys
     \<and> list_all (\<lambda>(k, x). case map_of ys k of None \<Rightarrow> False | Some y \<Rightarrow> number_eq F x y) xs"

definition same_metadata :: "('f, 'm) float_ops_scheme \<Rightarrow> 'f registered_model \<Rightarrow> 'f model_metadata \<Rightarrow> bool" where
  "same_metadata F c m \<longleftrightarrow> rm_feature_version c = mm_feature_version m \<and> rm_trained_at c = instant_of (mm_trained_at m)
     \<and> rm_artifact_uri c = mm_artifact_uri m \<and> rm_artifact_sha256 c = mm_artifact_sha256 m
     \<and> same_metrics F (rm_metrics c) (mm_metrics m)"

definition find_version :: "'f model_row list \<Rightarrow> string \<times> string \<Rightarrow> 'f model_row option" where
  "find_version db k = List.find (\<lambda>r. (mr_name r, mr_version r) = k) db"

definition challenger_row :: "uuid \<Rightarrow> 'f model_metadata \<Rightarrow> 'f model_row" where
  "challenger_row fresh m =
     \<lparr>mr_id = fresh, mr_name = mm_name m, mr_version = mm_version m, mr_feature_version = mm_feature_version m,
      mr_trained_at = instant_of (mm_trained_at m), mr_artifact_uri = mm_artifact_uri m,
      mr_artifact_sha256 = mm_artifact_sha256 m, mr_stage = CHALLENGER, mr_metrics = mm_metrics m\<rparr>"

definition register_model ::
  "('f, 'm) float_ops_scheme \<Rightarrow> (string \<Rightarrow> bool) \<Rightarrow> uuid \<Rightarrow> 'f model_row list \<Rightarrow> 'f model_metadata
     \<Rightarrow> ('f model_row list \<times> 'f registered_model) result" where
  "register_model F bracketed_ok fresh db m =
     rbind (check_metadata F bracketed_ok m) (\<lambda>_.
       case find_version db (mm_name m, mm_version m) of
         Some existing \<Rightarrow>
           rbind (domain_model F existing) (\<lambda>candidate.
             if \<not> same_metadata F candidate m then Inl (ValueError ''model version already exists with different metadata'')
             else Inr (db, candidate))
       | None \<Rightarrow>
           if fresh \<in> mr_id ` set db then Inl (RuntimeError ''primary key violation'')
           else rbind (domain_model F (challenger_row fresh m)) (\<lambda>model. Inr (db @ [challenger_row fresh m], model)))"

text \<open>The bulk update of the other champions of the family, then the promoted row.\<close>

definition promoted_stage :: "string \<Rightarrow> uuid \<Rightarrow> 'f model_row \<Rightarrow> 'f model_row" where
  "promoted_stage name k r =
     (if mr_id r = k then r\<lparr>mr_stage := CHAMPION\<rparr>
      else if mr_name r = name \<and> mr_stage r = CHAMPION then r\<lparr>mr_stage := ARCHIVED\<rparr> else r)"

definition promote_model :: "('f, 'm) float_ops_scheme \<Rightarrow> 'f model_row list \<Rightarrow> uuid \<Rightarrow> ('f model_row list \<times> 'f registered_model) result" where
  "promote_model F db k = (case List.find (\<lambda>r. mr_id r = k) db of
       None \<Rightarrow> Inl (ValueError ''model version does not exist'')
     | Some row \<Rightarrow>
         rbind (domain_model F (row\<lparr>mr_stage := CHAMPION\<rparr>)) (\<lambda>model. Inr (map (promoted_stage (mr_name row) k) db, model)))"

datatype 'f registry_op = RegisterModel uuid "'f model_metadata" | PromoteModel uuid

fun registry_run :: "('f, 'm) float_ops_scheme \<Rightarrow> (string \<Rightarrow> bool) \<Rightarrow> 'f registry_op \<Rightarrow> 'f model_row list \<Rightarrow> 'f model_row list result" where
  "registry_run F ok (RegisterModel fresh m) db = rbind (register_model F ok fresh db m) (\<lambda>(db', _). Inr db')"
| "registry_run F ok (PromoteModel k) db = rbind (promote_model F db k) (\<lambda>(db', _). Inr db')"

definition registry_exec :: "('f, 'm) float_ops_scheme \<Rightarrow> (string \<Rightarrow> bool) \<Rightarrow> 'f model_row list \<Rightarrow> 'f registry_op \<Rightarrow> 'f model_row list" where
  "registry_exec F ok db op = keep_on_raise (registry_run F ok op) db"

section \<open>Comparison\<close>

datatype metric_direction = HIGHER_IS_BETTER | LOWER_IS_BETTER

record 'f metric_guardrail =
  mg_metric :: string
  mg_direction :: metric_direction
  mg_maximum_regression :: 'f

definition make_metric_guardrail :: "('f, 'm) float_ops_scheme \<Rightarrow> 'f metric_guardrail \<Rightarrow> 'f metric_guardrail result" where
  "make_metric_guardrail F g =
     (if blank (mg_metric g) \<or> \<not> f_finite F (mg_maximum_regression g) \<or> f_less F (mg_maximum_regression g) (f_of_int F 0)
      then Inl (ValueError ''guardrail metric is required and regression must be finite and non-negative'') else Inr g)"

record 'f comparison_policy =
  mp_primary_metric :: string
  mp_primary_direction :: metric_direction
  mp_minimum_improvement :: 'f
  mp_guardrails :: "'f metric_guardrail list"

definition make_comparison_policy :: "('f, 'm) float_ops_scheme \<Rightarrow> 'f comparison_policy \<Rightarrow> 'f comparison_policy result" where
  "make_comparison_policy F p =
     (if blank (mp_primary_metric p) \<or> \<not> f_finite F (mp_minimum_improvement p)
      then Inl (ValueError ''primary metric and finite improvement are required'')
      else if f_less F (mp_minimum_improvement p) (f_of_int F 0) then Inl (ValueError ''minimum improvement cannot be negative'')
      else if \<not> distinct (map mg_metric (mp_guardrails p)) \<or> mp_primary_metric p \<in> set (map mg_metric (mp_guardrails p))
      then Inl (ValueError ''guardrail metrics must be unique and distinct from the primary metric'')
      else Inr p)"

record 'f model_comparison =
  mc_challenger_accepted :: bool
  mc_primary_improvement :: 'f
  mc_reason_codes :: "string list"

definition improvement :: "('f, 'm) float_ops_scheme \<Rightarrow> 'f \<Rightarrow> 'f \<Rightarrow> metric_direction \<Rightarrow> 'f" where
  "improvement F champion challenger d =
     (case d of HIGHER_IS_BETTER \<Rightarrow> f_sub F challenger champion | LOWER_IS_BETTER \<Rightarrow> f_sub F champion challenger)"

definition metric_of :: "'f registered_model \<Rightarrow> string \<Rightarrow> 'f option" where
  "metric_of m k = map_of (rm_metrics m) k"

definition metric_improvement :: "('f, 'm) float_ops_scheme \<Rightarrow> 'f registered_model \<Rightarrow> 'f registered_model \<Rightarrow> string \<Rightarrow> metric_direction \<Rightarrow> 'f" where
  "metric_improvement F champion challenger k d = improvement F (the (metric_of champion k)) (the (metric_of challenger k)) d"

definition required_metrics :: "'f comparison_policy \<Rightarrow> string list" where
  "required_metrics p = mp_primary_metric p # map mg_metric (mp_guardrails p)"

definition missing_metrics :: "'f comparison_policy \<Rightarrow> 'f registered_model \<Rightarrow> 'f registered_model \<Rightarrow> string list" where
  "missing_metrics p champion challenger =
     sorted_texts (filter (\<lambda>k. metric_of champion k = None \<or> metric_of challenger k = None) (required_metrics p))"

definition guardrail_reasons :: "('f, 'm) float_ops_scheme \<Rightarrow> 'f registered_model \<Rightarrow> 'f registered_model \<Rightarrow> 'f comparison_policy \<Rightarrow> string list" where
  "guardrail_reasons F champion challenger p =
     map (\<lambda>g. ''GUARDRAIL_REGRESSION:'' @ mg_metric g)
       (filter (\<lambda>g. f_less F (metric_improvement F champion challenger (mg_metric g) (mg_direction g)) (f_neg F (mg_maximum_regression g)))
         (mp_guardrails p))"

definition compare_models ::
  "('f, 'm) float_ops_scheme \<Rightarrow> 'f registered_model \<Rightarrow> 'f registered_model \<Rightarrow> 'f comparison_policy \<Rightarrow> 'f model_comparison result" where
  "compare_models F champion challenger p =
     (if rm_name champion \<noteq> rm_name challenger then Inl (ValueError ''champion and challenger must belong to the same model family'')
      else if rm_feature_version champion \<noteq> rm_feature_version challenger
      then Inl (ValueError ''champion and challenger feature versions must match'')
      else if missing_metrics p champion challenger \<noteq> []
      then Inl (ValueError (''comparison metrics are missing: '' @ join '', '' (missing_metrics p champion challenger)))
      else if list_ex (\<lambda>k. \<not> f_finite F (the (metric_of champion k)) \<or> \<not> f_finite F (the (metric_of challenger k))) (required_metrics p)
      then Inl (ValueError ''comparison metrics must be finite'')
      else
        let primary = metric_improvement F champion challenger (mp_primary_metric p) (mp_primary_direction p);
            reasons = (if f_less F primary (mp_minimum_improvement p) then [''PRIMARY_IMPROVEMENT_BELOW_THRESHOLD''] else [])
                      @ guardrail_reasons F champion challenger p
        in Inr \<lparr>mc_challenger_accepted = (reasons = []), mc_primary_improvement = primary,
                mc_reason_codes = (if reasons = [] then [''CHALLENGER_ACCEPTED''] else reasons)\<rparr>)"

section \<open>Prediction log\<close>

text \<open>A prediction and an observation, from \<open>baseline.py\<close>.\<close>

record 'f model_prediction =
  mpr_predicted_at :: datetime
  mpr_probability :: 'f
  mpr_model_version :: string
  mpr_feature_version :: string
  mpr_prediction_id :: uuid

record 'f feature_observation =
  fo_available_at :: datetime
  fo_values :: "(string \<times> 'f) list"
  fo_label :: "int option"

record 'f prediction_inputs =
  fpi_values :: "(string \<times> 'f) list"
  fpi_available_at :: datetime
  fpi_model_id :: uuid
  fpi_instrument_id :: uuid
  fpi_snapshot :: string
  fpi_probability :: 'f
  fpi_predicted_at :: datetime
  fpi_feature_version :: string

record prediction_row =
  pw_id :: uuid
  pw_model_id :: uuid
  pw_instrument_id :: uuid
  pw_predicted_at :: instant
  pw_probability :: rat
  pw_feature_version :: string
  pw_data_snapshot_id :: string
  pw_input_fingerprint :: string

definition prediction_inputs_of ::
  "'f model_prediction \<Rightarrow> 'f feature_observation \<Rightarrow> uuid \<Rightarrow> uuid \<Rightarrow> string \<Rightarrow> 'f prediction_inputs" where
  "prediction_inputs_of p o' model_id instrument_id snapshot =
     \<lparr>fpi_values = fo_values o', fpi_available_at = fo_available_at o', fpi_model_id = model_id, fpi_instrument_id = instrument_id,
      fpi_snapshot = snapshot, fpi_probability = mpr_probability p, fpi_predicted_at = mpr_predicted_at p,
      fpi_feature_version = mpr_feature_version p\<rparr>"

definition find_prediction :: "prediction_row list \<Rightarrow> uuid \<Rightarrow> prediction_row option" where
  "find_prediction db k = List.find (\<lambda>r. pw_id r = k) db"

text \<open>\<open>column\<close> is the rounding of \<open>Numeric(18, 12)\<close>; \<open>Decimal(str(x))\<close> is the decimal Python prints for x.\<close>

definition prediction_row_of ::
  "('f \<Rightarrow> rat) \<Rightarrow> ('f prediction_inputs \<Rightarrow> string) \<Rightarrow> 'f model_prediction \<Rightarrow> 'f feature_observation \<Rightarrow> uuid \<Rightarrow> uuid \<Rightarrow> string \<Rightarrow> prediction_row" where
  "prediction_row_of column fp p o' model_id instrument_id snapshot =
     \<lparr>pw_id = mpr_prediction_id p, pw_model_id = model_id, pw_instrument_id = instrument_id, pw_predicted_at = instant_of (mpr_predicted_at p),
      pw_probability = column (mpr_probability p), pw_feature_version = mpr_feature_version p, pw_data_snapshot_id = snapshot,
      pw_input_fingerprint = fp (prediction_inputs_of p o' model_id instrument_id snapshot)\<rparr>"

definition log_prediction ::
  "('f \<Rightarrow> rat) \<Rightarrow> ('f prediction_inputs \<Rightarrow> string) \<Rightarrow> prediction_row list \<Rightarrow> 'f model_prediction \<Rightarrow> 'f feature_observation \<Rightarrow> uuid \<Rightarrow> uuid
     \<Rightarrow> string \<Rightarrow> prediction_row list result" where
  "log_prediction column fp db p o' model_id instrument_id snapshot =
     (if instant_of (fo_available_at o') > instant_of (mpr_predicted_at p)
      then Inl (ValueError ''prediction log contains future feature evidence'')
      else if blank snapshot then Inl (ValueError ''prediction data snapshot ID is required'')
      else case find_prediction db (mpr_prediction_id p) of
          Some existing \<Rightarrow>
            if pw_input_fingerprint existing \<noteq> fp (prediction_inputs_of p o' model_id instrument_id snapshot)
            then Inl (ValueError ''prediction ID already exists for different inputs'') else Inr db
        | None \<Rightarrow> Inr (db @ [prediction_row_of column fp p o' model_id instrument_id snapshot]))"

end
