(* ===== verification/Model_Registry_Laws.thy ===== *)
theory Model_Registry_Laws
  imports Model_Registry
begin

text \<open>
  What the registry promises: a version's metadata is written once and its registration is
  idempotent, a model family has at most one champion, the prediction log is idempotent, and the
  comparison accepts exactly the challengers that pass every threshold.
\<close>

section \<open>The rows of the registry\<close>

lemma domain_model_stage: "domain_model F (r\<lparr>mr_stage := s\<rparr>) = rbind (domain_model F r) (\<lambda>m. Inr (m\<lparr>rm_stage := s\<rparr>))"
  by (simp add: domain_model_def rbind_assoc)

lemma register_model_cases:
  assumes "register_model F ok fresh db m = Inr (db', model)"
  obtains (known) existing where "find_version db (mm_name m, mm_version m) = Some existing" "db' = db"
      "domain_model F existing = Inr model" "same_metadata F model m"
  | (new) "find_version db (mm_name m, mm_version m) = None" "fresh \<notin> mr_id ` set db"
      "db' = db @ [challenger_row fresh m]" "domain_model F (challenger_row fresh m) = Inr model"
  using assms by (auto simp: register_model_def rbind_eq_Inr split: option.splits if_splits)

lemma promote_model_cases:
  assumes "promote_model F db k = Inr (db', model)"
  obtains row where "row \<in> set db" "mr_id row = k" "db' = map (promoted_stage (mr_name row) k) db"
    "domain_model F (row\<lparr>mr_stage := CHAMPION\<rparr>) = Inr model"
  using assms by (auto simp: promote_model_def rbind_eq_Inr dest: find_Some_in split: option.splits)

lemma promoted_stage_simps [simp]:
  "mr_id (promoted_stage n k r) = mr_id r" "mr_name (promoted_stage n k r) = mr_name r"
  "mr_version (promoted_stage n k r) = mr_version r"
  by (simp_all add: promoted_stage_def)

text \<open>The stage of a row may change, nothing else does.\<close>

definition version_row :: "'f model_row list \<Rightarrow> string \<times> string \<Rightarrow> 'f model_row option" where
  "version_row db k = map_option (\<lambda>r. r\<lparr>mr_stage := CHALLENGER\<rparr>) (find_version db k)"

lemma find_version_promoted: "find_version (map (promoted_stage n k) db) v = map_option (promoted_stage n k) (find_version db v)"
  by (induction db) (auto simp: find_version_def)

lemma promoted_stage_masked [simp]: "(promoted_stage n k r)\<lparr>mr_stage := s\<rparr> = r\<lparr>mr_stage := s\<rparr>"
  by (simp add: promoted_stage_def)

lemma version_row_promoted [simp]: "version_row (map (promoted_stage n k) db) v = version_row db v"
  by (simp add: version_row_def find_version_promoted option.map_comp comp_def)

lemma registry_exec_keeps: "version_row db v = Some r \<Longrightarrow> version_row (registry_exec F ok db op) v = Some r"
proof (cases "registry_run F ok op db")
  case (Inr db')
  assume r: "version_row db v = Some r"
  have "version_row db' v = Some r"
  proof (cases op)
    case (RegisterModel fresh m)
    with Inr obtain model where "register_model F ok fresh db m = Inr (db', model)" by (auto simp: rbind_eq_Inr)
    then show ?thesis
      using r by (cases rule: register_model_cases) (auto simp: version_row_def find_version_def find_append)
  next
    case (PromoteModel k)
    with Inr obtain model where "promote_model F db k = Inr (db', model)" by (auto simp: rbind_eq_Inr)
    then show ?thesis
      using r by (cases rule: promote_model_cases) simp
  qed
  with Inr show ?thesis by (simp add: registry_exec_def keep_on_raise_def)
qed (simp add: registry_exec_def keep_on_raise_def)

interpretation model_versions: write_once version_row "registry_exec F ok"
  by unfold_locales (rule registry_exec_keeps)

section \<open>One champion per family\<close>

definition registry_ok :: "'f model_row list \<Rightarrow> bool" where
  "registry_ok db \<longleftrightarrow> distinct (map mr_id db) \<and> distinct (map (\<lambda>r. (mr_name r, mr_version r)) db)
     \<and> (\<forall>a \<in> set db. \<forall>b \<in> set db. mr_name a = mr_name b \<and> mr_stage a = CHAMPION \<and> mr_stage b = CHAMPION \<longrightarrow> a = b)"

lemma find_version_None: "find_version db (n, v) = None \<Longrightarrow> (n, v) \<notin> (\<lambda>r. (mr_name r, mr_version r)) ` set db"
  by (force simp: find_version_def find_None_iff)

lemma register_keeps_registry_ok:
  assumes "registry_ok db" and "register_model F ok fresh db m = Inr (db', model)"
  shows "registry_ok db'"
  using assms(2)
proof (cases rule: register_model_cases)
  case new
  then show ?thesis
    using assms(1) find_version_None[OF new(1)] by (auto simp: registry_ok_def challenger_row_def)
qed (use assms(1) in simp)

lemma promote_keeps_registry_ok:
  assumes "registry_ok db" and "promote_model F db k = Inr (db', model)"
  shows "registry_ok db'"
  using assms(2)
proof (cases rule: promote_model_cases)
  case (1 row)
  let ?p = "promoted_stage (mr_name row) k"
  have ids: "distinct (map mr_id db)" using assms(1) by (simp add: registry_ok_def)
  have "a = b" if "a \<in> set db" "b \<in> set db" "mr_name a = mr_name b" "mr_stage (?p a) = CHAMPION" "mr_stage (?p b) = CHAMPION" for a b
  proof (cases "mr_name a = mr_name row")
    case True
    then have "mr_id a = k" "mr_id b = k" using that by (auto simp: promoted_stage_def split: if_splits)
    then show ?thesis using distinct_map_filter_unique[OF ids that(1,2)] by simp
  next
    case False
    then have "mr_id a \<noteq> k" "mr_id b \<noteq> k"
      using that(1,2,3) 1(1,2) distinct_map_filter_unique[OF ids] by metis+
    then show ?thesis
      using that False assms(1) by (auto simp: registry_ok_def promoted_stage_def split: if_splits)
  qed
  then show ?thesis using assms(1) 1(3) by (auto simp: registry_ok_def comp_def)
qed

lemma registry_run_ok [inv_rules]:
  "registry_ok db \<Longrightarrow> registry_ok (registry_exec F ok db op)"
  by (cases op; cases "registry_run F ok op db")
    (auto simp: registry_exec_def keep_on_raise_def rbind_eq_Inr intro: register_keeps_registry_ok promote_keeps_registry_ok)

lemma registry_runs_ok: "registry_ok db \<Longrightarrow> registry_ok (foldl (registry_exec F ok) db ops)"
  by (induction ops arbitrary: db) (auto intro: registry_run_ok)

lemma registry_history_ok: "registry_ok (foldl (registry_exec F ok) [] ops)"
  by (rule registry_runs_ok) (simp add: registry_ok_def)

text \<open>C22: After any history of registrations and promotions, failed ones included, identifiers and (name, version)
  pairs are unique and a model family has at most one champion.  A promotion of a stored model makes it the champion,
  archives the former champion of its family and leaves every other row, and every other field, as it was.\<close>

theorem a_family_has_one_champion:
  assumes "db = foldl (registry_exec F ok) [] ops"
  shows "registry_ok db
    \<and> (\<forall>k db' model. promote_model F db k = Inr (db', model) \<longrightarrow>
         rm_id model = k \<and> rm_stage model = CHAMPION
         \<and> (\<forall>r \<in> set db'. mr_name r = rm_name model \<longrightarrow> (mr_stage r = CHAMPION \<longleftrightarrow> mr_id r = k))
         \<and> db' = map (\<lambda>r. if mr_id r = k then r\<lparr>mr_stage := CHAMPION\<rparr>
                          else if mr_name r = rm_name model \<and> mr_stage r = CHAMPION then r\<lparr>mr_stage := ARCHIVED\<rparr> else r) db)"
proof (intro conjI allI impI)
  show "registry_ok db" using assms registry_history_ok by simp
  fix k db' model
  assume "promote_model F db k = Inr (db', model)"
  then show "rm_id model = k" "rm_stage model = CHAMPION"
    "\<forall>r \<in> set db'. mr_name r = rm_name model \<longrightarrow> (mr_stage r = CHAMPION \<longleftrightarrow> mr_id r = k)"
    "db' = map (\<lambda>r. if mr_id r = k then r\<lparr>mr_stage := CHAMPION\<rparr>
                    else if mr_name r = rm_name model \<and> mr_stage r = CHAMPION then r\<lparr>mr_stage := ARCHIVED\<rparr> else r) db"
    by (cases rule: promote_model_cases; auto simp: domain_model_def rbind_eq_Inr promoted_stage_def split: if_splits)+
qed

definition sample_metadata :: "string \<Rightarrow> rat model_metadata" where
  "sample_metadata v =
     \<lparr>mm_name = ''trend'', mm_version = v, mm_feature_version = ''f1'', mm_trained_at = Aware 5, mm_artifact_uri = ''file:///m'',
      mm_artifact_sha256 = replicate 64 (CHR ''0''), mm_metrics = [(''auc'', PyFloat 1)]\<rparr>"

lemma sample_metadata_ok: "\<not> blank v \<Longrightarrow> check_metadata rat_ops ok (sample_metadata v) = Inr ()"
  by (simp add: check_metadata_def sample_metadata_def blank_def is_space_def urlparse_def split_scheme_def split_netloc_def
      clean_url_def code_of_def is_letter_def is_digit_def scheme_char_def to_lower_def Let_def approved_uri_def sha256_hex_def
      hex_digit_def check_metrics_def to_float_def rat_ops_def numeral_eq_Suc)

theorem a_family_has_one_champion_witness:
  "registry_ok (foldl (registry_exec rat_ops (\<lambda>_. False)) [] [RegisterModel 1 (sample_metadata ''v1''), RegisterModel 2 (sample_metadata ''v2''), PromoteModel 1, PromoteModel 2])
   \<and> map mr_stage (foldl (registry_exec rat_ops (\<lambda>_. False)) [] [RegisterModel 1 (sample_metadata ''v1''), RegisterModel 2 (sample_metadata ''v2''), PromoteModel 1, PromoteModel 2])
      = [ARCHIVED, CHAMPION]"
proof -
  let ?ops = "[RegisterModel 1 (sample_metadata ''v1''), RegisterModel 2 (sample_metadata ''v2''), PromoteModel 1, PromoteModel 2]"
  have b: "\<not> blank ''v1''" "\<not> blank ''v2''" by (simp_all add: blank_def is_space_def)
  have "map mr_stage (foldl (registry_exec rat_ops (\<lambda>_. False)) [] ?ops) = [ARCHIVED, CHAMPION]"
    using sample_metadata_ok[OF b(1)] sample_metadata_ok[OF b(2)]
    by (simp add: registry_exec_def keep_on_raise_def register_model_def promote_model_def find_version_def challenger_row_def
        domain_model_def sample_metadata_def to_float_def promoted_stage_def)
  then show ?thesis using a_family_has_one_champion[of "foldl (registry_exec rat_ops (\<lambda>_. False)) [] ?ops" rat_ops "\<lambda>_. False" ?ops] by simp
qed

text \<open>A version's metadata is written once.  After a registration and any later registrations and promotions,
  registering the same metadata again (with metrics whose values survive the conversion to floats) changes nothing and
  returns the same model up to its current stage; registering other metadata under that name and version raises.\<close>

theorem registration_is_write_once:
  assumes "register_model F ok fresh db m = Inr (db1, model)" and "find_version db (mm_name m, mm_version m) = None"
    and "db2 = foldl (registry_exec F ok) db1 ops" and "same_metrics F (rm_metrics model) (mm_metrics m)"
  shows "\<exists>s. register_model F ok fresh' db2 m = Inr (db2, model\<lparr>rm_stage := s\<rparr>)
    \<and> (\<forall>m'. mm_name m' = mm_name m \<and> mm_version m' = mm_version m \<and> \<not> same_metadata F model m'
          \<longrightarrow> (\<exists>e. register_model F ok fresh' db2 m' = Inl e))"
  using assms(1)
proof (cases rule: register_model_cases)
  case (known existing)
  then show ?thesis using assms(2) by simp
next
  case new
  have checked: "check_metadata F ok m = Inr ()"
    using assms(1) by (auto simp: register_model_def rbind_eq_Inr)
  have "version_row db1 (mm_name m, mm_version m) = Some (challenger_row fresh m)"
    using new by (auto simp: version_row_def find_version_def find_append challenger_row_def)
  then have "version_row db2 (mm_name m, mm_version m) = Some (challenger_row fresh m)"
    unfolding assms(3) by (rule model_versions.run_keeps)
  then obtain r where r: "find_version db2 (mm_name m, mm_version m) = Some r" "r\<lparr>mr_stage := CHALLENGER\<rparr> = challenger_row fresh m"
    by (auto simp: version_row_def)
  then have "r = (challenger_row fresh m)\<lparr>mr_stage := mr_stage r\<rparr>"
    by (metis model_row.surjective model_row.update_convs(8))
  then have dom: "domain_model F r = Inr (model\<lparr>rm_stage := mr_stage r\<rparr>)"
    using domain_model_stage[where F = F and r = "challenger_row fresh m" and s = "mr_stage r"] new(4) by simp
  have "same_metadata F (model\<lparr>rm_stage := mr_stage r\<rparr>) m"
    using new(4) assms(4) by (auto simp: same_metadata_def domain_model_def rbind_eq_Inr challenger_row_def)
  then have same: "register_model F ok fresh' db2 m = Inr (db2, model\<lparr>rm_stage := mr_stage r\<rparr>)"
    using checked r(1) dom by (simp add: register_model_def)
  have "\<exists>e. register_model F ok fresh' db2 m' = Inl e"
    if "mm_name m' = mm_name m" "mm_version m' = mm_version m" "\<not> same_metadata F model m'" for m'
    using that r(1) dom by (cases "check_metadata F ok m'") (auto simp: register_model_def same_metadata_def)
  with same show ?thesis by blast
qed

theorem registration_is_write_once_witness:
  "\<exists>db1 model s. register_model rat_ops (\<lambda>_. False) 1 [] (sample_metadata ''v1'') = Inr (db1, model)
     \<and> register_model rat_ops (\<lambda>_. False) 2 (registry_exec rat_ops (\<lambda>_. False) db1 (PromoteModel 1)) (sample_metadata ''v1'')
       = Inr (registry_exec rat_ops (\<lambda>_. False) db1 (PromoteModel 1), model\<lparr>rm_stage := s\<rparr>)"
proof -
  have b: "\<not> blank ''v1''" by (simp add: blank_def is_space_def)
  obtain db1 model where one: "register_model rat_ops (\<lambda>_. False) 1 [] (sample_metadata ''v1'') = Inr (db1, model)" "rm_metrics model = [(''auc'', 1)]"
    using sample_metadata_ok[OF b, of "\<lambda>_. False"]
    by (simp add: register_model_def find_version_def domain_model_def challenger_row_def sample_metadata_def to_float_def)
  have "find_version [] (mm_name (sample_metadata ''v1''), mm_version (sample_metadata ''v1'')) = None"
    by (simp add: find_version_def)
  from registration_is_write_once[OF one(1) this, of "registry_exec rat_ops (\<lambda>_. False) db1 (PromoteModel 1)" "[PromoteModel 1]" 2] one
  show ?thesis by (auto simp: same_metrics_def number_eq_def sample_metadata_def rat_ops_def)
qed

section \<open>The comparison\<close>

text \<open>A comparison that returns accepts the challenger exactly when both models are of one family and feature version,
  every required metric is there and finite, the primary metric improves by at least the required amount and no guardrail
  metric regresses by more than its limit.\<close>

theorem challenger_accepted_iff_every_threshold_holds:
  assumes "compare_models F champion challenger p = Inr c"
  shows "(mc_challenger_accepted c \<longleftrightarrow>
      \<not> f_less F (metric_improvement F champion challenger (mp_primary_metric p) (mp_primary_direction p)) (mp_minimum_improvement p)
      \<and> (\<forall>g \<in> set (mp_guardrails p). \<not> f_less F (metric_improvement F champion challenger (mg_metric g) (mg_direction g)) (f_neg F (mg_maximum_regression g))))
    \<and> rm_name champion = rm_name challenger \<and> rm_feature_version champion = rm_feature_version challenger
    \<and> (\<forall>k \<in> set (required_metrics p). \<exists>x y. metric_of champion k = Some x \<and> metric_of challenger k = Some y \<and> f_finite F x \<and> f_finite F y)"
proof -
  have c: "mc_challenger_accepted c \<longleftrightarrow>
      (if f_less F (metric_improvement F champion challenger (mp_primary_metric p) (mp_primary_direction p)) (mp_minimum_improvement p)
       then [''PRIMARY_IMPROVEMENT_BELOW_THRESHOLD''] else []) @ guardrail_reasons F champion challenger p = []"
    and guards: "rm_name champion = rm_name challenger" "rm_feature_version champion = rm_feature_version challenger"
      "missing_metrics p champion challenger = []"
      "\<not> list_ex (\<lambda>k. \<not> f_finite F (the (metric_of champion k)) \<or> \<not> f_finite F (the (metric_of challenger k))) (required_metrics p)"
    using assms by (auto simp: compare_models_def Let_def split: if_splits)
  have "mc_challenger_accepted c \<longleftrightarrow>
    \<not> f_less F (metric_improvement F champion challenger (mp_primary_metric p) (mp_primary_direction p)) (mp_minimum_improvement p)
    \<and> (\<forall>g \<in> set (mp_guardrails p). \<not> f_less F (metric_improvement F champion challenger (mg_metric g) (mg_direction g)) (f_neg F (mg_maximum_regression g)))"
    unfolding c by (auto simp: guardrail_reasons_def filter_empty_conv)
  moreover have "\<forall>k \<in> set (required_metrics p). \<exists>x y. metric_of champion k = Some x \<and> metric_of challenger k = Some y \<and> f_finite F x \<and> f_finite F y"
    using guards(3,4) by (fastforce simp: missing_metrics_def filter_empty_conv list_ex_iff)
  ultimately show ?thesis using guards(1,2) by blast
qed

definition sample_model :: "rat \<Rightarrow> rat \<Rightarrow> rat registered_model" where
  "sample_model auc brier =
     \<lparr>rm_id = 1, rm_name = ''trend'', rm_version = ''v1'', rm_feature_version = ''f1'', rm_trained_at = 5, rm_artifact_uri = ''file:///m'',
      rm_artifact_sha256 = [], rm_stage = CHALLENGER, rm_metrics = [(''auc'', auc), (''brier'', brier)]\<rparr>"

definition sample_policy :: "rat comparison_policy" where
  "sample_policy =
     \<lparr>mp_primary_metric = ''auc'', mp_primary_direction = HIGHER_IS_BETTER, mp_minimum_improvement = 1,
      mp_guardrails = [\<lparr>mg_metric = ''brier'', mg_direction = LOWER_IS_BETTER, mg_maximum_regression = 1\<rparr>]\<rparr>"

theorem challenger_accepted_iff_every_threshold_holds_witness:
  "compare_models rat_ops (sample_model 3 2) (sample_model 5 3) sample_policy
     = Inr \<lparr>mc_challenger_accepted = True, mc_primary_improvement = 2, mc_reason_codes = [''CHALLENGER_ACCEPTED'']\<rparr>
   \<and> \<not> metric_improvement rat_ops (sample_model 3 2) (sample_model 5 3) ''auc'' HIGHER_IS_BETTER < 1"
proof -
  let ?c = "\<lparr>mc_challenger_accepted = True, mc_primary_improvement = 2, mc_reason_codes = [''CHALLENGER_ACCEPTED'']\<rparr>"
  have "compare_models rat_ops (sample_model 3 2) (sample_model 5 3) sample_policy = Inr ?c"
    by (simp add: compare_models_def sample_model_def sample_policy_def missing_metrics_def required_metrics_def metric_of_def
        metric_improvement_def improvement_def guardrail_reasons_def rat_ops_def Let_def)
  from challenger_accepted_iff_every_threshold_holds[OF this] this show ?thesis
    by (simp add: sample_policy_def rat_ops_def)
qed

section \<open>The prediction log\<close>

lemma log_prediction_cases:
  assumes "log_prediction column fp db p o' model_id instrument_id snapshot = Inr db'"
  obtains (known) existing where "find_prediction db (mpr_prediction_id p) = Some existing" "db' = db"
      "pw_input_fingerprint existing = fp (prediction_inputs_of p o' model_id instrument_id snapshot)"
  | (new) "find_prediction db (mpr_prediction_id p) = None" "db' = db @ [prediction_row_of column fp p o' model_id instrument_id snapshot]"
  using assms by (auto simp: log_prediction_def split: if_splits option.splits)

datatype 'f prediction_op = LogPrediction "'f model_prediction" "'f feature_observation" uuid uuid string

fun prediction_run :: "('f \<Rightarrow> rat) \<Rightarrow> ('f prediction_inputs \<Rightarrow> string) \<Rightarrow> 'f prediction_op \<Rightarrow> prediction_row list \<Rightarrow> prediction_row list result" where
  "prediction_run column fp (LogPrediction p o' m i s) db = log_prediction column fp db p o' m i s"

definition prediction_exec :: "('f \<Rightarrow> rat) \<Rightarrow> ('f prediction_inputs \<Rightarrow> string) \<Rightarrow> prediction_row list \<Rightarrow> 'f prediction_op \<Rightarrow> prediction_row list" where
  "prediction_exec column fp db op = keep_on_raise (prediction_run column fp op) db"

interpretation predictions: write_once find_prediction "prediction_exec (column :: 'a \<Rightarrow> rat) fp"
proof
  fix db k r and op :: "'a prediction_op"
  assume r: "find_prediction db k = Some r"
  obtain p o' m i s where op: "op = LogPrediction p o' m i s" by (cases op)
  show "find_prediction (prediction_exec column fp db op) k = Some r"
  proof (cases "prediction_run column fp op db")
    case (Inr db')
    then have "log_prediction column fp db p o' m i s = Inr db'" by (simp add: op)
    then have "find_prediction db' k = Some r"
      using r by (cases rule: log_prediction_cases) (auto simp: find_prediction_def find_append)
    with Inr show ?thesis by (simp add: prediction_exec_def keep_on_raise_def)
  qed (use r in \<open>simp add: prediction_exec_def keep_on_raise_def\<close>)
qed

text \<open>The prediction log is idempotent and never rewrites evidence.  A logged prediction used no feature that was not
  available when it was made; after any later log calls its row is still there, logging the same inputs again changes
  nothing, and logging other inputs under its identifier raises.\<close>

theorem prediction_log_is_write_once:
  assumes "log_prediction column fp db p o' model_id instrument_id snapshot = Inr db1"
    and "find_prediction db (mpr_prediction_id p) = None" and "db2 = foldl (prediction_exec column fp) db1 ops"
  shows "instant_of (fo_available_at o') \<le> instant_of (mpr_predicted_at p)
    \<and> find_prediction db2 (mpr_prediction_id p) = Some (prediction_row_of column fp p o' model_id instrument_id snapshot)
    \<and> log_prediction column fp db2 p o' model_id instrument_id snapshot = Inr db2
    \<and> (\<forall>q o'' m i s. mpr_prediction_id q = mpr_prediction_id p
         \<and> fp (prediction_inputs_of q o'' m i s) \<noteq> fp (prediction_inputs_of p o' model_id instrument_id snapshot)
         \<longrightarrow> (\<exists>e. log_prediction column fp db2 q o'' m i s = Inl e))"
proof -
  let ?row = "prediction_row_of column fp p o' model_id instrument_id snapshot"
  have guards: "\<not> instant_of (fo_available_at o') > instant_of (mpr_predicted_at p)" "\<not> blank snapshot"
    using assms(1) by (auto simp: log_prediction_def split: if_splits)
  have "find_prediction db1 (mpr_prediction_id p) = Some ?row"
    using assms(1)
  proof (cases rule: log_prediction_cases)
    case new
    then show ?thesis by (auto simp: find_prediction_def find_append prediction_row_of_def)
  qed (use assms(2) in simp)
  then have row: "find_prediction db2 (mpr_prediction_id p) = Some ?row"
    unfolding assms(3) by (rule predictions.run_keeps)
  moreover have "pw_input_fingerprint ?row = fp (prediction_inputs_of p o' model_id instrument_id snapshot)"
    by (simp add: prediction_row_of_def)
  ultimately show ?thesis using guards by (auto simp: log_prediction_def)
qed

definition sample_prediction :: "rat model_prediction" where
  "sample_prediction =
     \<lparr>mpr_predicted_at = Aware 9, mpr_probability = 1 / 2, mpr_model_version = ''v1'', mpr_feature_version = ''f1'', mpr_prediction_id = 3\<rparr>"

definition sample_observation :: "rat feature_observation" where
  "sample_observation = \<lparr>fo_available_at = Aware 8, fo_values = [(''x'', 1)], fo_label = None\<rparr>"

theorem prediction_log_is_write_once_witness:
  "\<exists>db1. log_prediction id (\<lambda>x. replicate (length (fpi_snapshot x)) (CHR ''a'')) [] sample_prediction sample_observation 1 2 ''s'' = Inr db1
     \<and> log_prediction id (\<lambda>x. replicate (length (fpi_snapshot x)) (CHR ''a'')) db1 sample_prediction sample_observation 1 2 ''s'' = Inr db1"
proof -
  let ?fp = "\<lambda>x. replicate (length (fpi_snapshot x)) (CHR ''a'')"
  obtain db1 where one: "log_prediction id ?fp [] sample_prediction sample_observation 1 2 ''s'' = Inr db1"
    by (simp add: log_prediction_def sample_prediction_def sample_observation_def find_prediction_def blank_def is_space_def)
  have "find_prediction [] (mpr_prediction_id sample_prediction) = None" by (simp add: find_prediction_def)
  from prediction_log_is_write_once[OF one this, of db1 "[]"] one show ?thesis by auto
qed

end
