(* ===== verification/Artifact_Store.thy ===== *)
theory Artifact_Store
  imports Model_Registry
begin

text \<open>
  The remote artifact store (\<open>packages/machine_learning/artifacts.py\<close>) over an injected object client,
  and the S3 client (\<open>s3_artifacts.py\<close>) over an injected SDK.  Bytes are characters; \<open>sha\<close> is the
  hexadecimal SHA-256 of a payload; a client's operations pass its state.
\<close>

section \<open>Clients\<close>

record artifact_reference =
  ar_uri :: string
  ar_sha256 :: string
  ar_size_bytes :: int

record 's object_client =
  oc_put_if_absent :: "'s \<Rightarrow> string \<Rightarrow> string \<Rightarrow> string \<Rightarrow> ('s \<times> bool) result"
  oc_get :: "'s \<Rightarrow> string \<Rightarrow> string \<Rightarrow> int \<Rightarrow> string result"

text \<open>
  The SDK: a put answers with an error's code, if it has one; a get answers with the declared
  length, \<open>None\<close> when it is no int, and what reading the body up to a limit gives, \<open>None\<close> when there is no
  readable body and \<open>Some None\<close> when it gives no bytes.
\<close>

record sdk_put =
  sp_bucket :: string
  sp_key :: string
  sp_body :: string
  sp_content_length :: int
  sp_content_type :: string
  sp_if_none_match :: string
  sp_metadata :: "(string \<times> string) list"

record sdk_object =
  so_content_length :: "int option"
  so_body :: "(int \<Rightarrow> string option) option"

record 's s3_sdk =
  sdk_put_object :: "'s \<Rightarrow> sdk_put \<Rightarrow> 's \<times> (string option \<times> pyerror) option"
  sdk_get_object :: "'s \<Rightarrow> string \<Rightarrow> string \<Rightarrow> sdk_object result"

text \<open>\<open>key.rsplit("/", 1)[-1].removesuffix(".artifact")\<close>.\<close>

definition last_segment :: "string \<Rightarrow> string" where
  "last_segment key = rev (takeWhile (\<lambda>c. c \<noteq> CHR ''/'') (rev key))"

definition remove_suffix :: "string \<Rightarrow> string \<Rightarrow> string" where
  "remove_suffix suffix s =
     (if length suffix \<le> length s \<and> drop (length s - length suffix) s = suffix then take (length s - length suffix) s else s)"

definition s3_put_if_absent :: "'s s3_sdk \<Rightarrow> 's \<Rightarrow> string \<Rightarrow> string \<Rightarrow> string \<Rightarrow> ('s \<times> bool) result" where
  "s3_put_if_absent sdk s bucket key payload =
     (case sdk_put_object sdk s \<lparr>sp_bucket = bucket, sp_key = key, sp_body = payload, sp_content_length = int (length payload),
          sp_content_type = ''application/octet-stream'', sp_if_none_match = ''*'',
          sp_metadata = [(''sha256'', remove_suffix ''.artifact'' (last_segment key))]\<rparr> of
        (s', None) \<Rightarrow> Inr (s', True)
      | (s', Some (code, error)) \<Rightarrow>
          if code = Some ''412'' \<or> code = Some ''PreconditionFailed'' then Inr (s', False) else Inl error)"

definition s3_get :: "'s s3_sdk \<Rightarrow> 's \<Rightarrow> string \<Rightarrow> string \<Rightarrow> int \<Rightarrow> string result" where
  "s3_get sdk s bucket key maximum_bytes =
     (if maximum_bytes \<le> 0 then Inl (ValueError ''artifact read limit must be positive'')
      else rbind (sdk_get_object sdk s bucket key) (\<lambda>response.
        case so_body response of
          None \<Rightarrow> Inl (ValueError ''remote artifact response body is invalid'')
        | Some read \<Rightarrow>
            (case so_content_length response of
               None \<Rightarrow> Inl (ValueError ''remote artifact content length is invalid'')
             | Some content_length \<Rightarrow>
                 if content_length < 0 \<or> content_length > maximum_bytes
                 then Inl (ValueError ''remote artifact content length is invalid'')
                 else (case read (maximum_bytes + 1) of
                     None \<Rightarrow> Inl (ValueError ''remote artifact body does not match its content length'')
                   | Some payload \<Rightarrow>
                       if int (length payload) \<noteq> content_length
                       then Inl (ValueError ''remote artifact body does not match its content length'') else Inr payload))))"

definition s3_client :: "'s s3_sdk \<Rightarrow> 's object_client" where
  "s3_client sdk = \<lparr>oc_put_if_absent = s3_put_if_absent sdk, oc_get = s3_get sdk\<rparr>"

section \<open>The store\<close>

record remote_store =
  rs_bucket :: string
  rs_prefix :: string
  rs_maximum_size_bytes :: int

definition lower_or_digit :: "char \<Rightarrow> bool" where
  "lower_or_digit c \<longleftrightarrow> (97 \<le> code_of c \<and> code_of c \<le> 122) \<or> is_digit c"

definition bucket_ok :: "string \<Rightarrow> bool" where
  "bucket_ok b \<longleftrightarrow> 3 \<le> length b \<and> length b \<le> 63 \<and> lower_or_digit (hd b) \<and> lower_or_digit (last b)
     \<and> list_all (\<lambda>c. lower_or_digit c \<or> c \<in> set ''.-'') b"

definition strip_char :: "char \<Rightarrow> string \<Rightarrow> string" where
  "strip_char c s = rev (dropWhile (\<lambda>x. x = c) (rev (dropWhile (\<lambda>x. x = c) s)))"

fun split_all :: "char \<Rightarrow> string \<Rightarrow> string list" where
  "split_all c [] = [[]]"
| "split_all c (x # xs) = (if x = c then [] # split_all c xs else (x # hd (split_all c xs)) # tl (split_all c xs))"

definition prefix_part_ok :: "string \<Rightarrow> bool" where
  "prefix_part_ok part \<longleftrightarrow> part \<notin> {[], ''.'', ''..''} \<and> list_all (\<lambda>c. is_letter c \<or> is_digit c \<or> c \<in> set ''_.-'') part"

definition make_remote_store :: "string \<Rightarrow> string \<Rightarrow> int \<Rightarrow> remote_store result" where
  "make_remote_store bucket prefix maximum_size_bytes =
     (if \<not> bucket_ok bucket then Inl (ValueError ''artifact bucket is invalid'')
      else if maximum_size_bytes \<le> 0 then Inl (ValueError ''artifact maximum size must be positive'')
      else let normalized = strip_char (CHR ''/'') prefix in
        if normalized = [] \<or> \<not> list_all prefix_part_ok (split_all (CHR ''/'') normalized)
        then Inl (ValueError ''artifact prefix is invalid'')
        else Inr \<lparr>rs_bucket = bucket, rs_prefix = normalized, rs_maximum_size_bytes = maximum_size_bytes\<rparr>)"

definition artifact_key :: "remote_store \<Rightarrow> string \<Rightarrow> string" where
  "artifact_key st digest = rs_prefix st @ ''/'' @ digest @ ''.artifact''"

definition artifact_uri :: "remote_store \<Rightarrow> string \<Rightarrow> string" where
  "artifact_uri st key = ''artifact+s3://'' @ rs_bucket st @ ''/'' @ quote_url key ''/''"

definition verify_artifact :: "(string \<Rightarrow> string) \<Rightarrow> remote_store \<Rightarrow> string \<Rightarrow> string \<Rightarrow> int \<Rightarrow> unit result" where
  "verify_artifact sha st payload digest bytes =
     (if int (length payload) \<noteq> bytes \<or> int (length payload) > rs_maximum_size_bytes st
      then Inl (ValueError ''artifact size does not match registered evidence'')
      else if sha payload \<noteq> digest then Inl (ValueError ''artifact checksum does not match registered evidence'') else Inr ())"

definition store_artifact ::
  "(string \<Rightarrow> string) \<Rightarrow> 's object_client \<Rightarrow> remote_store \<Rightarrow> 's \<Rightarrow> string \<Rightarrow> ('s \<times> artifact_reference) result" where
  "store_artifact sha client st s payload =
     (if payload = [] \<or> int (length payload) > rs_maximum_size_bytes st
      then Inl (ValueError ''artifact payload must be non-empty and within the size limit'')
      else let digest = sha payload; key = artifact_key st digest;
               reference = \<lparr>ar_uri = artifact_uri st key, ar_sha256 = digest, ar_size_bytes = int (length payload)\<rparr>
        in rbind (oc_put_if_absent client s (rs_bucket st) key payload) (\<lambda>(s', created).
           if created then Inr (s', reference)
           else rbind (oc_get client s' (rs_bucket st) key (rs_maximum_size_bytes st)) (\<lambda>existing.
                rbind (verify_artifact sha st existing digest (int (length payload))) (\<lambda>_. Inr (s', reference)))))"

definition load_artifact ::
  "(string \<Rightarrow> bool) \<Rightarrow> (string \<Rightarrow> string) \<Rightarrow> 's object_client \<Rightarrow> remote_store \<Rightarrow> 's \<Rightarrow> artifact_reference \<Rightarrow> string result" where
  "load_artifact bracketed_ok sha client st s r =
     (if \<not> sha256_hex (ar_sha256 r) then Inl (ValueError ''artifact checksum evidence is invalid'')
      else let expected_key = artifact_key st (ar_sha256 r) in
        rbind (urlparse bracketed_ok (ar_uri r)) (\<lambda>parsed.
          if url_scheme parsed \<noteq> ''artifact+s3'' \<or> url_netloc parsed \<noteq> rs_bucket st
             \<or> dropWhile (\<lambda>c. c = CHR ''/'') (unquote_url (url_path parsed)) \<noteq> expected_key
             \<or> url_query parsed \<noteq> [] \<or> url_fragment parsed \<noteq> []
          then Inl (ValueError ''artifact URI is outside the configured remote store'')
          else rbind (oc_get client s (rs_bucket st) expected_key (rs_maximum_size_bytes st)) (\<lambda>payload.
               rbind (verify_artifact sha st payload (ar_sha256 r) (ar_size_bytes r)) (\<lambda>_. Inr payload))))"

section \<open>References and their URIs\<close>

text \<open>The characters of a store's keys are plain, so its URIs are parsed back into bucket and key.\<close>

definition key_char :: "char \<Rightarrow> bool" where
  "key_char c \<longleftrightarrow> is_letter c \<or> is_digit c \<or> c \<in> set ''_.-/''"

lemma key_char_plain:
  assumes "key_char c"
  shows "unreserved c \<or> c \<in> set ''/''" and "c \<notin> set ''%?#''" and "32 < code_of c"
proof -
  have "c \<noteq> CHR ''%'' \<and> c \<noteq> CHR ''?'' \<and> c \<noteq> CHR ''#'' \<and> 32 < code_of c"
    using assms by (auto simp: key_char_def is_letter_def is_digit_def code_of_def Let_def)
  then show "c \<notin> set ''%?#''" "32 < code_of c" by auto
  show "unreserved c \<or> c \<in> set ''/''" using assms by (auto simp: key_char_def unreserved_def)
qed

lemma split_all_nonempty: "split_all c s \<noteq> []"
  by (induction s) auto

lemma split_all_chars: "x \<in> set s \<Longrightarrow> x = c \<or> (\<exists>part \<in> set (split_all c s). x \<in> set part)"
proof (induction s)
  case (Cons y ys)
  show ?case
  proof (cases "x = c")
    case False
    obtain p ps where "split_all c ys = p # ps" using split_all_nonempty by (cases "split_all c ys") auto
    then show ?thesis using Cons False by auto
  qed simp
qed simp

lemma hex_key_char: "hex_digit c \<Longrightarrow> key_char c"
  by (auto simp: hex_digit_def key_char_def is_letter_def is_digit_def code_of_def Let_def)

lemma make_remote_store_parts:
  assumes "make_remote_store bucket prefix maximum = Inr st"
  shows "bucket_ok (rs_bucket st)" and "list_all key_char (rs_prefix st)" and "rs_prefix st \<noteq> []" and "hd (rs_prefix st) \<noteq> CHR ''/''"
proof -
  let ?n = "strip_char (CHR ''/'') prefix"
  have st: "bucket_ok bucket" "?n \<noteq> []" "list_all prefix_part_ok (split_all (CHR ''/'') ?n)" "rs_bucket st = bucket" "rs_prefix st = ?n"
    using assms by (auto simp: make_remote_store_def Let_def split: if_splits)
  show "bucket_ok (rs_bucket st)" "rs_prefix st \<noteq> []" using st by simp_all
  show "list_all key_char (rs_prefix st)"
    unfolding list_all_iff st(5)
  proof
    fix x
    assume "x \<in> set ?n"
    then consider "x = CHR ''/''" | part where "part \<in> set (split_all (CHR ''/'') ?n)" "x \<in> set part"
      using split_all_chars by blast
    then show "key_char x"
    proof cases
      case 1
      then show ?thesis by (simp add: key_char_def)
    next
      case 2
      then show ?thesis using st(3) by (auto simp: list_all_iff prefix_part_ok_def key_char_def)
    qed
  qed
  show "hd (rs_prefix st) \<noteq> CHR ''/''"
  proof
    assume slash: "hd (rs_prefix st) = CHR ''/''"
    have "split_all (CHR ''/'') ?n = [] # split_all (CHR ''/'') (tl ?n)"
      using slash st(2,5) by (cases ?n) auto
    then show False using st(3) by (simp add: prefix_part_ok_def)
  qed
qed

lemma artifact_key_chars:
  assumes "make_remote_store bucket prefix maximum = Inr st" and "sha256_hex digest"
  shows "list_all key_char (artifact_key st digest)"
proof -
  have "list_all key_char digest" using assms(2) by (auto simp: sha256_hex_def list_all_iff intro: hex_key_char)
  moreover have "list_all key_char ''/''" "list_all key_char ''.artifact''"
    by (simp_all add: key_char_def is_letter_def code_of_def)
  ultimately show ?thesis using make_remote_store_parts(2)[OF assms(1)] by (simp only: artifact_key_def list_all_append)
qed

lemma artifact_uri_parsed:
  assumes "make_remote_store bucket prefix maximum = Inr st" and "sha256_hex digest"
  shows "urlparse ok (artifact_uri st (artifact_key st digest))
    = Inr \<lparr>url_scheme = ''artifact+s3'', url_netloc = rs_bucket st, url_path = CHR ''/'' # artifact_key st digest, url_query = [], url_fragment = []\<rparr>"
proof -
  let ?key = "artifact_key st digest"
  have key: "\<And>c. c \<in> set ?key \<Longrightarrow> key_char c"
    using artifact_key_chars[OF assms] by (simp add: list_all_iff)
  have quoted: "quote_url ?key ''/'' = ?key"
    by (rule quote_url_safe) (use key key_char_plain(1) in \<open>simp add: list_all_iff\<close>)
  have bucket: "32 < code_of c \<and> c \<notin> set ''/?#[]''" if "c \<in> set (rs_bucket st)" for c
    using that make_remote_store_parts(1)[OF assms(1)]
    by (auto simp: bucket_ok_def list_all_iff lower_or_digit_def is_digit_def code_of_def)
  have "artifact_uri st ?key = ''artifact+s3'' @ ''://'' @ rs_bucket st @ CHR ''/'' # ?key"
    by (simp add: artifact_uri_def quoted)
  moreover have "urlparse ok (''artifact+s3'' @ ''://'' @ rs_bucket st @ CHR ''/'' # ?key)
      = Inr \<lparr>url_scheme = ''artifact+s3'', url_netloc = rs_bucket st, url_path = CHR ''/'' # ?key, url_query = [], url_fragment = []\<rparr>"
  proof (rule urlparse_built[where c = "CHR ''a''" and cs = "''rtifact+s3''"])
    show "list_all (\<lambda>c. 32 < code_of c) (''artifact+s3'' @ rs_bucket st @ ?key)"
      using bucket key key_char_plain(3) by (auto simp: list_all_iff code_of_def)
    show "set (rs_bucket st) \<inter> set ''/?#[]'' = {}" using bucket by blast
    show "set ?key \<inter> set ''?#'' = {}" using key key_char_plain(2) by fastforce
  qed (simp_all add: is_letter_def scheme_char_def is_digit_def to_lower_def code_of_def)
  ultimately show ?thesis by simp
qed

text \<open>C38: An artifact of the remote store can never be registered as a model version: whatever the store, the payload and
  the rest of the metadata, the registry rejects the URI of the reference that storing the payload returned.\<close>

theorem remote_artifacts_cannot_be_registered:
  assumes "make_remote_store bucket prefix maximum = Inr st" and "\<forall>x. sha256_hex (sha x)"
    and "store_artifact sha client st s payload = Inr (s', reference)" and "mm_artifact_uri m = ar_uri reference"
  shows "\<exists>e. register_model F ok fresh db m = Inl e"
proof -
  have "ar_uri reference = artifact_uri st (artifact_key st (sha payload))"
    using assms(3) by (auto simp: store_artifact_def Let_def rbind_eq_Inr split: if_splits)
  then have parsed: "urlparse ok (mm_artifact_uri m)
      = Inr \<lparr>url_scheme = ''artifact+s3'', url_netloc = rs_bucket st, url_path = CHR ''/'' # artifact_key st (sha payload),
             url_query = [], url_fragment = []\<rparr>"
    using artifact_uri_parsed[OF assms(1)] assms(2,4) by simp
  then show ?thesis by (auto simp: register_model_def check_metadata_def parsed approved_uri_def)
qed

definition flat_client :: "(string \<times> string \<Rightarrow> string option) object_client" where
  "flat_client =
     \<lparr>oc_put_if_absent = (\<lambda>s b k p. if s (b, k) = None then Inr (s((b, k) \<mapsto> p), True) else Inr (s, False)),
      oc_get = (\<lambda>s b k n. case s (b, k) of None \<Rightarrow> Inl (ValueError ''missing'') | Some p \<Rightarrow> Inr p)\<rparr>"

definition zero_hash :: "string \<Rightarrow> string" where
  "zero_hash x = replicate 64 (CHR ''0'')"

lemma zero_hash_hex: "sha256_hex (zero_hash x)"
  by (simp add: zero_hash_def sha256_hex_def hex_digit_def list_all_iff)

lemma sample_remote_store: "make_remote_store ''models'' ''team'' 9 = Inr \<lparr>rs_bucket = ''models'', rs_prefix = ''team'', rs_maximum_size_bytes = 9\<rparr>"
  by (simp add: make_remote_store_def bucket_ok_def lower_or_digit_def is_digit_def is_letter_def code_of_def strip_char_def
      prefix_part_ok_def Let_def)

theorem remote_artifacts_cannot_be_registered_witness:
  "\<exists>s' reference e. store_artifact zero_hash flat_client \<lparr>rs_bucket = ''models'', rs_prefix = ''team'', rs_maximum_size_bytes = 9\<rparr> (\<lambda>_. None) ''ab'' = Inr (s', reference)
     \<and> register_model rat_ops (\<lambda>_. False) 1 []
         \<lparr>mm_name = ''trend'', mm_version = ''v1'', mm_feature_version = ''f1'', mm_trained_at = Aware 5, mm_artifact_uri = ar_uri reference,
          mm_artifact_sha256 = ar_sha256 reference, mm_metrics = []\<rparr> = Inl e"
proof -
  let ?st = "\<lparr>rs_bucket = ''models'', rs_prefix = ''team'', rs_maximum_size_bytes = 9\<rparr>"
  obtain s' reference where stored: "store_artifact zero_hash flat_client ?st (\<lambda>_. None) ''ab'' = Inr (s', reference)"
    by (simp add: store_artifact_def flat_client_def Let_def)
  let ?m = "\<lparr>mm_name = ''trend'', mm_version = ''v1'', mm_feature_version = ''f1'', mm_trained_at = Aware 5, mm_artifact_uri = ar_uri reference,
          mm_artifact_sha256 = ar_sha256 reference, mm_metrics = []\<rparr> :: rat model_metadata"
  have "\<exists>e. register_model rat_ops (\<lambda>_. False) 1 [] ?m = Inl e"
    by (rule remote_artifacts_cannot_be_registered[OF sample_remote_store _ stored]) (simp_all add: zero_hash_hex)
  with stored show ?thesis by blast
qed

section \<open>What is stored is loaded\<close>

text \<open>
  The object client's contract, which the source states for its implementations: a put creates the
  object exactly when there is none and never changes one, and a get returns it.
\<close>

definition keeps_objects :: "('s \<Rightarrow> string \<times> string \<Rightarrow> string option) \<Rightarrow> 's object_client \<Rightarrow> bool" where
  "keeps_objects contents client \<longleftrightarrow>
     (\<forall>s b k p s' created. oc_put_if_absent client s b k p = Inr (s', created) \<longrightarrow>
        created = (contents s (b, k) = None)
        \<and> contents s' = (if created then (contents s)((b, k) \<mapsto> p) else contents s))
     \<and> (\<forall>s b k n p. oc_get client s b k n = Inr p \<longrightarrow> contents s (b, k) = Some p)
     \<and> (\<forall>s b k n p. contents s (b, k) = Some p \<and> int (length p) \<le> n \<longrightarrow> oc_get client s b k n = Inr p)"

lemma stored_object:
  assumes "keeps_objects contents client" and "store_artifact sha client st s payload = Inr (s', reference)"
  defines "k \<equiv> artifact_key st (sha payload)"
  shows "reference = \<lparr>ar_uri = artifact_uri st k, ar_sha256 = sha payload, ar_size_bytes = int (length payload)\<rparr>
    \<and> int (length payload) \<le> rs_maximum_size_bytes st
    \<and> (\<exists>p. contents s' (rs_bucket st, k) = Some p \<and> sha p = sha payload \<and> length p = length payload
         \<and> (contents s (rs_bucket st, k) = None \<longrightarrow> p = payload))"
proof -
  obtain created where put: "oc_put_if_absent client s (rs_bucket st) k payload = Inr (s', created)"
    and facts: "int (length payload) \<le> rs_maximum_size_bytes st"
      "reference = \<lparr>ar_uri = artifact_uri st k, ar_sha256 = sha payload, ar_size_bytes = int (length payload)\<rparr>"
    and old: "\<not> created \<Longrightarrow> \<exists>existing. oc_get client s' (rs_bucket st) k (rs_maximum_size_bytes st) = Inr existing
      \<and> verify_artifact sha st existing (sha payload) (int (length payload)) = Inr ()"
    using assms(2) unfolding k_def by (auto simp: store_artifact_def Let_def rbind_eq_Inr split: if_splits)
  have contents: "created = (contents s (rs_bucket st, k) = None)"
      "contents s' = (if created then (contents s)((rs_bucket st, k) \<mapsto> payload) else contents s)"
    using assms(1) put unfolding keeps_objects_def by blast+
  have "\<exists>p. contents s' (rs_bucket st, k) = Some p \<and> sha p = sha payload \<and> length p = length payload
      \<and> (contents s (rs_bucket st, k) = None \<longrightarrow> p = payload)"
  proof (cases created)
    case False
    then obtain existing where existing: "oc_get client s' (rs_bucket st) k (rs_maximum_size_bytes st) = Inr existing"
        "verify_artifact sha st existing (sha payload) (int (length payload)) = Inr ()"
      using old by blast
    then have "contents s' (rs_bucket st, k) = Some existing" using assms(1) unfolding keeps_objects_def by blast
    then show ?thesis using existing(2) contents(1) False by (auto simp: verify_artifact_def split: if_splits)
  qed (simp add: contents)
  with facts show ?thesis by blast
qed

text \<open>An object under the key of its digest is loaded by its reference.\<close>

lemma held_object_loads:
  assumes store: "make_remote_store bucket prefix maximum = Inr st" and hex: "sha256_hex (sha p)" and client: "keeps_objects contents client"
    and held: "contents s (rs_bucket st, artifact_key st (sha p)) = Some p" and fits: "int (length p) \<le> rs_maximum_size_bytes st"
  shows "load_artifact ok sha client st s
    \<lparr>ar_uri = artifact_uri st (artifact_key st (sha p)), ar_sha256 = sha p, ar_size_bytes = int (length p)\<rparr> = Inr p"
proof -
  let ?key = "artifact_key st (sha p)"
  have got: "oc_get client s (rs_bucket st) ?key (rs_maximum_size_bytes st) = Inr p"
    using client held fits unfolding keeps_objects_def by blast
  have key: "key_char c" if "c \<in> set ?key" for c
    using artifact_key_chars[OF store hex] that by (simp add: list_all_iff)
  have plain: "unquote_url (CHR ''/'' # ?key) = CHR ''/'' # ?key"
    by (rule unquote_url_plain) (use key key_char_plain(2) in fastforce)
  obtain c cs where "rs_prefix st = c # cs" "c \<noteq> CHR ''/''"
    using make_remote_store_parts(3,4)[OF store] by (cases "rs_prefix st") auto
  then have path: "dropWhile (\<lambda>c. c = CHR ''/'') (CHR ''/'' # ?key) = ?key"
    by (simp add: artifact_key_def)
  have verified: "verify_artifact sha st p (sha p) (int (length p)) = Inr ()"
    using fits by (simp add: verify_artifact_def)
  show ?thesis
    unfolding load_artifact_def Let_def artifact_reference.simps artifact_uri_parsed[OF store hex] rbind_simps url.simps plain path got verified
    using hex by simp
qed

text \<open>C23: What the remote store stored is loaded.  Over any object client that keeps its contract, the reference returned by
  storing a payload loads, at once and from any state that still holds the same objects, a payload of the same digest and
  size, and the payload itself when its key was free; its URI always names the store's own bucket and key.\<close>

theorem stored_artifacts_load:
  assumes "make_remote_store bucket prefix maximum = Inr st" and "\<forall>x. sha256_hex (sha x)" and "keeps_objects contents client"
    and "store_artifact sha client st s payload = Inr (s', reference)" and "contents s2 = contents s'"
  shows "\<exists>p. load_artifact ok sha client st s2 reference = Inr p \<and> sha p = sha payload \<and> length p = length payload
    \<and> (contents s (rs_bucket st, artifact_key st (sha payload)) = None \<longrightarrow> p = payload)"
proof -
  note stored = stored_object[OF assms(3,4)]
  then obtain p where p: "contents s2 (rs_bucket st, artifact_key st (sha payload)) = Some p" "sha p = sha payload" "length p = length payload"
      "contents s (rs_bucket st, artifact_key st (sha payload)) = None \<longrightarrow> p = payload"
    using stored[THEN conjunct2, THEN conjunct2] unfolding assms(5) by (elim exE conjE)
  have "load_artifact ok sha client st s2 reference = Inr p"
    using held_object_loads[where sha = sha and p = p and client = client, OF assms(1) assms(2)[rule_format, of p] assms(3), of s2 ok] p(1-3) stored by simp
  then show ?thesis by (intro exI[of _ p] conjI p)
qed

theorem stored_artifacts_load_witness:
  "\<exists>s' reference. store_artifact zero_hash flat_client \<lparr>rs_bucket = ''models'', rs_prefix = ''team'', rs_maximum_size_bytes = 9\<rparr> (\<lambda>_. None) ''ab'' = Inr (s', reference)
     \<and> load_artifact (\<lambda>_. False) zero_hash flat_client \<lparr>rs_bucket = ''models'', rs_prefix = ''team'', rs_maximum_size_bytes = 9\<rparr> s' reference = Inr ''ab''"
proof -
  let ?st = "\<lparr>rs_bucket = ''models'', rs_prefix = ''team'', rs_maximum_size_bytes = 9\<rparr>"
  obtain s' reference where stored: "store_artifact zero_hash flat_client ?st (\<lambda>_. None) ''ab'' = Inr (s', reference)"
    by (simp add: store_artifact_def flat_client_def Let_def)
  have keeps: "keeps_objects (\<lambda>s. s) flat_client"
    by (simp add: keeps_objects_def flat_client_def split: if_splits option.splits)
  have hex: "\<forall>x. sha256_hex (zero_hash x)" by (simp add: zero_hash_hex)
  have "load_artifact (\<lambda>_. False) zero_hash flat_client ?st s' reference = Inr ''ab''"
    using stored_artifacts_load[OF sample_remote_store hex keeps stored refl, of "\<lambda>_. False"] by auto
  with stored show ?thesis by blast
qed

end
