(* ===== verification/Http.thy ===== *)
theory Http
  imports Access_Control
begin

text \<open>
  Request handlers of the HTTP API: an answer or an HTTP error.  A handler runs after its dependency
  (\<open>as_operator\<close>, \<open>as_viewer\<close>) produced a principal; it returns the new store and the answer, or an error, and
  then nothing is committed.  An exception that no handler catches is status 500.
\<close>

section \<open>Requests\<close>

type_synonym 'a http = "http_error + 'a"

definition unprocessable :: "string \<Rightarrow> 'a http" where
  "unprocessable m = Inl (HTTPException 422 m)"

definition conflict :: "string \<Rightarrow> 'a http" where
  "conflict m = Inl (HTTPException 409 m)"

definition internal_error :: "'a result \<Rightarrow> 'a http" where
  "internal_error r = (case r of Inl e \<Rightarrow> Inl (HTTPException 500 ''Internal Server Error'') | Inr x \<Rightarrow> Inr x)"

definition hbind :: "'a http \<Rightarrow> ('a \<Rightarrow> 'b http) \<Rightarrow> 'b http" where
  "hbind r f = (case r of Inl e \<Rightarrow> Inl e | Inr x \<Rightarrow> f x)"

lemma hbind_simps [simp]: "hbind (Inl e) f = Inl e" "hbind (Inr x) f = f x"
  by (simp_all add: hbind_def)

lemma hbind_eq_Inr: "hbind r f = Inr y \<longleftrightarrow> (\<exists>x. r = Inr x \<and> f x = Inr y)"
  by (cases r) auto

fun hfold :: "('s \<Rightarrow> 'a \<Rightarrow> 's http) \<Rightarrow> 's \<Rightarrow> 'a list \<Rightarrow> 's http" where
  "hfold f s [] = Inr s"
| "hfold f s (x # xs) = hbind (f s x) (\<lambda>s'. hfold f s' xs)"

definition as_operator ::
  "(string \<Rightarrow> string) \<Rightarrow> settings \<Rightarrow> authenticator \<Rightarrow> revocation_db option \<Rightarrow> instant \<Rightarrow> string option \<Rightarrow> (principal \<Rightarrow> 'a http) \<Rightarrow> 'a http" where
  "as_operator sha s a store now authorization handler = hbind (operator_principal sha s a store now authorization) handler"

definition as_viewer ::
  "(string \<Rightarrow> string) \<Rightarrow> settings \<Rightarrow> authenticator \<Rightarrow> revocation_db option \<Rightarrow> instant \<Rightarrow> string option \<Rightarrow> (principal \<Rightarrow> 'a http) \<Rightarrow> 'a http" where
  "as_viewer sha s a store now authorization handler = hbind (authenticated_principal sha s a store now authorization) handler"

end
