(* ===== verification/Market_Api.thy ===== *)
theory Market_Api
  imports Market_Data Market_Aggregation Option_Chain Http
begin

text \<open>
  The market data routes (\<open>apps/api/market_data.py\<close>) over the calendar, the instruments, the raw and
  normalized candles and the quality events.  A handler runs after its dependency (\<open>as_operator\<close>,
  \<open>as_viewer\<close>) produced a principal.  The database's text order is the key \<open>collate\<close>; the time of the request
  is \<open>now\<close>.
\<close>

section \<open>The store\<close>

record session_row =
  sn_exchange :: exchange
  sn_session_date :: int
  sn_opens_at :: instant
  sn_closes_at :: instant
  sn_is_trading_day :: bool
  sn_source :: string
  sn_published_at :: instant

record calendar_audit =
  ca_occurred_at :: instant
  ca_correlation_id :: string
  ca_actor_id :: string
  ca_source :: string
  ca_sessions :: nat

record api_store =
  as_sessions :: "session_row list"
  as_instruments :: "instrument list"
  as_market :: market_db
  as_audit :: "calendar_audit list"

section \<open>The exchange calendar\<close>

record calendar_request =
  cq_source :: string
  cq_published_at :: datetime
  cq_sessions :: "market_session list"

definition calendar_request_ok :: "instant \<Rightarrow> calendar_request \<Rightarrow> bool" where
  "calendar_request_ok now q \<longleftrightarrow> 1 \<le> length (cq_source q) \<and> length (cq_source q) \<le> 128
     \<and> is_aware (cq_published_at q) \<and> instant_of (cq_published_at q) \<le> now
     \<and> 1 \<le> length (cq_sessions q) \<and> length (cq_sessions q) \<le> 366
     \<and> list_all (\<lambda>s. ms_opens_at s < ms_closes_at s) (cq_sessions q)"

definition supply_session :: "(int \<times> market_session) list \<Rightarrow> market_session \<Rightarrow> (int \<times> market_session) list http" where
  "supply_session supplied item =
     (if ms_exchange item \<noteq> NSE then unprocessable ''only NSE sessions are supported''
      else if local_date (ms_opens_at item) \<noteq> ms_session_date item \<or> local_date (ms_closes_at item) \<noteq> ms_session_date item
      then unprocessable ''session times must match the IST session date''
      else case map_of supplied (ms_session_date item) of
          None \<Rightarrow> Inr (supplied @ [(ms_session_date item, item)])
        | Some other \<Rightarrow> if other \<noteq> item then conflict ''conflicting session date in batch'' else Inr supplied)"

definition find_session :: "session_row list \<Rightarrow> int \<Rightarrow> session_row option" where
  "find_session rows day = List.find (\<lambda>r. sn_exchange r = NSE \<and> sn_session_date r = day) rows"

definition session_row_for :: "string \<Rightarrow> instant \<Rightarrow> market_session \<Rightarrow> session_row" where
  "session_row_for source published_at item =
     \<lparr>sn_exchange = NSE, sn_session_date = ms_session_date item, sn_opens_at = ms_opens_at item, sn_closes_at = ms_closes_at item,
      sn_is_trading_day = ms_is_trading_day item, sn_source = source, sn_published_at = published_at\<rparr>"

definition revises :: "session_row list \<Rightarrow> string \<Rightarrow> instant \<Rightarrow> int \<times> market_session \<Rightarrow> bool" where
  "revises rows source published_at = (\<lambda>(day, item). case find_session rows day of
       None \<Rightarrow> False
     | Some row \<Rightarrow> sn_opens_at row \<noteq> ms_opens_at item \<or> sn_closes_at row \<noteq> ms_closes_at item
         \<or> sn_is_trading_day row \<noteq> ms_is_trading_day item \<or> sn_source row \<noteq> source \<or> sn_published_at row \<noteq> published_at)"

definition import_sessions ::
  "instant \<Rightarrow> string \<Rightarrow> api_store \<Rightarrow> calendar_request \<Rightarrow> principal \<Rightarrow> (api_store \<times> nat) http" where
  "import_sessions now correlation st q p =
     (if \<not> calendar_request_ok now q then unprocessable ''request validation failed''
      else hbind (hfold supply_session [] (cq_sessions q)) (\<lambda>supplied.
        let published_at = instant_of (cq_published_at q) in
        if list_ex (revises (as_sessions st) (cq_source q) published_at) supplied
        then conflict ''calendar revision requires review''
        else
          let missing = filter (\<lambda>(day, _). find_session (as_sessions st) day = None) supplied;
              audit = \<lparr>ca_occurred_at = now, ca_correlation_id = correlation, ca_actor_id = pr_subject p, ca_source = cq_source q,
                       ca_sessions = length missing\<rparr>
          in Inr (st\<lparr>as_sessions := as_sessions st @ map (session_row_for (cq_source q) published_at \<circ> snd) missing,
                     as_audit := as_audit st @ (if missing = [] then [] else [audit])\<rparr>, length missing)))"

definition session_of_row :: "session_row \<Rightarrow> market_session result" where
  "session_of_row row = validate_times
     \<lparr>ms_exchange = NSE, ms_session_date = sn_session_date row, ms_opens_at = sn_opens_at row, ms_closes_at = sn_closes_at row,
      ms_is_trading_day = sn_is_trading_day row\<rparr>"

definition nse_between :: "int \<Rightarrow> int \<Rightarrow> session_row list \<Rightarrow> session_row list" where
  "nse_between first final rows = filter (\<lambda>r. sn_exchange r = NSE \<and> first \<le> sn_session_date r \<and> sn_session_date r \<le> final) rows"

definition list_sessions :: "api_store \<Rightarrow> int \<Rightarrow> int \<Rightarrow> principal \<Rightarrow> (market_session \<times> string \<times> instant) list http" where
  "list_sessions st start final p =
     (if start > final \<or> final - start > 31 then unprocessable ''calendar range must span at most 31 days''
      else internal_error (rmap (\<lambda>row. rbind (session_of_row row) (\<lambda>s. Inr (s, sn_source row, sn_published_at row)))
             (sort_key sn_session_date (nse_between start final (as_sessions st)))))"

section \<open>Instruments\<close>

fun exchange_text :: "exchange \<Rightarrow> string" where
  "exchange_text NSE = ''NSE''"
| "exchange_text BSE = ''BSE''"

fun segment_text :: "market_segment \<Rightarrow> string" where
  "segment_text CASH = ''CASH''"
| "segment_text FUTURES = ''FUTURES''"
| "segment_text OPTIONS = ''OPTIONS''"

type_synonym instrument_key = "exchange \<times> market_segment \<times> string"

definition instrument_key :: "instrument \<Rightarrow> instrument_key" where
  "instrument_key i = (in_exchange i, in_segment i, in_symbol i)"

definition identify :: "(instrument_key \<times> instrument) list \<Rightarrow> instrument \<Rightarrow> (instrument_key \<times> instrument) list http" where
  "identify identities i = (case map_of identities (instrument_key i) of
       None \<Rightarrow> Inr (identities @ [(instrument_key i, i)])
     | Some other \<Rightarrow> if other \<noteq> i then conflict ''conflicting instrument mapping'' else Inr identities)"

definition remaps :: "(instrument_key \<times> instrument) list \<Rightarrow> instrument list \<Rightarrow> instrument \<Rightarrow> bool" where
  "remaps identities items row =
     ((case map_of identities (instrument_key row) of
         None \<Rightarrow> False
       | Some i \<Rightarrow> in_id row \<noteq> in_id i \<or> in_tick_size row \<noteq> in_tick_size i \<or> in_lot_size row \<noteq> in_lot_size i
           \<or> in_isin row \<noteq> in_isin i \<or> in_currency row \<noteq> in_currency i)
      \<or> list_ex (\<lambda>item. in_id item = in_id row \<and> instrument_key item \<noteq> instrument_key row) items)"

text \<open>\<open>upsert_instruments\<close>: the conflict target is the key; a second row with an identifier violates the primary key.\<close>

definition upsert_instruments :: "string \<Rightarrow> instrument list \<Rightarrow> instrument list \<Rightarrow> (nat \<times> instrument list) result" where
  "upsert_instruments dialect table items =
     rbind (insert_ignore dialect instrument_key table items) (\<lambda>(n, table').
       if distinct (map in_id table') then Inr (n, table') else Inl (RuntimeError ''primary key violation''))"

definition import_instruments :: "api_store \<Rightarrow> instrument list \<Rightarrow> principal \<Rightarrow> (api_store \<times> nat) http" where
  "import_instruments st items p =
     (if \<not> (1 \<le> length items \<and> length items \<le> 500 \<and> list_all instrument_ok items)
      then unprocessable ''request validation failed''
      else hbind (hfold identify [] items) (\<lambda>identities.
        let existing = filter (\<lambda>row. in_symbol row \<in> in_symbol ` set items \<or> in_id row \<in> in_id ` set items) (as_instruments st) in
        if list_ex (remaps identities items) existing then conflict ''conflicting instrument mapping''
        else hbind (internal_error (upsert_instruments (md_dialect (as_market st)) (as_instruments st) items)) (\<lambda>(n, table).
             Inr (st\<lparr>as_instruments := table\<rparr>, n))))"

definition page_of :: "int \<Rightarrow> int \<Rightarrow> 'a list \<Rightarrow> 'a list" where
  "page_of limit offset xs = take (nat limit) (drop (nat offset) xs)"

definition list_instruments :: "(string \<Rightarrow> 'k::linorder) \<Rightarrow> api_store \<Rightarrow> int \<Rightarrow> int \<Rightarrow> principal \<Rightarrow> instrument list http" where
  "list_instruments collate st limit offset p =
     (if limit < 1 \<or> limit > 100 \<or> offset < 0 then unprocessable ''request validation failed''
      else Inr (page_of limit offset
             (sort_key (collate \<circ> exchange_text \<circ> in_exchange) (sort_key (collate \<circ> segment_text \<circ> in_segment)
               (sort_key (collate \<circ> in_symbol) (as_instruments st))))))"

section \<open>Ingestion\<close>

definition raw_input_ok :: "raw_candle \<Rightarrow> bool" where
  "raw_input_ok r \<longleftrightarrow> is_aware (raw_timestamp r) \<and> 60 \<le> raw_timeframe_seconds r \<and> raw_timeframe_seconds r \<le> 86400
     \<and> 1 \<le> length (raw_source_event_id r) \<and> length (raw_source_event_id r) \<le> 128"

definition raw_identity :: "raw_candle \<Rightarrow> uuid \<times> instant \<times> int \<times> decimal list \<times> decimal option" where
  "raw_identity r = (raw_instrument_id r, instant_of (raw_timestamp r), raw_timeframe_seconds r,
     [raw_open r, raw_high r, raw_low r, raw_close r, raw_volume r], raw_open_interest r)"

definition row_identity :: "raw_candle_row \<Rightarrow> uuid \<times> instant \<times> int \<times> decimal list \<times> decimal option" where
  "row_identity r = (rc_instrument_id r, instant_of (rc_event_timestamp r), rc_timeframe_seconds r, fst (rc_payload r), snd (rc_payload r))"

text \<open>\<open>by_event[id] = item\<close> after the check; an equal prior item is replaced.\<close>

definition record_event :: "(string \<times> raw_candle) list \<Rightarrow> raw_candle \<Rightarrow> (string \<times> raw_candle) list http" where
  "record_event by_event item = (case map_of by_event (raw_source_event_id item) of
       Some prior \<Rightarrow> if raw_identity prior \<noteq> raw_identity item then conflict ''source event ID changed payload''
                     else Inr (AList.update (raw_source_event_id item) item by_event)
     | None \<Rightarrow> Inr (AList.update (raw_source_event_id item) item by_event))"

definition changes_payload :: "string \<Rightarrow> (string \<times> raw_candle) list \<Rightarrow> raw_candle_row \<Rightarrow> bool" where
  "changes_payload source by_event row =
     (rc_source row = source \<and> (case map_of by_event (rc_source_event_id row) of
        None \<Rightarrow> False | Some item \<Rightarrow> row_identity row \<noteq> raw_identity item))"

definition ingest_candles ::
  "(decimal \<Rightarrow> decimal) \<Rightarrow> (nat \<Rightarrow> uuid) \<Rightarrow> instant \<Rightarrow> api_store \<Rightarrow> string \<Rightarrow> raw_candle list \<Rightarrow> principal \<Rightarrow> (api_store \<times> ingestion_result) http" where
  "ingest_candles col fresh now st source candles p =
     (if \<not> (1 \<le> length source \<and> length source \<le> 32 \<and> 1 \<le> length candles \<and> length candles \<le> 1000 \<and> list_all raw_input_ok candles)
      then unprocessable ''request validation failed''
      else if \<not> raw_instrument_id ` set candles \<subseteq> in_id ` set (as_instruments st) then unprocessable ''unknown instrument ID''
      else hbind (hfold record_event [] candles) (\<lambda>by_event.
        if list_ex (changes_payload source by_event) (md_raw (as_market st)) then conflict ''source event ID changed payload''
        else hbind (internal_error (ingest col fresh maximum_timestamp_drift (as_market st) source candles now)) (\<lambda>(r, market).
             Inr (st\<lparr>as_market := market\<rparr>, r))))"

section \<open>Reading candles\<close>

record candle_query =
  kq_start :: datetime
  kq_end :: datetime
  kq_as_of :: datetime
  kq_timeframe_seconds :: int
  kq_aggregate :: "timeframe option"
  kq_limit :: int
  kq_offset :: int

definition utc :: "datetime \<Rightarrow> instant http" where
  "utc d = (case d of Naive _ \<Rightarrow> unprocessable ''timestamps must include a timezone'' | Aware t \<Rightarrow> Inr t)"

definition candle_rows :: "market_db \<Rightarrow> uuid \<Rightarrow> int \<Rightarrow> instant \<Rightarrow> instant \<Rightarrow> instant \<Rightarrow> candle list" where
  "candle_rows db i tf from_at to_at cutoff =
     take 50000 (sort_key candle_timestamp (filter (\<lambda>c. candle_instrument_id c = i \<and> candle_timeframe_seconds c = tf
        \<and> from_at \<le> candle_timestamp c \<and> candle_timestamp c < to_at \<and> candle_timestamp c \<le> cutoff \<and> candle_is_closed c) (md_candles db)))"

definition published_sessions :: "session_row list \<Rightarrow> instant \<Rightarrow> instant \<Rightarrow> instant \<Rightarrow> session_row list" where
  "published_sessions rows from_at to_at cutoff =
     (let first = local_date from_at in
      filter (\<lambda>r. sn_published_at r \<le> cutoff) (nse_between (first - weekday first) (local_date to_at + 6) rows))"

text \<open>The answer of \<open>aggregate_closed_candles\<close>: a \<open>ValueError\<close> is a conflict, anything else is not caught.\<close>

definition aggregated :: "candle list result \<Rightarrow> candle list http" where
  "aggregated r = (case r of Inr cs \<Rightarrow> Inr cs | Inl (ValueError m) \<Rightarrow> conflict m | Inl _ \<Rightarrow> Inl (HTTPException 500 ''Internal Server Error''))"

definition history :: "api_store \<Rightarrow> uuid \<Rightarrow> candle_query \<Rightarrow> instant \<Rightarrow> instant \<Rightarrow> instant \<Rightarrow> candle list http" where
  "history st i q from_at to_at cutoff =
     hbind (internal_error (case kq_aggregate q of
         None \<Rightarrow> Inr None
       | Some _ \<Rightarrow> rbind (rmap session_of_row (published_sessions (as_sessions st) from_at to_at cutoff)) (\<lambda>cal. Inr (Some cal)))) (\<lambda>calendar.
     hbind (internal_error (rmap revalidate (candle_rows (as_market st) i (kq_timeframe_seconds q) from_at to_at cutoff))) (\<lambda>candles.
       case kq_aggregate q of
         Some target \<Rightarrow> aggregated (aggregate_closed_candles candles target (Aware cutoff) calendar)
       | None \<Rightarrow> Inr (filter (\<lambda>c. candle_available_at c \<le> cutoff) candles)))"

definition list_candles :: "api_store \<Rightarrow> uuid \<Rightarrow> candle_query \<Rightarrow> principal \<Rightarrow> (candle list \<times> instant) http" where
  "list_candles st i q p =
     (if \<not> (60 \<le> kq_timeframe_seconds q \<and> kq_timeframe_seconds q \<le> 86400 \<and> 1 \<le> kq_limit q \<and> kq_limit q \<le> 1000 \<and> 0 \<le> kq_offset q)
      then unprocessable ''request validation failed''
      else hbind (utc (kq_start q)) (\<lambda>from_at. hbind (utc (kq_end q)) (\<lambda>to_at. hbind (utc (kq_as_of q)) (\<lambda>cutoff.
        if from_at \<ge> to_at \<or> to_at - from_at > 31 * day_length then unprocessable ''range must span at most 31 days''
        else if (case kq_aggregate q of None \<Rightarrow> False | Some t \<Rightarrow> timeframe_value t \<le> kq_timeframe_seconds q)
        then unprocessable ''aggregate must exceed source timeframe''
        else if i \<notin> in_id ` set (as_instruments st) then Inl (HTTPException 404 ''instrument not found'')
        else hbind (history st i q from_at to_at cutoff) (\<lambda>candles. Inr (page_of (kq_limit q) (kq_offset q) candles, cutoff))))))"

definition list_quality_events :: "api_store \<Rightarrow> uuid \<Rightarrow> int \<Rightarrow> int \<Rightarrow> principal \<Rightarrow> quality_event list http" where
  "list_quality_events st i limit offset p =
     (if limit < 1 \<or> limit > 100 \<or> offset < 0 then unprocessable ''request validation failed''
      else if i \<notin> in_id ` set (as_instruments st) then Inl (HTTPException 404 ''instrument not found'')
      else Inr (page_of limit offset (sort_key qe_timestamp (sort_key qe_id
             (filter (\<lambda>e. qe_instrument_id e = Some i) (md_events (as_market st)))))))"

end
