(* ===== verification/Market_Api_Laws.thy ===== *)
theory Market_Api_Laws
  imports Market_Api
begin

text \<open>
  What the market data routes promise: a published session is never revised, a source event keeps its
  payload, and the history of an instrument does not depend on anything from after its cutoff.
\<close>

lemma hfold_invariant:
  assumes "hfold f s xs = Inr s'" and "P s" and "\<And>s x s'. x \<in> set xs \<Longrightarrow> P s \<Longrightarrow> f s x = Inr s' \<Longrightarrow> P s'"
  shows "P s'"
  using assms by (induction xs arbitrary: s) (auto simp: hbind_eq_Inr)

section \<open>The calendar\<close>

text \<open>The batch as a dict: distinct days, each with its own item, and every item of the request is in it.\<close>

definition supplied_ok :: "(int \<times> market_session) list \<Rightarrow> bool" where
  "supplied_ok d \<longleftrightarrow> distinct (map fst d) \<and> (\<forall>(day, item) \<in> set d. ms_session_date item = day)"

lemma supply_session_cases:
  assumes "supply_session d item = Inr d'"
  shows "d' = d \<and> map_of d (ms_session_date item) = Some item
    \<or> d' = d @ [(ms_session_date item, item)] \<and> map_of d (ms_session_date item) = None"
  using assms by (auto simp: supply_session_def unprocessable_def conflict_def split: if_splits option.splits)

lemma supply_session_ok: "supply_session d item = Inr d' \<Longrightarrow> supplied_ok d \<Longrightarrow> supplied_ok d'"
  by (drule supply_session_cases) (auto simp: supplied_ok_def map_of_eq_None_iff)

lemma supplied_batch:
  assumes "hfold supply_session d items = Inr d'" and "supplied_ok d"
  shows "supplied_ok d' \<and> (\<forall>item \<in> set items. map_of d' (ms_session_date item) = Some item)
    \<and> (\<forall>k v. map_of d k = Some v \<longrightarrow> map_of d' k = Some v)"
  using assms
proof (induction items arbitrary: d)
  case (Cons item items)
  then obtain d1 where d1: "supply_session d item = Inr d1" "hfold supply_session d1 items = Inr d'"
    by (auto simp: hbind_eq_Inr)
  have grown: "map_of d1 (ms_session_date item) = Some item" "\<And>k v. map_of d k = Some v \<Longrightarrow> map_of d1 k = Some v"
    using supply_session_cases[OF d1(1)] by (auto simp: map_add_def split: option.splits)
  show ?case
    using Cons.IH[OF d1(2) supply_session_ok[OF d1(1) Cons.prems(2)]] grown by auto
qed simp

lemma import_sessions_Inr:
  assumes "import_sessions now correlation st q p = Inr (st', n)"
  obtains supplied missing where "calendar_request_ok now q" "hfold supply_session [] (cq_sessions q) = Inr supplied" "supplied_ok supplied"
    "\<And>item. item \<in> set (cq_sessions q) \<Longrightarrow> map_of supplied (ms_session_date item) = Some item"
    "\<And>d. d \<in> set supplied \<Longrightarrow> \<not> revises (as_sessions st) (cq_source q) (instant_of (cq_published_at q)) d"
    "missing = filter (\<lambda>(day, _). find_session (as_sessions st) day = None) supplied" "n = length missing"
    "as_sessions st' = as_sessions st @ map (session_row_for (cq_source q) (instant_of (cq_published_at q)) \<circ> snd) missing"
    "missing = [] \<Longrightarrow> st' = st"
proof -
  obtain supplied where s: "calendar_request_ok now q" "hfold supply_session [] (cq_sessions q) = Inr supplied"
      "\<not> list_ex (revises (as_sessions st) (cq_source q) (instant_of (cq_published_at q))) supplied"
    using assms by (auto simp: import_sessions_def hbind_eq_Inr unprocessable_def conflict_def Let_def split: if_splits)
  have batch: "supplied_ok supplied" "\<And>item. item \<in> set (cq_sessions q) \<Longrightarrow> map_of supplied (ms_session_date item) = Some item"
    using supplied_batch[OF s(2)] by (auto simp: supplied_ok_def)
  show thesis
    by (rule that[OF s(1,2) batch, of "filter (\<lambda>(day, _). find_session (as_sessions st) day = None) supplied"])
      (use assms s in \<open>auto simp: import_sessions_def list_ex_iff Let_def\<close>)
qed

lemma find_session_rows:
  assumes "supplied_ok d" and "(day, item) \<in> set d"
  shows "find_session (map (session_row_for source t \<circ> snd) d) day = Some (session_row_for source t item)"
  using assms
proof (induction d)
  case (Cons x d)
  then show ?case by (cases x) (force simp: find_session_def session_row_for_def supplied_ok_def)
qed simp

lemma supplied_ok_filter: "supplied_ok d \<Longrightarrow> supplied_ok (filter P d)"
  by (auto simp: supplied_ok_def distinct_map_filter)

lemma import_keeps_sessions:
  assumes "import_sessions now correlation st q p = Inr (st', n)" and "find_session (as_sessions st) day = Some row"
  shows "find_session (as_sessions st') day = Some row"
  using assms by (elim import_sessions_Inr) (simp add: find_session_def find_append)

lemma import_records_sessions:
  assumes "import_sessions now correlation st q p = Inr (st', n)" and "item \<in> set (cq_sessions q)"
  shows "find_session (as_sessions st') (ms_session_date item)
    = Some (session_row_for (cq_source q) (instant_of (cq_published_at q)) item)"
  using assms(1)
proof (rule import_sessions_Inr)
  fix supplied missing
  assume ok: "supplied_ok supplied" and all: "\<And>item. item \<in> set (cq_sessions q) \<Longrightarrow> map_of supplied (ms_session_date item) = Some item"
    and same: "\<And>d. d \<in> set supplied \<Longrightarrow> \<not> revises (as_sessions st) (cq_source q) (instant_of (cq_published_at q)) d"
    and missing: "missing = filter (\<lambda>(day, _). find_session (as_sessions st) day = None) supplied"
    and rows: "as_sessions st' = as_sessions st @ map (session_row_for (cq_source q) (instant_of (cq_published_at q)) \<circ> snd) missing"
  have mem: "(ms_session_date item, item) \<in> set supplied" using all[OF assms(2)] by (rule map_of_SomeD)
  show ?thesis
  proof (cases "find_session (as_sessions st) (ms_session_date item)")
    case None
    then have "(ms_session_date item, item) \<in> set missing" using mem missing by simp
    with find_session_rows[OF supplied_ok_filter[OF ok]] None show ?thesis
      unfolding rows missing by (simp add: find_session_def find_append)
  next
    case (Some row)
    have "sn_exchange row = NSE" "sn_session_date row = ms_session_date item"
      using Some by (auto simp: find_session_def dest!: find_Some_in)
    then have "row = session_row_for (cq_source q) (instant_of (cq_published_at q)) item"
      using same[OF mem] Some by (simp add: revises_def session_row_for_def)
    then show ?thesis using import_keeps_sessions[OF assms(1) Some] by simp
  qed
qed

datatype calendar_op = ImportSessions instant string calendar_request principal

definition calendar_exec :: "api_store \<Rightarrow> calendar_op \<Rightarrow> api_store" where
  "calendar_exec st op = (case op of ImportSessions now correlation q p \<Rightarrow>
     (case import_sessions now correlation st q p of Inl _ \<Rightarrow> st | Inr (st', _) \<Rightarrow> st'))"

interpretation calendar_store: write_once "\<lambda>st. find_session (as_sessions st)" calendar_exec
proof
  fix st :: api_store and k r op
  assume "find_session (as_sessions st) k = Some r"
  then show "find_session (as_sessions (calendar_exec st op)) k = Some r"
    by (cases op) (auto simp: calendar_exec_def import_keeps_sessions split: sum.splits)
qed

text \<open>A published exchange session is never revised.  Once an import was accepted, after any later imports every session
  of it is stored exactly as published; repeating the import inserts nothing and changes nothing, and an import that states
  anything else for one of its days - times, trading flag, source or publication time - is refused with 409 or 422.\<close>

theorem published_sessions_are_never_revised:
  assumes "import_sessions now correlation st q p = Inr (st1, n)" and "st2 = foldl calendar_exec st1 ops"
    and "item \<in> set (cq_sessions q)"
  shows "find_session (as_sessions st2) (ms_session_date item) = Some (session_row_for (cq_source q) (instant_of (cq_published_at q)) item)
    \<and> (now \<le> now' \<longrightarrow> import_sessions now' correlation' st2 q p' = Inr (st2, 0))
    \<and> (\<forall>q' item'. item' \<in> set (cq_sessions q') \<and> ms_session_date item' = ms_session_date item
         \<and> (item' \<noteq> item \<or> cq_source q' \<noteq> cq_source q \<or> instant_of (cq_published_at q') \<noteq> instant_of (cq_published_at q))
         \<longrightarrow> (\<exists>code m. import_sessions now' correlation' st2 q' p' = Inl (HTTPException code m) \<and> code \<in> {409, 422}))"
proof (intro conjI impI allI)
  let ?row = "session_row_for (cq_source q) (instant_of (cq_published_at q))"
  have stored: "find_session (as_sessions st2) (ms_session_date i) = Some (?row i)" if "i \<in> set (cq_sessions q)" for i
    unfolding assms(2) by (rule calendar_store.run_keeps) (rule import_records_sessions[OF assms(1) that])
  then show "find_session (as_sessions st2) (ms_session_date item) = Some (?row item)" using assms(3) .
  show "import_sessions now' correlation' st2 q p' = Inr (st2, 0)" if "now \<le> now'"
    using assms(1)
  proof (rule import_sessions_Inr)
    fix supplied
    assume ok: "calendar_request_ok now q" and batch: "hfold supply_session [] (cq_sessions q) = Inr supplied" "supplied_ok supplied"
    have from_q: "\<And>d x. set d \<subseteq> (\<lambda>i. (ms_session_date i, i)) ` set (cq_sessions q) \<Longrightarrow> x \<in> set (cq_sessions q)
        \<Longrightarrow> supply_session d x = Inr d' \<Longrightarrow> set d' \<subseteq> (\<lambda>i. (ms_session_date i, i)) ` set (cq_sessions q)" for d'
      by (drule supply_session_cases) auto
    have "set supplied \<subseteq> (\<lambda>i. (ms_session_date i, i)) ` set (cq_sessions q)"
      by (rule hfold_invariant[OF batch(1)]) (use from_q in auto)
    then have found: "find_session (as_sessions st2) day = Some (?row i)" if "(day, i) \<in> set supplied" for day i
      using stored that by auto
    have "filter (\<lambda>(day, _). find_session (as_sessions st2) day = None) supplied = []"
      using found by (auto simp: filter_empty_conv)
    moreover have "\<not> list_ex (revises (as_sessions st2) (cq_source q) (instant_of (cq_published_at q))) supplied"
      using found by (auto simp: list_ex_iff revises_def session_row_for_def)
    moreover have "calendar_request_ok now' q" using ok that by (auto simp: calendar_request_ok_def)
    ultimately show ?thesis using batch(1) by (simp add: import_sessions_def Let_def)
  qed
  fix q' :: calendar_request and item' :: market_session
  assume other: "item' \<in> set (cq_sessions q') \<and> ms_session_date item' = ms_session_date item
    \<and> (item' \<noteq> item \<or> cq_source q' \<noteq> cq_source q \<or> instant_of (cq_published_at q') \<noteq> instant_of (cq_published_at q))"
  show "\<exists>code m. import_sessions now' correlation' st2 q' p' = Inl (HTTPException code m) \<and> code \<in> {409, 422}"
  proof (cases "import_sessions now' correlation' st2 q' p'")
    case (Inr x)
    then obtain st3 n' where imported: "import_sessions now' correlation' st2 q' p' = Inr (st3, n')" by (cases x) simp
    have "find_session (as_sessions st3) (ms_session_date item) = Some (?row item)"
      by (rule import_keeps_sessions[OF imported stored[OF assms(3)]])
    moreover have "find_session (as_sessions st3) (ms_session_date item) = Some (session_row_for (cq_source q') (instant_of (cq_published_at q')) item')"
      using import_records_sessions[OF imported, of item'] other by simp
    moreover have "ms_exchange item = NSE" "ms_exchange item' = NSE"
    proof -
      have nse: "ms_exchange i = NSE" if "hfold supply_session d items = Inr d'" "i \<in> set items" for i d d' items
        using that by (induction items arbitrary: d) (auto simp: hbind_eq_Inr supply_session_def unprocessable_def split: if_splits)
      show "ms_exchange item = NSE" using assms(1) by (rule import_sessions_Inr) (use nse assms(3) in blast)
      show "ms_exchange item' = NSE" using imported by (rule import_sessions_Inr) (use nse other in blast)
    qed
    ultimately have "item' = item \<and> cq_source q' = cq_source q \<and> instant_of (cq_published_at q') = instant_of (cq_published_at q)"
      by (simp add: session_row_for_def)
    then show ?thesis using other by blast
  next
    case (Inl e)
    have "\<exists>code m. e = HTTPException code m \<and> code \<in> {409, 422}" if "hfold supply_session d items = Inl e" for d items
      using that by (induction items arbitrary: d)
        (auto simp: hbind_def supply_session_def unprocessable_def conflict_def split: if_splits option.splits sum.splits)
    then show ?thesis using Inl
      by (auto simp: import_sessions_def hbind_def unprocessable_def conflict_def Let_def split: if_splits sum.splits)
  qed
qed

definition sample_session :: market_session where
  "sample_session = \<lparr>ms_exchange = NSE, ms_session_date = 4, ms_opens_at = local_instant 4 33300, ms_closes_at = local_instant 4 55800,
     ms_is_trading_day = True\<rparr>"

definition sample_calendar :: calendar_request where
  "sample_calendar = \<lparr>cq_source = ''nse'', cq_published_at = Aware 0, cq_sessions = [sample_session]\<rparr>"

definition empty_api :: api_store where
  "empty_api = \<lparr>as_sessions = [], as_instruments = [], as_market = empty_market, as_audit = []\<rparr>"

definition sample_operator :: principal where
  "sample_operator = \<lparr>pr_subject = ''api:operator'', pr_role = OPERATOR, pr_credential_sha256 = []\<rparr>"

lemma sample_calendar_ok: "calendar_request_ok 1 sample_calendar"
  by (simp add: calendar_request_ok_def sample_calendar_def sample_session_def local_instant_def seconds_def)

lemma sample_supply: "supply_session [] sample_session = Inr [(4, sample_session)]"
  by (simp add: supply_session_def sample_session_def local_date_of_instant)

theorem published_sessions_are_never_revised_witness:
  "\<exists>st1. import_sessions 1 ''c'' empty_api sample_calendar sample_operator = Inr (st1, 1)
     \<and> import_sessions 2 ''d'' st1 sample_calendar sample_operator = Inr (st1, 0)"
proof -
  obtain st1 where one: "import_sessions 1 ''c'' empty_api sample_calendar sample_operator = Inr (st1, 1)"
    using sample_calendar_ok sample_supply
    by (simp add: import_sessions_def sample_calendar_def empty_api_def revises_def find_session_def Let_def)
  have "sample_session \<in> set (cq_sessions sample_calendar)" by (simp add: sample_calendar_def)
  from published_sessions_are_never_revised[OF one, of st1 "[]" sample_session 2 "''d''" sample_operator, OF _ this] one
  show ?thesis by auto
qed

section \<open>History\<close>

definition adds_later_rows :: "instant \<Rightarrow> api_store \<Rightarrow> api_store \<Rightarrow> bool" where
  "adds_later_rows cutoff st st' \<longleftrightarrow>
     (\<exists>candles sessions. md_candles (as_market st') = md_candles (as_market st) @ candles
        \<and> as_sessions st' = as_sessions st @ sessions \<and> as_instruments st' = as_instruments st
        \<and> (\<forall>c \<in> set candles. cutoff < candle_timestamp c \<or> \<not> candle_is_closed c)
        \<and> (\<forall>r \<in> set sessions. cutoff < sn_published_at r))"

lemma later_rows_are_invisible:
  assumes "kq_as_of q = Aware cutoff" and "adds_later_rows cutoff st st'"
  shows "list_candles st' i q p = list_candles st i q p"
proof -
  obtain candles sessions where later: "md_candles (as_market st') = md_candles (as_market st) @ candles"
      "as_sessions st' = as_sessions st @ sessions" "as_instruments st' = as_instruments st"
      "\<forall>c \<in> set candles. cutoff < candle_timestamp c \<or> \<not> candle_is_closed c" "\<forall>r \<in> set sessions. cutoff < sn_published_at r"
    using assms(2) unfolding adds_later_rows_def by blast
  have rows: "candle_rows (as_market st') i tf a b cutoff = candle_rows (as_market st) i tf a b cutoff" for tf a b
  proof -
    have "filter (\<lambda>c. candle_instrument_id c = i \<and> candle_timeframe_seconds c = tf \<and> a \<le> candle_timestamp c
        \<and> candle_timestamp c < b \<and> candle_timestamp c \<le> cutoff \<and> candle_is_closed c) candles = []"
      using later(4) by (force simp: filter_empty_conv)
    then show ?thesis by (simp add: candle_rows_def later(1))
  qed
  have calendar: "published_sessions (as_sessions st') a b cutoff = published_sessions (as_sessions st) a b cutoff" for a b
  proof -
    have none: "filter (\<lambda>r. sn_published_at r \<le> cutoff) (nse_between x y sessions) = []" for x y
      using later(5) by (force simp: nse_between_def filter_empty_conv)
    have "nse_between x y (as_sessions st @ sessions) = nse_between x y (as_sessions st) @ nse_between x y sessions" for x y
      by (simp add: nse_between_def)
    then show ?thesis by (simp add: published_sessions_def later(2) Let_def none)
  qed
  have hist: "history st' i q a b cutoff = history st i q a b cutoff" for a b
    unfolding history_def rows calendar by (rule refl)
  show "list_candles st' i q p = list_candles st i q p"
    unfolding list_candles_def later(3) assms(1) utc_def datetime.case hbind_simps hist by (rule refl)
qed

lemma listed_candles:
  assumes "kq_as_of q = Aware cutoff" and *: "market_ok (as_market st) \<and> kq_aggregate q = None \<and> list_candles st i q p = Inr (items, t)"
    and c: "c \<in> set items"
  shows "c \<in> set (md_candles (as_market st))" "candle_is_closed c" "candle_instrument_id c = i"
    "candle_timeframe_seconds c = kq_timeframe_seconds q" "candle_available_at c \<le> cutoff"
    "\<exists>a b. kq_start q = Aware a \<and> kq_end q = Aware b \<and> a \<le> candle_timestamp c \<and> candle_timestamp c < b"
proof -
  obtain a b where range: "utc (kq_start q) = Inr a" "utc (kq_end q) = Inr b"
    using * by (auto simp: list_candles_def hbind_eq_Inr unprocessable_def split: if_splits)
  have "\<exists>all. history st i q a b cutoff = Inr all \<and> items = page_of (kq_limit q) (kq_offset q) all"
    using * range assms(1) by (auto simp: list_candles_def hbind_eq_Inr unprocessable_def utc_def split: if_splits)
  then obtain all where all: "history st i q a b cutoff = Inr all" "items = page_of (kq_limit q) (kq_offset q) all" by blast
  let ?rows = "candle_rows (as_market st) i (kq_timeframe_seconds q) a b cutoff"
  have members: "set ?rows \<subseteq> {c \<in> set (md_candles (as_market st)). candle_instrument_id c = i \<and> candle_timeframe_seconds c = kq_timeframe_seconds q
      \<and> a \<le> candle_timestamp c \<and> candle_timestamp c < b \<and> candle_is_closed c}"
    by (auto simp: candle_rows_def dest!: in_set_takeD)
  then have "rmap revalidate ?rows = Inr ?rows"
    using rmap_map[of ?rows revalidate "\<lambda>c. c"] * revalidate_ok by (auto simp: market_ok_def)
  then have "all = filter (\<lambda>c. candle_available_at c \<le> cutoff) ?rows"
    using all(1) * by (simp add: history_def internal_error_def)
  then have "c \<in> set ?rows \<and> candle_available_at c \<le> cutoff"
    using c all(2) by (auto simp: page_of_def dest!: in_set_takeD in_set_dropD)
  moreover have "kq_start q = Aware a" "kq_end q = Aware b"
    using range by (auto simp: utc_def unprocessable_def split: datetime.splits)
  ultimately show "c \<in> set (md_candles (as_market st))" "candle_is_closed c" "candle_instrument_id c = i"
      "candle_timeframe_seconds c = kq_timeframe_seconds q" "candle_available_at c \<le> cutoff"
      "\<exists>a b. kq_start q = Aware a \<and> kq_end q = Aware b \<and> a \<le> candle_timestamp c \<and> candle_timestamp c < b"
    using members by auto
qed

text \<open>C10: The history of an instrument is point-in-time.  Candles that begin after the cutoff or are not closed, and sessions
  published after it, never change an answer, aggregated or not, whatever the rest of the store holds; and without
  aggregation every candle returned is a stored closed candle of the instrument and timeframe, in the range, and was
  available at the cutoff.\<close>

theorem history_is_point_in_time:
  assumes "kq_as_of q = Aware cutoff" and "adds_later_rows cutoff st st'"
  shows "list_candles st' i q p = list_candles st i q p
    \<and> (market_ok (as_market st) \<and> kq_aggregate q = None \<and> list_candles st i q p = Inr (items, t) \<longrightarrow>
        (\<forall>c \<in> set items. c \<in> set (md_candles (as_market st)) \<and> candle_is_closed c \<and> candle_instrument_id c = i
           \<and> candle_timeframe_seconds c = kq_timeframe_seconds q \<and> candle_available_at c \<le> cutoff
           \<and> (\<exists>a b. kq_start q = Aware a \<and> kq_end q = Aware b \<and> a \<le> candle_timestamp c \<and> candle_timestamp c < b)))"
  by (intro conjI impI ballI later_rows_are_invisible[OF assms]; rule listed_candles[OF assms(1)]; assumption)

definition sample_bar :: "int \<Rightarrow> candle" where
  "sample_bar t = \<lparr>candle_instrument_id = 1, candle_timestamp = seconds t, candle_timeframe_seconds = 60, candle_open = 10, candle_high = 12,
     candle_low = 9, candle_close = 11, candle_volume = 5, candle_open_interest = None, candle_is_closed = True\<rparr>"

definition bar_instrument :: instrument where
  "bar_instrument = \<lparr>in_id = 1, in_symbol = ''X'', in_exchange = NSE, in_segment = CASH, in_isin = None, in_tick_size = 1, in_lot_size = 1,
     in_currency = ''INR'', in_active = True\<rparr>"

definition bar_api :: "candle list \<Rightarrow> api_store" where
  "bar_api cs = \<lparr>as_sessions = [], as_instruments = [bar_instrument], as_market = empty_market\<lparr>md_candles := cs\<rparr>, as_audit = []\<rparr>"

definition bar_query :: "instant \<Rightarrow> candle_query" where
  "bar_query t = \<lparr>kq_start = Aware 0, kq_end = Aware (seconds 3600), kq_as_of = Aware t, kq_timeframe_seconds = 60, kq_aggregate = None,
     kq_limit = 10, kq_offset = 0\<rparr>"

lemma sample_bar_ok: "candle_ok (sample_bar t)"
  by (simp add: candle_ok_def sample_bar_def candle_fields_ok_def)

theorem history_is_point_in_time_witness:
  "list_candles (bar_api [sample_bar 0, sample_bar 600]) 1 (bar_query (seconds 300)) sample_operator = Inr ([sample_bar 0], seconds 300)
   \<and> candle_available_at (sample_bar 0) \<le> seconds 300"
proof -
  have one: "list_candles (bar_api [sample_bar 0]) 1 (bar_query (seconds 300)) sample_operator = Inr ([sample_bar 0], seconds 300)"
    using revalidate_ok[OF sample_bar_ok, of 0]
    by (simp add: list_candles_def bar_api_def bar_query_def bar_instrument_def utc_def history_def internal_error_def candle_rows_def
        empty_market_def page_of_def day_length_def seconds_def sample_bar_def candle_available_at_def source_available_at_def
        timeframe_value_def)
  have "adds_later_rows (seconds 300) (bar_api [sample_bar 0]) (bar_api [sample_bar 0, sample_bar 600])"
    by (auto simp: adds_later_rows_def bar_api_def sample_bar_def seconds_def)
  moreover have "kq_as_of (bar_query (seconds 300)) = Aware (seconds 300)" by (simp add: bar_query_def)
  moreover have "market_ok (as_market (bar_api [sample_bar 0]))"
    by (simp add: market_ok_def bar_api_def empty_market_def sample_bar_ok)
  moreover have "kq_aggregate (bar_query (seconds 300)) = None" by (simp add: bar_query_def)
  ultimately show ?thesis
    using history_is_point_in_time[of "bar_query (seconds 300)" "seconds 300" "bar_api [sample_bar 0]" "bar_api [sample_bar 0, sample_bar 600]"
        1 sample_operator "[sample_bar 0]" "seconds 300"] one by simp
qed

section \<open>Weekly history before the first close\<close>

text \<open>A weekly history is refused instead of empty while its only daily bars are still forming at the cutoff: with a valid
  calendar, and some daily candle in the range but none available at the cutoff, the answer is 409 ''weekly aggregation
  requires daily source candles'', although the source is daily; without any candle in the range it is the empty list.\<close>

theorem weekly_history_conflicts_before_the_first_close:
  assumes "candles \<noteq> []" and "uniform i 86400 candles" and "calendar_for session_lookup sessions = Inr cal"
    and "list_all (\<lambda>c. \<not> known_by cal 86400 cutoff c) candles"
  shows "aggregated (aggregate_closed_candles candles WEEK_1 (Aware cutoff) sessions)
      = Inl (HTTPException 409 ''weekly aggregation requires daily source candles'')
    \<and> aggregated (aggregate_closed_candles [] WEEK_1 (Aware cutoff) sessions) = Inr []"
proof -
  have "filter (known_by cal 86400 cutoff) candles = []" using assms(4) by (auto simp: list_all_iff filter_empty_conv)
  then have "aggregate_closed_candles candles WEEK_1 (Aware cutoff) sessions
      = Inl (ValueError ''weekly aggregation requires daily source candles'')"
    using assms(3) by (simp add: aggregate_uniform[OF assms(2,1)] timeframe_value_def by_time_def aggregate_weekly_def)
  then show ?thesis by (simp add: aggregated_def conflict_def aggregate_closed_candles_def by_time_def)
qed

theorem weekly_history_conflicts_before_the_first_close_witness:
  "aggregated (aggregate_closed_candles [(sample_bar 20000)\<lparr>candle_timeframe_seconds := 86400\<rparr>] WEEK_1 (Aware (seconds 20060)) None)
     = Inl (HTTPException 409 ''weekly aggregation requires daily source candles'')"
proof -
  let ?c = "(sample_bar 20000)\<lparr>candle_timeframe_seconds := 86400\<rparr>"
  have "\<not> known_by None 86400 (seconds 20060) ?c"
    by (simp add: known_by_def source_available_at_def timeframe_value_def calendar_at_def sample_bar_def local_date_def local_instant_def
        nse_close_def ist_offset_def day_length_def seconds_def)
  then show ?thesis
    using weekly_history_conflicts_before_the_first_close[of "[?c]" 1 None None "seconds 20060"]
    by (simp add: uniform_def sample_bar_def calendar_for_def)
qed

section \<open>Source events\<close>

lemma record_event_cases:
  assumes "record_event d item = Inr d'"
  shows "d' = AList.update (raw_source_event_id item) item d
    \<and> (\<forall>prior. map_of d (raw_source_event_id item) = Some prior \<longrightarrow> raw_identity prior = raw_identity item)"
  using assms by (auto simp: record_event_def conflict_def split: option.splits if_splits)

lemma recorded_batch:
  assumes "hfold record_event d items = Inr d'"
  shows "(\<forall>item \<in> set items. \<exists>kept. map_of d' (raw_source_event_id item) = Some kept \<and> raw_identity kept = raw_identity item)
    \<and> (\<forall>k x. map_of d k = Some x \<longrightarrow> (\<exists>y. map_of d' k = Some y \<and> raw_identity y = raw_identity x))"
  using assms
proof (induction items arbitrary: d)
  case (Cons item items)
  then obtain d1 where d1: "record_event d item = Inr d1" "hfold record_event d1 items = Inr d'"
    by (auto simp: hbind_eq_Inr)
  note IH = Cons.IH[OF d1(2)]
  note step = record_event_cases[OF d1(1)]
  have "map_of d1 (raw_source_event_id item) = Some item" using step by (simp add: update_conv')
  moreover have "\<exists>y. map_of d1 k = Some y \<and> raw_identity y = raw_identity x" if "map_of d k = Some x" for k x
    using step that by (cases "k = raw_source_event_id item") (auto simp: update_conv')
  ultimately show ?case using IH by fastforce
qed simp

text \<open>A source event never changes its payload.  When a batch of candles was accepted, the raw table holds for each of its
  records exactly one row of that source and event, and that row states the record's own instrument, time, timeframe, prices,
  volume and open interest - whether it was delivered now or by an earlier batch.\<close>

theorem source_events_keep_their_payload:
  assumes "market_ok (as_market st)" and "ingest_candles col fresh now st source candles p = Inr (st', r)" and "item \<in> set candles"
  shows "\<exists>row \<in> set (md_raw (as_market st')). raw_key row = (source, raw_source_event_id item) \<and> row_identity row = raw_identity item
    \<and> (\<forall>other \<in> set (md_raw (as_market st')). raw_key other = raw_key row \<longrightarrow> other = row)"
proof -
  obtain by_event market where *: "hfold record_event [] candles = Inr by_event"
      "\<not> list_ex (changes_payload source by_event) (md_raw (as_market st))"
      "ingest col fresh maximum_timestamp_drift (as_market st) source candles now = Inr (r, market)" "st' = st\<lparr>as_market := market\<rparr>"
    using assms(2) by (auto simp: ingest_candles_def hbind_eq_Inr unprocessable_def conflict_def internal_error_def split: if_splits sum.splits)
  have ok: "distinct (map raw_key (md_raw market))"
    using ingest_keeps_raw_distinct[OF _ *(3)] assms(1) by (simp add: market_ok_def)
  obtain n where stored: "insert_ignore (md_dialect (as_market st)) raw_key (md_raw (as_market st)) (map (raw_row source) candles) = Inr (n, md_raw market)"
    using *(3) by (rule ingest_Inr)
  then obtain new where new: "md_raw market = md_raw (as_market st) @ new" "set new \<subseteq> set (map (raw_row source) candles)"
      "raw_key ` set (map (raw_row source) candles) \<subseteq> raw_key ` set (md_raw market)"
    by (rule insert_ignore_Inr)
  have key: "raw_key (raw_row source item) = (source, raw_source_event_id item)" by (simp add: raw_key_def raw_row_def)
  have "raw_key (raw_row source item) \<in> raw_key ` set (md_raw market)" using new(3) assms(3) by auto
  then obtain row where "row \<in> set (md_raw market)" "raw_key row = raw_key (raw_row source item)" by auto
  then have row: "row \<in> set (md_raw market)" "raw_key row = (source, raw_source_event_id item)" using key by auto
  have kept: "\<exists>k. map_of by_event (raw_source_event_id a) = Some k \<and> raw_identity k = raw_identity a" if "a \<in> set candles" for a
    using conjunct1[OF recorded_batch[OF *(1)]] that by (rule bspec)
  have same: "raw_identity a = raw_identity item" if "a \<in> set candles" "raw_source_event_id a = raw_source_event_id item" for a
    using kept[OF that(1)] kept[OF assms(3)] that(2) by auto
  have same_payload: "row_identity row = raw_identity item"
  proof (cases "row \<in> set new")
    case True
    then obtain a where a: "a \<in> set candles" "row = raw_row source a" using new(2) by auto
    then have "raw_source_event_id a = raw_source_event_id item" using row(2) by (simp add: raw_key_def raw_row_def)
    then show ?thesis using same[OF a(1)] a(2) by (simp add: row_identity_def raw_identity_def raw_row_def)
  next
    case False
    then have old: "row \<in> set (md_raw (as_market st))" using row(1) new(1) by simp
    obtain k where "map_of by_event (raw_source_event_id item) = Some k" "raw_identity k = raw_identity item"
      using kept[OF assms(3)] by blast
    moreover have "\<not> changes_payload source by_event row"
      using *(2) old by (simp add: list_ex_iff)
    moreover have "rc_source row = source" "rc_source_event_id row = raw_source_event_id item"
      using row(2) by (simp_all add: raw_key_def)
    ultimately show ?thesis unfolding changes_payload_def by force
  qed
  have only: "other = row" if "other \<in> set (md_raw market)" "raw_key other = raw_key row" for other
  proof -
    have "inj_on raw_key (set (md_raw market))" using ok by (simp add: distinct_map)
    then show ?thesis using that(2,1) row(1) by (rule inj_onD)
  qed
  have market: "as_market st' = market" by (simp add: *(4))
  show ?thesis unfolding market
  proof (intro bexI conjI ballI impI)
    show "raw_key row = (source, raw_source_event_id item)" "row_identity row = raw_identity item" "row \<in> set (md_raw market)"
      by (rule row same_payload)+
  qed (rule only)
qed

theorem source_events_keep_their_payload_witness:
  "\<exists>st r. ingest_candles eight_places id (seconds 600) (bar_api []) ''vendor'' [demo_raw 1 11 ''a'', demo_raw 1 11 ''b''] sample_operator = Inr (st, r)
     \<and> (\<exists>row \<in> set (md_raw (as_market st)). raw_key row = (''vendor'', ''b'') \<and> row_identity row = raw_identity (demo_raw 1 11 ''b''))"
proof -
  obtain r db where "ingest eight_places id maximum_timestamp_drift empty_market ''vendor'' [demo_raw 1 11 ''a'', demo_raw 1 11 ''b''] (seconds 600) = Inr (r, db)"
    using demo_ingest by blast
  then have run: "ingest_candles eight_places id (seconds 600) (bar_api []) ''vendor'' [demo_raw 1 11 ''a'', demo_raw 1 11 ''b''] sample_operator
      = Inr ((bar_api [])\<lparr>as_market := db\<rparr>, r)"
    by (simp add: ingest_candles_def raw_input_ok_def bar_api_def bar_instrument_def demo_raw_def record_event_def internal_error_def
        empty_market_def)
  have "market_ok (as_market (bar_api []))" by (simp add: market_ok_def bar_api_def empty_market_def)
  from source_events_keep_their_payload[OF this run, of "demo_raw 1 11 ''b''"] run show ?thesis
    by (auto simp: demo_raw_def)
qed

end
