(* ===== verification/Replay_Api.thy ===== *)
theory Replay_Api
  imports Replay_Tasks Http
begin

text \<open>
  The replay routes (\<open>apps/api/replay.py\<close>) and the wiring of the task manager in \<open>apps/api/main.py\<close>.  The
  store holds the dataset and session tables and the process's task manager with its run table.
  While the database cannot be reached, every access to a table raises.  The JSON form of a candle, the
  dataset digest and the database's text order are parameters; times in an answer are instants.
\<close>

section \<open>The store\<close>

record 'j replay_codec =
  cx_digest :: "candle list \<Rightarrow> string"
  cx_dump :: "candle \<Rightarrow> 'j"
  cx_validate :: "'j \<Rightarrow> candle result"

record 'j replay_store =
  rp_available :: bool
  rp_datasets :: "'j replay_dataset_row list"
  rp_sessions :: session_db
  rp_tasks :: task_manager

definition access :: "'j replay_store \<Rightarrow> 'a result \<Rightarrow> 'a result" where
  "access st r = (if rp_available st then r else Inl (RuntimeError ''the database cannot be reached''))"

definition dataset_loader :: "'j replay_codec \<Rightarrow> 'j replay_store \<Rightarrow> string \<Rightarrow> candle list result" where
  "dataset_loader cx st = dataset_load (cx_digest cx) (cx_validate cx) (rp_datasets st)"

text \<open>
  The handlers of a \<open>try\<close>: a \<open>KeyError\<close> is 404 with the text Python gives it, a \<open>ValueError\<close> is 409, where the
  route catches them; anything else is 503.
\<close>

definition quoted :: "string \<Rightarrow> string" where
  "quoted m = CHR 0x27 # m @ [CHR 0x27]"

definition answer_of :: "bool \<Rightarrow> bool \<Rightarrow> string \<Rightarrow> 'a result \<Rightarrow> 'a http" where
  "answer_of lookups conflicts m r =
     (case r of
        Inr x \<Rightarrow> Inr x
      | Inl (KeyError d) \<Rightarrow> Inl (if lookups then HTTPException 404 (quoted d) else HTTPException 503 m)
      | Inl (ValueError d) \<Rightarrow> Inl (if conflicts then HTTPException 409 d else HTTPException 503 m)
      | Inl _ \<Rightarrow> Inl (HTTPException 503 m))"

section \<open>Payloads\<close>

record session_payload =
  sy_session_id :: uuid
  sy_dataset_sha256 :: string
  sy_instrument_id :: uuid
  sy_timeframe_seconds :: int
  sy_next_index :: int
  sy_total_events :: int
  sy_version :: int
  sy_checkpointed_at :: instant

definition session_payload_of :: "stored_replay_session \<Rightarrow> session_payload" where
  "session_payload_of s =
     \<lparr>sy_session_id = ss_session_id s, sy_dataset_sha256 = cp_dataset_sha256 (ss_checkpoint s), sy_instrument_id = ss_instrument_id s,
      sy_timeframe_seconds = ss_timeframe_seconds s, sy_next_index = cp_next_index (ss_checkpoint s),
      sy_total_events = ss_total_events s, sy_version = ss_version s, sy_checkpointed_at = ss_checkpointed_at s\<rparr>"

text \<open>The dataset payload has the fields of the stored dataset itself.\<close>

definition dataset_payload :: "stored_replay_dataset \<Rightarrow> stored_replay_dataset" where
  "dataset_payload d =
     \<lparr>sd_dataset_sha256 = sd_dataset_sha256 d, sd_instrument_id = sd_instrument_id d, sd_timeframe_seconds = sd_timeframe_seconds d,
      sd_total_events = sd_total_events d, sd_first_timestamp = sd_first_timestamp d, sd_last_timestamp = sd_last_timestamp d,
      sd_created_at = sd_created_at d\<rparr>"

record task_payload =
  ty_task_id :: uuid
  ty_session_id :: uuid
  ty_expected_version :: int
  ty_candles_per_second :: "rat option"
  ty_maximum_steps :: int
  ty_outcome :: string
  ty_frames_emitted :: nat
  ty_resulting_version :: "int option"
  ty_started_at :: instant
  ty_finished_at :: "instant option"
  ty_process_owned :: bool

definition task_payload_of :: "replay_task_status \<Rightarrow> bool \<Rightarrow> task_payload" where
  "task_payload_of t owned =
     (let q = ts_request t in
      \<lparr>ty_task_id = tq_task_id q, ty_session_id = tq_session_id q, ty_expected_version = tq_expected_version q,
       ty_candles_per_second = tq_candles_per_second q, ty_maximum_steps = tq_maximum_steps q,
       ty_outcome = task_outcome_value (ts_outcome t), ty_frames_emitted = ts_frames_emitted t,
       ty_resulting_version = ts_resulting_version t, ty_started_at = ts_started_at t, ty_finished_at = ts_finished_at t,
       ty_process_owned = owned\<rparr>)"

section \<open>Tasks of the application\<close>

text \<open>\<open>run_replay_task\<close> and \<open>persist_replay_task\<close>: the runner and the observer the task manager is built with.\<close>

definition run_replay_task ::
  "'j replay_codec \<Rightarrow> 'j replay_store \<Rightarrow> (nat \<Rightarrow> bool) \<Rightarrow> (nat \<Rightarrow> datetime) \<Rightarrow> (nat \<Rightarrow> session_db \<Rightarrow> session_db) \<Rightarrow> replay_task_request
     \<Rightarrow> replay_schedule_result result \<times> session_db" where
  "run_replay_task cx st stop now env q =
     run_schedule (cx_digest cx) (dataset_loader cx st) stop now env (rp_sessions st) (tq_session_id q) (tq_expected_version q)
       (tq_candles_per_second q) (tq_maximum_steps q)"

definition persist_replay_task :: "'j replay_store \<Rightarrow> run_db \<Rightarrow> replay_task_status \<Rightarrow> run_db result" where
  "persist_replay_task st runs s = access st (record_status runs s)"

section \<open>Datasets and sessions\<close>

definition create_replay_dataset ::
  "'j replay_codec \<Rightarrow> instant \<Rightarrow> 'j replay_store \<Rightarrow> candle list \<Rightarrow> ('j replay_store \<times> stored_replay_dataset) http" where
  "create_replay_dataset cx now st candles =
     (if \<not> (1 \<le> length candles \<and> length candles \<le> 10000 \<and> list_all candle_ok candles) then unprocessable ''request validation failed''
      else answer_of False True ''replay dataset storage is unavailable''
        (rbind (make_replay_engine (cx_digest cx) candles) (\<lambda>_.
         rbind (access st (dataset_store (cx_digest cx) (cx_dump cx) (cx_validate cx) (rp_datasets st) candles (Aware now))) (\<lambda>(d, db).
           Inr (st\<lparr>rp_datasets := db\<rparr>, dataset_payload d)))))"

definition create_replay_session ::
  "'j replay_codec \<Rightarrow> instant \<Rightarrow> 'j replay_store \<Rightarrow> uuid \<Rightarrow> string \<Rightarrow> ('j replay_store \<times> session_payload) http" where
  "create_replay_session cx now st sid sha =
     (if \<not> sha256_text sha then unprocessable ''request validation failed''
      else answer_of True True ''replay session storage is unavailable''
        (rbind (access st (dataset_loader cx st sha)) (\<lambda>candles.
         rbind (make_replay_engine (cx_digest cx) candles) (\<lambda>e.
         rbind (session_create (rp_sessions st) sid e (Aware now)) (\<lambda>(s, db).
           Inr (st\<lparr>rp_sessions := db\<rparr>, session_payload_of s))))))"

definition list_replay_datasets ::
  "'j replay_codec \<Rightarrow> (string \<Rightarrow> 'k::linorder) \<Rightarrow> 'j replay_store \<Rightarrow> int \<Rightarrow> int \<Rightarrow> stored_replay_dataset list http" where
  "list_replay_datasets cx collate st limit offset =
     (if \<not> valid_page limit offset then unprocessable ''request validation failed''
      else answer_of False True ''replay storage is unavailable''
        (rbind (access st (dataset_list_recent (cx_digest cx) (cx_validate cx) collate (rp_datasets st) limit offset)) (\<lambda>ds.
           Inr (map dataset_payload ds))))"

definition list_replay_sessions :: "'j replay_store \<Rightarrow> int \<Rightarrow> int \<Rightarrow> session_payload list http" where
  "list_replay_sessions st limit offset =
     (if \<not> valid_page limit offset then unprocessable ''request validation failed''
      else answer_of False False ''replay storage is unavailable''
        (rbind (access st (session_list_recent (rp_sessions st) limit offset)) (\<lambda>ss. Inr (map session_payload_of ss))))"

definition replay_snapshot_route ::
  "'j replay_codec \<Rightarrow> 'j replay_store \<Rightarrow> uuid \<Rightarrow> (session_payload \<times> candle list) http" where
  "replay_snapshot_route cx st sid =
     answer_of True True ''replay storage is unavailable''
       (rbind (access st (coordinator_snapshot (cx_digest cx) (dataset_loader cx st) (rp_sessions st) sid)) (\<lambda>(s, candles).
          Inr (session_payload_of s, candles)))"

definition step_replay_session ::
  "'j replay_codec \<Rightarrow> instant \<Rightarrow> 'j replay_store \<Rightarrow> uuid \<Rightarrow> int \<Rightarrow> ('j replay_store \<times> session_payload \<times> replay_frame option) http" where
  "step_replay_session cx now st sid expected_version =
     (if expected_version < 0 then unprocessable ''request validation failed''
      else answer_of True True ''replay storage is unavailable''
        (rbind (access st (coordinator_step (cx_digest cx) (dataset_loader cx st) (rp_sessions st) sid expected_version (Aware now))) (\<lambda>(m, db).
           Inr (st\<lparr>rp_sessions := db\<rparr>, session_payload_of (rm_session m), rm_frame m))))"

definition seek_replay_session ::
  "'j replay_codec \<Rightarrow> instant \<Rightarrow> 'j replay_store \<Rightarrow> uuid \<Rightarrow> int \<Rightarrow> datetime \<Rightarrow> ('j replay_store \<times> session_payload) http" where
  "seek_replay_session cx now st sid expected_version as_of =
     (if expected_version < 0 \<or> \<not> is_aware as_of then unprocessable ''request validation failed''
      else answer_of True True ''replay storage is unavailable''
        (rbind (access st (coordinator_seek (cx_digest cx) (dataset_loader cx st) (rp_sessions st) sid as_of expected_version (Aware now)))
          (\<lambda>(s, db). Inr (st\<lparr>rp_sessions := db\<rparr>, session_payload_of s))))"

section \<open>Playback\<close>

definition playback_request_ok :: "int \<Rightarrow> rat option \<Rightarrow> int \<Rightarrow> bool" where
  "playback_request_ok expected_version rate maximum_steps \<longleftrightarrow>
     0 \<le> expected_version \<and> (case rate of None \<Rightarrow> False | Some x \<Rightarrow> minimum_rate \<le> x \<and> x \<le> 100)
     \<and> 1 \<le> maximum_steps \<and> maximum_steps \<le> 10000"

text \<open>\<open>task_id\<close> is the identifier the request draws.\<close>

definition start_replay_playback ::
  "'j replay_codec \<Rightarrow> instant \<Rightarrow> uuid \<Rightarrow> 'j replay_store \<Rightarrow> uuid \<Rightarrow> int \<Rightarrow> rat option \<Rightarrow> int \<Rightarrow> ('j replay_store \<times> task_payload) http" where
  "start_replay_playback cx now task_id st sid expected_version rate maximum_steps =
     (if \<not> playback_request_ok expected_version rate maximum_steps then unprocessable ''request validation failed''
      else answer_of True True ''replay storage is unavailable''
        (rbind (access st (coordinator_snapshot (cx_digest cx) (dataset_loader cx st) (rp_sessions st) sid)) (\<lambda>(stored, _).
           if ss_version stored \<noteq> expected_version then Inl (ValueError ''replay session version is stale'')
           else rbind (make_task_request \<lparr>tq_session_id = sid, tq_expected_version = expected_version, tq_candles_per_second = rate,
                         tq_maximum_steps = maximum_steps, tq_task_id = task_id\<rparr>) (\<lambda>q.
                rbind (task_start (persist_replay_task st) (rp_tasks st) q now) (\<lambda>(s, tasks).
                  Inr (st\<lparr>rp_tasks := tasks\<rparr>, task_payload_of s True))))))"

definition replay_playback_status :: "'j replay_store \<Rightarrow> uuid \<Rightarrow> task_payload http" where
  "replay_playback_status st sid =
     (case task_status (rp_tasks st) sid of
        Inr task \<Rightarrow> Inr (task_payload_of task (ts_outcome task = RUNNING))
      | Inl _ \<Rightarrow>
          answer_of True False ''replay storage is unavailable''
            (rbind (access st (session_load (rp_sessions st) sid)) (\<lambda>_.
             rbind (latest_run (tm_runs (rp_tasks st)) sid) (\<lambda>task. Inr (task_payload_of task False)))))"

definition list_replay_playback_runs :: "'j replay_store \<Rightarrow> uuid \<Rightarrow> int \<Rightarrow> int \<Rightarrow> task_payload list http" where
  "list_replay_playback_runs st sid limit offset =
     (if \<not> valid_page limit offset then unprocessable ''request validation failed''
      else answer_of True False ''replay storage is unavailable''
        (rbind (access st (session_load (rp_sessions st) sid)) (\<lambda>_.
         rbind (list_runs (tm_runs (rp_tasks st)) sid limit offset) (\<lambda>runs. Inr (map (\<lambda>run. task_payload_of run False) runs)))))"

definition replay_playback_run :: "'j replay_store \<Rightarrow> uuid \<Rightarrow> task_payload http" where
  "replay_playback_run st task_id =
     answer_of True False ''replay storage is unavailable''
       (rbind (access st (load_run (tm_runs (rp_tasks st)) task_id)) (\<lambda>task.
          case task_status (rp_tasks st) (tq_session_id (ts_request task)) of
            Inl _ \<Rightarrow> Inr (task_payload_of task False)
          | Inr owned \<Rightarrow>
              if tq_task_id (ts_request owned) = task_id then Inr (task_payload_of owned (ts_outcome owned = RUNNING))
              else Inr (task_payload_of task False)))"

text \<open>
  Stopping: the stop flag is set under the lock, the route waits for the asyncio task, and reads the
  status of the session afterwards.  \<open>wait\<close> is what happens to the store while it waits.
\<close>

definition not_owned :: "'j replay_store \<Rightarrow> uuid \<Rightarrow> 'a http" where
  "not_owned st sid =
     hbind (answer_of True False ''replay storage is unavailable''
       (rbind (access st (session_load (rp_sessions st) sid)) (\<lambda>_. latest_run (tm_runs (rp_tasks st)) sid)))
       (\<lambda>_. conflict ''replay playback task is not owned by this process'')"

definition stop_replay_playback ::
  "('j replay_store \<Rightarrow> 'j replay_store) \<Rightarrow> 'j replay_store \<Rightarrow> uuid \<Rightarrow> ('j replay_store \<times> task_payload) http" where
  "stop_replay_playback wait st sid =
     (case request_stop (rp_tasks st) sid of
        Inl _ \<Rightarrow> not_owned st sid
      | Inr tasks \<Rightarrow>
          let st' = wait (st\<lparr>rp_tasks := tasks\<rparr>) in
          case task_status (rp_tasks st') sid of
            Inl _ \<Rightarrow> not_owned st' sid
          | Inr task \<Rightarrow> Inr (st', task_payload_of task False))"

section \<open>The router\<close>

datatype replay_request =
    CreateDataset "candle list"
  | CreateSession uuid string
  | ListDatasets int int
  | ListSessions int int
  | Snapshot uuid
  | StepSession uuid int
  | SeekSession uuid int datetime
  | StartPlayback uuid uuid int "rat option" int
  | PlaybackStatus uuid
  | PlaybackRuns uuid int int
  | PlaybackRun uuid
  | StopPlayback uuid

datatype replay_answer =
    Datasets "stored_replay_dataset list"
  | Sessions "session_payload list"
  | SnapshotOf session_payload "candle list"
  | Stepped session_payload "replay_frame option"
  | Tasks "task_payload list"

fun operator_route :: "replay_request \<Rightarrow> bool" where
  "operator_route (CreateDataset _) = True"
| "operator_route (CreateSession _ _) = True"
| "operator_route (StepSession _ _) = True"
| "operator_route (SeekSession _ _ _) = True"
| "operator_route (StartPlayback _ _ _ _ _) = True"
| "operator_route (StopPlayback _) = True"
| "operator_route _ = False"

fun serve_replay ::
  "'j replay_codec \<Rightarrow> (string \<Rightarrow> 'k::linorder) \<Rightarrow> ('j replay_store \<Rightarrow> 'j replay_store) \<Rightarrow> instant \<Rightarrow> 'j replay_store \<Rightarrow> replay_request
     \<Rightarrow> ('j replay_store \<times> replay_answer) http" where
  "serve_replay cx collate wait now st (CreateDataset candles) =
     hbind (create_replay_dataset cx now st candles) (\<lambda>(st', d). Inr (st', Datasets [d]))"
| "serve_replay cx collate wait now st (CreateSession sid sha) =
     hbind (create_replay_session cx now st sid sha) (\<lambda>(st', s). Inr (st', Sessions [s]))"
| "serve_replay cx collate wait now st (ListDatasets limit offset) =
     hbind (list_replay_datasets cx collate st limit offset) (\<lambda>ds. Inr (st, Datasets ds))"
| "serve_replay cx collate wait now st (ListSessions limit offset) =
     hbind (list_replay_sessions st limit offset) (\<lambda>ss. Inr (st, Sessions ss))"
| "serve_replay cx collate wait now st (Snapshot sid) =
     hbind (replay_snapshot_route cx st sid) (\<lambda>(s, candles). Inr (st, SnapshotOf s candles))"
| "serve_replay cx collate wait now st (StepSession sid v) =
     hbind (step_replay_session cx now st sid v) (\<lambda>(st', s, frame). Inr (st', Stepped s frame))"
| "serve_replay cx collate wait now st (SeekSession sid v as_of) =
     hbind (seek_replay_session cx now st sid v as_of) (\<lambda>(st', s). Inr (st', Sessions [s]))"
| "serve_replay cx collate wait now st (StartPlayback task_id sid v rate steps) =
     hbind (start_replay_playback cx now task_id st sid v rate steps) (\<lambda>(st', t). Inr (st', Tasks [t]))"
| "serve_replay cx collate wait now st (PlaybackStatus sid) =
     hbind (replay_playback_status st sid) (\<lambda>t. Inr (st, Tasks [t]))"
| "serve_replay cx collate wait now st (PlaybackRuns sid limit offset) =
     hbind (list_replay_playback_runs st sid limit offset) (\<lambda>ts. Inr (st, Tasks ts))"
| "serve_replay cx collate wait now st (PlaybackRun task_id) =
     hbind (replay_playback_run st task_id) (\<lambda>t. Inr (st, Tasks [t]))"
| "serve_replay cx collate wait now st (StopPlayback sid) =
     hbind (stop_replay_playback wait st sid) (\<lambda>(st', t). Inr (st', Tasks [t]))"

text \<open>A request with its dependency.\<close>

definition handle_replay ::
  "(string \<Rightarrow> string) \<Rightarrow> settings \<Rightarrow> authenticator \<Rightarrow> revocation_db option \<Rightarrow> string option \<Rightarrow> 'j replay_codec \<Rightarrow> (string \<Rightarrow> 'k::linorder)
     \<Rightarrow> ('j replay_store \<Rightarrow> 'j replay_store) \<Rightarrow> instant \<Rightarrow> 'j replay_store \<Rightarrow> replay_request \<Rightarrow> ('j replay_store \<times> replay_answer) http" where
  "handle_replay sha s a revoked authorization cx collate wait now st q =
     (if operator_route q then as_operator sha s a revoked now authorization (\<lambda>_. serve_replay cx collate wait now st q)
      else as_viewer sha s a revoked now authorization (\<lambda>_. serve_replay cx collate wait now st q))"

end
