(* ===== verification/Replay_Api_Laws.thy ===== *)
theory Replay_Api_Laws
  imports Replay_Api
begin

text \<open>
  What the replay routes promise: they fail closed, a stored dataset is replayed candle by candle, and
  a session version that was spent is refused by every later request, whatever other requests and the
  scheduler's runner do in between.
\<close>

section \<open>Tables whose rows only move forward\<close>

text \<open>
  The interface of a table with versioned rows: a step keeps every row's identity and never lowers its
  version.  Over a run of steps the row of a key is then still there, the same thing at a later version.
\<close>

locale versioned_rows =
  fixes lookup :: "'db \<Rightarrow> 'k \<Rightarrow> 'r option"
    and step :: "'db \<Rightarrow> 'db \<Rightarrow> bool"
    and ok :: "'db \<Rightarrow> bool"
    and version :: "'r \<Rightarrow> int"
    and identity :: "'r \<Rightarrow> 'i"
  assumes step_ok: "ok db \<Longrightarrow> step db db' \<Longrightarrow> ok db'"
    and step_forward: "ok db \<Longrightarrow> step db db' \<Longrightarrow> lookup db k = Some r
      \<Longrightarrow> \<exists>r'. lookup db' k = Some r' \<and> identity r' = identity r \<and> version r \<le> version r'"
begin

lemma run_ok: "step\<^sup>*\<^sup>* db db' \<Longrightarrow> ok db \<Longrightarrow> ok db'"
  by (induction rule: rtranclp_induct) (auto intro: step_ok)

lemma run_forward:
  assumes "step\<^sup>*\<^sup>* db db'" and "ok db" and "lookup db k = Some r"
  shows "\<exists>r'. lookup db' k = Some r' \<and> identity r' = identity r \<and> version r \<le> version r'"
  using assms(1)
proof (induction rule: rtranclp_induct)
  case (step db1 db2)
  then obtain r1 where r1: "lookup db1 k = Some r1" "identity r1 = identity r" "version r \<le> version r1" by blast
  from step_forward[OF run_ok[OF step.hyps(1) assms(2)] step.hyps(2) r1(1)] r1(2,3) show ?case by fastforce
qed (use assms(3) in blast)

end

inductive session_write :: "(candle list \<Rightarrow> string) \<Rightarrow> session_db \<Rightarrow> session_db \<Rightarrow> bool" for digest where
  save: "session_save db sid cp v d = Inr (s, db') \<Longrightarrow> session_write digest db db'"
| create: "replay_ok digest e \<Longrightarrow> session_create db sid e d = Inr (s, db') \<Longrightarrow> session_write digest db db'"

inductive_cases session_writeE: "session_write digest db db'"

definition session_identity :: "replay_session_row \<Rightarrow> string \<times> uuid \<times> int \<times> int" where
  "session_identity r = (rs_dataset_sha256 r, rs_instrument_id r, rs_timeframe_seconds r, rs_total_events r)"

lemma session_create_forward:
  "session_create db sid e d = Inr (s, db') \<Longrightarrow> session_row_of k db = Some r \<Longrightarrow> session_row_of k db' = Some r"
  by (auto simp: session_create_def rbind_eq_Inr Let_def session_row_of_def find_append split: option.splits if_splits)

lemma session_save_forward:
  assumes "sessions_ok db" "session_save db sid cp v d = Inr (s, db')" "session_row_of k db = Some r"
  shows "\<exists>r'. session_row_of k db' = Some r' \<and> session_identity r' = session_identity r \<and> rs_version r \<le> rs_version r'"
proof -
  have "distinct (map rs_id db)" using assms(1) by (simp add: sessions_ok_def)
  from this assms(2) obtain t where "db' = map (save_row sid cp v t) db" by (rule session_save_Inr)
  then have "session_row_of k db' = Some (save_row sid cp v t r)" using assms(3) by (simp add: session_row_of_map)
  then show ?thesis by (auto simp: save_row_def session_identity_def checkpoint_matches_def)
qed

interpretation replay_rows: versioned_rows "\<lambda>db k. session_row_of k db" "session_write digest" sessions_ok rs_version session_identity
proof (unfold_locales, goal_cases)
  case (1 db db')
  from 1(2,1) show ?case by cases (blast intro: inv_rules)+
next
  case (2 db db' k r)
  from 2(2) show ?case
  proof cases
    case save
    then show ?thesis using session_save_forward[OF 2(1) _ 2(3)] by blast
  next
    case create
    then show ?thesis using session_create_forward[OF _ 2(3)] by blast
  qed
qed

section \<open>Answers\<close>

lemma answer_of_Inr [simp]: "answer_of l c m r = Inr x \<longleftrightarrow> r = Inr x"
  by (auto simp: answer_of_def split: sum.splits pyerror.splits)

lemma answer_of_status: "answer_of l c m r = Inl (HTTPException k d) \<Longrightarrow> k = 404 \<or> k = 409 \<or> k = 503"
  by (auto simp: answer_of_def split: sum.splits pyerror.splits if_splits)

lemma answer_of_raises: "r = Inl e \<Longrightarrow> \<exists>e'. answer_of l c m r = Inl e'"
  by (auto simp: answer_of_def split: pyerror.splits)

lemma access_Inr [simp]: "access st r = Inr x \<longleftrightarrow> rp_available st \<and> r = Inr x"
  by (simp add: access_def)

lemma hbind_eq_Inl: "hbind r f = Inl e \<longleftrightarrow> r = Inl e \<or> (\<exists>x. r = Inr x \<and> f x = Inl e)"
  by (cases r) auto

lemmas route_defs = create_replay_dataset_def create_replay_session_def list_replay_datasets_def list_replay_sessions_def
  replay_snapshot_route_def step_replay_session_def seek_replay_session_def start_replay_playback_def replay_playback_status_def
  list_replay_playback_runs_def replay_playback_run_def

definition documented :: "int \<Rightarrow> bool" where
  "documented k \<longleftrightarrow> k = 404 \<or> k = 409 \<or> k = 422 \<or> k = 503"

lemma unprocessable_documented [simp]: "unprocessable m = Inl (HTTPException k d) \<Longrightarrow> documented k"
  by (simp add: unprocessable_def documented_def)

lemma answer_documented: "answer_of l c m r = Inl (HTTPException k d) \<Longrightarrow> documented k"
  by (drule answer_of_status) (auto simp: documented_def)

lemma not_owned_documented: "not_owned st sid = Inl (HTTPException k d) \<Longrightarrow> documented k"
  by (auto simp: not_owned_def hbind_eq_Inl conflict_def documented_def dest: answer_of_status)

lemma not_owned_fails: "not_owned st sid \<noteq> Inr x"
  by (simp add: not_owned_def conflict_def hbind_eq_Inr)

lemma stop_documented: "stop_replay_playback wait st sid = Inl (HTTPException k d) \<Longrightarrow> documented k"
  by (auto simp: stop_replay_playback_def Let_def split: sum.splits dest: not_owned_documented)

lemma route_documented:
  "serve_replay cx collate wait now st q = Inl (HTTPException k d) \<Longrightarrow> documented k"
  by (cases q) (auto simp: route_defs hbind_eq_Inl split: if_splits sum.splits
      dest: answer_documented stop_documented unprocessable_documented)

lemma viewer_route_keeps_store:
  "serve_replay cx collate wait now st q = Inr (st', ans) \<Longrightarrow> \<not> operator_route q \<Longrightarrow> st' = st"
  by (cases q) (auto simp: hbind_eq_Inr)

lemma operator_principal_role: "operator_principal sha s a revoked now authorization = Inr p \<Longrightarrow> pr_role p = OPERATOR"
  by (auto simp: operator_principal_def require_role_def split: sum.splits auth_error.splits if_splits)

text \<open>The replay routes fail closed.  A handler answers an error with 404, 409, 422 or 503 and nothing else; only a
  request with a current operator credential changes anything; and while the database cannot be reached no table and no run
  changes, whatever is asked, and no task is started.\<close>

theorem replay_routes_fail_closed:
  assumes "handle_replay sha s a revoked authorization cx collate wait now st q = Inr (st', ans)"
  shows "(\<forall>q k d. serve_replay cx collate wait now st q = Inl (HTTPException k d) \<longrightarrow> k \<in> {404, 409, 422, 503})
    \<and> (st' \<noteq> st \<longrightarrow> (\<exists>p. operator_principal sha s a revoked now authorization = Inr p \<and> pr_role p = OPERATOR))
    \<and> (\<not> rp_available st \<and> (\<forall>sid. q \<noteq> StopPlayback sid) \<longrightarrow> st' = st)"
proof (intro conjI allI impI)
  fix q k d assume "serve_replay cx collate wait now st q = Inl (HTTPException k d)"
  then show "k \<in> {404, 409, 422, 503}" using route_documented by (fastforce simp: documented_def)
next
  assume "st' \<noteq> st"
  then have "operator_route q"
    using assms viewer_route_keeps_store by (fastforce simp: handle_replay_def as_viewer_def hbind_eq_Inr split: if_splits)
  then show "\<exists>p. operator_principal sha s a revoked now authorization = Inr p \<and> pr_role p = OPERATOR"
    using assms operator_principal_role by (fastforce simp: handle_replay_def as_operator_def hbind_eq_Inr)
next
  assume down: "\<not> rp_available st \<and> (\<forall>sid. q \<noteq> StopPlayback sid)"
  have "serve_replay cx collate wait now st q = Inr (st', ans)"
    using assms by (auto simp: handle_replay_def as_operator_def as_viewer_def hbind_eq_Inr split: if_splits)
  then show "st' = st"
    using down by (cases q) (auto simp: route_defs hbind_eq_Inr rbind_eq_Inr unprocessable_def split: if_splits sum.splits)
qed

section \<open>Versions are spent once\<close>

text \<open>
  What can happen to the store between two requests: other requests, steps the scheduler's runner
  commits, steps of the task manager, and the database going down or coming back.
\<close>

inductive api_step :: "'j replay_codec \<Rightarrow> (string \<Rightarrow> 'k::linorder) \<Rightarrow> 'j replay_store \<Rightarrow> 'j replay_store \<Rightarrow> bool" for cx collate where
  request: "serve_replay cx collate (\<lambda>s. s) now st q = Inr (st', ans) \<Longrightarrow> api_step cx collate st st'"
| runner: "coordinator_step (cx_digest cx) (dataset_loader cx st) (rp_sessions st) sid v d = Inr (m, db)
    \<Longrightarrow> api_step cx collate st (st\<lparr>rp_sessions := db\<rparr>)"
| tasks: "task_step (rp_tasks st) m \<Longrightarrow> api_step cx collate st (st\<lparr>rp_tasks := m\<rparr>)"
| outage: "api_step cx collate st (st\<lparr>rp_available := b\<rparr>)"

lemma coordinator_step_cases:
  assumes "coordinator_step digest loader db sid v d = Inr (m, db')"
  obtains (end_of_data) "db' = db" "rm_frame m = None"
    | (frame) f e' where "session_save db sid (replay_checkpoint_of e') v d = Inr (rm_session m, db')" "rm_frame m = Some f"
proof -
  obtain stored e where "restore_session digest loader db sid = Inr (stored, e)" "ss_version stored = v"
    using assms by (auto simp: coordinator_step_def rbind_eq_Inr split: if_splits)
  then show thesis
    using assms that by (cases "replay_step e"; cases "fst (replay_step e)") (auto simp: coordinator_step_def rbind_eq_Inr)
qed

lemma coordinator_step_writes:
  assumes "coordinator_step digest loader db sid v d = Inr (m, db')"
  shows "db' = db \<or> session_write digest db db'"
  using assms by (cases rule: coordinator_step_cases) (auto intro: session_write.save)

lemma coordinator_seek_writes:
  assumes "coordinator_seek digest loader db sid as_of v d = Inr (s, db')"
  shows "db' = db \<or> session_write digest db db'"
  using assms by (auto simp: coordinator_seek_def rbind_eq_Inr split: if_splits intro: session_write.save)

lemma serve_writes:
  assumes "serve_replay cx collate (\<lambda>s. s) now st q = Inr (st', ans)"
  shows "rp_sessions st' = rp_sessions st \<or> session_write (cx_digest cx) (rp_sessions st) (rp_sessions st')"
proof (cases q)
  case (CreateSession sid sha)
  then show ?thesis
    using assms by (auto simp: create_replay_session_def hbind_eq_Inr rbind_eq_Inr unprocessable_def split: if_splits
        dest: make_replay_engine_ok intro: session_write.create)
next
  case (StepSession sid v)
  then show ?thesis
    using assms by (auto simp: step_replay_session_def hbind_eq_Inr rbind_eq_Inr unprocessable_def split: if_splits
        dest: coordinator_step_writes)
next
  case (SeekSession sid v as_of)
  then show ?thesis
    using assms by (auto simp: seek_replay_session_def hbind_eq_Inr rbind_eq_Inr unprocessable_def split: if_splits
        dest: coordinator_seek_writes)
next
  case (StopPlayback sid)
  then show ?thesis
    using assms by (auto simp: stop_replay_playback_def hbind_eq_Inr Let_def not_owned_fails split: sum.splits)
qed (use assms in \<open>auto simp: create_replay_dataset_def start_replay_playback_def hbind_eq_Inr rbind_eq_Inr unprocessable_def
    split: if_splits\<close>)

lemma api_step_writes:
  "api_step cx collate st st' \<Longrightarrow> rp_sessions st' = rp_sessions st \<or> session_write (cx_digest cx) (rp_sessions st) (rp_sessions st')"
  by (erule api_step.cases) (auto dest: serve_writes coordinator_step_writes)

lemma api_run_writes: "(api_step cx collate)\<^sup>*\<^sup>* st st' \<Longrightarrow> (session_write (cx_digest cx))\<^sup>*\<^sup>* (rp_sessions st) (rp_sessions st')"
proof (induction rule: rtranclp_induct)
  case (step st1 st2)
  then show ?case using api_step_writes[OF step.hyps(2)] by (auto intro: rtranclp.rtrancl_into_rtrancl)
qed simp

lemma restore_version:
  "restore_session digest loader db sid = Inr (s, e) \<Longrightarrow> session_row_of sid db = Some r \<Longrightarrow> ss_version s = rs_version r"
  by (auto simp: restore_session_def session_load_def rbind_eq_Inr stored_session_def split: if_splits)

lemma stale_requests_fail:
  assumes "session_row_of sid (rp_sessions st) = Some r" and "v \<noteq> rs_version r"
  shows "\<exists>e. step_replay_session cx now st sid v = Inl e" "\<exists>e. seek_replay_session cx now st sid v as_of = Inl e"
    "\<exists>e. start_replay_playback cx now tid st sid v rate steps = Inl e"
proof -
  have "step_replay_session cx now st sid v \<noteq> Inr x" for x
    using assms by (auto simp: step_replay_session_def unprocessable_def rbind_eq_Inr coordinator_step_def dest: restore_version)
  then show "\<exists>e. step_replay_session cx now st sid v = Inl e" by (cases "step_replay_session cx now st sid v") auto
  have "seek_replay_session cx now st sid v as_of \<noteq> Inr x" for x
    using assms by (auto simp: seek_replay_session_def unprocessable_def rbind_eq_Inr coordinator_seek_def dest: restore_version)
  then show "\<exists>e. seek_replay_session cx now st sid v as_of = Inl e" by (cases "seek_replay_session cx now st sid v as_of") auto
  have "start_replay_playback cx now tid st sid v rate steps \<noteq> Inr x" for x
    using assms by (auto simp: start_replay_playback_def unprocessable_def rbind_eq_Inr coordinator_snapshot_def dest: restore_version)
  then show "\<exists>e. start_replay_playback cx now tid st sid v rate steps = Inl e"
    by (cases "start_replay_playback cx now tid st sid v rate steps") auto
qed

text \<open>C19: A session version is spent once.  After a step request that answered with a frame, and any later history of
  requests, runner commits, task steps and database outages, the session is still there on the same dataset at a later
  version, and every step, seek or playback request that expects the spent version or an earlier one is refused.\<close>

theorem spent_versions_are_refused:
  assumes "sessions_ok (rp_sessions st)" and "step_replay_session cx now st sid v = Inr (st1, s, Some f)"
    and "(api_step cx collate)\<^sup>*\<^sup>* st1 st2" and "v' \<le> v"
  shows "(\<exists>r. session_row_of sid (rp_sessions st2) = Some r \<and> v < rs_version r \<and> rs_dataset_sha256 r = sy_dataset_sha256 s
      \<and> rs_total_events r = sy_total_events s)
    \<and> (\<exists>e. step_replay_session cx later st2 sid v' = Inl e) \<and> (\<exists>e. seek_replay_session cx later st2 sid v' as_of = Inl e)
    \<and> (\<exists>e. start_replay_playback cx later task_id st2 sid v' rate steps = Inl e)"
proof -
  obtain m db where step: "coordinator_step (cx_digest cx) (dataset_loader cx st) (rp_sessions st) sid v (Aware now) = Inr (m, db)"
      and out: "st1 = st\<lparr>rp_sessions := db\<rparr>" "s = session_payload_of (rm_session m)" "rm_frame m = Some f"
    using assms(2) by (auto simp: step_replay_session_def rbind_eq_Inr unprocessable_def split: if_splits)
  obtain e' saved where save: "session_save (rp_sessions st) sid (replay_checkpoint_of e') v (Aware now) = Inr (saved, db)" "rm_session m = saved"
    using step by (cases rule: coordinator_step_cases) (use out(3) in auto)
  have "distinct (map rs_id (rp_sessions st))" using assms(1) by (simp add: sessions_ok_def)
  from this save(1) obtain r t where r: "session_row_of sid (rp_sessions st) = Some r" "checkpoint_matches sid (replay_checkpoint_of e') v r"
      "saved = stored_session (advance_row (replay_checkpoint_of e') v t r)"
      "db = map (save_row sid (replay_checkpoint_of e') v t) (rp_sessions st)"
    by (rule session_save_Inr)
  let ?r1 = "advance_row (replay_checkpoint_of e') v t r"
  have row: "session_row_of sid (rp_sessions st1) = Some ?r1"
    using r by (simp add: out(1) session_row_of_map save_row_def)
  have "sessions_ok (rp_sessions st1)" using session_save_ok[OF assms(1) save(1)] by (simp add: out(1))
  from replay_rows.run_forward[OF api_run_writes[OF assms(3)] this row]
  obtain r2 where r2: "session_row_of sid (rp_sessions st2) = Some r2" "session_identity r2 = session_identity ?r1" "v < rs_version r2"
    by auto
  moreover have "rs_dataset_sha256 r2 = sy_dataset_sha256 s" "rs_total_events r2 = sy_total_events s"
    using r2(2) r(3) by (simp_all add: out(2) save(2) session_identity_def session_payload_of_def stored_session_def)
  moreover have "v' \<noteq> rs_version r2" using r2(3) assms(4) by simp
  ultimately show ?thesis using stale_requests_fail[OF r2(1)] by blast
qed

section \<open>A stored dataset is replayed in order\<close>

text \<open>The answers of n step requests with the versions 0, 1, ...: the candles of their frames.\<close>

primrec step_requests :: "'j replay_codec \<Rightarrow> (nat \<Rightarrow> instant) \<Rightarrow> uuid \<Rightarrow> 'j replay_store \<Rightarrow> nat \<Rightarrow> ('j replay_store \<times> candle list) http" where
  "step_requests cx now sid st 0 = Inr (st, [])"
| "step_requests cx now sid st (Suc n) =
     hbind (step_requests cx now sid st n) (\<lambda>(st1, candles).
     hbind (step_replay_session cx (now n) st1 sid (int n)) (\<lambda>(st2, _, frame).
       Inr (st2, candles @ (case frame of None \<Rightarrow> [] | Some f \<Rightarrow> [fr_candle f]))))"

definition plays :: "'j replay_codec \<Rightarrow> 'j replay_store \<Rightarrow> uuid \<Rightarrow> candle list \<Rightarrow> nat \<Rightarrow> bool" where
  "plays cx st sid candles n \<longleftrightarrow> rp_available st
     \<and> (\<exists>r. playable (cx_digest cx) (dataset_loader cx st) (rp_sessions st) r candles \<and> rs_id r = sid
          \<and> rs_next_index r = int n \<and> rs_version r = int n \<and> rs_total_events r = int (length candles))"

lemma dataset_loader_sessions [simp]: "dataset_loader cx (st\<lparr>rp_sessions := db\<rparr>) = dataset_loader cx st"
  by (rule ext) (simp add: dataset_loader_def)

lemma plays_step:
  assumes "plays cx st sid candles n" and "n < length candles"
  shows "\<exists>st' s f. step_replay_session cx t st sid (int n) = Inr (st', s, Some f) \<and> fr_candle f = candles ! n
    \<and> plays cx st' sid candles (Suc n)"
proof -
  obtain r where r: "playable (cx_digest cx) (dataset_loader cx st) (rp_sessions st) r candles" "rs_id r = sid"
      "rs_next_index r = int n" "rs_version r = int n" "rs_total_events r = int (length candles)" and up: "rp_available st"
    using assms(1) by (auto simp: plays_def)
  obtain f db where f: "coordinator_step (cx_digest cx) (dataset_loader cx st) (rp_sessions st) sid (int n) (Aware t)
        = Inr (\<lparr>rm_session = stored_session (next_row r t), rm_frame = Some f\<rparr>, db)" "fr_candle f = candles ! n"
      "playable (cx_digest cx) (dataset_loader cx st) db (next_row r t) candles"
    using playable_step[OF r(1), of t] r(2-5) assms(2) by auto
  then have "step_replay_session cx t st sid (int n)
      = Inr (st\<lparr>rp_sessions := db\<rparr>, session_payload_of (stored_session (next_row r t)), Some f)"
    using up by (simp add: step_replay_session_def access_def)
  moreover have "plays cx (st\<lparr>rp_sessions := db\<rparr>) sid candles (Suc n)"
    unfolding plays_def using f(3) r(2-5) up by (intro conjI exI[of _ "next_row r t"]) (simp_all add: next_row_def)
  ultimately show ?thesis using f(2) by blast
qed

lemma plays_steps:
  assumes "plays cx st sid candles 0" and "n \<le> length candles"
  shows "\<exists>st'. step_requests cx now sid st n = Inr (st', take n candles) \<and> plays cx st' sid candles n"
  using assms(2)
proof (induction n)
  case (Suc n)
  then obtain st1 where st1: "step_requests cx now sid st n = Inr (st1, take n candles)" "plays cx st1 sid candles n" by auto
  have "n < length candles" using Suc.prems by simp
  from plays_step[OF st1(2) this, of "now n"] st1(1) this show ?case by (auto simp: take_Suc_conv_app_nth)
qed (use assms(1) in simp)

lemma plays_snapshot:
  assumes "plays cx st sid candles n"
  shows "\<exists>s. replay_snapshot_route cx st sid = Inr (s, take n candles) \<and> sy_version s = int n"
proof -
  obtain r where r: "playable (cx_digest cx) (dataset_loader cx st) (rp_sessions st) r candles" "rs_id r = sid"
      "rs_next_index r = int n" "rs_version r = int n" and up: "rp_available st"
    using assms by (auto simp: plays_def)
  then show ?thesis
    using playable_snapshot[OF r(1)]
    by (simp add: replay_snapshot_route_def access_def session_payload_of_def stored_session_def)
qed

lemma plays_end:
  assumes "plays cx st sid candles (length candles)"
  shows "\<exists>s. step_replay_session cx t st sid (int (length candles)) = Inr (st, s, None)"
proof -
  obtain r where r: "playable (cx_digest cx) (dataset_loader cx st) (rp_sessions st) r candles" "rs_id r = sid"
      "rs_next_index r = int (length candles)" "rs_version r = int (length candles)" "rs_total_events r = int (length candles)"
      and up: "rp_available st"
    using assms by (auto simp: plays_def)
  then show ?thesis
    using playable_step_end[OF r(1), of "Aware t"] by (simp add: step_replay_session_def access_def)
qed

lemma created_session_plays:
  assumes "create_replay_dataset cx t st candles = Inr (st1, d)" and "create_replay_session cx t' st1 sid (sd_dataset_sha256 d) = Inr (st2, s)"
    and "sessions_ok (rp_sessions st)" and "session_row_of sid (rp_sessions st) = None"
    and "sha256_text (cx_digest cx candles)" and "\<forall>c \<in> set candles. cx_validate cx (cx_dump cx c) = Inr c"
  shows "plays cx st2 sid candles 0"
proof -
  let ?d = "cx_digest cx"
  obtain ds db where up: "rp_available st" and stored: "dataset_store ?d (cx_dump cx) (cx_validate cx) (rp_datasets st) candles (Aware t) = Inr (ds, db)"
      and st1: "st1 = st\<lparr>rp_datasets := db\<rparr>" "d = dataset_payload ds"
    using assms(1) by (auto simp: create_replay_dataset_def rbind_eq_Inr unprocessable_def split: if_splits)
  obtain e where e: "make_replay_engine ?d candles = Inr e" using stored by (auto simp: dataset_store_def rbind_eq_Inr)
  note fields = make_replay_engine_fields[OF e]
  have sha: "sd_dataset_sha256 d = ?d candles"
    using stored fields
    by (auto simp: st1(2) dataset_payload_def dataset_store_def e rbind_eq_Inr stored_dataset_def Let_def dataset_row_of_def
        split: option.splits if_splits dest: find_Some_in)
  have load: "dataset_load ?d (cx_validate cx) db (?d candles) = Inr candles"
    using dataset_roundtrip_load[OF stored assms(5,6)] .
  obtain s0 sdb where create: "session_create (rp_sessions st) sid e (Aware t') = Inr (s0, sdb)" "st2 = st1\<lparr>rp_sessions := sdb\<rparr>"
    using assms(2) load e by (auto simp: create_replay_session_def dataset_loader_def rbind_eq_Inr unprocessable_def sha st1(1) split: if_splits)
  define r where "r = \<lparr>rs_id = sid, rs_dataset_sha256 = ?d candles, rs_instrument_id = re_instrument_id e,
      rs_timeframe_seconds = re_timeframe_seconds e, rs_next_index = 0, rs_total_events = int (re_total e), rs_version = 0, rs_checkpointed_at = t'\<rparr>"
  have sdb: "sdb = rp_sessions st @ [r]"
    using create(1) assms(4) fields by (auto simp: session_create_def checkpoint_time_def Let_def replay_checkpoint_of_def r_def)
  have "sessions_ok sdb" using session_create_ok[OF assms(3) make_replay_engine_ok[OF e] create(1)] .
  moreover have "session_row_of sid sdb = Some r"
    using assms(4) by (simp add: sdb session_row_of_def find_append r_def)
  moreover have "dataset_loader cx st2 (?d candles) = Inr candles"
    using load by (simp add: create(2) st1(1) dataset_loader_def)
  ultimately have "playable ?d (dataset_loader cx st2) sdb r candles"
    unfolding playable_def using e fields by (simp add: r_def)
  then show ?thesis
    unfolding plays_def using up fields by (intro conjI exI[of _ r]) (simp_all add: create(2) st1(1) r_def re_total_def)
qed

text \<open>C18: A dataset that was posted is replayed in order.  After a dataset and a fresh session on it were created, n step
  requests with the versions 0 to n - 1 all succeed, whenever they come, and their frames are the first n candles of the
  dataset; the snapshot then shows exactly these candles and version n, and at the end of the dataset a further step answers
  without a frame.\<close>

theorem posted_dataset_is_replayed_in_order:
  assumes "create_replay_dataset cx t st candles = Inr (st1, d)" and "create_replay_session cx t' st1 sid (sd_dataset_sha256 d) = Inr (st2, s)"
    and "sessions_ok (rp_sessions st)" and "session_row_of sid (rp_sessions st) = None"
    and "sha256_text (cx_digest cx candles)" and "\<forall>c \<in> set candles. cx_validate cx (cx_dump cx c) = Inr c"
    and "n \<le> length candles"
  shows "\<exists>st3 s3. step_requests cx now sid st2 n = Inr (st3, take n candles)
    \<and> replay_snapshot_route cx st3 sid = Inr (s3, take n candles) \<and> sy_version s3 = int n
    \<and> (n = length candles \<longrightarrow> (\<exists>s4. step_replay_session cx (now n) st3 sid (int n) = Inr (st3, s4, None)))"
proof -
  obtain st3 where st3: "step_requests cx now sid st2 n = Inr (st3, take n candles)" "plays cx st3 sid candles n"
    using plays_steps[OF created_session_plays[OF assms(1-6)] assms(7)] by blast
  moreover obtain s3 where "replay_snapshot_route cx st3 sid = Inr (s3, take n candles)" "sy_version s3 = int n"
    using plays_snapshot[OF st3(2)] by blast
  moreover have "\<exists>s4. step_replay_session cx (now n) st3 sid (int n) = Inr (st3, s4, None)" if "n = length candles"
    using plays_end[of cx st3 sid candles "now n"] st3(2) that by simp
  ultimately show ?thesis by blast
qed

section \<open>An example\<close>

definition candle_codec :: "candle replay_codec" where
  "candle_codec = \<lparr>cx_digest = hex_digest, cx_dump = id, cx_validate = Inr\<rparr>"

definition empty_replays :: "candle replay_store" where
  "empty_replays = \<lparr>rp_available = True, rp_datasets = [], rp_sessions = [], rp_tasks = \<lparr>tm_tasks = \<lambda>_. None, tm_runs = [], tm_failed = []\<rparr>\<rparr>"

lemma minute_stream_ok: "length minute_stream = 3 \<and> list_all candle_ok minute_stream"
  by (simp add: minute_stream_def minute_bar_def candle_ok_def candle_fields_ok_def)

lemma demo_replay_created:
  "\<exists>st1 d st2 s. create_replay_dataset candle_codec 0 empty_replays minute_stream = Inr (st1, d)
     \<and> create_replay_session candle_codec 0 st1 5 (sd_dataset_sha256 d) = Inr (st2, s)"
proof -
  obtain d db where st: "dataset_store hex_digest id Inr [] minute_stream (Aware 0) = Inr (d, db)"
    by (simp add: dataset_store_def minute_engine_made dataset_row_of_def Let_def)
  have sha: "sha256_text (hex_digest minute_stream)" by (simp add: sha256_text_def hex_digest_def list_all_iff)
  have "sd_dataset_sha256 d = hex_digest minute_stream"
    using st by (auto simp: dataset_store_def minute_engine_made dataset_row_of_def Let_def stored_dataset_def) (simp add: minute_engine_def)
  moreover have "dataset_load hex_digest Inr db (hex_digest minute_stream) = Inr minute_stream"
    using dataset_roundtrip_load[OF st sha] by simp
  moreover have "create_replay_dataset candle_codec 0 empty_replays minute_stream = Inr (empty_replays\<lparr>rp_datasets := db\<rparr>, dataset_payload d)"
    using st minute_stream_ok by (simp add: create_replay_dataset_def candle_codec_def empty_replays_def access_def minute_engine_made)
  ultimately show ?thesis
    using sha by (simp add: create_replay_session_def candle_codec_def dataset_loader_def access_def minute_engine_made empty_replays_def
        session_create_def checkpoint_time_def session_row_of_def Let_def dataset_payload_def)
qed

theorem posted_dataset_is_replayed_in_order_witness:
  "\<exists>st2 st3. step_requests candle_codec int 5 st2 3 = Inr (st3, map minute_bar [0, 1, 2])"
proof -
  obtain st1 d st2 s where made: "create_replay_dataset candle_codec 0 empty_replays minute_stream = Inr (st1, d)"
      "create_replay_session candle_codec 0 st1 5 (sd_dataset_sha256 d) = Inr (st2, s)"
    using demo_replay_created by blast
  have "sessions_ok (rp_sessions empty_replays)" "session_row_of 5 (rp_sessions empty_replays) = None"
    by (simp_all add: empty_replays_def sessions_ok_def session_row_of_def)
  moreover have "sha256_text (cx_digest candle_codec minute_stream)" "\<forall>c \<in> set minute_stream. cx_validate candle_codec (cx_dump candle_codec c) = Inr c"
    by (simp_all add: candle_codec_def sha256_text_def hex_digest_def list_all_iff)
  moreover have "3 \<le> length minute_stream" using minute_stream_ok by simp
  ultimately obtain st3 where "step_requests candle_codec int 5 st2 3 = Inr (st3, take 3 minute_stream)"
    using posted_dataset_is_replayed_in_order[OF made] by blast
  then show ?thesis by (auto simp: minute_stream_def)
qed

theorem spent_versions_are_refused_witness:
  "\<exists>st st1 s f e. step_replay_session candle_codec 7 st 5 0 = Inr (st1, s, Some f) \<and> step_replay_session candle_codec 8 st1 5 0 = Inl e"
proof -
  obtain st0 d st s0 where made: "create_replay_dataset candle_codec 0 empty_replays minute_stream = Inr (st0, d)"
      "create_replay_session candle_codec 0 st0 5 (sd_dataset_sha256 d) = Inr (st, s0)"
    using demo_replay_created by blast
  have "plays candle_codec st 5 minute_stream 0"
    by (rule created_session_plays[OF made])
      (simp_all add: empty_replays_def sessions_ok_def session_row_of_def candle_codec_def sha256_text_def hex_digest_def list_all_iff)
  moreover from this obtain st1 s f where one: "step_replay_session candle_codec 7 st 5 0 = Inr (st1, s, Some f)"
    using plays_step[of candle_codec st 5 minute_stream 0 7] minute_stream_ok by auto
  moreover have "sessions_ok (rp_sessions st)" using calculation(1) by (auto simp: plays_def playable_def)
  ultimately show ?thesis
    using spent_versions_are_refused[of st candle_codec 7 5 0 st1 s f "length" st1 0 8] by blast
qed

theorem replay_routes_fail_closed_witness:
  "\<exists>st' ans. handle_replay id default_settings sample_authenticator None (Some ''bearer operate'') candle_codec (\<lambda>_. 0 :: int) id 5
        empty_replays (CreateDataset minute_stream) = Inr (st', ans)
     \<and> st' \<noteq> empty_replays
     \<and> (\<exists>p. operator_principal id default_settings sample_authenticator None 5 (Some ''bearer operate'') = Inr p \<and> pr_role p = OPERATOR)"
proof -
  obtain d db where st: "dataset_store hex_digest id Inr [] minute_stream (Aware 5) = Inr (d, db)" "db \<noteq> []"
    by (simp add: dataset_store_def minute_engine_made dataset_row_of_def Let_def)
  have p: "\<exists>p. operator_principal id default_settings sample_authenticator None 5 (Some ''bearer operate'') = Inr p"
    using sample_bearer by (simp add: operator_principal_def authenticated_principal_def authenticate_def sample_authenticator_def
        match_digest_def default_settings_def require_role_def Let_def)
  have "create_replay_dataset candle_codec 5 empty_replays minute_stream = Inr (empty_replays\<lparr>rp_datasets := db\<rparr>, dataset_payload d)"
    using st(1) minute_stream_ok by (simp add: create_replay_dataset_def candle_codec_def empty_replays_def access_def minute_engine_made)
  then have run: "handle_replay id default_settings sample_authenticator None (Some ''bearer operate'') candle_codec (\<lambda>_. 0 :: int) id 5
        empty_replays (CreateDataset minute_stream) = Inr (empty_replays\<lparr>rp_datasets := db\<rparr>, Datasets [dataset_payload d])"
    using p by (auto simp: handle_replay_def as_operator_def)
  moreover have "empty_replays\<lparr>rp_datasets := db\<rparr> \<noteq> empty_replays" using st(2) by (simp add: empty_replays_def)
  ultimately show ?thesis
    using replay_routes_fail_closed[OF run] by blast
qed

section \<open>Stopping and restarting\<close>

text \<open>A stop may answer for a task it did not stop.  The route releases the manager's lock while it waits for the task
  and reads the session's status afterwards; when the stopped task ends and another request starts playback in between, the
  answer to the stop describes the new task: outcome running, and not owned by the process, which owns it.\<close>

theorem stop_may_answer_for_the_next_task:
  "\<exists>(st :: candle replay_store) tasks st' p. reachable_tasks (rp_tasks st) \<and> request_stop (rp_tasks st) 5 = Inr tasks
     \<and> task_step\<^sup>*\<^sup>* tasks (rp_tasks st') \<and> stop_replay_playback (\<lambda>_. st') st 5 = Inr (st', p)
     \<and> replay_playback_status st 5 = Inr (task_payload_of (started_status demo_request 3) True)
     \<and> ty_task_id p = 10 \<and> ty_outcome p = ''running'' \<and> \<not> ty_process_owned p \<and> tq_task_id demo_request = 9"
proof -
  let ?m0 = "\<lparr>tm_tasks = \<lambda>_. None, tm_runs = [], tm_failed = []\<rparr>" and ?q = "demo_request\<lparr>tq_task_id := 10\<rparr>"
  let ?result = "Inl (RuntimeError ''stopped'') :: replay_schedule_result result"
  define m where "m = \<lparr>tm_tasks = [5 \<mapsto> \<lparr>ot_status = started_status demo_request 3, ot_stop = False, ot_phase = WORKING\<rparr>],
    tm_runs = [started_run (started_status demo_request 3)], tm_failed = []\<rparr>"
  have start: "task_start record_status ?m0 demo_request 3 = Inr (started_status demo_request 3, m)"
    by (simp add: m_def task_start_def record_status_def run_of_def) (simp add: started_status_def demo_request_def)
  define st where "st = empty_replays\<lparr>rp_tasks := m\<rparr>"
  define tasks where "tasks = m\<lparr>tm_tasks := (tm_tasks m)(5 \<mapsto> \<lparr>ot_status = started_status demo_request 3, ot_stop = True, ot_phase = WORKING\<rparr>)\<rparr>"
  have stop: "request_stop m 5 = Inr tasks" by (simp add: request_stop_def m_def tasks_def)
  define entered where "entered = enter_status tasks 5 ?result 4"
  define recorded where "recorded = observe_final record_status entered 5"
  have e1: "task_step tasks entered"
    unfolding entered_def by (rule task_step.enter) (auto simp: tasks_def)
  have e2: "task_step entered recorded"
    unfolding recorded_def by (rule task_step.observe) (auto simp: entered_def enter_status_def tasks_def)
  have recorded: "\<exists>owned. tm_tasks recorded 5 = Some owned \<and> ot_phase owned = DONE" "\<exists>r. tm_runs recorded = [r] \<and> run_id r = 9"
    by (auto simp: recorded_def entered_def observe_final_def final_recorded_def final_unrecorded_def enter_status_def tasks_def m_def record_status_def final_status_def started_status_def
        run_awaits_def started_run_def demo_request_def finished_run_def Let_def split: sum.splits)
  define m2 where "m2 = recorded\<lparr>tm_tasks := (tm_tasks recorded)(5 \<mapsto> \<lparr>ot_status = started_status ?q 5, ot_stop = False, ot_phase = WORKING\<rparr>),
    tm_runs := tm_runs recorded @ [started_run (started_status ?q 5)]\<rparr>"
  have fresh: "run_of 10 (tm_runs recorded) = None" using recorded(2) by (auto simp: run_of_def)
  have session: "tq_session_id ?q = 5" by (simp add: demo_request_def)
  have next_task: "task_start record_status recorded ?q 5 = Inr (started_status ?q 5, m2)"
    unfolding task_start_def session using recorded(1) fresh
    by (auto simp: m2_def record_status_def) (simp_all add: started_status_def)
  define st' where "st' = st\<lparr>rp_tasks := m2\<rparr>"
  have run: "task_step\<^sup>*\<^sup>* tasks m2"
    using e1 e2 task_step.start[OF next_task] by (meson r_into_rtranclp rtranclp_trans)
  have "reachable_tasks m" using reachable_tasks.step[OF reachable_tasks.start task_step.start[OF start]] .
  then show ?thesis
    using stop run
    by (intro exI[of _ st] exI[of _ tasks] exI[of _ st'] exI[of _ "task_payload_of (started_status ?q 5) False"] conjI)
      (simp_all add: st_def st'_def m_def m2_def stop_replay_playback_def task_status_def task_payload_of_def started_status_def demo_request_def
        replay_playback_status_def task_outcome_value_def)
qed

end
