(* ===== verification/Model_Training.thy ===== *)
theory Model_Training
  imports Model_Registry
begin

text \<open>
  Training and inference of the models: the logistic baseline (\<open>packages/machine_learning/baseline.py\<close>), the
  random-forest and gradient-boosting challengers (\<open>random_forest.py\<close>, \<open>gradient_boosting.py\<close>) and Platt
  calibration (\<open>calibration.py\<close>).  scikit-learn and numpy are parameters: a classifier is what its \<open>fit\<close>
  returns for a matrix and labels, and how it turns a matrix into the probabilities of class 1; the
  metrics and the array functions are fields of a record.  The code's own part is written out: the windows, the feature
  matrix by name, the guards and the binning.  Binary floats are a record of IEEE operations.
\<close>

section \<open>Features\<close>

record feature_definition =
  fd_names :: "string list"
  fd_version :: string

definition make_feature_definition :: "feature_definition \<Rightarrow> feature_definition result" where
  "make_feature_definition d =
     (if blank (fd_version d) \<or> fd_names d = [] \<or> length (remdups (fd_names d)) \<noteq> length (fd_names d)
      then Inl (ValueError ''feature names must be unique and feature version is required'')
      else if list_ex blank (fd_names d) then Inl (ValueError ''feature names cannot be empty'')
      else Inr d)"

definition make_feature_observation :: "('f, 'm) float_ops_scheme \<Rightarrow> 'f feature_observation \<Rightarrow> 'f feature_observation result" where
  "make_feature_observation F ob =
     (let names = map fst (fo_values ob) in
      if \<not> is_aware (fo_available_at ob) then Inl (ValueError ''feature availability timestamp must be timezone-aware'')
      else if length (remdups names) \<noteq> length names \<or> list_ex blank names
      then Inl (ValueError ''feature observation names must be unique and non-empty'')
      else if list_ex (\<lambda>(_, v). \<not> f_finite F v) (fo_values ob) then Inl (ValueError ''feature values must be finite'')
      else if fo_label ob \<notin> {None, Some 0, Some 1} then Inl (ValueError ''classification label must be 0, 1, or absent'')
      else Inr ob)"

definition make_model_prediction :: "('f, 'm) float_ops_scheme \<Rightarrow> 'f model_prediction \<Rightarrow> 'f model_prediction result" where
  "make_model_prediction F p =
     (let x = mpr_probability p in
      if \<not> is_aware (mpr_predicted_at p) then Inl (ValueError ''prediction timestamp must be timezone-aware'')
      else if \<not> f_finite F x \<or> \<not> (f_leq F (f_of_int F 0) x \<and> f_leq F x (f_of_int F 1))
      then Inl (ValueError ''prediction probability must be finite and in [0, 1]'')
      else if blank (mpr_model_version p) \<or> blank (mpr_feature_version p)
      then Inl (ValueError ''prediction model and feature versions are required'')
      else Inr p)"

text \<open>
  \<open>_matrix\<close>: one row per observation, its values looked up by name in the order of the definition
  (\<open>dict\<close> of unique names), and the labels that are there.
\<close>

definition feature_row :: "feature_definition \<Rightarrow> bool \<Rightarrow> 'f feature_observation \<Rightarrow> 'f list result" where
  "feature_row d require_labels ob =
     (if fst ` set (fo_values ob) \<noteq> set (fd_names d)
      then Inl (ValueError ''observation does not match versioned feature definition'')
      else if require_labels \<and> fo_label ob = None
      then Inl (ValueError ''training and validation observations require labels'')
      else Inr (map (\<lambda>name. the (map_of (rev (fo_values ob)) name)) (fd_names d)))"

definition labels_of :: "'f feature_observation list \<Rightarrow> int list" where
  "labels_of obs = concat (map (\<lambda>ob. case fo_label ob of None \<Rightarrow> [] | Some y \<Rightarrow> [y]) obs)"

definition feature_matrix :: "feature_definition \<Rightarrow> bool \<Rightarrow> 'f feature_observation list \<Rightarrow> ('f list list \<times> int list) result" where
  "feature_matrix d require_labels obs = rbind (rmap (feature_row d require_labels) obs) (\<lambda>rows. Inr (rows, labels_of obs))"

section \<open>The libraries\<close>

text \<open>
  \<open>cl_fit\<close> is construction with the given settings and \<open>fit\<close>; \<open>cl_scores\<close> is \<open>predict_proba(matrix)[:, 1]\<close>.
\<close>

record ('c, 'm, 'f) classifier =
  cl_fit :: "'c \<Rightarrow> 'f list list \<Rightarrow> int list \<Rightarrow> 'm result"
  cl_scores :: "'m \<Rightarrow> 'f list list \<Rightarrow> 'f list result"

text \<open>
  \<open>nm_edges n\<close> is \<open>linspace(0.0, 1.0, n + 1)[1:-1]\<close>, \<open>nm_quantiles n xs\<close> the unique inner quantiles of a column, and
  \<open>nm_histogram\<close> the counts between edges with infinite ends.
\<close>

record 'f numeric_library =
  nm_accuracy :: "int list \<Rightarrow> int list \<Rightarrow> 'f result"
  nm_brier :: "int list \<Rightarrow> 'f list \<Rightarrow> 'f result"
  nm_log_loss :: "int list \<Rightarrow> 'f list \<Rightarrow> 'f result"
  nm_edges :: "nat \<Rightarrow> 'f list"
  nm_mean :: "'f list \<Rightarrow> 'f"
  nm_quantiles :: "nat \<Rightarrow> 'f list \<Rightarrow> 'f list"
  nm_histogram :: "'f list \<Rightarrow> 'f list \<Rightarrow> nat list"
  nm_log :: "'f \<Rightarrow> 'f"
  nm_sum :: "'f list \<Rightarrow> 'f"
  nm_clip :: "'f \<Rightarrow> 'f"

section \<open>Calibration error\<close>

text \<open>\<open>np.digitize\<close> counts the edges not above the value; the last bin is closed.\<close>

definition bin_of :: "('f, 'm) float_ops_scheme \<Rightarrow> 'f list \<Rightarrow> nat \<Rightarrow> 'f \<Rightarrow> nat" where
  "bin_of F edges bins p = min (length (filter (\<lambda>e. f_leq F e p) edges)) (bins - 1)"

definition bin_error ::
  "('f, 'm) float_ops_scheme \<Rightarrow> 'f numeric_library \<Rightarrow> nat \<Rightarrow> (int \<times> 'f) list \<Rightarrow> 'f" where
  "bin_error F N observations inside =
     f_mul F (f_div F (f_of_int F (int (length inside))) (f_of_int F (int observations)))
       (f_abs F (f_sub F (nm_mean N (map snd inside)) (nm_mean N (map (f_of_int F \<circ> fst) inside))))"

definition expected_calibration_error ::
  "('f, 'm) float_ops_scheme \<Rightarrow> 'f numeric_library \<Rightarrow> int list \<Rightarrow> 'f list \<Rightarrow> int \<Rightarrow> 'f result" where
  "expected_calibration_error F N labels probabilities bins =
     (if bins \<le> 0 \<or> length labels \<noteq> length probabilities \<or> labels = []
      then Inl (ValueError ''calibration requires aligned observations and positive bins'')
      else
        let n = nat bins; edges = nm_edges N n; pairs = zip labels probabilities in
        Inr (foldl (\<lambda>error index.
               let inside = filter (\<lambda>(_, p). bin_of F edges n p = index) pairs in
               if inside = [] then error else f_add F error (bin_error F N (length labels) inside))
             (f_of_int F 0) [0..<n]))"

section \<open>Drift\<close>

record 'f feature_drift =
  dr_name :: string
  dr_population_stability_index :: 'f

definition column_of :: "nat \<Rightarrow> 'f list list \<Rightarrow> 'f list" where
  "column_of i rows = map (\<lambda>row. row ! i) rows"

definition psi_shares :: "('f, 'm) float_ops_scheme \<Rightarrow> 'f \<Rightarrow> nat \<Rightarrow> nat list \<Rightarrow> 'f list" where
  "psi_shares F epsilon population counts = map (\<lambda>c. fmax F (f_div F (f_of_int F (int c)) (f_of_int F (int population))) epsilon) counts"

definition psi_value :: "('f, 'm) float_ops_scheme \<Rightarrow> 'f numeric_library \<Rightarrow> 'f list \<Rightarrow> 'f list \<Rightarrow> 'f" where
  "psi_value F N current reference =
     nm_sum N (map (\<lambda>(c, r). f_mul F (f_sub F c r) (nm_log N (f_div F c r))) (zip current reference))"

definition population_stability_index ::
  "('f, 'm) float_ops_scheme \<Rightarrow> 'f numeric_library \<Rightarrow> 'f feature_observation list \<Rightarrow> 'f feature_observation list \<Rightarrow> feature_definition
     \<Rightarrow> datetime \<Rightarrow> int \<Rightarrow> 'f \<Rightarrow> 'f feature_drift list result" where
  "population_stability_index F N reference current d as_of bins epsilon =
     (if \<not> is_aware as_of then Inl (ValueError ''drift cutoff must be timezone-aware'')
      else if reference = [] \<or> current = [] \<or> bins < 2 \<or> \<not> (f_less F (f_of_int F 0) epsilon \<and> f_less F epsilon (f_of_int F 1))
      then Inl (ValueError ''drift requires populations, at least two bins, and valid epsilon'')
      else if list_ex (\<lambda>ob. instant_of (fo_available_at ob) > instant_of as_of) (reference @ current)
      then Inl (ValueError ''drift cannot use features unavailable at its cutoff'')
      else rbind (feature_matrix d False reference) (\<lambda>(reference_rows, _).
           rbind (feature_matrix d False current) (\<lambda>(current_rows, _).
             Inr (map (\<lambda>(i, name).
                    let column = column_of i reference_rows; internal = nm_quantiles N (nat bins) column;
                        reference_share = psi_shares F epsilon (length reference) (nm_histogram N internal column);
                        current_share = psi_shares F epsilon (length current) (nm_histogram N internal (column_of i current_rows))
                    in \<lparr>dr_name = name, dr_population_stability_index = psi_value F N current_share reference_share\<rparr>)
                  (enumerate 0 (fd_names d))))))"

section \<open>Evaluation\<close>

record 'f model_evaluation =
  ev_observations :: nat
  ev_accuracy :: 'f
  ev_brier_score :: 'f
  ev_log_loss :: 'f
  ev_expected_calibration_error :: 'f

definition evaluate_model ::
  "('f, 'm) float_ops_scheme \<Rightarrow> 'f numeric_library \<Rightarrow> nat \<Rightarrow> int list \<Rightarrow> 'f list \<Rightarrow> 'f model_evaluation result" where
  "evaluate_model F N observations labels probabilities =
     (let predictions = map (\<lambda>p. if f_leq F (f_of_rat F (1 / 2)) p then 1 else 0) probabilities in
      rbind (nm_accuracy N labels predictions) (\<lambda>accuracy.
      rbind (nm_brier N labels probabilities) (\<lambda>brier.
      rbind (nm_log_loss N labels probabilities) (\<lambda>loss.
      rbind (expected_calibration_error F N labels probabilities 10) (\<lambda>ece.
        Inr \<lparr>ev_observations = observations, ev_accuracy = accuracy, ev_brier_score = brier, ev_log_loss = loss,
             ev_expected_calibration_error = ece\<rparr>)))))"

section \<open>Two windows\<close>

definition in_window :: "instant option \<Rightarrow> instant \<Rightarrow> 'f feature_observation list \<Rightarrow> 'f feature_observation list" where
  "in_window after through obs =
     filter (\<lambda>ob. (case after of None \<Rightarrow> True | Some a \<Rightarrow> a < instant_of (fo_available_at ob)) \<and> instant_of (fo_available_at ob) \<le> through) obs"

definition observations_chronological :: "'f feature_observation list \<Rightarrow> bool" where
  "observations_chronological obs \<longleftrightarrow> sort_key (\<lambda>ob. instant_of (fo_available_at ob)) obs = obs"

record ('m, 'f) trained_baseline =
  tb_model :: 'm
  tb_model_version :: string
  tb_feature_definition :: feature_definition
  tb_trained_through :: datetime
  tb_validated_through :: datetime
  tb_validation :: "'f model_evaluation"

text \<open>The body the logistic baseline and both challengers share, over their classifier and settings.\<close>

definition train_baseline ::
  "('f, 'x) float_ops_scheme \<Rightarrow> 'f numeric_library \<Rightarrow> ('c, 'm, 'f) classifier \<Rightarrow> 'c \<Rightarrow> 'f feature_observation list \<Rightarrow> feature_definition
     \<Rightarrow> datetime \<Rightarrow> datetime \<Rightarrow> string \<Rightarrow> ('m, 'f) trained_baseline result" where
  "train_baseline F N C config obs d train_through validate_through version =
     (let train = in_window None (instant_of train_through) obs;
          validation = in_window (Some (instant_of train_through)) (instant_of validate_through) obs in
      if blank version then Inl (ValueError ''model version is required'')
      else if \<not> is_aware train_through \<or> \<not> is_aware validate_through
      then Inl (ValueError ''split timestamps must be timezone-aware'')
      else if instant_of train_through \<ge> instant_of validate_through
      then Inl (ValueError ''validation cutoff must follow training cutoff'')
      else if \<not> observations_chronological obs then Inl (ValueError ''observations must be chronological'')
      else if train = [] \<or> validation = [] then Inl (ValueError ''chronological training and validation sets are required'')
      else rbind (feature_matrix d True train) (\<lambda>(x_train, y_train).
           rbind (feature_matrix d True validation) (\<lambda>(x_validation, y_validation).
             if y_train = [] \<or> y_validation = [] \<or> length (remdups y_train) \<noteq> 2
             then Inl (ValueError ''training labels must contain both classes'')
             else rbind (cl_fit C config x_train y_train) (\<lambda>model.
                  rbind (cl_scores C model x_validation) (\<lambda>probabilities.
                  rbind (evaluate_model F N (length validation) y_validation probabilities) (\<lambda>evaluation.
                    Inr \<lparr>tb_model = model, tb_model_version = version, tb_feature_definition = d, tb_trained_through = train_through,
                         tb_validated_through = validate_through, tb_validation = evaluation\<rparr>))))))"

definition train_logistic_baseline ::
  "('f, 'x) float_ops_scheme \<Rightarrow> 'f numeric_library \<Rightarrow> (unit, 'm, 'f) classifier \<Rightarrow> 'f feature_observation list \<Rightarrow> feature_definition
     \<Rightarrow> datetime \<Rightarrow> datetime \<Rightarrow> string \<Rightarrow> ('m, 'f) trained_baseline result" where
  "train_logistic_baseline F N C obs d train_through validate_through version =
     train_baseline F N C () obs d train_through validate_through version"

record random_forest_config =
  rf_estimators :: int
  rf_maximum_depth :: int
  rf_minimum_samples_leaf :: int
  rf_random_seed :: int

definition default_forest :: random_forest_config where
  "default_forest = \<lparr>rf_estimators = 200, rf_maximum_depth = 6, rf_minimum_samples_leaf = 10, rf_random_seed = 0\<rparr>"

definition make_random_forest_config :: "random_forest_config \<Rightarrow> random_forest_config result" where
  "make_random_forest_config c =
     (if min (rf_estimators c) (min (rf_maximum_depth c) (rf_minimum_samples_leaf c)) \<le> 0
      then Inl (ValueError ''random-forest size controls must be positive'') else Inr c)"

definition train_random_forest_baseline ::
  "('f, 'x) float_ops_scheme \<Rightarrow> 'f numeric_library \<Rightarrow> (random_forest_config, 'm, 'f) classifier \<Rightarrow> random_forest_config option
     \<Rightarrow> 'f feature_observation list \<Rightarrow> feature_definition \<Rightarrow> datetime \<Rightarrow> datetime \<Rightarrow> string \<Rightarrow> ('m, 'f) trained_baseline result" where
  "train_random_forest_baseline F N C config obs d train_through validate_through version =
     train_baseline F N C (case config of None \<Rightarrow> default_forest | Some c \<Rightarrow> c) obs d train_through validate_through version"

record 'f gradient_boosting_config =
  gb_estimators :: int
  gb_learning_rate :: 'f
  gb_maximum_depth :: int
  gb_minimum_samples_leaf :: int
  gb_random_seed :: int

definition default_boosting :: "('f, 'm) float_ops_scheme \<Rightarrow> 'f gradient_boosting_config" where
  "default_boosting F =
     \<lparr>gb_estimators = 100, gb_learning_rate = f_of_rat F (5 / 100), gb_maximum_depth = 3, gb_minimum_samples_leaf = 10, gb_random_seed = 0\<rparr>"

definition make_gradient_boosting_config ::
  "('f, 'm) float_ops_scheme \<Rightarrow> 'f gradient_boosting_config \<Rightarrow> 'f gradient_boosting_config result" where
  "make_gradient_boosting_config F c =
     (if min (gb_estimators c) (min (gb_maximum_depth c) (gb_minimum_samples_leaf c)) \<le> 0
      then Inl (ValueError ''gradient-boosting size controls must be positive'')
      else if \<not> (f_less F (f_of_int F 0) (gb_learning_rate c) \<and> f_leq F (gb_learning_rate c) (f_of_int F 1))
      then Inl (ValueError ''gradient-boosting learning rate must be in (0, 1]'') else Inr c)"

definition train_gradient_boosting_baseline ::
  "('f, 'x) float_ops_scheme \<Rightarrow> 'f numeric_library \<Rightarrow> ('f gradient_boosting_config, 'm, 'f) classifier \<Rightarrow> 'f gradient_boosting_config option
     \<Rightarrow> 'f feature_observation list \<Rightarrow> feature_definition \<Rightarrow> datetime \<Rightarrow> datetime \<Rightarrow> string \<Rightarrow> ('m, 'f) trained_baseline result" where
  "train_gradient_boosting_baseline F N C config obs d train_through validate_through version =
     train_baseline F N C (case config of None \<Rightarrow> default_boosting F | Some c \<Rightarrow> c) obs d train_through validate_through version"

section \<open>Inference\<close>

definition prediction_guard :: "'f feature_observation \<Rightarrow> datetime \<Rightarrow> unit result" where
  "prediction_guard ob predicted_at =
     (if \<not> is_aware predicted_at then Inl (ValueError ''prediction timestamp must be timezone-aware'')
      else if instant_of (fo_available_at ob) > instant_of predicted_at
      then Inl (ValueError ''prediction cannot use features unavailable at prediction time'')
      else Inr ())"

text \<open>\<open>score\<close> gives class 1's probability for the matrix of the one observation; \<open>k\<close> is the fresh identifier.\<close>

definition predict_with ::
  "('f, 'x) float_ops_scheme \<Rightarrow> ('f list list \<Rightarrow> 'f result) \<Rightarrow> string \<Rightarrow> feature_definition \<Rightarrow> uuid \<Rightarrow> 'f feature_observation \<Rightarrow> datetime
     \<Rightarrow> 'f model_prediction result" where
  "predict_with F score version d k ob predicted_at =
     rbind (prediction_guard ob predicted_at) (\<lambda>_.
     rbind (feature_matrix d False [ob]) (\<lambda>(matrix, _).
     rbind (score matrix) (\<lambda>probability.
       make_model_prediction F \<lparr>mpr_predicted_at = predicted_at, mpr_probability = probability, mpr_model_version = version,
         mpr_feature_version = fd_version d, mpr_prediction_id = k\<rparr>)))"

definition predict_baseline ::
  "('f, 'x) float_ops_scheme \<Rightarrow> ('c, 'm, 'f) classifier \<Rightarrow> uuid \<Rightarrow> ('m, 'f) trained_baseline \<Rightarrow> 'f feature_observation \<Rightarrow> datetime
     \<Rightarrow> 'f model_prediction result" where
  "predict_baseline F C k b =
     predict_with F (\<lambda>matrix. rbind (cl_scores C (tb_model b) matrix) (\<lambda>ps. Inr (hd ps))) (tb_model_version b) (tb_feature_definition b) k"

record 'f feature_importance =
  fi_name :: string
  fi_coefficient :: 'f
  fi_absolute_share :: 'f

text \<open>Shares of the absolute coefficients of the logistic model, or of a tree model's importances.\<close>

definition coefficient_importance ::
  "('f, 'm) float_ops_scheme \<Rightarrow> 'f numeric_library \<Rightarrow> feature_definition \<Rightarrow> 'f list \<Rightarrow> 'f feature_importance list result" where
  "coefficient_importance F N d coefficients =
     (let total = nm_sum N (map (f_abs F) coefficients) in
      if length (fd_names d) \<noteq> length coefficients then Inl (ValueError ''zip() arguments have different lengths'')
      else Inr (map (\<lambda>(name, c). \<lparr>fi_name = name, fi_coefficient = c,
             fi_absolute_share = (if ftrue F total then f_div F (f_abs F c) total else f_of_int F 0)\<rparr>) (zip (fd_names d) coefficients)))"

definition tree_importance ::
  "('f, 'm) float_ops_scheme \<Rightarrow> 'f numeric_library \<Rightarrow> feature_definition \<Rightarrow> 'f list \<Rightarrow> 'f feature_importance list result" where
  "tree_importance F N d importances =
     (let total = nm_sum N importances in
      if length (fd_names d) \<noteq> length importances then Inl (ValueError ''zip() arguments have different lengths'')
      else Inr (map (\<lambda>(name, c). \<lparr>fi_name = name, fi_coefficient = c,
             fi_absolute_share = (if ftrue F total then f_div F c total else f_of_int F 0)\<rparr>) (zip (fd_names d) importances)))"

text \<open>The methods of the three classes: \<open>fitted\<close> reads the classifier's \<open>coef_[0]\<close> or \<open>feature_importances_\<close>.\<close>

definition logistic_importance ::
  "('f, 'x) float_ops_scheme \<Rightarrow> 'f numeric_library \<Rightarrow> ('m \<Rightarrow> 'f list) \<Rightarrow> ('m, 'f) trained_baseline \<Rightarrow> 'f feature_importance list result" where
  "logistic_importance F N fitted b = coefficient_importance F N (tb_feature_definition b) (fitted (tb_model b))"

definition random_forest_importance ::
  "('f, 'x) float_ops_scheme \<Rightarrow> 'f numeric_library \<Rightarrow> ('m \<Rightarrow> 'f list) \<Rightarrow> ('m, 'f) trained_baseline \<Rightarrow> 'f feature_importance list result" where
  "random_forest_importance F N fitted b = tree_importance F N (tb_feature_definition b) (fitted (tb_model b))"

definition gradient_boosting_importance ::
  "('f, 'x) float_ops_scheme \<Rightarrow> 'f numeric_library \<Rightarrow> ('m \<Rightarrow> 'f list) \<Rightarrow> ('m, 'f) trained_baseline \<Rightarrow> 'f feature_importance list result" where
  "gradient_boosting_importance F N fitted b = tree_importance F N (tb_feature_definition b) (fitted (tb_model b))"

definition predict_random_forest ::
  "('f, 'x) float_ops_scheme \<Rightarrow> (random_forest_config, 'm, 'f) classifier \<Rightarrow> uuid \<Rightarrow> ('m, 'f) trained_baseline \<Rightarrow> 'f feature_observation
     \<Rightarrow> datetime \<Rightarrow> 'f model_prediction result" where
  "predict_random_forest = predict_baseline"

definition predict_gradient_boosting ::
  "('f, 'x) float_ops_scheme \<Rightarrow> ('f gradient_boosting_config, 'm, 'f) classifier \<Rightarrow> uuid \<Rightarrow> ('m, 'f) trained_baseline
     \<Rightarrow> 'f feature_observation \<Rightarrow> datetime \<Rightarrow> 'f model_prediction result" where
  "predict_gradient_boosting = predict_baseline"

section \<open>Platt calibration\<close>

definition logits :: "('f, 'x) float_ops_scheme \<Rightarrow> 'f numeric_library \<Rightarrow> 'f list \<Rightarrow> 'f list list" where
  "logits F N probabilities =
     map (\<lambda>p. let c = nm_clip N p in [nm_log N (f_div F c (f_sub F (f_of_int F 1) c))]) probabilities"

record ('m, 'p, 'f) calibrated_baseline =
  cb_base_model :: 'm
  cb_calibrator :: 'p
  cb_model_version :: string
  cb_feature_definition :: feature_definition
  cb_trained_through :: datetime
  cb_calibrated_through :: datetime
  cb_validated_through :: datetime
  cb_validation :: "'f model_evaluation"

definition train_platt_calibrated_baseline ::
  "('f, 'x) float_ops_scheme \<Rightarrow> 'f numeric_library \<Rightarrow> (unit, 'm, 'f) classifier \<Rightarrow> (unit, 'p, 'f) classifier \<Rightarrow> 'f feature_observation list
     \<Rightarrow> feature_definition \<Rightarrow> datetime \<Rightarrow> datetime \<Rightarrow> datetime \<Rightarrow> string \<Rightarrow> ('m, 'p, 'f) calibrated_baseline result" where
  "train_platt_calibrated_baseline F N C P obs d train_through calibrate_through validate_through version =
     (let t = instant_of train_through; c = instant_of calibrate_through; v = instant_of validate_through;
          train = in_window None t obs; calibration = in_window (Some t) c obs; validation = in_window (Some c) v obs in
      if \<not> is_aware train_through \<or> \<not> is_aware calibrate_through \<or> \<not> is_aware validate_through
      then Inl (ValueError ''split timestamps must be timezone-aware'')
      else if \<not> (t < c \<and> c < v) then Inl (ValueError ''training, calibration, and validation cutoffs must be chronological'')
      else if blank version then Inl (ValueError ''model version is required'')
      else if \<not> observations_chronological obs then Inl (ValueError ''observations must be chronological'')
      else if train = [] \<or> calibration = [] \<or> validation = []
      then Inl (ValueError ''non-empty training, calibration, and validation windows are required'')
      else rbind (feature_matrix d True train) (\<lambda>(x_train, y_train).
           rbind (feature_matrix d True calibration) (\<lambda>(x_calibration, y_calibration).
           rbind (feature_matrix d True validation) (\<lambda>(x_validation, y_validation).
             if list_ex (\<lambda>ys. ys = [] \<or> length (remdups ys) \<noteq> 2) [y_train, y_calibration, y_validation]
             then Inl (ValueError ''every model window must contain both classes'')
             else rbind (cl_fit C () x_train y_train) (\<lambda>base.
                  rbind (cl_scores C base x_calibration) (\<lambda>raw.
                  rbind (cl_fit P () (logits F N raw) y_calibration) (\<lambda>calibrator.
                  rbind (cl_scores C base x_validation) (\<lambda>raw_validation.
                  rbind (cl_scores P calibrator (logits F N raw_validation)) (\<lambda>probabilities.
                  rbind (evaluate_model F N (length validation) y_validation probabilities) (\<lambda>evaluation.
                    Inr \<lparr>cb_base_model = base, cb_calibrator = calibrator, cb_model_version = version, cb_feature_definition = d,
                         cb_trained_through = train_through, cb_calibrated_through = calibrate_through,
                         cb_validated_through = validate_through, cb_validation = evaluation\<rparr>))))))))))"

definition predict_calibrated ::
  "('f, 'x) float_ops_scheme \<Rightarrow> 'f numeric_library \<Rightarrow> (unit, 'm, 'f) classifier \<Rightarrow> (unit, 'p, 'f) classifier \<Rightarrow> uuid
     \<Rightarrow> ('m, 'p, 'f) calibrated_baseline \<Rightarrow> 'f feature_observation \<Rightarrow> datetime \<Rightarrow> 'f model_prediction result" where
  "predict_calibrated F N C P k b =
     predict_with F (\<lambda>matrix. rbind (cl_scores C (cb_base_model b) matrix) (\<lambda>raw.
       rbind (cl_scores P (cb_calibrator b) (logits F N raw)) (\<lambda>ps. Inr (hd ps)))) (cb_model_version b) (cb_feature_definition b) k"

end
