(* ===== verification/Model_Training_Laws.thy ===== *)
theory Model_Training_Laws
  imports Model_Training
begin

text \<open>
  What training and inference promise, for any classifier, any numeric library and any floating point:
  a fitted model depends on its training window only, a prediction on the named features that
  were known, and the calibration error of exact arithmetic is a share.
\<close>

section \<open>Features by name\<close>

lemma feature_row_by_name:
  assumes "distinct (map fst (fo_values a))" and "distinct (map fst (fo_values b))"
    and "set (fo_values a) = set (fo_values b)" and "fo_label a = fo_label b"
  shows "feature_row d l a = feature_row d l b"
proof -
  have "map_of (rev (fo_values a)) = map_of (rev (fo_values b))"
    using assms(1-3) map_of_inject_set[of "rev (fo_values a)" "rev (fo_values b)"] by (simp add: rev_map[symmetric])
  then show ?thesis using assms(3,4) by (simp add: feature_row_def)
qed

lemma feature_matrix_one: "feature_matrix d l [ob] = rbind (feature_row d l ob) (\<lambda>row. Inr ([row], labels_of [ob]))"
  by (cases "feature_row d l ob") (simp_all add: feature_matrix_def)

section \<open>Windows\<close>

definition known_at :: "instant \<Rightarrow> 'f feature_observation list \<Rightarrow> 'f feature_observation list" where
  "known_at t obs = filter (\<lambda>ob. instant_of (fo_available_at ob) \<le> t) obs"

lemma in_window_known:
  "in_window None t obs = known_at t obs"
  "in_window (Some a) t obs = filter (\<lambda>ob. a < instant_of (fo_available_at ob)) (known_at t obs)"
  by (auto simp: in_window_def known_at_def intro: filter_cong)

lemma known_at_earlier: "s \<le> t \<Longrightarrow> known_at t obs = known_at t obs' \<Longrightarrow> known_at s obs = known_at s obs'"
proof -
  assume "s \<le> t" and eq: "known_at t obs = known_at t obs'"
  then have "known_at s xs = known_at s (known_at t xs)" for xs :: "'a feature_observation list"
    by (auto simp: known_at_def intro: filter_cong)
  then show ?thesis by (metis eq)
qed

lemma trained_baseline_cases:
  assumes "train_baseline F N C config obs d t v version = Inr b"
  obtains x_train y_train x_val y_val ps where "instant_of t < instant_of v"
    "feature_matrix d True (known_at (instant_of t) obs) = Inr (x_train, y_train)" "cl_fit C config x_train y_train = Inr (tb_model b)"
    "feature_matrix d True (in_window (Some (instant_of t)) (instant_of v) obs) = Inr (x_val, y_val)" "cl_scores C (tb_model b) x_val = Inr ps"
    "evaluate_model F N (length (in_window (Some (instant_of t)) (instant_of v) obs)) y_val ps = Inr (tb_validation b)"
    "b = \<lparr>tb_model = tb_model b, tb_model_version = version, tb_feature_definition = d, tb_trained_through = t,
          tb_validated_through = v, tb_validation = tb_validation b\<rparr>"
  using assms by (auto simp: train_baseline_def Let_def rbind_eq_Inr in_window_known(1) split: if_splits)

lemma trained_platt_cases:
  assumes "train_platt_calibrated_baseline F N C P obs d t c v version = Inr b"
  obtains x_train y_train x_cal y_cal raw x_val y_val raw_val ps where "instant_of t < instant_of c" "instant_of c < instant_of v"
    "feature_matrix d True (known_at (instant_of t) obs) = Inr (x_train, y_train)" "cl_fit C () x_train y_train = Inr (cb_base_model b)"
    "feature_matrix d True (in_window (Some (instant_of t)) (instant_of c) obs) = Inr (x_cal, y_cal)"
    "cl_scores C (cb_base_model b) x_cal = Inr raw" "cl_fit P () (logits F N raw) y_cal = Inr (cb_calibrator b)"
    "feature_matrix d True (in_window (Some (instant_of c)) (instant_of v) obs) = Inr (x_val, y_val)"
    "cl_scores C (cb_base_model b) x_val = Inr raw_val" "cl_scores P (cb_calibrator b) (logits F N raw_val) = Inr ps"
    "evaluate_model F N (length (in_window (Some (instant_of c)) (instant_of v) obs)) y_val ps = Inr (cb_validation b)"
    "b = \<lparr>cb_base_model = cb_base_model b, cb_calibrator = cb_calibrator b, cb_model_version = version, cb_feature_definition = d,
          cb_trained_through = t, cb_calibrated_through = c, cb_validated_through = v, cb_validation = cb_validation b\<rparr>"
  using assms by (auto simp: train_platt_calibrated_baseline_def Let_def rbind_eq_Inr in_window_known(1) split: if_splits)

lemma baseline_depends_on_known:
  assumes "train_baseline F N C config obs d t v version = Inr b" and "train_baseline F N C config obs' d t v version = Inr b'"
    and "known_at (instant_of t) obs = known_at (instant_of t) obs'"
  shows "tb_model b' = tb_model b \<and> (known_at (instant_of v) obs = known_at (instant_of v) obs' \<longrightarrow> b' = b)"
proof -
  from assms(1) obtain x y xv yv ps where 1: "feature_matrix d True (known_at (instant_of t) obs) = Inr (x, y)" "cl_fit C config x y = Inr (tb_model b)"
      "feature_matrix d True (in_window (Some (instant_of t)) (instant_of v) obs) = Inr (xv, yv)" "cl_scores C (tb_model b) xv = Inr ps"
      "evaluate_model F N (length (in_window (Some (instant_of t)) (instant_of v) obs)) yv ps = Inr (tb_validation b)"
      "b = \<lparr>tb_model = tb_model b, tb_model_version = version, tb_feature_definition = d, tb_trained_through = t,
            tb_validated_through = v, tb_validation = tb_validation b\<rparr>"
    by (rule trained_baseline_cases)
  from assms(2) obtain x' y' xv' yv' ps' where 2: "feature_matrix d True (known_at (instant_of t) obs') = Inr (x', y')" "cl_fit C config x' y' = Inr (tb_model b')"
      "feature_matrix d True (in_window (Some (instant_of t)) (instant_of v) obs') = Inr (xv', yv')" "cl_scores C (tb_model b') xv' = Inr ps'"
      "evaluate_model F N (length (in_window (Some (instant_of t)) (instant_of v) obs')) yv' ps' = Inr (tb_validation b')"
      "b' = \<lparr>tb_model = tb_model b', tb_model_version = version, tb_feature_definition = d, tb_trained_through = t,
            tb_validated_through = v, tb_validation = tb_validation b'\<rparr>"
    by (rule trained_baseline_cases)
  have model: "tb_model b' = tb_model b" using 1(1,2) 2(1,2) assms(3) by simp
  have "b' = b" if "known_at (instant_of v) obs = known_at (instant_of v) obs'"
  proof -
    have "tb_validation b' = tb_validation b" using 1(3-5) 2(3-5) model that by (simp add: in_window_known(2))
    then show ?thesis using 1(6) 2(6) model by metis
  qed
  then show ?thesis using model by blast
qed

lemma platt_depends_on_known:
  assumes "train_platt_calibrated_baseline F N C P obs d t c v version = Inr b"
    and "train_platt_calibrated_baseline F N C P obs' d t c v version = Inr b'"
    and "known_at (instant_of t) obs = known_at (instant_of t) obs'"
  shows "cb_base_model b' = cb_base_model b \<and> (known_at (instant_of c) obs = known_at (instant_of c) obs' \<longrightarrow> cb_calibrator b' = cb_calibrator b)
    \<and> (known_at (instant_of v) obs = known_at (instant_of v) obs' \<longrightarrow> b' = b)"
proof -
  from assms(1) obtain x y xc yc raw xv yv rv ps where order: "instant_of t < instant_of c" "instant_of c < instant_of v"
    and 1: "feature_matrix d True (known_at (instant_of t) obs) = Inr (x, y)" "cl_fit C () x y = Inr (cb_base_model b)"
      "feature_matrix d True (in_window (Some (instant_of t)) (instant_of c) obs) = Inr (xc, yc)" "cl_scores C (cb_base_model b) xc = Inr raw"
      "cl_fit P () (logits F N raw) yc = Inr (cb_calibrator b)"
      "feature_matrix d True (in_window (Some (instant_of c)) (instant_of v) obs) = Inr (xv, yv)" "cl_scores C (cb_base_model b) xv = Inr rv"
      "cl_scores P (cb_calibrator b) (logits F N rv) = Inr ps"
      "evaluate_model F N (length (in_window (Some (instant_of c)) (instant_of v) obs)) yv ps = Inr (cb_validation b)"
    and shape: "b = \<lparr>cb_base_model = cb_base_model b, cb_calibrator = cb_calibrator b, cb_model_version = version, cb_feature_definition = d,
          cb_trained_through = t, cb_calibrated_through = c, cb_validated_through = v, cb_validation = cb_validation b\<rparr>"
    by (rule trained_platt_cases)
  from assms(2) obtain x' y' xc' yc' raw' xv' yv' rv' ps' where
      2: "feature_matrix d True (known_at (instant_of t) obs') = Inr (x', y')" "cl_fit C () x' y' = Inr (cb_base_model b')"
      "feature_matrix d True (in_window (Some (instant_of t)) (instant_of c) obs') = Inr (xc', yc')" "cl_scores C (cb_base_model b') xc' = Inr raw'"
      "cl_fit P () (logits F N raw') yc' = Inr (cb_calibrator b')"
      "feature_matrix d True (in_window (Some (instant_of c)) (instant_of v) obs') = Inr (xv', yv')" "cl_scores C (cb_base_model b') xv' = Inr rv'"
      "cl_scores P (cb_calibrator b') (logits F N rv') = Inr ps'"
      "evaluate_model F N (length (in_window (Some (instant_of c)) (instant_of v) obs')) yv' ps' = Inr (cb_validation b')"
    and shape': "b' = \<lparr>cb_base_model = cb_base_model b', cb_calibrator = cb_calibrator b', cb_model_version = version, cb_feature_definition = d,
          cb_trained_through = t, cb_calibrated_through = c, cb_validated_through = v, cb_validation = cb_validation b'\<rparr>"
    by (rule trained_platt_cases)
  have base: "cb_base_model b' = cb_base_model b" using 1(1,2) 2(1,2) assms(3) by simp
  have cal: "cb_calibrator b' = cb_calibrator b" if "known_at (instant_of c) obs = known_at (instant_of c) obs'"
    using 1(3-5) 2(3-5) base that by (simp add: in_window_known(2))
  have "b' = b" if "known_at (instant_of v) obs = known_at (instant_of v) obs'"
  proof -
    have same: "cb_calibrator b' = cb_calibrator b" using cal known_at_earlier[OF _ that] order by simp
    then have "cb_validation b' = cb_validation b" using 1(6-9) 2(6-9) base that by (simp add: in_window_known(2))
    then show ?thesis using shape shape' base same by metis
  qed
  then show ?thesis using base cal by blast
qed

text \<open>C20: Training never sees the data it is judged on.  Whatever the classifier is, two histories that agree on what was
  available up to the training cutoff give the same fitted model, and up to the validation cutoff the same model with the same
  evaluation: labels and features from after a cutoff have no influence.  With Platt calibration the base model depends on the
  training window only, and the calibrator on what was available up to the calibration cutoff.\<close>

theorem training_never_sees_later_data:
  "(\<forall>obs obs' b b'. train_baseline F N C config obs d t v version = Inr b \<and> train_baseline F N C config obs' d t v version = Inr b'
      \<and> known_at (instant_of t) obs = known_at (instant_of t) obs' \<longrightarrow>
      tb_model b' = tb_model b \<and> (known_at (instant_of v) obs = known_at (instant_of v) obs' \<longrightarrow> b' = b))
   \<and> (\<forall>obs obs' b b'. train_platt_calibrated_baseline F N C' P obs d t c v version = Inr b
      \<and> train_platt_calibrated_baseline F N C' P obs' d t c v version = Inr b'
      \<and> known_at (instant_of t) obs = known_at (instant_of t) obs' \<longrightarrow>
      cb_base_model b' = cb_base_model b \<and> (known_at (instant_of c) obs = known_at (instant_of c) obs' \<longrightarrow> cb_calibrator b' = cb_calibrator b)
      \<and> (known_at (instant_of v) obs = known_at (instant_of v) obs' \<longrightarrow> b' = b))"
  by (intro conjI[of "\<forall>obs. _ obs"] allI impI; elim conjE; intro baseline_depends_on_known platt_depends_on_known)

section \<open>Predictions\<close>

text \<open>A prediction uses known, named features only.  When any model predicts, the observation was available at the time of
  the prediction and carries exactly the features of the model's definition, the probability is finite and between 0 and 1,
  and the answer is stamped with the model's own versions; the order in which the observation lists its features has no
  influence.\<close>

theorem predictions_use_known_named_features:
  assumes "predict_with F score version d k ob predicted_at = Inr p"
  shows "instant_of (fo_available_at ob) \<le> instant_of predicted_at \<and> fst ` set (fo_values ob) = set (fd_names d)
    \<and> f_finite F (mpr_probability p) \<and> f_leq F (f_of_int F 0) (mpr_probability p) \<and> f_leq F (mpr_probability p) (f_of_int F 1)
    \<and> mpr_model_version p = version \<and> mpr_feature_version p = fd_version d \<and> mpr_predicted_at p = predicted_at
    \<and> (\<forall>xs. distinct (map fst (fo_values ob)) \<and> distinct (map fst xs) \<and> set xs = set (fo_values ob) \<longrightarrow>
         predict_with F score version d k (ob\<lparr>fo_values := xs\<rparr>) predicted_at = Inr p)"
proof -
  have "predict_with F score version d k (ob\<lparr>fo_values := xs\<rparr>) predicted_at = Inr p"
    if "distinct (map fst (fo_values ob))" "distinct (map fst xs)" "set xs = set (fo_values ob)" for xs
  proof -
    have "feature_row d False (ob\<lparr>fo_values := xs\<rparr>) = feature_row d False ob"
      using that by (intro feature_row_by_name) simp_all
    then have "predict_with F score version d k (ob\<lparr>fo_values := xs\<rparr>) predicted_at = predict_with F score version d k ob predicted_at"
      by (simp add: predict_with_def feature_matrix_one prediction_guard_def labels_of_def)
    then show ?thesis using assms by simp
  qed
  then show ?thesis
    using assms by (auto simp: predict_with_def prediction_guard_def rbind_eq_Inr make_model_prediction_def feature_matrix_one feature_row_def Let_def
        split: if_splits)
qed

section \<open>Calibration error\<close>

lemma sum_list_unit: "(\<forall>x \<in> set xs. 0 \<le> x \<and> x \<le> 1) \<Longrightarrow> 0 \<le> sum_list xs \<and> sum_list xs \<le> (of_nat (length xs) :: rat)"
  by (induction xs) auto

lemma mean_unit:
  fixes xs :: "rat list"
  assumes "xs \<noteq> []" and "\<forall>x \<in> set xs. 0 \<le> x \<and> x \<le> 1"
  shows "0 \<le> sum_list xs / of_nat (length xs) \<and> sum_list xs / of_nat (length xs) \<le> 1"
  using sum_list_unit[OF assms(2)] assms(1) by (simp add: divide_simps)

lemma foldl_skip_sum:
  "foldl (\<lambda>(e :: rat) i. if skip i then e else e + g i) e0 [0..<n] = e0 + (\<Sum>i<n. if skip i then 0 else g i)"
  by (induction n) auto

lemma bins_partition: "(\<Sum>i<(n :: nat). length (filter (\<lambda>x. bin x = i) xs)) \<le> length xs"
proof (induction xs)
  case (Cons x xs)
  have step: "length (filter (\<lambda>y. bin y = i) (x # xs)) = length (filter (\<lambda>y. bin y = i) xs) + (if bin x = i then 1 else 0)" for i
    by simp
  have "(\<Sum>i<n. length (filter (\<lambda>y. bin y = i) (x # xs))) = (\<Sum>i<n. length (filter (\<lambda>y. bin y = i) xs)) + (\<Sum>i<n. if bin x = i then 1 else 0)"
    by (simp only: step sum.distrib)
  also have "(\<Sum>i<n. if bin x = i then 1 else 0 :: nat) \<le> 1" by (induction n) auto
  finally show ?case using Cons.IH by simp
qed simp

text \<open>The calibration error is a share.  In exact arithmetic, for labels 0 and 1 and probabilities between 0 and 1, it lies
  between 0 and 1 for every number of bins, and it is 0 when every probability is its label.\<close>

theorem calibration_error_is_a_share:
  assumes "expected_calibration_error rat_ops N labels ps bins = Inr e"
    and "\<forall>xs. xs \<noteq> [] \<longrightarrow> nm_mean N xs = sum_list xs / of_nat (length xs)"
    and "set labels \<subseteq> {0, 1}" and "\<forall>p \<in> set ps. 0 \<le> p \<and> p \<le> 1"
  shows "0 \<le> e \<and> e \<le> 1 \<and> (ps = map of_int labels \<longrightarrow> e = 0)"
proof -
  let ?pairs = "zip labels ps" and ?n = "nat bins"
  define bin where "bin = (\<lambda>x :: int \<times> rat. bin_of rat_ops (nm_edges N ?n) ?n (snd x))"
  define inside where "inside i = filter (\<lambda>x. bin x = i) ?pairs" for i
  have ok: "length labels = length ps" "labels \<noteq> []"
    using assms(1) by (auto simp: expected_calibration_error_def split: if_splits)
  have ops: "f_add rat_ops = (+)" "f_of_int rat_ops 0 = 0" by (simp_all add: rat_ops_def)
  have "e = foldl (\<lambda>e i. if inside i = [] then e else e + bin_error rat_ops N (length labels) (inside i)) 0 [0..<?n]"
    using assms(1)
    by (simp add: expected_calibration_error_def Let_def inside_def bin_def ops case_prod_unfold cong: if_cong split: if_splits)
  then have e: "e = (\<Sum>i<?n. if inside i = [] then 0 else bin_error rat_ops N (length labels) (inside i))"
    using foldl_skip_sum[of "\<lambda>i. inside i = []" "\<lambda>i. bin_error rat_ops N (length labels) (inside i)" 0 ?n] by simp
  have part: "0 \<le> (if inside i = [] then 0 else bin_error rat_ops N (length labels) (inside i))
      \<and> (if inside i = [] then 0 else bin_error rat_ops N (length labels) (inside i)) \<le> of_nat (length (inside i)) / of_nat (length labels)" for i
  proof (cases "inside i = []")
    case False
    let ?p = "sum_list (map snd (inside i)) / of_nat (length (inside i))"
    let ?y = "sum_list (map (of_int \<circ> fst) (inside i)) / (of_nat (length (inside i)) :: rat)"
    have members: "set (inside i) \<subseteq> set ?pairs" by (auto simp: inside_def)
    then have "\<forall>x \<in> set (map snd (inside i)). 0 \<le> x \<and> x \<le> 1" using assms(4) by (auto dest!: set_zip_rightD)
    then have p: "0 \<le> ?p" "?p \<le> 1" using mean_unit[of "map snd (inside i)"] False by auto
    have "\<forall>x \<in> set (map (of_int \<circ> fst) (inside i) :: rat list). 0 \<le> x \<and> x \<le> 1" using members assms(3) by (fastforce dest!: set_zip_leftD)
    then have y: "0 \<le> ?y" "?y \<le> 1" using mean_unit[of "map (of_int \<circ> fst) (inside i)"] False by auto
    have "bin_error rat_ops N (length labels) (inside i) = of_nat (length (inside i)) / of_nat (length labels) * \<bar>?p - ?y\<bar>"
      using False assms(2) by (simp add: bin_error_def rat_ops_def comp_def)
    moreover have "\<bar>?p - ?y\<bar> \<le> 1" using p y by linarith
    then have "of_nat (length (inside i)) / of_nat (length labels) * \<bar>?p - ?y\<bar> \<le> of_nat (length (inside i)) / of_nat (length labels)"
      by (rule mult_left_le) simp
    ultimately show ?thesis using False by (simp del: times_divide_eq_left)
  qed simp
  have "e \<le> (\<Sum>i<?n. of_nat (length (inside i)) / of_nat (length labels))" unfolding e using part by (intro sum_mono) blast
  also have "\<dots> = of_nat (\<Sum>i<?n. length (inside i)) / of_nat (length labels)" by (simp add: sum_divide_distrib)
  also have "\<dots> \<le> 1"
    using bins_partition[where bin = bin and n = ?n and xs = ?pairs] ok by (simp add: inside_def divide_simps flip: of_nat_sum)
  finally have "e \<le> 1" .
  moreover have "0 \<le> e" unfolding e using part by (intro sum_nonneg) blast
  moreover have "e = 0" if "ps = map of_int labels"
  proof -
    have "snd x = of_int (fst x)" if "x \<in> set ?pairs" for x using that \<open>ps = _\<close> by (auto simp: set_zip)
    then have same: "map snd (inside i) = map (f_of_int rat_ops \<circ> fst) (inside i)" for i by (auto simp: inside_def rat_ops_def)
    have "bin_error rat_ops N n (inside i) = 0" for n i unfolding bin_error_def same by (simp add: rat_ops_def)
    then show ?thesis unfolding e by (intro sum.neutral) simp
  qed
  ultimately show ?thesis by blast
qed

section \<open>An example\<close>

definition count_classifier :: "('c, nat, rat) classifier" where
  "count_classifier = \<lparr>cl_fit = \<lambda>_ rows _. Inr (length rows), cl_scores = \<lambda>m rows. Inr (map (\<lambda>_. 1 / of_nat m) rows)\<rparr>"

definition plain_numbers :: "rat numeric_library" where
  "plain_numbers =
     \<lparr>nm_accuracy = \<lambda>_ _. Inr 0, nm_brier = \<lambda>_ _. Inr 0, nm_log_loss = \<lambda>_ _. Inr 0, nm_edges = \<lambda>n. map (\<lambda>i. of_nat i / of_nat n) [1..<n],
      nm_mean = \<lambda>xs. sum_list xs / of_nat (length xs), nm_quantiles = \<lambda>_ _. [], nm_histogram = \<lambda>_ xs. [length xs], nm_log = id,
      nm_sum = sum_list, nm_clip = id\<rparr>"

definition seen :: "instant \<Rightarrow> rat \<Rightarrow> int \<Rightarrow> rat feature_observation" where
  "seen t x y = \<lparr>fo_available_at = Aware t, fo_values = [(''x'', x)], fo_label = Some y\<rparr>"

definition one_feature :: feature_definition where
  "one_feature = \<lparr>fd_names = [''x''], fd_version = ''f1''\<rparr>"

lemma seen_trains:
  "t1 < t2 \<Longrightarrow> t2 < t3 \<Longrightarrow> \<exists>b. train_baseline rat_ops plain_numbers count_classifier () [seen t1 a 0, seen t2 b' 1, seen t3 c y] one_feature
     (Aware t2) (Aware t3) ''v1'' = Inr b"
  by (simp add: train_baseline_def Let_def in_window_def seen_def observations_chronological_def one_feature_def feature_matrix_def feature_row_def labels_of_def
      blank_def is_space_def count_classifier_def evaluate_model_def plain_numbers_def expected_calibration_error_def)

theorem training_never_sees_later_data_witness:
  "\<exists>b b'. train_baseline rat_ops plain_numbers count_classifier () [seen 1 5 0, seen 2 6 1, seen 3 7 0] one_feature (Aware 2) (Aware 3) ''v1'' = Inr b
     \<and> train_baseline rat_ops plain_numbers count_classifier () [seen 1 5 0, seen 2 6 1, seen 3 9 1] one_feature (Aware 2) (Aware 3) ''v1'' = Inr b'
     \<and> tb_model b' = tb_model b"
proof -
  obtain b where b: "train_baseline rat_ops plain_numbers count_classifier () [seen 1 5 0, seen 2 6 1, seen 3 7 0] one_feature (Aware 2) (Aware 3) ''v1'' = Inr b"
    using seen_trains[of 1 2 3 5 6 7 0] by auto
  obtain b' where b': "train_baseline rat_ops plain_numbers count_classifier () [seen 1 5 0, seen 2 6 1, seen 3 9 1] one_feature (Aware 2) (Aware 3) ''v1'' = Inr b'"
    using seen_trains[of 1 2 3 5 6 9 1] by auto
  have "known_at (instant_of (Aware 2)) [seen 1 5 0, seen 2 6 1, seen 3 7 0] = known_at (instant_of (Aware 2)) [seen 1 5 0, seen 2 6 1, seen 3 9 1]"
    by (simp add: known_at_def seen_def)
  then have "tb_model b' = tb_model b"
    using conjunct1[OF training_never_sees_later_data[of rat_ops plain_numbers count_classifier "()" one_feature "Aware 2" "Aware 3" "''v1''"
      count_classifier count_classifier "Aware 2"]] b b' by blast
  with b b' show ?thesis by blast
qed

theorem predictions_use_known_named_features_witness:
  "\<exists>p. predict_with rat_ops (\<lambda>_. Inr (1 / 2)) ''v1'' one_feature 4 (seen 1 5 0) (Aware 2) = Inr p \<and> mpr_probability p \<le> 1"
proof -
  obtain p where p: "predict_with rat_ops (\<lambda>_. Inr (1 / 2)) ''v1'' one_feature 4 (seen 1 5 0) (Aware 2) = Inr p"
    by (simp add: predict_with_def prediction_guard_def feature_matrix_one feature_row_def seen_def one_feature_def make_model_prediction_def
        blank_def is_space_def rat_ops_def Let_def)
  from predictions_use_known_named_features[OF p] p show ?thesis by (auto simp: rat_ops_def)
qed

theorem calibration_error_is_a_share_witness:
  "\<exists>e. expected_calibration_error rat_ops plain_numbers [0, 1] [1 / 4, 1] 2 = Inr e \<and> 0 \<le> e \<and> e \<le> 1"
proof -
  obtain e where e: "expected_calibration_error rat_ops plain_numbers [0, 1] [1 / 4, 1] 2 = Inr e"
    by (auto simp: expected_calibration_error_def Let_def)
  have "\<forall>xs. xs \<noteq> [] \<longrightarrow> nm_mean plain_numbers xs = sum_list xs / of_nat (length xs)" by (simp add: plain_numbers_def)
  from calibration_error_is_a_share[OF e this] e show ?thesis by auto
qed

end
