(* ===== verification/Portable_Model.thy ===== *)
theory Portable_Model
  imports Model_Training_Laws Artifact_Store
begin

text \<open>
  The JSON form of a fitted logistic model (\<open>packages/machine_learning/portable.py\<close>).  The JSON library is a
  parameter: \<open>dumps\<close> writes a value, \<open>loads hook\<close> reads one and calls the hook on the pairs of every object.  numpy's dot product and the fitted attributes of scikit-learn's
  estimators are parameters too.
\<close>

section \<open>JSON values\<close>

datatype 'f json_value =
    JNull
  | JBool bool
  | JNumber "'f number"
  | JString string
  | JArray "'f json_value list"
  | JObject "(string \<times> 'f json_value) list"

text \<open>The decoder's own errors, or what the hook or the decoder otherwise raised.\<close>

datatype json_error = DecodeError | Raised pyerror

type_synonym 'f json_reader = "((string \<times> 'f json_value) list \<Rightarrow> 'f json_value result) \<Rightarrow> string \<Rightarrow> json_error + 'f json_value"

section \<open>The model\<close>

record 'f portable_model =
  pm_model_version :: string
  pm_feature_definition :: feature_definition
  pm_means :: "'f list"
  pm_scales :: "'f list"
  pm_coefficients :: "'f list"
  pm_intercept :: 'f

definition make_portable_model :: "('f, 'x) float_ops_scheme \<Rightarrow> 'f portable_model \<Rightarrow> 'f portable_model result" where
  "make_portable_model F m =
     (let width = length (fd_names (pm_feature_definition m)) in
      if blank (pm_model_version m) then Inl (ValueError ''model version is required'')
      else if list_ex (\<lambda>xs. length xs \<noteq> width) [pm_means m, pm_scales m, pm_coefficients m]
      then Inl (ValueError ''portable model vectors must match the feature definition'')
      else if \<not> list_all (f_finite F) (pm_means m @ pm_scales m @ pm_coefficients m @ [pm_intercept m])
      then Inl (ValueError ''portable model parameters must be finite'')
      else if list_ex (\<lambda>x. f_leq F x (f_of_int F 0)) (pm_scales m) then Inl (ValueError ''portable model scales must be positive'')
      else Inr m)"

text \<open>\<open>fitted\<close> reads the scaler's means and scales and the classifier's coefficients and intercept.\<close>

definition portable_from_baseline ::
  "('f, 'x) float_ops_scheme \<Rightarrow> ('m \<Rightarrow> 'f list \<times> 'f list \<times> 'f list \<times> 'f) \<Rightarrow> ('m, 'f) trained_baseline \<Rightarrow> 'f portable_model result" where
  "portable_from_baseline F fitted b =
     (case fitted (tb_model b) of (means, scales, coefficients, intercept) \<Rightarrow>
        make_portable_model F \<lparr>pm_model_version = tb_model_version b, pm_feature_definition = tb_feature_definition b, pm_means = means,
          pm_scales = scales, pm_coefficients = coefficients, pm_intercept = intercept\<rparr>)"

section \<open>Writing and reading\<close>

definition format_version :: string where
  "format_version = ''portable-logistic-v1''"

definition maximum_document_bytes :: nat where
  "maximum_document_bytes = 1000000"

definition float_array :: "'f list \<Rightarrow> 'f json_value" where
  "float_array xs = JArray (map (\<lambda>x. JNumber (PyFloat x)) xs)"

definition portable_document :: "'f portable_model \<Rightarrow> (string \<times> 'f json_value) list" where
  "portable_document m =
     [(''coefficients'', float_array (pm_coefficients m)), (''feature_names'', JArray (map JString (fd_names (pm_feature_definition m)))),
      (''feature_version'', JString (fd_version (pm_feature_definition m))), (''format'', JString format_version),
      (''intercept'', JNumber (PyFloat (pm_intercept m))), (''means'', float_array (pm_means m)),
      (''model_version'', JString (pm_model_version m)), (''scales'', float_array (pm_scales m))]"

definition portable_to_bytes :: "('f json_value \<Rightarrow> string result) \<Rightarrow> 'f portable_model \<Rightarrow> string result" where
  "portable_to_bytes dumps m = dumps (JObject (portable_document m))"

text \<open>\<open>_unique_object\<close>: the loop over the pairs.\<close>

definition unique_object :: "(string \<times> 'f json_value) list \<Rightarrow> 'f json_value result" where
  "unique_object pairs =
     rbind (rfold (\<lambda>document (k, v). if k \<in> fst ` set document then Inl (ValueError ''portable model contains duplicate fields'')
                                     else Inr (document @ [(k, v)])) [] pairs)
       (\<lambda>document. Inr (JObject document))"

definition json_string :: "'f json_value \<Rightarrow> string result" where
  "json_string j = (case j of JString s \<Rightarrow> Inr s | _ \<Rightarrow> Inl (TypeError []))"

definition json_strings :: "'f json_value \<Rightarrow> string list result" where
  "json_strings j = (case j of JArray js \<Rightarrow> rmap json_string js | _ \<Rightarrow> Inl (TypeError []))"

definition json_number :: "('f, 'x) float_ops_scheme \<Rightarrow> 'f json_value \<Rightarrow> 'f result" where
  "json_number F j = (case j of JNumber n \<Rightarrow> to_float F n | _ \<Rightarrow> Inl (TypeError []))"

definition json_numbers :: "('f, 'x) float_ops_scheme \<Rightarrow> 'f json_value \<Rightarrow> 'f list result" where
  "json_numbers F j = (case j of JArray js \<Rightarrow> rmap (json_number F) js | _ \<Rightarrow> Inl (TypeError []))"

definition document_fields :: "string list" where
  "document_fields = [''coefficients'', ''feature_names'', ''feature_version'', ''format'', ''intercept'', ''means'', ''model_version'', ''scales'']"

definition field :: "(string \<times> 'f json_value) list \<Rightarrow> string \<Rightarrow> 'f json_value" where
  "field document k = the (map_of document k)"

text \<open>The body of the second \<open>try\<close>.\<close>

definition parse_document :: "('f, 'x) float_ops_scheme \<Rightarrow> (string \<times> 'f json_value) list \<Rightarrow> 'f portable_model result" where
  "parse_document F document =
     rbind (json_strings (field document ''feature_names'')) (\<lambda>names.
     rbind (json_string (field document ''feature_version'')) (\<lambda>version.
     rbind (make_feature_definition \<lparr>fd_names = names, fd_version = version\<rparr>) (\<lambda>d.
     rbind (json_string (field document ''model_version'')) (\<lambda>model_version.
     rbind (json_numbers F (field document ''means'')) (\<lambda>means.
     rbind (json_numbers F (field document ''scales'')) (\<lambda>scales.
     rbind (json_numbers F (field document ''coefficients'')) (\<lambda>coefficients.
     rbind (json_number F (field document ''intercept'')) (\<lambda>intercept.
       make_portable_model F \<lparr>pm_model_version = model_version, pm_feature_definition = d, pm_means = means, pm_scales = scales,
         pm_coefficients = coefficients, pm_intercept = intercept\<rparr>))))))))"

definition portable_from_bytes :: "('f, 'x) float_ops_scheme \<Rightarrow> 'f json_reader \<Rightarrow> string \<Rightarrow> 'f portable_model result" where
  "portable_from_bytes F loads payload =
     (if payload = [] \<or> length payload > maximum_document_bytes then Inl (ValueError ''portable model document size is invalid'')
      else case loads unique_object payload of
          Inl DecodeError \<Rightarrow> Inl (ValueError ''portable model must be valid UTF-8 JSON'')
        | Inl (Raised e) \<Rightarrow> Inl e
        | Inr (JObject document) \<Rightarrow>
            if fst ` set document \<noteq> set document_fields then Inl (ValueError ''portable model has an unsupported schema'')
            else if field document ''format'' \<noteq> JString format_version then Inl (ValueError ''portable model format is unsupported'')
            else (case parse_document F document of
                Inl (TypeError _) \<Rightarrow> Inl (ValueError ''portable model contains invalid parameters'')
              | Inl (ValueError _) \<Rightarrow> Inl (ValueError ''portable model contains invalid parameters'')
              | r \<Rightarrow> r)
        | Inr _ \<Rightarrow> Inl (ValueError ''portable model has an unsupported schema''))"

section \<open>Inference\<close>

definition sigmoid :: "('f, 'x) float_ops_scheme \<Rightarrow> 'f \<Rightarrow> 'f result" where
  "sigmoid F x =
     (if f_leq F (f_of_int F 0) x
      then rbind (f_exp F (f_neg F x)) (\<lambda>e. fdivide F (f_of_int F 1) (f_add F (f_of_int F 1) e))
      else rbind (f_exp F x) (\<lambda>e. fdivide F e (f_add F (f_of_int F 1) e)))"

definition portable_score :: "('f, 'x) float_ops_scheme \<Rightarrow> ('f list \<Rightarrow> 'f list \<Rightarrow> 'f) \<Rightarrow> 'f portable_model \<Rightarrow> 'f list list \<Rightarrow> 'f result" where
  "portable_score F dot m matrix =
     (let standardized = map2 (f_div F) (map2 (f_sub F) (hd matrix) (pm_means m)) (pm_scales m) in
      sigmoid F (f_add F (dot standardized (pm_coefficients m)) (pm_intercept m)))"

definition predict_portable ::
  "('f, 'x) float_ops_scheme \<Rightarrow> ('f list \<Rightarrow> 'f list \<Rightarrow> 'f) \<Rightarrow> uuid \<Rightarrow> 'f portable_model \<Rightarrow> 'f feature_observation \<Rightarrow> datetime \<Rightarrow> 'f model_prediction result" where
  "predict_portable F dot k m = predict_with F (portable_score F dot m) (pm_model_version m) (pm_feature_definition m) k"

section \<open>Reading back\<close>

fun no_object :: "'f json_value \<Rightarrow> bool" where
  "no_object (JObject _) = False"
| "no_object (JArray js) = list_all no_object js"
| "no_object _ = True"

fun finite_json :: "('f, 'x) float_ops_scheme \<Rightarrow> 'f json_value \<Rightarrow> bool" where
  "finite_json F (JNumber (PyFloat x)) = f_finite F x"
| "finite_json F (JArray js) = list_all (finite_json F) js"
| "finite_json F _ = True"

text \<open>What \<open>json\<close> documents, for the pairs of one object: when their values hold no object and no NaN or infinity, the object
  is written, and read back it is what the hook makes of the same pairs.\<close>

definition json_reads_back :: "('f, 'x) float_ops_scheme \<Rightarrow> ('f json_value \<Rightarrow> string result) \<Rightarrow> 'f json_reader \<Rightarrow> (string \<times> 'f json_value) list \<Rightarrow> bool" where
  "json_reads_back F dumps loads pairs \<longleftrightarrow>
     (list_all (\<lambda>(_, v). no_object v \<and> finite_json F v) pairs \<longrightarrow>
        (\<exists>t. dumps (JObject pairs) = Inr t \<and> t \<noteq> []
           \<and> (\<forall>hook. loads hook t = (case hook pairs of Inl e \<Rightarrow> Inl (Raised e) | Inr j \<Rightarrow> Inr j))))"

lemma unique_object_distinct: "distinct (map fst pairs) \<Longrightarrow> unique_object pairs = Inr (JObject pairs)"
proof -
  have "rfold (\<lambda>document (k, v). if k \<in> fst ` set document then Inl (ValueError ''portable model contains duplicate fields'')
      else Inr (document @ [(k, v)])) start pairs = Inr (start @ pairs)"
    if "distinct (map fst (start @ pairs))" for start
    using that by (induction pairs arbitrary: start) (auto split: if_splits)
  from this[of "[]"] show "distinct (map fst pairs) \<Longrightarrow> unique_object pairs = Inr (JObject pairs)"
    by (simp add: unique_object_def)
qed

lemma json_strings_back: "json_strings (JArray (map JString xs)) = Inr xs"
  by (simp add: json_strings_def comp_def) (induction xs; simp add: json_string_def)

lemma json_numbers_back: "json_numbers F (float_array xs) = Inr xs"
  by (simp add: json_numbers_def float_array_def comp_def) (induction xs; simp add: json_number_def to_float_def)

lemma no_object_arrays [simp]: "no_object (float_array xs)" "list_all no_object (map JString ss)"
  by (simp_all add: float_array_def list_all_iff)

lemma finite_arrays [simp]: "finite_json F (float_array xs) = list_all (f_finite F) xs" "list_all (finite_json F) (map JString ss)"
  by (simp_all add: float_array_def list_all_iff)

text \<open>C24: A portable model survives its document.  With a JSON library that reads back the object it writes, a valid model
  is always written, and when its document is within the size limit, reading it gives the same model; whatever is read from any
  document, with any library, is a valid model of a valid feature definition, so its scales are positive and its vectors have the
  width of the definition.\<close>

theorem portable_models_survive_their_document:
  assumes "make_portable_model F m = Inr m" and "make_feature_definition (pm_feature_definition m) = Inr (pm_feature_definition m)"
    and "json_reads_back F dumps loads (portable_document m)"
  shows "(\<exists>t. portable_to_bytes dumps m = Inr t \<and> (length t \<le> maximum_document_bytes \<longrightarrow> portable_from_bytes F loads t = Inr m))
    \<and> (\<forall>loads' payload m'. portable_from_bytes F loads' payload = Inr m' \<longrightarrow>
         make_portable_model F m' = Inr m' \<and> make_feature_definition (pm_feature_definition m') = Inr (pm_feature_definition m'))"
proof (intro conjI allI impI)
  have finite: "list_all (f_finite F) (pm_means m)" "list_all (f_finite F) (pm_scales m)" "list_all (f_finite F) (pm_coefficients m)"
      "f_finite F (pm_intercept m)"
    using assms(1) by (auto simp: make_portable_model_def Let_def split: if_splits)
  have "list_all (\<lambda>(_, v). no_object v \<and> finite_json F v) (portable_document m)"
    using finite by (simp add: portable_document_def)
  then obtain t where t: "dumps (JObject (portable_document m)) = Inr t" "t \<noteq> []"
      "loads unique_object t = (case unique_object (portable_document m) of Inl e \<Rightarrow> Inl (Raised e) | Inr j \<Rightarrow> Inr j)"
    using assms(3) unfolding json_reads_back_def by blast
  have fields: "map fst (portable_document m) = document_fields" by (simp add: portable_document_def document_fields_def)
  then have read: "loads unique_object t = Inr (JObject (portable_document m))"
    using t(3) unique_object_distinct[of "portable_document m"] by (simp add: document_fields_def)
  have keys: "fst ` set (portable_document m) = set document_fields" using fields by (metis list.set_map)
  have format: "field (portable_document m) ''format'' = JString format_version"
    by (simp add: field_def portable_document_def)
  have same_definition: "\<lparr>fd_names = fd_names (pm_feature_definition m), fd_version = fd_version (pm_feature_definition m)\<rparr> = pm_feature_definition m"
    by simp
  have same_model: "\<lparr>pm_model_version = pm_model_version m, pm_feature_definition = pm_feature_definition m, pm_means = pm_means m,
      pm_scales = pm_scales m, pm_coefficients = pm_coefficients m, pm_intercept = pm_intercept m\<rparr> = m"
    by simp
  have "parse_document F (portable_document m) = Inr m"
    using assms(1,2) by (simp add: same_definition same_model parse_document_def field_def portable_document_def json_strings_back json_numbers_back json_string_def
        json_number_def to_float_def)
  then have "portable_from_bytes F loads t = Inr m" if "length t \<le> maximum_document_bytes"
    using that t(2) read keys format by (simp add: portable_from_bytes_def)
  then show "\<exists>t. portable_to_bytes dumps m = Inr t \<and> (length t \<le> maximum_document_bytes \<longrightarrow> portable_from_bytes F loads t = Inr m)"
    using t(1) by (auto simp: portable_to_bytes_def)
next
  fix loads' payload m' assume "portable_from_bytes F loads' payload = Inr m'"
  then obtain document where "parse_document F document = Inr m'"
    by (auto simp: portable_from_bytes_def split: if_splits sum.splits json_error.splits json_value.splits pyerror.splits)
  then show "make_portable_model F m' = Inr m'" "make_feature_definition (pm_feature_definition m') = Inr (pm_feature_definition m')"
    by (auto simp: parse_document_def rbind_eq_Inr make_portable_model_def make_feature_definition_def Let_def split: if_splits)
qed

text \<open>A document with an integer too large for a float escapes the reader's validation.  Where every other parameter is
  acceptable, an integer intercept of magnitude at least \<open>2 ** 1024\<close> makes the reader raise \<open>OverflowError\<close>, not the \<open>ValueError\<close> of
  invalid parameters.\<close>

theorem huge_integers_escape_validation:
  assumes "loads unique_object payload = Inr (JObject ((portable_document m)[4 := (''intercept'', JNumber (PyInt n))]))"
    and "payload \<noteq> []" and "length payload \<le> maximum_document_bytes" and "2 ^ 1024 \<le> \<bar>n\<bar>"
    and "make_feature_definition (pm_feature_definition m) = Inr (pm_feature_definition m)"
  shows "portable_from_bytes F loads payload = Inl OverflowError"
proof -
  let ?d = "(portable_document m)[4 := (''intercept'', JNumber (PyInt n) :: 'a json_value)]"
  have keys: "fst ` set ?d = set document_fields" and format: "field ?d ''format'' = JString format_version"
    by (auto simp: portable_document_def document_fields_def field_def)
  have same_definition: "\<lparr>fd_names = fd_names (pm_feature_definition m), fd_version = fd_version (pm_feature_definition m)\<rparr> = pm_feature_definition m"
    by simp
  have big: "\<not> \<bar>n\<bar> < 2 ^ 1024 - 2 ^ 970" using assms(4) by (smt (verit) zero_le_power)
  have "to_float F (PyInt n) = Inl OverflowError" unfolding to_float_def number.case if_not_P[OF big] by (rule refl)
  then have "parse_document F ?d = Inl OverflowError"
    using assms(5) by (simp add: same_definition parse_document_def field_def portable_document_def json_strings_back json_numbers_back json_string_def
        json_number_def)
  then show ?thesis using assms(1-3) keys format by (simp add: portable_from_bytes_def)
qed

section \<open>Examples\<close>

definition sample_portable :: "rat portable_model" where
  "sample_portable = \<lparr>pm_model_version = ''v1'', pm_feature_definition = one_feature, pm_means = [1], pm_scales = [2], pm_coefficients = [3],
     pm_intercept = 4\<rparr>"

lemma sample_portable_valid:
  "make_portable_model rat_ops sample_portable = Inr sample_portable"
  "make_feature_definition (pm_feature_definition sample_portable) = Inr (pm_feature_definition sample_portable)"
  by (simp_all add: make_portable_model_def make_feature_definition_def sample_portable_def one_feature_def blank_def is_space_def rat_ops_def Let_def)

text \<open>A reader that keeps one object in a table of texts.\<close>

definition shelf_reader :: "string \<Rightarrow> (string \<times> rat json_value) list \<Rightarrow> rat json_reader" where
  "shelf_reader t pairs hook payload =
     (if payload = t then (case hook pairs of Inl e \<Rightarrow> Inl (Raised e) | Inr j \<Rightarrow> Inr j) else Inl DecodeError)"

theorem huge_integers_escape_validation_witness:
  "portable_from_bytes rat_ops
     (shelf_reader ''d'' ((portable_document sample_portable)[4 := (''intercept'', JNumber (PyInt (2 ^ 1024)))])) ''d'' = Inl OverflowError"
proof -
  let ?d = "(portable_document sample_portable)[4 := (''intercept'', JNumber (PyInt (2 ^ 1024)))]"
  have "distinct (map fst ?d)" by (simp add: portable_document_def)
  then have "shelf_reader ''d'' ?d unique_object ''d'' = Inr (JObject ?d)" by (simp add: shelf_reader_def unique_object_distinct)
  from huge_integers_escape_validation[where m = sample_portable and n = "2 ^ 1024" and F = rat_ops and loads = "shelf_reader ''d'' ?d" and payload = "''d''", OF this] sample_portable_valid(2)
  show ?thesis by (simp add: maximum_document_bytes_def)
qed

theorem portable_models_survive_their_document_witness:
  "portable_to_bytes (\<lambda>_. Inr ''d'') sample_portable = Inr ''d''
   \<and> portable_from_bytes rat_ops (shelf_reader ''d'' (portable_document sample_portable)) ''d'' = Inr sample_portable"
proof -
  have "json_reads_back rat_ops (\<lambda>_. Inr ''d'') (shelf_reader ''d'' (portable_document sample_portable)) (portable_document sample_portable)"
    by (simp add: json_reads_back_def shelf_reader_def)
  from portable_models_survive_their_document[OF sample_portable_valid this] show ?thesis
    by (simp add: portable_to_bytes_def maximum_document_bytes_def)
qed

end
