(* ===== verification/Model_Tracking.thy ===== *)
theory Model_Tracking
  imports Artifact_Store
begin

text \<open>
  The metadata export to MLflow (\<open>packages/machine_learning/tracking.py\<close>).  The MLflow module is a parameter: each call
  moves its state and returns or raises; a run is a context manager whose exit is told whether the body
  raised.  A run's identifier is \<open>None\<close> when the module gives no string.  Decimal text and ISO times are parameters.
\<close>

record ('s, 'f) mlflow_client =
  ml_set_experiment :: "'s \<Rightarrow> string \<Rightarrow> 's \<times> unit result"
  ml_start_run :: "'s \<Rightarrow> string \<Rightarrow> (string \<times> string) list \<Rightarrow> 's \<times> string option result"
  ml_log_params :: "'s \<Rightarrow> (string \<times> string) list \<Rightarrow> 's \<times> unit result"
  ml_log_metrics :: "'s \<Rightarrow> (string \<times> 'f) list \<Rightarrow> 's \<times> unit result"
  ml_exit :: "'s \<Rightarrow> bool \<Rightarrow> 's \<times> unit result"

record mlflow_run_record =
  mf_run_id :: string
  mf_experiment_name :: string
  mf_model_name :: string
  mf_model_version :: string
  mf_feature_version :: string
  mf_artifact :: artifact_reference

definition make_exporter :: "string \<Rightarrow> string result" where
  "make_exporter experiment_name =
     (if blank experiment_name then Inl (ValueError ''MLflow experiment name is required'') else Inr experiment_name)"

definition run_id_of :: "string option \<Rightarrow> string result" where
  "run_id_of run = (case run of
       None \<Rightarrow> Inl (ValueError ''MLflow run did not provide a run ID'')
     | Some i \<Rightarrow> if blank i then Inl (ValueError ''MLflow run did not provide a run ID'') else Inr i)"

text \<open>Sequencing: a raise ends the body with the state the calls left.\<close>

definition sbind :: "'s \<times> 'a result \<Rightarrow> ('s \<Rightarrow> 'a \<Rightarrow> 's \<times> 'b result) \<Rightarrow> 's \<times> 'b result" where
  "sbind m f = (case m of (s, Inl e) \<Rightarrow> (s, Inl e) | (s, Inr x) \<Rightarrow> f s x)"

text \<open>\<open>with manager:\<close> the exit runs in both cases; its own raise wins.\<close>

definition with_run :: "('s \<Rightarrow> bool \<Rightarrow> 's \<times> unit result) \<Rightarrow> 's \<times> 'a result \<Rightarrow> 's \<times> 'a result" where
  "with_run exit body = (case body of (s, r) \<Rightarrow>
     (case exit s (case r of Inl _ \<Rightarrow> True | Inr _ \<Rightarrow> False) of
        (s', Inl e) \<Rightarrow> (s', Inl e)
      | (s', Inr _) \<Rightarrow> (s', r)))"

record 'f export_request =
  er_model_name :: string
  er_model_version :: string
  er_feature_version :: string
  er_trained_at :: datetime
  er_metrics :: "(string \<times> 'f) list"
  er_artifact :: artifact_reference

definition check_export :: "('f, 'x) float_ops_scheme \<Rightarrow> 'f export_request \<Rightarrow> unit result" where
  "check_export F q =
     (if list_ex blank [er_model_name q, er_model_version q, er_feature_version q]
      then Inl (ValueError ''model and feature identity are required'')
      else if \<not> is_aware (er_trained_at q) then Inl (ValueError ''training timestamp must be timezone-aware'')
      else if er_metrics q = [] \<or> list_ex (\<lambda>(name, v). blank name \<or> \<not> f_finite F v) (er_metrics q)
      then Inl (ValueError ''MLflow metrics must be named, finite, and non-empty'')
      else if \<not> sha256_hex (ar_sha256 (er_artifact q)) \<or> ar_size_bytes (er_artifact q) \<le> 0 \<or> blank (ar_uri (er_artifact q))
      then Inl (ValueError ''artifact evidence is invalid'')
      else Inr ())"

definition export_params :: "(int \<Rightarrow> string) \<Rightarrow> (datetime \<Rightarrow> string) \<Rightarrow> 'f export_request \<Rightarrow> (string \<times> string) list" where
  "export_params decimal_text isoformat q =
     [(''artifact_sha256'', ar_sha256 (er_artifact q)), (''artifact_size_bytes'', decimal_text (ar_size_bytes (er_artifact q))),
      (''artifact_uri'', ar_uri (er_artifact q)), (''feature_version'', er_feature_version q), (''model_name'', er_model_name q),
      (''model_version'', er_model_version q), (''trained_at'', isoformat (er_trained_at q))]"

definition export_tags :: "(string \<times> string) list" where
  "export_tags = [(''authority'', ''scoring-only''), (''automatic_promotion'', ''forbidden''), (''evidence_format'', ''metadata-only-v1'')]"

definition export_metadata ::
  "('f, 'x) float_ops_scheme \<Rightarrow> (int \<Rightarrow> string) \<Rightarrow> (datetime \<Rightarrow> string) \<Rightarrow> ('s, 'f) mlflow_client \<Rightarrow> string \<Rightarrow> 's \<Rightarrow> 'f export_request
     \<Rightarrow> 's \<times> mlflow_run_record result" where
  "export_metadata F decimal_text isoformat client experiment s q =
     (case check_export F q of
        Inl e \<Rightarrow> (s, Inl e)
      | Inr _ \<Rightarrow>
          sbind (ml_set_experiment client s experiment) (\<lambda>s _.
          sbind (ml_start_run client s (er_model_name q @ '':'' @ er_model_version q) export_tags) (\<lambda>s run.
          sbind (with_run (ml_exit client)
                  (sbind (ml_log_params client s (export_params decimal_text isoformat q)) (\<lambda>s _.
                   sbind (ml_log_metrics client s (er_metrics q)) (\<lambda>s _. (s, run_id_of run))))) (\<lambda>s run_id.
            (s, Inr \<lparr>mf_run_id = run_id, mf_experiment_name = experiment, mf_model_name = er_model_name q, mf_model_version = er_model_version q,
                     mf_feature_version = er_feature_version q, mf_artifact = er_artifact q\<rparr>)))))"

lemma sbind_simps [simp]: "sbind (s, Inl e) f = (s, Inl e)" "sbind (s, Inr x) f = f s x"
  by (simp_all add: sbind_def)

text \<open>The export logs valid evidence only and closes every run it starts.  Invalid evidence raises before any call of the
  module; once a run was started, the last call is its exit, told that the body failed exactly when logging or the run
  identifier did, and a returned record names the artifact and the identity that were checked.\<close>

theorem export_closes_every_run:
  assumes "export_metadata F decimal_text isoformat client experiment s q = (s', r)"
  shows "(check_export F q = Inl e \<longrightarrow> s' = s \<and> r = Inl e)
    \<and> (check_export F q = Inr () \<and> ml_set_experiment client s experiment = (s1, Inr ())
         \<and> ml_start_run client s1 (er_model_name q @ '':'' @ er_model_version q) export_tags = (s2, Inr run) \<longrightarrow>
         (\<exists>s3 failed. s' = fst (ml_exit client s3 failed) \<and> (failed \<longrightarrow> (\<exists>e. r = Inl e))))
    \<and> (r = Inr rec \<longrightarrow> check_export F q = Inr () \<and> mf_artifact rec = er_artifact q \<and> mf_model_name rec = er_model_name q
         \<and> mf_model_version rec = er_model_version q \<and> \<not> blank (mf_run_id rec))"
proof (intro conjI impI)
  assume "check_export F q = Inl e"
  then show "s' = s" "r = Inl e" using assms by (simp_all add: export_metadata_def)
next
  assume *: "check_export F q = Inr () \<and> ml_set_experiment client s experiment = (s1, Inr ())
     \<and> ml_start_run client s1 (er_model_name q @ '':'' @ er_model_version q) export_tags = (s2, Inr run)"
  define body where "body = sbind (ml_log_params client s2 (export_params decimal_text isoformat q)) (\<lambda>s _.
      sbind (ml_log_metrics client s (er_metrics q)) (\<lambda>s _. (s, run_id_of run)))"
  obtain s3 outcome where body: "body = (s3, outcome)" by (cases body)
  define failed where "failed = (case outcome of Inl _ \<Rightarrow> True | Inr _ \<Rightarrow> False)"
  obtain f where "export_metadata F decimal_text isoformat client experiment s q = sbind (with_run (ml_exit client) body) (\<lambda>s run_id. (s, Inr (f run_id)))"
    using * by (simp add: export_metadata_def body_def)
  then have "s' = fst (ml_exit client s3 failed) \<and> (failed \<longrightarrow> (\<exists>e. r = Inl e))"
    using assms body by (auto simp: sbind_def with_run_def failed_def split: prod.splits sum.splits)
  then show "\<exists>s3 failed. s' = fst (ml_exit client s3 failed) \<and> (failed \<longrightarrow> (\<exists>e. r = Inl e))" by blast
next
  assume "r = Inr rec"
  with assms show "check_export F q = Inr ()" "mf_artifact rec = er_artifact q" "mf_model_name rec = er_model_name q"
      "mf_model_version rec = er_model_version q" "\<not> blank (mf_run_id rec)"
    by (auto simp: export_metadata_def sbind_def with_run_def run_id_of_def split: prod.splits sum.splits option.splits if_splits)
qed

text \<open>A module that keeps the list of its calls.\<close>

definition call_log :: "(string list, rat) mlflow_client" where
  "call_log =
     \<lparr>ml_set_experiment = \<lambda>s _. (s @ [''experiment''], Inr ()), ml_start_run = \<lambda>s _ _. (s @ [''start''], Inr (Some ''r1'')),
      ml_log_params = \<lambda>s _. (s @ [''params''], Inr ()), ml_log_metrics = \<lambda>s _. (s @ [''metrics''], Inl (RuntimeError ''offline'')),
      ml_exit = \<lambda>s failed. (s @ [if failed then ''failed'' else ''finished''], Inr ())\<rparr>"

definition sample_export :: "rat export_request" where
  "sample_export =
     \<lparr>er_model_name = ''trend'', er_model_version = ''v1'', er_feature_version = ''f1'', er_trained_at = Aware 5, er_metrics = [(''auc'', 1)],
      er_artifact = \<lparr>ar_uri = ''artifact+s3://models/x'', ar_sha256 = replicate 64 (CHR ''0''), ar_size_bytes = 9\<rparr>\<rparr>"

theorem export_closes_every_run_witness:
  "\<exists>e s3 failed. export_metadata rat_ops (\<lambda>_. ''9'') (\<lambda>_. ''t'') call_log ''trading'' [] sample_export
      = ([''experiment'', ''start'', ''params'', ''metrics'', ''failed''], Inl e)
     \<and> [''experiment'', ''start'', ''params'', ''metrics'', ''failed''] = fst (ml_exit call_log s3 failed)"
proof -
  have valid: "check_export rat_ops sample_export = Inr ()"
    by (simp add: check_export_def sample_export_def blank_def is_space_def sha256_hex_def hex_digit_def rat_ops_def list_all_iff)
  have run: "export_metadata rat_ops (\<lambda>_. ''9'') (\<lambda>_. ''t'') call_log ''trading'' [] sample_export
      = ([''experiment'', ''start'', ''params'', ''metrics'', ''failed''], Inl (RuntimeError ''offline''))"
    using valid by (simp add: export_metadata_def sbind_def with_run_def call_log_def)
  from export_closes_every_run[OF run, of "RuntimeError []" "[''experiment'']" "[''experiment'', ''start'']" "Some ''r1''"] valid run
  show ?thesis by (auto simp: call_log_def)
qed

end
