(* ===== verification/Domain_Contracts.thy ===== *)
theory Domain_Contracts
  imports Domain
begin

text \<open>
  The remaining contracts of \<open>packages/domain/models.py\<close>: ticks, order books, calendars, corporate actions,
  signals, decisions, broker orders and fills, positions, portfolios, trades, accounts and the records of configuration,
  backtests, models and audit.  A value exists only when its field constraints hold; datetimes are normalised
  to instants by \<open>normalize_datetimes\<close> before.  A class whose fields carry no constraint is its record alone.
\<close>

definition contract :: "('a \<Rightarrow> bool) \<Rightarrow> 'a \<Rightarrow> 'a result" where
  "contract ok x = (if ok x then Inr x else Inl (ValueError ''field constraint violated''))"

lemma contract_Inr [simp]: "contract ok x = Inr y \<longleftrightarrow> y = x \<and> ok x"
  by (auto simp: contract_def)

record tick =
  tk_instrument_id :: uuid
  tk_timestamp :: instant
  tk_price :: decimal
  tk_quantity :: decimal
  tk_sequence :: int

definition tick_ok :: "tick \<Rightarrow> bool" where
  "tick_ok x \<longleftrightarrow> 0 < tk_price x \<and> 0 < tk_quantity x \<and> 0 \<le> tk_sequence x"

definition make_tick :: "tick \<Rightarrow> tick result" where
  "make_tick = contract tick_ok"

record order_book_level =
  bl_price :: decimal
  bl_quantity :: decimal
  bl_orders :: int

definition order_book_level_ok :: "order_book_level \<Rightarrow> bool" where
  "order_book_level_ok x \<longleftrightarrow> 0 < bl_price x \<and> 0 \<le> bl_quantity x \<and> 0 \<le> bl_orders x"

definition make_order_book_level :: "order_book_level \<Rightarrow> order_book_level result" where
  "make_order_book_level = contract order_book_level_ok"

record order_book_snapshot =
  ob_instrument_id :: uuid
  ob_timestamp :: instant
  ob_bids :: "order_book_level list"
  ob_asks :: "order_book_level list"

definition order_book_snapshot_ok :: "order_book_snapshot \<Rightarrow> bool" where
  "order_book_snapshot_ok x \<longleftrightarrow> list_all order_book_level_ok (ob_bids x) \<and> list_all order_book_level_ok (ob_asks x)"

definition make_order_book_snapshot :: "order_book_snapshot \<Rightarrow> order_book_snapshot result" where
  "make_order_book_snapshot = contract order_book_snapshot_ok"

record trading_calendar =
  tc_exchange :: exchange
  tc_timezone_name :: string
  tc_sessions :: "market_session list"

definition trading_calendar_ok :: "trading_calendar \<Rightarrow> bool" where
  "trading_calendar_ok x \<longleftrightarrow> list_all (\<lambda>s. ms_opens_at s < ms_closes_at s) (tc_sessions x)"

definition make_trading_calendar :: "trading_calendar \<Rightarrow> trading_calendar result" where
  "make_trading_calendar = contract trading_calendar_ok"

record corporate_action =
  ca_instrument_id :: uuid
  ca_action_type :: string
  ca_ex_date :: int
  ca_ratio :: "decimal option"
  ca_cash_amount :: "decimal option"
  ca_source :: string

record domain_signal =
  ds_id :: uuid
  ds_timestamp :: instant
  ds_instrument_id :: uuid
  ds_strategy :: string
  ds_strategy_version :: string
  ds_action :: signal_action
  ds_confidence :: decimal
  ds_explanation :: string
  ds_data_snapshot_id :: string

definition domain_signal_ok :: "domain_signal \<Rightarrow> bool" where
  "domain_signal_ok x \<longleftrightarrow> 0 \<le> ds_confidence x \<and> ds_confidence x \<le> 1"

definition make_domain_signal :: "domain_signal \<Rightarrow> domain_signal result" where
  "make_domain_signal = contract domain_signal_ok"

record strategy_decision =
  sd_id :: uuid
  sd_signal_id :: uuid
  sd_timestamp :: instant
  sd_action :: signal_action
  sd_confidence :: decimal
  sd_contributing_factors :: "(string \<times> decimal) list"
  sd_rejection_reasons :: "string list"
  sd_proposed_entry :: "decimal option"
  sd_proposed_stop :: "decimal option"
  sd_proposed_targets :: "decimal list"
  sd_expected_risk_reward :: "decimal option"

definition strategy_decision_ok :: "strategy_decision \<Rightarrow> bool" where
  "strategy_decision_ok x \<longleftrightarrow> 0 \<le> sd_confidence x \<and> sd_confidence x \<le> 1"

definition make_strategy_decision :: "strategy_decision \<Rightarrow> strategy_decision result" where
  "make_strategy_decision = contract strategy_decision_ok"

record broker_order =
  bor_id :: uuid
  bor_intent_id :: uuid
  bor_broker_order_id :: "string option"
  bor_status :: order_status
  bor_quantity :: decimal
  bor_filled_quantity :: decimal
  bor_average_price :: "decimal option"
  bor_updated_at :: instant

definition broker_order_ok :: "broker_order \<Rightarrow> bool" where
  "broker_order_ok x \<longleftrightarrow> 0 < bor_quantity x \<and> 0 \<le> bor_filled_quantity x \<and> positive_option (bor_average_price x)"

definition make_broker_order :: "broker_order \<Rightarrow> broker_order result" where
  "make_broker_order = contract broker_order_ok"

record broker_fill =
  bf_id :: uuid
  bf_broker_order_id :: uuid
  bf_broker_fill_id :: string
  bf_timestamp :: instant
  bf_quantity :: decimal
  bf_price :: decimal
  bf_charges :: decimal

definition broker_fill_ok :: "broker_fill \<Rightarrow> bool" where
  "broker_fill_ok x \<longleftrightarrow> 0 < bf_quantity x \<and> 0 < bf_price x \<and> 0 \<le> bf_charges x"

definition make_broker_fill :: "broker_fill \<Rightarrow> broker_fill result" where
  "make_broker_fill = contract broker_fill_ok"

record position =
  po_instrument_id :: uuid
  po_quantity :: decimal
  po_average_price :: decimal
  po_realized_pnl :: decimal
  po_unrealized_pnl :: decimal
  po_updated_at :: instant

definition position_ok :: "position \<Rightarrow> bool" where
  "position_ok x \<longleftrightarrow> 0 \<le> po_average_price x"

definition make_position :: "position \<Rightarrow> position result" where
  "make_position = contract position_ok"

record portfolio =
  pf_account_id :: uuid
  pf_cash :: decimal
  pf_positions :: "position list"
  pf_gross_exposure :: decimal
  pf_net_exposure :: decimal
  pf_updated_at :: instant

definition portfolio_ok :: "portfolio \<Rightarrow> bool" where
  "portfolio_ok x \<longleftrightarrow> list_all position_ok (pf_positions x) \<and> 0 \<le> pf_gross_exposure x"

definition make_portfolio :: "portfolio \<Rightarrow> portfolio result" where
  "make_portfolio = contract portfolio_ok"

record trade =
  td_id :: uuid
  td_account_id :: uuid
  td_instrument_id :: uuid
  td_opened_at :: instant
  td_closed_at :: "instant option"
  td_quantity :: decimal
  td_entry_price :: decimal
  td_exit_price :: "decimal option"
  td_realized_pnl :: "decimal option"

definition trade_ok :: "trade \<Rightarrow> bool" where
  "trade_ok x \<longleftrightarrow> 0 < td_quantity x \<and> 0 < td_entry_price x \<and> positive_option (td_exit_price x)"

definition make_trade :: "trade \<Rightarrow> trade result" where
  "make_trade = contract trade_ok"

record trading_account =
  ta_id :: uuid
  ta_broker :: string
  ta_external_reference :: string
  ta_base_currency :: string
  ta_paper :: bool
  ta_active :: bool

record pnl_snapshot =
  ps_account_id :: uuid
  ps_timestamp :: instant
  ps_realized :: decimal
  ps_unrealized :: decimal
  ps_equity :: decimal
  ps_drawdown :: decimal

definition pnl_snapshot_ok :: "pnl_snapshot \<Rightarrow> bool" where
  "pnl_snapshot_ok x \<longleftrightarrow> 0 \<le> ps_drawdown x"

definition make_pnl_snapshot :: "pnl_snapshot \<Rightarrow> pnl_snapshot result" where
  "make_pnl_snapshot = contract pnl_snapshot_ok"

record risk_limit =
  rl_id :: uuid
  rl_account_id :: uuid
  rl_limit_type :: string
  rl_value :: decimal
  rl_enabled :: bool
  rl_effective_from :: instant

definition risk_limit_ok :: "risk_limit \<Rightarrow> bool" where
  "risk_limit_ok x \<longleftrightarrow> 0 < rl_value x"

definition make_risk_limit :: "risk_limit \<Rightarrow> risk_limit result" where
  "make_risk_limit = contract risk_limit_ok"

record 'd strategy_configuration =
  sg_id :: uuid
  sg_name :: string
  sg_version :: string
  sg_enabled :: bool
  sg_parameters :: "(string \<times> 'd) list"
  sg_allowed_instruments :: "uuid list"

record backtest_run =
  br_id :: uuid
  br_strategy_configuration_id :: uuid
  br_started_at :: instant
  br_completed_at :: "instant option"
  br_data_from :: instant
  br_data_to :: instant
  br_status :: string
  br_metrics :: "(string \<times> decimal) list"

record model_version =
  mv_id :: uuid
  mv_name :: string
  mv_version :: string
  mv_trained_at :: instant
  mv_feature_version :: string
  mv_artifact_uri :: string
  mv_active :: bool

record 'd audit_event =
  ae_id :: uuid
  ae_timestamp :: instant
  ae_actor_id :: string
  ae_action :: string
  ae_resource_type :: string
  ae_resource_id :: "string option"
  ae_correlation_id :: string
  ae_outcome :: string
  ae_details :: "(string \<times> 'd) list"

end
