(* ===== verification/Schema.thy ===== *)
theory Schema
  imports Prelude
begin

text \<open>
  Relational schemas, as the Alembic migrations (\<open>infra/migrations\<close>) and the SQLAlchemy declarations
  (\<open>packages/database/models.py\<close>) write them.  A schema is the list of its tables in the order of their creation.
  A data definition statement succeeds or fails as the database documents it: creating what exists, referring to
  what does not, and dropping what others refer to fails, and a dropped table takes its indexes along.  The rows go
  with the tables and columns: a dropped table or column takes its values along, and a column that is added gets its
  default in every row.  Constraint
  names follow the naming convention of \<open>packages/database/base.py\<close>, which Alembic takes from the metadata.
\<close>

section \<open>Tables\<close>

datatype column_type =
    StringOf nat | UuidType | BooleanType | IntegerType | FloatType | NumericOf nat nat | DateType | DateTimeTz | JsonType

record column =
  co_name :: string
  co_type :: column_type
  co_nullable :: bool
  co_default :: "string option"

text \<open>A \<open>ForeignKey\<close> has its columns, the table and columns it refers to, and whether a delete cascades.\<close>

datatype table_constraint =
    PrimaryKey "string list"
  | UniqueKey "string list"
  | ForeignKey "string list" string "string list" bool
  | Check string

record table =
  tl_name :: string
  tl_columns :: "column list"
  tl_constraints :: "(string \<times> table_constraint) list"
  tl_indexes :: "(string \<times> string list \<times> bool) list"

type_synonym schema = "table list"

definition required :: "string \<Rightarrow> column_type \<Rightarrow> column" where
  "required n t = \<lparr>co_name = n, co_type = t, co_nullable = False, co_default = None\<rparr>"

definition optional :: "string \<Rightarrow> column_type \<Rightarrow> column" where
  "optional n t = \<lparr>co_name = n, co_type = t, co_nullable = True, co_default = None\<rparr>"

definition now_column :: "string \<Rightarrow> column" where
  "now_column n = \<lparr>co_name = n, co_type = DateTimeTz, co_nullable = False, co_default = Some ''now()''\<rparr>"

text \<open>\<open>NAMING_CONVENTION\<close>: a name that is given wins, except for a check, whose name is a part of the convention.\<close>

fun constraint_name :: "string \<Rightarrow> string option \<Rightarrow> table_constraint \<Rightarrow> string" where
  "constraint_name t given (Check _) = ''ck_'' @ t @ ''_'' @ (case given of None \<Rightarrow> [] | Some n \<Rightarrow> n)"
| "constraint_name t (Some n) _ = n"
| "constraint_name t None (PrimaryKey _) = ''pk_'' @ t"
| "constraint_name t None (UniqueKey cs) = ''uq_'' @ t @ ''_'' @ hd cs"
| "constraint_name t None (ForeignKey cs r _ _) = ''fk_'' @ t @ ''_'' @ hd cs @ ''_'' @ r"

definition named_constraints :: "string \<Rightarrow> (string option \<times> table_constraint) list \<Rightarrow> (string \<times> table_constraint) list" where
  "named_constraints t ks = map (\<lambda>(n, k). (constraint_name t n k, k)) ks"

definition index_name :: "string \<Rightarrow> string \<Rightarrow> string" where
  "index_name t c = ''ix_'' @ t @ ''_'' @ c"

section \<open>Data definition\<close>

datatype ddl =
    CreateTable string "column list" "(string option \<times> table_constraint) list"
  | DropTable string
  | CreateIndex string string "string list" bool
  | DropIndex string string
  | AddColumn string column
  | DropColumn string string
  | AlterDefault string string "string option"

definition find_table :: "schema \<Rightarrow> string \<Rightarrow> table option" where
  "find_table s n = List.find (\<lambda>t. tl_name t = n) s"

definition column_names :: "table \<Rightarrow> string list" where
  "column_names t = map co_name (tl_columns t)"

text \<open>The columns a constraint of the table itself names, and the keys that make rows unique.\<close>

fun constraint_columns :: "table_constraint \<Rightarrow> string list" where
  "constraint_columns (PrimaryKey cs) = cs"
| "constraint_columns (UniqueKey cs) = cs"
| "constraint_columns (ForeignKey cs _ _ _) = cs"
| "constraint_columns (Check _) = []"

fun constraint_key :: "table_constraint \<Rightarrow> string list list" where
  "constraint_key (PrimaryKey cs) = [cs]"
| "constraint_key (UniqueKey cs) = [cs]"
| "constraint_key _ = []"

definition unique_keys :: "table \<Rightarrow> string list list" where
  "unique_keys t = concat (map (constraint_key \<circ> snd) (tl_constraints t)) @ map (fst \<circ> snd) (filter (snd \<circ> snd) (tl_indexes t))"

fun refers_to :: "string \<Rightarrow> table_constraint \<Rightarrow> bool" where
  "refers_to n (ForeignKey _ r _ _) = (r = n)"
| "refers_to n _ = False"

fun reference_ok :: "schema \<Rightarrow> table_constraint \<Rightarrow> bool" where
  "reference_ok s (ForeignKey cs r rs _) =
     (length cs = length rs \<and> (case find_table s r of None \<Rightarrow> False | Some t \<Rightarrow> rs \<in> set (unique_keys t)))"
| "reference_ok s _ = True"

definition index_names :: "schema \<Rightarrow> string list" where
  "index_names s = concat (map (\<lambda>t. map fst (tl_indexes t)) s)"

definition replace_table :: "string \<Rightarrow> (table \<Rightarrow> table) \<Rightarrow> schema \<Rightarrow> schema" where
  "replace_table n f s = map (\<lambda>t. if tl_name t = n then f t else t) s"

fun apply_ddl :: "schema \<Rightarrow> ddl \<Rightarrow> schema option" where
  "apply_ddl s (CreateTable n cols ks) =
     (let t = \<lparr>tl_name = n, tl_columns = cols, tl_constraints = named_constraints n ks, tl_indexes = []\<rparr> in
      if find_table s n = None \<and> distinct (map co_name cols) \<and> distinct (map fst (tl_constraints t))
         \<and> list_all (\<lambda>(_, k). set (constraint_columns k) \<subseteq> set (column_names t) \<and> reference_ok (s @ [t]) k) (tl_constraints t)
      then Some (s @ [t]) else None)"
| "apply_ddl s (DropTable n) =
     (if find_table s n \<noteq> None \<and> list_all (\<lambda>t. tl_name t = n \<or> \<not> list_ex (refers_to n \<circ> snd) (tl_constraints t)) s
      then Some (filter (\<lambda>t. tl_name t \<noteq> n) s) else None)"
| "apply_ddl s (CreateIndex i n cs u) =
     (case find_table s n of None \<Rightarrow> None
      | Some t \<Rightarrow> if i \<in> set (index_names s) \<or> \<not> set cs \<subseteq> set (column_names t) then None
                  else Some (replace_table n (\<lambda>t. t\<lparr>tl_indexes := tl_indexes t @ [(i, cs, u)]\<rparr>) s))"
| "apply_ddl s (DropIndex i n) =
     (case find_table s n of None \<Rightarrow> None
      | Some t \<Rightarrow> if i \<notin> fst ` set (tl_indexes t) then None
                  else Some (replace_table n (\<lambda>t. t\<lparr>tl_indexes := filter (\<lambda>(j, _). j \<noteq> i) (tl_indexes t)\<rparr>) s))"
| "apply_ddl s (AddColumn n c) =
     (case find_table s n of None \<Rightarrow> None
      | Some t \<Rightarrow> if co_name c \<in> set (column_names t) \<or> (\<not> co_nullable c \<and> co_default c = None) then None
                  else Some (replace_table n (\<lambda>t. t\<lparr>tl_columns := tl_columns t @ [c]\<rparr>) s))"
| "apply_ddl s (DropColumn n c) =
     (case find_table s n of None \<Rightarrow> None
      | Some t \<Rightarrow> if c \<notin> set (column_names t) then None
                  else Some (replace_table n (\<lambda>t. t\<lparr>tl_columns := filter (\<lambda>x. co_name x \<noteq> c) (tl_columns t),
                         tl_constraints := filter (\<lambda>(_, k). c \<notin> set (constraint_columns k)) (tl_constraints t),
                         tl_indexes := filter (\<lambda>(_, cs, _). c \<notin> set cs) (tl_indexes t)\<rparr>) s))"
| "apply_ddl s (AlterDefault n c d) =
     (case find_table s n of None \<Rightarrow> None
      | Some t \<Rightarrow> if c \<notin> set (column_names t) then None
                  else Some (replace_table n (\<lambda>t. t\<lparr>tl_columns := map (\<lambda>x. if co_name x = c then x\<lparr>co_default := d\<rparr> else x) (tl_columns t)\<rparr>) s))"

fun apply_all :: "schema \<Rightarrow> ddl list \<Rightarrow> schema option" where
  "apply_all s [] = Some s"
| "apply_all s (op # ops) = (case apply_ddl s op of None \<Rightarrow> None | Some s' \<Rightarrow> apply_all s' ops)"

section \<open>Rows\<close>

text \<open>A row has the text of a value for each of its columns that is not NULL; a table has its rows, a missing one has none.\<close>

type_synonym stored_row = "string \<Rightarrow> string option"
type_synonym table_rows = "string \<Rightarrow> stored_row list"

text \<open>Rows are distinct in a key, where NULL differs from everything.\<close>

definition key_distinct :: "string list \<Rightarrow> stored_row list \<Rightarrow> bool" where
  "key_distinct cs rs \<longleftrightarrow> distinct (filter (\<lambda>vs. None \<notin> set vs) (map (\<lambda>r. map r cs) rs))"

text \<open>What a statement does to the rows.  The default of an added column is a literal.\<close>

fun apply_rows :: "table_rows \<Rightarrow> ddl \<Rightarrow> table_rows option" where
  "apply_rows rows (CreateTable n _ _) = Some (rows(n := []))"
| "apply_rows rows (DropTable n) = Some (rows(n := []))"
| "apply_rows rows (CreateIndex _ n cs u) = (if u \<and> \<not> key_distinct cs (rows n) then None else Some rows)"
| "apply_rows rows (DropIndex _ _) = Some rows"
| "apply_rows rows (AddColumn n c) =
     (if \<not> co_nullable c \<and> co_default c = None \<and> rows n \<noteq> [] then None
      else Some (rows(n := map (\<lambda>r. r(co_name c := co_default c)) (rows n))))"
| "apply_rows rows (DropColumn n c) = Some (rows(n := map (\<lambda>r. r(c := None)) (rows n)))"
| "apply_rows rows (AlterDefault _ _ _) = Some rows"

fun rows_all :: "table_rows \<Rightarrow> ddl list \<Rightarrow> table_rows option" where
  "rows_all rows [] = Some rows"
| "rows_all rows (op # ops) = (case apply_rows rows op of None \<Rightarrow> None | Some rows' \<Rightarrow> rows_all rows' ops)"

text \<open>Rows that respect the columns and keys of their tables; a table that does not exist has none.\<close>

definition rows_fit_table :: "table \<Rightarrow> stored_row list \<Rightarrow> bool" where
  "rows_fit_table t rs \<longleftrightarrow>
     (\<forall>r \<in> set rs. dom r \<subseteq> set (column_names t) \<and> (\<forall>c \<in> set (tl_columns t). \<not> co_nullable c \<longrightarrow> r (co_name c) \<noteq> None))
     \<and> (\<forall>cs \<in> set (unique_keys t). key_distinct cs rs)"

definition rows_fit :: "schema \<Rightarrow> table_rows \<Rightarrow> bool" where
  "rows_fit s rows \<longleftrightarrow> (\<forall>n. case find_table s n of None \<Rightarrow> rows n = [] | Some t \<Rightarrow> rows_fit_table t (rows n))"

section \<open>Migrations\<close>

record migration =
  mg_revision :: string
  mg_down_revision :: "string option"
  mg_upgrade :: "ddl list"
  mg_downgrade :: "ddl list"

text \<open>A database, its rows and the revision in its \<open>alembic_version\<close> table; a migration runs in one transaction, which fails when a
  statement fails on the schema or on the rows.\<close>

record migrated_database =
  md_revision :: "string option"
  md_schema :: schema
  md_rows :: table_rows

definition fresh_database :: migrated_database where
  "fresh_database = \<lparr>md_revision = None, md_schema = [], md_rows = (\<lambda>_. [])\<rparr>"

definition run_statements :: "string option \<Rightarrow> ddl list \<Rightarrow> migrated_database \<Rightarrow> migrated_database option" where
  "run_statements revision ops d =
     (case apply_all (md_schema d) ops of None \<Rightarrow> None
      | Some s \<Rightarrow> map_option (\<lambda>rows. \<lparr>md_revision = revision, md_schema = s, md_rows = rows\<rparr>) (rows_all (md_rows d) ops))"

definition upgrade_one :: "migration list \<Rightarrow> migrated_database \<Rightarrow> migrated_database option" where
  "upgrade_one ms d =
     (case List.find (\<lambda>m. mg_down_revision m = md_revision d) ms of None \<Rightarrow> None
      | Some m \<Rightarrow> run_statements (Some (mg_revision m)) (mg_upgrade m) d)"

definition downgrade_one :: "migration list \<Rightarrow> migrated_database \<Rightarrow> migrated_database option" where
  "downgrade_one ms d =
     (case List.find (\<lambda>m. Some (mg_revision m) = md_revision d) ms of None \<Rightarrow> None
      | Some m \<Rightarrow> run_statements (mg_down_revision m) (mg_downgrade m) d)"

text \<open>Between migrations the application writes whatever rows fit the schema.\<close>

inductive migration_step :: "migration list \<Rightarrow> migrated_database \<Rightarrow> migrated_database \<Rightarrow> bool" for ms where
  Upgrade: "upgrade_one ms d = Some d' \<Longrightarrow> migration_step ms d d'"
| Downgrade: "downgrade_one ms d = Some d' \<Longrightarrow> migration_step ms d d'"
| Write: "rows_fit (md_schema d) rows \<Longrightarrow> migration_step ms d (d\<lparr>md_rows := rows\<rparr>)"

inductive migrated :: "migration list \<Rightarrow> migrated_database \<Rightarrow> bool" for ms where
  Fresh: "migrated ms fresh_database"
| Step: "migrated ms d \<Longrightarrow> migration_step ms d d' \<Longrightarrow> migrated ms d'"

inductive_cases migration_stepE: "migration_step ms d d'"

end
