(* ===== verification/Schema_Laws.thy ===== *)
theory Schema_Laws
  imports Schema
begin

text \<open>
  Running migrations by their signature.  An upgrade that only creates tables, each followed by its indexes, is a list
  of blocks; whether it runs depends on the existing schema through a signature only (the names of its tables and indexes, and the tables
  with the key \<open>id\<close>), and a downgrade that drops the tables in the opposite order undoes it.  The last section follows a
  linked chain of migrations.
\<close>

section \<open>Lookup\<close>

lemma find_table_None: "find_table s n = None \<longleftrightarrow> n \<notin> tl_name ` set s"
  by (auto simp: find_table_def find_None_iff)

lemma find_table_append: "find_table (s @ r) n = (case find_table s n of None \<Rightarrow> find_table r n | Some t \<Rightarrow> Some t)"
  by (induction s) (simp_all add: find_table_def)

lemma find_table_last: "n \<notin> tl_name ` set s \<Longrightarrow> tl_name t = n \<Longrightarrow> find_table (s @ [t]) n = Some t"
  by (simp add: find_table_append find_table_None[THEN iffD2]) (simp add: find_table_def)

lemma replace_table_last: "n \<notin> tl_name ` set s \<Longrightarrow> tl_name t = n \<Longrightarrow> replace_table n f (s @ [t]) = s @ [f t]"
  by (auto simp: replace_table_def image_iff intro!: map_idI)

lemma index_names_append [simp]: "index_names (s @ r) = index_names s @ index_names r" "index_names [t] = map fst (tl_indexes t)"
  by (simp_all add: index_names_def)

lemma apply_all_append: "apply_all s (xs @ ys) = (case apply_all s xs of None \<Rightarrow> None | Some s' \<Rightarrow> apply_all s' ys)"
  by (induction xs arbitrary: s) (auto split: option.splits)

section \<open>Blocks\<close>

record table_block =
  bk_name :: string
  bk_columns :: "column list"
  bk_constraints :: "(string option \<times> table_constraint) list"
  bk_indexes :: "(string \<times> string list \<times> bool) list"

definition block_table :: "table_block \<Rightarrow> table" where
  "block_table b = \<lparr>tl_name = bk_name b, tl_columns = bk_columns b,
     tl_constraints = named_constraints (bk_name b) (bk_constraints b), tl_indexes = bk_indexes b\<rparr>"

definition block_ddl :: "table_block \<Rightarrow> ddl list" where
  "block_ddl b = CreateTable (bk_name b) (bk_columns b) (bk_constraints b) # map (\<lambda>(i, cs, u). CreateIndex i (bk_name b) cs u) (bk_indexes b)"

fun leading_indexes :: "string \<Rightarrow> ddl list \<Rightarrow> (string \<times> string list \<times> bool) list" where
  "leading_indexes n (CreateIndex i t cs u # ops) = (if t = n then (i, cs, u) # leading_indexes n ops else [])"
| "leading_indexes n _ = []"

fun blocks_of :: "ddl list \<Rightarrow> table_block list" where
  "blocks_of [] = []"
| "blocks_of (CreateTable n cols ks # ops) =
     \<lparr>bk_name = n, bk_columns = cols, bk_constraints = ks, bk_indexes = leading_indexes n ops\<rparr> # blocks_of ops"
| "blocks_of (_ # ops) = blocks_of ops"

fun well_blocked :: "string option \<Rightarrow> ddl list \<Rightarrow> bool" where
  "well_blocked current [] = True"
| "well_blocked current (CreateTable n _ _ # ops) = well_blocked (Some n) ops"
| "well_blocked current (CreateIndex _ n _ _ # ops) \<longleftrightarrow> current = Some n \<and> well_blocked current ops"
| "well_blocked _ _ = False"

lemma well_blocked_ddl:
  "well_blocked current ops \<Longrightarrow>
   (case current of None \<Rightarrow> [] | Some n \<Rightarrow> map (\<lambda>(i, cs, u). CreateIndex i n cs u) (leading_indexes n ops)) @ concat (map block_ddl (blocks_of ops)) = ops"
  by (induction current ops rule: well_blocked.induct) (auto simp: block_ddl_def split: option.splits)

section \<open>Signatures\<close>

record signature =
  sg_keyed :: "string list"
  sg_names :: "string list"
  sg_indexes :: "string list"

definition describes :: "signature \<Rightarrow> schema \<Rightarrow> bool" where
  "describes g s \<longleftrightarrow> set (sg_names g) = tl_name ` set s \<and> set (sg_indexes g) = set (index_names s)
     \<and> (\<forall>r \<in> set (sg_keyed g). \<exists>t. find_table s r = Some t \<and> [''id''] \<in> set (unique_keys t))
     \<and> (\<forall>t \<in> set s. \<forall>k \<in> snd ` set (tl_constraints t). \<forall>n. refers_to n k \<longrightarrow> n \<in> tl_name ` set s)"

definition block_ok :: "table_block \<Rightarrow> bool" where
  "block_ok b \<longleftrightarrow> distinct (map co_name (bk_columns b)) \<and> distinct (map fst (named_constraints (bk_name b) (bk_constraints b)))
     \<and> list_all (\<lambda>(_, k). set (constraint_columns k) \<subseteq> set (map co_name (bk_columns b))) (bk_constraints b)
     \<and> list_all (\<lambda>(_, cs, _). set cs \<subseteq> set (map co_name (bk_columns b))) (bk_indexes b) \<and> distinct (map fst (bk_indexes b))"

fun reference_fits :: "signature \<Rightarrow> table_constraint \<Rightarrow> bool" where
  "reference_fits g (ForeignKey cs r rs _) \<longleftrightarrow> length cs = 1 \<and> rs = [''id''] \<and> r \<in> set (sg_keyed g)"
| "reference_fits g _ = True"

definition block_fits :: "signature \<Rightarrow> table_block \<Rightarrow> bool" where
  "block_fits g b \<longleftrightarrow> bk_name b \<notin> set (sg_names g) \<and> list_all (\<lambda>(i, _). i \<notin> set (sg_indexes g)) (bk_indexes b)
     \<and> list_all (\<lambda>(_, k). reference_fits g k) (bk_constraints b)"

definition extend :: "signature \<Rightarrow> table_block \<Rightarrow> signature" where
  "extend g b =
     \<lparr>sg_keyed = sg_keyed g @ (if list_ex (\<lambda>(_, k). [''id''] \<in> set (constraint_key k)) (bk_constraints b) then [bk_name b] else []),
      sg_names = sg_names g @ [bk_name b], sg_indexes = sg_indexes g @ map fst (bk_indexes b)\<rparr>"

fun plan :: "signature \<Rightarrow> table_block list \<Rightarrow> bool" where
  "plan g [] = True"
| "plan g (b # bs) \<longleftrightarrow> block_ok b \<and> block_fits g b \<and> plan (extend g b) bs"

lemma reference_fits_ok: "describes g s \<Longrightarrow> reference_fits g k \<Longrightarrow> reference_ok (s @ [t]) k"
  by (cases k) (auto simp: describes_def find_table_append)

lemma refers_fits: "describes g s \<Longrightarrow> reference_fits g k \<Longrightarrow> refers_to n k \<Longrightarrow> n \<in> tl_name ` set s"
  by (cases k) (auto simp: describes_def find_table_def find_Some_iff dest!: bspec)

lemma named_constraints_snd: "snd ` set (named_constraints n ks) = snd ` set ks"
  by (force simp: named_constraints_def)

lemma create_index_last:
  assumes "n \<notin> tl_name ` set s" and "tl_name t = n" and "i \<notin> set (index_names s) \<union> fst ` set (tl_indexes t)" and "set cs \<subseteq> set (column_names t)"
  shows "apply_ddl (s @ [t]) (CreateIndex i n cs u) = Some (s @ [t\<lparr>tl_indexes := tl_indexes t @ [(i, cs, u)]\<rparr>])"
  using assms(3,4) by (simp add: find_table_last[OF assms(1,2)] replace_table_last[OF assms(1,2)] image_iff)

lemma create_indexes:
  assumes "n \<notin> tl_name ` set s" and "tl_name t = n" and "distinct (map fst (tl_indexes t @ ixs))"
    and "list_all (\<lambda>(i, cs, u). i \<notin> set (index_names s) \<and> set cs \<subseteq> set (column_names t)) ixs"
  shows "apply_all (s @ [t]) (map (\<lambda>(i, cs, u). CreateIndex i n cs u) ixs) = Some (s @ [t\<lparr>tl_indexes := tl_indexes t @ ixs\<rparr>])"
  using assms
proof (induction ixs arbitrary: t)
  case (Cons x ixs)
  obtain i cs u where x: "x = (i, cs, u)" by (cases x)
  let ?t = "t\<lparr>tl_indexes := tl_indexes t @ [x]\<rparr>"
  have "apply_ddl (s @ [t]) (CreateIndex i n cs u) = Some (s @ [?t])"
    unfolding x using Cons.prems by (intro create_index_last) (auto simp: x)
  moreover have "column_names ?t = column_names t" by (simp add: column_names_def)
  ultimately show ?case using Cons.IH[of ?t] Cons.prems by (simp add: x)
qed simp

lemma create_table_fresh:
  assumes "n \<notin> tl_name ` set s" and "distinct (map co_name cols)" and "distinct (map fst (named_constraints n ks))"
    and "\<And>k. k \<in> snd ` set ks \<Longrightarrow> set (constraint_columns k) \<subseteq> set (map co_name cols)"
    and "\<And>k. k \<in> snd ` set ks \<Longrightarrow>
      reference_ok (s @ [\<lparr>tl_name = n, tl_columns = cols, tl_constraints = named_constraints n ks, tl_indexes = []\<rparr>]) k"
  shows "apply_ddl s (CreateTable n cols ks)
    = Some (s @ [\<lparr>tl_name = n, tl_columns = cols, tl_constraints = named_constraints n ks, tl_indexes = []\<rparr>])"
proof -
  have "find_table s n = None" using assms(1) by (simp only: find_table_None not_False_eq_True)
  moreover have "list_all (\<lambda>(_, k). set (constraint_columns k) \<subseteq> set (map co_name cols)
      \<and> reference_ok (s @ [\<lparr>tl_name = n, tl_columns = cols, tl_constraints = named_constraints n ks, tl_indexes = []\<rparr>]) k) (named_constraints n ks)"
    unfolding list_all_iff using assms(4,5) by (fastforce simp only: named_constraints_def set_map image_iff split_beta fst_conv snd_conv)
  ultimately show ?thesis using assms(2,3) by (simp add: column_names_def)
qed

lemma unique_keys_block: "[''id''] \<in> set (unique_keys (block_table b))" if "list_ex (\<lambda>(_, k). [''id''] \<in> set (constraint_key k)) (bk_constraints b)"
  using that by (force simp: unique_keys_def block_table_def named_constraints_def list_ex_iff)

lemma run_block:
  assumes g: "describes g s" and "block_ok b" and fits: "block_fits g b"
  shows "apply_all s (block_ddl b) = Some (s @ [block_table b])" and "describes (extend g b) (s @ [block_table b])"
proof -
  let ?t = "(block_table b)\<lparr>tl_indexes := []\<rparr>"
  have t: "?t = \<lparr>tl_name = bk_name b, tl_columns = bk_columns b,
     tl_constraints = named_constraints (bk_name b) (bk_constraints b), tl_indexes = []\<rparr>"
    by (simp add: block_table_def)
  have fresh: "bk_name b \<notin> tl_name ` set s" using g fits by (auto simp: describes_def block_fits_def)
  have "apply_ddl s (CreateTable (bk_name b) (bk_columns b) (bk_constraints b)) = Some (s @ [?t])"
    unfolding t
  proof (rule create_table_fresh[OF fresh])
    fix k assume "k \<in> snd ` set (bk_constraints b)"
    then show "set (constraint_columns k) \<subseteq> set (map co_name (bk_columns b))"
      using assms(2) by (fastforce simp: block_ok_def list_all_iff)
    show "reference_ok (s @ [\<lparr>tl_name = bk_name b, tl_columns = bk_columns b,
        tl_constraints = named_constraints (bk_name b) (bk_constraints b), tl_indexes = []\<rparr>]) k"
      using \<open>k \<in> _\<close> fits by (intro reference_fits_ok[OF g]) (auto simp: block_fits_def list_all_iff)
  qed (use assms(2) in \<open>simp_all only: block_ok_def\<close>)
  moreover have "apply_all (s @ [?t]) (map (\<lambda>(i, cs, u). CreateIndex i (bk_name b) cs u) (bk_indexes b)) = Some (s @ [?t\<lparr>tl_indexes := tl_indexes ?t @ bk_indexes b\<rparr>])"
  proof (rule create_indexes[OF fresh])
    have "set (sg_indexes g) = set (index_names s)" using g by (simp add: describes_def)
    then show "list_all (\<lambda>(i, cs, u). i \<notin> set (index_names s) \<and> set cs \<subseteq> set (column_names ?t)) (bk_indexes b)"
      using assms(2) fits by (auto simp: block_table_def block_ok_def block_fits_def column_names_def list_all_iff)
  qed (use assms(2) in \<open>simp_all add: block_table_def block_ok_def\<close>)
  moreover have "?t\<lparr>tl_indexes := tl_indexes ?t @ bk_indexes b\<rparr> = block_table b" by (simp add: block_table_def)
  ultimately show "apply_all s (block_ddl b) = Some (s @ [block_table b])" by (simp add: block_ddl_def)
  have keyed: "\<exists>t. find_table (s @ [block_table b]) r = Some t \<and> [''id''] \<in> set (unique_keys t)" if "r \<in> set (sg_keyed (extend g b))" for r
    using that g fresh unique_keys_block[of b] find_table_last[of "bk_name b" s "block_table b"]
    by (fastforce simp: extend_def describes_def find_table_append block_table_def split: if_splits)
  have closed: "n \<in> tl_name ` set (s @ [block_table b])" if "t \<in> set (s @ [block_table b])" "k \<in> snd ` set (tl_constraints t)" "refers_to n k" for t k n
  proof (cases "t \<in> set s")
    case True
    with that g show ?thesis unfolding describes_def by fastforce
  next
    case False
    with that(1) have "t = block_table b" by simp
    with that(2) have "k \<in> snd ` set (bk_constraints b)" by (simp add: block_table_def named_constraints_snd)
    with fits that(3) refers_fits[OF g] show ?thesis by (fastforce simp: block_fits_def list_all_iff)
  qed
  from g have names: "set (sg_names (extend g b)) = tl_name ` set (s @ [block_table b])"
    "set (sg_indexes (extend g b)) = set (index_names (s @ [block_table b]))"
    by (auto simp: extend_def describes_def block_table_def)
  from keyed closed names show "describes (extend g b) (s @ [block_table b])" unfolding describes_def by blast
qed

lemma run_plan:
  "describes g s \<Longrightarrow> plan g bs \<Longrightarrow> apply_all s (concat (map block_ddl bs)) = Some (s @ map block_table bs)
     \<and> describes (foldl extend g bs) (s @ map block_table bs)"
proof (induction bs arbitrary: g s)
  case (Cons b bs)
  then have "apply_all s (block_ddl b) = Some (s @ [block_table b])" "describes (extend g b) (s @ [block_table b])"
    using run_block[of g s b] by simp_all
  with Cons.IH[of "extend g b" "s @ [block_table b]"] Cons.prems show ?case by (simp add: apply_all_append)
qed simp

section \<open>Undoing\<close>

fun unbuild :: "table_block list \<Rightarrow> ddl list \<Rightarrow> bool" where
  "unbuild [] [] = True"
| "unbuild (b # bs) (DropIndex i n # ops) \<longleftrightarrow>
     n = bk_name b \<and> i \<in> fst ` set (bk_indexes b) \<and> unbuild (b\<lparr>bk_indexes := filter (\<lambda>(j, _). j \<noteq> i) (bk_indexes b)\<rparr> # bs) ops"
| "unbuild (b # bs) (DropTable n # ops) \<longleftrightarrow> n = bk_name b \<and> unbuild bs ops"
| "unbuild _ _ = False"

lemma plan_append: "plan g (xs @ ys) \<longleftrightarrow> plan g xs \<and> plan (foldl extend g xs) ys"
  by (induction xs arbitrary: g) auto

lemma plan_fewer_indexes: "plan g [b] \<Longrightarrow> plan g [b\<lparr>bk_indexes := filter p (bk_indexes b)\<rparr>]"
  by (auto simp: block_ok_def block_fits_def list_all_iff distinct_map_filter)

lemma drop_table_last:
  assumes "describes g s" and "tl_name t \<notin> set (sg_names g)"
  shows "apply_ddl (s @ [t]) (DropTable (tl_name t)) = Some s"
proof -
  have fresh: "tl_name t \<notin> tl_name ` set s" using assms by (simp add: describes_def)
  then have "\<not> list_ex (refers_to (tl_name t) \<circ> snd) (tl_constraints u)" if "u \<in> set s" for u
    using that assms(1) unfolding describes_def list_ex_iff comp_def by (metis image_eqI)
  moreover have "filter (\<lambda>u. tl_name u \<noteq> tl_name t) s = s" using fresh by (intro filter_True) (metis image_eqI)
  ultimately show ?thesis by (simp add: find_table_last[OF fresh refl] list_all_iff)
qed

lemma drop_index_last:
  assumes "n \<notin> tl_name ` set s" and "tl_name t = n" and "i \<in> fst ` set (tl_indexes t)"
  shows "apply_ddl (s @ [t]) (DropIndex i n) = Some (s @ [t\<lparr>tl_indexes := filter (\<lambda>(j, _). j \<noteq> i) (tl_indexes t)\<rparr>])"
  using assms(3) by (simp add: find_table_last[OF assms(1,2)] replace_table_last[OF assms(1,2)])

lemma run_unbuild:
  assumes "describes g s" and "plan g (rev bs)" and "unbuild bs ops"
  shows "apply_all (s @ map block_table (rev bs)) ops = Some s"
  using assms(2,3)
proof (induction bs ops rule: unbuild.induct)
  case (2 b bs i n ops)
  let ?b = "b\<lparr>bk_indexes := filter (\<lambda>(j, _). j \<noteq> i) (bk_indexes b)\<rparr>" and ?s = "s @ map block_table (rev bs)"
  have d: "describes (foldl extend g (rev bs)) ?s" and p: "plan (foldl extend g (rev bs)) [b]"
    using 2 run_plan[OF assms(1), of "rev bs"] by (simp_all add: plan_append)
  then have "bk_name b \<notin> tl_name ` set ?s" by (simp add: block_fits_def describes_def)
  from drop_index_last[OF this, of "block_table b" i] 2(3)
  have "apply_ddl (?s @ [block_table b]) (DropIndex i n) = Some (?s @ [block_table ?b])" by (simp add: block_table_def)
  then have "apply_all (?s @ [block_table b]) (DropIndex i n # ops) = apply_all (?s @ [block_table ?b]) ops"
    by (simp only: apply_all.simps option.case)
  moreover have "plan g (rev (?b # bs))" using 2(2) plan_fewer_indexes[OF p, of "\<lambda>(j, _). j \<noteq> i"] by (simp add: plan_append)
  ultimately show ?case using 2 by (simp del: apply_all.simps)
next
  case (3 b bs n ops)
  let ?s = "s @ map block_table (rev bs)"
  have "describes (foldl extend g (rev bs)) ?s" "bk_name b \<notin> set (sg_names (foldl extend g (rev bs)))"
    using 3 run_plan[OF assms(1), of "rev bs"] by (simp_all add: plan_append block_fits_def)
  from drop_table_last[OF this(1), of "block_table b"] this(2)
  have "apply_ddl (?s @ [block_table b]) (DropTable (bk_name b)) = Some ?s" by (simp add: block_table_def)
  then show ?case using 3 by (simp add: plan_append)
qed simp_all

section \<open>Rows of the blocks\<close>

definition emptied :: "string set \<Rightarrow> table_rows \<Rightarrow> table_rows" where
  "emptied ns rows = (\<lambda>n. if n \<in> ns then [] else rows n)"

lemma key_distinct_Nil [simp]: "key_distinct cs []"
  by (simp add: key_distinct_def)

lemma rows_fit_table_Nil [simp]: "rows_fit_table t []"
  by (simp add: rows_fit_table_def)

text \<open>Upgrades that create tables with their indexes, and downgrades that drop them, empty these tables and keep the rows of all others.\<close>

lemma rows_of_blocks:
  "well_blocked current ops \<Longrightarrow> (\<And>n. current = Some n \<Longrightarrow> rows n = []) \<Longrightarrow> rows_all rows ops = Some (emptied (bk_name ` set (blocks_of ops)) rows)"
proof (induction current ops arbitrary: rows rule: well_blocked.induct)
  case (1 current)
  then show ?case by (simp add: emptied_def)
next
  case (2 current n cols ks ops)
  then have "rows_all (rows(n := [])) ops = Some (emptied (bk_name ` set (blocks_of ops)) (rows(n := [])))" by simp
  moreover have "emptied ns (rows(n := [])) = emptied (insert n ns) rows" for ns by (auto simp: emptied_def)
  ultimately show ?case by simp
qed simp_all

lemma rows_of_unbuild: "unbuild bs ops \<Longrightarrow> rows_all rows ops = Some (emptied (bk_name ` set bs) rows)"
proof (induction bs ops arbitrary: rows rule: unbuild.induct)
  case 1
  then show ?case by (simp add: emptied_def)
next
  case (3 b bs n ops)
  then have "rows_all (rows(n := [])) ops = Some (emptied (bk_name ` set bs) (rows(n := [])))" by simp
  moreover have "emptied ns (rows(n := [])) = emptied (insert n ns) rows" for ns by (auto simp: emptied_def)
  ultimately show ?case using 3 by simp
qed simp_all

section \<open>Adding an indexed column\<close>

definition with_column :: "column \<Rightarrow> string \<Rightarrow> table \<Rightarrow> table" where
  "with_column c i t = t\<lparr>tl_columns := tl_columns t @ [c], tl_indexes := tl_indexes t @ [(i, [co_name c], False)]\<rparr>"

lemma other_column: "n \<notin> set (column_names t) \<Longrightarrow> x \<in> set (tl_columns t) \<Longrightarrow> co_name x \<noteq> n"
  by (auto simp: column_names_def)

text \<open>A column added with a server default that is then taken away, with its index; and the way back.\<close>

lemma add_indexed_column:
  assumes n: "n \<notin> tl_name ` set s" "tl_name t = n" and c: "co_name c \<notin> set (column_names t)" "co_default c = None"
    and i: "i \<notin> set (index_names (s @ [t]))"
  shows "apply_all (s @ [t]) [AddColumn n (c\<lparr>co_default := Some d\<rparr>), AlterDefault n (co_name c) None, CreateIndex i n [co_name c] False]
    = Some (s @ [with_column c i t])"
proof -
  let ?t = "t\<lparr>tl_columns := tl_columns t @ [c\<lparr>co_default := Some d\<rparr>]\<rparr>" and ?u = "t\<lparr>tl_columns := tl_columns t @ [c]\<rparr>"
  have names: "n \<notin> tl_name ` set s" "tl_name ?t = n" "tl_name ?u = n" using n by simp_all
  have add: "apply_ddl (s @ [t]) (AddColumn n (c\<lparr>co_default := Some d\<rparr>)) = Some (s @ [?t])"
    using c by (simp add: find_table_last[OF n] replace_table_last[OF n])
  have "c\<lparr>co_default := None\<rparr> = c" using c(2) by simp
  moreover have "map (\<lambda>x. if co_name x = co_name c then x\<lparr>co_default := None\<rparr> else x) (tl_columns t) = tl_columns t"
    using other_column[OF c(1)] by (intro map_idI) simp
  ultimately have "tl_columns ?u = map (\<lambda>x. if co_name x = co_name c then x\<lparr>co_default := None\<rparr> else x) (tl_columns ?t)"
    by simp
  then have "apply_ddl (s @ [?t]) (AlterDefault n (co_name c) None) = Some (s @ [?u])"
    by (simp add: find_table_last[OF names(1,2)] replace_table_last[OF names(1,2)] column_names_def)
  moreover have "apply_ddl (s @ [?u]) (CreateIndex i n [co_name c] False) = Some (s @ [?u\<lparr>tl_indexes := tl_indexes ?u @ [(i, [co_name c], False)]\<rparr>])"
    using i by (intro create_index_last[OF names(1,3)]) (auto simp: column_names_def)
  ultimately show ?thesis using add by (simp add: with_column_def del: apply_ddl.simps)
qed

lemma describes_with_column:
  assumes "describes g (s @ [t])" and "n \<notin> tl_name ` set s" "tl_name t = n"
  shows "describes (g\<lparr>sg_indexes := sg_indexes g @ [i]\<rparr>) (s @ [with_column c i t])"
proof -
  have "find_table (s @ [with_column c i t]) r = (if find_table (s @ [t]) r = Some t \<and> r = n then Some (with_column c i t) else find_table (s @ [t]) r)" for r
    using assms(2,3) by (auto simp: find_table_append find_table_None[THEN iffD2] with_column_def split: option.split)
      (auto simp: find_table_def)
  moreover have "unique_keys (with_column c i t) = unique_keys t" by (simp add: with_column_def unique_keys_def)
  ultimately have keyed: "\<exists>u. find_table (s @ [with_column c i t]) r = Some u \<and> [''id''] \<in> set (unique_keys u)" if "r \<in> set (sg_keyed g)" for r
    using that assms(1) unfolding describes_def by (metis option.inject)
  have same: "tl_name (with_column c i t) = tl_name t" "tl_constraints (with_column c i t) = tl_constraints t"
    "tl_indexes (with_column c i t) = tl_indexes t @ [(i, [co_name c], False)]" by (simp_all add: with_column_def)
  have closed: "\<forall>u \<in> set (s @ [with_column c i t]). \<forall>k \<in> snd ` set (tl_constraints u). \<forall>m. refers_to m k \<longrightarrow> m \<in> tl_name ` set (s @ [t])"
    using assms(1) unfolding describes_def by (auto simp: same)
  have names: "set (sg_names g) = tl_name ` set (s @ [t])" "set (sg_indexes g) = set (index_names (s @ [t]))"
    using assms(1) unfolding describes_def by blast+
  show ?thesis using keyed closed names unfolding describes_def by (simp add: same)
qed

lemma drop_indexed_column:
  assumes n: "n \<notin> tl_name ` set s" "tl_name t = n" and c: "co_name c \<notin> set (column_names t)" and i: "i \<notin> fst ` set (tl_indexes t)"
    and "list_all (\<lambda>(_, k). set (constraint_columns k) \<subseteq> set (column_names t)) (tl_constraints t)"
    and "list_all (\<lambda>(_, cs, _). set cs \<subseteq> set (column_names t)) (tl_indexes t)"
  shows "apply_all (s @ [with_column c i t]) [DropIndex i n, DropColumn n (co_name c)] = Some (s @ [t])"
proof -
  let ?u = "t\<lparr>tl_columns := tl_columns t @ [c]\<rparr>"
  have names: "n \<notin> tl_name ` set s" "tl_name (with_column c i t) = n" "tl_name ?u = n" using n by (simp_all add: with_column_def)
  have "filter (\<lambda>(j, _). j \<noteq> i) (tl_indexes t) = tl_indexes t" using i by (intro filter_True) force
  then have drop: "apply_ddl (s @ [with_column c i t]) (DropIndex i n) = Some (s @ [?u])"
    by (simp add: find_table_last[OF names(1,2)] replace_table_last[OF names(1,2)]) (simp add: with_column_def)
  have "filter (\<lambda>x. co_name x \<noteq> co_name c) (tl_columns t) = tl_columns t"
    using other_column[OF c] by (intro filter_True) simp
  moreover have "filter (\<lambda>(_, k). co_name c \<notin> set (constraint_columns k)) (tl_constraints t) = tl_constraints t"
    using c assms(5) by (intro filter_True) (fastforce simp: list_all_iff)
  moreover have "filter (\<lambda>(_, cs, _). co_name c \<notin> set cs) (tl_indexes t) = tl_indexes t"
    using c assms(6) by (intro filter_True) (fastforce simp: list_all_iff)
  ultimately have "apply_ddl (s @ [?u]) (DropColumn n (co_name c)) = Some (s @ [t])"
    by (simp add: find_table_last[OF names(1,3)] replace_table_last[OF names(1,3)] column_names_def)
  with drop show ?thesis by (simp del: apply_ddl.simps)
qed

section \<open>Chains\<close>

definition migration_tables :: "migration \<Rightarrow> schema" where
  "migration_tables m = map block_table (blocks_of (mg_upgrade m))"

text \<open>Each migration of the list only adds tables, on a schema with the signature reached so far, and its downgrade drops them.\<close>

fun additive :: "signature \<Rightarrow> migration list \<Rightarrow> bool" where
  "additive g [] = True"
| "additive g (m # ms) \<longleftrightarrow> well_blocked None (mg_upgrade m) \<and> plan g (blocks_of (mg_upgrade m))
     \<and> unbuild (rev (blocks_of (mg_upgrade m))) (mg_downgrade m) \<and> additive (foldl extend g (blocks_of (mg_upgrade m))) ms"

definition final_signature :: "signature \<Rightarrow> migration list \<Rightarrow> signature" where
  "final_signature g ms = foldl extend g (concat (map (blocks_of \<circ> mg_upgrade) ms))"

lemma run_migration:
  assumes "describes g s" and "additive g (m # ms)"
  shows "apply_all s (mg_upgrade m) = Some (s @ migration_tables m)" and "apply_all (s @ migration_tables m) (mg_downgrade m) = Some s"
    and "describes (foldl extend g (blocks_of (mg_upgrade m))) (s @ migration_tables m)"
  using assms run_plan[of g s "blocks_of (mg_upgrade m)"] run_unbuild[of g s "rev (blocks_of (mg_upgrade m))" "mg_downgrade m"]
    well_blocked_ddl[of None "mg_upgrade m"]
  by (simp_all add: migration_tables_def)

lemma run_additive:
  "describes g s \<Longrightarrow> additive g ms \<Longrightarrow> k < length ms \<Longrightarrow>
   apply_all (s @ concat (map migration_tables (take k ms))) (mg_upgrade (ms ! k)) = Some (s @ concat (map migration_tables (take (Suc k) ms)))
   \<and> apply_all (s @ concat (map migration_tables (take (Suc k) ms))) (mg_downgrade (ms ! k)) = Some (s @ concat (map migration_tables (take k ms)))"
proof (induction ms arbitrary: g s k)
  case (Cons m ms)
  note m = run_migration[OF Cons.prems(1,2)]
  show ?case
  proof (cases k)
    case 0
    with m show ?thesis by simp
  next
    case (Suc j)
    with Cons.IH[OF m(3), of j] Cons.prems show ?thesis by simp
  qed
qed simp

lemma plan_names: "plan g bs \<Longrightarrow> b \<in> set bs \<Longrightarrow> bk_name b \<notin> set (sg_names g)"
proof (induction bs arbitrary: g)
  case (Cons x bs)
  have "set (sg_names g) \<subseteq> set (sg_names (extend g x))" by (auto simp: extend_def)
  then show ?case using Cons.IH[of "extend g x"] Cons.prems by (auto simp: block_fits_def)
qed simp

text \<open>The tables a migration creates are new, and its rows follow its blocks.\<close>

lemma additive_step:
  "describes g s \<Longrightarrow> additive g ms \<Longrightarrow> k < length ms \<Longrightarrow>
   well_blocked None (mg_upgrade (ms ! k)) \<and> unbuild (rev (blocks_of (mg_upgrade (ms ! k)))) (mg_downgrade (ms ! k))
   \<and> tl_name ` set (migration_tables (ms ! k)) \<inter> tl_name ` set (s @ concat (map migration_tables (take k ms))) = {}"
proof (induction ms arbitrary: g s k)
  case (Cons m ms)
  note m = run_migration[OF Cons.prems(1,2)]
  show ?case
  proof (cases k)
    case 0
    with Cons.prems show ?thesis
      by (auto simp: migration_tables_def block_table_def describes_def dest: plan_names)
  next
    case (Suc j)
    with Cons.IH[OF m(3), of j] Cons.prems show ?thesis by simp
  qed
qed simp

lemma created_names: "tl_name ` set (migration_tables m) = bk_name ` set (blocks_of (mg_upgrade m))"
  by (force simp: migration_tables_def block_table_def)

lemma additive_rows:
  assumes "describes g s" "additive g ms" "k < length ms"
  shows "rows_all rows (mg_upgrade (ms ! k)) = Some (emptied (tl_name ` set (migration_tables (ms ! k))) rows)"
    and "rows_all rows (mg_downgrade (ms ! k)) = Some (emptied (tl_name ` set (migration_tables (ms ! k))) rows)"
  using additive_step[OF assms] rows_of_blocks[of None "mg_upgrade (ms ! k)" rows]
    rows_of_unbuild[of "rev (blocks_of (mg_upgrade (ms ! k)))" "mg_downgrade (ms ! k)" rows]
  by (simp_all add: created_names)

lemma additive_prefix: "additive g (xs @ ys) \<Longrightarrow> additive g xs"
  by (induction xs arbitrary: g) auto

lemma describes_additive:
  "describes g s \<Longrightarrow> additive g ms \<Longrightarrow> describes (final_signature g ms) (s @ concat (map migration_tables ms))"
proof (induction ms arbitrary: g s)
  case (Cons m ms)
  from Cons.IH[OF run_migration(3)[OF Cons.prems]] Cons.prems(2) show ?case by (simp add: final_signature_def)
qed (simp add: final_signature_def)

text \<open>A linked chain: every migration names its predecessor, and revisions are unique.\<close>

definition revision_at :: "migration list \<Rightarrow> nat \<Rightarrow> string option" where
  "revision_at ms k = (if k = 0 then None else Some (mg_revision (ms ! (k - 1))))"

definition linked :: "migration list \<Rightarrow> bool" where
  "linked ms \<longleftrightarrow> map mg_down_revision ms = map (revision_at ms) [0..<length ms] \<and> distinct (map mg_revision ms)"

lemma find_by_key: "distinct (map f xs) \<Longrightarrow> k < length xs \<Longrightarrow> f (xs ! k) = y \<Longrightarrow> List.find (\<lambda>x. f x = y) xs = Some (xs ! k)"
proof (induction xs arbitrary: k)
  case (Cons x xs)
  then show ?case by (cases k) auto
qed simp

lemma linked_revisions:
  assumes "linked ms"
  shows "distinct (map mg_down_revision ms)" and "k < length ms \<Longrightarrow> mg_down_revision (ms ! k) = revision_at ms k"
    and "i \<le> length ms \<Longrightarrow> j \<le> length ms \<Longrightarrow> revision_at ms i = revision_at ms j \<Longrightarrow> i = j"
proof -
  have inj: "i = j" if "i \<le> length ms" "j \<le> length ms" "revision_at ms i = revision_at ms j" for i j
    using that assms nth_eq_iff_index_eq[of "map mg_revision ms" "i - 1" "j - 1"]
    by (auto simp: revision_at_def linked_def split: if_splits)
  then show "i \<le> length ms \<Longrightarrow> j \<le> length ms \<Longrightarrow> revision_at ms i = revision_at ms j \<Longrightarrow> i = j" .
  show "distinct (map mg_down_revision ms)" using assms inj by (auto simp: linked_def distinct_map inj_on_def)
  have "map mg_down_revision ms ! k = map (revision_at ms) [0..<length ms] ! k" using assms by (simp only: linked_def)
  then show "k < length ms \<Longrightarrow> mg_down_revision (ms ! k) = revision_at ms k" by simp
qed

text \<open>The schema after \<open>k\<close> migrations, when it is known; a database there may hold any rows.\<close>

definition at_stage :: "migration list \<Rightarrow> (nat \<Rightarrow> schema) \<Rightarrow> nat \<Rightarrow> migrated_database \<Rightarrow> bool" where
  "at_stage ms stage k d \<longleftrightarrow> md_revision d = revision_at ms k \<and> md_schema d = stage k"

definition database_at :: "migration list \<Rightarrow> (nat \<Rightarrow> schema) \<Rightarrow> nat \<Rightarrow> table_rows \<Rightarrow> migrated_database" where
  "database_at ms stage k rows = \<lparr>md_revision = revision_at ms k, md_schema = stage k, md_rows = rows\<rparr>"

definition stages :: "migration list \<Rightarrow> (nat \<Rightarrow> schema) \<Rightarrow> bool" where
  "stages ms stage \<longleftrightarrow> stage 0 = [] \<and> (\<forall>k < length ms. apply_all (stage k) (mg_upgrade (ms ! k)) = Some (stage (Suc k))
     \<and> apply_all (stage (Suc k)) (mg_downgrade (ms ! k)) = Some (stage k))"

lemma database_at_simps [simp]:
  "md_revision (database_at ms stage k rows) = revision_at ms k" "md_schema (database_at ms stage k rows) = stage k"
  "md_rows (database_at ms stage k rows) = rows" "at_stage ms stage k (database_at ms stage k rows)"
  by (simp_all add: database_at_def at_stage_def)

lemma at_stage_iff: "at_stage ms stage k d \<longleftrightarrow> d = database_at ms stage k (md_rows d)"
  by (cases d) (auto simp: at_stage_def database_at_def)

lemma step_along_chain:
  assumes "linked ms" and "stages ms stage"
  shows "k < length ms \<Longrightarrow> at_stage ms stage k d \<Longrightarrow>
      upgrade_one ms d = map_option (database_at ms stage (Suc k)) (rows_all (md_rows d) (mg_upgrade (ms ! k)))"
    and "k < length ms \<Longrightarrow> at_stage ms stage (Suc k) d \<Longrightarrow>
      downgrade_one ms d = map_option (database_at ms stage k) (rows_all (md_rows d) (mg_downgrade (ms ! k)))"
    and "at_stage ms stage (length ms) d \<Longrightarrow> upgrade_one ms d = None" and "at_stage ms stage 0 d \<Longrightarrow> downgrade_one ms d = None"
proof -
  show "upgrade_one ms d = map_option (database_at ms stage (Suc k)) (rows_all (md_rows d) (mg_upgrade (ms ! k)))"
    if "k < length ms" "at_stage ms stage k d"
    using that assms(2) find_by_key[OF linked_revisions(1)[OF assms(1)] that(1) linked_revisions(2)[OF assms(1) that(1)]]
    by (simp add: upgrade_one_def run_statements_def database_at_def [abs_def] at_stage_def stages_def revision_at_def)
  have "List.find (\<lambda>m. Some (mg_revision m) = revision_at ms (Suc k)) ms = Some (ms ! k)" if "k < length ms"
    using find_by_key[of mg_revision ms k "mg_revision (ms ! k)"] that assms(1) by (simp add: revision_at_def linked_def)
  then show "downgrade_one ms d = map_option (database_at ms stage k) (rows_all (md_rows d) (mg_downgrade (ms ! k)))"
    if "k < length ms" "at_stage ms stage (Suc k) d"
    using that assms(2) linked_revisions(2)[OF assms(1) that(1)]
    by (simp add: downgrade_one_def run_statements_def database_at_def [abs_def] at_stage_def stages_def)
  have "mg_down_revision m \<noteq> revision_at ms (length ms)" if "m \<in> set ms" for m
    using that linked_revisions(2,3)[OF assms(1)] by (metis in_set_conv_nth less_imp_le_nat less_irrefl order_refl)
  then show "upgrade_one ms d = None" if "at_stage ms stage (length ms) d"
    using that by (simp add: upgrade_one_def at_stage_def find_None_iff[THEN iffD2])
  show "downgrade_one ms d = None" if "at_stage ms stage 0 d"
    using that by (simp add: downgrade_one_def at_stage_def revision_at_def find_None_iff[THEN iffD2])
qed

end
