(* ===== verification/Migrations.thy ===== *)
theory Migrations
  imports Schema
begin

text \<open>
  The migrations of \<open>infra/migrations/versions\<close>, statement by statement.  Each file's \<open>upgrade\<close> and \<open>downgrade\<close>
  is its list of statements in order; the SQLite branch of the twelfth migration, which does the same to a copy
  of the table, is taken as the statement it performs.
\<close>

text \<open>The \<open>outcome IN (...)\<close> text of a check, with its quotes.\<close>

definition sql_in :: "string \<Rightarrow> string list \<Rightarrow> string" where
  "sql_in c vs = c @ '' IN ('' @ concat (map (\<lambda>(i, v). (if i = 0 then [] else '', '') @ CHR 0x27 # v @ [CHR 0x27]) (enumerate 0 vs)) @ '')''"

definition timestamps :: "column list" where
  "timestamps = [required ''id'' UuidType, now_column ''created_at'', now_column ''updated_at'']"

definition upgrade_0001 :: "ddl list" where
  "upgrade_0001 =
     [CreateTable ''trading_accounts''
        [required ''broker'' (StringOf 32), required ''external_reference'' (StringOf 128), required ''paper'' BooleanType,
         required ''active'' BooleanType, required ''id'' UuidType, now_column ''created_at'', now_column ''updated_at'']
        [(Some ''pk_trading_accounts'', PrimaryKey [''id'']), (Some ''uq_trading_accounts_broker'', UniqueKey [''broker'', ''external_reference''])],
      CreateTable ''risk_limits''
        [required ''account_id'' UuidType, required ''limit_type'' (StringOf 64), required ''value'' (NumericOf 24 8),
         required ''enabled'' BooleanType, required ''effective_from'' DateTimeTz, required ''id'' UuidType, now_column ''created_at'',
         now_column ''updated_at'']
        [(Some ''fk_risk_limits_account_id_trading_accounts'', ForeignKey [''account_id''] ''trading_accounts'' [''id''] True),
         (Some ''pk_risk_limits'', PrimaryKey [''id'']),
         (Some ''uq_risk_limits_account_id'', UniqueKey [''account_id'', ''limit_type'', ''effective_from''])],
      CreateIndex ''ix_risk_limits_account_id'' ''risk_limits'' [''account_id''] False,
      CreateTable ''audit_events''
        [required ''occurred_at'' DateTimeTz, required ''actor_id'' (StringOf 128), required ''action'' (StringOf 128),
         required ''resource_type'' (StringOf 64), optional ''resource_id'' (StringOf 128), required ''outcome'' (StringOf 32),
         required ''details'' JsonType, required ''correlation_id'' (StringOf 64), required ''id'' UuidType, now_column ''created_at'',
         now_column ''updated_at'']
        [(Some ''pk_audit_events'', PrimaryKey [''id''])],
      CreateIndex ''ix_audit_events_correlation_id'' ''audit_events'' [''correlation_id''] False,
      CreateIndex ''ix_audit_events_occurred_at'' ''audit_events'' [''occurred_at''] False,
      CreateTable ''safety_state''
        [required ''key'' (StringOf 64), required ''enabled'' BooleanType, required ''reason'' (StringOf 256), required ''updated_at'' DateTimeTz,
         required ''correlation_id'' (StringOf 64)]
        [(Some ''pk_safety_state'', PrimaryKey [''key''])]]"

definition downgrade_0001 :: "ddl list" where
  "downgrade_0001 =
     [DropTable ''safety_state'',
      DropIndex ''ix_audit_events_occurred_at'' ''audit_events'',
      DropIndex ''ix_audit_events_correlation_id'' ''audit_events'',
      DropTable ''audit_events'',
      DropIndex ''ix_risk_limits_account_id'' ''risk_limits'',
      DropTable ''risk_limits'',
      DropTable ''trading_accounts'']"

definition migration_0001 :: migration where
  "migration_0001 = \<lparr>mg_revision = ''0001_phase1'', mg_down_revision = None,
     mg_upgrade = upgrade_0001, mg_downgrade = downgrade_0001\<rparr>"

definition upgrade_0002 :: "ddl list" where
  "upgrade_0002 =
     [CreateTable ''instruments''
        [required ''symbol'' (StringOf 64), required ''exchange'' (StringOf 8), required ''segment'' (StringOf 16), optional ''isin'' (StringOf 12),
         required ''tick_size'' (NumericOf 18 8), required ''lot_size'' IntegerType, required ''currency'' (StringOf 3),
         required ''active'' BooleanType, required ''id'' UuidType, now_column ''created_at'', now_column ''updated_at'']
        [(Some ''pk_instruments'', PrimaryKey [''id'']), (Some ''uq_instruments_exchange'', UniqueKey [''exchange'', ''segment'', ''symbol''])],
      CreateTable ''raw_candles''
        [required ''source'' (StringOf 32), required ''source_event_id'' (StringOf 128), required ''instrument_id'' UuidType,
         required ''event_timestamp'' DateTimeTz, required ''timeframe_seconds'' IntegerType, required ''payload'' JsonType, required ''id'' UuidType,
         now_column ''created_at'', now_column ''updated_at'']
        [(Some ''fk_raw_candles_instrument_id_instruments'', ForeignKey [''instrument_id''] ''instruments'' [''id''] False),
         (Some ''pk_raw_candles'', PrimaryKey [''id'']), (Some ''uq_raw_candles_source'', UniqueKey [''source'', ''source_event_id''])],
      CreateIndex ''ix_raw_candles_instrument_id'' ''raw_candles'' [''instrument_id''] False,
      CreateTable ''candles''
        [required ''instrument_id'' UuidType, required ''event_timestamp'' DateTimeTz, required ''timeframe_seconds'' IntegerType,
         required ''open'' (NumericOf 24 8), required ''high'' (NumericOf 24 8), required ''low'' (NumericOf 24 8),
         required ''close'' (NumericOf 24 8), required ''volume'' (NumericOf 28 8), optional ''open_interest'' (NumericOf 28 8),
         required ''is_closed'' BooleanType, required ''id'' UuidType, now_column ''created_at'', now_column ''updated_at'']
        [(Some ''fk_candles_instrument_id_instruments'', ForeignKey [''instrument_id''] ''instruments'' [''id''] False),
         (Some ''pk_candles'', PrimaryKey [''id'']),
         (Some ''uq_candles_instrument_id'', UniqueKey [''instrument_id'', ''event_timestamp'', ''timeframe_seconds''])],
      CreateIndex ''ix_candles_instrument_id'' ''candles'' [''instrument_id''] False,
      CreateTable ''market_data_quality_events''
        [optional ''instrument_id'' UuidType, required ''event_timestamp'' DateTimeTz, required ''code'' (StringOf 32),
         required ''severity'' (StringOf 16), required ''details'' JsonType, optional ''raw_event_id'' (StringOf 128), required ''id'' UuidType,
         now_column ''created_at'', now_column ''updated_at'']
        [(Some ''fk_market_data_quality_events_instrument_id_instruments'', ForeignKey [''instrument_id''] ''instruments'' [''id''] False),
         (Some ''pk_market_data_quality_events'', PrimaryKey [''id'']),
         (Some ''uq_market_data_quality_events_raw_event_id'', UniqueKey [''raw_event_id'', ''code''])],
      CreateIndex ''ix_market_data_quality_events_code'' ''market_data_quality_events'' [''code''] False,
      CreateIndex ''ix_market_data_quality_events_event_timestamp'' ''market_data_quality_events'' [''event_timestamp''] False,
      CreateIndex ''ix_market_data_quality_events_instrument_id'' ''market_data_quality_events'' [''instrument_id''] False]"

definition downgrade_0002 :: "ddl list" where
  "downgrade_0002 =
     [DropIndex ''ix_market_data_quality_events_instrument_id'' ''market_data_quality_events'',
      DropIndex ''ix_market_data_quality_events_event_timestamp'' ''market_data_quality_events'',
      DropIndex ''ix_market_data_quality_events_code'' ''market_data_quality_events'',
      DropTable ''market_data_quality_events'',
      DropIndex ''ix_candles_instrument_id'' ''candles'',
      DropTable ''candles'',
      DropIndex ''ix_raw_candles_instrument_id'' ''raw_candles'',
      DropTable ''raw_candles'',
      DropTable ''instruments'']"

definition migration_0002 :: migration where
  "migration_0002 = \<lparr>mg_revision = ''0002_market_data'', mg_down_revision = Some ''0001_phase1'',
     mg_upgrade = upgrade_0002, mg_downgrade = downgrade_0002\<rparr>"

definition upgrade_0003 :: "ddl list" where
  "upgrade_0003 =
     [CreateTable ''paper_orders''
        ([required ''account_id'' UuidType, required ''instrument_id'' UuidType, required ''intent_id'' UuidType,
         required ''risk_decision_id'' UuidType, required ''idempotency_key'' (StringOf 128), required ''side'' (StringOf 8),
         required ''order_type'' (StringOf 16), required ''status'' (StringOf 24), required ''quantity'' (NumericOf 28 8),
         required ''filled_quantity'' (NumericOf 28 8), required ''average_price'' (NumericOf 24 8), required ''charges'' (NumericOf 24 8),
         required ''filled_at'' DateTimeTz]
        @ timestamps)
        [(None, ForeignKey [''account_id''] ''trading_accounts'' [''id''] False),
         (None, ForeignKey [''instrument_id''] ''instruments'' [''id''] False), (None, PrimaryKey [''id'']),
         (None, UniqueKey [''account_id'', ''idempotency_key''])],
      CreateIndex ''ix_paper_orders_account_id'' ''paper_orders'' [''account_id''] False,
      CreateIndex ''ix_paper_orders_instrument_id'' ''paper_orders'' [''instrument_id''] False,
      CreateTable ''paper_fills''
        ([required ''order_id'' UuidType, required ''quantity'' (NumericOf 28 8), required ''price'' (NumericOf 24 8),
         required ''charges'' (NumericOf 24 8), required ''filled_at'' DateTimeTz]
        @ timestamps)
        [(None, ForeignKey [''order_id''] ''paper_orders'' [''id''] False), (None, PrimaryKey [''id''])],
      CreateIndex ''ix_paper_fills_order_id'' ''paper_fills'' [''order_id''] False,
      CreateTable ''paper_positions''
        ([required ''account_id'' UuidType, required ''instrument_id'' UuidType, required ''quantity'' (NumericOf 28 8),
         required ''average_price'' (NumericOf 24 8), required ''realized_pnl'' (NumericOf 24 8)]
        @ timestamps)
        [(None, ForeignKey [''account_id''] ''trading_accounts'' [''id''] False),
         (None, ForeignKey [''instrument_id''] ''instruments'' [''id''] False), (None, PrimaryKey [''id'']),
         (None, UniqueKey [''account_id'', ''instrument_id''])],
      CreateIndex ''ix_paper_positions_account_id'' ''paper_positions'' [''account_id''] False,
      CreateIndex ''ix_paper_positions_instrument_id'' ''paper_positions'' [''instrument_id''] False,
      CreateTable ''paper_order_events''
        ([required ''order_id'' UuidType, required ''occurred_at'' DateTimeTz, required ''status'' (StringOf 24), required ''details'' JsonType]
        @ timestamps)
        [(None, ForeignKey [''order_id''] ''paper_orders'' [''id''] False), (None, PrimaryKey [''id''])],
      CreateIndex ''ix_paper_order_events_order_id'' ''paper_order_events'' [''order_id''] False]"

definition downgrade_0003 :: "ddl list" where
  "downgrade_0003 =
     [DropTable ''paper_order_events'',
      DropTable ''paper_positions'',
      DropTable ''paper_fills'',
      DropTable ''paper_orders'']"

definition migration_0003 :: migration where
  "migration_0003 = \<lparr>mg_revision = ''0003_paper_trading'', mg_down_revision = Some ''0002_market_data'',
     mg_upgrade = upgrade_0003, mg_downgrade = downgrade_0003\<rparr>"

definition upgrade_0004 :: "ddl list" where
  "upgrade_0004 =
     [CreateTable ''paper_account_ledgers''
        ([required ''account_id'' UuidType, required ''initial_cash'' (NumericOf 24 8), required ''cash_balance'' (NumericOf 24 8),
         required ''peak_equity'' (NumericOf 24 8)]
        @ timestamps)
        [(None, ForeignKey [''account_id''] ''trading_accounts'' [''id''] False), (None, PrimaryKey [''id'']), (None, UniqueKey [''account_id''])],
      CreateIndex ''ix_paper_account_ledgers_account_id'' ''paper_account_ledgers'' [''account_id''] False,
      CreateTable ''paper_pnl_snapshots''
        ([required ''account_id'' UuidType, required ''occurred_at'' DateTimeTz, required ''cash'' (NumericOf 24 8),
         required ''realized_pnl'' (NumericOf 24 8), required ''unrealized_pnl'' (NumericOf 24 8), required ''equity'' (NumericOf 24 8),
         required ''gross_exposure'' (NumericOf 24 8), required ''net_exposure'' (NumericOf 24 8), required ''drawdown'' (NumericOf 16 12)]
        @ timestamps)
        [(None, ForeignKey [''account_id''] ''trading_accounts'' [''id''] False), (None, PrimaryKey [''id''])],
      CreateIndex ''ix_paper_pnl_snapshots_account_id'' ''paper_pnl_snapshots'' [''account_id''] False,
      CreateIndex ''ix_paper_pnl_snapshots_occurred_at'' ''paper_pnl_snapshots'' [''occurred_at''] False]"

definition downgrade_0004 :: "ddl list" where
  "downgrade_0004 =
     [DropTable ''paper_pnl_snapshots'',
      DropTable ''paper_account_ledgers'']"

definition migration_0004 :: migration where
  "migration_0004 = \<lparr>mg_revision = ''0004_paper_accounting'', mg_down_revision = Some ''0003_paper_trading'',
     mg_upgrade = upgrade_0004, mg_downgrade = downgrade_0004\<rparr>"

definition upgrade_0005 :: "ddl list" where
  "upgrade_0005 =
     [CreateTable ''risk_decisions''
        [required ''order_intent_id'' UuidType, required ''account_id'' UuidType, required ''instrument_id'' UuidType,
         required ''evaluated_at'' DateTimeTz, required ''outcome'' (StringOf 16), required ''approved_quantity'' (NumericOf 28 8),
         required ''reason_codes'' JsonType, required ''policy_version'' (StringOf 64), required ''request_fingerprint'' (StringOf 64),
         required ''id'' UuidType, now_column ''created_at'', now_column ''updated_at'']
        [(None, ForeignKey [''account_id''] ''trading_accounts'' [''id''] False),
         (None, ForeignKey [''instrument_id''] ''instruments'' [''id''] False), (None, PrimaryKey [''id'']), (None, UniqueKey [''order_intent_id''])],
      CreateIndex ''ix_risk_decisions_order_intent_id'' ''risk_decisions'' [''order_intent_id''] False,
      CreateIndex ''ix_risk_decisions_account_id'' ''risk_decisions'' [''account_id''] False,
      CreateIndex ''ix_risk_decisions_instrument_id'' ''risk_decisions'' [''instrument_id''] False]"

definition downgrade_0005 :: "ddl list" where
  "downgrade_0005 =
     [DropTable ''risk_decisions'']"

definition migration_0005 :: migration where
  "migration_0005 = \<lparr>mg_revision = ''0005_risk_decisions'', mg_down_revision = Some ''0004_paper_accounting'',
     mg_upgrade = upgrade_0005, mg_downgrade = downgrade_0005\<rparr>"

definition upgrade_0006 :: "ddl list" where
  "upgrade_0006 =
     [CreateTable ''execution_orders''
        [required ''quantity'' (NumericOf 28 8), required ''status'' (StringOf 32), required ''filled_quantity'' (NumericOf 28 8),
         optional ''broker_order_id'' (StringOf 128), required ''last_event_at'' DateTimeTz, required ''version'' IntegerType,
         optional ''reconciliation_reason'' (StringOf 64), required ''id'' UuidType, now_column ''created_at'', now_column ''updated_at'']
        [(None, PrimaryKey [''id''])],
      CreateTable ''execution_order_events''
        [required ''order_id'' UuidType, required ''event_id'' (StringOf 128), required ''event_type'' (StringOf 32),
         required ''occurred_at'' DateTimeTz, required ''fill_quantity'' (NumericOf 28 8), optional ''broker_order_id'' (StringOf 128),
         required ''resulting_version'' IntegerType, required ''id'' UuidType, now_column ''created_at'', now_column ''updated_at'']
        [(None, ForeignKey [''order_id''] ''execution_orders'' [''id''] True), (None, PrimaryKey [''id'']),
         (None, UniqueKey [''order_id'', ''event_id''])],
      CreateIndex ''ix_execution_order_events_order_id'' ''execution_order_events'' [''order_id''] False]"

definition downgrade_0006 :: "ddl list" where
  "downgrade_0006 =
     [DropTable ''execution_order_events'',
      DropTable ''execution_orders'']"

definition migration_0006 :: migration where
  "migration_0006 = \<lparr>mg_revision = ''0006_execution_orders'', mg_down_revision = Some ''0005_risk_decisions'',
     mg_upgrade = upgrade_0006, mg_downgrade = downgrade_0006\<rparr>"

definition upgrade_0007 :: "ddl list" where
  "upgrade_0007 =
     [CreateTable ''option_iv_observations''
        [required ''instrument_id'' UuidType, required ''observed_at'' DateTimeTz, required ''implied_volatility'' (NumericOf 18 10),
         required ''source'' (StringOf 32), required ''source_event_id'' (StringOf 128), required ''id'' UuidType, now_column ''created_at'',
         now_column ''updated_at'']
        [(None, ForeignKey [''instrument_id''] ''instruments'' [''id''] False), (None, PrimaryKey [''id'']),
         (None, UniqueKey [''source'', ''source_event_id'']), (None, UniqueKey [''instrument_id'', ''observed_at'', ''source''])],
      CreateIndex ''ix_option_iv_observations_instrument_id'' ''option_iv_observations'' [''instrument_id''] False,
      CreateIndex ''ix_option_iv_observations_observed_at'' ''option_iv_observations'' [''observed_at''] False]"

definition downgrade_0007 :: "ddl list" where
  "downgrade_0007 =
     [DropTable ''option_iv_observations'']"

definition migration_0007 :: migration where
  "migration_0007 = \<lparr>mg_revision = ''0007_option_iv_history'', mg_down_revision = Some ''0006_execution_orders'',
     mg_upgrade = upgrade_0007, mg_downgrade = downgrade_0007\<rparr>"

definition upgrade_0008 :: "ddl list" where
  "upgrade_0008 =
     [CreateTable ''option_chain_snapshots''
        [required ''underlying_id'' UuidType, required ''expiry'' DateType, required ''observed_at'' DateTimeTz, required ''source'' (StringOf 32),
         required ''source_event_id'' (StringOf 128), required ''payload'' JsonType, required ''id'' UuidType, now_column ''created_at'',
         now_column ''updated_at'']
        [(None, ForeignKey [''underlying_id''] ''instruments'' [''id''] False), (None, PrimaryKey [''id'']),
         (None, UniqueKey [''source'', ''source_event_id'']), (None, UniqueKey [''underlying_id'', ''expiry'', ''observed_at'', ''source''])],
      CreateIndex ''ix_option_chain_snapshots_underlying_id'' ''option_chain_snapshots'' [''underlying_id''] False,
      CreateIndex ''ix_option_chain_snapshots_expiry'' ''option_chain_snapshots'' [''expiry''] False,
      CreateIndex ''ix_option_chain_snapshots_observed_at'' ''option_chain_snapshots'' [''observed_at''] False]"

definition downgrade_0008 :: "ddl list" where
  "downgrade_0008 =
     [DropTable ''option_chain_snapshots'']"

definition migration_0008 :: migration where
  "migration_0008 = \<lparr>mg_revision = ''0008_option_chain_snapshots'', mg_down_revision = Some ''0007_option_iv_history'',
     mg_upgrade = upgrade_0008, mg_downgrade = downgrade_0008\<rparr>"

definition upgrade_0009 :: "ddl list" where
  "upgrade_0009 =
     [CreateTable ''raw_option_chain_events''
        [required ''source'' (StringOf 32), required ''source_event_id'' (StringOf 128), required ''received_at'' DateTimeTz,
         required ''payload'' JsonType, required ''id'' UuidType, now_column ''created_at'', now_column ''updated_at'']
        [(None, PrimaryKey [''id'']), (None, UniqueKey [''source'', ''source_event_id''])],
      CreateIndex ''ix_raw_option_chain_events_received_at'' ''raw_option_chain_events'' [''received_at''] False]"

definition downgrade_0009 :: "ddl list" where
  "downgrade_0009 =
     [DropTable ''raw_option_chain_events'']"

definition migration_0009 :: migration where
  "migration_0009 = \<lparr>mg_revision = ''0009_raw_option_chains'', mg_down_revision = Some ''0008_option_chain_snapshots'',
     mg_upgrade = upgrade_0009, mg_downgrade = downgrade_0009\<rparr>"

definition upgrade_0010 :: "ddl list" where
  "upgrade_0010 =
     [CreateTable ''ml_model_versions''
        [required ''name'' (StringOf 128), required ''version'' (StringOf 64), required ''feature_version'' (StringOf 64),
         required ''trained_at'' DateTimeTz, required ''artifact_uri'' (StringOf 512), required ''artifact_sha256'' (StringOf 64),
         required ''stage'' (StringOf 16), required ''metrics'' JsonType, required ''id'' UuidType, now_column ''created_at'',
         now_column ''updated_at'']
        [(None, PrimaryKey [''id'']), (None, UniqueKey [''name'', ''version''])],
      CreateIndex ''ix_ml_model_versions_name'' ''ml_model_versions'' [''name''] False,
      CreateIndex ''ix_ml_model_versions_stage'' ''ml_model_versions'' [''stage''] False,
      CreateTable ''ml_predictions''
        [required ''model_id'' UuidType, required ''instrument_id'' UuidType, required ''predicted_at'' DateTimeTz,
         required ''probability'' (NumericOf 18 12), required ''feature_version'' (StringOf 64), required ''data_snapshot_id'' (StringOf 128),
         required ''input_fingerprint'' (StringOf 64), required ''id'' UuidType, now_column ''created_at'', now_column ''updated_at'']
        [(None, ForeignKey [''model_id''] ''ml_model_versions'' [''id''] False),
         (None, ForeignKey [''instrument_id''] ''instruments'' [''id''] False), (None, PrimaryKey [''id''])],
      CreateIndex ''ix_ml_predictions_model_id'' ''ml_predictions'' [''model_id''] False,
      CreateIndex ''ix_ml_predictions_instrument_id'' ''ml_predictions'' [''instrument_id''] False]"

definition downgrade_0010 :: "ddl list" where
  "downgrade_0010 =
     [DropTable ''ml_predictions'',
      DropTable ''ml_model_versions'']"

definition migration_0010 :: migration where
  "migration_0010 = \<lparr>mg_revision = ''0010_ml_registry'', mg_down_revision = Some ''0009_raw_option_chains'',
     mg_upgrade = upgrade_0010, mg_downgrade = downgrade_0010\<rparr>"

definition upgrade_0011 :: "ddl list" where
  "upgrade_0011 =
     [CreateTable ''revoked_api_tokens''
        [required ''token_sha256'' (StringOf 64), required ''revoked_at'' DateTimeTz, required ''actor_id'' (StringOf 128),
         required ''reason'' (StringOf 512), required ''id'' UuidType, now_column ''created_at'', now_column ''updated_at'']
        [(None, PrimaryKey [''id'']), (None, UniqueKey [''token_sha256''])],
      CreateIndex ''ix_revoked_api_tokens_token_sha256'' ''revoked_api_tokens'' [''token_sha256''] True,
      CreateIndex ''ix_revoked_api_tokens_revoked_at'' ''revoked_api_tokens'' [''revoked_at''] False]"

definition downgrade_0011 :: "ddl list" where
  "downgrade_0011 =
     [DropTable ''revoked_api_tokens'']"

definition migration_0011 :: migration where
  "migration_0011 = \<lparr>mg_revision = ''0011_api_token_revocations'', mg_down_revision = Some ''0010_ml_registry'',
     mg_upgrade = upgrade_0011, mg_downgrade = downgrade_0011\<rparr>"

definition upgrade_0012 :: "ddl list" where
  "upgrade_0012 =
     [AddColumn ''revoked_api_tokens'' \<lparr>co_name = ''correlation_id'', co_type = StringOf 64, co_nullable = False, co_default = Some ''migration-unknown''\<rparr>,
      AlterDefault ''revoked_api_tokens'' ''correlation_id'' None,
      CreateIndex ''ix_revoked_api_tokens_correlation_id'' ''revoked_api_tokens'' [''correlation_id''] False]"

definition downgrade_0012 :: "ddl list" where
  "downgrade_0012 =
     [DropIndex ''ix_revoked_api_tokens_correlation_id'' ''revoked_api_tokens'',
      DropColumn ''revoked_api_tokens'' ''correlation_id'']"

definition migration_0012 :: migration where
  "migration_0012 = \<lparr>mg_revision = ''0012_token_revocation_audit'', mg_down_revision = Some ''0011_api_token_revocations'',
     mg_upgrade = upgrade_0012, mg_downgrade = downgrade_0012\<rparr>"

definition upgrade_0013 :: "ddl list" where
  "upgrade_0013 =
     [CreateTable ''replay_sessions''
        [required ''dataset_sha256'' (StringOf 64), required ''instrument_id'' UuidType, required ''timeframe_seconds'' IntegerType,
         required ''next_index'' IntegerType, required ''total_events'' IntegerType, required ''version'' IntegerType,
         required ''checkpointed_at'' DateTimeTz, required ''id'' UuidType, now_column ''created_at'', now_column ''updated_at'']
        [(Some ''replay_next_index_nonnegative'', Check ''next_index >= 0''), (Some ''replay_total_events_positive'', Check ''total_events > 0''),
         (Some ''replay_cursor_within_total'', Check ''next_index <= total_events''), (Some ''replay_version_nonnegative'', Check ''version >= 0''),
         (None, PrimaryKey [''id''])],
      CreateIndex ''ix_replay_sessions_instrument_id'' ''replay_sessions'' [''instrument_id''] False,
      CreateIndex ''ix_replay_sessions_checkpointed_at'' ''replay_sessions'' [''checkpointed_at''] False]"

definition downgrade_0013 :: "ddl list" where
  "downgrade_0013 =
     [DropTable ''replay_sessions'']"

definition migration_0013 :: migration where
  "migration_0013 = \<lparr>mg_revision = ''0013_replay_sessions'', mg_down_revision = Some ''0012_token_revocation_audit'',
     mg_upgrade = upgrade_0013, mg_downgrade = downgrade_0013\<rparr>"

definition upgrade_0014 :: "ddl list" where
  "upgrade_0014 =
     [CreateTable ''replay_datasets''
        [required ''dataset_sha256'' (StringOf 64), required ''instrument_id'' UuidType, required ''timeframe_seconds'' IntegerType,
         required ''total_events'' IntegerType, required ''first_timestamp'' DateTimeTz, required ''last_timestamp'' DateTimeTz,
         required ''candles'' JsonType, required ''created_at'' DateTimeTz]
        [(Some ''replay_dataset_timeframe_positive'', Check ''timeframe_seconds > 0''),
         (Some ''replay_dataset_total_positive'', Check ''total_events > 0''), (None, PrimaryKey [''dataset_sha256''])],
      CreateIndex ''ix_replay_datasets_instrument_id'' ''replay_datasets'' [''instrument_id''] False]"

definition downgrade_0014 :: "ddl list" where
  "downgrade_0014 =
     [DropTable ''replay_datasets'']"

definition migration_0014 :: migration where
  "migration_0014 = \<lparr>mg_revision = ''0014_replay_datasets'', mg_down_revision = Some ''0013_replay_sessions'',
     mg_upgrade = upgrade_0014, mg_downgrade = downgrade_0014\<rparr>"

definition upgrade_0015 :: "ddl list" where
  "upgrade_0015 =
     [CreateTable ''replay_playback_runs''
        [required ''id'' UuidType, required ''session_id'' UuidType, required ''expected_version'' IntegerType,
         required ''candles_per_second'' FloatType, required ''maximum_steps'' IntegerType, required ''outcome'' (StringOf 16),
         required ''frames_emitted'' IntegerType, optional ''resulting_version'' IntegerType, required ''started_at'' DateTimeTz,
         optional ''finished_at'' DateTimeTz]
        [(Some ''replay_run_expected_version_nonnegative'', Check ''expected_version >= 0''),
         (Some ''replay_run_rate_minimum'', Check ''candles_per_second >= 0.1''),
         (Some ''replay_run_rate_maximum'', Check ''candles_per_second <= 100''),
         (Some ''replay_run_steps_bounded'', Check ''maximum_steps BETWEEN 1 AND 10000''),
         (Some ''replay_run_frames_nonnegative'', Check ''frames_emitted >= 0''),
         (Some ''replay_run_outcome_valid'', Check (sql_in ''outcome'' [''running'', ''complete'', ''stopped'', ''step_limit'', ''failed''])),
         (None, ForeignKey [''session_id''] ''replay_sessions'' [''id''] True), (None, PrimaryKey [''id''])],
      CreateIndex ''ix_replay_playback_runs_session_id'' ''replay_playback_runs'' [''session_id''] False,
      CreateIndex ''ix_replay_playback_runs_outcome'' ''replay_playback_runs'' [''outcome''] False]"

definition downgrade_0015 :: "ddl list" where
  "downgrade_0015 =
     [DropTable ''replay_playback_runs'']"

definition migration_0015 :: migration where
  "migration_0015 = \<lparr>mg_revision = ''0015_replay_playback_runs'', mg_down_revision = Some ''0014_replay_datasets'',
     mg_upgrade = upgrade_0015, mg_downgrade = downgrade_0015\<rparr>"

definition upgrade_0016 :: "ddl list" where
  "upgrade_0016 =
     [CreateTable ''exchange_sessions''
        [required ''exchange'' (StringOf 8), required ''session_date'' DateType, required ''opens_at'' DateTimeTz, required ''closes_at'' DateTimeTz,
         required ''is_trading_day'' BooleanType, required ''source'' (StringOf 128), required ''published_at'' DateTimeTz]
        [(None, PrimaryKey [''exchange'', ''session_date''])]]"

definition downgrade_0016 :: "ddl list" where
  "downgrade_0016 =
     [DropTable ''exchange_sessions'']"

definition migration_0016 :: migration where
  "migration_0016 = \<lparr>mg_revision = ''0016_exchange_sessions'', mg_down_revision = Some ''0015_replay_playback_runs'',
     mg_upgrade = upgrade_0016, mg_downgrade = downgrade_0016\<rparr>"

definition migrations :: "migration list" where
  "migrations =
     [migration_0001, migration_0002, migration_0003, migration_0004, migration_0005, migration_0006, migration_0007, migration_0008, migration_0009,
      migration_0010, migration_0011, migration_0012, migration_0013, migration_0014, migration_0015, migration_0016]"

end
