(* ===== verification/Declared_Schema.thy ===== *)
theory Declared_Schema
  imports Migrations
begin

text \<open>
  The tables the SQLAlchemy classes of \<open>packages/database/models.py\<close> declare, with the mixins and the naming convention
  of \<open>packages/database/base.py\<close>.  A column that is both \<open>unique\<close> and \<open>index\<close> has one unique index; one that is only
  unique has a constraint.  Defaults that Python computes are no part of the schema.
\<close>

record mapped_column =
  mp_column :: column
  mp_primary_key :: bool
  mp_unique :: bool
  mp_index :: bool
  mp_foreign_key :: "(string \<times> string \<times> bool) option"

definition mapped :: "string \<Rightarrow> column_type \<Rightarrow> mapped_column" where
  "mapped n t = \<lparr>mp_column = required n t, mp_primary_key = False, mp_unique = False, mp_index = False, mp_foreign_key = None\<rparr>"

definition maybe :: "string \<Rightarrow> column_type \<Rightarrow> mapped_column" where
  "maybe n t = \<lparr>mp_column = optional n t, mp_primary_key = False, mp_unique = False, mp_index = False, mp_foreign_key = None\<rparr>"

definition mapped_name :: "mapped_column \<Rightarrow> string" where
  "mapped_name c = co_name (mp_column c)"

definition uuid_timestamp_mixin :: "mapped_column list" where
  "uuid_timestamp_mixin =
     [(mapped ''id'' UuidType)\<lparr>mp_primary_key := True\<rparr>,
      (mapped ''created_at'' DateTimeTz)\<lparr>mp_column := now_column ''created_at''\<rparr>,
      (mapped ''updated_at'' DateTimeTz)\<lparr>mp_column := now_column ''updated_at''\<rparr>]"

definition audit_mixin :: "mapped_column list" where
  "audit_mixin = [(mapped ''correlation_id'' (StringOf 64))\<lparr>mp_index := True\<rparr>]"

definition declare_table :: "string \<Rightarrow> mapped_column list \<Rightarrow> (string option \<times> table_constraint) list \<Rightarrow> table" where
  "declare_table n cs args =
     \<lparr>tl_name = n, tl_columns = map mp_column cs,
      tl_constraints = named_constraints n
        ((None, PrimaryKey (map mapped_name (filter mp_primary_key cs)))
         # concat (map (\<lambda>c. case mp_foreign_key c of None \<Rightarrow> [] | Some (r, k, cascade) \<Rightarrow> [(None, ForeignKey [mapped_name c] r [k] cascade)]) cs)
         @ map (\<lambda>c. (None, UniqueKey [mapped_name c])) (filter (\<lambda>c. mp_unique c \<and> \<not> mp_index c) cs)
         @ args),
      tl_indexes = map (\<lambda>c. (index_name n (mapped_name c), [mapped_name c], mp_unique c)) (filter mp_index cs)\<rparr>"

definition trading_account_table :: table where
  "trading_account_table = declare_table ''trading_accounts''
      ([mapped ''broker'' (StringOf 32), mapped ''external_reference'' (StringOf 128), mapped ''paper'' BooleanType, mapped ''active'' BooleanType]
      @ uuid_timestamp_mixin)
      [(None, UniqueKey [''broker'', ''external_reference''])]"

definition risk_limit_table :: table where
  "risk_limit_table = declare_table ''risk_limits''
      ([(mapped ''account_id'' UuidType)\<lparr>mp_index := True, mp_foreign_key := Some (''trading_accounts'', ''id'', True)\<rparr>,
       mapped ''limit_type'' (StringOf 64), mapped ''value'' (NumericOf 24 8), mapped ''enabled'' BooleanType, mapped ''effective_from'' DateTimeTz]
      @ uuid_timestamp_mixin)
      [(None, UniqueKey [''account_id'', ''limit_type'', ''effective_from''])]"

definition audit_event_table :: table where
  "audit_event_table = declare_table ''audit_events''
      ([(mapped ''occurred_at'' DateTimeTz)\<lparr>mp_index := True\<rparr>, mapped ''actor_id'' (StringOf 128), mapped ''action'' (StringOf 128),
       mapped ''resource_type'' (StringOf 64), maybe ''resource_id'' (StringOf 128), mapped ''outcome'' (StringOf 32), mapped ''details'' JsonType]
      @ uuid_timestamp_mixin @ audit_mixin)
      []"

definition safety_state_table :: table where
  "safety_state_table = declare_table ''safety_state''
      [(mapped ''key'' (StringOf 64))\<lparr>mp_primary_key := True\<rparr>, mapped ''enabled'' BooleanType, mapped ''reason'' (StringOf 256),
       mapped ''updated_at'' DateTimeTz, mapped ''correlation_id'' (StringOf 64)]
      []"

definition instrument_table :: table where
  "instrument_table = declare_table ''instruments''
      ([mapped ''symbol'' (StringOf 64), mapped ''exchange'' (StringOf 8), mapped ''segment'' (StringOf 16), maybe ''isin'' (StringOf 12),
       mapped ''tick_size'' (NumericOf 18 8), mapped ''lot_size'' IntegerType, mapped ''currency'' (StringOf 3), mapped ''active'' BooleanType]
      @ uuid_timestamp_mixin)
      [(None, UniqueKey [''exchange'', ''segment'', ''symbol''])]"

definition exchange_session_table :: table where
  "exchange_session_table = declare_table ''exchange_sessions''
      [(mapped ''exchange'' (StringOf 8))\<lparr>mp_primary_key := True\<rparr>,
       (mapped ''session_date'' DateType)\<lparr>mp_primary_key := True\<rparr>, mapped ''opens_at'' DateTimeTz, mapped ''closes_at'' DateTimeTz,
       mapped ''is_trading_day'' BooleanType, mapped ''source'' (StringOf 128), mapped ''published_at'' DateTimeTz]
      []"

definition raw_candle_table :: table where
  "raw_candle_table = declare_table ''raw_candles''
      ([mapped ''source'' (StringOf 32), mapped ''source_event_id'' (StringOf 128),
       (mapped ''instrument_id'' UuidType)\<lparr>mp_index := True, mp_foreign_key := Some (''instruments'', ''id'', False)\<rparr>,
       mapped ''event_timestamp'' DateTimeTz, mapped ''timeframe_seconds'' IntegerType, mapped ''payload'' JsonType]
      @ uuid_timestamp_mixin)
      [(None, UniqueKey [''source'', ''source_event_id''])]"

definition candle_table :: table where
  "candle_table = declare_table ''candles''
      ([(mapped ''instrument_id'' UuidType)\<lparr>mp_index := True, mp_foreign_key := Some (''instruments'', ''id'', False)\<rparr>,
       mapped ''event_timestamp'' DateTimeTz, mapped ''timeframe_seconds'' IntegerType, mapped ''open'' (NumericOf 24 8),
       mapped ''high'' (NumericOf 24 8), mapped ''low'' (NumericOf 24 8), mapped ''close'' (NumericOf 24 8), mapped ''volume'' (NumericOf 28 8),
       maybe ''open_interest'' (NumericOf 28 8), mapped ''is_closed'' BooleanType]
      @ uuid_timestamp_mixin)
      [(None, UniqueKey [''instrument_id'', ''event_timestamp'', ''timeframe_seconds''])]"

definition market_data_quality_event_table :: table where
  "market_data_quality_event_table = declare_table ''market_data_quality_events''
      ([(maybe ''instrument_id'' UuidType)\<lparr>mp_index := True, mp_foreign_key := Some (''instruments'', ''id'', False)\<rparr>,
       (mapped ''event_timestamp'' DateTimeTz)\<lparr>mp_index := True\<rparr>, (mapped ''code'' (StringOf 32))\<lparr>mp_index := True\<rparr>,
       mapped ''severity'' (StringOf 16), mapped ''details'' JsonType, maybe ''raw_event_id'' (StringOf 128)]
      @ uuid_timestamp_mixin)
      [(None, UniqueKey [''raw_event_id'', ''code''])]"

definition option_iv_observation_table :: table where
  "option_iv_observation_table = declare_table ''option_iv_observations''
      ([(mapped ''instrument_id'' UuidType)\<lparr>mp_index := True, mp_foreign_key := Some (''instruments'', ''id'', False)\<rparr>,
       (mapped ''observed_at'' DateTimeTz)\<lparr>mp_index := True\<rparr>, mapped ''implied_volatility'' (NumericOf 18 10),
       mapped ''source'' (StringOf 32), mapped ''source_event_id'' (StringOf 128)]
      @ uuid_timestamp_mixin)
      [(None, UniqueKey [''source'', ''source_event_id'']), (None, UniqueKey [''instrument_id'', ''observed_at'', ''source''])]"

definition option_chain_snapshot_table :: table where
  "option_chain_snapshot_table = declare_table ''option_chain_snapshots''
      ([(mapped ''underlying_id'' UuidType)\<lparr>mp_index := True, mp_foreign_key := Some (''instruments'', ''id'', False)\<rparr>,
       (mapped ''expiry'' DateType)\<lparr>mp_index := True\<rparr>, (mapped ''observed_at'' DateTimeTz)\<lparr>mp_index := True\<rparr>,
       mapped ''source'' (StringOf 32), mapped ''source_event_id'' (StringOf 128), mapped ''payload'' JsonType]
      @ uuid_timestamp_mixin)
      [(None, UniqueKey [''source'', ''source_event_id'']), (None, UniqueKey [''underlying_id'', ''expiry'', ''observed_at'', ''source''])]"

definition raw_option_chain_table :: table where
  "raw_option_chain_table = declare_table ''raw_option_chain_events''
      ([mapped ''source'' (StringOf 32), mapped ''source_event_id'' (StringOf 128),
       (mapped ''received_at'' DateTimeTz)\<lparr>mp_index := True\<rparr>, mapped ''payload'' JsonType]
      @ uuid_timestamp_mixin)
      [(None, UniqueKey [''source'', ''source_event_id''])]"

definition paper_order_table :: table where
  "paper_order_table = declare_table ''paper_orders''
      ([(mapped ''account_id'' UuidType)\<lparr>mp_index := True, mp_foreign_key := Some (''trading_accounts'', ''id'', False)\<rparr>,
       (mapped ''instrument_id'' UuidType)\<lparr>mp_index := True, mp_foreign_key := Some (''instruments'', ''id'', False)\<rparr>,
       mapped ''intent_id'' UuidType, mapped ''risk_decision_id'' UuidType, mapped ''idempotency_key'' (StringOf 128), mapped ''side'' (StringOf 8),
       mapped ''order_type'' (StringOf 16), mapped ''status'' (StringOf 24), mapped ''quantity'' (NumericOf 28 8),
       mapped ''filled_quantity'' (NumericOf 28 8), mapped ''average_price'' (NumericOf 24 8), mapped ''charges'' (NumericOf 24 8),
       mapped ''filled_at'' DateTimeTz]
      @ uuid_timestamp_mixin)
      [(None, UniqueKey [''account_id'', ''idempotency_key''])]"

definition paper_fill_table :: table where
  "paper_fill_table = declare_table ''paper_fills''
      ([(mapped ''order_id'' UuidType)\<lparr>mp_index := True, mp_foreign_key := Some (''paper_orders'', ''id'', False)\<rparr>,
       mapped ''quantity'' (NumericOf 28 8), mapped ''price'' (NumericOf 24 8), mapped ''charges'' (NumericOf 24 8), mapped ''filled_at'' DateTimeTz]
      @ uuid_timestamp_mixin)
      []"

definition paper_position_table :: table where
  "paper_position_table = declare_table ''paper_positions''
      ([(mapped ''account_id'' UuidType)\<lparr>mp_index := True, mp_foreign_key := Some (''trading_accounts'', ''id'', False)\<rparr>,
       (mapped ''instrument_id'' UuidType)\<lparr>mp_index := True, mp_foreign_key := Some (''instruments'', ''id'', False)\<rparr>,
       mapped ''quantity'' (NumericOf 28 8), mapped ''average_price'' (NumericOf 24 8), mapped ''realized_pnl'' (NumericOf 24 8)]
      @ uuid_timestamp_mixin)
      [(None, UniqueKey [''account_id'', ''instrument_id''])]"

definition paper_order_event_table :: table where
  "paper_order_event_table = declare_table ''paper_order_events''
      ([(mapped ''order_id'' UuidType)\<lparr>mp_index := True, mp_foreign_key := Some (''paper_orders'', ''id'', False)\<rparr>,
       mapped ''occurred_at'' DateTimeTz, mapped ''status'' (StringOf 24), mapped ''details'' JsonType]
      @ uuid_timestamp_mixin)
      []"

definition paper_account_ledger_table :: table where
  "paper_account_ledger_table = declare_table ''paper_account_ledgers''
      ([(mapped ''account_id'' UuidType)\<lparr>mp_unique := True, mp_index := True, mp_foreign_key := Some (''trading_accounts'', ''id'', False)\<rparr>,
       mapped ''initial_cash'' (NumericOf 24 8), mapped ''cash_balance'' (NumericOf 24 8), mapped ''peak_equity'' (NumericOf 24 8)]
      @ uuid_timestamp_mixin)
      []"

definition paper_pnl_snapshot_table :: table where
  "paper_pnl_snapshot_table = declare_table ''paper_pnl_snapshots''
      ([(mapped ''account_id'' UuidType)\<lparr>mp_index := True, mp_foreign_key := Some (''trading_accounts'', ''id'', False)\<rparr>,
       (mapped ''occurred_at'' DateTimeTz)\<lparr>mp_index := True\<rparr>, mapped ''cash'' (NumericOf 24 8),
       mapped ''realized_pnl'' (NumericOf 24 8), mapped ''unrealized_pnl'' (NumericOf 24 8), mapped ''equity'' (NumericOf 24 8),
       mapped ''gross_exposure'' (NumericOf 24 8), mapped ''net_exposure'' (NumericOf 24 8), mapped ''drawdown'' (NumericOf 16 12)]
      @ uuid_timestamp_mixin)
      []"

definition risk_decision_table :: table where
  "risk_decision_table = declare_table ''risk_decisions''
      ([(mapped ''order_intent_id'' UuidType)\<lparr>mp_unique := True, mp_index := True\<rparr>,
       (mapped ''account_id'' UuidType)\<lparr>mp_index := True, mp_foreign_key := Some (''trading_accounts'', ''id'', False)\<rparr>,
       (mapped ''instrument_id'' UuidType)\<lparr>mp_index := True, mp_foreign_key := Some (''instruments'', ''id'', False)\<rparr>,
       mapped ''evaluated_at'' DateTimeTz, mapped ''outcome'' (StringOf 16), mapped ''approved_quantity'' (NumericOf 28 8),
       mapped ''reason_codes'' JsonType, mapped ''policy_version'' (StringOf 64), mapped ''request_fingerprint'' (StringOf 64)]
      @ uuid_timestamp_mixin)
      []"

definition execution_order_table :: table where
  "execution_order_table = declare_table ''execution_orders''
      ([mapped ''quantity'' (NumericOf 28 8), mapped ''status'' (StringOf 32), mapped ''filled_quantity'' (NumericOf 28 8),
       maybe ''broker_order_id'' (StringOf 128), mapped ''last_event_at'' DateTimeTz, mapped ''version'' IntegerType,
       maybe ''reconciliation_reason'' (StringOf 64)]
      @ uuid_timestamp_mixin)
      []"

definition execution_order_event_table :: table where
  "execution_order_event_table = declare_table ''execution_order_events''
      ([(mapped ''order_id'' UuidType)\<lparr>mp_index := True, mp_foreign_key := Some (''execution_orders'', ''id'', True)\<rparr>,
       mapped ''event_id'' (StringOf 128), mapped ''event_type'' (StringOf 32), mapped ''occurred_at'' DateTimeTz,
       mapped ''fill_quantity'' (NumericOf 28 8), maybe ''broker_order_id'' (StringOf 128), mapped ''resulting_version'' IntegerType]
      @ uuid_timestamp_mixin)
      [(None, UniqueKey [''order_id'', ''event_id''])]"

definition ml_model_version_table :: table where
  "ml_model_version_table = declare_table ''ml_model_versions''
      ([(mapped ''name'' (StringOf 128))\<lparr>mp_index := True\<rparr>, mapped ''version'' (StringOf 64), mapped ''feature_version'' (StringOf 64),
       mapped ''trained_at'' DateTimeTz, mapped ''artifact_uri'' (StringOf 512), mapped ''artifact_sha256'' (StringOf 64),
       (mapped ''stage'' (StringOf 16))\<lparr>mp_index := True\<rparr>, mapped ''metrics'' JsonType]
      @ uuid_timestamp_mixin)
      [(None, UniqueKey [''name'', ''version''])]"

definition ml_prediction_table :: table where
  "ml_prediction_table = declare_table ''ml_predictions''
      ([(mapped ''model_id'' UuidType)\<lparr>mp_index := True, mp_foreign_key := Some (''ml_model_versions'', ''id'', False)\<rparr>,
       (mapped ''instrument_id'' UuidType)\<lparr>mp_index := True, mp_foreign_key := Some (''instruments'', ''id'', False)\<rparr>,
       mapped ''predicted_at'' DateTimeTz, mapped ''probability'' (NumericOf 18 12), mapped ''feature_version'' (StringOf 64),
       mapped ''data_snapshot_id'' (StringOf 128), mapped ''input_fingerprint'' (StringOf 64)]
      @ uuid_timestamp_mixin)
      []"

definition revoked_api_token_table :: table where
  "revoked_api_token_table = declare_table ''revoked_api_tokens''
      ([(mapped ''token_sha256'' (StringOf 64))\<lparr>mp_unique := True, mp_index := True\<rparr>,
       (mapped ''revoked_at'' DateTimeTz)\<lparr>mp_index := True\<rparr>, mapped ''actor_id'' (StringOf 128), mapped ''reason'' (StringOf 512),
       (mapped ''correlation_id'' (StringOf 64))\<lparr>mp_index := True\<rparr>]
      @ uuid_timestamp_mixin)
      []"

definition replay_session_table :: table where
  "replay_session_table = declare_table ''replay_sessions''
      ([mapped ''dataset_sha256'' (StringOf 64), (mapped ''instrument_id'' UuidType)\<lparr>mp_index := True\<rparr>,
       mapped ''timeframe_seconds'' IntegerType, mapped ''next_index'' IntegerType, mapped ''total_events'' IntegerType,
       mapped ''version'' IntegerType, (mapped ''checkpointed_at'' DateTimeTz)\<lparr>mp_index := True\<rparr>]
      @ uuid_timestamp_mixin)
      []"

definition replay_dataset_table :: table where
  "replay_dataset_table = declare_table ''replay_datasets''
      [(mapped ''dataset_sha256'' (StringOf 64))\<lparr>mp_primary_key := True\<rparr>,
       (mapped ''instrument_id'' UuidType)\<lparr>mp_index := True\<rparr>, mapped ''timeframe_seconds'' IntegerType,
       mapped ''total_events'' IntegerType, mapped ''first_timestamp'' DateTimeTz, mapped ''last_timestamp'' DateTimeTz, mapped ''candles'' JsonType,
       mapped ''created_at'' DateTimeTz]
      [(Some ''replay_dataset_timeframe_positive'', Check ''timeframe_seconds > 0''),
       (Some ''replay_dataset_total_positive'', Check ''total_events > 0'')]"

definition replay_playback_run_table :: table where
  "replay_playback_run_table = declare_table ''replay_playback_runs''
      [(mapped ''id'' UuidType)\<lparr>mp_primary_key := True\<rparr>,
       (mapped ''session_id'' UuidType)\<lparr>mp_index := True, mp_foreign_key := Some (''replay_sessions'', ''id'', True)\<rparr>,
       mapped ''expected_version'' IntegerType, mapped ''candles_per_second'' FloatType, mapped ''maximum_steps'' IntegerType,
       (mapped ''outcome'' (StringOf 16))\<lparr>mp_index := True\<rparr>, mapped ''frames_emitted'' IntegerType,
       maybe ''resulting_version'' IntegerType, mapped ''started_at'' DateTimeTz, maybe ''finished_at'' DateTimeTz]
      [(Some ''replay_run_expected_version_nonnegative'', Check ''expected_version >= 0''),
       (Some ''replay_run_rate_minimum'', Check ''candles_per_second >= 0.1''),
       (Some ''replay_run_rate_maximum'', Check ''candles_per_second <= 100''),
       (Some ''replay_run_steps_bounded'', Check ''maximum_steps BETWEEN 1 AND 10000''),
       (Some ''replay_run_frames_nonnegative'', Check ''frames_emitted >= 0''),
       (Some ''replay_run_outcome_valid'', Check (sql_in ''outcome'' [''running'', ''complete'', ''stopped'', ''step_limit'', ''failed'']))]"

definition declared_schema :: schema where
  "declared_schema =
     [trading_account_table, risk_limit_table, audit_event_table, safety_state_table, instrument_table, exchange_session_table, raw_candle_table,
      candle_table, market_data_quality_event_table, option_iv_observation_table, option_chain_snapshot_table, raw_option_chain_table,
      paper_order_table, paper_fill_table, paper_position_table, paper_order_event_table, paper_account_ledger_table, paper_pnl_snapshot_table,
      risk_decision_table, execution_order_table, execution_order_event_table, ml_model_version_table, ml_prediction_table, revoked_api_token_table,
      replay_session_table, replay_dataset_table, replay_playback_run_table]"

text \<open>Whether a text fits the declared width of a column; the database refuses a longer one.\<close>

definition fits :: "table \<Rightarrow> string \<Rightarrow> string \<Rightarrow> bool" where
  "fits t c v \<longleftrightarrow> (case List.find (\<lambda>x. co_name x = c) (tl_columns t) of None \<Rightarrow> False
     | Some x \<Rightarrow> (case co_type x of StringOf w \<Rightarrow> length v \<le> w | _ \<Rightarrow> False))"

end
