(* ===== verification/Api_Service.thy ===== *)
theory Api_Service
  imports Http Declared_Schema
begin

text \<open>
  The service around the routers (\<open>apps/api/main.py\<close>): the middleware that gives an answer its correlation identifier and
  security headers and counts it, the health, metrics and access routes and the replay console.  Every request goes through the
  middleware: to a route of the application, to a route of the market data or replay router, which is any handler here, or to the framework's
  404.  A handler answers, raises an HTTP error that the framework turns into an answer, or raises another exception; the
  last passes through the middleware, and the server answers it with a bare 500.  A handler may have changed the state before it raises.  Header
  names are in lower case, and \<open>fresh\<close> is the text of the identifier drawn when the request brings none.
\<close>

section \<open>Requests and answers\<close>

record web_request =
  wq_method :: string
  wq_path :: string
  wq_correlation_id :: "string option"
  wq_authorization :: "string option"

record 'b web_response =
  ws_status :: int
  ws_headers :: "string \<rightharpoonup> string"
  ws_body :: 'b

record service_state =
  sv_database_ready :: bool
  sv_revocations :: "revocation_db option"
  sv_requests :: "(string \<times> string \<times> int) list"

definition trading_mode_value :: "trading_mode \<Rightarrow> string" where
  "trading_mode_value m = (case m of PAPER \<Rightarrow> ''paper'' | LIVE \<Rightarrow> ''live'')"

datatype system_body =
    StatusBody string string
  | ReadyBody string bool string
  | PrincipalBody string string string
  | RevocationBody revocation_row
  | ErrorBody string
  | ConsolePage
  | Exposition "(string \<times> string \<times> int) list"

section \<open>Middleware\<close>

text \<open>\<open>request.headers.get("X-Correlation-ID", str(uuid4()))[:64]\<close>.\<close>

definition correlation_id_of :: "string \<Rightarrow> web_request \<Rightarrow> string" where
  "correlation_id_of fresh q = take 64 (case wq_correlation_id q of None \<Rightarrow> fresh | Some v \<Rightarrow> v)"

definition hardened :: "string \<Rightarrow> 'b web_response \<Rightarrow> 'b web_response" where
  "hardened c r = r\<lparr>ws_headers := (ws_headers r)(''x-correlation-id'' \<mapsto> c, ''x-content-type-options'' \<mapsto> ''nosniff'',
     ''x-frame-options'' \<mapsto> ''DENY'', ''referrer-policy'' \<mapsto> ''no-referrer'')\<rparr>"

definition correlation_and_security ::
  "string \<Rightarrow> (string \<Rightarrow> 'x service_state_scheme \<Rightarrow> 'x service_state_scheme \<times> (pyerror + 'b web_response)) \<Rightarrow> 'x service_state_scheme \<Rightarrow> web_request
     \<Rightarrow> 'x service_state_scheme \<times> (pyerror + 'b web_response)" where
  "correlation_and_security fresh call_next st q =
     (let c = correlation_id_of fresh q in
      case call_next c st of
        (st', Inl e) \<Rightarrow> (st', Inl e)
      | (st', Inr r) \<Rightarrow> (st'\<lparr>sv_requests := sv_requests st' @ [(wq_method q, wq_path q, ws_status r)]\<rparr>, Inr (hardened c r)))"

section \<open>Routes\<close>

datatype system_route = Liveness | Readiness | Metrics | SessionInfo | OperatorMode | RevokeToken string string | ReplayConsole | Unmatched

definition liveness :: "settings \<Rightarrow> system_body" where
  "liveness s = StatusBody ''alive'' (trading_mode_value (st_trading_mode s))"

definition readiness :: "settings \<Rightarrow> bool \<Rightarrow> int \<times> system_body" where
  "readiness s ready = (if ready then 200 else 503, ReadyBody (if ready then ''ready'' else ''not_ready'') ready (trading_mode_value (st_trading_mode s)))"

definition principal_payload :: "settings \<Rightarrow> principal \<Rightarrow> system_body" where
  "principal_payload s p = PrincipalBody (pr_subject p) (role_value (pr_role p)) (trading_mode_value (st_trading_mode s))"

text \<open>The headers of an error answer: a 401 of the authentication dependency asks for a bearer token.\<close>

definition error_answer :: "http_error \<Rightarrow> system_body web_response" where
  "error_answer e = (case e of HTTPException code m \<Rightarrow>
     \<lparr>ws_status = code, ws_headers = (if code = 401 then [''www-authenticate'' \<mapsto> ''Bearer''] else Map.empty), ws_body = ErrorBody m\<rparr>)"

definition answered :: "int \<Rightarrow> system_body \<Rightarrow> system_body web_response" where
  "answered code b = \<lparr>ws_status = code, ws_headers = Map.empty, ws_body = b\<rparr>"

definition single_quoted :: "string \<Rightarrow> string" where
  "single_quoted w = CHR 0x27 # w @ [CHR 0x27]"

definition console_policy :: string where
  "console_policy = ''default-src '' @ single_quoted ''self'' @ ''; connect-src '' @ single_quoted ''self'' @ ''; img-src '' @ single_quoted ''self''
     @ ''; object-src '' @ single_quoted ''none'' @ ''; base-uri '' @ single_quoted ''none'' @ ''; frame-ancestors '' @ single_quoted ''none''"

definition console_page :: "system_body web_response" where
  "console_page = \<lparr>ws_status = 200,
     ws_headers = [''content-security-policy'' \<mapsto> console_policy, ''cache-control'' \<mapsto> ''no-store''],
     ws_body = ConsolePage\<rparr>"

text \<open>\<open>metrics\<close> exposes the counter (its text format is the client library's); an unmatched path is the framework's 404.\<close>

fun system_handler ::
  "(string \<Rightarrow> string) \<Rightarrow> settings \<Rightarrow> authenticator \<Rightarrow> instant \<Rightarrow> web_request \<Rightarrow> system_route \<Rightarrow> string \<Rightarrow> 'x service_state_scheme
     \<Rightarrow> ('x service_state_scheme \<times> system_body web_response) http" where
  "system_handler sha s a now q Liveness c st = Inr (st, answered 200 (liveness s))"
| "system_handler sha s a now q Readiness c st =
     (case readiness s (sv_database_ready st) of (code, body) \<Rightarrow> Inr (st, answered code body))"
| "system_handler sha s a now q Metrics c st = Inr (st, answered 200 (Exposition (sv_requests st)))"
| "system_handler sha s a now q SessionInfo c st =
     as_viewer sha s a (sv_revocations st) now (wq_authorization q) (\<lambda>p. Inr (st, answered 200 (principal_payload s p)))"
| "system_handler sha s a now q OperatorMode c st =
     as_operator sha s a (sv_revocations st) now (wq_authorization q) (\<lambda>p. Inr (st, answered 200 (principal_payload s p)))"
| "system_handler sha s a now q (RevokeToken d reason) c st =
     hbind (revoke_api_token sha s a (sv_revocations st) now (wq_authorization q) d reason c) (\<lambda>(db, row).
       Inr (st\<lparr>sv_revocations := Some db\<rparr>, answered 201 (RevocationBody row)))"
| "system_handler sha s a now q ReplayConsole c st = Inr (st, console_page)"
| "system_handler sha s a now q Unmatched c st = Inl (HTTPException 404 ''Not Found'')"

section \<open>The application\<close>

text \<open>A handler of an included router gets the correlation identifier and the state, and answers, raises an HTTP error, or raises.\<close>

type_synonym ('st, 'b) router_handler = "string \<Rightarrow> 'st \<Rightarrow> 'st \<times> (pyerror + 'b web_response http)"

datatype 'b app_body = SystemBody system_body | RouterBody 'b | PlainText string

datatype ('st, 'b) app_route = System system_route | Routed "('st, 'b) router_handler"

definition with_body :: "('a \<Rightarrow> 'b) \<Rightarrow> 'a web_response \<Rightarrow> 'b web_response" where
  "with_body f r = \<lparr>ws_status = ws_status r, ws_headers = ws_headers r, ws_body = f (ws_body r)\<rparr>"

definition app_handler ::
  "(string \<Rightarrow> string) \<Rightarrow> settings \<Rightarrow> authenticator \<Rightarrow> instant \<Rightarrow> web_request \<Rightarrow> ('x service_state_scheme, 'b) app_route \<Rightarrow> string
     \<Rightarrow> 'x service_state_scheme \<Rightarrow> 'x service_state_scheme \<times> (pyerror + 'b app_body web_response)" where
  "app_handler sha s a now q route c st =
     (case route of
        System sr \<Rightarrow>
          (case system_handler sha s a now q sr c st of
             Inl e \<Rightarrow> (st, Inr (with_body SystemBody (error_answer e)))
           | Inr (st', r) \<Rightarrow> (st', Inr (with_body SystemBody r)))
      | Routed h \<Rightarrow>
          (case h c st of
             (st', Inl e) \<Rightarrow> (st', Inl e)
           | (st', Inr (Inl e)) \<Rightarrow> (st', Inr (with_body SystemBody (error_answer e)))
           | (st', Inr (Inr r)) \<Rightarrow> (st', Inr (with_body RouterBody r))))"

text \<open>The server's answer to an exception that passed through every middleware.\<close>

definition server_error :: "'b app_body web_response" where
  "server_error = \<lparr>ws_status = 500, ws_headers = Map.empty, ws_body = PlainText ''Internal Server Error''\<rparr>"

definition serve_app ::
  "(string \<Rightarrow> string) \<Rightarrow> settings \<Rightarrow> authenticator \<Rightarrow> instant \<Rightarrow> string \<Rightarrow> ('x service_state_scheme, 'b) app_route \<Rightarrow> 'x service_state_scheme \<Rightarrow> web_request
     \<Rightarrow> 'x service_state_scheme \<times> 'b app_body web_response" where
  "serve_app sha s a now fresh route st q =
     (case correlation_and_security fresh (app_handler sha s a now q route) st q of
        (st', Inl e) \<Rightarrow> (st', server_error)
      | (st', Inr r) \<Rightarrow> (st', r))"

section \<open>Every answer\<close>

lemma hardened_headers:
  "ws_headers (hardened c r) ''x-correlation-id'' = Some c" "ws_headers (hardened c r) ''x-content-type-options'' = Some ''nosniff''"
  "ws_headers (hardened c r) ''x-frame-options'' = Some ''DENY''" "ws_headers (hardened c r) ''referrer-policy'' = Some ''no-referrer''"
  "ws_headers (hardened c r) ''www-authenticate'' = ws_headers r ''www-authenticate''"
  by (simp_all add: hardened_def)

lemma correlation_column_width: "fits revoked_api_token_table ''correlation_id'' v \<longleftrightarrow> length v \<le> 64"
  by (simp add: fits_def revoked_api_token_table_def declare_table_def mapped_def required_def)

lemma revoked_row_correlation:
  assumes "revoke_api_token sha s a store now authorization d reason c = Inr (db, row)"
  shows "rv_correlation_id row = c"
  using assms by (auto simp: revoke_api_token_def revoke_token_def Let_def split: sum.splits if_splits option.splits pyerror.splits)

lemma system_requests:
  "system_handler sha s a now q sr c st = Inr (st', r) \<Longrightarrow> sv_requests st' = sv_requests st"
  by (cases sr) (auto simp: readiness_def as_viewer_def as_operator_def hbind_def split: sum.splits prod.splits)

lemma system_challenge:
  "system_handler sha s a now q sr c st = Inr (st', r) \<Longrightarrow> ws_status r \<noteq> 401"
  by (cases sr) (auto simp: readiness_def as_viewer_def as_operator_def hbind_def answered_def console_page_def
      split: sum.splits prod.splits if_splits)

lemma error_challenge: "ws_status (error_answer e) = 401 \<Longrightarrow> ws_headers (error_answer e) ''www-authenticate'' = Some ''Bearer''"
  by (simp add: error_answer_def split: http_error.splits)

lemma system_revocation:
  assumes "system_handler sha s a now q sr c st = Inr (st', r)" and "ws_body r = RevocationBody row"
  shows "rv_correlation_id row = c"
  using assms
  by (cases sr) (auto simp: readiness_def as_viewer_def as_operator_def hbind_def answered_def console_page_def liveness_def principal_payload_def
      revoked_row_correlation split: sum.splits prod.splits)

text \<open>What the middleware does to an answer.\<close>

definition passed_middleware :: "string \<Rightarrow> web_request \<Rightarrow> 'b web_response \<Rightarrow> 'b web_response \<Rightarrow> bool" where
  "passed_middleware c q inner r \<longleftrightarrow>
     ws_headers r ''x-content-type-options'' = Some ''nosniff'' \<and> ws_headers r ''x-frame-options'' = Some ''DENY''
     \<and> ws_headers r ''referrer-policy'' = Some ''no-referrer'' \<and> ws_headers r ''x-correlation-id'' = Some c
     \<and> (\<forall>h. h \<notin> {''x-content-type-options'', ''x-frame-options'', ''referrer-policy'', ''x-correlation-id''} \<longrightarrow> ws_headers r h = ws_headers inner h)
     \<and> ws_status r = ws_status inner \<and> ws_body r = ws_body inner"

lemma hardened_passed: "passed_middleware c q inner (hardened c inner)"
  by (simp add: passed_middleware_def hardened_def)

text \<open>C35: Every answer that leaves through the middleware is hardened and traceable, and only an unhandled exception is answered
  otherwise.  Whatever the route - the application's own, any handler of the market data and replay routers, or none - an answer or
  HTTP error keeps its status, body and other headers, gets the three security headers and a correlation identifier of at most 64
  characters, the caller's own when that is short enough, and is counted exactly once with its status; an exception nothing
  handles is answered with a bare 500 and not counted.  The application's own routes raise no such exception: they are counted once,
  a 401 of theirs or of a router's HTTP error asks for a bearer token, readiness follows the database, and the evidence of a revocation
  carries the identifier of its answer and fits its column.\<close>

theorem every_answer_is_hardened_and_traceable:
  assumes "serve_app sha s a now fresh route st q = (st', r)"
  defines "c \<equiv> correlation_id_of fresh q"
  shows "(case app_handler sha s a now q route c st of
        (st1, Inr inner) \<Rightarrow> passed_middleware c q inner r \<and> sv_requests st' = sv_requests st1 @ [(wq_method q, wq_path q, ws_status r)]
      | (st1, Inl e) \<Rightarrow> r = server_error \<and> st' = st1)
    \<and> length c \<le> 64 \<and> (\<forall>v. wq_correlation_id q = Some v \<and> length v \<le> 64 \<longrightarrow> c = v)
    \<and> (\<forall>sr. route = System sr \<longrightarrow> ws_headers r ''x-correlation-id'' = Some c
         \<and> sv_requests st' = sv_requests st @ [(wq_method q, wq_path q, ws_status r)]
         \<and> (ws_status r = 401 \<longrightarrow> ws_headers r ''www-authenticate'' = Some ''Bearer'')
         \<and> (sr = Readiness \<longrightarrow> (ws_status r = 200 \<longleftrightarrow> sv_database_ready st))
         \<and> (\<forall>row. ws_body r = SystemBody (RevocationBody row) \<longrightarrow> rv_correlation_id row = c \<and> fits revoked_api_token_table ''correlation_id'' c))
    \<and> (\<forall>h st1 m. route = Routed h \<and> h c st = (st1, Inr (Inl (HTTPException 401 m))) \<longrightarrow> ws_headers r ''www-authenticate'' = Some ''Bearer'')"
proof -
  obtain st1 outcome where handled: "app_handler sha s a now q route c st = (st1, outcome)" by (cases "app_handler sha s a now q route c st")
  have passed: "r = hardened c inner \<and> st' = st1\<lparr>sv_requests := sv_requests st1 @ [(wq_method q, wq_path q, ws_status inner)]\<rparr>"
    if "outcome = Inr inner" for inner
    using assms(1) handled that by (simp add: serve_app_def correlation_and_security_def c_def[symmetric])
  have failed: "r = server_error \<and> st' = st1" if "outcome = Inl e" for e
    using assms(1) handled that by (simp add: serve_app_def correlation_and_security_def c_def[symmetric])
  have first: "case app_handler sha s a now q route c st of
        (st1, Inr inner) \<Rightarrow> passed_middleware c q inner r \<and> sv_requests st' = sv_requests st1 @ [(wq_method q, wq_path q, ws_status r)]
      | (st1, Inl e) \<Rightarrow> r = server_error \<and> st' = st1"
    using passed failed hardened_passed by (cases outcome) (auto simp: handled hardened_def)
  have own: "ws_headers r ''x-correlation-id'' = Some c \<and> sv_requests st' = sv_requests st @ [(wq_method q, wq_path q, ws_status r)]
      \<and> (ws_status r = 401 \<longrightarrow> ws_headers r ''www-authenticate'' = Some ''Bearer'')
      \<and> (sr = Readiness \<longrightarrow> (ws_status r = 200 \<longleftrightarrow> sv_database_ready st))
      \<and> (\<forall>row. ws_body r = SystemBody (RevocationBody row) \<longrightarrow> rv_correlation_id row = c)" if "route = System sr" for sr
  proof (cases "system_handler sha s a now q sr c st")
    case (Inl e)
    then have "st1 = st" "outcome = Inr (with_body SystemBody (error_answer e))" using handled that by (simp_all add: app_handler_def)
    with passed[OF this(2)] Inl error_challenge[of e] show ?thesis
      by (auto simp: hardened_headers hardened_def with_body_def error_answer_def readiness_def split: http_error.splits prod.splits)
  next
    case (Inr x)
    obtain st2 r2 where x: "x = (st2, r2)" by (cases x)
    then have "st1 = st2" "outcome = Inr (with_body SystemBody r2)" using handled that Inr by (simp_all add: app_handler_def)
    with passed[OF this(2)] Inr x system_requests[of sha s a now q sr c st st2 r2] system_challenge[of sha s a now q sr c st st2 r2]
      system_revocation[of sha s a now q sr c st st2 r2]
    show ?thesis by (auto simp: hardened_headers hardened_def with_body_def readiness_def answered_def split: if_splits)
  qed
  have routed: "ws_headers r ''www-authenticate'' = Some ''Bearer''" if "route = Routed h" "h c st = (st2, Inr (Inl (HTTPException 401 m)))" for h st2 m
  proof -
    have "outcome = Inr (with_body SystemBody (error_answer (HTTPException 401 m)))" using handled that by (simp add: app_handler_def)
    from passed[OF this] show ?thesis by (simp add: hardened_headers with_body_def error_answer_def)
  qed
  have "length c \<le> 64" "\<And>v. wq_correlation_id q = Some v \<Longrightarrow> length v \<le> 64 \<Longrightarrow> c = v"
    by (simp_all add: c_def correlation_id_of_def)
  with first own routed show ?thesis by (auto simp: correlation_column_width)
qed

text \<open>A readiness probe that brings its identifier while the database is down.\<close>

definition probe :: web_request where
  "probe = \<lparr>wq_method = ''GET'', wq_path = ''/health/ready'', wq_correlation_id = Some ''probe-1'', wq_authorization = None\<rparr>"

theorem every_answer_is_hardened_and_traceable_witness:
  "\<exists>(st' :: service_state) (r :: unit app_body web_response). serve_app id default_settings sample_authenticator 5 ''fresh'' (System Readiness)
        \<lparr>sv_database_ready = False, sv_revocations = None, sv_requests = []\<rparr> probe = (st', r)
     \<and> ws_status r = 503 \<and> ws_headers r ''x-correlation-id'' = Some ''probe-1'' \<and> sv_requests st' = [(''GET'', ''/health/ready'', 503)]"
proof -
  let ?st = "\<lparr>sv_database_ready = False, sv_revocations = None, sv_requests = []\<rparr>"
  let ?serve = "serve_app id default_settings sample_authenticator 5 ''fresh'' (System Readiness) ?st probe :: service_state \<times> unit app_body web_response"
  obtain st' r where r: "?serve = (st', r)" by (cases ?serve)
  then have "ws_status r = 503"
    by (auto simp: serve_app_def app_handler_def correlation_and_security_def readiness_def answered_def hardened_def with_body_def Let_def)
  with every_answer_is_hardened_and_traceable[OF r] r show ?thesis by (fastforce simp: probe_def)
qed

end
