(* ===== verification/Schema_Contract.thy ===== *)
theory Schema_Contract
  imports Schema_Laws Declared_Schema Risk_Persistence Api_Service
begin

text \<open>
  What the sixteen migrations of the platform promise: they can be applied and undone in any order their chain
  allows, they lead to the schema the classes declare, with the checks the classes leave out, and the codes the components store fit
  the columns.
\<close>

section \<open>Evaluated facts of the chain\<close>

definition empty_signature :: signature where
  "empty_signature = \<lparr>sg_keyed = [], sg_names = [], sg_indexes = []\<rparr>"

definition correlation_column :: column where
  "correlation_column = required ''correlation_id'' (StringOf 64)"

abbreviation revocations :: string where
  "revocations \<equiv> ''revoked_api_tokens''"

abbreviation correlation_index :: string where
  "correlation_index \<equiv> ''ix_revoked_api_tokens_correlation_id''"

definition revocation_block :: table_block where
  "revocation_block = hd (blocks_of upgrade_0011)"

lemma describes_empty: "describes empty_signature []"
  by (simp add: describes_def empty_signature_def index_names_def)

lemma early_additive: "additive empty_signature (take 11 migrations)"
  by code_simp

lemma late_additive:
  "additive ((final_signature empty_signature (take 11 migrations))
     \<lparr>sg_indexes := sg_indexes (final_signature empty_signature (take 11 migrations)) @ [correlation_index]\<rparr>) (drop 12 migrations)"
  by code_simp

lemma migrations_linked: "linked migrations"
  by code_simp

lemma revocation_facts:
  "map blocks_of [upgrade_0011] = [[revocation_block]]" "bk_name revocation_block = revocations"
  "revocations \<notin> set (sg_names (final_signature empty_signature (take 10 migrations)))"
  "correlation_index \<notin> set (sg_indexes (final_signature empty_signature (take 11 migrations)))"
  "''correlation_id'' \<notin> set (column_names (block_table revocation_block))" "block_ok revocation_block"
  "list_all (\<lambda>cs. ''correlation_id'' \<notin> set cs) (unique_keys (block_table revocation_block))"
  by code_simp+

lemma migrations_split:
  "length migrations = 16" "take 11 migrations = take 10 migrations @ [migration_0011]" "migrations ! 11 = migration_0012"
  by (simp_all add: migrations_def)

section \<open>The schema at every revision\<close>

definition created :: "nat \<Rightarrow> schema" where
  "created k = concat (map migration_tables (take k migrations))"

definition audited_revocations :: table where
  "audited_revocations = with_column correlation_column correlation_index (block_table revocation_block)"

definition stage :: "nat \<Rightarrow> schema" where
  "stage k = (if k \<le> 11 then created k
     else created 10 @ [audited_revocations] @ concat (map migration_tables (take (k - 12) (drop 12 migrations))))"

lemma created_11: "created 11 = created 10 @ [block_table revocation_block]"
proof -
  have "migration_tables migration_0011 = [block_table revocation_block]"
    using revocation_facts(1) by (simp add: migration_tables_def migration_0011_def)
  then show ?thesis by (simp only: created_def migrations_split(2)) (simp add: created_def)
qed

lemma created_described:
  "describes (final_signature empty_signature (take 10 migrations)) (created 10)"
  "describes (final_signature empty_signature (take 11 migrations)) (created 11)"
proof -
  have "additive empty_signature (take 10 migrations @ [migration_0011])" using early_additive by (simp only: migrations_split(2))
  then have "additive empty_signature (take 10 migrations)"
    by (rule additive_prefix)
  from describes_additive[OF describes_empty this] describes_additive[OF describes_empty early_additive]
  show "describes (final_signature empty_signature (take 10 migrations)) (created 10)"
    "describes (final_signature empty_signature (take 11 migrations)) (created 11)"
    by (simp_all only: created_def append_Nil)
qed

lemma revocations_fresh: "revocations \<notin> tl_name ` set (created 10)"
  using created_described(1) revocation_facts(3) unfolding describes_def by metis

lemma revocation_table: "tl_name (block_table revocation_block) = revocations"
  by (simp add: block_table_def revocation_facts(2))

lemma correlation_index_fresh: "correlation_index \<notin> set (index_names (created 10 @ [block_table revocation_block]))"
  using created_described(2) revocation_facts(4) unfolding created_11 describes_def by metis

lemma audit_step:
  "apply_all (stage 11) upgrade_0012 = Some (stage 12)" "apply_all (stage 12) downgrade_0012 = Some (stage 11)"
proof -
  have c: "co_name correlation_column \<notin> set (column_names (block_table revocation_block))"
    using revocation_facts(5) by (simp add: correlation_column_def required_def)
  have stages: "stage 11 = created 10 @ [block_table revocation_block]" "stage 12 = created 10 @ [audited_revocations]"
    by (simp_all add: stage_def created_11)
  have up: "upgrade_0012 = [AddColumn revocations (correlation_column\<lparr>co_default := Some ''migration-unknown''\<rparr>),
      AlterDefault revocations (co_name correlation_column) None, CreateIndex correlation_index revocations [co_name correlation_column] False]"
    by (simp add: upgrade_0012_def correlation_column_def required_def)
  have "co_default correlation_column = None" by (simp add: correlation_column_def required_def)
  from add_indexed_column[OF revocations_fresh revocation_table c this correlation_index_fresh]
  show "apply_all (stage 11) upgrade_0012 = Some (stage 12)" unfolding stages up audited_revocations_def .
  have down: "downgrade_0012 = [DropIndex correlation_index revocations, DropColumn revocations (co_name correlation_column)]"
    by (simp add: downgrade_0012_def correlation_column_def required_def)
  have "list_all (\<lambda>(_, k). set (constraint_columns k) \<subseteq> set (column_names (block_table revocation_block))) (tl_constraints (block_table revocation_block))"
    "list_all (\<lambda>(_, cs, _). set cs \<subseteq> set (column_names (block_table revocation_block))) (tl_indexes (block_table revocation_block))"
    using revocation_facts(6) unfolding block_ok_def list_all_iff column_names_def block_table_def named_constraints_def by fastforce+
  moreover have "correlation_index \<notin> fst ` set (tl_indexes (block_table revocation_block))"
    using correlation_index_fresh by simp
  ultimately show "apply_all (stage 12) downgrade_0012 = Some (stage 11)"
    unfolding stages down audited_revocations_def by (intro drop_indexed_column[OF revocations_fresh revocation_table c])
qed

lemma migration_stages: "stages migrations stage"
  unfolding stages_def
proof (intro conjI allI impI)
  show "stage 0 = []" by (simp add: stage_def created_def)
next
  fix k assume "k < length migrations"
  then have k: "k < 16" by (simp add: migrations_split(1))
  then consider "k < 11" | "k = 11" | "12 \<le> k" by arith
  then have "apply_all (stage k) (mg_upgrade (migrations ! k)) = Some (stage (Suc k))
     \<and> apply_all (stage (Suc k)) (mg_downgrade (migrations ! k)) = Some (stage k)"
  proof cases
    case 1
    with run_additive[OF describes_empty early_additive, of k] migrations_split(1) show ?thesis
      by (simp add: stage_def created_def min_def)
  next
    case 2
    with audit_step show ?thesis by (simp add: migrations_split(3) migration_0012_def)
  next
    case 3
    then obtain j where j: "k = 12 + j" by (auto simp: le_iff_add)
    then have "j < length (drop 12 migrations)" using k by (simp add: migrations_split(1))
    have "describes ((final_signature empty_signature (take 11 migrations))
        \<lparr>sg_indexes := sg_indexes (final_signature empty_signature (take 11 migrations)) @ [correlation_index]\<rparr>) (created 10 @ [audited_revocations])"
      unfolding audited_revocations_def
      using describes_with_column[OF _ revocations_fresh revocation_table] created_described(2) by (simp add: created_11)
    from run_additive[OF this late_additive \<open>j < _\<close>] show ?thesis by (simp add: stage_def j migrations_split(1))
  qed
  then show "apply_all (stage k) (mg_upgrade (migrations ! k)) = Some (stage (Suc k))"
    "apply_all (stage (Suc k)) (mg_downgrade (migrations ! k)) = Some (stage k)" by blast+
qed

section \<open>The rows at every revision\<close>

definition created_by :: "nat \<Rightarrow> string set" where
  "created_by k = tl_name ` set (migration_tables (migrations ! k))"

definition stamped :: "table_rows \<Rightarrow> table_rows" where
  "stamped rows = rows(revocations := map (\<lambda>r. r(''correlation_id'' := Some ''migration-unknown'')) (rows revocations))"

definition unstamped :: "table_rows \<Rightarrow> table_rows" where
  "unstamped rows = rows(revocations := map (\<lambda>r. r(''correlation_id'' := None)) (rows revocations))"

lemma late_described:
  "describes ((final_signature empty_signature (take 11 migrations))
     \<lparr>sg_indexes := sg_indexes (final_signature empty_signature (take 11 migrations)) @ [correlation_index]\<rparr>) (created 10 @ [audited_revocations])"
  unfolding audited_revocations_def
  using describes_with_column[OF _ revocations_fresh revocation_table] created_described(2) by (simp add: created_11)

text \<open>Every migration but the twelfth adds new tables and drops them again, with their rows.\<close>

lemma stage_rows:
  assumes "k < 16" "k \<noteq> 11"
  shows "rows_all rows (mg_upgrade (migrations ! k)) = Some (emptied (created_by k) rows)"
    and "rows_all rows (mg_downgrade (migrations ! k)) = Some (emptied (created_by k) rows)"
    and "stage (Suc k) = stage k @ migration_tables (migrations ! k)"
    and "created_by k \<inter> tl_name ` set (stage k) = {}"
proof -
  consider "k < 11" | "12 \<le> k" using assms(2) by arith
  then have "rows_all rows (mg_upgrade (migrations ! k)) = Some (emptied (created_by k) rows)
    \<and> rows_all rows (mg_downgrade (migrations ! k)) = Some (emptied (created_by k) rows)
    \<and> stage (Suc k) = stage k @ migration_tables (migrations ! k) \<and> created_by k \<inter> tl_name ` set (stage k) = {}"
  proof cases
    case 1
    then have k: "k < length (take 11 migrations)" "take 11 migrations ! k = migrations ! k" "take k (take 11 migrations) = take k migrations"
      "take (Suc k) migrations = take k migrations @ [migrations ! k]"
      using assms(1) by (simp_all add: migrations_split(1) min_def take_Suc_conv_app_nth)
    from additive_rows[OF describes_empty early_additive k(1)] additive_step[OF describes_empty early_additive k(1)] 1 k(2-4)
    show ?thesis by (simp add: created_by_def stage_def created_def)
  next
    case 2
    then obtain j where j: "k = 12 + j" by (auto simp: le_iff_add)
    then have k: "j < length (drop 12 migrations)" "drop 12 migrations ! j = migrations ! k"
      "take (Suc j) (drop 12 migrations) = take j (drop 12 migrations) @ [migrations ! k]"
      using assms(1) by (simp_all add: migrations_split(1) take_Suc_conv_app_nth)
    from additive_rows[OF late_described late_additive k(1)] additive_step[OF late_described late_additive k(1)] k(2,3)
    show ?thesis by (simp add: created_by_def stage_def j)
  qed
  then show "rows_all rows (mg_upgrade (migrations ! k)) = Some (emptied (created_by k) rows)"
    "rows_all rows (mg_downgrade (migrations ! k)) = Some (emptied (created_by k) rows)"
    "stage (Suc k) = stage k @ migration_tables (migrations ! k)" "created_by k \<inter> tl_name ` set (stage k) = {}" by blast+
qed

text \<open>The twelfth gives the revocations a correlation identifier and takes it away again.\<close>

lemma audit_rows:
  "rows_all rows (mg_upgrade (migrations ! 11)) = Some (stamped rows)" "rows_all rows (mg_downgrade (migrations ! 11)) = Some (unstamped rows)"
  by (simp_all add: migrations_split(3) migration_0012_def upgrade_0012_def downgrade_0012_def stamped_def unstamped_def)

lemma rows_fit_missing: "rows_fit s rows \<Longrightarrow> n \<notin> tl_name ` set s \<Longrightarrow> rows n = []"
  using find_table_None[of s n] unfolding rows_fit_def by (auto split: option.splits dest: spec[of _ n])

lemma rows_fit_table_at: "rows_fit s rows \<Longrightarrow> find_table s n = Some t \<Longrightarrow> rows_fit_table t (rows n)"
  unfolding rows_fit_def by (auto split: option.splits dest: spec[of _ n])

lemma rows_fitI:
  "(\<And>n. find_table s n = None \<Longrightarrow> rows n = []) \<Longrightarrow> (\<And>n t. find_table s n = Some t \<Longrightarrow> rows_fit_table t (rows n)) \<Longrightarrow> rows_fit s rows"
  by (auto simp: rows_fit_def split: option.splits)

lemma key_distinct_other: "c \<notin> set cs \<Longrightarrow> key_distinct cs (map (\<lambda>r. r(c := x)) rs) = key_distinct cs rs"
proof -
  assume "c \<notin> set cs"
  then have "map (r(c := x)) cs = map r cs" for r :: stored_row by (intro map_cong) auto
  then have "map (\<lambda>r. map r cs) (map (\<lambda>r. r(c := x)) rs) = map (\<lambda>r. map r cs) rs" by (simp only: map_map comp_def)
  then show ?thesis by (simp only: key_distinct_def)
qed

lemma rows_fit_with_column:
  assumes "co_name c \<notin> set (column_names t)" "list_all (\<lambda>cs. co_name c \<notin> set cs) (unique_keys t)"
  shows "rows_fit_table t rs \<Longrightarrow> rows_fit_table (with_column c i t) (map (\<lambda>r. r(co_name c := Some v)) rs)"
    and "rows_fit_table (with_column c i t) rs \<Longrightarrow> rows_fit_table t (map (\<lambda>r. r(co_name c := None)) rs)"
proof -
  have keys: "unique_keys (with_column c i t) = unique_keys t" by (simp add: with_column_def unique_keys_def)
  have cols: "tl_columns (with_column c i t) = tl_columns t @ [c]" by (simp add: with_column_def)
  then have names: "set (column_names (with_column c i t)) = insert (co_name c) (set (column_names t))" by (auto simp: column_names_def)
  have same: "key_distinct cs (map (\<lambda>r. r(co_name c := x)) rs) = key_distinct cs rs" if "cs \<in> set (unique_keys t)" for cs x rs
    using that assms(2) by (intro key_distinct_other) (simp add: list_all_iff)
  show "rows_fit_table (with_column c i t) (map (\<lambda>r. r(co_name c := Some v)) rs)" if "rows_fit_table t rs"
    using that unfolding rows_fit_table_def keys cols names by (auto simp: same)
  show "rows_fit_table t (map (\<lambda>r. r(co_name c := None)) rs)" if "rows_fit_table (with_column c i t) rs"
    unfolding rows_fit_table_def
  proof (intro conjI ballI impI)
    note fit = that[unfolded rows_fit_table_def keys cols names]
    fix r assume "r \<in> set (map (\<lambda>r. r(co_name c := None)) rs)"
    then obtain r0 where r: "r0 \<in> set rs" "r = r0(co_name c := None)" by auto
    with fit show "dom r \<subseteq> set (column_names t)" by (simp add: subset_iff) blast
    fix x assume "x \<in> set (tl_columns t)" "\<not> co_nullable x"
    with fit r other_column[OF assms(1)] show "r (co_name x) \<noteq> None" by simp
  next
    fix cs assume "cs \<in> set (unique_keys t)"
    with that show "key_distinct cs (map (\<lambda>r. r(co_name c := None)) rs)" by (simp add: rows_fit_table_def keys same)
  qed
qed

lemma revocation_lookup:
  "find_table (stage 11) n = (if n = revocations then Some (block_table revocation_block) else find_table (created 10) n)"
  "find_table (stage 12) n = (if n = revocations then Some audited_revocations else find_table (created 10) n)"
proof -
  have "tl_name audited_revocations = revocations" by (simp add: audited_revocations_def with_column_def revocation_table)
  moreover have "find_table (created 10) revocations = None" using revocations_fresh by (simp add: find_table_None)
  moreover have "find_table [t] n = (if tl_name t = n then Some t else None)" for t by (simp add: find_table_def)
  ultimately show "find_table (stage 11) n = (if n = revocations then Some (block_table revocation_block) else find_table (created 10) n)"
    "find_table (stage 12) n = (if n = revocations then Some audited_revocations else find_table (created 10) n)"
    using revocation_table by (auto simp: stage_def created_11 find_table_append split: option.split)
qed

lemma stage_12_names: "tl_name ` set (stage 12) = tl_name ` set (stage 11)"
  by (simp add: stage_def created_11 audited_revocations_def with_column_def)

definition up_rows :: "nat \<Rightarrow> table_rows \<Rightarrow> table_rows" where
  "up_rows k rows = (if k = 11 then stamped rows else rows)"

definition down_rows :: "nat \<Rightarrow> table_rows \<Rightarrow> table_rows" where
  "down_rows k rows = (if k = 11 then unstamped rows else emptied (created_by k) rows)"

lemma emptied_unused: "k < 16 \<Longrightarrow> k \<noteq> 11 \<Longrightarrow> rows_fit (stage k) rows \<Longrightarrow> emptied (created_by k) rows = rows"
  using stage_rows(4)[of k] rows_fit_missing[of "stage k" rows] by (fastforce simp: emptied_def)

lemma correlation_named: "co_name correlation_column = ''correlation_id''"
  by (simp add: correlation_column_def required_def)

lemma audited_fit:
  "rows_fit_table (block_table revocation_block) rs
     \<Longrightarrow> rows_fit_table audited_revocations (map (\<lambda>r. r(''correlation_id'' := Some v)) rs)"
  "rows_fit_table audited_revocations rs
     \<Longrightarrow> rows_fit_table (block_table revocation_block) (map (\<lambda>r. r(''correlation_id'' := None)) rs)"
  using rows_fit_with_column[of correlation_column "block_table revocation_block", unfolded correlation_named, OF revocation_facts(5,7)]
  unfolding audited_revocations_def by blast+

lemma fit_up:
  assumes k: "k < 16" and fit: "rows_fit (stage k) rows"
  shows "rows_fit (stage (Suc k)) (up_rows k rows)"
proof (cases "k = 11")
  case True
  with fit have f: "rows_fit (stage 11) rows" by simp
  have "rows_fit (stage 12) (stamped rows)"
  proof (rule rows_fitI)
    show "stamped rows n = []" if "find_table (stage 12) n = None" for n
      using that rows_fit_missing[OF f, of n] by (auto simp: revocation_lookup stamped_def find_table_None[symmetric] split: if_splits)
    show "rows_fit_table t (stamped rows n)" if "find_table (stage 12) n = Some t" for n t
      using that rows_fit_table_at[OF f, of n] audited_fit(1)
      by (auto simp: revocation_lookup stamped_def split: if_splits)
  qed
  with True show ?thesis by (simp add: up_rows_def)
next
  case False
  have "rows_fit (stage (Suc k)) rows"
  proof (rule rows_fitI)
    show "rows n = []" if "find_table (stage (Suc k)) n = None" for n
      using that rows_fit_missing[OF fit, of n] by (auto simp: stage_rows(3)[OF k False] find_table_append find_table_None[symmetric] split: option.splits)
    show "rows_fit_table t (rows n)" if t: "find_table (stage (Suc k)) n = Some t" for n t
    proof (cases "find_table (stage k) n")
      case None
      then show ?thesis using rows_fit_missing[OF fit, of n] by (simp add: find_table_None)
    next
      case (Some u)
      with t show ?thesis using rows_fit_table_at[OF fit Some] by (simp add: stage_rows(3)[OF k False] find_table_append)
    qed
  qed
  with False show ?thesis by (simp add: up_rows_def)
qed

lemma fit_down:
  assumes k: "k < 16" and fit: "rows_fit (stage (Suc k)) rows"
  shows "rows_fit (stage k) (down_rows k rows)"
proof (cases "k = 11")
  case True
  with fit have f: "rows_fit (stage 12) rows" by simp
  have "rows_fit (stage 11) (unstamped rows)"
  proof (rule rows_fitI)
    show "unstamped rows n = []" if "find_table (stage 11) n = None" for n
      using that rows_fit_missing[OF f, of n] by (auto simp: revocation_lookup unstamped_def find_table_None[symmetric] split: if_splits)
    show "rows_fit_table t (unstamped rows n)" if "find_table (stage 11) n = Some t" for n t
      using that rows_fit_table_at[OF f, of n] audited_fit(2)
      by (auto simp: revocation_lookup unstamped_def split: if_splits)
  qed
  with True show ?thesis by (simp add: down_rows_def)
next
  case False
  have names: "tl_name ` set (stage (Suc k)) = tl_name ` set (stage k) \<union> created_by k"
    by (simp add: stage_rows(3)[OF k False] created_by_def image_Un)
  have "rows_fit (stage k) (emptied (created_by k) rows)"
  proof (rule rows_fitI)
    show "emptied (created_by k) rows n = []" if "find_table (stage k) n = None" for n
      using that rows_fit_missing[OF fit, of n] by (simp add: find_table_None names emptied_def)
    show "rows_fit_table t (emptied (created_by k) rows n)" if t: "find_table (stage k) n = Some t" for n t
    proof -
      have "find_table (stage (Suc k)) n = Some t" using t by (simp add: stage_rows(3)[OF k False] find_table_append)
      with rows_fit_table_at[OF fit] show ?thesis by (simp add: emptied_def)
    qed
  qed
  with False show ?thesis by (simp add: down_rows_def)
qed

section \<open>Steps\<close>

lemmas chain_steps = step_along_chain[OF migrations_linked migration_stages, unfolded migrations_split(1)]

lemma stage_up:
  "k < 16 \<Longrightarrow> at_stage migrations stage k d \<Longrightarrow> rows_fit (stage k) (md_rows d)
   \<Longrightarrow> upgrade_one migrations d = Some (database_at migrations stage (Suc k) (up_rows k (md_rows d)))"
  by (cases "k = 11") (simp_all add: chain_steps(1)[of k d] up_rows_def audit_rows stage_rows(1) emptied_unused)

lemma stage_down:
  "k < 16 \<Longrightarrow> at_stage migrations stage (Suc k) d
   \<Longrightarrow> downgrade_one migrations d = Some (database_at migrations stage k (down_rows k (md_rows d)))"
  by (cases "k = 11") (simp_all add: chain_steps(2)[of k d] down_rows_def audit_rows stage_rows(2))

lemma chain_cases: "migrated migrations d \<Longrightarrow> \<exists>k \<le> 16. at_stage migrations stage k d \<and> rows_fit (stage k) (md_rows d)"
proof (induction rule: migrated.induct)
  case Fresh
  have "stage 0 = []" by (simp add: stage_def created_def)
  then have "at_stage migrations stage 0 fresh_database \<and> rows_fit (stage 0) (md_rows fresh_database)"
    by (simp add: at_stage_def fresh_database_def revision_at_def rows_fit_def find_table_def)
  then show ?case by blast
next
  case (Step d d')
  then obtain k where k: "k \<le> 16" "at_stage migrations stage k d" "rows_fit (stage k) (md_rows d)" by blast
  from \<open>migration_step migrations d d'\<close> show ?case
  proof (rule migration_stepE)
    assume up: "upgrade_one migrations d = Some d'"
    with k chain_steps(3)[of d] have "k < 16" by (cases "k = 16") auto
    with stage_up[OF this k(2,3)] fit_up[OF this k(3)] up show ?thesis by (intro exI[of _ "Suc k"]) auto
  next
    assume down: "downgrade_one migrations d = Some d'"
    with k chain_steps(4)[of d] obtain j where j: "k = Suc j" by (cases k) auto
    with stage_down[of j d] fit_down[of j "md_rows d"] down k show ?thesis by (intro exI[of _ j]) auto
  next
    fix rows assume "d' = d\<lparr>md_rows := rows\<rparr>" "rows_fit (md_schema d) rows"
    with k show ?thesis by (intro exI[of _ k]) (auto simp: at_stage_def)
  qed
qed

lemma migrated_upto: "k \<le> 16 \<Longrightarrow> migrated migrations (database_at migrations stage k (\<lambda>_. []))"
proof (induction k)
  case 0
  have "database_at migrations stage 0 (\<lambda>_. []) = fresh_database"
    by (simp add: database_at_def fresh_database_def revision_at_def stage_def created_def)
  then show ?case by (simp add: migrated.Fresh)
next
  case (Suc k)
  have "rows_fit (stage k) (\<lambda>_. [])" by (simp add: rows_fit_def split: option.split)
  moreover have "up_rows k (\<lambda>_. []) = (\<lambda>_. [])" by (auto simp: up_rows_def stamped_def)
  ultimately have "upgrade_one migrations (database_at migrations stage k (\<lambda>_. [])) = Some (database_at migrations stage (Suc k) (\<lambda>_. []))"
    using stage_up[of k "database_at migrations stage k (\<lambda>_. [])"] Suc.prems by simp
  with Suc show ?case by (auto intro: migrated.Step migration_step.Upgrade)
qed

abbreviation head_database :: migrated_database where
  "head_database \<equiv> database_at migrations stage 16 (\<lambda>_. [])"

lemma down_after_up:
  assumes "k < 16" and fit: "rows_fit (stage k) rows"
  shows "down_rows k (up_rows k rows) = rows"
proof (cases "k = 11")
  case True
  have "r ''correlation_id'' = None" if "r \<in> set (rows revocations)" for r
    using that rows_fit_table_at[OF fit, of revocations "block_table revocation_block"] revocation_facts(5) True
    by (auto simp: revocation_lookup rows_fit_table_def)
  then have "map (\<lambda>r. r(''correlation_id'' := None)) (rows revocations) = rows revocations"
    by (intro map_idI) (simp add: fun_upd_idem)
  with True show ?thesis by (simp add: down_rows_def up_rows_def stamped_def unstamped_def comp_def)
next
  case False
  with assms show ?thesis by (simp add: down_rows_def up_rows_def emptied_unused)
qed

lemma revision_names:
  "revision_at migrations 16 = Some ''0016_exchange_sessions''" "revision_at migrations 12 = Some ''0012_token_revocation_audit''"
  by (simp_all add: revision_at_def migrations_def migration_0016_def migration_0012_def)

lemma same_revision: "i \<le> 16 \<Longrightarrow> j \<le> 16 \<Longrightarrow> revision_at migrations i = revision_at migrations j \<Longrightarrow> i = j"
  using linked_revisions(3)[OF migrations_linked] by (simp only: migrations_split(1))

text \<open>What a downgrade keeps, and what the way down and up again keeps, of the rows.\<close>

lemma returned_rows:
  assumes k: "k < 16" and fit: "rows_fit (stage (Suc k)) rows"
  shows "up_rows k (down_rows k rows) = (\<lambda>n. if Suc k = 12 \<and> n = revocations
      then map (\<lambda>r. r(''correlation_id'' := Some ''migration-unknown'')) (rows n)
      else if n \<in> tl_name ` set (stage k) then rows n else [])"
proof (cases "k = 11")
  case True
  have "rows n = []" if "n \<notin> tl_name ` set (stage 11)" for n
    using that rows_fit_missing[OF fit] True stage_12_names by auto
  with True show ?thesis by (auto simp: up_rows_def down_rows_def stamped_def unstamped_def comp_def)
next
  case False
  have names: "tl_name ` set (stage (Suc k)) = tl_name ` set (stage k) \<union> created_by k"
    by (simp add: stage_rows(3)[OF k False] created_by_def image_Un)
  have "rows n = []" if "n \<notin> tl_name ` set (stage k)" "n \<notin> created_by k" for n
    using that rows_fit_missing[OF fit, of n] names by simp
  with False stage_rows(4)[OF k False] show ?thesis by (fastforce simp: up_rows_def down_rows_def emptied_def)
qed

section \<open>Properties\<close>

text \<open>C13: Every history of migrations is reversible, except for the rows a downgrade destroys.  Whatever sequence of upgrades,
  downgrades and writes of fitting rows led to a database, an upgrade fails only at the last revision and a downgrade only before the
  first; the rows fit the schema and the schema is a function of the revision, whatever the history was.  An upgrade followed by its downgrade gives back
  the same database, rows included.  A downgrade followed by the upgrade gives back the revision and the schema, and the rows of every table
  that the lower revision has, while the tables of the migration come back empty; the one migration that changes a table, the twelfth, brings every
  revocation back with the correlation identifier ''migration-unknown'' in place of its own.\<close>

theorem every_migration_history_is_reversible:
  assumes "migrated migrations d"
  shows "(upgrade_one migrations d = None \<longleftrightarrow> md_revision d = Some ''0016_exchange_sessions'')
    \<and> (downgrade_one migrations d = None \<longleftrightarrow> md_revision d = None)
    \<and> rows_fit (md_schema d) (md_rows d)
    \<and> (\<forall>d'. migrated migrations d' \<and> md_revision d' = md_revision d \<longrightarrow> md_schema d' = md_schema d)
    \<and> (\<forall>u. upgrade_one migrations d = Some u \<longrightarrow> downgrade_one migrations u = Some d)
    \<and> (\<forall>l. downgrade_one migrations d = Some l \<longrightarrow> upgrade_one migrations l = Some (d\<lparr>md_rows :=
        (\<lambda>n. if md_revision d = Some ''0012_token_revocation_audit'' \<and> n = ''revoked_api_tokens''
             then map (\<lambda>r. r(''correlation_id'' := Some ''migration-unknown'')) (md_rows d n)
             else if n \<in> tl_name ` set (md_schema l) then md_rows d n else [])\<rparr>))"
proof -
  obtain k where k: "k \<le> 16" "at_stage migrations stage k d" and fit: "rows_fit (stage k) (md_rows d)" using chain_cases[OF assms] by blast
  have rev: "md_revision d = revision_at migrations k" "md_schema d = stage k" using k(2) by (simp_all add: at_stage_def)
  have up: "upgrade_one migrations d = (if k = 16 then None else Some (database_at migrations stage (Suc k) (up_rows k (md_rows d))))"
    using k fit chain_steps(3)[of d] stage_up[of k d] by auto
  have down: "downgrade_one migrations d = (if k = 0 then None else Some (database_at migrations stage (k - 1) (down_rows (k - 1) (md_rows d))))"
    using k chain_steps(4)[of d] stage_down[of "k - 1" d] by (cases k) auto
  have named: "md_revision d = revision_at migrations j \<longleftrightarrow> k = j" if "j \<le> 16" for j
    using same_revision[OF k(1) that] rev(1) by auto
  have ends: "md_revision d = Some ''0016_exchange_sessions'' \<longleftrightarrow> k = 16" "md_revision d = Some ''0012_token_revocation_audit'' \<longleftrightarrow> k = 12"
    "md_revision d = None \<longleftrightarrow> k = 0"
    using named[of 16] named[of 12] named[of 0] revision_names by (simp_all add: revision_at_def)
  have "md_schema d' = md_schema d" if d': "migrated migrations d'" and r: "md_revision d' = md_revision d" for d'
  proof -
    obtain j where j: "j \<le> 16" "at_stage migrations stage j d'" using chain_cases[OF d'] by blast
    with r have "k = j" using named[OF j(1)] by (simp add: at_stage_def)
    with j rev(2) show ?thesis by (simp add: at_stage_def)
  qed
  moreover have "downgrade_one migrations u = Some d" if "upgrade_one migrations d = Some u" for u
  proof -
    from that up have "k < 16" "u = database_at migrations stage (Suc k) (up_rows k (md_rows d))" using k(1) by (auto split: if_splits)
    with stage_down[of k u] down_after_up[OF _ fit] k(2) show ?thesis by (simp add: at_stage_iff[symmetric]) (simp add: at_stage_iff)
  qed
  moreover have "upgrade_one migrations l = Some (d\<lparr>md_rows :=
      (\<lambda>n. if md_revision d = Some ''0012_token_revocation_audit'' \<and> n = ''revoked_api_tokens''
           then map (\<lambda>r. r(''correlation_id'' := Some ''migration-unknown'')) (md_rows d n)
           else if n \<in> tl_name ` set (md_schema l) then md_rows d n else [])\<rparr>)" if "downgrade_one migrations d = Some l" for l
  proof -
    from that down obtain j where j: "k = Suc j" "l = database_at migrations stage j (down_rows j (md_rows d))"
      by (cases k) auto
    have "j < 16" using j(1) k(1) by simp
    have "d\<lparr>md_rows := rows\<rparr> = database_at migrations stage (Suc j) rows" for rows
      using k(2) by (cases d) (simp add: at_stage_def database_at_def j(1))
    with stage_up[OF \<open>j < 16\<close>, of l] fit_down[OF \<open>j < 16\<close>, of "md_rows d"] fit returned_rows[OF \<open>j < 16\<close>, of "md_rows d"] j
    have up_again: "upgrade_one migrations l = Some (d\<lparr>md_rows := (\<lambda>n. if Suc j = 12 \<and> n = revocations
        then map (\<lambda>r. r(''correlation_id'' := Some ''migration-unknown'')) (md_rows d n)
        else if n \<in> tl_name ` set (stage j) then md_rows d n else [])\<rparr>)"
      by simp
    have "md_schema l = stage j" by (simp add: j(2))
    with up_again show ?thesis unfolding ends by (simp only: j(1))
  qed
  ultimately show ?thesis using up down fit ends rev(2) by auto
qed

text \<open>A revocation with its correlation identifier, down from the twelfth revision and up again.\<close>

definition sample_revocation :: stored_row where
  "sample_revocation = (\<lambda>c. if c = ''correlation_id'' then Some ''c-7'' else if c \<in> set (column_names audited_revocations) then Some ''x'' else None)"

definition sample_revocations :: table_rows where
  "sample_revocations = (\<lambda>n. if n = revocations then [sample_revocation] else [])"

lemma sample_revocations_fit: "rows_fit (stage 12) sample_revocations"
proof -
  have "''correlation_id'' \<in> set (column_names audited_revocations)" by code_simp
  then have "rows_fit_table audited_revocations [sample_revocation]"
    by (auto simp: rows_fit_table_def sample_revocation_def key_distinct_def column_names_def split: if_splits)
  then show ?thesis
    by (auto simp: rows_fit_def sample_revocations_def revocation_lookup split: option.splits)
qed

theorem every_migration_history_is_reversible_witness:
  "\<exists>l u. downgrade_one migrations (database_at migrations stage 12 sample_revocations) = Some l \<and> upgrade_one migrations l = Some u
    \<and> md_schema u = stage 12
    \<and> map (\<lambda>r. r ''correlation_id'') (md_rows u revocations) = [Some ''migration-unknown'']
    \<and> map (\<lambda>r. r ''correlation_id'') (sample_revocations revocations) = [Some ''c-7'']"
proof -
  let ?d = "database_at migrations stage 12 sample_revocations"
  have "migration_step migrations (database_at migrations stage 12 (\<lambda>_. [])) ?d"
    using migration_step.Write[of "database_at migrations stage 12 (\<lambda>_. [])" sample_revocations migrations] sample_revocations_fit
    by (simp add: database_at_def)
  then have "migrated migrations ?d" using migrated_upto[of 12] by (auto intro: migrated.Step)
  note all = every_migration_history_is_reversible[OF this]
  then obtain l where l: "downgrade_one migrations ?d = Some l"
    using revision_names(2) by fastforce
  with all have u: "upgrade_one migrations l = Some (?d\<lparr>md_rows :=
      (\<lambda>n. if md_revision ?d = Some ''0012_token_revocation_audit'' \<and> n = revocations
           then map (\<lambda>r. r(''correlation_id'' := Some ''migration-unknown'')) (md_rows ?d n)
           else if n \<in> tl_name ` set (md_schema l) then md_rows ?d n else [])\<rparr>)"
    by blast
  show ?thesis
    by (rule exI[of _ l], rule exI, rule conjI[OF l], rule conjI[OF u])
      (simp add: revision_names(2) sample_revocations_def sample_revocation_def)
qed

text \<open>
  What a table offers its users: its columns, the keys that make rows unique, its references and the indexed columns.
  A key may be a constraint or a unique index.
\<close>

fun is_reference :: "table_constraint \<Rightarrow> bool" where
  "is_reference (ForeignKey _ _ _ _) = True"
| "is_reference _ = False"

fun is_check :: "table_constraint \<Rightarrow> bool" where
  "is_check (Check _) = True"
| "is_check _ = False"

definition table_view ::
  "table \<Rightarrow> string \<times> column set \<times> string list set \<times> (string \<times> table_constraint) set \<times> (string \<times> string list) set" where
  "table_view t = (tl_name t, set (tl_columns t), set (unique_keys t), set (filter (is_reference \<circ> snd) (tl_constraints t)),
     set (map (\<lambda>(i, cs, _). (i, cs)) (tl_indexes t)))"

definition checks :: "table \<Rightarrow> (string \<times> table_constraint) list" where
  "checks t = filter (is_check \<circ> snd) (tl_constraints t)"

definition cursor_checks :: "(string \<times> table_constraint) list" where
  "cursor_checks = named_constraints ''replay_sessions''
     [(Some ''replay_next_index_nonnegative'', Check ''next_index >= 0''), (Some ''replay_total_events_positive'', Check ''total_events > 0''),
      (Some ''replay_cursor_within_total'', Check ''next_index <= total_events''), (Some ''replay_version_nonnegative'', Check ''version >= 0'')]"

definition declared_checks :: "table \<Rightarrow> (string \<times> table_constraint) list" where
  "declared_checks t = (if tl_name t = ''replay_sessions'' then cursor_checks else checks t)"

definition migrated_view :: "table \<Rightarrow> (string \<times> column set \<times> string list set \<times> (string \<times> table_constraint) set \<times> (string \<times> string list) set) \<times> (string \<times> table_constraint) set" where
  "migrated_view t = (table_view t, set (checks t))"

definition declared_view :: "table \<Rightarrow> (string \<times> column set \<times> string list set \<times> (string \<times> table_constraint) set \<times> (string \<times> string list) set) \<times> (string \<times> table_constraint) set" where
  "declared_view t = (table_view t, set (declared_checks t))"

lemma created_views:
  "map migrated_view (migration_tables migration_0001) = map declared_view [trading_account_table, risk_limit_table, audit_event_table, safety_state_table]"
  "map migrated_view (migration_tables migration_0002) = map declared_view [instrument_table, raw_candle_table, candle_table, market_data_quality_event_table]"
  "map migrated_view (migration_tables migration_0003) = map declared_view [paper_order_table, paper_fill_table, paper_position_table, paper_order_event_table]"
  "map migrated_view (migration_tables migration_0004) = map declared_view [paper_account_ledger_table, paper_pnl_snapshot_table]"
  "map migrated_view (migration_tables migration_0005) = map declared_view [risk_decision_table]"
  "map migrated_view (migration_tables migration_0006) = map declared_view [execution_order_table, execution_order_event_table]"
  "map migrated_view (migration_tables migration_0007) = map declared_view [option_iv_observation_table]"
  "map migrated_view (migration_tables migration_0008) = map declared_view [option_chain_snapshot_table]"
  "map migrated_view (migration_tables migration_0009) = map declared_view [raw_option_chain_table]"
  "map migrated_view (migration_tables migration_0010) = map declared_view [ml_model_version_table, ml_prediction_table]"
  "map migrated_view (migration_tables migration_0013) = map declared_view [replay_session_table]"
  "map migrated_view (migration_tables migration_0014) = map declared_view [replay_dataset_table]"
  "map migrated_view (migration_tables migration_0015) = map declared_view [replay_playback_run_table]"
  "map migrated_view (migration_tables migration_0016) = map declared_view [exchange_session_table]"
  by code_simp+

lemma audited_view: "migrated_view audited_revocations = declared_view revoked_api_token_table"
  by code_simp

lemma head_schema: "md_schema head_database = created 10 @ [audited_revocations] @ concat (map migration_tables (drop 12 migrations))"
  by (simp add: stage_def migrations_split(1))

lemma at_head:
  assumes "migrated migrations d" "upgrade_one migrations d = None"
  shows "md_schema d = md_schema head_database"
proof -
  obtain k where k: "k \<le> 16" "at_stage migrations stage k d" "rows_fit (stage k) (md_rows d)" using chain_cases[OF assms(1)] by blast
  with assms(2) stage_up[of k d] have "k = 16" by (cases "k = 16") auto
  with k(2) show ?thesis by (simp add: at_stage_def)
qed

definition created_order :: schema where
  "created_order =
     [trading_account_table, risk_limit_table, audit_event_table, safety_state_table,
      instrument_table, raw_candle_table, candle_table, market_data_quality_event_table,
      paper_order_table, paper_fill_table, paper_position_table, paper_order_event_table,
      paper_account_ledger_table, paper_pnl_snapshot_table, risk_decision_table, execution_order_table, execution_order_event_table,
      option_iv_observation_table, option_chain_snapshot_table, raw_option_chain_table, ml_model_version_table, ml_prediction_table,
      revoked_api_token_table, replay_session_table, replay_dataset_table, replay_playback_run_table, exchange_session_table]"

lemma created_order_set: "set created_order = set declared_schema"
  by (simp only: created_order_def declared_schema_def list.set insert_commute)

text \<open>C12: The migrations lead to the declared schema.  In a database at the last revision there are exactly the tables the
  classes declare, each with the declared columns (types, nullability, server defaults), the same keys that make rows unique, the
  same named references and the same indexed columns; the checks agree as well, except that the migrations put four checks on the replay
  session cursor which the class does not declare.\<close>

theorem migrated_schema_is_the_declared_one:
  assumes "migrated migrations d" and "upgrade_one migrations d = None"
  shows "set (map migrated_view (md_schema d)) = set (map declared_view declared_schema)
    \<and> length (md_schema d) = length declared_schema \<and> checks replay_session_table = []"
proof -
  have views: "map migrated_view (md_schema d) = map declared_view created_order"
    unfolding at_head[OF assms] head_schema created_def
    by (simp add: migrations_def created_views audited_view created_order_def)
  then have "set (map migrated_view (md_schema d)) = declared_view ` set created_order" by (simp only: list.set_map)
  moreover have "length (md_schema d) = 27" using arg_cong[OF views, of length] by (simp add: created_order_def)
  moreover have "length declared_schema = 27" by (simp add: declared_schema_def)
  moreover have "checks replay_session_table = []"
    by (simp add: checks_def replay_session_table_def declare_table_def named_constraints_def mapped_def uuid_timestamp_mixin_def)
  ultimately show ?thesis by (simp only: created_order_set list.set_map)
qed

text \<open>The database the sixteen upgrades lead to.\<close>

theorem migrated_schema_is_the_declared_one_witness:
  "set (map migrated_view (md_schema head_database)) = set (map declared_view declared_schema)"
  using migrated_schema_is_the_declared_one[OF migrated_upto[OF order_refl]] chain_steps(3)[of head_database] by simp

section \<open>Stored texts\<close>

lemma column_widths:
  "fits safety_state_table ''key'' v \<longleftrightarrow> length v \<le> 64" "fits safety_state_table ''reason'' v \<longleftrightarrow> length v \<le> 256"
  "fits safety_state_table ''correlation_id'' v \<longleftrightarrow> length v \<le> 64" "fits risk_decision_table ''outcome'' v \<longleftrightarrow> length v \<le> 16"
  "fits revoked_api_token_table ''token_sha256'' v \<longleftrightarrow> length v \<le> 64" "fits revoked_api_token_table ''reason'' v \<longleftrightarrow> length v \<le> 512"
  "fits revoked_api_token_table ''actor_id'' v \<longleftrightarrow> length v \<le> 128" "fits revoked_api_token_table ''correlation_id'' v \<longleftrightarrow> length v \<le> 64"
  by (simp_all add: fits_def risk_decision_table_def safety_state_table_def revoked_api_token_table_def declare_table_def
      mapped_def required_def)

text \<open>The texts of a row of the safety state, of a revocation and of a risk decision fit their columns.\<close>

definition safety_row_fits :: "string \<Rightarrow> safety_row \<Rightarrow> bool" where
  "safety_row_fits k r \<longleftrightarrow> fits safety_state_table ''key'' k \<and> fits safety_state_table ''reason'' (safe_reason r)
     \<and> fits safety_state_table ''correlation_id'' (safe_correlation_id r)"

definition revocation_row_fits :: "revocation_row \<Rightarrow> bool" where
  "revocation_row_fits r \<longleftrightarrow> fits revoked_api_token_table ''token_sha256'' (rv_token_sha256 r)
     \<and> fits revoked_api_token_table ''actor_id'' (rv_actor_id r) \<and> fits revoked_api_token_table ''reason'' (rv_reason r)
     \<and> fits revoked_api_token_table ''correlation_id'' (rv_correlation_id r)"

definition outcomes_fit :: "risk_db \<Rightarrow> bool" where
  "outcomes_fit db \<longleftrightarrow> (\<forall>r \<in> ran (risk_decisions db). fits risk_decision_table ''outcome'' (rrow_outcome r))"

lemma outcomes_fit_exec: "outcomes_fit db \<Longrightarrow> outcomes_fit (risk_exec col fp dig db op)"
proof -
  assume ok: "outcomes_fit db"
  have width: "length (risk_outcome_value oc) \<le> 16" for oc by (cases oc) (simp_all add: risk_outcome_value_def)
  show ?thesis
  proof (cases rule: risk_exec_cases [where col = col and fp = fp and dig = dig and db = db and op = op])
    case (decided fresh rq d)
    then show ?thesis
      by (rule authority_evaluate_cases)
        (use ok width in \<open>auto simp: outcomes_fit_def ran_def row_of_decision_def column_widths\<close>)
  next
    case (switched on reason correlation actor occurred)
    with ok show ?thesis using set_kill_switch_frame(1) [OF switched(1)] by (simp add: outcomes_fit_def)
  qed (use ok in simp)
qed

lemma outcomes_fit_run: "outcomes_fit db \<Longrightarrow> outcomes_fit (foldl (risk_exec col fp dig) db ops)"
  by (induction ops arbitrary: db) (simp_all add: outcomes_fit_exec)

lemma subject_length: "authenticate sha a now header = Inr p \<Longrightarrow> length (pr_subject p) \<le> 128"
proof -
  have "length (role_value r) \<le> 8" for r by (cases r) simp_all
  then show "authenticate sha a now header = Inr p \<Longrightarrow> length (pr_subject p) \<le> 128"
    by (auto simp: authenticate_def Let_def split: option.splits if_splits prod.splits) (meson le_trans numeral_le_iff semiring_norm)+
qed

lemma authenticated_subject_length: "authenticated_principal sha s a store now header = Inr p \<Longrightarrow> length (pr_subject p) \<le> 128"
  unfolding authenticated_principal_def Let_def by (auto dest: subject_length split: sum.splits if_splits option.splits auth_error.splits bool.splits)

lemma require_role_Inr: "require_role p r = Inr p' \<Longrightarrow> p' = p"
  by (auto simp: require_role_def split: if_splits)

lemma operator_subject_length: "operator_principal sha s a store now header = Inr p \<Longrightarrow> length (pr_subject p) \<le> 128"
  unfolding operator_principal_def
  by (auto dest!: require_role_Inr authenticated_subject_length split: sum.splits auth_error.splits)

lemma automatic_reason_length: "length (''automatic: '' @ join '','' (automatic_kill_reasons c l)) \<le> 256"
  by (simp add: automatic_kill_reasons_def flag_def)

lemma switch_texts:
  assumes "set_kill_switch db on reason c actor occurred = Inr db'"
  shows "\<exists>row. safety_state db' kill_switch_key = Some row
    \<and> (safety_row_fits kill_switch_key row \<longleftrightarrow> length reason \<le> 256 \<and> length c \<le> 64)"
  using assms by (auto simp: set_kill_switch_def safety_row_fits_def column_widths kill_switch_key_def split: if_splits)

lemma revoke_token_texts:
  assumes "revoke_token db d at_time actor reason c = Inr (db', row)"
    and "length actor \<le> 128" "length reason \<le> 512" "length c \<le> 64"
    and "\<forall>r \<in> set (rv_rows db). revocation_row_fits r"
  shows "\<forall>r \<in> set (rv_rows db'). revocation_row_fits r"
proof -
  have "sha256_hex d" using assms(1) by (simp add: revoke_token_def split: if_splits)
  then have "length d \<le> 64" by (simp add: sha256_hex_def)
  then have "set (rv_rows db') = set (rv_rows db) \<or>
      set (rv_rows db') = insert \<lparr>rv_token_sha256 = d, rv_revoked_at = instant_of at_time, rv_actor_id = actor, rv_reason = reason,
        rv_correlation_id = c\<rparr> (set (rv_rows db))"
    using assms(1) by (auto simp: revoke_token_def Let_def split: if_splits option.splits)
  with assms(2-5) \<open>length d \<le> 64\<close> show ?thesis by (auto simp: revocation_row_fits_def column_widths)
qed

lemma revocation_texts:
  assumes rv: "revoke_api_token sha s a (Some db) now header d reason c = Inr (db', row)" and "length c \<le> 64"
    and "\<forall>r \<in> set (rv_rows db). revocation_row_fits r"
  shows "\<forall>r \<in> set (rv_rows db'). revocation_row_fits r"
proof -
  obtain p where "operator_principal sha s a (Some db) now header = Inr p" "revocation_request_ok d reason"
    "revoke_token db d (Aware now) (pr_subject p) reason c = Inr (db', row)"
    using rv unfolding revoke_api_token_def by (simp split: sum.splits if_splits pyerror.splits)
  with assms(2,3) show ?thesis
    by (intro revoke_token_texts [of db d "Aware now" "pr_subject p" reason c db' row])
      (simp_all add: revocation_request_ok_def operator_subject_length)
qed

text \<open>C36: Stored texts and their columns.  With a correlation identifier, an actor and an aware time, the manual kill switch accepts every
  reason that is not blank and stores it as it is, so the row it writes fits its columns exactly when the reason has at most 256 and the
  correlation identifier at most 64 characters: a longer reason passes the repository's guard and does not fit.  The other writers cannot run
  into that: under a correlation identifier of at most 64 characters an automatic kill switch writes a row that fits, whatever the context
  and the limits are; a revocation that the route accepts, under the identifier the middleware gives to any request, keeps every row of the table
  within its columns; and every sequence of risk operations keeps the outcomes of the stored decisions within theirs.\<close>

theorem stored_texts_fit_their_columns:
  shows "((\<exists>db'. set_kill_switch db on reason c actor occurred = Inr db')
        \<longleftrightarrow> \<not> blank reason \<and> \<not> blank c \<and> \<not> blank actor \<and> is_aware occurred)
    \<and> (\<forall>db'. set_kill_switch db on reason c actor occurred = Inr db' \<longrightarrow> (\<exists>row. safety_state db' kill_switch_key = Some row
        \<and> safe_reason row = reason \<and> (safety_row_fits kill_switch_key row \<longleftrightarrow> length reason \<le> 256 \<and> length c \<le> 64)))
    \<and> (\<forall>db'. activate_automatic_kill db k l c = Inr (db', True) \<longrightarrow> length c \<le> 64
        \<longrightarrow> (\<exists>row. safety_state db' kill_switch_key = Some row \<and> safety_row_fits kill_switch_key row))
    \<and> (\<forall>rv rv' row. revoke_api_token sha s a (Some rv) now header d why (correlation_id_of fresh q) = Inr (rv', row)
        \<longrightarrow> (\<forall>r \<in> set (rv_rows rv). revocation_row_fits r) \<longrightarrow> (\<forall>r \<in> set (rv_rows rv'). revocation_row_fits r))
    \<and> (outcomes_fit db \<longrightarrow> outcomes_fit (foldl (risk_exec col fp dig) db ops))"
proof (intro conjI allI impI)
  show "(\<exists>db'. set_kill_switch db on reason c actor occurred = Inr db')
      \<longleftrightarrow> \<not> blank reason \<and> \<not> blank c \<and> \<not> blank actor \<and> is_aware occurred"
    by (auto simp: set_kill_switch_def)
  fix db' assume "set_kill_switch db on reason c actor occurred = Inr db'"
  then show "\<exists>row. safety_state db' kill_switch_key = Some row
      \<and> safe_reason row = reason \<and> (safety_row_fits kill_switch_key row \<longleftrightarrow> length reason \<le> 256 \<and> length c \<le> 64)"
    using switch_texts [of db on reason c actor occurred db'] by (auto simp: set_kill_switch_def split: if_splits)
next
  fix db' assume "activate_automatic_kill db k l c = Inr (db', True)" "length c \<le> 64"
  then show "\<exists>row. safety_state db' kill_switch_key = Some row \<and> safety_row_fits kill_switch_key row"
    using automatic_reason_length [of k l]
      switch_texts [of db True "''automatic: '' @ join '','' (automatic_kill_reasons k l)" c "''risk-engine''" "Aware (evaluated_at k)" db']
    unfolding activate_automatic_kill_def Let_def by (simp add: rbind_eq_Inr del: append.simps split: if_splits)
next
  fix rv rv' row r
  assume "revoke_api_token sha s a (Some rv) now header d why (correlation_id_of fresh q) = Inr (rv', row)"
    "\<forall>r \<in> set (rv_rows rv). revocation_row_fits r"
  then show "\<forall>r \<in> set (rv_rows rv'). revocation_row_fits r"
    using revocation_texts [of sha s a rv now header d why "correlation_id_of fresh q"] by (simp add: correlation_id_of_def)
qed (rule outcomes_fit_run)

text \<open>A reason of 257 characters is accepted and does not fit, and the viewer's revocation does.\<close>

theorem stored_texts_fit_their_columns_witness:
  "\<exists>db' row. set_kill_switch sample_limits_db True (replicate 257 (CHR ''x'')) ''c1'' ''ops'' (Aware 5) = Inr db'
     \<and> safety_state db' kill_switch_key = Some row \<and> \<not> safety_row_fits kill_switch_key row"
proof -
  define reason where "reason = replicate 257 (CHR ''x'')"
  have "length reason = 257" "\<not> blank reason" by (simp_all add: reason_def blank_def is_space_def)
  moreover have "\<not> blank ''c1''" "\<not> blank ''ops''" "is_aware (Aware 5)" by (simp_all add: blank_def is_space_def)
  moreover note all = stored_texts_fit_their_columns [where db = sample_limits_db and on = True and reason = reason and c = "''c1''"
      and actor = "''ops''" and occurred = "Aware 5"]
  ultimately obtain db' where db': "set_kill_switch sample_limits_db True reason ''c1'' ''ops'' (Aware 5) = Inr db'"
    using conjunct1 [OF all] by auto
  with conjunct1 [OF conjunct2 [OF all]] \<open>length reason = 257\<close> show ?thesis
    unfolding reason_def [symmetric] by fastforce
qed

end
