(* ===== verification/Observability.thy ===== *)
theory Observability
  imports Access_Control
begin

text \<open>
  What reaches the logs (\<open>packages/observability/logging.py\<close>): the redaction of log records and of contexts.  A record has
  named attributes, and arguments that are a dictionary or anything else.  \<open>Redacted\<close> is the text \<open>[REDACTED]\<close>.  \<open>str.lower\<close> is the
  ASCII mapping: no other character of the alphabet becomes a letter of a redacted key.
\<close>

datatype 'v logged = Redacted | Plain 'v

datatype 'v log_args = DictArgs "(string \<times> 'v logged) list" | OtherArgs "'v logged list"

record 'v log_record =
  lr_attributes :: "(string \<times> 'v logged) list"
  lr_args :: "'v log_args"

definition redacted_keys :: "string list" where
  "redacted_keys = [''authorization'', ''password'', ''secret'', ''token'', ''access_token'']"

definition safe_context :: "(string \<times> 'v logged) list \<Rightarrow> (string \<times> 'v logged) list" where
  "safe_context kvs = map (\<lambda>(k, v). (k, if map lower_char k \<in> set redacted_keys then Redacted else v)) kvs"

text \<open>\<open>RedactionFilter.filter\<close>: an attribute whose name is a redacted key is overwritten, for every key in turn; the result is always to log.\<close>

definition set_attribute :: "string \<Rightarrow> 'v logged \<Rightarrow> (string \<times> 'v logged) list \<Rightarrow> (string \<times> 'v logged) list" where
  "set_attribute k v kvs = map (\<lambda>(j, w). if j = k then (j, v) else (j, w)) kvs"

definition redact_record :: "'v log_record \<Rightarrow> 'v log_record \<times> bool" where
  "redact_record r =
     (let attributes = foldl (\<lambda>kvs k. if k \<in> fst ` set kvs then set_attribute k Redacted kvs else kvs) (lr_attributes r) redacted_keys in
      (\<lparr>lr_attributes = attributes, lr_args = (case lr_args r of DictArgs kvs \<Rightarrow> DictArgs (safe_context kvs) | OtherArgs vs \<Rightarrow> OtherArgs vs)\<rparr>, True))"

lemma redaction_fold:
  "foldl (\<lambda>kvs k. if k \<in> fst ` set kvs then set_attribute k Redacted kvs else kvs) kvs ks
     = map (\<lambda>(j, w). (j, if j \<in> set ks then Redacted else w)) kvs"
proof (induction ks arbitrary: kvs)
  case (Cons k ks)
  have "(if k \<in> fst ` set kvs then set_attribute k Redacted kvs else kvs) = set_attribute k Redacted kvs"
    by (force simp: set_attribute_def intro!: map_idI[symmetric])
  with Cons show ?case by (auto simp: set_attribute_def)
qed (simp add: case_prod_beta)

text \<open>Secrets are redacted by name, and only by exact name on a record.  In a context and in dictionary arguments every value under a
  redacted key, in any capitalisation, is replaced and nothing else changes; a record is always logged, its attributes with exactly a redacted
  name are replaced, and every other attribute keeps its value - also \<open>Authorization\<close>, which a context would have redacted.\<close>

theorem secrets_are_redacted_by_name:
  shows "map fst (safe_context kvs) = map fst kvs
    \<and> (\<forall>i < length kvs. snd (safe_context kvs ! i) = (if map lower_char (fst (kvs ! i)) \<in> set redacted_keys then Redacted else snd (kvs ! i)))
    \<and> snd (redact_record r) \<and> (lr_args r = DictArgs kvs \<longrightarrow> lr_args (fst (redact_record r)) = DictArgs (safe_context kvs))
    \<and> (\<forall>k v. (k, v) \<in> set (lr_attributes r) \<longrightarrow>
         (k, if k \<in> set redacted_keys then Redacted else v) \<in> set (lr_attributes (fst (redact_record r))))
    \<and> redact_record \<lparr>lr_attributes = [(''Authorization'', Plain w)], lr_args = OtherArgs []\<rparr>
        = (\<lparr>lr_attributes = [(''Authorization'', Plain w)], lr_args = OtherArgs []\<rparr>, True)
    \<and> safe_context [(''Authorization'', Plain w)] = [(''Authorization'', Redacted)]"
proof -
  have attributes: "lr_attributes (fst (redact_record r)) = map (\<lambda>(j, w). (j, if j \<in> set redacted_keys then Redacted else w)) (lr_attributes r)"
    by (simp add: redact_record_def redaction_fold Let_def)
  have "map fst (safe_context kvs) = map fst kvs" by (simp add: safe_context_def case_prod_beta comp_def)
  moreover have "snd (safe_context kvs ! i) = (if map lower_char (fst (kvs ! i)) \<in> set redacted_keys then Redacted else snd (kvs ! i))" if "i < length kvs" for i
    using that by (simp add: safe_context_def case_prod_beta)
  moreover have "redact_record \<lparr>lr_attributes = [(''Authorization'', Plain w)], lr_args = OtherArgs []\<rparr>
      = (\<lparr>lr_attributes = [(''Authorization'', Plain w)], lr_args = OtherArgs []\<rparr>, True)"
    by (simp add: redact_record_def redacted_keys_def)
  moreover have "map lower_char ''Authorization'' = ''authorization''" by code_simp
  then have "safe_context [(''Authorization'', Plain w)] = [(''Authorization'', Redacted)]" by (simp add: safe_context_def redacted_keys_def)
  ultimately show ?thesis unfolding attributes by (force simp: redact_record_def Let_def)
qed

theorem secrets_are_redacted_by_name_witness:
  "lr_args (fst (redact_record \<lparr>lr_attributes = [(''token'', Plain (7::int))], lr_args = DictArgs [(''Token'', Plain 7), (''path'', Plain 8)]\<rparr>))
      = DictArgs [(''Token'', Redacted), (''path'', Plain 8)]
    \<and> (''token'', Redacted) \<in> set (lr_attributes (fst (redact_record \<lparr>lr_attributes = [(''token'', Plain (7::int))], lr_args = DictArgs [(''Token'', Plain 7), (''path'', Plain 8)]\<rparr>)))"
proof -
  let ?kvs = "[(''Token'', Plain (7::int)), (''path'', Plain 8)]"
  let ?r = "\<lparr>lr_attributes = [(''token'', Plain (7::int))], lr_args = DictArgs ?kvs\<rparr>"
  have "safe_context ?kvs = [(''Token'', Redacted), (''path'', Plain 8)]" by code_simp
  moreover from secrets_are_redacted_by_name[where kvs = ?kvs and r = ?r and w = 7]
  have "lr_args ?r = DictArgs ?kvs \<longrightarrow> lr_args (fst (redact_record ?r)) = DictArgs (safe_context ?kvs)"
    and attributes: "\<forall>k v. (k, v) \<in> set (lr_attributes ?r) \<longrightarrow>
         (k, if k \<in> set redacted_keys then Redacted else v) \<in> set (lr_attributes (fst (redact_record ?r)))"
    by blast+
  moreover from attributes have "(''token'', Redacted) \<in> set (lr_attributes (fst (redact_record ?r)))"
    by (auto simp: redacted_keys_def dest: spec[of _ "''token''"])
  ultimately show ?thesis by simp
qed

end
