(* ===== verification/Local_Artifacts.thy ===== *)
theory Local_Artifacts
  imports Artifact_Store
begin

text \<open>
  The local artifact store (\<open>LocalArtifactStore\<close> of \<open>packages/machine_learning/artifacts.py\<close>) on a file system shared with other
  processes.  A file is named by its real directory and its name there; \<open>locate\<close> is how the operating system walks a path text to
  the real directory and the last component, \<open>None\<close> when a directory is missing.  A symbolic link is an entry of its own; all that
  matters of it is whether it leads anywhere.  Storing is a sequence of system calls, each of which is a step here: calls of any number of
  processes interleave, and a process may die between any two of them.
\<close>

section \<open>Files\<close>

datatype directory_entry = Regular string | Symlink bool

type_synonym filesystem = "string \<times> string \<rightharpoonup> directory_entry"

datatype store_error = Raises pyerror | FileNotFound

type_synonym 'a stored = "store_error + 'a"

record local_store =
  lo_root :: string
  lo_maximum_size_bytes :: int

text \<open>\<open>__init__\<close>: the root is resolved; making the directory adds no file.\<close>

definition make_local_store :: "(string \<Rightarrow> string) \<Rightarrow> string \<Rightarrow> int \<Rightarrow> local_store result" where
  "make_local_store resolve directory maximum =
     (if maximum \<le> 0 then Inl (ValueError ''artifact maximum size must be positive'')
      else Inr \<lparr>lo_root = resolve directory, lo_maximum_size_bytes = maximum\<rparr>)"

definition artifact_name :: "string \<Rightarrow> string" where
  "artifact_name digest = digest @ ''.artifact''"

text \<open>\<open>Path.as_uri\<close> of a file in a real directory.\<close>

definition file_uri :: "string \<Rightarrow> string \<Rightarrow> string" where
  "file_uri directory name = ''file://'' @ quote_url (directory @ ''/'' @ name) ''/''"

definition path_exists :: "filesystem \<Rightarrow> string \<times> string \<Rightarrow> bool" where
  "path_exists fs p = (case fs p of None \<Rightarrow> False | Some (Regular _) \<Rightarrow> True | Some (Symlink leads) \<Rightarrow> leads)"

definition verified_reference :: "(string \<Rightarrow> string) \<Rightarrow> local_store \<Rightarrow> filesystem \<Rightarrow> string \<Rightarrow> string \<Rightarrow> artifact_reference stored" where
  "verified_reference sha st fs name expected_digest =
     (case fs (lo_root st, name) of
        Some (Symlink _) \<Rightarrow> Inl (Raises (ValueError ''artifact path is outside the configured store''))
      | None \<Rightarrow> Inl FileNotFound
      | Some (Regular data) \<Rightarrow>
          if sha data \<noteq> expected_digest then Inl (Raises (ValueError ''existing artifact content conflicts with its digest path''))
          else if int (length data) > lo_maximum_size_bytes st then Inl (Raises (ValueError ''existing artifact exceeds the size limit''))
          else Inr \<lparr>ar_uri = file_uri (lo_root st) name, ar_sha256 = sha data, ar_size_bytes = int (length data)\<rparr>)"

definition load_local ::
  "(string \<Rightarrow> bool) \<Rightarrow> (string \<Rightarrow> string) \<Rightarrow> (string \<Rightarrow> (string \<times> string) option) \<Rightarrow> local_store \<Rightarrow> filesystem \<Rightarrow> artifact_reference \<Rightarrow> string stored" where
  "load_local bracketed_ok sha locate st fs r =
     (case urlparse bracketed_ok (ar_uri r) of
        Inl e \<Rightarrow> Inl (Raises e)
      | Inr parsed \<Rightarrow>
          if url_scheme parsed \<noteq> ''file'' \<or> url_netloc parsed \<notin> {[], ''localhost''}
          then Inl (Raises (ValueError ''local artifact store requires a local file URI''))
          else case locate (unquote_url (url_path parsed)) of
              None \<Rightarrow> Inl FileNotFound
            | Some (directory, name) \<Rightarrow>
                (case fs (directory, name) of
                   Some (Symlink _) \<Rightarrow> Inl (Raises (ValueError ''artifact path is outside the configured store''))
                 | None \<Rightarrow> Inl FileNotFound
                 | Some (Regular data) \<Rightarrow>
                     if directory \<noteq> lo_root st then Inl (Raises (ValueError ''artifact path is outside the configured store''))
                     else if int (length data) \<noteq> ar_size_bytes r \<or> int (length data) > lo_maximum_size_bytes st
                     then Inl (Raises (ValueError ''artifact size does not match registered evidence''))
                     else if sha data \<noteq> ar_sha256 r
                     then Inl (Raises (ValueError ''artifact checksum does not match registered evidence''))
                     else Inr data))"

section \<open>Storing, step by step\<close>

text \<open>Where a call of \<open>store\<close> is, with the name of its temporary file.\<close>

datatype phase =
    Started
  | Absent
  | Writing string
  | Synced string
  | Linked string
  | Verifying
  | Finished "artifact_reference stored"

record store_call =
  sc_payload :: string
  sc_phase :: phase

record store_world =
  sw_files :: filesystem
  sw_calls :: "nat \<rightharpoonup> store_call"

definition begin_store :: "local_store \<Rightarrow> string \<Rightarrow> phase" where
  "begin_store st payload =
     (if payload = [] \<or> int (length payload) > lo_maximum_size_bytes st
      then Finished (Inl (Raises (ValueError ''artifact payload must be non-empty and within the size limit''))) else Started)"

definition check_existing :: "(string \<Rightarrow> string) \<Rightarrow> local_store \<Rightarrow> filesystem \<Rightarrow> string \<Rightarrow> phase" where
  "check_existing sha st fs payload = (if path_exists fs (lo_root st, artifact_name (sha payload)) then Verifying else Absent)"

text \<open>\<open>os.link\<close>: an existing destination, whatever it is, is left alone.\<close>

definition link_artifact :: "local_store \<Rightarrow> filesystem \<Rightarrow> string \<Rightarrow> string \<Rightarrow> filesystem" where
  "link_artifact st fs temporary name =
     (if fs (lo_root st, name) \<noteq> None then fs else fs((lo_root st, name) := fs (lo_root st, temporary)))"

definition temporary_name :: "string \<Rightarrow> bool" where
  "temporary_name t \<longleftrightarrow> take 10 t = ''.artifact-''"

inductive store_step :: "(string \<Rightarrow> string) \<Rightarrow> local_store \<Rightarrow> store_world \<Rightarrow> store_world \<Rightarrow> bool" for sha st where
  Begin: "sw_calls w i = None \<Longrightarrow>
    store_step sha st w (w\<lparr>sw_calls := (sw_calls w)(i \<mapsto> \<lparr>sc_payload = x, sc_phase = begin_store st x\<rparr>)\<rparr>)"
| Check: "sw_calls w i = Some \<lparr>sc_payload = x, sc_phase = Started\<rparr> \<Longrightarrow>
    store_step sha st w (w\<lparr>sw_calls := (sw_calls w)(i \<mapsto> \<lparr>sc_payload = x, sc_phase = check_existing sha st (sw_files w) x\<rparr>)\<rparr>)"
| Create: "sw_calls w i = Some \<lparr>sc_payload = x, sc_phase = Absent\<rparr> \<Longrightarrow> temporary_name t \<Longrightarrow> sw_files w (lo_root st, t) = None \<Longrightarrow>
    store_step sha st w (w\<lparr>sw_files := (sw_files w)((lo_root st, t) \<mapsto> Regular []),
      sw_calls := (sw_calls w)(i \<mapsto> \<lparr>sc_payload = x, sc_phase = Writing t\<rparr>)\<rparr>)"
| Write: "sw_calls w i = Some \<lparr>sc_payload = x, sc_phase = Writing t\<rparr> \<Longrightarrow>
    store_step sha st w (w\<lparr>sw_files := (sw_files w)((lo_root st, t) \<mapsto> Regular (take k x))\<rparr>)"
| Sync: "sw_calls w i = Some \<lparr>sc_payload = x, sc_phase = Writing t\<rparr> \<Longrightarrow>
    store_step sha st w (w\<lparr>sw_files := (sw_files w)((lo_root st, t) \<mapsto> Regular x),
      sw_calls := (sw_calls w)(i \<mapsto> \<lparr>sc_payload = x, sc_phase = Synced t\<rparr>)\<rparr>)"
| Link: "sw_calls w i = Some \<lparr>sc_payload = x, sc_phase = Synced t\<rparr> \<Longrightarrow>
    store_step sha st w (w\<lparr>sw_files := link_artifact st (sw_files w) t (artifact_name (sha x)),
      sw_calls := (sw_calls w)(i \<mapsto> \<lparr>sc_payload = x, sc_phase = Linked t\<rparr>)\<rparr>)"
| Unlink: "sw_calls w i = Some \<lparr>sc_payload = x, sc_phase = Linked t\<rparr> \<Longrightarrow>
    store_step sha st w (w\<lparr>sw_files := (sw_files w)((lo_root st, t) := None),
      sw_calls := (sw_calls w)(i \<mapsto> \<lparr>sc_payload = x, sc_phase = Verifying\<rparr>)\<rparr>)"
| Verify: "sw_calls w i = Some \<lparr>sc_payload = x, sc_phase = Verifying\<rparr> \<Longrightarrow>
    store_step sha st w (w\<lparr>sw_calls := (sw_calls w)(i \<mapsto>
      \<lparr>sc_payload = x, sc_phase = Finished (verified_reference sha st (sw_files w) (artifact_name (sha x)) (sha x))\<rparr>)\<rparr>)"
| Crash: "store_step sha st w (w\<lparr>sw_calls := (sw_calls w)(i := None)\<rparr>)"

lemma world_updates [simp]:
  "w\<lparr>sw_calls := c\<rparr> = \<lparr>sw_files = sw_files w, sw_calls = c\<rparr>" "w\<lparr>sw_files := f\<rparr> = \<lparr>sw_files = f, sw_calls = sw_calls w\<rparr>"
  by (cases w; simp)+

definition empty_world :: store_world where
  "empty_world = \<lparr>sw_files = Map.empty, sw_calls = Map.empty\<rparr>"

inductive reachable_world :: "(string \<Rightarrow> string) \<Rightarrow> local_store \<Rightarrow> store_world \<Rightarrow> bool" for sha st where
  Empty: "reachable_world sha st empty_world"
| Step: "reachable_world sha st w \<Longrightarrow> store_step sha st w w' \<Longrightarrow> reachable_world sha st w'"

inductive_cases store_stepE: "store_step sha st w w'"

section \<open>The invariant\<close>

text \<open>A payload \<open>x\<close> that may be stored, and the temporary file a phase owns.\<close>

definition storable :: "local_store \<Rightarrow> string \<Rightarrow> bool" where
  "storable st x \<longleftrightarrow> x \<noteq> [] \<and> int (length x) \<le> lo_maximum_size_bytes st"

fun owned_temporary :: "phase \<Rightarrow> string option" where
  "owned_temporary (Writing t) = Some t"
| "owned_temporary (Synced t) = Some t"
| "owned_temporary (Linked t) = Some t"
| "owned_temporary _ = None"

definition artifact_at :: "(string \<Rightarrow> string) \<Rightarrow> local_store \<Rightarrow> filesystem \<Rightarrow> string \<Rightarrow> bool" where
  "artifact_at sha st fs d \<longleftrightarrow> (\<exists>y. fs (lo_root st, artifact_name d) = Some (Regular y) \<and> sha y = d \<and> storable st y)"

definition call_ok :: "(string \<Rightarrow> string) \<Rightarrow> local_store \<Rightarrow> filesystem \<Rightarrow> string \<Rightarrow> phase \<Rightarrow> bool" where
  "call_ok sha st fs x p \<longleftrightarrow>
     (case p of
        Finished (Inl e) \<Rightarrow> \<not> storable st x
      | Finished (Inr r) \<Rightarrow> storable st x \<and> artifact_at sha st fs (sha x)
          \<and> (\<exists>y. fs (lo_root st, artifact_name (sha x)) = Some (Regular y)
               \<and> r = \<lparr>ar_uri = file_uri (lo_root st) (artifact_name (sha x)), ar_sha256 = sha x, ar_size_bytes = int (length y)\<rparr>)
      | Synced t \<Rightarrow> storable st x \<and> temporary_name t \<and> fs (lo_root st, t) = Some (Regular x)
      | Linked t \<Rightarrow> storable st x \<and> temporary_name t \<and> fs (lo_root st, t) \<noteq> None \<and> artifact_at sha st fs (sha x)
      | Writing t \<Rightarrow> storable st x \<and> temporary_name t \<and> fs (lo_root st, t) \<noteq> None
      | Verifying \<Rightarrow> storable st x \<and> artifact_at sha st fs (sha x)
      | _ \<Rightarrow> storable st x)"

definition world_ok :: "(string \<Rightarrow> string) \<Rightarrow> local_store \<Rightarrow> store_world \<Rightarrow> bool" where
  "world_ok sha st w \<longleftrightarrow>
     (\<forall>n. sw_files w (lo_root st, n) \<noteq> None \<longrightarrow> temporary_name n \<or> (\<exists>d. n = artifact_name d \<and> artifact_at sha st (sw_files w) d))
     \<and> (\<forall>i c. sw_calls w i = Some c \<longrightarrow> call_ok sha st (sw_files w) (sc_payload c) (sc_phase c))
     \<and> (\<forall>i j c c' t. sw_calls w i = Some c \<and> sw_calls w j = Some c' \<and> owned_temporary (sc_phase c) = Some t
          \<and> owned_temporary (sc_phase c') = Some t \<longrightarrow> i = j)"

lemma temporary_not_artifact: "sha256_hex d \<Longrightarrow> \<not> temporary_name (artifact_name d)"
  by (cases d) (auto simp: temporary_name_def artifact_name_def sha256_hex_def hex_digit_def)

lemma call_ok_kept:
  assumes "call_ok sha st fs x p" and "\<And>e. fs (lo_root st, artifact_name (sha x)) = Some e \<Longrightarrow> fs' (lo_root st, artifact_name (sha x)) = Some e"
    and "\<And>t. owned_temporary p = Some t \<Longrightarrow> fs' (lo_root st, t) = fs (lo_root st, t)"
  shows "call_ok sha st fs' x p"
  using assms by (cases p) (auto simp: call_ok_def artifact_at_def split: sum.splits)

lemma verified_artifact:
  assumes "artifact_at sha st fs (sha x)" and "storable st x"
  shows "call_ok sha st fs x (Finished (verified_reference sha st fs (artifact_name (sha x)) (sha x)))"
  using assms by (auto simp: call_ok_def artifact_at_def verified_reference_def storable_def)

lemma begin_store_ok: "call_ok sha st fs x (begin_store st x)" "owned_temporary (begin_store st x) = None"
  by (auto simp: begin_store_def call_ok_def storable_def)

lemma check_existing_ok:
  assumes "world_ok sha st w" and "storable st x" and hex: "\<And>x. sha256_hex (sha x)"
  shows "call_ok sha st (sw_files w) x (check_existing sha st (sw_files w) x)" "owned_temporary (check_existing sha st (sw_files w) x) = None"
proof -
  have "artifact_at sha st (sw_files w) (sha x)" if "path_exists (sw_files w) (lo_root st, artifact_name (sha x))"
  proof -
    have "sw_files w (lo_root st, artifact_name (sha x)) \<noteq> None" using that by (auto simp: path_exists_def split: option.splits)
    then obtain d where "artifact_name (sha x) = artifact_name d" "artifact_at sha st (sw_files w) d"
      using assms(1) temporary_not_artifact[OF hex] unfolding world_ok_def by blast
    then show ?thesis by (simp add: artifact_name_def)
  qed
  with assms(2) show "call_ok sha st (sw_files w) x (check_existing sha st (sw_files w) x)"
    by (auto simp: check_existing_def call_ok_def)
qed (simp add: check_existing_def)

text \<open>One call moves, and the files change only at its temporary file or by a new artifact.\<close>

lemma world_ok_step:
  assumes ok: "world_ok sha st w" and i: "sw_calls w i = c0"
    and kept: "\<And>d e. sha256_hex d \<Longrightarrow> sw_files w (lo_root st, artifact_name d) = Some e \<Longrightarrow> fs' (lo_root st, artifact_name d) = Some e"
    and named: "\<And>n. fs' (lo_root st, n) \<noteq> None \<Longrightarrow> sw_files w (lo_root st, n) = None \<Longrightarrow>
      temporary_name n \<or> (\<exists>d. n = artifact_name d \<and> artifact_at sha st fs' d)"
    and others: "\<And>j c t. j \<noteq> i \<Longrightarrow> sw_calls w j = Some c \<Longrightarrow> owned_temporary (sc_phase c) = Some t \<Longrightarrow> fs' (lo_root st, t) = sw_files w (lo_root st, t)"
    and unowned: "\<And>j c t. j \<noteq> i \<Longrightarrow> sw_calls w j = Some c \<Longrightarrow> owned_temporary (sc_phase c) = Some t \<Longrightarrow> owned_temporary p \<noteq> Some t"
    and new: "call_ok sha st fs' x p" and hex: "\<And>x. sha256_hex (sha x)"
  shows "world_ok sha st \<lparr>sw_files = fs', sw_calls = (sw_calls w)(i \<mapsto> \<lparr>sc_payload = x, sc_phase = p\<rparr>)\<rparr>"
proof -
  have artifact: "artifact_at sha st fs' d" if "artifact_at sha st (sw_files w) d" for d
    using that kept[of d] hex unfolding artifact_at_def by metis
  have names: "temporary_name n \<or> (\<exists>d. n = artifact_name d \<and> artifact_at sha st fs' d)" if "fs' (lo_root st, n) \<noteq> None" for n
    using that named ok artifact unfolding world_ok_def by metis
  have calls: "call_ok sha st fs' (sc_payload c) (sc_phase c)" if "j \<noteq> i" "sw_calls w j = Some c" for j c
  proof (rule call_ok_kept)
    show "call_ok sha st (sw_files w) (sc_payload c) (sc_phase c)" using ok that(2) unfolding world_ok_def by blast
  qed (use kept[OF hex] others[OF that] in auto)
  have unique: "j = k" if "sw_calls w j = Some c" "sw_calls w k = Some c'" "owned_temporary (sc_phase c) = Some t" "owned_temporary (sc_phase c') = Some t" for j k c c' t
    using ok that unfolding world_ok_def by blast
  show ?thesis unfolding world_ok_def
  proof (intro conjI allI impI)
    fix j k c c' t
    assume a: "sw_calls \<lparr>sw_files = fs', sw_calls = (sw_calls w)(i \<mapsto> \<lparr>sc_payload = x, sc_phase = p\<rparr>)\<rparr> j = Some c \<and>
       sw_calls \<lparr>sw_files = fs', sw_calls = (sw_calls w)(i \<mapsto> \<lparr>sc_payload = x, sc_phase = p\<rparr>)\<rparr> k = Some c' \<and>
       owned_temporary (sc_phase c) = Some t \<and> owned_temporary (sc_phase c') = Some t"
    then show "j = k" using unique[of j c k c' t] unowned[of j c t] unowned[of k c' t] by (cases "j = i"; cases "k = i") auto
  qed (use names calls new in \<open>auto split: if_splits\<close>)
qed

lemma same_files_step:
  assumes ok: "world_ok sha st w" and new: "call_ok sha st (sw_files w) x p" and "owned_temporary p = None" and hex: "\<And>x. sha256_hex (sha x)"
  shows "world_ok sha st (w\<lparr>sw_calls := (sw_calls w)(i \<mapsto> \<lparr>sc_payload = x, sc_phase = p\<rparr>)\<rparr>)"
  using world_ok_step[OF ok refl, where fs' = "sw_files w" and i = i and x = x and p = p] new assms(3) hex by simp

text \<open>A step that changes the call's own temporary file.\<close>

lemma temporary_step:
  assumes ok: "world_ok sha st w" and t: "temporary_name t" and hex: "\<And>x. sha256_hex (sha x)"
    and mine: "\<And>j c. j \<noteq> i \<Longrightarrow> sw_calls w j = Some c \<Longrightarrow> owned_temporary (sc_phase c) \<noteq> Some t"
    and new: "call_ok sha st ((sw_files w)((lo_root st, t) := e)) x p" and own: "owned_temporary p = None \<or> owned_temporary p = Some t"
  shows "world_ok sha st \<lparr>sw_files = (sw_files w)((lo_root st, t) := e), sw_calls = (sw_calls w)(i \<mapsto> \<lparr>sc_payload = x, sc_phase = p\<rparr>)\<rparr>"
proof (rule world_ok_step[OF ok refl _ _ _ _ new hex])
  show "((sw_files w)((lo_root st, t) := e)) (lo_root st, artifact_name d) = Some f" if "sha256_hex d" "sw_files w (lo_root st, artifact_name d) = Some f" for d f
    using that t temporary_not_artifact[of d] by auto
qed (use t mine own in \<open>auto split: if_splits\<close>)

lemma owned_alone:
  assumes "world_ok sha st w" and "sw_calls w i = Some c" and "owned_temporary (sc_phase c) = Some t"
  shows "j \<noteq> i \<Longrightarrow> sw_calls w j = Some c' \<Longrightarrow> owned_temporary (sc_phase c') \<noteq> Some t"
  using assms unfolding world_ok_def by metis

lemma owned_exists:
  assumes "world_ok sha st w" and "sw_calls w i = Some c" and "owned_temporary (sc_phase c) = Some t"
  shows "sw_files w (lo_root st, t) \<noteq> None" and "temporary_name t"
proof -
  have "call_ok sha st (sw_files w) (sc_payload c) (sc_phase c)" using assms(1,2) unfolding world_ok_def by blast
  then show "sw_files w (lo_root st, t) \<noteq> None" "temporary_name t"
    using assms(3) by (cases "sc_phase c"; auto simp: call_ok_def)+
qed

lemma store_step_ok:
  assumes ok: "world_ok sha st w" and hex: "\<And>x. sha256_hex (sha x)" and step: "store_step sha st w w'"
  shows "world_ok sha st w'"
proof -
  have now: "call_ok sha st (sw_files w) (sc_payload c) (sc_phase c)" if "sw_calls w i = Some c" for i c
    using ok that unfolding world_ok_def by blast
  from step show ?thesis
  proof (cases rule: store_step.cases)
    case (Begin i x)
    then show ?thesis using same_files_step[OF ok begin_store_ok hex] by simp
  next
    case (Check i x)
    with now[of i] have "storable st x" by (auto simp: call_ok_def)
    with Check show ?thesis using same_files_step[OF ok check_existing_ok[OF ok _ hex] hex] by simp
  next
    case (Create i x t)
    with now[of i] have "storable st x" by (auto simp: call_ok_def)
    moreover have "owned_temporary (sc_phase c) \<noteq> Some t" if "sw_calls w j = Some c" for j c
      using owned_exists(1)[OF ok that] Create(4) by blast
    ultimately show ?thesis using Create temporary_step[OF ok Create(3) hex, where i = i and e = "Some (Regular [])" and x = x and p = "Writing t"]
      by (auto simp: call_ok_def)
  next
    case (Write i x t k)
    have t: "temporary_name t" and "storable st x" using now[OF Write(2)] by (auto simp: call_ok_def)
    from Write temporary_step[OF ok t hex owned_alone[OF ok Write(2)], where e = "Some (Regular (take k x))" and x = x and p = "Writing t"] this
    have "world_ok sha st \<lparr>sw_files = (sw_files w)((lo_root st, t) \<mapsto> Regular (take k x)),
        sw_calls = (sw_calls w)(i \<mapsto> \<lparr>sc_payload = x, sc_phase = Writing t\<rparr>)\<rparr>"
      by (auto simp: call_ok_def)
    moreover have "(sw_calls w)(i \<mapsto> \<lparr>sc_payload = x, sc_phase = Writing t\<rparr>) = sw_calls w" using Write(2) by auto
    ultimately show ?thesis using Write(1) by simp
  next
    case (Sync i x t)
    have t: "temporary_name t" and "storable st x" using now[OF Sync(2)] by (auto simp: call_ok_def)
    with temporary_step[OF ok t hex owned_alone[OF ok Sync(2)], where e = "Some (Regular x)" and x = x and p = "Synced t"] Sync(1)
    show ?thesis by (auto simp: call_ok_def)
  next
    case (Link i x t)
    have mine: "storable st x" "temporary_name t" "sw_files w (lo_root st, t) = Some (Regular x)" using now[OF Link(2)] by (auto simp: call_ok_def)
    let ?fs = "link_artifact st (sw_files w) t (artifact_name (sha x))"
    have artifact: "artifact_at sha st ?fs (sha x)"
    proof (cases "sw_files w (lo_root st, artifact_name (sha x)) = None")
      case True
      with mine show ?thesis by (simp add: link_artifact_def artifact_at_def)
    next
      case False
      with ok temporary_not_artifact[OF hex, of x] obtain d where "artifact_name (sha x) = artifact_name d" "artifact_at sha st (sw_files w) d"
        unfolding world_ok_def by blast
      with False show ?thesis by (simp add: link_artifact_def artifact_name_def)
    qed
    have "world_ok sha st \<lparr>sw_files = ?fs, sw_calls = (sw_calls w)(i \<mapsto> \<lparr>sc_payload = x, sc_phase = Linked t\<rparr>)\<rparr>"
    proof (rule world_ok_step[OF ok refl])
      show "temporary_name n \<or> (\<exists>d. n = artifact_name d \<and> artifact_at sha st ?fs d)"
        if "?fs (lo_root st, n) \<noteq> None" "sw_files w (lo_root st, n) = None" for n
        using that artifact by (auto simp: link_artifact_def split: if_splits)
      show "?fs (lo_root st, u) = sw_files w (lo_root st, u)" if "j \<noteq> i" "sw_calls w j = Some c" "owned_temporary (sc_phase c) = Some u" for j c u
        using owned_exists(2)[OF ok that(2,3)] temporary_not_artifact[OF hex, of x] by (auto simp: link_artifact_def)
      show "owned_temporary (Linked t) \<noteq> Some u" if "j \<noteq> i" "sw_calls w j = Some c" "owned_temporary (sc_phase c) = Some u" for j c u
        using owned_alone[OF ok Link(2), of t j c] that by auto
      show "call_ok sha st ?fs x (Linked t)"
        using mine artifact temporary_not_artifact[OF hex, of x] by (auto simp: call_ok_def link_artifact_def)
    qed (auto simp: link_artifact_def hex)
    with Link(1) show ?thesis by simp
  next
    case (Unlink i x t)
    have mine: "storable st x" "temporary_name t" "artifact_at sha st (sw_files w) (sha x)" using now[OF Unlink(2)] by (auto simp: call_ok_def)
    then have "artifact_at sha st ((sw_files w)((lo_root st, t) := None)) (sha x)"
      using temporary_not_artifact[OF hex, of x] by (auto simp: artifact_at_def)
    with temporary_step[OF ok mine(2) hex owned_alone[OF ok Unlink(2)], where e = None and x = x and p = Verifying] mine Unlink(1)
    show ?thesis by (auto simp: call_ok_def)
  next
    case (Verify i x)
    have "storable st x" "artifact_at sha st (sw_files w) (sha x)" using now[OF Verify(2)] by (auto simp: call_ok_def)
    with same_files_step[OF ok verified_artifact _ hex] Verify(1) show ?thesis by simp
  next
    case (Crash i)
    have "world_ok sha st (w\<lparr>sw_calls := (sw_calls w)(i := None)\<rparr>)"
      using ok unfolding world_ok_def by (auto split: if_splits)
    with Crash show ?thesis by simp
  qed
qed

lemma reachable_world_ok: "reachable_world sha st w \<Longrightarrow> (\<And>x. sha256_hex (sha x)) \<Longrightarrow> world_ok sha st w"
proof (induction rule: reachable_world.induct)
  case Empty
  show ?case by (simp add: world_ok_def empty_world_def)
next
  case (Step w w')
  then show ?case by (blast intro: store_step_ok)
qed

section \<open>File URIs\<close>

lemma unquote_url_cons: "c \<noteq> CHR ''%'' \<Longrightarrow> unquote_url (c # cs) = c # unquote_url cs"
  by (cases cs rule: unquote_url.cases) auto

lemma hex_value_upper: "n < 16 \<Longrightarrow> hex_value (upper_hex n) = Some n"
  by (simp add: hex_value_def upper_hex_def code_of_def Let_def)

lemma code_of_bound: "code_of c < 256"
  by (simp add: code_of_def nat_of_char_less_256)

text \<open>A quoted text is unquoted to itself.\<close>

lemma unquote_quote: "CHR ''%'' \<notin> set safe \<Longrightarrow> unquote_url (quote_url s safe) = s"
proof (induction s)
  case (Cons c cs)
  show ?case
  proof (cases "unreserved c \<or> c \<in> set safe")
    case True
    then have "c \<noteq> CHR ''%''" using Cons.prems by (auto simp: unreserved_def is_letter_def is_digit_def code_of_def)
    with True Cons show ?thesis by (simp add: quote_url_def unquote_url_cons)
  next
    case False
    have "code_of c div 16 < 16" using code_of_bound[of c] by simp
    then have "hex_value (upper_hex (code_of c div 16)) = Some (code_of c div 16)" "hex_value (upper_hex (code_of c mod 16)) = Some (code_of c mod 16)"
      by (simp_all add: hex_value_upper)
    moreover have "char_of (16 * (code_of c div 16) + code_of c mod 16) = c" by (simp add: code_of_def)
    ultimately show ?thesis using False Cons by (simp add: quote_url_def)
  qed
qed (simp add: quote_url_def)

lemma quoted_chars: "c \<in> set (quote_url s ''/'') \<Longrightarrow> 32 < code_of c \<and> c \<notin> set ''?#''"
proof -
  assume "c \<in> set (quote_url s ''/'')"
  then consider "unreserved c" | "c = CHR ''/''" | "c = CHR ''%''" | n where "c = upper_hex n" "n < 16"
  proof -
    have "code_of d div 16 < 16" "code_of d mod 16 < 16" for d using code_of_bound[of d] by simp_all
    with \<open>c \<in> _\<close> that show ?thesis by (fastforce simp: quote_url_def split: if_splits)
  qed
  then show ?thesis
  proof cases
    case (4 n)
    then have "code_of c = (if n < 10 then 48 + n else 55 + n)" by (simp add: upper_hex_def code_of_def)
    then have "32 < code_of c" "code_of c \<noteq> 63" "code_of c \<noteq> 35" using 4(2) by (auto split: if_splits)
    then show ?thesis by (auto simp: code_of_def)
  qed (auto simp: unreserved_def is_letter_def is_digit_def code_of_def Let_def)
qed

text \<open>What the store relies on: the root is an absolute real path, and a plain name below it is found there.\<close>

definition rooted :: "(string \<Rightarrow> (string \<times> string) option) \<Rightarrow> local_store \<Rightarrow> bool" where
  "rooted locate st \<longleftrightarrow> take 1 (lo_root st) = ''/''
     \<and> (\<forall>n. CHR ''/'' \<notin> set n \<and> n \<noteq> [] \<longrightarrow> locate (lo_root st @ ''/'' @ n) = Some (lo_root st, n))"

lemma file_uri_parsed:
  assumes "take 1 directory = ''/''"
  shows "\<exists>parsed. urlparse ok (file_uri directory name) = Inr parsed \<and> url_scheme parsed = ''file'' \<and> url_netloc parsed = []
    \<and> unquote_url (url_path parsed) = directory @ ''/'' @ name"
proof -
  let ?p = "directory @ ''/'' @ name"
  obtain rest where rest: "?p = CHR ''/'' # rest" using assms by (cases directory) auto
  have quoted: "quote_url ?p ''/'' = CHR ''/'' # quote_url rest ''/''" unfolding rest by (simp add: quote_url_def)
  have chars: "32 < code_of c \<and> c \<notin> set ''?#''" if "c \<in> set (quote_url rest ''/'')" for c using quoted_chars[OF that] .
  have "urlparse ok (''file'' @ ''://'' @ [] @ CHR ''/'' # quote_url rest ''/'')
      = Inr \<lparr>url_scheme = ''file'', url_netloc = [], url_path = CHR ''/'' # quote_url rest ''/'', url_query = [], url_fragment = []\<rparr>"
  proof (rule urlparse_built[where c = "CHR ''f''" and cs = "''ile''"])
    show "list_all (\<lambda>c. 32 < code_of c) (''file'' @ [] @ quote_url rest ''/'')" using chars by (auto simp: list_all_iff code_of_def)
    show "set (quote_url rest ''/'') \<inter> set ''?#'' = {}" using chars by blast
  qed (simp_all add: is_letter_def scheme_char_def is_digit_def to_lower_def code_of_def)
  moreover have "file_uri directory name = ''file'' @ ''://'' @ [] @ CHR ''/'' # quote_url rest ''/''" by (simp only: file_uri_def quoted) simp
  moreover have "unquote_url (CHR ''/'' # quote_url rest ''/'') = ?p"
    using unquote_quote[of "''/''" ?p] quoted by simp
  ultimately show ?thesis by auto
qed

lemma load_local_stored:
  assumes "rooted locate st" and "sha256_hex d" and "fs (lo_root st, artifact_name d) = Some (Regular y)" and "sha y = d" and "storable st y"
  shows "load_local ok sha locate st fs \<lparr>ar_uri = file_uri (lo_root st) (artifact_name d), ar_sha256 = d, ar_size_bytes = int (length y)\<rparr> = Inr y"
proof -
  obtain parsed where parsed: "urlparse ok (file_uri (lo_root st) (artifact_name d)) = Inr parsed" "url_scheme parsed = ''file''"
    "url_netloc parsed = []" "unquote_url (url_path parsed) = lo_root st @ ''/'' @ artifact_name d"
    using file_uri_parsed[of "lo_root st"] assms(1) unfolding rooted_def by blast
  have "CHR ''/'' \<notin> set (artifact_name d)" "artifact_name d \<noteq> []"
    using assms(2) by (auto simp: artifact_name_def sha256_hex_def list_all_iff hex_digit_def)
  then have "locate (lo_root st @ ''/'' @ artifact_name d) = Some (lo_root st, artifact_name d)" using assms(1) by (simp add: rooted_def)
  with parsed assms show ?thesis by (simp add: load_local_def storable_def)
qed

text \<open>C11: Storing survives crashes and races.  However any number of store calls interleave, and whichever of them die midway, every
  file under a digest name holds a complete payload of that digest within the size limit, and anything else in the store is a
  temporary file; and a call that came to its end raised exactly when its payload is empty or too large, and otherwise
  returned a reference that loads, then and ever after, a payload with the digest of the one that was stored.\<close>

theorem storing_survives_crashes_and_races:
  assumes "reachable_world sha st w" and "\<And>x. sha256_hex (sha x)" and "rooted locate st"
  shows "(\<forall>n e. sw_files w (lo_root st, n) = Some e \<longrightarrow> temporary_name n
        \<or> (\<exists>y. n = artifact_name (sha y) \<and> e = Regular y \<and> y \<noteq> [] \<and> int (length y) \<le> lo_maximum_size_bytes st))
    \<and> (\<forall>i x outcome. sw_calls w i = Some \<lparr>sc_payload = x, sc_phase = Finished outcome\<rparr> \<longrightarrow>
         (if x = [] \<or> int (length x) > lo_maximum_size_bytes st then \<exists>e. outcome = Inl e
          else \<exists>r y. outcome = Inr r \<and> load_local ok sha locate st (sw_files w) r = Inr y \<and> sha y = sha x))"
proof -
  have inv: "world_ok sha st w" using reachable_world_ok[OF assms(1,2)] .
  have "temporary_name n \<or> (\<exists>y. n = artifact_name (sha y) \<and> e = Regular y \<and> y \<noteq> [] \<and> int (length y) \<le> lo_maximum_size_bytes st)"
    if "sw_files w (lo_root st, n) = Some e" for n e
    using inv that unfolding world_ok_def artifact_at_def storable_def by (metis option.distinct(1) option.inject)
  moreover have "if x = [] \<or> int (length x) > lo_maximum_size_bytes st then \<exists>e. outcome = Inl e
      else \<exists>r y. outcome = Inr r \<and> load_local ok sha locate st (sw_files w) r = Inr y \<and> sha y = sha x"
    if "sw_calls w i = Some \<lparr>sc_payload = x, sc_phase = Finished outcome\<rparr>" for i x outcome
  proof -
    have now: "call_ok sha st (sw_files w) x (Finished outcome)" using inv that unfolding world_ok_def by fastforce
    show ?thesis
    proof (cases outcome)
      case (Inl e)
      with now show ?thesis by (auto simp: call_ok_def storable_def)
    next
      case (Inr r)
      with now obtain y where y: "storable st x" "sw_files w (lo_root st, artifact_name (sha x)) = Some (Regular y)" "sha y = sha x" "storable st y"
        "r = \<lparr>ar_uri = file_uri (lo_root st) (artifact_name (sha x)), ar_sha256 = sha x, ar_size_bytes = int (length y)\<rparr>"
        by (auto simp: call_ok_def artifact_at_def)
      from load_local_stored[where fs = "sw_files w" and d = "sha x" and sha = sha, OF assms(3) assms(2) y(2,3,4)] y Inr show ?thesis by (auto simp: storable_def)
    qed
  qed
  ultimately show ?thesis by blast
qed

text \<open>One call dies after writing half of its temporary file, a second stores the same payload.\<close>

definition sample_store :: local_store where
  "sample_store = \<lparr>lo_root = ''/data'', lo_maximum_size_bytes = 9\<rparr>"

definition sample_locate :: "string \<Rightarrow> (string \<times> string) option" where
  "sample_locate p = (if take 6 p = ''/data/'' then Some (''/data'', drop 6 p) else None)"

definition sample_files :: filesystem where
  "sample_files = [(''/data'', ''.artifact-1'') \<mapsto> Regular ''a'', (''/data'', artifact_name (zero_hash [])) \<mapsto> Regular ''ab'']"

lemma sample_store_reachable:
  "\<exists>w. reachable_world zero_hash sample_store w \<and> sw_files w = sample_files
    \<and> sw_calls w 2 = Some \<lparr>sc_payload = ''ab'', sc_phase = Finished (verified_reference zero_hash sample_store sample_files (artifact_name (zero_hash [])) (zero_hash []))\<rparr>"
proof -
  have z: "zero_hash ''ab'' = zero_hash []" "artifact_name (zero_hash []) \<noteq> ''.artifact-1''" "artifact_name (zero_hash []) \<noteq> ''.artifact-2''"
    by (simp_all add: zero_hash_def artifact_name_def numeral_eq_Suc)
  let ?d = "(''/data'', artifact_name (zero_hash []))"
  let ?call = "\<lambda>p. \<lparr>sc_payload = ''ab'', sc_phase = p\<rparr>"
  let ?R = "\<lambda>fs calls. reachable_world zero_hash sample_store \<lparr>sw_files = fs, sw_calls = calls\<rparr>"
  note step = reachable_world.Step and simps = sample_store_def begin_store_def check_existing_def path_exists_def temporary_name_def link_artifact_def z
  have "?R Map.empty Map.empty" using reachable_world.Empty by (simp add: empty_world_def)
  from step[OF this store_step.Begin[where i = 1 and x = "''ab''"]] have "?R Map.empty [1 \<mapsto> ?call Started]" by (simp add: simps)
  from step[OF this store_step.Check[where i = 1]] have "?R Map.empty [1 \<mapsto> ?call Absent]" by (simp add: simps)
  from step[OF this store_step.Create[where i = 1 and t = "''.artifact-1''"]]
  have "?R [(''/data'', ''.artifact-1'') \<mapsto> Regular []] [1 \<mapsto> ?call (Writing ''.artifact-1'')]" by (simp add: simps)
  from step[OF this store_step.Write[where i = 1 and k = 1]]
  have "?R [(''/data'', ''.artifact-1'') \<mapsto> Regular ''a''] [1 \<mapsto> ?call (Writing ''.artifact-1'')]" by (simp add: simps)
  from step[OF this store_step.Crash[where i = 1]] have "?R [(''/data'', ''.artifact-1'') \<mapsto> Regular ''a''] Map.empty" by simp
  from step[OF this store_step.Begin[where i = 2 and x = "''ab''"]] have "?R [(''/data'', ''.artifact-1'') \<mapsto> Regular ''a''] [2 \<mapsto> ?call Started]" by (simp add: simps)
  from step[OF this store_step.Check[where i = 2]] have "?R [(''/data'', ''.artifact-1'') \<mapsto> Regular ''a''] [2 \<mapsto> ?call Absent]" by (simp add: simps)
  from step[OF this store_step.Create[where i = 2 and t = "''.artifact-2''"]]
  have "?R [(''/data'', ''.artifact-1'') \<mapsto> Regular ''a'', (''/data'', ''.artifact-2'') \<mapsto> Regular []] [2 \<mapsto> ?call (Writing ''.artifact-2'')]" by (simp add: simps)
  from step[OF this store_step.Sync[where i = 2]]
  have "?R [(''/data'', ''.artifact-1'') \<mapsto> Regular ''a'', (''/data'', ''.artifact-2'') \<mapsto> Regular ''ab''] [2 \<mapsto> ?call (Synced ''.artifact-2'')]" by (simp add: simps)
  from step[OF this store_step.Link[where i = 2]]
  have "?R [(''/data'', ''.artifact-1'') \<mapsto> Regular ''a'', (''/data'', ''.artifact-2'') \<mapsto> Regular ''ab'', ?d \<mapsto> Regular ''ab''] [2 \<mapsto> ?call (Linked ''.artifact-2'')]"
    by (simp add: simps)
  moreover have "[(''/data'', ''.artifact-1'') \<mapsto> Regular ''a'', (''/data'', ''.artifact-2'') \<mapsto> Regular ''ab'', ?d \<mapsto> Regular ''ab'']
      = sample_files((''/data'', ''.artifact-2'') \<mapsto> Regular ''ab'')"
    by (auto simp: sample_files_def z fun_eq_iff)
  ultimately have linked: "?R (sample_files((''/data'', ''.artifact-2'') \<mapsto> Regular ''ab'')) [2 \<mapsto> ?call (Linked ''.artifact-2'')]"
    by (simp only:)
  have gone: "sample_files((''/data'', ''.artifact-2'') := None) = sample_files"
    by (simp add: sample_files_def z fun_eq_iff)
  from step[OF linked store_step.Unlink[where i = 2 and x = "''ab''" and t = "''.artifact-2''"]]
  have "?R sample_files [2 \<mapsto> ?call Verifying]" by (simp add: sample_store_def gone)
  from step[OF this store_step.Verify[where i = 2]] show ?thesis by (auto simp: z)
qed

lemma sample_rooted: "rooted sample_locate sample_store"
  by (simp add: rooted_def sample_store_def sample_locate_def)

theorem storing_survives_crashes_and_races_witness:
  "\<exists>w r y. reachable_world zero_hash sample_store w \<and> sw_files w = sample_files
    \<and> sw_calls w 2 = Some \<lparr>sc_payload = ''ab'', sc_phase = Finished (Inr r)\<rparr>
    \<and> load_local (\<lambda>_. False) zero_hash sample_locate sample_store (sw_files w) r = Inr y"
proof -
  obtain w where w: "reachable_world zero_hash sample_store w" "sw_files w = sample_files"
    "sw_calls w 2 = Some \<lparr>sc_payload = ''ab'', sc_phase = Finished (verified_reference zero_hash sample_store sample_files (artifact_name (zero_hash [])) (zero_hash []))\<rparr>"
    using sample_store_reachable by blast
  from storing_survives_crashes_and_races[OF w(1) zero_hash_hex sample_rooted] w(3)
  have "\<exists>r y. verified_reference zero_hash sample_store sample_files (artifact_name (zero_hash [])) (zero_hash []) = Inr r
      \<and> load_local (\<lambda>_. False) zero_hash sample_locate sample_store (sw_files w) r = Inr y"
    by (fastforce simp: sample_store_def)
  with w show ?thesis by metis
qed

end
