(* ===== verification/Dispatch.thy ===== *)
theory Dispatch
  imports Risk_Persistence Broker_Adapters
begin

text \<open>
  From a decision to the broker: what the risk authority (\<open>packages/risk_engine/persistence.py\<close>) and the gate of the broker
  adapters (\<open>packages/broker_adapters/base.py\<close>) promise together.
\<close>

lemma dispatched_order:
  assumes "fst (dhan_place_order float_of render send da order risk) \<noteq> [] \<or> fst (upstox_place_order float_of render send ua order risk) \<noteq> []"
  shows "rd_order_intent_id risk = bo_order_intent_id order" "rd_outcome risk \<noteq> risk_outcome.REJECTED"
    "rd_approved_quantity risk = bo_quantity order"
  using assms dhan.requests_are_admitted[of float_of render send da order risk] upstox.requests_are_admitted[of float_of render send ua order risk]
  by (auto simp: dhan.admitted_def upstox.admitted_def)

text \<open>C4: What is sent to a broker is within the budgets in force.  When an entry order leaves for Dhan or Upstox on a decision that the persisted risk
  authority made for a new intent, then the order is for that intent, the kill switch was off, and under the limits in force at the evaluation the
  quantity sent is positive and no more than was asked for, loses at its stop at most the per-trade fraction of the equity, and adds at most
  the remaining exposure of the instrument; and whatever the authority does later, the approval stays on record.\<close>

theorem dispatched_entries_are_within_budgets:
  assumes decided: "authority_evaluate_persisted col fp dig fresh db i c reference stop = Inr (db', risk)"
    and new: "risk_decisions db (intent_id i) = None" and entry: "\<not> intent_is_exit i"
    and sent: "fst (dhan_place_order float_of render send da order risk) \<noteq> [] \<or> fst (upstox_place_order float_of render send ua order risk) \<noteq> []"
  shows "bo_order_intent_id order = intent_id i \<and> \<not> killed db \<and> 0 < bo_quantity order \<and> bo_quantity order \<le> intent_quantity i
    \<and> (\<exists>cfg price. load_configuration dig db (intent_account_id i) (Aware (evaluated_at c)) = Inr cfg \<and> stop = Some price
        \<and> bo_quantity order * dabs (dsub reference price) \<le> equity c * maximum_risk_per_trade_fraction (cfg_limits cfg) * (1 + rel_eps)\<^sup>2
        \<and> bo_quantity order * reference
            \<le> max 0 (dsub (equity_ceiling c (maximum_instrument_exposure_fraction (cfg_limits cfg))) (dabs (instrument_exposure c))) * (1 + rel_eps))
    \<and> (\<exists>row. risk_decisions (foldl (risk_exec col fp dig) db' ops) (intent_id i) = Some row
        \<and> rrow_outcome row = risk_outcome_value (rd_outcome risk) \<and> rrow_approved_quantity row = col (bo_quantity order))"
proof -
  note order = dispatched_order[OF sent]
  obtain cfg where cfg: "load_configuration dig db (intent_account_id i) (Aware (evaluated_at c)) = Inr cfg"
    and d: "evaluate_order_risk fresh (persisted_request i c cfg reference stop) = Inr risk"
    and row: "risk_decisions db' (intent_id i) = Some (row_of_decision col (fp (persisted_request i c cfg reference stop)) i risk)"
    using persisted_decision[OF decided new] by blast
  have limits: "make_risk_limits (cfg_limits cfg) = Inr (cfg_limits cfg)" using loaded_limits_are_newest_effective[OF cfg] by blast
  obtain price where "stop = Some price" "entry_locks (c\<lparr>kill_switch_enabled := kill_switch_enabled c \<or> cfg_kill_switch_enabled cfg\<rparr>) (cfg_limits cfg) = []"
    and budgets: "0 < bo_quantity order" "bo_quantity order \<le> intent_quantity i"
      "bo_quantity order * dabs (dsub reference price) \<le> equity c * maximum_risk_per_trade_fraction (cfg_limits cfg) * (1 + rel_eps)\<^sup>2"
      "bo_quantity order * reference
         \<le> max 0 (dsub (equity_ceiling c (maximum_instrument_exposure_fraction (cfg_limits cfg))) (dabs (instrument_exposure c))) * (1 + rel_eps)"
    using accepted_entry[OF d order(2), of "cfg_limits cfg"] entry limits unfolding order(3) by (auto simp: equity_ceiling_def)
  moreover from this have "\<not> killed db" using killed_configuration[OF _ cfg] by (fastforce simp: entry_locks_Nil clear_to_enter_def)
  moreover have "bo_order_intent_id order = intent_id i" using evaluate_order_risk_intent[OF d] order(1) by simp
  moreover have "risk_decisions (foldl (risk_exec col fp dig) db' ops) (intent_id i)
      = Some (row_of_decision col (fp (persisted_request i c cfg reference stop)) i risk)"
    by (rule ledger.run_keeps[OF row])
  ultimately show ?thesis using cfg order(3) by (auto simp: row_of_decision_def)
qed

definition unit_limits :: risk_limits where
  "unit_limits = \<lparr>policy_version = ''persisted-d'', maximum_risk_per_trade_fraction = 1,
     maximum_daily_loss_fraction = 1, maximum_open_positions = 1,
     maximum_instrument_exposure_fraction = 1, maximum_quote_age_seconds = 1,
     maximum_spread_bps = 25, maximum_weekly_loss_fraction = 1, maximum_drawdown_fraction = 1,
     maximum_gross_exposure_fraction = 1, maximum_net_exposure_fraction = 1,
     maximum_orders_per_minute = 1, maximum_consecutive_losses = 1,
     maximum_sector_exposure_fraction = 1, maximum_strategy_allocation_fraction = 1,
     maximum_slippage_bps = 1, maximum_options_exposure = 1,
     maximum_portfolio_delta = 1, maximum_portfolio_gamma = 1\<rparr>"

lemma unit_limits_loaded:
  "load_configuration (\<lambda>_. ''d'') sample_limits_db 2 (Aware 50)
     = Inr \<lparr>cfg_limits = unit_limits, cfg_kill_switch_enabled = False, cfg_kill_switch_reason = ''not configured''\<rparr>"
proof -
  have v: "(\<lambda>k. lim_value (if k = MAXIMUM_SPREAD_BPS then sample_limit_row k 10 25 else sample_limit_row k 0 1))
      = (\<lambda>k. if k = MAXIMUM_SPREAD_BPS then 25 else 1)"
    by (rule ext) (simp add: sample_limit_row_def)
  have "limits_of_rows ''persisted-d'' (\<lambda>k. if k = MAXIMUM_SPREAD_BPS then 25 else 1) = Inr unit_limits"
    by (simp add: limits_of_rows_def whole_number_def dint_def make_risk_limits_def limit_fractions_def blank_def is_space_def of_char_def unit_limits_def)
  moreover have "safety_state sample_limits_db kill_switch_key = None" by (simp add: sample_limits_db_def empty_risk_db_def)
  ultimately show ?thesis unfolding load_configuration_row[OF allI[OF sample_latest]] v by auto
qed

definition dispatched_decision :: risk_decision where
  "dispatched_decision = \<lparr>rd_id = 5, rd_order_intent_id = 11, rd_timestamp = 50, rd_outcome = risk_outcome.APPROVED,
     rd_approved_quantity = 30, rd_reason_codes = [''APPROVED''], rd_policy_version = ''persisted-d''\<rparr>"

definition dispatched_request :: broker_order_request where
  "dispatched_request = \<lparr>bo_order_intent_id = 11, bo_client_order_id = ''c1'', bo_instrument_key = ''NSE:11536'', bo_side = BUY,
    bo_order_type = MARKET, bo_quantity = 30, bo_product = ''D'', bo_validity = ''DAY'', bo_price = 0, bo_trigger_price = 0,
    bo_disclosed_quantity = 0, bo_after_market = False\<rparr>"

lemma unit_evaluation:
  "evaluate_order_risk 5 (persisted_request sample_intent (sample_context\<lparr>evaluated_at := 50\<rparr>)
     \<lparr>cfg_limits = unit_limits, cfg_kill_switch_enabled = False, cfg_kill_switch_reason = ''not configured''\<rparr> 100 (Some 95)) = Inr dispatched_decision"
  (is "evaluate_order_risk 5 ?rq = _")
proof -
  have locks: "entry_locks (req_context ?rq) unit_limits = []"
    by (simp add: entry_locks_def unit_limits_def sample_context_def flag_def spread_bps_def equity_ceiling_def dec_eval seconds_def)
  have "size_entry 5 ?rq 5 = Inr dispatched_decision"
    by (simp add: size_entry_def risk_quantity_def exposure_quantity_def sample_intent_def sample_context_def unit_limits_def dispatched_decision_def
        equity_ceiling_def dec_eval risk_outcome_decision_Inr)
  then have "evaluate_entry 5 ?rq = Inr dispatched_decision"
    using locks by (simp add: evaluate_entry_def projected_exposures_def equity_ceiling_def sample_intent_def sample_context_def unit_limits_def dec_eval)
  then show ?thesis by (simp add: evaluate_order_risk_def sample_intent_def sample_context_def unit_limits_def)
qed

theorem dispatched_entries_are_within_budgets_witness:
  "\<exists>db' q. authority_evaluate_persisted numeric_8 (\<lambda>_. ''print'') (\<lambda>_. ''d'') 5 sample_limits_db sample_intent
        (sample_context\<lparr>evaluated_at := 50\<rparr>) 100 (Some 95) = Inr (db', dispatched_decision)
     \<and> fst (dhan_place_order id (\<lambda>_. []) (\<lambda>_. Inl (RuntimeError ''down'')) \<lparr>dh_client_id = ''k'', dh_headers = [], dh_authorizer = Some (\<lambda>_ _. Inr ())\<rparr>
          dispatched_request dispatched_decision) = [q]
     \<and> \<not> killed sample_limits_db \<and> bo_quantity dispatched_request \<le> intent_quantity sample_intent"
proof -
  let ?c = "sample_context\<lparr>evaluated_at := 50\<rparr>"
  let ?sent = "fst (dhan_place_order id (\<lambda>_. []) (\<lambda>_. Inl (RuntimeError ''down'')) \<lparr>dh_client_id = ''k'', dh_headers = [], dh_authorizer = Some (\<lambda>_ _. Inr ())\<rparr>
          dispatched_request dispatched_decision)"
  have new: "risk_decisions sample_limits_db (intent_id sample_intent) = None" by (simp add: sample_limits_db_def empty_risk_db_def)
  have "load_configuration (\<lambda>_. ''d'') sample_limits_db (intent_account_id sample_intent) (Aware (evaluated_at ?c))
      = Inr \<lparr>cfg_limits = unit_limits, cfg_kill_switch_enabled = False, cfg_kill_switch_reason = ''not configured''\<rparr>"
    using unit_limits_loaded by (simp add: sample_intent_def)
  then obtain db' where decided: "authority_evaluate_persisted numeric_8 (\<lambda>_. ''print'') (\<lambda>_. ''d'') 5 sample_limits_db sample_intent ?c 100 (Some 95)
      = Inr (db', dispatched_decision)"
    using unit_evaluation new by (simp add: authority_evaluate_persisted_def authority_evaluate_def dispatched_decision_def sample_intent_def)
  obtain q where q: "?sent = [q]"
    by (simp add: dhan_place_order_def authorize_dispatch_def validate_risk_approval_def dispatched_request_def dispatched_decision_def)
  have entry: "\<not> intent_is_exit sample_intent" by (simp add: sample_intent_def)
  show ?thesis
    using dispatched_entries_are_within_budgets[OF decided new entry, where order = dispatched_request and float_of = id and render = "\<lambda>_. []"
        and send = "\<lambda>_. Inl (RuntimeError ''down'')" and da = "\<lparr>dh_client_id = ''k'', dh_headers = [], dh_authorizer = Some (\<lambda>_ _. Inr ())\<rparr>"]
      decided q by auto
qed

end
