(* ===== verification/Spec2Isabelle.thy ===== *)
theory Spec2Isabelle
  imports Execution_Repository Reconciliation Risk_Persistence Paper_Broker Backtest_Engine
    Backtest_Validation Backtest_Reporting Replay_Tasks Market_Data Market_Aggregation Smc_Analysis
    Option_Persistence Access_Control Broker_Adapters Indicator_Claims
    Model_Registry_Laws Artifact_Store Market_Api_Laws Replay_Api_Laws Portable_Model Model_Tracking
    Domain_Contracts Schema_Contract Api_Service Observability Local_Artifacts Dispatch
begin

text \<open>
  Verification of the Bharat Trading Platform: the Python packages under \<open>src/packages\<close>, the HTTP services
  under \<open>src/apps/api\<close> and the database migrations under \<open>src/infra/migrations\<close>.

  The program.  Market data providers deliver raw candles; intake validates and stores them
  (\<open>market_data\<close>), aggregation builds higher timeframes, the market-structure engine
  (\<open>smc_ict\<close>), the indicators, the regime classifier and the strategies turn them into signals, and the
  decision engine weighs them; option chains are analysed and stored beside them.  An order intent is judged by
  the risk engine, whose decision is persisted once and guarded by a persistent kill switch; orders live in an
  event-sourced state machine stored in two tables, are reconciled with the broker, leave for a broker only through a gate
  that checks the risk decision, and are otherwise filled by the paper broker, which keeps cash, positions, fills and
  snapshots.  The backtesting engine runs a strategy over history with the same costs, and its validation and
  reporting analyse the result.  Models are trained on what was known before a cutoff, kept in a
  registry and in content-addressed artifact stores.  Replay serves a stored dataset one closed candle at a time to a
  session, driven by a coordinator, a scheduler and a task manager.  The HTTP services put authentication and roles before
  all of it, and the database schema is built by a chain of migrations.

  Theories and sources.
  \<^item> \<open>Prelude\<close>: exceptions as the sum \<open>pyerror + 'a\<close>, sequencing (\<open>rbind\<close>, \<open>rfold\<close>, \<open>rmap\<close>),
    instants, identifiers, dicts of lists.  \<open>Decimals\<close>: \<open>decimal.Decimal\<close> at precision 28.
    \<open>Float_Ops\<close>: binary floating point as a record of operations.  \<open>Urls\<close>: \<open>urllib.parse\<close> on ASCII text.
    \<open>Domain\<close>, \<open>Option_Chain\<close>, \<open>Domain_Contracts\<close>: the models of \<open>domain/models.py\<close>.
    \<open>Market_Clock\<close>: Indian dates and times.
  \<^item> \<open>Event_Machine\<close> (a locale of deterministic machines with a log), \<open>Order_State_Machine\<close>
    (\<open>execution/state_machine.py\<close>: \<open>order_state\<close>, \<open>apply_order_event\<close>), \<open>Execution_Repository\<close>
    (\<open>execution/repository.py\<close>: the order and event tables with the optimistic version check),
    \<open>Reconciliation\<close> (\<open>execution/reconciliation.py\<close>).
  \<^item> \<open>Risk_Engine\<close> (\<open>risk_engine/engine.py\<close>: \<open>evaluate_order_risk\<close>), \<open>Write_Once\<close> (a locale of
    stores whose rows never change), \<open>Risk_Persistence\<close> (\<open>risk_engine/persistence.py\<close>: decisions,
    limits, the kill switch and its audit trail).
  \<^item> \<open>Costs\<close> (\<open>backtesting/costs.py\<close>), \<open>Paper_Broker\<close> (\<open>paper_trading/broker.py\<close>:
    one record per table; \<open>execute_market\<close>, \<open>mark_to_market\<close>), \<open>Broker_Adapters\<close> (\<open>broker_adapters/\<close>: requests to Dhan and
    Upstox as values, behind one gate that is a locale with both adapters as interpretations), \<open>Dispatch\<close> (from a
    decision of the risk authority to the request at the broker).
  \<^item> \<open>Indicators\<close>, \<open>Indicator_Laws\<close>, \<open>Indicator_Claims\<close> (\<open>indicators/core.py\<close>), \<open>Regime\<close>, \<open>Strategies\<close>
    (\<open>strategies/\<close>), \<open>Decision_Engine\<close> (\<open>decision_engine/engine.py\<close>), \<open>Backtest_Engine\<close>,
    \<open>Backtest_Validation\<close>, \<open>Backtest_Reporting\<close> (\<open>backtesting/\<close>).
  \<^item> \<open>Option_Analytics\<close>, \<open>Option_Laws\<close> (\<open>options/analytics.py\<close>), \<open>Option_Persistence\<close> (\<open>options/persistence.py\<close>).
  \<^item> \<open>Replay_Engine\<close> (\<open>replay/engine.py\<close>), \<open>Replay_Sessions\<close> (\<open>replay/datasets.py\<close>,
    \<open>persistence.py\<close>, \<open>service.py\<close>), \<open>Replay_Scheduler\<close>, \<open>Replay_Tasks\<close> (\<open>replay/tasks.py\<close>,
    \<open>task_persistence.py\<close>: an inductive step relation over the manager and its threads, whose observer may fail before or after its write).
  \<^item> \<open>Market_Data\<close> (\<open>market_data/validation.py\<close>, \<open>repository.py\<close>, \<open>ingestion.py\<close>),
    \<open>Market_Aggregation\<close> (\<open>market_data/aggregation.py\<close>).
  \<^item> \<open>Smc_Primitives\<close>, \<open>Smc_Structure\<close>, \<open>Smc_Analysis\<close> (\<open>smc_ict/engine.py\<close>: value types and
    detectors; gaps, structure scan, price blocks; overlays and \<open>analyze\<close>), \<open>Smc_Causality\<close> (the
    locale of detectors that do not repaint), \<open>Smc_Invariants\<close> (the scan invariant, gap ageing).
  \<^item> \<open>Model_Training\<close>, \<open>Model_Training_Laws\<close> (\<open>machine_learning/baseline.py\<close>, \<open>random_forest.py\<close>,
    \<open>gradient_boosting.py\<close>, \<open>calibration.py\<close>), \<open>Portable_Model\<close> (\<open>portable.py\<close>), \<open>Model_Registry\<close>,
    \<open>Model_Registry_Laws\<close> (\<open>persistence.py\<close>, \<open>selection.py\<close>), \<open>Artifact_Store\<close> and \<open>Local_Artifacts\<close> (\<open>artifacts.py\<close>,
    \<open>s3_artifacts.py\<close>; the local store is a step relation over the system calls of any number of processes), \<open>Model_Tracking\<close>
    (\<open>tracking.py\<close>).
  \<^item> \<open>Access_Control\<close> (\<open>auth/\<close>, \<open>config/settings.py\<close>, the dependencies of \<open>apps/api/main.py\<close>), \<open>Http\<close> (handlers and their
    errors), \<open>Market_Api\<close>, \<open>Market_Api_Laws\<close> (\<open>apps/api/market_data.py\<close>), \<open>Replay_Api\<close>, \<open>Replay_Api_Laws\<close>
    (\<open>apps/api/replay.py\<close>), \<open>Api_Service\<close> (the middleware and the routes of \<open>apps/api/main.py\<close>, around any handler of the routers), \<open>Observability\<close>
    (\<open>observability/logging.py\<close>).
  \<^item> \<open>Schema\<close> (relational schemas, the rows of their tables and what a statement does to both), \<open>Schema_Laws\<close> (running a chain of migrations), \<open>Migrations\<close>
    (\<open>infra/migrations/versions\<close>, statement by statement), \<open>Declared_Schema\<close> (\<open>database/models.py\<close>, \<open>base.py\<close>),
    \<open>Schema_Contract\<close> (what the two have to do with each other and with the stored values).

  Conventions.  A Python dataclass or pydantic model is a record; its constructor is a
  \<open>make_\<close> function that raises what \<open>__post_init__\<close> raises, and pydantic's field constraints are a
  predicate (\<open>candle_ok\<close>, \<open>order_intent_ok\<close>).  A database table is the list of its rows in insertion order,
  a unique constraint a check before an insert; a function that writes takes and returns the
  tables.  A raise of the source is \<open>Inl\<close> with its exception and message, an HTTP error \<open>HTTPException\<close> with its status.
  Time, fresh identifiers, SHA-256, JSON encoders, binary floating point, estimators, HTTP transports, object clients
  and the MLflow module are arguments of the definitions that use them, with what the code relies on stated as named
  hypotheses of the theorems.

  What the lemmas show.  The order lifecycle keeps its invariant, counts fills once, fails closed and
  equals a replay of its log; no update is lost between workers.  An approved entry was clear of every lock and is within every
  budget, exits are never locked, decisions are final and limits the newest in force; the kill switch
  blocks and leaves a trace; no order reaches a broker without the decision that approves its quantity.  Paper books are
  a replay of the executions, rounded by their columns, and a fill conserves value.  Backtests, aggregation, indicators and market structure never look ahead
  (each for its own notion of known-at time), and backtests balance.  An implied volatility reprices the market, after at most
  the configured number of midpoints.
  Replay advances a session by one candle at a time, exposes closed candles only, completes when it may, and has at most one
  running run for a session, save for runs whose final status could not be recorded; its routes refuse a version that was spent.  Intake accounts for every record, and ingesting again
  what is settled and kept by the columns changes nothing; a history does not depend on what came after its cutoff.  Models depend on their training window
  only, a family has one champion, portable models and stored artifacts are read back as they were written,
  and storing survives crashes and races.  A revoked credential is never accepted again, every answer that leaves through the middleware carries its
  security headers and correlation identifier, and only an exception nothing handles is answered without them.  The migrations can be
  applied and undone in any order their chain allows, with exactly the loss of rows that dropping a table or a column brings, and lead to the
  declared schema; the texts of revocations, decisions and automatic kill switches fit their columns, those of a manual one need not.

  Bounds.  Decimals are finite; the values NaN and infinity and exponents beyond 999999 are excluded.
  Rounding to 28 digits is modelled in every operation, and where a law needs it a relative error bound
  is proved.  The tables of the paper broker, of candles, of risk decisions and of implied volatilities
  keep what their \<open>Numeric\<close> columns keep of a number, which is a parameter of the definitions; the other tables with such columns
  (execution orders, risk limits, instruments, option chains) keep exact values.  A number beyond the digits of its column is not modelled.  Indian time is UTC+05:30.  The walk-forward loop is a \<open>partial_function\<close> with a proof that it
  returns; the loop of the scheduler is structural on the step limit the source enforces, and the bisection for the implied
  volatility on its number of iterations; every other loop is structural or has its termination proof.  Prose that the market-structure engine renders with
  prices in it is a structured value.

  Not modelled.  The construction of the SQLAlchemy engine and its sessions (\<open>database/session.py\<close>), the Alembic
  environment (\<open>infra/migrations/env.py\<close>), the assembly of the FastAPI application and its CORS middleware, and the package
  exports are configuration of libraries without logic of their own.  The metrics exposition is the Prometheus client's.
  The web console (\<open>apps/web\<close>) is JavaScript, HTML and CSS that call the modelled routes.
\<close>

end
